(* ===== verification/Prelude.thy ===== *)
theory Prelude
  imports Complex_Main "HOL-Library.Word"
begin

text \<open>
  What every component shares: the machine integer types, the outcome of a C function that may
  run into a hazard (undefined behaviour, a self-deadlock, a wait that never ends), the allocator,
  and the parts of the C standard library the sources use (\<open>snprintf\<close>, \<open>strncmp\<close>, \<open>strstr\<close>,
  \<open>sscanf\<close>'s \<open>%u\<close>, \<open>%ld\<close> and \<open>%lf\<close>, \<open>fopen\<close> on sysfs and procfs nodes).
\<close>

named_theorems outcome_simps \<open>evaluation of hazards and of sequencing\<close>
named_theorems cstd_simps \<open>facts of the C library functions\<close>

section \<open>Machine types\<close>

type_synonym u8 = "8 word"
type_synonym u16 = "16 word"
type_synonym u32 = "32 word"
type_synonym u64 = "64 word"
type_synonym i64 = "64 word"

text \<open>
  A C \<open>double\<close> is modelled by a rational: the arithmetic of the sources is exact in the model, so
  rounding, infinities and NaN are outside of it. A pointer is an address, 0 is \<open>NULL\<close>.
\<close>

type_synonym double = rat
type_synonym ptr = nat

abbreviation (input) NULL :: ptr where
  "NULL \<equiv> 0"

section \<open>Outcomes\<close>

text \<open>
  \<open>Ret x\<close> is a normal return. \<open>Stuck h\<close> is an execution that reaches a hazard: the C program has
  no defined continuation there (or never gets one), so nothing that follows is run.
\<close>

datatype hazard =
    Deadlock        \<comment> \<open>locking a non-recursive mutex the caller holds\<close>
  | BadUnlock       \<comment> \<open>unlocking a pthread mutex that is not locked\<close>
  | BadDeref        \<comment> \<open>reading or writing through NULL or a freed pointer\<close>
  | OutOfBounds     \<comment> \<open>an array access outside its bounds\<close>
  | DivByZero
  | NoReturn        \<comment> \<open>waiting for a thread that never ends, or a loop that never ends\<close>

datatype 'a outcome = Ret 'a | Stuck hazard

fun obind :: "'a outcome \<Rightarrow> ('a \<Rightarrow> 'b outcome) \<Rightarrow> 'b outcome" where
  "obind (Ret x) f = f x"
| "obind (Stuck h) f = Stuck h"

fun is_ret :: "'a outcome \<Rightarrow> bool" where
  "is_ret (Ret _) = True"
| "is_ret (Stuck _) = False"

lemma obind_Ret_iff [outcome_simps]:
  "obind m f = Ret y \<longleftrightarrow> (\<exists>x. m = Ret x \<and> f x = Ret y)"
  by (cases m) auto

lemma obind_assoc [outcome_simps]: "obind (obind m f) g = obind m (\<lambda>x. obind (f x) g)"
  by (cases m) auto

lemma is_ret_iff [outcome_simps]: "is_ret m \<longleftrightarrow> (\<exists>x. m = Ret x)"
  by (cases m) auto

text \<open>Array reads and writes with their bounds check.\<close>

definition arr_read :: "'a list \<Rightarrow> nat \<Rightarrow> 'a outcome" where
  "arr_read xs i = (if i < length xs then Ret (xs ! i) else Stuck OutOfBounds)"

definition arr_write :: "'a list \<Rightarrow> nat \<Rightarrow> 'a \<Rightarrow> 'a list outcome" where
  "arr_write xs i v = (if i < length xs then Ret (xs[i := v]) else Stuck OutOfBounds)"

lemma arr_read_Ret [simp, outcome_simps]: "i < length xs \<Longrightarrow> arr_read xs i = Ret (xs ! i)"
  by (simp add: arr_read_def)

lemma arr_write_Ret [simp, outcome_simps]: "i < length xs \<Longrightarrow> arr_write xs i v = Ret (xs[i := v])"
  by (simp add: arr_write_def)

lemma nth_list_update_if: "xs[j := v] ! i = (if i = j \<and> i < length xs then v else xs ! i)"
  by (cases "j < length xs") (auto simp: nth_list_update not_less list_update_beyond)

lemma unat_of_nat_u64: "n < 2 ^ 64 \<Longrightarrow> unat (of_nat n :: u64) = n"
  by (simp add: unsigned_of_nat take_bit_nat_eq_self)

lemma unat_of_nat_u32: "n < 2 ^ 32 \<Longrightarrow> unat (of_nat n :: u32) = n"
  by (simp add: unsigned_of_nat take_bit_nat_eq_self)

lemma unat_of_nat_u16: "n < 2 ^ 16 \<Longrightarrow> unat (of_nat n :: u16) = n"
  by (simp add: unsigned_of_nat take_bit_nat_eq_self)

lemma unat_of_nat_u8: "n < 2 ^ 8 \<Longrightarrow> unat (of_nat n :: u8) = n"
  by (simp add: unsigned_of_nat take_bit_nat_eq_self)

section \<open>The allocator\<close>

text \<open>
  \<open>calloc\<close> may fail at any call. Which calls fail is a script of booleans, consumed one per call
  (\<open>True\<close>: this call fails; an exhausted script: it succeeds), over which properties quantify.
\<close>

type_synonym oom = "bool list"

definition calloc_ok :: "oom \<Rightarrow> bool \<times> oom" where
  "calloc_ok s = (case s of [] \<Rightarrow> (True, []) | b # bs \<Rightarrow> (\<not> b, bs))"

lemma calloc_ok_Nil [simp]: "calloc_ok [] = (True, [])"
  by (simp add: calloc_ok_def)

lemma calloc_ok_Cons [simp]: "calloc_ok (b # bs) = (\<not> b, bs)"
  by (simp add: calloc_ok_def)

section \<open>Characters and strings\<close>

definition digit_chars :: string where
  "digit_chars = ''0123456789''"

definition digit_val :: "char \<Rightarrow> nat option" where
  "digit_val c = (let n = of_char c :: nat in if 48 \<le> n \<and> n \<le> 57 then Some (n - 48) else None)"

definition is_space :: "char \<Rightarrow> bool" where
  "is_space c \<longleftrightarrow> c = CHR '' '' \<or> c = CHR 0x09 \<or> c = CHR 0x0A \<or> c = CHR 0x0B \<or> c = CHR 0x0C \<or> c = CHR 0x0D"

text \<open>\<open>snprintf(dst, n, "%s", s)\<close> leaves the first \<open>n - 1\<close> characters of \<open>s\<close> in \<open>dst\<close>.\<close>

definition snprintf_buf :: "nat \<Rightarrow> string \<Rightarrow> string" where
  "snprintf_buf n s = take (n - 1) s"

lemma snprintf_buf_length [cstd_simps]: "0 < n \<Longrightarrow> length (snprintf_buf n s) < n"
  by (simp add: snprintf_buf_def)

lemma snprintf_buf_id [cstd_simps]: "length s < n \<Longrightarrow> snprintf_buf n s = s"
  by (simp add: snprintf_buf_def)

text \<open>\<open>0 == strncmp(s, p, strlen(p))\<close>: \<open>p\<close> is a prefix of \<open>s\<close>.\<close>

definition has_prefix :: "string \<Rightarrow> string \<Rightarrow> bool" where
  "has_prefix p s \<longleftrightarrow> take (length p) s = p"

lemma has_prefix_iff [cstd_simps]: "has_prefix p s \<longleftrightarrow> (\<exists>r. s = p @ r)"
  by (metis append_eq_conv_conj append_take_drop_id has_prefix_def)

text \<open>\<open>NULL != strstr(s, p)\<close>: \<open>p\<close> occurs in \<open>s\<close>.\<close>

fun str_contains :: "string \<Rightarrow> string \<Rightarrow> bool" where
  "str_contains p [] = (p = [])"
| "str_contains p (c # s) = (has_prefix p (c # s) \<or> str_contains p s)"

lemma str_contains_iff [cstd_simps]: "str_contains p s \<longleftrightarrow> (\<exists>a b. s = a @ p @ b)"
proof (induction s)
  case Nil
  show ?case by auto
next
  case (Cons c s)
  have "(\<exists>a b. c # s = a @ p @ b) \<longleftrightarrow> (\<exists>b. c # s = p @ b) \<or> (\<exists>a b. s = a @ p @ b)"
    by (metis append_Cons append_Nil list.exhaust list.inject)
  then show ?case by (simp add: Cons.IH has_prefix_iff)
qed

text \<open>\<open>%u\<close> on output.\<close>

fun show_u :: "nat \<Rightarrow> string" where
  "show_u n = (if n < 10 then [digit_chars ! n] else show_u (n div 10) @ [digit_chars ! (n mod 10)])"

declare show_u.simps [simp del]

section \<open>Scanning\<close>

fun skip_ws :: "string \<Rightarrow> string" where
  "skip_ws [] = []"
| "skip_ws (c # s) = (if is_space c then skip_ws s else c # s)"

text \<open>Reads a run of digits: the value, how many digits were read, and what is left.\<close>

fun scan_digits :: "string \<Rightarrow> nat \<Rightarrow> nat \<Rightarrow> nat \<times> nat \<times> string" where
  "scan_digits [] acc k = (acc, k, [])"
| "scan_digits (c # s) acc k =
     (case digit_val c of
        Some d \<Rightarrow> scan_digits s (10 * acc + d) (Suc k)
      | None \<Rightarrow> (acc, k, c # s))"

fun scan_sign :: "string \<Rightarrow> bool \<times> string" where
  "scan_sign [] = (False, [])"
| "scan_sign (c # s) =
     (if c = CHR ''-'' then (True, s) else if c = CHR ''+'' then (False, s) else (False, c # s))"

text \<open>
  \<open>%u\<close> into a 32-bit object: white space, an optional sign, at least one digit. The value is
  \<open>strtoul\<close>'s: a negative number is negated modulo \<open>2^64\<close>, a value above \<open>ULONG_MAX\<close> saturates;
  the store keeps the low 32 bits.
\<close>

definition scan_u :: "string \<Rightarrow> (u32 \<times> string) option" where
  "scan_u s =
     (let (neg, s1) = scan_sign (skip_ws s); (n, k, r) = scan_digits s1 0 0
      in if k = 0 then None
         else Some (if 2 ^ 64 \<le> n then of_nat (2 ^ 64 - 1)
                    else if neg then - of_nat n else of_nat n, r))"

text \<open>\<open>%ld\<close> into a 64-bit \<open>long\<close>, saturating at its bounds as \<open>strtol\<close> does.\<close>

definition scan_ld :: "string \<Rightarrow> (int \<times> string) option" where
  "scan_ld s =
     (let (neg, s1) = scan_sign (skip_ws s); (n, k, r) = scan_digits s1 0 0
      in if k = 0 then None
         else Some (if neg then max (- (2 ^ 63)) (- int n) else min (2 ^ 63 - 1) (int n), r))"

text \<open>
  \<open>%lf\<close>: an optional sign, digits, an optional fraction, at least one digit in all. Exponents,
  hexadecimal floats, \<open>inf\<close> and \<open>nan\<close> do not occur in the kernel nodes the sources read and are
  not modelled.
\<close>

definition scan_lf :: "string \<Rightarrow> (double \<times> string) option" where
  "scan_lf s =
     (let (neg, s1) = scan_sign (skip_ws s); (n, k, r) = scan_digits s1 0 0;
          (m, j, r') = (case r of
                          [] \<Rightarrow> (0, 0, [])
                        | c # t \<Rightarrow> if c = CHR ''.'' then scan_digits t 0 0 else (0, 0, r));
          v = (of_nat n + of_nat m / 10 ^ j :: rat)
      in if k + j = 0 then None else Some (if neg then - v else v, r'))"

text \<open>
  \<open>fgets(line, n + 1, fp)\<close>: up to \<open>n\<close> characters, or up to and including the next newline; a longer line
  comes in pieces.
\<close>

fun fgets_take :: "nat \<Rightarrow> string \<Rightarrow> string \<times> string" where
  "fgets_take 0 s = ([], s)"
| "fgets_take (Suc n) [] = ([], [])"
| "fgets_take (Suc n) (c # s) =
     (if c = CHR 0x0A then ([c], s) else (case fgets_take n s of (l, r) \<Rightarrow> (c # l, r)))"

lemma fgets_take_length: "length (snd (fgets_take n s)) \<le> length s"
  by (induction n s rule: fgets_take.induct) (auto split: prod.splits)

lemma fgets_take_shorter: "s \<noteq> [] \<Longrightarrow> 0 < n \<Longrightarrow> length (snd (fgets_take n s)) < length s"
  using fgets_take_length [of "n - 1" "tl s"] by (cases s; cases n) (auto split: prod.splits)

lemma fgets_take_line:
  "CHR 0x0A \<notin> set l \<Longrightarrow> length l < n \<Longrightarrow> fgets_take n (l @ CHR 0x0A # r) = (l @ [CHR 0x0A], r)"
proof (induction l arbitrary: n)
  case Nil
  then show ?case by (cases n) simp_all
next
  case (Cons c l)
  then have "c \<noteq> CHR 0x0A" by auto
  then show ?case using Cons by (cases n) simp_all
qed

text \<open>Reading back what \<open>%u\<close> wrote.\<close>

lemma digit_val_digit:
  assumes "n < 10"
  shows "digit_val (digit_chars ! n) = Some n" and "\<not> is_space (digit_chars ! n)"
    and "digit_chars ! n \<noteq> CHR ''-''" and "digit_chars ! n \<noteq> CHR ''+''"
proof -
  have "n \<in> {0, 1, 2, 3, 4, 5, 6, 7, 8, 9}" using assms by auto
  then show "digit_val (digit_chars ! n) = Some n" and "\<not> is_space (digit_chars ! n)"
    and "digit_chars ! n \<noteq> CHR ''-''" and "digit_chars ! n \<noteq> CHR ''+''"
    by (auto simp: digit_chars_def digit_val_def is_space_def)
qed

lemma scan_digits_show_u:
  "scan_digits (show_u n @ s) acc k = scan_digits s (acc * 10 ^ length (show_u n) + n) (k + length (show_u n))"
proof (induction n arbitrary: s acc k rule: show_u.induct)
  case (1 n)
  show ?case
  proof (cases "n < 10")
    case True
    then show ?thesis by (simp add: show_u.simps [of n] digit_val_digit mult.commute)
  next
    case False
    have e: "n + 10 * (acc * x) = acc * (10 * x) + n" for x by simp
    show ?thesis
      using False 1 by (simp add: show_u.simps [of n] digit_val_digit e)
  qed
qed

definition ends_number :: "string \<Rightarrow> bool" where
  "ends_number s \<longleftrightarrow> s = [] \<or> digit_val (hd s) = None"

lemma scan_digits_end: "ends_number s \<Longrightarrow> scan_digits s acc k = (acc, k, s)"
  by (cases s) (auto simp: ends_number_def)

lemma show_u_front: "\<exists>d r. d < 10 \<and> show_u n = digit_chars ! d # r"
proof (induction n rule: show_u.induct)
  case (1 n)
  show ?case
  proof (cases "n < 10")
    case True
    then show ?thesis by (auto simp: show_u.simps [of n])
  next
    case False
    then obtain d r where "d < 10" "show_u (n div 10) = digit_chars ! d # r" using 1 by auto
    then show ?thesis using False by (auto simp: show_u.simps [of n])
  qed
qed

lemma scan_sign_show_u: "scan_sign (skip_ws (show_u n @ s)) = (False, show_u n @ s)"
  using show_u_front [of n] by (auto simp: digit_val_digit)

lemma show_u_nonempty [simp]: "show_u n \<noteq> []"
  using show_u_front [of n] by auto

lemma scan_u_show_u: "n < 2 ^ 64 \<Longrightarrow> ends_number s \<Longrightarrow> scan_u (show_u n @ s) = Some (of_nat n, s)"
  by (simp add: scan_u_def scan_sign_show_u scan_digits_show_u scan_digits_end del: skip_ws.simps)

lemma scan_lf_show_u:
  assumes "ends_number s" "s = [] \<or> hd s \<noteq> CHR ''.''"
  shows "scan_lf (show_u n @ s) = Some (of_nat n, s)"
proof -
  have d: "scan_digits (show_u n @ s) 0 0 = (n, length (show_u n), s)"
    by (simp add: scan_digits_show_u scan_digits_end [OF assms(1)])
  have t: "(case s of [] \<Rightarrow> (0, 0, []) | c # t \<Rightarrow> if c = CHR ''.'' then scan_digits t 0 0 else (0, 0, s)) = (0, 0, s)"
    using assms(2) by (cases s) auto
  show ?thesis
    by (simp add: scan_lf_def scan_sign_show_u d t Let_def del: scan_sign.simps skip_ws.simps)
qed

text \<open>
  The file system as the sources see it: a path names a readable node with some content, or
  \<open>fopen\<close> fails.
\<close>

type_synonym filesystem = "string \<Rightarrow> string option"

end
