(* ===== verification/QcperfCommon.thy ===== *)
theory QcperfCommon
  imports Prelude
begin

text \<open>
  The public data types of \<open>qcperf_common.h\<close> and the backend identifiers of
  \<open>qcperf_backend_enum.h\<close>, with the loops over capability tables and rate tables that every
  backend repeats. A \<open>char\<close> buffer filled by \<open>snprintf\<close> is the string it holds, next to the length
  field the code stores; a C array behind a pointer is \<open>None\<close> for \<open>NULL\<close> or the list of its
  elements; a callback is \<open>None\<close> for \<open>NULL\<close> or the number of an application function.
\<close>

section \<open>Enumerations and constants\<close>

datatype QcPerfReturnCode =
    SUCCESS
  | FAILED
  | NOT_SUPPORTED
  | ALREADY_INITIALIZED
  | INVALID_HANDLE
  | INVALID_ARGUMENTS
  | NOT_INITIALIZED
  | CAPABILITY_NOT_FOUND
  | INVALID_BUFFER_SIZE
  | NULL_POINTER
  | CALLOC_FAILED
  | BACKEND_ALREADY_CONNECTED
  | INVALID_BACKEND_ID
  | BACKEND_NOT_CONNECTED
  | CALLBACK_ALREADY_SET
  | NATIVE_LIBRARY_FAILED

datatype QcPerfMessageLevel = LEVEL_DEBUG | LEVEL_INFO | LEVEL_WARNING | LEVEL_ERROR

datatype QcPerfDataType = TYPE_BOOL | TYPE_UINT64 | TYPE_INT64 | TYPE_DOUBLE | TYPE_STRING

datatype QcPerfBackendId =
    BACKEND_DUMMY
  | BACKEND_QCOM_LINUX_CPU
  | BACKEND_DSP_NPU
  | BACKEND_POWER
  | BACKEND_THERMAL
  | BACKEND_WOS_CPU
  | BACKEND_LINUX_THERMAL
  | BACKEND_QCOM_LINUX_GPU
  | BACKEND_MAX

fun backend_index :: "QcPerfBackendId \<Rightarrow> nat" where
  "backend_index BACKEND_DUMMY = 0"
| "backend_index BACKEND_QCOM_LINUX_CPU = 1"
| "backend_index BACKEND_DSP_NPU = 2"
| "backend_index BACKEND_POWER = 3"
| "backend_index BACKEND_THERMAL = 4"
| "backend_index BACKEND_WOS_CPU = 5"
| "backend_index BACKEND_LINUX_THERMAL = 6"
| "backend_index BACKEND_QCOM_LINUX_GPU = 7"
| "backend_index BACKEND_MAX = 8"

abbreviation (input) METRIC_NAME_MAX_LEN :: nat where "METRIC_NAME_MAX_LEN \<equiv> 64"
abbreviation (input) MAX_SAMPLING_STREAMING_RATES_LEN :: nat where "MAX_SAMPLING_STREAMING_RATES_LEN \<equiv> 32"
abbreviation (input) RETURN_CODE_INFO_STRING_MAX_LEN :: nat where "RETURN_CODE_INFO_STRING_MAX_LEN \<equiv> 256"
abbreviation (input) CAPABILITY_NAME_MAX_LEN :: nat where "CAPABILITY_NAME_MAX_LEN \<equiv> 64"
abbreviation (input) MAX_METRIC_DESCRIPTION_LEN :: nat where "MAX_METRIC_DESCRIPTION_LEN \<equiv> 256"
abbreviation (input) MAX_METRIC_UNIT_LEN :: nat where "MAX_METRIC_UNIT_LEN \<equiv> 16"

section \<open>Structures\<close>

type_synonym callback = "nat option"

record QcPerfReturnCodeInfo =
  rci_return_code :: int
  rci_info_str :: string
  rci_info_str_len :: nat

record QcPerfRequest =
  rq_capability_id :: u8
  rq_streaming_rate :: u16
  rq_sampling_rate :: u16

record QcPerfGenericType =
  gt_data_type :: QcPerfDataType
  gt_bool_value :: bool
  gt_uint64_value :: u64
  gt_int64_value :: i64
  gt_double_value :: double
  gt_string_value :: "string option"
  gt_string_value_len :: nat

record QcPerfMessage =
  msg_backend_id :: u8
  msg_capability_id :: u8
  msg_text :: string
  msg_length :: nat
  msg_level :: QcPerfMessageLevel

record QcPerfMetricResponse =
  mr_timestamp :: u64
  mr_metric_id :: u16
  mr_metric_value :: QcPerfGenericType

text \<open>
  \<open>metric_response\<close> is the allocated array, of which a reader may use the first
  \<open>metric_response_len\<close> elements.
\<close>

record QcPerfData =
  pd_backend_id :: u8
  pd_capability_id :: u8
  pd_metric_response :: "QcPerfMetricResponse list"
  pd_metric_response_len :: nat

record QcPerfMetricInfo =
  mi_metric_id :: u16
  mi_name :: string
  mi_name_len :: nat
  mi_description :: string
  mi_description_len :: nat
  mi_unit :: string
  mi_unit_len :: nat

record QcPerfCapabilityInfo =
  ci_capability_id :: u8
  ci_name :: string
  ci_name_len :: nat
  ci_metric_ids_list :: "QcPerfMetricInfo list option"
  ci_metric_ids_list_len :: u8
  ci_streaming_rate :: "u16 list"
  ci_streaming_rate_len :: u8
  ci_sampling_rate :: "u16 list"
  ci_sampling_rate_len :: u8

record QcPerfBackendInfo =
  bi_backend_id :: u8
  bi_capabilities_list :: "QcPerfCapabilityInfo list option"
  bi_capabilities_list_length :: u8

text \<open>The all-zero structures that static storage and \<open>calloc\<close> provide.\<close>

definition zero_generic :: QcPerfGenericType where
  "zero_generic = \<lparr>gt_data_type = TYPE_BOOL, gt_bool_value = False, gt_uint64_value = 0,
     gt_int64_value = 0, gt_double_value = 0, gt_string_value = None, gt_string_value_len = 0\<rparr>"

definition zero_response :: QcPerfMetricResponse where
  "zero_response = \<lparr>mr_timestamp = 0, mr_metric_id = 0, mr_metric_value = zero_generic\<rparr>"

definition zero_metric_info :: QcPerfMetricInfo where
  "zero_metric_info = \<lparr>mi_metric_id = 0, mi_name = [], mi_name_len = 0, mi_description = [],
     mi_description_len = 0, mi_unit = [], mi_unit_len = 0\<rparr>"

definition zero_capability :: QcPerfCapabilityInfo where
  "zero_capability = \<lparr>ci_capability_id = 0, ci_name = [], ci_name_len = 0,
     ci_metric_ids_list = None, ci_metric_ids_list_len = 0,
     ci_streaming_rate = replicate MAX_SAMPLING_STREAMING_RATES_LEN 0, ci_streaming_rate_len = 0,
     ci_sampling_rate = replicate MAX_SAMPLING_STREAMING_RATES_LEN 0, ci_sampling_rate_len = 0\<rparr>"

definition zero_backend_info :: QcPerfBackendInfo where
  "zero_backend_info = \<lparr>bi_backend_id = 0, bi_capabilities_list = None, bi_capabilities_list_length = 0\<rparr>"

text \<open>
  How every backend fills a metric description: \<open>snprintf\<close> into the buffer, then \<open>strlen\<close> of what
  the buffer holds.
\<close>

definition set_metric_info :: "u16 \<Rightarrow> string \<Rightarrow> string \<Rightarrow> string \<Rightarrow> QcPerfMetricInfo" where
  "set_metric_info i name desc unit =
     \<lparr>mi_metric_id = i,
      mi_name = snprintf_buf METRIC_NAME_MAX_LEN name,
      mi_name_len = length (snprintf_buf METRIC_NAME_MAX_LEN name),
      mi_description = snprintf_buf MAX_METRIC_DESCRIPTION_LEN desc,
      mi_description_len = length (snprintf_buf MAX_METRIC_DESCRIPTION_LEN desc),
      mi_unit = snprintf_buf MAX_METRIC_UNIT_LEN unit,
      mi_unit_len = length (snprintf_buf MAX_METRIC_UNIT_LEN unit)\<rparr>"

lemma set_metric_info_id [simp]: "mi_metric_id (set_metric_info i a b c) = i"
  by (simp add: set_metric_info_def)

definition metric_info_ok :: "QcPerfMetricInfo \<Rightarrow> bool" where
  "metric_info_ok m \<longleftrightarrow>
     mi_name_len m = length (mi_name m) \<and> length (mi_name m) < METRIC_NAME_MAX_LEN \<and>
     mi_description_len m = length (mi_description m) \<and>
     length (mi_description m) < MAX_METRIC_DESCRIPTION_LEN \<and>
     mi_unit_len m = length (mi_unit m) \<and> length (mi_unit m) < MAX_METRIC_UNIT_LEN"

lemma set_metric_info_ok [simp]: "metric_info_ok (set_metric_info i a b c)"
  by (simp add: metric_info_ok_def set_metric_info_def cstd_simps)

lemma zero_metric_info_ok [simp]: "metric_info_ok zero_metric_info"
  by (simp add: metric_info_ok_def zero_metric_info_def)

section \<open>Rate tables\<close>

text \<open>
  \<open>for (i = 0; i < LEN && i < MAX_SAMPLING_STREAMING_RATES_LEN; i++) { a[i] = rates[i]; len++; }\<close>
\<close>

fun copy_rates :: "u16 list \<Rightarrow> nat \<Rightarrow> u16 list \<times> u8 \<Rightarrow> u16 list \<times> u8" where
  "copy_rates [] i acc = acc"
| "copy_rates (r # rs) i (a, n) =
     (if i < MAX_SAMPLING_STREAMING_RATES_LEN then copy_rates rs (Suc i) (a[i := r], n + 1) else (a, n))"

lemma copy_rates_gen:
  assumes "length a = 32" and "i + length rs \<le> 32"
  shows "copy_rates rs i (a, n) = (take i a @ rs @ drop (i + length rs) a, n + of_nat (length rs))"
  using assms
proof (induction rs arbitrary: i a n)
  case Nil
  then show ?case by simp
next
  case (Cons r rs)
  have "take (Suc i) (a[i := r]) = take i a @ [r]"
    using Cons.prems by (simp add: take_Suc_conv_app_nth)
  moreover have "drop (Suc i + length rs) (a[i := r]) = drop (i + length (r # rs)) a"
    by simp
  ultimately show ?case
    using Cons.prems Cons.IH [of "a[i := r]" "Suc i" "n + 1"] by (simp add: algebra_simps)
qed

lemma copy_rates_fresh:
  assumes "length rs \<le> 32"
  shows "copy_rates rs 0 (replicate 32 0, 0) =
           (rs @ replicate (32 - length rs) 0, of_nat (length rs))"
  using assms copy_rates_gen [of "replicate 32 0" 0 rs 0] by simp

text \<open>
  \<open>for (i = 0; i < len; i++) if (a[i] == rate) { valid = true; break; }\<close>
\<close>

fun rate_scan :: "u16 \<Rightarrow> nat \<Rightarrow> u16 list \<Rightarrow> bool outcome" where
  "rate_scan r 0 a = Ret False"
| "rate_scan r (Suc n) [] = Stuck OutOfBounds"
| "rate_scan r (Suc n) (x # xs) = (if x = r then Ret True else rate_scan r n xs)"

lemma rate_scan_Ret: "n \<le> length a \<Longrightarrow> rate_scan r n a = Ret (r \<in> set (take n a))"
  by (induction r n a rule: rate_scan.induct) auto

lemma rate_scan_sound: "rate_scan r n a = Ret True \<Longrightarrow> r \<in> set (take n a)"
  by (induction r n a rule: rate_scan.induct) (auto split: if_splits)

section \<open>Capability tables\<close>

text \<open>
  The search \<open>for (i = 0; i < len; i++) if (list[i].capability_id == id) break\<close>: the index it
  stops at, if any.
\<close>

fun cap_scan :: "u8 \<Rightarrow> nat \<Rightarrow> QcPerfCapabilityInfo list \<Rightarrow> nat \<Rightarrow> nat option outcome" where
  "cap_scan k 0 cs i = Ret None"
| "cap_scan k (Suc n) [] i = Stuck OutOfBounds"
| "cap_scan k (Suc n) (c # cs) i =
     (if ci_capability_id c = k then Ret (Some i) else cap_scan k n cs (Suc i))"

definition find_capability :: "u8 \<Rightarrow> QcPerfBackendInfo \<Rightarrow> nat option outcome" where
  "find_capability k bi =
     (case bi_capabilities_list bi of
        None \<Rightarrow> if bi_capabilities_list_length bi = 0 then Ret None else Stuck BadDeref
      | Some cs \<Rightarrow> cap_scan k (unat (bi_capabilities_list_length bi)) cs 0)"

lemma cap_scan_Ret:
  assumes "n \<le> length cs"
  shows "\<exists>r. cap_scan k n cs i = Ret r \<and>
           (case r of
              None \<Rightarrow> \<forall>c \<in> set (take n cs). ci_capability_id c \<noteq> k
            | Some j \<Rightarrow> i \<le> j \<and> j - i < n \<and> ci_capability_id (cs ! (j - i)) = k)"
  using assms
proof (induction k n cs i rule: cap_scan.induct)
  case (3 k n c cs i)
  show ?case
  proof (cases "ci_capability_id c = k")
    case True
    then show ?thesis by simp
  next
    case False
    with 3 obtain r where r: "cap_scan k n cs (Suc i) = Ret r"
      "case r of None \<Rightarrow> \<forall>c \<in> set (take n cs). ci_capability_id c \<noteq> k
        | Some j \<Rightarrow> Suc i \<le> j \<and> j - Suc i < n \<and> ci_capability_id (cs ! (j - Suc i)) = k"
      by auto
    show ?thesis
    proof (cases r)
      case None
      then show ?thesis using r False by simp
    next
      case (Some j)
      then have "j - i = Suc (j - Suc i)" using r by (simp add: Suc_diff_Suc)
      then show ?thesis using r False Some by simp
    qed
  qed
qed simp_all

text \<open>A table a search may run over: the length field does not exceed the array.\<close>

definition backend_info_ok :: "QcPerfBackendInfo \<Rightarrow> bool" where
  "backend_info_ok bi \<longleftrightarrow>
     (case bi_capabilities_list bi of
        None \<Rightarrow> bi_capabilities_list_length bi = 0
      | Some cs \<Rightarrow> unat (bi_capabilities_list_length bi) \<le> length cs)"

lemma backend_info_ok_zero [simp]: "backend_info_ok zero_backend_info"
  by (simp add: backend_info_ok_def zero_backend_info_def)

lemma find_capability_Ret:
  assumes "backend_info_ok bi"
  shows "\<exists>r. find_capability k bi = Ret r \<and>
     (\<forall>j. r = Some j \<longrightarrow> (\<exists>cs. bi_capabilities_list bi = Some cs \<and> j < length cs \<and>
         j < unat (bi_capabilities_list_length bi) \<and> ci_capability_id (cs ! j) = k))"
proof (cases "bi_capabilities_list bi")
  case None
  then show ?thesis using assms by (simp add: find_capability_def backend_info_ok_def)
next
  case (Some cs)
  then have "unat (bi_capabilities_list_length bi) \<le> length cs"
    using assms by (simp add: backend_info_ok_def)
  from cap_scan_Ret [OF this, of k 0] Some this show ?thesis
    by (fastforce simp: find_capability_def split: option.splits)
qed

text \<open>
  What a registered capability promises: the rate arrays have their declared size and the length
  fields stay inside them, the metric count fits the metric array, the name length is the name's.
\<close>

definition capability_ok :: "QcPerfCapabilityInfo \<Rightarrow> bool" where
  "capability_ok c \<longleftrightarrow>
     unat (ci_streaming_rate_len c) \<le> length (ci_streaming_rate c) \<and>
     unat (ci_sampling_rate_len c) \<le> length (ci_sampling_rate c) \<and>
     length (ci_streaming_rate c) = MAX_SAMPLING_STREAMING_RATES_LEN \<and>
     length (ci_sampling_rate c) = MAX_SAMPLING_STREAMING_RATES_LEN \<and>
     ci_name_len c = length (ci_name c) \<and> length (ci_name c) < CAPABILITY_NAME_MAX_LEN \<and>
     (case ci_metric_ids_list c of
        None \<Rightarrow> ci_metric_ids_list_len c = 0
      | Some ms \<Rightarrow> unat (ci_metric_ids_list_len c) \<le> length ms \<and> (\<forall>m \<in> set ms. metric_info_ok m))"

lemma capability_ok_zero [simp]: "capability_ok zero_capability"
  by (simp add: capability_ok_def zero_capability_def)

definition streaming_rates_of :: "QcPerfCapabilityInfo \<Rightarrow> u16 set" where
  "streaming_rates_of c = set (take (unat (ci_streaming_rate_len c)) (ci_streaming_rate c))"

definition sampling_rates_of :: "QcPerfCapabilityInfo \<Rightarrow> u16 set" where
  "sampling_rates_of c = set (take (unat (ci_sampling_rate_len c)) (ci_sampling_rate c))"

end
