(* ===== verification/Session.thy ===== *)
theory Session
  imports QcperfCommon
begin

text \<open>
  Threads (\<open>utils/qthread\<close>) and the state every backend keeps in its static variables: the two
  callbacks, the table of capabilities, the running flag, the handle of its collection thread. A
  collection thread is modelled by what it has reached: created but not yet scheduled, between two
  iterations of its loop with its local variables, or ended. One iteration is one step, so API calls
  and iterations of the collection thread interleave at loop boundaries.
\<close>

section \<open>Threads\<close>

datatype QThreadReturnCode =
    QTHREAD_CREATE_SUCCESS
  | QTHREAD_CREATE_FAILED
  | QTHREAD_NULL_POINTER
  | QTHREAD_DESTROY_FAILED
  | QTHREAD_DESTROY_SUCCESS
  | QTHREAD_JOIN_SUCCESS
  | QTHREAD_JOIN_FAILED
  | QTHREAD_INVALID_HANDLE
  | QTHREAD_CURRENT_THREAD_SUCCESS
  | QTHREAD_CURRENT_THREAD_FAILED
  | QTHREAD_TERMINATE_FAILED
  | QTHREAD_TERMINATE_SUCCESS

abbreviation (input) THREAD_NAME_SIZE :: nat where "THREAD_NAME_SIZE \<equiv> 128"

text \<open>
  \<open>thread_params\<close> is the request the backends pass; the thread function is the one of the backend.
\<close>

record QThreadAttributes =
  thread_name :: string
  thread_name_len :: u8
  thread_priority :: u32
  thread_stack_size :: u32
  thread_params :: "QcPerfRequest option"

text \<open>A handle: \<open>NULL\<close>, a thread of the table, or the address of a variable that has gone.\<close>

datatype thread_handle = NoThread | Thread nat | StackAddress

record QThreadInfo =
  th_handle :: thread_handle
  th_id :: u64

definition zero_thread_info :: QThreadInfo where
  "zero_thread_info = \<lparr>th_handle = NoThread, th_id = 0\<rparr>"

datatype 'l thread_status = Spawned "QcPerfRequest option" | Running 'l | Exited

text \<open>\<open>thread_create\<close> on Linux; the script decides \<open>calloc\<close> of the handle and \<open>pthread_create\<close>.\<close>

definition thread_create ::
  "QThreadAttributes option \<Rightarrow> QThreadInfo option \<Rightarrow> oom \<Rightarrow> 'l thread_status list
     \<Rightarrow> QThreadReturnCode \<times> QThreadInfo option \<times> oom \<times> 'l thread_status list" where
  "thread_create thread_request thread_info script threads =
     (case (thread_request, thread_info) of
        (Some rq, Some ti) \<Rightarrow>
          (let (ok, s1) = calloc_ok script
           in if \<not> ok then (QTHREAD_CREATE_FAILED, Some ti, s1, threads)
              else let (created, s2) = calloc_ok s1
                   in if created
                      then (QTHREAD_CREATE_SUCCESS, Some (ti\<lparr>th_handle := Thread (length threads)\<rparr>), s2,
                            threads @ [Spawned (thread_params rq)])
                      else (QTHREAD_CREATE_FAILED, Some ti, s2, threads))
      | _ \<Rightarrow> (QTHREAD_NULL_POINTER, thread_info, script, threads))"

definition thread_destroy :: "QThreadInfo option \<Rightarrow> (QThreadReturnCode \<times> QThreadInfo option) outcome" where
  "thread_destroy thread_info =
     (case thread_info of
        None \<Rightarrow> Ret (QTHREAD_NULL_POINTER, None)
      | Some ti \<Rightarrow> (case th_handle ti of
                      NoThread \<Rightarrow> Ret (QTHREAD_INVALID_HANDLE, Some ti)
                    | StackAddress \<Rightarrow> Stuck BadDeref
                    | Thread t \<Rightarrow> Ret (QTHREAD_DESTROY_SUCCESS, Some (ti\<lparr>th_handle := NoThread\<rparr>))))"

text \<open>\<open>wait t s\<close> is \<open>pthread_join\<close> of the thread \<open>t\<close>: its status, or a wait that never ends.\<close>

definition thread_join ::
  "(nat \<Rightarrow> 's \<Rightarrow> (int \<times> 's) outcome) \<Rightarrow> QThreadInfo option \<Rightarrow> 's \<Rightarrow> (QThreadReturnCode \<times> 's) outcome" where
  "thread_join wait thread_info s =
     (case thread_info of
        None \<Rightarrow> Ret (QTHREAD_NULL_POINTER, s)
      | Some ti \<Rightarrow> (case th_handle ti of
                      NoThread \<Rightarrow> Ret (QTHREAD_INVALID_HANDLE, s)
                    | StackAddress \<Rightarrow> Stuck BadDeref
                    | Thread t \<Rightarrow> obind (wait t s) (\<lambda>(status, s').
                        Ret (if status = 0 then QTHREAD_JOIN_SUCCESS else QTHREAD_JOIN_FAILED, s'))))"

text \<open>The handle becomes the address of a local variable of the function.\<close>

definition thread_current_thread_id :: "u64 \<Rightarrow> QThreadInfo option \<Rightarrow> QThreadReturnCode \<times> QThreadInfo option" where
  "thread_current_thread_id self thread_info =
     (case thread_info of
        None \<Rightarrow> (QTHREAD_NULL_POINTER, None)
      | Some ti \<Rightarrow> (QTHREAD_CURRENT_THREAD_SUCCESS, Some (ti\<lparr>th_handle := StackAddress, th_id := self\<rparr>)))"

text \<open>\<open>pthread_cancel\<close> answers a status.\<close>

definition thread_terminate :: "(nat \<Rightarrow> int) \<Rightarrow> QThreadInfo option \<Rightarrow> QThreadReturnCode outcome" where
  "thread_terminate cancel thread_info =
     (case thread_info of
        None \<Rightarrow> Ret QTHREAD_NULL_POINTER
      | Some ti \<Rightarrow> (case th_handle ti of
                      NoThread \<Rightarrow> Ret QTHREAD_INVALID_HANDLE
                    | StackAddress \<Rightarrow> Stuck BadDeref
                    | Thread t \<Rightarrow> Ret (if cancel t = 0 then QTHREAD_TERMINATE_SUCCESS else QTHREAD_TERMINATE_FAILED)))"

text \<open>Windows: a failed \<open>CreateThread\<close> leaves \<open>NULL\<close> in the handle; the identifier is the system's.\<close>

definition windows_thread_create ::
  "QThreadAttributes option \<Rightarrow> QThreadInfo option \<Rightarrow> u32 option \<Rightarrow> 'l thread_status list
     \<Rightarrow> QThreadReturnCode \<times> QThreadInfo option \<times> 'l thread_status list" where
  "windows_thread_create thread_request thread_info CreateThread threads =
     (case (thread_request, thread_info) of
        (Some rq, Some ti) \<Rightarrow>
          (case CreateThread of
             None \<Rightarrow> (QTHREAD_CREATE_FAILED, Some (ti\<lparr>th_handle := NoThread\<rparr>), threads)
           | Some thread_id \<Rightarrow> (QTHREAD_CREATE_SUCCESS,
               Some \<lparr>th_handle = Thread (length threads), th_id = ucast thread_id\<rparr>,
               threads @ [Spawned (thread_params rq)]))
      | _ \<Rightarrow> (QTHREAD_NULL_POINTER, thread_info, threads))"

definition windows_thread_destroy :: "QThreadInfo option \<Rightarrow> bool \<Rightarrow> QThreadReturnCode \<times> QThreadInfo option" where
  "windows_thread_destroy thread_info close_result =
     (case thread_info of
        None \<Rightarrow> (QTHREAD_NULL_POINTER, None)
      | Some ti \<Rightarrow> if th_handle ti = NoThread then (QTHREAD_INVALID_HANDLE, Some ti)
                   else (if close_result then QTHREAD_DESTROY_SUCCESS else QTHREAD_DESTROY_FAILED,
                         Some (ti\<lparr>th_handle := NoThread\<rparr>)))"

definition windows_thread_terminate :: "QThreadInfo option \<Rightarrow> bool \<Rightarrow> bool \<Rightarrow> QThreadReturnCode" where
  "windows_thread_terminate thread_info terminate_result get_exit_code_result =
     (case thread_info of
        None \<Rightarrow> QTHREAD_NULL_POINTER
      | Some ti \<Rightarrow> if th_handle ti = NoThread then QTHREAD_INVALID_HANDLE
                   else if \<not> terminate_result then QTHREAD_TERMINATE_FAILED
                   else if \<not> get_exit_code_result then QTHREAD_TERMINATE_FAILED
                   else QTHREAD_TERMINATE_SUCCESS)"

section \<open>The static variables of a backend\<close>

text \<open>
  Besides the variables of the C files: the threads created so far, the script of the fallible calls,
  the messages and the data handed to the application (with the callback that received them; their
  return values are ignored by all backends), and how often the capability table was allocated, so
  that a pointer into a freed table is told from one into its successor.
\<close>

record 'l session =
  g_message_callback :: callback
  g_data_callback :: callback
  g_backend_info :: QcPerfBackendInfo
  g_is_thread_running :: bool
  g_thread_info :: QThreadInfo
  sn_threads :: "'l thread_status list"
  sn_faults :: oom
  sn_messages :: "(nat \<times> QcPerfMessage) list"
  sn_data :: "(nat \<times> QcPerfData) list"
  sn_table :: nat

definition initial_session :: "oom \<Rightarrow> 'l session" where
  "initial_session faults =
     \<lparr>g_message_callback = None, g_data_callback = None, g_backend_info = zero_backend_info,
      g_is_thread_running = False, g_thread_info = zero_thread_info, sn_threads = [],
      sn_faults = faults, sn_messages = [], sn_data = [], sn_table = 0\<rparr>"

text \<open>Calling the message callback; calling \<open>NULL\<close> is a hazard the macro \<open>SEND_MESSAGE\<close> excludes.\<close>

definition post_message :: "QcPerfMessage \<Rightarrow> ('l, 'x) session_scheme \<Rightarrow> ('l, 'x) session_scheme" where
  "post_message m s =
     (case g_message_callback s of
        None \<Rightarrow> s
      | Some cb \<Rightarrow> s\<lparr>sn_messages := sn_messages s @ [(cb, m)]\<rparr>)"

text \<open>
  \<open>send_message\<close> as \<open>dummy.c\<close>, \<open>qcom_linux_gpu.c\<close> and others have it: \<open>vsnprintf\<close> into 256 bytes, the
  length clamped to what the buffer holds.
\<close>

definition message_clamped :: "u8 \<Rightarrow> QcPerfMessageLevel \<Rightarrow> string \<Rightarrow> QcPerfMessage" where
  "message_clamped b level txt =
     \<lparr>msg_backend_id = b, msg_capability_id = 0, msg_text = snprintf_buf 256 txt,
      msg_length = (if length txt \<ge> 256 then 255 else length txt), msg_level = level\<rparr>"

lemma message_clamped_length: "msg_length (message_clamped b l t) = length (msg_text (message_clamped b l t))"
  by (simp add: message_clamped_def snprintf_buf_def)

definition alloc :: "('l, 'x) session_scheme \<Rightarrow> bool \<times> ('l, 'x) session_scheme" where
  "alloc s = (let (ok, rest) = calloc_ok (sn_faults s) in (ok, s\<lparr>sn_faults := rest\<rparr>))"

definition put_thread :: "nat \<Rightarrow> 'l thread_status \<Rightarrow> ('l, 'x) session_scheme \<Rightarrow> ('l, 'x) session_scheme" where
  "put_thread t st s = s\<lparr>sn_threads := (sn_threads s)[t := st]\<rparr>"

text \<open>Creating the collection thread of a backend.\<close>

definition spawn :: "QThreadAttributes \<Rightarrow> ('l, 'x) session_scheme \<Rightarrow> QThreadReturnCode \<times> ('l, 'x) session_scheme" where
  "spawn attrs s =
     (let (rc, ti, faults, ths) = thread_create (Some attrs) (Some (g_thread_info s)) (sn_faults s) (sn_threads s)
      in (rc, s\<lparr>g_thread_info := (case ti of Some i \<Rightarrow> i | None \<Rightarrow> g_thread_info s),
                sn_faults := faults, sn_threads := ths\<rparr>))"

text \<open>
  What a collection thread does, in the backends' functions: \<open>th_entry\<close> runs from the first statement
  to the loop (\<open>None\<close>: it ends before the loop), \<open>th_finish\<close> from the loop's end to the return.
\<close>

record ('l, 's) thread_code =
  th_entry :: "QcPerfRequest option \<Rightarrow> 's \<Rightarrow> ('l option \<times> 's) outcome"
  th_finish :: "'l \<Rightarrow> 's \<Rightarrow> 's outcome"

text \<open>
  Waiting for a thread: a running one ends when the flag is down; one that was not scheduled yet
  runs its entry first, which may raise the flag, and then nobody lowers it any more.
\<close>

definition wait_exit ::
  "('l, ('l, 'x) session_scheme) thread_code \<Rightarrow> nat \<Rightarrow> ('l, 'x) session_scheme
     \<Rightarrow> (int \<times> ('l, 'x) session_scheme) outcome" where
  "wait_exit code t s =
     (if t < length (sn_threads s)
      then case sn_threads s ! t of
             Exited \<Rightarrow> Ret (0, s)
           | Running l \<Rightarrow> if g_is_thread_running s then Stuck NoReturn
                          else obind (th_finish code l s) (\<lambda>s'. Ret (0, put_thread t Exited s'))
           | Spawned r \<Rightarrow> obind (th_entry code r s) (\<lambda>(l, s1).
               case l of
                 None \<Rightarrow> Ret (0, put_thread t Exited s1)
               | Some l \<Rightarrow> if g_is_thread_running s1 then Stuck NoReturn
                           else obind (th_finish code l s1) (\<lambda>s'. Ret (0, put_thread t Exited s')))
      else Stuck BadDeref)"

text \<open>The scheduler's steps: a thread starts, or leaves its loop because the flag is down.\<close>

definition thread_begin ::
  "('l, ('l, 'x) session_scheme) thread_code \<Rightarrow> nat \<Rightarrow> ('l, 'x) session_scheme \<Rightarrow> ('l, 'x) session_scheme outcome" where
  "thread_begin code t s =
     (case sn_threads s ! t of
        Spawned r \<Rightarrow> obind (th_entry code r s) (\<lambda>(l, s1).
          Ret (put_thread t (case l of None \<Rightarrow> Exited | Some l \<Rightarrow> Running l) s1))
      | _ \<Rightarrow> Ret s)"

definition thread_leave ::
  "('l, ('l, 'x) session_scheme) thread_code \<Rightarrow> nat \<Rightarrow> ('l, 'x) session_scheme \<Rightarrow> ('l, 'x) session_scheme outcome" where
  "thread_leave code t s =
     (case sn_threads s ! t of
        Running l \<Rightarrow> if g_is_thread_running s then Ret s
                     else obind (th_finish code l s) (\<lambda>s'. Ret (put_thread t Exited s'))
      | _ \<Rightarrow> Ret s)"

definition thread_iterate ::
  "('l \<Rightarrow> ('l, 'x) session_scheme \<Rightarrow> ('l \<times> ('l, 'x) session_scheme) outcome) \<Rightarrow> nat
     \<Rightarrow> ('l, 'x) session_scheme \<Rightarrow> ('l, 'x) session_scheme outcome" where
  "thread_iterate body t s =
     (case sn_threads s ! t of
        Running l \<Rightarrow> if g_is_thread_running s
                     then obind (body l s) (\<lambda>(l', s'). Ret (put_thread t (Running l') s'))
                     else Ret s
      | _ \<Rightarrow> Ret s)"

text \<open>A pointer to the capability with index \<open>c\<close> of the table allocated as number \<open>e\<close>.\<close>

definition deref_capability :: "nat \<Rightarrow> nat \<Rightarrow> ('l, 'x) session_scheme \<Rightarrow> QcPerfCapabilityInfo outcome" where
  "deref_capability e c s =
     (case bi_capabilities_list (g_backend_info s) of
        None \<Rightarrow> Stuck BadDeref
      | Some cs \<Rightarrow> if sn_table s = e then arr_read cs c else Stuck BadDeref)"

text \<open>
  How many samples make a batch, the same expression in every backend:
  \<open>(streaming_rate + sampling_rate - 1) / sampling_rate\<close> on \<open>uint32_t\<close>.
\<close>

definition samples_per_stream :: "QcPerfRequest \<Rightarrow> u32 outcome" where
  "samples_per_stream rq =
     (if rq_sampling_rate rq = 0 then Stuck DivByZero
      else Ret (of_nat ((unat (rq_streaming_rate rq) + unat (rq_sampling_rate rq) - 1) div unat (rq_sampling_rate rq))))"

lemma spawn_cases:
  assumes "spawn attrs s = (rc, s')"
  shows "(rc = QTHREAD_CREATE_SUCCESS \<and>
            (\<exists>f. s' = s\<lparr>g_thread_info := (g_thread_info s)\<lparr>th_handle := Thread (length (sn_threads s))\<rparr>,
                        sn_faults := f, sn_threads := sn_threads s @ [Spawned (thread_params attrs)]\<rparr>)) \<or>
         (rc = QTHREAD_CREATE_FAILED \<and> (\<exists>f. s' = s\<lparr>sn_faults := f\<rparr>))"
proof -
  have self: "s\<lparr>g_thread_info := g_thread_info s, sn_faults := f, sn_threads := sn_threads s\<rparr> = s\<lparr>sn_faults := f\<rparr>" for f
    by simp
  show ?thesis
    using assms self
    by (auto simp: spawn_def thread_create_def Let_def split: prod.splits if_splits)
qed

lemma wait_exit_down:
  assumes "t < length (sn_threads s)" "sn_threads s ! t = Running l" "\<not> g_is_thread_running s"
    "th_finish code l s = Ret s'"
  shows "wait_exit code t s = Ret (0, put_thread t Exited s')"
  using assms by (simp add: wait_exit_def)

end
