(* ===== verification/OsUtils.thy ===== *)
theory OsUtils
  imports Prelude
begin

text \<open>
  The operating system wrappers next to the mutex: time (\<open>utils/qtime\<close>), sleeping (\<open>utils/qsleep\<close>)
  and condition variables (\<open>utils/qcondition-variable\<close>), for Linux and Windows. What a system call
  answers is an argument. Threads are in \<open>Session\<close>, with the state they run on.
\<close>

section \<open>Time\<close>

datatype QTimeReturnCode = TIME_SUCCESS | TIME_FAILED | TIME_NULL_POINTER | TIME_INVALID_VALUE

abbreviation (input) QTIMER_NS_PER_TICKS :: u64 where "QTIMER_NS_PER_TICKS \<equiv> 52"

text \<open>
  What the Linux build reads: the timer register on \<open>LINUX_ARM64\<close>, elsewhere \<open>clock_gettime\<close>, which
  may fail, with its seconds and nanoseconds.
\<close>

datatype clock_reading = Ticks u64 | Spec "(nat \<times> nat) option"

definition get_time_ns :: "clock_reading \<Rightarrow> u64 option \<Rightarrow> QTimeReturnCode \<times> u64 option" where
  "get_time_ns clk time_ns =
     (case time_ns of
        None \<Rightarrow> (TIME_NULL_POINTER, None)
      | Some old \<Rightarrow>
          (case clk of
             Ticks ticks \<Rightarrow> (TIME_SUCCESS, Some (ticks * QTIMER_NS_PER_TICKS))
           | Spec None \<Rightarrow> (TIME_SUCCESS, Some old)
           | Spec (Some (tv_sec, tv_nsec)) \<Rightarrow>
               (TIME_SUCCESS, Some (of_nat (tv_sec * 10 ^ 9) + of_nat tv_nsec))))"

text \<open>
  The Windows build: the performance counter and its frequency are signed 64-bit integers, the
  product is computed modulo \<open>2^64\<close>.
\<close>

definition windows_get_time_ns :: "i64 \<Rightarrow> i64 \<Rightarrow> u64 option \<Rightarrow> QTimeReturnCode \<times> u64 option" where
  "windows_get_time_ns counter frequency time_ns =
     (case time_ns of
        None \<Rightarrow> (TIME_NULL_POINTER, None)
      | Some old \<Rightarrow>
          if sint counter < 0 \<or> sint frequency \<le> 0 then (TIME_INVALID_VALUE, Some old)
          else (TIME_SUCCESS, Some ((counter * 1000000000) div frequency)))"

text \<open>The time of day in nanoseconds is exact as long as it fits 64 bits.\<close>

lemma get_time_ns_exact:
  assumes "s * 10 ^ 9 + n < 2 ^ 64"
  shows "\<exists>t. get_time_ns (Spec (Some (s, n))) (Some old) = (TIME_SUCCESS, Some t) \<and> unat t = s * 10 ^ 9 + n"
proof -
  have "get_time_ns (Spec (Some (s, n))) (Some old) = (TIME_SUCCESS, Some (of_nat (s * 10 ^ 9 + n)))"
    by (simp add: get_time_ns_def)
  then show ?thesis using unat_of_nat_u64 [OF assms] by blast
qed

lemma ticks_exact:
  assumes "unat k * 52 < 2 ^ 64"
  shows "\<exists>t. get_time_ns (Ticks k) (Some old) = (TIME_SUCCESS, Some t) \<and> unat t = unat k * 52"
  using assms by (simp add: get_time_ns_def unat_word_ariths)

section \<open>Sleeping\<close>

text \<open>The system calls \<open>sleep_ms\<close> makes, in order, with their arguments.\<close>

datatype sleep_call = CallSleep nat | CallUsleep nat | CallWinSleep nat

definition sleep_ms :: "u32 \<Rightarrow> sleep_call list" where
  "sleep_ms d =
     (if d \<ge> 1000 then [CallSleep (unat (d div 1000))] else []) @ [CallUsleep (unat ((d mod 1000) * 1000))]"

definition windows_sleep_ms :: "u32 \<Rightarrow> sleep_call list" where
  "windows_sleep_ms d = [CallWinSleep (unat d)]"

definition sleep_sec :: "u16 \<Rightarrow> sleep_call list" where
  "sleep_sec d = [CallSleep (unat d)]"

definition windows_sleep_sec :: "u16 \<Rightarrow> sleep_call list" where
  "windows_sleep_sec d = [CallWinSleep (unat d * 1000)]"

text \<open>How long the calls take, in microseconds, when none is interrupted.\<close>

fun call_us :: "sleep_call \<Rightarrow> nat" where
  "call_us (CallSleep s) = s * 1000000"
| "call_us (CallUsleep u) = u"
| "call_us (CallWinSleep m) = m * 1000"

text \<open>\<open>usleep\<close> is only defined below one second: every call of \<open>sleep_ms\<close> stays below it.\<close>

fun usleep_ok :: "sleep_call \<Rightarrow> bool" where
  "usleep_ok (CallUsleep u) = (u < 1000000)"
| "usleep_ok _ = True"

lemma unat_mod_times: "unat (((d :: u32) mod 1000) * 1000) = (unat d mod 1000) * 1000"
proof -
  have "unat d mod 1000 * 1000 < 2 ^ 32"
    using mod_less_divisor [of 1000 "unat d"] by simp
  then show ?thesis by (simp add: unat_word_ariths unat_mod)
qed

lemma sleep_ms_total: "sum_list (List.map call_us (sleep_ms d)) = unat d * 1000"
proof -
  have "unat d div 1000 * 1000000 + unat d mod 1000 * 1000 = unat d * 1000"
    using div_mult_mod_eq [of "unat d" 1000] by linarith
  moreover have "\<not> 1000 \<le> d \<Longrightarrow> unat d < 1000" by (simp add: word_le_nat_alt)
  ultimately show ?thesis
    by (auto simp: sleep_ms_def unat_mod_times unat_div)
qed

section \<open>Condition variables on Linux\<close>

datatype QCvReturnCode =
    CV_CREATE_SUCCESS
  | CV_CREATE_FAILED
  | CV_CREATE_EXISTS
  | CV_OPEN_SUCCESS
  | CV_OPEN_FAILED
  | CV_NULL_POINTER
  | CV_WAIT_FAILED
  | CV_WAIT_COMPLETED
  | CV_WAIT_TIMEOUT
  | CV_NOTIFY_SUCCESS
  | CV_NOTIFY_ALL_SUCCESS
  | CV_NOTIFY_FAILED
  | CV_NOTIFY_ALL_FAILED
  | CV_DESTROY_FAILED
  | CV_DESTROY_SUCCESS
  | CV_INVALID_HANDLE
  | CV_MUTEX_INVALID_HANDLE
  | CV_MUTEX_MEMORY_CALLOC_FAILED
  | CV_COND_DESTROY_FAILED
  | CV_MUTEX_DESTROY_FAILED

record CvAttributes =
  cv_name :: string
  cv_name_len :: nat

text \<open>The two handles; \<open>True\<close> for a live object, \<open>False\<close> for \<open>NULL\<close>.\<close>

record CvInfo =
  p_cv_handle :: bool
  p_cv_mutex_handle :: bool

text \<open>
  \<open>cv_create\<close>: the script decides the two allocations and the two initialisations, the last
  component of the result counts the blocks that stay allocated. The clean-up frees a pointer only
  when it is \<open>NULL\<close>, so a block that was allocated stays.
\<close>

definition cv_create ::
  "CvAttributes option \<Rightarrow> CvInfo option \<Rightarrow> oom \<Rightarrow> QCvReturnCode \<times> CvInfo option \<times> oom \<times> nat" where
  "cv_create cv_request cv_info script =
     (case (cv_request, cv_info) of
        (Some a, Some ci) \<Rightarrow>
          (let (cond_ok, s1) = calloc_ok script;
               (mutex_ok, s2) = calloc_ok s1;
               live = (if cond_ok then 1 else 0) + (if mutex_ok then 1 else 0)
           in if \<not> cond_ok then (CV_MUTEX_MEMORY_CALLOC_FAILED, Some ci, s2, live)
              else if \<not> mutex_ok then (CV_MUTEX_MEMORY_CALLOC_FAILED, Some ci, s2, live)
              else let (init_ok, s3) = calloc_ok s2
                   in if \<not> init_ok then (CV_CREATE_FAILED, Some ci, s3, live)
                      else let (minit_ok, s4) = calloc_ok s3
                           in if \<not> minit_ok then (CV_CREATE_FAILED, Some ci, s4, live)
                              else (CV_CREATE_SUCCESS, Some \<lparr>p_cv_handle = True, p_cv_mutex_handle = True\<rparr>, s4, live))
      | _ \<Rightarrow> (CV_NULL_POINTER, cv_info, script, 0))"

text \<open>What the four operations on a live variable check first.\<close>

definition cv_guard :: "CvInfo option \<Rightarrow> QCvReturnCode option" where
  "cv_guard cv_info =
     (case cv_info of
        None \<Rightarrow> Some CV_NULL_POINTER
      | Some ci \<Rightarrow> if \<not> p_cv_handle ci then Some CV_INVALID_HANDLE
                   else if \<not> p_cv_mutex_handle ci then Some CV_MUTEX_INVALID_HANDLE else None)"

text \<open>\<open>pthread_cond_wait\<close> returns its status when the variable is signalled, or never.\<close>

definition cv_wait :: "CvInfo option \<Rightarrow> int option \<Rightarrow> QCvReturnCode outcome" where
  "cv_wait cv_info pthread_cond_wait =
     (case cv_guard cv_info of
        Some rc \<Rightarrow> Ret rc
      | None \<Rightarrow> (case pthread_cond_wait of
                   None \<Rightarrow> Stuck NoReturn
                 | Some status \<Rightarrow> Ret (if status \<noteq> 0 then CV_WAIT_FAILED else CV_WAIT_COMPLETED)))"

text \<open>
  \<open>cv_wait_for\<close>: the absolute deadline is the present time plus the whole seconds of the timeout;
  \<open>timedwait\<close> is the status \<open>pthread_cond_timedwait\<close> answers for a deadline.
\<close>

definition wait_deadline :: "nat \<times> nat \<Rightarrow> u32 \<Rightarrow> nat \<times> nat" where
  "wait_deadline now timeout = (fst now + unat (timeout div 1000), snd now)"

definition cv_wait_for :: "CvInfo option \<Rightarrow> nat \<times> nat \<Rightarrow> (nat \<times> nat \<Rightarrow> int) \<Rightarrow> u32 \<Rightarrow> QCvReturnCode" where
  "cv_wait_for cv_info now timedwait timeout =
     (case cv_guard cv_info of
        Some rc \<Rightarrow> rc
      | None \<Rightarrow> if timedwait (wait_deadline now timeout) \<noteq> 0 then CV_WAIT_FAILED else CV_WAIT_COMPLETED)"

definition cv_notify :: "CvInfo option \<Rightarrow> int \<Rightarrow> QCvReturnCode" where
  "cv_notify cv_info status =
     (case cv_guard cv_info of
        Some rc \<Rightarrow> rc
      | None \<Rightarrow> if status \<noteq> 0 then CV_NOTIFY_FAILED else CV_NOTIFY_SUCCESS)"

definition cv_notifyAll :: "CvInfo option \<Rightarrow> int \<Rightarrow> QCvReturnCode" where
  "cv_notifyAll cv_info status =
     (case cv_guard cv_info of
        Some rc \<Rightarrow> rc
      | None \<Rightarrow> if status \<noteq> 0 then CV_NOTIFY_ALL_FAILED else CV_NOTIFY_ALL_SUCCESS)"

text \<open>
  \<open>cv_destroy\<close>: the codes of failed destructions are overwritten by the success code of the last
  line. The second component counts the blocks freed.
\<close>

definition cv_destroy :: "CvInfo option \<Rightarrow> int \<Rightarrow> int \<Rightarrow> QCvReturnCode \<times> CvInfo option \<times> nat" where
  "cv_destroy cv_info cond_status mutex_status =
     (case cv_info of
        None \<Rightarrow> (CV_NULL_POINTER, None, 0)
      | Some ci \<Rightarrow>
          if \<not> p_cv_handle ci \<or> \<not> p_cv_mutex_handle ci then (CV_INVALID_HANDLE, Some ci, 0)
          else let rc1 = (if cond_status \<noteq> 0 then CV_COND_DESTROY_FAILED else CV_NULL_POINTER);
                   rc2 = (if mutex_status \<noteq> 0 then CV_MUTEX_DESTROY_FAILED else rc1);
                   return_code = CV_DESTROY_SUCCESS
               in (return_code, Some \<lparr>p_cv_handle = False, p_cv_mutex_handle = False\<rparr>, 2))"

section \<open>Condition variables on Windows\<close>

definition windows_cv_create ::
  "CvAttributes option \<Rightarrow> CvInfo option \<Rightarrow> oom \<Rightarrow> QCvReturnCode \<times> CvInfo option \<times> oom \<times> nat" where
  "windows_cv_create cv_request cv_info script =
     (case (cv_request, cv_info) of
        (Some a, Some ci) \<Rightarrow>
          (let (cv_ok, s1) = calloc_ok script; (mutex_ok, s2) = calloc_ok s1
           in if \<not> cv_ok \<or> \<not> mutex_ok then (CV_CREATE_FAILED, Some ci, s2, 0)
              else (CV_CREATE_SUCCESS, Some \<lparr>p_cv_handle = True, p_cv_mutex_handle = True\<rparr>, s2, 2))
      | _ \<Rightarrow> (CV_NULL_POINTER, cv_info, script, 0))"

text \<open>\<open>SleepConditionVariableCS\<close> answers success, a time-out, or another error.\<close>

datatype sleep_cv = CvWoken | CvTimeout | CvError

definition windows_cv_wait :: "CvInfo option \<Rightarrow> sleep_cv option \<Rightarrow> QCvReturnCode outcome" where
  "windows_cv_wait cv_info answer =
     (case cv_guard cv_info of
        Some rc \<Rightarrow> Ret rc
      | None \<Rightarrow> (case answer of
                   None \<Rightarrow> Stuck NoReturn
                 | Some a \<Rightarrow> Ret (if a = CvWoken then CV_WAIT_COMPLETED else CV_WAIT_FAILED)))"

definition windows_cv_wait_for :: "CvInfo option \<Rightarrow> (u32 \<Rightarrow> sleep_cv) \<Rightarrow> u32 \<Rightarrow> QCvReturnCode" where
  "windows_cv_wait_for cv_info SleepCV timeout_ms =
     (case cv_guard cv_info of
        Some rc \<Rightarrow> rc
      | None \<Rightarrow> (case SleepCV timeout_ms of
                   CvWoken \<Rightarrow> CV_WAIT_COMPLETED
                 | CvTimeout \<Rightarrow> CV_WAIT_TIMEOUT
                 | CvError \<Rightarrow> CV_WAIT_FAILED))"

definition windows_cv_notify :: "CvInfo option \<Rightarrow> QCvReturnCode" where
  "windows_cv_notify cv_info = (case cv_guard cv_info of Some rc \<Rightarrow> rc | None \<Rightarrow> CV_NOTIFY_SUCCESS)"

definition windows_cv_notifyAll :: "CvInfo option \<Rightarrow> QCvReturnCode" where
  "windows_cv_notifyAll cv_info = (case cv_guard cv_info of Some rc \<Rightarrow> rc | None \<Rightarrow> CV_NOTIFY_ALL_SUCCESS)"

definition windows_cv_destroy :: "CvInfo option \<Rightarrow> QCvReturnCode \<times> CvInfo option \<times> nat" where
  "windows_cv_destroy cv_info =
     (case cv_info of
        None \<Rightarrow> (CV_NULL_POINTER, None, 0)
      | Some ci \<Rightarrow>
          if \<not> p_cv_handle ci \<or> \<not> p_cv_mutex_handle ci then (CV_INVALID_HANDLE, Some ci, 0)
          else (CV_DESTROY_SUCCESS, Some \<lparr>p_cv_handle = False, p_cv_mutex_handle = False\<rparr>, 2))"

section \<open>Properties\<close>

text \<open>What one iteration of a collection thread observes: the clock and the kernel's files.\<close>

record sample_env =
  env_clock :: clock_reading
  env_files :: filesystem

text \<open>\<open>get_time_ns(&now)\<close> with a valid pointer.\<close>

definition time_now :: "clock_reading \<Rightarrow> u64 \<Rightarrow> u64" where
  "time_now clk old = (case snd (get_time_ns clk (Some old)) of Some t \<Rightarrow> t | None \<Rightarrow> 0)"

text \<open>\<open>sleep_ms\<close> on Linux splits every 32-bit number of milliseconds into calls that together take
  exactly that long, never wraps around, and never asks \<open>usleep\<close> for a second or more.\<close>
theorem sleep_ms_exact:
  "sum_list (List.map call_us (sleep_ms d)) = unat d * 1000 \<and> list_all usleep_ok (sleep_ms d)"
  using sleep_ms_total [of d] mod_less_divisor [of 1000 "unat d"]
  by (auto simp: sleep_ms_def unat_mod_times)

text \<open>Creation and destruction of a condition variable balance on success: what \<open>cv_create\<close> allocates
  \<open>cv_destroy\<close> frees, and the handles are NULL again. On a failure the Linux \<open>cv_create\<close> keeps every
  block it did allocate, its clean-up frees only NULL pointers; the Windows one frees them all.\<close>
theorem cv_create_balance:
  "(\<forall>ci s live. cv_create (Some a) (Some ci0) script = (CV_CREATE_SUCCESS, ci, s, live) \<longrightarrow>
      cv_destroy ci cs ms = (CV_DESTROY_SUCCESS, Some \<lparr>p_cv_handle = False, p_cv_mutex_handle = False\<rparr>, live)) \<and>
   snd (snd (snd (cv_create (Some a) (Some ci0) [False, False, True]))) = 2 \<and>
   snd (snd (snd (cv_create (Some a) (Some ci0) [False, True]))) = 1 \<and>
   (\<forall>rc ci s live. windows_cv_create (Some a) (Some ci0) script = (rc, ci, s, live) \<longrightarrow>
      rc \<noteq> CV_CREATE_SUCCESS \<longrightarrow> live = 0)"
  by (auto simp: cv_create_def cv_destroy_def windows_cv_create_def Let_def split: prod.splits if_splits)

theorem cv_create_balance_witness:
  "cv_create (Some \<lparr>cv_name = [], cv_name_len = 0\<rparr>) (Some \<lparr>p_cv_handle = False, p_cv_mutex_handle = False\<rparr>) [] =
     (CV_CREATE_SUCCESS, Some \<lparr>p_cv_handle = True, p_cv_mutex_handle = True\<rparr>, [], 2) \<and>
   cv_destroy (Some \<lparr>p_cv_handle = True, p_cv_mutex_handle = True\<rparr>) 0 0 =
     (CV_DESTROY_SUCCESS, Some \<lparr>p_cv_handle = False, p_cv_mutex_handle = False\<rparr>, 2)"
proof -
  have "cv_create (Some \<lparr>cv_name = [], cv_name_len = 0\<rparr>) (Some \<lparr>p_cv_handle = False, p_cv_mutex_handle = False\<rparr>) [] =
     (CV_CREATE_SUCCESS, Some \<lparr>p_cv_handle = True, p_cv_mutex_handle = True\<rparr>, [], 2)"
    by (simp add: cv_create_def)
  then show ?thesis
    using cv_create_balance [of "\<lparr>cv_name = [], cv_name_len = 0\<rparr>" "\<lparr>p_cv_handle = False, p_cv_mutex_handle = False\<rparr>" "[]" 0 0]
    by blast
qed

text \<open>A timed wait on Linux ignores the part of its timeout below one second: every timeout below
  1000 ms makes the deadline the present moment, so the wait fails at once when the variable has not
  been signalled; and a timeout is reported as \<open>WAIT_FAILED\<close>, where Windows reports \<open>WAIT_TIMEOUT\<close>.\<close>
theorem cv_wait_for_drops_milliseconds:
  assumes "unat timeout < 1000" and "timedwait now \<noteq> 0"
  shows "wait_deadline now timeout = now \<and>
         cv_wait_for (Some \<lparr>p_cv_handle = True, p_cv_mutex_handle = True\<rparr>) now timedwait timeout = CV_WAIT_FAILED \<and>
         windows_cv_wait_for (Some \<lparr>p_cv_handle = True, p_cv_mutex_handle = True\<rparr>) (\<lambda>_. CvTimeout) timeout = CV_WAIT_TIMEOUT"
  using assms by (simp add: wait_deadline_def cv_wait_for_def windows_cv_wait_for_def cv_guard_def unat_div)

theorem cv_wait_for_drops_milliseconds_witness:
  "wait_deadline (10, 0) 999 = (10, 0) \<and>
   cv_wait_for (Some \<lparr>p_cv_handle = True, p_cv_mutex_handle = True\<rparr>) (10, 0) (\<lambda>_. 110) 999 = CV_WAIT_FAILED \<and>
   windows_cv_wait_for (Some \<lparr>p_cv_handle = True, p_cv_mutex_handle = True\<rparr>) (\<lambda>_. CvTimeout) 999 = CV_WAIT_TIMEOUT"
  by (rule cv_wait_for_drops_milliseconds) simp_all

end
