(* ===== verification/Core.thy ===== *)
theory Core
  imports QcperfCommon
begin

text \<open>
  The library core, \<open>qcperf/core/src/qcperf.c\<close>: the two globals \<open>g_qcperf_backend_info\<close> (the table
  of backend function pointers) and \<open>g_backends_connected\<close>, and the public operations that check
  their arguments and dispatch through the table. What lies behind the function pointers, the
  state of the backends, is the type parameter \<open>'w\<close>; \<open>System\<close> instantiates it.
\<close>

section \<open>The backend interface\<close>

type_synonym 'w step0 = "'w \<Rightarrow> (QcPerfReturnCode \<times> 'w) outcome"

text \<open>
  \<open>struct QcPerfBackendPrivate\<close>: seven function pointers, \<open>None\<close> for \<open>NULL\<close>. An argument that is a
  pointer is an option; \<open>qcperf_backend_info\<close> hands the filled structure back.
\<close>

record 'w QcPerfBackendPrivate =
  set_message_callback :: "(callback \<Rightarrow> 'w step0) option"
  qcperf_backend_init :: "'w step0 option"
  qcperf_backend_info :: "(QcPerfBackendInfo option \<Rightarrow> 'w \<Rightarrow> (QcPerfReturnCode \<times> QcPerfBackendInfo option \<times> 'w) outcome) option"
  set_data_callback :: "(callback \<Rightarrow> 'w step0) option"
  qcperf_backend_start :: "(QcPerfRequest option \<Rightarrow> 'w step0) option"
  qcperf_backend_stop :: "(QcPerfRequest option \<Rightarrow> 'w step0) option"
  qcperf_backend_deinit :: "'w step0 option"

definition zero_private :: "'w QcPerfBackendPrivate" where
  "zero_private = \<lparr>set_message_callback = None, qcperf_backend_init = None,
     qcperf_backend_info = None, set_data_callback = None, qcperf_backend_start = None,
     qcperf_backend_stop = None, qcperf_backend_deinit = None\<rparr>"

text \<open>\<open>backend_init_t\<close>: fills the function pointers of the entry it is given.\<close>

type_synonym 'w backend_init_t =
  "'w QcPerfBackendPrivate option \<Rightarrow> QcPerfReturnCode \<times> 'w QcPerfBackendPrivate option"

text \<open>
  The compile definitions \<open>QCPERF_ENABLED_*\<close> and the registry \<open>backend_init_fns[]\<close> they select;
  \<open>cr\<close> gives the creation function of each backend.
\<close>

record build_config =
  enabled_dummy :: bool
  enabled_qcom_linux_cpu :: bool
  enabled_qcom_linux_npu :: bool
  enabled_wos_npu :: bool
  enabled_wos_power :: bool
  enabled_wos_thermal :: bool
  enabled_wos_cpu :: bool
  enabled_qcom_linux_thermal :: bool
  enabled_qcom_linux_gpu :: bool

definition backend_init_fns ::
  "build_config \<Rightarrow> (QcPerfBackendId \<Rightarrow> 'w backend_init_t) \<Rightarrow> 'w backend_init_t option list" where
  "backend_init_fns cfg cr =
     [if enabled_dummy cfg then Some (cr BACKEND_DUMMY) else None,
      if enabled_qcom_linux_cpu cfg then Some (cr BACKEND_QCOM_LINUX_CPU) else None,
      if enabled_qcom_linux_npu cfg \<or> enabled_wos_npu cfg then Some (cr BACKEND_DSP_NPU) else None,
      if enabled_wos_power cfg then Some (cr BACKEND_POWER) else None,
      if enabled_wos_thermal cfg then Some (cr BACKEND_THERMAL) else None,
      if enabled_wos_cpu cfg then Some (cr BACKEND_WOS_CPU) else None,
      if enabled_qcom_linux_thermal cfg then Some (cr BACKEND_LINUX_THERMAL) else None,
      if enabled_qcom_linux_gpu cfg then Some (cr BACKEND_QCOM_LINUX_GPU) else None]"

lemma backend_init_fns_length [simp]: "length (backend_init_fns cfg cr) = 8"
  by (simp add: backend_init_fns_def)

section \<open>Core state\<close>

text \<open>
  \<open>g_qcperf_backend_info\<close> is \<open>None\<close> before \<open>qcperf_init\<close>; \<open>oom_script\<close> decides the allocations.
  The registry is static data: \<open>init_fns\<close>.
\<close>

record 'w core_state =
  g_qcperf_backend_info :: "'w QcPerfBackendPrivate list option"
  g_backends_connected :: "bool list"
  init_fns :: "'w backend_init_t option list"
  oom_script :: oom
  world :: 'w

abbreviation (input) QC_PERF_BACKEND_MAX :: int where "QC_PERF_BACKEND_MAX \<equiv> 8"

definition initial_core :: "'w backend_init_t option list \<Rightarrow> oom \<Rightarrow> 'w \<Rightarrow> 'w core_state" where
  "initial_core fns oom w =
     \<lparr>g_qcperf_backend_info = None, g_backends_connected = replicate 8 False,
      init_fns = fns, oom_script = oom, world = w\<rparr>"

type_synonym 'w core_result = "(QcPerfReturnCode \<times> 'w core_state) outcome"

section \<open>Access to the globals\<close>

definition read_connected :: "int \<Rightarrow> 'w core_state \<Rightarrow> bool outcome" where
  "read_connected b s = arr_read (g_backends_connected s) (nat b)"

definition read_private :: "int \<Rightarrow> 'w core_state \<Rightarrow> 'w QcPerfBackendPrivate outcome" where
  "read_private b s =
     (case g_qcperf_backend_info s of
        None \<Rightarrow> Stuck BadDeref
      | Some ps \<Rightarrow> arr_read ps (nat b))"

definition write_private ::
  "int \<Rightarrow> 'w QcPerfBackendPrivate \<Rightarrow> 'w core_state \<Rightarrow> 'w core_state outcome" where
  "write_private b p s =
     (case g_qcperf_backend_info s of
        None \<Rightarrow> Stuck BadDeref
      | Some ps \<Rightarrow> obind (arr_write ps (nat b) p) (\<lambda>ps'. Ret (s\<lparr>g_qcperf_backend_info := Some ps'\<rparr>)))"

definition write_connected :: "int \<Rightarrow> bool \<Rightarrow> 'w core_state \<Rightarrow> 'w core_state outcome" where
  "write_connected b v s =
     obind (arr_write (g_backends_connected s) (nat b) v) (\<lambda>c. Ret (s\<lparr>g_backends_connected := c\<rparr>))"

text \<open>A call through a function pointer of type \<open>'w step0\<close>; calling \<open>NULL\<close> is a hazard.\<close>

definition call0 :: "'w step0 option \<Rightarrow> 'w core_state \<Rightarrow> 'w core_result" where
  "call0 f s =
     (case f of
        None \<Rightarrow> Stuck BadDeref
      | Some g \<Rightarrow> obind (g (world s)) (\<lambda>(rc, w). Ret (rc, s\<lparr>world := w\<rparr>)))"

definition apply_ptr :: "('a \<Rightarrow> 'b) option \<Rightarrow> 'a \<Rightarrow> 'b option" where
  "apply_ptr f x = (case f of None \<Rightarrow> None | Some g \<Rightarrow> Some (g x))"

section \<open>Operations\<close>

definition qcperf_init :: "'w core_state \<Rightarrow> QcPerfReturnCode \<times> 'w core_state" where
  "qcperf_init s =
     (if g_qcperf_backend_info s \<noteq> None then (ALREADY_INITIALIZED, s)
      else let (ok, rest) = calloc_ok (oom_script s)
           in if ok then (SUCCESS, s\<lparr>g_qcperf_backend_info := Some (replicate 8 zero_private),
                                     oom_script := rest\<rparr>)
              else (CALLOC_FAILED, s\<lparr>oom_script := rest\<rparr>))"

text \<open>
  The version numbers are macros generated at build time: they are arguments, truncated to the
  \<open>uint8_t\<close> fields. The result is what \<open>*version_info\<close> holds afterwards.
\<close>

record QcPerfVersionInfo =
  build :: u8
  major :: u8
  minor :: u8
  patch :: u8

definition qcperf_version ::
  "nat \<Rightarrow> nat \<Rightarrow> nat \<Rightarrow> nat \<Rightarrow> QcPerfVersionInfo option \<Rightarrow> QcPerfReturnCode \<times> QcPerfVersionInfo option" where
  "qcperf_version VERSION_MAJOR VERSION_MINOR VERSION_PATCH VERSION_BUILD version_info =
     (case version_info of
        None \<Rightarrow> (NULL_POINTER, None)
      | Some v \<Rightarrow> (SUCCESS, Some (v\<lparr>major := of_nat VERSION_MAJOR, minor := of_nat VERSION_MINOR,
                                    patch := of_nat VERSION_PATCH, build := of_nat VERSION_BUILD\<rparr>)))"

definition qcperf_reset_backend_private :: "int \<Rightarrow> 'w core_state \<Rightarrow> 'w core_result" where
  "qcperf_reset_backend_private b s =
     (let return_code = (if 0 > b \<or> QC_PERF_BACKEND_MAX < b then INVALID_ARGUMENTS else NULL_POINTER)
      in if g_qcperf_backend_info s \<noteq> None
         then obind (write_private b zero_private s) (\<lambda>s'. Ret (SUCCESS, s'))
         else Ret (return_code, s))"

definition all_pointers_set :: "'w QcPerfBackendPrivate \<Rightarrow> bool" where
  "all_pointers_set p \<longleftrightarrow>
     qcperf_backend_init p \<noteq> None \<and> qcperf_backend_start p \<noteq> None \<and>
     qcperf_backend_stop p \<noteq> None \<and> qcperf_backend_deinit p \<noteq> None \<and>
     qcperf_backend_info p \<noteq> None \<and> set_message_callback p \<noteq> None \<and>
     set_data_callback p \<noteq> None"

definition qcperf_verify_backend_private :: "int \<Rightarrow> 'w core_state \<Rightarrow> QcPerfReturnCode outcome" where
  "qcperf_verify_backend_private b s =
     (if g_qcperf_backend_info s \<noteq> None
      then obind (read_private b s) (\<lambda>p. Ret (if all_pointers_set p then SUCCESS else NULL_POINTER))
      else Ret NULL_POINTER)"

definition qcperf_set_message_callback :: "int \<Rightarrow> callback \<Rightarrow> 'w core_state \<Rightarrow> 'w core_result" where
  "qcperf_set_message_callback b cb s =
     (if g_qcperf_backend_info s = None then Ret (NOT_INITIALIZED, s)
      else if 0 > b \<or> QC_PERF_BACKEND_MAX < b \<or> cb = None then Ret (INVALID_ARGUMENTS, s)
      else obind (read_connected b s) (\<lambda>c.
        if \<not> c then Ret (BACKEND_NOT_CONNECTED, s)
        else obind (read_private b s) (\<lambda>p. call0 (apply_ptr (set_message_callback p) cb) s)))"

definition qcperf_disconnect_backend :: "int \<Rightarrow> 'w core_state \<Rightarrow> 'w core_result" where
  "qcperf_disconnect_backend b s =
     (if g_qcperf_backend_info s = None then Ret (NOT_INITIALIZED, s)
      else if 0 > b \<or> QC_PERF_BACKEND_MAX < b then Ret (INVALID_ARGUMENTS, s)
      else obind (read_connected b s) (\<lambda>c.
        if \<not> c then Ret (BACKEND_NOT_CONNECTED, s)
        else obind (write_connected b False s) (\<lambda>s1.
          obind (read_private b s1) (\<lambda>p.
            obind (if qcperf_backend_deinit p \<noteq> None then call0 (qcperf_backend_deinit p) s1
                   else Ret (FAILED, s1))
              (\<lambda>(_, s2). qcperf_reset_backend_private b s2)))))"

text \<open>
  \<open>qcperf_connect_backend\<close>: the return code of the message callback registration is overwritten
  by the one of the backend's initialisation, and a failed initialisation disconnects again.
\<close>

definition connect_verified :: "int \<Rightarrow> callback \<Rightarrow> 'w core_state \<Rightarrow> 'w core_result" where
  "connect_verified b cb s =
     obind (write_connected b True s) (\<lambda>s1.
       obind (if cb \<noteq> None then qcperf_set_message_callback b cb s1 else Ret (SUCCESS, s1))
         (\<lambda>(_, s2).
           obind (read_private b s2) (\<lambda>p.
             obind (call0 (qcperf_backend_init p) s2) (\<lambda>(rc, s3).
               if rc = SUCCESS then Ret (SUCCESS, s3)
               else obind (qcperf_disconnect_backend b s3) (\<lambda>(_, s4). Ret (rc, s4))))))"

definition qcperf_connect_backend :: "int \<Rightarrow> callback \<Rightarrow> 'w core_state \<Rightarrow> 'w core_result" where
  "qcperf_connect_backend b cb s =
     (if g_qcperf_backend_info s = None then Ret (NOT_INITIALIZED, s)
      else if 0 > b \<or> QC_PERF_BACKEND_MAX \<le> b then Ret (INVALID_BACKEND_ID, s)
      else obind (read_connected b s) (\<lambda>c.
        if c then Ret (BACKEND_ALREADY_CONNECTED, s)
        else obind (arr_read (init_fns s) (nat b)) (\<lambda>f.
          case f of
            None \<Rightarrow> Ret (INVALID_BACKEND_ID, s)
          | Some create \<Rightarrow>
              obind (read_private b s) (\<lambda>p.
                let (rc, p') = create (Some p) in
                obind (write_private b (case p' of Some q \<Rightarrow> q | None \<Rightarrow> p) s) (\<lambda>s1.
                  if rc \<noteq> SUCCESS then Ret (rc, s1)
                  else obind (qcperf_verify_backend_private b s1) (\<lambda>rc2.
                    if rc2 \<noteq> SUCCESS then Ret (rc2, s1) else connect_verified b cb s1))))))"

definition qcperf_get_capabilities_info ::
  "int \<Rightarrow> QcPerfBackendInfo option \<Rightarrow> 'w core_state
     \<Rightarrow> (QcPerfReturnCode \<times> QcPerfBackendInfo option \<times> 'w core_state) outcome" where
  "qcperf_get_capabilities_info b info s =
     (if g_qcperf_backend_info s = None then Ret (NOT_INITIALIZED, info, s)
      else if 0 > b \<or> QC_PERF_BACKEND_MAX < b \<or> info = None then Ret (INVALID_ARGUMENTS, info, s)
      else obind (read_connected b s) (\<lambda>c.
        if \<not> c then Ret (BACKEND_NOT_CONNECTED, info, s)
        else obind (read_private b s) (\<lambda>p.
          case qcperf_backend_info p of
            None \<Rightarrow> Stuck BadDeref
          | Some f \<Rightarrow> obind (f info (world s)) (\<lambda>(rc, info', w). Ret (rc, info', s\<lparr>world := w\<rparr>)))))"

definition qcperf_set_data_callback :: "int \<Rightarrow> callback \<Rightarrow> 'w core_state \<Rightarrow> 'w core_result" where
  "qcperf_set_data_callback b cb s =
     (if g_qcperf_backend_info s = None then Ret (NOT_INITIALIZED, s)
      else if 0 > b \<or> QC_PERF_BACKEND_MAX < b \<or> cb = None then Ret (INVALID_ARGUMENTS, s)
      else obind (read_connected b s) (\<lambda>c.
        if \<not> c then Ret (BACKEND_NOT_CONNECTED, s)
        else obind (read_private b s) (\<lambda>p. call0 (apply_ptr (set_data_callback p) cb) s)))"

definition qcperf_start :: "int \<Rightarrow> QcPerfRequest option \<Rightarrow> 'w core_state \<Rightarrow> 'w core_result" where
  "qcperf_start b request s =
     (if g_qcperf_backend_info s = None then Ret (NOT_INITIALIZED, s)
      else if 0 > b \<or> QC_PERF_BACKEND_MAX < b \<or> request = None then Ret (INVALID_ARGUMENTS, s)
      else obind (read_connected b s) (\<lambda>c.
        if \<not> c then Ret (BACKEND_NOT_CONNECTED, s)
        else obind (read_private b s) (\<lambda>p. call0 (apply_ptr (qcperf_backend_start p) request) s)))"

definition qcperf_stop :: "int \<Rightarrow> QcPerfRequest option \<Rightarrow> 'w core_state \<Rightarrow> 'w core_result" where
  "qcperf_stop b request s =
     (if g_qcperf_backend_info s = None then Ret (NOT_INITIALIZED, s)
      else if 0 > b \<or> QC_PERF_BACKEND_MAX < b \<or> request = None then Ret (INVALID_ARGUMENTS, s)
      else obind (read_connected b s) (\<lambda>c.
        if \<not> c then Ret (BACKEND_NOT_CONNECTED, s)
        else obind (read_private b s) (\<lambda>p. call0 (apply_ptr (qcperf_backend_stop p) request) s)))"

text \<open>The loop of \<open>qcperf_deinit\<close> over the remaining backend identifiers.\<close>

fun deinit_loop :: "nat list \<Rightarrow> 'w core_state \<Rightarrow> 'w core_state outcome" where
  "deinit_loop [] s = Ret s"
| "deinit_loop (i # ids) s =
     obind (read_connected (int i) s) (\<lambda>c.
       if c then obind (qcperf_disconnect_backend (int i) s) (\<lambda>(_, s'). deinit_loop ids s')
       else deinit_loop ids s)"

definition qcperf_deinit :: "'w core_state \<Rightarrow> 'w core_result" where
  "qcperf_deinit s =
     (if g_qcperf_backend_info s = None then Ret (NOT_INITIALIZED, s)
      else obind (deinit_loop [0..<8] s) (\<lambda>s'. Ret (SUCCESS, s'\<lparr>g_qcperf_backend_info := None\<rparr>)))"


section \<open>Descriptions of return codes\<close>

text \<open>
  An application passes any integer as a return code; the ones of the enumeration have a name.
\<close>

fun return_code_number :: "QcPerfReturnCode \<Rightarrow> int" where
  "return_code_number SUCCESS = 0"
| "return_code_number FAILED = 1"
| "return_code_number NOT_SUPPORTED = 2"
| "return_code_number ALREADY_INITIALIZED = 3"
| "return_code_number INVALID_HANDLE = 4"
| "return_code_number INVALID_ARGUMENTS = 5"
| "return_code_number NOT_INITIALIZED = 6"
| "return_code_number CAPABILITY_NOT_FOUND = 7"
| "return_code_number INVALID_BUFFER_SIZE = 8"
| "return_code_number NULL_POINTER = 9"
| "return_code_number CALLOC_FAILED = 10"
| "return_code_number BACKEND_ALREADY_CONNECTED = 11"
| "return_code_number INVALID_BACKEND_ID = 12"
| "return_code_number BACKEND_NOT_CONNECTED = 13"
| "return_code_number CALLBACK_ALREADY_SET = 14"
| "return_code_number NATIVE_LIBRARY_FAILED = 15"

definition all_return_codes :: "QcPerfReturnCode list" where
  "all_return_codes =
     [SUCCESS, FAILED, NOT_SUPPORTED, ALREADY_INITIALIZED, INVALID_HANDLE, INVALID_ARGUMENTS,
      NOT_INITIALIZED, CAPABILITY_NOT_FOUND, INVALID_BUFFER_SIZE, NULL_POINTER, CALLOC_FAILED,
      BACKEND_ALREADY_CONNECTED, INVALID_BACKEND_ID, BACKEND_NOT_CONNECTED, CALLBACK_ALREADY_SET,
      NATIVE_LIBRARY_FAILED]"

definition return_code_of :: "int \<Rightarrow> QcPerfReturnCode option" where
  "return_code_of n = (if 0 \<le> n \<and> n < 16 then Some (all_return_codes ! nat n) else None)"

fun error_text :: "QcPerfReturnCode option \<Rightarrow> string" where
  "error_text (Some SUCCESS) = ''Operation completed successfully''"
| "error_text (Some FAILED) = ''Requested API call failed due to an internal error''"
| "error_text (Some NOT_SUPPORTED) = ''The requested operation is not supported by this backend''"
| "error_text (Some ALREADY_INITIALIZED) = ''QCPerf library is already initialized, call qcperf_deinit before reinitializing''"
| "error_text (Some INVALID_HANDLE) = ''Invalid handle provided to the function, please provide a valid handle''"
| "error_text (Some INVALID_ARGUMENTS) = ''Invalid arguments provided to the function, please check function parameters''"
| "error_text (Some NOT_INITIALIZED) = ''QCPerf library is not initialized, call qcperf_init before using other functions''"
| "error_text (Some CAPABILITY_NOT_FOUND) = ''The requested capability was not found in the backend, check available capabilities''"
| "error_text (Some INVALID_BUFFER_SIZE) = ''The provided buffer size is invalid or insufficient for the operation''"
| "error_text (Some NULL_POINTER) = ''A null pointer was provided where a valid pointer is required''"
| "error_text (Some CALLOC_FAILED) = ''Memory allocation failed during operation, check system resources''"
| "error_text (Some BACKEND_ALREADY_CONNECTED) = ''Backend is already connected, disconnect first before reconnecting''"
| "error_text (Some INVALID_BACKEND_ID) = ''Invalid backend identifier provided, check available backends''"
| "error_text (Some BACKEND_NOT_CONNECTED) = ''Backend is not connected, connect the backend before using this function''"
| "error_text (Some CALLBACK_ALREADY_SET) = ''Callback function is already set for this backend''"
| "error_text (Some NATIVE_LIBRARY_FAILED) = ''Native library call failed during operation''"
| "error_text None = ''Unknown error code encountered''"

text \<open>
  The buffer receives at most 255 characters, the length field the length \<open>snprintf\<close> returns,
  which is the one of the whole text.
\<close>

definition qcperf_get_error_info ::
  "int \<Rightarrow> QcPerfReturnCodeInfo option \<Rightarrow> QcPerfReturnCode \<times> QcPerfReturnCodeInfo option" where
  "qcperf_get_error_info code info =
     (case info of
        None \<Rightarrow> (INVALID_ARGUMENTS, None)
      | Some i \<Rightarrow>
          let txt = error_text (return_code_of code)
          in (SUCCESS, Some (i\<lparr>rci_return_code := code,
                               rci_info_str := snprintf_buf RETURN_CODE_INFO_STRING_MAX_LEN txt,
                               rci_info_str_len := length txt\<rparr>)))"

end
