(* ===== verification/Dummy.thy ===== *)
theory Dummy
  imports Session OsUtils Core
begin

text \<open>
  The dummy backend, \<open>backends/dummy\<close>: its metric tables, its seven operations and the thread that
  generates synthetic metrics. Theorems are in \<open>DummyProps\<close>.
\<close>

section \<open>dummy_info\<close>

abbreviation (input) DUMMY_CAPABILITY_0_ID :: u8 where "DUMMY_CAPABILITY_0_ID \<equiv> 0"
abbreviation (input) DUMMY_CAPABILITY_1_ID :: u8 where "DUMMY_CAPABILITY_1_ID \<equiv> 1"
abbreviation (input) DUMMY_CAPABILITIES_LEN :: nat where "DUMMY_CAPABILITIES_LEN \<equiv> 2"
abbreviation (input) CAPABILITY_0_METRIC_COUNT :: nat where "CAPABILITY_0_METRIC_COUNT \<equiv> 5"
abbreviation (input) CAPABILITY_1_METRIC_COUNT :: nat where "CAPABILITY_1_METRIC_COUNT \<equiv> 10"

definition dummy_streaming_rates :: "u16 list" where
  "dummy_streaming_rates = [100, 200, 300, 400, 500, 600, 700, 800, 900, 1000, 1100, 1200, 1300, 1400,
     1500, 1600, 1700, 1800, 1900, 2000]"

definition dummy_sampling_rates :: "u16 list" where
  "dummy_sampling_rates = [1, 10, 50, 100, 200, 500, 1000]"

text \<open>The macros \<open>DUMMY_METRIC_i_*\<close>: identifier, name, description, unit.\<close>

definition dummy_metric_defs :: "(u16 \<times> string \<times> string \<times> string) list" where
  "dummy_metric_defs =
     [(0, ''Performance metrics 0'', ''Dummy metric description for metric 0'', ''%%''),
      (1, ''Performance metrics 1'', ''Dummy metric description for metric 1'', ''MHz''),
      (2, ''Performance metrics 2'', ''Dummy metric description for metric 2'', ''GHz''),
      (3, ''Performance metrics 103'', ''Dummy metric description for metric 3'', ''counter''),
      (4, ''Performance metrics 4'', ''Dummy metric description for metric 4'', ''MBps''),
      (5, ''Performance metrics 5'', ''Dummy metric description for metric 5'', ''MHz''),
      (6, ''Performance metrics 6'', ''Dummy metric description for metric 6'', ''%%''),
      (7, ''Performance metrics 7'', ''Dummy metric description for metric 7'', ''GHz''),
      (8, ''Performance metrics 8'', ''Dummy metric description for metric 8'', ''counter''),
      (9, ''Performance metrics 9'', ''Dummy metric description for metric 9'', ''MBps'')]"

definition write_metric :: "nat \<Rightarrow> QcPerfMetricInfo list \<Rightarrow> QcPerfMetricInfo list" where
  "write_metric k ms = ms[k := (case dummy_metric_defs ! k of (i, n, d, u) \<Rightarrow> set_metric_info i n d u)]"

definition dummy_capability_0_init_metrics :: "QcPerfMetricInfo list \<Rightarrow> QcPerfMetricInfo list" where
  "dummy_capability_0_init_metrics metrics_data =
     write_metric 4 (write_metric 3 (write_metric 2 (write_metric 1 (write_metric 0 metrics_data))))"

definition dummy_capability_1_init_metrics :: "QcPerfMetricInfo list \<Rightarrow> QcPerfMetricInfo list" where
  "dummy_capability_1_init_metrics metrics_data =
     write_metric 9 (write_metric 8 (write_metric 7 (write_metric 6 (write_metric 5
       (write_metric 4 (write_metric 3 (write_metric 2 (write_metric 1 (write_metric 0 metrics_data)))))))))"

section \<open>State\<close>

text \<open>
  The local variables of \<open>get_dummy_data\<close> between two iterations of its loop. The request is read
  through the pointer the application passed to \<open>qcperf_start\<close>, which must stay valid; the capability
  is a pointer into the table of \<open>g_backend_info\<close>. \<open>dl_slept\<close> is what the last iteration asked
  \<open>usleep\<close> for, in microseconds.
\<close>

record dummy_local =
  dl_request :: QcPerfRequest
  dl_table :: nat
  dl_cap :: nat
  dl_samples_per_stream :: u32
  dl_total_metrics :: u32
  dl_streaming_rate_ns :: u64
  dl_uint64_counter :: u64
  dl_int64_counter :: i64
  dl_double_counter :: double
  dl_string_counter :: u32
  dl_data :: QcPerfData
  dl_sample_count :: u32
  dl_last_stream_time :: u64
  dl_current_time :: u64
  dl_slept :: nat

record dummy_state = "dummy_local session" +
  g_capability_1_metrics_data :: "QcPerfMetricInfo list"
  g_capability_2_metrics_data :: "QcPerfMetricInfo list"

definition initial_dummy :: "oom \<Rightarrow> dummy_state" where
  "initial_dummy faults = session.extend (initial_session faults)
     \<lparr>g_capability_1_metrics_data = replicate CAPABILITY_0_METRIC_COUNT zero_metric_info,
      g_capability_2_metrics_data = replicate CAPABILITY_1_METRIC_COUNT zero_metric_info\<rparr>"

definition dummy_send_message :: "QcPerfMessageLevel \<Rightarrow> string \<Rightarrow> dummy_state \<Rightarrow> dummy_state" where
  "dummy_send_message level txt s =
     (if length txt > 0 then post_message (message_clamped 0 level txt) s else s)"

definition DUMMY_SEND :: "QcPerfMessageLevel \<Rightarrow> string \<Rightarrow> dummy_state \<Rightarrow> dummy_state" where
  "DUMMY_SEND level txt s = (if g_message_callback s \<noteq> None then dummy_send_message level txt s else s)"

section \<open>Operations\<close>

definition dummy_set_message_callback :: "callback \<Rightarrow> dummy_state \<Rightarrow> QcPerfReturnCode \<times> dummy_state" where
  "dummy_set_message_callback cb s = (SUCCESS, s\<lparr>g_message_callback := cb\<rparr>)"

definition dummy_alloc :: "dummy_state \<Rightarrow> QcPerfReturnCode \<times> dummy_state" where
  "dummy_alloc s =
     (let (ok, s1) = alloc s
      in if \<not> ok then (CALLOC_FAILED, s1\<lparr>g_backend_info := (g_backend_info s1)\<lparr>bi_capabilities_list := None\<rparr>\<rparr>)
         else (SUCCESS, s1\<lparr>sn_table := Suc (sn_table s1),
                 g_backend_info := (g_backend_info s1)
                   \<lparr>bi_capabilities_list := Some (replicate DUMMY_CAPABILITIES_LEN zero_capability),
                    bi_capabilities_list_length := of_nat DUMMY_CAPABILITIES_LEN\<rparr>\<rparr>))"

definition dummy_free :: "dummy_state \<Rightarrow> dummy_state" where
  "dummy_free s = s\<lparr>g_backend_info := (g_backend_info s)\<lparr>bi_capabilities_list := None, bi_capabilities_list_length := 0\<rparr>\<rparr>"

text \<open>One capability entry as \<open>dummy_init\<close> fills it.\<close>

definition dummy_capability :: "u8 \<Rightarrow> string \<Rightarrow> nat \<Rightarrow> QcPerfMetricInfo list \<Rightarrow> QcPerfCapabilityInfo \<Rightarrow> QcPerfCapabilityInfo" where
  "dummy_capability i name count metrics c =
     (let (st, stn) = copy_rates dummy_streaming_rates 0 (ci_streaming_rate c, ci_streaming_rate_len c);
          (sa, san) = copy_rates dummy_sampling_rates 0 (ci_sampling_rate c, ci_sampling_rate_len c)
      in c\<lparr>ci_capability_id := i, ci_name := snprintf_buf CAPABILITY_NAME_MAX_LEN name,
           ci_name_len := length (snprintf_buf CAPABILITY_NAME_MAX_LEN name),
           ci_metric_ids_list_len := of_nat count,
           ci_streaming_rate := st, ci_streaming_rate_len := stn,
           ci_sampling_rate := sa, ci_sampling_rate_len := san,
           ci_metric_ids_list := Some metrics\<rparr>)"

text \<open>Both entries get \<open>DUMMY_CAPABILITY_0_ID\<close>.\<close>

definition dummy_init :: "dummy_state \<Rightarrow> (QcPerfReturnCode \<times> dummy_state) outcome" where
  "dummy_init s =
     (let s1 = DUMMY_SEND LEVEL_INFO ''Initializing dummy backend'' s;
          s2 = s1\<lparr>g_backend_info := (g_backend_info s1)\<lparr>bi_backend_id := of_nat (backend_index BACKEND_DUMMY)\<rparr>\<rparr>;
          (ret, s3) = dummy_alloc s2
      in if ret = SUCCESS
         then let m1 = dummy_capability_0_init_metrics (g_capability_1_metrics_data s3);
                  m2 = dummy_capability_1_init_metrics (g_capability_2_metrics_data s3);
                  s4 = s3\<lparr>g_capability_1_metrics_data := m1, g_capability_2_metrics_data := m2\<rparr>
              in case bi_capabilities_list (g_backend_info s4) of
                   None \<Rightarrow> Stuck BadDeref
                 | Some cs \<Rightarrow>
                     obind (arr_read cs 0) (\<lambda>c0. obind (arr_read cs 1) (\<lambda>c1.
                       let cs' = cs[0 := dummy_capability DUMMY_CAPABILITY_0_ID ''capability_0'' CAPABILITY_0_METRIC_COUNT m1 c0,
                                    1 := dummy_capability DUMMY_CAPABILITY_0_ID ''capability_1'' CAPABILITY_1_METRIC_COUNT m2 c1]
                       in Ret (ret, DUMMY_SEND LEVEL_INFO ''Dummy backend initialized successfully''
                            (s4\<lparr>g_backend_info := (g_backend_info s4)\<lparr>bi_capabilities_list := Some cs'\<rparr>\<rparr>))))
         else Ret (ret, dummy_free
                (DUMMY_SEND LEVEL_ERROR ''Failed to initialize dummy backend: memory allocation failed'' s3)))"

definition dummy_backend_info ::
  "QcPerfBackendInfo option \<Rightarrow> dummy_state \<Rightarrow> QcPerfReturnCode \<times> QcPerfBackendInfo option \<times> dummy_state" where
  "dummy_backend_info info s =
     (case info of
        None \<Rightarrow> (NULL_POINTER, None, DUMMY_SEND LEVEL_ERROR ''Backend info is NULL'' s)
      | Some _ \<Rightarrow> (SUCCESS, Some (g_backend_info s),
                   DUMMY_SEND LEVEL_INFO ''Retrieving dummy backend capabilities information'' s))"

definition dummy_set_data_callback :: "callback \<Rightarrow> dummy_state \<Rightarrow> QcPerfReturnCode \<times> dummy_state" where
  "dummy_set_data_callback cb s =
     (if cb = None then (INVALID_ARGUMENTS, s)
      else if g_data_callback s \<noteq> None then (CALLBACK_ALREADY_SET, s)
      else (SUCCESS, s\<lparr>g_data_callback := cb\<rparr>))"

definition dummy_validate_request :: "QcPerfRequest \<Rightarrow> dummy_state \<Rightarrow> (QcPerfReturnCode \<times> dummy_state) outcome" where
  "dummy_validate_request rq s =
     obind (find_capability (rq_capability_id rq) (g_backend_info s)) (\<lambda>found.
       let id_txt = show_u (unat (rq_capability_id rq)) in
       case found of
         None \<Rightarrow> Ret (CAPABILITY_NOT_FOUND,
                   DUMMY_SEND LEVEL_ERROR (''Capability ID '' @ id_txt @ '' not found'') s)
       | Some i \<Rightarrow>
           obind (deref_capability (sn_table s) i s) (\<lambda>ci.
             obind (rate_scan (rq_sampling_rate rq) (unat (ci_sampling_rate_len ci)) (ci_sampling_rate ci)) (\<lambda>sampling_ok.
               if \<not> sampling_ok
               then Ret (INVALID_ARGUMENTS, DUMMY_SEND LEVEL_ERROR
                      (''Invalid sampling rate '' @ show_u (unat (rq_sampling_rate rq)) @ '' for capability ID '' @ id_txt) s)
               else obind (rate_scan (rq_streaming_rate rq) (unat (ci_streaming_rate_len ci)) (ci_streaming_rate ci)) (\<lambda>streaming_ok.
                 if \<not> streaming_ok
                 then Ret (INVALID_ARGUMENTS, DUMMY_SEND LEVEL_ERROR
                        (''Invalid streaming rate '' @ show_u (unat (rq_streaming_rate rq)) @ '' for capability ID '' @ id_txt) s)
                 else Ret (SUCCESS, DUMMY_SEND LEVEL_INFO
                        (''Request validation successful for capability ID '' @ id_txt) s)))))"

definition dummy_thread_attrs :: "QcPerfRequest \<Rightarrow> QThreadAttributes" where
  "dummy_thread_attrs rq =
     \<lparr>thread_name = snprintf_buf THREAD_NAME_SIZE ''qcperf_dummy_thread'',
      thread_name_len = of_nat (length (snprintf_buf THREAD_NAME_SIZE ''qcperf_dummy_thread'')),
      thread_priority = 0, thread_stack_size = 0, thread_params = Some rq\<rparr>"

definition dummy_start :: "QcPerfRequest option \<Rightarrow> dummy_state \<Rightarrow> (QcPerfReturnCode \<times> dummy_state) outcome" where
  "dummy_start request s0 =
     (let s = DUMMY_SEND LEVEL_INFO ''Starting profiling'' s0
      in case request of
           None \<Rightarrow> Ret (NULL_POINTER, s)
         | Some rq \<Rightarrow>
             obind (dummy_validate_request rq s) (\<lambda>(ret, s1).
               if ret \<noteq> SUCCESS then Ret (ret, DUMMY_SEND LEVEL_ERROR ''Request validation failed'' s1)
               else if g_data_callback s1 = None
               then Ret (FAILED, DUMMY_SEND LEVEL_ERROR ''Result or Message Callback is not set'' s1)
               else if g_is_thread_running s1
               then Ret (ALREADY_INITIALIZED, DUMMY_SEND LEVEL_WARNING ''Performance monitoring thread is already running'' s1)
               else let (thread_ret, s2) = spawn (dummy_thread_attrs rq) s1
                    in if thread_ret \<noteq> QTHREAD_CREATE_SUCCESS
                       then Ret (FAILED, DUMMY_SEND LEVEL_ERROR ''Failed to create performance monitoring thread'' s2)
                       else Ret (SUCCESS, DUMMY_SEND LEVEL_INFO ''Performance monitoring thread started successfully'' s2)))"

section \<open>The collection thread\<close>

text \<open>
  Allocation of a string buffer for every fifth element; the loop stops at the first failure, which
  also lowers the running flag. The result says which elements have a buffer.
\<close>

fun dummy_alloc_strings :: "nat \<Rightarrow> nat \<Rightarrow> QcPerfMetricResponse list \<Rightarrow> dummy_state \<Rightarrow> QcPerfMetricResponse list \<times> dummy_state" where
  "dummy_alloc_strings i 0 rs s = (rs, s)"
| "dummy_alloc_strings i (Suc n) rs s =
     (if i mod 5 = 4
      then let (ok, s1) = alloc s
           in if ok
              then dummy_alloc_strings (Suc i) n
                     (rs[i := (rs ! i)\<lparr>mr_metric_value := (mr_metric_value (rs ! i))\<lparr>gt_string_value := Some []\<rparr>\<rparr>]) s1
              else (rs, (DUMMY_SEND LEVEL_ERROR ''Failed to allocate memory for string buffer'' s1)\<lparr>g_is_thread_running := False\<rparr>)
      else dummy_alloc_strings (Suc i) n rs s)"

text \<open>From the first statement to the loop; \<open>clk\<close> is what the clock shows.\<close>

definition dummy_thread_entry ::
  "clock_reading \<Rightarrow> QcPerfRequest option \<Rightarrow> dummy_state \<Rightarrow> (dummy_local option \<times> dummy_state) outcome" where
  "dummy_thread_entry clk param s0 =
     (case param of
        None \<Rightarrow> Ret (None, DUMMY_SEND LEVEL_ERROR ''Request parameter is NULL in thread function'' s0)
      | Some rq \<Rightarrow>
          let s = s0\<lparr>g_is_thread_running := True\<rparr> in
          obind (find_capability (rq_capability_id rq) (g_backend_info s)) (\<lambda>found.
            case found of
              None \<Rightarrow> Ret (None, (DUMMY_SEND LEVEL_ERROR ''Capability info not found for requested capability ID'' s)
                                   \<lparr>g_is_thread_running := False\<rparr>)
            | Some c \<Rightarrow>
                obind (deref_capability (sn_table s) c s) (\<lambda>ci.
                obind (samples_per_stream rq) (\<lambda>sps.
                  let total = sps * ucast (ci_metric_ids_list_len ci);
                      (ok, s1) = alloc s
                  in if \<not> ok then Ret (None, DUMMY_SEND LEVEL_ERROR ''Failed to allocate memory for performance data'' s1)
                     else let (ok2, s2) = alloc s1
                          in if \<not> ok2 then Ret (None, DUMMY_SEND LEVEL_ERROR ''Failed to allocate memory for metric responses'' s2)
                             else let (rs, s3) = dummy_alloc_strings 0 (unat total) (replicate (unat total) zero_response) s2;
                                      now = (case snd (get_time_ns clk (Some 0)) of Some t \<Rightarrow> t | None \<Rightarrow> 0)
                                  in Ret (Some \<lparr>dl_request = rq, dl_table = sn_table s, dl_cap = c,
                                            dl_samples_per_stream = sps, dl_total_metrics = total,
                                            dl_streaming_rate_ns = ucast (rq_streaming_rate rq) * 1000000,
                                            dl_uint64_counter = 1, dl_int64_counter = 1, dl_double_counter = 1/10,
                                            dl_string_counter = 1,
                                            dl_data = \<lparr>pd_backend_id = of_nat (backend_index BACKEND_DUMMY),
                                                       pd_capability_id = rq_capability_id rq,
                                                       pd_metric_response = rs, pd_metric_response_len = 0\<rparr>,
                                            dl_sample_count = 0, dl_last_stream_time = now,
                                            dl_current_time = now, dl_slept = 0\<rparr>, s3)))))"

text \<open>
  The value of one metric, by its position: boolean, unsigned, signed, double or string, each from
  its own counter.
\<close>

definition dummy_round :: "double \<Rightarrow> double" where
  "dummy_round x = of_int \<lfloor>x * 1000 + 1/2\<rfloor> / 1000"

definition dummy_metric_value ::
  "nat \<Rightarrow> dummy_local \<Rightarrow> QcPerfGenericType \<Rightarrow> dummy_state \<Rightarrow> QcPerfGenericType \<times> dummy_local \<times> dummy_state" where
  "dummy_metric_value i l v s =
     (if i mod 5 = 0 then (v\<lparr>gt_data_type := TYPE_BOOL, gt_bool_value := True\<rparr>, l, s)
      else if i mod 5 = 1
      then (v\<lparr>gt_data_type := TYPE_UINT64, gt_uint64_value := dl_uint64_counter l\<rparr>,
            l\<lparr>dl_uint64_counter := dl_uint64_counter l + 1\<rparr>, s)
      else if i mod 5 = 2
      then (v\<lparr>gt_data_type := TYPE_INT64, gt_int64_value := dl_int64_counter l\<rparr>,
            l\<lparr>dl_int64_counter := dl_int64_counter l + 1\<rparr>, s)
      else if i mod 5 = 3
      then (v\<lparr>gt_data_type := TYPE_DOUBLE, gt_double_value := dummy_round (dl_double_counter l)\<rparr>,
            l\<lparr>dl_double_counter := dl_double_counter l + 1/10\<rparr>, s)
      else let txt = snprintf_buf 64 (''dummy_string_'' @ show_u (unat (dl_string_counter l)));
               l' = l\<lparr>dl_string_counter := dl_string_counter l + 1\<rparr>
           in case gt_string_value v of
                Some _ \<Rightarrow> (v\<lparr>gt_data_type := TYPE_STRING, gt_string_value := Some (snprintf_buf 512 txt),
                             gt_string_value_len := length (snprintf_buf 512 txt)\<rparr>, l', s)
              | None \<Rightarrow> (v\<lparr>gt_data_type := TYPE_STRING\<rparr>, l', DUMMY_SEND LEVEL_ERROR ''String buffer is NULL'' s))"

text \<open>The inner loop: metric \<open>i\<close> of \<open>n\<close> more to come, appended to the batch.\<close>

fun dummy_fill ::
  "nat \<Rightarrow> nat \<Rightarrow> QcPerfMetricInfo list \<Rightarrow> u64 \<Rightarrow> dummy_local \<Rightarrow> dummy_state \<Rightarrow> (dummy_local \<times> dummy_state) outcome" where
  "dummy_fill i 0 ms now l s = Ret (l, s)"
| "dummy_fill i (Suc n) ms now l s =
     (let d = dl_data l; idx = pd_metric_response_len d
      in if unat (dl_total_metrics l) \<le> idx
         then Ret (l, DUMMY_SEND LEVEL_ERROR ''Metric index exceeds allocated size'' s)
         else obind (arr_read (pd_metric_response d) idx) (\<lambda>r.
           obind (arr_read ms i) (\<lambda>mi.
             let (v, l1, s1) = dummy_metric_value i l (mr_metric_value r) s;
                 r' = \<lparr>mr_timestamp = now, mr_metric_id = mi_metric_id mi, mr_metric_value = v\<rparr>
             in dummy_fill (Suc i) n ms now
                  (l1\<lparr>dl_data := d\<lparr>pd_metric_response := (pd_metric_response d)[idx := r'],
                                   pd_metric_response_len := Suc idx\<rparr>\<rparr>) s1)))"

text \<open>The end of an iteration: deliver when the batch is complete or the time is over, then sleep.\<close>

definition dummy_stream :: "u64 \<Rightarrow> dummy_local \<Rightarrow> dummy_state \<Rightarrow> dummy_local \<times> dummy_state" where
  "dummy_stream now l s =
     (let l = l\<lparr>dl_sample_count := dl_sample_count l + 1\<rparr>;
          elapsed_ns = now - dl_last_stream_time l
      in if dl_samples_per_stream l \<le> dl_sample_count l \<or> dl_streaming_rate_ns l \<le> elapsed_ns
         then let (l1, s1) =
                (case g_data_callback s of
                   Some cb \<Rightarrow> if pd_metric_response_len (dl_data l) > 0
                              then (l\<lparr>dl_data := (dl_data l)\<lparr>pd_metric_response_len := 0\<rparr>\<rparr>,
                                    s\<lparr>sn_data := sn_data s @ [(cb, dl_data l)]\<rparr>)
                              else (l, s)
                 | None \<Rightarrow> (l, DUMMY_SEND LEVEL_ERROR ''Result callback is NULL, cannot send metric data'' s))
              in (l1\<lparr>dl_sample_count := 0, dl_last_stream_time := now\<rparr>, s1)
         else (l, s))"

definition dummy_thread_iterate ::
  "clock_reading \<Rightarrow> dummy_local \<Rightarrow> dummy_state \<Rightarrow> (dummy_local \<times> dummy_state) outcome" where
  "dummy_thread_iterate clk l s =
     (let now = (case snd (get_time_ns clk (Some (dl_current_time l))) of Some t \<Rightarrow> t | None \<Rightarrow> 0)
      in obind (deref_capability (dl_table l) (dl_cap l) s) (\<lambda>ci.
           obind (dummy_fill 0 (unat (ci_metric_ids_list_len ci))
                    (case ci_metric_ids_list ci of Some ms \<Rightarrow> ms | None \<Rightarrow> []) now (l\<lparr>dl_current_time := now\<rparr>) s) (\<lambda>(l1, s1).
             let (l2, s2) = dummy_stream now l1 s1
             in Ret (if g_is_thread_running s2
                     then l2\<lparr>dl_slept := unat (rq_streaming_rate (dl_request l2)) * 1000\<rparr> else l2, s2))))"

text \<open>After the loop the string buffers, the responses and the data are freed.\<close>

definition dummy_thread_finish :: "dummy_local \<Rightarrow> dummy_state \<Rightarrow> dummy_state outcome" where
  "dummy_thread_finish l s = Ret s"

definition dummy_thread :: "clock_reading \<Rightarrow> (dummy_local, dummy_state) thread_code" where
  "dummy_thread clk = \<lparr>th_entry = dummy_thread_entry clk, th_finish = dummy_thread_finish\<rparr>"

definition dummy_stop :: "clock_reading \<Rightarrow> QcPerfRequest option \<Rightarrow> dummy_state \<Rightarrow> (QcPerfReturnCode \<times> dummy_state) outcome" where
  "dummy_stop clk request s0 =
     (let s = DUMMY_SEND LEVEL_INFO ''Stopping profiling'' s0
      in case request of
           None \<Rightarrow> Ret (NULL_POINTER, s)
         | Some _ \<Rightarrow>
             if g_is_thread_running s
             then obind (thread_join (wait_exit (dummy_thread clk)) (Some (g_thread_info s)) (s\<lparr>g_is_thread_running := False\<rparr>))
                    (\<lambda>(jr, s1).
                      if jr = QTHREAD_JOIN_SUCCESS
                      then obind (thread_destroy (Some (g_thread_info s1))) (\<lambda>(dr, ti).
                             let s2 = s1\<lparr>g_thread_info := (case ti of Some i \<Rightarrow> i | None \<Rightarrow> g_thread_info s1)\<rparr>
                             in if dr = QTHREAD_DESTROY_SUCCESS
                                then Ret (SUCCESS, DUMMY_SEND LEVEL_INFO ''Performance monitoring thread stopped successfully'' s2)
                                else Ret (FAILED, DUMMY_SEND LEVEL_ERROR ''Failed to destroy thread handle'' s2))
                      else Ret (FAILED, DUMMY_SEND LEVEL_ERROR ''Failed to join thread'' s1))
             else Ret (SUCCESS, DUMMY_SEND LEVEL_INFO ''Performance monitoring thread is not running'' s))"

definition dummy_deinit :: "dummy_state \<Rightarrow> QcPerfReturnCode \<times> dummy_state" where
  "dummy_deinit s =
     (SUCCESS, DUMMY_SEND LEVEL_INFO ''Dummy backend deinitialized successfully''
        (dummy_free (DUMMY_SEND LEVEL_INFO ''Deinitializing dummy backend'' s)))"

definition qcperf_dummy_create :: "clock_reading \<Rightarrow> dummy_state backend_init_t" where
  "qcperf_dummy_create clk backend =
     (case backend of
        None \<Rightarrow> (NULL_POINTER, None)
      | Some p \<Rightarrow> (SUCCESS, Some (p\<lparr>
          qcperf_backend_init := Some dummy_init,
          qcperf_backend_start := Some dummy_start,
          qcperf_backend_stop := Some (dummy_stop clk),
          qcperf_backend_deinit := Some (\<lambda>s. Ret (dummy_deinit s)),
          qcperf_backend_info := Some (\<lambda>i s. Ret (dummy_backend_info i s)),
          set_message_callback := Some (\<lambda>cb s. Ret (dummy_set_message_callback cb s)),
          set_data_callback := Some (\<lambda>cb s. Ret (dummy_set_data_callback cb s))\<rparr>)))"

end
