(* ===== verification/SessionLaws.thy ===== *)
theory SessionLaws
  imports Session
begin

text \<open>
  The contract of the backends whose collection thread raises the running flag itself (dummy,
  qcom-linux-cpu, linux-thermal), as the locale \<open>session_backend\<close>, and what follows from it: API
  calls never get stuck waiting for a thread as long as the flag belongs to the thread of the handle
  (\<open>stoppable\<close>), and a client that does not start a session before the thread of the last one has
  ended keeps exactly one thread alive (\<open>orderly\<close>).
\<close>

named_theorems control_simps \<open>functions that leave flag, handle and threads alone\<close>

fun is_spawned :: "'l thread_status \<Rightarrow> bool" where
  "is_spawned (Spawned _) = True"
| "is_spawned (Running _) = False"
| "is_spawned Exited = False"

definition same_control :: "('l, 'x) session_scheme \<Rightarrow> ('l, 'x) session_scheme \<Rightarrow> bool" where
  "same_control s s' \<longleftrightarrow> g_is_thread_running s' = g_is_thread_running s \<and>
     g_thread_info s' = g_thread_info s \<and> sn_threads s' = sn_threads s"

lemma same_control_refl [simp, control_simps]: "same_control s s"
  by (simp add: same_control_def)

lemma same_control_trans [trans]: "same_control s s' \<Longrightarrow> same_control s' s'' \<Longrightarrow> same_control s s''"
  by (simp add: same_control_def)

lemma same_control_post [control_simps]: "same_control s (post_message m s') = same_control s s'"
  by (simp add: same_control_def post_message_def split: option.splits)

lemma same_control_alloc [control_simps]: "same_control s (snd (alloc s')) = same_control s s'"
  by (simp add: same_control_def alloc_def split: prod.splits)

lemma alloc_fields [simp]:
  "g_is_thread_running (snd (alloc s)) = g_is_thread_running s"
  "g_thread_info (snd (alloc s)) = g_thread_info s"
  "sn_threads (snd (alloc s)) = sn_threads s"
  "g_backend_info (snd (alloc s)) = g_backend_info s"
  "sn_table (snd (alloc s)) = sn_table s"
  "g_data_callback (snd (alloc s)) = g_data_callback s"
  "sn_data (snd (alloc s)) = sn_data s"
  by (simp_all add: alloc_def split: prod.splits)

lemma alloc_eq: "alloc s = (ok, s') \<Longrightarrow> ok = fst (calloc_ok (sn_faults s)) \<and> s' = s\<lparr>sn_faults := snd (calloc_ok (sn_faults s))\<rparr>"
  by (auto simp: alloc_def split: prod.splits)

lemma alloc_pair: "alloc s = (fst (calloc_ok (sn_faults s)), s\<lparr>sn_faults := snd (calloc_ok (sn_faults s))\<rparr>)"
  by (simp add: alloc_def split: prod.splits)

definition stoppable :: "('l, 'x) session_scheme \<Rightarrow> bool" where
  "stoppable s \<longleftrightarrow> (g_is_thread_running s \<longrightarrow>
     (case th_handle (g_thread_info s) of
        Thread t \<Rightarrow> t < length (sn_threads s) \<and> \<not> is_spawned (sn_threads s ! t)
      | _ \<Rightarrow> False))"

text \<open>Only the thread of the handle may be alive.\<close>

definition orderly :: "('l, 'x) session_scheme \<Rightarrow> bool" where
  "orderly s \<longleftrightarrow> stoppable s \<and>
     (\<forall>t<length (sn_threads s). sn_threads s ! t \<noteq> Exited \<longrightarrow> th_handle (g_thread_info s) = Thread t)"

definition all_ended :: "('l, 'x) session_scheme \<Rightarrow> bool" where
  "all_ended s \<longleftrightarrow> (\<forall>t<length (sn_threads s). sn_threads s ! t = Exited)"

lemma stoppable_cong: "same_control s s' \<Longrightarrow> stoppable s' = stoppable s"
  by (auto simp: same_control_def stoppable_def split: thread_handle.splits)

lemma orderly_cong: "same_control s s' \<Longrightarrow> orderly s' = orderly s"
  using stoppable_cong [of s s'] by (simp add: same_control_def orderly_def)

lemma orderly_initial [simp]: "orderly (initial_session faults)"
  by (simp add: orderly_def stoppable_def initial_session_def)

text \<open>A start that created a thread, and a stop that joined one.\<close>

definition spawned :: "('l, 'x) session_scheme \<Rightarrow> ('l, 'x) session_scheme \<Rightarrow> bool" where
  "spawned s s' \<longleftrightarrow> \<not> g_is_thread_running s \<and> \<not> g_is_thread_running s' \<and>
     th_handle (g_thread_info s') = Thread (length (sn_threads s)) \<and>
     (\<exists>r. sn_threads s' = sn_threads s @ [Spawned r])"

text \<open>A start that created none, where \<open>CreateThread\<close> may have cleared the handle.\<close>

definition unspawned :: "('l, 'x) session_scheme \<Rightarrow> ('l, 'x) session_scheme \<Rightarrow> bool" where
  "unspawned s s' \<longleftrightarrow> same_control s s' \<or>
     \<not> g_is_thread_running s \<and> \<not> g_is_thread_running s' \<and> sn_threads s' = sn_threads s"

lemma unspawned_same [intro]: "same_control s s' \<Longrightarrow> unspawned s s'"
  by (simp add: unspawned_def)

definition joined :: "nat \<Rightarrow> ('l, 'x) session_scheme \<Rightarrow> ('l, 'x) session_scheme \<Rightarrow> bool" where
  "joined t s s' \<longleftrightarrow> \<not> g_is_thread_running s' \<and> th_handle (g_thread_info s') = NoThread \<and>
     sn_threads s' = (sn_threads s)[t := Exited]"

text \<open>One step of a session: a call of the client, or of the scheduler, with its environment \<open>e\<close>.\<close>

datatype 'e session_event =
    CallStart "QcPerfRequest option"
  | CallStop 'e "QcPerfRequest option"
  | Begin 'e nat
  | Iterate 'e nat
  | Leave 'e nat

fun session_step ::
  "(QcPerfRequest option \<Rightarrow> ('l, 'x) session_scheme \<Rightarrow> (QcPerfReturnCode \<times> ('l, 'x) session_scheme) outcome)
   \<Rightarrow> ('e \<Rightarrow> QcPerfRequest option \<Rightarrow> ('l, 'x) session_scheme \<Rightarrow> (QcPerfReturnCode \<times> ('l, 'x) session_scheme) outcome)
   \<Rightarrow> ('e \<Rightarrow> ('l, ('l, 'x) session_scheme) thread_code)
   \<Rightarrow> ('e \<Rightarrow> 'l \<Rightarrow> ('l, 'x) session_scheme \<Rightarrow> ('l \<times> ('l, 'x) session_scheme) outcome)
   \<Rightarrow> 'e session_event \<Rightarrow> ('l, 'x) session_scheme \<Rightarrow> ('l, 'x) session_scheme outcome" where
  "session_step start stop code body (CallStart r) s = obind (start r s) (\<lambda>(_, s'). Ret s')"
| "session_step start stop code body (CallStop e r) s = obind (stop e r s) (\<lambda>(_, s'). Ret s')"
| "session_step start stop code body (Begin e t) s = thread_begin (code e) t s"
| "session_step start stop code body (Iterate e t) s = thread_iterate (body e) t s"
| "session_step start stop code body (Leave e t) s = thread_leave (code e) t s"

text \<open>
  The discipline: start only when no thread is left, or while the flag is up (the call is refused);
  the scheduler runs threads that exist.
\<close>

fun disciplined :: "'e session_event \<Rightarrow> ('l, 'x) session_scheme \<Rightarrow> bool" where
  "disciplined (CallStart r) s = (all_ended s \<or> g_is_thread_running s)"
| "disciplined (CallStop e r) s = True"
| "disciplined (Begin e t) s = (t < length (sn_threads s))"
| "disciplined (Iterate e t) s = (t < length (sn_threads s))"
| "disciplined (Leave e t) s = (t < length (sn_threads s))"

text \<open>\<open>Some s'\<close> when every event was disciplined and none ran into a hazard.\<close>

fun session_run ::
  "('e session_event \<Rightarrow> ('l, 'x) session_scheme \<Rightarrow> ('l, 'x) session_scheme outcome)
   \<Rightarrow> 'e session_event list \<Rightarrow> ('l, 'x) session_scheme \<Rightarrow> ('l, 'x) session_scheme option" where
  "session_run step [] s = Some s"
| "session_run step (ev # evs) s =
     (if disciplined ev s then (case step ev s of Ret s' \<Rightarrow> session_run step evs s' | Stuck _ \<Rightarrow> None) else None)"

section \<open>Frames of the thread operations\<close>

lemma put_thread_fields [simp]:
  "g_is_thread_running (put_thread t st s) = g_is_thread_running s"
  "g_thread_info (put_thread t st s) = g_thread_info s"
  "sn_threads (put_thread t st s) = (sn_threads s)[t := st]"
  "g_backend_info (put_thread t st s) = g_backend_info s"
  "sn_table (put_thread t st s) = sn_table s"
  "g_message_callback (put_thread t st s) = g_message_callback s"
  "g_data_callback (put_thread t st s) = g_data_callback s"
  "sn_data (put_thread t st s) = sn_data s"
  by (simp_all add: put_thread_def)

lemma put_thread_handle [simp]:
  "th_handle (g_thread_info (put_thread t st s)) = th_handle (g_thread_info s)"
  by simp

lemma stoppable_put:
  assumes "stoppable s" "\<not> is_spawned st"
  shows "stoppable (put_thread t st s)"
  using assms by (auto simp: stoppable_def nth_list_update_if split: thread_handle.splits)

lemma orderly_put:
  assumes o: "orderly s" and a: "t < length (sn_threads s)" "sn_threads s ! t \<noteq> Exited"
    and st: "\<not> is_spawned st"
    and e: "g_thread_info s' = g_thread_info s" "sn_threads s' = sn_threads s"
  shows "orderly (put_thread t st s')"
proof -
  have h: "th_handle (g_thread_info s) = Thread t" using o a by (simp add: orderly_def)
  have others: "\<And>u. u < length (sn_threads s) \<Longrightarrow> u \<noteq> t \<Longrightarrow> sn_threads s ! u = Exited"
    using o h by (auto simp: orderly_def)
  have "stoppable (put_thread t st s')"
    using h a st e by (simp add: stoppable_def)
  then show ?thesis
    using h others e by (auto simp: orderly_def nth_list_update_if split: if_splits)
qed

text \<open>After a stop that joined the thread of the handle none is left.\<close>

lemma orderly_joined:
  assumes "orderly s" "th_handle (g_thread_info s) = Thread t" "joined t s s'"
  shows "orderly s'"
  using assms by (auto simp: joined_def orderly_def stoppable_def nth_list_update_if)

section \<open>The contract\<close>

text \<open>The part of the contract that is not about \<open>stop\<close>.\<close>

locale session_code =
  fixes start :: "QcPerfRequest option \<Rightarrow> ('l, 'x) session_scheme \<Rightarrow> (QcPerfReturnCode \<times> ('l, 'x) session_scheme) outcome"
    and code :: "'e \<Rightarrow> ('l, ('l, 'x) session_scheme) thread_code"
    and body :: "'e \<Rightarrow> 'l \<Rightarrow> ('l, 'x) session_scheme \<Rightarrow> ('l \<times> ('l, 'x) session_scheme) outcome"
  assumes start_law: "start r s = Ret (rc, s') \<Longrightarrow>
            (if rc = SUCCESS then spawned s s' else unspawned s s')"
    and entry_law: "th_entry (code e) r s = Ret (lo, s') \<Longrightarrow>
            g_thread_info s' = g_thread_info s \<and> sn_threads s' = sn_threads s"
    and body_law: "body e l s = Ret (l', s') \<Longrightarrow> same_control s s'"
    and finish_law: "\<not> g_is_thread_running s \<Longrightarrow> th_finish (code e) l s = Ret s' \<Longrightarrow> same_control s s'"
begin

lemma stoppable_start: "stoppable s \<Longrightarrow> start r s = Ret (rc, s') \<Longrightarrow> stoppable s'"
  using start_law [of r s rc s'] stoppable_cong [of s s']
  by (auto simp: spawned_def unspawned_def stoppable_def split: if_splits)

text \<open>Every step but \<open>stop\<close>.\<close>

lemma orderly_code:
  assumes o: "orderly s" and d: "disciplined ev s" and n: "\<And>e r. ev \<noteq> CallStop e r"
    and r: "session_step start stop code body ev s = Ret s'"
  shows "orderly s'"
proof (cases ev)
  case (CallStart q)
  then obtain rc where st: "start q s = Ret (rc, s')" using r by (auto simp: outcome_simps)
  show ?thesis
  proof (cases "rc = SUCCESS")
    case False
    then consider "same_control s s'" | "\<not> g_is_thread_running s" "\<not> g_is_thread_running s'" "sn_threads s' = sn_threads s"
      using start_law [OF st] by (auto simp: unspawned_def)
    then show ?thesis
    proof cases
      case 1
      then show ?thesis using orderly_cong o by blast
    next
      case 2
      then show ?thesis using d CallStart by (simp add: orderly_def stoppable_def all_ended_def)
    qed
  next
    case True
    then have sp: "spawned s s'" using start_law [OF st] by simp
    then have "all_ended s" using d CallStart by (auto simp: spawned_def)
    then show ?thesis
      using sp by (auto simp: spawned_def orderly_def stoppable_def all_ended_def nth_append less_Suc_eq)
  qed
next
  case (CallStop e q)
  then show ?thesis using n by simp
next
  case (Begin e t)
  show ?thesis
  proof (cases "sn_threads s ! t")
    case (Spawned x)
    then obtain l s1 where en: "th_entry (code e) x s = Ret (l, s1)"
      and s': "s' = put_thread t (case l of None \<Rightarrow> Exited | Some l \<Rightarrow> Running l) s1"
      using r Begin by (auto simp: thread_begin_def outcome_simps)
    show ?thesis
      unfolding s' using o d Begin Spawned entry_law [OF en]
      by (intro orderly_put [OF o]) (auto split: option.splits)
  qed (use r o Begin in \<open>auto simp: thread_begin_def\<close>)
next
  case (Iterate e t)
  show ?thesis
  proof (cases "\<exists>l. sn_threads s ! t = Running l \<and> g_is_thread_running s")
    case True
    then obtain l l' s1 where b: "sn_threads s ! t = Running l" "body e l s = Ret (l', s1)"
      and s': "s' = put_thread t (Running l') s1"
      using r Iterate by (auto simp: thread_iterate_def outcome_simps)
    show ?thesis
      unfolding s' using o d Iterate b body_law [OF b(2)]
      by (intro orderly_put [OF o]) (auto simp: same_control_def)
  next
    case False
    then show ?thesis using r o Iterate by (auto simp: thread_iterate_def split: thread_status.splits)
  qed
next
  case (Leave e t)
  show ?thesis
  proof (cases "\<exists>l. sn_threads s ! t = Running l \<and> \<not> g_is_thread_running s")
    case True
    then obtain l s1 where b: "sn_threads s ! t = Running l" "th_finish (code e) l s = Ret s1" and dn: "\<not> g_is_thread_running s"
      and s': "s' = put_thread t Exited s1"
      using r Leave by (auto simp: thread_leave_def outcome_simps)
    show ?thesis
      unfolding s' using o d Leave b finish_law [OF dn b(2)]
      by (intro orderly_put [OF o]) (auto simp: same_control_def)
  next
    case False
    then show ?thesis using r o Leave by (auto simp: thread_leave_def split: thread_status.splits)
  qed
qed

end

locale session_backend = session_code start code body
  for start :: "QcPerfRequest option \<Rightarrow> ('l, 'x) session_scheme \<Rightarrow> (QcPerfReturnCode \<times> ('l, 'x) session_scheme) outcome"
    and stop :: "'e \<Rightarrow> QcPerfRequest option \<Rightarrow> ('l, 'x) session_scheme \<Rightarrow> (QcPerfReturnCode \<times> ('l, 'x) session_scheme) outcome"
    and code :: "'e \<Rightarrow> ('l, ('l, 'x) session_scheme) thread_code"
    and body :: "'e \<Rightarrow> 'l \<Rightarrow> ('l, 'x) session_scheme \<Rightarrow> ('l \<times> ('l, 'x) session_scheme) outcome" +
  assumes stop_down: "\<not> g_is_thread_running s \<or> r = None \<Longrightarrow> \<exists>rc s'. stop e r s = Ret (rc, s') \<and> same_control s s'"
    and stop_up: "g_is_thread_running s \<Longrightarrow> th_handle (g_thread_info s) = Thread t \<Longrightarrow>
            t < length (sn_threads s) \<Longrightarrow> \<not> is_spawned (sn_threads s ! t) \<Longrightarrow>
            \<exists>s'. stop e (Some q) s = Ret (SUCCESS, s') \<and> joined t s s'"
begin

lemma stop_cases:
  assumes "stoppable s"
  shows "\<exists>rc s'. stop e r s = Ret (rc, s') \<and>
           (if g_is_thread_running s \<and> r \<noteq> None
            then rc = SUCCESS \<and> (\<exists>t. th_handle (g_thread_info s) = Thread t \<and> joined t s s') else same_control s s')"
proof (cases "g_is_thread_running s \<and> r \<noteq> None")
  case False
  then show ?thesis using stop_down [of s r e] by auto
next
  case True
  then obtain t q where "th_handle (g_thread_info s) = Thread t" "t < length (sn_threads s)"
    "\<not> is_spawned (sn_threads s ! t)" "r = Some q"
    using assms by (auto simp: stoppable_def split: thread_handle.splits)
  then show ?thesis using True stop_up [of s t e q] by auto
qed

lemma stoppable_stop:
  assumes "stoppable s"
  shows "\<exists>rc s'. stop e r s = Ret (rc, s') \<and> stoppable s'"
  using stop_cases [OF assms, of e r] assms stoppable_cong
  by (fastforce simp: joined_def stoppable_def split: if_splits)

text \<open>After a stop that lowered the flag no thread is left.\<close>

lemma stop_ends_all:
  assumes o: "orderly s" and f: "g_is_thread_running s" and r: "stop e (Some q) s = Ret (rc, s')"
  shows "rc = SUCCESS \<and> all_ended s' \<and> \<not> g_is_thread_running s' \<and> th_handle (g_thread_info s') = NoThread"
proof -
  have "stoppable s" using o by (simp add: orderly_def)
  from stop_cases [OF this, of e "Some q"] f r
  obtain t where "rc = SUCCESS" "th_handle (g_thread_info s) = Thread t" "joined t s s'" by auto
  then show ?thesis
    using o by (auto simp: joined_def orderly_def all_ended_def nth_list_update_if)
qed

lemma orderly_step:
  assumes o: "orderly s" and d: "disciplined ev s"
    and r: "session_step start stop code body ev s = Ret s'"
  shows "orderly s'"
proof (cases "\<exists>e q. ev = CallStop e q")
  case False
  then show ?thesis using orderly_code [OF o d _ r] by blast
next
  case True
  then obtain e q rc where st: "stop e q s = Ret (rc, s')" using r by (auto simp: outcome_simps)
  have "stoppable s" using o by (simp add: orderly_def)
  from stop_cases [OF this, of e q] st orderly_joined [OF o] orderly_cong [of s s'] o show ?thesis
    by (auto split: if_splits)
qed

lemma orderly_run:
  "orderly s \<Longrightarrow> session_run (session_step start stop code body) evs s = Some s' \<Longrightarrow> orderly s'"
proof (induction evs arbitrary: s)
  case (Cons ev evs)
  then obtain s1 where d: "disciplined ev s"
    and s1: "session_step start stop code body ev s = Ret s1" "session_run (session_step start stop code body) evs s1 = Some s'"
    by (auto split: if_splits outcome.splits)
  show ?case by (rule Cons.IH [OF orderly_step [OF Cons.prems(1) d s1(1)] s1(2)])
qed simp

text \<open>At the end of a disciplined run one stop is enough, and it comes back.\<close>

lemma run_then_stop:
  assumes o: "orderly s" and r: "session_run (session_step start stop code body) evs s = Some s'"
  shows "\<exists>rc s''. stop e (Some q) s' = Ret (rc, s'') \<and>
           (g_is_thread_running s' \<longrightarrow> rc = SUCCESS \<and> all_ended s'' \<and> \<not> g_is_thread_running s'')"
proof -
  have o': "orderly s'" using orderly_run [OF o r] .
  then have "stoppable s'" by (simp add: orderly_def)
  then obtain rc s'' where st: "stop e (Some q) s' = Ret (rc, s'')"
    using stoppable_stop by blast
  then show ?thesis using stop_ends_all [OF o' _ st] by auto
qed

end

section \<open>Sessions owned by their handle\<close>

text \<open>
  qcom-linux-gpu raises the flag before it creates the thread and decides by the handle: its contract
  needs no discipline of the client.
\<close>

definition owned :: "(QcPerfRequest option \<Rightarrow> bool) \<Rightarrow> ('l, 'x) session_scheme \<Rightarrow> bool" where
  "owned good s \<longleftrightarrow>
     (case th_handle (g_thread_info s) of
        Thread t \<Rightarrow> t < length (sn_threads s) \<and> (\<forall>q. sn_threads s ! t = Spawned q \<longrightarrow> good q)
      | NoThread \<Rightarrow> \<not> g_is_thread_running s
      | StackAddress \<Rightarrow> False) \<and>
     (\<forall>t<length (sn_threads s). sn_threads s ! t \<noteq> Exited \<longrightarrow> th_handle (g_thread_info s) = Thread t)"

lemma owned_initial [simp]: "owned good (initial_session faults)"
  by (simp add: owned_def initial_session_def zero_thread_info_def)

lemma owned_cong: "same_control s s' \<Longrightarrow> owned good s' = owned good s"
  by (auto simp: same_control_def owned_def split: thread_handle.splits)

fun event_valid :: "'e session_event \<Rightarrow> ('l, 'x) session_scheme \<Rightarrow> bool" where
  "event_valid (CallStart r) s = True"
| "event_valid (CallStop e r) s = True"
| "event_valid (Begin e t) s = (t < length (sn_threads s))"
| "event_valid (Iterate e t) s = (t < length (sn_threads s))"
| "event_valid (Leave e t) s = (t < length (sn_threads s))"

fun free_run ::
  "('e session_event \<Rightarrow> ('l, 'x) session_scheme \<Rightarrow> ('l, 'x) session_scheme outcome)
   \<Rightarrow> 'e session_event list \<Rightarrow> ('l, 'x) session_scheme \<Rightarrow> ('l, 'x) session_scheme option" where
  "free_run step [] s = Some s"
| "free_run step (ev # evs) s =
     (if event_valid ev s then (case step ev s of Ret s' \<Rightarrow> free_run step evs s' | Stuck _ \<Rightarrow> None) else None)"

lemma owned_put:
  assumes o: "owned good s" and a: "t < length (sn_threads s)" "sn_threads s ! t \<noteq> Exited"
    and st: "\<not> is_spawned st"
    and e: "g_thread_info s' = g_thread_info s" "sn_threads s' = sn_threads s"
  shows "owned good (put_thread t st s')"
proof -
  have h: "th_handle (g_thread_info s) = Thread t" using o a by (simp add: owned_def)
  have others: "\<And>u. u < length (sn_threads s) \<Longrightarrow> u \<noteq> t \<Longrightarrow> sn_threads s ! u = Exited"
    using o h by (auto simp: owned_def)
  have "\<And>q. st \<noteq> Spawned q" using st by auto
  then show ?thesis
    using h a e by (simp add: owned_def nth_list_update_if others)
qed

locale owned_backend =
  fixes start :: "QcPerfRequest option \<Rightarrow> ('l, 'x) session_scheme \<Rightarrow> (QcPerfReturnCode \<times> ('l, 'x) session_scheme) outcome"
    and stop :: "'e \<Rightarrow> QcPerfRequest option \<Rightarrow> ('l, 'x) session_scheme \<Rightarrow> (QcPerfReturnCode \<times> ('l, 'x) session_scheme) outcome"
    and code :: "'e \<Rightarrow> ('l, ('l, 'x) session_scheme) thread_code"
    and body :: "'e \<Rightarrow> 'l \<Rightarrow> ('l, 'x) session_scheme \<Rightarrow> ('l \<times> ('l, 'x) session_scheme) outcome"
    and good :: "QcPerfRequest option \<Rightarrow> bool"
  assumes start_law: "start r s = Ret (rc, s') \<Longrightarrow>
            (if rc = SUCCESS
             then th_handle (g_thread_info s) = NoThread \<and> th_handle (g_thread_info s') = Thread (length (sn_threads s)) \<and>
                  (\<exists>q. good q \<and> sn_threads s' = sn_threads s @ [Spawned q])
             else g_thread_info s' = g_thread_info s \<and> sn_threads s' = sn_threads s \<and>
                  (g_is_thread_running s' \<longrightarrow> g_is_thread_running s))"
    and stop_none: "th_handle (g_thread_info s) = NoThread \<or> r = None \<Longrightarrow>
            \<exists>rc s'. stop e r s = Ret (rc, s') \<and> same_control s s'"
    and stop_join: "th_handle (g_thread_info s) = Thread t \<Longrightarrow> t < length (sn_threads s) \<Longrightarrow>
            (\<And>x. sn_threads s ! t = Spawned x \<Longrightarrow> good x) \<Longrightarrow>
            \<exists>s'. stop e (Some q) s = Ret (SUCCESS, s') \<and> joined t s s'"
    and entry_law: "th_entry (code e) r s = Ret (lo, s') \<Longrightarrow>
            g_thread_info s' = g_thread_info s \<and> sn_threads s' = sn_threads s"
    and body_law: "body e l s = Ret (l', s') \<Longrightarrow> same_control s s'"
    and finish_law: "\<not> g_is_thread_running s \<Longrightarrow> th_finish (code e) l s = Ret s' \<Longrightarrow> same_control s s'"
begin

lemma owned_start:
  assumes o: "owned good s" and r: "start q s = Ret (rc, s')"
  shows "owned good s'"
  using start_law [OF r] o
  by (auto simp: owned_def nth_append less_Suc_eq split: if_splits thread_handle.splits)

lemma stop_result:
  assumes o: "owned good s"
  shows "\<exists>rc s'. stop e r s = Ret (rc, s') \<and> owned good s' \<and>
     (r \<noteq> None \<and> th_handle (g_thread_info s) \<noteq> NoThread \<longrightarrow> rc = SUCCESS) \<and>
     (r \<noteq> None \<longrightarrow> all_ended s' \<and> \<not> g_is_thread_running s' \<and> th_handle (g_thread_info s') = NoThread)"
proof (cases "th_handle (g_thread_info s) = NoThread \<or> r = None")
  case True
  then obtain rc s' where s': "stop e r s = Ret (rc, s')" "same_control s s'" using stop_none by blast
  have c: "owned good s'" using owned_cong [OF s'(2)] o by simp
  have "all_ended s' \<and> \<not> g_is_thread_running s' \<and> th_handle (g_thread_info s') = NoThread" if "r \<noteq> None"
  proof -
    have h: "th_handle (g_thread_info s) = NoThread" using True that by simp
    have "all_ended s" "\<not> g_is_thread_running s" using o h by (auto simp: owned_def all_ended_def)
    then show ?thesis using s'(2) h by (simp add: same_control_def all_ended_def)
  qed
  then show ?thesis using s'(1) c True by auto
next
  case False
  then obtain t q where t: "th_handle (g_thread_info s) = Thread t" "t < length (sn_threads s)"
    "\<And>x. sn_threads s ! t = Spawned x \<Longrightarrow> good x" and q: "r = Some q"
    using o by (auto simp: owned_def split: thread_handle.splits)
  obtain s' where s': "stop e (Some q) s = Ret (SUCCESS, s')" "joined t s s'" using stop_join [OF t] by blast
  then have "all_ended s'" using o t by (auto simp: owned_def joined_def all_ended_def nth_list_update_if)
  moreover from this have "owned good s'" using s' by (auto simp: owned_def joined_def all_ended_def)
  ultimately show ?thesis using s' q by (auto simp: joined_def)
qed

lemma owned_step:
  assumes o: "owned good s" and d: "event_valid ev s"
    and r: "session_step start stop code body ev s = Ret s'"
  shows "owned good s'"
proof (cases ev)
  case (CallStart q)
  then show ?thesis using r owned_start [OF o] by (auto simp: outcome_simps)
next
  case (CallStop e q)
  then show ?thesis using r stop_result [OF o, of e q] by (auto simp: outcome_simps)
next
  case (Begin e t)
  show ?thesis
  proof (cases "sn_threads s ! t")
    case (Spawned x)
    then obtain l s1 where en: "th_entry (code e) x s = Ret (l, s1)"
      and s': "s' = put_thread t (case l of None \<Rightarrow> Exited | Some l \<Rightarrow> Running l) s1"
      using r Begin by (auto simp: thread_begin_def outcome_simps)
    show ?thesis
      unfolding s' using o d Begin Spawned entry_law [OF en]
      by (intro owned_put [OF o]) (auto split: option.splits)
  qed (use r o Begin in \<open>auto simp: thread_begin_def\<close>)
next
  case (Iterate e t)
  show ?thesis
  proof (cases "\<exists>l. sn_threads s ! t = Running l \<and> g_is_thread_running s")
    case True
    then obtain l l' s1 where b: "sn_threads s ! t = Running l" "body e l s = Ret (l', s1)"
      and s': "s' = put_thread t (Running l') s1"
      using r Iterate by (auto simp: thread_iterate_def outcome_simps)
    show ?thesis
      unfolding s' using o d Iterate b body_law [OF b(2)]
      by (intro owned_put [OF o]) (auto simp: same_control_def)
  next
    case False
    then show ?thesis using r o Iterate by (auto simp: thread_iterate_def split: thread_status.splits)
  qed
next
  case (Leave e t)
  show ?thesis
  proof (cases "\<exists>l. sn_threads s ! t = Running l \<and> \<not> g_is_thread_running s")
    case True
    then obtain l s1 where b: "sn_threads s ! t = Running l" "th_finish (code e) l s = Ret s1" and dn: "\<not> g_is_thread_running s"
      and s': "s' = put_thread t Exited s1"
      using r Leave by (auto simp: thread_leave_def outcome_simps)
    show ?thesis
      unfolding s' using o d Leave b finish_law [OF dn b(2)]
      by (intro owned_put [OF o]) (auto simp: same_control_def)
  next
    case False
    then show ?thesis using r o Leave by (auto simp: thread_leave_def split: thread_status.splits)
  qed
qed

lemma owned_run:
  "owned good s \<Longrightarrow> free_run (session_step start stop code body) evs s = Some s' \<Longrightarrow> owned good s'"
proof (induction evs arbitrary: s)
  case (Cons ev evs)
  then obtain s1 where d: "event_valid ev s"
    and s1: "session_step start stop code body ev s = Ret s1" "free_run (session_step start stop code body) evs s1 = Some s'"
    by (auto split: if_splits outcome.splits)
  show ?case by (rule Cons.IH [OF owned_step [OF Cons.prems(1) d s1(1)] s1(2)])
qed simp

end

section \<open>Capability tables\<close>

text \<open>
  Laws about tables that every backend shares: the length field fits the table and every entry
  keeps its own bounds.
\<close>

definition no_table :: "('l, 'x) session_scheme \<Rightarrow> bool" where
  "no_table s \<longleftrightarrow> bi_capabilities_list (g_backend_info s) = None \<and> bi_capabilities_list_length (g_backend_info s) = 0"

definition table_ok :: "('l, 'x) session_scheme \<Rightarrow> bool" where
  "table_ok s \<longleftrightarrow> backend_info_ok (g_backend_info s) \<and>
     (\<forall>cs. bi_capabilities_list (g_backend_info s) = Some cs \<longrightarrow> (\<forall>c \<in> set cs. capability_ok c))"

lemma table_ok_cong: "g_backend_info s' = g_backend_info s \<Longrightarrow> table_ok s' = table_ok s"
  by (simp add: table_ok_def)

lemma table_ok_initial [simp]: "table_ok (initial_session faults)"
  by (simp add: table_ok_def initial_session_def zero_backend_info_def backend_info_ok_def)

lemma table_ok_find:
  assumes "table_ok s"
  shows "(find_capability k (g_backend_info s) = Ret None) \<or>
     (\<exists>j cs. find_capability k (g_backend_info s) = Ret (Some j) \<and> bi_capabilities_list (g_backend_info s) = Some cs \<and>
        j < length cs \<and> j < unat (bi_capabilities_list_length (g_backend_info s)) \<and>
        ci_capability_id (cs ! j) = k \<and> capability_ok (cs ! j) \<and>
        deref_capability (sn_table s) j s = Ret (cs ! j))"
proof -
  obtain r where r: "find_capability k (g_backend_info s) = Ret r"
    and j: "\<And>j. r = Some j \<Longrightarrow> \<exists>cs. bi_capabilities_list (g_backend_info s) = Some cs \<and> j < length cs \<and>
         j < unat (bi_capabilities_list_length (g_backend_info s)) \<and> ci_capability_id (cs ! j) = k"
    using find_capability_Ret [of "g_backend_info s" k] assms by (auto simp: table_ok_def)
  show ?thesis
  proof (cases r)
    case None
    then show ?thesis using r by simp
  next
    case (Some i)
    then obtain cs where "bi_capabilities_list (g_backend_info s) = Some cs" "i < length cs"
      "i < unat (bi_capabilities_list_length (g_backend_info s))" "ci_capability_id (cs ! i) = k"
      using j by blast
    moreover have "capability_ok (cs ! i)" using calculation assms by (auto simp: table_ok_def)
    ultimately show ?thesis using r Some by (auto simp: deref_capability_def)
  qed
qed

lemma samples_per_stream_bounds:
  assumes a: "1 \<le> unat (rq_sampling_rate rq)" and b: "1 \<le> unat (rq_streaming_rate rq)"
  shows "\<exists>sps. samples_per_stream rq = Ret sps \<and> 0 < sps \<and> unat sps \<le> unat (rq_streaming_rate rq) \<and>
     unat sps = (unat (rq_streaming_rate rq) + unat (rq_sampling_rate rq) - 1) div unat (rq_sampling_rate rq)"
proof -
  let ?a = "unat (rq_sampling_rate rq)" let ?b = "unat (rq_streaming_rate rq)"
  let ?n = "(?b + ?a - 1) div ?a"
  have "?b + ?a - 1 \<le> ?b * ?a"
    using a b by (cases "?b"; cases "?a") auto
  then have "?n \<le> (?b * ?a) div ?a" by (rule div_le_mono)
  then have n: "?n \<le> ?b" using a by simp
  have "?b < 2 ^ 16" using unsigned_less [where 'a = nat, of "rq_streaming_rate rq"] by simp
  then have u: "unat (of_nat ?n :: u32) = ?n"
    by (intro unat_of_nat_u32) (use n in simp)
  have "1 \<le> ?n" using a b by (simp add: Suc_leI div_greater_zero_iff)
  moreover have "rq_sampling_rate rq \<noteq> 0" using a by auto
  ultimately show ?thesis
    using n u by (auto simp: samples_per_stream_def word_gt_0 simp flip: unat_gt_0)
qed

lemma rate_scan_ok:
  "capability_ok c \<Longrightarrow> rate_scan r (unat (ci_sampling_rate_len c)) (ci_sampling_rate c) = Ret (r \<in> sampling_rates_of c)"
  "capability_ok c \<Longrightarrow> rate_scan r (unat (ci_streaming_rate_len c)) (ci_streaming_rate c) = Ret (r \<in> streaming_rates_of c)"
  by (simp_all add: rate_scan_Ret capability_ok_def sampling_rates_of_def streaming_rates_of_def)

lemma deref_capability_cong:
  "g_backend_info s' = g_backend_info s \<Longrightarrow> sn_table s' = sn_table s \<Longrightarrow>
     deref_capability e c s' = deref_capability e c s"
  by (simp add: deref_capability_def split: option.split)

lemma deref_capability_flag [simp]:
  "deref_capability e c (s\<lparr>g_is_thread_running := b\<rparr>) = deref_capability e c s"
  by (rule deref_capability_cong) simp_all

end
