(* ===== verification/DummyProps.thy ===== *)
theory DummyProps
  imports Dummy SessionLaws
begin

text \<open>
  Correctness of the dummy backend: the table its initialisation registers, the requests it accepts,
  the shape of the batches its thread delivers, and the session discipline, for which it instantiates
  the locale \<open>session_backend\<close>.
\<close>

section \<open>Frames\<close>

lemma DUMMY_SEND_fields [simp]:
  "g_is_thread_running (DUMMY_SEND lv t s) = g_is_thread_running s"
  "g_thread_info (DUMMY_SEND lv t s) = g_thread_info s"
  "sn_threads (DUMMY_SEND lv t s) = sn_threads s"
  "g_backend_info (DUMMY_SEND lv t s) = g_backend_info s"
  "sn_table (DUMMY_SEND lv t s) = sn_table s"
  "g_data_callback (DUMMY_SEND lv t s) = g_data_callback s"
  "g_message_callback (DUMMY_SEND lv t s) = g_message_callback s"
  "sn_data (DUMMY_SEND lv t s) = sn_data s"
  "sn_faults (DUMMY_SEND lv t s) = sn_faults s"
  "g_capability_1_metrics_data (DUMMY_SEND lv t s) = g_capability_1_metrics_data s"
  "g_capability_2_metrics_data (DUMMY_SEND lv t s) = g_capability_2_metrics_data s"
  by (simp_all add: DUMMY_SEND_def dummy_send_message_def post_message_def split: option.splits)

lemma same_control_send [control_simps, simp]:
  "same_control s (DUMMY_SEND lv t s') = same_control s s'"
  "same_control (DUMMY_SEND lv t s) s' = same_control s s'"
  by (simp_all add: same_control_def)

lemma dummy_validate_RetE:
  assumes "dummy_validate_request rq s = Ret (rc, s')"
  obtains lv t where "s' = DUMMY_SEND lv t s"
proof -
  obtain found where f: "find_capability (rq_capability_id rq) (g_backend_info s) = Ret found"
    using assms by (auto simp: dummy_validate_request_def outcome_simps)
  show thesis
  proof (cases found)
    case None
    then show thesis using assms f by (auto simp: dummy_validate_request_def Let_def intro: that)
  next
    case (Some i)
    note eq = assms [unfolded dummy_validate_request_def Let_def f obind.simps Some option.case]
    obtain ci sa where 1: "deref_capability (sn_table s) i s = Ret ci"
      "rate_scan (rq_sampling_rate rq) (unat (ci_sampling_rate_len ci)) (ci_sampling_rate ci) = Ret sa"
      using eq by (auto simp: outcome_simps)
    show thesis
    proof (cases sa)
      case False
      then show thesis using eq False unfolding 1 obind.simps by (auto intro: that)
    next
      case True
      note eq2 = eq [unfolded 1 obind.simps]
      obtain sb where 2: "rate_scan (rq_streaming_rate rq) (unat (ci_streaming_rate_len ci)) (ci_streaming_rate ci) = Ret sb"
        using eq2 True by (auto simp: outcome_simps)
      show thesis using eq2 True that unfolding 2 obind.simps by (auto split: if_splits)
    qed
  qed
qed

lemma dummy_start_law:
  assumes "dummy_start r s = Ret (rc, s')"
  shows "if rc = SUCCESS then spawned s s' else same_control s s'"
proof (cases r)
  case None
  then show ?thesis using assms by (auto simp: dummy_start_def Let_def)
next
  case (Some rq)
  let ?s = "DUMMY_SEND LEVEL_INFO ''Starting profiling'' s"
  obtain ret s1 where v: "dummy_validate_request rq ?s = Ret (ret, s1)"
    using assms Some by (auto simp: dummy_start_def Let_def outcome_simps)
  obtain lv t where s1: "s1 = DUMMY_SEND lv t ?s" using dummy_validate_RetE [OF v] by blast
  obtain tr s2 where sp: "spawn (dummy_thread_attrs rq) s1 = (tr, s2)" by (cases "spawn (dummy_thread_attrs rq) s1")
  have c: "same_control s s1" by (simp add: s1)
  show ?thesis
    using assms Some v sp c spawn_cases [OF sp]
    by (auto simp: dummy_start_def Let_def spawned_def same_control_def split: if_splits)
qed

lemma dummy_alloc_strings_control:
  "dummy_alloc_strings i n rs s = (rs', s') \<Longrightarrow>
     g_thread_info s' = g_thread_info s \<and> sn_threads s' = sn_threads s \<and> g_backend_info s' = g_backend_info s \<and>
     sn_table s' = sn_table s \<and> g_data_callback s' = g_data_callback s \<and> sn_data s' = sn_data s"
  by (induction i n rs s rule: dummy_alloc_strings.induct) (auto simp: Let_def alloc_pair split: if_splits prod.splits)

lemma dummy_entry_RetE:
  assumes "dummy_thread_entry clk r s = Ret (l, s')"
  obtains (no_param) lv x where "r = None" "l = None" "s' = DUMMY_SEND lv x s"
  | (no_cap) lv x where "r \<noteq> None" "l = None" "s' = (DUMMY_SEND lv x (s\<lparr>g_is_thread_running := True\<rparr>))\<lparr>g_is_thread_running := False\<rparr>"
  | (no_memory) lv x f where "r \<noteq> None" "l = None" "s' = DUMMY_SEND lv x (s\<lparr>g_is_thread_running := True, sn_faults := f\<rparr>)"
  | (running) rq c ci sps f rs lc where "r = Some rq" "l = Some lc"
      "find_capability (rq_capability_id rq) (g_backend_info s) = Ret (Some c)"
      "deref_capability (sn_table s) c (s\<lparr>g_is_thread_running := True\<rparr>) = Ret ci" "samples_per_stream rq = Ret sps"
      "dummy_alloc_strings 0 (unat (sps * ucast (ci_metric_ids_list_len ci)))
          (replicate (unat (sps * ucast (ci_metric_ids_list_len ci))) zero_response)
          (s\<lparr>g_is_thread_running := True, sn_faults := f\<rparr>) = (rs, s')"
      "dl_request lc = rq" "dl_table lc = sn_table s" "dl_cap lc = c" "dl_samples_per_stream lc = sps"
      "dl_total_metrics lc = sps * ucast (ci_metric_ids_list_len ci)"
      "dl_streaming_rate_ns lc = ucast (rq_streaming_rate rq) * 1000000"
      "dl_data lc = \<lparr>pd_backend_id = 0, pd_capability_id = rq_capability_id rq,
                    pd_metric_response = rs, pd_metric_response_len = 0\<rparr>" "dl_sample_count lc = 0"
proof (cases r)
  case None
  then show thesis using assms no_param by (auto simp: dummy_thread_entry_def)
next
  case (Some rq)
  let ?s = "s\<lparr>g_is_thread_running := True\<rparr>"
  obtain found where f: "find_capability (rq_capability_id rq) (g_backend_info s) = Ret found"
    using assms Some by (auto simp: dummy_thread_entry_def Let_def outcome_simps)
  show thesis
  proof (cases found)
    case None
    then show thesis using assms Some f no_cap by (auto simp: dummy_thread_entry_def Let_def)
  next
    case c: (Some c)
    then obtain ci sps where d: "deref_capability (sn_table s) c ?s = Ret ci" "samples_per_stream rq = Ret sps"
      using assms Some f by (auto simp: dummy_thread_entry_def Let_def outcome_simps)
    note eq = assms [unfolded Some dummy_thread_entry_def Let_def alloc_pair, simplified f c d option.case obind.simps prod.case]
    define f1 where "f1 = calloc_ok (sn_faults s)"
    define f2 where "f2 = calloc_ok (snd f1)"
    show thesis
    proof (cases "fst f1 \<and> fst f2")
      case False
      then show thesis using eq Some f c d no_memory
        by (auto simp: Let_def alloc_pair f1_def f2_def split: if_splits)
    next
      case True
      let ?n = "unat (sps * ucast (ci_metric_ids_list_len ci))"
      obtain rs s3 where a: "dummy_alloc_strings 0 ?n (replicate ?n zero_response) (?s\<lparr>sn_faults := snd f2\<rparr>) = (rs, s3)"
        by (cases "dummy_alloc_strings 0 ?n (replicate ?n zero_response) (?s\<lparr>sn_faults := snd f2\<rparr>)")
      show thesis
        by (rule running [OF Some _ _ d, where f = "snd f2"])
           (use eq True a f c d in \<open>auto simp: Let_def alloc_pair f1_def f2_def split: if_splits\<close>)
    qed
  qed
qed

lemma dummy_entry_law:
  assumes "dummy_thread_entry clk r s = Ret (l, s')"
  shows "g_thread_info s' = g_thread_info s \<and> sn_threads s' = sn_threads s \<and> g_backend_info s' = g_backend_info s \<and>
     sn_table s' = sn_table s \<and> g_data_callback s' = g_data_callback s \<and> sn_data s' = sn_data s"
  using assms by (cases rule: dummy_entry_RetE) (auto dest!: dummy_alloc_strings_control)

lemma dummy_metric_value_control:
  assumes "dummy_metric_value i l v s = (v', l', s')"
  shows "same_control s s' \<and> g_backend_info s' = g_backend_info s \<and> sn_table s' = sn_table s \<and>
     g_data_callback s' = g_data_callback s \<and> sn_data s' = sn_data s"
  using assms by (auto simp: dummy_metric_value_def Let_def split: if_splits option.splits)

lemma dummy_fill_control:
  "dummy_fill i n ms now l s = Ret (l', s') \<Longrightarrow>
     same_control s s' \<and> g_backend_info s' = g_backend_info s \<and> sn_table s' = sn_table s \<and>
     g_data_callback s' = g_data_callback s \<and> sn_data s' = sn_data s"
proof (induction n arbitrary: i l s)
  case (Suc n)
  show ?case
  proof (cases "unat (dl_total_metrics l) \<le> pd_metric_response_len (dl_data l)")
    case True
    then show ?thesis using Suc.prems by (auto simp: Let_def)
  next
    case False
    then obtain r where r: "arr_read (pd_metric_response (dl_data l)) (pd_metric_response_len (dl_data l)) = Ret r"
      using Suc.prems by (auto simp: Let_def outcome_simps)
    obtain v l1 s1 where v: "dummy_metric_value i l (mr_metric_value r) s = (v, l1, s1)"
      by (cases "dummy_metric_value i l (mr_metric_value r) s")
    obtain l2 where "dummy_fill (Suc i) n ms now l2 s1 = Ret (l', s')"
      using Suc.prems False r v by (auto simp: Let_def outcome_simps)
    then show ?thesis
      using dummy_metric_value_control [OF v] Suc.IH same_control_trans by metis
  qed
qed simp

lemma dummy_stream_control:
  "dummy_stream now l s = (l', s') \<Longrightarrow> same_control s s' \<and> g_backend_info s' = g_backend_info s \<and>
     sn_table s' = sn_table s \<and> g_data_callback s' = g_data_callback s"
  by (auto simp: dummy_stream_def Let_def same_control_def split: if_splits option.splits)

lemma dummy_iterate_RetE:
  assumes "dummy_thread_iterate clk l s = Ret (l', s')"
  obtains now ci l1 s1 l2 where "deref_capability (dl_table l) (dl_cap l) s = Ret ci"
    "dummy_fill 0 (unat (ci_metric_ids_list_len ci)) (case ci_metric_ids_list ci of Some ms \<Rightarrow> ms | None \<Rightarrow> []) now
       (l\<lparr>dl_current_time := now\<rparr>) s = Ret (l1, s1)"
    "dummy_stream now l1 s1 = (l2, s')"
    "l' = (if g_is_thread_running s' then l2\<lparr>dl_slept := unat (rq_streaming_rate (dl_request l2)) * 1000\<rparr> else l2)"
proof -
  define now where "now = (case snd (get_time_ns clk (Some (dl_current_time l))) of Some t \<Rightarrow> t | None \<Rightarrow> 0)"
  note eq = assms [unfolded dummy_thread_iterate_def Let_def, folded now_def]
  obtain ci l1 s1 where 1: "deref_capability (dl_table l) (dl_cap l) s = Ret ci"
    "dummy_fill 0 (unat (ci_metric_ids_list_len ci)) (case ci_metric_ids_list ci of Some ms \<Rightarrow> ms | None \<Rightarrow> []) now
       (l\<lparr>dl_current_time := now\<rparr>) s = Ret (l1, s1)"
    using eq by (auto simp: outcome_simps)
  obtain l2 s2 where 2: "dummy_stream now l1 s1 = (l2, s2)" by (cases "dummy_stream now l1 s1")
  show thesis by (rule that [OF 1]) (use eq 1 2 in auto)
qed

lemma dummy_iterate_control:
  assumes "dummy_thread_iterate clk l s = Ret (l', s')"
  shows "same_control s s' \<and> g_backend_info s' = g_backend_info s \<and> sn_table s' = sn_table s \<and>
     g_data_callback s' = g_data_callback s"
  using assms
  by (cases rule: dummy_iterate_RetE) (auto dest!: dummy_fill_control dummy_stream_control intro: same_control_trans)

section \<open>The session contract\<close>

lemma dummy_stop_down:
  assumes "\<not> g_is_thread_running s \<or> r = None"
  shows "\<exists>rc s'. dummy_stop clk r s = Ret (rc, s') \<and> same_control s s'"
  using assms by (auto simp: dummy_stop_def Let_def split: option.splits)

lemma dummy_stop_up:
  assumes "g_is_thread_running s" "th_handle (g_thread_info s) = Thread t"
    "t < length (sn_threads s)" "\<not> is_spawned (sn_threads s ! t)"
  shows "\<exists>s'. dummy_stop clk (Some q) s = Ret (SUCCESS, s') \<and> joined t s s'"
proof -
  let ?s = "(DUMMY_SEND LEVEL_INFO ''Stopping profiling'' s)\<lparr>g_is_thread_running := False\<rparr>"
  have w: "\<exists>s1. wait_exit (dummy_thread clk) t ?s = Ret (0, s1) \<and> sn_threads s1 = (sn_threads s)[t := Exited] \<and>
      g_thread_info s1 = g_thread_info s \<and> \<not> g_is_thread_running s1"
    using assms(3,4) by (cases "sn_threads s ! t")
      (auto simp: wait_exit_def dummy_thread_def dummy_thread_finish_def list_update_same_conv [THEN iffD2])
  then show ?thesis
    using assms(1,2)
    by (auto simp: dummy_stop_def Let_def thread_join_def thread_destroy_def joined_def)
qed

interpretation dummy: session_backend dummy_start dummy_stop dummy_thread dummy_thread_iterate
proof unfold_locales
  fix e l s l' s'
  show "dummy_thread_iterate e l s = Ret (l', s') \<Longrightarrow> same_control s s'"
    by (simp add: dummy_iterate_control)
qed (use dummy_start_law dummy_stop_down dummy_stop_up dummy_entry_law in
      \<open>auto simp: dummy_thread_def dummy_thread_finish_def\<close>)

section \<open>The table of capabilities\<close>

definition dummy_entry :: "string \<Rightarrow> nat \<Rightarrow> QcPerfCapabilityInfo \<Rightarrow> bool" where
  "dummy_entry name n c \<longleftrightarrow> capability_ok c \<and> ci_capability_id c = 0 \<and> ci_name c = name \<and>
     ci_metric_ids_list_len c = of_nat n \<and> streaming_rates_of c = set dummy_streaming_rates \<and>
     sampling_rates_of c = set dummy_sampling_rates \<and>
     (\<exists>ms. ci_metric_ids_list c = Some ms \<and> length ms = n \<and> (\<forall>i<n. mi_metric_id (ms ! i) = of_nat i))"

definition dummy_registered :: "dummy_state \<Rightarrow> bool" where
  "dummy_registered s \<longleftrightarrow> (\<exists>c0 c1. bi_capabilities_list (g_backend_info s) = Some [c0, c1] \<and>
     bi_capabilities_list_length (g_backend_info s) = 2 \<and>
     dummy_entry ''capability_0'' 5 c0 \<and> dummy_entry ''capability_1'' 10 c1)"

definition dummy_statics_ok :: "dummy_state \<Rightarrow> bool" where
  "dummy_statics_ok s \<longleftrightarrow> length (g_capability_1_metrics_data s) = 5 \<and> length (g_capability_2_metrics_data s) = 10 \<and>
     (\<forall>m \<in> set (g_capability_1_metrics_data s) \<union> set (g_capability_2_metrics_data s). metric_info_ok m)"

lemma dummy_statics_initial [simp]: "dummy_statics_ok (initial_dummy faults)"
  by (simp add: dummy_statics_ok_def initial_dummy_def session.defs)

lemma write_metric_length [simp]: "length (write_metric k ms) = length ms"
  by (simp add: write_metric_def)

lemma write_metric_ok:
  assumes "\<forall>m \<in> set ms. metric_info_ok m"
  shows "\<forall>m \<in> set (write_metric k ms). metric_info_ok m"
proof -
  have "set (write_metric k ms) \<subseteq> insert (case dummy_metric_defs ! k of (i, n, d, u) \<Rightarrow> set_metric_info i n d u) (set ms)"
    unfolding write_metric_def by (rule set_update_subset_insert)
  then show ?thesis using assms by (auto split: prod.splits)
qed

lemma write_metric_id:
  assumes "k < 10" "k < length ms"
  shows "mi_metric_id (write_metric k ms ! i) = (if i = k then of_nat k else mi_metric_id (ms ! i))"
proof -
  have "k \<in> {0, 1, 2, 3, 4, 5, 6, 7, 8, 9}" using assms(1) by auto
  then have "mi_metric_id (case dummy_metric_defs ! k of (i, n, d, u) \<Rightarrow> set_metric_info i n d u) = of_nat k"
    by (auto simp: dummy_metric_defs_def)
  then show ?thesis using assms(2) by (simp add: write_metric_def)
qed

lemma dummy_init_metrics_props:
  assumes "\<forall>m \<in> set ms. metric_info_ok m"
  shows "length (dummy_capability_0_init_metrics ms) = length ms"
    and "length (dummy_capability_1_init_metrics ms) = length ms"
    and "\<forall>m \<in> set (dummy_capability_0_init_metrics ms). metric_info_ok m"
    and "\<forall>m \<in> set (dummy_capability_1_init_metrics ms). metric_info_ok m"
    and "length ms = 5 \<Longrightarrow> i < 5 \<Longrightarrow> mi_metric_id (dummy_capability_0_init_metrics ms ! i) = of_nat i"
    and "length ms = 10 \<Longrightarrow> i < 10 \<Longrightarrow> mi_metric_id (dummy_capability_1_init_metrics ms ! i) = of_nat i"
proof -
  show "length (dummy_capability_0_init_metrics ms) = length ms"
    by (simp add: dummy_capability_0_init_metrics_def)
  show "length (dummy_capability_1_init_metrics ms) = length ms"
    by (simp add: dummy_capability_1_init_metrics_def)
  show "\<forall>m \<in> set (dummy_capability_0_init_metrics ms). metric_info_ok m"
    unfolding dummy_capability_0_init_metrics_def by (intro write_metric_ok assms)
  show "\<forall>m \<in> set (dummy_capability_1_init_metrics ms). metric_info_ok m"
    unfolding dummy_capability_1_init_metrics_def by (intro write_metric_ok assms)
  show "mi_metric_id (dummy_capability_0_init_metrics ms ! i) = of_nat i" if "length ms = 5" "i < 5"
  proof -
    have "i \<in> {0, 1, 2, 3, 4}" using that by auto
    then show ?thesis using that by (auto simp: dummy_capability_0_init_metrics_def write_metric_id)
  qed
  show "mi_metric_id (dummy_capability_1_init_metrics ms ! i) = of_nat i" if "length ms = 10" "i < 10"
  proof -
    have "i \<in> {0, 1, 2, 3, 4, 5, 6, 7, 8, 9}" using that by auto
    then show ?thesis using that by (auto simp: dummy_capability_1_init_metrics_def write_metric_id)
  qed
qed

lemma dummy_capability_entry:
  assumes "length metrics = n" "n < 256" "\<forall>m \<in> set metrics. metric_info_ok m"
    "\<And>i. i < n \<Longrightarrow> mi_metric_id (metrics ! i) = of_nat i" "length name < 64"
  shows "dummy_entry name n (dummy_capability 0 name n metrics zero_capability)"
proof -
  have st: "copy_rates dummy_streaming_rates 0 (replicate 32 0, 0) = (dummy_streaming_rates @ replicate 12 0, 20)"
    by (subst copy_rates_fresh) (simp_all add: dummy_streaming_rates_def)
  have sa: "copy_rates dummy_sampling_rates 0 (replicate 32 0, 0) = (dummy_sampling_rates @ replicate 25 0, 7)"
    by (subst copy_rates_fresh) (simp_all add: dummy_sampling_rates_def)
  have len: "length dummy_streaming_rates = 20" "length dummy_sampling_rates = 7"
    by (simp_all add: dummy_streaming_rates_def dummy_sampling_rates_def)
  have n: "unat (of_nat n :: u8) = n" using assms(2) by (simp add: unat_of_nat_u8)
  show ?thesis
    using assms n len
    by (simp add: dummy_entry_def dummy_capability_def zero_capability_def st sa capability_ok_def
        streaming_rates_of_def sampling_rates_of_def cstd_simps)
qed

lemma dummy_init_total:
  assumes "dummy_statics_ok s"
  shows "\<exists>rc s'. dummy_init s = Ret (rc, s') \<and> same_control s s' \<and> dummy_statics_ok s' \<and>
     g_data_callback s' = g_data_callback s \<and> g_message_callback s' = g_message_callback s \<and>
     sn_faults s' = snd (calloc_ok (sn_faults s)) \<and> sn_data s' = sn_data s \<and>
     rc = (if fst (calloc_ok (sn_faults s)) then SUCCESS else CALLOC_FAILED) \<and>
     (if rc = SUCCESS then dummy_registered s' \<and> bi_backend_id (g_backend_info s') = 0
      else bi_capabilities_list (g_backend_info s') = None \<and> bi_capabilities_list_length (g_backend_info s') = 0)"
proof (cases "fst (calloc_ok (sn_faults s))")
  case False
  then show ?thesis
    using assms by (simp add: dummy_init_def Let_def dummy_alloc_def alloc_pair dummy_free_def same_control_def dummy_statics_ok_def)
next
  case True
  let ?m1 = "dummy_capability_0_init_metrics (g_capability_1_metrics_data s)"
  let ?m2 = "dummy_capability_1_init_metrics (g_capability_2_metrics_data s)"
  have l: "length (g_capability_1_metrics_data s) = 5" "length (g_capability_2_metrics_data s) = 10"
    and ok: "\<forall>m \<in> set (g_capability_1_metrics_data s). metric_info_ok m" "\<forall>m \<in> set (g_capability_2_metrics_data s). metric_info_ok m"
    using assms by (auto simp: dummy_statics_ok_def)
  note p1 = dummy_init_metrics_props [OF ok(1)] and p2 = dummy_init_metrics_props [OF ok(2)]
  have e: "dummy_entry ''capability_0'' 5 (dummy_capability 0 ''capability_0'' 5 ?m1 zero_capability)"
    "dummy_entry ''capability_1'' 10 (dummy_capability 0 ''capability_1'' 10 ?m2 zero_capability)"
    by (rule dummy_capability_entry; use l p1 p2 in simp)+
  have r: "replicate 2 zero_capability = [zero_capability, zero_capability]" by (simp add: numeral_2_eq_2)
  show ?thesis
    using True e l p1 p2
    by (simp add: dummy_init_def Let_def dummy_alloc_def alloc_pair same_control_def dummy_statics_ok_def
        dummy_registered_def r ball_Un)
qed

lemma cap_scan_two:
  "cap_scan k 2 [a, b] 0 =
     Ret (if ci_capability_id a = k then Some 0 else if ci_capability_id b = k then Some 1 else None)"
  by (simp add: numeral_2_eq_2)

lemma dummy_registered_find:
  assumes "dummy_registered s"
  shows "find_capability k (g_backend_info s) = Ret (if k = 0 then Some 0 else None)"
  using assms by (auto simp: dummy_registered_def find_capability_def dummy_entry_def cap_scan_two)

lemma dummy_registered_deref:
  assumes "dummy_registered s"
  shows "\<exists>c. deref_capability (sn_table s) 0 s = Ret c \<and> dummy_entry ''capability_0'' 5 c"
  using assms by (auto simp: dummy_registered_def deref_capability_def)

lemma dummy_registered_cong:
  "g_backend_info s' = g_backend_info s \<Longrightarrow> dummy_registered s' = dummy_registered s"
  by (simp add: dummy_registered_def)

lemma dummy_registered_table: "dummy_registered s \<Longrightarrow> table_ok s"
  by (auto simp: dummy_registered_def table_ok_def backend_info_ok_def dummy_entry_def)

section \<open>Requests\<close>

definition dummy_request_code :: "QcPerfRequest \<Rightarrow> QcPerfReturnCode" where
  "dummy_request_code rq =
     (if rq_capability_id rq \<noteq> 0 then CAPABILITY_NOT_FOUND
      else if rq_sampling_rate rq \<notin> set dummy_sampling_rates \<or> rq_streaming_rate rq \<notin> set dummy_streaming_rates
      then INVALID_ARGUMENTS else SUCCESS)"

lemma dummy_validate_code:
  assumes "dummy_registered s"
  shows "\<exists>lv t. dummy_validate_request rq s = Ret (dummy_request_code rq, DUMMY_SEND lv t s)"
proof (cases "rq_capability_id rq = 0")
  case False
  then show ?thesis
    using dummy_registered_find [OF assms, of "rq_capability_id rq"]
    by (auto simp: dummy_validate_request_def dummy_request_code_def Let_def)
next
  case True
  obtain c where c: "deref_capability (sn_table s) 0 s = Ret c" "dummy_entry ''capability_0'' 5 c"
    using dummy_registered_deref [OF assms] by blast
  then have "capability_ok c" "streaming_rates_of c = set dummy_streaming_rates" "sampling_rates_of c = set dummy_sampling_rates"
    by (simp_all add: dummy_entry_def)
  note rs = rate_scan_ok [OF this(1)] this(2,3)
  show ?thesis
    using dummy_registered_find [OF assms, of 0] True c rs
    by (simp add: dummy_validate_request_def dummy_request_code_def Let_def) blast
qed

section \<open>Batches\<close>

text \<open>
  What the reader of a batch may rely on: element \<open>k\<close> is metric \<open>k mod 5\<close> of the capability, with the
  type of its position, and a string is there with its length.
\<close>

definition dummy_slot :: "QcPerfMetricInfo list \<Rightarrow> nat \<Rightarrow> QcPerfMetricResponse \<Rightarrow> bool" where
  "dummy_slot ms k r \<longleftrightarrow> mr_metric_id r = mi_metric_id (ms ! (k mod 5)) \<and>
     gt_data_type (mr_metric_value r) = [TYPE_BOOL, TYPE_UINT64, TYPE_INT64, TYPE_DOUBLE, TYPE_STRING] ! (k mod 5) \<and>
     (k mod 5 = 4 \<longrightarrow> (\<exists>txt. gt_string_value (mr_metric_value r) = Some txt \<and>
         gt_string_value_len (mr_metric_value r) = length txt))"

definition dummy_batch :: "QcPerfMetricInfo list \<Rightarrow> dummy_local \<Rightarrow> bool" where
  "dummy_batch ms l \<longleftrightarrow>
     length (pd_metric_response (dl_data l)) = unat (dl_total_metrics l) \<and>
     unat (dl_total_metrics l) = 5 * unat (dl_samples_per_stream l) \<and>
     (\<forall>k<unat (dl_total_metrics l). k mod 5 = 4 \<longrightarrow>
         gt_string_value (mr_metric_value (pd_metric_response (dl_data l) ! k)) \<noteq> None) \<and>
     (\<forall>k<pd_metric_response_len (dl_data l). dummy_slot ms k (pd_metric_response (dl_data l) ! k))"

definition same_plan :: "dummy_local \<Rightarrow> dummy_local \<Rightarrow> bool" where
  "same_plan l l' \<longleftrightarrow> dl_request l' = dl_request l \<and> dl_table l' = dl_table l \<and> dl_cap l' = dl_cap l \<and>
     dl_samples_per_stream l' = dl_samples_per_stream l \<and> dl_total_metrics l' = dl_total_metrics l \<and>
     dl_streaming_rate_ns l' = dl_streaming_rate_ns l \<and>
     pd_backend_id (dl_data l') = pd_backend_id (dl_data l) \<and> pd_capability_id (dl_data l') = pd_capability_id (dl_data l)"

text \<open>The invariant of the thread's loop.\<close>

definition dummy_loop_inv :: "QcPerfMetricInfo list \<Rightarrow> dummy_state \<Rightarrow> dummy_local \<Rightarrow> bool" where
  "dummy_loop_inv ms s l \<longleftrightarrow> dl_table l = sn_table s \<and> dl_cap l = 0 \<and> dummy_batch ms l \<and>
     pd_metric_response_len (dl_data l) = 5 * unat (dl_sample_count l) \<and>
     dl_sample_count l < dl_samples_per_stream l"

lemma dummy_metric_value_slot:
  assumes i: "i < 5" and str: "i = 4 \<longrightarrow> gt_string_value v \<noteq> None"
    and r: "dummy_metric_value i l v s = (v', l', s')"
  shows "s' = s \<and> dl_data l' = dl_data l \<and> dl_sample_count l' = dl_sample_count l \<and>
     dl_last_stream_time l' = dl_last_stream_time l \<and> same_plan l l' \<and>
     gt_data_type v' = [TYPE_BOOL, TYPE_UINT64, TYPE_INT64, TYPE_DOUBLE, TYPE_STRING] ! i \<and>
     (i = 4 \<longrightarrow> (\<exists>txt. gt_string_value v' = Some txt \<and> gt_string_value_len v' = length txt)) \<and>
     (gt_string_value v \<noteq> None \<longrightarrow> gt_string_value v' \<noteq> None)"
proof -
  have "i \<in> {0, 1, 2, 3, 4}" using i by auto
  then show ?thesis
    using r str
    by (elim insertE; simp add: dummy_metric_value_def Let_def same_plan_def split: option.splits;
        (elim conjE; simp?)?)
       (auto simp: same_plan_def)
qed

lemma dummy_fill_batch:
  assumes "length ms = 5" "dummy_batch ms l" "i + n = 5"
    "pd_metric_response_len (dl_data l) mod 5 = i mod 5"
    "pd_metric_response_len (dl_data l) + n \<le> unat (dl_total_metrics l)"
  shows "\<exists>l'. dummy_fill i n ms now l s = Ret (l', s) \<and> dummy_batch ms l' \<and> same_plan l l' \<and>
     dl_sample_count l' = dl_sample_count l \<and> dl_last_stream_time l' = dl_last_stream_time l \<and>
     pd_metric_response_len (dl_data l') = pd_metric_response_len (dl_data l) + n"
  using assms
proof (induction n arbitrary: i l)
  case 0
  then show ?case by (simp add: same_plan_def)
next
  case (Suc n)
  let ?d = "dl_data l"
  let ?k = "pd_metric_response_len ?d"
  have i: "i < 5" and km: "?k mod 5 = i" and k: "?k < unat (dl_total_metrics l)"
    using Suc.prems by auto
  have len: "length (pd_metric_response ?d) = unat (dl_total_metrics l)"
    using Suc.prems(2) by (simp add: dummy_batch_def)
  define r where "r = pd_metric_response ?d ! ?k"
  obtain v l1 s1 where v: "dummy_metric_value i l (mr_metric_value r) s = (v, l1, s1)"
    by (cases "dummy_metric_value i l (mr_metric_value r) s")
  have str: "i = 4 \<longrightarrow> gt_string_value (mr_metric_value r) \<noteq> None"
    using Suc.prems(2) k km by (auto simp: dummy_batch_def r_def)
  note mv = dummy_metric_value_slot [OF i str v]
  define r' where "r' = \<lparr>mr_timestamp = now, mr_metric_id = mi_metric_id (ms ! i), mr_metric_value = v\<rparr>"
  define l2 where "l2 = l1\<lparr>dl_data := ?d\<lparr>pd_metric_response := (pd_metric_response ?d)[?k := r'],
                                   pd_metric_response_len := Suc ?k\<rparr>\<rparr>"
  have step: "dummy_fill i (Suc n) ms now l s = dummy_fill (Suc i) n ms now l2 s"
    using k len v i mv Suc.prems(1) by (simp add: Let_def r_def [symmetric] l2_def r'_def)
  have slot: "dummy_slot ms ?k r'"
    using mv km by (auto simp: dummy_slot_def r'_def)
  have plan: "same_plan l l2" "dl_sample_count l2 = dl_sample_count l" "dl_last_stream_time l2 = dl_last_stream_time l"
    "pd_metric_response_len (dl_data l2) = Suc ?k"
    using mv by (auto simp: l2_def same_plan_def)
  have b2: "dummy_batch ms l2"
    using Suc.prems(2) slot mv plan k len km str
    by (auto simp: dummy_batch_def l2_def nth_list_update_if less_Suc_eq same_plan_def r'_def r_def)
  have "\<exists>l'. dummy_fill (Suc i) n ms now l2 s = Ret (l', s) \<and> dummy_batch ms l' \<and> same_plan l2 l' \<and>
     dl_sample_count l' = dl_sample_count l2 \<and> dl_last_stream_time l' = dl_last_stream_time l2 \<and>
     pd_metric_response_len (dl_data l') = pd_metric_response_len (dl_data l2) + n"
  proof (rule Suc.IH [OF Suc.prems(1) b2])
    show "Suc i + n = 5" using Suc.prems(3) by simp
    show "pd_metric_response_len (dl_data l2) mod 5 = Suc i mod 5"
      using km plan(4) by (metis mod_Suc_eq)
    show "pd_metric_response_len (dl_data l2) + n \<le> unat (dl_total_metrics l2)"
      using Suc.prems(5) plan by (simp add: same_plan_def)
  qed
  then show ?case unfolding step using plan by (auto simp: same_plan_def)
qed

text \<open>A delivered batch: whole samples, every element as \<open>dummy_slot\<close> says.\<close>

definition dummy_data_ok :: "QcPerfMetricInfo list \<Rightarrow> nat \<Rightarrow> QcPerfData \<Rightarrow> bool" where
  "dummy_data_ok ms n d \<longleftrightarrow> pd_metric_response_len d = 5 * n \<and> 5 * n \<le> length (pd_metric_response d) \<and>
     (\<forall>k<5 * n. dummy_slot ms k (pd_metric_response d ! k))"

lemma dummy_stream_batch:
  assumes b: "dummy_batch ms l" and n: "pd_metric_response_len (dl_data l) = 5 * Suc (unat (dl_sample_count l))"
    and c: "dl_sample_count l < dl_samples_per_stream l" and cb: "g_data_callback s = Some cb"
    and r: "dummy_stream now l s = (l', s')"
  shows "dummy_batch ms l' \<and> same_plan l l' \<and> dl_sample_count l' < dl_samples_per_stream l' \<and>
     pd_metric_response_len (dl_data l') = 5 * unat (dl_sample_count l') \<and>
     (if dl_sample_count l + 1 = dl_samples_per_stream l \<or> dl_streaming_rate_ns l \<le> now - dl_last_stream_time l
      then dl_sample_count l' = 0 \<and> (\<exists>d. s' = s\<lparr>sn_data := sn_data s @ [(cb, d)]\<rparr> \<and> dummy_data_ok ms (Suc (unat (dl_sample_count l))) d)
      else dl_sample_count l' = dl_sample_count l + 1 \<and> s' = s)"
proof -
  have su: "unat (dl_sample_count l + 1) = Suc (unat (dl_sample_count l))"
  proof -
    have "1 + dl_sample_count l \<noteq> 0"
    proof
      assume "1 + dl_sample_count l = 0"
      then have "dl_sample_count l = - 1" by (simp add: add_eq_0_iff)
      then show False using c by (simp add: word_order.extremum_strict)
    qed
    then show ?thesis using unatSuc [of "dl_sample_count l"] by (simp add: add.commute)
  qed
  have le: "Suc (unat (dl_sample_count l)) \<le> unat (dl_samples_per_stream l)"
    using c by (simp add: word_less_nat_alt)
  have full: "dl_samples_per_stream l \<le> dl_sample_count l + 1 \<longleftrightarrow> dl_sample_count l + 1 = dl_samples_per_stream l"
  proof -
    have "dl_sample_count l + 1 \<le> dl_samples_per_stream l" using le su by (simp add: word_le_nat_alt)
    then show ?thesis by (auto intro: antisym)
  qed
  have pos: "0 < dl_samples_per_stream l" using c by (cases "dl_samples_per_stream l = 0") (auto simp: word_gt_0)
  show ?thesis
  proof (cases "dl_sample_count l + 1 = dl_samples_per_stream l \<or> dl_streaming_rate_ns l \<le> now - dl_last_stream_time l")
    case True
    then have cond: "dl_samples_per_stream l \<le> dl_sample_count l + 1 \<or> dl_streaming_rate_ns l \<le> now - dl_last_stream_time l"
      using full by blast
    let ?d = "(dl_data l)"
    have eq: "dummy_stream now l s =
        (l\<lparr>dl_sample_count := 0, dl_data := ?d\<lparr>pd_metric_response_len := 0\<rparr>, dl_last_stream_time := now\<rparr>,
         s\<lparr>sn_data := sn_data s @ [(cb, ?d)]\<rparr>)"
      using cond cb n by (simp add: dummy_stream_def Let_def)
    have d: "dummy_data_ok ms (Suc (unat (dl_sample_count l))) ?d"
      unfolding dummy_data_ok_def
    proof (intro conjI)
      show "pd_metric_response_len ?d = 5 * Suc (unat (dl_sample_count l))" by (rule n)
      show "5 * Suc (unat (dl_sample_count l)) \<le> length (pd_metric_response ?d)"
        using b le by (simp add: dummy_batch_def)
      show "\<forall>k<5 * Suc (unat (dl_sample_count l)). dummy_slot ms k (pd_metric_response ?d ! k)"
        using b n unfolding dummy_batch_def by simp
    qed
    have l': "l' = l\<lparr>dl_sample_count := 0, dl_data := ?d\<lparr>pd_metric_response_len := 0\<rparr>, dl_last_stream_time := now\<rparr>"
      and s': "s' = s\<lparr>sn_data := sn_data s @ [(cb, ?d)]\<rparr>"
      using r unfolding eq by auto
    have "dummy_batch ms l'" using b by (simp add: dummy_batch_def l')
    then show ?thesis using True d pos by (auto simp: l' s' same_plan_def)
  next
    case False
    moreover have "dl_sample_count l + 1 < dl_samples_per_stream l"
      using False full by (simp add: not_le)
    ultimately have eq: "dummy_stream now l s = (l\<lparr>dl_sample_count := dl_sample_count l + 1\<rparr>, s)"
      using full by (simp add: dummy_stream_def Let_def)
    have l': "l' = l\<lparr>dl_sample_count := dl_sample_count l + 1\<rparr>" and s': "s' = s"
      using r unfolding eq by auto
    have "dummy_batch ms l'" using b by (simp add: dummy_batch_def l')
    then show ?thesis
      using False n su \<open>dl_sample_count l + 1 < dl_samples_per_stream l\<close> by (auto simp: l' s' same_plan_def)
  qed
qed

section \<open>The thread from its entry\<close>

lemma dummy_alloc_strings_result:
  "dummy_alloc_strings i n rs s = (rs', s') \<Longrightarrow> i + n \<le> length rs \<Longrightarrow> g_is_thread_running s' \<Longrightarrow>
     length rs' = length rs \<and>
     (\<forall>k<i + n. (i \<le> k \<and> k mod 5 = 4) \<or> gt_string_value (mr_metric_value (rs ! k)) \<noteq> None \<longrightarrow>
         gt_string_value (mr_metric_value (rs' ! k)) \<noteq> None)"
proof (induction i n rs s rule: dummy_alloc_strings.induct)
  case (1 i rs s)
  then show ?case by auto
next
  case (2 i n rs s)
  show ?case
  proof (cases "i mod 5 = 4")
    case False
    then have "dummy_alloc_strings (Suc i) n rs s = (rs', s')" using 2 by simp
    then show ?thesis using 2 False
      by (metis Suc_leI add_Suc_right add_Suc le_neq_implies_less)
  next
    case True
    let ?f = "calloc_ok (sn_faults s)"
    let ?rs = "rs[i := (rs ! i)\<lparr>mr_metric_value := (mr_metric_value (rs ! i))\<lparr>gt_string_value := Some []\<rparr>\<rparr>]"
    have ok: "fst ?f" using 2 True by (auto simp: Let_def alloc_pair split: if_splits)
    then have r: "dummy_alloc_strings (Suc i) n ?rs (s\<lparr>sn_faults := snd ?f\<rparr>) = (rs', s')"
      using 2 True by (simp add: Let_def alloc_pair)
    have ih: "length rs' = length ?rs \<and> (\<forall>k<Suc i + n. (Suc i \<le> k \<and> k mod 5 = 4) \<or> gt_string_value (mr_metric_value (?rs ! k)) \<noteq> None \<longrightarrow>
         gt_string_value (mr_metric_value (rs' ! k)) \<noteq> None)"
      using "2.IH"(1) [OF True refl alloc_pair [symmetric] ok r] 2(4,5) by simp
    show ?thesis
    proof (intro conjI allI impI)
      show "length rs' = length rs" using ih by simp
      fix k
      assume k: "k < i + Suc n" "(i \<le> k \<and> k mod 5 = 4) \<or> gt_string_value (mr_metric_value (rs ! k)) \<noteq> None"
      have "(Suc i \<le> k \<and> k mod 5 = 4) \<or> gt_string_value (mr_metric_value (?rs ! k)) \<noteq> None"
      proof (cases "k = i")
        case True
        then show ?thesis using 2(4) by simp
      next
        case False
        then show ?thesis using k by auto
      qed
      then show "gt_string_value (mr_metric_value (rs' ! k)) \<noteq> None" using ih k by auto
    qed
  qed
qed

lemma dummy_samples_per_stream:
  assumes "dummy_request_code rq = SUCCESS"
  shows "\<exists>sps. samples_per_stream rq = Ret sps \<and> 0 < sps \<and> unat sps \<le> 2000 \<and>
     unat sps = (unat (rq_streaming_rate rq) + unat (rq_sampling_rate rq) - 1) div unat (rq_sampling_rate rq)"
proof -
  have s: "rq_sampling_rate rq \<in> set dummy_sampling_rates" "rq_streaming_rate rq \<in> set dummy_streaming_rates"
    using assms by (auto simp: dummy_request_code_def split: if_splits)
  have a: "1 \<le> unat (rq_sampling_rate rq)" using s(1) by (auto simp: dummy_sampling_rates_def)
  have b: "1 \<le> unat (rq_streaming_rate rq)" "unat (rq_streaming_rate rq) \<le> 2000"
    using s(2) by (auto simp: dummy_streaming_rates_def)
  show ?thesis using samples_per_stream_bounds [OF a b(1)] b(2) by (auto intro: le_trans)
qed

definition dummy_metrics :: "dummy_state \<Rightarrow> QcPerfMetricInfo list" where
  "dummy_metrics s =
     (case bi_capabilities_list (g_backend_info s) of
        Some (c # _) \<Rightarrow> (case ci_metric_ids_list c of Some ms \<Rightarrow> ms | None \<Rightarrow> [])
      | _ \<Rightarrow> [])"

lemma dummy_metrics_registered:
  assumes "dummy_registered s"
  shows "\<exists>c. deref_capability (sn_table s) 0 s = Ret c \<and> ci_metric_ids_list c = Some (dummy_metrics s) \<and>
     ci_metric_ids_list_len c = 5 \<and> length (dummy_metrics s) = 5 \<and>
     (\<forall>i<5. mi_metric_id (dummy_metrics s ! i) = of_nat i)"
  using assms by (auto simp: dummy_registered_def deref_capability_def dummy_entry_def dummy_metrics_def)

lemma dummy_entry_loop:
  assumes reg: "dummy_registered s" and rq: "dummy_request_code rq = SUCCESS"
    and e: "dummy_thread_entry clk (Some rq) s = Ret (Some l, s')" and up: "g_is_thread_running s'"
  shows "dummy_loop_inv (dummy_metrics s) s' l \<and> dummy_registered s' \<and> dummy_metrics s' = dummy_metrics s \<and>
     dl_request l = rq \<and> dl_samples_per_stream l = (case samples_per_stream rq of Ret n \<Rightarrow> n | Stuck _ \<Rightarrow> 0) \<and>
     pd_metric_response_len (dl_data l) = 0 \<and> g_data_callback s' = g_data_callback s \<and> sn_data s' = sn_data s"
  using e
proof (cases rule: dummy_entry_RetE)
  case (running rq' c ci sps f rs lc)
  have k: "rq_capability_id rq = 0" using rq by (auto simp: dummy_request_code_def split: if_splits)
  have c0: "c = 0" using running k dummy_registered_find [OF reg, of 0] by simp
  then have ci: "deref_capability (sn_table s) 0 s = Ret ci"
    using running(4) by simp
  then have len: "ci_metric_ids_list_len ci = 5"
    using dummy_metrics_registered [OF reg] by auto
  obtain n where n: "samples_per_stream rq = Ret n" "0 < n" "unat n \<le> 2000"
    using dummy_samples_per_stream [OF rq] by blast
  have sps: "sps = n" using running n by simp
  have tot: "unat (sps * (5 :: u32)) = 5 * unat sps"
    using n(3) sps by (subst unat_mult_lem [THEN iffD1]) auto
  note st = dummy_alloc_strings_result [OF running(6) _ up]
  have l: "dl_table l = sn_table s" "dl_cap l = 0" "dl_samples_per_stream l = n" "dl_total_metrics l = sps * 5"
    "pd_metric_response (dl_data l) = rs" "pd_metric_response_len (dl_data l) = 0" "dl_sample_count l = 0" "dl_request l = rq"
    using running c0 len sps by simp_all
  have b: "dummy_batch (dummy_metrics s) l"
    using st tot len l by (simp add: dummy_batch_def sps)
  have fr: "sn_table s' = sn_table s" "g_backend_info s' = g_backend_info s" "g_data_callback s' = g_data_callback s" "sn_data s' = sn_data s"
    using dummy_entry_law [OF e] by auto
  have m: "dummy_metrics s' = dummy_metrics s" using fr by (simp add: dummy_metrics_def)
  show ?thesis
    using b l n fr m dummy_registered_cong [OF fr(2)] reg by (simp add: dummy_loop_inv_def)
qed simp_all

lemma dummy_iterate_loop:
  assumes reg: "dummy_registered s" and inv: "dummy_loop_inv (dummy_metrics s) s l"
    and cb: "g_data_callback s = Some cb" and up: "g_is_thread_running s"
  shows "\<exists>l' s'. dummy_thread_iterate clk l s = Ret (l', s') \<and> dummy_loop_inv (dummy_metrics s) s' l' \<and>
     dl_slept l' = unat (rq_streaming_rate (dl_request l)) * 1000 \<and> dl_request l' = dl_request l \<and>
     dl_samples_per_stream l' = dl_samples_per_stream l \<and>
     (\<exists>bs. s' = s\<lparr>sn_data := sn_data s @ map (Pair cb) bs\<rparr> \<and>
        (\<forall>d \<in> set bs. \<exists>n. 0 < n \<and> n \<le> unat (dl_samples_per_stream l) \<and> dummy_data_ok (dummy_metrics s) n d) \<and>
        (\<Sum>d\<leftarrow>bs. pd_metric_response_len d) + pd_metric_response_len (dl_data l') =
          pd_metric_response_len (dl_data l) + 5)"
proof -
  define now where "now = (case snd (get_time_ns clk (Some (dl_current_time l))) of Some t \<Rightarrow> t | None \<Rightarrow> 0)"
  let ?l = "l\<lparr>dl_current_time := now\<rparr>" let ?ms = "dummy_metrics s"
  obtain c where c: "deref_capability (sn_table s) 0 s = Ret c" "ci_metric_ids_list c = Some ?ms"
    "ci_metric_ids_list_len c = 5" "length ?ms = 5"
    using dummy_metrics_registered [OF reg] by blast
  have le: "Suc (unat (dl_sample_count l)) \<le> unat (dl_samples_per_stream l)"
    using inv by (simp add: dummy_loop_inv_def word_less_nat_alt)
  have b: "dummy_batch ?ms ?l" and n: "pd_metric_response_len (dl_data l) = 5 * unat (dl_sample_count l)"
    and t: "unat (dl_total_metrics l) = 5 * unat (dl_samples_per_stream l)"
    using inv by (auto simp: dummy_loop_inv_def dummy_batch_def)
  have "\<exists>l1. dummy_fill 0 5 ?ms now ?l s = Ret (l1, s) \<and> dummy_batch ?ms l1 \<and> same_plan ?l l1 \<and>
     dl_sample_count l1 = dl_sample_count ?l \<and> dl_last_stream_time l1 = dl_last_stream_time ?l \<and>
     pd_metric_response_len (dl_data l1) = pd_metric_response_len (dl_data ?l) + 5"
    by (rule dummy_fill_batch [OF c(4) b]) (use n t le in simp_all)
  then obtain l1 where l1: "dummy_fill 0 5 ?ms now ?l s = Ret (l1, s)" "dummy_batch ?ms l1" "same_plan l l1"
    "dl_sample_count l1 = dl_sample_count l" "pd_metric_response_len (dl_data l1) = 5 * Suc (unat (dl_sample_count l1))"
    using n by (auto simp: same_plan_def)
  obtain l2 s2 where st: "dummy_stream now l1 s = (l2, s2)" by (cases "dummy_stream now l1 s")
  have lt: "dl_sample_count l1 < dl_samples_per_stream l1"
    using inv l1 by (simp add: dummy_loop_inv_def same_plan_def)
  note sb = dummy_stream_batch [OF l1(2,5) lt cb st]
  have up2: "g_is_thread_running s2" using dummy_stream_control [OF st] up by (simp add: same_control_def)
  have it: "dummy_thread_iterate clk l s = Ret (l2\<lparr>dl_slept := unat (rq_streaming_rate (dl_request l2)) * 1000\<rparr>, s2)"
    using c l1 st up2 inv by (simp add: dummy_thread_iterate_def Let_def now_def [symmetric] dummy_loop_inv_def)
  have tab: "sn_table s2 = sn_table s" using dummy_stream_control [OF st] by simp
  have inv2: "dummy_loop_inv ?ms s2 (l2\<lparr>dl_slept := k\<rparr>)" for k
    using sb l1 inv tab by (auto simp: dummy_loop_inv_def same_plan_def dummy_batch_def)
  have plan: "same_plan l l2" using sb l1(3) by (auto simp: same_plan_def)
  define bs where "bs = (if dl_sample_count l1 + 1 = dl_samples_per_stream l1 \<or> dl_streaming_rate_ns l1 \<le> now - dl_last_stream_time l1
      then map snd (drop (length (sn_data s)) (sn_data s2)) else [])"
  have bs: "s2 = s\<lparr>sn_data := sn_data s @ map (Pair cb) bs\<rparr> \<and>
        (\<forall>d \<in> set bs. \<exists>n. 0 < n \<and> n \<le> unat (dl_samples_per_stream l) \<and> dummy_data_ok ?ms n d) \<and>
        (\<Sum>d\<leftarrow>bs. pd_metric_response_len d) + pd_metric_response_len (dl_data l2) = pd_metric_response_len (dl_data l) + 5"
  proof (cases "dl_sample_count l1 + 1 = dl_samples_per_stream l1 \<or> dl_streaming_rate_ns l1 \<le> now - dl_last_stream_time l1")
    case True
    then obtain d where d: "s2 = s\<lparr>sn_data := sn_data s @ [(cb, d)]\<rparr>" "dummy_data_ok ?ms (Suc (unat (dl_sample_count l1))) d"
      "dl_sample_count l2 = 0"
      using sb by auto
    then have "bs = [d]" using True by (simp add: bs_def)
    moreover have "pd_metric_response_len d = 5 * Suc (unat (dl_sample_count l))"
      using d l1 by (simp add: dummy_data_ok_def)
    moreover have "pd_metric_response_len (dl_data l2) = 0" using sb d by simp
    moreover have "\<exists>n>0. n \<le> unat (dl_samples_per_stream l) \<and> dummy_data_ok ?ms n d"
      using d(2) le l1(4) by (intro exI [of _ "Suc (unat (dl_sample_count l))"]) simp
    ultimately show ?thesis using d(1) n by simp
  next
    case False
    have "bs = []" using False by (simp add: bs_def)
    moreover have "s2 = s" "dl_sample_count l2 = dl_sample_count l1 + 1" using sb False by auto
    moreover have "unat (dl_sample_count l1 + 1) = Suc (unat (dl_sample_count l1))"
    proof -
      have "1 + dl_sample_count l1 \<noteq> 0"
      proof
        assume "1 + dl_sample_count l1 = 0"
        then have "dl_sample_count l1 = - 1" by (simp add: add_eq_0_iff)
        then show False using lt by (simp add: word_order.extremum_strict)
      qed
      then show ?thesis using unatSuc [of "dl_sample_count l1"] by (simp add: add.commute)
    qed
    ultimately show ?thesis using sb n l1(4) by auto
  qed
  show ?thesis
    by (rule exI [of _ "l2\<lparr>dl_slept := unat (rq_streaming_rate (dl_request l2)) * 1000\<rparr>"], rule exI [of _ s2])
      (use it inv2 bs plan in \<open>auto simp: same_plan_def\<close>)
qed

text \<open>A thread left to itself: one iteration per clock reading.\<close>

fun dummy_rounds :: "clock_reading list \<Rightarrow> dummy_local \<Rightarrow> dummy_state \<Rightarrow> (dummy_local \<times> dummy_state) outcome" where
  "dummy_rounds [] l s = Ret (l, s)"
| "dummy_rounds (clk # clks) l s = obind (dummy_thread_iterate clk l s) (\<lambda>(l', s'). dummy_rounds clks l' s')"

lemma dummy_rounds_loop:
  assumes "dummy_registered s" "dummy_loop_inv (dummy_metrics s) s l" "g_data_callback s = Some cb" "g_is_thread_running s"
  shows "\<exists>l' s' bs. dummy_rounds clks l s = Ret (l', s') \<and> s' = s\<lparr>sn_data := sn_data s @ map (Pair cb) bs\<rparr> \<and>
     dummy_loop_inv (dummy_metrics s) s' l' \<and> dl_samples_per_stream l' = dl_samples_per_stream l \<and>
     (\<forall>d \<in> set bs. \<exists>n. 0 < n \<and> n \<le> unat (dl_samples_per_stream l) \<and> dummy_data_ok (dummy_metrics s) n d) \<and>
     (\<Sum>d\<leftarrow>bs. pd_metric_response_len d) + pd_metric_response_len (dl_data l') =
          pd_metric_response_len (dl_data l) + 5 * length clks"
  using assms
proof (induction clks arbitrary: l s)
  case Nil
  then show ?case by (intro exI [of _ l] exI [of _ s] exI [of _ "[]"]) simp
next
  case (Cons clk clks)
  obtain l1 s1 bs1 where 1: "dummy_thread_iterate clk l s = Ret (l1, s1)" "dummy_loop_inv (dummy_metrics s) s1 l1"
    "dl_samples_per_stream l1 = dl_samples_per_stream l"
    "s1 = s\<lparr>sn_data := sn_data s @ map (Pair cb) bs1\<rparr>"
    "\<forall>d \<in> set bs1. \<exists>n. 0 < n \<and> n \<le> unat (dl_samples_per_stream l) \<and> dummy_data_ok (dummy_metrics s) n d"
    "(\<Sum>d\<leftarrow>bs1. pd_metric_response_len d) + pd_metric_response_len (dl_data l1) = pd_metric_response_len (dl_data l) + 5"
    using dummy_iterate_loop [OF Cons.prems, of clk] by blast
  have same: "dummy_registered s1" "dummy_metrics s1 = dummy_metrics s" "g_data_callback s1 = Some cb" "g_is_thread_running s1"
    using Cons.prems 1(4) by (simp_all add: dummy_registered_def dummy_metrics_def)
  obtain l2 s2 bs2 where 2: "dummy_rounds clks l1 s1 = Ret (l2, s2)" "s2 = s1\<lparr>sn_data := sn_data s1 @ map (Pair cb) bs2\<rparr>"
    "dummy_loop_inv (dummy_metrics s) s2 l2" "dl_samples_per_stream l2 = dl_samples_per_stream l1"
    "\<forall>d \<in> set bs2. \<exists>n. 0 < n \<and> n \<le> unat (dl_samples_per_stream l1) \<and> dummy_data_ok (dummy_metrics s) n d"
    "(\<Sum>d\<leftarrow>bs2. pd_metric_response_len d) + pd_metric_response_len (dl_data l2) = pd_metric_response_len (dl_data l1) + 5 * length clks"
    using Cons.IH [of s1 l1] same 1(2) by auto
  show ?case
    by (intro exI [of _ l2] exI [of _ s2] exI [of _ "bs1 @ bs2"])
      (use 1 2 in \<open>auto simp: ball_Un\<close>)
qed

section \<open>Starting\<close>

lemma dummy_start_code:
  assumes reg: "dummy_registered s"
  shows "\<exists>s'. dummy_start (Some rq) s =
     Ret (if dummy_request_code rq \<noteq> SUCCESS then dummy_request_code rq
          else if g_data_callback s = None then FAILED
          else if g_is_thread_running s then ALREADY_INITIALIZED
          else if fst (calloc_ok (sn_faults s)) \<and> fst (calloc_ok (snd (calloc_ok (sn_faults s)))) then SUCCESS
          else FAILED, s') \<and> g_backend_info s' = g_backend_info s \<and> sn_table s' = sn_table s \<and>
     g_data_callback s' = g_data_callback s \<and> sn_data s' = sn_data s \<and>
     (sn_faults s = [] \<longrightarrow> sn_faults s' = []) \<and>
     (sn_threads s' \<noteq> sn_threads s \<longrightarrow> sn_threads s' = sn_threads s @ [Spawned (Some rq)])"
proof -
  let ?s = "DUMMY_SEND LEVEL_INFO ''Starting profiling'' s"
  have "dummy_registered ?s" using reg by (simp add: dummy_registered_def)
  then obtain lv t where v: "dummy_validate_request rq ?s = Ret (dummy_request_code rq, DUMMY_SEND lv t ?s)"
    using dummy_validate_code by blast
  show ?thesis
    using v by (simp add: dummy_start_def Let_def spawn_def thread_create_def dummy_thread_attrs_def case_prod_beta)
qed

lemma dummy_alloc_strings_no_faults:
  "sn_faults s = [] \<Longrightarrow> \<exists>rs'. dummy_alloc_strings i n rs s = (rs', s)"
proof (induction n arbitrary: i rs)
  case (Suc n)
  then have "alloc s = (True, s)" by (simp add: alloc_pair)
  then show ?case using Suc by (simp add: Let_def)
qed simp

lemma dummy_entry_runs:
  assumes reg: "dummy_registered s" and rq: "dummy_request_code rq = SUCCESS" and f: "sn_faults s = []"
  shows "\<exists>l. dummy_thread_entry clk (Some rq) s = Ret (Some l, s\<lparr>g_is_thread_running := True\<rparr>)"
proof -
  have k: "rq_capability_id rq = 0" using rq by (auto simp: dummy_request_code_def split: if_splits)
  obtain c where c: "deref_capability (sn_table s) 0 s = Ret c" using dummy_metrics_registered [OF reg] by blast
  obtain n where n: "samples_per_stream rq = Ret n" using dummy_samples_per_stream [OF rq] by blast
  have s: "s\<lparr>g_is_thread_running := True, sn_faults := []\<rparr> = s\<lparr>g_is_thread_running := True\<rparr>" using f by simp
  obtain rs where rs: "dummy_alloc_strings 0 (unat (n * ucast (ci_metric_ids_list_len c)))
      (replicate (unat (n * ucast (ci_metric_ids_list_len c))) zero_response) (s\<lparr>g_is_thread_running := True\<rparr>)
      = (rs, s\<lparr>g_is_thread_running := True\<rparr>)"
    using dummy_alloc_strings_no_faults [of "s\<lparr>g_is_thread_running := True\<rparr>"] f by fastforce
  show ?thesis
    using k c n rs f dummy_registered_find [OF reg, of 0]
    by (simp add: dummy_thread_entry_def Let_def alloc_pair s)
qed

text \<open>A registered backend with a data callback, for the witnesses.\<close>

definition demo_dummy :: dummy_state where
  "demo_dummy = (case dummy_init (initial_dummy []) of
     Ret (_, s) \<Rightarrow> s\<lparr>g_data_callback := Some 7\<rparr> | Stuck _ \<Rightarrow> initial_dummy [])"

definition demo_request :: QcPerfRequest where
  "demo_request = \<lparr>rq_capability_id = 0, rq_streaming_rate = 100, rq_sampling_rate = 50\<rparr>"

lemma initial_dummy_fields [simp]:
  "sn_faults (initial_dummy f) = f" "sn_threads (initial_dummy f) = []" "\<not> g_is_thread_running (initial_dummy f)"
  "sn_data (initial_dummy f) = []" "g_data_callback (initial_dummy f) = None"
  "g_thread_info (initial_dummy f) = zero_thread_info"
  by (simp_all add: initial_dummy_def initial_session_def session.defs)

lemma demo_dummy_facts [simp]:
  "dummy_registered demo_dummy" "g_data_callback demo_dummy = Some 7" "sn_faults demo_dummy = []"
  "\<not> g_is_thread_running demo_dummy" "sn_threads demo_dummy = []"
  "g_thread_info demo_dummy = zero_thread_info"
proof -
  obtain s where "dummy_init (initial_dummy []) = Ret (SUCCESS, s)" "dummy_registered s"
    "same_control (initial_dummy []) s" "sn_faults s = []"
    using dummy_init_total [of "initial_dummy []"] by auto
  then show "dummy_registered demo_dummy" "g_data_callback demo_dummy = Some 7" "sn_faults demo_dummy = []"
    "\<not> g_is_thread_running demo_dummy" "sn_threads demo_dummy = []" "g_thread_info demo_dummy = zero_thread_info"
    by (simp_all add: demo_dummy_def dummy_registered_def same_control_def)
qed

lemma demo_request_ok [simp]: "dummy_request_code demo_request = SUCCESS"
  by (simp add: dummy_request_code_def demo_request_def dummy_sampling_rates_def dummy_streaming_rates_def)

lemma demo_dummy_orderly: "orderly demo_dummy"
  by (simp add: orderly_def stoppable_def)

text \<open>The state after a successful start and the first steps of the thread.\<close>

lemma dummy_start_spawns:
  assumes "dummy_registered s" "dummy_request_code rq = SUCCESS" "g_data_callback s \<noteq> None"
    "\<not> g_is_thread_running s" "sn_faults s = []"
  shows "\<exists>s'. dummy_start (Some rq) s = Ret (SUCCESS, s') \<and> spawned s s' \<and> dummy_registered s' \<and>
     g_data_callback s' = g_data_callback s \<and> sn_faults s' = [] \<and> sn_data s' = sn_data s \<and>
     sn_threads s' = sn_threads s @ [Spawned (Some rq)]"
proof -
  obtain s' where s': "dummy_start (Some rq) s = Ret (SUCCESS, s')" "g_backend_info s' = g_backend_info s"
    "g_data_callback s' = g_data_callback s" "sn_faults s' = []" "sn_data s' = sn_data s"
    "sn_threads s' \<noteq> sn_threads s \<longrightarrow> sn_threads s' = sn_threads s @ [Spawned (Some rq)]"
    using dummy_start_code [OF assms(1), of rq] assms by auto
  have sp: "spawned s s'" using dummy_start_law [OF s'(1)] by simp
  then have "sn_threads s' \<noteq> sn_threads s" by (auto simp: spawned_def)
  moreover have "dummy_registered s'" using dummy_registered_cong [OF s'(2)] assms(1) by simp
  ultimately show ?thesis using s' sp by simp
qed

section \<open>Properties\<close>

text \<open>The initialisation of the dummy backend either registers its two capabilities, with the rate
  tables and metric identifiers of \<open>dummy_info\<close> and every length field within its array, or, when the
  allocation fails, reports it and leaves an empty table. A search by identifier finds only the first
  entry: both are registered under the identifier 0.\<close>

theorem dummy_init_registers_table:
  assumes "dummy_statics_ok s"
  shows "\<exists>rc s'. dummy_init s = Ret (rc, s') \<and>
     (if fst (calloc_ok (sn_faults s)) then rc = SUCCESS \<and> dummy_registered s'
      else rc = CALLOC_FAILED \<and> bi_capabilities_list (g_backend_info s') = None \<and>
           bi_capabilities_list_length (g_backend_info s') = 0) \<and>
     (\<forall>k. find_capability k (g_backend_info s') = Ret (if rc = SUCCESS \<and> k = 0 then Some 0 else None))"
proof -
  obtain rc s' where r: "dummy_init s = Ret (rc, s')" "rc = (if fst (calloc_ok (sn_faults s)) then SUCCESS else CALLOC_FAILED)"
    "if rc = SUCCESS then dummy_registered s' \<and> bi_backend_id (g_backend_info s') = 0
     else bi_capabilities_list (g_backend_info s') = None \<and> bi_capabilities_list_length (g_backend_info s') = 0"
    using dummy_init_total [OF assms] by blast
  show ?thesis
  proof (cases "fst (calloc_ok (sn_faults s))")
    case True
    then show ?thesis using r dummy_registered_find [of s'] by simp
  next
    case False
    then show ?thesis using r by (simp add: find_capability_def)
  qed
qed

theorem dummy_init_registers_table_witness:
  "\<exists>rc s'. dummy_init (initial_dummy []) = Ret (rc, s') \<and> rc = SUCCESS \<and> dummy_registered s'"
  using dummy_init_registers_table [OF dummy_statics_initial, of "[]"] by auto

text \<open>On the registered table \<open>start\<close> accepts a request exactly when it names capability 0, both
  rates are in the tables of \<open>dummy_info\<close>, a data callback is set, the flag is down and the thread can
  be created; every other case has its own return code, and a thread exists afterwards only if the
  code is \<open>SUCCESS\<close>.\<close>

theorem dummy_start_accepts_exactly:
  assumes "dummy_registered s"
  shows "\<exists>rc s'. dummy_start (Some rq) s = Ret (rc, s') \<and>
     rc = (if rq_capability_id rq \<noteq> 0 then CAPABILITY_NOT_FOUND
           else if rq_sampling_rate rq \<notin> set dummy_sampling_rates then INVALID_ARGUMENTS
           else if rq_streaming_rate rq \<notin> set dummy_streaming_rates then INVALID_ARGUMENTS
           else if g_data_callback s = None then FAILED
           else if g_is_thread_running s then ALREADY_INITIALIZED
           else if fst (calloc_ok (sn_faults s)) \<and> fst (calloc_ok (snd (calloc_ok (sn_faults s)))) then SUCCESS
           else FAILED) \<and>
     sn_threads s' = sn_threads s @ (if rc = SUCCESS then [Spawned (Some rq)] else [])"
proof -
  obtain rc s' where r: "dummy_start (Some rq) s = Ret (rc, s')"
    and rc: "rc = (if dummy_request_code rq \<noteq> SUCCESS then dummy_request_code rq
          else if g_data_callback s = None then FAILED
          else if g_is_thread_running s then ALREADY_INITIALIZED
          else if fst (calloc_ok (sn_faults s)) \<and> fst (calloc_ok (snd (calloc_ok (sn_faults s)))) then SUCCESS
          else FAILED)"
    and th: "sn_threads s' \<noteq> sn_threads s \<longrightarrow> sn_threads s' = sn_threads s @ [Spawned (Some rq)]"
    using dummy_start_code [OF assms, of rq] by blast
  have "sn_threads s' = sn_threads s @ (if rc = SUCCESS then [Spawned (Some rq)] else [])"
    using dummy_start_law [OF r] th by (auto simp: spawned_def same_control_def split: if_splits)
  then show ?thesis using r rc by (auto simp: dummy_request_code_def)
qed

theorem dummy_start_accepts_exactly_witness:
  "\<exists>s'. dummy_start (Some demo_request) demo_dummy = Ret (SUCCESS, s')"
  using dummy_start_accepts_exactly [of demo_dummy demo_request]
  by (auto simp: demo_request_def dummy_sampling_rates_def dummy_streaming_rates_def)

text \<open>C9: The collection thread of an accepted request loses no sample and never leaves its buffers:
  whatever the clock shows, each iteration returns, the batches handed to the data callback consist of
  whole samples whose elements have the metric identifiers and types of capability 0, at most
  \<open>ceil(streaming_rate / sampling_rate)\<close> samples each, and their lengths with what is left in the
  buffer add up to five elements per iteration.\<close>

theorem dummy_thread_delivers_every_sample:
  assumes "dummy_registered s" and "dummy_request_code rq = SUCCESS" and "g_data_callback s = Some cb"
    and "dummy_thread_entry clk (Some rq) s = Ret (Some l, s1)" and "g_is_thread_running s1"
  shows "\<exists>l' s' bs. dummy_rounds clks l s1 = Ret (l', s') \<and> s' = s1\<lparr>sn_data := sn_data s @ map (Pair cb) bs\<rparr> \<and>
     (\<forall>d \<in> set bs. \<exists>n. 0 < n \<and>
         n \<le> (unat (rq_streaming_rate rq) + unat (rq_sampling_rate rq) - 1) div unat (rq_sampling_rate rq) \<and>
         dummy_data_ok (dummy_metrics s) n d) \<and>
     (\<Sum>d\<leftarrow>bs. pd_metric_response_len d) + pd_metric_response_len (dl_data l') = 5 * length clks"
proof -
  obtain n where n: "samples_per_stream rq = Ret n"
    "unat n = (unat (rq_streaming_rate rq) + unat (rq_sampling_rate rq) - 1) div unat (rq_sampling_rate rq)"
    using dummy_samples_per_stream [OF assms(2)] by blast
  note e = dummy_entry_loop [OF assms(1,2,4,5)]
  have cb: "g_data_callback s1 = Some cb" using e assms(3) by simp
  show ?thesis
    using dummy_rounds_loop [OF _ _ cb assms(5), of l clks] e n by auto
qed

theorem dummy_thread_delivers_every_sample_witness:
  "\<exists>l s1 l' s' bs. dummy_thread_entry (Ticks 0) (Some demo_request) demo_dummy = Ret (Some l, s1) \<and>
     dummy_rounds [Ticks 1, Ticks 2, Ticks 3] l s1 = Ret (l', s') \<and> s' = s1\<lparr>sn_data := sn_data demo_dummy @ map (Pair 7) bs\<rparr> \<and>
     (\<Sum>d\<leftarrow>bs. pd_metric_response_len d) + pd_metric_response_len (dl_data l') = 15"
proof -
  obtain l where l: "dummy_thread_entry (Ticks 0) (Some demo_request) demo_dummy
      = Ret (Some l, demo_dummy\<lparr>g_is_thread_running := True\<rparr>)"
    using dummy_entry_runs [of demo_dummy demo_request] by auto
  have up: "g_is_thread_running (demo_dummy\<lparr>g_is_thread_running := True\<rparr>)" by simp
  show ?thesis
    using dummy_thread_delivers_every_sample [OF demo_dummy_facts(1) demo_request_ok demo_dummy_facts(2) l up,
        of "[Ticks 1, Ticks 2, Ticks 3]"] l by auto
qed

text \<open>C10: A client that starts a session only when the thread of the last one has ended (or while one
  is running, which is refused) can always stop: after any such sequence of calls and thread steps
  \<open>stop\<close> returns, and if the flag was up it has joined the thread and no thread is left.\<close>

theorem dummy_disciplined_sessions_stop:
  assumes "orderly s"
    and "session_run (session_step dummy_start dummy_stop dummy_thread dummy_thread_iterate) evs s = Some s'"
  shows "\<exists>rc s''. dummy_stop clk (Some rq) s' = Ret (rc, s'') \<and>
     (g_is_thread_running s' \<longrightarrow> rc = SUCCESS \<and> all_ended s'' \<and> \<not> g_is_thread_running s'')"
  by (rule dummy.run_then_stop [OF assms])

theorem dummy_disciplined_sessions_stop_witness:
  "\<exists>s1 rc s2. session_run (session_step dummy_start dummy_stop dummy_thread dummy_thread_iterate)
      [CallStart (Some demo_request), Begin (Ticks 0) 0, Iterate (Ticks 1) 0] demo_dummy = Some s1 \<and>
     dummy_stop (Ticks 2) (Some demo_request) s1 = Ret (rc, s2) \<and> rc = SUCCESS \<and> all_ended s2"
proof -
  obtain a where a: "dummy_start (Some demo_request) demo_dummy = Ret (SUCCESS, a)" "dummy_registered a"
    "g_data_callback a = Some 7" "sn_faults a = []" "sn_threads a = [Spawned (Some demo_request)]"
    using dummy_start_spawns [of demo_dummy demo_request] by auto
  let ?b = "a\<lparr>g_is_thread_running := True\<rparr>"
  obtain l where l: "dummy_thread_entry (Ticks 0) (Some demo_request) a = Ret (Some l, ?b)"
    using dummy_entry_runs [OF a(2) demo_request_ok a(4), of "Ticks 0"] by blast
  define c where "c = put_thread 0 (Running l) ?b"
  have c: "thread_begin (dummy_thread (Ticks 0)) 0 a = Ret c"
    using a l by (simp add: thread_begin_def dummy_thread_def c_def)
  have inv: "dummy_loop_inv (dummy_metrics a) ?b l"
    using dummy_entry_loop [OF a(2) demo_request_ok l] by simp
  have "dummy_registered c" "dummy_loop_inv (dummy_metrics c) c l" "g_data_callback c = Some 7" "g_is_thread_running c"
    using a inv by (simp_all add: c_def put_thread_def dummy_registered_def dummy_metrics_def dummy_loop_inv_def)
  then obtain l2 bs d where d: "dummy_thread_iterate (Ticks 1) l c = Ret (l2, d)" "d = c\<lparr>sn_data := sn_data c @ map (Pair 7) bs\<rparr>"
    using dummy_iterate_loop by blast
  define e where "e = put_thread 0 (Running l2) d"
  have e: "thread_iterate (dummy_thread_iterate (Ticks 1)) 0 c = Ret e"
    using d a by (simp add: thread_iterate_def e_def c_def)
  have run: "session_run (session_step dummy_start dummy_stop dummy_thread dummy_thread_iterate)
      [CallStart (Some demo_request), Begin (Ticks 0) 0, Iterate (Ticks 1) 0] demo_dummy = Some e"
    using a c e by (simp add: all_ended_def c_def)
  have "g_is_thread_running e" using d by (simp add: e_def c_def)
  then show ?thesis using dummy_disciplined_sessions_stop [OF demo_dummy_orderly run] run by blast
qed

text \<open>Without that discipline a session can become impossible to stop: two starts before the
  first thread was scheduled are both accepted, and when the older thread then begins, \<open>stop\<close> waits
  for the younger one, which raises the flag again and never ends.\<close>

theorem dummy_double_start_hangs_stop:
  assumes "dummy_registered s" and "dummy_request_code rq = SUCCESS" and "g_data_callback s \<noteq> None"
    and "\<not> g_is_thread_running s" and "sn_faults s = []"
  shows "\<exists>s1 s2 s3. dummy_start (Some rq) s = Ret (SUCCESS, s1) \<and> dummy_start (Some rq) s1 = Ret (SUCCESS, s2) \<and>
     thread_begin (dummy_thread clk) (length (sn_threads s)) s2 = Ret s3 \<and>
     dummy_stop clk (Some rq) s3 = Stuck NoReturn"
proof -
  let ?n = "length (sn_threads s)"
  obtain s1 where s1: "dummy_start (Some rq) s = Ret (SUCCESS, s1)" "spawned s s1" "dummy_registered s1"
    "g_data_callback s1 = g_data_callback s" "sn_faults s1 = []" "sn_threads s1 = sn_threads s @ [Spawned (Some rq)]"
    using dummy_start_spawns [OF assms] by blast
  have d1: "\<not> g_is_thread_running s1" using s1(2) by (simp add: spawned_def)
  have cb1: "g_data_callback s1 \<noteq> None" using s1(4) assms(3) by simp
  obtain s2 where s2: "dummy_start (Some rq) s1 = Ret (SUCCESS, s2)" "spawned s1 s2" "dummy_registered s2"
    "sn_faults s2 = []" "sn_threads s2 = sn_threads s1 @ [Spawned (Some rq)]"
    using dummy_start_spawns [OF s1(3) assms(2) cb1 d1 s1(5)] by blast
  obtain l where l: "dummy_thread_entry clk (Some rq) s2 = Ret (Some l, s2\<lparr>g_is_thread_running := True\<rparr>)"
    using dummy_entry_runs [OF s2(3) assms(2) s2(4)] by blast
  define s3 where "s3 = put_thread ?n (Running l) (s2\<lparr>g_is_thread_running := True\<rparr>)"
  have b: "thread_begin (dummy_thread clk) ?n s2 = Ret s3"
    using l s1(6) s2(5) by (simp add: thread_begin_def dummy_thread_def s3_def nth_append)
  let ?s3 = "(DUMMY_SEND LEVEL_INFO ''Stopping profiling'' s3)\<lparr>g_is_thread_running := False\<rparr>"
  have h: "th_handle (g_thread_info s3) = Thread (Suc ?n)" "sn_threads s3 ! Suc ?n = Spawned (Some rq)"
    "length (sn_threads s3) = Suc (Suc ?n)" "g_is_thread_running s3"
    using s1(6) s2(2,5) by (auto simp: s3_def spawned_def nth_append)
  have "dummy_registered ?s3" "sn_faults ?s3 = []"
    using s2(3,4) by (simp_all add: dummy_registered_def s3_def put_thread_def)
  then obtain l2 where l2: "dummy_thread_entry clk (Some rq) ?s3 = Ret (Some l2, ?s3\<lparr>g_is_thread_running := True\<rparr>)"
    using dummy_entry_runs [OF _ assms(2)] by blast
  have "wait_exit (dummy_thread clk) (Suc ?n) ?s3 = Stuck NoReturn"
    using h l2 by (simp add: wait_exit_def dummy_thread_def)
  then have "dummy_stop clk (Some rq) s3 = Stuck NoReturn"
    using h by (simp add: dummy_stop_def Let_def thread_join_def)
  then show ?thesis using s1 s2 b by blast
qed

theorem dummy_double_start_hangs_stop_witness:
  "\<exists>s1 s2 s3. dummy_start (Some demo_request) demo_dummy = Ret (SUCCESS, s1) \<and>
     dummy_start (Some demo_request) s1 = Ret (SUCCESS, s2) \<and>
     thread_begin (dummy_thread (Ticks 0)) 0 s2 = Ret s3 \<and> dummy_stop (Ticks 0) (Some demo_request) s3 = Stuck NoReturn"
  using dummy_double_start_hangs_stop [of demo_dummy demo_request "Ticks 0"] by simp

text \<open>\<open>deinit\<close>, which \<open>qcperf_disconnect_backend\<close> and \<open>qcperf_deinit\<close> call, does not stop a
  running session although the header promises it: the flag stays up, the thread stays alive, and its
  next iteration reads the capability table that was freed.\<close>

theorem dummy_deinit_keeps_thread_running:
  assumes "t < length (sn_threads s)" and "sn_threads s ! t = Running l" and "g_is_thread_running s"
  shows "fst (dummy_deinit s) = SUCCESS \<and> sn_threads (snd (dummy_deinit s)) ! t = Running l \<and>
     thread_iterate (dummy_thread_iterate clk) t (snd (dummy_deinit s)) = Stuck BadDeref"
  using assms
  by (simp add: dummy_deinit_def dummy_free_def thread_iterate_def dummy_thread_iterate_def Let_def deref_capability_def)

theorem dummy_deinit_keeps_thread_running_witness:
  "\<exists>s l. g_is_thread_running s \<and> sn_threads s ! 0 = Running l \<and>
     thread_iterate (dummy_thread_iterate (Ticks 1)) 0 (snd (dummy_deinit s)) = Stuck BadDeref"
proof -
  obtain l where l: "dummy_thread_entry (Ticks 0) (Some demo_request) demo_dummy
      = Ret (Some l, demo_dummy\<lparr>g_is_thread_running := True\<rparr>)"
    using dummy_entry_runs [of demo_dummy demo_request] by auto
  let ?s = "demo_dummy\<lparr>g_is_thread_running := True, sn_threads := [Running l]\<rparr>"
  show ?thesis
    using dummy_deinit_keeps_thread_running [of 0 ?s l "Ticks 1"]
    by (intro exI [of _ ?s] exI [of _ l]) simp
qed

end
