(* ===== verification/LiveSession.thy ===== *)
theory LiveSession
  imports SessionLaws
begin

text \<open>
  Sessions that never get stuck, once for all backends: the locale \<open>live_session\<close> takes the operations of a
  backend, an invariant \<open>ctl\<close> of flag, handle and threads with the discipline that keeps it (\<open>orderly\<close> or
  \<open>owned\<close>), the readiness \<open>ready\<close> of the tables, the requests a thread may be started with (\<open>good\<close>) and the
  invariant of its loop (\<open>lok\<close>); every permitted step then returns and keeps all of it.
\<close>

definition status_ok ::
  "(('l, 'x) session_scheme \<Rightarrow> QcPerfRequest option \<Rightarrow> bool) \<Rightarrow> (('l, 'x) session_scheme \<Rightarrow> 'l \<Rightarrow> bool)
     \<Rightarrow> ('l, 'x) session_scheme \<Rightarrow> 'l thread_status \<Rightarrow> bool" where
  "status_ok good lok s st = (case st of
     Spawned q \<Rightarrow> good s q
   | Running l \<Rightarrow> g_is_thread_running s \<longrightarrow> lok s l
   | Exited \<Rightarrow> True)"

text \<open>What a step leaves alone for the threads it does not touch.\<close>

definition keeps ::
  "(('l, 'x) session_scheme \<Rightarrow> QcPerfRequest option \<Rightarrow> bool) \<Rightarrow> (('l, 'x) session_scheme \<Rightarrow> 'l \<Rightarrow> bool)
     \<Rightarrow> ('l, 'x) session_scheme \<Rightarrow> ('l, 'x) session_scheme \<Rightarrow> bool" where
  "keeps good lok s s' \<longleftrightarrow> (g_is_thread_running s' \<longrightarrow> g_is_thread_running s) \<and>
     (\<forall>q. good s q \<longrightarrow> good s' q) \<and> (\<forall>l. lok s l \<longrightarrow> lok s' l)"

lemma status_ok_keeps: "status_ok good lok s st \<Longrightarrow> keeps good lok s s' \<Longrightarrow> status_ok good lok s' st"
  by (auto simp: status_ok_def keeps_def split: thread_status.splits)

definition idle :: "('l, 'x) session_scheme \<Rightarrow> bool" where
  "idle s \<longleftrightarrow> all_ended s \<and> \<not> g_is_thread_running s"

lemma idle_cong: "same_control s s' \<Longrightarrow> idle s' = idle s"
  by (simp add: same_control_def idle_def all_ended_def)

definition some_ended :: "('l, 'x) session_scheme \<Rightarrow> ('l, 'x) session_scheme \<Rightarrow> bool" where
  "some_ended s s' \<longleftrightarrow> sn_threads s' = sn_threads s \<or> (\<exists>t. sn_threads s' = (sn_threads s)[t := Exited])"

lemma some_ended_nth: "some_ended s s' \<Longrightarrow> length (sn_threads s') = length (sn_threads s) \<and>
     (\<forall>t<length (sn_threads s). sn_threads s' ! t = sn_threads s ! t \<or> sn_threads s' ! t = Exited)"
  by (auto simp: some_ended_def nth_list_update_if)

text \<open>The scheduler's part of a session, for a thread that exists.\<close>

datatype thread_event = Begins nat | Iterates nat | Leaves nat

fun schedule ::
  "('e \<Rightarrow> ('l, ('l, 'x) session_scheme) thread_code)
   \<Rightarrow> ('e \<Rightarrow> 'l \<Rightarrow> ('l, 'x) session_scheme \<Rightarrow> ('l \<times> ('l, 'x) session_scheme) outcome)
   \<Rightarrow> 'e \<Rightarrow> thread_event \<Rightarrow> ('l, 'x) session_scheme \<Rightarrow> ('l, 'x) session_scheme outcome" where
  "schedule code body e (Begins t) s = (if t < length (sn_threads s) then thread_begin (code e) t s else Ret s)"
| "schedule code body e (Iterates t) s = (if t < length (sn_threads s) then thread_iterate (body e) t s else Ret s)"
| "schedule code body e (Leaves t) s = (if t < length (sn_threads s) then thread_leave (code e) t s else Ret s)"

lemma schedule_idle: "idle s \<Longrightarrow> schedule code body e ev s = Ret s"
  by (cases ev) (auto simp: idle_def all_ended_def thread_begin_def thread_iterate_def thread_leave_def)

locale live_session =
  fixes start :: "QcPerfRequest option \<Rightarrow> ('l, 'x) session_scheme \<Rightarrow> (QcPerfReturnCode \<times> ('l, 'x) session_scheme) outcome"
    and stop :: "'e \<Rightarrow> QcPerfRequest option \<Rightarrow> ('l, 'x) session_scheme \<Rightarrow> (QcPerfReturnCode \<times> ('l, 'x) session_scheme) outcome"
    and code :: "'e \<Rightarrow> ('l, ('l, 'x) session_scheme) thread_code"
    and body :: "'e \<Rightarrow> 'l \<Rightarrow> ('l, 'x) session_scheme \<Rightarrow> ('l \<times> ('l, 'x) session_scheme) outcome"
    and ctl :: "('l, 'x) session_scheme \<Rightarrow> bool"
    and okev :: "'e session_event \<Rightarrow> ('l, 'x) session_scheme \<Rightarrow> bool"
    and ready :: "('l, 'x) session_scheme \<Rightarrow> bool"
    and good :: "('l, 'x) session_scheme \<Rightarrow> QcPerfRequest option \<Rightarrow> bool"
    and lok :: "('l, 'x) session_scheme \<Rightarrow> 'l \<Rightarrow> bool"
  assumes ctl_step: "ctl s \<Longrightarrow> okev ev s \<Longrightarrow> session_step start stop code body ev s = Ret s' \<Longrightarrow> ctl s'"
    and ctl_alone: "ctl s \<Longrightarrow> t < length (sn_threads s) \<Longrightarrow> sn_threads s ! t \<noteq> Exited \<Longrightarrow> u < length (sn_threads s) \<Longrightarrow> u \<noteq> t \<Longrightarrow>
            sn_threads s ! u = Exited"
    and okev_exists: "okev (CallStop e r) s" "okev (Begin e t) s = (t < length (sn_threads s))"
            "okev (Iterate e t) s = (t < length (sn_threads s))" "okev (Leave e t) s = (t < length (sn_threads s))"
    and start_live: "ctl s \<Longrightarrow> ready s \<Longrightarrow> okev (CallStart r) s \<Longrightarrow> \<exists>rc s'. start r s = Ret (rc, s') \<and> ready s' \<and>
            (sn_threads s' = sn_threads s \<and> keeps good lok s s' \<or>
             all_ended s \<and> (\<exists>q. good s' q \<and> sn_threads s' = sn_threads s @ [Spawned q]))"
    and stop_live: "ctl s \<Longrightarrow> ready s \<Longrightarrow> \<exists>rc s'. stop e r s = Ret (rc, s') \<and> ready s' \<and> keeps good lok s s' \<and> some_ended s s'"
    and entry_live: "ready s \<Longrightarrow> good s q \<Longrightarrow> \<exists>lo s'. th_entry (code e) q s = Ret (lo, s') \<and> sn_threads s' = sn_threads s \<and> ready s' \<and>
            (\<forall>l. lo = Some l \<and> g_is_thread_running s' \<longrightarrow> lok s' l)"
    and body_live: "ready s \<Longrightarrow> lok s l \<Longrightarrow> g_is_thread_running s \<Longrightarrow> \<exists>l' s'. body e l s = Ret (l', s') \<and> sn_threads s' = sn_threads s \<and>
            ready s' \<and> lok s' l'"
    and leave_live: "ready s \<Longrightarrow> \<not> g_is_thread_running s \<Longrightarrow> \<exists>s'. th_finish (code e) l s = Ret s' \<and> sn_threads s' = sn_threads s \<and> ready s'"
    and ready_put: "ready (put_thread t st s) = ready s" "lok (put_thread t st s) l = lok s l"
begin

definition live :: "('l, 'x) session_scheme \<Rightarrow> bool" where
  "live s \<longleftrightarrow> ctl s \<and> ready s \<and> (\<forall>t<length (sn_threads s). status_ok good lok s (sn_threads s ! t))"

lemma put_ok:
  assumes a: "ctl s" "t < length (sn_threads s)" "sn_threads s ! t \<noteq> Exited" and e: "sn_threads s' = sn_threads s" "ready s'"
    and st: "\<forall>q. st \<noteq> Spawned q" "\<forall>l. st = Running l \<and> g_is_thread_running s' \<longrightarrow> lok s' l"
  shows "ready (put_thread t st s') \<and>
     (\<forall>u<length (sn_threads (put_thread t st s')). status_ok good lok (put_thread t st s') (sn_threads (put_thread t st s') ! u))"
proof -
  have "status_ok good lok (put_thread t st s') ((sn_threads s)[t := st] ! u)" if u: "u < length (sn_threads s)" for u
  proof (cases "u = t")
    case True
    then show ?thesis using st a(2) by (auto simp: status_ok_def ready_put split: thread_status.splits)
  next
    case False
    then show ?thesis using ctl_alone [OF a u] by (simp add: status_ok_def)
  qed
  then show ?thesis using e by (simp add: ready_put)
qed

lemma live_step:
  assumes r: "live s" and d: "okev ev s"
  shows "\<exists>s'. session_step start stop code body ev s = Ret s' \<and> live s'"
proof -
  have c: "ctl s" and reg: "ready s" and ok: "\<And>t. t < length (sn_threads s) \<Longrightarrow> status_ok good lok s (sn_threads s ! t)"
    using r by (simp_all add: live_def)
  let ?ok = "\<lambda>s'. ready s' \<and> (\<forall>t<length (sn_threads s'). status_ok good lok s' (sn_threads s' ! t))"
  have "\<exists>s'. session_step start stop code body ev s = Ret s' \<and> ?ok s'"
  proof (cases ev)
    case (CallStart q)
    obtain rc s' where s': "start q s = Ret (rc, s')" "ready s'"
      "sn_threads s' = sn_threads s \<and> keeps good lok s s' \<or>
       all_ended s \<and> (\<exists>q. good s' q \<and> sn_threads s' = sn_threads s @ [Spawned q])"
      using start_live [OF c reg, of q] d CallStart by blast
    have "status_ok good lok s' (sn_threads s' ! t)" if "t < length (sn_threads s')" for t
      using s'(3)
    proof (elim disjE conjE exE)
      assume a: "sn_threads s' = sn_threads s" "keeps good lok s s'"
      then show ?thesis using ok [of t] that status_ok_keeps by metis
    next
      fix q assume "all_ended s" "good s' q" "sn_threads s' = sn_threads s @ [Spawned q]"
      then show ?thesis using that by (auto simp: all_ended_def nth_append status_ok_def less_Suc_eq)
    qed
    then show ?thesis using s' CallStart by simp
  next
    case (CallStop e q)
    obtain rc s' where s': "stop e q s = Ret (rc, s')" "ready s'" "keeps good lok s s'" "some_ended s s'"
      using stop_live [OF c reg] by blast
    have "status_ok good lok s' (sn_threads s' ! t)" if "t < length (sn_threads s')" for t
    proof (cases "sn_threads s' ! t = Exited")
      case False
      then have "sn_threads s' ! t = sn_threads s ! t" "t < length (sn_threads s)"
        using some_ended_nth [OF s'(4)] that by auto
      then show ?thesis using status_ok_keeps [OF ok s'(3)] by simp
    qed (simp add: status_ok_def)
    then show ?thesis using s' CallStop by simp
  next
    case (Begin e t)
    then have t: "t < length (sn_threads s)" using d okev_exists by simp
    show ?thesis
    proof (cases "sn_threads s ! t")
      case (Spawned x)
      then have "good s x" using ok [OF t] by (simp add: status_ok_def)
      then obtain lo s1 where en: "th_entry (code e) x s = Ret (lo, s1)" "sn_threads s1 = sn_threads s" "ready s1"
        "\<forall>l. lo = Some l \<and> g_is_thread_running s1 \<longrightarrow> lok s1 l" using entry_live [OF reg] by blast
      let ?st = "case lo of None \<Rightarrow> Exited | Some l \<Rightarrow> Running l"
      have "?ok (put_thread t ?st s1)"
        by (rule put_ok [OF c t _ en(2,3)]) (use en(4) Spawned in \<open>auto split: option.splits\<close>)
      then show ?thesis using Begin Spawned en(1)
        by (intro exI [of _ "put_thread t ?st s1"]) (simp add: thread_begin_def)
    qed (use r Begin in \<open>auto simp: thread_begin_def live_def\<close>)
  next
    case (Iterate e t)
    then have t: "t < length (sn_threads s)" using d okev_exists by simp
    show ?thesis
    proof (cases "\<exists>l. sn_threads s ! t = Running l \<and> g_is_thread_running s")
      case False
      then have "thread_iterate (body e) t s = Ret s" by (auto simp: thread_iterate_def split: thread_status.splits)
      then show ?thesis using r Iterate by (auto simp: live_def)
    next
      case True
      then obtain l where l: "sn_threads s ! t = Running l" "g_is_thread_running s" by blast
      then have "lok s l" using ok [OF t] by (simp add: status_ok_def)
      then obtain l' s1 where b: "body e l s = Ret (l', s1)" "sn_threads s1 = sn_threads s" "ready s1" "lok s1 l'"
        using body_live [OF reg _ l(2)] by blast
      have "?ok (put_thread t (Running l') s1)"
        by (rule put_ok [OF c t _ b(2,3)]) (use b(4) l in auto)
      then show ?thesis using Iterate l b(1)
        by (intro exI [of _ "put_thread t (Running l') s1"]) (simp add: thread_iterate_def)
    qed
  next
    case (Leave e t)
    then have t: "t < length (sn_threads s)" using d okev_exists by simp
    show ?thesis
    proof (cases "\<exists>l. sn_threads s ! t = Running l \<and> \<not> g_is_thread_running s")
      case False
      then have "thread_leave (code e) t s = Ret s" by (auto simp: thread_leave_def split: thread_status.splits)
      then show ?thesis using r Leave by (auto simp: live_def)
    next
      case True
      then obtain l where l: "sn_threads s ! t = Running l" "\<not> g_is_thread_running s" by blast
      obtain s1 where b: "th_finish (code e) l s = Ret s1" "sn_threads s1 = sn_threads s" "ready s1"
        using leave_live [OF reg l(2)] by blast
      have "?ok (put_thread t Exited s1)"
        by (rule put_ok [OF c t _ b(2,3)]) (use l in auto)
      then show ?thesis using Leave l b(1)
        by (intro exI [of _ "put_thread t Exited s1"]) (simp add: thread_leave_def)
    qed
  qed
  then show ?thesis using ctl_step [OF c d] by (auto simp: live_def)
qed

lemma live_schedule:
  assumes "live s"
  shows "\<exists>s'. schedule code body e ev s = Ret s' \<and> live s' \<and> (idle s \<longrightarrow> idle s')"
proof (cases "idle s")
  case True
  then show ?thesis using assms by (simp add: schedule_idle)
next
  case False
  show ?thesis
  proof (cases ev)
    case (Begins t)
    then show ?thesis using assms False live_step [OF assms, of "Begin e t"] okev_exists(2) [of e t s] by simp
  next
    case (Iterates t)
    then show ?thesis using assms False live_step [OF assms, of "Iterate e t"] okev_exists(3) [of e t s] by simp
  next
    case (Leaves t)
    then show ?thesis using assms False live_step [OF assms, of "Leave e t"] okev_exists(4) [of e t s] by simp
  qed
qed

lemma live_stop:
  assumes "live s"
  shows "\<exists>rc s'. stop e r s = Ret (rc, s') \<and> live s' \<and> (idle s \<longrightarrow> idle s')"
proof -
  obtain rc s' where s': "stop e r s = Ret (rc, s')" "keeps good lok s s'" "some_ended s s'"
    using stop_live assms by (meson live_def)
  have "live s'" using live_step [OF assms, of "CallStop e r"] s'(1) by (auto simp: okev_exists)
  moreover have "idle s'" if "idle s"
    using that s'(2,3) some_ended_nth [OF s'(3)] by (auto simp: idle_def keeps_def all_ended_def)
  ultimately show ?thesis using s'(1) by blast
qed

lemma live_start:
  assumes "live s" "okev (CallStart r) s"
  shows "\<exists>rc s'. start r s = Ret (rc, s') \<and> live s'"
proof -
  obtain rc s' where s': "start r s = Ret (rc, s')" using start_live assms by (meson live_def)
  then show ?thesis using live_step [OF assms] by auto
qed

text \<open>A step that touches neither control nor tables.\<close>

lemma live_same:
  assumes "live s" "same_control s s'" "ctl s'" "ready s'" "keeps good lok s s'"
  shows "live s'"
  using assms status_ok_keeps [OF _ assms(5)] by (simp add: live_def same_control_def)

lemma live_idle:
  assumes "ctl s" "ready s" "all_ended s"
  shows "live s"
  using assms by (simp add: live_def all_ended_def status_ok_def)

end

section \<open>Backends whose thread raises the flag\<close>

locale orderly_session = session_backend start stop code body
  for start :: "QcPerfRequest option \<Rightarrow> ('l, 'x) session_scheme \<Rightarrow> (QcPerfReturnCode \<times> ('l, 'x) session_scheme) outcome"
    and stop :: "'e \<Rightarrow> QcPerfRequest option \<Rightarrow> ('l, 'x) session_scheme \<Rightarrow> (QcPerfReturnCode \<times> ('l, 'x) session_scheme) outcome"
    and code :: "'e \<Rightarrow> ('l, ('l, 'x) session_scheme) thread_code"
    and body :: "'e \<Rightarrow> 'l \<Rightarrow> ('l, 'x) session_scheme \<Rightarrow> ('l \<times> ('l, 'x) session_scheme) outcome" +
  fixes ready :: "('l, 'x) session_scheme \<Rightarrow> bool"
    and good :: "('l, 'x) session_scheme \<Rightarrow> QcPerfRequest option \<Rightarrow> bool"
    and lok :: "('l, 'x) session_scheme \<Rightarrow> 'l \<Rightarrow> bool"
  assumes start_ready: "ready s \<Longrightarrow> \<exists>rc s'. start r s = Ret (rc, s') \<and> ready s' \<and> (\<forall>q. good s q \<longrightarrow> good s' q) \<and> (\<forall>l. lok s l \<longrightarrow> lok s' l) \<and>
            (rc = SUCCESS \<longrightarrow> (\<exists>q. good s' q \<and> sn_threads s' = sn_threads s @ [Spawned q]))"
    and stop_ready: "ready s \<Longrightarrow> stop e r s = Ret (rc, s') \<Longrightarrow> ready s' \<and> (\<forall>q. good s q \<longrightarrow> good s' q) \<and> (\<forall>l. lok s l \<longrightarrow> lok s' l)"
    and entry_ready: "ready s \<Longrightarrow> good s q \<Longrightarrow> \<exists>lo s'. th_entry (code e) q s = Ret (lo, s') \<and> ready s' \<and>
            (\<forall>l. lo = Some l \<and> g_is_thread_running s' \<longrightarrow> lok s' l)"
    and body_ready: "ready s \<Longrightarrow> lok s l \<Longrightarrow> g_is_thread_running s \<Longrightarrow> \<exists>l' s'. body e l s = Ret (l', s') \<and> ready s' \<and> lok s' l'"
    and finish_ready: "ready s \<Longrightarrow> \<not> g_is_thread_running s \<Longrightarrow> \<exists>s'. th_finish (code e) l s = Ret s' \<and> ready s'"
    and put_ready: "ready (put_thread t st s) = ready s" "lok (put_thread t st s) l = lok s l"
begin

lemma start_spawns:
  assumes "orderly s" "ready s" "disciplined (CallStart r) s"
  shows "\<exists>rc s'. start r s = Ret (rc, s') \<and> ready s' \<and>
     (sn_threads s' = sn_threads s \<and> keeps good lok s s' \<or>
      all_ended s \<and> (\<exists>q. good s' q \<and> sn_threads s' = sn_threads s @ [Spawned q]))"
proof -
  obtain rc s' where s': "start r s = Ret (rc, s')" "ready s'" "\<forall>q. good s q \<longrightarrow> good s' q" "\<forall>l. lok s l \<longrightarrow> lok s' l"
    "rc = SUCCESS \<longrightarrow> (\<exists>q. good s' q \<and> sn_threads s' = sn_threads s @ [Spawned q])"
    using start_ready [OF assms(2)] by blast
  show ?thesis
  proof (cases "rc = SUCCESS")
    case True
    then have "spawned s s'" using start_law [OF s'(1)] by simp
    then have "all_ended s" using assms(3) by (simp add: spawned_def)
    then show ?thesis using s' True by blast
  next
    case False
    then have "unspawned s s'" using start_law [OF s'(1)] by simp
    then show ?thesis using s' by (auto simp: keeps_def same_control_def unspawned_def)
  qed
qed

lemma stop_ends:
  assumes "orderly s" "ready s"
  shows "\<exists>rc s'. stop e r s = Ret (rc, s') \<and> ready s' \<and> keeps good lok s s' \<and> some_ended s s'"
proof -
  have "stoppable s" using assms(1) by (simp add: orderly_def)
  from stop_cases [OF this, of e r] obtain rc s' where s': "stop e r s = Ret (rc, s')"
    "(\<exists>t. joined t s s') \<or> same_control s s'"
    by (auto split: if_splits)
  then show ?thesis
    using stop_ready [OF assms(2) s'(1)] by (auto simp: keeps_def some_ended_def joined_def same_control_def)
qed

end

sublocale orderly_session \<subseteq> live_session start stop code body orderly disciplined ready good lok
proof unfold_locales
  fix s q e
  assume "ready s" "good s q"
  then obtain lo s' where s': "th_entry (code e) q s = Ret (lo, s')" "ready s'"
    "\<forall>l. lo = Some l \<and> g_is_thread_running s' \<longrightarrow> lok s' l" using entry_ready by blast
  then show "\<exists>lo s'. th_entry (code e) q s = Ret (lo, s') \<and> sn_threads s' = sn_threads s \<and> ready s' \<and>
      (\<forall>l. lo = Some l \<and> g_is_thread_running s' \<longrightarrow> lok s' l)"
    using entry_law [OF s'(1)] by blast
next
  fix s l e
  assume "ready s" "lok s l" "g_is_thread_running s"
  then obtain l' s' where s': "body e l s = Ret (l', s')" "ready s'" "lok s' l'" using body_ready by blast
  then show "\<exists>l' s'. body e l s = Ret (l', s') \<and> sn_threads s' = sn_threads s \<and> ready s' \<and> lok s' l'"
    using body_law [OF s'(1)] by (auto simp: same_control_def)
next
  fix s e l
  assume a: "ready s" "\<not> g_is_thread_running s"
  then obtain s' where s': "th_finish (code e) l s = Ret s'" "ready s'" using finish_ready by blast
  then show "\<exists>s'. th_finish (code e) l s = Ret s' \<and> sn_threads s' = sn_threads s \<and> ready s'"
    using finish_law [OF a(2) s'(1)] by (auto simp: same_control_def)
next
  fix s t u
  assume "orderly s" "t < length (sn_threads s)" "sn_threads s ! t \<noteq> Exited" "u < length (sn_threads s)" "u \<noteq> t"
  then show "sn_threads s ! u = Exited" by (metis orderly_def thread_handle.inject)
qed (use orderly_step start_spawns stop_ends put_ready in auto)

context orderly_session
begin

lemma live_run:
  "live s \<Longrightarrow> session_run (session_step start stop code body) evs s = Some s' \<Longrightarrow> live s'"
proof (induction evs arbitrary: s)
  case (Cons ev evs)
  then show ?case using live_step [OF Cons.prems(1), of ev] by (auto split: if_splits outcome.splits)
qed simp

end

end
