(* ===== verification/CoreProps.thy ===== *)
theory CoreProps
  imports Core
begin

text \<open>
  Correctness of the core: the invariant of its globals, what each operation does on every path, and
  that operations on one backend do not touch the others. What the core relies on when it calls a
  backend is in \<open>Contract\<close>.
\<close>

section \<open>Access lemmas\<close>

lemma nat_less_8 [simp]: "b < 8 \<Longrightarrow> nat b < 8"
  by simp

lemma read_connected_Ret [simp]:
  "length (g_backends_connected s) = 8 \<Longrightarrow> 0 \<le> b \<Longrightarrow> b < 8 \<Longrightarrow>
     read_connected b s = Ret (g_backends_connected s ! nat b)"
  by (simp add: read_connected_def)

lemma read_connected_8: "length (g_backends_connected s) = 8 \<Longrightarrow> read_connected 8 s = Stuck OutOfBounds"
  by (simp add: read_connected_def arr_read_def)

lemma read_private_Ret [simp]:
  "g_qcperf_backend_info s = Some ps \<Longrightarrow> length ps = 8 \<Longrightarrow> 0 \<le> b \<Longrightarrow> b < 8 \<Longrightarrow>
     read_private b s = Ret (ps ! nat b)"
  by (simp add: read_private_def)

lemma write_private_Ret [simp]:
  "g_qcperf_backend_info s = Some ps \<Longrightarrow> length ps = 8 \<Longrightarrow> 0 \<le> b \<Longrightarrow> b < 8 \<Longrightarrow>
     write_private b p s = Ret (s\<lparr>g_qcperf_backend_info := Some (ps[nat b := p])\<rparr>)"
  by (simp add: write_private_def)

lemma write_connected_Ret [simp]:
  "length (g_backends_connected s) = 8 \<Longrightarrow> 0 \<le> b \<Longrightarrow> b < 8 \<Longrightarrow>
     write_connected b v s = Ret (s\<lparr>g_backends_connected := (g_backends_connected s)[nat b := v]\<rparr>)"
  by (simp add: write_connected_def)

lemma call0_RetE:
  assumes "call0 f s = Ret (rc, s')"
  obtains g w where "f = Some g" "g (world s) = Ret (rc, w)" "s' = s\<lparr>world := w\<rparr>"
  using assms by (auto simp: call0_def outcome_simps split: option.splits prod.splits)

lemma core_world_self: "\<exists>w. s = s\<lparr>world := w\<rparr>"
  by (rule exI [of _ "world s"]) simp

section \<open>The invariant of the globals\<close>

text \<open>
  Both tables have eight entries; a connected backend has all its function pointers; before
  \<open>qcperf_init\<close> and after \<open>qcperf_deinit\<close> nothing is connected.
\<close>

definition core_inv :: "'w core_state \<Rightarrow> bool" where
  "core_inv s \<longleftrightarrow>
     length (g_backends_connected s) = 8 \<and> length (init_fns s) = 8 \<and>
     (case g_qcperf_backend_info s of
        None \<Rightarrow> \<forall>i<8. \<not> g_backends_connected s ! i
      | Some ps \<Rightarrow> length ps = 8 \<and> (\<forall>i<8. g_backends_connected s ! i \<longrightarrow> all_pointers_set (ps ! i)))"

lemma core_invD:
  "core_inv s \<Longrightarrow> length (g_backends_connected s) = 8"
  "core_inv s \<Longrightarrow> length (init_fns s) = 8"
  by (auto simp: core_inv_def)

lemma core_inv_table: "core_inv s \<Longrightarrow> g_qcperf_backend_info s = Some ps \<Longrightarrow> length ps = 8"
  by (auto simp: core_inv_def)

lemma core_inv_pointers:
  "core_inv s \<Longrightarrow> g_qcperf_backend_info s = Some ps \<Longrightarrow> g_backends_connected s ! i \<Longrightarrow> i < 8 \<Longrightarrow>
     all_pointers_set (ps ! i)"
  by (auto simp: core_inv_def)

lemma core_inv_pointers_int:
  assumes "core_inv s" "g_qcperf_backend_info s = Some ps" "0 \<le> b" "b < 8"
    "g_backends_connected s ! nat b"
  shows "all_pointers_set (ps ! nat b)"
  using assms by (intro core_inv_pointers) auto

lemma core_inv_None: "core_inv s \<Longrightarrow> g_qcperf_backend_info s = None \<Longrightarrow> i < 8 \<Longrightarrow> \<not> g_backends_connected s ! i"
  by (auto simp: core_inv_def)

lemma core_inv_world [simp]: "core_inv (s\<lparr>world := w\<rparr>) = core_inv s"
  by (cases "g_qcperf_backend_info s") (simp_all add: core_inv_def)

lemma core_inv_oom [simp]: "core_inv (s\<lparr>oom_script := w\<rparr>) = core_inv s"
  by (cases "g_qcperf_backend_info s") (simp_all add: core_inv_def)

lemma core_inv_initial: "length fns = 8 \<Longrightarrow> core_inv (initial_core fns oom w)"
  by (simp add: core_inv_def initial_core_def)

lemma core_inv_drop:
  assumes "core_inv s" and "g_qcperf_backend_info s = Some ps"
  shows "core_inv (s\<lparr>g_backends_connected := (g_backends_connected s)[i := False],
                     g_qcperf_backend_info := Some (ps[i := p])\<rparr>)"
  using assms by (auto simp: core_inv_def nth_list_update_if split: if_splits)

lemma core_inv_set_private:
  assumes "core_inv s" "g_qcperf_backend_info s = Some ps" "i < 8" "\<not> g_backends_connected s ! i"
  shows "core_inv (s\<lparr>g_qcperf_backend_info := Some (ps[i := p])\<rparr>)"
  using assms by (auto simp: core_inv_def nth_list_update_if)

lemma core_inv_connect:
  assumes "core_inv s" "g_qcperf_backend_info s = Some ps" "all_pointers_set (ps ! i)"
  shows "core_inv (s\<lparr>g_backends_connected := (g_backends_connected s)[i := True]\<rparr>)"
  using assms by (auto simp: core_inv_def nth_list_update_if)

section \<open>Disconnecting\<close>

lemma disconnect_connected:
  assumes inv: "core_inv s" and ps: "g_qcperf_backend_info s = Some ps"
    and b: "0 \<le> b" "b < 8" and c: "g_backends_connected s ! nat b"
  shows "qcperf_disconnect_backend b s =
     obind (the (qcperf_backend_deinit (ps ! nat b)) (world s)) (\<lambda>(_, w).
       Ret (SUCCESS, s\<lparr>g_backends_connected := (g_backends_connected s)[nat b := False],
                       g_qcperf_backend_info := Some (ps[nat b := zero_private]), world := w\<rparr>))"
proof -
  have "all_pointers_set (ps ! nat b)"
    using core_inv_pointers [OF inv ps c] b by simp
  then obtain f where f: "qcperf_backend_deinit (ps ! nat b) = Some f"
    by (auto simp: all_pointers_set_def)
  have "length ps = 8" using core_inv_table [OF inv ps] .
  then show ?thesis
    using core_invD [OF inv] ps b c f
    by (cases "f (world s)")
       (auto simp: qcperf_disconnect_backend_def qcperf_reset_backend_private_def call0_def split: prod.splits)
qed

lemma disconnect_other:
  assumes inv: "core_inv s" and b: "b \<noteq> 8"
    and n: "\<not> (g_qcperf_backend_info s \<noteq> None \<and> 0 \<le> b \<and> b < 8 \<and> g_backends_connected s ! nat b)"
  shows "\<exists>rc. rc \<noteq> SUCCESS \<and> qcperf_disconnect_backend b s = Ret (rc, s)"
  using assms core_invD [OF inv] by (cases "0 \<le> b \<and> b < 8") (auto simp: qcperf_disconnect_backend_def)

lemma disconnect_cases:
  assumes inv: "core_inv s" and r: "qcperf_disconnect_backend b s = Ret (rc, s')"
  shows "(rc \<noteq> SUCCESS \<and> s' = s) \<or>
     (\<exists>ps w. rc = SUCCESS \<and> 0 \<le> b \<and> b < 8 \<and> g_qcperf_backend_info s = Some ps \<and> g_backends_connected s ! nat b \<and>
        s' = s\<lparr>g_backends_connected := (g_backends_connected s)[nat b := False],
               g_qcperf_backend_info := Some (ps[nat b := zero_private]), world := w\<rparr>)"
proof (cases "g_qcperf_backend_info s \<noteq> None \<and> 0 \<le> b \<and> b < 8 \<and> g_backends_connected s ! nat b")
  case False
  show ?thesis
  proof (cases "b = 8")
    case True
    then show ?thesis
      using core_invD [OF inv] r by (auto simp: qcperf_disconnect_backend_def read_connected_8 split: if_splits)
  next
    case b8: False
    show ?thesis using disconnect_other [OF inv b8 False] r by auto
  qed
next
  case True
  then obtain ps where ps: "g_qcperf_backend_info s = Some ps" by auto
  with True r show ?thesis
    by (auto simp: disconnect_connected [OF inv ps] outcome_simps split: prod.splits)
qed

lemma disconnect_success:
  assumes inv: "core_inv s" and "g_qcperf_backend_info s \<noteq> None"
    and b: "0 \<le> b" "b < 8" and c: "g_backends_connected s ! nat b"
    and r: "qcperf_disconnect_backend b s = Ret (rc, s')"
  shows "rc = SUCCESS"
proof -
  obtain ps where ps: "g_qcperf_backend_info s = Some ps" using assms(2) by auto
  show ?thesis
    using r unfolding disconnect_connected [OF inv ps b c]
    by (cases "the (qcperf_backend_deinit (ps ! nat b)) (world s)") auto
qed

lemma core_inv_disconnect:
  assumes inv: "core_inv s" and r: "qcperf_disconnect_backend b s = Ret (rc, s')"
  shows "core_inv s'"
  using disconnect_cases [OF inv r] core_inv_drop [OF inv, of _ "nat b" zero_private] inv
  by (auto simp: core_inv_def)


lemma disconnect_fields:
  assumes inv: "core_inv s" and r: "qcperf_disconnect_backend b s = Ret (rc, s')"
  shows "init_fns s' = init_fns s" and "oom_script s' = oom_script s"
    and "(g_qcperf_backend_info s' = None) = (g_qcperf_backend_info s = None)"
  using disconnect_cases [OF inv r] by auto

section \<open>Connecting\<close>

text \<open>
  The result of a connection, once the creation function has filled the table entry: the entry of
  \<open>g_backends_connected\<close> is set exactly when the code is \<open>SUCCESS\<close>.
\<close>

lemma set_message_callback_frame:
  assumes "qcperf_set_message_callback b cb s = Ret (rc, s')"
  shows "\<exists>w. s' = s\<lparr>world := w\<rparr>"
proof -
  have "\<exists>w. s = s\<lparr>world := w\<rparr>" by (rule exI [of _ "world s"]) simp
  then show ?thesis
    using assms
    by (auto simp: qcperf_set_message_callback_def outcome_simps split: if_splits elim!: call0_RetE)
qed

lemma connect_verified_cases:
  assumes inv: "core_inv s" and ps: "g_qcperf_backend_info s = Some ps"
    and b: "0 \<le> b" "b < 8" and nc: "\<not> g_backends_connected s ! nat b"
    and p: "all_pointers_set (ps ! nat b)"
    and r: "connect_verified b cb s = Ret (rc, s')"
  shows "\<exists>w. (rc = SUCCESS \<and>
               s' = s\<lparr>g_backends_connected := (g_backends_connected s)[nat b := True], world := w\<rparr>) \<or>
             (rc \<noteq> SUCCESS \<and> s' = s\<lparr>g_qcperf_backend_info := Some (ps[nat b := zero_private]), world := w\<rparr>)"
proof -
  let ?s1 = "s\<lparr>g_backends_connected := (g_backends_connected s)[nat b := True]\<rparr>"
  have len: "length (g_backends_connected s) = 8" "length ps = 8"
    using core_invD [OF inv] core_inv_table [OF inv ps] by auto
  obtain rcm s2 where s2: "(if cb \<noteq> None then qcperf_set_message_callback b cb ?s1 else Ret (SUCCESS, ?s1)) = Ret (rcm, s2)"
    using r len b by (auto simp: connect_verified_def outcome_simps split: if_splits)
  then have "\<exists>w. s2 = ?s1\<lparr>world := w\<rparr>"
  proof (cases "cb \<noteq> None")
    case True
    then show ?thesis using s2 set_message_callback_frame by auto
  next
    case False
    then have "s2 = ?s1" using s2 by simp
    then show ?thesis by (simp only:) (rule core_world_self)
  qed
  then obtain w2 where w2: "s2 = ?s1\<lparr>world := w2\<rparr>" by blast
  then have ps2: "g_qcperf_backend_info s2 = Some ps" using ps by simp
  obtain rci s3 where s3: "call0 (qcperf_backend_init (ps ! nat b)) s2 = Ret (rci, s3)"
    and rest: "(if rci = SUCCESS then Ret (SUCCESS, s3)
                else obind (qcperf_disconnect_backend b s3) (\<lambda>(_, s4). Ret (rci, s4))) = Ret (rc, s')"
    using r s2 len b read_private_Ret [OF ps2 len(2) b]
    by (auto simp: connect_verified_def outcome_simps split: if_splits)
  from s3 obtain w3 where w3: "s3 = ?s1\<lparr>world := w3\<rparr>"
    using w2 by (auto elim!: call0_RetE)
  show ?thesis
  proof (cases "rci = SUCCESS")
    case True
    then show ?thesis using rest w3 by auto
  next
    case False
    have inv3: "core_inv s3"
      using core_inv_connect [OF inv ps p] w3 by simp
    have c3: "g_backends_connected s3 ! nat b" using w3 len b by simp
    have ps3: "g_qcperf_backend_info s3 = Some ps" using w3 ps by simp
    obtain rcd s4 where d: "qcperf_disconnect_backend b s3 = Ret (rcd, s4)" and e: "rc = rci" "s' = s4"
      using rest False by (auto simp: outcome_simps)
    have same: "(g_backends_connected s)[nat b := True, nat b := False] = g_backends_connected s"
      using nc len b by (simp add: list_update_same_conv)
    obtain w4 where "s4 = s3\<lparr>g_backends_connected := (g_backends_connected s3)[nat b := False],
          g_qcperf_backend_info := Some (ps[nat b := zero_private]), world := w4\<rparr>"
      using d c3 ps3 b disconnect_connected [OF inv3 ps3 b c3] by (auto simp: outcome_simps split: prod.splits)
    then have "s' = s\<lparr>g_qcperf_backend_info := Some (ps[nat b := zero_private]), world := w4\<rparr>"
      using e w3 same by simp
    then show ?thesis using e False by blast
  qed
qed

text \<open>
  The creation functions the registry may hold: given an entry they return one, with a code.
\<close>

lemma connect_cases:
  assumes inv: "core_inv s" and r: "qcperf_connect_backend b cb s = Ret (rc, s')"
  shows "(rc \<noteq> SUCCESS \<and> s' = s) \<or>
     (\<exists>ps q w. 0 \<le> b \<and> b < 8 \<and> g_qcperf_backend_info s = Some ps \<and> \<not> g_backends_connected s ! nat b \<and>
        (if rc = SUCCESS
         then all_pointers_set q \<and>
              s' = s\<lparr>g_qcperf_backend_info := Some (ps[nat b := q]),
                     g_backends_connected := (g_backends_connected s)[nat b := True], world := w\<rparr>
         else s' = s\<lparr>g_qcperf_backend_info := Some (ps[nat b := q]), world := w\<rparr>))"
proof (cases "g_qcperf_backend_info s")
  case None
  then show ?thesis using r by (auto simp: qcperf_connect_backend_def)
next
  case ps: (Some ps)
  show ?thesis
  proof (cases "0 \<le> b \<and> b < 8 \<and> \<not> g_backends_connected s ! nat b")
    case False
    then show ?thesis
      using r ps core_invD [OF inv] by (auto simp: qcperf_connect_backend_def split: if_splits)
  next
    case True
    then have b: "0 \<le> b" "b < 8" and nc: "\<not> g_backends_connected s ! nat b" by auto
    have len: "length (g_backends_connected s) = 8" "length ps = 8" "length (init_fns s) = 8"
      using core_invD [OF inv] core_inv_table [OF inv ps] by auto
    show ?thesis
    proof (cases "init_fns s ! nat b")
      case None
      then show ?thesis using r ps len b nc by (auto simp: qcperf_connect_backend_def)
    next
      case (Some create)
      obtain rcc p' where cr: "create (Some (ps ! nat b)) = (rcc, p')" by (cases "create (Some (ps ! nat b))")
      define q where "q = (case p' of Some q \<Rightarrow> q | None \<Rightarrow> ps ! nat b)"
      let ?s1 = "s\<lparr>g_qcperf_backend_info := Some (ps[nat b := q])\<rparr>"
      have rd: "arr_read (init_fns s) (nat b) = Ret (Some create)" using Some len b by simp
      have r1: "(if rcc \<noteq> SUCCESS then Ret (rcc, ?s1)
                 else obind (qcperf_verify_backend_private b ?s1) (\<lambda>rc2.
                    if rc2 \<noteq> SUCCESS then Ret (rc2, ?s1) else connect_verified b cb ?s1)) = Ret (rc, s')"
        (is "?body = _")
      proof -
        have "qcperf_connect_backend b cb s = ?body"
          using ps rd len b nc cr by (simp add: qcperf_connect_backend_def q_def cong: if_cong)
        then show ?thesis using r by (rule subst)
      qed
      have ver: "qcperf_verify_backend_private b ?s1 = Ret (if all_pointers_set q then SUCCESS else NULL_POINTER)"
        using len b by (simp add: qcperf_verify_backend_private_def)
      have fail: "?thesis" if "rc \<noteq> SUCCESS" "s' = ?s1"
      proof -
        have "?s1 = s\<lparr>g_qcperf_backend_info := Some (ps[nat b := q]), world := world s\<rparr>" by simp
        then have "s' = s\<lparr>g_qcperf_backend_info := Some (ps[nat b := q]), world := world s\<rparr>"
          by (simp only: that(2))
        then show ?thesis using that(1) b ps nc by metis
      qed
      show ?thesis
      proof (cases "rcc = SUCCESS \<and> all_pointers_set q")
        case False
        then show ?thesis using r1 ver fail by (auto split: if_splits)
      next
        case True
        have inv1: "core_inv ?s1" using core_inv_set_private [OF inv ps _ nc] b by simp
        have "connect_verified b cb ?s1 = Ret (rc, s')" using r1 ver True by simp
        moreover have "\<not> g_backends_connected ?s1 ! nat b" using nc by simp
        moreover have "all_pointers_set (ps[nat b := q] ! nat b)" using True len b by simp
        ultimately obtain w where
          "(rc = SUCCESS \<and> s' = ?s1\<lparr>g_backends_connected := (g_backends_connected s)[nat b := True], world := w\<rparr>) \<or>
           (rc \<noteq> SUCCESS \<and> s' = ?s1\<lparr>g_qcperf_backend_info := Some (ps[nat b := q, nat b := zero_private]), world := w\<rparr>)"
          using connect_verified_cases [OF inv1 _ b] by fastforce
        then show ?thesis using True b ps nc by (auto split: if_splits)
      qed
    qed
  qed
qed

lemma core_inv_connect_backend:
  assumes inv: "core_inv s" and r: "qcperf_connect_backend b cb s = Ret (rc, s')"
  shows "core_inv s'"
  using connect_cases [OF inv r] inv
  by (auto simp: core_inv_def nth_list_update_if split: if_splits)


lemma connect_fields:
  assumes inv: "core_inv s" and r: "qcperf_connect_backend b cb s = Ret (rc, s')"
  shows "init_fns s' = init_fns s" and "oom_script s' = oom_script s"
  using connect_cases [OF inv r] by (auto split: if_splits)

section \<open>Dispatch\<close>

text \<open>
  The four dispatching operations share their shape: guards, then a call through one pointer of
  the entry. They change only the world.
\<close>

definition dispatch ::
  "('w QcPerfBackendPrivate \<Rightarrow> 'w step0 option) \<Rightarrow> bool \<Rightarrow> int \<Rightarrow> 'w core_state \<Rightarrow> 'w core_result" where
  "dispatch f null b s =
     (if g_qcperf_backend_info s = None then Ret (NOT_INITIALIZED, s)
      else if 0 > b \<or> QC_PERF_BACKEND_MAX < b \<or> null then Ret (INVALID_ARGUMENTS, s)
      else obind (read_connected b s) (\<lambda>c.
        if \<not> c then Ret (BACKEND_NOT_CONNECTED, s)
        else obind (read_private b s) (\<lambda>p. call0 (f p) s)))"

lemma dispatch_ops:
  "qcperf_start b r s = dispatch (\<lambda>p. apply_ptr (qcperf_backend_start p) r) (r = None) b s"
  "qcperf_stop b r s = dispatch (\<lambda>p. apply_ptr (qcperf_backend_stop p) r) (r = None) b s"
  "qcperf_set_data_callback b cb s = dispatch (\<lambda>p. apply_ptr (set_data_callback p) cb) (cb = None) b s"
  "qcperf_set_message_callback b cb s = dispatch (\<lambda>p. apply_ptr (set_message_callback p) cb) (cb = None) b s"
  by (simp_all add: dispatch_def qcperf_start_def qcperf_stop_def qcperf_set_data_callback_def
      qcperf_set_message_callback_def)

lemma dispatch_frame:
  assumes "dispatch f null b s = Ret (rc, s')"
  shows "\<exists>w. s' = s\<lparr>world := w\<rparr>"
  using assms core_world_self [of s]
  by (auto simp: dispatch_def outcome_simps split: if_splits elim!: call0_RetE)

lemma dispatch_connected:
  assumes inv: "core_inv s" and ps: "g_qcperf_backend_info s = Some ps"
    and b: "0 \<le> b" "b < 8" and c: "g_backends_connected s ! nat b" and nn: "\<not> null"
  shows "dispatch f null b s = call0 (f (ps ! nat b)) s"
  using core_invD [OF inv] core_inv_table [OF inv ps] ps b c nn by (simp add: dispatch_def)

lemma dispatch_unconnected:
  assumes inv: "core_inv s" and b: "b \<noteq> 8"
    and n: "\<not> (g_qcperf_backend_info s \<noteq> None \<and> 0 \<le> b \<and> b < 8 \<and> g_backends_connected s ! nat b \<and> \<not> null)"
  shows "\<exists>rc. rc \<noteq> SUCCESS \<and> dispatch f null b s = Ret (rc, s)"
  using assms core_invD [OF inv] by (auto simp: dispatch_def)

lemma info_frame:
  assumes "qcperf_get_capabilities_info b i s = Ret (rc, i', s')"
  shows "\<exists>w. s' = s\<lparr>world := w\<rparr>"
  using assms core_world_self [of s]
  by (auto simp: qcperf_get_capabilities_info_def outcome_simps split: if_splits option.splits prod.splits)

section \<open>Deinitialisation\<close>

lemma deinit_loop_inv:
  assumes "core_inv s" "deinit_loop ids s = Ret s'"
  shows "core_inv s' \<and> init_fns s' = init_fns s \<and> oom_script s' = oom_script s \<and>
         (g_qcperf_backend_info s' = None) = (g_qcperf_backend_info s = None)"
  using assms
proof (induction ids s rule: deinit_loop.induct)
  case (2 i ids s)
  show ?case
  proof (cases "read_connected (int i) s")
    case (Ret c)
    show ?thesis
    proof (cases c)
      case True
      with Ret "2.prems"(2) obtain rc t where
        t: "qcperf_disconnect_backend (int i) s = Ret (rc, t)" "deinit_loop ids t = Ret s'"
        by (auto simp: outcome_simps)
      with core_inv_disconnect [OF "2.prems"(1) t(1)] disconnect_fields [OF "2.prems"(1) t(1)] show ?thesis
        using "2.IH"(1) [OF True] t by auto
    qed (use 2 Ret in auto)
  qed (use 2 in auto)
qed simp

lemma disconnect_clears:
  assumes inv: "core_inv s" and r: "qcperf_disconnect_backend b s = Ret (rc, s')" and i: "i < 8"
  shows "g_backends_connected s' ! i \<longrightarrow> g_backends_connected s ! i \<and> (rc = SUCCESS \<longrightarrow> i \<noteq> nat b)"
  using disconnect_cases [OF inv r] i core_invD [OF inv] by (auto simp: nth_list_update_if split: if_splits)

lemma deinit_loop_clears:
  assumes "core_inv s" "deinit_loop ids s = Ret s'" "g_qcperf_backend_info s \<noteq> None"
    "i < 8" "g_backends_connected s' ! i" "set ids \<subseteq> {..<8}"
  shows "g_backends_connected s ! i \<and> i \<notin> set ids"
  using assms
proof (induction ids s rule: deinit_loop.induct)
  case (2 j ids s)
  have j: "j < 8" using "2.prems" by simp
  have rd: "read_connected (int j) s = Ret (g_backends_connected s ! j)"
    using core_invD [OF "2.prems"(1)] j by simp
  show ?case
  proof (cases "g_backends_connected s ! j")
    case True
    with rd "2.prems"(2) obtain rc t where
      t: "qcperf_disconnect_backend (int j) s = Ret (rc, t)" "deinit_loop ids t = Ret s'"
      by (auto simp: outcome_simps)
    have inv': "core_inv t" using core_inv_disconnect [OF "2.prems"(1) t(1)] .
    have ini: "g_qcperf_backend_info t \<noteq> None"
      using disconnect_fields(3) [OF "2.prems"(1) t(1)] "2.prems"(3) by auto
    have "g_backends_connected t ! i \<and> i \<notin> set ids"
      using "2.IH"(1) [OF True inv' t(2) ini "2.prems"(4,5)] "2.prems"(6) by auto
    moreover have "rc = SUCCESS"
      using disconnect_success [OF "2.prems"(1,3) _ _ _ t(1)] True j by simp
    ultimately show ?thesis
      using disconnect_clears [OF "2.prems"(1) t(1) "2.prems"(4)] by auto
  next
    case False
    then have "deinit_loop ids s = Ret s'" using "2.prems"(2) rd by simp
    then show ?thesis using "2.IH"(2) [OF False "2.prems"(1)] "2.prems" False by auto
  qed
qed simp


section \<open>Sequences of API calls\<close>

datatype api_call =
    Init
  | Connect int callback
  | GetInfo int "QcPerfBackendInfo option"
  | SetData int callback
  | Start int "QcPerfRequest option"
  | Stop int "QcPerfRequest option"
  | Disconnect int
  | Deinit

fun api_step :: "api_call \<Rightarrow> 'w core_state \<Rightarrow> 'w core_result" where
  "api_step Init s = Ret (qcperf_init s)"
| "api_step (Connect b cb) s = qcperf_connect_backend b cb s"
| "api_step (GetInfo b i) s =
     obind (qcperf_get_capabilities_info b i s) (\<lambda>(rc, _, s'). Ret (rc, s'))"
| "api_step (SetData b cb) s = qcperf_set_data_callback b cb s"
| "api_step (Start b r) s = qcperf_start b r s"
| "api_step (Stop b r) s = qcperf_stop b r s"
| "api_step (Disconnect b) s = qcperf_disconnect_backend b s"
| "api_step Deinit s = qcperf_deinit s"

fun api_run :: "api_call list \<Rightarrow> 'w core_state \<Rightarrow> 'w core_state outcome" where
  "api_run [] s = Ret s"
| "api_run (c # cs) s = obind (api_step c s) (\<lambda>(_, s'). api_run cs s')"

text \<open>The one identifier the guards let through although the tables have no entry for it is 8.\<close>

fun call_id_ok :: "api_call \<Rightarrow> bool" where
  "call_id_ok Init = True"
| "call_id_ok (Connect b cb) = True"
| "call_id_ok (GetInfo b i) = (b \<noteq> 8)"
| "call_id_ok (SetData b cb) = (b \<noteq> 8)"
| "call_id_ok (Start b r) = (b \<noteq> 8)"
| "call_id_ok (Stop b r) = (b \<noteq> 8)"
| "call_id_ok (Disconnect b) = (b \<noteq> 8)"
| "call_id_ok Deinit = True"

lemma core_inv_init: "core_inv s \<Longrightarrow> core_inv (snd (qcperf_init s))"
  by (auto simp: qcperf_init_def core_inv_def split: option.splits prod.splits)

lemma core_inv_deinit:
  assumes inv: "core_inv s" and r: "qcperf_deinit s = Ret (rc, s')"
  shows "core_inv s' \<and> init_fns s' = init_fns s"
proof (cases "g_qcperf_backend_info s")
  case None
  then show ?thesis using assms by (simp add: qcperf_deinit_def)
next
  case (Some ps)
  then obtain t where t: "deinit_loop [0..<8] s = Ret t" and s': "s' = t\<lparr>g_qcperf_backend_info := None\<rparr>"
    using r by (auto simp: qcperf_deinit_def outcome_simps simp del: upt_Suc)
  have nc: "\<not> g_backends_connected t ! i" if "i < 8" for i
    using deinit_loop_clears [OF inv t _ that] Some that by (auto simp: lessThan_atLeast0)
  show ?thesis
    using deinit_loop_inv [OF inv t] nc s' by (auto simp: core_inv_def split: option.splits)
qed

lemma api_step_inv:
  assumes "core_inv s" and "api_step c s = Ret (rc, s')"
  shows "core_inv s' \<and> init_fns s' = init_fns s"
proof (cases c)
  case Init
  then show ?thesis
    using assms core_inv_init [of s]
    by (auto simp: qcperf_init_def Let_def split: prod.splits if_splits)
next
  case (Connect b cb)
  then show ?thesis using assms core_inv_connect_backend connect_fields by fastforce
next
  case (GetInfo b i)
  then show ?thesis using assms info_frame by (fastforce simp: outcome_simps)
next
  case (Disconnect b)
  then show ?thesis using assms core_inv_disconnect disconnect_fields by fastforce
next
  case Deinit
  then show ?thesis using assms core_inv_deinit by simp
qed (use assms in \<open>auto simp: dispatch_ops dest!: dispatch_frame\<close>)

lemma api_run_inv: "core_inv s \<Longrightarrow> api_run cs s = Ret s' \<Longrightarrow> core_inv s' \<and> init_fns s' = init_fns s"
proof (induction cs arbitrary: s)
  case (Cons c cs)
  then show ?case using api_step_inv [of s c] by (auto simp: outcome_simps)
qed simp

section \<open>Properties of the core\<close>

text \<open>A registry for the witnesses: one backend that accepts everything and counts its calls.\<close>

definition counting_backend :: "nat QcPerfBackendPrivate" where
  "counting_backend = \<lparr>
     set_message_callback = Some (\<lambda>_ w. Ret (SUCCESS, w + 1)),
     qcperf_backend_init = Some (\<lambda>w. Ret (SUCCESS, w + 1)),
     qcperf_backend_info = Some (\<lambda>i w. Ret (SUCCESS, i, w)),
     set_data_callback = Some (\<lambda>_ w. Ret (SUCCESS, w + 1)),
     qcperf_backend_start = Some (\<lambda>_ w. Ret (SUCCESS, w + 1)),
     qcperf_backend_stop = Some (\<lambda>_ w. Ret (SUCCESS, w + 1)),
     qcperf_backend_deinit = Some (\<lambda>w. Ret (SUCCESS, w + 1))\<rparr>"

definition counting_core :: "bool \<Rightarrow> nat core_state" where
  "counting_core c =
     \<lparr>g_qcperf_backend_info = Some [counting_backend, zero_private, zero_private, zero_private,
        zero_private, zero_private, zero_private, zero_private],
      g_backends_connected = [c, False, False, False, False, False, False, False],
      init_fns = [Some (\<lambda>_. (SUCCESS, Some counting_backend)), None, None, None, None, None, None, None],
      oom_script = [], world = 0\<rparr>"

lemma all_pointers_counting: "all_pointers_set counting_backend"
  by (simp add: all_pointers_set_def counting_backend_def)

lemma core_inv_counting: "core_inv (counting_core c)"
  by (auto simp: core_inv_def counting_core_def all_pointers_counting nth_Cons split: nat.splits)

text \<open>C2: Every sequence of API calls that returns keeps the globals of the core consistent: both
  tables have eight entries, a connected backend has all its seven function pointers, and nothing is
  connected while the library is not initialised. Nothing is assumed of the backends or of the
  arguments.\<close>
theorem core_globals_consistent:
  assumes "length fns = 8" and "api_run cs (initial_core fns oom w) = Ret s"
  shows "core_inv s"
  using api_run_inv [OF core_inv_initial [OF assms(1)] assms(2)] by blast

theorem core_globals_consistent_witness:
  "core_inv ((initial_core (replicate 8 None) [] (0 :: nat))
      \<lparr>g_qcperf_backend_info := Some (replicate 8 zero_private)\<rparr>)"
  by (rule core_globals_consistent [of "replicate 8 None" "[Init, Connect 0 None, Start 1 None]" "[]" 0])
     (simp_all add: qcperf_init_def initial_core_def qcperf_connect_backend_def qcperf_start_def
        read_connected_def)

text \<open>C3: \<open>qcperf_connect_backend\<close> marks the backend as connected exactly when it returns
  \<open>SUCCESS\<close>; on every other code the connection table is the one from before, also when the
  backend's initialisation failed after the flag had been set.\<close>
theorem connect_sets_flag_iff_success:
  assumes "core_inv s" and "qcperf_connect_backend b cb s = Ret (rc, s')"
  shows "g_backends_connected s' =
           (if rc = SUCCESS then (g_backends_connected s)[nat b := True] else g_backends_connected s)"
  using connect_cases [OF assms] by (cases "rc = SUCCESS") (simp, elim exE conjE, simp, auto)

theorem connect_sets_flag_iff_success_witness:
  "g_backends_connected ((counting_core False)
      \<lparr>g_backends_connected := [True, False, False, False, False, False, False, False], world := 1\<rparr>) =
   (if SUCCESS = SUCCESS then (g_backends_connected (counting_core False))[nat 0 := True]
    else g_backends_connected (counting_core False))"
proof (rule connect_sets_flag_iff_success [of "counting_core False" 0 None SUCCESS])
  show "core_inv (counting_core False)"
    by (rule core_inv_counting)
  show "qcperf_connect_backend 0 None (counting_core False) =
          Ret (SUCCESS, (counting_core False)\<lparr>g_backends_connected := [True, False, False, False, False, False, False, False], world := 1\<rparr>)"
    by (simp add: qcperf_connect_backend_def counting_core_def read_connected_def read_private_def
        write_private_def write_connected_def connect_verified_def qcperf_verify_backend_private_def
        all_pointers_counting call0_def)
       (simp add: counting_backend_def qcperf_reset_backend_private_def write_private_def)
qed

text \<open>Disconnecting a connected backend calls its \<open>deinit\<close> exactly once, clears its flag and all
  its function pointers and returns \<open>SUCCESS\<close> whatever \<open>deinit\<close> returned; the other backends'
  entries are untouched.\<close>
theorem disconnect_effect:
  assumes "core_inv s" and "g_qcperf_backend_info s = Some ps" and "0 \<le> b" and "b < 8"
    and "g_backends_connected s ! nat b"
    and "qcperf_backend_deinit (ps ! nat b) = Some deinit" and "deinit (world s) = Ret (rc, w)"
  shows "qcperf_disconnect_backend b s =
           Ret (SUCCESS, s\<lparr>g_backends_connected := (g_backends_connected s)[nat b := False],
                           g_qcperf_backend_info := Some (ps[nat b := zero_private]), world := w\<rparr>)"
  using disconnect_connected [OF assms(1-5)] assms(6,7) by simp

theorem disconnect_effect_witness:
  "qcperf_disconnect_backend 0 (counting_core True) =
     Ret (SUCCESS, (counting_core True)
        \<lparr>g_backends_connected := (g_backends_connected (counting_core True))[nat 0 := False],
         g_qcperf_backend_info := Some ([counting_backend, zero_private, zero_private, zero_private, zero_private,
          zero_private, zero_private, zero_private][nat 0 := zero_private]),
         world := 1\<rparr>)"
  by (rule disconnect_effect [OF core_inv_counting, of _ _ _ "\<lambda>w. Ret (SUCCESS, w + 1)" SUCCESS])
     (simp_all add: counting_core_def counting_backend_def)

text \<open>C4: Connecting a backend and disconnecting it again leaves the connection table as it was and
  the backend's function pointers cleared, and both calls leave the entries of all other backends
  alone.\<close>
theorem connect_disconnect_roundtrip:
  assumes "core_inv s" and "qcperf_connect_backend b cb s = Ret (SUCCESS, s1)"
    and "qcperf_disconnect_backend b s1 = Ret (rc, s2)"
  shows "rc = SUCCESS \<and> g_backends_connected s2 = g_backends_connected s \<and>
         (\<exists>ps. g_qcperf_backend_info s = Some ps \<and>
               g_qcperf_backend_info s2 = Some (ps[nat b := zero_private]))"
proof -
  obtain ps q w where b: "0 \<le> b" "b < 8" and ps: "g_qcperf_backend_info s = Some ps"
    and nc: "\<not> g_backends_connected s ! nat b"
    and s1: "s1 = s\<lparr>g_qcperf_backend_info := Some (ps[nat b := q]),
                    g_backends_connected := (g_backends_connected s)[nat b := True], world := w\<rparr>"
    using connect_cases [OF assms(1,2)] by auto
  have inv1: "core_inv s1" using core_inv_connect_backend [OF assms(1,2)] .
  have c1: "g_backends_connected s1 ! nat b" using s1 b core_invD [OF assms(1)] by simp
  have "rc = SUCCESS" by (rule disconnect_success [OF inv1 _ b c1 assms(3)]) (simp add: s1)
  moreover have "(g_backends_connected s)[nat b := False] = g_backends_connected s"
    using nc b core_invD [OF assms(1)] by (simp add: list_update_same_conv)
  ultimately show ?thesis using disconnect_cases [OF inv1 assms(3)] s1 ps by auto
qed

theorem connect_disconnect_roundtrip_witness:
  "SUCCESS = SUCCESS \<and>
   g_backends_connected ((counting_core False)
        \<lparr>g_qcperf_backend_info := Some [zero_private, zero_private, zero_private, zero_private,
          zero_private, zero_private, zero_private, zero_private], world := 2\<rparr>) =
     g_backends_connected (counting_core False) \<and>
   (\<exists>ps. g_qcperf_backend_info (counting_core False) = Some ps \<and>
      g_qcperf_backend_info ((counting_core False)
        \<lparr>g_qcperf_backend_info := Some [zero_private, zero_private, zero_private, zero_private,
          zero_private, zero_private, zero_private, zero_private], world := 2\<rparr>) =
      Some (ps[nat 0 := zero_private]))"
proof (rule connect_disconnect_roundtrip
    [of "counting_core False" 0 None "(counting_core True)\<lparr>world := 1\<rparr>"])
  show "core_inv (counting_core False)"
    by (rule core_inv_counting)
  show "qcperf_connect_backend 0 None (counting_core False) =
          Ret (SUCCESS, (counting_core True)\<lparr>world := 1\<rparr>)"
    by (simp add: qcperf_connect_backend_def counting_core_def read_connected_def read_private_def
        write_private_def write_connected_def connect_verified_def qcperf_verify_backend_private_def
        all_pointers_counting call0_def)
       (simp add: counting_backend_def qcperf_reset_backend_private_def write_private_def)
  show "qcperf_disconnect_backend 0 ((counting_core True)\<lparr>world := 1\<rparr>) =
          Ret (SUCCESS, (counting_core False)
            \<lparr>g_qcperf_backend_info := Some [zero_private, zero_private, zero_private, zero_private,
          zero_private, zero_private, zero_private, zero_private], world := 2\<rparr>)"
    by (simp add: qcperf_disconnect_backend_def counting_core_def read_connected_def read_private_def
        write_private_def write_connected_def qcperf_reset_backend_private_def call0_def)
       (simp add: counting_backend_def qcperf_reset_backend_private_def write_private_def)
qed

text \<open>No backend function runs on behalf of a caller unless that backend is connected: when
  \<open>qcperf_start\<close>, \<open>qcperf_stop\<close> or \<open>qcperf_set_data_callback\<close> are called before initialisation, with
  an identifier outside the table, a NULL argument or for a backend that is not connected, they
  return an error and the whole state, backends included, is unchanged.\<close>
theorem guarded_calls_do_nothing:
  assumes "core_inv s" and "b \<noteq> 8"
    and "g_qcperf_backend_info s = None \<or> b < 0 \<or> 8 \<le> b \<or> \<not> g_backends_connected s ! nat b"
  shows "\<exists>rc1 rc2 rc3. qcperf_start b r s = Ret (rc1, s) \<and> rc1 \<noteq> SUCCESS \<and>
           qcperf_stop b r s = Ret (rc2, s) \<and> rc2 \<noteq> SUCCESS \<and>
           qcperf_set_data_callback b cb s = Ret (rc3, s) \<and> rc3 \<noteq> SUCCESS"
proof -
  have n: "\<not> (g_qcperf_backend_info s \<noteq> None \<and> 0 \<le> b \<and> b < 8 \<and> g_backends_connected s ! nat b \<and> \<not> null)"
    for null using assms(3) by auto
  show ?thesis
    unfolding dispatch_ops
    using dispatch_unconnected [OF assms(1,2) n [of "r = None"]] dispatch_unconnected [OF assms(1,2) n [of "cb = None"]]
    by blast
qed

theorem guarded_calls_do_nothing_witness:
  "\<exists>rc1 rc2 rc3.
     qcperf_start 3 None (counting_core True) = Ret (rc1, counting_core True) \<and>
       rc1 \<noteq> SUCCESS \<and>
     qcperf_stop 3 None (counting_core True) = Ret (rc2, counting_core True) \<and>
       rc2 \<noteq> SUCCESS \<and>
     qcperf_set_data_callback 3 (Some 1) (counting_core True) =
       Ret (rc3, counting_core True) \<and> rc3 \<noteq> SUCCESS"
  by (rule guarded_calls_do_nothing [OF core_inv_counting]) (simp_all add: counting_core_def nth_Cons')

text \<open>The \<open>deinit\<close> functions of the given entries of the table, called one after the other.\<close>

fun run_deinits :: "'w QcPerfBackendPrivate list \<Rightarrow> 'w \<Rightarrow> 'w outcome" where
  "run_deinits [] w = Ret w"
| "run_deinits (p # ps) w = obind (the (qcperf_backend_deinit p) w) (\<lambda>(_, w'). run_deinits ps w')"

text \<open>What disconnecting the backends of a list leaves in the two tables.\<close>

fun disconnected :: "nat list \<Rightarrow> 'w core_state \<Rightarrow> 'w core_state" where
  "disconnected [] s = s"
| "disconnected (i # ids) s = disconnected ids
     (if g_backends_connected s ! i
      then s\<lparr>g_backends_connected := (g_backends_connected s)[i := False],
             g_qcperf_backend_info := map_option (\<lambda>ps. ps[i := zero_private]) (g_qcperf_backend_info s)\<rparr>
      else s)"

lemma disconnected_world: "disconnected ids (s\<lparr>world := w\<rparr>) = (disconnected ids s)\<lparr>world := w\<rparr>"
proof (induction ids arbitrary: s)
  case (Cons i ids)
  then show ?case
    using Cons.IH [of "s\<lparr>g_backends_connected := (g_backends_connected s)[i := False],
             g_qcperf_backend_info := map_option (\<lambda>ps. ps[i := zero_private]) (g_qcperf_backend_info s)\<rparr>"] Cons.IH [of s]
    by (cases s) simp
qed simp

lemma deinit_loop_eq:
  assumes "core_inv s" "g_qcperf_backend_info s = Some ps" "distinct ids" "set ids \<subseteq> {..<8}"
  shows "deinit_loop ids s =
     obind (run_deinits (map (nth ps) (filter (nth (g_backends_connected s)) ids)) (world s))
       (\<lambda>w. Ret ((disconnected ids s)\<lparr>world := w\<rparr>))"
  using assms
proof (induction ids arbitrary: s ps)
  case (Cons i ids)
  have i: "i < 8" and rd: "read_connected (int i) s = Ret (g_backends_connected s ! i)"
    using Cons.prems core_invD [OF Cons.prems(1)] by simp_all
  show ?case
  proof (cases "g_backends_connected s ! i")
    case False
    then show ?thesis using Cons rd by simp
  next
    case True
    let ?t = "s\<lparr>g_backends_connected := (g_backends_connected s)[i := False], g_qcperf_backend_info := Some (ps[i := zero_private])\<rparr>"
    have inv: "core_inv ?t" using core_inv_drop [OF Cons.prems(1,2)] by simp
    have same: "filter (nth (g_backends_connected ?t)) ids = filter (nth (g_backends_connected s)) ids"
      using Cons.prems(3) by (intro filter_cong) (auto simp: nth_list_update_if)
    have ps: "map (nth (ps[i := zero_private])) (filter (nth (g_backends_connected s)) ids) = map (nth ps) (filter (nth (g_backends_connected s)) ids)"
      using Cons.prems(3) by (intro map_cong) (auto simp: nth_list_update_if)
    have "deinit_loop ids (?t\<lparr>world := w\<rparr>) = obind (run_deinits (map (nth ps) (filter (nth (g_backends_connected s)) ids)) w)
        (\<lambda>w. Ret ((disconnected ids ?t)\<lparr>world := w\<rparr>))" for w
      using Cons.IH [of "?t\<lparr>world := w\<rparr>" "ps[i := zero_private]"] inv Cons.prems(3,4)
      by (simp add: disconnected_world same [simplified] ps del: map_eq_conv)
    moreover have "qcperf_disconnect_backend (int i) s =
        obind (the (qcperf_backend_deinit (ps ! i)) (world s)) (\<lambda>(_, w). Ret (SUCCESS, ?t\<lparr>world := w\<rparr>))"
      using disconnect_connected [OF Cons.prems(1,2), of "int i"] True i by simp
    ultimately show ?thesis
      using rd True Cons.prems(2) by (cases "the (qcperf_backend_deinit (ps ! i)) (world s)") (auto simp: outcome_simps split: prod.splits)
  qed
qed simp

lemma disconnected_fields:
  "length (g_backends_connected (disconnected ids s)) = length (g_backends_connected s)"
  "init_fns (disconnected ids s) = init_fns s" "oom_script (disconnected ids s) = oom_script s"
  by (induction ids s rule: disconnected.induct) (simp_all split: if_splits)

lemma disconnected_connected:
  "g_backends_connected (disconnected ids s) ! k \<longleftrightarrow> g_backends_connected s ! k \<and> k \<notin> set ids" if "k < length (g_backends_connected s)"
  using that by (induction ids s rule: disconnected.induct) (auto simp: nth_list_update_if)

lemma uninitialised_refuses:
  assumes "g_qcperf_backend_info s = None"
  shows "qcperf_connect_backend b cb s = Ret (NOT_INITIALIZED, s)" "qcperf_disconnect_backend b s = Ret (NOT_INITIALIZED, s)"
    "qcperf_start b r s = Ret (NOT_INITIALIZED, s)" "qcperf_stop b r s = Ret (NOT_INITIALIZED, s)"
    "qcperf_set_data_callback b cb s = Ret (NOT_INITIALIZED, s)" "qcperf_set_message_callback b cb s = Ret (NOT_INITIALIZED, s)"
    "qcperf_get_capabilities_info b i s = Ret (NOT_INITIALIZED, i, s)" "qcperf_deinit s = Ret (NOT_INITIALIZED, s)"
  using assms by (simp_all add: qcperf_connect_backend_def qcperf_disconnect_backend_def qcperf_start_def qcperf_stop_def
      qcperf_set_data_callback_def qcperf_set_message_callback_def qcperf_get_capabilities_info_def qcperf_deinit_def)

text \<open>C5: \<open>qcperf_deinit\<close> on an initialised library calls the \<open>deinit\<close> function of every connected backend, exactly once and
  in the order of the identifiers, and nothing else; it then returns \<open>SUCCESS\<close> with no backend connected and the
  table freed. After it \<open>qcperf_connect_backend\<close>, \<open>qcperf_disconnect_backend\<close>, \<open>qcperf_start\<close>, \<open>qcperf_stop\<close>, the
  two functions that register callbacks, \<open>qcperf_get_capabilities_info\<close> and \<open>qcperf_deinit\<close> are refused
  with \<open>NOT_INITIALIZED\<close> and change nothing.\<close>
theorem deinit_disconnects_all:
  assumes "core_inv s" and "g_qcperf_backend_info s = Some ps"
  shows "qcperf_deinit s =
       obind (run_deinits (map (nth ps) (filter (nth (g_backends_connected s)) [0..<8])) (world s))
         (\<lambda>w. Ret (SUCCESS, s\<lparr>g_qcperf_backend_info := None, g_backends_connected := replicate 8 False, world := w\<rparr>)) \<and>
     (\<forall>rc s'. qcperf_deinit s = Ret (rc, s') \<longrightarrow>
        qcperf_connect_backend b cb s' = Ret (NOT_INITIALIZED, s') \<and>
        qcperf_disconnect_backend b s' = Ret (NOT_INITIALIZED, s') \<and>
        qcperf_start b r s' = Ret (NOT_INITIALIZED, s') \<and>
        qcperf_stop b r s' = Ret (NOT_INITIALIZED, s') \<and>
        qcperf_set_data_callback b cb s' = Ret (NOT_INITIALIZED, s') \<and>
        qcperf_set_message_callback b cb s' = Ret (NOT_INITIALIZED, s') \<and>
        qcperf_get_capabilities_info b i s' = Ret (NOT_INITIALIZED, i, s') \<and>
        qcperf_deinit s' = Ret (NOT_INITIALIZED, s'))"
proof -
  let ?d = "disconnected [0..<8] s"
  have "g_backends_connected ?d = replicate 8 False"
    using core_invD [OF assms(1)] by (simp add: list_eq_iff_nth_eq disconnected_fields disconnected_connected del: upt_Suc)
  then have "?d\<lparr>world := w, g_qcperf_backend_info := None\<rparr> =
      s\<lparr>g_qcperf_backend_info := None, g_backends_connected := replicate 8 False, world := w\<rparr>" for w
    by (rule_tac core_state.equality) (simp_all add: disconnected_fields del: upt_Suc)
  then have e: "qcperf_deinit s =
      obind (run_deinits (map (nth ps) (filter (nth (g_backends_connected s)) [0..<8])) (world s))
        (\<lambda>w. Ret (SUCCESS, s\<lparr>g_qcperf_backend_info := None, g_backends_connected := replicate 8 False, world := w\<rparr>))"
    using deinit_loop_eq [OF assms, of "[0..<8]"] assms(2)
    by (simp add: qcperf_deinit_def obind_assoc lessThan_atLeast0 del: upt_Suc)
  have none: "g_qcperf_backend_info s' = None" if "qcperf_deinit s = Ret (rc, s')" for rc s'
    using that assms(2) by (auto simp: qcperf_deinit_def outcome_simps simp del: upt_Suc)
  show ?thesis
  proof (rule conjI [OF e], intro allI impI)
    fix rc s' assume "qcperf_deinit s = Ret (rc, s')"
    from uninitialised_refuses [OF none [OF this]]
    show "qcperf_connect_backend b cb s' = Ret (NOT_INITIALIZED, s') \<and>
        qcperf_disconnect_backend b s' = Ret (NOT_INITIALIZED, s') \<and>
        qcperf_start b r s' = Ret (NOT_INITIALIZED, s') \<and>
        qcperf_stop b r s' = Ret (NOT_INITIALIZED, s') \<and>
        qcperf_set_data_callback b cb s' = Ret (NOT_INITIALIZED, s') \<and>
        qcperf_set_message_callback b cb s' = Ret (NOT_INITIALIZED, s') \<and>
        qcperf_get_capabilities_info b i s' = Ret (NOT_INITIALIZED, i, s') \<and>
        qcperf_deinit s' = Ret (NOT_INITIALIZED, s')" by simp
  qed
qed

theorem deinit_disconnects_all_witness:
  "qcperf_deinit (counting_core True) =
     Ret (SUCCESS, (counting_core False)\<lparr>g_qcperf_backend_info := None, world := 1\<rparr>) \<and>
   qcperf_stop 0 None ((counting_core False)\<lparr>g_qcperf_backend_info := None, world := 1\<rparr>) =
     Ret (NOT_INITIALIZED, (counting_core False)\<lparr>g_qcperf_backend_info := None, world := 1\<rparr>)"
proof -
  have "g_qcperf_backend_info (counting_core True) = Some [counting_backend, zero_private, zero_private, zero_private,
      zero_private, zero_private, zero_private, zero_private]" by (simp add: counting_core_def)
  note d = deinit_disconnects_all [OF core_inv_counting [of True] this]
  have "filter (nth (g_backends_connected (counting_core True))) [0..<8] = [0]"
    by (simp add: counting_core_def upt_rec nth_Cons')
  then have e: "qcperf_deinit (counting_core True) = Ret (SUCCESS, (counting_core False)\<lparr>g_qcperf_backend_info := None, world := 1\<rparr>)"
    using d by (simp add: counting_core_def counting_backend_def numeral_eq_Suc del: upt_Suc)
  then show ?thesis using d by blast
qed

text \<open>\<open>qcperf_get_error_info\<close> describes every integer: the text in the buffer is never empty and
  never truncated, the length field is its length, and the sixteen return codes have sixteen
  different texts, none of which is the one for unknown codes.\<close>
theorem error_info_complete:
  "\<exists>info. qcperf_get_error_info n (Some i) = (SUCCESS, Some info) \<and> rci_return_code info = n \<and>
     rci_info_str info \<noteq> [] \<and> rci_info_str_len info = length (rci_info_str info) \<and>
     rci_info_str info = error_text (return_code_of n) \<and>
     distinct (error_text None # List.map (error_text \<circ> Some) all_return_codes) \<and>
     (\<forall>rc. return_code_of (return_code_number rc) = Some rc)"
proof -
  have len: "length (error_text c) < 256 \<and> error_text c \<noteq> []" for c
    by (cases c rule: error_text.cases) simp_all
  have "distinct (error_text None # List.map (error_text \<circ> Some) all_return_codes)"
    by (simp add: all_return_codes_def)
  moreover have "return_code_of (return_code_number rc) = Some rc" for rc
    by (cases rc) (simp_all add: return_code_of_def all_return_codes_def)
  ultimately show ?thesis
    using len [of "return_code_of n"] by (simp add: qcperf_get_error_info_def cstd_simps Let_def)
qed

text \<open>The guard \<open>QC_PERF_BACKEND_MAX < backend_id\<close> of every operation but
  \<open>qcperf_connect_backend\<close> lets the identifier 8 through: on an initialised library the call reads
  \<open>g_backends_connected[8]\<close>, one past the end of the array. \<open>qcperf_connect_backend\<close> rejects it.\<close>
theorem backend_max_reads_past_the_table:
  assumes "core_inv s" and "g_qcperf_backend_info s \<noteq> None"
  shows "qcperf_start 8 (Some r) s = Stuck OutOfBounds \<and>
         qcperf_stop 8 (Some r) s = Stuck OutOfBounds \<and>
         qcperf_set_data_callback 8 (Some cb) s = Stuck OutOfBounds \<and>
         qcperf_get_capabilities_info 8 (Some info) s = Stuck OutOfBounds \<and>
         qcperf_disconnect_backend 8 s = Stuck OutOfBounds \<and>
         qcperf_connect_backend 8 mcb s = Ret (INVALID_BACKEND_ID, s)"
  using assms(2) read_connected_8 [OF core_invD(1) [OF assms(1)]]
  by (simp add: qcperf_start_def qcperf_stop_def qcperf_set_data_callback_def
      qcperf_get_capabilities_info_def qcperf_disconnect_backend_def qcperf_connect_backend_def)

theorem backend_max_reads_past_the_table_witness:
  "qcperf_start 8 (Some \<lparr>rq_capability_id = 0, rq_streaming_rate = 100, rq_sampling_rate = 100\<rparr>)
     (counting_core False) = Stuck OutOfBounds"
  using backend_max_reads_past_the_table [OF core_inv_counting [of False],
      of "\<lparr>rq_capability_id = 0, rq_streaming_rate = 100, rq_sampling_rate = 100\<rparr>"]
  by (simp add: counting_core_def)

end
