(* ===== verification/Contract.thy ===== *)
theory Contract
  imports CoreProps
begin

text \<open>
  What the core relies on when it calls a backend, as the locale \<open>backend_family\<close>, and what the client of
  the library has to observe. The seven functions of a backend keep an invariant \<open>I\<close> of the state behind
  them; \<open>qcperf_backend_init\<close> and \<open>qcperf_backend_deinit\<close> rely on the backend being idle, \<open>start\<close> on it
  being startable; the scheduler may run threads of the backends between any two calls. The result: every
  sequence of API calls and scheduler steps that observes the discipline stays clear of hazards.
\<close>

section \<open>Functions of a backend\<close>

definition op_ok :: "('s \<Rightarrow> bool) \<Rightarrow> ('s \<Rightarrow> bool) \<Rightarrow> ('s \<Rightarrow> 's \<Rightarrow> bool) \<Rightarrow> 's step0 \<Rightarrow> bool" where
  "op_ok I pre rel f \<longleftrightarrow> (\<forall>s. I s \<longrightarrow> pre s \<longrightarrow> (\<exists>rc s'. f s = Ret (rc, s') \<and> I s' \<and> rel s s'))"

definition private_ok ::
  "('s \<Rightarrow> bool) \<Rightarrow> ('s \<Rightarrow> bool) \<Rightarrow> ('s \<Rightarrow> bool) \<Rightarrow> ('s \<Rightarrow> 's \<Rightarrow> bool) \<Rightarrow> ('s \<Rightarrow> 's \<Rightarrow> bool) \<Rightarrow> 's QcPerfBackendPrivate \<Rightarrow> bool" where
  "private_ok I idle startable keeps starts p \<longleftrightarrow>
     (\<forall>f. set_message_callback p = Some f \<longrightarrow> (\<forall>cb. op_ok I (\<lambda>_. True) keeps (f cb))) \<and>
     (\<forall>f. qcperf_backend_init p = Some f \<longrightarrow> op_ok I idle keeps f) \<and>
     (\<forall>f. qcperf_backend_info p = Some f \<longrightarrow>
        (\<forall>i s. I s \<longrightarrow> (\<exists>rc i' s'. f i s = Ret (rc, i', s') \<and> I s' \<and> keeps s s'))) \<and>
     (\<forall>f. set_data_callback p = Some f \<longrightarrow> (\<forall>cb. op_ok I (\<lambda>_. True) keeps (f cb))) \<and>
     (\<forall>f. qcperf_backend_start p = Some f \<longrightarrow> (\<forall>r. op_ok I startable starts (f r))) \<and>
     (\<forall>f. qcperf_backend_stop p = Some f \<longrightarrow> (\<forall>r. op_ok I (\<lambda>_. True) keeps (f r))) \<and>
     (\<forall>f. qcperf_backend_deinit p = Some f \<longrightarrow> op_ok I idle keeps f)"

lemma private_ok_zero [simp]: "private_ok I idle startable keeps starts zero_private"
  by (simp add: private_ok_def zero_private_def)

lemma op_okD: "op_ok I pre rel f \<Longrightarrow> I s \<Longrightarrow> pre s \<Longrightarrow> \<exists>rc s'. f s = Ret (rc, s') \<and> I s' \<and> rel s s'"
  by (simp add: op_ok_def)

section \<open>Sequences of calls and scheduler steps\<close>

datatype 'ev sys_event = Api api_call | Sched 'ev

fun sys_step :: "('ev \<Rightarrow> 'w \<Rightarrow> 'w outcome) \<Rightarrow> 'ev sys_event \<Rightarrow> 'w core_state \<Rightarrow> 'w core_state outcome" where
  "sys_step sched (Api c) s = obind (api_step c s) (\<lambda>(_, s'). Ret s')"
| "sys_step sched (Sched ev) s = obind (sched ev (world s)) (\<lambda>w. Ret (s\<lparr>world := w\<rparr>))"

text \<open>
  The discipline of the client: identifier 8 is not used where the guards let it through, a backend is
  started only when it is startable and disconnected (one by one or by \<open>qcperf_deinit\<close>) only when it is idle.
\<close>

definition connected_at :: "int \<Rightarrow> 'w core_state \<Rightarrow> bool" where
  "connected_at b s \<longleftrightarrow> 0 \<le> b \<and> b < 8 \<and> g_backends_connected s ! nat b"

fun permitted :: "(nat \<Rightarrow> 'w \<Rightarrow> bool) \<Rightarrow> (nat \<Rightarrow> 'w \<Rightarrow> bool) \<Rightarrow> 'ev sys_event \<Rightarrow> 'w core_state \<Rightarrow> bool" where
  "permitted idle startable (Api (Start b r)) s = (b \<noteq> 8 \<and> (connected_at b s \<longrightarrow> startable (nat b) (world s)))"
| "permitted idle startable (Api (Disconnect b)) s = (b \<noteq> 8 \<and> (connected_at b s \<longrightarrow> idle (nat b) (world s)))"
| "permitted idle startable (Api Deinit) s = (\<forall>i<8. g_backends_connected s ! i \<longrightarrow> idle i (world s))"
| "permitted idle startable (Api c) s = call_id_ok c"
| "permitted idle startable (Sched ev) s = True"

text \<open>No hazard occurs as long as the events are permitted.\<close>

fun sys_safe ::
  "('ev \<Rightarrow> 'w \<Rightarrow> 'w outcome) \<Rightarrow> (nat \<Rightarrow> 'w \<Rightarrow> bool) \<Rightarrow> (nat \<Rightarrow> 'w \<Rightarrow> bool) \<Rightarrow> 'ev sys_event list \<Rightarrow> 'w core_state \<Rightarrow> bool" where
  "sys_safe sched idle startable [] s = True"
| "sys_safe sched idle startable (ev # evs) s =
     (permitted idle startable ev s \<longrightarrow>
        (case sys_step sched ev s of Ret s' \<Rightarrow> sys_safe sched idle startable evs s' | Stuck _ \<Rightarrow> False))"

section \<open>The contract\<close>

abbreviation private_at ::
  "('w \<Rightarrow> bool) \<Rightarrow> (nat \<Rightarrow> 'w \<Rightarrow> bool) \<Rightarrow> (nat \<Rightarrow> 'w \<Rightarrow> bool) \<Rightarrow> nat \<Rightarrow> 'w QcPerfBackendPrivate \<Rightarrow> bool" where
  "private_at I idle startable i \<equiv>
     private_ok I (idle i) (startable i) (\<lambda>w w'. \<forall>j. idle j w \<longrightarrow> idle j w') (\<lambda>w w'. \<forall>j. j \<noteq> i \<longrightarrow> idle j w \<longrightarrow> idle j w')"

definition family_inv ::
  "'w backend_init_t option list \<Rightarrow> ('w \<Rightarrow> bool) \<Rightarrow> (nat \<Rightarrow> 'w \<Rightarrow> bool) \<Rightarrow> (nat \<Rightarrow> 'w \<Rightarrow> bool) \<Rightarrow> 'w core_state \<Rightarrow> bool" where
  "family_inv fns I idle startable s \<longleftrightarrow>
     core_inv s \<and> init_fns s = fns \<and> I (world s) \<and>
     (\<forall>ps. g_qcperf_backend_info s = Some ps \<longrightarrow> (\<forall>i<8. private_at I idle startable i (ps ! i))) \<and>
     (\<forall>i<8. \<not> g_backends_connected s ! i \<longrightarrow> idle i (world s))"

lemma family_invD:
  assumes "family_inv fns I idle startable s"
  shows "core_inv s" "init_fns s = fns" "I (world s)"
    "\<And>ps i. g_qcperf_backend_info s = Some ps \<Longrightarrow> i < 8 \<Longrightarrow> private_at I idle startable i (ps ! i)"
    "\<And>i. i < 8 \<Longrightarrow> \<not> g_backends_connected s ! i \<Longrightarrow> idle i (world s)"
  using assms by (simp_all add: family_inv_def)

lemma family_inv_world:
  assumes "family_inv fns I idle startable s" "I w"
    "\<And>i. i < 8 \<Longrightarrow> \<not> g_backends_connected s ! i \<Longrightarrow> idle i (world s) \<Longrightarrow> idle i w"
  shows "family_inv fns I idle startable (s\<lparr>world := w\<rparr>)"
  using assms by (simp add: family_inv_def)

text \<open>A call through a pointer that keeps its part of the contract.\<close>

lemma call0_ok:
  assumes "op_ok I pre rel f" "I (world s)" "pre (world s)"
  shows "\<exists>rc w. call0 (Some f) s = Ret (rc, s\<lparr>world := w\<rparr>) \<and> I w \<and> rel (world s) w"
  using op_okD [OF assms] by (auto simp: call0_def)

locale backend_family =
  fixes fns :: "'w backend_init_t option list" and winv :: "'w \<Rightarrow> bool"
    and idle :: "nat \<Rightarrow> 'w \<Rightarrow> bool" and startable :: "nat \<Rightarrow> 'w \<Rightarrow> bool" and sched :: "'ev \<Rightarrow> 'w \<Rightarrow> 'w outcome"
  assumes registry_length: "length fns = 8"
    and create_total: "i < 8 \<Longrightarrow> fns ! i = Some create \<Longrightarrow>
          \<exists>rc q. create (Some p) = (rc, Some q) \<and> private_at winv idle startable i q"
    and sched_total: "winv w \<Longrightarrow> \<exists>w'. sched ev w = Ret w' \<and> winv w' \<and> (\<forall>i. idle i w \<longrightarrow> idle i w')"
begin

abbreviation inv :: "'w core_state \<Rightarrow> bool" where "inv \<equiv> family_inv fns winv idle startable"

lemma dispatch_total:
  assumes i: "inv s" and b: "b \<noteq> 8"
    and f: "\<And>p. all_pointers_set p \<Longrightarrow> connected_at b s \<Longrightarrow> private_at winv idle startable (nat b) p \<Longrightarrow> \<not> null \<Longrightarrow>
       \<exists>g pre rel. f p = Some g \<and> op_ok winv pre rel g \<and> pre (world s) \<and>
         (\<forall>w w'. rel w w' \<longrightarrow> (\<forall>j. j \<noteq> nat b \<longrightarrow> idle j w \<longrightarrow> idle j w'))"
  shows "\<exists>rc s'. dispatch f null b s = Ret (rc, s') \<and> inv s'"
proof (cases "g_qcperf_backend_info s \<noteq> None \<and> 0 \<le> b \<and> b < 8 \<and> g_backends_connected s ! nat b \<and> \<not> null")
  case False
  then show ?thesis using dispatch_unconnected [OF family_invD(1) [OF i] b, of null f] i by auto
next
  case True
  then obtain ps where ps: "g_qcperf_backend_info s = Some ps" by auto
  note ci = family_invD(1) [OF i]
  have "all_pointers_set (ps ! nat b)" using core_inv_pointers_int [OF ci ps] True by simp
  moreover have "private_at winv idle startable (nat b) (ps ! nat b)" using family_invD(4) [OF i ps, of "nat b"] True by simp
  moreover have "connected_at b s" using True by (simp add: connected_at_def)
  ultimately obtain g pre rel where g: "f (ps ! nat b) = Some g" "op_ok winv pre rel g" "pre (world s)"
     "\<forall>w w'. rel w w' \<longrightarrow> (\<forall>j. j \<noteq> nat b \<longrightarrow> idle j w \<longrightarrow> idle j w')"
    using f True by blast
  obtain rc w where w: "call0 (f (ps ! nat b)) s = Ret (rc, s\<lparr>world := w\<rparr>)" "winv w" "rel (world s) w"
    using call0_ok [OF g(2) family_invD(3) [OF i] g(3)] g(1) by auto
  have "inv (s\<lparr>world := w\<rparr>)"
    by (rule family_inv_world [OF i w(2)]) (metis g(4) w(3) True)
  then show ?thesis using dispatch_connected [OF ci ps, of b null f] True w(1) by auto
qed

lemma disconnect_total:
  assumes i: "inv s" and b: "b \<noteq> 8" and d: "connected_at b s \<Longrightarrow> idle (nat b) (world s)"
  shows "\<exists>rc s'. qcperf_disconnect_backend b s = Ret (rc, s') \<and> inv s' \<and> (\<forall>j. idle j (world s) \<longrightarrow> idle j (world s')) \<and>
     (\<forall>j<8. g_backends_connected s' ! j \<longrightarrow> g_backends_connected s ! j)"
proof (cases "g_qcperf_backend_info s \<noteq> None \<and> 0 \<le> b \<and> b < 8 \<and> g_backends_connected s ! nat b")
  case False
  then show ?thesis using disconnect_other [OF family_invD(1) [OF i] b] i by auto
next
  case True
  then obtain ps where ps: "g_qcperf_backend_info s = Some ps" by auto
  note ci = family_invD(1) [OF i]
  have set: "all_pointers_set (ps ! nat b)" using core_inv_pointers_int [OF ci ps] True by simp
  have tot: "private_at winv idle startable (nat b) (ps ! nat b)" using family_invD(4) [OF i ps, of "nat b"] True by simp
  have idl: "idle (nat b) (world s)" using d True by (simp add: connected_at_def)
  obtain f where f: "qcperf_backend_deinit (ps ! nat b) = Some f"
    "op_ok winv (idle (nat b)) (\<lambda>w w'. \<forall>j. idle j w \<longrightarrow> idle j w') f"
    using set tot by (auto simp: all_pointers_set_def private_ok_def)
  obtain rc w where w: "f (world s) = Ret (rc, w)" "winv w" "\<forall>j. idle j (world s) \<longrightarrow> idle j w"
    using op_okD [OF f(2) family_invD(3) [OF i] idl] by blast
  let ?s' = "s\<lparr>g_backends_connected := (g_backends_connected s)[nat b := False],
               g_qcperf_backend_info := Some (ps[nat b := zero_private]), world := w\<rparr>"
  have "qcperf_disconnect_backend b s = Ret (SUCCESS, ?s')"
    using disconnect_connected [OF ci ps, of b] True f w by simp
  moreover have "inv ?s'"
    using i ps w idl core_inv_drop [OF ci ps] core_inv_table [OF ci ps] core_invD(1) [OF ci]
    by (auto simp: family_inv_def nth_list_update_if split: if_splits)
  moreover have "\<forall>j<8. g_backends_connected ?s' ! j \<longrightarrow> g_backends_connected s ! j"
    using core_invD(1) [OF ci] by (auto simp: nth_list_update_if split: if_splits)
  ultimately show ?thesis using w(3) by fastforce
qed

lemma set_message_callback_total:
  assumes i: "inv s" and b: "b \<noteq> 8"
  shows "\<exists>rc w. qcperf_set_message_callback b cb s = Ret (rc, s\<lparr>world := w\<rparr>) \<and> winv w \<and> (\<forall>j. idle j (world s) \<longrightarrow> idle j w)"
proof (cases "g_qcperf_backend_info s \<noteq> None \<and> 0 \<le> b \<and> b < 8 \<and> g_backends_connected s ! nat b \<and> cb \<noteq> None")
  case False
  then obtain rc where "qcperf_set_message_callback b cb s = Ret (rc, s)"
    using dispatch_unconnected [OF family_invD(1) [OF i] b, of "cb = None"] unfolding dispatch_ops by blast
  then show ?thesis using family_invD(3) [OF i] by (intro exI [of _ rc] exI [of _ "world s"]) simp
next
  case True
  then obtain ps where ps: "g_qcperf_backend_info s = Some ps" by auto
  note ci = family_invD(1) [OF i]
  have set: "all_pointers_set (ps ! nat b)" using core_inv_pointers_int [OF ci ps] True by simp
  have tot: "private_at winv idle startable (nat b) (ps ! nat b)" using family_invD(4) [OF i ps, of "nat b"] True by simp
  obtain f where f: "set_message_callback (ps ! nat b) = Some f"
    "op_ok winv (\<lambda>_. True) (\<lambda>w w'. \<forall>j. idle j w \<longrightarrow> idle j w') (f cb)"
    using set tot by (auto simp: all_pointers_set_def private_ok_def)
  show ?thesis
    using call0_ok [OF f(2) family_invD(3) [OF i] TrueI] dispatch_connected [OF ci ps, of b "cb = None"] True f(1)
    unfolding dispatch_ops by (auto simp: apply_ptr_def)
qed

lemma connect_verified_total:
  assumes i: "inv s" and ps: "g_qcperf_backend_info s = Some ps"
    and b: "0 \<le> b" "b < 8" and p: "all_pointers_set (ps ! nat b)" and idl: "idle (nat b) (world s)"
  shows "\<exists>rc s'. connect_verified b cb s = Ret (rc, s') \<and> inv s'"
proof -
  let ?s1 = "s\<lparr>g_backends_connected := (g_backends_connected s)[nat b := True]\<rparr>"
  note ci = family_invD(1) [OF i]
  have inv1: "inv ?s1"
    using i core_inv_connect [OF ci ps p] core_invD(1) [OF ci]
    by (auto simp: family_inv_def nth_list_update_if split: if_splits)
  have "\<exists>rcm w. (if cb \<noteq> None then qcperf_set_message_callback b cb ?s1 else Ret (SUCCESS, ?s1)) = Ret (rcm, ?s1\<lparr>world := w\<rparr>)
          \<and> winv w \<and> (\<forall>j. idle j (world s) \<longrightarrow> idle j w)"
  proof (cases "cb \<noteq> None")
    case True
    then show ?thesis using set_message_callback_total [OF inv1, of b cb] b by auto
  next
    case False
    then show ?thesis using family_invD(3) [OF i] by (intro exI [of _ SUCCESS] exI [of _ "world s"]) simp
  qed
  then obtain rcm w where m: "(if cb \<noteq> None then qcperf_set_message_callback b cb ?s1 else Ret (SUCCESS, ?s1)) = Ret (rcm, ?s1\<lparr>world := w\<rparr>)"
    and w: "winv w" "\<forall>j. idle j (world s) \<longrightarrow> idle j w" by blast
  let ?s2 = "?s1\<lparr>world := w\<rparr>"
  obtain f where f: "qcperf_backend_init (ps ! nat b) = Some f" "op_ok winv (idle (nat b)) (\<lambda>w w'. \<forall>j. idle j w \<longrightarrow> idle j w') f"
    using p family_invD(4) [OF i ps, of "nat b"] b by (auto simp: all_pointers_set_def private_ok_def)
  obtain rc w3 where w3: "call0 (qcperf_backend_init (ps ! nat b)) ?s2 = Ret (rc, ?s2\<lparr>world := w3\<rparr>)" "winv w3"
    "\<forall>j. idle j w \<longrightarrow> idle j w3"
    using call0_ok [OF f(2), of ?s2] w idl f(1) by auto
  have inv3: "inv (?s2\<lparr>world := w3\<rparr>)"
    using family_inv_world [OF inv1, of w3] w w3 by simp
  have eq: "connect_verified b cb s =
      (if rc = SUCCESS then Ret (SUCCESS, ?s2\<lparr>world := w3\<rparr>)
       else obind (qcperf_disconnect_backend b (?s2\<lparr>world := w3\<rparr>)) (\<lambda>(_, s4). Ret (rc, s4)))"
    using m w3(1) core_invD [OF ci] core_inv_table [OF ci ps] b ps
    by (simp add: connect_verified_def)
  show ?thesis
    using inv3 disconnect_total [OF inv3, of b] b w w3 idl unfolding eq by auto
qed

lemma connect_total:
  assumes i: "inv s"
  shows "\<exists>rc s'. qcperf_connect_backend b cb s = Ret (rc, s') \<and> inv s'"
proof (cases "g_qcperf_backend_info s \<noteq> None \<and> 0 \<le> b \<and> b < 8 \<and> \<not> g_backends_connected s ! nat b
              \<and> init_fns s ! nat b \<noteq> None")
  case False
  then show ?thesis
    using i family_invD(1) [OF i] core_invD [of s] by (auto simp: qcperf_connect_backend_def)
next
  case True
  then obtain ps create where ps: "g_qcperf_backend_info s = Some ps" and b: "0 \<le> b" "b < 8"
    and nc: "\<not> g_backends_connected s ! nat b" and cr: "init_fns s ! nat b = Some create" by auto
  note ci = family_invD(1) [OF i]
  have len: "length ps = 8" "length (g_backends_connected s) = 8" "length (init_fns s) = 8"
    using core_invD [OF ci] core_inv_table [OF ci ps] by auto
  have nb: "nat b < 8" using b by simp
  obtain rc q where q: "create (Some (ps ! nat b)) = (rc, Some q)" "private_at winv idle startable (nat b) q"
    using create_total [OF nb, of create "ps ! nat b"] cr family_invD(2) [OF i] by auto
  let ?s1 = "s\<lparr>g_qcperf_backend_info := Some (ps[nat b := q])\<rparr>"
  have inv1: "inv ?s1"
    using i ps core_inv_set_private [OF ci ps _ nc] q nb len
    by (auto simp: family_inv_def nth_list_update_if)
  have eq: "qcperf_connect_backend b cb s =
      (if rc \<noteq> SUCCESS then Ret (rc, ?s1)
       else if \<not> all_pointers_set q then Ret (NULL_POINTER, ?s1) else connect_verified b cb ?s1)"
    using ps b nc cr len q(1)
    by (simp add: qcperf_connect_backend_def qcperf_verify_backend_private_def cong: if_cong)
  have "idle (nat b) (world ?s1)" using family_invD(5) [OF i nb nc] by simp
  then show ?thesis
    using inv1 connect_verified_total [OF inv1 _ b, of "ps[nat b := q]" cb] len b unfolding eq by auto
qed

lemma info_total:
  assumes i: "inv s" and b: "b \<noteq> 8"
  shows "\<exists>rc i' s'. qcperf_get_capabilities_info b info s = Ret (rc, i', s') \<and> inv s'"
proof (cases "g_qcperf_backend_info s \<noteq> None \<and> 0 \<le> b \<and> b < 8 \<and> g_backends_connected s ! nat b \<and> info \<noteq> None")
  case False
  then show ?thesis
    using i b family_invD(1) [OF i] core_invD [of s] by (auto simp: qcperf_get_capabilities_info_def)
next
  case True
  then obtain ps where ps: "g_qcperf_backend_info s = Some ps" and b: "0 \<le> b" "b < 8" by auto
  note ci = family_invD(1) [OF i]
  have set: "all_pointers_set (ps ! nat b)" using core_inv_pointers_int [OF ci ps] True by simp
  have tot: "private_at winv idle startable (nat b) (ps ! nat b)" using family_invD(4) [OF i ps, of "nat b"] b by simp
  obtain f where f: "qcperf_backend_info (ps ! nat b) = Some f"
    using set by (auto simp: all_pointers_set_def)
  obtain rc i' w where w: "f info (world s) = Ret (rc, i', w)" "winv w" "\<forall>j. idle j (world s) \<longrightarrow> idle j w"
    using tot f family_invD(3) [OF i] unfolding private_ok_def by blast
  have "qcperf_get_capabilities_info b info s = Ret (rc, i', s\<lparr>world := w\<rparr>)"
    using True core_invD [OF ci] core_inv_table [OF ci ps] ps f w
    by (auto simp add: qcperf_get_capabilities_info_def)
  then show ?thesis using family_inv_world [OF i w(2)] w(3) by blast
qed

lemma deinit_loop_total:
  assumes "inv s" "set ids \<subseteq> {..<8}" "\<forall>i<8. g_backends_connected s ! i \<longrightarrow> idle i (world s)"
  shows "\<exists>s'. deinit_loop ids s = Ret s' \<and> inv s'"
  using assms
proof (induction ids arbitrary: s)
  case (Cons i ids)
  have i: "i < 8" using Cons.prems(2) by simp
  then have rd: "read_connected (int i) s = Ret (g_backends_connected s ! i)"
    using core_invD [OF family_invD(1) [OF Cons.prems(1)]] by simp
  show ?case
  proof (cases "g_backends_connected s ! i")
    case False
    then show ?thesis using Cons rd by simp
  next
    case True
    obtain rc t where t: "qcperf_disconnect_backend (int i) s = Ret (rc, t)" "inv t"
      "\<forall>j. idle j (world s) \<longrightarrow> idle j (world t)" "\<forall>j<8. g_backends_connected t ! j \<longrightarrow> g_backends_connected s ! j"
      using disconnect_total [OF Cons.prems(1), of "int i"] Cons.prems(3) i by (auto simp: connected_at_def)
    then have "\<exists>s'. deinit_loop ids t = Ret s' \<and> inv s'" using Cons.IH [OF t(2)] Cons.prems(2,3) by simp
    then show ?thesis using rd t(1) True by simp
  qed
qed simp

lemma api_step_total:
  assumes i: "inv s" and ok: "permitted idle startable (Api c) s"
  shows "\<exists>rc s'. api_step c s = Ret (rc, s') \<and> inv s'"
proof (cases c)
  case Init
  have "inv (snd (qcperf_init s))"
    using i core_inv_init [of s] by (auto simp: family_inv_def qcperf_init_def Let_def split: prod.splits)
  then show ?thesis using Init by (cases "qcperf_init s") auto
next
  case (Connect b cb)
  then show ?thesis using connect_total [OF i] by simp
next
  case (GetInfo b info)
  then show ?thesis using info_total [OF i, of b info] ok by auto
next
  case (SetData b cb)
  show ?thesis unfolding SetData api_step.simps dispatch_ops
    by (rule dispatch_total [OF i])
      (use ok SetData in \<open>fastforce simp: all_pointers_set_def private_ok_def apply_ptr_def\<close>)+
next
  case (Start b r)
  show ?thesis unfolding Start api_step.simps dispatch_ops
    by (rule dispatch_total [OF i])
      (use ok Start in \<open>fastforce simp: all_pointers_set_def private_ok_def apply_ptr_def\<close>)+
next
  case (Stop b r)
  show ?thesis unfolding Stop api_step.simps dispatch_ops
    by (rule dispatch_total [OF i])
      (use ok Stop in \<open>fastforce simp: all_pointers_set_def private_ok_def apply_ptr_def\<close>)+
next
  case (Disconnect b)
  then show ?thesis using disconnect_total [OF i, of b] ok by auto
next
  case Deinit
  show ?thesis
  proof (cases "g_qcperf_backend_info s")
    case None
    then show ?thesis using Deinit i by (simp add: qcperf_deinit_def)
  next
    case (Some ps)
    obtain t where t: "deinit_loop [0..<8] s = Ret t" "inv t"
      using deinit_loop_total [OF i, of "[0..<8]"] ok Deinit by (auto simp: lessThan_atLeast0)
    then have "qcperf_deinit s = Ret (SUCCESS, t\<lparr>g_qcperf_backend_info := None\<rparr>)"
      using Some by (simp add: qcperf_deinit_def)
    moreover from this have "inv (t\<lparr>g_qcperf_backend_info := None\<rparr>)"
      using core_inv_deinit [of s] i t(2) by (auto simp: family_inv_def)
    ultimately show ?thesis using Deinit by simp
  qed
qed

lemma sys_step_total:
  assumes i: "inv s" and ok: "permitted idle startable ev s"
  shows "\<exists>s'. sys_step sched ev s = Ret s' \<and> inv s'"
proof (cases ev)
  case (Api c)
  then obtain rc s' where "api_step c s = Ret (rc, s')" "inv s'" using api_step_total [OF i, of c] ok by blast
  then show ?thesis using Api by simp
next
  case (Sched e)
  obtain w where w: "sched e (world s) = Ret w" "winv w" "\<forall>i. idle i (world s) \<longrightarrow> idle i w"
    using sched_total [OF family_invD(3) [OF i], of e] by blast
  then show ?thesis using Sched family_inv_world [OF i w(2)] by simp
qed

lemma sys_run_safe: "inv s \<Longrightarrow> sys_safe sched idle startable evs s"
proof (induction evs arbitrary: s)
  case (Cons ev evs)
  then show ?case using sys_step_total [of s ev] by auto
qed simp

lemma inv_initial:
  assumes "winv w" "\<forall>i<8. idle i w"
  shows "inv (initial_core fns oom w)"
  using assms core_inv_initial [OF registry_length] by (simp add: family_inv_def) (simp add: initial_core_def)

lemma sys_safe_from_start: "winv w \<Longrightarrow> \<forall>i<8. idle i w \<Longrightarrow> sys_safe sched idle startable evs (initial_core fns oom w)"
  by (rule sys_run_safe [OF inv_initial])

end

end
