(* ===== verification/Service.thy ===== *)
theory Service
  imports LiveSession Contract
begin

text \<open>
  A backend as the core sees it: the locale \<open>service\<close> has the function pointers its creator installs and the
  scheduler of its thread, in an environment (clock, files, directories) that may change between calls,
  and the contract of \<open>Contract\<close> over the state of the backend alone. Every \<open>live_session\<close> whose remaining
  functions only touch the tables is one.
\<close>

section \<open>The interface\<close>

text \<open>The table entry a creator fills.\<close>

definition created :: "'s backend_init_t \<Rightarrow> 's QcPerfBackendPrivate" where
  "created create = (case snd (create (Some zero_private)) of Some q \<Rightarrow> q | None \<Rightarrow> zero_private)"

locale service =
  fixes ops :: "'f \<Rightarrow> 's QcPerfBackendPrivate" and sched :: "'f \<Rightarrow> thread_event \<Rightarrow> 's \<Rightarrow> 's outcome"
    and inv :: "'s \<Rightarrow> bool" and idle_at :: "'s \<Rightarrow> bool" and startable :: "'s \<Rightarrow> bool"
  assumes ops_set: "all_pointers_set (ops f)"
    and ops_ok: "private_ok inv idle_at startable (\<lambda>s s'. idle_at s \<longrightarrow> idle_at s') (\<lambda>_ _. True) (ops f)"
    and sched_ok: "inv s \<Longrightarrow> \<exists>s'. sched f ev s = Ret s' \<and> inv s' \<and> (idle_at s \<longrightarrow> idle_at s')"

section \<open>Sessions as services\<close>

locale served_session = live_session start stop code body ctl okev ready good lok
  for start :: "QcPerfRequest option \<Rightarrow> ('l, 'x) session_scheme \<Rightarrow> (QcPerfReturnCode \<times> ('l, 'x) session_scheme) outcome"
    and stop :: "'e \<Rightarrow> QcPerfRequest option \<Rightarrow> ('l, 'x) session_scheme \<Rightarrow> (QcPerfReturnCode \<times> ('l, 'x) session_scheme) outcome"
    and code :: "'e \<Rightarrow> ('l, ('l, 'x) session_scheme) thread_code"
    and body :: "'e \<Rightarrow> 'l \<Rightarrow> ('l, 'x) session_scheme \<Rightarrow> ('l \<times> ('l, 'x) session_scheme) outcome"
    and ctl :: "('l, 'x) session_scheme \<Rightarrow> bool"
    and okev :: "'e session_event \<Rightarrow> ('l, 'x) session_scheme \<Rightarrow> bool"
    and ready :: "('l, 'x) session_scheme \<Rightarrow> bool"
    and good :: "('l, 'x) session_scheme \<Rightarrow> QcPerfRequest option \<Rightarrow> bool"
    and lok :: "('l, 'x) session_scheme \<Rightarrow> 'l \<Rightarrow> bool" +
  fixes ops :: "'f \<Rightarrow> ('l, 'x) session_scheme QcPerfBackendPrivate" and env :: "'f \<Rightarrow> 'e"
    and startable :: "('l, 'x) session_scheme \<Rightarrow> bool"
  assumes ctl_cong: "same_control s s' \<Longrightarrow> ctl s \<Longrightarrow> ctl s'"
    and startable_ok: "startable s \<Longrightarrow> okev (CallStart r) s"
    and ops_all: "all_pointers_set (ops f)"
    and ops_start: "qcperf_backend_start (ops f) = Some start"
    and ops_stop: "qcperf_backend_stop (ops f) = Some (stop (env f))"
    and message_light: "set_message_callback (ops f) = Some g \<Longrightarrow> ready s \<Longrightarrow>
          \<exists>rc s'. g cb s = Ret (rc, s') \<and> same_control s s' \<and> ready s' \<and> keeps good lok s s'"
    and data_light: "set_data_callback (ops f) = Some g \<Longrightarrow> ready s \<Longrightarrow>
          \<exists>rc s'. g cb s = Ret (rc, s') \<and> same_control s s' \<and> ready s' \<and> keeps good lok s s'"
    and info_light: "qcperf_backend_info (ops f) = Some h \<Longrightarrow> ready s \<Longrightarrow>
          \<exists>rc i' s'. h i s = Ret (rc, i', s') \<and> same_control s s' \<and> ready s' \<and> keeps good lok s s'"
    and init_ready: "qcperf_backend_init (ops f) = Some k \<Longrightarrow> ready s \<Longrightarrow> \<exists>rc s'. k s = Ret (rc, s') \<and> same_control s s' \<and> ready s'"
    and deinit_ready: "qcperf_backend_deinit (ops f) = Some k \<Longrightarrow> ready s \<Longrightarrow> \<exists>rc s'. k s = Ret (rc, s') \<and> same_control s s' \<and> ready s'"
begin

lemma light_ok:
  assumes "live s" "same_control s s'" "ready s'" "keeps good lok s s'"
  shows "live s' \<and> (idle s \<longrightarrow> idle s')"
  using live_same [OF assms(1,2) ctl_cong [OF assms(2)] assms(3,4)] assms(1) idle_cong [OF assms(2)] by (simp add: live_def)

lemma quiet_ok:
  assumes "live s" "idle s" "same_control s s'" "ready s'"
  shows "live s' \<and> idle s'"
  using live_idle [OF ctl_cong [OF assms(3)] assms(4)] idle_cong [OF assms(3)] assms(1,2) by (simp add: live_def idle_def)

lemma message_ok: "set_message_callback (ops f) = Some g \<Longrightarrow> op_ok live (\<lambda>_. True) (\<lambda>s s'. idle s \<longrightarrow> idle s') (g cb)"
  unfolding op_ok_def using message_light light_ok by (metis live_def)

lemma data_ok: "set_data_callback (ops f) = Some g \<Longrightarrow> op_ok live (\<lambda>_. True) (\<lambda>s s'. idle s \<longrightarrow> idle s') (g cb)"
  unfolding op_ok_def using data_light light_ok by (metis live_def)

lemma info_ok:
  "qcperf_backend_info (ops f) = Some h \<Longrightarrow> live s \<Longrightarrow> \<exists>rc i' s'. h i s = Ret (rc, i', s') \<and> live s' \<and> (idle s \<longrightarrow> idle s')"
  using info_light light_ok by (metis live_def)

lemma init_ok: "qcperf_backend_init (ops f) = Some k \<Longrightarrow> op_ok live idle (\<lambda>s s'. idle s \<longrightarrow> idle s') k"
  unfolding op_ok_def using init_ready quiet_ok by (metis live_def)

lemma deinit_ok: "qcperf_backend_deinit (ops f) = Some k \<Longrightarrow> op_ok live idle (\<lambda>s s'. idle s \<longrightarrow> idle s') k"
  unfolding op_ok_def using deinit_ready quiet_ok by (metis live_def)

lemma start_ok: "op_ok live startable (\<lambda>_ _. True) (start r)"
  unfolding op_ok_def using live_start startable_ok by blast

lemma stop_ok: "op_ok live (\<lambda>_. True) (\<lambda>s s'. idle s \<longrightarrow> idle s') (stop (env f) r)"
  unfolding op_ok_def using live_stop by blast

lemma ops_private_ok: "private_ok live idle startable (\<lambda>s s'. idle s \<longrightarrow> idle s') (\<lambda>_ _. True) (ops f)"
  unfolding private_ok_def ops_start ops_stop
  using message_ok data_ok info_ok init_ok deinit_ok start_ok stop_ok by auto

end

sublocale served_session \<subseteq> service ops "\<lambda>f. schedule code body (env f)" live idle startable
  by unfold_locales (use ops_all ops_private_ok live_schedule in auto)

end
