(* ===== verification/DummyLive.thy ===== *)
theory DummyLive
  imports DummyProps Service
begin

text \<open>
  Sessions of the dummy backend never get stuck: its operations and its thread instantiate
  \<open>orderly_session\<close>.
\<close>

section \<open>Frames\<close>

definition dummy_frame :: "dummy_state \<Rightarrow> dummy_state \<Rightarrow> bool" where
  "dummy_frame s s' \<longleftrightarrow> g_backend_info s' = g_backend_info s \<and> sn_table s' = sn_table s \<and> g_data_callback s' = g_data_callback s \<and>
     g_capability_1_metrics_data s' = g_capability_1_metrics_data s \<and> g_capability_2_metrics_data s' = g_capability_2_metrics_data s"

lemma dummy_frame_simps [simp]:
  "dummy_frame s s" "dummy_frame s (DUMMY_SEND lv x s') = dummy_frame s s'" "dummy_frame (DUMMY_SEND lv x s) s' = dummy_frame s s'"
  "dummy_frame s (s'\<lparr>g_is_thread_running := b\<rparr>) = dummy_frame s s'" "dummy_frame (s\<lparr>g_is_thread_running := b\<rparr>) s' = dummy_frame s s'"
  "dummy_frame s (s'\<lparr>sn_faults := f\<rparr>) = dummy_frame s s'" "dummy_frame (s\<lparr>sn_faults := f\<rparr>) s' = dummy_frame s s'"
  "dummy_frame s (s'\<lparr>sn_threads := ts\<rparr>) = dummy_frame s s'" "dummy_frame s (s'\<lparr>g_thread_info := i\<rparr>) = dummy_frame s s'"
  "dummy_frame s (s'\<lparr>sn_data := ds\<rparr>) = dummy_frame s s'" "dummy_frame s (put_thread t st s') = dummy_frame s s'"
  by (simp_all add: dummy_frame_def put_thread_def)

lemma dummy_frame_trans: "dummy_frame s s' \<Longrightarrow> dummy_frame s' s'' \<Longrightarrow> dummy_frame s s''"
  by (simp add: dummy_frame_def)

lemma dummy_alloc_strings_frame: "dummy_alloc_strings i n rs s = (rs', s') \<Longrightarrow> dummy_frame s s'"
proof (induction i n rs s rule: dummy_alloc_strings.induct)
  case (2 i n rs s)
  then show ?case by (auto simp: Let_def alloc_pair split: if_splits prod.splits)
qed simp

lemma dummy_entry_frame:
  assumes "dummy_thread_entry clk r s = Ret (l, s')"
  shows "dummy_frame s s'"
  using assms by (cases rule: dummy_entry_RetE) (auto dest!: dummy_alloc_strings_frame)

lemma dummy_start_frame:
  assumes "dummy_start r s = Ret (rc, s')"
  shows "dummy_frame s s'"
proof (cases r)
  case None
  then show ?thesis using assms by (auto simp: dummy_start_def Let_def)
next
  case (Some rq)
  let ?s = "DUMMY_SEND LEVEL_INFO ''Starting profiling'' s"
  obtain ret s1 where v: "dummy_validate_request rq ?s = Ret (ret, s1)"
    using assms Some by (auto simp: dummy_start_def Let_def outcome_simps)
  obtain lv t where s1: "s1 = DUMMY_SEND lv t ?s" using dummy_validate_RetE [OF v] by blast
  obtain tr s2 where sp: "spawn (dummy_thread_attrs rq) s1 = (tr, s2)" by (cases "spawn (dummy_thread_attrs rq) s1")
  have "dummy_frame s s2" using spawn_cases [OF sp] by (auto simp: s1)
  then show ?thesis
    using assms Some v sp s1 by (auto simp: dummy_start_def Let_def split: if_splits)
qed

lemma dummy_wait_frame:
  assumes "wait_exit (dummy_thread clk) t s = Ret (x, s')"
  shows "dummy_frame s s'"
proof (cases "sn_threads s ! t")
  case (Spawned r)
  then obtain lo s1 where en: "dummy_thread_entry clk r s = Ret (lo, s1)"
    using assms by (auto simp: wait_exit_def dummy_thread_def outcome_simps split: if_splits)
  then have "s' = put_thread t Exited s1"
    using assms Spawned by (cases lo) (auto simp: wait_exit_def dummy_thread_def dummy_thread_finish_def split: if_splits)
  then show ?thesis using dummy_entry_frame [OF en] by simp
qed (use assms in \<open>auto simp: wait_exit_def dummy_thread_def dummy_thread_finish_def split: if_splits\<close>)

lemma dummy_stop_frame:
  assumes "dummy_stop clk r s = Ret (rc, s')"
  shows "dummy_frame s s'"
proof (cases "\<exists>q t. r = Some q \<and> g_is_thread_running s \<and> th_handle (g_thread_info s) = Thread t")
  case False
  then show ?thesis
    using assms by (auto simp: dummy_stop_def Let_def thread_join_def split: option.splits if_splits thread_handle.splits)
next
  case True
  then obtain q t where q: "r = Some q" "g_is_thread_running s" "th_handle (g_thread_info s) = Thread t" by blast
  let ?s = "(DUMMY_SEND LEVEL_INFO ''Stopping profiling'' s)\<lparr>g_is_thread_running := False\<rparr>"
  obtain x s1 where w: "wait_exit (dummy_thread clk) t ?s = Ret (x, s1)"
    using assms q by (auto simp: dummy_stop_def Let_def thread_join_def outcome_simps)
  have "dummy_frame s s1" using dummy_wait_frame [OF w] by simp
  then show ?thesis
    using assms q w by (auto simp: dummy_stop_def Let_def thread_join_def outcome_simps split: if_splits)
qed

section \<open>Sessions that never get stuck\<close>

definition dummy_tables_ok :: "dummy_state \<Rightarrow> bool" where
  "dummy_tables_ok s \<longleftrightarrow> dummy_statics_ok s \<and> (dummy_registered s \<or> no_table s)"

definition dummy_good :: "dummy_state \<Rightarrow> QcPerfRequest option \<Rightarrow> bool" where
  "dummy_good s q \<longleftrightarrow> dummy_registered s \<and> g_data_callback s \<noteq> None \<and> (\<exists>rq. q = Some rq \<and> dummy_request_code rq = SUCCESS)"

definition dummy_lok :: "dummy_state \<Rightarrow> dummy_local \<Rightarrow> bool" where
  "dummy_lok s l \<longleftrightarrow> dummy_registered s \<and> g_data_callback s \<noteq> None \<and> dummy_loop_inv (dummy_metrics s) s l"

lemma dummy_tables_cong:
  assumes "dummy_frame s s'"
  shows "dummy_tables_ok s' = dummy_tables_ok s" "dummy_good s' q = dummy_good s q" "dummy_lok s' l = dummy_lok s l"
  using assms dummy_registered_cong [of s' s]
  by (simp_all add: dummy_frame_def dummy_tables_ok_def dummy_statics_ok_def dummy_good_def dummy_lok_def dummy_loop_inv_def
      dummy_metrics_def no_table_def)

lemma dummy_entry_total:
  assumes reg: "dummy_registered s" and rq: "dummy_request_code rq = SUCCESS"
  shows "\<exists>lo s'. dummy_thread_entry clk (Some rq) s = Ret (lo, s')"
proof -
  have k: "rq_capability_id rq = 0" using rq by (auto simp: dummy_request_code_def split: if_splits)
  obtain c where c: "deref_capability (sn_table s) 0 s = Ret c" using dummy_metrics_registered [OF reg] by blast
  obtain n where n: "samples_per_stream rq = Ret n" using dummy_samples_per_stream [OF rq] by blast
  show ?thesis
    using k c n dummy_registered_find [OF reg, of 0]
    by (simp add: dummy_thread_entry_def Let_def alloc_pair case_prod_beta)
qed

lemma dummy_start_ready:
  assumes "dummy_tables_ok s"
  shows "\<exists>rc s'. dummy_start r s = Ret (rc, s') \<and>
     (rc = SUCCESS \<longrightarrow> (\<exists>q. dummy_good s' q \<and> sn_threads s' = sn_threads s @ [Spawned q]))"
proof (cases r)
  case None
  then show ?thesis by (simp add: dummy_start_def Let_def)
next
  case (Some rq)
  show ?thesis
  proof (cases "dummy_registered s")
    case False
    then show ?thesis
      using assms Some
      by (simp add: dummy_start_def Let_def dummy_validate_request_def find_capability_def dummy_tables_ok_def no_table_def)
  next
    case True
    then obtain rc s' where s': "dummy_start r s = Ret (rc, s')"
      "rc = SUCCESS \<longrightarrow> dummy_request_code rq = SUCCESS \<and> g_data_callback s \<noteq> None"
      "sn_threads s' \<noteq> sn_threads s \<longrightarrow> sn_threads s' = sn_threads s @ [Spawned (Some rq)]"
      using dummy_start_code [OF True, of rq] Some by (auto split: if_splits)
    have f: "dummy_frame s s'" using dummy_start_frame [OF s'(1)] .
    have "sn_threads s' \<noteq> sn_threads s" if "rc = SUCCESS" using dummy_start_law [OF s'(1)] that by (auto simp: spawned_def)
    then have "rc = SUCCESS \<longrightarrow> dummy_good s' (Some rq) \<and> sn_threads s' = sn_threads s @ [Spawned (Some rq)]"
      unfolding dummy_tables_cong(2) [OF f] using s'(2,3) True by (simp add: dummy_good_def)
    then show ?thesis using s'(1) by blast
  qed
qed

interpretation dummy_live: orderly_session dummy_start dummy_stop dummy_thread dummy_thread_iterate
  dummy_tables_ok dummy_good dummy_lok
proof unfold_locales
  fix s r
  assume a: "dummy_tables_ok s"
  obtain rc s' where s': "dummy_start r s = Ret (rc, s')"
     "rc = SUCCESS \<longrightarrow> (\<exists>q. dummy_good s' q \<and> sn_threads s' = sn_threads s @ [Spawned q])"
    using dummy_start_ready [OF a] by blast
  show "\<exists>rc s'. dummy_start r s = Ret (rc, s') \<and> dummy_tables_ok s' \<and> (\<forall>q. dummy_good s q \<longrightarrow> dummy_good s' q) \<and>
     (\<forall>l. dummy_lok s l \<longrightarrow> dummy_lok s' l) \<and>
     (rc = SUCCESS \<longrightarrow> (\<exists>q. dummy_good s' q \<and> sn_threads s' = sn_threads s @ [Spawned q]))"
    using s' a dummy_tables_cong [OF dummy_start_frame [OF s'(1)]] by auto
next
  fix e r s rc s'
  assume "dummy_tables_ok s" "dummy_stop e r s = Ret (rc, s')"
  then show "dummy_tables_ok s' \<and> (\<forall>q. dummy_good s q \<longrightarrow> dummy_good s' q) \<and> (\<forall>l. dummy_lok s l \<longrightarrow> dummy_lok s' l)"
    using dummy_tables_cong [OF dummy_stop_frame] by simp
next
  fix e s q
  assume a: "dummy_tables_ok s" "dummy_good s q"
  then obtain rq where r: "dummy_registered s" "q = Some rq" "dummy_request_code rq = SUCCESS" "g_data_callback s \<noteq> None"
    by (auto simp: dummy_good_def)
  obtain lo s' where en: "dummy_thread_entry e (Some rq) s = Ret (lo, s')" using dummy_entry_total [OF r(1,3)] by blast
  have "dummy_lok s' l" if "lo = Some l" "g_is_thread_running s'" for l
    using dummy_entry_loop [OF r(1,3), of e l s'] en that r(4) by (simp add: dummy_lok_def)
  then show "\<exists>lo s'. th_entry (dummy_thread e) q s = Ret (lo, s') \<and> dummy_tables_ok s' \<and>
      (\<forall>l. lo = Some l \<and> g_is_thread_running s' \<longrightarrow> dummy_lok s' l)"
    using en r(2) a(1) dummy_tables_cong(1) [OF dummy_entry_frame [OF en]] by (simp add: dummy_thread_def)
next
  fix e s l
  assume a: "dummy_tables_ok s" "dummy_lok s l" "g_is_thread_running s"
  then obtain cb where cb: "dummy_registered s" "g_data_callback s = Some cb" "dummy_loop_inv (dummy_metrics s) s l"
    by (auto simp: dummy_lok_def)
  obtain l' s' bs where b: "dummy_thread_iterate e l s = Ret (l', s')" "dummy_loop_inv (dummy_metrics s) s' l'"
    "s' = s\<lparr>sn_data := sn_data s @ map (Pair cb) bs\<rparr>"
    using dummy_iterate_loop [OF cb(1,3,2) a(3), of e] by blast
  have f: "dummy_frame s s'" by (simp add: b(3))
  have "dummy_metrics s' = dummy_metrics s" by (simp add: b(3) dummy_metrics_def)
  then have "dummy_lok s' l'"
    using b(2) cb(2) dummy_registered_cong [of s' s] cb(1) by (simp add: dummy_lok_def b(3))
  then show "\<exists>l' s'. dummy_thread_iterate e l s = Ret (l', s') \<and> dummy_tables_ok s' \<and> dummy_lok s' l'"
    using b(1) a(1) dummy_tables_cong(1) [OF f] by blast
next
  fix t st s l
  show "dummy_tables_ok (put_thread t st s) = dummy_tables_ok s" "dummy_lok (put_thread t st s) l = dummy_lok s l"
    by (rule dummy_tables_cong; simp)+
qed (simp add: dummy_thread_def dummy_thread_finish_def)

section \<open>The service\<close>

definition dummy_ops :: "clock_reading \<Rightarrow> dummy_state QcPerfBackendPrivate" where
  "dummy_ops clk = created (qcperf_dummy_create clk)"

lemma dummy_ops_simps [simp]:
  "qcperf_backend_init (dummy_ops clk) = Some dummy_init" "qcperf_backend_start (dummy_ops clk) = Some dummy_start"
  "qcperf_backend_stop (dummy_ops clk) = Some (dummy_stop clk)" "qcperf_backend_deinit (dummy_ops clk) = Some (\<lambda>s. Ret (dummy_deinit s))"
  "qcperf_backend_info (dummy_ops clk) = Some (\<lambda>i s. Ret (dummy_backend_info i s))"
  "set_message_callback (dummy_ops clk) = Some (\<lambda>cb s. Ret (dummy_set_message_callback cb s))"
  "set_data_callback (dummy_ops clk) = Some (\<lambda>cb s. Ret (dummy_set_data_callback cb s))"
  by (simp_all add: dummy_ops_def created_def qcperf_dummy_create_def)

lemma dummy_keeps_frame:
  assumes "dummy_frame s s'" "same_control s s'"
  shows "keeps dummy_good dummy_lok s s'"
  using dummy_tables_cong [OF assms(1)] assms(2) by (simp add: keeps_def same_control_def)

lemma dummy_message_frame: "dummy_frame s (s\<lparr>g_message_callback := cb\<rparr>)"
  by (simp add: dummy_frame_def)

lemma dummy_data_light:
  assumes "dummy_tables_ok s"
  shows "\<exists>rc s'. dummy_set_data_callback cb s = (rc, s') \<and> same_control s s' \<and> dummy_tables_ok s' \<and> keeps dummy_good dummy_lok s s'"
  using assms
  by (auto simp: dummy_set_data_callback_def same_control_def keeps_def dummy_tables_ok_def dummy_statics_ok_def dummy_registered_def
      no_table_def dummy_good_def dummy_lok_def dummy_loop_inv_def dummy_metrics_def)

lemma dummy_info_light:
  assumes "dummy_tables_ok s"
  shows "\<exists>rc i' s'. dummy_backend_info i s = (rc, i', s') \<and> same_control s s' \<and> dummy_tables_ok s' \<and> keeps dummy_good dummy_lok s s'"
proof -
  obtain rc i' s' where s': "dummy_backend_info i s = (rc, i', s')" by (cases "dummy_backend_info i s")
  then have "dummy_frame s s'" "same_control s s'" by (auto simp: dummy_backend_info_def split: option.splits)
  then show ?thesis using s' dummy_keeps_frame dummy_tables_cong(1) assms by blast
qed

interpretation dummy_service: served_session dummy_start dummy_stop dummy_thread dummy_thread_iterate
  orderly disciplined dummy_tables_ok dummy_good dummy_lok dummy_ops "\<lambda>clk. clk" "\<lambda>s. all_ended s \<or> g_is_thread_running s"
proof unfold_locales
  fix s s' :: dummy_state
  assume "same_control s s'" "orderly s"
  then show "orderly s'" using orderly_cong by blast
next
  fix f g cb s
  assume "set_message_callback (dummy_ops f) = Some g" "dummy_tables_ok s"
  then show "\<exists>rc s'. g cb s = Ret (rc, s') \<and> same_control s s' \<and> dummy_tables_ok s' \<and> keeps dummy_good dummy_lok s s'"
    using dummy_tables_cong(1) [OF dummy_message_frame [of s cb]] dummy_keeps_frame [OF dummy_message_frame [of s cb]]
    by (auto simp: dummy_set_message_callback_def same_control_def)
next
  fix f k s
  assume "qcperf_backend_init (dummy_ops f) = Some k" "dummy_tables_ok s"
  then show "\<exists>rc s'. k s = Ret (rc, s') \<and> same_control s s' \<and> dummy_tables_ok s'"
    using dummy_init_total [of s] by (auto simp: dummy_tables_ok_def no_table_def split: if_splits)
next
  fix f k s
  assume "qcperf_backend_deinit (dummy_ops f) = Some k" "dummy_tables_ok s"
  then show "\<exists>rc s'. k s = Ret (rc, s') \<and> same_control s s' \<and> dummy_tables_ok s'"
    by (auto simp: dummy_deinit_def dummy_free_def same_control_def dummy_tables_ok_def dummy_statics_ok_def no_table_def)
qed (use dummy_data_light dummy_info_light in \<open>fastforce simp: all_pointers_set_def\<close>)+

end
