(* ===== verification/LinuxCpu.thy ===== *)
theory LinuxCpu
  imports Session OsUtils Core
begin

text \<open>
  The Linux CPU backend, \<open>backends/qcom-linux-cpu\<close>: the procfs and sysfs readers of
  \<open>qcom_linux_cpu_utils.c\<close>, the metric table of \<open>qcom_linux_cpu_info.c\<close>, and the seven operations and
  the collection thread of \<open>qcom_linux_cpu.c\<close>. Theorems are in \<open>LinuxCpuReaders\<close> and \<open>LinuxCpuProps\<close>.
\<close>

section \<open>Readers\<close>

record QcomLinuxCpuLoadInfo =
  ld_idle :: double
  ld_total_time :: double
  ld_steal_time :: double

abbreviation (input) QCOM_LINUX_CPU_MAX_CORES :: nat where "QCOM_LINUX_CPU_MAX_CORES \<equiv> 18"
abbreviation (input) QCOM_LINUX_CPU_METRICS_PER_CORE :: nat where "QCOM_LINUX_CPU_METRICS_PER_CORE \<equiv> 5"
abbreviation (input) QCOM_LINUX_CPU_TOTAL_METRICS :: nat where "QCOM_LINUX_CPU_TOTAL_METRICS \<equiv> 2"
abbreviation (input) QCOM_LINUX_CPU_NODE_PATH_MAX_LEN :: nat where "QCOM_LINUX_CPU_NODE_PATH_MAX_LEN \<equiv> 128"
abbreviation (input) QCOM_LINUX_CPU_STAT_LINE_MAX_LEN :: nat where "QCOM_LINUX_CPU_STAT_LINE_MAX_LEN \<equiv> 256"
abbreviation (input) QCOM_LINUX_CPU_COUNT_NODE :: string where
  "QCOM_LINUX_CPU_COUNT_NODE \<equiv> ''/sys/devices/system/cpu/possible''"
abbreviation (input) QCOM_LINUX_CPU_STAT_NODE :: string where "QCOM_LINUX_CPU_STAT_NODE \<equiv> ''/proc/stat''"

text \<open>A per-core node: \<open>snprintf\<close> of its format into a buffer of 128 bytes.\<close>

definition cpu_node :: "nat \<Rightarrow> string \<Rightarrow> string" where
  "cpu_node core leaf =
     snprintf_buf QCOM_LINUX_CPU_NODE_PATH_MAX_LEN (''/sys/devices/system/cpu/cpu'' @ show_u core @ leaf)"

text \<open>\<open>fscanf(fp, "%*u-%u", &last_core)\<close>: a number that is skipped, a dash, a number.\<close>

definition scan_range :: "string \<Rightarrow> u32 option" where
  "scan_range s =
     (case scan_u s of
        None \<Rightarrow> None
      | Some (_, r) \<Rightarrow> (case r of
                          [] \<Rightarrow> None
                        | c # t \<Rightarrow> if c = CHR ''-'' then map_option fst (scan_u t) else None))"

text \<open>Readers return the code and what the out parameter holds afterwards.\<close>

definition cpu_util_get_num_cores :: "filesystem \<Rightarrow> u32 \<Rightarrow> QcPerfReturnCode \<times> u32" where
  "cpu_util_get_num_cores fs num_cores =
     (case fs QCOM_LINUX_CPU_COUNT_NODE of
        None \<Rightarrow> (FAILED, num_cores)
      | Some content \<Rightarrow> (case scan_range content of
                           Some last_core \<Rightarrow> (SUCCESS, last_core + 1)
                         | None \<Rightarrow> (FAILED, num_cores)))"

definition cpu_util_get_core_capacity :: "filesystem \<Rightarrow> nat \<Rightarrow> u32 \<Rightarrow> QcPerfReturnCode \<times> u32" where
  "cpu_util_get_core_capacity fs core_id capacity =
     (case fs (cpu_node core_id ''/cpu_capacity'') of
        None \<Rightarrow> (FAILED, capacity)
      | Some content \<Rightarrow> (case scan_u content of
                           Some (v, _) \<Rightarrow> (SUCCESS, v)
                         | None \<Rightarrow> (FAILED, capacity)))"

text \<open>The loop over the cores: \<open>n\<close> to go, the first failure ends it.\<close>

fun capacity_loop :: "filesystem \<Rightarrow> nat \<Rightarrow> nat \<Rightarrow> u32 \<Rightarrow> u32 \<Rightarrow> QcPerfReturnCode \<Rightarrow> QcPerfReturnCode \<times> u32" where
  "capacity_loop fs core 0 cap tot ret = (ret, tot)"
| "capacity_loop fs core (Suc n) cap tot ret =
     (case cpu_util_get_core_capacity fs core cap of
        (ret', cap') \<Rightarrow> if ret' \<noteq> SUCCESS then (ret', tot)
                         else capacity_loop fs (Suc core) n cap' (tot + cap') ret')"

definition cpu_util_get_total_capacity :: "filesystem \<Rightarrow> QcPerfReturnCode \<times> u32" where
  "cpu_util_get_total_capacity fs =
     (let (ret, num_cores) = cpu_util_get_num_cores fs 0;
          (ret2, tot) = (if ret = SUCCESS then capacity_loop fs 0 (unat num_cores) 0 0 ret else (ret, 0))
      in (if ret2 = SUCCESS \<and> tot = 0 then FAILED else ret2, tot))"

text \<open>The lines \<open>fgets(line, 256, fp)\<close> returns one after the other.\<close>

function fgets_all :: "string \<Rightarrow> string list" where
  "fgets_all s = (if s = [] then [] else
     fst (fgets_take 255 s) # fgets_all (snd (fgets_take 255 s)))"
  by auto
termination
  by (relation "measure length") (auto simp del: fgets_take.simps intro: fgets_take_shorter)

declare fgets_all.simps [simp del]

text \<open>
  \<open>sscanf(line, "cpu%u %lf ... %lf")\<close> with ten \<open>%lf\<close>, as it counts to eleven: the identifier and the ten
  values.
\<close>

fun scan_lfs :: "nat \<Rightarrow> string \<Rightarrow> double list option" where
  "scan_lfs 0 s = Some []"
| "scan_lfs (Suc n) s =
     (case scan_lf s of
        None \<Rightarrow> None
      | Some (x, r) \<Rightarrow> (case scan_lfs n r of None \<Rightarrow> None | Some xs \<Rightarrow> Some (x # xs)))"

definition scan_stat_line :: "string \<Rightarrow> (u32 \<times> double list) option" where
  "scan_stat_line line =
     (if has_prefix ''cpu'' line
      then (case scan_u (drop 3 line) of
              None \<Rightarrow> None
            | Some (k, r) \<Rightarrow> (case scan_lfs 10 r of None \<Rightarrow> None | Some xs \<Rightarrow> Some (k, xs)))
      else None)"

text \<open>The order of the values is user, nice, system, idle, iowait, irq, softirq, steal, guest, guest\_nice.\<close>

definition load_of :: "double list \<Rightarrow> QcomLinuxCpuLoadInfo" where
  "load_of xs = \<lparr>ld_idle = xs ! 3 + xs ! 4,
     ld_total_time = xs ! 0 + xs ! 1 + xs ! 2 + xs ! 3 + xs ! 4 + xs ! 5 + xs ! 6 + xs ! 7 + xs ! 8 + xs ! 9,
     ld_steal_time = xs ! 7\<rparr>"

fun stat_loop :: "string list \<Rightarrow> u32 \<Rightarrow> u32 \<Rightarrow> QcomLinuxCpuLoadInfo list \<Rightarrow> (u32 \<times> QcomLinuxCpuLoadInfo list) outcome" where
  "stat_loop [] num_cores cores_read load = Ret (cores_read, load)"
| "stat_loop (line # ls) num_cores cores_read load =
     (if cores_read < num_cores
      then (case scan_stat_line line of
              Some (core_id, xs) \<Rightarrow>
                if core_id < num_cores
                then obind (arr_write load (unat core_id) (load_of xs)) (\<lambda>load'. stat_loop ls num_cores (cores_read + 1) load')
                else stat_loop ls num_cores cores_read load
            | None \<Rightarrow> stat_loop ls num_cores cores_read load)
      else Ret (cores_read, load))"

definition cpu_util_get_proc_stat ::
  "filesystem \<Rightarrow> QcomLinuxCpuLoadInfo list \<Rightarrow> u32 \<Rightarrow> (QcPerfReturnCode \<times> QcomLinuxCpuLoadInfo list) outcome" where
  "cpu_util_get_proc_stat fs load_info num_cores =
     (case fs QCOM_LINUX_CPU_STAT_NODE of
        None \<Rightarrow> Ret (FAILED, load_info)
      | Some content \<Rightarrow>
          (case fgets_all content of
             [] \<Rightarrow> Ret (FAILED, load_info)
           | _ # ls \<Rightarrow> obind (stat_loop ls num_cores 0 load_info) (\<lambda>(cores_read, load).
                         Ret (if cores_read > 0 then SUCCESS else FAILED, load))))"

definition cpu_util_get_core_frequency :: "filesystem \<Rightarrow> nat \<Rightarrow> QcPerfReturnCode \<times> double" where
  "cpu_util_get_core_frequency fs core_id =
     (case fs (cpu_node core_id ''/cpufreq/cpuinfo_cur_freq'') of
        None \<Rightarrow> (FAILED, 0)
      | Some content \<Rightarrow> (case scan_ld content of
                           Some (freq_khz, _) \<Rightarrow> (SUCCESS, of_int freq_khz / 1000)
                         | None \<Rightarrow> (FAILED, 0)))"

definition cpu_util_get_dcvs_limit :: "filesystem \<Rightarrow> nat \<Rightarrow> QcPerfReturnCode \<times> u32" where
  "cpu_util_get_dcvs_limit fs core_id =
     (case fs (cpu_node core_id ''/dcvsh_freq_limit'') of
        None \<Rightarrow> (FAILED, 0)
      | Some content \<Rightarrow> (case scan_u content of
                           Some (v, _) \<Rightarrow> (SUCCESS, v)
                         | None \<Rightarrow> (FAILED, 0)))"

section \<open>The metric table\<close>

definition cpu_streaming_rates :: "u16 list" where "cpu_streaming_rates = [200, 500, 1000]"
definition cpu_sampling_rates :: "u16 list" where "cpu_sampling_rates = [50, 100, 200]"

text \<open>\<open>QCOM_LINUX_CPU_CORE_BASE_ID\<close>\<close>

definition cpu_core_base_id :: "nat \<Rightarrow> u16" where
  "cpu_core_base_id core = of_nat (2 + core * QCOM_LINUX_CPU_METRICS_PER_CORE)"

text \<open>Writing entry \<open>metric_idx\<close> and advancing; out of the array is a hazard.\<close>

definition cpu_metric ::
  "u16 \<Rightarrow> string \<Rightarrow> string \<Rightarrow> string \<Rightarrow> QcPerfMetricInfo list \<times> nat \<Rightarrow> (QcPerfMetricInfo list \<times> nat) outcome" where
  "cpu_metric i name desc unit = (\<lambda>(ms, idx).
     obind (arr_write ms idx (set_metric_info i name desc unit)) (\<lambda>ms'. Ret (ms', Suc idx)))"

definition cpu_core_metrics ::
  "filesystem \<Rightarrow> nat \<Rightarrow> QcPerfMetricInfo list \<times> nat \<Rightarrow> (QcPerfMetricInfo list \<times> nat) outcome" where
  "cpu_core_metrics fs core st =
     (let k = show_u core; b = cpu_core_base_id core in
      obind (cpu_metric b (''CPU Core '' @ k @ '' Load'') (''CPU utilization percentage for core '' @ k) ''%%'' st) (\<lambda>st.
      obind (cpu_metric (b + 1) (''CPU Core '' @ k @ '' Frequency'') (''Current CPU frequency in MHz for core '' @ k) ''MHz'' st) (\<lambda>st.
      obind (cpu_metric (b + 2) (''CPU Core '' @ k @ '' Steal Time'') (''CPU steal time percentage for core '' @ k) ''%%'' st) (\<lambda>st.
      obind (cpu_metric (b + 3) (''CPU Core '' @ k @ '' Effective Utilization'') (''Effective CPU utilization percentage for core '' @ k) ''%%'' st) (\<lambda>st.
        if fst (cpu_util_get_dcvs_limit fs core) = SUCCESS
        then cpu_metric (b + 4) (''CPU Core '' @ k @ '' DCVS Frequency Limit'') (''DCVS frequency limit in Hz for core '' @ k) ''Hz'' st
        else Ret st)))))"

fun cpu_metrics_loop ::
  "filesystem \<Rightarrow> nat \<Rightarrow> nat \<Rightarrow> QcPerfMetricInfo list \<times> nat \<Rightarrow> (QcPerfMetricInfo list \<times> nat) outcome" where
  "cpu_metrics_loop fs core 0 st = Ret st"
| "cpu_metrics_loop fs core (Suc n) st =
     (if core < QCOM_LINUX_CPU_MAX_CORES
      then obind (cpu_core_metrics fs core st) (\<lambda>st'. cpu_metrics_loop fs (Suc core) n st')
      else Ret st)"

definition cpu_init_metrics ::
  "filesystem \<Rightarrow> QcPerfMetricInfo list \<Rightarrow> u8 \<Rightarrow> (QcPerfReturnCode \<times> QcPerfMetricInfo list \<times> u8) outcome" where
  "cpu_init_metrics fs metrics_data metric_data_len =
     (let (ret, num_cores) = cpu_util_get_num_cores fs 0
      in if ret \<noteq> SUCCESS then Ret (ret, metrics_data, metric_data_len)
         else obind (cpu_metric 0 ''Total CPU Load'' ''Weighted total CPU utilization percentage across all cores'' ''%%'' (metrics_data, 0)) (\<lambda>st.
              obind (cpu_metric 1 ''Total CPU Effective Utilization'' ''Weighted total effective CPU utilization percentage across all cores'' ''%%'' st) (\<lambda>st.
              obind (cpu_metrics_loop fs 0 (unat num_cores) st) (\<lambda>(ms, idx). Ret (ret, ms, of_nat idx)))))"

section \<open>State\<close>

record QcomLinuxCpuSample =
  sm_frequency :: double
  sm_utilization :: double
  sm_steal_time :: double
  sm_eff_utilization :: double
  sm_dcvs_limit :: u32

definition zero_load :: QcomLinuxCpuLoadInfo where
  "zero_load = \<lparr>ld_idle = 0, ld_total_time = 0, ld_steal_time = 0\<rparr>"

definition zero_sample :: QcomLinuxCpuSample where
  "zero_sample = \<lparr>sm_frequency = 0, sm_utilization = 0, sm_steal_time = 0, sm_eff_utilization = 0, sm_dcvs_limit = 0\<rparr>"

text \<open>
  The thread's variables. It tests the flag twice per iteration, at the head of the loop and after the
  sleep between the two snapshots: \<open>cl_sleeping\<close> says at which of the two it is, and one step takes it
  from one to the other.
\<close>

record cpu_local =
  cl_request :: QcPerfRequest
  cl_num_cores :: u32
  cl_cpu_capacity :: "u32 list"
  cl_total_capacity :: u32
  cl_samples_per_stream :: u32
  cl_total_responses :: u32
  cl_streaming_rate_ns :: u64
  cl_load_prev :: "QcomLinuxCpuLoadInfo list"
  cl_load_curr :: "QcomLinuxCpuLoadInfo list"
  cl_samples :: "QcomLinuxCpuSample list"
  cl_data :: QcPerfData
  cl_position :: u32
  cl_sample_count :: u32
  cl_current_time :: u64
  cl_last_stream_time :: u64
  cl_sleeping :: bool
  cl_slept :: nat

type_synonym cpu_state = "cpu_local session"

definition cpu_send_message :: "QcPerfMessageLevel \<Rightarrow> string \<Rightarrow> cpu_state \<Rightarrow> cpu_state" where
  "cpu_send_message level txt s =
     (if length txt > 0
      then post_message \<lparr>msg_backend_id = 0, msg_capability_id = 0, msg_text = snprintf_buf 256 txt,
             msg_length = length txt, msg_level = level\<rparr> s
      else s)"

definition CPU_SEND :: "QcPerfMessageLevel \<Rightarrow> string \<Rightarrow> cpu_state \<Rightarrow> cpu_state" where
  "CPU_SEND level txt s = (if g_message_callback s \<noteq> None then cpu_send_message level txt s else s)"

section \<open>Operations\<close>

definition qcom_linux_cpu_alloc :: "u32 \<Rightarrow> cpu_state \<Rightarrow> QcPerfReturnCode \<times> cpu_state" where
  "qcom_linux_cpu_alloc num_cores s =
     (let total_metric_count = of_nat QCOM_LINUX_CPU_TOTAL_METRICS + num_cores * of_nat QCOM_LINUX_CPU_METRICS_PER_CORE;
          (ok, s1) = alloc s
      in if \<not> ok then (CALLOC_FAILED, s1\<lparr>g_backend_info := (g_backend_info s1)\<lparr>bi_capabilities_list := None\<rparr>\<rparr>)
         else let (ok2, s2) = alloc s1
              in if \<not> ok2
                 then (CALLOC_FAILED, s2\<lparr>g_backend_info := (g_backend_info s2)
                         \<lparr>bi_capabilities_list := None, bi_capabilities_list_length := 0\<rparr>\<rparr>)
                 else (SUCCESS, s2\<lparr>sn_table := Suc (sn_table s2), g_backend_info := (g_backend_info s2)
                         \<lparr>bi_capabilities_list := Some [zero_capability
                            \<lparr>ci_metric_ids_list := Some (replicate (unat total_metric_count) zero_metric_info)\<rparr>],
                          bi_capabilities_list_length := 1\<rparr>\<rparr>))"

definition qcom_linux_cpu_free :: "cpu_state \<Rightarrow> cpu_state" where
  "qcom_linux_cpu_free s =
     s\<lparr>g_backend_info := (g_backend_info s)\<lparr>bi_capabilities_list := None, bi_capabilities_list_length := 0\<rparr>\<rparr>"

definition cpu_validate_request :: "QcPerfRequest \<Rightarrow> cpu_state \<Rightarrow> (QcPerfReturnCode \<times> cpu_state) outcome" where
  "cpu_validate_request rq s =
     obind (find_capability (rq_capability_id rq) (g_backend_info s)) (\<lambda>found.
       let id_txt = show_u (unat (rq_capability_id rq)) in
       case found of
         None \<Rightarrow> Ret (CAPABILITY_NOT_FOUND, CPU_SEND LEVEL_ERROR (''Capability ID '' @ id_txt @ '' not found'') s)
       | Some i \<Rightarrow>
           obind (deref_capability (sn_table s) i s) (\<lambda>ci.
             obind (rate_scan (rq_sampling_rate rq) (unat (ci_sampling_rate_len ci)) (ci_sampling_rate ci)) (\<lambda>sampling_ok.
               if \<not> sampling_ok
               then Ret (INVALID_ARGUMENTS, CPU_SEND LEVEL_ERROR
                      (''Invalid sampling rate '' @ show_u (unat (rq_sampling_rate rq)) @ '' for capability ID '' @ id_txt) s)
               else obind (rate_scan (rq_streaming_rate rq) (unat (ci_streaming_rate_len ci)) (ci_streaming_rate ci)) (\<lambda>streaming_ok.
                 if \<not> streaming_ok
                 then Ret (INVALID_ARGUMENTS, CPU_SEND LEVEL_ERROR
                        (''Invalid streaming rate '' @ show_u (unat (rq_streaming_rate rq)) @ '' for capability ID '' @ id_txt) s)
                 else Ret (SUCCESS, s)))))"

definition qcom_linux_cpu_set_message_callback :: "callback \<Rightarrow> cpu_state \<Rightarrow> QcPerfReturnCode \<times> cpu_state" where
  "qcom_linux_cpu_set_message_callback cb s = (SUCCESS, s\<lparr>g_message_callback := cb\<rparr>)"

text \<open>Filling the capability once the metrics are there.\<close>

definition cpu_fill_capability :: "QcPerfCapabilityInfo \<Rightarrow> QcPerfCapabilityInfo" where
  "cpu_fill_capability c =
     (let (st, stn) = copy_rates cpu_streaming_rates 0 (ci_streaming_rate c, ci_streaming_rate_len c);
          (sa, san) = copy_rates cpu_sampling_rates 0 (ci_sampling_rate c, ci_sampling_rate_len c)
      in c\<lparr>ci_capability_id := 0, ci_name := snprintf_buf CAPABILITY_NAME_MAX_LEN ''cpu'',
           ci_name_len := length (snprintf_buf CAPABILITY_NAME_MAX_LEN ''cpu''),
           ci_streaming_rate := st, ci_streaming_rate_len := stn,
           ci_sampling_rate := sa, ci_sampling_rate_len := san\<rparr>)"

text \<open>The part of \<open>qcom_linux_cpu_init\<close> after a successful allocation.\<close>

definition cpu_init_table :: "filesystem \<Rightarrow> u32 \<Rightarrow> cpu_state \<Rightarrow> (QcPerfReturnCode \<times> cpu_state) outcome" where
  "cpu_init_table fs num_cores s =
     (case bi_capabilities_list (g_backend_info s) of
        None \<Rightarrow> Stuck BadDeref
      | Some cs \<Rightarrow>
          obind (arr_read cs 0) (\<lambda>c.
          obind (cpu_init_metrics fs (case ci_metric_ids_list c of Some ms \<Rightarrow> ms | None \<Rightarrow> []) (ci_metric_ids_list_len c)) (\<lambda>(ret, ms, len).
            let c1 = c\<lparr>ci_metric_ids_list := Some ms, ci_metric_ids_list_len := len\<rparr>
            in if ret \<noteq> SUCCESS
               then Ret (ret, CPU_SEND LEVEL_ERROR ''Failed to initialize metrics''
                      (s\<lparr>g_backend_info := (g_backend_info s)\<lparr>bi_capabilities_list := Some (cs[0 := c1])\<rparr>\<rparr>))
               else Ret (ret, CPU_SEND LEVEL_INFO
                      (''qcom-linux-cpu backend initialized: '' @ show_u (unat num_cores) @ '' cores, '' @ show_u (unat len) @ '' metrics'')
                      (s\<lparr>g_backend_info := (g_backend_info s)
                           \<lparr>bi_backend_id := of_nat (backend_index BACKEND_QCOM_LINUX_CPU),
                            bi_capabilities_list := Some (cs[0 := cpu_fill_capability c1])\<rparr>\<rparr>)))))"

definition qcom_linux_cpu_init :: "filesystem \<Rightarrow> cpu_state \<Rightarrow> (QcPerfReturnCode \<times> cpu_state) outcome" where
  "qcom_linux_cpu_init fs s0 =
     (let s = CPU_SEND LEVEL_INFO ''Initializing qcom-linux-cpu backend'' s0;
          (ret, num_cores) = cpu_util_get_num_cores fs 0
      in obind
           (if ret \<noteq> SUCCESS then Ret (ret, CPU_SEND LEVEL_ERROR ''Failed to read CPU core count'' s)
            else if QCOM_LINUX_CPU_MAX_CORES < unat num_cores
            then Ret (FAILED, CPU_SEND LEVEL_ERROR
                   (''CPU core count '' @ show_u (unat num_cores) @ '' exceeds maximum supported '' @ show_u QCOM_LINUX_CPU_MAX_CORES) s)
            else if fst (cpu_util_get_total_capacity fs) \<noteq> SUCCESS
            then Ret (fst (cpu_util_get_total_capacity fs), CPU_SEND LEVEL_ERROR ''Failed to read CPU capacity'' s)
            else let (ret2, s1) = qcom_linux_cpu_alloc num_cores s
                 in if ret2 \<noteq> SUCCESS then Ret (ret2, CPU_SEND LEVEL_ERROR ''Failed to allocate backend memory'' s1)
                    else cpu_init_table fs num_cores s1)
           (\<lambda>(rc, s'). Ret (rc, if rc \<noteq> SUCCESS then qcom_linux_cpu_free s' else s')))"

definition qcom_linux_cpu_backend_info ::
  "QcPerfBackendInfo option \<Rightarrow> cpu_state \<Rightarrow> QcPerfReturnCode \<times> QcPerfBackendInfo option \<times> cpu_state" where
  "qcom_linux_cpu_backend_info info s =
     (case info of None \<Rightarrow> (NULL_POINTER, None, s) | Some _ \<Rightarrow> (SUCCESS, Some (g_backend_info s), s))"

definition qcom_linux_cpu_set_data_callback :: "callback \<Rightarrow> cpu_state \<Rightarrow> QcPerfReturnCode \<times> cpu_state" where
  "qcom_linux_cpu_set_data_callback cb s =
     (if cb = None then (INVALID_ARGUMENTS, s)
      else if g_data_callback s \<noteq> None then (CALLBACK_ALREADY_SET, s)
      else (SUCCESS, s\<lparr>g_data_callback := cb\<rparr>))"

definition cpu_thread_attrs :: "QcPerfRequest \<Rightarrow> QThreadAttributes" where
  "cpu_thread_attrs rq =
     \<lparr>thread_name = snprintf_buf THREAD_NAME_SIZE ''qcperf_cpu_thread'',
      thread_name_len = of_nat (length (snprintf_buf THREAD_NAME_SIZE ''qcperf_cpu_thread'')),
      thread_priority = 0, thread_stack_size = 0, thread_params = Some rq\<rparr>"

definition qcom_linux_cpu_start :: "QcPerfRequest option \<Rightarrow> cpu_state \<Rightarrow> (QcPerfReturnCode \<times> cpu_state) outcome" where
  "qcom_linux_cpu_start request s0 =
     (let s = CPU_SEND LEVEL_INFO ''Starting qcom-linux-cpu data collection'' s0
      in case request of
           None \<Rightarrow> Ret (NULL_POINTER, s)
         | Some rq \<Rightarrow>
             obind (cpu_validate_request rq s) (\<lambda>(ret, s1).
               if ret \<noteq> SUCCESS then Ret (ret, CPU_SEND LEVEL_ERROR ''Request validation failed'' s1)
               else if g_data_callback s1 = None then Ret (FAILED, CPU_SEND LEVEL_ERROR ''Data callback is not set'' s1)
               else if g_is_thread_running s1
               then Ret (ALREADY_INITIALIZED, CPU_SEND LEVEL_WARNING ''Collection thread is already running'' s1)
               else let (thread_ret, s2) = spawn (cpu_thread_attrs rq) s1
                    in if thread_ret \<noteq> QTHREAD_CREATE_SUCCESS
                       then Ret (FAILED, CPU_SEND LEVEL_ERROR ''Failed to create CPU collection thread'' s2)
                       else Ret (SUCCESS, CPU_SEND LEVEL_INFO ''CPU collection thread started successfully'' s2)))"

definition qcom_linux_cpu_deinit :: "cpu_state \<Rightarrow> QcPerfReturnCode \<times> cpu_state" where
  "qcom_linux_cpu_deinit s =
     (SUCCESS, CPU_SEND LEVEL_INFO ''qcom-linux-cpu backend deinitialized successfully''
        ((qcom_linux_cpu_free (CPU_SEND LEVEL_INFO ''Deinitializing qcom-linux-cpu backend'' s))\<lparr>g_data_callback := None\<rparr>))"

section \<open>The collection thread\<close>

text \<open>\<open>cpu_capacity[core_id]\<close> for every core; a node that cannot be read leaves zero.\<close>

fun read_capacities :: "filesystem \<Rightarrow> nat \<Rightarrow> nat \<Rightarrow> u32 list \<Rightarrow> u32 list outcome" where
  "read_capacities fs core 0 caps = Ret caps"
| "read_capacities fs core (Suc n) caps =
     obind (arr_read caps core) (\<lambda>c.
     obind (arr_write caps core (snd (cpu_util_get_core_capacity fs core c))) (\<lambda>caps'.
       read_capacities fs (Suc core) n caps'))"

text \<open>Five allocations: both load arrays and the samples are always tried, then data, then responses.\<close>

definition cpu_thread_allocs :: "cpu_state \<Rightarrow> bool \<times> cpu_state" where
  "cpu_thread_allocs s =
     (let (a, s1) = alloc s; (b, s2) = alloc s1; (c, s3) = alloc s2
      in if \<not> a \<or> \<not> b \<or> \<not> c
         then (False, (CPU_SEND LEVEL_ERROR ''Failed to allocate CPU load info buffers'' s3)\<lparr>g_is_thread_running := False\<rparr>)
         else let (d, s4) = alloc s3
              in if \<not> d
                 then (False, (CPU_SEND LEVEL_ERROR ''Failed to allocate QcPerfData structure'' s4)\<lparr>g_is_thread_running := False\<rparr>)
                 else let (e, s5) = alloc s4
                      in if \<not> e
                         then (False, (CPU_SEND LEVEL_ERROR ''Failed to allocate metric response array'' s5)\<lparr>g_is_thread_running := False\<rparr>)
                         else (True, s5))"

definition cpu_thread_entry ::
  "sample_env \<Rightarrow> QcPerfRequest option \<Rightarrow> cpu_state \<Rightarrow> (cpu_local option \<times> cpu_state) outcome" where
  "cpu_thread_entry env param s0 =
     (let s = s0\<lparr>g_is_thread_running := True\<rparr>; fs = env_files env;
          fail = (\<lambda>txt. Ret (None, (CPU_SEND LEVEL_ERROR txt s)\<lparr>g_is_thread_running := False\<rparr>))
      in case param of
           None \<Rightarrow> fail ''Request parameter is NULL in collection thread''
         | Some rq \<Rightarrow>
             let (ret, num_cores) = cpu_util_get_num_cores fs 0;
                 (cret, total_capacity) = cpu_util_get_total_capacity fs
             in if ret \<noteq> SUCCESS then fail ''Failed to read CPU core count in collection thread''
                else if QCOM_LINUX_CPU_MAX_CORES < unat num_cores
                then fail (''CPU core count '' @ show_u (unat num_cores) @ '' exceeds maximum in collection thread'')
                else if cret \<noteq> SUCCESS then fail ''Failed to read CPU capacity in collection thread''
                else obind (read_capacities fs 0 (unat num_cores) (replicate QCOM_LINUX_CPU_MAX_CORES 0)) (\<lambda>caps.
                     obind (deref_capability (sn_table s) 0 s) (\<lambda>ci.
                     obind (samples_per_stream rq) (\<lambda>sps.
                       let total_responses = sps * ucast (ci_metric_ids_list_len ci);
                           (ok, s1) = cpu_thread_allocs s
                       in if \<not> ok then Ret (None, s1)
                          else Ret (Some \<lparr>cl_request = rq, cl_num_cores = num_cores, cl_cpu_capacity = caps,
                                 cl_total_capacity = total_capacity, cl_samples_per_stream = sps,
                                 cl_total_responses = total_responses,
                                 cl_streaming_rate_ns = ucast (rq_streaming_rate rq) * 1000000,
                                 cl_load_prev = replicate (unat num_cores) zero_load,
                                 cl_load_curr = replicate (unat num_cores) zero_load,
                                 cl_samples = replicate (unat num_cores) zero_sample,
                                 cl_data = \<lparr>pd_backend_id = of_nat (backend_index BACKEND_QCOM_LINUX_CPU),
                                            pd_capability_id = rq_capability_id rq,
                                            pd_metric_response = replicate (unat total_responses) zero_response,
                                            pd_metric_response_len = 0\<rparr>,
                                 cl_position = 0, cl_sample_count = 0, cl_current_time = 0,
                                 cl_last_stream_time = time_now (env_clock env) 0,
                                 cl_sleeping = False, cl_slept = 0\<rparr>, s1)))))"

text \<open>From the head of the loop to the sleep.\<close>

definition cpu_first_snapshot :: "sample_env \<Rightarrow> cpu_local \<Rightarrow> cpu_state \<Rightarrow> (cpu_local \<times> cpu_state) outcome" where
  "cpu_first_snapshot env l s =
     obind (cpu_util_get_proc_stat (env_files env) (cl_load_prev l) (cl_num_cores l)) (\<lambda>(ret, load).
       Ret (l\<lparr>cl_load_prev := load, cl_sleeping := True, cl_slept := unat (rq_sampling_rate (cl_request l)) * 1000\<rparr>,
            if ret \<noteq> SUCCESS then CPU_SEND LEVEL_ERROR ''Failed to read /proc/stat (first snapshot)'' s else s))"

text \<open>The figures of one core from two snapshots.\<close>

definition core_sample :: "QcomLinuxCpuLoadInfo \<Rightarrow> QcomLinuxCpuLoadInfo \<Rightarrow> QcomLinuxCpuSample \<Rightarrow> QcomLinuxCpuSample" where
  "core_sample prev cur sm =
     (let delta_total = ld_total_time cur - ld_total_time prev;
          delta_idle = ld_idle cur - ld_idle prev;
          delta_steal = ld_steal_time cur - ld_steal_time prev
      in if delta_total > 0
         then sm\<lparr>sm_utilization := \<bar>((delta_total - delta_idle) / delta_total) * 100\<bar>,
                 sm_steal_time := \<bar>(delta_steal / delta_total) * 100\<bar>,
                 sm_eff_utilization := \<bar>((delta_total - delta_idle - delta_steal) / delta_total) * 100\<bar>\<rparr>
         else sm\<lparr>sm_utilization := 0, sm_steal_time := 0, sm_eff_utilization := 0\<rparr>)"

text \<open>The loop over the cores: samples and the two capacity-weighted totals.\<close>

fun cpu_core_loop ::
  "filesystem \<Rightarrow> cpu_local \<Rightarrow> nat \<Rightarrow> nat \<Rightarrow> QcomLinuxCpuSample list \<Rightarrow> double \<Rightarrow> double
     \<Rightarrow> (QcomLinuxCpuSample list \<times> double \<times> double) outcome" where
  "cpu_core_loop fs l core 0 sms tu te = Ret (sms, tu, te)"
| "cpu_core_loop fs l core (Suc n) sms tu te =
     obind (arr_read (cl_load_prev l) core) (\<lambda>prev.
     obind (arr_read (cl_load_curr l) core) (\<lambda>cur.
     obind (arr_read sms core) (\<lambda>sm0.
     obind (arr_read (cl_cpu_capacity l) core) (\<lambda>cap.
       let sm = (core_sample prev cur sm0)\<lparr>sm_frequency := snd (cpu_util_get_core_frequency fs core)\<rparr>;
           (tu', te') = (if cl_total_capacity l \<noteq> 0
                         then let f = of_nat (unat cap) / of_nat (unat (cl_total_capacity l))
                              in (tu + sm_utilization sm * f, te + sm_eff_utilization sm * f)
                         else (tu, te))
       in cpu_core_loop fs l (Suc core) n (sms[core := sm]) tu' te'))))"

text \<open>\<open>if (position < total_responses)\<close>: one more response.\<close>

definition cpu_put ::
  "u32 \<Rightarrow> u64 \<Rightarrow> u16 \<Rightarrow> (QcPerfGenericType \<Rightarrow> QcPerfGenericType) \<Rightarrow> QcPerfMetricResponse list \<times> u32
     \<Rightarrow> (QcPerfMetricResponse list \<times> u32) outcome" where
  "cpu_put tot now i f = (\<lambda>(rs, pos).
     if pos < tot
     then obind (arr_read rs (unat pos)) (\<lambda>r.
            Ret (rs[unat pos := \<lparr>mr_timestamp = now, mr_metric_id = i, mr_metric_value = f (mr_metric_value r)\<rparr>], pos + 1))
     else Ret (rs, pos))"

definition put_double :: "double \<Rightarrow> QcPerfGenericType \<Rightarrow> QcPerfGenericType" where
  "put_double x v = v\<lparr>gt_data_type := TYPE_DOUBLE, gt_double_value := x\<rparr>"

definition put_uint64 :: "u64 \<Rightarrow> QcPerfGenericType \<Rightarrow> QcPerfGenericType" where
  "put_uint64 x v = v\<lparr>gt_data_type := TYPE_UINT64, gt_uint64_value := x\<rparr>"

text \<open>The loop that stores the responses of the cores.\<close>

fun cpu_fill_cores ::
  "filesystem \<Rightarrow> u32 \<Rightarrow> u64 \<Rightarrow> nat \<Rightarrow> nat \<Rightarrow> QcomLinuxCpuSample list \<Rightarrow> QcPerfMetricResponse list \<times> u32
     \<Rightarrow> (QcomLinuxCpuSample list \<times> QcPerfMetricResponse list \<times> u32) outcome" where
  "cpu_fill_cores fs tot now core 0 sms st = Ret (sms, st)"
| "cpu_fill_cores fs tot now core (Suc n) sms st =
     (if snd st < tot
      then obind (arr_read sms core) (\<lambda>sm.
           let b = cpu_core_base_id core; (dcvs_ret, limit) = cpu_util_get_dcvs_limit fs core;
               sms' = sms[core := sm\<lparr>sm_dcvs_limit := limit\<rparr>]
           in obind (cpu_put tot now b (put_double (sm_utilization sm)) st) (\<lambda>st.
              obind (cpu_put tot now (b + 1) (put_double (sm_frequency sm)) st) (\<lambda>st.
              obind (cpu_put tot now (b + 2) (put_double (sm_steal_time sm)) st) (\<lambda>st.
              obind (cpu_put tot now (b + 3) (put_double (sm_eff_utilization sm)) st) (\<lambda>st.
              obind (if dcvs_ret = SUCCESS then cpu_put tot now (b + 4) (put_uint64 (ucast limit)) st else Ret st) (\<lambda>st.
                cpu_fill_cores fs tot now (Suc core) n sms' st))))))
      else Ret (sms, st))"

text \<open>Delivery at the end of an iteration.\<close>

definition cpu_deliver :: "cpu_local \<Rightarrow> cpu_state \<Rightarrow> cpu_local \<times> cpu_state" where
  "cpu_deliver l s =
     (let l = l\<lparr>cl_sample_count := cl_sample_count l + 1\<rparr>;
          elapsed_ns = cl_current_time l - cl_last_stream_time l
      in if cl_samples_per_stream l \<le> cl_sample_count l \<or> cl_streaming_rate_ns l \<le> elapsed_ns
         then let (l1, s1) =
                (case g_data_callback s of
                   Some cb \<Rightarrow> if cl_position l > 0
                              then let d = (cl_data l)\<lparr>pd_metric_response_len := unat (cl_position l)\<rparr>
                                   in (l\<lparr>cl_data := d\<rparr>, s\<lparr>sn_data := sn_data s @ [(cb, d)]\<rparr>)
                              else (l, s)
                 | None \<Rightarrow> (l, s))
              in (l1\<lparr>cl_position := 0, cl_sample_count := 0, cl_last_stream_time := cl_current_time l1\<rparr>, s1)
         else (l, s))"

text \<open>The responses of one iteration, from the two snapshots.\<close>

definition cpu_responses ::
  "filesystem \<Rightarrow> u64 \<Rightarrow> cpu_local \<Rightarrow> (QcomLinuxCpuSample list \<times> QcPerfMetricResponse list \<times> u32) outcome" where
  "cpu_responses fs now l =
     obind (cpu_core_loop fs l 0 (unat (cl_num_cores l)) (cl_samples l) 0 0) (\<lambda>(sms, tu, te).
     obind (cpu_put (cl_total_responses l) now 0 (put_double tu) (pd_metric_response (cl_data l), cl_position l)) (\<lambda>st.
     obind (cpu_put (cl_total_responses l) now 1 (put_double te) st) (\<lambda>st.
       cpu_fill_cores fs (cl_total_responses l) now 0 (unat (cl_num_cores l)) sms st)))"

text \<open>From the end of the sleep to the head of the loop.\<close>

definition cpu_second_snapshot :: "sample_env \<Rightarrow> cpu_local \<Rightarrow> cpu_state \<Rightarrow> (cpu_local \<times> cpu_state) outcome" where
  "cpu_second_snapshot env l s =
     obind (cpu_util_get_proc_stat (env_files env) (cl_load_curr l) (cl_num_cores l)) (\<lambda>(ret, load).
       let s1 = (if ret \<noteq> SUCCESS then CPU_SEND LEVEL_ERROR ''Failed to read /proc/stat (second snapshot)'' s else s);
           now = time_now (env_clock env) (cl_current_time l);
           l1 = l\<lparr>cl_load_curr := load, cl_current_time := now\<rparr>
       in obind (cpu_responses (env_files env) now l1) (\<lambda>(sms, rs, pos).
            Ret (cpu_deliver (l1\<lparr>cl_samples := sms, cl_data := (cl_data l1)\<lparr>pd_metric_response := rs\<rparr>,
                                 cl_position := pos, cl_sleeping := False\<rparr>) s1)))"

definition cpu_thread_iterate ::
  "sample_env \<Rightarrow> cpu_local \<Rightarrow> cpu_state \<Rightarrow> (cpu_local \<times> cpu_state) outcome" where
  "cpu_thread_iterate env l s = (if cl_sleeping l then cpu_second_snapshot env l s else cpu_first_snapshot env l s)"

definition cpu_thread_finish :: "cpu_local \<Rightarrow> cpu_state \<Rightarrow> cpu_state outcome" where
  "cpu_thread_finish l s = Ret (s\<lparr>g_is_thread_running := False\<rparr>)"

definition cpu_thread :: "sample_env \<Rightarrow> (cpu_local, cpu_state) thread_code" where
  "cpu_thread env = \<lparr>th_entry = cpu_thread_entry env, th_finish = cpu_thread_finish\<rparr>"

section \<open>Stop and creation\<close>

definition qcom_linux_cpu_stop :: "sample_env \<Rightarrow> QcPerfRequest option \<Rightarrow> cpu_state \<Rightarrow> (QcPerfReturnCode \<times> cpu_state) outcome" where
  "qcom_linux_cpu_stop env request s0 =
     (let s = CPU_SEND LEVEL_INFO ''Stopping qcom-linux-cpu data collection'' s0
      in case request of
           None \<Rightarrow> Ret (NULL_POINTER, s)
         | Some _ \<Rightarrow>
             if g_is_thread_running s
             then obind (thread_join (wait_exit (cpu_thread env)) (Some (g_thread_info s)) (s\<lparr>g_is_thread_running := False\<rparr>))
                    (\<lambda>(jr, s1).
                      if jr = QTHREAD_JOIN_SUCCESS
                      then obind (thread_destroy (Some (g_thread_info s1))) (\<lambda>(dr, ti).
                             let s2 = s1\<lparr>g_thread_info := (case ti of Some i \<Rightarrow> i | None \<Rightarrow> g_thread_info s1)\<rparr>
                             in if dr = QTHREAD_DESTROY_SUCCESS
                                then Ret (SUCCESS, CPU_SEND LEVEL_INFO ''CPU collection thread stopped successfully'' s2)
                                else Ret (FAILED, CPU_SEND LEVEL_ERROR ''Failed to destroy CPU collection thread handle'' s2))
                      else Ret (FAILED, CPU_SEND LEVEL_ERROR ''Failed to join CPU collection thread'' s1))
             else Ret (SUCCESS, CPU_SEND LEVEL_INFO ''CPU collection thread is not running'' s))"

definition qcperf_qcom_linux_cpu_create :: "sample_env \<Rightarrow> cpu_state backend_init_t" where
  "qcperf_qcom_linux_cpu_create env backend =
     (case backend of
        None \<Rightarrow> (NULL_POINTER, None)
      | Some p \<Rightarrow> (SUCCESS, Some (p\<lparr>
          set_message_callback := Some (\<lambda>cb s. Ret (qcom_linux_cpu_set_message_callback cb s)),
          qcperf_backend_init := Some (qcom_linux_cpu_init (env_files env)),
          qcperf_backend_info := Some (\<lambda>i s. Ret (qcom_linux_cpu_backend_info i s)),
          set_data_callback := Some (\<lambda>cb s. Ret (qcom_linux_cpu_set_data_callback cb s)),
          qcperf_backend_start := Some qcom_linux_cpu_start,
          qcperf_backend_stop := Some (qcom_linux_cpu_stop env),
          qcperf_backend_deinit := Some (\<lambda>s. Ret (qcom_linux_cpu_deinit s))\<rparr>)))"

end
