(* ===== verification/LinuxCpuReaders.thy ===== *)
theory LinuxCpuReaders
  imports LinuxCpu SessionLaws
begin

text \<open>
  Correctness of the readers of the Linux CPU backend: \<open>/proc/stat\<close> is read back as the kernel printed
  it, no content of a node makes a reader leave its arrays, and the total capacity is the sum of the
  capacities.
\<close>

section \<open>Lines\<close>

lemma fgets_all_line:
  "CHR 0x0A \<notin> set l \<Longrightarrow> length l < 255 \<Longrightarrow> fgets_all (l @ CHR 0x0A # r) = (l @ [CHR 0x0A]) # fgets_all r"
  by (subst fgets_all.simps) (simp add: fgets_take_line)

section \<open>Safety\<close>

lemma stat_loop_Ret:
  assumes "length load = unat num_cores"
  shows "\<exists>k load'. stat_loop ls num_cores cores_read load = Ret (k, load') \<and> length load' = length load"
  using assms
proof (induction ls num_cores cores_read load rule: stat_loop.induct)
  case (2 line ls num_cores cores_read load)
  show ?case
  proof (cases "cores_read < num_cores")
    case lt: True
    show ?thesis
    proof (cases "scan_stat_line line")
      case None
      then show ?thesis using 2 lt by simp
    next
      case (Some p)
      obtain core xs where p: "p = (core, xs)" by (cases p)
      show ?thesis
      proof (cases "core < num_cores")
        case False
        then show ?thesis using 2 lt Some p by simp
      next
        case True
        then have "unat core < length load" using 2(4) by (simp add: word_less_nat_alt)
        then show ?thesis using 2 lt Some p True by simp
      qed
    qed
  qed simp
qed simp

lemma proc_stat_Ret:
  assumes "length load = unat num_cores"
  shows "\<exists>rc load'. cpu_util_get_proc_stat fs load num_cores = Ret (rc, load') \<and> length load' = length load"
proof (cases "fs QCOM_LINUX_CPU_STAT_NODE")
  case None
  then show ?thesis by (simp add: cpu_util_get_proc_stat_def)
next
  case (Some content)
  show ?thesis
  proof (cases "fgets_all content")
    case Nil
    then show ?thesis using Some by (simp add: cpu_util_get_proc_stat_def)
  next
    case (Cons l ls)
    then show ?thesis using Some stat_loop_Ret [OF assms, of ls 0] by (auto simp: cpu_util_get_proc_stat_def)
  qed
qed

section \<open>Reading back \<open>/proc/stat\<close>\<close>

text \<open>The line of a core as the kernel prints it, and a file of a first line, the cores and the rest.\<close>

definition stat_line :: "nat \<Rightarrow> nat list \<Rightarrow> string" where
  "stat_line k xs = ''cpu'' @ show_u k @ concat (map (\<lambda>x. CHR '' '' # show_u x) xs)"

definition stat_file :: "string \<Rightarrow> nat list list \<Rightarrow> string \<Rightarrow> string" where
  "stat_file aggregate cores rest =
     aggregate @ CHR 0x0A # concat (map (\<lambda>k. stat_line k (cores ! k) @ [CHR 0x0A]) [0..<length cores]) @ rest"

lemma digit_chars_not_newline: "n < 10 \<Longrightarrow> digit_chars ! n \<noteq> CHR 0x0A"
  using digit_val_digit(2) [of n] by (auto simp: is_space_def)

lemma show_u_no_newline: "CHR 0x0A \<notin> set (show_u n)"
proof (induction n rule: show_u.induct)
  case (1 n)
  then show ?case
    using digit_chars_not_newline [of "n mod 10"] digit_chars_not_newline [of n]
    by (auto simp: show_u.simps [of n])
qed

lemma stat_line_no_newline: "CHR 0x0A \<notin> set (stat_line k xs)"
  using show_u_no_newline by (auto simp: stat_line_def)

lemma scan_lf_space: "scan_lf (CHR '' '' # s) = scan_lf s"
  by (simp add: scan_lf_def is_space_def)

lemma scan_lfs_print:
  "scan_lfs (length xs) (concat (map (\<lambda>x. CHR '' '' # show_u x) xs) @ [CHR 0x0A]) = Some (map of_nat xs)"
proof (induction xs)
  case (Cons x xs)
  let ?rest = "concat (map (\<lambda>x. CHR '' '' # show_u x) xs) @ [CHR 0x0A]"
  have "ends_number ?rest \<and> (?rest = [] \<or> hd ?rest \<noteq> CHR ''.'')"
    by (cases xs) (simp_all add: ends_number_def digit_val_def)
  then have "scan_lf (show_u x @ ?rest) = Some (of_nat x, ?rest)" by (intro scan_lf_show_u) auto
  then show ?case using Cons.IH by (simp add: scan_lf_space)
qed simp

lemma scan_stat_line_print:
  assumes "length xs = 10" "k < 2 ^ 32"
  shows "scan_stat_line (stat_line k xs @ [CHR 0x0A]) = Some (of_nat k, map of_nat xs)"
proof -
  let ?rest = "concat (map (\<lambda>x. CHR '' '' # show_u x) xs) @ [CHR 0x0A]"
  have "ends_number ?rest" using assms(1) by (cases xs) (simp_all add: ends_number_def digit_val_def)
  then have "scan_u (show_u k @ ?rest) = Some (of_nat k, ?rest)"
    using assms(2) by (intro scan_u_show_u) simp_all
  then show ?thesis
    using scan_lfs_print [of xs] assms(1)
    by (simp add: scan_stat_line_def stat_line_def has_prefix_def)
qed

lemma stat_loop_print:
  assumes "\<forall>xs \<in> set cores. length xs = 10" "length cores < 2 ^ 32" "length load = length cores" "j \<le> length cores"
  shows "stat_loop (map (\<lambda>k. stat_line k (cores ! k) @ [CHR 0x0A]) [j..<length cores] @ ls) (of_nat (length cores)) (of_nat j) load
     = Ret (of_nat (length cores), take j load @ map (\<lambda>k. load_of (map of_nat (cores ! k))) [j..<length cores])"
  using assms(3,4)
proof (induction "length cores - j" arbitrary: j load)
  case 0
  then have "j = length cores" by simp
  then show ?case using 0 by (cases ls) simp_all
next
  case (Suc d)
  let ?n = "length cores"
  have j: "j < ?n" using Suc.hyps(2) by simp
  have u: "unat (of_nat j :: u32) = j" "unat (of_nat ?n :: u32) = ?n"
    using j assms(2) by (simp_all add: unat_of_nat_u32)
  have lt: "(of_nat j :: u32) < of_nat ?n" using j u by (simp add: word_less_nat_alt)
  have sc: "scan_stat_line (stat_line j (cores ! j) @ [CHR 0x0A]) = Some (of_nat j, map of_nat (cores ! j))"
    by (rule scan_stat_line_print) (use j assms in auto)
  let ?load = "load[j := load_of (map of_nat (cores ! j))]"
  have up: "[j..<?n] = j # [Suc j..<?n]" using j by (simp add: upt_rec)
  have "stat_loop (map (\<lambda>k. stat_line k (cores ! k) @ [CHR 0x0A]) [j..<?n] @ ls) (of_nat ?n) (of_nat j) load
      = stat_loop (map (\<lambda>k. stat_line k (cores ! k) @ [CHR 0x0A]) [Suc j..<?n] @ ls) (of_nat ?n) (of_nat (Suc j)) ?load"
    unfolding up using lt sc j u Suc.prems(1) by (simp add: add.commute)
  also have "\<dots> = Ret (of_nat ?n, take (Suc j) ?load @ map (\<lambda>k. load_of (map of_nat (cores ! k))) [Suc j..<?n])"
    by (rule Suc.hyps(1)) (use Suc.hyps(2) Suc.prems j in simp_all)
  also have "take (Suc j) ?load = take j load @ [load_of (map of_nat (cores ! j))]"
    using j Suc.prems(1) by (simp add: take_Suc_conv_app_nth)
  finally show ?case unfolding up by simp
qed

lemma fgets_all_cores:
  assumes "\<forall>k<length cores. length (stat_line k (cores ! k)) < 255" "j \<le> length cores"
  shows "fgets_all (concat (map (\<lambda>k. stat_line k (cores ! k) @ [CHR 0x0A]) [j..<length cores]) @ rest) =
     map (\<lambda>k. stat_line k (cores ! k) @ [CHR 0x0A]) [j..<length cores] @ fgets_all rest"
  using assms(2)
proof (induction "length cores - j" arbitrary: j)
  case (Suc d)
  then have j: "j < length cores" by simp
  have up: "[j..<length cores] = j # [Suc j..<length cores]" using j by (simp add: upt_rec)
  show ?case
    unfolding up using Suc.hyps(1) [of "Suc j"] Suc.hyps(2) j assms(1) stat_line_no_newline
    by (simp add: fgets_all_line)
qed simp

section \<open>Capacities\<close>

definition core_capacity :: "filesystem \<Rightarrow> nat \<Rightarrow> u32 option" where
  "core_capacity fs core =
     (case fs (cpu_node core ''/cpu_capacity'') of None \<Rightarrow> None | Some content \<Rightarrow> map_option fst (scan_u content))"

lemma cpu_util_get_core_capacity_eq:
  "cpu_util_get_core_capacity fs core c =
     (case core_capacity fs core of None \<Rightarrow> (FAILED, c) | Some v \<Rightarrow> (SUCCESS, v))"
  by (auto simp: cpu_util_get_core_capacity_def core_capacity_def split: option.splits)

lemma capacity_loop_sum:
  "\<forall>k<n. core_capacity fs (core + k) \<noteq> None \<Longrightarrow>
     capacity_loop fs core n cap tot SUCCESS =
       (SUCCESS, tot + (\<Sum>k<n. the (core_capacity fs (core + k))))"
proof (induction n arbitrary: core cap tot)
  case (Suc n)
  obtain v where v: "core_capacity fs core = Some v" using Suc.prems by (metis add_0_right not_None_eq zero_less_Suc)
  have "\<forall>k<n. core_capacity fs (Suc core + k) \<noteq> None"
    using Suc.prems by (metis Suc_mono add_Suc_shift)
  then have "capacity_loop fs (Suc core) n v (tot + v) SUCCESS =
      (SUCCESS, tot + v + (\<Sum>k<n. the (core_capacity fs (Suc core + k))))" by (rule Suc.IH)
  then show ?case
    using v by (simp add: cpu_util_get_core_capacity_eq sum.lessThan_Suc_shift add.assoc del: sum.lessThan_Suc)
qed simp

lemma capacity_loop_fails:
  "k < n \<Longrightarrow> core_capacity fs (core + k) = None \<Longrightarrow> fst (capacity_loop fs core n cap tot SUCCESS) \<noteq> SUCCESS"
proof (induction n arbitrary: core cap tot k)
  case (Suc n)
  show ?case
  proof (cases "core_capacity fs core")
    case None
    then show ?thesis by (simp add: cpu_util_get_core_capacity_eq)
  next
    case (Some v)
    then obtain j where "k = Suc j" using Suc.prems by (cases k) auto
    then show ?thesis using Suc.IH [of j "Suc core"] Suc.prems Some by (simp add: cpu_util_get_core_capacity_eq)
  qed
qed simp

lemma read_capacities_result:
  "core + n \<le> length caps \<Longrightarrow> \<forall>k<n. core_capacity fs (core + k) \<noteq> None \<Longrightarrow>
     \<exists>caps'. read_capacities fs core n caps = Ret caps' \<and> length caps' = length caps \<and>
       (\<forall>k<length caps. caps' ! k = (if core \<le> k \<and> k < core + n then the (core_capacity fs k) else caps ! k))"
proof (induction n arbitrary: core caps)
  case (Suc n)
  obtain v where v: "core_capacity fs core = Some v" using Suc.prems(2) by (metis add_0_right not_None_eq zero_less_Suc)
  have p: "\<forall>k<n. core_capacity fs (Suc core + k) \<noteq> None"
    using Suc.prems(2) by (metis Suc_mono add_Suc_shift)
  have "Suc core + n \<le> length (caps[core := v])" using Suc.prems(1) by simp
  from Suc.IH [OF this p] obtain caps' where c: "read_capacities fs (Suc core) n (caps[core := v]) = Ret caps'"
    "length caps' = length caps"
    "\<forall>k<length caps. caps' ! k = (if Suc core \<le> k \<and> k < Suc core + n then the (core_capacity fs k) else caps[core := v] ! k)"
    by auto
  have "read_capacities fs core (Suc n) caps = Ret caps'"
    using Suc.prems(1) v c(1) by (simp add: cpu_util_get_core_capacity_eq)
  moreover have "\<forall>k<length caps. caps' ! k = (if core \<le> k \<and> k < core + Suc n then the (core_capacity fs k) else caps ! k)"
    using c(3) v by (auto simp: nth_list_update_if)
  ultimately show ?case using c(2) by blast
qed auto

lemma read_capacities_Ret:
  "core + n \<le> length caps \<Longrightarrow> \<exists>caps'. read_capacities fs core n caps = Ret caps' \<and> length caps' = length caps"
proof (induction n arbitrary: core caps)
  case (Suc n)
  let ?caps = "caps[core := snd (cpu_util_get_core_capacity fs core (caps ! core))]"
  have "\<exists>caps'. read_capacities fs (Suc core) n ?caps = Ret caps' \<and> length caps' = length ?caps"
    by (rule Suc.IH) (use Suc.prems in simp)
  then show ?case using Suc.prems by simp
qed simp

end
