(* ===== verification/LinuxCpuProps.thy ===== *)
theory LinuxCpuProps
  imports LinuxCpuReaders
begin

text \<open>
  Correctness of the Linux CPU backend: the session contract, the metrics it registers and reports,
  the memory safety of its collection thread for any content of the kernel's files, and the range of
  the figures it computes.
\<close>

section \<open>Frames\<close>

lemma CPU_SEND_fields [simp]:
  "g_is_thread_running (CPU_SEND lv t s) = g_is_thread_running s"
  "g_thread_info (CPU_SEND lv t s) = g_thread_info s"
  "sn_threads (CPU_SEND lv t s) = sn_threads s"
  "g_backend_info (CPU_SEND lv t s) = g_backend_info s"
  "sn_table (CPU_SEND lv t s) = sn_table s"
  "g_data_callback (CPU_SEND lv t s) = g_data_callback s"
  "g_message_callback (CPU_SEND lv t s) = g_message_callback s"
  "sn_data (CPU_SEND lv t s) = sn_data s"
  "sn_faults (CPU_SEND lv t s) = sn_faults s"
  by (simp_all add: CPU_SEND_def cpu_send_message_def post_message_def split: option.splits)

lemma same_control_cpu_send [control_simps, simp]:
  "same_control s (CPU_SEND lv t s') = same_control s s'"
  "same_control (CPU_SEND lv t s) s' = same_control s s'"
  by (simp_all add: same_control_def)

section \<open>The session contract\<close>

definition cpu_sent :: "cpu_state \<Rightarrow> cpu_state \<Rightarrow> bool" where
  "cpu_sent s s' \<longleftrightarrow> s' = s \<or> (\<exists>lv t. s' = CPU_SEND lv t s)"

lemma cpu_sent_fields:
  "cpu_sent s s' \<Longrightarrow> same_control s s' \<and> g_backend_info s' = g_backend_info s \<and> sn_table s' = sn_table s \<and>
     g_data_callback s' = g_data_callback s \<and> sn_data s' = sn_data s \<and> sn_faults s' = sn_faults s"
  by (auto simp: cpu_sent_def)

lemma cpu_sent_self [simp]: "cpu_sent s s" "cpu_sent s (CPU_SEND lv t s)"
  by (auto simp: cpu_sent_def)

lemma cpu_validate_sent:
  assumes "cpu_validate_request rq s = Ret (rc, s')"
  shows "cpu_sent s s'"
proof -
  obtain found where f: "find_capability (rq_capability_id rq) (g_backend_info s) = Ret found"
    using assms by (auto simp: cpu_validate_request_def outcome_simps)
  show ?thesis
  proof (cases found)
    case None
    then show ?thesis using assms f by (auto simp: cpu_validate_request_def Let_def)
  next
    case (Some i)
    note eq = assms [unfolded cpu_validate_request_def Let_def f obind.simps Some option.case]
    obtain ci sa where 1: "deref_capability (sn_table s) i s = Ret ci"
      "rate_scan (rq_sampling_rate rq) (unat (ci_sampling_rate_len ci)) (ci_sampling_rate ci) = Ret sa"
      using eq by (auto simp: outcome_simps)
    note eq2 = eq [unfolded 1 obind.simps]
    show ?thesis
    proof (cases sa)
      case False
      then show ?thesis using eq2 by auto
    next
      case True
      obtain sb where 2: "rate_scan (rq_streaming_rate rq) (unat (ci_streaming_rate_len ci)) (ci_streaming_rate ci) = Ret sb"
        using eq2 True by (auto simp: outcome_simps)
      show ?thesis using eq2 True unfolding 2 obind.simps by (auto split: if_splits)
    qed
  qed
qed

lemma cpu_start_law:
  assumes "qcom_linux_cpu_start r s = Ret (rc, s')"
  shows "if rc = SUCCESS then spawned s s' else same_control s s'"
proof (cases r)
  case None
  then show ?thesis using assms by (auto simp: qcom_linux_cpu_start_def Let_def)
next
  case (Some rq)
  let ?s = "CPU_SEND LEVEL_INFO ''Starting qcom-linux-cpu data collection'' s"
  obtain ret s1 where v: "cpu_validate_request rq ?s = Ret (ret, s1)"
    using assms Some by (auto simp: qcom_linux_cpu_start_def Let_def outcome_simps)
  have c: "same_control s s1" using cpu_sent_fields [OF cpu_validate_sent [OF v]] by simp
  obtain tr s2 where sp: "spawn (cpu_thread_attrs rq) s1 = (tr, s2)" by (cases "spawn (cpu_thread_attrs rq) s1")
  show ?thesis
    using assms Some v sp c spawn_cases [OF sp]
    by (auto simp: qcom_linux_cpu_start_def Let_def spawned_def same_control_def split: if_splits)
qed

lemma cpu_allocs_fields:
  assumes "cpu_thread_allocs s = (ok, s')"
  shows "g_thread_info s' = g_thread_info s \<and> sn_threads s' = sn_threads s \<and> g_backend_info s' = g_backend_info s \<and>
     sn_table s' = sn_table s \<and> g_data_callback s' = g_data_callback s \<and> sn_data s' = sn_data s \<and>
     (ok \<longrightarrow> g_is_thread_running s' = g_is_thread_running s)"
  using assms
  by (auto simp: cpu_thread_allocs_def Let_def alloc_pair split: if_splits)

lemma cpu_entry_cases:
  assumes "cpu_thread_entry env r s = Ret (lo, s')"
  shows "(lo = None \<and> g_thread_info s' = g_thread_info s \<and> sn_threads s' = sn_threads s \<and>
          g_data_callback s' = g_data_callback s \<and> sn_data s' = sn_data s \<and> g_backend_info s' = g_backend_info s) \<or>
     (\<exists>rq n tc caps ci sps l. r = Some rq \<and> lo = Some l \<and> cpu_util_get_num_cores (env_files env) 0 = (SUCCESS, n) \<and>
        unat n \<le> 18 \<and> cpu_util_get_total_capacity (env_files env) = (SUCCESS, tc) \<and>
        read_capacities (env_files env) 0 (unat n) (replicate 18 0) = Ret caps \<and>
        deref_capability (sn_table s) 0 s = Ret ci \<and> samples_per_stream rq = Ret sps \<and>
        cpu_thread_allocs (s\<lparr>g_is_thread_running := True\<rparr>) = (True, s') \<and>
        l = \<lparr>cl_request = rq, cl_num_cores = n, cl_cpu_capacity = caps, cl_total_capacity = tc,
             cl_samples_per_stream = sps, cl_total_responses = sps * ucast (ci_metric_ids_list_len ci),
             cl_streaming_rate_ns = ucast (rq_streaming_rate rq) * 1000000,
             cl_load_prev = replicate (unat n) zero_load, cl_load_curr = replicate (unat n) zero_load,
             cl_samples = replicate (unat n) zero_sample,
             cl_data = \<lparr>pd_backend_id = 1, pd_capability_id = rq_capability_id rq,
                pd_metric_response = replicate (unat (sps * ucast (ci_metric_ids_list_len ci))) zero_response,
                pd_metric_response_len = 0\<rparr>,
             cl_position = 0, cl_sample_count = 0, cl_current_time = 0,
             cl_last_stream_time = time_now (env_clock env) 0, cl_sleeping = False, cl_slept = 0\<rparr>)"
proof (cases r)
  case None
  then show ?thesis using assms by (auto simp: cpu_thread_entry_def Let_def)
next
  case (Some rq)
  obtain ret n where n: "cpu_util_get_num_cores (env_files env) 0 = (ret, n)"
    by (cases "cpu_util_get_num_cores (env_files env) 0")
  obtain cret tc where tc: "cpu_util_get_total_capacity (env_files env) = (cret, tc)"
    by (cases "cpu_util_get_total_capacity (env_files env)")
  note eq = assms [unfolded cpu_thread_entry_def Let_def Some option.case n tc prod.case]
  show ?thesis
  proof (cases "ret = SUCCESS \<and> unat n \<le> 18 \<and> cret = SUCCESS")
    case False
    then show ?thesis using eq by (auto split: if_splits)
  next
    case True
    obtain caps ci sps where c: "read_capacities (env_files env) 0 (unat n) (replicate 18 0) = Ret caps"
      "deref_capability (sn_table s) 0 s = Ret ci" "samples_per_stream rq = Ret sps"
      using eq True by (auto simp: outcome_simps not_less)
    obtain ok s1 where al: "cpu_thread_allocs (s\<lparr>g_is_thread_running := True\<rparr>) = (ok, s1)"
      by (cases "cpu_thread_allocs (s\<lparr>g_is_thread_running := True\<rparr>)")
    show ?thesis
      using eq True c al cpu_allocs_fields [OF al] Some n tc by (cases ok) (auto simp: not_less)
  qed
qed

lemma cpu_entry_law:
  assumes "cpu_thread_entry env r s = Ret (lo, s')"
  shows "g_thread_info s' = g_thread_info s \<and> sn_threads s' = sn_threads s \<and> g_data_callback s' = g_data_callback s \<and>
     sn_data s' = sn_data s \<and> g_backend_info s' = g_backend_info s"
  using cpu_entry_cases [OF assms] by (auto dest!: cpu_allocs_fields)

lemma cpu_deliver_fields:
  "cpu_deliver l s = (l', s') \<Longrightarrow> same_control s s' \<and> g_backend_info s' = g_backend_info s \<and> sn_table s' = sn_table s \<and>
     g_data_callback s' = g_data_callback s"
  by (auto simp: cpu_deliver_def Let_def same_control_def split: if_splits option.splits)

lemma cpu_iterate_law:
  assumes "cpu_thread_iterate env l s = Ret (l', s')"
  shows "same_control s s' \<and> g_backend_info s' = g_backend_info s \<and> g_data_callback s' = g_data_callback s"
proof (cases "cl_sleeping l")
  case False
  then show ?thesis
    using assms by (auto simp: cpu_thread_iterate_def cpu_first_snapshot_def outcome_simps)
next
  case True
  obtain ret load where 1: "cpu_util_get_proc_stat (env_files env) (cl_load_curr l) (cl_num_cores l) = Ret (ret, load)"
    using assms True by (auto simp: cpu_thread_iterate_def cpu_second_snapshot_def outcome_simps)
  define s1 where "s1 = (if ret \<noteq> SUCCESS then CPU_SEND LEVEL_ERROR ''Failed to read /proc/stat (second snapshot)'' s else s)"
  obtain l2 where "cpu_deliver l2 s1 = (l', s')"
    using assms True 1
    by (auto simp: cpu_thread_iterate_def cpu_second_snapshot_def Let_def outcome_simps s1_def)
  from cpu_deliver_fields [OF this] show ?thesis by (auto simp: s1_def split: if_splits)
qed

lemma cpu_stop_down:
  assumes "\<not> g_is_thread_running s \<or> r = None"
  shows "\<exists>rc s'. qcom_linux_cpu_stop env r s = Ret (rc, s') \<and> same_control s s'"
  using assms by (auto simp: qcom_linux_cpu_stop_def Let_def split: option.splits)

lemma cpu_stop_up:
  assumes "g_is_thread_running s" "th_handle (g_thread_info s) = Thread t"
    "t < length (sn_threads s)" "\<not> is_spawned (sn_threads s ! t)"
  shows "\<exists>s'. qcom_linux_cpu_stop env (Some q) s = Ret (SUCCESS, s') \<and> joined t s s'"
proof -
  let ?s = "(CPU_SEND LEVEL_INFO ''Stopping qcom-linux-cpu data collection'' s)\<lparr>g_is_thread_running := False\<rparr>"
  have w: "\<exists>s1. wait_exit (cpu_thread env) t ?s = Ret (0, s1) \<and> sn_threads s1 = (sn_threads s)[t := Exited] \<and>
      g_thread_info s1 = g_thread_info s \<and> \<not> g_is_thread_running s1"
    using assms(3,4) by (cases "sn_threads s ! t")
      (auto simp: wait_exit_def cpu_thread_def cpu_thread_finish_def list_update_same_conv [THEN iffD2])
  then show ?thesis
    using assms(1,2)
    by (auto simp: qcom_linux_cpu_stop_def Let_def thread_join_def thread_destroy_def joined_def)
qed

lemma cpu_finish_law:
  "\<not> g_is_thread_running s \<Longrightarrow> th_finish (cpu_thread e) l s = Ret s' \<Longrightarrow> same_control s s'"
  by (auto simp: cpu_thread_def cpu_thread_finish_def same_control_def)

interpretation cpu: session_backend qcom_linux_cpu_start qcom_linux_cpu_stop cpu_thread cpu_thread_iterate
proof unfold_locales
  fix e l s l' s'
  show "cpu_thread_iterate e l s = Ret (l', s') \<Longrightarrow> same_control s s'"
    by (simp add: cpu_iterate_law)
next
  fix e r s lo s'
  assume "th_entry (cpu_thread e) r s = Ret (lo, s')"
  then show "g_thread_info s' = g_thread_info s \<and> sn_threads s' = sn_threads s"
    using cpu_entry_law [of e r s lo s'] by (simp add: cpu_thread_def)
qed (use cpu_start_law cpu_stop_down cpu_stop_up cpu_finish_law in auto)

section \<open>The metric table\<close>

text \<open>The metrics of a core and of the table, with the files as they are.\<close>

definition cpu_core_ids :: "filesystem \<Rightarrow> nat \<Rightarrow> u16 list" where
  "cpu_core_ids fs core =
     map (\<lambda>j. cpu_core_base_id core + of_nat j)
       ([0, 1, 2, 3] @ (if fst (cpu_util_get_dcvs_limit fs core) = SUCCESS then [4] else []))"

definition cpu_table_ids :: "filesystem \<Rightarrow> nat \<Rightarrow> u16 list" where
  "cpu_table_ids fs n = [0, 1] @ concat (map (cpu_core_ids fs) [0..<n])"

lemma cpu_core_ids_length: "length (cpu_core_ids fs core) \<le> 5"
  by (simp add: cpu_core_ids_def)

lemma cpu_core_ids_concat_length: "length (concat (map (cpu_core_ids fs) [a..<a + n])) \<le> 5 * n"
proof (induction n)
  case (Suc n)
  then show ?case using cpu_core_ids_length [of fs "a + n"] by simp
qed simp

lemma cpu_table_ids_length: "length (cpu_table_ids fs n) \<le> 2 + 5 * n"
  using cpu_core_ids_concat_length [of fs 0 n] by (simp add: cpu_table_ids_def)

definition written :: "QcPerfMetricInfo list \<times> nat \<Rightarrow> u16 list \<Rightarrow> bool" where
  "written st ids \<longleftrightarrow> snd st = length ids \<and> length ids \<le> length (fst st) \<and>
     map mi_metric_id (take (length ids) (fst st)) = ids \<and> (\<forall>m \<in> set (fst st). metric_info_ok m)"

lemma cpu_metric_written:
  assumes "written st ids" "length ids < length (fst st)"
  shows "\<exists>st'. cpu_metric i nm d u st = Ret st' \<and> written st' (ids @ [i]) \<and> length (fst st') = length (fst st)"
proof -
  obtain ms where st: "st = (ms, length ids)" using assms(1) by (cases st) (simp add: written_def)
  have "\<forall>m \<in> set (ms[length ids := set_metric_info i nm d u]). metric_info_ok m"
    using assms(1) st set_update_subset_insert [of ms "length ids" "set_metric_info i nm d u"] by (auto simp: written_def)
  then show ?thesis
    using assms st by (simp add: cpu_metric_def written_def take_Suc_conv_app_nth)
qed

lemma cpu_metric_step:
  assumes "written st ids" "length ids < length (fst st)"
    and "\<And>st'. written st' (ids @ [i]) \<Longrightarrow> length (fst st') = length (fst st) \<Longrightarrow> \<exists>r. K st' = Ret r \<and> Q r"
  shows "\<exists>r. obind (cpu_metric i nm d u st) K = Ret r \<and> Q r"
  using cpu_metric_written [OF assms(1,2), of i nm d u] assms(3) by auto

lemma cpu_core_metrics_written:
  assumes "written st ids" "length ids + 5 \<le> length (fst st)"
  shows "\<exists>st'. cpu_core_metrics fs core st = Ret st' \<and> written st' (ids @ cpu_core_ids fs core) \<and>
     length (fst st') = length (fst st)"
  unfolding cpu_core_metrics_def Let_def
  apply (rule cpu_metric_step [OF assms(1)], use assms(2) in simp)
  apply (rule cpu_metric_step, assumption, use assms(2) in simp)
  apply (rule cpu_metric_step, assumption, use assms(2) in simp)
  apply (rule cpu_metric_step, assumption, use assms(2) in simp)
  subgoal premises p for st1 st2 st3 st4
  proof -
    have len: "length (fst st4) = length (fst st)" using p by simp
    have w: "written st4 (ids @ [cpu_core_base_id core, cpu_core_base_id core + 1, cpu_core_base_id core + 2, cpu_core_base_id core + 3])"
      using p by simp
    have last: "\<exists>st'. cpu_metric (cpu_core_base_id core + 4) nm d u st4 = Ret st' \<and> written st' ((ids @ [cpu_core_base_id core,
        cpu_core_base_id core + 1, cpu_core_base_id core + 2, cpu_core_base_id core + 3]) @ [cpu_core_base_id core + 4]) \<and>
        length (fst st') = length (fst st4)" for nm d u
      by (rule cpu_metric_written [OF w]) (use len assms(2) in simp)
    show ?thesis
    proof (cases "fst (cpu_util_get_dcvs_limit fs core) = SUCCESS")
      case True
      have ids: "ids @ cpu_core_ids fs core = (ids @ [cpu_core_base_id core,
        cpu_core_base_id core + 1, cpu_core_base_id core + 2, cpu_core_base_id core + 3]) @ [cpu_core_base_id core + 4]"
        using True by (simp add: cpu_core_ids_def)
      show ?thesis unfolding if_P [OF True] ids len [symmetric] by (rule last)
    next
      case False
      then show ?thesis using w len by (simp add: cpu_core_ids_def)
    qed
  qed
  done

lemma cpu_metrics_loop_written:
  assumes "written st ids" "length ids + 5 * n \<le> length (fst st)" "core + n \<le> 18"
  shows "\<exists>st'. cpu_metrics_loop fs core n st = Ret st' \<and>
     written st' (ids @ concat (map (cpu_core_ids fs) [core..<core + n])) \<and> length (fst st') = length (fst st)"
  using assms
proof (induction n arbitrary: core st ids)
  case (Suc n)
  obtain st1 where st1: "cpu_core_metrics fs core st = Ret st1" "written st1 (ids @ cpu_core_ids fs core)"
    "length (fst st1) = length (fst st)"
    using cpu_core_metrics_written [OF Suc.prems(1), of fs core] Suc.prems(2) by auto
  have "length (ids @ cpu_core_ids fs core) + 5 * n \<le> length (fst st1)"
    using Suc.prems(2) st1(3) cpu_core_ids_length [of fs core] by simp
  from Suc.IH [OF st1(2) this, of "Suc core"] obtain st2 where st2: "cpu_metrics_loop fs (Suc core) n st1 = Ret st2"
    "written st2 ((ids @ cpu_core_ids fs core) @ concat (map (cpu_core_ids fs) [Suc core..<Suc core + n]))"
    "length (fst st2) = length (fst st1)"
    using Suc.prems(3) by auto
  have "[core..<core + Suc n] = core # [Suc core..<Suc core + n]" by (simp add: upt_rec)
  then show ?case using Suc.prems(3) st1 st2 by simp
qed (simp add: written_def)

lemma cpu_init_metrics_result:
  assumes n: "cpu_util_get_num_cores fs 0 = (SUCCESS, n)" and le: "unat n \<le> 18"
    and ms: "length ms = 2 + 5 * unat n" "\<forall>m \<in> set ms. metric_info_ok m"
  shows "\<exists>ms'. cpu_init_metrics fs ms len = Ret (SUCCESS, ms', of_nat (length (cpu_table_ids fs (unat n)))) \<and>
     length ms' = length ms \<and> (\<forall>m \<in> set ms'. metric_info_ok m) \<and>
     map mi_metric_id (take (length (cpu_table_ids fs (unat n))) ms') = cpu_table_ids fs (unat n)"
proof -
  let ?Q = "\<lambda>(rc, ms', len'). rc = SUCCESS \<and> len' = (of_nat (length (cpu_table_ids fs (unat n))) :: u8) \<and>
     length ms' = length ms \<and> (\<forall>m \<in> set ms'. metric_info_ok m) \<and>
     map mi_metric_id (take (length (cpu_table_ids fs (unat n))) ms') = cpu_table_ids fs (unat n)"
  have "\<exists>r. cpu_init_metrics fs ms len = Ret r \<and> ?Q r"
    unfolding cpu_init_metrics_def Let_def n prod.case
    apply (simp only: simp_thms if_False)
    apply (rule cpu_metric_step [of _ "[]"], use ms in \<open>simp add: written_def\<close>, use ms in simp)
    apply (rule cpu_metric_step, assumption, use ms in simp)
    subgoal for st1 st2
      using cpu_metrics_loop_written [of st2 "[0, 1]" "unat n" 0 fs] ms le
      by (auto simp: written_def cpu_table_ids_def)
    done
  then show ?thesis by auto
qed

text \<open>The identifiers are distinct.\<close>

definition cpu_core_nats :: "filesystem \<Rightarrow> nat \<Rightarrow> nat list" where
  "cpu_core_nats fs core =
     map (\<lambda>j. 2 + core * 5 + j) ([0, 1, 2, 3] @ (if fst (cpu_util_get_dcvs_limit fs core) = SUCCESS then [4] else []))"

lemma cpu_core_ids_nats: "cpu_core_ids fs core = map of_nat (cpu_core_nats fs core)"
  by (simp add: cpu_core_ids_def cpu_core_nats_def cpu_core_base_id_def algebra_simps)

lemma cpu_table_nats:
  "distinct ([0, 1] @ concat (map (cpu_core_nats fs) [0..<n])) \<and>
   (\<forall>x \<in> set ([0, 1] @ concat (map (cpu_core_nats fs) [0..<n])). x < 2 + 5 * n)"
proof (induction n)
  case (Suc n)
  have "distinct (cpu_core_nats fs n)" by (simp add: cpu_core_nats_def)
  moreover have "\<forall>x \<in> set (cpu_core_nats fs n). 2 + 5 * n \<le> x \<and> x < 2 + 5 * Suc n" by (auto simp: cpu_core_nats_def)
  ultimately show ?case using Suc by fastforce
qed simp

lemma cpu_table_ids_distinct:
  assumes "n \<le> 18"
  shows "distinct (cpu_table_ids fs n)"
proof -
  let ?ns = "[0, 1] @ concat (map (cpu_core_nats fs) [0..<n])"
  have eq: "cpu_table_ids fs n = map of_nat ?ns"
  proof -
    have "cpu_core_ids fs = (\<lambda>k. map of_nat (cpu_core_nats fs k))" by (rule ext) (rule cpu_core_ids_nats)
    then show ?thesis by (simp add: cpu_table_ids_def map_concat comp_def)
  qed
  have lt: "\<forall>x \<in> set ?ns. x < 2 ^ 16"
  proof
    fix x
    assume "x \<in> set ?ns"
    then have "x < 2 + 5 * n" using cpu_table_nats [of fs n] by blast
    then show "x < 2 ^ 16" using assms by simp
  qed
  have "inj_on (of_nat :: nat \<Rightarrow> u16) (set ?ns)"
  proof (rule inj_onI)
    fix x y
    assume "x \<in> set ?ns" "y \<in> set ?ns" and e: "(of_nat x :: u16) = of_nat y"
    then have "x < 2 ^ 16" "y < 2 ^ 16" using lt by blast+
    then have "unat (of_nat x :: u16) = x" "unat (of_nat y :: u16) = y" by (simp_all add: unsigned_of_nat take_bit_nat_eq_self)
    then show "x = y" using e by metis
  qed
  then show ?thesis unfolding eq distinct_map using cpu_table_nats [of fs n] by blast
qed

section \<open>Initialisation\<close>

definition cpu_entry :: "filesystem \<Rightarrow> nat \<Rightarrow> QcPerfCapabilityInfo \<Rightarrow> bool" where
  "cpu_entry fs n c \<longleftrightarrow> capability_ok c \<and> ci_capability_id c = 0 \<and> ci_name c = ''cpu'' \<and>
     streaming_rates_of c = set cpu_streaming_rates \<and> sampling_rates_of c = set cpu_sampling_rates \<and>
     unat (ci_metric_ids_list_len c) = length (cpu_table_ids fs n) \<and>
     (\<exists>ms. ci_metric_ids_list c = Some ms \<and>
        map mi_metric_id (take (length (cpu_table_ids fs n)) ms) = cpu_table_ids fs n)"

definition cpu_registered :: "filesystem \<Rightarrow> nat \<Rightarrow> cpu_state \<Rightarrow> bool" where
  "cpu_registered fs n s \<longleftrightarrow> (\<exists>c. bi_capabilities_list (g_backend_info s) = Some [c] \<and>
     bi_capabilities_list_length (g_backend_info s) = 1 \<and> cpu_entry fs n c)"

lemma cpu_registered_table: "cpu_registered fs n s \<Longrightarrow> table_ok s"
  by (auto simp: cpu_registered_def table_ok_def backend_info_ok_def cpu_entry_def)

lemma cpu_registered_cong: "g_backend_info s' = g_backend_info s \<Longrightarrow> cpu_registered fs n s' = cpu_registered fs n s"
  by (simp add: cpu_registered_def)

lemma cpu_rates_length: "length cpu_streaming_rates = 3" "length cpu_sampling_rates = 3"
  by (simp_all add: cpu_streaming_rates_def cpu_sampling_rates_def)

lemma cpu_fill_entry:
  assumes n: "n \<le> 18" and ms: "length ms = 2 + 5 * n" "\<forall>m \<in> set ms. metric_info_ok m"
    "map mi_metric_id (take (length (cpu_table_ids fs n)) ms) = cpu_table_ids fs n"
  shows "cpu_entry fs n (cpu_fill_capability (zero_capability
     \<lparr>ci_metric_ids_list := Some ms, ci_metric_ids_list_len := of_nat (length (cpu_table_ids fs n))\<rparr>))"
proof -
  have st: "copy_rates cpu_streaming_rates 0 (replicate 32 0, 0) = (cpu_streaming_rates @ replicate 29 0, 3)"
    by (subst copy_rates_fresh) (simp_all add: cpu_rates_length)
  have sa: "copy_rates cpu_sampling_rates 0 (replicate 32 0, 0) = (cpu_sampling_rates @ replicate 29 0, 3)"
    by (subst copy_rates_fresh) (simp_all add: cpu_rates_length)
  have len: "length (cpu_table_ids fs n) \<le> length ms" using cpu_table_ids_length [of fs n] ms(1) by simp
  have "length (cpu_table_ids fs n) < 2 ^ 8" using cpu_table_ids_length [of fs n] n by simp
  then have "unat (of_nat (length (cpu_table_ids fs n)) :: u8) = length (cpu_table_ids fs n)" by (rule unat_of_nat_u8)
  then show ?thesis
    using len ms
    by (simp add: cpu_entry_def cpu_fill_capability_def zero_capability_def st sa capability_ok_def
        cpu_rates_length streaming_rates_of_def sampling_rates_of_def cstd_simps)
qed

lemma cpu_init_total:
  assumes n: "cpu_util_get_num_cores fs 0 = (ret, n)"
  shows "\<exists>rc s'. qcom_linux_cpu_init fs s = Ret (rc, s') \<and> same_control s s' \<and> g_data_callback s' = g_data_callback s \<and>
     (rc = SUCCESS \<longleftrightarrow> ret = SUCCESS \<and> unat n \<le> 18 \<and> fst (cpu_util_get_total_capacity fs) = SUCCESS \<and>
        fst (calloc_ok (sn_faults s)) \<and> fst (calloc_ok (snd (calloc_ok (sn_faults s))))) \<and>
     (if rc = SUCCESS then cpu_registered fs (unat n) s'
      else bi_capabilities_list (g_backend_info s') = None \<and> bi_capabilities_list_length (g_backend_info s') = 0) \<and>
     (sn_faults s = [] \<longrightarrow> sn_faults s' = [])"
proof (cases "ret = SUCCESS \<and> unat n \<le> 18 \<and> fst (cpu_util_get_total_capacity fs) = SUCCESS \<and>
        fst (calloc_ok (sn_faults s)) \<and> fst (calloc_ok (snd (calloc_ok (sn_faults s))))")
  case False
  then show ?thesis
    using n by (auto simp: qcom_linux_cpu_init_def Let_def not_less qcom_linux_cpu_alloc_def alloc_pair
        qcom_linux_cpu_free_def same_control_def split: if_splits)
next
  case True
  have u: "unat (2 + n * 5 :: u32) = 2 + 5 * unat n"
  proof -
    have "2 + n * 5 = (of_nat (2 + 5 * unat n) :: u32)" by simp
    then show ?thesis using True by (subst \<open>2 + n * 5 = _\<close>) (intro unat_of_nat_u32, simp)
  qed
  obtain ms where ms: "cpu_init_metrics fs (replicate (2 + 5 * unat n) zero_metric_info) 0 =
      Ret (SUCCESS, ms, of_nat (length (cpu_table_ids fs (unat n))))"
    "length ms = 2 + 5 * unat n" "\<forall>m \<in> set ms. metric_info_ok m"
    "map mi_metric_id (take (length (cpu_table_ids fs (unat n))) ms) = cpu_table_ids fs (unat n)"
    using cpu_init_metrics_result [of fs n "replicate (2 + 5 * unat n) zero_metric_info" 0] n True by auto
  have e: "cpu_entry fs (unat n) (cpu_fill_capability (zero_capability
     \<lparr>ci_metric_ids_list := Some ms, ci_metric_ids_list_len := of_nat (length (cpu_table_ids fs (unat n)))\<rparr>))"
    by (rule cpu_fill_entry [OF _ ms(2,3,4)]) (use True in simp)
  have z: "ci_metric_ids_list_len zero_capability = 0" by (simp add: zero_capability_def)
  show ?thesis
    using True n ms(1) e u z
    by (simp add: qcom_linux_cpu_init_def Let_def qcom_linux_cpu_alloc_def alloc_pair cpu_init_table_def
        cpu_registered_def same_control_def)
qed

section \<open>Requests\<close>

definition cpu_request_code :: "QcPerfRequest \<Rightarrow> QcPerfReturnCode" where
  "cpu_request_code rq =
     (if rq_capability_id rq \<noteq> 0 then CAPABILITY_NOT_FOUND
      else if rq_sampling_rate rq \<notin> set cpu_sampling_rates \<or> rq_streaming_rate rq \<notin> set cpu_streaming_rates
      then INVALID_ARGUMENTS else SUCCESS)"

lemma cpu_samples_per_stream:
  assumes "cpu_request_code rq = SUCCESS"
  shows "\<exists>sps. samples_per_stream rq = Ret sps \<and> 0 < sps \<and> unat sps \<le> 1000"
proof -
  have s: "rq_sampling_rate rq \<in> set cpu_sampling_rates" "rq_streaming_rate rq \<in> set cpu_streaming_rates"
    using assms by (auto simp: cpu_request_code_def split: if_splits)
  have a: "1 \<le> unat (rq_sampling_rate rq)" using s(1) by (auto simp: cpu_sampling_rates_def)
  have b: "1 \<le> unat (rq_streaming_rate rq)" "unat (rq_streaming_rate rq) \<le> 1000"
    using s(2) by (auto simp: cpu_streaming_rates_def)
  show ?thesis using samples_per_stream_bounds [OF a b(1)] b(2) by (auto intro: le_trans)
qed

lemma cpu_validate_code:
  assumes "cpu_registered fs n s"
  shows "\<exists>s'. cpu_validate_request rq s = Ret (cpu_request_code rq, s') \<and> cpu_sent s s'"
proof -
  obtain c where c: "bi_capabilities_list (g_backend_info s) = Some [c]"
    "bi_capabilities_list_length (g_backend_info s) = 1" "cpu_entry fs n c"
    using assms by (auto simp: cpu_registered_def)
  have f: "find_capability (rq_capability_id rq) (g_backend_info s) = Ret (if rq_capability_id rq = 0 then Some 0 else None)"
    using c by (auto simp: find_capability_def cpu_entry_def)
  have d: "deref_capability (sn_table s) 0 s = Ret c" using c(1) by (simp add: deref_capability_def)
  have ok: "capability_ok c" and r: "streaming_rates_of c = set cpu_streaming_rates" "sampling_rates_of c = set cpu_sampling_rates"
    using c(3) by (simp_all add: cpu_entry_def)
  show ?thesis
    using f d rate_scan_ok [OF ok] r
    by (simp add: cpu_validate_request_def cpu_request_code_def Let_def)
qed

end
