(* ===== verification/ResponseBuffer.thy ===== *)
theory ResponseBuffer
  imports Session
begin

text \<open>
  What the collection threads deliver, as lists of readings: the view of a response, the array of
  responses as the list of what was stored in it, and, in the locale \<open>batching_loop\<close>, that a loop whose
  rounds buffer their readings and hand batches over reports exactly the readings of its reference.
\<close>

section \<open>What a response says\<close>

datatype reading = Dbl double | U64 u64 | Other

definition reading_of :: "QcPerfGenericType \<Rightarrow> reading" where
  "reading_of v = (case gt_data_type v of
     TYPE_DOUBLE \<Rightarrow> Dbl (gt_double_value v) | TYPE_UINT64 \<Rightarrow> U64 (gt_uint64_value v) | _ \<Rightarrow> Other)"

definition response_reading :: "QcPerfMetricResponse \<Rightarrow> u16 \<times> u64 \<times> reading" where
  "response_reading r = (mr_metric_id r, mr_timestamp r, reading_of (mr_metric_value r))"

definition batch_readings :: "QcPerfData \<Rightarrow> (u16 \<times> u64 \<times> reading) list" where
  "batch_readings d = map response_reading (take (pd_metric_response_len d) (pd_metric_response d))"

section \<open>The buffer\<close>

text \<open>
  The array of \<open>tot\<close> responses holds the first \<open>tot\<close> of the readings stored so far: later ones are
  dropped by the test of the position.
\<close>

definition filled :: "u32 \<Rightarrow> QcPerfMetricResponse list \<times> u32 \<Rightarrow> (u16 \<times> u64 \<times> reading) list \<Rightarrow> bool" where
  "filled tot st xs \<longleftrightarrow> length (fst st) = unat tot \<and> unat (snd st) = min (length xs) (unat tot) \<and>
     map response_reading (take (unat (snd st)) (fst st)) = take (unat tot) xs"

lemma filled_full:
  assumes "unat tot \<le> length xs" "filled tot st xs"
  shows "filled tot st (xs @ ys)"
proof -
  have "min (length (xs @ ys)) (unat tot) = min (length xs) (unat tot)" "take (unat tot) (xs @ ys) = take (unat tot) xs"
    using assms(1) by simp_all
  then show ?thesis using assms(2) unfolding filled_def by metis
qed

lemma filled_room: "filled tot st xs \<Longrightarrow> snd st < tot \<longleftrightarrow> length xs < unat tot"
  by (auto simp: filled_def word_less_nat_alt)

text \<open>Storing one response at the position.\<close>

lemma filled_store:
  assumes f: "filled tot (rs, pos) xs" and lt: "pos < tot" and v: "response_reading r = x"
  shows "unat pos < length rs" and "filled tot (rs[unat pos := r], pos + 1) (xs @ [x])"
proof -
  have l: "length rs = unat tot" "unat pos = min (length xs) (unat tot)"
    "map response_reading (take (unat pos) rs) = take (unat tot) xs"
    using f [unfolded filled_def fst_conv snd_conv] by blast+
  have u: "unat pos < unat tot" using lt by (simp add: word_less_nat_alt)
  then show "unat pos < length rs" using l(1) by simp
  have xs: "length xs = unat pos" using u l(2) by simp
  have e: "pos + 1 = of_nat (Suc (unat pos))" by simp
  have "Suc (unat pos) < 2 ^ 32" using u unsigned_less [where 'a = nat, of tot] by simp
  then have "unat (pos + 1) = Suc (unat pos)" unfolding e by (rule unat_of_nat_u32)
  then show "filled tot (rs[unat pos := r], pos + 1) (xs @ [x])"
    using u l(1,3) xs v by (simp add: filled_def take_Suc_conv_app_nth)
qed

lemma filled_fresh: "length rs = unat tot \<Longrightarrow> filled tot (rs, 0) []"
  by (simp add: filled_def)

section \<open>Loops that deliver batches\<close>

text \<open>
  Rounds of a loop, and the readings a reference assigns to them: \<open>out e a\<close> are the readings of a round
  in the environment \<open>e\<close> from the abstract state \<open>a\<close>, and the next abstract state.
\<close>

fun run_rounds :: "('e \<Rightarrow> 'l \<Rightarrow> 's \<Rightarrow> ('l \<times> 's) outcome) \<Rightarrow> 'e list \<Rightarrow> 'l \<Rightarrow> 's \<Rightarrow> ('l \<times> 's) outcome" where
  "run_rounds step [] l s = Ret (l, s)"
| "run_rounds step (e # es) l s = obind (step e l s) (\<lambda>(l', s'). run_rounds step es l' s')"

fun reference_readings :: "('e \<Rightarrow> 'a \<Rightarrow> 'r list \<times> 'a) \<Rightarrow> 'e list \<Rightarrow> 'a \<Rightarrow> 'r list" where
  "reference_readings out [] a = []"
| "reference_readings out (e # es) a = fst (out e a) @ reference_readings out es (snd (out e a))"

text \<open>
  A loop whose invariant holds for as many rounds as its first argument says; \<open>batching_loop\<close> is the case of an
  invariant that lasts.
\<close>

locale counted_loop =
  fixes step :: "'e \<Rightarrow> 'l \<Rightarrow> 's \<Rightarrow> ('l \<times> 's) outcome"
    and inv :: "nat \<Rightarrow> 'l \<Rightarrow> 's \<Rightarrow> 'r list \<Rightarrow> bool"
    and fits :: "'e \<Rightarrow> 'l \<Rightarrow> 's \<Rightarrow> bool"
    and out :: "'l \<Rightarrow> 's \<Rightarrow> 'e \<Rightarrow> 'a \<Rightarrow> 'r list \<times> 'a"
    and abs :: "'l \<Rightarrow> 's \<Rightarrow> 'a"
    and sent :: "'s \<Rightarrow> 'd list"
    and batch :: "'d \<Rightarrow> 'r list"
    and good :: "'l \<Rightarrow> 's \<Rightarrow> 'd \<Rightarrow> bool"
  assumes counted_law: "inv (Suc n) l s xs \<Longrightarrow> fits e l s \<Longrightarrow>
            \<exists>l' s' ys bs. step e l s = Ret (l', s') \<and> inv n l' s' ys \<and> sent s' = sent s @ bs \<and>
              concat (map batch bs) @ ys = xs @ fst (out l s e (abs l s)) \<and> abs l' s' = snd (out l s e (abs l s)) \<and>
              out l' s' = out l s \<and> good l' s' = good l s \<and> (\<forall>f. fits f l' s' = fits f l s) \<and> (\<forall>d \<in> set bs. good l s d)"
begin

lemma rounds_law:
  "inv (length es) l s xs \<Longrightarrow> (\<forall>e \<in> set es. fits e l s) \<Longrightarrow>
     \<exists>l' s' ys bs. run_rounds step es l s = Ret (l', s') \<and> inv 0 l' s' ys \<and> sent s' = sent s @ bs \<and>
       concat (map batch bs) @ ys = xs @ reference_readings (out l s) es (abs l s) \<and> (\<forall>d \<in> set bs. good l s d)"
proof (induction es arbitrary: l s xs)
  case Nil
  then show ?case by (intro exI [of _ l] exI [of _ s] exI [of _ xs] exI [of _ "[]"]) simp
next
  case (Cons e es)
  obtain l1 s1 ys bs where 1: "step e l s = Ret (l1, s1)" "inv (length es) l1 s1 ys" "sent s1 = sent s @ bs"
    "concat (map batch bs) @ ys = xs @ fst (out l s e (abs l s))" "abs l1 s1 = snd (out l s e (abs l s))"
    "out l1 s1 = out l s" "good l1 s1 = good l s" "\<forall>f. fits f l1 s1 = fits f l s" "\<forall>d \<in> set bs. good l s d"
    using counted_law [of "length es" l s xs e] Cons.prems by auto
  obtain l2 s2 zs cs where 2: "run_rounds step es l1 s1 = Ret (l2, s2)" "inv 0 l2 s2 zs" "sent s2 = sent s1 @ cs"
    "concat (map batch cs) @ zs = ys @ reference_readings (out l1 s1) es (abs l1 s1)" "\<forall>d \<in> set cs. good l1 s1 d"
    using Cons.IH [OF 1(2)] Cons.prems(2) 1(8) by auto
  have "concat (map batch (bs @ cs)) @ zs = xs @ reference_readings (out l s) (e # es) (abs l s)"
    using 1(4,5,6) 2(4) by simp
  then show ?case
    using 1 2 by (intro exI [of _ l2] exI [of _ s2] exI [of _ zs] exI [of _ "bs @ cs"]) auto
qed

end

locale batching_loop =
  fixes step :: "'e \<Rightarrow> 'l \<Rightarrow> 's \<Rightarrow> ('l \<times> 's) outcome"
    and inv :: "'l \<Rightarrow> 's \<Rightarrow> 'r list \<Rightarrow> bool"
    and fits :: "'e \<Rightarrow> 'l \<Rightarrow> 's \<Rightarrow> bool"
    and out :: "'l \<Rightarrow> 's \<Rightarrow> 'e \<Rightarrow> 'a \<Rightarrow> 'r list \<times> 'a"
    and abs :: "'l \<Rightarrow> 's \<Rightarrow> 'a"
    and sent :: "'s \<Rightarrow> 'd list"
    and batch :: "'d \<Rightarrow> 'r list"
    and good :: "'l \<Rightarrow> 's \<Rightarrow> 'd \<Rightarrow> bool"
  assumes round_law: "inv l s xs \<Longrightarrow> fits e l s \<Longrightarrow>
            \<exists>l' s' ys bs. step e l s = Ret (l', s') \<and> inv l' s' ys \<and> sent s' = sent s @ bs \<and>
              concat (map batch bs) @ ys = xs @ fst (out l s e (abs l s)) \<and> abs l' s' = snd (out l s e (abs l s)) \<and>
              out l' s' = out l s \<and> good l' s' = good l s \<and> (\<forall>f. fits f l' s' = fits f l s) \<and> (\<forall>d \<in> set bs. good l s d)"

sublocale batching_loop \<subseteq> counted_loop step "\<lambda>_. inv" fits out abs sent batch good
  by unfold_locales (rule batching_loop.round_law [OF batching_loop_axioms])

end
