(* ===== verification/LinuxCpuThread.thy ===== *)
theory LinuxCpuThread
  imports LinuxCpuProps ResponseBuffer
begin

text \<open>
  The collection thread of the Linux CPU backend against a reference: what a round of two snapshots
  reports, the buffer as the list of what was stored, and the laws of whole runs (no access outside an
  array for any content of the kernel's files, nothing lost or reordered, figures within their range).
\<close>

lemma reading_put [simp]:
  "reading_of (put_double x v) = Dbl x" "reading_of (put_uint64 w v) = U64 w"
  by (simp_all add: reading_of_def put_double_def put_uint64_def)

section \<open>Storing\<close>

lemma cpu_put_filled:
  assumes f: "filled tot st xs" and g: "\<And>v. reading_of (g v) = x"
  shows "\<exists>st'. cpu_put tot now i g st = Ret st' \<and> filled tot st' (xs @ [(i, now, x)])"
proof -
  obtain rs pos where st: "st = (rs, pos)" by (cases st)
  show ?thesis
  proof (cases "pos < tot")
    case True
    note s = filled_store [OF f [unfolded st] True,
      of "\<lparr>mr_timestamp = now, mr_metric_id = i, mr_metric_value = g (mr_metric_value (rs ! unat pos))\<rparr>" "(i, now, x)"]
    show ?thesis using s True st g by (simp add: cpu_put_def response_reading_def)
  next
    case False
    then have "unat tot \<le> length xs" using filled_room [OF f] st by simp
    from filled_full [OF this f, of "[(i, now, x)]"] show ?thesis using False st by (simp add: cpu_put_def)
  qed
qed

lemma cpu_put_step:
  assumes "filled tot st xs" "\<And>v. reading_of (g v) = x"
    and "\<And>st'. filled tot st' (xs @ [(i, now, x)]) \<Longrightarrow> \<exists>r. K st' = Ret r \<and> Q r"
  shows "\<exists>r. obind (cpu_put tot now i g st) K = Ret r \<and> Q r"
proof -
  obtain st' where "cpu_put tot now i g st = Ret st'" "filled tot st' (xs @ [(i, now, x)])"
    using cpu_put_filled [of tot st xs g x now i] assms(1,2) by blast
  then show ?thesis using assms(3) by simp
qed

section \<open>The reference of a round\<close>

definition core_usage :: "QcomLinuxCpuLoadInfo \<Rightarrow> QcomLinuxCpuLoadInfo \<Rightarrow> double \<times> double \<times> double" where
  "core_usage prev cur =
     (let dt = ld_total_time cur - ld_total_time prev; di = ld_idle cur - ld_idle prev;
          ds = ld_steal_time cur - ld_steal_time prev
      in if dt > 0 then (\<bar>(dt - di) / dt * 100\<bar>, \<bar>ds / dt * 100\<bar>, \<bar>(dt - di - ds) / dt * 100\<bar>) else (0, 0, 0))"

definition utilization_of :: "QcomLinuxCpuLoadInfo list \<Rightarrow> QcomLinuxCpuLoadInfo list \<Rightarrow> nat \<Rightarrow> double" where
  "utilization_of prev cur k = fst (core_usage (prev ! k) (cur ! k))"

definition steal_of :: "QcomLinuxCpuLoadInfo list \<Rightarrow> QcomLinuxCpuLoadInfo list \<Rightarrow> nat \<Rightarrow> double" where
  "steal_of prev cur k = fst (snd (core_usage (prev ! k) (cur ! k)))"

definition eff_utilization_of :: "QcomLinuxCpuLoadInfo list \<Rightarrow> QcomLinuxCpuLoadInfo list \<Rightarrow> nat \<Rightarrow> double" where
  "eff_utilization_of prev cur k = snd (snd (core_usage (prev ! k) (cur ! k)))"

text \<open>The mean of a figure over the cores, weighted with their capacity.\<close>

definition weighted :: "u32 list \<Rightarrow> u32 \<Rightarrow> (nat \<Rightarrow> double) \<Rightarrow> nat \<Rightarrow> double" where
  "weighted caps tc f n =
     (if tc = 0 then 0 else (\<Sum>k<n. f k * (of_nat (unat (caps ! k)) / of_nat (unat tc))))"

lemma weighted_0 [simp]: "weighted caps tc f 0 = 0"
  by (simp add: weighted_def)

definition core_readings ::
  "filesystem \<Rightarrow> u64 \<Rightarrow> QcomLinuxCpuLoadInfo list \<Rightarrow> QcomLinuxCpuLoadInfo list \<Rightarrow> nat \<Rightarrow> (u16 \<times> u64 \<times> reading) list" where
  "core_readings fs now prev cur k =
     (let b = cpu_core_base_id k in
      [(b, now, Dbl (utilization_of prev cur k)), (b + 1, now, Dbl (snd (cpu_util_get_core_frequency fs k))),
       (b + 2, now, Dbl (steal_of prev cur k)), (b + 3, now, Dbl (eff_utilization_of prev cur k))] @
      (case cpu_util_get_dcvs_limit fs k of (rc, limit) \<Rightarrow> if rc = SUCCESS then [(b + 4, now, U64 (ucast limit))] else []))"

definition round_readings ::
  "filesystem \<Rightarrow> u64 \<Rightarrow> u32 list \<Rightarrow> u32 \<Rightarrow> nat \<Rightarrow> QcomLinuxCpuLoadInfo list \<Rightarrow> QcomLinuxCpuLoadInfo list
     \<Rightarrow> (u16 \<times> u64 \<times> reading) list" where
  "round_readings fs now caps tc n prev cur =
     [(0, now, Dbl (weighted caps tc (utilization_of prev cur) n)),
      (1, now, Dbl (weighted caps tc (eff_utilization_of prev cur) n))] @
     concat (map (core_readings fs now prev cur) [0..<n])"

text \<open>The identifiers of a round are the registered ones.\<close>

lemma core_readings_ids: "map fst (core_readings fs now prev cur k) = cpu_core_ids fs k"
  by (simp add: core_readings_def cpu_core_ids_def Let_def split: prod.split)

lemma round_readings_ids: "map fst (round_readings fs now caps tc n prev cur) = cpu_table_ids fs n"
  by (simp add: round_readings_def cpu_table_ids_def map_concat comp_def core_readings_ids)

lemma round_readings_length: "length (round_readings fs now caps tc n prev cur) = length (cpu_table_ids fs n)"
  using arg_cong [OF round_readings_ids, of length] by simp

section \<open>The loops of a round\<close>

definition shows_sample ::
  "filesystem \<Rightarrow> QcomLinuxCpuLoadInfo list \<Rightarrow> QcomLinuxCpuLoadInfo list \<Rightarrow> QcomLinuxCpuSample \<Rightarrow> nat \<Rightarrow> bool" where
  "shows_sample fs prev cur sm k \<longleftrightarrow> sm_utilization sm = utilization_of prev cur k \<and> sm_steal_time sm = steal_of prev cur k \<and>
     sm_eff_utilization sm = eff_utilization_of prev cur k \<and> sm_frequency sm = snd (cpu_util_get_core_frequency fs k)"

lemma core_sample_usage:
  "sm_utilization (core_sample p c sm) = fst (core_usage p c)"
  "sm_steal_time (core_sample p c sm) = fst (snd (core_usage p c))"
  "sm_eff_utilization (core_sample p c sm) = snd (snd (core_usage p c))"
  by (simp_all add: core_sample_def core_usage_def Let_def)

lemma cpu_core_loop_result:
  assumes "core + n \<le> length sms" "core + n \<le> length (cl_load_prev l)" "core + n \<le> length (cl_load_curr l)"
    "core + n \<le> length (cl_cpu_capacity l)"
    and "tu = weighted (cl_cpu_capacity l) (cl_total_capacity l) (utilization_of (cl_load_prev l) (cl_load_curr l)) core"
    and "te = weighted (cl_cpu_capacity l) (cl_total_capacity l) (eff_utilization_of (cl_load_prev l) (cl_load_curr l)) core"
  shows "\<exists>sms'. cpu_core_loop fs l core n sms tu te = Ret (sms',
       weighted (cl_cpu_capacity l) (cl_total_capacity l) (utilization_of (cl_load_prev l) (cl_load_curr l)) (core + n),
       weighted (cl_cpu_capacity l) (cl_total_capacity l) (eff_utilization_of (cl_load_prev l) (cl_load_curr l)) (core + n)) \<and>
     length sms' = length sms \<and> (\<forall>k<core. sms' ! k = sms ! k) \<and>
     (\<forall>k. core \<le> k \<longrightarrow> k < core + n \<longrightarrow> shows_sample fs (cl_load_prev l) (cl_load_curr l) (sms' ! k) k)"
  using assms
proof (induction n arbitrary: core sms tu te)
  case (Suc n)
  let ?p = "cl_load_prev l" let ?c = "cl_load_curr l" let ?caps = "cl_cpu_capacity l" let ?tc = "cl_total_capacity l"
  define sm where "sm = (core_sample (?p ! core) (?c ! core) (sms ! core))\<lparr>sm_frequency := snd (cpu_util_get_core_frequency fs core)\<rparr>"
  have sm: "shows_sample fs ?p ?c sm core"
    by (simp add: shows_sample_def sm_def core_sample_usage utilization_of_def steal_of_def eff_utilization_of_def)
  have w: "weighted ?caps ?tc f (Suc core) =
      (if ?tc \<noteq> 0 then weighted ?caps ?tc f core + f core * (of_nat (unat (?caps ! core)) / of_nat (unat ?tc)) else 0)" for f
    by (simp add: weighted_def)
  have len: "Suc core + n \<le> length (sms[core := sm])" using Suc.prems(1) by simp
  obtain sms' where IH: "cpu_core_loop fs l (Suc core) n (sms[core := sm])
       (weighted ?caps ?tc (utilization_of ?p ?c) (Suc core)) (weighted ?caps ?tc (eff_utilization_of ?p ?c) (Suc core)) =
     Ret (sms', weighted ?caps ?tc (utilization_of ?p ?c) (Suc core + n), weighted ?caps ?tc (eff_utilization_of ?p ?c) (Suc core + n))"
    "length sms' = length (sms[core := sm])" "\<forall>k<Suc core. sms' ! k = sms[core := sm] ! k"
    "\<forall>k. Suc core \<le> k \<longrightarrow> k < Suc core + n \<longrightarrow> shows_sample fs ?p ?c (sms' ! k) k"
    using Suc.IH [OF len _ _ _ refl refl] Suc.prems(2,3,4) by auto
  have "sms' ! core = sm" using IH(3) Suc.prems(1) by simp
  then have all: "\<forall>k. core \<le> k \<longrightarrow> k < core + Suc n \<longrightarrow> shows_sample fs ?p ?c (sms' ! k) k"
    using IH(4) sm by (metis Suc_leI add_Suc_right add_Suc_shift le_neq_implies_less)
  have f: "(if ?tc \<noteq> 0 then let f = of_nat (unat (?caps ! core)) / of_nat (unat ?tc)
              in (tu + sm_utilization sm * f, te + sm_eff_utilization sm * f) else (tu, te)) =
     (weighted ?caps ?tc (utilization_of ?p ?c) (Suc core), weighted ?caps ?tc (eff_utilization_of ?p ?c) (Suc core))"
    using sm Suc.prems(5,6) by (simp add: w shows_sample_def Let_def weighted_def)
  have "cpu_core_loop fs l core (Suc n) sms tu te = cpu_core_loop fs l (Suc core) n (sms[core := sm])
       (weighted ?caps ?tc (utilization_of ?p ?c) (Suc core)) (weighted ?caps ?tc (eff_utilization_of ?p ?c) (Suc core))"
  proof -
    have "cpu_core_loop fs l core (Suc n) sms tu te =
        (case if ?tc \<noteq> 0 then let f = of_nat (unat (?caps ! core)) / of_nat (unat ?tc)
              in (tu + sm_utilization sm * f, te + sm_eff_utilization sm * f) else (tu, te)
         of (tu', te') \<Rightarrow> cpu_core_loop fs l (Suc core) n (sms[core := sm]) tu' te')"
      using Suc.prems(1,2,3,4) by (simp add: sm_def Let_def)
    then show ?thesis unfolding f by simp
  qed
  then show ?case using IH all by simp
qed simp

lemma cpu_fill_cores_filled:
  assumes "filled tot st xs" "core + n \<le> length sms"
    and "\<forall>k. core \<le> k \<longrightarrow> k < core + n \<longrightarrow> shows_sample fs prev cur (sms ! k) k"
  shows "\<exists>sms' st'. cpu_fill_cores fs tot now core n sms st = Ret (sms', st') \<and> length sms' = length sms \<and>
     filled tot st' (xs @ concat (map (core_readings fs now prev cur) [core..<core + n]))"
  using assms
proof (induction n arbitrary: core sms st xs)
  case (Suc n)
  show ?case
  proof (cases "snd st < tot")
    case False
    then have "unat tot \<le> length xs" using filled_room [OF Suc.prems(1)] by simp
    from filled_full [OF this Suc.prems(1)] show ?thesis using False by simp
  next
    case True
    obtain rc limit where dc: "cpu_util_get_dcvs_limit fs core = (rc, limit)" by (cases "cpu_util_get_dcvs_limit fs core")
    let ?b = "cpu_core_base_id core" let ?sm = "sms ! core" let ?sms = "sms[core := ?sm\<lparr>sm_dcvs_limit := limit\<rparr>]"
    have sh: "shows_sample fs prev cur ?sm core" using Suc.prems(3) by simp
    have sh': "\<forall>k. Suc core \<le> k \<longrightarrow> k < Suc core + n \<longrightarrow> shows_sample fs prev cur (?sms ! k) k"
      using Suc.prems(3) by (simp add: nth_list_update_if)
    let ?four = "[(?b, now, Dbl (sm_utilization ?sm)), (?b + 1, now, Dbl (sm_frequency ?sm)),
       (?b + 2, now, Dbl (sm_steal_time ?sm)), (?b + 3, now, Dbl (sm_eff_utilization ?sm))]"
    have cr: "core_readings fs now prev cur core = ?four @ (if rc = SUCCESS then [(?b + 4, now, U64 (ucast limit))] else [])"
      using sh by (simp add: core_readings_def dc shows_sample_def Let_def)
    have up: "[core..<core + Suc n] = core # [Suc core..<Suc core + n]" by (simp add: upt_rec)
    let ?Q = "\<lambda>(sms', st'). length sms' = length sms \<and>
       filled tot st' (xs @ concat (map (core_readings fs now prev cur) [core..<core + Suc n]))"
    have rest: "\<exists>r. cpu_fill_cores fs tot now (Suc core) n ?sms st1 = Ret r \<and> ?Q r"
      if "filled tot st1 (xs @ core_readings fs now prev cur core)" for st1
      using Suc.IH [OF that _ sh'] Suc.prems(2) unfolding up by fastforce
    have last: "\<exists>r. obind (if rc = SUCCESS then cpu_put tot now (?b + 4) (put_uint64 (ucast limit)) st4 else Ret st4)
         (\<lambda>st. cpu_fill_cores fs tot now (Suc core) n ?sms st) = Ret r \<and> ?Q r"
      if f4: "filled tot st4 (xs @ ?four)" for st4
    proof (cases "rc = SUCCESS")
      case rc: True
      show ?thesis unfolding if_P [OF rc]
        by (rule cpu_put_step [OF f4], simp, rule rest) (use rc cr in simp)
    next
      case False
      then show ?thesis using rest [of st4] f4 cr by simp
    qed
    have "\<exists>r. cpu_fill_cores fs tot now core (Suc n) sms st = Ret r \<and> ?Q r"
      using True Suc.prems(2)
      apply (simp add: dc Let_def del: split_paired_Ex)
      apply (rule cpu_put_step [OF Suc.prems(1)], simp)
      apply (rule cpu_put_step, assumption, simp)
      apply (rule cpu_put_step, assumption, simp)
      apply (rule cpu_put_step, assumption, simp)
      subgoal using last by simp
      done
    then show ?thesis by auto
  qed
qed simp

section \<open>Iterations\<close>

text \<open>The arrays have the lengths the indices need, and the buffer holds \<open>xs\<close>.\<close>

definition cpu_inv :: "cpu_local \<Rightarrow> (u16 \<times> u64 \<times> reading) list \<Rightarrow> bool" where
  "cpu_inv l xs \<longleftrightarrow> unat (cl_num_cores l) \<le> 18 \<and> length (cl_cpu_capacity l) = 18 \<and>
     length (cl_load_prev l) = unat (cl_num_cores l) \<and> length (cl_load_curr l) = unat (cl_num_cores l) \<and>
     length (cl_samples l) = unat (cl_num_cores l) \<and>
     filled (cl_total_responses l) (pd_metric_response (cl_data l), cl_position l) xs"

text \<open>What stays as the entry of the thread set it.\<close>

definition same_setup :: "cpu_local \<Rightarrow> cpu_local \<Rightarrow> bool" where
  "same_setup l l' \<longleftrightarrow> cl_num_cores l' = cl_num_cores l \<and> cl_cpu_capacity l' = cl_cpu_capacity l \<and>
     cl_total_capacity l' = cl_total_capacity l \<and> cl_samples_per_stream l' = cl_samples_per_stream l \<and>
     cl_total_responses l' = cl_total_responses l \<and> pd_backend_id (cl_data l') = pd_backend_id (cl_data l) \<and>
     pd_capability_id (cl_data l') = pd_capability_id (cl_data l)"

lemma same_setup_trans: "same_setup l l' \<Longrightarrow> same_setup l' l'' \<Longrightarrow> same_setup l l''"
  by (simp add: same_setup_def)

definition loads_after :: "filesystem \<Rightarrow> u32 \<Rightarrow> QcomLinuxCpuLoadInfo list \<Rightarrow> QcomLinuxCpuLoadInfo list" where
  "loads_after fs n load = (case cpu_util_get_proc_stat fs load n of Ret (_, load') \<Rightarrow> load' | Stuck _ \<Rightarrow> load)"

lemma loads_after_Ret:
  assumes "length load = unat n"
  shows "\<exists>rc. cpu_util_get_proc_stat fs load n = Ret (rc, loads_after fs n load) \<and> length (loads_after fs n load) = unat n"
  using proc_stat_Ret [OF assms, of fs] assms by (auto simp: loads_after_def)

lemma cpu_first_result:
  assumes "cpu_inv l xs"
  shows "\<exists>l' s'. cpu_first_snapshot e l s = Ret (l', s') \<and> cpu_inv l' xs \<and> same_setup l l' \<and> cl_sleeping l' \<and>
     cl_load_prev l' = loads_after (env_files e) (cl_num_cores l) (cl_load_prev l) \<and> cl_load_curr l' = cl_load_curr l \<and>
     cl_current_time l' = cl_current_time l \<and> cl_sample_count l' = cl_sample_count l \<and>
     sn_data s' = sn_data s \<and> g_data_callback s' = g_data_callback s"
  using assms loads_after_Ret [of "cl_load_prev l" "cl_num_cores l" "env_files e"]
  by (auto simp: cpu_first_snapshot_def cpu_inv_def same_setup_def)

lemma cpu_responses_result:
  assumes "cpu_inv l xs"
  shows "\<exists>sms rs pos. cpu_responses fs now l = Ret (sms, rs, pos) \<and> length sms = unat (cl_num_cores l) \<and>
     filled (cl_total_responses l) (rs, pos) (xs @ round_readings fs now (cl_cpu_capacity l) (cl_total_capacity l)
       (unat (cl_num_cores l)) (cl_load_prev l) (cl_load_curr l))"
proof -
  let ?n = "unat (cl_num_cores l)" let ?p = "cl_load_prev l" let ?c = "cl_load_curr l"
  let ?w = "weighted (cl_cpu_capacity l) (cl_total_capacity l)"
  obtain sms where s: "cpu_core_loop fs l 0 ?n (cl_samples l) 0 0 =
      Ret (sms, ?w (utilization_of ?p ?c) ?n, ?w (eff_utilization_of ?p ?c) ?n)"
    "length sms = ?n" "\<forall>k. 0 \<le> k \<longrightarrow> k < 0 + ?n \<longrightarrow> shows_sample fs ?p ?c (sms ! k) k"
    using cpu_core_loop_result [of 0 ?n "cl_samples l" l 0 0 fs] assms by (auto simp: cpu_inv_def)
  let ?Q = "\<lambda>(sms, st). length sms = ?n \<and> filled (cl_total_responses l) st (xs @ round_readings fs now
      (cl_cpu_capacity l) (cl_total_capacity l) ?n ?p ?c)"
  have f: "filled (cl_total_responses l) (pd_metric_response (cl_data l), cl_position l) xs"
    using assms by (simp add: cpu_inv_def)
  have "\<exists>r. cpu_responses fs now l = Ret r \<and> ?Q r"
    unfolding cpu_responses_def s(1) obind.simps prod.case
    apply (rule cpu_put_step [OF f], simp)
    apply (rule cpu_put_step, assumption, simp)
    subgoal for st1 st2
      using cpu_fill_cores_filled [of "cl_total_responses l" st2 _ 0 ?n sms fs ?p ?c now] s(2,3)
      by (fastforce simp: round_readings_def)
    done
  then show ?thesis by auto
qed

text \<open>Delivery: the buffer goes to the callback and is emptied, or the sample count is below its bound.\<close>

definition hands_over :: "cpu_local \<Rightarrow> cpu_state \<Rightarrow> (u16 \<times> u64 \<times> reading) list \<Rightarrow> cpu_state \<Rightarrow> bool" where
  "hands_over l s xs s' \<longleftrightarrow> (\<forall>cb. g_data_callback s = Some cb \<longrightarrow>
     (\<exists>d. sn_data s' = sn_data s @ [(cb, d)] \<and> batch_readings d = take (unat (cl_total_responses l)) xs \<and>
        pd_backend_id d = pd_backend_id (cl_data l) \<and> pd_capability_id d = pd_capability_id (cl_data l)))"

lemma cpu_deliver_result:
  assumes inv: "cpu_inv l xs" and ne: "xs \<noteq> []" "cl_total_responses l \<noteq> 0"
  shows "\<exists>l' s' ys. cpu_deliver l s = (l', s') \<and> cpu_inv l' ys \<and> same_setup l l' \<and> cl_sleeping l' = cl_sleeping l \<and>
     cl_load_prev l' = cl_load_prev l \<and> cl_load_curr l' = cl_load_curr l \<and> cl_current_time l' = cl_current_time l \<and>
     g_data_callback s' = g_data_callback s \<and>
     (ys = [] \<and> cl_sample_count l' = 0 \<and> hands_over l s xs s' \<or>
      ys = xs \<and> cl_sample_count l' = cl_sample_count l + 1 \<and> cl_sample_count l' < cl_samples_per_stream l \<and> sn_data s' = sn_data s)"
proof -
  have f: "filled (cl_total_responses l) (pd_metric_response (cl_data l), cl_position l) xs"
    using inv by (simp add: cpu_inv_def)
  have pos: "cl_position l > 0"
  proof -
    have "unat (cl_position l) = min (length xs) (unat (cl_total_responses l))" using f by (simp add: filled_def)
    also have "\<dots> > 0" using ne by (simp add: unat_gt_0)
    finally show ?thesis by (simp add: word_less_nat_alt)
  qed
  have b: "map response_reading (take (unat (cl_position l)) (pd_metric_response (cl_data l))) = take (unat (cl_total_responses l)) xs"
    using f [unfolded filled_def fst_conv snd_conv] by blast
  have z: "filled (cl_total_responses l) (pd_metric_response (cl_data l), 0) []"
    using f by (simp add: filled_def)
  define due where "due \<longleftrightarrow> cl_samples_per_stream l \<le> cl_sample_count l + 1 \<or>
    cl_streaming_rate_ns l \<le> cl_current_time l - cl_last_stream_time l"
  show ?thesis
  proof (cases due)
    case False
    then show ?thesis
      using inv by (intro exI [of _ "l\<lparr>cl_sample_count := cl_sample_count l + 1\<rparr>"] exI [of _ s] exI [of _ xs])
        (auto simp: cpu_deliver_def due_def cpu_inv_def same_setup_def Let_def not_le)
  next
    case True
    let ?d = "(cl_data l)\<lparr>pd_metric_response_len := unat (cl_position l)\<rparr>"
    show ?thesis
    proof (cases "g_data_callback s")
      case None
      let ?l = "l\<lparr>cl_sample_count := 0, cl_position := 0, cl_last_stream_time := cl_current_time l\<rparr>"
      have "cpu_deliver l s = (?l, s)" using True None by (auto simp: cpu_deliver_def due_def Let_def)
      then show ?thesis using inv z None
        by (intro exI [of _ ?l] exI [of _ s] exI [of _ "[]"]) (simp add: cpu_inv_def same_setup_def hands_over_def)
    next
      case (Some cb)
      let ?l = "l\<lparr>cl_sample_count := 0, cl_data := ?d, cl_position := 0, cl_last_stream_time := cl_current_time l\<rparr>"
      let ?s = "s\<lparr>sn_data := sn_data s @ [(cb, ?d)]\<rparr>"
      have "cpu_deliver l s = (?l, ?s)" using True Some pos by (auto simp: cpu_deliver_def due_def Let_def)
      then show ?thesis using inv z b Some
        by (intro exI [of _ ?l] exI [of _ ?s] exI [of _ "[]"])
          (simp add: cpu_inv_def same_setup_def hands_over_def batch_readings_def)
    qed
  qed
qed

lemma round_readings_nonempty: "round_readings fs now caps tc n prev cur \<noteq> []"
  by (simp add: round_readings_def)

lemma cpu_second_result:
  fixes e :: sample_env
  assumes inv: "cpu_inv l xs" and t: "cl_total_responses l \<noteq> 0"
  defines "now \<equiv> time_now (env_clock e) (cl_current_time l)"
    and "cur \<equiv> loads_after (env_files e) (cl_num_cores l) (cl_load_curr l)"
  defines "zs \<equiv> xs @ round_readings (env_files e) now (cl_cpu_capacity l) (cl_total_capacity l)
       (unat (cl_num_cores l)) (cl_load_prev l) cur"
  shows "\<exists>l' s' ys. cpu_second_snapshot e l s = Ret (l', s') \<and> cpu_inv l' ys \<and> same_setup l l' \<and> \<not> cl_sleeping l' \<and>
     cl_load_prev l' = cl_load_prev l \<and> cl_load_curr l' = cur \<and> cl_current_time l' = now \<and>
     g_data_callback s' = g_data_callback s \<and>
     (ys = [] \<and> cl_sample_count l' = 0 \<and> hands_over l s zs s' \<or>
      ys = zs \<and> cl_sample_count l' = cl_sample_count l + 1 \<and> cl_sample_count l' < cl_samples_per_stream l \<and> sn_data s' = sn_data s)"
proof -
  obtain rc where p: "cpu_util_get_proc_stat (env_files e) (cl_load_curr l) (cl_num_cores l) = Ret (rc, cur)"
    "length cur = unat (cl_num_cores l)"
    using loads_after_Ret [of "cl_load_curr l" "cl_num_cores l" "env_files e"] inv by (auto simp: cur_def cpu_inv_def)
  define s1 where "s1 = (if rc \<noteq> SUCCESS then CPU_SEND LEVEL_ERROR ''Failed to read /proc/stat (second snapshot)'' s else s)"
  let ?l1 = "l\<lparr>cl_load_curr := cur, cl_current_time := now\<rparr>"
  have i1: "cpu_inv ?l1 xs" using inv p(2) by (simp add: cpu_inv_def)
  obtain sms rs pos where r: "cpu_responses (env_files e) now ?l1 = Ret (sms, rs, pos)"
    "length sms = unat (cl_num_cores l)" "filled (cl_total_responses l) (rs, pos) zs"
    using cpu_responses_result [OF i1, of "env_files e" now] by (auto simp: zs_def)
  let ?l2 = "?l1\<lparr>cl_samples := sms, cl_data := (cl_data ?l1)\<lparr>pd_metric_response := rs\<rparr>, cl_position := pos, cl_sleeping := False\<rparr>"
  have i2: "cpu_inv ?l2 zs" using i1 r(2,3) by (simp add: cpu_inv_def)
  have zs: "zs \<noteq> []" by (simp add: zs_def round_readings_nonempty)
  have e: "cpu_second_snapshot e l s = Ret (cpu_deliver ?l2 s1)"
    unfolding cpu_second_snapshot_def p obind.simps prod.case Let_def
    using r(1) by (simp add: now_def s1_def)
  have s1: "g_data_callback s1 = g_data_callback s" "sn_data s1 = sn_data s" by (simp_all add: s1_def)
  have ss: "same_setup l ?l2" by (simp add: same_setup_def)
  have t2: "cl_total_responses ?l2 \<noteq> 0" using t by simp
  have h: "hands_over l s zs s' = hands_over ?l2 s1 zs s'" for s'
    by (simp add: hands_over_def s1)
  show ?thesis
    unfolding e h using cpu_deliver_result [OF i2 zs t2, of s1] same_setup_trans [OF ss] s1 by fastforce
qed

section \<open>Rounds\<close>

text \<open>A round is two steps of the thread, one before and one after the sleep.\<close>

definition cpu_round :: "sample_env \<times> sample_env \<Rightarrow> cpu_local \<Rightarrow> cpu_state \<Rightarrow> (cpu_local \<times> cpu_state) outcome" where
  "cpu_round e l s = obind (cpu_thread_iterate (fst e) l s) (\<lambda>(l1, s1). cpu_thread_iterate (snd e) l1 s1)"

text \<open>Its readings; the loads \<open>prev\<close> and \<open>cur\<close> are kept when a snapshot cannot be read.\<close>

type_synonym cpu_abs = "QcomLinuxCpuLoadInfo list \<times> QcomLinuxCpuLoadInfo list \<times> u64"

definition cpu_out ::
  "u32 list \<Rightarrow> u32 \<Rightarrow> u32 \<Rightarrow> sample_env \<times> sample_env \<Rightarrow> cpu_abs \<Rightarrow> (u16 \<times> u64 \<times> reading) list \<times> cpu_abs" where
  "cpu_out caps tc n e a =
     (let (prev, cur, now) = a; (e1, e2) = e;
          prev' = loads_after (env_files e1) n prev; cur' = loads_after (env_files e2) n cur;
          now' = time_now (env_clock e2) now
      in (round_readings (env_files e2) now' caps tc (unat n) prev' cur', prev', cur', now'))"

abbreviation cpu_abs_of :: "cpu_local \<Rightarrow> cpu_abs" where
  "cpu_abs_of l \<equiv> (cl_load_prev l, cl_load_curr l, cl_current_time l)"

abbreviation cpu_out_of :: "cpu_local \<Rightarrow> sample_env \<times> sample_env \<Rightarrow> cpu_abs \<Rightarrow> (u16 \<times> u64 \<times> reading) list \<times> cpu_abs" where
  "cpu_out_of l \<equiv> cpu_out (cl_cpu_capacity l) (cl_total_capacity l) (cl_num_cores l)"

text \<open>Between two rounds: fewer samples than a batch holds, each of at most \<open>w\<close> readings.\<close>

definition cpu_between :: "nat \<Rightarrow> cpu_local \<Rightarrow> (u16 \<times> u64 \<times> reading) list \<Rightarrow> bool" where
  "cpu_between w l xs \<longleftrightarrow> cpu_inv l xs \<and> \<not> cl_sleeping l \<and> cl_total_responses l \<noteq> 0 \<and>
     cl_sample_count l < cl_samples_per_stream l \<and> length xs \<le> unat (cl_sample_count l) * w \<and>
     unat (cl_total_responses l) = unat (cl_samples_per_stream l) * w"

lemma cpu_round_result:
  fixes e1 e2 :: sample_env
  assumes b: "cpu_between w l xs" and cb: "g_data_callback s = Some cb"
    and w: "length (cpu_table_ids (env_files e2) (unat (cl_num_cores l))) \<le> w"
  defines "prev \<equiv> loads_after (env_files e1) (cl_num_cores l) (cl_load_prev l)"
    and "cur \<equiv> loads_after (env_files e2) (cl_num_cores l) (cl_load_curr l)"
    and "now \<equiv> time_now (env_clock e2) (cl_current_time l)"
  defines "zs \<equiv> xs @ round_readings (env_files e2) now (cl_cpu_capacity l) (cl_total_capacity l) (unat (cl_num_cores l)) prev cur"
  shows "\<exists>l' s' ys bs. cpu_round (e1, e2) l s = Ret (l', s') \<and> cpu_between w l' ys \<and> same_setup l l' \<and>
     cl_load_prev l' = prev \<and> cl_load_curr l' = cur \<and> cl_current_time l' = now \<and> g_data_callback s' = Some cb \<and>
     sn_data s' = sn_data s @ map (Pair cb) bs \<and> concat (map batch_readings bs) @ ys = zs \<and>
     (\<forall>d \<in> set bs. batch_readings d \<noteq> [] \<and> pd_backend_id d = pd_backend_id (cl_data l) \<and> pd_capability_id d = pd_capability_id (cl_data l))"
proof -
  have inv: "cpu_inv l xs" and sl: "\<not> cl_sleeping l" and t: "cl_total_responses l \<noteq> 0"
    and c: "cl_sample_count l < cl_samples_per_stream l" and len: "length xs \<le> unat (cl_sample_count l) * w"
    and tot: "unat (cl_total_responses l) = unat (cl_samples_per_stream l) * w"
    using b by (simp_all add: cpu_between_def)
  obtain l1 s1 where 1: "cpu_thread_iterate e1 l s = Ret (l1, s1)" "cpu_inv l1 xs" "same_setup l l1" "cl_sleeping l1"
    "cl_load_prev l1 = prev" "cl_load_curr l1 = cl_load_curr l" "cl_current_time l1 = cl_current_time l"
    "cl_sample_count l1 = cl_sample_count l" "sn_data s1 = sn_data s" "g_data_callback s1 = g_data_callback s"
    using cpu_first_result [OF inv, of e1 s] sl by (auto simp: cpu_thread_iterate_def prev_def)
  have su: "cl_num_cores l1 = cl_num_cores l" "cl_cpu_capacity l1 = cl_cpu_capacity l" "cl_total_capacity l1 = cl_total_capacity l"
    "cl_samples_per_stream l1 = cl_samples_per_stream l" "cl_total_responses l1 = cl_total_responses l"
    "pd_backend_id (cl_data l1) = pd_backend_id (cl_data l)" "pd_capability_id (cl_data l1) = pd_capability_id (cl_data l)"
    using 1(3) by (simp_all add: same_setup_def)
  obtain l2 s2 ys where 2: "cpu_thread_iterate e2 l1 s1 = Ret (l2, s2)" "cpu_inv l2 ys" "same_setup l1 l2" "\<not> cl_sleeping l2"
    "cl_load_prev l2 = prev" "cl_load_curr l2 = cur" "cl_current_time l2 = now" "g_data_callback s2 = Some cb"
    "ys = [] \<and> cl_sample_count l2 = 0 \<and> hands_over l1 s1 zs s2 \<or>
      ys = zs \<and> cl_sample_count l2 = cl_sample_count l + 1 \<and> cl_sample_count l2 < cl_samples_per_stream l \<and> sn_data s2 = sn_data s"
    using cpu_second_result [OF 1(2), of e2 s1] 1 t su cb
    by (auto simp: cpu_thread_iterate_def cur_def now_def zs_def)
  have r: "cpu_round (e1, e2) l s = Ret (l2, s2)" using 1(1) 2(1) by (simp add: cpu_round_def)
  have ss: "same_setup l l2" using same_setup_trans [OF 1(3) 2(3)] .
  have su2: "cl_samples_per_stream l2 = cl_samples_per_stream l" "cl_total_responses l2 = cl_total_responses l"
    using ss by (simp_all add: same_setup_def)
  have k: "unat (cl_sample_count l) < unat (cl_samples_per_stream l)" using c by (simp add: word_less_nat_alt)
  have zlen: "length zs \<le> Suc (unat (cl_sample_count l)) * w"
    using len w by (simp add: zs_def round_readings_length)
  show ?thesis
    using 2(9)
  proof
    assume h: "ys = [] \<and> cl_sample_count l2 = 0 \<and> hands_over l1 s1 zs s2"
    then obtain d where d: "sn_data s2 = sn_data s @ [(cb, d)]" "batch_readings d = take (unat (cl_total_responses l)) zs"
      "pd_backend_id d = pd_backend_id (cl_data l)" "pd_capability_id d = pd_capability_id (cl_data l)"
      using cb 1(9,10) su by (auto simp: hands_over_def)
    have "Suc (unat (cl_sample_count l)) * w \<le> unat (cl_samples_per_stream l) * w"
      using k by (intro mult_le_mono1) simp
    then have "batch_readings d = zs" using d(2) zlen tot by simp
    moreover have "zs \<noteq> []" by (simp add: zs_def round_readings_nonempty)
    moreover have "cpu_between w l2 ys"
      using h 2 su2 t tot c by (auto simp: cpu_between_def word_gt_0)
    ultimately show ?thesis
      using r ss 2 d h by (intro exI [of _ l2] exI [of _ s2] exI [of _ ys] exI [of _ "[d]"]) simp
  next
    assume h: "ys = zs \<and> cl_sample_count l2 = cl_sample_count l + 1 \<and> cl_sample_count l2 < cl_samples_per_stream l \<and> sn_data s2 = sn_data s"
    have e: "cl_sample_count l + 1 = of_nat (Suc (unat (cl_sample_count l)))" by simp
    have "Suc (unat (cl_sample_count l)) < 2 ^ 32"
      using k unsigned_less [where 'a = nat, of "cl_samples_per_stream l"] by simp
    then have "unat (cl_sample_count l + 1) = Suc (unat (cl_sample_count l))" unfolding e by (rule unat_of_nat_u32)
    moreover have "cl_sample_count l + 1 < cl_samples_per_stream l" using h by metis
    ultimately have "cpu_between w l2 ys"
      using h 2(2,4) su2 t tot zlen by (simp add: cpu_between_def)
    then show ?thesis
      using r ss 2 h by (intro exI [of _ l2] exI [of _ s2] exI [of _ ys] exI [of _ "[]"]) simp
  qed
qed

text \<open>What the batches of a session carry.\<close>

definition cpu_delivered :: "callback \<Rightarrow> cpu_local \<Rightarrow> nat \<times> QcPerfData \<Rightarrow> bool" where
  "cpu_delivered cb l d \<longleftrightarrow> Some (fst d) = cb \<and> batch_readings (snd d) \<noteq> [] \<and>
     pd_backend_id (snd d) = pd_backend_id (cl_data l) \<and> pd_capability_id (snd d) = pd_capability_id (cl_data l)"

definition cpu_fits :: "nat \<Rightarrow> sample_env \<times> sample_env \<Rightarrow> cpu_local \<Rightarrow> cpu_state \<Rightarrow> bool" where
  "cpu_fits w e l s \<longleftrightarrow> length (cpu_table_ids (env_files (snd e)) (unat (cl_num_cores l))) \<le> w"

interpretation cpu_loop: batching_loop cpu_round "\<lambda>l s xs. cpu_between w l xs \<and> g_data_callback s \<noteq> None" "cpu_fits w"
  "\<lambda>l s. cpu_out_of l" "\<lambda>l s. cpu_abs_of l" sn_data "\<lambda>d. batch_readings (snd d)" "\<lambda>l s. cpu_delivered (g_data_callback s) l" for w
proof
  fix l :: cpu_local and s :: cpu_state and xs e
  assume a: "cpu_between w l xs \<and> g_data_callback s \<noteq> None" and f: "cpu_fits w e l s"
  obtain e1 e2 where e: "e = (e1, e2)" by (cases e)
  obtain cb where cb: "g_data_callback s = Some cb" using a by auto
  obtain l' s' ys bs where r: "cpu_round (e1, e2) l s = Ret (l', s')" "cpu_between w l' ys" "same_setup l l'"
     "cpu_abs_of l' = snd (cpu_out_of l e (cpu_abs_of l))" "g_data_callback s' = Some cb"
     "sn_data s' = sn_data s @ map (Pair cb) bs"
     "concat (map batch_readings bs) @ ys = xs @ fst (cpu_out_of l e (cpu_abs_of l))"
     "\<forall>d \<in> set bs. batch_readings d \<noteq> [] \<and> pd_backend_id d = pd_backend_id (cl_data l) \<and> pd_capability_id d = pd_capability_id (cl_data l)"
    using cpu_round_result [of w l xs s cb e2 e1] a f cb unfolding e
    by (simp add: cpu_fits_def cpu_out_def Let_def) blast
  have su: "cpu_out_of l' = cpu_out_of l" "cpu_delivered (g_data_callback s') l' = cpu_delivered (g_data_callback s) l"
    "\<forall>f. cpu_fits w f l' s' = cpu_fits w f l s"
    using r(3,5) cb by (auto simp: same_setup_def cpu_delivered_def cpu_fits_def fun_eq_iff)
  show "\<exists>l' s' ys bs. cpu_round e l s = Ret (l', s') \<and> (cpu_between w l' ys \<and> g_data_callback s' \<noteq> None) \<and>
     sn_data s' = sn_data s @ bs \<and>
     concat (map (\<lambda>d. batch_readings (snd d)) bs) @ ys = xs @ fst (cpu_out_of l e (cpu_abs_of l)) \<and>
     cpu_abs_of l' = snd (cpu_out_of l e (cpu_abs_of l)) \<and> cpu_out_of l' = cpu_out_of l \<and>
     cpu_delivered (g_data_callback s') l' = cpu_delivered (g_data_callback s) l \<and>
     (\<forall>f. cpu_fits w f l' s' = cpu_fits w f l s) \<and> (\<forall>d \<in> set bs. cpu_delivered (g_data_callback s) l d)"
    using r(1,2,4,5,6,7,8) su cb unfolding e
    by (intro exI [of _ l'] exI [of _ s'] exI [of _ ys] exI [of _ "map (Pair cb) bs"]) (auto simp: cpu_delivered_def comp_def)
qed

end
