(* ===== verification/LinuxCpuLaws.thy ===== *)
theory LinuxCpuLaws
  imports LinuxCpuThread LiveSession
begin

text \<open>
  The properties of the Linux CPU backend: what it reads from \<open>/proc/stat\<close>, what it registers, that its
  sessions never get stuck whatever the kernel's files hold, that its thread reports the readings of the
  reference, and the range of the figures.
\<close>

section \<open>The entry of the thread\<close>

lemma cpu_table_ids_nonempty: "2 \<le> length (cpu_table_ids fs n)"
  by (simp add: cpu_table_ids_def)

lemma cpu_entry_total:
  assumes reg: "cpu_registered fs n s" and n: "n \<le> 18" and rq: "cpu_request_code rq = SUCCESS"
  shows "\<exists>lo s'. cpu_thread_entry env (Some rq) s = Ret (lo, s')"
proof -
  obtain c where c: "bi_capabilities_list (g_backend_info s) = Some [c]" using reg by (auto simp: cpu_registered_def)
  have d: "deref_capability (sn_table s) 0 s = Ret c" using c by (simp add: deref_capability_def)
  obtain sps where sps: "samples_per_stream rq = Ret sps" using cpu_samples_per_stream [OF rq] by blast
  have "\<exists>caps. read_capacities (env_files env) 0 m (replicate QCOM_LINUX_CPU_MAX_CORES 0) = Ret caps" if "m \<le> 18" for m
    using read_capacities_Ret [of 0 m "replicate 18 0"] that by auto
  then show ?thesis
    using d sps by (fastforce simp: cpu_thread_entry_def Let_def case_prod_beta not_less)
qed

lemma cpu_entry_between:
  assumes reg: "cpu_registered fs n s" and n: "n \<le> 18" and rq: "cpu_request_code rq = SUCCESS"
    and e: "cpu_thread_entry env (Some rq) s = Ret (Some l, s')"
  shows "cpu_between (length (cpu_table_ids fs n)) l [] \<and> cl_current_time l = 0 \<and>
     cl_load_prev l = replicate (unat (cl_num_cores l)) zero_load \<and> cl_load_curr l = replicate (unat (cl_num_cores l)) zero_load \<and>
     cpu_util_get_num_cores (env_files env) 0 = (SUCCESS, cl_num_cores l) \<and>
     cpu_util_get_total_capacity (env_files env) = (SUCCESS, cl_total_capacity l) \<and>
     read_capacities (env_files env) 0 (unat (cl_num_cores l)) (replicate 18 0) = Ret (cl_cpu_capacity l) \<and>
     pd_backend_id (cl_data l) = 1 \<and> pd_capability_id (cl_data l) = rq_capability_id rq"
proof -
  obtain c where c: "bi_capabilities_list (g_backend_info s) = Some [c]" "cpu_entry fs n c"
    using reg by (auto simp: cpu_registered_def)
  have d: "deref_capability (sn_table s) 0 s = Ret c" using c(1) by (simp add: deref_capability_def)
  let ?len = "ci_metric_ids_list_len c" let ?w = "length (cpu_table_ids fs n)"
  have len: "unat ?len = ?w" using c(2) by (simp add: cpu_entry_def)
  obtain sps where sps: "samples_per_stream rq = Ret sps" "0 < sps" "unat sps \<le> 1000"
    using cpu_samples_per_stream [OF rq] by blast
  have w: "2 \<le> ?w" "?w \<le> 92" using cpu_table_ids_nonempty [of fs n] cpu_table_ids_length [of fs n] n by simp_all
  have "unat sps * ?w \<le> 1000 * 92" using sps(3) w(2) by (intro mult_le_mono)
  moreover have "sps * ucast ?len = of_nat (unat sps * ?w)" using len by (simp flip: len add: unsigned_ucast_eq)
  ultimately have tot: "unat (sps * ucast ?len) = unat sps * ?w" by (simp only:) (intro unat_of_nat_u32, simp)
  have "unat (sps * ucast ?len) \<noteq> 0" using tot sps(2) w(1) by (auto simp: word_gt_0 unat_eq_0)
  then have nz: "sps * ucast ?len \<noteq> 0" by auto
  obtain m tc caps where m: "cpu_util_get_num_cores (env_files env) 0 = (SUCCESS, m)" "unat m \<le> 18"
      "cpu_util_get_total_capacity (env_files env) = (SUCCESS, tc)"
      "read_capacities (env_files env) 0 (unat m) (replicate 18 0) = Ret caps"
    and l: "l = \<lparr>cl_request = rq, cl_num_cores = m, cl_cpu_capacity = caps, cl_total_capacity = tc,
             cl_samples_per_stream = sps, cl_total_responses = sps * ucast ?len,
             cl_streaming_rate_ns = ucast (rq_streaming_rate rq) * 1000000,
             cl_load_prev = replicate (unat m) zero_load, cl_load_curr = replicate (unat m) zero_load,
             cl_samples = replicate (unat m) zero_sample,
             cl_data = \<lparr>pd_backend_id = 1, pd_capability_id = rq_capability_id rq,
                pd_metric_response = replicate (unat (sps * ucast ?len)) zero_response,
                pd_metric_response_len = 0\<rparr>,
             cl_position = 0, cl_sample_count = 0, cl_current_time = 0,
             cl_last_stream_time = time_now (env_clock env) 0, cl_sleeping = False, cl_slept = 0\<rparr>"
    using cpu_entry_cases [OF e] d sps(1) by auto
  have "length caps = 18" using read_capacities_Ret [of 0 "unat m" "replicate 18 0" "env_files env"] m(2,4) by auto
  then show ?thesis
    using m sps(2) tot nz by (simp add: l cpu_between_def cpu_inv_def filled_def)
qed

section \<open>Sessions that never get stuck\<close>

definition cpu_table :: "cpu_state \<Rightarrow> bool" where
  "cpu_table s \<longleftrightarrow> (\<exists>fs n. n \<le> 18 \<and> cpu_registered fs n s)"

definition cpu_tables_ok :: "cpu_state \<Rightarrow> bool" where
  "cpu_tables_ok s \<longleftrightarrow> cpu_table s \<or> no_table s"

definition cpu_good :: "cpu_state \<Rightarrow> QcPerfRequest option \<Rightarrow> bool" where
  "cpu_good s q \<longleftrightarrow> cpu_table s \<and> (\<exists>rq. q = Some rq \<and> cpu_request_code rq = SUCCESS)"

definition cpu_lok :: "cpu_state \<Rightarrow> cpu_local \<Rightarrow> bool" where
  "cpu_lok s l \<longleftrightarrow> (\<exists>xs. cpu_inv l xs \<and> cl_total_responses l \<noteq> 0)"

lemma cpu_tables_cong:
  assumes "g_backend_info s' = g_backend_info s"
  shows "cpu_tables_ok s' = cpu_tables_ok s" "cpu_good s' q = cpu_good s q" "cpu_lok s' l = cpu_lok s l"
  using cpu_registered_cong [OF assms] assms by (simp_all add: cpu_tables_ok_def cpu_table_def cpu_good_def cpu_lok_def no_table_def)

lemma cpu_start_code:
  assumes reg: "cpu_registered fs n s"
  shows "\<exists>s'. qcom_linux_cpu_start (Some rq) s =
     Ret (if cpu_request_code rq \<noteq> SUCCESS then cpu_request_code rq
          else if g_data_callback s = None then FAILED
          else if g_is_thread_running s then ALREADY_INITIALIZED
          else if fst (calloc_ok (sn_faults s)) \<and> fst (calloc_ok (snd (calloc_ok (sn_faults s)))) then SUCCESS
          else FAILED, s') \<and> g_backend_info s' = g_backend_info s \<and> sn_table s' = sn_table s \<and>
     g_data_callback s' = g_data_callback s \<and> sn_data s' = sn_data s \<and>
     (sn_threads s' \<noteq> sn_threads s \<longrightarrow> cpu_request_code rq = SUCCESS \<and> sn_threads s' = sn_threads s @ [Spawned (Some rq)])"
proof -
  let ?s = "CPU_SEND LEVEL_INFO ''Starting qcom-linux-cpu data collection'' s"
  have "cpu_registered fs n ?s" using reg by (simp add: cpu_registered_def)
  then obtain s1 where v: "cpu_validate_request rq ?s = Ret (cpu_request_code rq, s1)" "cpu_sent ?s s1"
    using cpu_validate_code by blast
  have f: "g_is_thread_running s1 = g_is_thread_running s" "g_thread_info s1 = g_thread_info s" "sn_threads s1 = sn_threads s"
    "g_backend_info s1 = g_backend_info s" "sn_table s1 = sn_table s" "g_data_callback s1 = g_data_callback s"
    "sn_data s1 = sn_data s" "sn_faults s1 = sn_faults s"
    using cpu_sent_fields [OF v(2)] by (simp_all add: same_control_def)
  show ?thesis
    using v(1) f by (simp add: qcom_linux_cpu_start_def Let_def spawn_def thread_create_def cpu_thread_attrs_def case_prod_beta)
qed

lemma cpu_start_ready:
  assumes "cpu_tables_ok s"
  shows "\<exists>rc s'. qcom_linux_cpu_start r s = Ret (rc, s') \<and> g_backend_info s' = g_backend_info s \<and>
     (rc = SUCCESS \<longrightarrow> (\<exists>q. cpu_good s' q \<and> sn_threads s' = sn_threads s @ [Spawned q]))"
proof (cases r)
  case None
  then show ?thesis by (simp add: qcom_linux_cpu_start_def Let_def)
next
  case (Some rq)
  show ?thesis
  proof (cases "cpu_table s")
    case False
    then show ?thesis
      using assms Some
      by (simp add: qcom_linux_cpu_start_def Let_def cpu_validate_request_def find_capability_def cpu_tables_ok_def no_table_def)
  next
    case True
    then obtain fs n where reg: "n \<le> 18" "cpu_registered fs n s" by (auto simp: cpu_table_def)
    obtain rc s' where s': "qcom_linux_cpu_start r s = Ret (rc, s')" "g_backend_info s' = g_backend_info s"
      "sn_threads s' \<noteq> sn_threads s \<longrightarrow> cpu_request_code rq = SUCCESS \<and> sn_threads s' = sn_threads s @ [Spawned (Some rq)]"
      using cpu_start_code [OF reg(2), of rq] Some by blast
    have "sn_threads s' \<noteq> sn_threads s" if "rc = SUCCESS" using cpu_start_law [OF s'(1)] that by (auto simp: spawned_def)
    then have "rc = SUCCESS \<longrightarrow> cpu_good s' (Some rq) \<and> sn_threads s' = sn_threads s @ [Spawned (Some rq)]"
      unfolding cpu_tables_cong(2) [OF s'(2)] using s'(3) True by (simp add: cpu_good_def)
    then show ?thesis using s'(1,2) by blast
  qed
qed

lemma wait_exit_registered:
  assumes "wait_exit (cpu_thread e) t s = Ret (x, s')"
  shows "g_backend_info s' = g_backend_info s"
proof (cases "sn_threads s ! t")
  case (Spawned r)
  then show ?thesis
    using assms cpu_entry_law [of e r s]
    by (fastforce simp: wait_exit_def cpu_thread_def cpu_thread_finish_def outcome_simps split: if_splits option.splits)
qed (use assms in \<open>auto simp: wait_exit_def cpu_thread_def cpu_thread_finish_def split: if_splits\<close>)

lemma cpu_stop_registered:
  assumes "qcom_linux_cpu_stop e r s = Ret (rc, s')"
  shows "g_backend_info s' = g_backend_info s"
proof (cases "\<exists>q t. r = Some q \<and> g_is_thread_running s \<and> th_handle (g_thread_info s) = Thread t")
  case False
  then show ?thesis
    using assms
    by (auto simp: qcom_linux_cpu_stop_def Let_def thread_join_def split: option.splits if_splits thread_handle.splits)
next
  case True
  then obtain q t where q: "r = Some q" "g_is_thread_running s" "th_handle (g_thread_info s) = Thread t" by blast
  let ?s = "(CPU_SEND LEVEL_INFO ''Stopping qcom-linux-cpu data collection'' s)\<lparr>g_is_thread_running := False\<rparr>"
  obtain x s1 where w: "wait_exit (cpu_thread e) t ?s = Ret (x, s1)"
    using assms q by (auto simp: qcom_linux_cpu_stop_def Let_def thread_join_def outcome_simps)
  have "g_backend_info s1 = g_backend_info s" using wait_exit_registered [OF w] by simp
  then show ?thesis
    using assms q w by (auto simp: qcom_linux_cpu_stop_def Let_def thread_join_def outcome_simps split: if_splits)
qed

lemma cpu_iterate_total:
  assumes "cpu_inv l xs" "cl_total_responses l \<noteq> 0"
  shows "\<exists>l' s' ys. cpu_thread_iterate e l s = Ret (l', s') \<and> cpu_inv l' ys \<and> cl_total_responses l' \<noteq> 0"
proof (cases "cl_sleeping l")
  case False
  then show ?thesis
    using cpu_first_result [OF assms(1), of e s] assms(2) by (fastforce simp: cpu_thread_iterate_def same_setup_def)
next
  case True
  then show ?thesis
    using cpu_second_result [OF assms, of e s] assms(2) by (fastforce simp: cpu_thread_iterate_def same_setup_def)
qed

interpretation cpu_live: orderly_session qcom_linux_cpu_start qcom_linux_cpu_stop cpu_thread cpu_thread_iterate
  cpu_tables_ok cpu_good cpu_lok
proof unfold_locales
  fix s r
  assume a: "cpu_tables_ok s"
  obtain rc s' where s': "qcom_linux_cpu_start r s = Ret (rc, s')" "g_backend_info s' = g_backend_info s"
     "rc = SUCCESS \<longrightarrow> (\<exists>q. cpu_good s' q \<and> sn_threads s' = sn_threads s @ [Spawned q])"
    using cpu_start_ready [OF a] by blast
  then show "\<exists>rc s'. qcom_linux_cpu_start r s = Ret (rc, s') \<and> cpu_tables_ok s' \<and> (\<forall>q. cpu_good s q \<longrightarrow> cpu_good s' q) \<and>
     (\<forall>l. cpu_lok s l \<longrightarrow> cpu_lok s' l) \<and> (rc = SUCCESS \<longrightarrow> (\<exists>q. cpu_good s' q \<and> sn_threads s' = sn_threads s @ [Spawned q]))"
    using a cpu_tables_cong [OF s'(2)] by auto
next
  fix e r s rc s'
  assume "cpu_tables_ok s" "qcom_linux_cpu_stop e r s = Ret (rc, s')"
  then show "cpu_tables_ok s' \<and> (\<forall>q. cpu_good s q \<longrightarrow> cpu_good s' q) \<and> (\<forall>l. cpu_lok s l \<longrightarrow> cpu_lok s' l)"
    using cpu_tables_cong [OF cpu_stop_registered] by simp
next
  fix e s q
  assume a: "cpu_tables_ok s" "cpu_good s q"
  then obtain fs n rq where r: "n \<le> 18" "cpu_registered fs n s" "q = Some rq" "cpu_request_code rq = SUCCESS"
    by (auto simp: cpu_good_def cpu_table_def)
  obtain lo s' where en: "cpu_thread_entry e (Some rq) s = Ret (lo, s')" using cpu_entry_total [OF r(2,1,4)] by blast
  have "cpu_lok s' l" if "lo = Some l" for l
    using cpu_entry_between [OF r(2,1,4), of e l s'] en that by (auto simp: cpu_lok_def cpu_between_def)
  then show "\<exists>lo s'. th_entry (cpu_thread e) q s = Ret (lo, s') \<and> cpu_tables_ok s' \<and>
      (\<forall>l. lo = Some l \<and> g_is_thread_running s' \<longrightarrow> cpu_lok s' l)"
    using en r(3) a(1) cpu_tables_cong(1) [of s' s] cpu_entry_law [OF en] by (simp add: cpu_thread_def)
next
  fix e s l
  assume a: "cpu_tables_ok s" "cpu_lok s l"
  then obtain l' s' where b: "cpu_thread_iterate e l s = Ret (l', s')" "cpu_lok s' l'"
    using cpu_iterate_total by (fastforce simp: cpu_lok_def)
  then show "\<exists>l' s'. cpu_thread_iterate e l s = Ret (l', s') \<and> cpu_tables_ok s' \<and> cpu_lok s' l'"
    using a(1) cpu_tables_cong(1) [of s' s] cpu_iterate_law [OF b(1)] by blast
next
  fix e l s
  assume "cpu_tables_ok s"
  then show "\<exists>s'. th_finish (cpu_thread e) l s = Ret s' \<and> cpu_tables_ok s'"
    using cpu_tables_cong(1) [of "s\<lparr>g_is_thread_running := False\<rparr>" s] by (simp add: cpu_thread_def cpu_thread_finish_def)
next
  fix t st s l
  show "cpu_tables_ok (put_thread t st s) = cpu_tables_ok s" "cpu_lok (put_thread t st s) l = cpu_lok s l"
    by (rule cpu_tables_cong; simp)+
qed

section \<open>The range of the figures\<close>

text \<open>Two snapshots of counters that do not run backwards.\<close>

definition counters_grow :: "double list \<Rightarrow> double list \<Rightarrow> bool" where
  "counters_grow xs ys \<longleftrightarrow> (\<forall>j<10. xs ! j \<le> ys ! j)"

lemma core_usage_range:
  assumes "counters_grow xs ys"
  shows "0 \<le> snd (snd (core_usage (load_of xs) (load_of ys)))"
    and "fst (core_usage (load_of xs) (load_of ys)) \<le> 100"
    and "fst (core_usage (load_of xs) (load_of ys)) =
         snd (snd (core_usage (load_of xs) (load_of ys))) + fst (snd (core_usage (load_of xs) (load_of ys)))"
    and "0 \<le> fst (snd (core_usage (load_of xs) (load_of ys)))"
proof -
  define dt where "dt = ld_total_time (load_of ys) - ld_total_time (load_of xs)"
  define di where "di = ld_idle (load_of ys) - ld_idle (load_of xs)"
  define ds where "ds = ld_steal_time (load_of ys) - ld_steal_time (load_of xs)"
  have m: "xs ! 0 \<le> ys ! 0" "xs ! 1 \<le> ys ! 1" "xs ! 2 \<le> ys ! 2" "xs ! 3 \<le> ys ! 3" "xs ! 4 \<le> ys ! 4"
    "xs ! 5 \<le> ys ! 5" "xs ! 6 \<le> ys ! 6" "xs ! 7 \<le> ys ! 7" "xs ! 8 \<le> ys ! 8" "xs ! 9 \<le> ys ! 9"
    using assms by (simp_all add: counters_grow_def)
  have b: "0 \<le> di" "0 \<le> ds" "di + ds \<le> dt"
    using m by (simp_all add: dt_def di_def ds_def load_of_def)
  have u: "core_usage (load_of xs) (load_of ys) =
      (if dt > 0 then ((dt - di) / dt * 100, ds / dt * 100, (dt - di - ds) / dt * 100) else (0, 0, 0))"
    using b by (simp add: core_usage_def Let_def dt_def di_def ds_def)
  show "0 \<le> snd (snd (core_usage (load_of xs) (load_of ys)))" "0 \<le> fst (snd (core_usage (load_of xs) (load_of ys)))"
    using b by (simp_all add: u)
  show "fst (core_usage (load_of xs) (load_of ys)) \<le> 100" using b by (simp add: u field_simps)
  show "fst (core_usage (load_of xs) (load_of ys)) =
      snd (snd (core_usage (load_of xs) (load_of ys))) + fst (snd (core_usage (load_of xs) (load_of ys)))"
    using b by (simp add: u field_simps)
qed

lemma weighted_mono:
  "(\<And>k. k < n \<Longrightarrow> f k \<le> g k) \<Longrightarrow> weighted caps tc f n \<le> weighted caps tc g n"
  unfolding weighted_def by (cases "tc = 0") (simp, simp only: if_False, intro sum_mono mult_right_mono divide_nonneg_nonneg of_nat_0_le_iff, simp)

lemma weighted_const:
  assumes "(\<Sum>k<n. unat (caps ! k)) = unat tc" "0 \<le> c"
  shows "weighted caps tc (\<lambda>k. c) n \<le> c"
proof (cases "tc = 0")
  case True
  then show ?thesis using assms(2) by (simp add: weighted_def)
next
  case False
  have "weighted caps tc (\<lambda>k. c) n = c * ((\<Sum>k<n. of_nat (unat (caps ! k))) / of_nat (unat tc))"
    using False by (simp add: weighted_def sum_distrib_left [symmetric] sum_divide_distrib [symmetric])
  also have "(\<Sum>k<n. of_nat (unat (caps ! k))) = (of_nat (unat tc) :: double)"
    unfolding of_nat_sum [symmetric] assms(1) by (rule refl)
  finally show ?thesis using False assms(2) by simp
qed

section \<open>A machine with two cores\<close>

definition demo_stat :: "nat list list" where
  "demo_stat = [[10, 0, 5, 100, 1, 0, 0, 2, 0, 0], [20, 0, 5, 90, 1, 0, 0, 2, 0, 0]]"

definition demo_cpu_files :: filesystem where
  "demo_cpu_files path =
     (if path = QCOM_LINUX_CPU_COUNT_NODE then Some (show_u 0 @ CHR ''-'' # show_u 1)
      else if path = QCOM_LINUX_CPU_STAT_NODE then Some (stat_file ''cpu'' demo_stat ''intr'')
      else Some (show_u 512))"

definition demo_cpu_request :: QcPerfRequest where
  "demo_cpu_request = \<lparr>rq_capability_id = 0, rq_streaming_rate = 200, rq_sampling_rate = 50\<rparr>"

definition demo_cpu_env :: "nat \<Rightarrow> sample_env" where
  "demo_cpu_env k = \<lparr>env_clock = Ticks (of_nat k), env_files = demo_cpu_files\<rparr>"

lemma demo_cpu_request_ok [simp]: "cpu_request_code demo_cpu_request = SUCCESS"
  by (simp add: cpu_request_code_def demo_cpu_request_def cpu_sampling_rates_def cpu_streaming_rates_def)

lemma cpu_node_other: "cpu_node k leaf \<noteq> QCOM_LINUX_CPU_COUNT_NODE" "cpu_node k leaf \<noteq> QCOM_LINUX_CPU_STAT_NODE"
proof -
  have "cpu_node k leaf ! 24 = CHR ''c''" by (simp add: cpu_node_def snprintf_buf_def nth_append)
  then show "cpu_node k leaf \<noteq> QCOM_LINUX_CPU_COUNT_NODE" by auto
  have "cpu_node k leaf ! 1 = CHR ''s''" by (simp add: cpu_node_def snprintf_buf_def nth_append)
  then show "cpu_node k leaf \<noteq> QCOM_LINUX_CPU_STAT_NODE" by auto
qed

lemma demo_cpu_node: "demo_cpu_files (cpu_node k leaf) = Some (show_u 512)"
  using cpu_node_other by (simp add: demo_cpu_files_def)

lemma demo_cpu_cores: "cpu_util_get_num_cores demo_cpu_files x = (SUCCESS, 2)"
proof -
  have "ends_number (CHR ''-'' # show_u 1)" by (simp add: ends_number_def digit_val_def)
  then have "scan_u (show_u 0 @ CHR ''-'' # show_u 1) = Some (0, CHR ''-'' # show_u 1)"
    using scan_u_show_u [of 0] by simp
  moreover have "scan_u (show_u 1) = Some (1, [])" using scan_u_show_u [of 1 "[]"] by (simp add: ends_number_def)
  ultimately show ?thesis by (simp add: cpu_util_get_num_cores_def demo_cpu_files_def scan_range_def)
qed

lemma demo_core_capacity: "core_capacity demo_cpu_files k = Some 512"
  using scan_u_show_u [of 512 "[]"] by (simp add: core_capacity_def demo_cpu_node ends_number_def)

lemma demo_capacity: "cpu_util_get_total_capacity demo_cpu_files = (SUCCESS, 1024)"
proof -
  have "capacity_loop demo_cpu_files 0 2 0 0 SUCCESS = (SUCCESS, 1024)"
    using capacity_loop_sum [of 2 demo_cpu_files 0 0 0] by (simp add: demo_core_capacity numeral_2_eq_2)
  then show ?thesis by (simp add: cpu_util_get_total_capacity_def demo_cpu_cores)
qed

definition demo_cpu :: cpu_state where
  "demo_cpu = (case qcom_linux_cpu_init demo_cpu_files (initial_session []) of
     Ret (_, s) \<Rightarrow> s\<lparr>g_data_callback := Some 7\<rparr> | Stuck _ \<Rightarrow> initial_session [])"

lemma demo_cpu_init:
  "\<exists>s. qcom_linux_cpu_init demo_cpu_files (initial_session []) = Ret (SUCCESS, s) \<and>
     same_control (initial_session []) s \<and> cpu_registered demo_cpu_files 2 s \<and> sn_faults s = []"
  using cpu_init_total [OF demo_cpu_cores, of "initial_session []"] demo_capacity by (auto simp: initial_session_def)

lemma demo_cpu_facts [simp]:
  "cpu_registered demo_cpu_files 2 demo_cpu" "g_data_callback demo_cpu = Some 7" "sn_faults demo_cpu = []"
  "\<not> g_is_thread_running demo_cpu" "sn_threads demo_cpu = []"
  using demo_cpu_init by (auto simp: demo_cpu_def cpu_registered_def same_control_def initial_session_def)

lemma cpu_entry_runs:
  assumes reg: "cpu_registered fs n s" and rq: "cpu_request_code rq = SUCCESS" and f: "sn_faults s = []"
    and m: "cpu_util_get_num_cores (env_files env) 0 = (SUCCESS, m)" "unat m \<le> 18"
    and tc: "cpu_util_get_total_capacity (env_files env) = (SUCCESS, tc)"
  shows "\<exists>l s'. cpu_thread_entry env (Some rq) s = Ret (Some l, s')"
proof -
  obtain c where c: "bi_capabilities_list (g_backend_info s) = Some [c]" using reg by (auto simp: cpu_registered_def)
  have d: "deref_capability (sn_table s) 0 s = Ret c" using c by (simp add: deref_capability_def)
  obtain sps where sps: "samples_per_stream rq = Ret sps" using cpu_samples_per_stream [OF rq] by blast
  obtain caps where caps: "read_capacities (env_files env) 0 (unat m) (replicate QCOM_LINUX_CPU_MAX_CORES 0) = Ret caps"
    using read_capacities_Ret [of 0 "unat m" "replicate 18 0"] m(2) by auto
  show ?thesis
    using d sps caps m tc f by (simp add: cpu_thread_entry_def Let_def cpu_thread_allocs_def alloc_pair)
qed

definition demo_cpu_local :: cpu_local where
  "demo_cpu_local = \<lparr>cl_request = demo_cpu_request, cl_num_cores = 2, cl_cpu_capacity = 400 # 624 # replicate 16 0,
     cl_total_capacity = 1024, cl_samples_per_stream = 4, cl_total_responses = 48, cl_streaming_rate_ns = 200000000,
     cl_load_prev = [load_of (replicate 10 0), load_of (replicate 10 0)],
     cl_load_curr = [load_of [10, 0, 5, 100, 1, 0, 0, 2, 0, 0], load_of [20, 0, 5, 90, 1, 0, 0, 2, 0, 0]],
     cl_samples = [zero_sample, zero_sample],
     cl_data = \<lparr>pd_backend_id = 1, pd_capability_id = 0, pd_metric_response = replicate 48 zero_response, pd_metric_response_len = 0\<rparr>,
     cl_position = 0, cl_sample_count = 0, cl_current_time = 0, cl_last_stream_time = 0, cl_sleeping = True, cl_slept = 0\<rparr>"

section \<open>Properties\<close>

text \<open>C14: The \<open>/proc/stat\<close> reader inverts the kernel's format: from a file made of an aggregate line, one
  line per core and anything after them, it reports success and exactly the idle, total and steal time of
  every core, whatever the array held before.\<close>

theorem cpu_stat_reads_back:
  assumes "fs QCOM_LINUX_CPU_STAT_NODE = Some (stat_file aggregate cores rest)"
    and "cores \<noteq> []" and "\<forall>xs \<in> set cores. length xs = 10" and "length cores < 2 ^ 32" and "length load = length cores"
    and "CHR 0x0A \<notin> set aggregate" and "length aggregate < 255"
    and "\<forall>k<length cores. length (stat_line k (cores ! k)) < 255"
  shows "cpu_util_get_proc_stat fs load (of_nat (length cores)) = Ret (SUCCESS, map (\<lambda>xs. load_of (map of_nat xs)) cores)"
proof -
  have u: "unat (of_nat (length cores) :: u32) = length cores" using assms(4) by (rule unat_of_nat_u32)
  have lines: "fgets_all (stat_file aggregate cores rest) = (aggregate @ [CHR 0x0A]) #
      map (\<lambda>k. stat_line k (cores ! k) @ [CHR 0x0A]) [0..<length cores] @ fgets_all rest"
    using fgets_all_cores [OF assms(8), of 0 rest] assms(6,7) by (simp add: stat_file_def fgets_all_line)
  have "map (\<lambda>k. load_of (map of_nat (cores ! k))) [0..<length cores] = map (\<lambda>xs. load_of (map of_nat xs)) cores"
    by (rule nth_equalityI) simp_all
  then have "stat_loop (map (\<lambda>k. stat_line k (cores ! k) @ [CHR 0x0A]) [0..<length cores] @ fgets_all rest)
      (of_nat (length cores)) 0 load = Ret (of_nat (length cores), map (\<lambda>xs. load_of (map of_nat xs)) cores)"
    using stat_loop_print [OF assms(3,4,5), of 0 "fgets_all rest"] by simp
  moreover have "(of_nat (length cores) :: u32) > 0" using u assms(2) by (simp add: word_less_nat_alt)
  ultimately show ?thesis using assms(1) by (simp add: cpu_util_get_proc_stat_def lines)
qed

theorem cpu_stat_reads_back_witness:
  "cpu_util_get_proc_stat demo_cpu_files [zero_load, zero_load] 2 =
     Ret (SUCCESS, [load_of [10, 0, 5, 100, 1, 0, 0, 2, 0, 0], load_of [20, 0, 5, 90, 1, 0, 0, 2, 0, 0]])"
proof -
  have "demo_cpu_files QCOM_LINUX_CPU_STAT_NODE = Some (stat_file ''cpu'' demo_stat ''intr'')"
    by (simp add: demo_cpu_files_def)
  moreover have "\<forall>k<length demo_stat. length (stat_line k (demo_stat ! k)) < 255"
    by (auto simp: demo_stat_def stat_line_def show_u.simps less_Suc_eq)
  ultimately show ?thesis
    using cpu_stat_reads_back [of demo_cpu_files "''cpu''" demo_stat "''intr''" "[zero_load, zero_load]"]
    by (simp add: demo_stat_def)
qed

text \<open>Connecting the CPU backend registers one capability with two total metrics and, for each core,
  four metrics plus the frequency limit where its node can be read: pairwise distinct identifiers, in
  the layout of \<open>qcom_linux_cpu_info\<close>, every length field within its array. It does so exactly when the
  core count is readable and at most 18, the capacities are readable and not all zero, and both
  allocations succeed; otherwise nothing stays registered.\<close>

theorem cpu_init_registers_cores:
  assumes "cpu_util_get_num_cores fs 0 = (ret, n)"
  shows "\<exists>rc s'. qcom_linux_cpu_init fs s = Ret (rc, s') \<and>
     (rc = SUCCESS \<longleftrightarrow> ret = SUCCESS \<and> unat n \<le> 18 \<and> fst (cpu_util_get_total_capacity fs) = SUCCESS \<and>
        fst (calloc_ok (sn_faults s)) \<and> fst (calloc_ok (snd (calloc_ok (sn_faults s))))) \<and>
     (if rc = SUCCESS then cpu_registered fs (unat n) s' \<and> distinct (cpu_table_ids fs (unat n))
      else bi_capabilities_list (g_backend_info s') = None \<and> bi_capabilities_list_length (g_backend_info s') = 0)"
proof -
  obtain rc s' where r: "qcom_linux_cpu_init fs s = Ret (rc, s')"
    "rc = SUCCESS \<longleftrightarrow> ret = SUCCESS \<and> unat n \<le> 18 \<and> fst (cpu_util_get_total_capacity fs) = SUCCESS \<and>
        fst (calloc_ok (sn_faults s)) \<and> fst (calloc_ok (snd (calloc_ok (sn_faults s))))"
    "if rc = SUCCESS then cpu_registered fs (unat n) s'
      else bi_capabilities_list (g_backend_info s') = None \<and> bi_capabilities_list_length (g_backend_info s') = 0"
    using cpu_init_total [OF assms, of s] by blast
  have "rc = SUCCESS \<longrightarrow> distinct (cpu_table_ids fs (unat n))" using r(2) cpu_table_ids_distinct by simp
  then show ?thesis using r by (cases "rc = SUCCESS") auto
qed

theorem cpu_init_registers_cores_witness:
  "\<exists>s'. qcom_linux_cpu_init demo_cpu_files (initial_session []) = Ret (SUCCESS, s') \<and> cpu_registered demo_cpu_files 2 s'"
  using cpu_init_registers_cores [OF demo_cpu_cores, of "initial_session []"] demo_capacity by (auto simp: initial_session_def)

text \<open>Whatever the kernel's files hold and however calls of the client and steps of the thread
  interleave, a CPU session whose client starts only when no thread is left never runs into a hazard: no
  array is left, nothing is divided by zero, no freed table is read, and \<open>stop\<close> never waits for ever.\<close>

theorem cpu_sessions_never_stuck:
  assumes "cpu_registered fs n s" and "n \<le> 18" and "sn_threads s = []" and "\<not> g_is_thread_running s"
    and "session_run (session_step qcom_linux_cpu_start qcom_linux_cpu_stop cpu_thread cpu_thread_iterate) evs s = Some s'"
    and "disciplined ev s'"
  shows "\<exists>s''. session_step qcom_linux_cpu_start qcom_linux_cpu_stop cpu_thread cpu_thread_iterate ev s' = Ret s''"
proof -
  have "cpu_tables_ok s" using assms(1,2) by (auto simp: cpu_tables_ok_def cpu_table_def)
  moreover have "orderly s" "all_ended s" using assms(3,4) by (simp_all add: orderly_def stoppable_def all_ended_def)
  ultimately have "cpu_live.live s" by (intro cpu_live.live_idle)
  from cpu_live.live_step [OF cpu_live.live_run [OF this assms(5)] assms(6)] show ?thesis by blast
qed

theorem cpu_sessions_never_stuck_witness:
  "\<exists>s1 s2. session_run (session_step qcom_linux_cpu_start qcom_linux_cpu_stop cpu_thread cpu_thread_iterate)
       [CallStart (Some demo_cpu_request)] demo_cpu = Some s1 \<and> sn_threads s1 = [Spawned (Some demo_cpu_request)] \<and>
     session_step qcom_linux_cpu_start qcom_linux_cpu_stop cpu_thread cpu_thread_iterate (Begin (demo_cpu_env 3) 0) s1 = Ret s2"
proof -
  obtain s1 where s1: "qcom_linux_cpu_start (Some demo_cpu_request) demo_cpu = Ret (SUCCESS, s1)"
    "sn_threads s1 \<noteq> sn_threads demo_cpu \<longrightarrow> sn_threads s1 = sn_threads demo_cpu @ [Spawned (Some demo_cpu_request)]"
    using cpu_start_code [OF demo_cpu_facts(1), of demo_cpu_request] by auto
  have "sn_threads s1 \<noteq> sn_threads demo_cpu" using cpu_start_law [OF s1(1)] by (auto simp: spawned_def)
  then have t: "sn_threads s1 = [Spawned (Some demo_cpu_request)]" using s1(2) by simp
  have r: "session_run (session_step qcom_linux_cpu_start qcom_linux_cpu_stop cpu_thread cpu_thread_iterate)
       [CallStart (Some demo_cpu_request)] demo_cpu = Some s1"
    using s1(1) by (simp add: all_ended_def)
  show ?thesis
    using cpu_sessions_never_stuck [OF demo_cpu_facts(1) _ demo_cpu_facts(5,4) r, of "Begin (demo_cpu_env 3) 0"] r t
    by (auto simp del: session_run.simps session_step.simps)
qed

text \<open>The identifiers in the table of the backend.\<close>

definition cpu_registered_ids :: "cpu_state \<Rightarrow> u16 list" where
  "cpu_registered_ids s =
     (case bi_capabilities_list (g_backend_info s) of
        Some [c] \<Rightarrow> (case ci_metric_ids_list c of
                      Some ms \<Rightarrow> map mi_metric_id (take (unat (ci_metric_ids_list_len c)) ms) | None \<Rightarrow> [])
      | _ \<Rightarrow> [])"

lemma cpu_registered_ids_table: "cpu_registered fs n s \<Longrightarrow> cpu_registered_ids s = cpu_table_ids fs n"
  by (auto simp: cpu_registered_def cpu_entry_def cpu_registered_ids_def)

lemma cpu_reference_ids:
  "\<forall>e \<in> set es. set (cpu_table_ids (env_files (snd e)) (unat n)) \<subseteq> I \<Longrightarrow>
     r \<in> set (reference_readings (cpu_out caps tc n) es a) \<Longrightarrow> fst r \<in> I"
proof (induction es arbitrary: a)
  case (Cons e es)
  obtain e1 e2 where e: "e = (e1, e2)" by (cases e)
  have "fst ` set (fst (cpu_out caps tc n e a)) = set (cpu_table_ids (env_files (snd e)) (unat n))"
    by (cases a) (simp add: e cpu_out_def Let_def round_readings_ids flip: set_map)
  then have "r \<in> set (fst (cpu_out caps tc n e a)) \<Longrightarrow> fst r \<in> I" using Cons.prems(1) by fastforce
  then show ?case using Cons.IH [of "snd (cpu_out caps tc n e a)"] Cons.prems by auto
qed simp

text \<open>C15: The CPU thread reports exactly the readings of the reference: as long as the cores counted when it starts
  and the frequency limits readable in a round are ones that were registered, the batches handed to the callback over any sequence of rounds,
  followed by what is still buffered, are the readings of the rounds in order, with the identifiers of
  registered metrics only, the time of the second snapshot, and the figures computed from the two
  snapshots. Nothing is lost, duplicated or reordered, and no empty batch is delivered.\<close>

theorem cpu_thread_equals_reference:
  assumes "cpu_registered fs n s" and "n \<le> 18" and "cpu_request_code rq = SUCCESS" and "g_data_callback s = Some cb"
    and "cpu_thread_entry env (Some rq) s = Ret (Some l, s1)"
    and "\<forall>e \<in> set es. set (cpu_table_ids (env_files (snd e)) (unat (cl_num_cores l))) \<subseteq> set (cpu_registered_ids s)"
  shows "\<exists>l' s' bs rest. run_rounds cpu_round es l s1 = Ret (l', s') \<and> sn_data s' = sn_data s @ bs \<and>
     filled (cl_total_responses l') (pd_metric_response (cl_data l'), cl_position l') rest \<and>
     concat (map (\<lambda>d. batch_readings (snd d)) bs) @ rest =
       reference_readings (cpu_out (cl_cpu_capacity l) (cl_total_capacity l) (cl_num_cores l)) es
         (replicate (unat (cl_num_cores l)) zero_load, replicate (unat (cl_num_cores l)) zero_load, 0) \<and>
     (\<forall>r \<in> set (concat (map (\<lambda>d. batch_readings (snd d)) bs) @ rest). fst r \<in> set (cpu_registered_ids s)) \<and>
     (\<forall>d \<in> set bs. fst d = cb \<and> batch_readings (snd d) \<noteq> [] \<and> pd_backend_id (snd d) = 1 \<and>
        pd_capability_id (snd d) = rq_capability_id rq)"
proof -
  note e = cpu_entry_between [OF assms(1,2,3,5)]
  have f: "g_data_callback s1 = Some cb" "sn_data s1 = sn_data s" using cpu_entry_law [OF assms(5)] assms(4) by simp_all
  have n: "unat (cl_num_cores l) \<le> 18" using e by (simp add: cpu_between_def cpu_inv_def)
  have "length (cpu_table_ids (env_files (snd e)) (unat (cl_num_cores l))) \<le> length (cpu_table_ids fs n)" if "e \<in> set es" for e
    using assms(6) that card_mono [of "set (cpu_table_ids fs n)" "set (cpu_table_ids (env_files (snd e)) (unat (cl_num_cores l)))"]
      distinct_card [OF cpu_table_ids_distinct [OF n]] distinct_card [OF cpu_table_ids_distinct [OF assms(2)]]
    by (simp add: cpu_registered_ids_table [OF assms(1)])
  then obtain l' s' bs rest where r: "run_rounds cpu_round es l s1 = Ret (l', s')" "sn_data s' = sn_data s @ bs"
    "filled (cl_total_responses l') (pd_metric_response (cl_data l'), cl_position l') rest"
    "concat (map (\<lambda>d. batch_readings (snd d)) bs) @ rest =
       reference_readings (cpu_out (cl_cpu_capacity l) (cl_total_capacity l) (cl_num_cores l)) es
         (replicate (unat (cl_num_cores l)) zero_load, replicate (unat (cl_num_cores l)) zero_load, 0)"
    "\<forall>d \<in> set bs. fst d = cb \<and> batch_readings (snd d) \<noteq> [] \<and> pd_backend_id (snd d) = 1 \<and> pd_capability_id (snd d) = rq_capability_id rq"
    using cpu_loop.rounds_law [of "length (cpu_table_ids fs n)" l "[]" s1 es] e f
    by (fastforce simp: cpu_fits_def cpu_delivered_def cpu_between_def cpu_inv_def)
  have "\<forall>r \<in> set (concat (map (\<lambda>d. batch_readings (snd d)) bs) @ rest). fst r \<in> set (cpu_registered_ids s)"
    unfolding r(4) using cpu_reference_ids [OF assms(6)] by blast
  with r show ?thesis by blast
qed

theorem cpu_thread_equals_reference_witness:
  "\<exists>l s1 l' s' bs rest. cpu_thread_entry (demo_cpu_env 1) (Some demo_cpu_request) demo_cpu = Ret (Some l, s1) \<and>
     run_rounds cpu_round [(demo_cpu_env 2, demo_cpu_env 3)] l s1 = Ret (l', s') \<and> sn_data s' = sn_data demo_cpu @ bs \<and>
     concat (map (\<lambda>d. batch_readings (snd d)) bs) @ rest =
       reference_readings (cpu_out (cl_cpu_capacity l) (cl_total_capacity l) (cl_num_cores l)) [(demo_cpu_env 2, demo_cpu_env 3)]
         (replicate (unat (cl_num_cores l)) zero_load, replicate (unat (cl_num_cores l)) zero_load, 0)"
proof -
  obtain l s1 where l: "cpu_thread_entry (demo_cpu_env 1) (Some demo_cpu_request) demo_cpu = Ret (Some l, s1)"
    using cpu_entry_runs [OF demo_cpu_facts(1) demo_cpu_request_ok demo_cpu_facts(3), of "demo_cpu_env 1" 2 1024]
      demo_cpu_cores demo_capacity by (auto simp: demo_cpu_env_def)
  have "cl_num_cores l = 2"
    using cpu_entry_between [OF demo_cpu_facts(1) _ demo_cpu_request_ok l] demo_cpu_cores by (simp add: demo_cpu_env_def)
  then have fits: "\<forall>e \<in> set [(demo_cpu_env 2, demo_cpu_env 3)].
      set (cpu_table_ids (env_files (snd e)) (unat (cl_num_cores l))) \<subseteq> set (cpu_registered_ids demo_cpu)"
    by (simp add: demo_cpu_env_def cpu_registered_ids_table [OF demo_cpu_facts(1)])
  have le: "(2 :: nat) \<le> 18" by simp
  show ?thesis
    using cpu_thread_equals_reference [OF demo_cpu_facts(1) le demo_cpu_request_ok demo_cpu_facts(2) l fits] l by blast
qed

text \<open>C16: If no counter of \<open>/proc/stat\<close> runs backwards between two snapshots and the capacities add up to
  the total, every figure is a percentage: per core the utilisation is the effective utilisation plus the
  steal time and at most 100, and so the two capacity-weighted totals satisfy
  \<open>0 \<le> effective \<le> utilisation \<le> 100\<close>.\<close>

theorem cpu_figures_within_range:
  assumes "length (cl_load_prev l) = n" and "length (cl_load_curr l) = n" and "length sms = n" and "n \<le> length (cl_cpu_capacity l)"
    and "\<forall>k<n. \<exists>xs ys. cl_load_prev l ! k = load_of xs \<and> cl_load_curr l ! k = load_of ys \<and> counters_grow xs ys"
    and "(\<Sum>k<n. unat (cl_cpu_capacity l ! k)) = unat (cl_total_capacity l)"
  shows "\<exists>sms' tu te. cpu_core_loop fs l 0 n sms 0 0 = Ret (sms', tu, te) \<and> 0 \<le> te \<and> te \<le> tu \<and> tu \<le> 100 \<and>
     (\<forall>k<n. 0 \<le> sm_eff_utilization (sms' ! k) \<and> 0 \<le> sm_steal_time (sms' ! k) \<and> sm_utilization (sms' ! k) \<le> 100 \<and>
        sm_utilization (sms' ! k) = sm_eff_utilization (sms' ! k) + sm_steal_time (sms' ! k))"
proof -
  let ?p = "cl_load_prev l" let ?c = "cl_load_curr l" let ?w = "weighted (cl_cpu_capacity l) (cl_total_capacity l)"
  have k: "0 \<le> eff_utilization_of ?p ?c k \<and> 0 \<le> steal_of ?p ?c k \<and> utilization_of ?p ?c k \<le> 100 \<and>
      eff_utilization_of ?p ?c k + steal_of ?p ?c k = utilization_of ?p ?c k" if lt: "k < n" for k
  proof -
    obtain xs ys where "?p ! k = load_of xs" "?c ! k = load_of ys" "counters_grow xs ys" using assms(5) lt by blast
    then show ?thesis
      using core_usage_range [of xs ys] by (simp add: utilization_of_def eff_utilization_of_def steal_of_def)
  qed
  obtain sms' where r: "cpu_core_loop fs l 0 n sms 0 0 = Ret (sms', ?w (utilization_of ?p ?c) n, ?w (eff_utilization_of ?p ?c) n)"
    "\<forall>k. 0 \<le> k \<longrightarrow> k < 0 + n \<longrightarrow> shows_sample fs ?p ?c (sms' ! k) k"
    using cpu_core_loop_result [of 0 n sms l 0 0 fs] assms(1-4) by auto
  have "?w (\<lambda>k. 0) n \<le> ?w (eff_utilization_of ?p ?c) n" by (rule weighted_mono) (use k in blast)
  moreover have "?w (eff_utilization_of ?p ?c) n \<le> ?w (utilization_of ?p ?c) n" by (rule weighted_mono) (use k in fastforce)
  moreover have "?w (utilization_of ?p ?c) n \<le> ?w (\<lambda>k. 100) n" by (rule weighted_mono) (use k in blast)
  moreover have "?w (\<lambda>k. 100) n \<le> 100" by (rule weighted_const [OF assms(6)]) simp
  moreover have "?w (\<lambda>k. 0) n = 0" by (simp add: weighted_def)
  ultimately show ?thesis using r k by (auto simp: shows_sample_def)
qed

theorem cpu_figures_within_range_witness:
  "\<exists>sms' tu te. cpu_core_loop demo_cpu_files demo_cpu_local 0 2 [zero_sample, zero_sample] 0 0 = Ret (sms', tu, te) \<and>
     0 \<le> te \<and> te \<le> tu \<and> tu \<le> 100"
proof -
  have g: "counters_grow (replicate 10 0) [10, 0, 5, 100, 1, 0, 0, 2, 0, 0]" "counters_grow (replicate 10 0) [20, 0, 5, 90, 1, 0, 0, 2, 0, 0]"
    by (auto simp: counters_grow_def less_Suc_eq numeral_eq_Suc)
  have "\<forall>k<2. \<exists>xs ys. cl_load_prev demo_cpu_local ! k = load_of xs \<and> cl_load_curr demo_cpu_local ! k = load_of ys \<and> counters_grow xs ys"
    using g by (auto simp: demo_cpu_local_def less_2_cases_iff intro!: exI)
  moreover have "{..<2 :: nat} = {0, 1}" by auto
  then have "(\<Sum>k<2. unat (cl_cpu_capacity demo_cpu_local ! k)) = unat (cl_total_capacity demo_cpu_local)"
    by (simp add: demo_cpu_local_def)
  ultimately show ?thesis
    using cpu_figures_within_range [of demo_cpu_local 2 "[zero_sample, zero_sample]" demo_cpu_files]
    by (fastforce simp: demo_cpu_local_def)
qed

end
