(* ===== verification/LinuxCpuLive.thy ===== *)
theory LinuxCpuLive
  imports LinuxCpuLaws Service
begin

text \<open>
  The Linux CPU backend as the core sees it: the functions \<open>qcperf_qcom_linux_cpu_create\<close> installs, over
  the sessions of \<open>LinuxCpuLaws\<close>, are a \<open>served_session\<close>.
\<close>

definition cpu_ops :: "sample_env \<Rightarrow> cpu_state QcPerfBackendPrivate" where
  "cpu_ops e = created (qcperf_qcom_linux_cpu_create e)"

lemma cpu_ops_simps [simp]:
  "qcperf_backend_init (cpu_ops e) = Some (qcom_linux_cpu_init (env_files e))"
  "qcperf_backend_start (cpu_ops e) = Some qcom_linux_cpu_start"
  "qcperf_backend_stop (cpu_ops e) = Some (qcom_linux_cpu_stop e)"
  "qcperf_backend_deinit (cpu_ops e) = Some (\<lambda>s. Ret (qcom_linux_cpu_deinit s))"
  "qcperf_backend_info (cpu_ops e) = Some (\<lambda>i s. Ret (qcom_linux_cpu_backend_info i s))"
  "set_message_callback (cpu_ops e) = Some (\<lambda>cb s. Ret (qcom_linux_cpu_set_message_callback cb s))"
  "set_data_callback (cpu_ops e) = Some (\<lambda>cb s. Ret (qcom_linux_cpu_set_data_callback cb s))"
  by (simp_all add: cpu_ops_def created_def qcperf_qcom_linux_cpu_create_def)

lemma cpu_light:
  assumes "g_backend_info s' = g_backend_info s" "same_control s s'"
  shows "keeps cpu_good cpu_lok s s'" "cpu_tables_ok s' = cpu_tables_ok s"
  using cpu_tables_cong [OF assms(1)] assms(2) by (simp_all add: keeps_def same_control_def)

lemma cpu_pointer_light:
  assumes "\<exists>rc s'. f s = (rc, s') \<and> g_backend_info s' = g_backend_info s \<and> same_control s s'" and "cpu_tables_ok s"
  shows "\<exists>rc s'. Ret (f s) = Ret (rc, s') \<and> same_control s s' \<and> cpu_tables_ok s' \<and> keeps cpu_good cpu_lok s s'"
proof -
  obtain rc s' where s': "f s = (rc, s')" "g_backend_info s' = g_backend_info s" "same_control s s'" using assms(1) by blast
  show ?thesis using s'(1) cpu_light [OF s'(2-)] s'(3) assms(2) by (intro exI [of _ rc] exI [of _ s']) simp
qed

lemma cpu_message_light:
  "\<exists>rc s'. qcom_linux_cpu_set_message_callback cb s = (rc, s') \<and> g_backend_info s' = g_backend_info s \<and> same_control s s'"
  by (simp add: qcom_linux_cpu_set_message_callback_def same_control_def)

lemma cpu_data_light:
  "\<exists>rc s'. qcom_linux_cpu_set_data_callback cb s = (rc, s') \<and> g_backend_info s' = g_backend_info s \<and> same_control s s'"
  by (simp add: qcom_linux_cpu_set_data_callback_def same_control_def)

lemma cpu_info_light: "\<exists>rc i'. qcom_linux_cpu_backend_info i s = (rc, i', s)"
  by (cases i) (simp_all add: qcom_linux_cpu_backend_info_def)

lemma cpu_init_ready: "\<exists>rc s'. qcom_linux_cpu_init fs s = Ret (rc, s') \<and> same_control s s' \<and> cpu_tables_ok s'"
proof -
  obtain ret n where n: "cpu_util_get_num_cores fs 0 = (ret, n)" by (cases "cpu_util_get_num_cores fs 0")
  obtain rc s' where s': "qcom_linux_cpu_init fs s = Ret (rc, s')" "same_control s s'" "rc = SUCCESS \<longrightarrow> unat n \<le> 18"
    "if rc = SUCCESS then cpu_registered fs (unat n) s'
     else bi_capabilities_list (g_backend_info s') = None \<and> bi_capabilities_list_length (g_backend_info s') = 0"
    using cpu_init_total [OF n, of s] by blast
  then have "cpu_tables_ok s'" by (cases "rc = SUCCESS") (auto simp: cpu_tables_ok_def cpu_table_def no_table_def)
  then show ?thesis using s'(1,2) by blast
qed

lemma cpu_deinit_ready: "\<exists>rc s'. qcom_linux_cpu_deinit s = (rc, s') \<and> same_control s s' \<and> cpu_tables_ok s'"
  by (simp add: qcom_linux_cpu_deinit_def qcom_linux_cpu_free_def same_control_def cpu_tables_ok_def no_table_def)

interpretation cpu_service: served_session qcom_linux_cpu_start qcom_linux_cpu_stop cpu_thread cpu_thread_iterate
  orderly disciplined cpu_tables_ok cpu_good cpu_lok cpu_ops "\<lambda>e. e" "\<lambda>s. all_ended s \<or> g_is_thread_running s"
proof unfold_locales
  fix s s' :: cpu_state
  assume "same_control s s'" "orderly s"
  then show "orderly s'" using orderly_cong by blast
next
  fix f g cb s
  assume "set_message_callback (cpu_ops f) = Some g" "cpu_tables_ok s"
  then show "\<exists>rc s'. g cb s = Ret (rc, s') \<and> same_control s s' \<and> cpu_tables_ok s' \<and> keeps cpu_good cpu_lok s s'"
    using cpu_pointer_light [of "qcom_linux_cpu_set_message_callback cb" s, OF cpu_message_light] by clarsimp
next
  fix f g cb s
  assume "set_data_callback (cpu_ops f) = Some g" "cpu_tables_ok s"
  then show "\<exists>rc s'. g cb s = Ret (rc, s') \<and> same_control s s' \<and> cpu_tables_ok s' \<and> keeps cpu_good cpu_lok s s'"
    using cpu_pointer_light [of "qcom_linux_cpu_set_data_callback cb" s, OF cpu_data_light] by clarsimp
next
  fix f h i s
  assume "qcperf_backend_info (cpu_ops f) = Some h" "cpu_tables_ok s"
  then show "\<exists>rc i' s'. h i s = Ret (rc, i', s') \<and> same_control s s' \<and> cpu_tables_ok s' \<and> keeps cpu_good cpu_lok s s'"
    using cpu_info_light [of i s] by (auto simp: same_control_def keeps_def)
qed (use cpu_init_ready cpu_deinit_ready in \<open>auto simp: all_pointers_set_def\<close>)

end
