(* ===== verification/LinuxGpu.thy ===== *)
theory LinuxGpu
  imports Session OsUtils Core
begin

text \<open>
  The Linux GPU backend, \<open>backends/qcom-linux-gpu\<close>: the sysfs readers of \<open>qcom_linux_gpu_utils.c\<close>, the
  metric table of \<open>qcom_linux_gpu_info.c\<close>, and the seven operations and the sampling thread of
  \<open>qcom_linux_gpu.c\<close>. Theorems are in \<open>LinuxGpuProps\<close>.
\<close>

section \<open>Reading sysfs\<close>

abbreviation (input) QCOM_LINUX_GPU_SYSFS_ROOT :: string where
  "QCOM_LINUX_GPU_SYSFS_ROOT \<equiv> ''/sys/class/kgsl/kgsl-3d0''"
abbreviation (input) QCOM_LINUX_GPU_BUSY_NODE :: string where
  "QCOM_LINUX_GPU_BUSY_NODE \<equiv> ''gpu_busy_percentage''"
abbreviation (input) QCOM_LINUX_GPU_CLOCK_NODE :: string where
  "QCOM_LINUX_GPU_CLOCK_NODE \<equiv> ''gpuclk''"

text \<open>The second component is what \<open>*value\<close> holds afterwards.\<close>

definition read_sysfs_value ::
  "filesystem \<Rightarrow> string option \<Rightarrow> string option \<Rightarrow> double option \<Rightarrow> QcPerfReturnCode \<times> double option" where
  "read_sysfs_value fs sysfs_root node val =
     (case (sysfs_root, val, node) of
        (Some dir, Some v, Some n) \<Rightarrow>
          (let path = dir @ ''/'' @ n
           in if length path < 256
              then (case fs path of
                      None \<Rightarrow> (FAILED, val)
                    | Some content \<Rightarrow> (case scan_lf content of
                                         Some (x, _) \<Rightarrow> (SUCCESS, Some x)
                                       | None \<Rightarrow> (FAILED, val)))
              else (FAILED, val))
      | _ \<Rightarrow> (NULL_POINTER, val))"

definition qcom_linux_gpu_util_read_utilization ::
  "filesystem \<Rightarrow> string option \<Rightarrow> double option \<Rightarrow> QcPerfReturnCode \<times> double option" where
  "qcom_linux_gpu_util_read_utilization fs sysfs_root percent =
     read_sysfs_value fs sysfs_root (Some QCOM_LINUX_GPU_BUSY_NODE) percent"

definition qcom_linux_gpu_util_read_clock_mhz ::
  "filesystem \<Rightarrow> string option \<Rightarrow> double option \<Rightarrow> QcPerfReturnCode \<times> double option" where
  "qcom_linux_gpu_util_read_clock_mhz fs sysfs_root mhz =
     (case mhz of
        None \<Rightarrow> (NULL_POINTER, None)
      | Some m \<Rightarrow>
          (case read_sysfs_value fs sysfs_root (Some QCOM_LINUX_GPU_CLOCK_NODE) (Some 0) of
             (ret, hz) \<Rightarrow> (ret, Some (if ret = SUCCESS then (case hz of Some h \<Rightarrow> h / 1000000 | None \<Rightarrow> m) else m))))"

section \<open>The metric table\<close>

abbreviation (input) LINUX_GPU_CAPABILITY_0_ID :: u8 where "LINUX_GPU_CAPABILITY_0_ID \<equiv> 0"
abbreviation (input) LINUX_GPU_CAPABILITIES_LEN :: nat where "LINUX_GPU_CAPABILITIES_LEN \<equiv> 1"
abbreviation (input) LINUX_GPU_CAPABILITY_0_METRIC_COUNT :: nat where "LINUX_GPU_CAPABILITY_0_METRIC_COUNT \<equiv> 2"
abbreviation (input) LINUX_GPU_METRIC_UTILIZATION :: nat where "LINUX_GPU_METRIC_UTILIZATION \<equiv> 0"
abbreviation (input) LINUX_GPU_METRIC_CLOCK :: nat where "LINUX_GPU_METRIC_CLOCK \<equiv> 1"

definition gpu_streaming_rates :: "u16 list" where
  "gpu_streaming_rates = [100, 200, 300, 400, 500, 600, 700, 800, 900, 1000]"

definition gpu_sampling_rates :: "u16 list" where
  "gpu_sampling_rates = [1, 5, 10, 50, 100, 200]"

definition k_metrics :: "(string \<times> string \<times> string) list" where
  "k_metrics = [(''GPU Utilization'', ''Percentage of time the GPU was busy'', ''%''),
                (''GPU Clock'', ''Current GPU clock frequency'', ''MHz'')]"

fun gpu_metrics_from :: "nat \<Rightarrow> nat \<Rightarrow> QcPerfMetricInfo list \<Rightarrow> QcPerfMetricInfo list outcome" where
  "gpu_metrics_from i 0 ms = Ret ms"
| "gpu_metrics_from i (Suc n) ms =
     obind (arr_read k_metrics i) (\<lambda>(nm, d, u).
       obind (arr_write ms i (set_metric_info (of_nat i) nm d u)) (\<lambda>ms'. gpu_metrics_from (Suc i) n ms'))"

definition linux_gpu_capability_0_init_metrics :: "QcPerfMetricInfo list \<Rightarrow> QcPerfMetricInfo list outcome" where
  "linux_gpu_capability_0_init_metrics metrics_data = gpu_metrics_from 0 LINUX_GPU_CAPABILITY_0_METRIC_COUNT metrics_data"

section \<open>State\<close>

record gpu_local =
  gl_request :: QcPerfRequest
  gl_streaming_rate_ns :: u64
  gl_samples_per_stream :: u32
  gl_capacity :: u32
  gl_data :: QcPerfData
  gl_now :: u64
  gl_last_stream_time :: u64
  gl_sample_count :: u32
  gl_slept :: nat

record gpu_state = "gpu_local session" +
  g_metrics_data :: "QcPerfMetricInfo list"

definition initial_gpu :: "oom \<Rightarrow> gpu_state" where
  "initial_gpu faults = session.extend (initial_session faults)
     \<lparr>g_metrics_data = replicate LINUX_GPU_CAPABILITY_0_METRIC_COUNT zero_metric_info\<rparr>"

definition gpu_send_message :: "QcPerfMessageLevel \<Rightarrow> string \<Rightarrow> gpu_state \<Rightarrow> gpu_state" where
  "gpu_send_message level txt s = (if length txt > 0 then post_message (message_clamped 0 level txt) s else s)"

definition GPU_SEND :: "QcPerfMessageLevel \<Rightarrow> string \<Rightarrow> gpu_state \<Rightarrow> gpu_state" where
  "GPU_SEND level txt s = (if g_message_callback s \<noteq> None then gpu_send_message level txt s else s)"

section \<open>Operations\<close>

definition rate_in_list :: "u16 list option \<Rightarrow> u8 \<Rightarrow> u16 \<Rightarrow> bool outcome" where
  "rate_in_list list len rate = (case list of None \<Rightarrow> Ret False | Some rs \<Rightarrow> rate_scan rate (unat len) rs)"

definition gpu_validate_request :: "QcPerfRequest option \<Rightarrow> gpu_state \<Rightarrow> (QcPerfReturnCode \<times> gpu_state) outcome" where
  "gpu_validate_request request s =
     (case request of
        None \<Rightarrow> Ret (NULL_POINTER, s)
      | Some rq \<Rightarrow>
          if rq_capability_id rq \<noteq> LINUX_GPU_CAPABILITY_0_ID
          then Ret (CAPABILITY_NOT_FOUND,
                 GPU_SEND LEVEL_ERROR (''Capability ID '' @ show_u (unat (rq_capability_id rq)) @ '' not found'') s)
          else obind (rate_in_list (Some gpu_sampling_rates) 6 (rq_sampling_rate rq)) (\<lambda>sampling_ok.
            if \<not> sampling_ok
            then Ret (INVALID_ARGUMENTS, GPU_SEND LEVEL_ERROR (''Invalid sampling rate '' @ show_u (unat (rq_sampling_rate rq))) s)
            else obind (rate_in_list (Some gpu_streaming_rates) 10 (rq_streaming_rate rq)) (\<lambda>streaming_ok.
              if \<not> streaming_ok
              then Ret (INVALID_ARGUMENTS, GPU_SEND LEVEL_ERROR (''Invalid streaming rate '' @ show_u (unat (rq_streaming_rate rq))) s)
              else Ret (SUCCESS, s))))"

definition qcom_linux_gpu_set_message_callback :: "callback \<Rightarrow> gpu_state \<Rightarrow> QcPerfReturnCode \<times> gpu_state" where
  "qcom_linux_gpu_set_message_callback cb s = (SUCCESS, s\<lparr>g_message_callback := cb\<rparr>)"

definition qcom_linux_gpu_set_data_callback :: "callback \<Rightarrow> gpu_state \<Rightarrow> QcPerfReturnCode \<times> gpu_state" where
  "qcom_linux_gpu_set_data_callback cb s =
     (if cb = None then (INVALID_ARGUMENTS, s)
      else if g_data_callback s \<noteq> None then (CALLBACK_ALREADY_SET, s)
      else (SUCCESS, s\<lparr>g_data_callback := cb\<rparr>))"

text \<open>\<open>cap->streaming_rate[cap->streaming_rate_len++] = rates[i]\<close> over the rates.\<close>

fun append_rates :: "u16 list \<Rightarrow> nat \<Rightarrow> u16 list \<times> u8 \<Rightarrow> (u16 list \<times> u8) outcome" where
  "append_rates [] i acc = Ret acc"
| "append_rates (r # rs) i (a, n) =
     (if i < MAX_SAMPLING_STREAMING_RATES_LEN
      then obind (arr_write a (unat n) r) (\<lambda>a'. append_rates rs (Suc i) (a', n + 1))
      else Ret (a, n))"

definition gpu_fill_capability :: "QcPerfMetricInfo list \<Rightarrow> QcPerfCapabilityInfo \<Rightarrow> QcPerfCapabilityInfo outcome" where
  "gpu_fill_capability ms c =
     obind (append_rates gpu_streaming_rates 0 (ci_streaming_rate c, ci_streaming_rate_len c)) (\<lambda>(st, stn).
     obind (append_rates gpu_sampling_rates 0 (ci_sampling_rate c, ci_sampling_rate_len c)) (\<lambda>(sa, san).
       Ret (c\<lparr>ci_capability_id := LINUX_GPU_CAPABILITY_0_ID,
              ci_name := snprintf_buf CAPABILITY_NAME_MAX_LEN ''gpu'',
              ci_name_len := length (snprintf_buf CAPABILITY_NAME_MAX_LEN ''gpu''),
              ci_metric_ids_list := Some ms, ci_metric_ids_list_len := of_nat LINUX_GPU_CAPABILITY_0_METRIC_COUNT,
              ci_streaming_rate := st, ci_streaming_rate_len := stn,
              ci_sampling_rate := sa, ci_sampling_rate_len := san\<rparr>)))"

definition qcom_linux_gpu_init :: "filesystem \<Rightarrow> gpu_state \<Rightarrow> (QcPerfReturnCode \<times> gpu_state) outcome" where
  "qcom_linux_gpu_init fs s0 =
     (let s = GPU_SEND LEVEL_INFO ''Initializing qcom-linux-gpu backend'' s0
      in if fst (qcom_linux_gpu_util_read_utilization fs (Some QCOM_LINUX_GPU_SYSFS_ROOT) (Some 0)) \<noteq> SUCCESS
         then Ret (FAILED, GPU_SEND LEVEL_ERROR
                (''Cannot read '' @ QCOM_LINUX_GPU_SYSFS_ROOT @ ''/'' @ QCOM_LINUX_GPU_BUSY_NODE) s)
         else let (ok, s1) = alloc s
              in if \<not> ok
                 then Ret (CALLOC_FAILED, s1\<lparr>g_backend_info := (g_backend_info s1)\<lparr>bi_capabilities_list := None\<rparr>\<rparr>)
                 else obind (linux_gpu_capability_0_init_metrics (g_metrics_data s1)) (\<lambda>ms.
                   obind (gpu_fill_capability ms zero_capability) (\<lambda>c.
                     Ret (SUCCESS, GPU_SEND LEVEL_INFO ''qcom-linux-gpu backend initialized successfully''
                       (s1\<lparr>g_metrics_data := ms, sn_table := Suc (sn_table s1),
                           g_backend_info := \<lparr>bi_backend_id = of_nat (backend_index BACKEND_QCOM_LINUX_GPU),
                              bi_capabilities_list = Some [c],
                              bi_capabilities_list_length = of_nat LINUX_GPU_CAPABILITIES_LEN\<rparr>\<rparr>)))))"

definition qcom_linux_gpu_backend_info ::
  "QcPerfBackendInfo option \<Rightarrow> gpu_state \<Rightarrow> QcPerfReturnCode \<times> QcPerfBackendInfo option \<times> gpu_state" where
  "qcom_linux_gpu_backend_info info s =
     (case info of
        None \<Rightarrow> (NULL_POINTER, None, GPU_SEND LEVEL_ERROR ''Backend info is NULL'' s)
      | Some _ \<Rightarrow> (SUCCESS, Some (g_backend_info s), s))"

section \<open>The sampling thread\<close>

definition gpu_thread_entry ::
  "sample_env \<Rightarrow> QcPerfRequest option \<Rightarrow> gpu_state \<Rightarrow> (gpu_local option \<times> gpu_state) outcome" where
  "gpu_thread_entry env param s =
     (case param of
        None \<Rightarrow> Ret (None, (GPU_SEND LEVEL_ERROR ''Invalid thread parameter'' s)\<lparr>g_is_thread_running := False\<rparr>)
      | Some rq \<Rightarrow>
          obind (samples_per_stream rq) (\<lambda>sps.
            let capacity = sps * of_nat LINUX_GPU_CAPABILITY_0_METRIC_COUNT;
                (ok, s1) = alloc s;
                (ok2, s2) = (if ok then alloc s1 else (False, s1))
            in if \<not> ok \<or> \<not> ok2
               then Ret (None, (GPU_SEND LEVEL_ERROR ''Failed to allocate memory for performance data'' s2)
                                 \<lparr>g_is_thread_running := False\<rparr>)
               else let now = time_now (env_clock env) 0
                    in Ret (Some \<lparr>gl_request = rq, gl_streaming_rate_ns = ucast (rq_streaming_rate rq) * 1000000,
                                 gl_samples_per_stream = sps, gl_capacity = capacity,
                                 gl_data = \<lparr>pd_backend_id = of_nat (backend_index BACKEND_QCOM_LINUX_GPU),
                                            pd_capability_id = rq_capability_id rq,
                                            pd_metric_response = replicate (unat capacity) zero_response,
                                            pd_metric_response_len = 0\<rparr>,
                                 gl_now = now, gl_last_stream_time = now, gl_sample_count = 0, gl_slept = 0\<rparr>, s2)))"

text \<open>Appending the metrics that could be read: \<open>m\<close> is the index of the first of the readings left.\<close>

fun gpu_append ::
  "nat \<Rightarrow> double option list \<Rightarrow> QcPerfMetricInfo list \<Rightarrow> u64 \<Rightarrow> QcPerfData \<Rightarrow> QcPerfData outcome" where
  "gpu_append m [] ms now d = Ret d"
| "gpu_append m (v # vs) ms now d =
     (case v of
        None \<Rightarrow> gpu_append (Suc m) vs ms now d
      | Some x \<Rightarrow>
          obind (arr_read (pd_metric_response d) (pd_metric_response_len d)) (\<lambda>r.
          obind (arr_read ms m) (\<lambda>mi.
            gpu_append (Suc m) vs ms now
              (d\<lparr>pd_metric_response := (pd_metric_response d)[pd_metric_response_len d :=
                   \<lparr>mr_timestamp = now, mr_metric_id = mi_metric_id mi,
                    mr_metric_value = (mr_metric_value r)\<lparr>gt_data_type := TYPE_DOUBLE, gt_double_value := x\<rparr>\<rparr>],
                 pd_metric_response_len := Suc (pd_metric_response_len d)\<rparr>))))"

text \<open>The readings of one iteration: \<open>None\<close> where \<open>valid[m]\<close> is false.\<close>

definition gpu_readings :: "filesystem \<Rightarrow> double option list" where
  "gpu_readings fs =
     [case qcom_linux_gpu_util_read_utilization fs (Some QCOM_LINUX_GPU_SYSFS_ROOT) (Some 0) of
        (ret, v) \<Rightarrow> if ret = SUCCESS then v else None,
      case qcom_linux_gpu_util_read_clock_mhz fs (Some QCOM_LINUX_GPU_SYSFS_ROOT) (Some 0) of
        (ret, v) \<Rightarrow> if ret = SUCCESS then v else None]"

text \<open>The delivery at the end of an iteration; the data callback is called without a check.\<close>

definition gpu_flush :: "u64 \<Rightarrow> gpu_local \<Rightarrow> gpu_state \<Rightarrow> (gpu_local \<times> gpu_state) outcome" where
  "gpu_flush now l s =
     (let l = l\<lparr>gl_sample_count := gl_sample_count l + 1\<rparr>
      in if (gl_samples_per_stream l \<le> gl_sample_count l \<or> gl_streaming_rate_ns l \<le> now - gl_last_stream_time l)
            \<and> pd_metric_response_len (gl_data l) > 0
         then (case g_data_callback s of
                 None \<Rightarrow> Stuck BadDeref
               | Some cb \<Rightarrow> Ret (l\<lparr>gl_data := (gl_data l)\<lparr>pd_metric_response_len := 0\<rparr>,
                                   gl_sample_count := 0, gl_last_stream_time := now\<rparr>,
                                 s\<lparr>sn_data := sn_data s @ [(cb, gl_data l)]\<rparr>))
         else Ret (l, s))"

text \<open>Storing the readings of one iteration, if there are any and they fit.\<close>

definition gpu_sample :: "u64 \<Rightarrow> double option list \<Rightarrow> gpu_local \<Rightarrow> gpu_state \<Rightarrow> (gpu_local \<times> gpu_state) outcome" where
  "gpu_sample now vs l s =
     (if (\<exists>v \<in> set vs. v \<noteq> None) \<and>
         pd_metric_response_len (gl_data l) + LINUX_GPU_CAPABILITY_0_METRIC_COUNT \<le> unat (gl_capacity l)
      then obind (gpu_append 0 vs (g_metrics_data s) now (gl_data l)) (\<lambda>d. Ret (l\<lparr>gl_data := d\<rparr>, s))
      else Ret (l, GPU_SEND LEVEL_WARNING ''Failed to read GPU sysfs nodes'' s))"

definition gpu_thread_iterate ::
  "sample_env \<Rightarrow> gpu_local \<Rightarrow> gpu_state \<Rightarrow> (gpu_local \<times> gpu_state) outcome" where
  "gpu_thread_iterate env l s =
     (let now = time_now (env_clock env) (gl_now l)
      in obind (gpu_sample now (gpu_readings (env_files env)) (l\<lparr>gl_now := now\<rparr>) s) (\<lambda>(l1, s1).
         obind (gpu_flush now l1 s1) (\<lambda>(l2, s2).
           Ret (if g_is_thread_running s2
                then l2\<lparr>gl_slept := unat (rq_sampling_rate (gl_request l2)) * 1000\<rparr> else l2, s2))))"

definition gpu_thread_finish :: "gpu_local \<Rightarrow> gpu_state \<Rightarrow> gpu_state outcome" where
  "gpu_thread_finish l s = Ret s"

definition gpu_thread :: "sample_env \<Rightarrow> (gpu_local, gpu_state) thread_code" where
  "gpu_thread env = \<lparr>th_entry = gpu_thread_entry env, th_finish = gpu_thread_finish\<rparr>"

section \<open>Start, stop and deinitialisation\<close>

definition gpu_thread_attrs :: "QcPerfRequest \<Rightarrow> QThreadAttributes" where
  "gpu_thread_attrs rq =
     \<lparr>thread_name = snprintf_buf THREAD_NAME_SIZE ''qcperf_gpu_thread'',
      thread_name_len = of_nat (length (snprintf_buf THREAD_NAME_SIZE ''qcperf_gpu_thread'')),
      thread_priority = 0, thread_stack_size = 0, thread_params = Some rq\<rparr>"

definition qcom_linux_gpu_start :: "QcPerfRequest option \<Rightarrow> gpu_state \<Rightarrow> (QcPerfReturnCode \<times> gpu_state) outcome" where
  "qcom_linux_gpu_start request s =
     (case request of
        None \<Rightarrow> Ret (NULL_POINTER, s)
      | Some rq \<Rightarrow>
          obind (gpu_validate_request (Some rq) s) (\<lambda>(ret, s1).
            if ret \<noteq> SUCCESS then Ret (ret, GPU_SEND LEVEL_ERROR ''Request validation failed'' s1)
            else if g_data_callback s1 = None
            then Ret (FAILED, GPU_SEND LEVEL_ERROR ''Data callback is not set'' s1)
            else if th_handle (g_thread_info s1) \<noteq> NoThread
            then Ret (ALREADY_INITIALIZED, GPU_SEND LEVEL_WARNING ''Performance monitoring thread is already running'' s1)
            else let (thread_ret, s2) = spawn (gpu_thread_attrs rq) (s1\<lparr>g_is_thread_running := True\<rparr>)
                 in if thread_ret \<noteq> QTHREAD_CREATE_SUCCESS
                    then Ret (FAILED, (GPU_SEND LEVEL_ERROR ''Failed to create performance monitoring thread'' s2)
                                        \<lparr>g_is_thread_running := False\<rparr>)
                    else Ret (SUCCESS, s2)))"

definition qcom_linux_gpu_stop :: "sample_env \<Rightarrow> QcPerfRequest option \<Rightarrow> gpu_state \<Rightarrow> (QcPerfReturnCode \<times> gpu_state) outcome" where
  "qcom_linux_gpu_stop env request s =
     (case request of
        None \<Rightarrow> Ret (NULL_POINTER, s)
      | Some _ \<Rightarrow>
          if th_handle (g_thread_info s) \<noteq> NoThread
          then obind (thread_join (wait_exit (gpu_thread env)) (Some (g_thread_info s)) (s\<lparr>g_is_thread_running := False\<rparr>))
                 (\<lambda>(jr, s1).
                   let (ret1, s2) = (if jr \<noteq> QTHREAD_JOIN_SUCCESS
                                     then (FAILED, GPU_SEND LEVEL_ERROR ''Failed to join performance monitoring thread'' s1)
                                     else (SUCCESS, s1))
                   in obind (thread_destroy (Some (g_thread_info s2))) (\<lambda>(dr, ti).
                        let s3 = s2\<lparr>g_thread_info := (case ti of Some i \<Rightarrow> i | None \<Rightarrow> g_thread_info s2)\<rparr>
                        in Ret (if dr \<noteq> QTHREAD_DESTROY_SUCCESS
                                then (FAILED, GPU_SEND LEVEL_ERROR ''Failed to destroy performance monitoring thread'' s3)
                                else (ret1, s3))))
          else Ret (SUCCESS, s))"

definition qcom_linux_gpu_deinit :: "gpu_state \<Rightarrow> QcPerfReturnCode \<times> gpu_state" where
  "qcom_linux_gpu_deinit s =
     (SUCCESS, s\<lparr>g_backend_info := (g_backend_info s)\<lparr>bi_capabilities_list := None, bi_capabilities_list_length := 0\<rparr>,
                 g_data_callback := None\<rparr>)"

definition qcperf_qcom_linux_gpu_create :: "sample_env \<Rightarrow> gpu_state backend_init_t" where
  "qcperf_qcom_linux_gpu_create env backend =
     (case backend of
        None \<Rightarrow> (NULL_POINTER, None)
      | Some p \<Rightarrow> (SUCCESS, Some (p\<lparr>
          qcperf_backend_init := Some (qcom_linux_gpu_init (env_files env)),
          qcperf_backend_start := Some qcom_linux_gpu_start,
          qcperf_backend_stop := Some (qcom_linux_gpu_stop env),
          qcperf_backend_deinit := Some (\<lambda>s. Ret (qcom_linux_gpu_deinit s)),
          qcperf_backend_info := Some (\<lambda>i s. Ret (qcom_linux_gpu_backend_info i s)),
          set_message_callback := Some (\<lambda>cb s. Ret (qcom_linux_gpu_set_message_callback cb s)),
          set_data_callback := Some (\<lambda>cb s. Ret (qcom_linux_gpu_set_data_callback cb s))\<rparr>)))"

end
