(* ===== verification/LinuxGpuProps.thy ===== *)
theory LinuxGpuProps
  imports LinuxGpu SessionLaws
begin

text \<open>
  Correctness of the Linux GPU backend: what its sysfs readers return, when it connects, that its
  sampling thread delivers exactly the readings it could take, and that its sessions can always be
  stopped (the locale \<open>owned_backend\<close>).
\<close>

section \<open>Frames\<close>

lemma GPU_SEND_fields [simp]:
  "g_is_thread_running (GPU_SEND lv t s) = g_is_thread_running s"
  "g_thread_info (GPU_SEND lv t s) = g_thread_info s"
  "sn_threads (GPU_SEND lv t s) = sn_threads s"
  "g_backend_info (GPU_SEND lv t s) = g_backend_info s"
  "sn_table (GPU_SEND lv t s) = sn_table s"
  "g_data_callback (GPU_SEND lv t s) = g_data_callback s"
  "g_message_callback (GPU_SEND lv t s) = g_message_callback s"
  "sn_data (GPU_SEND lv t s) = sn_data s"
  "sn_faults (GPU_SEND lv t s) = sn_faults s"
  "g_metrics_data (GPU_SEND lv t s) = g_metrics_data s"
  by (simp_all add: GPU_SEND_def gpu_send_message_def post_message_def split: option.splits)

lemma same_control_gpu_send [control_simps, simp]:
  "same_control s (GPU_SEND lv t s') = same_control s s'"
  "same_control (GPU_SEND lv t s) s' = same_control s s'"
  by (simp_all add: same_control_def)

section \<open>Requests\<close>

definition gpu_request_code :: "QcPerfRequest \<Rightarrow> QcPerfReturnCode" where
  "gpu_request_code rq =
     (if rq_capability_id rq \<noteq> 0 then CAPABILITY_NOT_FOUND
      else if rq_sampling_rate rq \<notin> set gpu_sampling_rates \<or> rq_streaming_rate rq \<notin> set gpu_streaming_rates
      then INVALID_ARGUMENTS else SUCCESS)"

definition gpu_good :: "QcPerfRequest option \<Rightarrow> bool" where
  "gpu_good r \<longleftrightarrow> (\<exists>rq. r = Some rq \<and> gpu_request_code rq = SUCCESS)"

lemma gpu_rates_length: "length gpu_sampling_rates = 6" "length gpu_streaming_rates = 10"
  by (simp_all add: gpu_sampling_rates_def gpu_streaming_rates_def)

lemma rate_in_list_gpu:
  "rate_in_list (Some gpu_sampling_rates) 6 r = Ret (r \<in> set gpu_sampling_rates)"
  "rate_in_list (Some gpu_streaming_rates) 10 r = Ret (r \<in> set gpu_streaming_rates)"
  by (simp_all add: rate_in_list_def rate_scan_Ret gpu_rates_length)

lemma gpu_validate_code:
  "\<exists>s'. gpu_validate_request (Some rq) s = Ret (gpu_request_code rq, s') \<and> (s' = s \<or> (\<exists>lv t. s' = GPU_SEND lv t s))"
  by (auto simp: gpu_validate_request_def rate_in_list_gpu gpu_request_code_def)

lemma gpu_samples_per_stream:
  assumes "gpu_request_code rq = SUCCESS"
  shows "\<exists>sps. samples_per_stream rq = Ret sps \<and> 0 < sps \<and> unat sps \<le> 1000"
proof -
  let ?a = "unat (rq_sampling_rate rq)" let ?b = "unat (rq_streaming_rate rq)"
  have s: "rq_sampling_rate rq \<in> set gpu_sampling_rates" "rq_streaming_rate rq \<in> set gpu_streaming_rates"
    using assms by (auto simp: gpu_request_code_def split: if_splits)
  have a: "1 \<le> ?a" "rq_sampling_rate rq \<noteq> 0" using s(1) by (auto simp: gpu_sampling_rates_def)
  have b: "1 \<le> ?b" "?b \<le> 1000" using s(2) by (auto simp: gpu_streaming_rates_def)
  show ?thesis using samples_per_stream_bounds [OF a(1) b(1)] a(2) b(2) by fastforce
qed

section \<open>The session contract\<close>

lemma gpu_start_code:
  "\<exists>s'. qcom_linux_gpu_start (Some rq) s =
     Ret (if gpu_request_code rq \<noteq> SUCCESS then gpu_request_code rq
          else if g_data_callback s = None then FAILED
          else if th_handle (g_thread_info s) \<noteq> NoThread then ALREADY_INITIALIZED
          else if fst (calloc_ok (sn_faults s)) \<and> fst (calloc_ok (snd (calloc_ok (sn_faults s)))) then SUCCESS
          else FAILED, s')"
proof -
  obtain s1 where v: "gpu_validate_request (Some rq) s = Ret (gpu_request_code rq, s1)"
    and s1: "s1 = s \<or> (\<exists>lv t. s1 = GPU_SEND lv t s)"
    using gpu_validate_code by blast
  have "g_data_callback s1 = g_data_callback s" "g_thread_info s1 = g_thread_info s" "sn_faults s1 = sn_faults s"
    using s1 by auto
  then show ?thesis
    using v by (simp add: qcom_linux_gpu_start_def spawn_def thread_create_def Let_def case_prod_beta)
qed

lemma gpu_start_law:
  assumes "qcom_linux_gpu_start r s = Ret (rc, s')"
  shows "if rc = SUCCESS
         then th_handle (g_thread_info s) = NoThread \<and> th_handle (g_thread_info s') = Thread (length (sn_threads s)) \<and>
              (\<exists>q. gpu_good q \<and> sn_threads s' = sn_threads s @ [Spawned q])
         else g_thread_info s' = g_thread_info s \<and> sn_threads s' = sn_threads s \<and>
              (g_is_thread_running s' \<longrightarrow> g_is_thread_running s)"
proof (cases r)
  case None
  then show ?thesis using assms by (auto simp: qcom_linux_gpu_start_def)
next
  case (Some rq)
  obtain s1 where v: "gpu_validate_request (Some rq) s = Ret (gpu_request_code rq, s1)"
    and s1: "s1 = s \<or> (\<exists>lv t. s1 = GPU_SEND lv t s)"
    using gpu_validate_code by blast
  have same: "g_data_callback s1 = g_data_callback s" "g_thread_info s1 = g_thread_info s" "sn_threads s1 = sn_threads s"
    "g_is_thread_running s1 = g_is_thread_running s"
    using s1 by auto
  obtain tr s2 where sp: "spawn (gpu_thread_attrs rq) (s1\<lparr>g_is_thread_running := True\<rparr>) = (tr, s2)"
    by (cases "spawn (gpu_thread_attrs rq) (s1\<lparr>g_is_thread_running := True\<rparr>)")
  show ?thesis
    using assms Some v same spawn_cases [OF sp] sp
    by (auto simp: qcom_linux_gpu_start_def gpu_good_def gpu_thread_attrs_def split: if_splits)
qed

lemma gpu_entry_cases:
  assumes "gpu_good r"
  shows "\<exists>rq sps. r = Some rq \<and> samples_per_stream rq = Ret sps \<and> 0 < sps \<and> unat sps \<le> 1000"
  using assms gpu_samples_per_stream by (auto simp: gpu_good_def)

lemma gpu_entry_law:
  assumes "gpu_thread_entry env r s = Ret (l, s')"
  shows "g_thread_info s' = g_thread_info s \<and> sn_threads s' = sn_threads s \<and> g_data_callback s' = g_data_callback s \<and>
     sn_data s' = sn_data s \<and> g_metrics_data s' = g_metrics_data s \<and> g_backend_info s' = g_backend_info s \<and>
     (g_is_thread_running s' \<longrightarrow> g_is_thread_running s)"
  using assms
  by (cases r)
     (auto simp: gpu_thread_entry_def Let_def outcome_simps alloc_pair case_prod_beta split: if_splits)

lemma gpu_entry_total:
  assumes "gpu_good r"
  shows "\<exists>l s'. gpu_thread_entry env r s = Ret (l, s')"
  using gpu_entry_cases [OF assms]
  by (auto simp: gpu_thread_entry_def Let_def alloc_pair case_prod_beta)

lemma gpu_flush_control:
  "gpu_flush now l s = Ret (l', s') \<Longrightarrow> same_control s s'"
  by (auto simp: gpu_flush_def Let_def same_control_def split: if_splits option.splits)

lemma gpu_sample_control:
  "gpu_sample now vs l s = Ret (l', s') \<Longrightarrow> same_control s s'"
  by (auto simp: gpu_sample_def outcome_simps split: if_splits)

lemma gpu_iterate_control:
  assumes "gpu_thread_iterate env l s = Ret (l', s')"
  shows "same_control s s'"
proof -
  obtain l1 s1 l2 where "gpu_sample (time_now (env_clock env) (gl_now l)) (gpu_readings (env_files env))
      (l\<lparr>gl_now := time_now (env_clock env) (gl_now l)\<rparr>) s = Ret (l1, s1)"
    "gpu_flush (time_now (env_clock env) (gl_now l)) l1 s1 = Ret (l2, s')"
    using assms by (fastforce simp: gpu_thread_iterate_def Let_def outcome_simps)
  then show ?thesis using gpu_sample_control gpu_flush_control same_control_trans by blast
qed

lemma gpu_stop_none:
  assumes "th_handle (g_thread_info s) = NoThread \<or> r = None"
  shows "\<exists>rc s'. qcom_linux_gpu_stop env r s = Ret (rc, s') \<and> same_control s s'"
  using assms by (auto simp: qcom_linux_gpu_stop_def split: option.splits)

lemma gpu_stop_join:
  assumes h: "th_handle (g_thread_info s) = Thread t" and t: "t < length (sn_threads s)"
    and good: "\<And>x. sn_threads s ! t = Spawned x \<Longrightarrow> gpu_good x"
  shows "\<exists>s'. qcom_linux_gpu_stop env (Some q) s = Ret (SUCCESS, s') \<and> joined t s s'"
proof -
  let ?s = "s\<lparr>g_is_thread_running := False\<rparr>"
  have "\<exists>s1. wait_exit (gpu_thread env) t ?s = Ret (0, s1) \<and> sn_threads s1 = (sn_threads s)[t := Exited] \<and>
      g_thread_info s1 = g_thread_info s \<and> \<not> g_is_thread_running s1"
  proof (cases "sn_threads s ! t")
    case (Spawned x)
    obtain l s1 where e: "gpu_thread_entry env x ?s = Ret (l, s1)" using gpu_entry_total [OF good [OF Spawned]] by blast
    then show ?thesis
      using gpu_entry_law [OF e] Spawned t
      by (cases l) (auto simp: wait_exit_def gpu_thread_def gpu_thread_finish_def)
  next
    case (Running l)
    then show ?thesis using t by (auto simp: wait_exit_def gpu_thread_def gpu_thread_finish_def)
  next
    case Exited
    then show ?thesis using t by (auto simp: wait_exit_def list_update_same_conv [THEN iffD2])
  qed
  then show ?thesis
    using h by (auto simp: qcom_linux_gpu_stop_def Let_def thread_join_def thread_destroy_def joined_def)
qed

interpretation gpu: owned_backend qcom_linux_gpu_start qcom_linux_gpu_stop gpu_thread gpu_thread_iterate gpu_good
proof unfold_locales
  fix e l s l' s'
  show "gpu_thread_iterate e l s = Ret (l', s') \<Longrightarrow> same_control s s'" by (rule gpu_iterate_control)
next
  fix r s rc s'
  assume "qcom_linux_gpu_start r s = Ret (rc, s')"
  from gpu_start_law [OF this] show "if rc = SUCCESS
         then th_handle (g_thread_info s) = NoThread \<and> th_handle (g_thread_info s') = Thread (length (sn_threads s)) \<and>
              (\<exists>q. gpu_good q \<and> sn_threads s' = sn_threads s @ [Spawned q])
         else g_thread_info s' = g_thread_info s \<and> sn_threads s' = sn_threads s \<and>
              (g_is_thread_running s' \<longrightarrow> g_is_thread_running s)" .
next
  fix e r s lo s'
  assume "th_entry (gpu_thread e) r s = Ret (lo, s')"
  then show "g_thread_info s' = g_thread_info s \<and> sn_threads s' = sn_threads s"
    using gpu_entry_law [of e r s lo s'] by (simp add: gpu_thread_def)
qed (use gpu_stop_none gpu_stop_join in \<open>auto simp: gpu_thread_def gpu_thread_finish_def\<close>)

section \<open>Initialisation\<close>

lemma append_rates_copy:
  "length a = 32 \<Longrightarrow> i + length rs \<le> 32 \<Longrightarrow>
     append_rates rs i (a, of_nat i) = Ret (copy_rates rs i (a, of_nat i))"
proof (induction rs arbitrary: i a)
  case (Cons r rs)
  have "unat (of_nat i :: u8) = i" using Cons.prems by (simp add: unat_of_nat_u8)
  moreover have "(of_nat i :: u8) + 1 = of_nat (Suc i)" by (simp add: add.commute)
  ultimately show ?case using Cons by (simp del: of_nat_Suc)
qed simp

definition gpu_metric_table :: "QcPerfMetricInfo list" where
  "gpu_metric_table =
     [set_metric_info 0 ''GPU Utilization'' ''Percentage of time the GPU was busy'' ''%'',
      set_metric_info 1 ''GPU Clock'' ''Current GPU clock frequency'' ''MHz'']"

lemma gpu_init_metrics:
  assumes "length ms = 2"
  shows "linux_gpu_capability_0_init_metrics ms = Ret gpu_metric_table"
proof -
  obtain a b where "ms = [a, b]" using assms by (auto simp: numeral_2_eq_2 length_Suc_conv)
  then show ?thesis
    by (simp add: linux_gpu_capability_0_init_metrics_def numeral_2_eq_2 k_metrics_def arr_read_def arr_write_def
        gpu_metric_table_def)
qed

definition gpu_entry :: "QcPerfCapabilityInfo \<Rightarrow> bool" where
  "gpu_entry c \<longleftrightarrow> capability_ok c \<and> ci_capability_id c = 0 \<and> ci_name c = ''gpu'' \<and>
     ci_metric_ids_list c = Some gpu_metric_table \<and> ci_metric_ids_list_len c = 2 \<and>
     streaming_rates_of c = set gpu_streaming_rates \<and> sampling_rates_of c = set gpu_sampling_rates"

lemma gpu_fill_entry: "\<exists>c. gpu_fill_capability gpu_metric_table zero_capability = Ret c \<and> gpu_entry c"
proof -
  have st: "append_rates gpu_streaming_rates 0 (replicate 32 0, 0) = Ret (gpu_streaming_rates @ replicate 22 0, 10)"
    using append_rates_copy [of "replicate 32 0" 0 gpu_streaming_rates] copy_rates_fresh [of gpu_streaming_rates]
    by (simp add: gpu_rates_length)
  have sa: "append_rates gpu_sampling_rates 0 (replicate 32 0, 0) = Ret (gpu_sampling_rates @ replicate 26 0, 6)"
    using append_rates_copy [of "replicate 32 0" 0 gpu_sampling_rates] copy_rates_fresh [of gpu_sampling_rates]
    by (simp add: gpu_rates_length)
  have ms: "length gpu_metric_table = 2" "\<forall>m \<in> set gpu_metric_table. metric_info_ok m"
    by (simp_all add: gpu_metric_table_def)
  show ?thesis
    by (simp add: gpu_fill_capability_def zero_capability_def st sa gpu_entry_def capability_ok_def
        gpu_rates_length ms streaming_rates_of_def sampling_rates_of_def cstd_simps)
qed

definition gpu_registered :: "gpu_state \<Rightarrow> bool" where
  "gpu_registered s \<longleftrightarrow> (\<exists>c. bi_capabilities_list (g_backend_info s) = Some [c] \<and>
     bi_capabilities_list_length (g_backend_info s) = 1 \<and> bi_backend_id (g_backend_info s) = 7 \<and> gpu_entry c) \<and>
     g_metrics_data s = gpu_metric_table"

lemma gpu_registered_table: "gpu_registered s \<Longrightarrow> table_ok s"
  by (auto simp: gpu_registered_def table_ok_def backend_info_ok_def gpu_entry_def)

definition gpu_node_readable :: "filesystem \<Rightarrow> bool" where
  "gpu_node_readable fs \<longleftrightarrow>
     (case fs ''/sys/class/kgsl/kgsl-3d0/gpu_busy_percentage'' of
        None \<Rightarrow> False | Some content \<Rightarrow> scan_lf content \<noteq> None)"

lemma gpu_probe:
  "fst (qcom_linux_gpu_util_read_utilization fs (Some QCOM_LINUX_GPU_SYSFS_ROOT) (Some 0)) =
     (if gpu_node_readable fs then SUCCESS else FAILED)"
  by (simp add: qcom_linux_gpu_util_read_utilization_def read_sysfs_value_def gpu_node_readable_def split: option.splits)

lemma gpu_init_total:
  assumes "length (g_metrics_data s) = 2"
  shows "\<exists>s'. qcom_linux_gpu_init fs s =
     Ret (if \<not> gpu_node_readable fs then FAILED
          else if fst (calloc_ok (sn_faults s)) then SUCCESS else CALLOC_FAILED, s') \<and>
     same_control s s' \<and> length (g_metrics_data s') = 2 \<and> g_data_callback s' = g_data_callback s \<and>
     (if gpu_node_readable fs
      then (if fst (calloc_ok (sn_faults s)) then gpu_registered s'
            else bi_capabilities_list (g_backend_info s') = None \<and>
                 bi_capabilities_list_length (g_backend_info s') = bi_capabilities_list_length (g_backend_info s))
      else g_backend_info s' = g_backend_info s) \<and>
     (sn_faults s = [] \<longrightarrow> sn_faults s' = [])"
proof -
  obtain c where c: "gpu_fill_capability gpu_metric_table zero_capability = Ret c" "gpu_entry c"
    using gpu_fill_entry by blast
  show ?thesis
    using assms
    by (auto simp: qcom_linux_gpu_init_def Let_def gpu_probe alloc_pair gpu_init_metrics c gpu_registered_def
        same_control_def gpu_metric_table_def [THEN arg_cong, of length, simplified])
qed

section \<open>The thread against a reference\<close>

text \<open>What a response says, and what one iteration should report.\<close>

definition response_view :: "QcPerfMetricResponse \<Rightarrow> u16 \<times> u64 \<times> QcPerfDataType \<times> double" where
  "response_view r = (mr_metric_id r, mr_timestamp r, gt_data_type (mr_metric_value r), gt_double_value (mr_metric_value r))"

definition data_view :: "QcPerfData \<Rightarrow> (u16 \<times> u64 \<times> QcPerfDataType \<times> double) list" where
  "data_view d = map response_view (take (pd_metric_response_len d) (pd_metric_response d))"

fun gpu_expected ::
  "nat \<Rightarrow> double option list \<Rightarrow> QcPerfMetricInfo list \<Rightarrow> u64 \<Rightarrow> (u16 \<times> u64 \<times> QcPerfDataType \<times> double) list" where
  "gpu_expected m [] ms now = []"
| "gpu_expected m (None # vs) ms now = gpu_expected (Suc m) vs ms now"
| "gpu_expected m (Some x # vs) ms now = (mi_metric_id (ms ! m), now, TYPE_DOUBLE, x) # gpu_expected (Suc m) vs ms now"

fun gpu_reference :: "QcPerfMetricInfo list \<Rightarrow> u64 \<Rightarrow> sample_env list \<Rightarrow> (u16 \<times> u64 \<times> QcPerfDataType \<times> double) list" where
  "gpu_reference ms old [] = []"
| "gpu_reference ms old (e # es) =
     (let now = time_now (env_clock e) old
      in gpu_expected 0 (gpu_readings (env_files e)) ms now @ gpu_reference ms now es)"

lemma gpu_expected_none: "\<forall>v \<in> set vs. v = None \<Longrightarrow> gpu_expected m vs ms now = []"
  by (induction m vs ms now rule: gpu_expected.induct) auto

lemma gpu_expected_length: "length (gpu_expected m vs ms now) \<le> length vs"
  by (induction m vs ms now rule: gpu_expected.induct) auto

lemma gpu_append_view:
  assumes "m + length vs \<le> length ms" "pd_metric_response_len d + length vs \<le> length (pd_metric_response d)"
  shows "\<exists>d'. gpu_append m vs ms now d = Ret d' \<and> data_view d' = data_view d @ gpu_expected m vs ms now \<and>
     length (pd_metric_response d') = length (pd_metric_response d) \<and>
     pd_metric_response_len d' = pd_metric_response_len d + length (gpu_expected m vs ms now) \<and>
     pd_backend_id d' = pd_backend_id d \<and> pd_capability_id d' = pd_capability_id d"
  using assms
proof (induction m vs ms now arbitrary: d rule: gpu_expected.induct)
  case (3 m x vs ms now)
  let ?k = "pd_metric_response_len d" let ?rs = "pd_metric_response d"
  let ?r = "\<lparr>mr_timestamp = now, mr_metric_id = mi_metric_id (ms ! m),
             mr_metric_value = (mr_metric_value (?rs ! ?k))\<lparr>gt_data_type := TYPE_DOUBLE, gt_double_value := x\<rparr>\<rparr>"
  let ?d = "d\<lparr>pd_metric_response := ?rs[?k := ?r], pd_metric_response_len := Suc ?k\<rparr>"
  have b: "m < length ms" "?k < length ?rs" using 3(2,3) by auto
  have v: "data_view ?d = data_view d @ [(mi_metric_id (ms ! m), now, TYPE_DOUBLE, x)]"
    using b by (simp add: data_view_def take_Suc_conv_app_nth response_view_def)
  have step: "gpu_append m (Some x # vs) ms now d = gpu_append (Suc m) vs ms now ?d" using b by simp
  have "\<exists>d'. gpu_append (Suc m) vs ms now ?d = Ret d' \<and> data_view d' = data_view ?d @ gpu_expected (Suc m) vs ms now \<and>
     length (pd_metric_response d') = length (pd_metric_response ?d) \<and>
     pd_metric_response_len d' = pd_metric_response_len ?d + length (gpu_expected (Suc m) vs ms now) \<and>
     pd_backend_id d' = pd_backend_id ?d \<and> pd_capability_id d' = pd_capability_id ?d"
    by (rule 3(1)) (use 3(2,3) in simp_all)
  then show ?case unfolding step using v by auto
qed auto

lemma gpu_readings_length [simp]: "length (gpu_readings fs) = 2"
  by (simp add: gpu_readings_def)

text \<open>The invariant of the loop, after fewer than \<open>2^32\<close> iterations.\<close>

definition gpu_loop_inv :: "nat \<Rightarrow> gpu_state \<Rightarrow> gpu_local \<Rightarrow> bool" where
  "gpu_loop_inv n s l \<longleftrightarrow>
     length (pd_metric_response (gl_data l)) = unat (gl_capacity l) \<and>
     unat (gl_capacity l) = 2 * unat (gl_samples_per_stream l) \<and> 0 < gl_samples_per_stream l \<and>
     pd_metric_response_len (gl_data l) \<le> 2 * unat (gl_sample_count l) \<and>
     (0 < pd_metric_response_len (gl_data l) \<longrightarrow> gl_sample_count l < gl_samples_per_stream l) \<and>
     unat (gl_sample_count l) \<le> n \<and> length (g_metrics_data s) = 2 \<and>
     pd_backend_id (gl_data l) = 7"

lemma gpu_sample_view:
  assumes inv: "gpu_loop_inv n s l"
  shows "\<exists>d s'. gpu_sample now (gpu_readings fs) l s = Ret (l\<lparr>gl_data := d\<rparr>, s') \<and>
     data_view d = data_view (gl_data l) @ gpu_expected 0 (gpu_readings fs) (g_metrics_data s) now \<and>
     length (pd_metric_response d) = length (pd_metric_response (gl_data l)) \<and>
     pd_metric_response_len d \<le> pd_metric_response_len (gl_data l) + 2 \<and> pd_backend_id d = 7 \<and>
     (s' = s \<or> (\<exists>lv t. s' = GPU_SEND lv t s))"
proof (cases "\<exists>v \<in> set (gpu_readings fs). v \<noteq> None")
  case False
  then have "gpu_expected 0 (gpu_readings fs) (g_metrics_data s) now = []" by (intro gpu_expected_none) auto
  moreover have "gpu_sample now (gpu_readings fs) l s =
      Ret (l\<lparr>gl_data := gl_data l\<rparr>, GPU_SEND LEVEL_WARNING ''Failed to read GPU sysfs nodes'' s)"
    using False by (simp add: gpu_sample_def)
  ultimately show ?thesis using inv by (intro exI [of _ "gl_data l"]) (auto simp: gpu_loop_inv_def)
next
  case True
  have fit: "pd_metric_response_len (gl_data l) + 2 \<le> unat (gl_capacity l)"
  proof (cases "pd_metric_response_len (gl_data l) = 0")
    case True
    then show ?thesis using inv by (auto simp: gpu_loop_inv_def word_gt_0 unat_gt_0 [symmetric])
  next
    case False
    then have "unat (gl_sample_count l) < unat (gl_samples_per_stream l)"
      using inv by (simp add: gpu_loop_inv_def word_less_nat_alt)
    then show ?thesis using inv by (simp add: gpu_loop_inv_def)
  qed
  have "\<exists>d'. gpu_append 0 (gpu_readings fs) (g_metrics_data s) now (gl_data l) = Ret d' \<and>
     data_view d' = data_view (gl_data l) @ gpu_expected 0 (gpu_readings fs) (g_metrics_data s) now \<and>
     length (pd_metric_response d') = length (pd_metric_response (gl_data l)) \<and>
     pd_metric_response_len d' = pd_metric_response_len (gl_data l) +
        length (gpu_expected 0 (gpu_readings fs) (g_metrics_data s) now) \<and>
     pd_backend_id d' = pd_backend_id (gl_data l) \<and> pd_capability_id d' = pd_capability_id (gl_data l)"
    by (rule gpu_append_view) (use inv fit in \<open>simp_all add: gpu_loop_inv_def\<close>)
  then show ?thesis
    using True fit inv gpu_expected_length [of 0 "gpu_readings fs" "g_metrics_data s" now]
    by (fastforce simp: gpu_sample_def gpu_loop_inv_def)
qed

lemma gpu_flush_view:
  assumes cb: "g_data_callback s = Some cb" and n: "n < 2 ^ 32 - 1" and sc: "unat (gl_sample_count l) \<le> n"
    and len: "pd_metric_response_len (gl_data l) \<le> 2 * Suc (unat (gl_sample_count l))"
    and res: "length (pd_metric_response (gl_data l)) = unat (gl_capacity l)"
      "unat (gl_capacity l) = 2 * unat (gl_samples_per_stream l)" "0 < gl_samples_per_stream l"
    and ms: "length (g_metrics_data s) = 2" and id: "pd_backend_id (gl_data l) = 7"
  shows "\<exists>l' s' bs. gpu_flush now l s = Ret (l', s') \<and> s' = s\<lparr>sn_data := sn_data s @ map (Pair cb) bs\<rparr> \<and>
     concat (map data_view bs) @ data_view (gl_data l') = data_view (gl_data l) \<and>
     (\<forall>d \<in> set bs. 0 < pd_metric_response_len d \<and> pd_backend_id d = 7) \<and>
     gpu_loop_inv (Suc n) s' l' \<and> gl_now l' = gl_now l"
proof -
  have su: "unat (gl_sample_count l + 1) = Suc (unat (gl_sample_count l))"
  proof -
    have "unat (1 + gl_sample_count l) = Suc (unat (gl_sample_count l))"
    proof (rule unatSuc)
      have "unat (- 1 :: u32) = 4294967295" by (simp add: unsigned_minus_1_eq_mask mask_eq_exp_minus_1)
      then show "1 + gl_sample_count l \<noteq> 0" using sc n by (auto simp: add_eq_0_iff)
    qed
    then show ?thesis by (simp add: add.commute)
  qed
  show ?thesis
  proof (cases "(gl_samples_per_stream l \<le> gl_sample_count l + 1 \<or> gl_streaming_rate_ns l \<le> now - gl_last_stream_time l)
            \<and> pd_metric_response_len (gl_data l) > 0")
    case True
    let ?l = "l\<lparr>gl_data := (gl_data l)\<lparr>pd_metric_response_len := 0\<rparr>, gl_sample_count := 0, gl_last_stream_time := now\<rparr>"
    let ?s = "s\<lparr>sn_data := sn_data s @ map (Pair cb) [gl_data l]\<rparr>"
    have "gpu_flush now l s = Ret (?l, ?s)"
      using True cb by (simp add: gpu_flush_def Let_def)
    moreover have "gpu_loop_inv (Suc n) ?s ?l" using res ms id by (simp add: gpu_loop_inv_def)
    ultimately show ?thesis
      using True id by (intro exI [of _ ?l] exI [of _ ?s] exI [of _ "[gl_data l]"]) (simp add: data_view_def)
  next
    case False
    let ?l = "l\<lparr>gl_sample_count := gl_sample_count l + 1\<rparr>"
    have "gpu_flush now l s = Ret (?l, s)"
      using False by (auto simp: gpu_flush_def Let_def)
    moreover have "gpu_loop_inv (Suc n) s ?l"
      using False su len res ms id sc by (auto simp: gpu_loop_inv_def not_le)
    ultimately show ?thesis
      by (intro exI [of _ ?l] exI [of _ s] exI [of _ "[]"]) simp
  qed
qed

fun gpu_rounds :: "sample_env list \<Rightarrow> gpu_local \<Rightarrow> gpu_state \<Rightarrow> (gpu_local \<times> gpu_state) outcome" where
  "gpu_rounds [] l s = Ret (l, s)"
| "gpu_rounds (e # es) l s = obind (gpu_thread_iterate e l s) (\<lambda>(l', s'). gpu_rounds es l' s')"

lemma gpu_iterate_view:
  assumes inv: "gpu_loop_inv n s l" and n: "n < 2 ^ 32 - 1" and cb: "g_data_callback s = Some cb"
  shows "\<exists>l' s' bs. gpu_thread_iterate e l s = Ret (l', s') \<and> sn_data s' = sn_data s @ map (Pair cb) bs \<and>
     concat (map data_view bs) @ data_view (gl_data l') =
       data_view (gl_data l) @ gpu_expected 0 (gpu_readings (env_files e)) (g_metrics_data s) (time_now (env_clock e) (gl_now l)) \<and>
     (\<forall>d \<in> set bs. 0 < pd_metric_response_len d \<and> pd_backend_id d = 7) \<and>
     gpu_loop_inv (Suc n) s' l' \<and> gl_now l' = time_now (env_clock e) (gl_now l) \<and>
     g_data_callback s' = Some cb \<and> g_metrics_data s' = g_metrics_data s"
proof -
  define now where "now = time_now (env_clock e) (gl_now l)"
  let ?l = "l\<lparr>gl_now := now\<rparr>"
  have "gpu_loop_inv n s ?l" using inv by (simp add: gpu_loop_inv_def)
  from gpu_sample_view [OF this, of now "env_files e"] obtain d s1 where
    sa: "gpu_sample now (gpu_readings (env_files e)) ?l s = Ret (?l\<lparr>gl_data := d\<rparr>, s1)"
    and v: "data_view d = data_view (gl_data l) @ gpu_expected 0 (gpu_readings (env_files e)) (g_metrics_data s) now"
    and dl: "length (pd_metric_response d) = length (pd_metric_response (gl_data l))"
      "pd_metric_response_len d \<le> pd_metric_response_len (gl_data l) + 2" "pd_backend_id d = 7"
    and s1: "s1 = s \<or> (\<exists>lv t. s1 = GPU_SEND lv t s)" by auto
  have fr: "g_data_callback s1 = Some cb" "sn_data s1 = sn_data s" "g_metrics_data s1 = g_metrics_data s"
    using s1 cb by auto
  have "\<exists>l' s' bs. gpu_flush now (?l\<lparr>gl_data := d\<rparr>) s1 = Ret (l', s') \<and> s' = s1\<lparr>sn_data := sn_data s1 @ map (Pair cb) bs\<rparr> \<and>
     concat (map data_view bs) @ data_view (gl_data l') = data_view (gl_data (?l\<lparr>gl_data := d\<rparr>)) \<and>
     (\<forall>d \<in> set bs. 0 < pd_metric_response_len d \<and> pd_backend_id d = 7) \<and>
     gpu_loop_inv (Suc n) s' l' \<and> gl_now l' = gl_now (?l\<lparr>gl_data := d\<rparr>)"
    by (rule gpu_flush_view [OF fr(1) n]) (use inv dl fr in \<open>auto simp: gpu_loop_inv_def\<close>)
  then obtain l2 s2 bs where fl: "gpu_flush now (?l\<lparr>gl_data := d\<rparr>) s1 = Ret (l2, s2)"
    "s2 = s1\<lparr>sn_data := sn_data s1 @ map (Pair cb) bs\<rparr>"
    "concat (map data_view bs) @ data_view (gl_data l2) = data_view d"
    "\<forall>d \<in> set bs. 0 < pd_metric_response_len d \<and> pd_backend_id d = 7"
    "gpu_loop_inv (Suc n) s2 l2" "gl_now l2 = now" by auto
  define l3 where "l3 = (if g_is_thread_running s2 then l2\<lparr>gl_slept := unat (rq_sampling_rate (gl_request l2)) * 1000\<rparr> else l2)"
  have "gpu_thread_iterate e l s = Ret (l3, s2)"
    using sa fl(1) by (simp add: gpu_thread_iterate_def Let_def now_def [symmetric] l3_def)
  moreover have "gl_data l3 = gl_data l2" "gl_now l3 = gl_now l2" "gpu_loop_inv (Suc n) s2 l3"
    using fl(5) by (auto simp: l3_def gpu_loop_inv_def)
  ultimately show ?thesis
    using fl v fr by (intro exI [of _ l3] exI [of _ s2] exI [of _ bs]) (simp add: now_def [symmetric])
qed

lemma gpu_rounds_view:
  assumes "gpu_loop_inv n s l" "n + length es < 2 ^ 32" "g_data_callback s = Some cb"
  shows "\<exists>l' s' bs. gpu_rounds es l s = Ret (l', s') \<and> sn_data s' = sn_data s @ map (Pair cb) bs \<and>
     concat (map data_view bs) @ data_view (gl_data l') =
       data_view (gl_data l) @ gpu_reference (g_metrics_data s) (gl_now l) es \<and>
     (\<forall>d \<in> set bs. 0 < pd_metric_response_len d \<and> pd_backend_id d = 7)"
  using assms
proof (induction es arbitrary: n l s)
  case Nil
  then show ?case by (intro exI [of _ l] exI [of _ s] exI [of _ "[]"]) simp
next
  case (Cons e es)
  have "n < 2 ^ 32 - 1" using Cons.prems(2) by simp
  from gpu_iterate_view [OF Cons.prems(1) this Cons.prems(3), of e] obtain l1 s1 b1 where
    1: "gpu_thread_iterate e l s = Ret (l1, s1)" "sn_data s1 = sn_data s @ map (Pair cb) b1"
     "concat (map data_view b1) @ data_view (gl_data l1) =
       data_view (gl_data l) @ gpu_expected 0 (gpu_readings (env_files e)) (g_metrics_data s) (time_now (env_clock e) (gl_now l))"
     "\<forall>d \<in> set b1. 0 < pd_metric_response_len d \<and> pd_backend_id d = 7"
     "gpu_loop_inv (Suc n) s1 l1" "gl_now l1 = time_now (env_clock e) (gl_now l)"
     "g_data_callback s1 = Some cb" "g_metrics_data s1 = g_metrics_data s" by blast
  have "Suc n + length es < 2 ^ 32" using Cons.prems(2) by simp
  from Cons.IH [OF 1(5) this 1(7)] obtain l2 s2 b2 where
    2: "gpu_rounds es l1 s1 = Ret (l2, s2)" "sn_data s2 = sn_data s1 @ map (Pair cb) b2"
     "concat (map data_view b2) @ data_view (gl_data l2) =
       data_view (gl_data l1) @ gpu_reference (g_metrics_data s1) (gl_now l1) es"
     "\<forall>d \<in> set b2. 0 < pd_metric_response_len d \<and> pd_backend_id d = 7" by blast
  have "concat (map data_view (b1 @ b2)) @ data_view (gl_data l2) =
      (concat (map data_view b1) @ data_view (gl_data l1)) @ gpu_reference (g_metrics_data s1) (gl_now l1) es"
    using 2(3) by simp
  also have "\<dots> = data_view (gl_data l) @ gpu_reference (g_metrics_data s) (gl_now l) (e # es)"
    by (simp only: 1(3)) (simp add: 1(6,8) Let_def)
  finally show ?case
    using 1 2 by (intro exI [of _ l2] exI [of _ s2] exI [of _ "b1 @ b2"]) auto
qed

lemma gpu_entry_inv:
  assumes g: "gpu_request_code rq = SUCCESS" and e: "gpu_thread_entry env (Some rq) s = Ret (Some l, s')"
    and ms: "length (g_metrics_data s) = 2"
  shows "gpu_loop_inv 0 s' l \<and> data_view (gl_data l) = []"
proof -
  obtain n where n: "samples_per_stream rq = Ret n" "0 < n" "unat n \<le> 1000" using gpu_samples_per_stream [OF g] by blast
  have "unat (n * (2 :: u32)) = 2 * unat n" using n(3) by (subst unat_mult_lem [THEN iffD1]) auto
  then show ?thesis
    using e n ms gpu_entry_law [OF e]
    by (auto simp: gpu_thread_entry_def Let_def alloc_pair case_prod_beta gpu_loop_inv_def data_view_def split: if_splits)
qed

lemma gpu_entry_runs:
  assumes g: "gpu_request_code rq = SUCCESS" and f: "sn_faults s = []"
  shows "\<exists>l. gpu_thread_entry env (Some rq) s = Ret (Some l, s)"
proof -
  obtain n where n: "samples_per_stream rq = Ret n" using gpu_samples_per_stream [OF g] by blast
  have "alloc s = (True, s)" using f by (simp add: alloc_pair)
  then show ?thesis using n by (simp add: gpu_thread_entry_def Let_def)
qed

section \<open>Properties\<close>

text \<open>A board with both nodes, and a backend connected to it, for the witnesses.\<close>

definition demo_gpu_files :: filesystem where
  "demo_gpu_files path =
     (if path = ''/sys/class/kgsl/kgsl-3d0/gpu_busy_percentage'' then Some (show_u 37 @ '' %'')
      else if path = ''/sys/class/kgsl/kgsl-3d0/gpuclk'' then Some (show_u 587000000) else None)"

definition demo_gpu_request :: QcPerfRequest where
  "demo_gpu_request = \<lparr>rq_capability_id = 0, rq_streaming_rate = 100, rq_sampling_rate = 50\<rparr>"

lemma demo_gpu_request_ok [simp]: "gpu_request_code demo_gpu_request = SUCCESS"
  by (simp add: gpu_request_code_def demo_gpu_request_def gpu_sampling_rates_def gpu_streaming_rates_def)

lemma initial_gpu_fields [simp]:
  "sn_faults (initial_gpu f) = f" "sn_threads (initial_gpu f) = []" "\<not> g_is_thread_running (initial_gpu f)"
  "sn_data (initial_gpu f) = []" "g_data_callback (initial_gpu f) = None"
  "g_thread_info (initial_gpu f) = zero_thread_info" "length (g_metrics_data (initial_gpu f)) = 2"
  "bi_capabilities_list_length (g_backend_info (initial_gpu f)) = 0"
  by (simp_all add: initial_gpu_def initial_session_def session.defs zero_backend_info_def)

lemma demo_gpu_node: "gpu_node_readable demo_gpu_files"
proof -
  have "scan_lf (show_u 37 @ '' %'') = Some (of_nat 37, '' %'')"
    by (rule scan_lf_show_u) (simp_all add: ends_number_def digit_val_def)
  then show ?thesis by (simp add: gpu_node_readable_def demo_gpu_files_def)
qed

definition demo_gpu :: gpu_state where
  "demo_gpu = (case qcom_linux_gpu_init demo_gpu_files (initial_gpu []) of
     Ret (_, s) \<Rightarrow> s\<lparr>g_data_callback := Some 7\<rparr> | Stuck _ \<Rightarrow> initial_gpu [])"

lemma demo_gpu_facts [simp]:
  "gpu_registered demo_gpu" "g_data_callback demo_gpu = Some 7" "sn_faults demo_gpu = []"
  "\<not> g_is_thread_running demo_gpu" "sn_threads demo_gpu = []" "g_thread_info demo_gpu = zero_thread_info"
proof -
  obtain s where "qcom_linux_gpu_init demo_gpu_files (initial_gpu []) = Ret (SUCCESS, s)"
    "same_control (initial_gpu []) s" "gpu_registered s" "sn_faults s = []"
    using gpu_init_total [of "initial_gpu []" demo_gpu_files] demo_gpu_node by auto
  then show "gpu_registered demo_gpu" "g_data_callback demo_gpu = Some 7" "sn_faults demo_gpu = []"
    "\<not> g_is_thread_running demo_gpu" "sn_threads demo_gpu = []" "g_thread_info demo_gpu = zero_thread_info"
    by (simp_all add: demo_gpu_def gpu_registered_def same_control_def)
qed

lemma gpu_registered_metrics: "gpu_registered s \<Longrightarrow> length (g_metrics_data s) = 2"
  by (simp add: gpu_registered_def gpu_metric_table_def)

lemma demo_gpu_owned: "owned gpu_good demo_gpu"
  by (simp add: owned_def zero_thread_info_def)

text \<open>What may follow a decimal number without continuing it for \<open>%lf\<close>.\<close>

definition ends_decimal :: "string \<Rightarrow> bool" where
  "ends_decimal rest \<longleftrightarrow> ends_number rest \<and> (rest = [] \<or> hd rest \<notin> set ''.eExX'')"

lemma scan_lf_decimal: "ends_decimal rest \<Longrightarrow> scan_lf (show_u n @ rest) = Some (of_nat n, rest)"
  by (rule scan_lf_show_u) (auto simp: ends_decimal_def)

text \<open>C11: The sysfs readers invert what the kernel prints, for a directory name of at most 235 characters, with which
  both paths fit their buffer of 256: if \<open>gpu_busy_percentage\<close> holds the decimal number \<open>n\<close> and \<open>gpuclk\<close> the
  decimal number \<open>k\<close>, each followed by a text of its own that does not continue the number (such as
  \<open>" %"\<close> after the one and nothing or a newline after the other), the utilisation reader succeeds with exactly
  \<open>n\<close> and the clock reader with \<open>k\<close> Hz in MHz.\<close>

theorem gpu_readers_invert_kernel_format:
  assumes "ends_decimal rest" and "ends_decimal rest'" and "length dir \<le> 235"
    and "fs (dir @ ''/gpu_busy_percentage'') = Some (show_u n @ rest)"
    and "fs (dir @ ''/gpuclk'') = Some (show_u k @ rest')"
  shows "qcom_linux_gpu_util_read_utilization fs (Some dir) (Some x) = (SUCCESS, Some (of_nat n)) \<and>
     qcom_linux_gpu_util_read_clock_mhz fs (Some dir) (Some y) = (SUCCESS, Some (of_nat k / 1000000))"
  using assms scan_lf_decimal [OF assms(1)] scan_lf_decimal [OF assms(2)]
  by (simp add: qcom_linux_gpu_util_read_utilization_def qcom_linux_gpu_util_read_clock_mhz_def read_sysfs_value_def)

theorem gpu_readers_invert_kernel_format_witness:
  "qcom_linux_gpu_util_read_utilization demo_gpu_files (Some ''/sys/class/kgsl/kgsl-3d0'') (Some 0) = (SUCCESS, Some 37) \<and>
   qcom_linux_gpu_util_read_clock_mhz demo_gpu_files (Some ''/sys/class/kgsl/kgsl-3d0'') (Some 0) = (SUCCESS, Some 587)"
proof -
  have f: "demo_gpu_files (''/sys/class/kgsl/kgsl-3d0'' @ ''/gpu_busy_percentage'') = Some (show_u 37 @ '' %'')"
    "demo_gpu_files (''/sys/class/kgsl/kgsl-3d0'' @ ''/gpuclk'') = Some (show_u 587000000 @ [])"
    by (simp_all add: demo_gpu_files_def)
  have e: "ends_decimal '' %''" "ends_decimal []" by (simp_all add: ends_decimal_def ends_number_def digit_val_def)
  show ?thesis using gpu_readers_invert_kernel_format [OF e _ f] by simp
qed

text \<open>Connecting the GPU backend fails on a board whose \<open>gpu_busy_percentage\<close> cannot be read as a
  number, and otherwise, unless the allocation fails, registers one capability \<open>gpu\<close> with the rates and
  the two metrics of \<open>qcom_linux_gpu_info\<close>, all length fields within their arrays.\<close>

theorem gpu_init_probes_the_node:
  assumes "length (g_metrics_data s) = 2"
  shows "\<exists>rc s'. qcom_linux_gpu_init fs s = Ret (rc, s') \<and>
     rc = (if \<not> gpu_node_readable fs then FAILED
           else if fst (calloc_ok (sn_faults s)) then SUCCESS else CALLOC_FAILED) \<and>
     (if rc = SUCCESS then gpu_registered s' else \<not> gpu_registered s \<longrightarrow> \<not> gpu_registered s')"
proof -
  obtain s' where "qcom_linux_gpu_init fs s =
     Ret (if \<not> gpu_node_readable fs then FAILED
          else if fst (calloc_ok (sn_faults s)) then SUCCESS else CALLOC_FAILED, s')"
    "if gpu_node_readable fs
      then (if fst (calloc_ok (sn_faults s)) then gpu_registered s'
            else bi_capabilities_list (g_backend_info s') = None)
      else s' = GPU_SEND LEVEL_ERROR (''Cannot read '' @ QCOM_LINUX_GPU_SYSFS_ROOT @ ''/'' @ QCOM_LINUX_GPU_BUSY_NODE)
             (GPU_SEND LEVEL_INFO ''Initializing qcom-linux-gpu backend'' s)"
    using gpu_init_total [OF assms, of fs]
    by (cases "gpu_node_readable fs") (auto simp: qcom_linux_gpu_init_def Let_def gpu_probe)
  then show ?thesis
    by (cases "gpu_node_readable fs"; cases "fst (calloc_ok (sn_faults s))") (auto simp: gpu_registered_def)
qed

theorem gpu_init_probes_the_node_witness:
  "\<exists>s'. qcom_linux_gpu_init demo_gpu_files (initial_gpu []) = Ret (SUCCESS, s') \<and> gpu_registered s'"
  using gpu_init_probes_the_node [of "initial_gpu []" demo_gpu_files] demo_gpu_node by auto

text \<open>C12: The sampling thread reports exactly what it could read: over any sequence of
  fewer than \<open>2^32\<close> iterations, the batches handed to the data callback followed by what is still buffered are, element by
  element, the readings of the reference (each metric whose node was readable, with its identifier,
  time and value). No reading is lost, duplicated or reordered, and no empty batch is delivered.\<close>

theorem gpu_thread_equals_reference:
  assumes "gpu_registered s" and "gpu_request_code rq = SUCCESS" and "g_data_callback s = Some cb"
    and "gpu_thread_entry env (Some rq) s = Ret (Some l, s1)" and "length es < 2 ^ 32"
  shows "\<exists>l' s' bs. gpu_rounds es l s1 = Ret (l', s') \<and> sn_data s' = sn_data s @ map (Pair cb) bs \<and>
     concat (map data_view bs) @ data_view (gl_data l') = gpu_reference gpu_metric_table (gl_now l) es \<and>
     (\<forall>d \<in> set bs. 0 < pd_metric_response_len d \<and> pd_backend_id d = 7)"
proof -
  have fr: "g_data_callback s1 = Some cb" "sn_data s1 = sn_data s" "g_metrics_data s1 = gpu_metric_table"
    using gpu_entry_law [OF assms(4)] assms(1,3) by (simp_all add: gpu_registered_def)
  have inv: "gpu_loop_inv 0 s1 l" "data_view (gl_data l) = []"
    using gpu_entry_inv [OF assms(2,4) gpu_registered_metrics [OF assms(1)]] by simp_all
  show ?thesis
    using gpu_rounds_view [OF inv(1) _ fr(1), of es] assms(5) fr(2,3) inv(2) by simp
qed

theorem gpu_thread_equals_reference_witness:
  "\<exists>l l' s' bs. gpu_thread_entry \<lparr>env_clock = Ticks 0, env_files = demo_gpu_files\<rparr> (Some demo_gpu_request) demo_gpu
       = Ret (Some l, demo_gpu) \<and>
     gpu_rounds [\<lparr>env_clock = Ticks 1, env_files = demo_gpu_files\<rparr>, \<lparr>env_clock = Ticks 2, env_files = \<lambda>p. None\<rparr>] l demo_gpu
       = Ret (l', s') \<and>
     concat (map data_view bs) @ data_view (gl_data l') = gpu_reference gpu_metric_table (gl_now l)
       [\<lparr>env_clock = Ticks 1, env_files = demo_gpu_files\<rparr>, \<lparr>env_clock = Ticks 2, env_files = \<lambda>p. None\<rparr>]"
proof -
  obtain l where l: "gpu_thread_entry \<lparr>env_clock = Ticks 0, env_files = demo_gpu_files\<rparr> (Some demo_gpu_request) demo_gpu
      = Ret (Some l, demo_gpu)"
    using gpu_entry_runs [OF demo_gpu_request_ok demo_gpu_facts(3)] by blast
  show ?thesis
    using gpu_thread_equals_reference [OF demo_gpu_facts(1) demo_gpu_request_ok demo_gpu_facts(2) l,
        of "[\<lparr>env_clock = Ticks 1, env_files = demo_gpu_files\<rparr>, \<lparr>env_clock = Ticks 2, env_files = \<lambda>p. None\<rparr>]"] l
    by (simp del: gpu_rounds.simps gpu_reference.simps) blast
qed

text \<open>C13: A GPU session can always be stopped, whatever the client and the scheduler did before: no
  sequence of starts, stops and thread steps leads to a state in which \<open>stop\<close> does not return, and
  afterwards the handle is released, the flag is down and no thread is left. A stop right after a start
  joins the new thread, too.\<close>

theorem gpu_sessions_always_stoppable:
  assumes "owned gpu_good s"
    and "free_run (session_step qcom_linux_gpu_start qcom_linux_gpu_stop gpu_thread gpu_thread_iterate) evs s = Some s'"
  shows "\<exists>rc s''. qcom_linux_gpu_stop env (Some rq) s' = Ret (rc, s'') \<and> all_ended s'' \<and>
     \<not> g_is_thread_running s'' \<and> th_handle (g_thread_info s'') = NoThread"
  using gpu.stop_result [OF gpu.owned_run [OF assms], of env "Some rq"] by auto

theorem gpu_sessions_always_stoppable_witness:
  "\<exists>s1 rc s2. free_run (session_step qcom_linux_gpu_start qcom_linux_gpu_stop gpu_thread gpu_thread_iterate)
       [CallStart (Some demo_gpu_request), CallStart (Some demo_gpu_request)] demo_gpu = Some s1 \<and>
     sn_threads s1 \<noteq> [] \<and>
     qcom_linux_gpu_stop \<lparr>env_clock = Ticks 0, env_files = demo_gpu_files\<rparr> (Some demo_gpu_request) s1 = Ret (rc, s2) \<and> all_ended s2"
proof -
  obtain a where a: "qcom_linux_gpu_start (Some demo_gpu_request) demo_gpu = Ret (SUCCESS, a)"
    using gpu_start_code [of demo_gpu_request demo_gpu] by (auto simp: zero_thread_info_def)
  have t: "sn_threads a \<noteq> []" using gpu_start_law [OF a] by auto
  obtain rc b where b: "qcom_linux_gpu_start (Some demo_gpu_request) a = Ret (rc, b)"
    using gpu_start_code [of demo_gpu_request a] by blast
  have tb: "sn_threads b \<noteq> []" using gpu_start_law [OF b] t by (auto split: if_splits)
  have r: "free_run (session_step qcom_linux_gpu_start qcom_linux_gpu_stop gpu_thread gpu_thread_iterate)
       [CallStart (Some demo_gpu_request), CallStart (Some demo_gpu_request)] demo_gpu = Some b"
    using a b by simp
  show ?thesis
    using gpu_sessions_always_stoppable [OF demo_gpu_owned r] r tb by blast
qed

end
