(* ===== verification/LinuxGpuLive.thy ===== *)
theory LinuxGpuLive
  imports LinuxGpuProps Service
begin

text \<open>
  Sessions of the Linux GPU backend never get stuck, whatever the client does between connecting and
  disconnecting: its operations and its thread instantiate \<open>live_session\<close> with the invariant \<open>owned\<close>, which
  needs no discipline; with the functions its creator installs the backend is a \<open>served_session\<close>.
\<close>

section \<open>Frames\<close>

definition gpu_frame :: "gpu_state \<Rightarrow> gpu_state \<Rightarrow> bool" where
  "gpu_frame s s' \<longleftrightarrow> g_data_callback s' = g_data_callback s \<and> g_metrics_data s' = g_metrics_data s"

lemma gpu_frame_simps [simp]:
  "gpu_frame s s" "gpu_frame s (GPU_SEND lv x s') = gpu_frame s s'"
  "gpu_frame s (s'\<lparr>g_is_thread_running := b\<rparr>) = gpu_frame s s'" "gpu_frame (s\<lparr>g_is_thread_running := b\<rparr>) s' = gpu_frame s s'"
  "gpu_frame s (s'\<lparr>g_thread_info := i\<rparr>) = gpu_frame s s'" "gpu_frame s (put_thread t st s') = gpu_frame s s'"
  "gpu_frame s (s'\<lparr>sn_faults := f\<rparr>) = gpu_frame s s'" "gpu_frame s (s'\<lparr>sn_threads := ts\<rparr>) = gpu_frame s s'"
  by (simp_all add: gpu_frame_def put_thread_def)

lemma gpu_start_frame:
  assumes "qcom_linux_gpu_start r s = Ret (rc, s')"
  shows "gpu_frame s s' \<and> (rc = SUCCESS \<longrightarrow> g_data_callback s \<noteq> None)"
proof (cases r)
  case None
  then show ?thesis using assms by (auto simp: qcom_linux_gpu_start_def)
next
  case (Some rq)
  obtain s1 where v: "gpu_validate_request (Some rq) s = Ret (gpu_request_code rq, s1)"
    and s1: "s1 = s \<or> (\<exists>lv t. s1 = GPU_SEND lv t s)"
    using gpu_validate_code by blast
  have f: "gpu_frame s s1" "g_data_callback s1 = g_data_callback s" using s1 by auto
  obtain tr s2 where sp: "spawn (gpu_thread_attrs rq) (s1\<lparr>g_is_thread_running := True\<rparr>) = (tr, s2)"
    by (cases "spawn (gpu_thread_attrs rq) (s1\<lparr>g_is_thread_running := True\<rparr>)")
  have "gpu_frame s s2" using spawn_cases [OF sp] f(1) by auto
  then show ?thesis
    using assms Some v f sp by (auto simp: qcom_linux_gpu_start_def split: if_splits)
qed

lemma gpu_wait_frame:
  assumes "wait_exit (gpu_thread env) t s = Ret (x, s')"
  shows "gpu_frame s s'"
proof (cases "sn_threads s ! t")
  case (Spawned r)
  then obtain lo s1 where en: "gpu_thread_entry env r s = Ret (lo, s1)"
    using assms by (auto simp: wait_exit_def gpu_thread_def outcome_simps split: if_splits)
  then have "s' = put_thread t Exited s1"
    using assms Spawned by (cases lo) (auto simp: wait_exit_def gpu_thread_def gpu_thread_finish_def split: if_splits)
  then show ?thesis using gpu_entry_law [OF en] by (simp add: gpu_frame_def put_thread_def)
qed (use assms in \<open>auto simp: wait_exit_def gpu_thread_def gpu_thread_finish_def split: if_splits\<close>)

lemma gpu_stop_frame:
  assumes "qcom_linux_gpu_stop env r s = Ret (rc, s')"
  shows "gpu_frame s s'"
proof (cases "\<exists>q t. r = Some q \<and> th_handle (g_thread_info s) = Thread t")
  case False
  then show ?thesis
    using assms by (auto simp: qcom_linux_gpu_stop_def Let_def thread_join_def split: option.splits if_splits thread_handle.splits)
next
  case True
  then obtain q t where q: "r = Some q" "th_handle (g_thread_info s) = Thread t" by blast
  obtain x s1 where w: "wait_exit (gpu_thread env) t (s\<lparr>g_is_thread_running := False\<rparr>) = Ret (x, s1)"
    using assms q by (auto simp: qcom_linux_gpu_stop_def Let_def thread_join_def outcome_simps)
  have "gpu_frame s s1" using gpu_wait_frame [OF w] by simp
  then show ?thesis
    using assms q w by (auto simp: qcom_linux_gpu_stop_def Let_def thread_join_def outcome_simps split: if_splits)
qed

section \<open>The loop\<close>

definition gpu_lok :: "gpu_state \<Rightarrow> gpu_local \<Rightarrow> bool" where
  "gpu_lok s l \<longleftrightarrow> g_data_callback s \<noteq> None \<and> length (pd_metric_response (gl_data l)) = unat (gl_capacity l)"

definition gpu_ready :: "gpu_state \<Rightarrow> bool" where
  "gpu_ready s \<longleftrightarrow> length (g_metrics_data s) = 2"

definition gpu_live_good :: "gpu_state \<Rightarrow> QcPerfRequest option \<Rightarrow> bool" where
  "gpu_live_good s q \<longleftrightarrow> gpu_good q \<and> g_data_callback s \<noteq> None"

lemma gpu_frame_ready:
  assumes "gpu_frame s s'"
  shows "gpu_ready s' = gpu_ready s" "gpu_live_good s' q = gpu_live_good s q" "gpu_lok s' l = gpu_lok s l"
  using assms by (simp_all add: gpu_frame_def gpu_ready_def gpu_live_good_def gpu_lok_def)

text \<open>An iteration returns without any bound on the number of iterations before it.\<close>

lemma gpu_sample_total:
  assumes "length (g_metrics_data s) = 2" "length (pd_metric_response (gl_data l)) = unat (gl_capacity l)"
  shows "\<exists>l' s'. gpu_sample now (gpu_readings fs) l s = Ret (l', s') \<and> gpu_frame s s' \<and> same_control s s' \<and>
     length (pd_metric_response (gl_data l')) = unat (gl_capacity l')"
proof (cases "(\<exists>v \<in> set (gpu_readings fs). v \<noteq> None) \<and> pd_metric_response_len (gl_data l) + 2 \<le> unat (gl_capacity l)")
  case False
  then show ?thesis using assms by (auto simp: gpu_sample_def)
next
  case True
  obtain d where "gpu_append 0 (gpu_readings fs) (g_metrics_data s) now (gl_data l) = Ret d"
    "length (pd_metric_response d) = length (pd_metric_response (gl_data l))"
    using gpu_append_view [of 0 "gpu_readings fs" "g_metrics_data s" "gl_data l" now] True assms by auto
  then show ?thesis using True assms by (simp add: gpu_sample_def)
qed

lemma gpu_flush_total:
  assumes "g_data_callback s \<noteq> None" "length (pd_metric_response (gl_data l)) = unat (gl_capacity l)"
  shows "\<exists>l' s'. gpu_flush now l s = Ret (l', s') \<and> gpu_frame s s' \<and>
     length (pd_metric_response (gl_data l')) = unat (gl_capacity l')"
  using assms by (auto simp: gpu_flush_def Let_def gpu_frame_def)

lemma gpu_iterate_total:
  assumes "gpu_ready s" "gpu_lok s l"
  shows "\<exists>l' s'. gpu_thread_iterate e l s = Ret (l', s') \<and> gpu_frame s s' \<and> gpu_lok s' l'"
proof -
  let ?now = "time_now (env_clock e) (gl_now l)"
  have a: "length (g_metrics_data s) = 2" "g_data_callback s \<noteq> None" "length (pd_metric_response (gl_data l)) = unat (gl_capacity l)"
    using assms by (simp_all add: gpu_ready_def gpu_lok_def)
  obtain l1 s1 where 1: "gpu_sample ?now (gpu_readings (env_files e)) (l\<lparr>gl_now := ?now\<rparr>) s = Ret (l1, s1)" "gpu_frame s s1"
    "length (pd_metric_response (gl_data l1)) = unat (gl_capacity l1)"
    using gpu_sample_total [OF a(1), where l = "l\<lparr>gl_now := ?now\<rparr>" and now = ?now and fs = "env_files e"] a(3) by fastforce
  have "g_data_callback s1 \<noteq> None" using 1(2) a(2) by (simp add: gpu_frame_def)
  then obtain l2 s2 where 2: "gpu_flush ?now l1 s1 = Ret (l2, s2)" "gpu_frame s1 s2"
    "length (pd_metric_response (gl_data l2)) = unat (gl_capacity l2)"
    using gpu_flush_total [OF _ 1(3)] by blast
  have f: "gpu_frame s s2" using 1(2) 2(2) by (simp add: gpu_frame_def)
  then show ?thesis
    using 1(1) 2 a(2) by (simp add: gpu_thread_iterate_def Let_def gpu_lok_def gpu_frame_def)
qed

lemma gpu_entry_live:
  assumes "gpu_live_good s q"
  shows "\<exists>lo s'. gpu_thread_entry e q s = Ret (lo, s') \<and> gpu_frame s s' \<and> (\<forall>l. lo = Some l \<longrightarrow> gpu_lok s' l)"
proof -
  obtain lo s' where en: "gpu_thread_entry e q s = Ret (lo, s')" using gpu_entry_total [of q e s] assms by (auto simp: gpu_live_good_def)
  have f: "gpu_frame s s'" using gpu_entry_law [OF en] by (simp add: gpu_frame_def)
  obtain rq sps where rq: "q = Some rq" "samples_per_stream rq = Ret sps"
    using assms gpu_entry_cases [of q] by (auto simp: gpu_live_good_def)
  have "length (pd_metric_response (gl_data l)) = unat (gl_capacity l)" if "lo = Some l" for l
    using en rq that by (auto simp: gpu_thread_entry_def Let_def alloc_pair case_prod_beta split: if_splits)
  then show ?thesis using en f assms by (auto simp: gpu_lok_def gpu_live_good_def gpu_frame_def)
qed

lemma gpu_start_live:
  assumes o: "owned gpu_good s" and r: "gpu_ready s"
  shows "\<exists>rc s'. qcom_linux_gpu_start q s = Ret (rc, s') \<and> gpu_ready s' \<and>
     (sn_threads s' = sn_threads s \<and> keeps gpu_live_good gpu_lok s s' \<or>
      all_ended s \<and> (\<exists>x. gpu_live_good s' x \<and> sn_threads s' = sn_threads s @ [Spawned x]))"
proof -
  have "\<exists>rc s'. qcom_linux_gpu_start q s = Ret (rc, s')"
  proof (cases q)
    case None
    then show ?thesis by (simp add: qcom_linux_gpu_start_def)
  next
    case (Some rq)
    then show ?thesis using gpu_start_code [of rq s] by blast
  qed
  then obtain rc s' where st: "qcom_linux_gpu_start q s = Ret (rc, s')" by blast
  note f = gpu_frame_ready [OF conjunct1 [OF gpu_start_frame [OF st]]]
  show ?thesis
  proof (cases "rc = SUCCESS")
    case False
    then have "sn_threads s' = sn_threads s \<and> keeps gpu_live_good gpu_lok s s'"
      using gpu_start_law [OF st] f by (simp add: keeps_def)
    then show ?thesis using st r f(1) by blast
  next
    case True
    then obtain x where x: "th_handle (g_thread_info s) = NoThread" "gpu_good x" "sn_threads s' = sn_threads s @ [Spawned x]"
      using gpu_start_law [OF st] by auto
    have "all_ended s" using o x(1) by (auto simp: owned_def all_ended_def)
    moreover have "gpu_live_good s x" using x(2) gpu_start_frame [OF st] True by (simp add: gpu_live_good_def)
    ultimately show ?thesis using st r f x(3) by blast
  qed
qed

lemma gpu_stop_live:
  assumes o: "owned gpu_good s" and r: "gpu_ready s"
  shows "\<exists>rc s'. qcom_linux_gpu_stop e q s = Ret (rc, s') \<and> gpu_ready s' \<and> keeps gpu_live_good gpu_lok s s' \<and> some_ended s s'"
proof (cases "th_handle (g_thread_info s) = NoThread \<or> q = None")
  case True
  then obtain rc s' where s': "qcom_linux_gpu_stop e q s = Ret (rc, s')" "same_control s s'" using gpu_stop_none by blast
  note f = gpu_frame_ready [OF gpu_stop_frame [OF s'(1)]]
  show ?thesis using s' f r by (auto simp: keeps_def some_ended_def same_control_def)
next
  case False
  then obtain t rq where t: "th_handle (g_thread_info s) = Thread t" "t < length (sn_threads s)" "q = Some rq"
    "\<And>x. sn_threads s ! t = Spawned x \<Longrightarrow> gpu_good x"
    using o by (auto simp: owned_def split: thread_handle.splits)
  obtain s' where s': "qcom_linux_gpu_stop e q s = Ret (SUCCESS, s')" "joined t s s'"
    using gpu_stop_join [OF t(1,2,4), of e rq] t(3) by blast
  note f = gpu_frame_ready [OF gpu_stop_frame [OF s'(1)]]
  show ?thesis using s' f r by (auto simp: keeps_def some_ended_def joined_def)
qed

interpretation gpu_live: live_session qcom_linux_gpu_start qcom_linux_gpu_stop gpu_thread gpu_thread_iterate
  "owned gpu_good" event_valid gpu_ready gpu_live_good gpu_lok
proof unfold_locales
  fix s ev s'
  assume "owned gpu_good s" "event_valid ev s"
    "session_step qcom_linux_gpu_start qcom_linux_gpu_stop gpu_thread gpu_thread_iterate ev s = Ret s'"
  then show "owned gpu_good s'" by (rule gpu.owned_step)
next
  fix s t u
  assume "owned gpu_good s" "t < length (sn_threads s)" "sn_threads s ! t \<noteq> Exited" "u < length (sn_threads s)" "u \<noteq> t"
  then show "sn_threads s ! u = Exited" by (metis owned_def thread_handle.inject)
next
  fix s r
  assume "owned gpu_good s" "gpu_ready s"
  then show "\<exists>rc s'. qcom_linux_gpu_start r s = Ret (rc, s') \<and> gpu_ready s' \<and>
     (sn_threads s' = sn_threads s \<and> keeps gpu_live_good gpu_lok s s' \<or>
      all_ended s \<and> (\<exists>q. gpu_live_good s' q \<and> sn_threads s' = sn_threads s @ [Spawned q]))" by (rule gpu_start_live)
next
  fix e r s
  assume "owned gpu_good s" "gpu_ready s"
  then show "\<exists>rc s'. qcom_linux_gpu_stop e r s = Ret (rc, s') \<and> gpu_ready s' \<and> keeps gpu_live_good gpu_lok s s' \<and> some_ended s s'"
    by (rule gpu_stop_live)
next
  fix e s q
  assume a: "gpu_ready s" "gpu_live_good s q"
  obtain lo s' where en: "gpu_thread_entry e q s = Ret (lo, s')" "gpu_frame s s'" "\<forall>l. lo = Some l \<longrightarrow> gpu_lok s' l"
    using gpu_entry_live [OF a(2)] by blast
  then show "\<exists>lo s'. th_entry (gpu_thread e) q s = Ret (lo, s') \<and> sn_threads s' = sn_threads s \<and> gpu_ready s' \<and>
      (\<forall>l. lo = Some l \<and> g_is_thread_running s' \<longrightarrow> gpu_lok s' l)"
    using gpu_entry_law [OF en(1)] gpu_frame_ready(1) [OF en(2)] a(1) by (simp add: gpu_thread_def)
next
  fix e s l
  assume a: "gpu_ready s" "gpu_lok s l"
  obtain l' s' where b: "gpu_thread_iterate e l s = Ret (l', s')" "gpu_frame s s'" "gpu_lok s' l'" using gpu_iterate_total [OF a] by blast
  then show "\<exists>l' s'. gpu_thread_iterate e l s = Ret (l', s') \<and> sn_threads s' = sn_threads s \<and> gpu_ready s' \<and> gpu_lok s' l'"
    using gpu_iterate_control [OF b(1)] gpu_frame_ready(1) [OF b(2)] a(1) by (auto simp: same_control_def)
next
  fix t st s l
  show "gpu_ready (put_thread t st s) = gpu_ready s" "gpu_lok (put_thread t st s) l = gpu_lok s l"
    by (rule gpu_frame_ready; simp)+
qed (simp_all add: gpu_thread_def gpu_thread_finish_def)

section \<open>The service\<close>

definition gpu_ops :: "sample_env \<Rightarrow> gpu_state QcPerfBackendPrivate" where
  "gpu_ops e = created (qcperf_qcom_linux_gpu_create e)"

lemma gpu_ops_simps [simp]:
  "qcperf_backend_init (gpu_ops e) = Some (qcom_linux_gpu_init (env_files e))"
  "qcperf_backend_start (gpu_ops e) = Some qcom_linux_gpu_start"
  "qcperf_backend_stop (gpu_ops e) = Some (qcom_linux_gpu_stop e)"
  "qcperf_backend_deinit (gpu_ops e) = Some (\<lambda>s. Ret (qcom_linux_gpu_deinit s))"
  "qcperf_backend_info (gpu_ops e) = Some (\<lambda>i s. Ret (qcom_linux_gpu_backend_info i s))"
  "set_message_callback (gpu_ops e) = Some (\<lambda>cb s. Ret (qcom_linux_gpu_set_message_callback cb s))"
  "set_data_callback (gpu_ops e) = Some (\<lambda>cb s. Ret (qcom_linux_gpu_set_data_callback cb s))"
  by (simp_all add: gpu_ops_def created_def qcperf_qcom_linux_gpu_create_def)

interpretation gpu_service: served_session qcom_linux_gpu_start qcom_linux_gpu_stop gpu_thread gpu_thread_iterate
  "owned gpu_good" event_valid gpu_ready gpu_live_good gpu_lok gpu_ops "\<lambda>e. e" "\<lambda>_. True"
proof unfold_locales
  fix s s' :: gpu_state
  assume "same_control s s'" "owned gpu_good s"
  then show "owned gpu_good s'" using owned_cong by blast
next
  fix f k s
  assume "qcperf_backend_init (gpu_ops f) = Some k" "gpu_ready s"
  then show "\<exists>rc s'. k s = Ret (rc, s') \<and> same_control s s' \<and> gpu_ready s'"
    using gpu_init_total [of s "env_files f"] by (auto simp: gpu_ready_def)
qed (auto simp: all_pointers_set_def gpu_ready_def keeps_def gpu_live_good_def gpu_lok_def same_control_def
      qcom_linux_gpu_set_message_callback_def qcom_linux_gpu_set_data_callback_def qcom_linux_gpu_backend_info_def
      qcom_linux_gpu_deinit_def split: option.splits)

end
