(* ===== verification/LinuxThermalLib.thy ===== *)
theory LinuxThermalLib
  imports QcperfCommon OsUtils
begin

text \<open>
  The library under the Linux thermal backend, \<open>backends/linux-thermal/src/linux_thermal_lib.c\<close>: the
  enumeration of \<open>/sys/class/thermal\<close>, the classification of zones and cooling devices into domains, the
  blocks of the domains with their arrays, the open value nodes, and the release of all of them.
  Theorems are in \<open>LinuxThermalLibProps\<close>.
\<close>

section \<open>Data\<close>

abbreviation (input) LINUX_THERMAL_SYSFS_ROOT :: string where "LINUX_THERMAL_SYSFS_ROOT \<equiv> ''/sys/class/thermal''"
abbreviation (input) LINUX_THERMAL_ZONE_PREFIX :: string where "LINUX_THERMAL_ZONE_PREFIX \<equiv> ''thermal_zone''"
abbreviation (input) LINUX_THERMAL_COOLING_DEVICE_PREFIX :: string where
  "LINUX_THERMAL_COOLING_DEVICE_PREFIX \<equiv> ''cooling_device''"
abbreviation (input) LINUX_THERMAL_NODE_PATH_MAX_LEN :: nat where "LINUX_THERMAL_NODE_PATH_MAX_LEN \<equiv> 128"
abbreviation (input) LINUX_THERMAL_ZONE_NAME_MAX_LEN :: nat where "LINUX_THERMAL_ZONE_NAME_MAX_LEN \<equiv> 64"
abbreviation (input) LINUX_THERMAL_MAX_NAMES :: u8 where "LINUX_THERMAL_MAX_NAMES \<equiv> 32"
abbreviation (input) LINUX_THERMAL_TEMP_DOMAIN_COUNT :: nat where "LINUX_THERMAL_TEMP_DOMAIN_COUNT \<equiv> 16"
abbreviation (input) LINUX_THERMAL_COOL_DOMAIN_COUNT :: nat where "LINUX_THERMAL_COOL_DOMAIN_COUNT \<equiv> 12"

text \<open>
  \<open>struct LinuxThermalTempData\<close> and \<open>struct LinuxThermalCoolingData\<close>: \<open>None\<close> where a pointer is \<open>NULL\<close>.
  The names share one arena, so either all pointers of \<open>td_name\<close> are set or none.
\<close>

record LinuxThermalTempData =
  td_id :: "u8 list option"
  td_name :: "string option list option"
  td_temp :: "u32 list option"
  td_len :: u8

record LinuxThermalCoolingData =
  cd_id :: "u8 list option"
  cd_name :: "string option list option"
  cd_cur_state :: "u8 list option"
  cd_max_state :: "u8 list option"
  cd_len :: u8

definition zero_temp_data :: LinuxThermalTempData where
  "zero_temp_data = \<lparr>td_id = None, td_name = None, td_temp = None, td_len = 0\<rparr>"

definition zero_cooling_data :: LinuxThermalCoolingData where
  "zero_cooling_data = \<lparr>cd_id = None, cd_name = None, cd_cur_state = None, cd_max_state = None, cd_len = 0\<rparr>"

text \<open>
  The static variables. The two metrics structures have one pointer per domain and every function
  goes through them by way of an array in the order of the domains (cpu, gpu, npu, ddr, modem, qmx,
  video, camera, wireless, usb, rf\_sdr, multimedia, pmic, system, battery, soc; and cpu, ddr, gpu, npu,
  display, storage, battery, modem, rf\_sdr, multimedia, dsds, thermal\_fw): they are that list. An open
  \<open>FILE*\<close> is the path it reads. Besides them: the script of the allocations, the number of allocated
  blocks and of open files, and how often the metrics were allocated, which tells a pointer to them from
  one to their predecessors.
\<close>

record thermal_lib =
  g_temp_metrics :: "LinuxThermalTempData option list option"
  g_cool_metrics :: "LinuxThermalCoolingData option list option"
  g_is_initialized :: bool
  g_temp_discovered :: bool
  g_cool_discovered :: bool
  g_temp_node :: "string option list option list"
  g_cool_node :: "string option list option list"
  tl_faults :: oom
  tl_blocks :: int
  tl_files :: int
  tl_epoch :: nat

definition initial_thermal_lib :: "oom \<Rightarrow> thermal_lib" where
  "initial_thermal_lib faults =
     \<lparr>g_temp_metrics = None, g_cool_metrics = None, g_is_initialized = False, g_temp_discovered = False,
      g_cool_discovered = False, g_temp_node = replicate LINUX_THERMAL_TEMP_DOMAIN_COUNT None,
      g_cool_node = replicate LINUX_THERMAL_COOL_DOMAIN_COUNT None, tl_faults = faults, tl_blocks = 0, tl_files = 0,
      tl_epoch = 0\<rparr>"

text \<open>\<open>calloc\<close>, \<open>free\<close> of so many blocks, \<open>fopen\<close> for reading.\<close>

definition tl_calloc :: "thermal_lib \<Rightarrow> bool \<times> thermal_lib" where
  "tl_calloc s = (let (ok, rest) = calloc_ok (tl_faults s)
     in (ok, s\<lparr>tl_faults := rest, tl_blocks := tl_blocks s + of_bool ok\<rparr>))"

definition tl_free :: "nat \<Rightarrow> thermal_lib \<Rightarrow> thermal_lib" where
  "tl_free n s = s\<lparr>tl_blocks := tl_blocks s - int n\<rparr>"

definition tl_fopen :: "filesystem \<Rightarrow> string \<Rightarrow> thermal_lib \<Rightarrow> string option \<times> thermal_lib" where
  "tl_fopen fs path s = (if fs path = None then (None, s) else (Some path, s\<lparr>tl_files := tl_files s + 1\<rparr>))"

section \<open>Classification\<close>

record LinuxThermalPrefix =
  tp_prefix :: string
  tp_len :: nat
  tp_index :: nat

definition g_temp_prefix :: "LinuxThermalPrefix list" where
  "g_temp_prefix = map (\<lambda>(p, l, i). \<lparr>tp_prefix = p, tp_len = l, tp_index = i\<rparr>)
     [(''cpu'', 3, 0), (''gpu'', 3, 1), (''nsp'', 3, 2), (''ddr'', 3, 3),
      (''sdram'', 5, 3),
      (''mdmss'', 5, 4), (''qmx'', 3, 5), (''video'', 5, 6), (''camera'', 6, 7),
      (''wireless'', 8, 8), (''usb'', 3, 9), (''sdr'', 3, 10), (''mmw'', 3, 11),
      (''pm'', 2, 12), (''sys'', 3, 13), (''battery'', 7, 14), (''socd'', 4, 15)]"

definition g_cool_prefix :: "LinuxThermalPrefix list" where
  "g_cool_prefix = map (\<lambda>(p, l, i). \<lparr>tp_prefix = p, tp_len = l, tp_index = i\<rparr>)
     [(''cpu'', 3, 0), (''pause-cpu'', 9, 0), (''idle-cpu'', 8, 0), (''ddr'', 3, 1), (''gpu'', 3, 2), (''kgsl'', 4, 2),
      (''cdsp'', 4, 3), (''display'', 7, 4), (''panel'', 5, 4), (''ufs'', 3, 5), (''battery'', 7, 6),
      (''modem'', 5, 7), (''pa_'', 3, 8), (''mmw'', 3, 9), (''dsds'', 4, 10), (''thermal-pause'', 13, 11)]"

text \<open>\<open>0 == strncmp(a, b, n)\<close>\<close>

definition strncmp_eq :: "string \<Rightarrow> string \<Rightarrow> nat \<Rightarrow> bool" where
  "strncmp_eq a b n \<longleftrightarrow> take n a = take n b"

text \<open>The index, or \<open>None\<close> for -1.\<close>

fun classify_loop :: "string \<Rightarrow> LinuxThermalPrefix list \<Rightarrow> nat option" where
  "classify_loop type [] = None"
| "classify_loop type (p # ps) =
     (if strncmp_eq type (tp_prefix p) (tp_len p) then Some (tp_index p) else classify_loop type ps)"

definition linux_thermal_classify :: "string \<Rightarrow> LinuxThermalPrefix list \<Rightarrow> nat option" where
  "linux_thermal_classify type table =
     (if str_contains ''-bcl-'' type \<or> str_contains ''-ibat-'' type \<or> strncmp_eq type ''vbat'' (length ''vbat'')
      then None else classify_loop type table)"

section \<open>Reading nodes\<close>

definition is_trailing :: "char \<Rightarrow> bool" where
  "is_trailing c \<longleftrightarrow> c = CHR 0x0A \<or> c = CHR 0x0D \<or> c = CHR '' '' \<or> c = CHR 0x09"

definition linux_thermal_read_type :: "filesystem \<Rightarrow> string \<Rightarrow> nat \<Rightarrow> string option" where
  "linux_thermal_read_type fs path buf_len =
     (case fs path of
        None \<Rightarrow> None
      | Some content \<Rightarrow>
          let buf = fst (fgets_take (buf_len - 1) content)
          in if buf = [] then None else Some (rev (dropWhile is_trailing (rev buf))))"

text \<open>The readers of values answer \<open>None\<close> where the C functions return false and leave the out parameter.\<close>

definition linux_thermal_read_value :: "filesystem \<Rightarrow> string \<Rightarrow> u32 option" where
  "linux_thermal_read_value fs path =
     (case fs path of None \<Rightarrow> None | Some content \<Rightarrow> map_option fst (scan_u content))"

definition linux_thermal_read_value_fp :: "filesystem \<Rightarrow> string option \<Rightarrow> u32 option" where
  "linux_thermal_read_value_fp fs fp =
     (case fp of
        None \<Rightarrow> None
      | Some path \<Rightarrow> (case fs path of
                        None \<Rightarrow> None
                      | Some content \<Rightarrow> let buf = take 31 content
                                        in if buf = [] then None else map_option fst (scan_u buf)))"

text \<open>The \<open>type\<close> node of a directory entry, and \<open>sscanf(d_name, prefix "%u", &id)\<close>.\<close>

definition type_node :: "string \<Rightarrow> string" where
  "type_node d_name = snprintf_buf LINUX_THERMAL_NODE_PATH_MAX_LEN (LINUX_THERMAL_SYSFS_ROOT @ ''/'' @ d_name @ ''/type'')"

definition scan_entry :: "string \<Rightarrow> string \<Rightarrow> u32 option" where
  "scan_entry prefix d_name =
     (if has_prefix prefix d_name then map_option fst (scan_u (drop (length prefix) d_name)) else None)"

definition value_node :: "string \<Rightarrow> u32 \<Rightarrow> string \<Rightarrow> string" where
  "value_node prefix i leaf =
     snprintf_buf LINUX_THERMAL_NODE_PATH_MAX_LEN (LINUX_THERMAL_SYSFS_ROOT @ ''/'' @ prefix @ show_u (unat i) @ leaf)"

section \<open>Initialisation\<close>

definition temp_at :: "nat \<Rightarrow> thermal_lib \<Rightarrow> LinuxThermalTempData option" where
  "temp_at i s = (case g_temp_metrics s of None \<Rightarrow> None | Some ds \<Rightarrow> ds ! i)"

definition set_temp :: "nat \<Rightarrow> LinuxThermalTempData option \<Rightarrow> thermal_lib \<Rightarrow> thermal_lib" where
  "set_temp i d s = s\<lparr>g_temp_metrics := map_option (\<lambda>ds. ds[i := d]) (g_temp_metrics s)\<rparr>"

definition cool_at :: "nat \<Rightarrow> thermal_lib \<Rightarrow> LinuxThermalCoolingData option" where
  "cool_at i s = (case g_cool_metrics s of None \<Rightarrow> None | Some ds \<Rightarrow> ds ! i)"

definition set_cool :: "nat \<Rightarrow> LinuxThermalCoolingData option \<Rightarrow> thermal_lib \<Rightarrow> thermal_lib" where
  "set_cool i d s = s\<lparr>g_cool_metrics := map_option (\<lambda>ds. ds[i := d]) (g_cool_metrics s)\<rparr>"

text \<open>One more entry of a domain, whose block is allocated at the first.\<close>

definition count_zone :: "nat \<Rightarrow> thermal_lib \<Rightarrow> thermal_lib" where
  "count_zone i s =
     (let (d, s1) = (case temp_at i s of
                       Some d \<Rightarrow> (Some d, s)
                     | None \<Rightarrow> let (ok, s') = tl_calloc s in (if ok then Some zero_temp_data else None, s'))
      in set_temp i (map_option (\<lambda>d. if td_len d < LINUX_THERMAL_MAX_NAMES then d\<lparr>td_len := td_len d + 1\<rparr> else d) d) s1)"

definition count_device :: "nat \<Rightarrow> thermal_lib \<Rightarrow> thermal_lib" where
  "count_device i s =
     (let (d, s1) = (case cool_at i s of
                       Some d \<Rightarrow> (Some d, s)
                     | None \<Rightarrow> let (ok, s') = tl_calloc s in (if ok then Some zero_cooling_data else None, s'))
      in set_cool i (map_option (\<lambda>d. if cd_len d < LINUX_THERMAL_MAX_NAMES then d\<lparr>cd_len := cd_len d + 1\<rparr> else d) d) s1)"

fun count_entries :: "filesystem \<Rightarrow> string list \<Rightarrow> thermal_lib \<Rightarrow> thermal_lib" where
  "count_entries fs [] s = s"
| "count_entries fs (d_name # ns) s =
     count_entries fs ns
       (let is_zone = has_prefix LINUX_THERMAL_ZONE_PREFIX d_name;
            is_cool = has_prefix LINUX_THERMAL_COOLING_DEVICE_PREFIX d_name
        in if \<not> is_zone \<and> \<not> is_cool then s
           else case linux_thermal_read_type fs (type_node d_name) LINUX_THERMAL_ZONE_NAME_MAX_LEN of
                  None \<Rightarrow> s
                | Some type \<Rightarrow>
                    if is_zone
                    then (case linux_thermal_classify type g_temp_prefix of None \<Rightarrow> s | Some i \<Rightarrow> count_zone i s)
                    else (case linux_thermal_classify type g_cool_prefix of None \<Rightarrow> s | Some i \<Rightarrow> count_device i s))"

text \<open>The names: all pointers into the arena, or all \<open>NULL\<close> when there is none.\<close>

definition name_pointers :: "bool \<Rightarrow> bool \<Rightarrow> nat \<Rightarrow> string option list option" where
  "name_pointers arena pointers len =
     (if pointers then Some (replicate len (if arena then Some [] else None)) else None)"

definition linux_thermal_alloc_temp_buffers ::
  "LinuxThermalTempData option \<Rightarrow> thermal_lib \<Rightarrow> LinuxThermalTempData option \<times> thermal_lib" where
  "linux_thermal_alloc_temp_buffers data s =
     (case data of
        None \<Rightarrow> (None, s)
      | Some d \<Rightarrow>
          if td_len d > 0
          then let n = unat (td_len d); (store, s1) = tl_calloc s; (i, s2) = tl_calloc s1; (t, s3) = tl_calloc s2; (p, s4) = tl_calloc s3
               in (Some (d\<lparr>td_id := if i then Some (replicate n 0) else None, td_temp := if t then Some (replicate n 0) else None,
                           td_name := name_pointers store p n\<rparr>),
                   if store \<and> \<not> p then tl_free 1 s4 else s4)
          else (Some d, s))"

definition linux_thermal_alloc_cooling_buffers ::
  "LinuxThermalCoolingData option \<Rightarrow> thermal_lib \<Rightarrow> LinuxThermalCoolingData option \<times> thermal_lib" where
  "linux_thermal_alloc_cooling_buffers data s =
     (case data of
        None \<Rightarrow> (None, s)
      | Some d \<Rightarrow>
          if cd_len d > 0
          then let n = unat (cd_len d); (store, s1) = tl_calloc s; (i, s2) = tl_calloc s1; (c, s3) = tl_calloc s2;
                   (m, s4) = tl_calloc s3; (p, s5) = tl_calloc s4
               in (Some (d\<lparr>cd_id := if i then Some (replicate n 0) else None, cd_cur_state := if c then Some (replicate n 0) else None,
                           cd_max_state := if m then Some (replicate n 0) else None, cd_name := name_pointers store p n\<rparr>),
                   if store \<and> \<not> p then tl_free 1 s5 else s5)
          else (Some d, s))"

text \<open>The loops over the domains; the handles of a domain with entries start as \<open>NULL\<close>.\<close>

fun alloc_zones :: "nat \<Rightarrow> nat \<Rightarrow> thermal_lib \<Rightarrow> thermal_lib" where
  "alloc_zones i 0 s = s"
| "alloc_zones i (Suc n) s =
     (let (d, s1) = linux_thermal_alloc_temp_buffers (temp_at i s) s; s2 = set_temp i d s1
      in alloc_zones (Suc i) n
           (case d of
              None \<Rightarrow> s2
            | Some b \<Rightarrow> if td_len b > 0
                        then let (ok, s3) = tl_calloc s2
                             in s3\<lparr>g_temp_node := (g_temp_node s3)[i := if ok then Some (replicate (unat (td_len b)) None) else None]\<rparr>
                        else s2))"

fun alloc_devices :: "nat \<Rightarrow> nat \<Rightarrow> thermal_lib \<Rightarrow> thermal_lib" where
  "alloc_devices i 0 s = s"
| "alloc_devices i (Suc n) s =
     (let (d, s1) = linux_thermal_alloc_cooling_buffers (cool_at i s) s; s2 = set_cool i d s1
      in alloc_devices (Suc i) n
           (case d of
              None \<Rightarrow> s2
            | Some b \<Rightarrow> if cd_len b > 0
                        then let (ok, s3) = tl_calloc s2
                             in s3\<lparr>g_cool_node := (g_cool_node s3)[i := if ok then Some (replicate (unat (cd_len b)) None) else None]\<rparr>
                        else s2))"

text \<open>\<open>dir\<close> is what \<open>opendir\<close> and \<open>readdir\<close> give for the root of the thermal tree.\<close>

definition linux_thermal_lib_init :: "filesystem \<Rightarrow> string list option \<Rightarrow> thermal_lib \<Rightarrow> QcPerfReturnCode \<times> thermal_lib" where
  "linux_thermal_lib_init fs dir s =
     (if g_is_initialized s then (ALREADY_INITIALIZED, s)
      else case dir of
             None \<Rightarrow> (FAILED, s)
           | Some entries \<Rightarrow>
               let (a, s1) = tl_calloc s; (b, s2) = tl_calloc s1
               in if \<not> a \<or> \<not> b
                  then (CALLOC_FAILED, (tl_free (of_bool a + of_bool b) s2)\<lparr>g_temp_metrics := None, g_cool_metrics := None\<rparr>)
                  else let s3 = s2\<lparr>g_temp_metrics := Some (replicate LINUX_THERMAL_TEMP_DOMAIN_COUNT None),
                                   g_cool_metrics := Some (replicate LINUX_THERMAL_COOL_DOMAIN_COUNT None),
                                   tl_epoch := Suc (tl_epoch s2)\<rparr>;
                           s4 = count_entries fs entries s3;
                           s5 = alloc_zones 0 LINUX_THERMAL_TEMP_DOMAIN_COUNT s4;
                           s6 = alloc_devices 0 LINUX_THERMAL_COOL_DOMAIN_COUNT s5
                       in (SUCCESS, s6\<lparr>g_is_initialized := True\<rparr>))"

section \<open>Release\<close>

text \<open>\<open>free\<close> of a block and its buffers: how many blocks that is; \<open>name[0]\<close> is read.\<close>

definition name_blocks :: "string option list option \<Rightarrow> nat \<Rightarrow> nat outcome" where
  "name_blocks name len =
     (case name of
        None \<Rightarrow> Ret 0
      | Some ps \<Rightarrow> if len > 0 then obind (arr_read ps 0) (\<lambda>p. Ret (if p \<noteq> None then 2 else 1)) else Ret 1)"

definition linux_thermal_free_temp_data ::
  "LinuxThermalTempData option \<Rightarrow> thermal_lib \<Rightarrow> (LinuxThermalTempData option \<times> thermal_lib) outcome" where
  "linux_thermal_free_temp_data data s =
     (case data of
        None \<Rightarrow> Ret (None, s)
      | Some d \<Rightarrow> obind (name_blocks (td_name d) (unat (td_len d))) (\<lambda>k.
          Ret (None, tl_free (of_bool (td_id d \<noteq> None) + of_bool (td_temp d \<noteq> None) + k + 1) s)))"

definition linux_thermal_free_cooling_data ::
  "LinuxThermalCoolingData option \<Rightarrow> thermal_lib \<Rightarrow> (LinuxThermalCoolingData option \<times> thermal_lib) outcome" where
  "linux_thermal_free_cooling_data data s =
     (case data of
        None \<Rightarrow> Ret (None, s)
      | Some d \<Rightarrow> obind (name_blocks (cd_name d) (unat (cd_len d))) (\<lambda>k.
          Ret (None, tl_free (of_bool (cd_id d \<noteq> None) + of_bool (cd_cur_state d \<noteq> None) +
                              of_bool (cd_max_state d \<noteq> None) + k + 1) s)))"

text \<open>Closing the handles of one domain from entry \<open>i\<close> on: how many were open.\<close>

fun close_handles :: "string option list \<Rightarrow> nat \<Rightarrow> nat \<Rightarrow> nat outcome" where
  "close_handles hs i 0 = Ret 0"
| "close_handles hs i (Suc n) =
     obind (arr_read hs i) (\<lambda>h. obind (close_handles hs (Suc i) n) (\<lambda>k. Ret (of_bool (h \<noteq> None) + k)))"

text \<open>The loop over the domains, with their lengths: every array of handles is freed.\<close>

fun close_nodes :: "nat list \<Rightarrow> string option list option list \<Rightarrow> thermal_lib \<Rightarrow> thermal_lib outcome" where
  "close_nodes (len # lens) (node # nodes) s =
     (case node of
        None \<Rightarrow> close_nodes lens nodes s
      | Some hs \<Rightarrow> obind (close_handles hs 0 len) (\<lambda>k.
          close_nodes lens nodes (tl_free 1 (s\<lparr>tl_files := tl_files s - int k\<rparr>))))"
| "close_nodes _ _ s = Ret s"

definition temp_lens :: "LinuxThermalTempData option list \<Rightarrow> nat list" where
  "temp_lens ds = map (\<lambda>d. case d of None \<Rightarrow> 0 | Some b \<Rightarrow> unat (td_len b)) ds"

definition cool_lens :: "LinuxThermalCoolingData option list \<Rightarrow> nat list" where
  "cool_lens ds = map (\<lambda>d. case d of None \<Rightarrow> 0 | Some b \<Rightarrow> unat (cd_len b)) ds"

definition linux_thermal_close_temp_nodes :: "thermal_lib \<Rightarrow> thermal_lib outcome" where
  "linux_thermal_close_temp_nodes s =
     (case g_temp_metrics s of
        None \<Rightarrow> Ret s
      | Some ds \<Rightarrow> obind (close_nodes (temp_lens ds) (g_temp_node s) s)
                     (\<lambda>s'. Ret (s'\<lparr>g_temp_node := replicate LINUX_THERMAL_TEMP_DOMAIN_COUNT None\<rparr>)))"

definition linux_thermal_close_cool_nodes :: "thermal_lib \<Rightarrow> thermal_lib outcome" where
  "linux_thermal_close_cool_nodes s =
     (case g_cool_metrics s of
        None \<Rightarrow> Ret s
      | Some ds \<Rightarrow> obind (close_nodes (cool_lens ds) (g_cool_node s) s)
                     (\<lambda>s'. Ret (s'\<lparr>g_cool_node := replicate LINUX_THERMAL_COOL_DOMAIN_COUNT None\<rparr>)))"

fun free_zones :: "LinuxThermalTempData option list \<Rightarrow> thermal_lib \<Rightarrow> thermal_lib outcome" where
  "free_zones [] s = Ret s"
| "free_zones (d # ds) s = obind (linux_thermal_free_temp_data d s) (\<lambda>(_, s'). free_zones ds s')"

fun free_devices :: "LinuxThermalCoolingData option list \<Rightarrow> thermal_lib \<Rightarrow> thermal_lib outcome" where
  "free_devices [] s = Ret s"
| "free_devices (d # ds) s = obind (linux_thermal_free_cooling_data d s) (\<lambda>(_, s'). free_devices ds s')"

definition linux_thermal_free_temp_metrics :: "thermal_lib \<Rightarrow> thermal_lib outcome" where
  "linux_thermal_free_temp_metrics s =
     (case g_temp_metrics s of
        None \<Rightarrow> Ret s
      | Some ds \<Rightarrow> obind (free_zones ds s) (\<lambda>s'. Ret ((tl_free 1 s')\<lparr>g_temp_metrics := None\<rparr>)))"

definition linux_thermal_free_cool_metrics :: "thermal_lib \<Rightarrow> thermal_lib outcome" where
  "linux_thermal_free_cool_metrics s =
     (case g_cool_metrics s of
        None \<Rightarrow> Ret s
      | Some ds \<Rightarrow> obind (free_devices ds s) (\<lambda>s'. Ret ((tl_free 1 s')\<lparr>g_cool_metrics := None\<rparr>)))"

definition linux_thermal_lib_cleanup :: "thermal_lib \<Rightarrow> (QcPerfReturnCode \<times> thermal_lib) outcome" where
  "linux_thermal_lib_cleanup s =
     (if \<not> g_is_initialized s then Ret (NOT_INITIALIZED, s)
      else obind (linux_thermal_close_temp_nodes s) (\<lambda>s1.
           obind (linux_thermal_close_cool_nodes s1) (\<lambda>s2.
           obind (linux_thermal_free_temp_metrics s2) (\<lambda>s3.
           obind (linux_thermal_free_cool_metrics s3) (\<lambda>s4.
             Ret (SUCCESS, s4\<lparr>g_temp_discovered := False, g_cool_discovered := False, g_is_initialized := False\<rparr>))))))"

section \<open>Discovery\<close>

text \<open>
  An out parameter of type \<open>struct LinuxThermalTempMetrics**\<close>: \<open>None\<close> when it is \<open>NULL\<close>, else what it
  points at, itself \<open>NULL\<close> or the metrics allocated as number \<open>e\<close>.
\<close>

type_synonym metrics_ptr = "nat option"

definition temp_ptr :: "thermal_lib \<Rightarrow> metrics_ptr" where
  "temp_ptr s = (case g_temp_metrics s of None \<Rightarrow> None | Some _ \<Rightarrow> Some (tl_epoch s))"

definition cool_ptr :: "thermal_lib \<Rightarrow> metrics_ptr" where
  "cool_ptr s = (case g_cool_metrics s of None \<Rightarrow> None | Some _ \<Rightarrow> Some (tl_epoch s))"

text \<open>Stores through pointers that may be \<open>NULL\<close>.\<close>

definition store_opt :: "'a list option \<Rightarrow> nat \<Rightarrow> 'a \<Rightarrow> 'a list option outcome" where
  "store_opt a i v = (case a of None \<Rightarrow> Ret None | Some xs \<Rightarrow> obind (arr_write xs i v) (\<lambda>ys. Ret (Some ys)))"

definition store_name :: "string option list option \<Rightarrow> nat \<Rightarrow> string \<Rightarrow> string option list option outcome" where
  "store_name a i type =
     (case a of
        None \<Rightarrow> Ret None
      | Some ps \<Rightarrow> obind (arr_read ps i) (\<lambda>p. Ret (Some (if p = None then ps else ps[i :=
          Some (snprintf_buf LINUX_THERMAL_ZONE_NAME_MAX_LEN type)]))))"

definition open_node :: "filesystem \<Rightarrow> string \<Rightarrow> string option list option \<Rightarrow> nat \<Rightarrow> thermal_lib
     \<Rightarrow> (string option list option \<times> string option \<times> thermal_lib) outcome" where
  "open_node fs path node slot s =
     (case node of
        None \<Rightarrow> Ret (None, None, s)
      | Some hs \<Rightarrow> (case tl_fopen fs path s of (h, s') \<Rightarrow>
          obind (arr_write hs slot h) (\<lambda>hs'. Ret (Some hs', h, s'))))"

text \<open>One zone: \<open>slot\<close> of domain \<open>i\<close>, whose block is \<open>d\<close>.\<close>

definition fill_zone :: "filesystem \<Rightarrow> u32 \<Rightarrow> string \<Rightarrow> nat \<Rightarrow> nat \<Rightarrow> LinuxThermalTempData \<Rightarrow> thermal_lib \<Rightarrow> thermal_lib outcome" where
  "fill_zone fs zone_id type i slot d s =
     obind (store_opt (td_id d) slot (ucast zone_id)) (\<lambda>ids.
     obind (store_name (td_name d) slot type) (\<lambda>names.
     obind (open_node fs (value_node LINUX_THERMAL_ZONE_PREFIX zone_id ''/temp'') (g_temp_node s ! i) slot s) (\<lambda>(node, h, s1).
     obind (case (td_temp d, h) of
              (Some ts, Some _) \<Rightarrow> (case linux_thermal_read_value_fp fs h of
                                     Some v \<Rightarrow> store_opt (Some ts) slot v
                                   | None \<Rightarrow> Ret (Some ts))
            | _ \<Rightarrow> Ret (td_temp d)) (\<lambda>temps.
       Ret (set_temp i (Some (d\<lparr>td_id := ids, td_name := names, td_temp := temps\<rparr>))
              (s1\<lparr>g_temp_node := (g_temp_node s1)[i := node]\<rparr>))))))"

fun discover_zones :: "filesystem \<Rightarrow> string list \<Rightarrow> u8 list \<Rightarrow> thermal_lib \<Rightarrow> thermal_lib outcome" where
  "discover_zones fs [] filled s = Ret s"
| "discover_zones fs (d_name # ns) filled s =
     (case scan_entry LINUX_THERMAL_ZONE_PREFIX d_name of
        None \<Rightarrow> discover_zones fs ns filled s
      | Some zone_id \<Rightarrow>
          (case linux_thermal_read_type fs (type_node d_name) LINUX_THERMAL_ZONE_NAME_MAX_LEN of
             None \<Rightarrow> discover_zones fs ns filled s
           | Some type \<Rightarrow>
               (case linux_thermal_classify type g_temp_prefix of
                  None \<Rightarrow> discover_zones fs ns filled s
                | Some i \<Rightarrow>
                    (case temp_at i s of
                       None \<Rightarrow> discover_zones fs ns filled s
                     | Some d \<Rightarrow>
                         if td_len d \<le> filled ! i then discover_zones fs ns filled s
                         else obind (fill_zone fs zone_id type i (unat (filled ! i)) d s)
                                (discover_zones fs ns (filled[i := filled ! i + 1]))))))"

definition linux_thermal_lib_discover_thermal_zones ::
  "filesystem \<Rightarrow> string list option \<Rightarrow> metrics_ptr option \<Rightarrow> thermal_lib
     \<Rightarrow> (QcPerfReturnCode \<times> metrics_ptr option \<times> thermal_lib) outcome" where
  "linux_thermal_lib_discover_thermal_zones fs dir metrics s =
     (if \<not> g_is_initialized s then Ret (NOT_INITIALIZED, metrics, s)
      else case metrics of
             None \<Rightarrow> Ret (NULL_POINTER, None, s)
           | Some _ \<Rightarrow>
               if g_temp_discovered s then Ret (SUCCESS, Some (temp_ptr s), s)
               else obind (case dir of
                             None \<Rightarrow> Ret s
                           | Some entries \<Rightarrow> discover_zones fs entries (replicate LINUX_THERMAL_TEMP_DOMAIN_COUNT 0) s)
                      (\<lambda>s'. Ret (SUCCESS, Some (temp_ptr s'), s'\<lparr>g_temp_discovered := True\<rparr>)))"

definition fill_device :: "filesystem \<Rightarrow> u32 \<Rightarrow> string \<Rightarrow> nat \<Rightarrow> nat \<Rightarrow> LinuxThermalCoolingData \<Rightarrow> thermal_lib \<Rightarrow> thermal_lib outcome" where
  "fill_device fs device_id type i slot d s =
     obind (store_opt (cd_id d) slot (ucast device_id)) (\<lambda>ids.
     obind (store_name (cd_name d) slot type) (\<lambda>names.
     obind (open_node fs (value_node LINUX_THERMAL_COOLING_DEVICE_PREFIX device_id ''/cur_state'') (g_cool_node s ! i) slot s)
       (\<lambda>(node, h, s1).
     obind (case (cd_cur_state d, h) of
              (Some cs, Some _) \<Rightarrow> (case linux_thermal_read_value_fp fs h of
                                     Some v \<Rightarrow> store_opt (Some cs) slot (ucast v)
                                   | None \<Rightarrow> Ret (Some cs))
            | _ \<Rightarrow> Ret (cd_cur_state d)) (\<lambda>curs.
     obind (case cd_max_state d of
              None \<Rightarrow> Ret None
            | Some ms \<Rightarrow> (case linux_thermal_read_value fs (value_node LINUX_THERMAL_COOLING_DEVICE_PREFIX device_id ''/max_state'') of
                            Some v \<Rightarrow> store_opt (Some ms) slot (ucast v)
                          | None \<Rightarrow> Ret (Some ms))) (\<lambda>maxs.
       Ret (set_cool i (Some (d\<lparr>cd_id := ids, cd_name := names, cd_cur_state := curs, cd_max_state := maxs\<rparr>))
              (s1\<lparr>g_cool_node := (g_cool_node s1)[i := node]\<rparr>)))))))"

fun discover_devices :: "filesystem \<Rightarrow> string list \<Rightarrow> u8 list \<Rightarrow> thermal_lib \<Rightarrow> thermal_lib outcome" where
  "discover_devices fs [] filled s = Ret s"
| "discover_devices fs (d_name # ns) filled s =
     (case scan_entry LINUX_THERMAL_COOLING_DEVICE_PREFIX d_name of
        None \<Rightarrow> discover_devices fs ns filled s
      | Some device_id \<Rightarrow>
          (case linux_thermal_read_type fs (type_node d_name) LINUX_THERMAL_ZONE_NAME_MAX_LEN of
             None \<Rightarrow> discover_devices fs ns filled s
           | Some type \<Rightarrow>
               (case linux_thermal_classify type g_cool_prefix of
                  None \<Rightarrow> discover_devices fs ns filled s
                | Some i \<Rightarrow>
                    (case cool_at i s of
                       None \<Rightarrow> discover_devices fs ns filled s
                     | Some d \<Rightarrow>
                         if cd_len d \<le> filled ! i then discover_devices fs ns filled s
                         else obind (fill_device fs device_id type i (unat (filled ! i)) d s)
                                (discover_devices fs ns (filled[i := filled ! i + 1]))))))"

definition linux_thermal_lib_discover_cooling_devices ::
  "filesystem \<Rightarrow> string list option \<Rightarrow> metrics_ptr option \<Rightarrow> thermal_lib
     \<Rightarrow> (QcPerfReturnCode \<times> metrics_ptr option \<times> thermal_lib) outcome" where
  "linux_thermal_lib_discover_cooling_devices fs dir metrics s =
     (if \<not> g_is_initialized s then Ret (NOT_INITIALIZED, metrics, s)
      else case metrics of
             None \<Rightarrow> Ret (NULL_POINTER, None, s)
           | Some _ \<Rightarrow>
               if g_cool_discovered s then Ret (SUCCESS, Some (cool_ptr s), s)
               else obind (case dir of
                             None \<Rightarrow> Ret s
                           | Some entries \<Rightarrow> discover_devices fs entries (replicate LINUX_THERMAL_COOL_DOMAIN_COUNT 0) s)
                      (\<lambda>s'. Ret (SUCCESS, Some (cool_ptr s'), s'\<lparr>g_cool_discovered := True\<rparr>)))"

section \<open>Refreshing\<close>

text \<open>The entries of one domain from \<open>i\<close> on; \<open>conv\<close> is the conversion to the element type.\<close>

fun refresh_values :: "filesystem \<Rightarrow> string option list \<Rightarrow> (u32 \<Rightarrow> 'v) \<Rightarrow> nat \<Rightarrow> nat \<Rightarrow> 'v list \<Rightarrow> 'v list outcome" where
  "refresh_values fs hs conv i 0 vs = Ret vs"
| "refresh_values fs hs conv i (Suc n) vs =
     obind (arr_read hs i) (\<lambda>h.
     obind (case linux_thermal_read_value_fp fs h of None \<Rightarrow> Ret vs | Some v \<Rightarrow> arr_write vs i (conv v)) (\<lambda>vs'.
       refresh_values fs hs conv (Suc i) n vs'))"

fun refresh_zones :: "filesystem \<Rightarrow> nat \<Rightarrow> nat \<Rightarrow> thermal_lib \<Rightarrow> thermal_lib outcome" where
  "refresh_zones fs i 0 s = Ret s"
| "refresh_zones fs i (Suc n) s =
     (case (temp_at i s, g_temp_node s ! i) of
        (Some d, Some hs) \<Rightarrow>
          (case td_temp d of
             None \<Rightarrow> refresh_zones fs (Suc i) n s
           | Some ts \<Rightarrow> obind (refresh_values fs hs (\<lambda>v. v) 0 (unat (td_len d)) ts) (\<lambda>ts'.
               refresh_zones fs (Suc i) n (set_temp i (Some (d\<lparr>td_temp := Some ts'\<rparr>)) s)))
      | _ \<Rightarrow> refresh_zones fs (Suc i) n s)"

definition linux_thermal_lib_thermal_zones_info ::
  "filesystem \<Rightarrow> metrics_ptr option \<Rightarrow> thermal_lib \<Rightarrow> (QcPerfReturnCode \<times> metrics_ptr option \<times> thermal_lib) outcome" where
  "linux_thermal_lib_thermal_zones_info fs data s =
     (if \<not> g_is_initialized s then Ret (NOT_INITIALIZED, data, s)
      else case data of
             None \<Rightarrow> Ret (NULL_POINTER, None, s)
           | Some _ \<Rightarrow> obind (refresh_zones fs 0 LINUX_THERMAL_TEMP_DOMAIN_COUNT s) (\<lambda>s'. Ret (SUCCESS, Some (temp_ptr s'), s')))"

fun refresh_devices :: "filesystem \<Rightarrow> nat \<Rightarrow> nat \<Rightarrow> thermal_lib \<Rightarrow> thermal_lib outcome" where
  "refresh_devices fs i 0 s = Ret s"
| "refresh_devices fs i (Suc n) s =
     (case (cool_at i s, g_cool_node s ! i) of
        (Some d, Some hs) \<Rightarrow>
          (case cd_cur_state d of
             None \<Rightarrow> refresh_devices fs (Suc i) n s
           | Some cs \<Rightarrow> obind (refresh_values fs hs ucast 0 (unat (cd_len d)) cs) (\<lambda>cs'.
               refresh_devices fs (Suc i) n (set_cool i (Some (d\<lparr>cd_cur_state := Some cs'\<rparr>)) s)))
      | _ \<Rightarrow> refresh_devices fs (Suc i) n s)"

definition linux_thermal_lib_cooling_devices_info ::
  "filesystem \<Rightarrow> metrics_ptr option \<Rightarrow> thermal_lib \<Rightarrow> (QcPerfReturnCode \<times> metrics_ptr option \<times> thermal_lib) outcome" where
  "linux_thermal_lib_cooling_devices_info fs data s =
     (if \<not> g_is_initialized s then Ret (NOT_INITIALIZED, data, s)
      else case data of
             None \<Rightarrow> Ret (NULL_POINTER, None, s)
           | Some _ \<Rightarrow> obind (refresh_devices fs 0 LINUX_THERMAL_COOL_DOMAIN_COUNT s) (\<lambda>s'. Ret (SUCCESS, Some (cool_ptr s'), s')))"

text \<open>Detaching the view of a caller.\<close>

definition linux_thermal_lib_free_thermal_zones_info :: "metrics_ptr option \<Rightarrow> QcPerfReturnCode \<times> metrics_ptr option" where
  "linux_thermal_lib_free_thermal_zones_info data = (case data of None \<Rightarrow> (NULL_POINTER, None) | Some _ \<Rightarrow> (SUCCESS, Some None))"

definition linux_thermal_lib_free_cooling_devices_info :: "metrics_ptr option \<Rightarrow> QcPerfReturnCode \<times> metrics_ptr option" where
  "linux_thermal_lib_free_cooling_devices_info data = (case data of None \<Rightarrow> (NULL_POINTER, None) | Some _ \<Rightarrow> (SUCCESS, Some None))"

end
