(* ===== verification/LinuxThermal.thy ===== *)
theory LinuxThermal
  imports Session OsUtils Core LinuxThermalLib
begin

text \<open>
  The Linux thermal backend, \<open>backends/linux-thermal\<close>: the metric table of \<open>linux_thermal_info.c\<close>, the
  logger, and the seven operations and the collection thread of \<open>linux_thermal.c\<close>, over the library of
  \<open>LinuxThermalLib\<close>. Theorems are in \<open>LinuxThermalProps\<close> and \<open>LinuxThermalLaws\<close>.
\<close>

abbreviation (input) LINUX_THERMAL_CAPABILITY_METRIC_COUNT :: nat where "LINUX_THERMAL_CAPABILITY_METRIC_COUNT \<equiv> 28"
abbreviation (input) LINUX_THERMAL_METRIC_CPU_TEMP_ID :: nat where "LINUX_THERMAL_METRIC_CPU_TEMP_ID \<equiv> 0"
abbreviation (input) LINUX_THERMAL_METRIC_CPU_COOLING_ID :: nat where "LINUX_THERMAL_METRIC_CPU_COOLING_ID \<equiv> 16"

definition thermal_streaming_rates :: "u16 list" where "thermal_streaming_rates = [200, 500, 1000, 2000]"
definition thermal_sampling_rates :: "u16 list" where "thermal_sampling_rates = [50, 100, 200, 500, 1000]"

section \<open>State\<close>

text \<open>The thread's variables; its two pointers to metrics say which allocation they point to.\<close>

record thermal_local =
  tt_request :: QcPerfRequest
  tt_supported :: "bool list"
  tt_samples_per_stream :: u32
  tt_total_responses :: u32
  tt_streaming_rate_ns :: u64
  tt_temp_metrics :: metrics_ptr
  tt_cool_metrics :: metrics_ptr
  tt_data :: QcPerfData
  tt_position :: u32
  tt_sample_count :: u32
  tt_current_time :: u64
  tt_last_stream_time :: u64
  tt_slept :: nat

text \<open>The static variables of the backend and, in \<open>ts_lib\<close>, those of the library.\<close>

record thermal_state = "thermal_local session" +
  ts_lib :: thermal_lib

definition initial_thermal :: "oom \<Rightarrow> oom \<Rightarrow> thermal_state" where
  "initial_thermal faults lib_faults = session.extend (initial_session faults) \<lparr>ts_lib = initial_thermal_lib lib_faults\<rparr>"

section \<open>The logger\<close>

definition linux_thermal_logger_set_message_callback :: "callback \<Rightarrow> thermal_state \<Rightarrow> thermal_state" where
  "linux_thermal_logger_set_message_callback cb s = s\<lparr>g_message_callback := cb\<rparr>"

definition linux_thermal_logger_send_message :: "QcPerfMessageLevel \<Rightarrow> string \<Rightarrow> thermal_state \<Rightarrow> thermal_state" where
  "linux_thermal_logger_send_message level txt s =
     (if g_message_callback s \<noteq> None
      then post_message (message_clamped (of_nat (backend_index BACKEND_LINUX_THERMAL)) level txt) s else s)"

abbreviation THERMAL_SEND :: "QcPerfMessageLevel \<Rightarrow> string \<Rightarrow> thermal_state \<Rightarrow> thermal_state" where
  "THERMAL_SEND \<equiv> linux_thermal_logger_send_message"

section \<open>The metric table\<close>

type_synonym LinuxThermalMetricDef = "u16 \<times> string \<times> string \<times> string"

definition thermal_metric_defs :: "LinuxThermalMetricDef list" where
  "thermal_metric_defs =
     [(0, ''CPU Temperature'', ''Temperature of the CPU thermal domain (cpu-*, cpullc-*)'', ''deg C''),
      (1, ''GPU Temperature'', ''Temperature of the GPU thermal domain (gpu-*, gpuss-*)'', ''deg C''),
      (2, ''NPU Temperature'', ''Temperature of the NPU/NSP thermal domain (nspvxu*, nspmxu*, nspllv*, nspq6)'', ''deg C''),
      (3, ''DDR Temperature'', ''Temperature of the DDR memory thermal domain (ddr, sdram*)'', ''deg C''),
      (4, ''Modem Temperature'', ''Temperature of the Modem thermal domain (mdmss-*)'', ''deg C''),
      (5, ''QMX Temperature'', ''Temperature of the QMX Fabric thermal domain (qmx-*)'', ''deg C''),
      (6, ''Video Temperature'', ''Temperature of the Video (VPU) thermal domain (video)'', ''deg C''),
      (7, ''Camera Temperature'', ''Temperature of the Camera thermal domain (camera-*)'', ''deg C''),
      (8, ''Wireless Temperature'', ''Temperature of the Wireless (WLAN/BT) thermal domain (wireless)'', ''deg C''),
      (9, ''USB Temperature'', ''Temperature of the USB thermal domain (usb)'', ''deg C''),
      (10, ''RF/SDR Temperature'', ''Temperature of the RF/SDR thermal domain (sdr0, sdr0_pa)'', ''deg C''),
      (11, ''Multimedia Temperature'', ''Temperature of the Multimedia thermal domain (mmw0-3)'', ''deg C''),
      (12, ''PMIC Temperature'', ''Temperature of the PMIC thermal domain (pmh*, pmih*, pm8010*, pmd802x*, pmr735d*)'', ''deg C''),
      (13, ''System Temperature'', ''Temperature of the System/Skin thermal domain (sys-therm-*)'', ''deg C''),
      (14, ''Battery Temperature'', ''Temperature of the Battery thermal domain (battery)'', ''deg C''),
      (15, ''SoC Temperature'', ''Temperature of the SoC thermal domain (socd)'', ''deg C''),
      (16, ''CPU Cooling'', ''Cooling level of the CPU domain (cpu-hotplug*, cpufreq*, pause-cpu*, cpu-cluster*, idle-cpu*): frequency reduction, core offline, core pause, idle injection'', ''%''),
      (17, ''DDR Cooling'', ''Cooling level of the DDR domain (ddr-cdev): memory bandwidth throttling'', ''%''),
      (18, ''GPU Cooling'', ''Cooling level of the GPU domain (gpu, kgsl): GPU frequency/power throttling'', ''%''),
      (19, ''NPU Cooling'', ''Cooling level of the NPU/DSP domain (cdsp_hw, cdsp, cdsp_sw_hvx, cdsp_sw_hmx): AI/DSP workload throttling'', ''%''),
      (20, ''Display Cooling'', ''Cooling level of the Display domain (display-fps, panel0-backlight): reduce refresh rate / brightness'', ''%''),
      (21, ''Storage Cooling'', ''Cooling level of the Storage domain (ufs): UFS bandwidth throttling'', ''%''),
      (22, ''Battery Cooling'', ''Cooling level of the Battery domain (battery): battery charging/discharging thermal protection'', ''%''),
      (23, ''Modem Cooling'', ''Cooling level of the Modem/Cellular domain (modem_*, modem_current, modem_bcl): cellular power reduction'', ''%''),
      (24, ''RF/SDR Cooling'', ''Cooling level of the RF/SDR domain (pa_*): RF power amplifier reduction'', ''%''),
      (25, ''Multimedia Cooling'', ''Cooling level of the Multimedia (mmWave) domain (mmw_dsc, mmw_sub1_dsc): mmWave power reduction'', ''%''),
      (26, ''DSDS Cooling'', ''Cooling level of the DSDS domain (dsds_switch_dsc): dual-SIM thermal mitigation'', ''%''),
      (27, ''Thermal Framework Cooling'', ''Cooling level of the Thermal Framework domain (thermal-pause-*): generic kernel thermal pause controls'', ''%'')]"

definition linux_thermal_populate_metric ::
  "QcPerfMetricInfo option \<Rightarrow> LinuxThermalMetricDef option \<Rightarrow> QcPerfMetricInfo option" where
  "linux_thermal_populate_metric dst def =
     (case (dst, def) of
        (Some _, Some (i, name, desc, unit)) \<Rightarrow> Some (set_metric_info i name desc unit)
      | _ \<Rightarrow> dst)"

text \<open>Storing entry \<open>i\<close> of the table at index \<open>k\<close>.\<close>

definition populate_at :: "nat \<Rightarrow> LinuxThermalMetricDef \<Rightarrow> QcPerfMetricInfo list \<Rightarrow> QcPerfMetricInfo list outcome" where
  "populate_at k def ms =
     obind (arr_read ms k) (\<lambda>m. case linux_thermal_populate_metric (Some m) (Some def) of
        Some m' \<Rightarrow> Ret (ms[k := m']) | None \<Rightarrow> Ret ms)"

fun metrics_loop :: "LinuxThermalMetricDef list \<Rightarrow> nat \<Rightarrow> QcPerfMetricInfo list \<Rightarrow> QcPerfMetricInfo list outcome" where
  "metrics_loop [] i ms = Ret ms"
| "metrics_loop (def # defs) i ms = obind (populate_at i def ms) (metrics_loop defs (Suc i))"

definition linux_thermal_init_metrics ::
  "QcPerfMetricInfo list option \<Rightarrow> u8 option \<Rightarrow> thermal_state
     \<Rightarrow> (QcPerfReturnCode \<times> QcPerfMetricInfo list option \<times> u8 option \<times> thermal_state) outcome" where
  "linux_thermal_init_metrics metrics_data metric_data_len s =
     (case (metrics_data, metric_data_len) of
        (Some ms, Some _) \<Rightarrow>
          obind (metrics_loop thermal_metric_defs 0 ms) (\<lambda>ms'.
            Ret (SUCCESS, Some ms', Some (of_nat LINUX_THERMAL_CAPABILITY_METRIC_COUNT),
              THERMAL_SEND LEVEL_DEBUG ''Initialized 28 Linux Thermal metrics (16 temperature, 12 cooling)'' s))
      | _ \<Rightarrow> Ret (NULL_POINTER, metrics_data, metric_data_len,
               THERMAL_SEND LEVEL_ERROR ''Linux Thermal metric init received NULL pointer'' s))"

text \<open>The loop that packs the metrics that are present; \<open>count\<close> is a \<open>uint8_t\<close>.\<close>

fun available_loop ::
  "LinuxThermalMetricDef list \<Rightarrow> nat \<Rightarrow> bool list \<Rightarrow> QcPerfMetricInfo list \<Rightarrow> u8 \<Rightarrow> (QcPerfMetricInfo list \<times> u8) outcome" where
  "available_loop [] i present ms count = Ret (ms, count)"
| "available_loop (def # defs) i present ms count =
     obind (arr_read present i) (\<lambda>p.
       if p then obind (populate_at (unat count) def ms) (\<lambda>ms'. available_loop defs (Suc i) present ms' (count + 1))
       else available_loop defs (Suc i) present ms count)"

definition linux_thermal_init_available_metrics ::
  "QcPerfMetricInfo list option \<Rightarrow> u8 option \<Rightarrow> bool list option \<Rightarrow> thermal_state
     \<Rightarrow> (QcPerfReturnCode \<times> QcPerfMetricInfo list option \<times> u8 option \<times> thermal_state) outcome" where
  "linux_thermal_init_available_metrics metrics_data metric_data_len present s =
     (case (metrics_data, metric_data_len, present) of
        (Some ms, Some _, Some p) \<Rightarrow>
          obind (available_loop thermal_metric_defs 0 p ms 0) (\<lambda>(ms', count).
            Ret (SUCCESS, Some ms', Some count,
              THERMAL_SEND LEVEL_DEBUG (''Enabled '' @ show_u (unat count) @ '' of 28 Linux Thermal metrics for available subsystems'') s))
      | _ \<Rightarrow> Ret (NULL_POINTER, metrics_data, metric_data_len,
               THERMAL_SEND LEVEL_ERROR ''Linux Thermal available-metric init received NULL pointer'' s))"

section \<open>Operations\<close>

definition linux_thermal_free_backend_info :: "thermal_state \<Rightarrow> thermal_state" where
  "linux_thermal_free_backend_info s =
     s\<lparr>g_backend_info := (g_backend_info s)\<lparr>bi_capabilities_list := None, bi_capabilities_list_length := 0\<rparr>\<rparr>"

definition thermal_validate_request :: "QcPerfRequest \<Rightarrow> thermal_state \<Rightarrow> (QcPerfReturnCode \<times> thermal_state) outcome" where
  "thermal_validate_request rq s =
     obind (find_capability (rq_capability_id rq) (g_backend_info s)) (\<lambda>found.
       case found of
         None \<Rightarrow> Ret (CAPABILITY_NOT_FOUND, THERMAL_SEND LEVEL_ERROR
                   (''Capability ID '' @ show_u (unat (rq_capability_id rq)) @ '' not found'') s)
       | Some i \<Rightarrow>
           obind (deref_capability (sn_table s) i s) (\<lambda>ci.
             obind (rate_scan (rq_sampling_rate rq) (unat (ci_sampling_rate_len ci)) (ci_sampling_rate ci)) (\<lambda>sampling_ok.
               if \<not> sampling_ok
               then Ret (INVALID_ARGUMENTS, THERMAL_SEND LEVEL_ERROR
                      (''Invalid sampling rate '' @ show_u (unat (rq_sampling_rate rq))) s)
               else obind (rate_scan (rq_streaming_rate rq) (unat (ci_streaming_rate_len ci)) (ci_streaming_rate ci)) (\<lambda>streaming_ok.
                 if \<not> streaming_ok
                 then Ret (INVALID_ARGUMENTS, THERMAL_SEND LEVEL_ERROR
                        (''Invalid streaming rate '' @ show_u (unat (rq_streaming_rate rq))) s)
                 else Ret (SUCCESS, s)))))"

definition linux_thermal_set_message_callback :: "callback \<Rightarrow> thermal_state \<Rightarrow> QcPerfReturnCode \<times> thermal_state" where
  "linux_thermal_set_message_callback cb s = (SUCCESS, linux_thermal_logger_set_message_callback cb s)"

text \<open>Which domains have entries, in the order of the metric identifiers.\<close>

definition linux_thermal_mark_present ::
  "LinuxThermalTempData option list option \<Rightarrow> LinuxThermalCoolingData option list option \<Rightarrow> bool list" where
  "linux_thermal_mark_present temp_metrics cool_metrics =
     (case temp_metrics of
        None \<Rightarrow> replicate LINUX_THERMAL_TEMP_DOMAIN_COUNT False
      | Some ds \<Rightarrow> map (\<lambda>d. case d of None \<Rightarrow> False | Some b \<Rightarrow> td_len b > 0) ds) @
     (case cool_metrics of
        None \<Rightarrow> replicate LINUX_THERMAL_COOL_DOMAIN_COUNT False
      | Some cs \<Rightarrow> map (\<lambda>d. case d of None \<Rightarrow> False | Some b \<Rightarrow> cd_len b > 0) cs)"

text \<open>Going through a pointer to metrics, \<open>NULL\<close> or the metrics of an allocation that must be the live one.\<close>

definition deref_temp :: "metrics_ptr \<Rightarrow> thermal_lib \<Rightarrow> LinuxThermalTempData option list option outcome" where
  "deref_temp p s =
     (case p of
        None \<Rightarrow> Ret None
      | Some e \<Rightarrow> (case g_temp_metrics s of
                     Some ds \<Rightarrow> if tl_epoch s = e then Ret (Some ds) else Stuck BadDeref
                   | None \<Rightarrow> Stuck BadDeref))"

definition deref_cool :: "metrics_ptr \<Rightarrow> thermal_lib \<Rightarrow> LinuxThermalCoolingData option list option outcome" where
  "deref_cool p s =
     (case p of
        None \<Rightarrow> Ret None
      | Some e \<Rightarrow> (case g_cool_metrics s of
                     Some cs \<Rightarrow> if tl_epoch s = e then Ret (Some cs) else Stuck BadDeref
                   | None \<Rightarrow> Stuck BadDeref))"

text \<open>Filling the capability once the metrics are there.\<close>

definition thermal_fill_capability :: "QcPerfCapabilityInfo \<Rightarrow> QcPerfCapabilityInfo" where
  "thermal_fill_capability c =
     (let (st, stn) = copy_rates thermal_streaming_rates 0 (ci_streaming_rate c, ci_streaming_rate_len c);
          (sa, san) = copy_rates thermal_sampling_rates 0 (ci_sampling_rate c, ci_sampling_rate_len c)
      in c\<lparr>ci_capability_id := 0, ci_name := snprintf_buf CAPABILITY_NAME_MAX_LEN ''thermal'',
           ci_name_len := length (snprintf_buf CAPABILITY_NAME_MAX_LEN ''thermal''),
           ci_streaming_rate := st, ci_streaming_rate_len := stn,
           ci_sampling_rate := sa, ci_sampling_rate_len := san\<rparr>)"

text \<open>The part of \<open>linux_thermal_init\<close> once it is known which domains are present.\<close>

definition thermal_init_table :: "bool list \<Rightarrow> thermal_state \<Rightarrow> (QcPerfReturnCode \<times> thermal_state) outcome" where
  "thermal_init_table present s =
     (let (ok, s1) = alloc s
      in if \<not> ok then Ret (CALLOC_FAILED, s1\<lparr>g_backend_info := (g_backend_info s1)\<lparr>bi_capabilities_list := None\<rparr>\<rparr>)
         else let s2 = s1\<lparr>sn_table := Suc (sn_table s1),
                          g_backend_info := (g_backend_info s1)\<lparr>bi_capabilities_list := Some [zero_capability]\<rparr>\<rparr>;
                  (ok2, s3) = alloc s2
              in if \<not> ok2 then Ret (CALLOC_FAILED, s3)
                 else obind (linux_thermal_init_available_metrics
                               (Some (replicate LINUX_THERMAL_CAPABILITY_METRIC_COUNT zero_metric_info))
                               (Some (ci_metric_ids_list_len zero_capability)) (Some present) s3) (\<lambda>(ret, ms, len, s4).
                        let c = zero_capability\<lparr>ci_metric_ids_list := ms,
                                  ci_metric_ids_list_len := (case len of Some n \<Rightarrow> n | None \<Rightarrow> 0)\<rparr>
                        in if ret \<noteq> SUCCESS
                           then Ret (ret, THERMAL_SEND LEVEL_ERROR ''Failed to initialize metrics''
                                  (s4\<lparr>g_backend_info := (g_backend_info s4)\<lparr>bi_capabilities_list := Some [c]\<rparr>\<rparr>))
                           else Ret (SUCCESS, THERMAL_SEND LEVEL_INFO
                                  (''linux-thermal backend initialized: '' @ show_u (unat (ci_metric_ids_list_len c)) @ '' metrics'')
                                  (s4\<lparr>g_backend_info := (g_backend_info s4)
                                       \<lparr>bi_backend_id := of_nat (backend_index BACKEND_LINUX_THERMAL),
                                        bi_capabilities_list := Some [thermal_fill_capability c],
                                        bi_capabilities_list_length := 1\<rparr>\<rparr>))))"

definition linux_thermal_init ::
  "filesystem \<Rightarrow> string list option \<Rightarrow> thermal_state \<Rightarrow> (QcPerfReturnCode \<times> thermal_state) outcome" where
  "linux_thermal_init fs dir s0 =
     (let s = THERMAL_SEND LEVEL_INFO ''Initializing linux-thermal backend'' s0;
          (ret, lib) = linux_thermal_lib_init fs dir (ts_lib s); s1 = s\<lparr>ts_lib := lib\<rparr>
      in obind
           (if ret \<noteq> SUCCESS
            then Ret (ret, THERMAL_SEND LEVEL_ERROR
                   (''Failed to initialize thermal library, error: '' @ show_u (nat (return_code_number ret))) s1)
            else obind (linux_thermal_lib_discover_thermal_zones fs dir (Some None) lib) (\<lambda>(_, t, lib1).
                 obind (linux_thermal_lib_discover_cooling_devices fs dir (Some None) lib1) (\<lambda>(_, c, lib2).
                 obind (deref_temp (case t of Some p \<Rightarrow> p | None \<Rightarrow> None) lib2) (\<lambda>temp_metrics.
                 obind (deref_cool (case c of Some p \<Rightarrow> p | None \<Rightarrow> None) lib2) (\<lambda>cool_metrics.
                   thermal_init_table (linux_thermal_mark_present temp_metrics cool_metrics) (s1\<lparr>ts_lib := lib2\<rparr>))))))
           (\<lambda>(rc, s2).
              if rc \<noteq> SUCCESS
              then let s3 = linux_thermal_free_backend_info s2
                   in obind (linux_thermal_lib_cleanup (ts_lib s3)) (\<lambda>(_, lib'). Ret (rc, s3\<lparr>ts_lib := lib'\<rparr>))
              else Ret (rc, s2)))"

definition linux_thermal_backend_info ::
  "QcPerfBackendInfo option \<Rightarrow> thermal_state \<Rightarrow> QcPerfReturnCode \<times> QcPerfBackendInfo option \<times> thermal_state" where
  "linux_thermal_backend_info info s =
     (case info of None \<Rightarrow> (NULL_POINTER, None, s) | Some _ \<Rightarrow> (SUCCESS, Some (g_backend_info s), s))"

definition linux_thermal_set_data_callback :: "callback \<Rightarrow> thermal_state \<Rightarrow> QcPerfReturnCode \<times> thermal_state" where
  "linux_thermal_set_data_callback cb s =
     (if cb = None then (INVALID_ARGUMENTS, s)
      else if g_data_callback s \<noteq> None then (CALLBACK_ALREADY_SET, s)
      else (SUCCESS, s\<lparr>g_data_callback := cb\<rparr>))"

definition thermal_thread_attrs :: "QcPerfRequest \<Rightarrow> QThreadAttributes" where
  "thermal_thread_attrs rq =
     \<lparr>thread_name = snprintf_buf THREAD_NAME_SIZE ''qcperf_thermal'',
      thread_name_len = of_nat (length (snprintf_buf THREAD_NAME_SIZE ''qcperf_thermal'')),
      thread_priority = 0, thread_stack_size = 0, thread_params = Some rq\<rparr>"

definition linux_thermal_start :: "QcPerfRequest option \<Rightarrow> thermal_state \<Rightarrow> (QcPerfReturnCode \<times> thermal_state) outcome" where
  "linux_thermal_start request s0 =
     (let s = THERMAL_SEND LEVEL_INFO ''Starting linux-thermal data collection'' s0
      in case request of
           None \<Rightarrow> Ret (NULL_POINTER, s)
         | Some rq \<Rightarrow>
             obind (thermal_validate_request rq s) (\<lambda>(ret, s1).
               if ret \<noteq> SUCCESS then Ret (ret, THERMAL_SEND LEVEL_ERROR ''Request validation failed'' s1)
               else if g_data_callback s1 = None then Ret (FAILED, THERMAL_SEND LEVEL_ERROR ''Data callback is not set'' s1)
               else if g_is_thread_running s1
               then Ret (ALREADY_INITIALIZED, THERMAL_SEND LEVEL_WARNING ''Collection thread is already running'' s1)
               else let (thread_ret, s2) = spawn (thermal_thread_attrs rq) s1
                    in if thread_ret \<noteq> QTHREAD_CREATE_SUCCESS
                       then Ret (FAILED, THERMAL_SEND LEVEL_ERROR ''Failed to create thermal collection thread'' s2)
                       else Ret (SUCCESS, THERMAL_SEND LEVEL_INFO ''Thermal collection thread started successfully'' s2)))"

definition linux_thermal_deinit :: "thermal_state \<Rightarrow> (QcPerfReturnCode \<times> thermal_state) outcome" where
  "linux_thermal_deinit s0 =
     (let s1 = linux_thermal_free_backend_info (THERMAL_SEND LEVEL_INFO ''Deinitializing linux-thermal backend'' s0)
      in obind (linux_thermal_lib_cleanup (ts_lib s1)) (\<lambda>(_, lib').
           Ret (SUCCESS, THERMAL_SEND LEVEL_INFO ''linux-thermal backend deinitialized successfully''
             (s1\<lparr>ts_lib := lib', g_data_callback := None\<rparr>))))"

section \<open>The collection thread\<close>

text \<open>Flagging the advertised identifiers, from entry \<open>i\<close> of the metrics on.\<close>

fun flag_supported :: "QcPerfMetricInfo list \<Rightarrow> nat \<Rightarrow> nat \<Rightarrow> bool list \<Rightarrow> bool list outcome" where
  "flag_supported ms i 0 supported = Ret supported"
| "flag_supported ms i (Suc n) supported =
     obind (arr_read ms i) (\<lambda>m.
     obind (if unat (mi_metric_id m) < LINUX_THERMAL_CAPABILITY_METRIC_COUNT
            then arr_write supported (unat (mi_metric_id m)) True else Ret supported) (\<lambda>supported'.
       flag_supported ms (Suc i) n supported'))"

definition thermal_thread_entry ::
  "sample_env \<Rightarrow> QcPerfRequest option \<Rightarrow> thermal_state \<Rightarrow> (thermal_local option \<times> thermal_state) outcome" where
  "thermal_thread_entry env param s0 =
     (let s = s0\<lparr>g_is_thread_running := True\<rparr>
      in case param of
           None \<Rightarrow> Ret (None, (THERMAL_SEND LEVEL_ERROR ''Request parameter is NULL in collection thread'' s)\<lparr>g_is_thread_running := False\<rparr>)
         | Some rq \<Rightarrow>
             obind (deref_capability (sn_table s) 0 s) (\<lambda>ci.
             obind (case ci_metric_ids_list ci of
                      Some ms \<Rightarrow> flag_supported ms 0 (unat (ci_metric_ids_list_len ci))
                                   (replicate LINUX_THERMAL_CAPABILITY_METRIC_COUNT False)
                    | None \<Rightarrow> if ci_metric_ids_list_len ci = 0 then Ret (replicate LINUX_THERMAL_CAPABILITY_METRIC_COUNT False)
                              else Stuck BadDeref) (\<lambda>supported.
             obind (samples_per_stream rq) (\<lambda>sps.
               let total_responses = sps * ucast (ci_metric_ids_list_len ci);
                   (ok, s1) = alloc s
               in if \<not> ok
                  then Ret (None, (THERMAL_SEND LEVEL_ERROR ''Failed to allocate QcPerfData structure'' s1)\<lparr>g_is_thread_running := False\<rparr>)
                  else let (ok2, s2) = alloc s1
                       in if \<not> ok2
                          then Ret (None, (THERMAL_SEND LEVEL_ERROR ''Failed to allocate metric response array'' s2)\<lparr>g_is_thread_running := False\<rparr>)
                          else Ret (Some \<lparr>tt_request = rq, tt_supported = supported, tt_samples_per_stream = sps,
                                 tt_total_responses = total_responses,
                                 tt_streaming_rate_ns = ucast (rq_streaming_rate rq) * 1000000,
                                 tt_temp_metrics = None, tt_cool_metrics = None,
                                 tt_data = \<lparr>pd_backend_id = of_nat (backend_index BACKEND_LINUX_THERMAL),
                                            pd_capability_id = rq_capability_id rq,
                                            pd_metric_response = replicate (unat total_responses) zero_response,
                                            pd_metric_response_len = 0\<rparr>,
                                 tt_position = 0, tt_sample_count = 0, tt_current_time = 0,
                                 tt_last_stream_time = time_now (env_clock env) 0, tt_slept = 0\<rparr>, s2)))))"

text \<open>Storing one response and advancing.\<close>

definition thermal_put :: "u64 \<Rightarrow> u16 \<Rightarrow> double \<Rightarrow> QcPerfMetricResponse list \<times> u32 \<Rightarrow> (QcPerfMetricResponse list \<times> u32) outcome" where
  "thermal_put now metric_id x = (\<lambda>(rs, position).
     obind (arr_read rs (unat position)) (\<lambda>r.
       Ret (rs[unat position := \<lparr>mr_timestamp = now, mr_metric_id = metric_id,
              mr_metric_value = (mr_metric_value r)\<lparr>gt_data_type := TYPE_DOUBLE, gt_double_value := x\<rparr>\<rparr>], position + 1)))"

text \<open>The hottest of the entries from \<open>i\<close> on, and the highest percentage.\<close>

fun hottest :: "u32 list \<Rightarrow> nat \<Rightarrow> nat \<Rightarrow> u32 \<Rightarrow> u32 outcome" where
  "hottest ts i 0 max_milli = Ret max_milli"
| "hottest ts i (Suc n) max_milli =
     obind (arr_read ts i) (\<lambda>t. hottest ts (Suc i) n (if t > max_milli then t else max_milli))"

fun highest_pct :: "u8 list \<Rightarrow> u8 list \<Rightarrow> nat \<Rightarrow> nat \<Rightarrow> double \<Rightarrow> double outcome" where
  "highest_pct cs ms i 0 max_pct = Ret max_pct"
| "highest_pct cs ms i (Suc n) max_pct =
     obind (arr_read ms i) (\<lambda>m.
       if m > 0
       then obind (arr_read cs i) (\<lambda>c.
              let pct = of_nat (unat c) / of_nat (unat m) * 100
              in highest_pct cs ms (Suc i) n (if pct > max_pct then pct else max_pct))
       else highest_pct cs ms (Suc i) n max_pct)"

text \<open>The loops over the domains from number \<open>d\<close> on; both test the position first.\<close>

fun emit_zones ::
  "bool list \<Rightarrow> u32 \<Rightarrow> u64 \<Rightarrow> nat \<Rightarrow> LinuxThermalTempData option list \<Rightarrow> QcPerfMetricResponse list \<times> u32
     \<Rightarrow> (QcPerfMetricResponse list \<times> u32) outcome" where
  "emit_zones supported tot now d [] st = Ret st"
| "emit_zones supported tot now d (td # tds) st =
     (if snd st < tot
      then let metric_id = LINUX_THERMAL_METRIC_CPU_TEMP_ID + d in
           obind (arr_read supported metric_id) (\<lambda>sup.
             case td of
               None \<Rightarrow> emit_zones supported tot now (Suc d) tds st
             | Some b \<Rightarrow>
                 (case td_temp b of
                    None \<Rightarrow> emit_zones supported tot now (Suc d) tds st
                  | Some ts \<Rightarrow>
                      if \<not> sup \<or> td_len b = 0 then emit_zones supported tot now (Suc d) tds st
                      else obind (hottest ts 0 (unat (td_len b)) 0) (\<lambda>max_milli.
                           obind (thermal_put now (of_nat metric_id) (of_nat (unat max_milli) / 1000) st)
                             (emit_zones supported tot now (Suc d) tds))))
      else Ret st)"

fun emit_devices ::
  "bool list \<Rightarrow> u32 \<Rightarrow> u64 \<Rightarrow> nat \<Rightarrow> LinuxThermalCoolingData option list \<Rightarrow> QcPerfMetricResponse list \<times> u32
     \<Rightarrow> (QcPerfMetricResponse list \<times> u32) outcome" where
  "emit_devices supported tot now d [] st = Ret st"
| "emit_devices supported tot now d (cd # cds) st =
     (if snd st < tot
      then let metric_id = LINUX_THERMAL_METRIC_CPU_COOLING_ID + d in
           obind (arr_read supported metric_id) (\<lambda>sup.
             case cd of
               None \<Rightarrow> emit_devices supported tot now (Suc d) cds st
             | Some b \<Rightarrow>
                 (case (cd_cur_state b, cd_max_state b) of
                    (Some cs, Some ms) \<Rightarrow>
                      if \<not> sup \<or> cd_len b = 0 then emit_devices supported tot now (Suc d) cds st
                      else obind (highest_pct cs ms 0 (unat (cd_len b)) 0) (\<lambda>max_pct.
                           obind (thermal_put now (of_nat metric_id) max_pct st)
                             (emit_devices supported tot now (Suc d) cds))
                  | _ \<Rightarrow> emit_devices supported tot now (Suc d) cds st))
      else Ret st)"

text \<open>The responses of one iteration, through the two pointers.\<close>

definition thermal_responses :: "u64 \<Rightarrow> thermal_local \<Rightarrow> thermal_lib \<Rightarrow> (QcPerfMetricResponse list \<times> u32) outcome" where
  "thermal_responses now l lib =
     obind (deref_temp (tt_temp_metrics l) lib) (\<lambda>t.
     obind (case t of
              None \<Rightarrow> Ret (pd_metric_response (tt_data l), tt_position l)
            | Some ds \<Rightarrow> emit_zones (tt_supported l) (tt_total_responses l) now 0 ds
                           (pd_metric_response (tt_data l), tt_position l)) (\<lambda>st.
     obind (deref_cool (tt_cool_metrics l) lib) (\<lambda>c.
       case c of
         None \<Rightarrow> Ret st
       | Some cs \<Rightarrow> emit_devices (tt_supported l) (tt_total_responses l) now 0 cs st)))"

text \<open>Delivery at the end of an iteration.\<close>

definition thermal_deliver :: "thermal_local \<Rightarrow> thermal_state \<Rightarrow> thermal_local \<times> thermal_state" where
  "thermal_deliver l s =
     (let l = l\<lparr>tt_sample_count := tt_sample_count l + 1\<rparr>;
          elapsed_ns = tt_current_time l - tt_last_stream_time l
      in if tt_samples_per_stream l \<le> tt_sample_count l \<or> tt_streaming_rate_ns l \<le> elapsed_ns
         then let (l1, s1) =
                (case g_data_callback s of
                   Some cb \<Rightarrow> if tt_position l > 0
                              then let d = (tt_data l)\<lparr>pd_metric_response_len := unat (tt_position l)\<rparr>
                                   in (l\<lparr>tt_data := d\<rparr>, s\<lparr>sn_data := sn_data s @ [(cb, d)]\<rparr>)
                              else (l, s)
                 | None \<Rightarrow> (l, s))
              in (l1\<lparr>tt_position := 0, tt_sample_count := 0, tt_last_stream_time := tt_current_time l1\<rparr>, s1)
         else (l, s))"

text \<open>
  One iteration: refresh, collect, deliver, sleep. \<open>tt_slept\<close> is the argument of \<open>usleep\<close>.
\<close>

definition thermal_thread_iterate ::
  "sample_env \<Rightarrow> thermal_local \<Rightarrow> thermal_state \<Rightarrow> (thermal_local \<times> thermal_state) outcome" where
  "thermal_thread_iterate env l s =
     obind (linux_thermal_lib_thermal_zones_info (env_files env) (Some (tt_temp_metrics l)) (ts_lib s)) (\<lambda>(_, t, lib1).
     obind (linux_thermal_lib_cooling_devices_info (env_files env) (Some (tt_cool_metrics l)) lib1) (\<lambda>(_, c, lib2).
       let now = time_now (env_clock env) (tt_current_time l);
           l1 = l\<lparr>tt_temp_metrics := (case t of Some p \<Rightarrow> p | None \<Rightarrow> None),
                  tt_cool_metrics := (case c of Some p \<Rightarrow> p | None \<Rightarrow> None), tt_current_time := now\<rparr>
       in obind (thermal_responses now l1 lib2) (\<lambda>(rs, position).
            let (l2, s2) = thermal_deliver (l1\<lparr>tt_data := (tt_data l1)\<lparr>pd_metric_response := rs\<rparr>, tt_position := position\<rparr>)
                             (s\<lparr>ts_lib := lib2\<rparr>)
            in Ret (l2\<lparr>tt_slept := (if g_is_thread_running s2 then unat (rq_sampling_rate (tt_request l2)) * 1000 else tt_slept l2)\<rparr>, s2))))"

definition thermal_thread_finish :: "thermal_local \<Rightarrow> thermal_state \<Rightarrow> thermal_state outcome" where
  "thermal_thread_finish l s = Ret (s\<lparr>g_is_thread_running := False\<rparr>)"

definition thermal_thread :: "sample_env \<Rightarrow> (thermal_local, thermal_state) thread_code" where
  "thermal_thread env = \<lparr>th_entry = thermal_thread_entry env, th_finish = thermal_thread_finish\<rparr>"

section \<open>Stop and creation\<close>

definition linux_thermal_stop :: "sample_env \<Rightarrow> QcPerfRequest option \<Rightarrow> thermal_state \<Rightarrow> (QcPerfReturnCode \<times> thermal_state) outcome" where
  "linux_thermal_stop env request s0 =
     (let s = THERMAL_SEND LEVEL_INFO ''Stopping linux-thermal data collection'' s0
      in case request of
           None \<Rightarrow> Ret (NULL_POINTER, s)
         | Some _ \<Rightarrow>
             if g_is_thread_running s
             then obind (thread_join (wait_exit (thermal_thread env)) (Some (g_thread_info s)) (s\<lparr>g_is_thread_running := False\<rparr>))
                    (\<lambda>(jr, s1).
                      if jr = QTHREAD_JOIN_SUCCESS
                      then obind (thread_destroy (Some (g_thread_info s1))) (\<lambda>(dr, ti).
                             let s2 = s1\<lparr>g_thread_info := (case ti of Some i \<Rightarrow> i | None \<Rightarrow> g_thread_info s1)\<rparr>
                             in if dr = QTHREAD_DESTROY_SUCCESS
                                then Ret (SUCCESS, THERMAL_SEND LEVEL_INFO ''Thermal collection thread stopped successfully'' s2)
                                else Ret (FAILED, THERMAL_SEND LEVEL_ERROR ''Failed to destroy thermal collection thread handle'' s2))
                      else Ret (FAILED, THERMAL_SEND LEVEL_ERROR ''Failed to join thermal collection thread'' s1))
             else Ret (SUCCESS, THERMAL_SEND LEVEL_INFO ''Thermal collection thread is not running'' s))"

definition qcperf_linux_thermal_backend_create :: "sample_env \<Rightarrow> string list option \<Rightarrow> thermal_state backend_init_t" where
  "qcperf_linux_thermal_backend_create env dir backend =
     (case backend of
        None \<Rightarrow> (NULL_POINTER, None)
      | Some p \<Rightarrow> (SUCCESS, Some (p\<lparr>
          set_message_callback := Some (\<lambda>cb s. Ret (linux_thermal_set_message_callback cb s)),
          qcperf_backend_init := Some (linux_thermal_init (env_files env) dir),
          qcperf_backend_info := Some (\<lambda>i s. Ret (linux_thermal_backend_info i s)),
          set_data_callback := Some (\<lambda>cb s. Ret (linux_thermal_set_data_callback cb s)),
          qcperf_backend_start := Some linux_thermal_start,
          qcperf_backend_stop := Some (linux_thermal_stop env),
          qcperf_backend_deinit := Some linux_thermal_deinit\<rparr>)))"

end
