(* ===== verification/LinuxThermalLibViews.thy ===== *)
theory LinuxThermalLibViews
  imports LinuxThermalLib
begin

text \<open>
  Correctness of the thermal library. A block of a domain is seen through its length and which of its
  buffers exist, the same view for zones and devices; all arrays have the length of their domain, and
  what \<open>calloc\<close> and \<open>fopen\<close> handed out is exactly what the structures still hold. Every operation keeps
  both, for any content of the thermal tree and any allocation failures. Here: the views, the classification
  and the operations of \<open>init\<close>; the rest is in \<open>LinuxThermalLibProps\<close>.
\<close>

section \<open>Views of domains\<close>

record dom_view =
  dv_len :: nat
  dv_bufs :: "nat option list"
  dv_names :: "bool list option"

definition zone_view :: "LinuxThermalTempData \<Rightarrow> dom_view" where
  "zone_view d = \<lparr>dv_len = unat (td_len d), dv_bufs = [map_option length (td_id d), map_option length (td_temp d)],
     dv_names = map_option (map (\<lambda>p. p \<noteq> None)) (td_name d)\<rparr>"

definition device_view :: "LinuxThermalCoolingData \<Rightarrow> dom_view" where
  "device_view d = \<lparr>dv_len = unat (cd_len d),
     dv_bufs = [map_option length (cd_id d), map_option length (cd_cur_state d), map_option length (cd_max_state d)],
     dv_names = map_option (map (\<lambda>p. p \<noteq> None)) (cd_name d)\<rparr>"

fun dom_ok :: "dom_view option \<Rightarrow> string option list option \<Rightarrow> bool" where
  "dom_ok None node = (node = None)"
| "dom_ok (Some v) node = (dv_len v \<le> 32 \<and> (\<forall>b \<in> set (dv_bufs v). b = None \<or> b = Some (dv_len v)) \<and>
     (\<forall>ps. dv_names v = Some ps \<longrightarrow> length ps = dv_len v) \<and> (\<forall>hs. node = Some hs \<longrightarrow> length hs = dv_len v))"

text \<open>How many allocated blocks and open files a domain and its handles hold.\<close>

fun dom_blocks :: "dom_view option \<Rightarrow> int" where
  "dom_blocks None = 0"
| "dom_blocks (Some v) = 1 + (\<Sum>b\<leftarrow>dv_bufs v. of_bool (b \<noteq> None)) +
     (case dv_names v of None \<Rightarrow> 0 | Some ps \<Rightarrow> 1 + of_bool (0 < dv_len v \<and> ps ! 0))"

fun node_blocks :: "string option list option \<Rightarrow> int" where
  "node_blocks None = 0"
| "node_blocks (Some hs) = 1"

fun node_files :: "string option list option \<Rightarrow> int" where
  "node_files None = 0"
| "node_files (Some hs) = (\<Sum>h\<leftarrow>hs. of_bool (h \<noteq> None))"

definition tab_blocks :: "dom_view option list \<Rightarrow> string option list option list \<Rightarrow> int" where
  "tab_blocks vs nodes = (\<Sum>v\<leftarrow>vs. dom_blocks v) + (\<Sum>n\<leftarrow>nodes. node_blocks n)"

definition tab_files :: "string option list option list \<Rightarrow> int" where
  "tab_files nodes = (\<Sum>n\<leftarrow>nodes. node_files n)"

lemma sum_list_map_update:
  fixes f :: "'a \<Rightarrow> int"
  assumes "i < length xs"
  shows "(\<Sum>x\<leftarrow>xs[i := y]. f x) = (\<Sum>x\<leftarrow>xs. f x) - f (xs ! i) + f y"
  using assms
proof (induction xs arbitrary: i)
  case (Cons x xs)
  then show ?case by (cases i) simp_all
qed simp

lemma tab_blocks_update:
  "i < length vs \<Longrightarrow> tab_blocks (vs[i := v]) nodes = tab_blocks vs nodes - dom_blocks (vs ! i) + dom_blocks v"
  "i < length nodes \<Longrightarrow> tab_blocks vs (nodes[i := n]) = tab_blocks vs nodes - node_blocks (nodes ! i) + node_blocks n"
  by (simp_all add: tab_blocks_def sum_list_map_update)

lemma tab_files_update:
  "i < length nodes \<Longrightarrow> tab_files (nodes[i := n]) = tab_files nodes - node_files (nodes ! i) + node_files n"
  by (simp add: tab_files_def sum_list_map_update)

section \<open>Views of the library\<close>

definition zone_views :: "thermal_lib \<Rightarrow> dom_view option list" where
  "zone_views s = (case g_temp_metrics s of None \<Rightarrow> replicate 16 None | Some ds \<Rightarrow> map (map_option zone_view) ds)"

definition device_views :: "thermal_lib \<Rightarrow> dom_view option list" where
  "device_views s = (case g_cool_metrics s of None \<Rightarrow> replicate 12 None | Some ds \<Rightarrow> map (map_option device_view) ds)"

definition lib_tables :: "thermal_lib \<Rightarrow> bool" where
  "lib_tables s \<longleftrightarrow> length (zone_views s) = 16 \<and> length (device_views s) = 12 \<and>
     list_all2 dom_ok (zone_views s) (g_temp_node s) \<and> list_all2 dom_ok (device_views s) (g_cool_node s)"

text \<open>What was handed out and is not held by the structures: zero when nothing leaks.\<close>

definition blocks_lost :: "thermal_lib \<Rightarrow> int" where
  "blocks_lost s = tl_blocks s - of_bool (g_temp_metrics s \<noteq> None) - of_bool (g_cool_metrics s \<noteq> None) -
     tab_blocks (zone_views s) (g_temp_node s) - tab_blocks (device_views s) (g_cool_node s)"

definition files_lost :: "thermal_lib \<Rightarrow> int" where
  "files_lost s = tl_files s - tab_files (g_temp_node s) - tab_files (g_cool_node s)"

definition lib_clean :: "thermal_lib \<Rightarrow> bool" where
  "lib_clean s \<longleftrightarrow> lib_tables s \<and> blocks_lost s = 0 \<and> files_lost s = 0 \<and>
     (g_is_initialized s \<longleftrightarrow> g_temp_metrics s \<noteq> None) \<and> (g_is_initialized s \<longleftrightarrow> g_cool_metrics s \<noteq> None)"

lemma lib_tables_length:
  assumes "lib_tables s"
  shows "length (g_temp_node s) = 16" "length (g_cool_node s) = 12" "length (zone_views s) = 16" "length (device_views s) = 12"
  using assms by (auto simp: lib_tables_def dest: list_all2_lengthD)

lemma lib_tables_at:
  assumes "lib_tables s"
  shows "i < 16 \<Longrightarrow> dom_ok (zone_views s ! i) (g_temp_node s ! i)" "i < 12 \<Longrightarrow> dom_ok (device_views s ! i) (g_cool_node s ! i)"
  using assms lib_tables_length [OF assms] by (auto simp: lib_tables_def list_all2_conv_all_nth)

lemma initial_thermal_lib_clean: "lib_clean (initial_thermal_lib faults)"
  by (simp add: lib_clean_def lib_tables_def zone_views_def device_views_def initial_thermal_lib_def blocks_lost_def
      files_lost_def tab_blocks_def tab_files_def list_all2_conv_all_nth sum_list_replicate)

lemma zone_views_at: "lib_tables s \<Longrightarrow> i < 16 \<Longrightarrow> zone_views s ! i = map_option zone_view (temp_at i s)"
  using lib_tables_length(3) [of s] by (auto simp: zone_views_def temp_at_def split: option.splits)

lemma device_views_at: "lib_tables s \<Longrightarrow> i < 12 \<Longrightarrow> device_views s ! i = map_option device_view (cool_at i s)"
  using lib_tables_length(4) [of s] by (auto simp: device_views_def cool_at_def split: option.splits)

lemma zone_views_set: "g_temp_metrics s \<noteq> None \<Longrightarrow> zone_views (set_temp i d s) = (zone_views s)[i := map_option zone_view d]"
  by (auto simp: zone_views_def set_temp_def map_update)

lemma device_views_set: "g_cool_metrics s \<noteq> None \<Longrightarrow> device_views (set_cool i d s) = (device_views s)[i := map_option device_view d]"
  by (auto simp: device_views_def set_cool_def map_update)

lemma set_temp_fields [simp]:
  "g_cool_metrics (set_temp i d s) = g_cool_metrics s" "g_temp_node (set_temp i d s) = g_temp_node s"
  "g_cool_node (set_temp i d s) = g_cool_node s" "tl_blocks (set_temp i d s) = tl_blocks s"
  "tl_files (set_temp i d s) = tl_files s" "tl_epoch (set_temp i d s) = tl_epoch s"
  "g_is_initialized (set_temp i d s) = g_is_initialized s" "device_views (set_temp i d s) = device_views s"
  "(g_temp_metrics (set_temp i d s) = None) = (g_temp_metrics s = None)"
  "g_temp_discovered (set_temp i d s) = g_temp_discovered s" "g_cool_discovered (set_temp i d s) = g_cool_discovered s"
  by (auto simp: set_temp_def device_views_def)

lemma set_cool_fields [simp]:
  "g_temp_metrics (set_cool i d s) = g_temp_metrics s" "g_temp_node (set_cool i d s) = g_temp_node s"
  "g_cool_node (set_cool i d s) = g_cool_node s" "tl_blocks (set_cool i d s) = tl_blocks s"
  "tl_files (set_cool i d s) = tl_files s" "tl_epoch (set_cool i d s) = tl_epoch s"
  "g_is_initialized (set_cool i d s) = g_is_initialized s" "zone_views (set_cool i d s) = zone_views s"
  "(g_cool_metrics (set_cool i d s) = None) = (g_cool_metrics s = None)"
  "g_temp_discovered (set_cool i d s) = g_temp_discovered s" "g_cool_discovered (set_cool i d s) = g_cool_discovered s"
  by (auto simp: set_cool_def zone_views_def)

text \<open>The lengths of the domains, \<open>None\<close> for a domain without a block.\<close>

definition lib_lens :: "thermal_lib \<Rightarrow> nat option list \<times> nat option list" where
  "lib_lens s = (map (map_option dv_len) (zone_views s), map (map_option dv_len) (device_views s))"

lemma lens_update:
  assumes "map_option dv_len v = map_option dv_len (vs ! i)"
  shows "map (map_option dv_len) (vs[i := v]) = map (map_option dv_len) vs"
proof (cases "i < length vs")
  case True
  have "map (map_option dv_len) (vs[i := v]) = (map (map_option dv_len) vs)[i := map (map_option dv_len) vs ! i]"
    using assms True by (simp add: map_update)
  then show ?thesis by simp
qed (simp add: not_less list_update_beyond)

lemma dv_len_views [simp]: "dv_len (zone_view d) = unat (td_len d)" "dv_len (device_view e) = unat (cd_len e)"
  by (simp_all add: zone_view_def device_view_def)

text \<open>Changes of a state that leave both metrics structures alone.\<close>

definition same_metrics :: "thermal_lib \<Rightarrow> thermal_lib \<Rightarrow> bool" where
  "same_metrics s s' \<longleftrightarrow> g_temp_metrics s' = g_temp_metrics s \<and> g_cool_metrics s' = g_cool_metrics s \<and>
     g_is_initialized s' = g_is_initialized s \<and> tl_epoch s' = tl_epoch s \<and>
     g_temp_discovered s' = g_temp_discovered s \<and> g_cool_discovered s' = g_cool_discovered s"

lemma same_metrics_views:
  assumes "same_metrics s s'"
  shows "zone_views s' = zone_views s" "device_views s' = device_views s" "temp_at i s' = temp_at i s" "cool_at i s' = cool_at i s"
  using assms by (simp_all add: same_metrics_def zone_views_def device_views_def temp_at_def cool_at_def)

lemma tl_calloc_pair:
  "tl_calloc s = (fst (calloc_ok (tl_faults s)), s\<lparr>tl_faults := snd (calloc_ok (tl_faults s)),
     tl_blocks := tl_blocks s + of_bool (fst (calloc_ok (tl_faults s)))\<rparr>)"
  by (simp add: tl_calloc_def case_prod_beta Let_def)

lemma tl_calloc_result:
  "tl_calloc s = (ok, s') \<Longrightarrow> same_metrics s s' \<and> tl_blocks s' = tl_blocks s + of_bool ok \<and> tl_files s' = tl_files s \<and>
     g_temp_node s' = g_temp_node s \<and> g_cool_node s' = g_cool_node s"
  by (auto simp: tl_calloc_pair same_metrics_def)

lemma tl_free_fields [simp]:
  "tl_blocks (tl_free n s) = tl_blocks s - int n" "tl_files (tl_free n s) = tl_files s"
  "g_temp_node (tl_free n s) = g_temp_node s" "g_cool_node (tl_free n s) = g_cool_node s"
  "g_temp_metrics (tl_free n s) = g_temp_metrics s" "g_cool_metrics (tl_free n s) = g_cool_metrics s"
  "g_is_initialized (tl_free n s) = g_is_initialized s" "tl_epoch (tl_free n s) = tl_epoch s"
  "g_temp_discovered (tl_free n s) = g_temp_discovered s" "g_cool_discovered (tl_free n s) = g_cool_discovered s"
  by (simp_all add: tl_free_def)

section \<open>Classification\<close>

lemma classify_loop_first:
  "classify_loop type ps = map_option tp_index (List.find (\<lambda>p. strncmp_eq type (tp_prefix p) (tp_len p)) ps)"
  by (induction ps) auto

lemma prefix_tables:
  "\<forall>p \<in> set g_temp_prefix. tp_len p = length (tp_prefix p) \<and> tp_index p < 16"
  "\<forall>p \<in> set g_cool_prefix. tp_len p = length (tp_prefix p) \<and> tp_index p < 12"
  by (simp_all add: g_temp_prefix_def g_cool_prefix_def)

lemma classify_range:
  "linux_thermal_classify type g_temp_prefix = Some i \<Longrightarrow> i < 16"
  "linux_thermal_classify type g_cool_prefix = Some i \<Longrightarrow> i < 12"
  using prefix_tables
  by (auto simp: linux_thermal_classify_def classify_loop_first find_Some_iff split: if_splits)

section \<open>Steps\<close>

text \<open>A step that keeps the tables and loses nothing.\<close>

definition same_phase :: "thermal_lib \<Rightarrow> thermal_lib \<Rightarrow> bool" where
  "same_phase s s' \<longleftrightarrow> g_is_initialized s' = g_is_initialized s \<and> tl_epoch s' = tl_epoch s \<and>
     (g_temp_metrics s' = None \<longleftrightarrow> g_temp_metrics s = None) \<and> (g_cool_metrics s' = None \<longleftrightarrow> g_cool_metrics s = None) \<and>
     g_temp_discovered s' = g_temp_discovered s \<and> g_cool_discovered s' = g_cool_discovered s"

definition lib_step :: "thermal_lib \<Rightarrow> thermal_lib \<Rightarrow> bool" where
  "lib_step s s' \<longleftrightarrow> lib_tables s' \<and> blocks_lost s' = blocks_lost s \<and> files_lost s' = files_lost s \<and> same_phase s s'"

lemma same_phase_refl [simp]: "same_phase s s"
  by (simp add: same_phase_def)

lemma lib_step_refl [simp]: "lib_tables s \<Longrightarrow> lib_step s s"
  by (simp add: lib_step_def)

lemma lib_step_trans: "lib_step s s' \<Longrightarrow> lib_step s' s'' \<Longrightarrow> lib_step s s''"
  by (simp add: lib_step_def same_phase_def)

lemma lib_step_tables: "lib_step s s' \<Longrightarrow> lib_tables s'"
  by (simp add: lib_step_def)

lemma zone_change:
  assumes t: "lib_tables s" and i: "i < 16" and ok: "dom_ok v n" and p: "same_phase s s'"
    and z: "zone_views s' = (zone_views s)[i := v]" "g_temp_node s' = (g_temp_node s)[i := n]"
    and d: "device_views s' = device_views s" "g_cool_node s' = g_cool_node s"
    and b: "tl_blocks s' = tl_blocks s - dom_blocks (zone_views s ! i) + dom_blocks v - node_blocks (g_temp_node s ! i) + node_blocks n"
    and f: "tl_files s' = tl_files s - node_files (g_temp_node s ! i) + node_files n"
  shows "lib_step s s'"
proof -
  note len = lib_tables_length [OF t]
  have "list_all2 dom_ok (zone_views s') (g_temp_node s')"
    using t ok i len unfolding z by (simp add: lib_tables_def list_all2_update_cong)
  then have "lib_tables s'" using t z d by (simp add: lib_tables_def)
  moreover have "blocks_lost s' = blocks_lost s"
    using p b i len unfolding blocks_lost_def z d by (simp add: tab_blocks_update same_phase_def)
  moreover have "files_lost s' = files_lost s"
    using f i len unfolding files_lost_def z d by (simp add: tab_files_update)
  ultimately show ?thesis using p by (simp add: lib_step_def)
qed

lemma device_change:
  assumes t: "lib_tables s" and i: "i < 12" and ok: "dom_ok v n" and p: "same_phase s s'"
    and z: "device_views s' = (device_views s)[i := v]" "g_cool_node s' = (g_cool_node s)[i := n]"
    and d: "zone_views s' = zone_views s" "g_temp_node s' = g_temp_node s"
    and b: "tl_blocks s' = tl_blocks s - dom_blocks (device_views s ! i) + dom_blocks v - node_blocks (g_cool_node s ! i) + node_blocks n"
    and f: "tl_files s' = tl_files s - node_files (g_cool_node s ! i) + node_files n"
  shows "lib_step s s'"
proof -
  note len = lib_tables_length [OF t]
  have "list_all2 dom_ok (device_views s') (g_cool_node s')"
    using t ok i len unfolding z by (simp add: lib_tables_def list_all2_update_cong)
  then have "lib_tables s'" using t z d by (simp add: lib_tables_def)
  moreover have "blocks_lost s' = blocks_lost s"
    using p b i len unfolding blocks_lost_def z d by (simp add: tab_blocks_update same_phase_def)
  moreover have "files_lost s' = files_lost s"
    using f i len unfolding files_lost_def z d by (simp add: tab_files_update)
  ultimately show ?thesis using p by (simp add: lib_step_def)
qed

section \<open>Counting\<close>

definition blank_view :: "dom_view option \<Rightarrow> bool" where
  "blank_view v \<longleftrightarrow> (\<forall>w. v = Some w \<longrightarrow> (\<forall>b \<in> set (dv_bufs w). b = None) \<and> dv_names w = None)"

lemma blank_blocks: "blank_view v \<Longrightarrow> dom_blocks v = of_bool (v \<noteq> None)"
proof (cases v)
  case (Some w)
  assume "blank_view v"
  then have "\<forall>b \<in> set (dv_bufs w). b = None" "dv_names w = None" using Some by (simp_all add: blank_view_def)
  moreover from this have "(\<Sum>b\<leftarrow>dv_bufs w. of_bool (b \<noteq> None)) = (0 :: int)"
    by (induction "dv_bufs w" arbitrary: w) (auto simp: sum_list_0 cong: map_cong)
  ultimately show ?thesis using Some by simp
qed simp

text \<open>Before the buffers are allocated: from domain \<open>i\<close>, or device domain \<open>j\<close>, on, nothing is there yet.\<close>

definition blank_from :: "nat \<Rightarrow> nat \<Rightarrow> thermal_lib \<Rightarrow> bool" where
  "blank_from i j s \<longleftrightarrow> g_temp_metrics s \<noteq> None \<and> g_cool_metrics s \<noteq> None \<and>
     (\<forall>k<16. i \<le> k \<longrightarrow> blank_view (zone_views s ! k) \<and> g_temp_node s ! k = None) \<and>
     (\<forall>k<12. j \<le> k \<longrightarrow> blank_view (device_views s ! k) \<and> g_cool_node s ! k = None)"

lemma unat_u8_inc: "unat (d :: u8) < 32 \<Longrightarrow> unat (d + 1) = Suc (unat d)"
  using unat_of_nat_u8 [of "Suc (unat d)"] by (simp add: add.commute)

lemma count_zone_step:
  assumes t: "lib_tables s" and b: "blank_from 0 0 s" and i: "i < 16"
  shows "lib_step s (count_zone i s) \<and> blank_from 0 0 (count_zone i s)"
proof -
  have m: "g_temp_metrics s \<noteq> None" and node: "g_temp_node s ! i = None" and bl: "blank_view (zone_views s ! i)"
    using b i by (auto simp: blank_from_def)
  have at: "zone_views s ! i = map_option zone_view (temp_at i s)" using zone_views_at [OF t i] .
  obtain d s1 where d: "(case temp_at i s of Some d \<Rightarrow> (Some d, s)
       | None \<Rightarrow> let (ok, s') = tl_calloc s in (if ok then Some zero_temp_data else None, s')) = (d, s1)" by fastforce
  define d' where "d' = map_option (\<lambda>d. if td_len d < 32 then d\<lparr>td_len := td_len d + 1\<rparr> else d) d"
  have e: "count_zone i s = set_temp i d' s1" using d by (simp add: count_zone_def d'_def)
  have s1: "same_metrics s s1" "tl_files s1 = tl_files s" "g_temp_node s1 = g_temp_node s" "g_cool_node s1 = g_cool_node s"
    "tl_blocks s1 = tl_blocks s + of_bool (d \<noteq> None) - of_bool (temp_at i s \<noteq> None)"
    using d by (auto simp: tl_calloc_pair Let_def same_metrics_def split: option.splits if_splits)
  have d32: "\<And>x. d = Some x \<Longrightarrow> unat (td_len x) \<le> 32 \<and> td_id x = None \<and> td_temp x = None \<and> td_name x = None"
  proof -
    fix x assume x: "d = Some x"
    show "unat (td_len x) \<le> 32 \<and> td_id x = None \<and> td_temp x = None \<and> td_name x = None"
    proof (cases "temp_at i s")
      case None
      then show ?thesis using d x by (auto simp: tl_calloc_pair Let_def zero_temp_data_def split: if_splits)
    next
      case (Some y)
      then have "y = x" using d x by simp
      then show ?thesis using at bl Some lib_tables_at(1) [OF t i] by (auto simp: blank_view_def zone_view_def)
    qed
  qed
  let ?v = "map_option zone_view d'"
  have v: "blank_view ?v" "dom_ok ?v None" "(?v \<noteq> None) = (d \<noteq> None)"
    using d32 by (cases d; auto simp: d'_def blank_view_def zone_view_def unat_u8_inc word_less_nat_alt)+
  have z: "zone_views (count_zone i s) = (zone_views s)[i := ?v]" "device_views (count_zone i s) = device_views s"
    "same_phase s (count_zone i s)"
    using s1(1) m same_metrics_views [OF s1(1)] unfolding e
    by (simp_all add: zone_views_set same_metrics_def same_phase_def)
  have "lib_step s (count_zone i s)"
    by (rule zone_change [OF t i v(2)])
      (use z s1 node blank_blocks [OF bl] blank_blocks [OF v(1)] v(3) at lib_tables_length [OF t] i
        in \<open>simp_all add: e list_update_same_conv [THEN iffD2]\<close>)
  moreover have "blank_from 0 0 (count_zone i s)"
    using b z v(1) s1 lib_tables_length [OF t]
    by (auto simp: blank_from_def e nth_list_update_if same_phase_def)
  ultimately show ?thesis by simp
qed

lemma count_device_step:
  assumes t: "lib_tables s" and b: "blank_from 0 0 s" and i: "i < 12"
  shows "lib_step s (count_device i s) \<and> blank_from 0 0 (count_device i s)"
proof -
  have m: "g_cool_metrics s \<noteq> None" and node: "g_cool_node s ! i = None" and bl: "blank_view (device_views s ! i)"
    using b i by (auto simp: blank_from_def)
  have at: "device_views s ! i = map_option device_view (cool_at i s)" using device_views_at [OF t i] .
  obtain d s1 where d: "(case cool_at i s of Some d \<Rightarrow> (Some d, s)
       | None \<Rightarrow> let (ok, s') = tl_calloc s in (if ok then Some zero_cooling_data else None, s')) = (d, s1)" by fastforce
  define d' where "d' = map_option (\<lambda>d. if cd_len d < 32 then d\<lparr>cd_len := cd_len d + 1\<rparr> else d) d"
  have e: "count_device i s = set_cool i d' s1" using d by (simp add: count_device_def d'_def)
  have s1: "same_metrics s s1" "tl_files s1 = tl_files s" "g_temp_node s1 = g_temp_node s" "g_cool_node s1 = g_cool_node s"
    "tl_blocks s1 = tl_blocks s + of_bool (d \<noteq> None) - of_bool (cool_at i s \<noteq> None)"
    using d by (auto simp: tl_calloc_pair Let_def same_metrics_def split: option.splits if_splits)
  have d32: "\<And>x. d = Some x \<Longrightarrow> unat (cd_len x) \<le> 32 \<and> cd_id x = None \<and> cd_cur_state x = None \<and> cd_max_state x = None \<and> cd_name x = None"
  proof -
    fix x assume x: "d = Some x"
    show "unat (cd_len x) \<le> 32 \<and> cd_id x = None \<and> cd_cur_state x = None \<and> cd_max_state x = None \<and> cd_name x = None"
    proof (cases "cool_at i s")
      case None
      then show ?thesis using d x by (auto simp: tl_calloc_pair Let_def zero_cooling_data_def split: if_splits)
    next
      case (Some y)
      then have "y = x" using d x by simp
      then show ?thesis using at bl Some lib_tables_at(2) [OF t i] by (auto simp: blank_view_def device_view_def)
    qed
  qed
  let ?v = "map_option device_view d'"
  have v: "blank_view ?v" "dom_ok ?v None" "(?v \<noteq> None) = (d \<noteq> None)"
    using d32 by (cases d; auto simp: d'_def blank_view_def device_view_def unat_u8_inc word_less_nat_alt)+
  have z: "device_views (count_device i s) = (device_views s)[i := ?v]" "zone_views (count_device i s) = zone_views s"
    "same_phase s (count_device i s)"
    using s1(1) m same_metrics_views [OF s1(1)] unfolding e
    by (simp_all add: device_views_set same_metrics_def same_phase_def)
  have "lib_step s (count_device i s)"
    by (rule device_change [OF t i v(2)])
      (use z s1 node blank_blocks [OF bl] blank_blocks [OF v(1)] v(3) at lib_tables_length [OF t] i
        in \<open>simp_all add: e list_update_same_conv [THEN iffD2]\<close>)
  moreover have "blank_from 0 0 (count_device i s)"
    using b z v(1) s1 lib_tables_length [OF t]
    by (auto simp: blank_from_def e nth_list_update_if same_phase_def)
  ultimately show ?thesis by simp
qed

lemma count_entries_step:
  "lib_tables s \<Longrightarrow> blank_from 0 0 s \<Longrightarrow>
     lib_step s (count_entries fs ns s) \<and> blank_from 0 0 (count_entries fs ns s)"
proof (induction ns arbitrary: s)
  case (Cons d_name ns)
  let ?s = "let is_zone = has_prefix LINUX_THERMAL_ZONE_PREFIX d_name;
            is_cool = has_prefix LINUX_THERMAL_COOLING_DEVICE_PREFIX d_name
        in if \<not> is_zone \<and> \<not> is_cool then s
           else case linux_thermal_read_type fs (type_node d_name) LINUX_THERMAL_ZONE_NAME_MAX_LEN of
                  None \<Rightarrow> s
                | Some type \<Rightarrow>
                    if is_zone
                    then (case linux_thermal_classify type g_temp_prefix of None \<Rightarrow> s | Some i \<Rightarrow> count_zone i s)
                    else (case linux_thermal_classify type g_cool_prefix of None \<Rightarrow> s | Some i \<Rightarrow> count_device i s)"
  have "lib_step s ?s \<and> blank_from 0 0 ?s"
    using count_zone_step [OF Cons.prems] count_device_step [OF Cons.prems] Cons.prems classify_range
    by (auto simp: Let_def split: option.splits)
  then show ?case
    using Cons.IH [of ?s] lib_step_trans [of s ?s] lib_step_tables [of s ?s] by simp
qed simp

text \<open>Without failing allocations the lengths count the entries, up to 32.\<close>

definition bump :: "nat option \<Rightarrow> nat option" where
  "bump v = Some (case v of None \<Rightarrow> 1 | Some n \<Rightarrow> min 32 (Suc n))"

lemma bump_pow: "(bump ^^ c) None = (if c = 0 then None else Some (min 32 c))"
  by (induction c) (auto simp: bump_def)

lemma count_zone_lens:
  assumes t: "lib_tables s" and m: "g_temp_metrics s \<noteq> None" and i: "i < 16" and f: "tl_faults s = []"
  shows "lib_lens (count_zone i s) = ((fst (lib_lens s))[i := bump (fst (lib_lens s) ! i)], snd (lib_lens s)) \<and>
     tl_faults (count_zone i s) = []"
proof -
  have at: "zone_views s ! i = map_option zone_view (temp_at i s)" using zone_views_at [OF t i] .
  have le: "unat (td_len d) \<le> 32" if "temp_at i s = Some d" for d
    using lib_tables_at(1) [OF t i] at that by simp
  let ?s = "case temp_at i s of Some _ \<Rightarrow> s | None \<Rightarrow> snd (tl_calloc s)"
  let ?d = "case temp_at i s of Some d \<Rightarrow> d | None \<Rightarrow> zero_temp_data"
  let ?b = "if td_len ?d < 32 then ?d\<lparr>td_len := td_len ?d + 1\<rparr> else ?d"
  have e: "count_zone i s = set_temp i (Some ?b) ?s"
    using f by (simp add: count_zone_def tl_calloc_pair split: option.split)
  have "unat (td_len ?d) \<le> 32" using le by (simp add: zero_temp_data_def split: option.split)
  then have b: "unat (td_len ?b) = min 32 (Suc (unat (td_len ?d)))"
    by (cases "td_len ?d < 32") (simp_all add: unat_u8_inc word_less_nat_alt)
  have "bump (fst (lib_lens s) ! i) = Some (unat (td_len ?b))"
    unfolding b using lib_tables_length(3) [OF t] i at by (simp add: lib_lens_def bump_def zero_temp_data_def split: option.split)
  moreover have "g_temp_metrics ?s \<noteq> None" using m by (simp add: tl_calloc_pair split: option.split)
  then have "zone_views (set_temp i (Some ?b) ?s) = (zone_views s)[i := Some (zone_view ?b)]"
    unfolding zone_views_set [OF \<open>g_temp_metrics ?s \<noteq> None\<close>]
    by (simp add: zone_views_def tl_calloc_pair split: option.split)
  moreover have "device_views (set_temp i (Some ?b) ?s) = device_views s" by (simp add: device_views_def tl_calloc_pair split: option.split)
  moreover have "tl_faults (count_zone i s) = []" unfolding e using f by (simp add: set_temp_def tl_calloc_pair split: option.split)
  ultimately show ?thesis unfolding e by (simp add: lib_lens_def map_update)
qed

lemma count_device_lens:
  assumes t: "lib_tables s" and m: "g_cool_metrics s \<noteq> None" and i: "i < 12" and f: "tl_faults s = []"
  shows "lib_lens (count_device i s) = (fst (lib_lens s), (snd (lib_lens s))[i := bump (snd (lib_lens s) ! i)]) \<and>
     tl_faults (count_device i s) = []"
proof -
  have at: "device_views s ! i = map_option device_view (cool_at i s)" using device_views_at [OF t i] .
  have le: "unat (cd_len d) \<le> 32" if "cool_at i s = Some d" for d
    using lib_tables_at(2) [OF t i] at that by simp
  let ?s = "case cool_at i s of Some _ \<Rightarrow> s | None \<Rightarrow> snd (tl_calloc s)"
  let ?d = "case cool_at i s of Some d \<Rightarrow> d | None \<Rightarrow> zero_cooling_data"
  let ?b = "if cd_len ?d < 32 then ?d\<lparr>cd_len := cd_len ?d + 1\<rparr> else ?d"
  have e: "count_device i s = set_cool i (Some ?b) ?s"
    using f by (simp add: count_device_def tl_calloc_pair split: option.split)
  have "unat (cd_len ?d) \<le> 32" using le by (simp add: zero_cooling_data_def split: option.split)
  then have b: "unat (cd_len ?b) = min 32 (Suc (unat (cd_len ?d)))"
    by (cases "cd_len ?d < 32") (simp_all add: unat_u8_inc word_less_nat_alt)
  have "bump (snd (lib_lens s) ! i) = Some (unat (cd_len ?b))"
    unfolding b using lib_tables_length(4) [OF t] i at by (simp add: lib_lens_def bump_def zero_cooling_data_def split: option.split)
  moreover have "g_cool_metrics ?s \<noteq> None" using m by (simp add: tl_calloc_pair split: option.split)
  then have "device_views (set_cool i (Some ?b) ?s) = (device_views s)[i := Some (device_view ?b)]"
    unfolding device_views_set [OF \<open>g_cool_metrics ?s \<noteq> None\<close>]
    by (simp add: device_views_def tl_calloc_pair split: option.split)
  moreover have "zone_views (set_cool i (Some ?b) ?s) = zone_views s" by (simp add: zone_views_def tl_calloc_pair split: option.split)
  moreover have "tl_faults (count_device i s) = []" unfolding e using f by (simp add: set_cool_def tl_calloc_pair split: option.split)
  ultimately show ?thesis unfolding e by (simp add: lib_lens_def map_update)
qed

text \<open>The domain of an entry of the directory.\<close>

definition zone_domain :: "filesystem \<Rightarrow> string \<Rightarrow> nat option" where
  "zone_domain fs d_name =
     (if has_prefix LINUX_THERMAL_ZONE_PREFIX d_name
      then (case linux_thermal_read_type fs (type_node d_name) LINUX_THERMAL_ZONE_NAME_MAX_LEN of
              None \<Rightarrow> None | Some type \<Rightarrow> linux_thermal_classify type g_temp_prefix)
      else None)"

definition device_domain :: "filesystem \<Rightarrow> string \<Rightarrow> nat option" where
  "device_domain fs d_name =
     (if has_prefix LINUX_THERMAL_COOLING_DEVICE_PREFIX d_name
      then (case linux_thermal_read_type fs (type_node d_name) LINUX_THERMAL_ZONE_NAME_MAX_LEN of
              None \<Rightarrow> None | Some type \<Rightarrow> linux_thermal_classify type g_cool_prefix)
      else None)"

lemma prefixes_differ: "has_prefix LINUX_THERMAL_ZONE_PREFIX d_name \<Longrightarrow> \<not> has_prefix LINUX_THERMAL_COOLING_DEVICE_PREFIX d_name"
  by (cases d_name) (auto simp: has_prefix_def)

definition in_domain :: "(string \<Rightarrow> nat option) \<Rightarrow> string list \<Rightarrow> nat \<Rightarrow> nat" where
  "in_domain f ns i = length (filter (\<lambda>n. f n = Some i) ns)"

lemma count_entries_lens:
  "lib_tables s \<Longrightarrow> blank_from 0 0 s \<Longrightarrow> tl_faults s = [] \<Longrightarrow>
     lib_lens (count_entries fs ns s) =
       (map (\<lambda>i. (bump ^^ in_domain (zone_domain fs) ns i) (fst (lib_lens s) ! i)) [0..<16],
        map (\<lambda>i. (bump ^^ in_domain (device_domain fs) ns i) (snd (lib_lens s) ! i)) [0..<12])"
proof (induction ns arbitrary: s)
  case Nil
  then show ?case
    using lib_tables_length(3,4) [OF Nil(1)] by (auto simp: in_domain_def lib_lens_def intro!: nth_equalityI)
next
  case (Cons d_name ns)
  note t = Cons.prems(1) and b = Cons.prems(2) and f = Cons.prems(3)
  have m: "g_temp_metrics s \<noteq> None" "g_cool_metrics s \<noteq> None" using b by (simp_all add: blank_from_def)
  have len: "length (fst (lib_lens s)) = 16" "length (snd (lib_lens s)) = 12" using lib_tables_length [OF t] by (simp_all add: lib_lens_def)
  define s1 where "s1 = (case zone_domain fs d_name of Some i \<Rightarrow> count_zone i s
      | None \<Rightarrow> (case device_domain fs d_name of Some i \<Rightarrow> count_device i s | None \<Rightarrow> s))"
  have e: "count_entries fs (d_name # ns) s = count_entries fs ns s1"
    using prefixes_differ [of d_name] by (auto simp: s1_def zone_domain_def device_domain_def Let_def split: option.split)
  have dom: "zone_domain fs d_name = Some i \<Longrightarrow> i < 16 \<and> device_domain fs d_name = None" "device_domain fs d_name = Some i \<Longrightarrow> i < 12" for i
    using classify_range prefixes_differ [of d_name] by (auto simp: zone_domain_def device_domain_def split: if_splits option.splits)
  consider i where "zone_domain fs d_name = Some i" | i where "zone_domain fs d_name = None" "device_domain fs d_name = Some i"
    | "zone_domain fs d_name = None" "device_domain fs d_name = None" by (cases "zone_domain fs d_name"; cases "device_domain fs d_name") auto
  then show ?case
  proof cases
    case (1 i)
    have i: "i < 16" "device_domain fs d_name = None" using dom(1) [OF 1] by simp_all
    have s1: "s1 = count_zone i s" using 1 by (simp add: s1_def)
    have st: "lib_tables s1" "blank_from 0 0 s1" using count_zone_step [OF t b i(1)] lib_step_tables by (auto simp: s1)
    have l: "lib_lens s1 = ((fst (lib_lens s))[i := bump (fst (lib_lens s) ! i)], snd (lib_lens s))" "tl_faults s1 = []"
      using count_zone_lens [OF t m(1) i(1) f] by (simp_all add: s1)
    show ?thesis
      unfolding e Cons.IH [OF st l(2)] l(1) using 1 i len
      by (auto simp: in_domain_def nth_list_update_if funpow_swap1)
  next
    case (2 i)
    have i: "i < 12" using dom(2) [OF 2(2)] .
    have s1: "s1 = count_device i s" using 2 by (simp add: s1_def)
    have st: "lib_tables s1" "blank_from 0 0 s1" using count_device_step [OF t b i] lib_step_tables by (auto simp: s1)
    have l: "lib_lens s1 = (fst (lib_lens s), (snd (lib_lens s))[i := bump (snd (lib_lens s) ! i)])" "tl_faults s1 = []"
      using count_device_lens [OF t m(2) i f] by (simp_all add: s1)
    show ?thesis
      unfolding e Cons.IH [OF st l(2)] l(1) using 2 i len
      by (auto simp: in_domain_def nth_list_update_if funpow_swap1)
  next
    case 3
    then have "s1 = s" by (simp add: s1_def)
    then show ?thesis unfolding e using Cons.IH [OF t b f] 3 by (simp add: in_domain_def)
  qed
qed

section \<open>Allocation of the buffers\<close>

lemma alloc_temp_buffers_result:
  assumes b: "blank_view (Some (zone_view d))" "unat (td_len d) \<le> 32"
    and r: "linux_thermal_alloc_temp_buffers (Some d) s = (d', s')"
  shows "\<exists>b'. d' = Some b' \<and> td_len b' = td_len d \<and> (\<forall>node. (\<forall>hs. node = Some hs \<longrightarrow> length hs = unat (td_len d)) \<longrightarrow>
       dom_ok (Some (zone_view b')) node) \<and>
     tl_blocks s' = tl_blocks s + dom_blocks (Some (zone_view b')) - 1 \<and> tl_files s' = tl_files s \<and> same_metrics s s' \<and>
     g_temp_node s' = g_temp_node s \<and> g_cool_node s' = g_cool_node s"
proof (cases "td_len d > 0")
  case True
  then have "0 < unat (td_len d)" by (simp add: word_less_nat_alt)
  obtain st s1 i s2 t s3 p s4 where c: "tl_calloc s = (st, s1)" "tl_calloc s1 = (i, s2)" "tl_calloc s2 = (t, s3)"
    "tl_calloc s3 = (p, s4)" by (metis surj_pair)
  note f = tl_calloc_result [OF c(1)] tl_calloc_result [OF c(2)] tl_calloc_result [OF c(3)] tl_calloc_result [OF c(4)]
  let ?n = "unat (td_len d)"
  let ?b = "d\<lparr>td_id := if i then Some (replicate ?n 0) else None, td_temp := if t then Some (replicate ?n 0) else None,
                td_name := name_pointers st p ?n\<rparr>"
  have e: "d' = Some ?b" "s' = (if st \<and> \<not> p then tl_free 1 s4 else s4)"
    using r True c by (simp_all add: linux_thermal_alloc_temp_buffers_def Let_def)
  have "dom_blocks (Some (zone_view ?b)) = 1 + of_bool i + of_bool t + (if p then 1 + of_bool st else 0)"
    using \<open>0 < ?n\<close> by (simp add: zone_view_def name_pointers_def)
  moreover have "tl_blocks s' = tl_blocks s + of_bool st + of_bool i + of_bool t + of_bool p - of_bool (st \<and> \<not> p)"
    using f unfolding e(2) by simp
  ultimately have "tl_blocks s' = tl_blocks s + dom_blocks (Some (zone_view ?b)) - 1"
    by (cases st; cases p) simp_all
  moreover have "dom_ok (Some (zone_view ?b)) node" if "\<forall>hs. node = Some hs \<longrightarrow> length hs = ?n" for node
    using that b(2) by (simp add: zone_view_def name_pointers_def)
  moreover have "tl_files s' = tl_files s \<and> same_metrics s s' \<and> g_temp_node s' = g_temp_node s \<and> g_cool_node s' = g_cool_node s"
    using f unfolding e(2) by (simp add: same_metrics_def)
  ultimately show ?thesis unfolding e(1) by auto
next
  case False
  then show ?thesis
    using r b by (auto simp: linux_thermal_alloc_temp_buffers_def zone_view_def blank_view_def same_metrics_def)
qed

lemma alloc_zone_step:
  assumes t: "lib_tables s" and b: "blank_from i 0 s" and i: "i < 16"
  shows "lib_step s (alloc_zones i 1 s) \<and> blank_from (Suc i) 0 (alloc_zones i 1 s) \<and>
     tab_files (g_temp_node (alloc_zones i 1 s)) = tab_files (g_temp_node s) \<and> lib_lens (alloc_zones i 1 s) = lib_lens s"
proof -
  have m: "g_temp_metrics s \<noteq> None" and node: "g_temp_node s ! i = None" and bl: "blank_view (zone_views s ! i)"
    using b i by (auto simp: blank_from_def)
  have at: "zone_views s ! i = map_option zone_view (temp_at i s)" using zone_views_at [OF t i] .
  show ?thesis
  proof (cases "temp_at i s")
    case None
    have self: "set_temp i None s = s"
      using None m i lib_tables_length(3) [OF t]
      by (auto simp: set_temp_def temp_at_def zone_views_def list_update_same_conv split: option.splits)
    then have "alloc_zones i 1 s = s" using None by (simp add: linux_thermal_alloc_temp_buffers_def)
    then show ?thesis using t b by (simp add: blank_from_def)
  next
    case (Some d)
    have d: "blank_view (Some (zone_view d))" "unat (td_len d) \<le> 32"
      using bl at Some lib_tables_at(1) [OF t i] by (auto simp: zone_view_def)
    obtain d' s1 where r: "linux_thermal_alloc_temp_buffers (Some d) s = (d', s1)"
      by (cases "linux_thermal_alloc_temp_buffers (Some d) s")
    obtain b' where b': "d' = Some b'" "td_len b' = td_len d"
      "\<And>node. (\<forall>hs. node = Some hs \<longrightarrow> length hs = unat (td_len d)) \<Longrightarrow> dom_ok (Some (zone_view b')) node"
      "tl_blocks s1 = tl_blocks s + dom_blocks (Some (zone_view b')) - 1" "tl_files s1 = tl_files s" "same_metrics s s1"
      "g_temp_node s1 = g_temp_node s" "g_cool_node s1 = g_cool_node s"
      using alloc_temp_buffers_result [OF d r] by blast
    let ?s2 = "set_temp i (Some b') s1"
    define n where "n = (if td_len b' > 0 \<and> fst (tl_calloc ?s2) then Some (replicate (unat (td_len b')) None) else None :: string option list option)"
    define s3 where "s3 = alloc_zones i 1 s"
    have m1: "g_temp_metrics s1 \<noteq> None" using b'(6) m by (simp add: same_metrics_def)
    have e: "s3 = (if td_len b' > 0 then (snd (tl_calloc ?s2))\<lparr>g_temp_node := (g_temp_node (snd (tl_calloc ?s2)))[i := n]\<rparr> else ?s2)"
      using Some r b'(1) by (simp add: s3_def n_def case_prod_beta Let_def)
    have f: "tl_blocks s3 = tl_blocks s1 + node_blocks n" "tl_files s3 = tl_files s1" "g_cool_node s3 = g_cool_node s1"
      "same_metrics ?s2 s3"
      unfolding e by (auto simp: n_def tl_calloc_pair same_metrics_def)
    have nf: "node_files n = 0" by (simp add: n_def sum_list_replicate)
    have "(g_temp_node s)[i := None] = g_temp_node s" using node by (metis list_update_id)
    then have nn: "g_temp_node s3 = (g_temp_node s)[i := n]"
      using b'(7) unfolding e by (auto simp: n_def tl_calloc_pair)
    have vs: "zone_views s3 = (zone_views s)[i := Some (zone_view b')]" "device_views s3 = device_views s"
      using same_metrics_views(1,2) [OF f(4)] same_metrics_views(1,2) [OF b'(6)] zone_views_set [OF m1, of i "Some b'"] by simp_all
    have ph: "same_phase s s3"
      using f(4) b'(6) m by (simp add: same_metrics_def same_phase_def)
    have blk: "dom_blocks (zone_views s ! i) = 1" using blank_blocks [OF bl] at Some by simp
    have "lib_step s s3"
      by (rule zone_change [OF t i b'(3) ph vs(1) nn vs(2)])
        (use f b'(2,4,5,8) nf blk node in \<open>simp_all add: n_def\<close>)
    moreover have "blank_from (Suc i) 0 s3"
      using b vs nn f(3) b'(8) ph lib_tables_length [OF t] i by (auto simp: blank_from_def same_phase_def)
    moreover have "tab_files (g_temp_node s3) = tab_files (g_temp_node s)"
      using nn nf node lib_tables_length [OF t] i by (simp add: tab_files_update)
    moreover have "lib_lens s3 = lib_lens s"
      using lens_update [of "Some (zone_view b')" "zone_views s" i] at Some b'(2) by (simp add: lib_lens_def vs)
    ultimately show ?thesis by (simp add: s3_def)
  qed
qed

lemma alloc_zones_step:
  "lib_tables s \<Longrightarrow> blank_from i 0 s \<Longrightarrow> i + n \<le> 16 \<Longrightarrow>
     lib_step s (alloc_zones i n s) \<and> blank_from (i + n) 0 (alloc_zones i n s) \<and>
     tab_files (g_temp_node (alloc_zones i n s)) = tab_files (g_temp_node s) \<and> lib_lens (alloc_zones i n s) = lib_lens s"
proof (induction n arbitrary: i s)
  case (Suc n)
  let ?s1 = "alloc_zones i 1 s"
  have 1: "lib_step s ?s1" "blank_from (Suc i) 0 ?s1" "tab_files (g_temp_node ?s1) = tab_files (g_temp_node s)"
    "lib_lens ?s1 = lib_lens s" using alloc_zone_step [OF Suc.prems(1,2)] Suc.prems(3) by simp_all
  have "alloc_zones i (Suc n) s = alloc_zones (Suc i) n ?s1" by (simp add: Let_def case_prod_beta)
  then show ?case
    using Suc.IH [OF lib_step_tables [OF 1(1)] 1(2)] Suc.prems(3) lib_step_trans [OF 1(1)] 1(3,4) by simp
qed simp

lemma alloc_cooling_buffers_result:
  assumes b: "blank_view (Some (device_view d))" "unat (cd_len d) \<le> 32"
    and r: "linux_thermal_alloc_cooling_buffers (Some d) s = (d', s')"
  shows "\<exists>b'. d' = Some b' \<and> cd_len b' = cd_len d \<and> (\<forall>node. (\<forall>hs. node = Some hs \<longrightarrow> length hs = unat (cd_len d)) \<longrightarrow>
       dom_ok (Some (device_view b')) node) \<and>
     tl_blocks s' = tl_blocks s + dom_blocks (Some (device_view b')) - 1 \<and> tl_files s' = tl_files s \<and> same_metrics s s' \<and>
     g_temp_node s' = g_temp_node s \<and> g_cool_node s' = g_cool_node s"
proof (cases "cd_len d > 0")
  case True
  then have "0 < unat (cd_len d)" by (simp add: word_less_nat_alt)
  obtain st s1 i s2 t s3 m s4 p s5 where c: "tl_calloc s = (st, s1)" "tl_calloc s1 = (i, s2)" "tl_calloc s2 = (t, s3)"
    "tl_calloc s3 = (m, s4)" "tl_calloc s4 = (p, s5)" by (metis surj_pair)
  note f = tl_calloc_result [OF c(1)] tl_calloc_result [OF c(2)] tl_calloc_result [OF c(3)] tl_calloc_result [OF c(4)] tl_calloc_result [OF c(5)]
  let ?n = "unat (cd_len d)"
  let ?b = "d\<lparr>cd_id := if i then Some (replicate ?n 0) else None, cd_cur_state := if t then Some (replicate ?n 0) else None,
                cd_max_state := if m then Some (replicate ?n 0) else None, cd_name := name_pointers st p ?n\<rparr>"
  have e: "d' = Some ?b" "s' = (if st \<and> \<not> p then tl_free 1 s5 else s5)"
    using r True c by (simp_all add: linux_thermal_alloc_cooling_buffers_def Let_def)
  have "dom_blocks (Some (device_view ?b)) = 1 + of_bool i + of_bool t + of_bool m + (if p then 1 + of_bool st else 0)"
    using \<open>0 < ?n\<close> by (simp add: device_view_def name_pointers_def)
  moreover have "tl_blocks s' = tl_blocks s + of_bool st + of_bool i + of_bool t + of_bool m + of_bool p - of_bool (st \<and> \<not> p)"
    using f unfolding e(2) by simp
  ultimately have "tl_blocks s' = tl_blocks s + dom_blocks (Some (device_view ?b)) - 1"
    by (cases st; cases p) simp_all
  moreover have "dom_ok (Some (device_view ?b)) node" if "\<forall>hs. node = Some hs \<longrightarrow> length hs = ?n" for node
    using that b(2) by (simp add: device_view_def name_pointers_def)
  moreover have "tl_files s' = tl_files s \<and> same_metrics s s' \<and> g_temp_node s' = g_temp_node s \<and> g_cool_node s' = g_cool_node s"
    using f unfolding e(2) by (simp add: same_metrics_def)
  ultimately show ?thesis unfolding e(1) by auto
next
  case False
  then show ?thesis
    using r b by (auto simp: linux_thermal_alloc_cooling_buffers_def device_view_def blank_view_def same_metrics_def)
qed

lemma alloc_device_step:
  assumes t: "lib_tables s" and b: "blank_from j i s" and i: "i < 12"
  shows "lib_step s (alloc_devices i 1 s) \<and> blank_from j (Suc i) (alloc_devices i 1 s) \<and>
     tab_files (g_cool_node (alloc_devices i 1 s)) = tab_files (g_cool_node s) \<and> g_temp_node (alloc_devices i 1 s) = g_temp_node s \<and>
     lib_lens (alloc_devices i 1 s) = lib_lens s"
proof -
  have m: "g_cool_metrics s \<noteq> None" and node: "g_cool_node s ! i = None" and bl: "blank_view (device_views s ! i)"
    using b i by (auto simp: blank_from_def)
  have at: "device_views s ! i = map_option device_view (cool_at i s)" using device_views_at [OF t i] .
  show ?thesis
  proof (cases "cool_at i s")
    case None
    have self: "set_cool i None s = s"
      using None m i lib_tables_length(4) [OF t]
      by (auto simp: set_cool_def cool_at_def device_views_def list_update_same_conv split: option.splits)
    then have "alloc_devices i 1 s = s" using None by (simp add: linux_thermal_alloc_cooling_buffers_def)
    then show ?thesis using t b by (simp add: blank_from_def)
  next
    case (Some d)
    have d: "blank_view (Some (device_view d))" "unat (cd_len d) \<le> 32"
      using bl at Some lib_tables_at(2) [OF t i] by (auto simp: device_view_def)
    obtain d' s1 where r: "linux_thermal_alloc_cooling_buffers (Some d) s = (d', s1)"
      by (cases "linux_thermal_alloc_cooling_buffers (Some d) s")
    obtain b' where b': "d' = Some b'" "cd_len b' = cd_len d"
      "\<And>node. (\<forall>hs. node = Some hs \<longrightarrow> length hs = unat (cd_len d)) \<Longrightarrow> dom_ok (Some (device_view b')) node"
      "tl_blocks s1 = tl_blocks s + dom_blocks (Some (device_view b')) - 1" "tl_files s1 = tl_files s" "same_metrics s s1"
      "g_temp_node s1 = g_temp_node s" "g_cool_node s1 = g_cool_node s"
      using alloc_cooling_buffers_result [OF d r] by blast
    let ?s2 = "set_cool i (Some b') s1"
    define n where "n = (if cd_len b' > 0 \<and> fst (tl_calloc ?s2) then Some (replicate (unat (cd_len b')) None) else None :: string option list option)"
    define s3 where "s3 = alloc_devices i 1 s"
    have m1: "g_cool_metrics s1 \<noteq> None" using b'(6) m by (simp add: same_metrics_def)
    have e: "s3 = (if cd_len b' > 0 then (snd (tl_calloc ?s2))\<lparr>g_cool_node := (g_cool_node (snd (tl_calloc ?s2)))[i := n]\<rparr> else ?s2)"
      using Some r b'(1) by (simp add: s3_def n_def case_prod_beta Let_def)
    have f: "tl_blocks s3 = tl_blocks s1 + node_blocks n" "tl_files s3 = tl_files s1" "g_temp_node s3 = g_temp_node s1"
      "same_metrics ?s2 s3"
      unfolding e by (auto simp: n_def tl_calloc_pair same_metrics_def)
    have nf: "node_files n = 0" by (simp add: n_def sum_list_replicate)
    have "(g_cool_node s)[i := None] = g_cool_node s" using node by (metis list_update_id)
    then have nn: "g_cool_node s3 = (g_cool_node s)[i := n]"
      using b'(8) unfolding e by (auto simp: n_def tl_calloc_pair)
    have vs: "device_views s3 = (device_views s)[i := Some (device_view b')]" "zone_views s3 = zone_views s"
      using same_metrics_views(1,2) [OF f(4)] same_metrics_views(1,2) [OF b'(6)] device_views_set [OF m1, of i "Some b'"] by simp_all
    have ph: "same_phase s s3"
      using f(4) b'(6) m by (simp add: same_metrics_def same_phase_def)
    have blk: "dom_blocks (device_views s ! i) = 1" using blank_blocks [OF bl] at Some by simp
    have "lib_step s s3"
      by (rule device_change [OF t i b'(3) ph vs(1) nn vs(2)])
        (use f b'(2,4,5,7) nf blk node in \<open>simp_all add: n_def\<close>)
    moreover have "blank_from j (Suc i) s3"
      using b vs nn f(3) b'(7) ph lib_tables_length [OF t] i by (auto simp: blank_from_def same_phase_def)
    moreover have "tab_files (g_cool_node s3) = tab_files (g_cool_node s) \<and> g_temp_node s3 = g_temp_node s"
      using nn nf node f(3) b'(7) lib_tables_length [OF t] i by (simp add: tab_files_update)
    moreover have "lib_lens s3 = lib_lens s"
      using lens_update [of "Some (device_view b')" "device_views s" i] at Some b'(2) by (simp add: lib_lens_def vs)
    ultimately show ?thesis by (simp add: s3_def)
  qed
qed

lemma alloc_devices_step:
  "lib_tables s \<Longrightarrow> blank_from j i s \<Longrightarrow> i + n \<le> 12 \<Longrightarrow> lib_step s (alloc_devices i n s) \<and>
     tab_files (g_cool_node (alloc_devices i n s)) = tab_files (g_cool_node s) \<and> g_temp_node (alloc_devices i n s) = g_temp_node s \<and>
     lib_lens (alloc_devices i n s) = lib_lens s"
proof (induction n arbitrary: i s)
  case (Suc n)
  let ?s1 = "alloc_devices i 1 s"
  have 1: "lib_step s ?s1" "blank_from j (Suc i) ?s1" "tab_files (g_cool_node ?s1) = tab_files (g_cool_node s)"
    "g_temp_node ?s1 = g_temp_node s" "lib_lens ?s1 = lib_lens s"
    using alloc_device_step [OF Suc.prems(1,2)] Suc.prems(3) by simp_all
  have "alloc_devices i (Suc n) s = alloc_devices (Suc i) n ?s1" by (simp add: Let_def case_prod_beta)
  then show ?case
    using Suc.IH [OF lib_step_tables [OF 1(1)] 1(2)] Suc.prems(3) lib_step_trans [OF 1(1)] 1(3-5) by simp
qed simp

end
