(* ===== verification/LinuxThermalLibProps.thy ===== *)
theory LinuxThermalLibProps
  imports LinuxThermalLibViews
begin

text \<open>
  Correctness of the thermal library, continued: discovery, refreshing and cleanup never go outside their
  arrays and keep the accounts of blocks and files, and after \<open>cleanup\<close> nothing is held.
\<close>

section \<open>Discovery\<close>

lemma count_nonneg: "0 \<le> (\<Sum>x\<leftarrow>xs. of_bool (P x) :: int)"
  by (induction xs) simp_all

lemma node_files_nonneg: "0 \<le> node_files n"
  by (cases n) (simp_all add: count_nonneg del: not_None_eq)

lemma handles_closed: "node_files (Some hs) = 0 \<Longrightarrow> h \<in> set hs \<Longrightarrow> h = None"
proof (induction hs)
  case (Cons g hs)
  have 0: "0 \<le> (\<Sum>h\<leftarrow>hs. of_bool (h \<noteq> None) :: int)" by (rule count_nonneg)
  show ?case
  proof (cases g)
    case None
    then show ?thesis using Cons by auto
  next
    case (Some x)
    then show ?thesis using Cons.prems(1) 0 by (simp del: not_None_eq)
  qed
qed simp

lemma tab_files_zero:
  assumes "tab_files nodes = 0" "n \<in> set nodes"
  shows "node_files n = 0"
  using assms
proof (induction nodes)
  case (Cons m nodes)
  have 0: "0 \<le> tab_files nodes"
    unfolding tab_files_def by (induction nodes) (simp_all add: node_files_nonneg)
  have "node_files m + tab_files nodes = 0" using Cons.prems(1) by (simp add: tab_files_def)
  then have "node_files m = 0" "tab_files nodes = 0" using 0 node_files_nonneg [of m] by linarith+
  then show ?case using Cons by auto
qed simp

text \<open>The handles from the slots to be filled on are not open yet.\<close>

definition unopened :: "u8 list \<Rightarrow> string option list option list \<Rightarrow> bool" where
  "unopened filled nodes \<longleftrightarrow> length filled = length nodes \<and>
     (\<forall>i<length nodes. \<forall>hs. nodes ! i = Some hs \<longrightarrow> (\<forall>k<length hs. unat (filled ! i) \<le> k \<longrightarrow> hs ! k = None))"

lemma unopened_start:
  assumes "tab_files nodes = 0" "length nodes = n"
  shows "unopened (replicate n 0) nodes"
proof -
  have "hs ! k = None" if "i < length nodes" "nodes ! i = Some hs" "k < length hs" for i hs k
    using tab_files_zero [OF assms(1), of "Some hs"] handles_closed [of hs "hs ! k"] that by (metis nth_mem)
  then show ?thesis using assms(2) by (simp add: unopened_def)
qed

lemma unopened_next:
  assumes "unopened filled nodes" "i < length nodes" "unat (filled ! i) < 32"
    and n: "\<And>hs'. n = Some hs' \<Longrightarrow> \<exists>hs h. nodes ! i = Some hs \<and> hs' = hs[unat (filled ! i) := h]"
  shows "unopened (filled[i := filled ! i + 1]) (nodes[i := n])"
proof -
  have "hs' ! k = None" if h': "n = Some hs'" "k < length hs'" "Suc (unat (filled ! i)) \<le> k" for hs' k
  proof -
    obtain hs h where h: "nodes ! i = Some hs" "hs' = hs[unat (filled ! i) := h]" using n [OF h'(1)] by blast
    then have "hs' ! k = hs ! k" using h'(3) by simp
    then show ?thesis using assms(1,2) h h' by (simp add: unopened_def)
  qed
  then show ?thesis
    using assms(1,2) by (auto simp: unopened_def nth_list_update_if unat_u8_inc [OF assms(3)])
qed

lemma store_opt_Ret: "(\<And>xs. a = Some xs \<Longrightarrow> i < length xs) \<Longrightarrow> store_opt a i v = Ret (map_option (\<lambda>xs. xs[i := v]) a)"
  by (cases a) (simp_all add: store_opt_def)

lemma store_name_Ret:
  assumes "\<And>ps. a = Some ps \<Longrightarrow> i < length ps"
  shows "\<exists>a'. store_name a i v = Ret a' \<and> map_option (map (\<lambda>p. p \<noteq> None)) a' = map_option (map (\<lambda>p. p \<noteq> None)) a"
proof (cases a)
  case (Some ps)
  have i: "i < length ps" using assms [OF Some] .
  show ?thesis
  proof (cases "ps ! i")
    case None
    then show ?thesis using i Some by (simp add: store_name_def)
  next
    case p: (Some q)
    have "map (\<lambda>p. p \<noteq> None) (ps[i := Some w]) = map (\<lambda>p. p \<noteq> None) ps" for w
      by (rule nth_equalityI) (auto simp: nth_list_update_if p)
    then show ?thesis using i Some p by (simp add: store_name_def del: not_None_eq)
  qed
qed (simp add: store_name_def)

lemma open_node_Ret:
  assumes "\<And>hs. node = Some hs \<Longrightarrow> i < length hs \<and> hs ! i = None"
  shows "\<exists>node' h s'. open_node fs path node i s = Ret (node', h, s') \<and> same_metrics s s' \<and>
     tl_blocks s' = tl_blocks s \<and> tl_files s' = tl_files s - node_files node + node_files node' \<and>
     node_blocks node' = node_blocks node \<and> (\<forall>hs'. node' = Some hs' \<longrightarrow> (\<exists>hs. node = Some hs \<and> hs' = hs[i := h])) \<and>
     (node = None \<longrightarrow> h = None) \<and> g_temp_node s' = g_temp_node s \<and> g_cool_node s' = g_cool_node s"
proof (cases node)
  case (Some hs)
  have i: "i < length hs" "hs ! i = None" using assms [OF Some] by simp_all
  let ?h = "if fs path = None then None else Some path" and ?s = "if fs path = None then s else s\<lparr>tl_files := tl_files s + 1\<rparr>"
  have r: "open_node fs path node i s = Ret (Some (hs[i := ?h]), ?h, ?s)"
    using i Some by (simp add: open_node_def tl_fopen_def)
  have f: "node_files (Some (hs[i := ?h])) = node_files (Some hs) + of_bool (fs path \<noteq> None)"
    unfolding node_files.simps sum_list_map_update [OF i(1)] i(2) by simp
  have s: "same_metrics s ?s" "tl_blocks ?s = tl_blocks s" "tl_files ?s = tl_files s + of_bool (fs path \<noteq> None)"
    "g_temp_node ?s = g_temp_node s" "g_cool_node ?s = g_cool_node s"
    by (simp_all add: same_metrics_def)
  have n: "node_blocks (Some (hs[i := ?h])) = node_blocks node" using Some by simp
  have tf: "tl_files ?s = tl_files s - node_files node + node_files (Some (hs[i := ?h]))" using s(3) f unfolding Some by linarith
  show ?thesis using r s(1,2,4,5) n tf Some by blast
qed (simp add: open_node_def same_metrics_def)

lemma read_into_Ret:
  assumes "\<And>xs. a = Some xs \<Longrightarrow> i < length xs"
  shows "\<exists>a'. (case (a, h) of
              (Some ts, Some _) \<Rightarrow> (case r of Some v \<Rightarrow> store_opt (Some ts) i (conv v) | None \<Rightarrow> Ret (Some ts))
            | _ \<Rightarrow> Ret a) = Ret a' \<and> map_option length a' = map_option length a"
proof (cases a)
  case (Some ts)
  then show ?thesis using assms by (cases h; cases r) (simp_all add: store_opt_def)
qed simp

lemma fill_zone_step:
  assumes t: "lib_tables s" and i: "i < 16" and d: "temp_at i s = Some d" and slot: "slot < unat (td_len d)"
    and h: "\<And>hs. g_temp_node s ! i = Some hs \<Longrightarrow> hs ! slot = None"
  shows "\<exists>s' n. fill_zone fs zone_id type i slot d s = Ret s' \<and> lib_step s s' \<and> g_temp_node s' = (g_temp_node s)[i := n] \<and>
     (\<forall>hs'. n = Some hs' \<longrightarrow> (\<exists>hs h. g_temp_node s ! i = Some hs \<and> hs' = hs[slot := h])) \<and>
     g_cool_node s' = g_cool_node s \<and> lib_lens s' = lib_lens s"
proof -
  have m: "g_temp_metrics s \<noteq> None" using d by (auto simp: temp_at_def split: option.splits)
  have v: "zone_views s ! i = Some (zone_view d)" using zone_views_at [OF t i] d by simp
  have ok: "dom_ok (Some (zone_view d)) (g_temp_node s ! i)" using lib_tables_at(1) [OF t i] v by simp
  have l: "\<And>xs. td_id d = Some xs \<Longrightarrow> slot < length xs" "\<And>xs. td_temp d = Some xs \<Longrightarrow> slot < length xs"
    "\<And>ps. td_name d = Some ps \<Longrightarrow> slot < length ps" "\<And>hs. g_temp_node s ! i = Some hs \<Longrightarrow> slot < length hs"
    using ok slot by (auto simp: zone_view_def)
  obtain names where names: "store_name (td_name d) slot type = Ret names"
    "map_option (map (\<lambda>p. p \<noteq> None)) names = map_option (map (\<lambda>p. p \<noteq> None)) (td_name d)"
    using store_name_Ret [of "td_name d" slot] l(3) by blast
  obtain node hd s1 where o: "open_node fs (value_node LINUX_THERMAL_ZONE_PREFIX zone_id ''/temp'') (g_temp_node s ! i) slot s = Ret (node, hd, s1)"
    "same_metrics s s1" "tl_blocks s1 = tl_blocks s" "tl_files s1 = tl_files s - node_files (g_temp_node s ! i) + node_files node"
    "node_blocks node = node_blocks (g_temp_node s ! i)"
    "\<forall>hs'. node = Some hs' \<longrightarrow> (\<exists>hs. g_temp_node s ! i = Some hs \<and> hs' = hs[slot := hd])"
    "g_temp_node s1 = g_temp_node s" "g_cool_node s1 = g_cool_node s"
    using open_node_Ret [of "g_temp_node s ! i" slot fs "value_node LINUX_THERMAL_ZONE_PREFIX zone_id ''/temp''" s] l(4) h by blast
  obtain temps where temps: "(case (td_temp d, hd) of
              (Some ts, Some _) \<Rightarrow> (case linux_thermal_read_value_fp fs hd of
                                     Some v \<Rightarrow> store_opt (Some ts) slot v
                                   | None \<Rightarrow> Ret (Some ts))
            | _ \<Rightarrow> Ret (td_temp d)) = Ret temps" "map_option length temps = map_option length (td_temp d)"
    using read_into_Ret [of "td_temp d" slot, where h = hd and r = "linux_thermal_read_value_fp fs hd" and conv = "\<lambda>v. v"] l(2)
    by blast
  let ?ids = "map_option (\<lambda>xs. xs[slot := ucast zone_id]) (td_id d)"
  let ?d = "d\<lparr>td_id := ?ids, td_name := names, td_temp := temps\<rparr>"
  let ?s = "set_temp i (Some ?d) (s1\<lparr>g_temp_node := (g_temp_node s1)[i := node]\<rparr>)"
  have r: "fill_zone fs zone_id type i slot d s = Ret ?s"
    using names(1) o(1) temps(1) store_opt_Ret [of "td_id d" slot "ucast zone_id"] l(1) by (simp add: fill_zone_def)
  have view: "zone_view ?d = zone_view d"
    using names(2) temps(2) by (cases "td_id d") (simp_all add: zone_view_def)
  have ok': "dom_ok (Some (zone_view d)) node" using ok o(6) by auto
  have ph: "same_phase s ?s" using o(2) by (simp add: same_metrics_def same_phase_def)
  have m1: "g_temp_metrics (s1\<lparr>g_temp_node := (g_temp_node s1)[i := node]\<rparr>) \<noteq> None" using m o(2) by (simp add: same_metrics_def)
  have sm: "same_metrics s (s1\<lparr>g_temp_node := (g_temp_node s1)[i := node]\<rparr>)" using o(2) by (simp add: same_metrics_def)
  have vs: "zone_views ?s = (zone_views s)[i := Some (zone_view d)]" "device_views ?s = device_views s"
    using zone_views_set [OF m1, of i "Some ?d"] same_metrics_views(1,2) [OF sm] view by simp_all
  have "lib_step s ?s"
    by (rule zone_change [OF t i ok' ph vs(1) _ vs(2)]) (use o v in simp_all)
  moreover have "lib_lens ?s = lib_lens s"
    unfolding lib_lens_def vs using lens_update [of "Some (zone_view d)" "zone_views s" i] v by simp
  ultimately show ?thesis
    using r o(6,7,8) by (intro exI [of _ ?s] exI [of _ node]) (simp, blast)
qed

lemma discover_zones_step:
  "lib_tables s \<Longrightarrow> unopened filled (g_temp_node s) \<Longrightarrow>
     \<exists>s'. discover_zones fs ns filled s = Ret s' \<and> lib_step s s' \<and> g_cool_node s' = g_cool_node s \<and>
       lib_lens s' = lib_lens s"
proof (induction ns arbitrary: filled s)
  case (Cons d_name ns)
  note skip = Cons.IH [OF Cons.prems]
  show ?case
  proof (cases "scan_entry LINUX_THERMAL_ZONE_PREFIX d_name")
    case None
    then show ?thesis using skip by simp
  next
    case 1: (Some zone_id)
    show ?thesis
    proof (cases "linux_thermal_read_type fs (type_node d_name) LINUX_THERMAL_ZONE_NAME_MAX_LEN")
      case None
      then show ?thesis using 1 skip by simp
    next
      case 2: (Some type)
      show ?thesis
      proof (cases "linux_thermal_classify type g_temp_prefix")
        case None
        then show ?thesis using 1 2 skip by simp
      next
        case 3: (Some i)
        have i: "i < 16" using classify_range(1) [OF 3] .
        show ?thesis
        proof (cases "\<exists>d. temp_at i s = Some d \<and> \<not> td_len d \<le> filled ! i")
          case False
          then show ?thesis using 1 2 3 skip by (cases "temp_at i s") simp_all
        next
          case True
          then obtain d where d: "temp_at i s = Some d" "\<not> td_len d \<le> filled ! i" by blast
          have lt: "unat (filled ! i) < unat (td_len d)" using d(2) by (simp add: word_le_nat_alt not_le)
          have ok: "dom_ok (Some (zone_view d)) (g_temp_node s ! i)"
            using lib_tables_at(1) [OF Cons.prems(1) i] zone_views_at [OF Cons.prems(1) i] d(1) by simp
          then have le: "unat (td_len d) \<le> 32" and hl: "\<And>hs. g_temp_node s ! i = Some hs \<Longrightarrow> length hs = unat (td_len d)"
            by (auto simp: zone_view_def)
          have h: "\<And>hs. g_temp_node s ! i = Some hs \<Longrightarrow> hs ! unat (filled ! i) = None"
            using Cons.prems(2) lib_tables_length(1) [OF Cons.prems(1)] i lt hl by (simp add: unopened_def)
          obtain s1 n where f: "fill_zone fs zone_id type i (unat (filled ! i)) d s = Ret s1" "lib_step s s1"
            "g_temp_node s1 = (g_temp_node s)[i := n]" "g_cool_node s1 = g_cool_node s" "lib_lens s1 = lib_lens s"
            "\<forall>hs'. n = Some hs' \<longrightarrow> (\<exists>hs h. g_temp_node s ! i = Some hs \<and> hs' = hs[unat (filled ! i) := h])"
            using fill_zone_step [OF Cons.prems(1) i d(1) lt h, of fs zone_id type] by blast
          have "unopened (filled[i := filled ! i + 1]) (g_temp_node s1)"
            unfolding f(3) by (rule unopened_next [OF Cons.prems(2)])
              (use lib_tables_length(1) [OF Cons.prems(1)] i lt le f(6) in auto)
          from Cons.IH [OF lib_step_tables [OF f(2)] this] show ?thesis
            using 1 2 3 d f(1,4,5) lib_step_trans [OF f(2)] by auto
        qed
      qed
    qed
  qed
qed simp

lemma fill_device_step:
  assumes t: "lib_tables s" and i: "i < 12" and d: "cool_at i s = Some d" and slot: "slot < unat (cd_len d)"
    and h: "\<And>hs. g_cool_node s ! i = Some hs \<Longrightarrow> hs ! slot = None"
  shows "\<exists>s' n. fill_device fs device_id type i slot d s = Ret s' \<and> lib_step s s' \<and> g_cool_node s' = (g_cool_node s)[i := n] \<and>
     (\<forall>hs'. n = Some hs' \<longrightarrow> (\<exists>hs h. g_cool_node s ! i = Some hs \<and> hs' = hs[slot := h])) \<and>
     g_temp_node s' = g_temp_node s \<and> lib_lens s' = lib_lens s"
proof -
  have m: "g_cool_metrics s \<noteq> None" using d by (auto simp: cool_at_def split: option.splits)
  have v: "device_views s ! i = Some (device_view d)" using device_views_at [OF t i] d by simp
  have ok: "dom_ok (Some (device_view d)) (g_cool_node s ! i)" using lib_tables_at(2) [OF t i] v by simp
  have l: "\<And>xs. cd_id d = Some xs \<Longrightarrow> slot < length xs" "\<And>xs. cd_cur_state d = Some xs \<Longrightarrow> slot < length xs"
    "\<And>xs. cd_max_state d = Some xs \<Longrightarrow> slot < length xs" "\<And>ps. cd_name d = Some ps \<Longrightarrow> slot < length ps" "\<And>hs. g_cool_node s ! i = Some hs \<Longrightarrow> slot < length hs"
    using ok slot by (auto simp: device_view_def)
  obtain names where names: "store_name (cd_name d) slot type = Ret names"
    "map_option (map (\<lambda>p. p \<noteq> None)) names = map_option (map (\<lambda>p. p \<noteq> None)) (cd_name d)"
    using store_name_Ret [of "cd_name d" slot] l(4) by blast
  obtain node hd s1 where o: "open_node fs (value_node LINUX_THERMAL_COOLING_DEVICE_PREFIX device_id ''/cur_state'') (g_cool_node s ! i) slot s = Ret (node, hd, s1)"
    "same_metrics s s1" "tl_blocks s1 = tl_blocks s" "tl_files s1 = tl_files s - node_files (g_cool_node s ! i) + node_files node"
    "node_blocks node = node_blocks (g_cool_node s ! i)"
    "\<forall>hs'. node = Some hs' \<longrightarrow> (\<exists>hs. g_cool_node s ! i = Some hs \<and> hs' = hs[slot := hd])"
    "g_cool_node s1 = g_cool_node s" "g_temp_node s1 = g_temp_node s"
    using open_node_Ret [of "g_cool_node s ! i" slot fs "value_node LINUX_THERMAL_COOLING_DEVICE_PREFIX device_id ''/cur_state''" s] l(5) h by blast
  obtain temps where temps: "(case (cd_cur_state d, hd) of
              (Some ts, Some _) \<Rightarrow> (case linux_thermal_read_value_fp fs hd of
                                     Some v \<Rightarrow> store_opt (Some ts) slot (ucast v)
                                   | None \<Rightarrow> Ret (Some ts))
            | _ \<Rightarrow> Ret (cd_cur_state d)) = Ret temps" "map_option length temps = map_option length (cd_cur_state d)"
    using read_into_Ret [of "cd_cur_state d" slot, where h = hd and r = "linux_thermal_read_value_fp fs hd" and conv = ucast] l(2)
    by blast
  let ?max = "linux_thermal_read_value fs (value_node LINUX_THERMAL_COOLING_DEVICE_PREFIX device_id ''/max_state'')"
  obtain maxs where maxs: "(case cd_max_state d of
              None \<Rightarrow> Ret None
            | Some ms \<Rightarrow> (case ?max of Some v \<Rightarrow> store_opt (Some ms) slot (ucast v) | None \<Rightarrow> Ret (Some ms))) = Ret maxs"
    "map_option length maxs = map_option length (cd_max_state d)"
    using l(3) by (cases "cd_max_state d"; cases ?max) (simp_all add: store_opt_def)
  let ?ids = "map_option (\<lambda>xs. xs[slot := ucast device_id]) (cd_id d)"
  let ?d = "d\<lparr>cd_id := ?ids, cd_name := names, cd_cur_state := temps, cd_max_state := maxs\<rparr>"
  let ?s = "set_cool i (Some ?d) (s1\<lparr>g_cool_node := (g_cool_node s1)[i := node]\<rparr>)"
  have r: "fill_device fs device_id type i slot d s = Ret ?s"
    using names(1) o(1) temps(1) maxs(1) store_opt_Ret [of "cd_id d" slot "ucast device_id"] l(1) by (simp add: fill_device_def)
  have view: "device_view ?d = device_view d"
    using names(2) temps(2) maxs(2) by (cases "cd_id d") (simp_all add: device_view_def)
  have ok': "dom_ok (Some (device_view d)) node" using ok o(6) by auto
  have ph: "same_phase s ?s" using o(2) by (simp add: same_metrics_def same_phase_def)
  have m1: "g_cool_metrics (s1\<lparr>g_cool_node := (g_cool_node s1)[i := node]\<rparr>) \<noteq> None" using m o(2) by (simp add: same_metrics_def)
  have sm: "same_metrics s (s1\<lparr>g_cool_node := (g_cool_node s1)[i := node]\<rparr>)" using o(2) by (simp add: same_metrics_def)
  have vs: "device_views ?s = (device_views s)[i := Some (device_view d)]" "zone_views ?s = zone_views s"
    using device_views_set [OF m1, of i "Some ?d"] same_metrics_views(1,2) [OF sm] view by simp_all
  have "lib_step s ?s"
    by (rule device_change [OF t i ok' ph vs(1) _ vs(2)]) (use o v in simp_all)
  moreover have "lib_lens ?s = lib_lens s"
    unfolding lib_lens_def vs using lens_update [of "Some (device_view d)" "device_views s" i] v by simp
  ultimately show ?thesis
    using r o(6,7,8) by (intro exI [of _ ?s] exI [of _ node]) (simp, blast)
qed

lemma discover_devices_step:
  "lib_tables s \<Longrightarrow> unopened filled (g_cool_node s) \<Longrightarrow>
     \<exists>s'. discover_devices fs ns filled s = Ret s' \<and> lib_step s s' \<and> g_temp_node s' = g_temp_node s \<and>
       lib_lens s' = lib_lens s"
proof (induction ns arbitrary: filled s)
  case (Cons d_name ns)
  note skip = Cons.IH [OF Cons.prems]
  show ?case
  proof (cases "scan_entry LINUX_THERMAL_COOLING_DEVICE_PREFIX d_name")
    case None
    then show ?thesis using skip by simp
  next
    case 1: (Some device_id)
    show ?thesis
    proof (cases "linux_thermal_read_type fs (type_node d_name) LINUX_THERMAL_ZONE_NAME_MAX_LEN")
      case None
      then show ?thesis using 1 skip by simp
    next
      case 2: (Some type)
      show ?thesis
      proof (cases "linux_thermal_classify type g_cool_prefix")
        case None
        then show ?thesis using 1 2 skip by simp
      next
        case 3: (Some i)
        have i: "i < 12" using classify_range(2) [OF 3] .
        show ?thesis
        proof (cases "\<exists>d. cool_at i s = Some d \<and> \<not> cd_len d \<le> filled ! i")
          case False
          then show ?thesis using 1 2 3 skip by (cases "cool_at i s") simp_all
        next
          case True
          then obtain d where d: "cool_at i s = Some d" "\<not> cd_len d \<le> filled ! i" by blast
          have lt: "unat (filled ! i) < unat (cd_len d)" using d(2) by (simp add: word_le_nat_alt not_le)
          have ok: "dom_ok (Some (device_view d)) (g_cool_node s ! i)"
            using lib_tables_at(2) [OF Cons.prems(1) i] device_views_at [OF Cons.prems(1) i] d(1) by simp
          then have le: "unat (cd_len d) \<le> 32" and hl: "\<And>hs. g_cool_node s ! i = Some hs \<Longrightarrow> length hs = unat (cd_len d)"
            by (auto simp: device_view_def)
          have h: "\<And>hs. g_cool_node s ! i = Some hs \<Longrightarrow> hs ! unat (filled ! i) = None"
            using Cons.prems(2) lib_tables_length(2) [OF Cons.prems(1)] i lt hl by (simp add: unopened_def)
          obtain s1 n where f: "fill_device fs device_id type i (unat (filled ! i)) d s = Ret s1" "lib_step s s1"
            "g_cool_node s1 = (g_cool_node s)[i := n]" "g_temp_node s1 = g_temp_node s" "lib_lens s1 = lib_lens s"
            "\<forall>hs'. n = Some hs' \<longrightarrow> (\<exists>hs h. g_cool_node s ! i = Some hs \<and> hs' = hs[unat (filled ! i) := h])"
            using fill_device_step [OF Cons.prems(1) i d(1) lt h, of fs device_id type] by blast
          have "unopened (filled[i := filled ! i + 1]) (g_cool_node s1)"
            unfolding f(3) by (rule unopened_next [OF Cons.prems(2)])
              (use lib_tables_length(2) [OF Cons.prems(1)] i lt le f(6) in auto)
          from Cons.IH [OF lib_step_tables [OF f(2)] this] show ?thesis
            using 1 2 3 d f(1,4,5) lib_step_trans [OF f(2)] by auto
        qed
      qed
    qed
  qed
qed simp


section \<open>Refreshing\<close>

lemma refresh_values_Ret:
  "i + n \<le> length hs \<Longrightarrow> i + n \<le> length vs \<Longrightarrow> \<exists>vs'. refresh_values fs hs conv i n vs = Ret vs' \<and> length vs' = length vs"
proof (induction n arbitrary: i vs)
  case (Suc n)
  let ?vs = "case linux_thermal_read_value_fp fs (hs ! i) of None \<Rightarrow> vs | Some v \<Rightarrow> vs[i := conv v]"
  have "refresh_values fs hs conv i (Suc n) vs = refresh_values fs hs conv (Suc i) n ?vs"
    using Suc.prems by (cases "linux_thermal_read_value_fp fs (hs ! i)") simp_all
  moreover have "length ?vs = length vs" by (cases "linux_thermal_read_value_fp fs (hs ! i)") simp_all
  ultimately show ?case using Suc.IH [of "Suc i" ?vs] Suc.prems by simp
qed simp

lemma refresh_zones_step:
  "lib_tables s \<Longrightarrow> i + n \<le> 16 \<Longrightarrow> \<exists>s'. refresh_zones fs i n s = Ret s' \<and> lib_step s s' \<and>
     g_temp_node s' = g_temp_node s \<and> g_cool_node s' = g_cool_node s"
proof (induction n arbitrary: i s)
  case (Suc n)
  note skip = Suc.IH [OF Suc.prems(1), of "Suc i"]
  show ?case
  proof (cases "\<exists>d hs ts. temp_at i s = Some d \<and> g_temp_node s ! i = Some hs \<and> td_temp d = Some ts")
    case False
    then have "refresh_zones fs i (Suc n) s = refresh_zones fs (Suc i) n s" by (auto split: option.splits)
    then show ?thesis using skip Suc.prems(2) by simp
  next
    case True
    then obtain d hs ts where d: "temp_at i s = Some d" "g_temp_node s ! i = Some hs" "td_temp d = Some ts" by blast
    have i: "i < 16" using Suc.prems(2) by simp
    note t = Suc.prems(1)
    have m: "g_temp_metrics s \<noteq> None" using d(1) by (auto simp: temp_at_def split: option.splits)
    have v: "zone_views s ! i = Some (zone_view d)" using zone_views_at [OF t i] d(1) by simp
    have ok: "dom_ok (Some (zone_view d)) (g_temp_node s ! i)" using lib_tables_at(1) [OF t i] v by simp
    then have l: "length hs = unat (td_len d)" "length ts = unat (td_len d)" using d by (auto simp: zone_view_def)
    obtain ts' where r: "refresh_values fs hs (\<lambda>v. v) 0 (unat (td_len d)) ts = Ret ts'" "length ts' = length ts"
      using refresh_values_Ret [of 0 "unat (td_len d)" hs ts] l by auto
    let ?s = "set_temp i (Some (d\<lparr>td_temp := Some ts'\<rparr>)) s"
    have "zone_view (d\<lparr>td_temp := Some ts'\<rparr>) = zone_view d" using r(2) d(3) by (simp add: zone_view_def)
    then have vs: "zone_views ?s = (zone_views s)[i := Some (zone_view d)]"
      using zone_views_set [OF m, of i "Some (d\<lparr>td_temp := Some ts'\<rparr>)"] by simp
    have "lib_step s ?s"
      by (rule zone_change [OF t i ok _ vs]) (use v in \<open>simp_all add: same_phase_def\<close>)
    then have 1: "lib_tables ?s" "lib_step s ?s" by (blast intro: lib_step_tables)+
    have "Suc i + n \<le> 16" using Suc.prems(2) by simp
    from Suc.IH [OF 1(1) this] obtain s' where s': "refresh_zones fs (Suc i) n ?s = Ret s'" "lib_step ?s s'"
      "g_temp_node s' = g_temp_node ?s" "g_cool_node s' = g_cool_node ?s" by blast
    have "refresh_zones fs i (Suc n) s = Ret s'" using d r(1) s'(1) by simp
    then show ?thesis using lib_step_trans [OF 1(2) s'(2)] s'(3,4) unfolding set_temp_fields by blast
  qed
qed simp

lemma refresh_devices_step:
  "lib_tables s \<Longrightarrow> i + n \<le> 12 \<Longrightarrow> \<exists>s'. refresh_devices fs i n s = Ret s' \<and> lib_step s s' \<and>
     g_cool_node s' = g_cool_node s \<and> g_temp_node s' = g_temp_node s"
proof (induction n arbitrary: i s)
  case (Suc n)
  note skip = Suc.IH [OF Suc.prems(1), of "Suc i"]
  show ?case
  proof (cases "\<exists>d hs ts. cool_at i s = Some d \<and> g_cool_node s ! i = Some hs \<and> cd_cur_state d = Some ts")
    case False
    then have "refresh_devices fs i (Suc n) s = refresh_devices fs (Suc i) n s" by (auto split: option.splits)
    then show ?thesis using skip Suc.prems(2) by simp
  next
    case True
    then obtain d hs ts where d: "cool_at i s = Some d" "g_cool_node s ! i = Some hs" "cd_cur_state d = Some ts" by blast
    have i: "i < 12" using Suc.prems(2) by simp
    note t = Suc.prems(1)
    have m: "g_cool_metrics s \<noteq> None" using d(1) by (auto simp: cool_at_def split: option.splits)
    have v: "device_views s ! i = Some (device_view d)" using device_views_at [OF t i] d(1) by simp
    have ok: "dom_ok (Some (device_view d)) (g_cool_node s ! i)" using lib_tables_at(2) [OF t i] v by simp
    then have l: "length hs = unat (cd_len d)" "length ts = unat (cd_len d)" using d by (auto simp: device_view_def)
    obtain ts' where r: "refresh_values fs hs ucast 0 (unat (cd_len d)) ts = Ret ts'" "length ts' = length ts"
      using refresh_values_Ret [of 0 "unat (cd_len d)" hs ts] l by auto
    let ?s = "set_cool i (Some (d\<lparr>cd_cur_state := Some ts'\<rparr>)) s"
    have "device_view (d\<lparr>cd_cur_state := Some ts'\<rparr>) = device_view d" using r(2) d(3) by (simp add: device_view_def)
    then have vs: "device_views ?s = (device_views s)[i := Some (device_view d)]"
      using device_views_set [OF m, of i "Some (d\<lparr>cd_cur_state := Some ts'\<rparr>)"] by simp
    have "lib_step s ?s"
      by (rule device_change [OF t i ok _ vs]) (use v in \<open>simp_all add: same_phase_def\<close>)
    then have 1: "lib_tables ?s" "lib_step s ?s" by (blast intro: lib_step_tables)+
    have "Suc i + n \<le> 12" using Suc.prems(2) by simp
    from Suc.IH [OF 1(1) this] obtain s' where s': "refresh_devices fs (Suc i) n ?s = Ret s'" "lib_step ?s s'"
      "g_cool_node s' = g_cool_node ?s" "g_temp_node s' = g_temp_node ?s" by blast
    have "refresh_devices fs i (Suc n) s = Ret s'" using d r(1) s'(1) by simp
    then show ?thesis using lib_step_trans [OF 1(2) s'(2)] s'(3,4) unfolding set_cool_fields by blast
  qed
qed simp

section \<open>Release\<close>

definition view_len :: "dom_view option \<Rightarrow> nat" where
  "view_len v = (case v of None \<Rightarrow> 0 | Some w \<Rightarrow> dv_len w)"

lemma close_handles_Ret:
  "i + n = length hs \<Longrightarrow> \<exists>k. close_handles hs i n = Ret k \<and> int k = (\<Sum>h\<leftarrow>drop i hs. of_bool (h \<noteq> None))"
proof (induction n arbitrary: i)
  case (Suc n)
  obtain k where k: "close_handles hs (Suc i) n = Ret k" "int k = (\<Sum>h\<leftarrow>drop (Suc i) hs. of_bool (h \<noteq> None))"
    using Suc.IH [of "Suc i"] Suc.prems by auto
  have "drop i hs = hs ! i # drop (Suc i) hs" using Suc.prems by (simp add: Cons_nth_drop_Suc)
  then show ?case using k Suc.prems by simp
qed simp

text \<open>What the loops of the release do to the counters; all else stays.\<close>

definition counted :: "thermal_lib \<Rightarrow> thermal_lib \<Rightarrow> int \<Rightarrow> int \<Rightarrow> bool" where
  "counted s s' b f \<longleftrightarrow> s' = s\<lparr>tl_blocks := tl_blocks s - b, tl_files := tl_files s - f\<rparr>"

lemma counted_refl [simp]: "counted s s 0 0"
  by (simp add: counted_def)

lemma counted_trans: "counted s s' b f \<Longrightarrow> counted s' s'' b' f' \<Longrightarrow> counted s s'' (b + b') (f + f')"
  by (simp add: counted_def)

lemma close_nodes_Ret:
  "list_all2 dom_ok vs nodes \<Longrightarrow> \<exists>s'. close_nodes (map view_len vs) nodes s = Ret s' \<and>
     counted s s' (\<Sum>n\<leftarrow>nodes. node_blocks n) (tab_files nodes)"
proof (induction vs nodes arbitrary: s rule: list_all2_induct)
  case (Cons v vs node nodes)
  show ?case
  proof (cases node)
    case None
    then show ?thesis using Cons.IH [of s] by (simp add: tab_files_def)
  next
    case (Some hs)
    then obtain w where w: "v = Some w" "length hs = dv_len w" using Cons.hyps(1) by (cases v) auto
    obtain k where k: "close_handles hs 0 (view_len v) = Ret k" "int k = node_files node"
      using close_handles_Ret [of 0 "length hs" hs] w Some by (auto simp: view_len_def)
    let ?s = "tl_free 1 (s\<lparr>tl_files := tl_files s - int k\<rparr>)"
    obtain s' where s': "close_nodes (map view_len vs) nodes ?s = Ret s'"
      "counted ?s s' (\<Sum>n\<leftarrow>nodes. node_blocks n) (tab_files nodes)" using Cons.IH [of ?s] by blast
    have "counted s ?s 1 (node_files node)" by (simp add: counted_def tl_free_def k(2))
    from counted_trans [OF this s'(2)] show ?thesis
      using Some k(1) s'(1) by (simp add: tab_files_def)
  qed
qed (simp add: tab_files_def)

lemma name_blocks_Ret:
  assumes "\<And>ps. name = Some ps \<Longrightarrow> length ps = len"
  shows "\<exists>k. name_blocks name len = Ret k \<and>
     int k = (case map_option (map (\<lambda>p. p \<noteq> None)) name of None \<Rightarrow> 0 | Some ps \<Rightarrow> 1 + of_bool (0 < len \<and> ps ! 0))"
proof (cases name)
  case (Some ps)
  then show ?thesis using assms [OF Some] by (cases "ps ! 0") (auto simp: name_blocks_def)
qed (simp add: name_blocks_def)

lemma free_zones_Ret:
  "(\<And>d. d \<in> set ds \<Longrightarrow> \<exists>n. dom_ok (map_option zone_view d) n) \<Longrightarrow>
     \<exists>s'. free_zones ds s = Ret s' \<and> counted s s' (\<Sum>v\<leftarrow>map (map_option zone_view) ds. dom_blocks v) 0"
proof (induction ds arbitrary: s)
  case (Cons d ds)
  have IH: "\<exists>s'. free_zones ds s = Ret s' \<and> counted s s' (\<Sum>v\<leftarrow>map (map_option zone_view) ds. dom_blocks v) 0" for s
    using Cons.IH Cons.prems by (simp add: image_iff)
  show ?case
  proof (cases d)
    case None
    then show ?thesis using IH [of s] by (simp add: linux_thermal_free_temp_data_def)
  next
    case (Some b)
    have "\<And>ps. td_name b = Some ps \<Longrightarrow> length ps = unat (td_len b)"
      using Cons.prems [of d] Some by (auto simp: zone_view_def)
    then obtain k where k: "name_blocks (td_name b) (unat (td_len b)) = Ret k"
      "int k = (case dv_names (zone_view b) of None \<Rightarrow> 0 | Some ps \<Rightarrow> 1 + of_bool (0 < dv_len (zone_view b) \<and> ps ! 0))"
      unfolding zone_view_def dom_view.simps using name_blocks_Ret [of "td_name b" "unat (td_len b)"] by blast
    let ?s = "tl_free (of_bool (td_id b \<noteq> None) + of_bool (td_temp b \<noteq> None) + k + 1) s"
    have "(\<Sum>x\<leftarrow>dv_bufs (zone_view b). of_bool (x \<noteq> None)) = (of_bool (td_id b \<noteq> None) + of_bool (td_temp b \<noteq> None) :: int)"
      by (simp add: zone_view_def)
    then have c: "counted s ?s (dom_blocks (map_option zone_view d)) 0"
      using Some k(2) by (simp add: counted_def tl_free_def)
    obtain s' where s': "free_zones ds ?s = Ret s'" "counted ?s s' (\<Sum>v\<leftarrow>map (map_option zone_view) ds. dom_blocks v) 0"
      using IH [of ?s] by blast
    have "free_zones (d # ds) s = Ret s'" using Some k(1) s'(1) by (simp add: linux_thermal_free_temp_data_def)
    then show ?thesis using counted_trans [OF c s'(2)] by simp
  qed
qed simp

lemma free_devices_Ret:
  "(\<And>d. d \<in> set ds \<Longrightarrow> \<exists>n. dom_ok (map_option device_view d) n) \<Longrightarrow>
     \<exists>s'. free_devices ds s = Ret s' \<and> counted s s' (\<Sum>v\<leftarrow>map (map_option device_view) ds. dom_blocks v) 0"
proof (induction ds arbitrary: s)
  case (Cons d ds)
  have IH: "\<exists>s'. free_devices ds s = Ret s' \<and> counted s s' (\<Sum>v\<leftarrow>map (map_option device_view) ds. dom_blocks v) 0" for s
    using Cons.IH Cons.prems by (simp add: image_iff)
  show ?case
  proof (cases d)
    case None
    then show ?thesis using IH [of s] by (simp add: linux_thermal_free_cooling_data_def)
  next
    case (Some b)
    have "\<And>ps. cd_name b = Some ps \<Longrightarrow> length ps = unat (cd_len b)"
      using Cons.prems [of d] Some by (auto simp: device_view_def)
    then obtain k where k: "name_blocks (cd_name b) (unat (cd_len b)) = Ret k"
      "int k = (case dv_names (device_view b) of None \<Rightarrow> 0 | Some ps \<Rightarrow> 1 + of_bool (0 < dv_len (device_view b) \<and> ps ! 0))"
      unfolding device_view_def dom_view.simps using name_blocks_Ret [of "cd_name b" "unat (cd_len b)"] by blast
    let ?s = "tl_free (of_bool (cd_id b \<noteq> None) + of_bool (cd_cur_state b \<noteq> None) + of_bool (cd_max_state b \<noteq> None) + k + 1) s"
    have "(\<Sum>x\<leftarrow>dv_bufs (device_view b). of_bool (x \<noteq> None)) =
        (of_bool (cd_id b \<noteq> None) + of_bool (cd_cur_state b \<noteq> None) + of_bool (cd_max_state b \<noteq> None) :: int)"
      by (simp add: device_view_def)
    then have c: "counted s ?s (dom_blocks (map_option device_view d)) 0"
      using Some k(2) by (simp add: counted_def tl_free_def)
    obtain s' where s': "free_devices ds ?s = Ret s'" "counted ?s s' (\<Sum>v\<leftarrow>map (map_option device_view) ds. dom_blocks v) 0"
      using IH [of ?s] by blast
    have "free_devices (d # ds) s = Ret s'" using Some k(1) s'(1) by (simp add: linux_thermal_free_cooling_data_def)
    then show ?thesis using counted_trans [OF c s'(2)] by simp
  qed
qed simp

lemma lens_of_views:
  "temp_lens ds = map view_len (map (map_option zone_view) ds)" "cool_lens cs = map view_len (map (map_option device_view) cs)"
  by (simp_all add: temp_lens_def cool_lens_def view_len_def zone_view_def device_view_def option.case_eq_if option.map_sel)

text \<open>The state of the structures between \<open>cleanup\<close> and \<open>init\<close>.\<close>

definition released :: "thermal_lib \<Rightarrow> bool" where
  "released s \<longleftrightarrow> g_temp_metrics s = None \<and> g_cool_metrics s = None \<and> g_temp_node s = replicate 16 None \<and>
     g_cool_node s = replicate 12 None \<and> \<not> g_is_initialized s"

lemma released_clean:
  assumes "released s"
  shows "lib_tables s" "blocks_lost s = tl_blocks s" "files_lost s = tl_files s"
  using assms
  by (simp_all add: released_def lib_tables_def zone_views_def device_views_def blocks_lost_def files_lost_def
      tab_blocks_def tab_files_def list_all2_conv_all_nth sum_list_replicate)

lemma lib_cleanup_Ret:
  assumes c: "lib_clean s" and i: "g_is_initialized s"
  shows "\<exists>s'. linux_thermal_lib_cleanup s = Ret (SUCCESS, s') \<and> released s' \<and> tl_blocks s' = 0 \<and> tl_files s' = 0 \<and>
     \<not> g_temp_discovered s' \<and> \<not> g_cool_discovered s' \<and> tl_epoch s' = tl_epoch s"
proof -
  obtain ds cs where m: "g_temp_metrics s = Some ds" "g_cool_metrics s = Some cs"
    using c i by (auto simp: lib_clean_def)
  have t: "list_all2 dom_ok (map (map_option zone_view) ds) (g_temp_node s)"
    "list_all2 dom_ok (map (map_option device_view) cs) (g_cool_node s)"
    using c m by (simp_all add: lib_clean_def lib_tables_def zone_views_def device_views_def)
  have z: "tl_blocks s = 2 + tab_blocks (map (map_option zone_view) ds) (g_temp_node s) +
        tab_blocks (map (map_option device_view) cs) (g_cool_node s)"
    "tl_files s = tab_files (g_temp_node s) + tab_files (g_cool_node s)"
    using c m by (simp_all add: lib_clean_def blocks_lost_def files_lost_def zone_views_def device_views_def)
  have ok: "\<exists>n. dom_ok (map_option zone_view d) n" if "d \<in> set ds" for d
    using t(1) that by (metis in_set_conv_nth length_map list_all2_conv_all_nth nth_map)
  have ok': "\<exists>n. dom_ok (map_option device_view d) n" if "d \<in> set cs" for d
    using t(2) that by (metis in_set_conv_nth length_map list_all2_conv_all_nth nth_map)
  obtain s1 where s1: "close_nodes (temp_lens ds) (g_temp_node s) s = Ret s1"
    "counted s s1 (\<Sum>n\<leftarrow>g_temp_node s. node_blocks n) (tab_files (g_temp_node s))"
    using close_nodes_Ret [OF t(1), of s] unfolding lens_of_views by blast
  define s1' where "s1' = s1\<lparr>g_temp_node := replicate 16 None\<rparr>"
  have r1: "linux_thermal_close_temp_nodes s = Ret s1'" using m s1(1) by (simp add: linux_thermal_close_temp_nodes_def s1'_def)
  have cn: "g_cool_node s1' = g_cool_node s" "g_cool_metrics s1' = Some cs" "g_temp_metrics s1' = Some ds"
    using s1(2) m by (simp_all add: s1'_def counted_def)
  obtain s2 where s2: "close_nodes (cool_lens cs) (g_cool_node s) s1' = Ret s2"
    "counted s1' s2 (\<Sum>n\<leftarrow>g_cool_node s. node_blocks n) (tab_files (g_cool_node s))"
    using close_nodes_Ret [OF t(2), of s1'] unfolding lens_of_views by blast
  define s2' where "s2' = s2\<lparr>g_cool_node := replicate 12 None\<rparr>"
  have r2: "linux_thermal_close_cool_nodes s1' = Ret s2'" using cn s2(1) by (simp add: linux_thermal_close_cool_nodes_def s2'_def)
  have m2: "g_temp_metrics s2' = Some ds" "g_cool_metrics s2' = Some cs"
    using s2(2) cn by (simp_all add: s2'_def counted_def)
  obtain s3 where s3: "free_zones ds s2' = Ret s3" "counted s2' s3 (\<Sum>v\<leftarrow>map (map_option zone_view) ds. dom_blocks v) 0"
    using free_zones_Ret [OF ok] by blast
  define s3' where "s3' = (tl_free 1 s3)\<lparr>g_temp_metrics := None\<rparr>"
  have r3: "linux_thermal_free_temp_metrics s2' = Ret s3'" using m2 s3(1) by (simp add: linux_thermal_free_temp_metrics_def s3'_def)
  have m3: "g_cool_metrics s3' = Some cs" using s3(2) m2 by (simp add: s3'_def counted_def)
  obtain s4 where s4: "free_devices cs s3' = Ret s4" "counted s3' s4 (\<Sum>v\<leftarrow>map (map_option device_view) cs. dom_blocks v) 0"
    using free_devices_Ret [OF ok'] by blast
  define s4' where "s4' = (tl_free 1 s4)\<lparr>g_cool_metrics := None\<rparr>"
  have r4: "linux_thermal_free_cool_metrics s3' = Ret s4'" using m3 s4(1) by (simp add: linux_thermal_free_cool_metrics_def s4'_def)
  let ?s = "s4'\<lparr>g_temp_discovered := False, g_cool_discovered := False, g_is_initialized := False\<rparr>"
  have r: "linux_thermal_lib_cleanup s = Ret (SUCCESS, ?s)"
    using i r1 r2 r3 r4 by (simp add: linux_thermal_lib_cleanup_def)
  have "released ?s"
    using s1(2) s2(2) s3(2) s4(2) by (simp add: released_def counted_def s1'_def s2'_def s3'_def s4'_def)
  moreover have "tl_blocks ?s = 0" "tl_files ?s = 0" "tl_epoch ?s = tl_epoch s"
    using s1(2) s2(2) s3(2) s4(2) z by (simp_all add: counted_def s1'_def s2'_def s3'_def s4'_def tab_blocks_def)
  ultimately show ?thesis using r by simp
qed

section \<open>The calls of the library\<close>

text \<open>The invariant: nothing is lost, and no node is open before its discovery.\<close>

definition lib_inv :: "thermal_lib \<Rightarrow> bool" where
  "lib_inv s \<longleftrightarrow> lib_clean s \<and> (\<not> g_temp_discovered s \<longrightarrow> tab_files (g_temp_node s) = 0) \<and>
     (\<not> g_cool_discovered s \<longrightarrow> tab_files (g_cool_node s) = 0) \<and>
     (\<not> g_is_initialized s \<longrightarrow> released s \<and> \<not> g_temp_discovered s \<and> \<not> g_cool_discovered s)"

lemma lib_inv_tables: "lib_inv s \<Longrightarrow> lib_tables s"
  by (simp add: lib_inv_def lib_clean_def)

lemma lib_inv_start: "lib_inv (initial_thermal_lib faults)"
  using initial_thermal_lib_clean [of faults]
  by (simp add: lib_inv_def initial_thermal_lib_def released_def tab_files_def sum_list_replicate)

lemma lib_inv_released:
  assumes "released s" "tl_blocks s = 0" "tl_files s = 0" "\<not> g_temp_discovered s" "\<not> g_cool_discovered s"
  shows "lib_inv s"
  using assms released_clean [OF assms(1)]
  by (simp add: lib_inv_def lib_clean_def released_def tab_files_def sum_list_replicate)

lemma blank_files:
  assumes t: "lib_tables s" and b: "blank_from i j s"
  shows "i = 0 \<Longrightarrow> tab_files (g_temp_node s) = 0" "j = 0 \<Longrightarrow> tab_files (g_cool_node s) = 0"
proof -
  have "g_temp_node s = replicate 16 None" if "i = 0"
    by (rule nth_equalityI) (use b that lib_tables_length [OF t] in \<open>auto simp: blank_from_def\<close>)
  then show "i = 0 \<Longrightarrow> tab_files (g_temp_node s) = 0" by (simp add: tab_files_def sum_list_replicate)
  have "g_cool_node s = replicate 12 None" if "j = 0"
    by (rule nth_equalityI) (use b that lib_tables_length [OF t] in \<open>auto simp: blank_from_def\<close>)
  then show "j = 0 \<Longrightarrow> tab_files (g_cool_node s) = 0" by (simp add: tab_files_def sum_list_replicate)
qed

lemma lib_step_clean: "lib_clean s \<Longrightarrow> lib_step s s' \<Longrightarrow> lib_clean s'"
  unfolding lib_clean_def lib_step_def same_phase_def by metis

lemma flag_fields [simp]:
  "lib_tables (s\<lparr>g_is_initialized := b\<rparr>) = lib_tables s" "lib_tables (s\<lparr>g_temp_discovered := b\<rparr>) = lib_tables s"
  "lib_tables (s\<lparr>g_cool_discovered := b\<rparr>) = lib_tables s"
  "blocks_lost (s\<lparr>g_is_initialized := b\<rparr>) = blocks_lost s" "blocks_lost (s\<lparr>g_temp_discovered := b\<rparr>) = blocks_lost s"
  "blocks_lost (s\<lparr>g_cool_discovered := b\<rparr>) = blocks_lost s"
  "files_lost (s\<lparr>g_is_initialized := b\<rparr>) = files_lost s" "files_lost (s\<lparr>g_temp_discovered := b\<rparr>) = files_lost s"
  "files_lost (s\<lparr>g_cool_discovered := b\<rparr>) = files_lost s"
  by (simp_all add: lib_tables_def blocks_lost_def files_lost_def zone_views_def device_views_def)

lemma flag_clean [simp]:
  "lib_clean (s\<lparr>g_temp_discovered := b\<rparr>) = lib_clean s" "lib_clean (s\<lparr>g_cool_discovered := b\<rparr>) = lib_clean s"
  by (simp_all add: lib_clean_def)

lemma lib_init_result:
  assumes inv: "lib_inv s"
  shows "case linux_thermal_lib_init fs dir s of (code, s') \<Rightarrow> lib_inv s' \<and>
     (if g_is_initialized s then code = ALREADY_INITIALIZED \<and> s' = s
      else if code = SUCCESS
      then g_is_initialized s' \<and> \<not> g_temp_discovered s' \<and> \<not> g_cool_discovered s' \<and> tl_epoch s' = Suc (tl_epoch s) \<and>
        (tl_faults s = [] \<longrightarrow> (\<exists>entries. dir = Some entries \<and>
           lib_lens s' = (map (\<lambda>i. (bump ^^ in_domain (zone_domain fs) entries i) None) [0..<16],
                          map (\<lambda>i. (bump ^^ in_domain (device_domain fs) entries i) None) [0..<12])))
      else released s' \<and> tl_epoch s' = tl_epoch s)"
proof (cases "g_is_initialized s \<or> dir = None")
  case True
  then show ?thesis using inv by (auto simp: linux_thermal_lib_init_def lib_inv_def)
next
  case False
  then obtain entries where d: "dir = Some entries" "\<not> g_is_initialized s" by blast
  then have r: "released s" "\<not> g_temp_discovered s" "\<not> g_cool_discovered s" "tl_blocks s = 0" "tl_files s = 0"
    using inv released_clean(2,3) [of s] by (auto simp: lib_inv_def lib_clean_def)
  obtain a s1 b s2 where c: "tl_calloc s = (a, s1)" "tl_calloc s1 = (b, s2)" by (metis surj_pair)
  note f = tl_calloc_result [OF c(1)] tl_calloc_result [OF c(2)]
  show ?thesis
  proof (cases "a \<and> b")
    case False
    let ?s = "(tl_free (of_bool a + of_bool b) s2)\<lparr>g_temp_metrics := None, g_cool_metrics := None\<rparr>"
    have e: "linux_thermal_lib_init fs dir s = (CALLOC_FAILED, ?s)"
      using d c False by (auto simp: linux_thermal_lib_init_def Let_def)
    have "released ?s" "tl_blocks ?s = 0" "tl_files ?s = 0" "\<not> g_temp_discovered ?s" "\<not> g_cool_discovered ?s"
      using r f by (simp_all add: released_def same_metrics_def)
    moreover have "tl_epoch ?s = tl_epoch s" using f by (simp add: same_metrics_def)
    ultimately show ?thesis using lib_inv_released [of ?s] d(2) unfolding e by simp
  next
    case True
    define s3 where "s3 = s2\<lparr>g_temp_metrics := Some (replicate LINUX_THERMAL_TEMP_DOMAIN_COUNT None),
       g_cool_metrics := Some (replicate LINUX_THERMAL_COOL_DOMAIN_COUNT None), tl_epoch := Suc (tl_epoch s2)\<rparr>"
    define s6 where "s6 = alloc_devices 0 LINUX_THERMAL_COOL_DOMAIN_COUNT (alloc_zones 0 LINUX_THERMAL_TEMP_DOMAIN_COUNT
       (count_entries fs entries s3))"
    have e: "linux_thermal_lib_init fs dir s = (SUCCESS, s6\<lparr>g_is_initialized := True\<rparr>)"
      using d c True by (simp add: linux_thermal_lib_init_def Let_def s3_def s6_def)
    have n3: "g_temp_node s3 = replicate 16 None" "g_cool_node s3 = replicate 12 None" "tl_blocks s3 = 2" "tl_files s3 = 0"
      "zone_views s3 = replicate 16 None" "device_views s3 = replicate 12 None" "tl_epoch s3 = Suc (tl_epoch s)"
      "\<not> g_is_initialized s3" "\<not> g_temp_discovered s3" "\<not> g_cool_discovered s3" "g_temp_metrics s3 \<noteq> None" "g_cool_metrics s3 \<noteq> None"
      using r f True by (simp_all add: s3_def released_def same_metrics_def zone_views_def device_views_def)
    have t3: "lib_tables s3" "blocks_lost s3 = 0" "files_lost s3 = 0" "tab_files (g_temp_node s3) = 0" "tab_files (g_cool_node s3) = 0"
      using n3 by (simp_all add: lib_tables_def blocks_lost_def files_lost_def tab_blocks_def tab_files_def
          list_all2_conv_all_nth sum_list_replicate)
    have b3: "blank_from 0 0 s3" using n3 by (simp add: blank_from_def blank_view_def)
    define s4 where "s4 = count_entries fs entries s3"
    have 4: "lib_step s3 s4" "blank_from 0 0 s4" using count_entries_step [OF t3(1) b3] by (simp_all add: s4_def)
    define s5 where "s5 = alloc_zones 0 LINUX_THERMAL_TEMP_DOMAIN_COUNT s4"
    have 5: "lib_step s4 s5" "blank_from 16 0 s5" "tab_files (g_temp_node s5) = tab_files (g_temp_node s4)"
      "lib_lens s5 = lib_lens s4"
      using alloc_zones_step [OF lib_step_tables [OF 4(1)] 4(2), of 16] by (simp_all add: s5_def)
    have 6: "lib_step s5 s6" "tab_files (g_cool_node s6) = tab_files (g_cool_node s5)" "g_temp_node s6 = g_temp_node s5"
      "lib_lens s6 = lib_lens s5"
      using alloc_devices_step [OF lib_step_tables [OF 5(1)] 5(2), of 12] by (simp_all add: s6_def s5_def s4_def)
    have f: "tab_files (g_temp_node s4) = 0" "tab_files (g_cool_node s5) = 0"
      using blank_files [OF lib_step_tables [OF 4(1)] 4(2)] blank_files [OF lib_step_tables [OF 5(1)] 5(2)] by simp_all
    have st: "lib_step s3 s6" using lib_step_trans [OF lib_step_trans [OF 4(1) 5(1)] 6(1)] .
    have "lib_clean (s6\<lparr>g_is_initialized := True\<rparr>)"
      using st t3 n3(11,12) by (simp add: lib_clean_def lib_step_def same_phase_def del: not_None_eq)
    then have "lib_inv (s6\<lparr>g_is_initialized := True\<rparr>)" using 5(3) 6(2,3) f by (simp add: lib_inv_def)
    moreover have "lib_lens (s6\<lparr>g_is_initialized := True\<rparr>) =
        (map (\<lambda>i. (bump ^^ in_domain (zone_domain fs) entries i) None) [0..<16],
         map (\<lambda>i. (bump ^^ in_domain (device_domain fs) entries i) None) [0..<12])" if nf: "tl_faults s = []"
    proof -
      have "tl_faults s3 = []" using c nf by (auto simp: s3_def tl_calloc_pair)
      then have "lib_lens s4 = (map (\<lambda>i. (bump ^^ in_domain (zone_domain fs) entries i) (fst (lib_lens s3) ! i)) [0..<16],
         map (\<lambda>i. (bump ^^ in_domain (device_domain fs) entries i) (snd (lib_lens s3) ! i)) [0..<12])"
        unfolding s4_def by (rule count_entries_lens [OF t3(1) b3])
      moreover have "lib_lens s3 = (replicate 16 None, replicate 12 None)" using n3(5,6) by (simp add: lib_lens_def)
      moreover have "lib_lens (s6\<lparr>g_is_initialized := True\<rparr>) = lib_lens s6" by (simp add: lib_lens_def zone_views_def device_views_def)
      ultimately show ?thesis using 5(4) 6(4) by (simp cong: map_cong)
    qed
    ultimately show ?thesis using d st n3(7,9,10) unfolding e by (simp add: lib_step_def same_phase_def)
  qed
qed


lemma lib_discover_zones_result:
  assumes inv: "lib_inv s"
  shows "\<exists>code p s'. linux_thermal_lib_discover_thermal_zones fs dir metrics s = Ret (code, p, s') \<and> lib_inv s' \<and>
     g_is_initialized s' = g_is_initialized s \<and> tl_epoch s' = tl_epoch s \<and>
     (g_is_initialized s \<and> metrics \<noteq> None \<longrightarrow> code = SUCCESS \<and> p = Some (Some (tl_epoch s)) \<and> g_temp_discovered s') \<and>
     lib_lens s' = lib_lens s \<and> (\<not> (g_is_initialized s \<and> metrics \<noteq> None) \<longrightarrow> code \<noteq> SUCCESS \<and> s' = s)"
proof (cases "g_is_initialized s \<and> metrics \<noteq> None \<and> \<not> g_temp_discovered s")
  case False
  then show ?thesis using inv
    by (auto simp: linux_thermal_lib_discover_thermal_zones_def temp_ptr_def lib_inv_def lib_clean_def split: option.splits)
next
  case True
  then have f: "tab_files (g_temp_node s) = 0" "lib_tables s" using inv by (simp_all add: lib_inv_def lib_clean_def)
  have un: "unopened (replicate 16 0) (g_temp_node s)"
    using unopened_start [OF f(1) lib_tables_length(1) [OF f(2)]] .
  obtain s1 where s1: "(case dir of None \<Rightarrow> Ret s
       | Some entries \<Rightarrow> discover_zones fs entries (replicate LINUX_THERMAL_TEMP_DOMAIN_COUNT 0) s) = Ret s1"
    "lib_step s s1" "g_cool_node s1 = g_cool_node s" "lib_lens s1 = lib_lens s"
    using discover_zones_step [OF f(2) un, of fs] f(2) by (cases dir) auto
  obtain m where m: "metrics = Some m" using True by blast
  let ?s = "s1\<lparr>g_temp_discovered := True\<rparr>"
  have "g_temp_metrics s1 \<noteq> None" using True inv s1(2) by (simp add: lib_inv_def lib_clean_def lib_step_def same_phase_def del: not_None_eq)
  then have p: "temp_ptr s1 = Some (tl_epoch s)" using s1(2) by (auto simp: temp_ptr_def lib_step_def same_phase_def)
  have "lib_clean s1" using lib_step_clean [OF _ s1(2)] inv by (simp add: lib_inv_def)
  then have "lib_clean ?s" by simp
  then have "lib_inv ?s" using inv s1(2,3) True by (simp add: lib_inv_def lib_step_def same_phase_def)
  moreover have "linux_thermal_lib_discover_thermal_zones fs dir metrics s = Ret (SUCCESS, Some (Some (tl_epoch s)), ?s)"
    using True m s1(1) p unfolding linux_thermal_lib_discover_thermal_zones_def by simp
  moreover have "lib_lens ?s = lib_lens s" using s1(4) by (simp add: lib_lens_def zone_views_def device_views_def)
  ultimately show ?thesis using s1(2) True by (simp add: lib_step_def same_phase_def)
qed

lemma lib_discover_devices_result:
  assumes inv: "lib_inv s"
  shows "\<exists>code p s'. linux_thermal_lib_discover_cooling_devices fs dir metrics s = Ret (code, p, s') \<and> lib_inv s' \<and>
     g_is_initialized s' = g_is_initialized s \<and> tl_epoch s' = tl_epoch s \<and>
     (g_is_initialized s \<and> metrics \<noteq> None \<longrightarrow> code = SUCCESS \<and> p = Some (Some (tl_epoch s)) \<and> g_cool_discovered s') \<and>
     lib_lens s' = lib_lens s \<and> (\<not> (g_is_initialized s \<and> metrics \<noteq> None) \<longrightarrow> code \<noteq> SUCCESS \<and> s' = s)"
proof (cases "g_is_initialized s \<and> metrics \<noteq> None \<and> \<not> g_cool_discovered s")
  case False
  then show ?thesis using inv
    by (auto simp: linux_thermal_lib_discover_cooling_devices_def cool_ptr_def lib_inv_def lib_clean_def split: option.splits)
next
  case True
  then have f: "tab_files (g_cool_node s) = 0" "lib_tables s" using inv by (simp_all add: lib_inv_def lib_clean_def)
  have un: "unopened (replicate 12 0) (g_cool_node s)"
    using unopened_start [OF f(1) lib_tables_length(2) [OF f(2)]] .
  obtain s1 where s1: "(case dir of None \<Rightarrow> Ret s
       | Some entries \<Rightarrow> discover_devices fs entries (replicate LINUX_THERMAL_COOL_DOMAIN_COUNT 0) s) = Ret s1"
    "lib_step s s1" "g_temp_node s1 = g_temp_node s" "lib_lens s1 = lib_lens s"
    using discover_devices_step [OF f(2) un, of fs] f(2) by (cases dir) auto
  obtain m where m: "metrics = Some m" using True by blast
  let ?s = "s1\<lparr>g_cool_discovered := True\<rparr>"
  have "g_cool_metrics s1 \<noteq> None" using True inv s1(2) by (simp add: lib_inv_def lib_clean_def lib_step_def same_phase_def del: not_None_eq)
  then have p: "cool_ptr s1 = Some (tl_epoch s)" using s1(2) by (auto simp: cool_ptr_def lib_step_def same_phase_def)
  have "lib_clean s1" using lib_step_clean [OF _ s1(2)] inv by (simp add: lib_inv_def)
  then have "lib_clean ?s" by simp
  then have "lib_inv ?s" using inv s1(2,3) True by (simp add: lib_inv_def lib_step_def same_phase_def)
  moreover have "linux_thermal_lib_discover_cooling_devices fs dir metrics s = Ret (SUCCESS, Some (Some (tl_epoch s)), ?s)"
    using True m s1(1) p unfolding linux_thermal_lib_discover_cooling_devices_def by simp
  moreover have "lib_lens ?s = lib_lens s" using s1(4) by (simp add: lib_lens_def zone_views_def device_views_def)
  ultimately show ?thesis using s1(2) True by (simp add: lib_step_def same_phase_def)
qed

text \<open>Both refreshes of a round.\<close>

lemma lib_zones_info_result:
  assumes inv: "lib_inv s"
  shows "\<exists>code p s'. linux_thermal_lib_thermal_zones_info fs metrics s = Ret (code, p, s') \<and> lib_inv s' \<and> lib_step s s' \<and>
     g_temp_node s' = g_temp_node s \<and> g_cool_node s' = g_cool_node s \<and>
     (g_is_initialized s \<and> metrics \<noteq> None \<longrightarrow> code = SUCCESS \<and> p = Some (Some (tl_epoch s))) \<and>
     (\<not> (g_is_initialized s \<and> metrics \<noteq> None) \<longrightarrow> code \<noteq> SUCCESS \<and> s' = s)"
proof (cases "g_is_initialized s \<and> metrics \<noteq> None")
  case False
  then show ?thesis using inv lib_step_refl [OF lib_inv_tables [OF inv]]
    by (auto simp: linux_thermal_lib_thermal_zones_info_def split: option.splits)
next
  case True
  obtain s1 where s1: "refresh_zones fs 0 LINUX_THERMAL_TEMP_DOMAIN_COUNT s = Ret s1" "lib_step s s1"
    "g_temp_node s1 = g_temp_node s" "g_cool_node s1 = g_cool_node s"
    using refresh_zones_step [OF lib_inv_tables [OF inv], of 0 16 fs] by auto
  have "lib_inv s1" using inv s1(2-4) lib_step_clean [of s s1] True by (simp add: lib_inv_def lib_step_def same_phase_def)
  moreover have "g_temp_metrics s1 \<noteq> None"
    using True inv s1(2) by (simp add: lib_inv_def lib_clean_def lib_step_def same_phase_def del: not_None_eq)
  then have "temp_ptr s1 = Some (tl_epoch s)" using s1(2) by (auto simp: temp_ptr_def lib_step_def same_phase_def)
  ultimately show ?thesis using True s1 by (auto simp: linux_thermal_lib_thermal_zones_info_def)
qed

lemma lib_devices_info_result:
  assumes inv: "lib_inv s"
  shows "\<exists>code p s'. linux_thermal_lib_cooling_devices_info fs metrics s = Ret (code, p, s') \<and> lib_inv s' \<and> lib_step s s' \<and>
     g_temp_node s' = g_temp_node s \<and> g_cool_node s' = g_cool_node s \<and>
     (g_is_initialized s \<and> metrics \<noteq> None \<longrightarrow> code = SUCCESS \<and> p = Some (Some (tl_epoch s))) \<and>
     (\<not> (g_is_initialized s \<and> metrics \<noteq> None) \<longrightarrow> code \<noteq> SUCCESS \<and> s' = s)"
proof (cases "g_is_initialized s \<and> metrics \<noteq> None")
  case False
  then show ?thesis using inv lib_step_refl [OF lib_inv_tables [OF inv]]
    by (auto simp: linux_thermal_lib_cooling_devices_info_def split: option.splits)
next
  case True
  obtain s1 where s1: "refresh_devices fs 0 LINUX_THERMAL_COOL_DOMAIN_COUNT s = Ret s1" "lib_step s s1"
    "g_cool_node s1 = g_cool_node s" "g_temp_node s1 = g_temp_node s"
    using refresh_devices_step [OF lib_inv_tables [OF inv], of 0 12 fs] by auto
  have "lib_inv s1" using inv s1(2-4) lib_step_clean [of s s1] True by (simp add: lib_inv_def lib_step_def same_phase_def)
  moreover have "g_cool_metrics s1 \<noteq> None"
    using True inv s1(2) by (simp add: lib_inv_def lib_clean_def lib_step_def same_phase_def del: not_None_eq)
  then have "cool_ptr s1 = Some (tl_epoch s)" using s1(2) by (auto simp: cool_ptr_def lib_step_def same_phase_def)
  ultimately show ?thesis using True s1 by (auto simp: linux_thermal_lib_cooling_devices_info_def)
qed

lemma lib_cleanup_result:
  assumes inv: "lib_inv s"
  shows "\<exists>code s'. linux_thermal_lib_cleanup s = Ret (code, s') \<and> lib_inv s' \<and> released s' \<and> tl_blocks s' = 0 \<and> tl_files s' = 0 \<and>
     tl_epoch s' = tl_epoch s"
proof (cases "g_is_initialized s")
  case True
  then obtain s' where "linux_thermal_lib_cleanup s = Ret (SUCCESS, s')" "released s'" "tl_blocks s' = 0" "tl_files s' = 0"
    "\<not> g_temp_discovered s'" "\<not> g_cool_discovered s'" "tl_epoch s' = tl_epoch s"
    using lib_cleanup_Ret inv by (auto simp: lib_inv_def)
  then show ?thesis using lib_inv_released by auto
next
  case False
  then have "released s" using inv by (simp add: lib_inv_def)
  then show ?thesis using released_clean(2,3) [of s] inv False by (simp add: linux_thermal_lib_cleanup_def lib_inv_def lib_clean_def)
qed

text \<open>A client is a sequence of calls, each with the files and the directory as they are then.\<close>

datatype lib_call =
    Lib_Init filesystem "string list option"
  | Lib_Discover_Zones filesystem "string list option" "metrics_ptr option"
  | Lib_Discover_Devices filesystem "string list option" "metrics_ptr option"
  | Lib_Zones_Info filesystem "metrics_ptr option"
  | Lib_Devices_Info filesystem "metrics_ptr option"
  | Lib_Cleanup

fun lib_exec :: "lib_call \<Rightarrow> thermal_lib \<Rightarrow> (QcPerfReturnCode \<times> thermal_lib) outcome" where
  "lib_exec (Lib_Init fs dir) s = Ret (linux_thermal_lib_init fs dir s)"
| "lib_exec (Lib_Discover_Zones fs dir m) s =
     obind (linux_thermal_lib_discover_thermal_zones fs dir m s) (\<lambda>(code, _, s'). Ret (code, s'))"
| "lib_exec (Lib_Discover_Devices fs dir m) s =
     obind (linux_thermal_lib_discover_cooling_devices fs dir m s) (\<lambda>(code, _, s'). Ret (code, s'))"
| "lib_exec (Lib_Zones_Info fs m) s = obind (linux_thermal_lib_thermal_zones_info fs m s) (\<lambda>(code, _, s'). Ret (code, s'))"
| "lib_exec (Lib_Devices_Info fs m) s = obind (linux_thermal_lib_cooling_devices_info fs m s) (\<lambda>(code, _, s'). Ret (code, s'))"
| "lib_exec Lib_Cleanup s = linux_thermal_lib_cleanup s"

fun lib_run :: "lib_call list \<Rightarrow> thermal_lib \<Rightarrow> thermal_lib outcome" where
  "lib_run [] s = Ret s"
| "lib_run (c # cs) s = obind (lib_exec c s) (\<lambda>(_, s'). lib_run cs s')"

lemma lib_exec_inv:
  assumes inv: "lib_inv s"
  shows "\<exists>code s'. lib_exec c s = Ret (code, s') \<and> lib_inv s'"
proof (cases c)
  case (Lib_Init fs dir)
  then show ?thesis using lib_init_result [OF inv, where fs = fs and dir = dir] by (cases "linux_thermal_lib_init fs dir s") auto
next
  case (Lib_Discover_Zones fs dir m)
  then show ?thesis using lib_discover_zones_result [OF inv, of fs dir m] by auto
next
  case (Lib_Discover_Devices fs dir m)
  then show ?thesis using lib_discover_devices_result [OF inv, of fs dir m] by auto
next
  case (Lib_Zones_Info fs m)
  then show ?thesis using lib_zones_info_result [OF inv, of fs m] by auto
next
  case (Lib_Devices_Info fs m)
  then show ?thesis using lib_devices_info_result [OF inv, of fs m] by auto
next
  case Lib_Cleanup
  then show ?thesis using lib_cleanup_result [OF inv] by auto
qed

lemma lib_run_inv: "lib_inv s \<Longrightarrow> \<exists>s'. lib_run cs s = Ret s' \<and> lib_inv s'"
proof (induction cs arbitrary: s)
  case (Cons c cs)
  then show ?case using lib_exec_inv [OF Cons.prems, of c] by auto
qed simp

end
