(* ===== verification/LinuxThermalProps.thy ===== *)
theory LinuxThermalProps
  imports LinuxThermal LinuxThermalLibProps SessionLaws
begin

text \<open>
  Correctness of the Linux thermal backend: the session contract, the metrics it registers for the
  domains that are present, and the requests it accepts.
\<close>

section \<open>Frames\<close>

lemma THERMAL_SEND_fields [simp]:
  "g_is_thread_running (THERMAL_SEND lv t s) = g_is_thread_running s"
  "g_thread_info (THERMAL_SEND lv t s) = g_thread_info s"
  "sn_threads (THERMAL_SEND lv t s) = sn_threads s"
  "g_backend_info (THERMAL_SEND lv t s) = g_backend_info s"
  "sn_table (THERMAL_SEND lv t s) = sn_table s"
  "g_data_callback (THERMAL_SEND lv t s) = g_data_callback s"
  "g_message_callback (THERMAL_SEND lv t s) = g_message_callback s"
  "sn_data (THERMAL_SEND lv t s) = sn_data s"
  "sn_faults (THERMAL_SEND lv t s) = sn_faults s"
  "ts_lib (THERMAL_SEND lv t s) = ts_lib s"
  by (simp_all add: linux_thermal_logger_send_message_def post_message_def split: option.splits)

lemma same_control_thermal_send [control_simps, simp]:
  "same_control s (THERMAL_SEND lv t s') = same_control s s'"
  "same_control (THERMAL_SEND lv t s) s' = same_control s s'"
  by (simp_all add: same_control_def)

lemma alloc_lib [simp]: "ts_lib (snd (alloc s)) = ts_lib s"
  by (simp add: alloc_pair)

text \<open>Messages and nothing else.\<close>

definition thermal_sent :: "thermal_state \<Rightarrow> thermal_state \<Rightarrow> bool" where
  "thermal_sent s s' \<longleftrightarrow> s' = s \<or> (\<exists>lv t. s' = THERMAL_SEND lv t s)"

lemma thermal_sent_fields:
  "thermal_sent s s' \<Longrightarrow> same_control s s' \<and> g_backend_info s' = g_backend_info s \<and> sn_table s' = sn_table s \<and>
     g_data_callback s' = g_data_callback s \<and> sn_data s' = sn_data s \<and> sn_faults s' = sn_faults s \<and> ts_lib s' = ts_lib s"
  by (auto simp: thermal_sent_def)

lemma thermal_sent_self [simp]: "thermal_sent s s" "thermal_sent s (THERMAL_SEND lv t s)"
  by (auto simp: thermal_sent_def)

section \<open>The session contract\<close>

lemma thermal_validate_sent:
  assumes "thermal_validate_request rq s = Ret (rc, s')"
  shows "thermal_sent s s'"
proof -
  obtain found where f: "find_capability (rq_capability_id rq) (g_backend_info s) = Ret found"
    using assms by (auto simp: thermal_validate_request_def outcome_simps)
  show ?thesis
  proof (cases found)
    case None
    then show ?thesis using assms f by (auto simp: thermal_validate_request_def)
  next
    case (Some i)
    note eq = assms [unfolded thermal_validate_request_def f obind.simps Some option.case]
    obtain ci sa where 1: "deref_capability (sn_table s) i s = Ret ci"
      "rate_scan (rq_sampling_rate rq) (unat (ci_sampling_rate_len ci)) (ci_sampling_rate ci) = Ret sa"
      using eq by (auto simp: outcome_simps)
    note eq2 = eq [unfolded 1 obind.simps]
    show ?thesis
    proof (cases sa)
      case False
      then show ?thesis using eq2 by auto
    next
      case True
      obtain sb where 2: "rate_scan (rq_streaming_rate rq) (unat (ci_streaming_rate_len ci)) (ci_streaming_rate ci) = Ret sb"
        using eq2 True by (auto simp: outcome_simps)
      show ?thesis using eq2 True unfolding 2 obind.simps by (auto split: if_splits)
    qed
  qed
qed

lemma spawn_lib [simp]: "ts_lib (snd (spawn attrs s)) = ts_lib s"
  by (simp add: spawn_def case_prod_beta Let_def)

lemma thermal_start_law:
  assumes "linux_thermal_start r s = Ret (rc, s')"
  shows "if rc = SUCCESS then spawned s s' else same_control s s'"
proof (cases r)
  case None
  then show ?thesis using assms by (auto simp: linux_thermal_start_def Let_def)
next
  case (Some rq)
  let ?s = "THERMAL_SEND LEVEL_INFO ''Starting linux-thermal data collection'' s"
  obtain ret s1 where v: "thermal_validate_request rq ?s = Ret (ret, s1)"
    using assms Some by (auto simp: linux_thermal_start_def Let_def outcome_simps)
  have c: "same_control s s1" using thermal_sent_fields [OF thermal_validate_sent [OF v]] by simp
  obtain tr s2 where sp: "spawn (thermal_thread_attrs rq) s1 = (tr, s2)" by (cases "spawn (thermal_thread_attrs rq) s1")
  show ?thesis
    using assms Some v sp c spawn_cases [OF sp]
    by (auto simp: linux_thermal_start_def Let_def spawned_def same_control_def split: if_splits)
qed

lemma thermal_entry_cases:
  assumes "thermal_thread_entry env r s = Ret (lo, s')"
  shows "(lo = None \<and> g_thread_info s' = g_thread_info s \<and> sn_threads s' = sn_threads s \<and>
          g_data_callback s' = g_data_callback s \<and> sn_data s' = sn_data s \<and> g_backend_info s' = g_backend_info s \<and>
          ts_lib s' = ts_lib s) \<or>
     (\<exists>rq ci sup sps. r = Some rq \<and> deref_capability (sn_table s) 0 s = Ret ci \<and> samples_per_stream rq = Ret sps \<and>
        (case ci_metric_ids_list ci of
           Some ms \<Rightarrow> flag_supported ms 0 (unat (ci_metric_ids_list_len ci)) (replicate 28 False) = Ret sup
         | None \<Rightarrow> sup = replicate 28 False) \<and>
        g_thread_info s' = g_thread_info s \<and> sn_threads s' = sn_threads s \<and>
        g_data_callback s' = g_data_callback s \<and> sn_data s' = sn_data s \<and> g_backend_info s' = g_backend_info s \<and>
        ts_lib s' = ts_lib s \<and> g_is_thread_running s' \<and>
        lo = Some \<lparr>tt_request = rq, tt_supported = sup, tt_samples_per_stream = sps,
          tt_total_responses = sps * ucast (ci_metric_ids_list_len ci),
          tt_streaming_rate_ns = ucast (rq_streaming_rate rq) * 1000000, tt_temp_metrics = None, tt_cool_metrics = None,
          tt_data = \<lparr>pd_backend_id = 6, pd_capability_id = rq_capability_id rq,
            pd_metric_response = replicate (unat (sps * ucast (ci_metric_ids_list_len ci))) zero_response,
            pd_metric_response_len = 0\<rparr>,
          tt_position = 0, tt_sample_count = 0, tt_current_time = 0,
          tt_last_stream_time = time_now (env_clock env) 0, tt_slept = 0\<rparr>)"
proof (cases r)
  case None
  then show ?thesis using assms by (auto simp: thermal_thread_entry_def Let_def)
next
  case (Some rq)
  note eq = assms [unfolded thermal_thread_entry_def Let_def Some option.case]
  obtain ci where ci: "deref_capability (sn_table s) 0 s = Ret ci" using eq by (auto simp: outcome_simps)
  obtain sup where sup: "(case ci_metric_ids_list ci of
       Some ms \<Rightarrow> flag_supported ms 0 (unat (ci_metric_ids_list_len ci)) (replicate 28 False)
     | None \<Rightarrow> if ci_metric_ids_list_len ci = 0 then Ret (replicate 28 False) else Stuck BadDeref) = Ret sup"
    using eq ci by (auto simp: outcome_simps)
  obtain sps where sps: "samples_per_stream rq = Ret sps" using eq ci sup by (auto simp: outcome_simps)
  have "case ci_metric_ids_list ci of
           Some ms \<Rightarrow> flag_supported ms 0 (unat (ci_metric_ids_list_len ci)) (replicate 28 False) = Ret sup
         | None \<Rightarrow> sup = replicate 28 False"
    using sup by (auto split: option.splits if_splits)
  then show ?thesis
    using eq ci sup sps Some by (auto simp: alloc_pair split: if_splits)
qed

lemma thermal_entry_law:
  assumes "thermal_thread_entry env r s = Ret (lo, s')"
  shows "g_thread_info s' = g_thread_info s \<and> sn_threads s' = sn_threads s \<and> g_data_callback s' = g_data_callback s \<and>
     sn_data s' = sn_data s \<and> g_backend_info s' = g_backend_info s \<and> ts_lib s' = ts_lib s"
  using thermal_entry_cases [OF assms] by blast

lemma thermal_deliver_fields:
  "thermal_deliver l s = (l', s') \<Longrightarrow> same_control s s' \<and> g_backend_info s' = g_backend_info s \<and> sn_table s' = sn_table s \<and>
     g_data_callback s' = g_data_callback s \<and> ts_lib s' = ts_lib s"
  by (auto simp: thermal_deliver_def Let_def same_control_def split: if_splits option.splits)

lemma thermal_iterate_law:
  assumes "thermal_thread_iterate env l s = Ret (l', s')"
  shows "same_control s s' \<and> g_backend_info s' = g_backend_info s \<and> g_data_callback s' = g_data_callback s"
proof -
  obtain l2 lib2 l3 where "thermal_deliver l2 (s\<lparr>ts_lib := lib2\<rparr>) = (l3, s')"
    using assms by (auto simp: thermal_thread_iterate_def Let_def outcome_simps case_prod_beta prod_eq_iff)
  from thermal_deliver_fields [OF this] show ?thesis by (simp add: same_control_def)
qed

lemma thermal_stop_down:
  assumes "\<not> g_is_thread_running s \<or> r = None"
  shows "\<exists>rc s'. linux_thermal_stop env r s = Ret (rc, s') \<and> same_control s s'"
  using assms by (auto simp: linux_thermal_stop_def Let_def split: option.splits)

lemma thermal_stop_up:
  assumes "g_is_thread_running s" "th_handle (g_thread_info s) = Thread t"
    "t < length (sn_threads s)" "\<not> is_spawned (sn_threads s ! t)"
  shows "\<exists>s'. linux_thermal_stop env (Some q) s = Ret (SUCCESS, s') \<and> joined t s s'"
proof -
  let ?s = "(THERMAL_SEND LEVEL_INFO ''Stopping linux-thermal data collection'' s)\<lparr>g_is_thread_running := False\<rparr>"
  have w: "\<exists>s1. wait_exit (thermal_thread env) t ?s = Ret (0, s1) \<and> sn_threads s1 = (sn_threads s)[t := Exited] \<and>
      g_thread_info s1 = g_thread_info s \<and> \<not> g_is_thread_running s1"
    using assms(3,4) by (cases "sn_threads s ! t")
      (auto simp: wait_exit_def thermal_thread_def thermal_thread_finish_def list_update_same_conv [THEN iffD2])
  then show ?thesis
    using assms(1,2)
    by (auto simp: linux_thermal_stop_def Let_def thread_join_def thread_destroy_def joined_def)
qed

lemma thermal_finish_law:
  "\<not> g_is_thread_running s \<Longrightarrow> th_finish (thermal_thread e) l s = Ret s' \<Longrightarrow> same_control s s'"
  by (auto simp: thermal_thread_def thermal_thread_finish_def same_control_def)

interpretation thermal: session_backend linux_thermal_start linux_thermal_stop thermal_thread thermal_thread_iterate
proof unfold_locales
  fix e l s l' s'
  show "thermal_thread_iterate e l s = Ret (l', s') \<Longrightarrow> same_control s s'"
    by (simp add: thermal_iterate_law)
next
  fix e r s lo s'
  assume "th_entry (thermal_thread e) r s = Ret (lo, s')"
  then show "g_thread_info s' = g_thread_info s \<and> sn_threads s' = sn_threads s"
    using thermal_entry_law [of e r s lo s'] by (simp add: thermal_thread_def)
qed (use thermal_start_law thermal_stop_down thermal_stop_up thermal_finish_law in auto)

section \<open>The metric table\<close>

lemma metric_defs_ids: "map fst thermal_metric_defs = map of_nat [0..<28]"
  by (simp add: thermal_metric_defs_def upt_rec)

lemma metric_defs_length: "length thermal_metric_defs = 28"
  using arg_cong [OF metric_defs_ids, of length] by simp

text \<open>The identifiers of the domains that are present, in order.\<close>

definition present_ids :: "bool list \<Rightarrow> nat list" where
  "present_ids present = filter (\<lambda>i. present ! i) [0..<length present]"

lemma populate_at_Ret:
  "k < length ms \<Longrightarrow> populate_at k (i, nm, d, u) ms = Ret (ms[k := set_metric_info i nm d u])"
  by (simp add: populate_at_def linux_thermal_populate_metric_def)

definition packed :: "QcPerfMetricInfo list \<Rightarrow> u16 list \<Rightarrow> bool" where
  "packed ms ids \<longleftrightarrow> length ms = 28 \<and> length ids \<le> 28 \<and> map mi_metric_id (take (length ids) ms) = ids \<and>
     (\<forall>m \<in> set ms. metric_info_ok m)"

lemma packed_next:
  assumes "packed ms ids" "length ids < 28"
  shows "packed (ms[length ids := set_metric_info i nm d u]) (ids @ [i])"
proof -
  have "\<forall>m \<in> set (ms[length ids := set_metric_info i nm d u]). metric_info_ok m"
    using assms(1) set_update_subset_insert [of ms "length ids" "set_metric_info i nm d u"] by (auto simp: packed_def)
  then show ?thesis using assms by (simp add: packed_def take_Suc_conv_app_nth)
qed

lemma available_loop_packed:
  assumes "length present = 28" "i + length defs = 28" "length ids \<le> i" "packed ms ids" "unat count = length ids"
    and "map fst defs = map of_nat [i..<28]"
  shows "\<exists>ms' count'. available_loop defs i present ms count = Ret (ms', count') \<and>
     packed ms' (ids @ map of_nat (filter (\<lambda>k. present ! k) [i..<28])) \<and>
     unat count' = length ids + length (filter (\<lambda>k. present ! k) [i..<28])"
  using assms
proof (induction defs arbitrary: i ms count ids)
  case (Cons def defs)
  have i: "i < 28" using Cons.prems(2) by simp
  have up: "[i..<28] = i # [Suc i..<28]" using i by (simp add: upt_rec)
  obtain x nm d u where def: "def = (x, nm, d, u)" by (cases def)
  have x: "x = of_nat i" "map fst defs = map of_nat [Suc i..<28]" using Cons.prems(6) unfolding up def by simp_all
  show ?case
  proof (cases "present ! i")
    case False
    then show ?thesis
      using Cons.IH [of "Suc i" ids ms count] Cons.prems i x(2) unfolding up by simp
  next
    case True
    have lt: "length ids < 28" using Cons.prems(3) i by simp
    let ?ms = "ms[length ids := set_metric_info x nm d u]"
    have p: "packed ?ms (ids @ [x])" by (rule packed_next [OF Cons.prems(4) lt])
    have c: "unat (count + 1) = length (ids @ [x])" using unat_u8_inc [of count] Cons.prems(5) lt by simp
    obtain ms' count' where r: "available_loop defs (Suc i) present ?ms (count + 1) = Ret (ms', count')"
      "packed ms' ((ids @ [x]) @ map of_nat (filter (\<lambda>k. present ! k) [Suc i..<28]))"
      "unat count' = length (ids @ [x]) + length (filter (\<lambda>k. present ! k) [Suc i..<28])"
      using Cons.IH [of "Suc i" "ids @ [x]" ?ms "count + 1"] Cons.prems(1,2,3) p c x(2) by auto
    have "populate_at (unat count) def ms = Ret ?ms"
      using populate_at_Ret [of "length ids" ms x nm d u] lt Cons.prems(4,5) by (simp add: def packed_def)
    then show ?thesis using r True Cons.prems(1) i unfolding up by (simp add: x(1))
  qed
qed simp

lemma available_metrics_result:
  assumes "length present = 28"
  shows "\<exists>ms' count. available_loop thermal_metric_defs 0 present (replicate 28 zero_metric_info) 0 = Ret (ms', count) \<and>
     packed ms' (map of_nat (present_ids present)) \<and> unat count = length (present_ids present)"
  using available_loop_packed [of present 0 thermal_metric_defs "[]" "replicate 28 zero_metric_info" 0] assms
    metric_defs_length metric_defs_ids
  by (simp add: packed_def present_ids_def)

section \<open>Initialisation\<close>

definition thermal_entry :: "bool list \<Rightarrow> QcPerfCapabilityInfo \<Rightarrow> bool" where
  "thermal_entry present c \<longleftrightarrow> capability_ok c \<and> ci_capability_id c = 0 \<and> ci_name c = ''thermal'' \<and>
     streaming_rates_of c = set thermal_streaming_rates \<and> sampling_rates_of c = set thermal_sampling_rates \<and>
     unat (ci_metric_ids_list_len c) = length (present_ids present) \<and>
     (\<exists>ms. ci_metric_ids_list c = Some ms \<and> packed ms (map of_nat (present_ids present)))"

definition thermal_registered :: "bool list \<Rightarrow> thermal_state \<Rightarrow> bool" where
  "thermal_registered present s \<longleftrightarrow> length present = 28 \<and>
     (\<exists>c. bi_capabilities_list (g_backend_info s) = Some [c] \<and>
       bi_capabilities_list_length (g_backend_info s) = 1 \<and> thermal_entry present c)"

lemma thermal_registered_table: "thermal_registered present s \<Longrightarrow> table_ok s"
  by (auto simp: thermal_registered_def table_ok_def backend_info_ok_def thermal_entry_def)

lemma thermal_registered_cong:
  "g_backend_info s' = g_backend_info s \<Longrightarrow> thermal_registered present s' = thermal_registered present s"
  by (simp add: thermal_registered_def)

lemma thermal_rates_length: "length thermal_streaming_rates = 4" "length thermal_sampling_rates = 5"
  by (simp_all add: thermal_streaming_rates_def thermal_sampling_rates_def)

lemma present_ids_length: "length present = 28 \<Longrightarrow> length (present_ids present) \<le> 28"
  using length_filter_le [of "\<lambda>i. present ! i" "[0..<length present]"] by (simp add: present_ids_def)

lemma thermal_fill_entry:
  assumes n: "length present = 28" and ms: "packed ms (map of_nat (present_ids present))" "unat len = length (present_ids present)"
  shows "thermal_entry present (thermal_fill_capability (zero_capability
     \<lparr>ci_metric_ids_list := Some ms, ci_metric_ids_list_len := len\<rparr>))"
proof -
  have st: "copy_rates thermal_streaming_rates 0 (replicate 32 0, 0) = (thermal_streaming_rates @ replicate 28 0, 4)"
    by (subst copy_rates_fresh) (simp_all add: thermal_rates_length)
  have sa: "copy_rates thermal_sampling_rates 0 (replicate 32 0, 0) = (thermal_sampling_rates @ replicate 27 0, 5)"
    by (subst copy_rates_fresh) (simp_all add: thermal_rates_length)
  have "length (present_ids present) \<le> length ms" using present_ids_length [OF n] ms(1) by (simp add: packed_def)
  then show ?thesis
    using ms
    by (simp add: thermal_entry_def thermal_fill_capability_def zero_capability_def st sa capability_ok_def packed_def
        thermal_rates_length streaming_rates_of_def sampling_rates_of_def cstd_simps)
qed

text \<open>The table is registered exactly when both allocations succeed.\<close>

lemma thermal_init_table_result:
  assumes "length present = 28"
  shows "\<exists>rc s'. thermal_init_table present s = Ret (rc, s') \<and> same_control s s' \<and> g_data_callback s' = g_data_callback s \<and>
     ts_lib s' = ts_lib s \<and>
     (rc = SUCCESS \<longleftrightarrow> fst (calloc_ok (sn_faults s)) \<and> fst (calloc_ok (snd (calloc_ok (sn_faults s))))) \<and>
     (rc = SUCCESS \<longrightarrow> thermal_registered present s') \<and> (sn_faults s = [] \<longrightarrow> sn_faults s' = [])"
proof (cases "fst (calloc_ok (sn_faults s)) \<and> fst (calloc_ok (snd (calloc_ok (sn_faults s))))")
  case False
  then show ?thesis by (auto simp: thermal_init_table_def Let_def alloc_pair same_control_def)
next
  case True
  obtain ms len where ms: "available_loop thermal_metric_defs 0 present (replicate 28 zero_metric_info) 0 = Ret (ms, len)"
    "packed ms (map of_nat (present_ids present))" "unat len = length (present_ids present)"
    using available_metrics_result [OF assms] by blast
  have e: "thermal_entry present (thermal_fill_capability (zero_capability
     \<lparr>ci_metric_ids_list := Some ms, ci_metric_ids_list_len := len\<rparr>))" by (rule thermal_fill_entry [OF assms ms(2,3)])
  show ?thesis
    using True ms(1) e assms
    by (simp add: thermal_init_table_def Let_def alloc_pair linux_thermal_init_available_metrics_def
        thermal_registered_def same_control_def)
qed

section \<open>Requests\<close>

definition thermal_request_code :: "QcPerfRequest \<Rightarrow> QcPerfReturnCode" where
  "thermal_request_code rq =
     (if rq_capability_id rq \<noteq> 0 then CAPABILITY_NOT_FOUND
      else if rq_sampling_rate rq \<notin> set thermal_sampling_rates \<or> rq_streaming_rate rq \<notin> set thermal_streaming_rates
      then INVALID_ARGUMENTS else SUCCESS)"

lemma thermal_samples_per_stream:
  assumes "thermal_request_code rq = SUCCESS"
  shows "\<exists>sps. samples_per_stream rq = Ret sps \<and> 0 < sps \<and> unat sps \<le> 2000"
proof -
  have s: "rq_sampling_rate rq \<in> set thermal_sampling_rates" "rq_streaming_rate rq \<in> set thermal_streaming_rates"
    using assms by (auto simp: thermal_request_code_def split: if_splits)
  have a: "1 \<le> unat (rq_sampling_rate rq)" using s(1) by (auto simp: thermal_sampling_rates_def)
  have b: "1 \<le> unat (rq_streaming_rate rq)" "unat (rq_streaming_rate rq) \<le> 2000"
    using s(2) by (auto simp: thermal_streaming_rates_def)
  show ?thesis using samples_per_stream_bounds [OF a b(1)] b(2) by (auto intro: le_trans)
qed

lemma thermal_validate_code:
  assumes "thermal_registered present s"
  shows "\<exists>s'. thermal_validate_request rq s = Ret (thermal_request_code rq, s') \<and> thermal_sent s s'"
proof -
  obtain c where c: "bi_capabilities_list (g_backend_info s) = Some [c]"
    "bi_capabilities_list_length (g_backend_info s) = 1" "thermal_entry present c"
    using assms by (auto simp: thermal_registered_def)
  have f: "find_capability (rq_capability_id rq) (g_backend_info s) = Ret (if rq_capability_id rq = 0 then Some 0 else None)"
    using c by (auto simp: find_capability_def thermal_entry_def)
  have d: "deref_capability (sn_table s) 0 s = Ret c" using c(1) by (simp add: deref_capability_def)
  have ok: "capability_ok c" and r: "streaming_rates_of c = set thermal_streaming_rates" "sampling_rates_of c = set thermal_sampling_rates"
    using c(3) by (simp_all add: thermal_entry_def)
  show ?thesis
    using f d rate_scan_ok [OF ok] r
    by (simp add: thermal_validate_request_def thermal_request_code_def)
qed

end
