(* ===== verification/LinuxThermalThread.thy ===== *)
theory LinuxThermalThread
  imports LinuxThermalProps ResponseBuffer
begin

text \<open>
  The collection thread of the Linux thermal backend against a reference: what a refresh does to the
  metrics, what a round reports, and the interpretation of the contract of batching loops.
\<close>

section \<open>Refreshing\<close>

definition refreshed :: "filesystem \<Rightarrow> (u32 \<Rightarrow> 'v) \<Rightarrow> string option list \<Rightarrow> 'v list \<Rightarrow> 'v list" where
  "refreshed fs conv hs vs =
     map2 (\<lambda>h v. case linux_thermal_read_value_fp fs h of Some x \<Rightarrow> conv x | None \<Rightarrow> v) hs vs"

definition zone_refreshed :: "filesystem \<Rightarrow> string option list option \<Rightarrow> LinuxThermalTempData option \<Rightarrow> LinuxThermalTempData option" where
  "zone_refreshed fs node d =
     (case (d, node) of
        (Some b, Some hs) \<Rightarrow> Some (b\<lparr>td_temp := map_option (refreshed fs (\<lambda>v. v) hs) (td_temp b)\<rparr>)
      | _ \<Rightarrow> d)"

definition device_refreshed :: "filesystem \<Rightarrow> string option list option \<Rightarrow> LinuxThermalCoolingData option \<Rightarrow> LinuxThermalCoolingData option" where
  "device_refreshed fs node d =
     (case (d, node) of
        (Some b, Some hs) \<Rightarrow> Some (b\<lparr>cd_cur_state := map_option (refreshed fs ucast hs) (cd_cur_state b)\<rparr>)
      | _ \<Rightarrow> d)"

lemma refresh_values_eq:
  "i + n = length hs \<Longrightarrow> length vs = length hs \<Longrightarrow>
     refresh_values fs hs conv i n vs = Ret (take i vs @ refreshed fs conv (drop i hs) (drop i vs))"
proof (induction n arbitrary: i vs)
  case (Suc n)
  let ?x = "case linux_thermal_read_value_fp fs (hs ! i) of Some x \<Rightarrow> conv x | None \<Rightarrow> vs ! i"
  have i: "i < length hs" "i < length vs" using Suc.prems by simp_all
  have "refresh_values fs hs conv i (Suc n) vs = refresh_values fs hs conv (Suc i) n (vs[i := ?x])"
    using i by (cases "linux_thermal_read_value_fp fs (hs ! i)") simp_all
  also have "\<dots> = Ret (take (Suc i) (vs[i := ?x]) @ refreshed fs conv (drop (Suc i) hs) (drop (Suc i) (vs[i := ?x])))"
    using Suc.IH [of "Suc i" "vs[i := ?x]"] Suc.prems by simp
  also have "take (Suc i) (vs[i := ?x]) = take i vs @ [?x]" using i by (simp add: take_Suc_conv_app_nth)
  also have "refreshed fs conv (drop i hs) (drop i vs) = ?x # refreshed fs conv (drop (Suc i) hs) (drop (Suc i) vs)"
    using i by (simp add: refreshed_def Cons_nth_drop_Suc [symmetric])
  ultimately show ?case by simp
qed (simp add: refreshed_def)

lemma refresh_values_whole:
  "length hs = n \<Longrightarrow> length vs = n \<Longrightarrow> refresh_values fs hs conv 0 n vs = Ret (refreshed fs conv hs vs)"
  using refresh_values_eq [of 0 n hs vs fs conv] by simp

text \<open>All arrays of a domain have its length.\<close>

fun zone_shape :: "LinuxThermalTempData option \<Rightarrow> string option list option \<Rightarrow> bool" where
  "zone_shape (Some b) (Some hs) = (length hs = unat (td_len b) \<and> (\<forall>ts. td_temp b = Some ts \<longrightarrow> length ts = unat (td_len b)))"
| "zone_shape _ _ = True"

fun device_shape :: "LinuxThermalCoolingData option \<Rightarrow> string option list option \<Rightarrow> bool" where
  "device_shape (Some b) (Some hs) = (length hs = unat (cd_len b) \<and> (\<forall>cs. cd_cur_state b = Some cs \<longrightarrow> length cs = unat (cd_len b)))"
| "device_shape _ _ = True"

lemma zone_shape_ok: "dom_ok (map_option zone_view d) node \<Longrightarrow> zone_shape d node"
  by (cases "(d, node)" rule: zone_shape.cases) (auto simp: zone_view_def)

lemma device_shape_ok: "dom_ok (map_option device_view d) node \<Longrightarrow> device_shape d node"
  by (cases "(d, node)" rule: device_shape.cases) (auto simp: device_view_def)

lemma refresh_zones_eq:
  assumes "g_temp_metrics s = Some ds" "length ds = 16" "length (g_temp_node s) = 16" "i + n = 16"
    and "\<forall>k<16. zone_shape (ds ! k) (g_temp_node s ! k)"
  shows "refresh_zones fs i n s = Ret (s\<lparr>g_temp_metrics :=
     Some (take i ds @ map2 (zone_refreshed fs) (drop i (g_temp_node s)) (drop i ds))\<rparr>)"
  using assms
proof (induction n arbitrary: i s ds)
  case (Suc n)
  let ?ns = "g_temp_node s"
  let ?d = "zone_refreshed fs (?ns ! i) (ds ! i)"
  have i: "i < 16" using Suc.prems(4) by simp
  have sh: "zone_shape (ds ! i) (?ns ! i)" using Suc.prems(5) i by blast
  have at: "temp_at i s = ds ! i" using Suc.prems(1) by (simp add: temp_at_def)
  have st: "set_temp i d s = s\<lparr>g_temp_metrics := Some (ds[i := d])\<rparr>" for d
    using Suc.prems(1) by (simp add: set_temp_def)
  have self: "s\<lparr>g_temp_metrics := Some (ds[i := ds ! i])\<rparr> = s" using Suc.prems(1) by simp
  have step: "refresh_zones fs i (Suc n) s = refresh_zones fs (Suc i) n (s\<lparr>g_temp_metrics := Some (ds[i := ?d])\<rparr>)"
  proof (cases "\<exists>b hs ts. ds ! i = Some b \<and> ?ns ! i = Some hs \<and> td_temp b = Some ts")
    case True
    then obtain b hs ts where b: "ds ! i = Some b" "?ns ! i = Some hs" "td_temp b = Some ts" by blast
    then have "refresh_values fs hs (\<lambda>v. v) 0 (unat (td_len b)) ts = Ret (refreshed fs (\<lambda>v. v) hs ts)"
      using sh by (intro refresh_values_whole) simp_all
    then show ?thesis using at st b by (simp add: zone_refreshed_def)
  next
    case False
    then have d: "?d = ds ! i"
      by (auto simp: zone_refreshed_def split: option.splits)
    have "refresh_zones fs i (Suc n) s = refresh_zones fs (Suc i) n s"
      using False at by (auto split: option.splits)
    then show ?thesis unfolding d self .
  qed
  let ?s = "s\<lparr>g_temp_metrics := Some (ds[i := ?d])\<rparr>"
  have sh': "\<forall>k<16. zone_shape ((ds[i := ?d]) ! k) (g_temp_node ?s ! k)"
  proof (intro allI impI)
    fix k :: nat assume k: "k < 16"
    have "zone_shape ?d (?ns ! i)" using sh by (cases "(ds ! i, ?ns ! i)" rule: zone_shape.cases)
        (auto simp: zone_refreshed_def refreshed_def)
    then show "zone_shape ((ds[i := ?d]) ! k) (g_temp_node ?s ! k)"
      using Suc.prems(2,5) k by (simp add: nth_list_update_if)
  qed
  have "refresh_zones fs (Suc i) n ?s = Ret (?s\<lparr>g_temp_metrics :=
     Some (take (Suc i) (ds[i := ?d]) @ map2 (zone_refreshed fs) (drop (Suc i) ?ns) (drop (Suc i) (ds[i := ?d])))\<rparr>)"
    using Suc.IH [of ?s "ds[i := ?d]" "Suc i"] Suc.prems(2,3,4) sh' by simp
  moreover have "take (Suc i) (ds[i := ?d]) = take i ds @ [?d]" using i Suc.prems(2) by (simp add: take_Suc_conv_app_nth)
  moreover have "map2 (zone_refreshed fs) (drop i ?ns) (drop i ds) = ?d # map2 (zone_refreshed fs) (drop (Suc i) ?ns) (drop (Suc i) ds)"
    using i Suc.prems(2,3) by (simp add: Cons_nth_drop_Suc [symmetric])
  ultimately show ?case unfolding step by simp
qed simp

lemma refresh_devices_eq:
  assumes "g_cool_metrics s = Some ds" "length ds = 12" "length (g_cool_node s) = 12" "i + n = 12"
    and "\<forall>k<12. device_shape (ds ! k) (g_cool_node s ! k)"
  shows "refresh_devices fs i n s = Ret (s\<lparr>g_cool_metrics :=
     Some (take i ds @ map2 (device_refreshed fs) (drop i (g_cool_node s)) (drop i ds))\<rparr>)"
  using assms
proof (induction n arbitrary: i s ds)
  case (Suc n)
  let ?ns = "g_cool_node s"
  let ?d = "device_refreshed fs (?ns ! i) (ds ! i)"
  have i: "i < 12" using Suc.prems(4) by simp
  have sh: "device_shape (ds ! i) (?ns ! i)" using Suc.prems(5) i by blast
  have at: "cool_at i s = ds ! i" using Suc.prems(1) by (simp add: cool_at_def)
  have st: "set_cool i d s = s\<lparr>g_cool_metrics := Some (ds[i := d])\<rparr>" for d
    using Suc.prems(1) by (simp add: set_cool_def)
  have self: "s\<lparr>g_cool_metrics := Some (ds[i := ds ! i])\<rparr> = s" using Suc.prems(1) by simp
  have step: "refresh_devices fs i (Suc n) s = refresh_devices fs (Suc i) n (s\<lparr>g_cool_metrics := Some (ds[i := ?d])\<rparr>)"
  proof (cases "\<exists>b hs ts. ds ! i = Some b \<and> ?ns ! i = Some hs \<and> cd_cur_state b = Some ts")
    case True
    then obtain b hs ts where b: "ds ! i = Some b" "?ns ! i = Some hs" "cd_cur_state b = Some ts" by blast
    then have "refresh_values fs hs ucast 0 (unat (cd_len b)) ts = Ret (refreshed fs ucast hs ts)"
      using sh by (intro refresh_values_whole) simp_all
    then show ?thesis using at st b by (simp add: device_refreshed_def)
  next
    case False
    then have d: "?d = ds ! i"
      by (auto simp: device_refreshed_def split: option.splits)
    have "refresh_devices fs i (Suc n) s = refresh_devices fs (Suc i) n s"
      using False at by (auto split: option.splits)
    then show ?thesis unfolding d self .
  qed
  let ?s = "s\<lparr>g_cool_metrics := Some (ds[i := ?d])\<rparr>"
  have sh': "\<forall>k<12. device_shape ((ds[i := ?d]) ! k) (g_cool_node ?s ! k)"
  proof (intro allI impI)
    fix k :: nat assume k: "k < 12"
    have "device_shape ?d (?ns ! i)" using sh by (cases "(ds ! i, ?ns ! i)" rule: device_shape.cases)
        (auto simp: device_refreshed_def refreshed_def)
    then show "device_shape ((ds[i := ?d]) ! k) (g_cool_node ?s ! k)"
      using Suc.prems(2,5) k by (simp add: nth_list_update_if)
  qed
  have "refresh_devices fs (Suc i) n ?s = Ret (?s\<lparr>g_cool_metrics :=
     Some (take (Suc i) (ds[i := ?d]) @ map2 (device_refreshed fs) (drop (Suc i) ?ns) (drop (Suc i) (ds[i := ?d])))\<rparr>)"
    using Suc.IH [of ?s "ds[i := ?d]" "Suc i"] Suc.prems(2,3,4) sh' by simp
  moreover have "take (Suc i) (ds[i := ?d]) = take i ds @ [?d]" using i Suc.prems(2) by (simp add: take_Suc_conv_app_nth)
  moreover have "map2 (device_refreshed fs) (drop i ?ns) (drop i ds) = ?d # map2 (device_refreshed fs) (drop (Suc i) ?ns) (drop (Suc i) ds)"
    using i Suc.prems(2,3) by (simp add: Cons_nth_drop_Suc [symmetric])
  ultimately show ?case unfolding step by simp
qed simp

section \<open>The figures of a domain\<close>

lemma hottest_fold: "i + n \<le> length ts \<Longrightarrow> hottest ts i n m = Ret (fold max (take n (drop i ts)) m)"
proof (induction n arbitrary: i m)
  case (Suc n)
  have "take (Suc n) (drop i ts) = ts ! i # take n (drop (Suc i) ts)"
    using Suc.prems by (simp add: Cons_nth_drop_Suc [symmetric])
  moreover have "(if m < ts ! i then ts ! i else m) = max (ts ! i) m"
    by (cases "m < ts ! i") (auto simp: max.absorb2 max.absorb3 not_less dest: leD)
  ultimately show ?case using Suc.IH [of "Suc i" "max (ts ! i) m"] Suc.prems by simp
qed simp

lemma hottest_Max: "length ts = n \<Longrightarrow> hottest ts 0 n 0 = Ret (Max (insert 0 (set ts)))"
  using hottest_fold [of 0 n ts 0] by (simp add: Max.set_eq_fold [of 0 ts, symmetric])

text \<open>The throttling level of one device in percent; devices without states count as not throttled.\<close>

definition cooling_pct :: "u8 \<Rightarrow> u8 \<Rightarrow> double" where
  "cooling_pct c m = (if m > 0 then of_nat (unat c) / of_nat (unat m) * 100 else 0)"

lemma cooling_pct_nonneg: "0 \<le> cooling_pct c m"
proof -
  have "0 \<le> of_nat (unat c) / of_nat (unat m) * (100 :: double)"
    by (rule mult_nonneg_nonneg [OF divide_nonneg_nonneg [OF of_nat_0_le_iff of_nat_0_le_iff]]) simp
  then show ?thesis by (simp add: cooling_pct_def)
qed

lemma highest_pct_fold:
  "i + n \<le> length cs \<Longrightarrow> i + n \<le> length ms \<Longrightarrow> 0 \<le> x \<Longrightarrow>
     highest_pct cs ms i n x = Ret (fold max (map2 cooling_pct (take n (drop i cs)) (take n (drop i ms))) x)"
proof (induction n arbitrary: i x)
  case (Suc n)
  have "take (Suc n) (drop i xs) = xs ! i # take n (drop (Suc i) xs)" if "i < length xs" for xs :: "u8 list"
    using that by (simp add: Cons_nth_drop_Suc [symmetric])
  then have t: "take (Suc n) (drop i cs) = cs ! i # take n (drop (Suc i) cs)" "take (Suc n) (drop i ms) = ms ! i # take n (drop (Suc i) ms)"
    using Suc.prems by simp_all
  let ?p = "cooling_pct (cs ! i) (ms ! i)"
  have p: "0 \<le> ?p" by (rule cooling_pct_nonneg)
  have "highest_pct cs ms i (Suc n) x = highest_pct cs ms (Suc i) n (max ?p x)"
    using Suc.prems p by (auto simp: cooling_pct_def Let_def max_def)
  also have "\<dots> = Ret (fold max (map2 cooling_pct (take n (drop (Suc i) cs)) (take n (drop (Suc i) ms))) (max ?p x))"
    using Suc.IH [of "Suc i" "max ?p x"] Suc.prems p by simp
  finally show ?case unfolding t by simp
qed simp

lemma highest_pct_Max:
  "length cs = n \<Longrightarrow> length ms = n \<Longrightarrow> highest_pct cs ms 0 n 0 = Ret (Max (insert 0 (set (map2 cooling_pct cs ms))))"
  using highest_pct_fold [of 0 n cs ms 0] by (simp only: Max.set_eq_fold [symmetric] list.set(2)) simp

section \<open>The reference of a round\<close>

definition zone_reading :: "bool list \<Rightarrow> u64 \<Rightarrow> nat \<Rightarrow> LinuxThermalTempData option \<Rightarrow> (u16 \<times> u64 \<times> reading) list" where
  "zone_reading supported now i d =
     (case d of
        None \<Rightarrow> []
      | Some b \<Rightarrow> (case td_temp b of
                     None \<Rightarrow> []
                   | Some ts \<Rightarrow> if supported ! i \<and> td_len b \<noteq> 0
                                then [(of_nat i, now, Dbl (of_nat (unat (Max (insert 0 (set ts)))) / 1000))] else []))"

definition device_reading :: "bool list \<Rightarrow> u64 \<Rightarrow> nat \<Rightarrow> LinuxThermalCoolingData option \<Rightarrow> (u16 \<times> u64 \<times> reading) list" where
  "device_reading supported now i d =
     (case d of
        None \<Rightarrow> []
      | Some b \<Rightarrow> (case (cd_cur_state b, cd_max_state b) of
                     (Some cs, Some ms) \<Rightarrow> if supported ! i \<and> cd_len b \<noteq> 0
                        then [(of_nat i, now, Dbl (Max (insert 0 (set (map2 cooling_pct cs ms)))))] else []
                   | _ \<Rightarrow> []))"

definition thermal_readings ::
  "bool list \<Rightarrow> u64 \<Rightarrow> LinuxThermalTempData option list \<Rightarrow> LinuxThermalCoolingData option list \<Rightarrow> (u16 \<times> u64 \<times> reading) list" where
  "thermal_readings supported now ds cs =
     concat (map (\<lambda>(i, d). zone_reading supported now i d) (enumerate 0 ds)) @
     concat (map (\<lambda>(i, d). device_reading supported now i d) (enumerate 16 cs))"

text \<open>A round never reports more than the registered metrics.\<close>

lemma readings_bound:
  assumes "\<And>k d. length (f k d) \<le> of_bool (P k)"
  shows "length (concat (map (\<lambda>(k, d). f k d) (enumerate i ds))) \<le> length (filter P [i..<i + length ds])"
proof (induction ds arbitrary: i)
  case (Cons d ds)
  have "[i..<i + length (d # ds)] = i # [Suc i..<Suc i + length ds]" by (simp add: upt_rec)
  then show ?case using Cons.IH [of "Suc i"] assms [of i d] by (cases "P i") simp_all
qed simp

lemma thermal_readings_bound:
  assumes "length supported = 28" "length ds = 16" "length cs = 12"
  shows "length (thermal_readings supported now ds cs) \<le> length (present_ids supported)"
proof -
  have z: "length (concat (map (\<lambda>(i, d). zone_reading supported now i d) (enumerate 0 ds))) \<le>
      length (filter (\<lambda>k. supported ! k) [0..<0 + length ds])"
    by (rule readings_bound) (auto simp: zone_reading_def split: option.splits)
  have c: "length (concat (map (\<lambda>(i, d). device_reading supported now i d) (enumerate 16 cs))) \<le>
      length (filter (\<lambda>k. supported ! k) [16..<16 + length cs])"
    by (rule readings_bound) (auto simp: device_reading_def split: option.splits)
  have "[0..<0 + length ds] @ [16..<16 + length cs] = [0..<28]"
    unfolding assms using upt_add_eq_append [of 0 16 12] by simp
  then have "present_ids supported = filter (\<lambda>k. supported ! k) [0..<0 + length ds] @ filter (\<lambda>k. supported ! k) [16..<16 + length cs]"
    unfolding present_ids_def assms(1) by (metis filter_append)
  then show ?thesis using z c unfolding thermal_readings_def by (metis add_mono length_append)
qed

section \<open>Storing\<close>

lemma thermal_put_filled:
  assumes "filled tot (rs, pos) xs" "pos < tot"
  shows "\<exists>st'. thermal_put now i x (rs, pos) = Ret st' \<and> filled tot st' (xs @ [(i, now, Dbl x)])"
  using filled_store [OF assms, of "\<lparr>mr_timestamp = now, mr_metric_id = i,
      mr_metric_value = (mr_metric_value (rs ! unat pos))\<lparr>gt_data_type := TYPE_DOUBLE, gt_double_value := x\<rparr>\<rparr>" "(i, now, Dbl x)"]
  by (simp add: thermal_put_def response_reading_def reading_of_def)

lemma emit_zones_filled:
  assumes "filled tot st xs" "i + length ds \<le> length supported"
    and "\<forall>d \<in> set ds. \<forall>b ts. d = Some b \<longrightarrow> td_temp b = Some ts \<longrightarrow> length ts = unat (td_len b)"
  shows "\<exists>st'. emit_zones supported tot now i ds st = Ret st' \<and>
     filled tot st' (xs @ concat (map (\<lambda>(k, d). zone_reading supported now k d) (enumerate i ds)))"
  using assms
proof (induction ds arbitrary: i st xs)
  case (Cons d ds)
  show ?case
  proof (cases "snd st < tot")
    case False
    then have "unat tot \<le> length xs" using filled_room [OF Cons.prems(1)] by simp
    from filled_full [OF this Cons.prems(1)] show ?thesis using False by simp
  next
    case room: True
    note IH = Cons.IH [of _ _ "Suc i"]
    have i: "i < length supported" using Cons.prems(2) by simp
    show ?thesis
    proof (cases "\<exists>b ts. d = Some b \<and> td_temp b = Some ts \<and> supported ! i \<and> td_len b \<noteq> 0")
      case False
      then have n: "zone_reading supported now i d = []" by (auto simp: zone_reading_def split: option.splits)
      have "emit_zones supported tot now i (d # ds) st = emit_zones supported tot now (Suc i) ds st"
        using False room i by (auto simp: Let_def split: option.splits)
      then show ?thesis using IH [OF Cons.prems(1)] Cons.prems(2,3) n by auto
    next
      case True
      then obtain b ts where b: "d = Some b" "td_temp b = Some ts" "supported ! i" "td_len b \<noteq> 0" by blast
      have h: "hottest ts 0 (unat (td_len b)) 0 = Ret (Max (insert 0 (set ts)))"
        using Cons.prems(3) b by (intro hottest_Max) auto
      let ?x = "of_nat (unat (Max (insert 0 (set ts)))) / 1000 :: double"
      obtain st1 where st1: "thermal_put now (of_nat i) ?x st = Ret st1" "filled tot st1 (xs @ [(of_nat i, now, Dbl ?x)])"
        using thermal_put_filled [of tot "fst st" "snd st" xs now "of_nat i" ?x] Cons.prems(1) room by auto
      have "emit_zones supported tot now i (d # ds) st = emit_zones supported tot now (Suc i) ds st1"
        using room i b h st1(1) by simp
      then show ?thesis using IH [OF st1(2)] Cons.prems(2,3) b by (auto simp: zone_reading_def)
    qed
  qed
qed simp

lemma emit_devices_filled:
  assumes "filled tot st xs" "16 + i + length ds \<le> length supported"
    and "\<forall>d \<in> set ds. \<forall>b. d = Some b \<longrightarrow> (\<forall>cs. cd_cur_state b = Some cs \<longrightarrow> length cs = unat (cd_len b)) \<and>
       (\<forall>ms. cd_max_state b = Some ms \<longrightarrow> length ms = unat (cd_len b))"
  shows "\<exists>st'. emit_devices supported tot now i ds st = Ret st' \<and>
     filled tot st' (xs @ concat (map (\<lambda>(k, d). device_reading supported now k d) (enumerate (16 + i) ds)))"
  using assms
proof (induction ds arbitrary: i st xs)
  case (Cons d ds)
  show ?case
  proof (cases "snd st < tot")
    case False
    then have "unat tot \<le> length xs" using filled_room [OF Cons.prems(1)] by simp
    from filled_full [OF this Cons.prems(1)] show ?thesis using False by simp
  next
    case room: True
    note IH = Cons.IH [of _ _ "Suc i"]
    have i: "16 + i < length supported" using Cons.prems(2) by simp
    show ?thesis
    proof (cases "\<exists>b cs ms. d = Some b \<and> cd_cur_state b = Some cs \<and> cd_max_state b = Some ms \<and> supported ! (16 + i) \<and> cd_len b \<noteq> 0")
      case False
      then have n: "device_reading supported now (16 + i) d = []" by (auto simp: device_reading_def split: option.splits)
      have "emit_devices supported tot now i (d # ds) st = emit_devices supported tot now (Suc i) ds st"
        using False room i by (auto simp: Let_def split: option.splits)
      then show ?thesis using IH [OF Cons.prems(1)] Cons.prems(2,3) n by auto
    next
      case True
      then obtain b cs ms where b: "d = Some b" "cd_cur_state b = Some cs" "cd_max_state b = Some ms" "supported ! (16 + i)" "cd_len b \<noteq> 0"
        by blast
      let ?x = "Max (insert 0 (set (map2 cooling_pct cs ms)))"
      have h: "highest_pct cs ms 0 (unat (cd_len b)) 0 = Ret ?x"
        using Cons.prems(3) b by (intro highest_pct_Max) auto
      obtain st1 where st1: "thermal_put now (of_nat (16 + i)) ?x st = Ret st1" "filled tot st1 (xs @ [(of_nat (16 + i), now, Dbl ?x)])"
        using thermal_put_filled [of tot "fst st" "snd st" xs now "of_nat (16 + i)" ?x] Cons.prems(1) room by auto
      have "emit_devices supported tot now i (d # ds) st = emit_devices supported tot now (Suc i) ds st1"
        using room i b h st1(1) by simp
      then show ?thesis using IH [OF st1(2)] Cons.prems(2,3) b by (auto simp: device_reading_def)
    qed
  qed
qed simp

section \<open>The library during a session\<close>

text \<open>What the thread relies on: the library is initialised and its invariant holds.\<close>

definition lib_live :: "thermal_lib \<Rightarrow> bool" where
  "lib_live lib \<longleftrightarrow> lib_inv lib \<and> g_is_initialized lib"

abbreviation zones_of :: "thermal_lib \<Rightarrow> LinuxThermalTempData option list" where
  "zones_of lib \<equiv> the (g_temp_metrics lib)"

abbreviation devices_of :: "thermal_lib \<Rightarrow> LinuxThermalCoolingData option list" where
  "devices_of lib \<equiv> the (g_cool_metrics lib)"

lemma lib_live_facts:
  assumes "lib_live lib"
  shows "g_temp_metrics lib = Some (zones_of lib)" "g_cool_metrics lib = Some (devices_of lib)"
    "length (zones_of lib) = 16" "length (devices_of lib) = 12" "length (g_temp_node lib) = 16" "length (g_cool_node lib) = 12"
    "\<forall>k<16. dom_ok (map_option zone_view (zones_of lib ! k)) (g_temp_node lib ! k)"
    "\<forall>k<12. dom_ok (map_option device_view (devices_of lib ! k)) (g_cool_node lib ! k)"
proof -
  have t: "lib_tables lib" using assms by (simp add: lib_live_def lib_inv_tables)
  show m: "g_temp_metrics lib = Some (zones_of lib)" "g_cool_metrics lib = Some (devices_of lib)"
    using assms by (auto simp: lib_live_def lib_inv_def lib_clean_def)
  obtain ds cs where dc: "g_temp_metrics lib = Some ds" "g_cool_metrics lib = Some cs" using m by blast
  have v: "zone_views lib = map (map_option zone_view) (zones_of lib)" "device_views lib = map (map_option device_view) (devices_of lib)"
    by (simp_all add: zone_views_def device_views_def dc)
  note len = lib_tables_length [OF t]
  show l: "length (zones_of lib) = 16" "length (devices_of lib) = 12" "length (g_temp_node lib) = 16" "length (g_cool_node lib) = 12"
    using len unfolding v by simp_all
  show "\<forall>k<16. dom_ok (map_option zone_view (zones_of lib ! k)) (g_temp_node lib ! k)"
    using lib_tables_at(1) [OF t] l unfolding v by simp
  show "\<forall>k<12. dom_ok (map_option device_view (devices_of lib ! k)) (g_cool_node lib ! k)"
    using lib_tables_at(2) [OF t] l unfolding v by simp
qed

text \<open>Both refreshes of a round.\<close>

definition lib_refreshed :: "filesystem \<Rightarrow> thermal_lib \<Rightarrow> thermal_lib" where
  "lib_refreshed fs lib = lib\<lparr>g_temp_metrics := Some (map2 (zone_refreshed fs) (g_temp_node lib) (zones_of lib)),
     g_cool_metrics := Some (map2 (device_refreshed fs) (g_cool_node lib) (devices_of lib))\<rparr>"

lemma lib_refresh_result:
  assumes live: "lib_live lib"
  shows "\<exists>lib1. linux_thermal_lib_thermal_zones_info fs (Some p) lib = Ret (SUCCESS, Some (Some (tl_epoch lib)), lib1) \<and>
     linux_thermal_lib_cooling_devices_info fs (Some q) lib1 = Ret (SUCCESS, Some (Some (tl_epoch lib)), lib_refreshed fs lib) \<and>
     lib_live (lib_refreshed fs lib)"
proof -
  note f = lib_live_facts [OF live]
  have zs: "\<forall>k<16. zone_shape (zones_of lib ! k) (g_temp_node lib ! k)" using f(7) zone_shape_ok by blast
  have ds: "\<forall>k<12. device_shape (devices_of lib ! k) (g_cool_node lib ! k)" using f(8) device_shape_ok by blast
  let ?lib1 = "lib\<lparr>g_temp_metrics := Some (map2 (zone_refreshed fs) (g_temp_node lib) (zones_of lib))\<rparr>"
  have 1: "refresh_zones fs 0 16 lib = Ret ?lib1" using refresh_zones_eq [OF f(1,3,5) _ zs, of 0 16 fs] by simp
  have 2: "refresh_devices fs 0 12 ?lib1 = Ret (lib_refreshed fs lib)"
    using refresh_devices_eq [of ?lib1 "devices_of lib" 0 12 fs] f ds by (simp add: lib_refreshed_def)
  have i: "g_is_initialized lib" using live by (simp add: lib_live_def)
  have r1: "linux_thermal_lib_thermal_zones_info fs (Some p) lib = Ret (SUCCESS, Some (Some (tl_epoch lib)), ?lib1)"
    using i 1 by (simp add: linux_thermal_lib_thermal_zones_info_def temp_ptr_def)
  have r2: "linux_thermal_lib_cooling_devices_info fs (Some q) ?lib1 = Ret (SUCCESS, Some (Some (tl_epoch lib)), lib_refreshed fs lib)"
    using i 2 by (simp add: linux_thermal_lib_cooling_devices_info_def cool_ptr_def lib_refreshed_def)
  have "lib_inv lib" using live by (simp add: lib_live_def)
  from lib_zones_info_result [OF this, of fs "Some p"] r1 have "lib_inv ?lib1" by simp
  from lib_devices_info_result [OF this, of fs "Some q"] r2 have "lib_inv (lib_refreshed fs lib)" by simp
  then have "lib_live (lib_refreshed fs lib)" using i by (simp add: lib_live_def lib_refreshed_def)
  then show ?thesis using r1 r2 by blast
qed

lemma zone_lengths:
  assumes "lib_live lib"
  shows "\<forall>d \<in> set (zones_of lib). \<forall>b ts. d = Some b \<longrightarrow> td_temp b = Some ts \<longrightarrow> length ts = unat (td_len b)"
proof -
  have "length ts = unat (td_len b)" if "k < 16" "zones_of lib ! k = Some b" "td_temp b = Some ts" for k b ts
    using lib_live_facts(7) [OF assms] that by (auto simp: zone_view_def)
  then show ?thesis using lib_live_facts(3) [OF assms] by (auto simp: in_set_conv_nth)
qed

lemma device_lengths:
  assumes "lib_live lib"
  shows "\<forall>d \<in> set (devices_of lib). \<forall>b. d = Some b \<longrightarrow> (\<forall>cs. cd_cur_state b = Some cs \<longrightarrow> length cs = unat (cd_len b)) \<and>
       (\<forall>ms. cd_max_state b = Some ms \<longrightarrow> length ms = unat (cd_len b))"
proof -
  have "(\<forall>cs. cd_cur_state b = Some cs \<longrightarrow> length cs = unat (cd_len b)) \<and> (\<forall>ms. cd_max_state b = Some ms \<longrightarrow> length ms = unat (cd_len b))"
    if "k < 12" "devices_of lib ! k = Some b" for k b
    using lib_live_facts(8) [OF assms] that by (auto simp: device_view_def)
  then show ?thesis using lib_live_facts(4) [OF assms] by (auto simp: in_set_conv_nth)
qed

section \<open>Iterations\<close>

definition thermal_inv :: "thermal_local \<Rightarrow> (u16 \<times> u64 \<times> reading) list \<Rightarrow> bool" where
  "thermal_inv l xs \<longleftrightarrow> length (tt_supported l) = 28 \<and>
     filled (tt_total_responses l) (pd_metric_response (tt_data l), tt_position l) xs"

text \<open>What stays as the entry of the thread set it.\<close>

definition thermal_setup :: "thermal_local \<Rightarrow> thermal_local \<Rightarrow> bool" where
  "thermal_setup l l' \<longleftrightarrow> tt_supported l' = tt_supported l \<and> tt_samples_per_stream l' = tt_samples_per_stream l \<and>
     tt_total_responses l' = tt_total_responses l \<and> pd_backend_id (tt_data l') = pd_backend_id (tt_data l) \<and>
     pd_capability_id (tt_data l') = pd_capability_id (tt_data l)"

lemma thermal_setup_trans: "thermal_setup l l' \<Longrightarrow> thermal_setup l' l'' \<Longrightarrow> thermal_setup l l''"
  by (simp add: thermal_setup_def)

text \<open>The batches handed over: one with the buffer, or none when it is empty or nobody listens.\<close>

definition batches :: "thermal_local \<Rightarrow> callback \<Rightarrow> (u16 \<times> u64 \<times> reading) list \<Rightarrow> (nat \<times> QcPerfData) list \<Rightarrow> bool" where
  "batches l cb xs bs \<longleftrightarrow> (\<forall>c. cb = Some c \<longrightarrow> concat (map (\<lambda>d. batch_readings (snd d)) bs) = take (unat (tt_total_responses l)) xs) \<and>
     (\<forall>d \<in> set bs. Some (fst d) = cb \<and> batch_readings (snd d) \<noteq> [] \<and>
        pd_backend_id (snd d) = pd_backend_id (tt_data l) \<and> pd_capability_id (snd d) = pd_capability_id (tt_data l))"

lemma thermal_deliver_result:
  assumes inv: "thermal_inv l xs"
  shows "\<exists>l' s' ys bs. thermal_deliver l s = (l', s') \<and> thermal_inv l' ys \<and> thermal_setup l l' \<and>
     tt_current_time l' = tt_current_time l \<and> tt_temp_metrics l' = tt_temp_metrics l \<and>
     g_data_callback s' = g_data_callback s \<and> ts_lib s' = ts_lib s \<and> sn_data s' = sn_data s @ bs \<and> (\<forall>d \<in> set bs. Some (fst d) = g_data_callback s) \<and>
     (ys = [] \<and> tt_sample_count l' = 0 \<and> batches l (g_data_callback s) xs bs \<or>
      ys = xs \<and> tt_sample_count l' = tt_sample_count l + 1 \<and> tt_sample_count l' < tt_samples_per_stream l \<and> bs = [])"
proof -
  have f: "filled (tt_total_responses l) (pd_metric_response (tt_data l), tt_position l) xs"
    using inv by (simp add: thermal_inv_def)
  have z: "filled (tt_total_responses l) (pd_metric_response (tt_data l), 0) []"
    using f by (simp add: filled_def)
  have b: "map response_reading (take (unat (tt_position l)) (pd_metric_response (tt_data l))) = take (unat (tt_total_responses l)) xs"
    "unat (tt_position l) = min (length xs) (unat (tt_total_responses l))"
    using f [unfolded filled_def fst_conv snd_conv] by blast+
  have pos: "tt_position l > 0 \<longleftrightarrow> take (unat (tt_total_responses l)) xs \<noteq> []"
    using b(2) by (auto simp: word_less_nat_alt)
  define due where "due \<longleftrightarrow> tt_samples_per_stream l \<le> tt_sample_count l + 1 \<or>
    tt_streaming_rate_ns l \<le> tt_current_time l - tt_last_stream_time l"
  show ?thesis
  proof (cases due)
    case False
    let ?l = "l\<lparr>tt_sample_count := tt_sample_count l + 1\<rparr>"
    have "thermal_deliver l s = (?l, s)" using False by (simp add: thermal_deliver_def due_def Let_def)
    then show ?thesis using inv False
      by (intro exI [of _ ?l] exI [of _ s] exI [of _ xs] exI [of _ "[]"])
        (simp add: thermal_inv_def thermal_setup_def due_def not_le)
  next
    case True
    let ?d = "(tt_data l)\<lparr>pd_metric_response_len := unat (tt_position l)\<rparr>"
    show ?thesis
    proof (cases "\<exists>cb. g_data_callback s = Some cb \<and> tt_position l > 0")
      case False
      let ?l = "l\<lparr>tt_sample_count := 0, tt_position := 0, tt_last_stream_time := tt_current_time l\<rparr>"
      have "thermal_deliver l s = (?l, s)"
        using True False by (auto simp: thermal_deliver_def due_def Let_def split: option.splits)
      then show ?thesis using inv z False pos
        by (intro exI [of _ ?l] exI [of _ s] exI [of _ "[]"] exI [of _ "[]"])
          (auto simp: thermal_inv_def thermal_setup_def batches_def)
    next
      case cb: True
      then obtain cb where cb: "g_data_callback s = Some cb" "tt_position l > 0" by blast
      let ?l = "l\<lparr>tt_sample_count := 0, tt_data := ?d, tt_position := 0, tt_last_stream_time := tt_current_time l\<rparr>"
      let ?s = "s\<lparr>sn_data := sn_data s @ [(cb, ?d)]\<rparr>"
      have "thermal_deliver l s = (?l, ?s)" using True cb by (auto simp: thermal_deliver_def due_def Let_def)
      moreover have "batch_readings ?d = take (unat (tt_total_responses l)) xs" using b(1) by (simp add: batch_readings_def)
      ultimately show ?thesis using inv z cb pos
        by (intro exI [of _ ?l] exI [of _ ?s] exI [of _ "[]"] exI [of _ "[(cb, ?d)]"])
          (simp add: thermal_inv_def thermal_setup_def batches_def)
    qed
  qed
qed

lemma thermal_responses_result:
  assumes inv: "thermal_inv l xs" and live: "lib_live lib"
    and p: "tt_temp_metrics l = Some (tl_epoch lib)" "tt_cool_metrics l = Some (tl_epoch lib)"
  shows "\<exists>rs pos. thermal_responses now l lib = Ret (rs, pos) \<and> filled (tt_total_responses l) (rs, pos)
     (xs @ thermal_readings (tt_supported l) now (zones_of lib) (devices_of lib))"
proof -
  note f = lib_live_facts [OF live]
  have i: "length (tt_supported l) = 28" "filled (tt_total_responses l) (pd_metric_response (tt_data l), tt_position l) xs"
    using inv by (simp_all add: thermal_inv_def)
  obtain st1 where st1: "emit_zones (tt_supported l) (tt_total_responses l) now 0 (zones_of lib)
       (pd_metric_response (tt_data l), tt_position l) = Ret st1"
    "filled (tt_total_responses l) st1 (xs @ concat (map (\<lambda>(k, d). zone_reading (tt_supported l) now k d) (enumerate 0 (zones_of lib))))"
    using emit_zones_filled [OF i(2) _ zone_lengths [OF live], of 0 "tt_supported l" now] i(1) f(3) by auto
  obtain st2 where st2: "emit_devices (tt_supported l) (tt_total_responses l) now 0 (devices_of lib) st1 = Ret st2"
    "filled (tt_total_responses l) st2 ((xs @ concat (map (\<lambda>(k, d). zone_reading (tt_supported l) now k d) (enumerate 0 (zones_of lib)))) @
       concat (map (\<lambda>(k, d). device_reading (tt_supported l) now k d) (enumerate (16 + 0) (devices_of lib))))"
    using emit_devices_filled [OF st1(2) _ device_lengths [OF live], of 0 "tt_supported l" now] i(1) f(4) by auto
  have "deref_temp (tt_temp_metrics l) lib = Ret (Some (zones_of lib))" "deref_cool (tt_cool_metrics l) lib = Ret (Some (devices_of lib))"
    using p f(1,2) by (cases "g_temp_metrics lib"; cases "g_cool_metrics lib"; simp add: deref_temp_def deref_cool_def)+
  then have "thermal_responses now l lib = Ret st2"
    using st1(1) st2(1) by (simp add: thermal_responses_def)
  then show ?thesis using st2(2) by (cases st2) (simp add: thermal_readings_def)
qed

lemma thermal_iterate_result:
  fixes e :: sample_env
  assumes inv: "thermal_inv l xs" and live: "lib_live (ts_lib s)"
  defines "now \<equiv> time_now (env_clock e) (tt_current_time l)" and "lib' \<equiv> lib_refreshed (env_files e) (ts_lib s)"
  defines "zs \<equiv> xs @ thermal_readings (tt_supported l) now (zones_of lib') (devices_of lib')"
  shows "\<exists>l' s' ys bs. thermal_thread_iterate e l s = Ret (l', s') \<and> thermal_inv l' ys \<and> thermal_setup l l' \<and>
     lib_live (ts_lib s') \<and> ts_lib s' = lib' \<and> tt_current_time l' = now \<and>
     tt_temp_metrics l' = Some (tl_epoch (ts_lib s)) \<and> g_data_callback s' = g_data_callback s \<and>
     sn_data s' = sn_data s @ bs \<and>
     (ys = [] \<and> tt_sample_count l' = 0 \<and> batches l (g_data_callback s) zs bs \<or>
      ys = zs \<and> tt_sample_count l' = tt_sample_count l + 1 \<and> tt_sample_count l' < tt_samples_per_stream l \<and> bs = [])"
proof -
  obtain lib1 where r: "linux_thermal_lib_thermal_zones_info (env_files e) (Some (tt_temp_metrics l)) (ts_lib s) =
      Ret (SUCCESS, Some (Some (tl_epoch (ts_lib s))), lib1)"
    "linux_thermal_lib_cooling_devices_info (env_files e) (Some (tt_cool_metrics l)) lib1 = Ret (SUCCESS, Some (Some (tl_epoch (ts_lib s))), lib')"
    "lib_live lib'"
    using lib_refresh_result [OF live] unfolding lib'_def by blast
  let ?l1 = "l\<lparr>tt_temp_metrics := Some (tl_epoch (ts_lib s)), tt_cool_metrics := Some (tl_epoch (ts_lib s)), tt_current_time := now\<rparr>"
  have i1: "thermal_inv ?l1 xs" using inv by (simp add: thermal_inv_def)
  have ep: "tl_epoch lib' = tl_epoch (ts_lib s)" by (simp add: lib'_def lib_refreshed_def)
  obtain rs pos where rs: "thermal_responses now ?l1 lib' = Ret (rs, pos)" "filled (tt_total_responses l) (rs, pos) zs"
    using thermal_responses_result [OF i1 r(3), of now] ep by (auto simp: zs_def)
  let ?l2 = "?l1\<lparr>tt_data := (tt_data ?l1)\<lparr>pd_metric_response := rs\<rparr>, tt_position := pos\<rparr>"
  have i2: "thermal_inv ?l2 zs" using i1 rs(2) by (simp add: thermal_inv_def)
  obtain l3 s3 ys bs where d: "thermal_deliver ?l2 (s\<lparr>ts_lib := lib'\<rparr>) = (l3, s3)" "thermal_inv l3 ys" "thermal_setup ?l2 l3"
    "tt_current_time l3 = now" "tt_temp_metrics l3 = Some (tl_epoch (ts_lib s))" "g_data_callback s3 = g_data_callback s" "ts_lib s3 = lib'" "sn_data s3 = sn_data s @ bs"
    "ys = [] \<and> tt_sample_count l3 = 0 \<and> batches ?l2 (g_data_callback s) zs bs \<or>
      ys = zs \<and> tt_sample_count l3 = tt_sample_count l + 1 \<and> tt_sample_count l3 < tt_samples_per_stream l \<and> bs = []"
    using thermal_deliver_result [OF i2, of "s\<lparr>ts_lib := lib'\<rparr>"] by auto
  let ?l4 = "l3\<lparr>tt_slept := (if g_is_thread_running s3 then unat (rq_sampling_rate (tt_request l3)) * 1000 else tt_slept l3)\<rparr>"
  have e: "thermal_thread_iterate e l s = Ret (?l4, s3)"
    using r(1,2) rs(1) d(1) by (simp add: thermal_thread_iterate_def Let_def now_def)
  have b: "batches ?l2 = batches l" by (simp add: batches_def fun_eq_iff)
  have "thermal_inv ?l4 ys" "thermal_setup l ?l4" "tt_current_time ?l4 = now" "tt_sample_count ?l4 = tt_sample_count l3"
    "tt_temp_metrics ?l4 = Some (tl_epoch (ts_lib s))"
    using d(2-5) by (simp_all add: thermal_inv_def thermal_setup_def)
  then show ?thesis using e d(6-9) r(3) unfolding b by (intro exI [of _ ?l4] exI [of _ s3] exI [of _ ys] exI [of _ bs]) simp
qed

section \<open>Rounds\<close>

type_synonym thermal_abs = "LinuxThermalTempData option list \<times> LinuxThermalCoolingData option list \<times> u64"

definition thermal_out ::
  "bool list \<Rightarrow> string option list option list \<Rightarrow> string option list option list \<Rightarrow> sample_env \<Rightarrow> thermal_abs
     \<Rightarrow> (u16 \<times> u64 \<times> reading) list \<times> thermal_abs" where
  "thermal_out supported tnodes cnodes e a =
     (let (ds, cs, now) = a; ds' = map2 (zone_refreshed (env_files e)) tnodes ds;
          cs' = map2 (device_refreshed (env_files e)) cnodes cs; now' = time_now (env_clock e) now
      in (thermal_readings supported now' ds' cs', ds', cs', now'))"

definition thermal_between :: "thermal_local \<Rightarrow> thermal_state \<Rightarrow> (u16 \<times> u64 \<times> reading) list \<Rightarrow> bool" where
  "thermal_between l s xs \<longleftrightarrow> thermal_inv l xs \<and> lib_live (ts_lib s) \<and> g_data_callback s \<noteq> None \<and>
     tt_sample_count l < tt_samples_per_stream l \<and>
     length xs \<le> unat (tt_sample_count l) * length (present_ids (tt_supported l)) \<and>
     unat (tt_total_responses l) = unat (tt_samples_per_stream l) * length (present_ids (tt_supported l))"

definition thermal_delivered :: "callback \<Rightarrow> thermal_local \<Rightarrow> nat \<times> QcPerfData \<Rightarrow> bool" where
  "thermal_delivered cb l d \<longleftrightarrow> Some (fst d) = cb \<and> batch_readings (snd d) \<noteq> [] \<and>
     pd_backend_id (snd d) = pd_backend_id (tt_data l) \<and> pd_capability_id (snd d) = pd_capability_id (tt_data l)"

abbreviation thermal_abs_of :: "thermal_local \<Rightarrow> thermal_state \<Rightarrow> thermal_abs" where
  "thermal_abs_of l s \<equiv> (zones_of (ts_lib s), devices_of (ts_lib s), tt_current_time l)"

abbreviation thermal_out_of :: "thermal_local \<Rightarrow> thermal_state \<Rightarrow> sample_env \<Rightarrow> thermal_abs \<Rightarrow> (u16 \<times> u64 \<times> reading) list \<times> thermal_abs" where
  "thermal_out_of l s \<equiv> thermal_out (tt_supported l) (g_temp_node (ts_lib s)) (g_cool_node (ts_lib s))"

interpretation thermal_loop: batching_loop thermal_thread_iterate thermal_between "\<lambda>e l s. True"
  thermal_out_of thermal_abs_of sn_data "\<lambda>d. batch_readings (snd d)" "\<lambda>l s. thermal_delivered (g_data_callback s) l"
proof
  fix l :: thermal_local and s :: thermal_state and xs and e :: sample_env
  assume b: "thermal_between l s xs"
  let ?w = "length (present_ids (tt_supported l))"
  have inv: "thermal_inv l xs" and live: "lib_live (ts_lib s)" and cb: "g_data_callback s \<noteq> None"
    and c: "tt_sample_count l < tt_samples_per_stream l" and len: "length xs \<le> unat (tt_sample_count l) * ?w"
    and tot: "unat (tt_total_responses l) = unat (tt_samples_per_stream l) * ?w"
    using b by (simp_all add: thermal_between_def)
  let ?lib = "lib_refreshed (env_files e) (ts_lib s)" and ?now = "time_now (env_clock e) (tt_current_time l)"
  define zs where "zs = xs @ thermal_readings (tt_supported l) ?now (zones_of ?lib) (devices_of ?lib)"
  obtain l' s' ys bs where r: "thermal_thread_iterate e l s = Ret (l', s')" "thermal_inv l' ys" "thermal_setup l l'"
    "lib_live (ts_lib s')" "ts_lib s' = ?lib" "tt_current_time l' = ?now" "g_data_callback s' = g_data_callback s"
    "sn_data s' = sn_data s @ bs"
    "ys = [] \<and> tt_sample_count l' = 0 \<and> batches l (g_data_callback s) zs bs \<or>
      ys = zs \<and> tt_sample_count l' = tt_sample_count l + 1 \<and> tt_sample_count l' < tt_samples_per_stream l \<and> bs = []"
    using thermal_iterate_result [OF inv live, of e] unfolding zs_def by blast
  have su: "tt_supported l' = tt_supported l" "tt_samples_per_stream l' = tt_samples_per_stream l"
    "tt_total_responses l' = tt_total_responses l" "pd_backend_id (tt_data l') = pd_backend_id (tt_data l)"
    "pd_capability_id (tt_data l') = pd_capability_id (tt_data l)"
    using r(3) by (simp_all add: thermal_setup_def)
  have out: "thermal_out_of l s e (thermal_abs_of l s) =
      (thermal_readings (tt_supported l) ?now (zones_of ?lib) (devices_of ?lib), zones_of ?lib, devices_of ?lib, ?now)"
    by (simp add: thermal_out_def lib_refreshed_def Let_def)
  have bound: "length (thermal_readings (tt_supported l) ?now (zones_of ?lib) (devices_of ?lib)) \<le> ?w"
    using lib_live_facts(3,4) [OF r(4)] inv unfolding r(5) by (intro thermal_readings_bound) (simp_all add: thermal_inv_def)
  have zlen: "length zs \<le> Suc (unat (tt_sample_count l)) * ?w" using len bound by (simp add: zs_def)
  have k: "unat (tt_sample_count l) < unat (tt_samples_per_stream l)" using c by (simp add: word_less_nat_alt)
  have "Suc (unat (tt_sample_count l)) * ?w \<le> unat (tt_total_responses l)"
    unfolding tot by (rule mult_le_mono1) (use k in simp)
  then have all: "take (unat (tt_total_responses l)) zs = zs" using zlen by simp
  have main: "thermal_between l' s' ys \<and> concat (map (\<lambda>d. batch_readings (snd d)) bs) @ ys = zs \<and>
      (\<forall>d \<in> set bs. thermal_delivered (g_data_callback s) l d)"
    using r(9)
  proof
    assume h: "ys = [] \<and> tt_sample_count l' = 0 \<and> batches l (g_data_callback s) zs bs"
    have "0 < tt_samples_per_stream l" using k by (simp add: word_less_nat_alt)
    then have "thermal_between l' s' ys" using h r(2,4,7) su tot cb by (simp add: thermal_between_def)
    then show ?thesis using h all cb by (auto simp: batches_def thermal_delivered_def)
  next
    assume h: "ys = zs \<and> tt_sample_count l' = tt_sample_count l + 1 \<and> tt_sample_count l' < tt_samples_per_stream l \<and> bs = []"
    have e: "tt_sample_count l + 1 = of_nat (Suc (unat (tt_sample_count l)))" by simp
    have "Suc (unat (tt_sample_count l)) < 2 ^ 32"
      using k unsigned_less [where 'a = nat, of "tt_samples_per_stream l"] by simp
    then have u: "unat (tt_sample_count l + 1) = Suc (unat (tt_sample_count l))" unfolding e by (rule unat_of_nat_u32)
    have lt: "tt_sample_count l' < tt_samples_per_stream l'" using h su by metis
    have "unat (tt_sample_count l') = Suc (unat (tt_sample_count l))" using h u by metis
    then have "thermal_between l' s' ys" using h lt r(2,4,7) su tot cb zlen by (simp add: thermal_between_def)
    then show ?thesis using h by simp
  qed
  have nodes: "g_temp_node (ts_lib s') = g_temp_node (ts_lib s)" "g_cool_node (ts_lib s') = g_cool_node (ts_lib s)"
    unfolding r(5) by (simp_all add: lib_refreshed_def)
  show "\<exists>l' s' ys bs. thermal_thread_iterate e l s = Ret (l', s') \<and> thermal_between l' s' ys \<and> sn_data s' = sn_data s @ bs \<and>
     concat (map (\<lambda>d. batch_readings (snd d)) bs) @ ys = xs @ fst (thermal_out_of l s e (thermal_abs_of l s)) \<and>
     thermal_abs_of l' s' = snd (thermal_out_of l s e (thermal_abs_of l s)) \<and> thermal_out_of l' s' = thermal_out_of l s \<and>
     thermal_delivered (g_data_callback s') l' = thermal_delivered (g_data_callback s) l \<and> (\<forall>f. True = True) \<and>
     (\<forall>d \<in> set bs. thermal_delivered (g_data_callback s) l d)"
    by (intro exI [of _ l'] exI [of _ s'] exI [of _ ys] exI [of _ bs])
      (use r(1,5,6,7,8) main su out nodes in \<open>simp add: zs_def fun_eq_iff thermal_delivered_def\<close>)
qed

end
