(* ===== verification/LinuxThermalLaws.thy ===== *)
theory LinuxThermalLaws
  imports LinuxThermalThread LiveSession
begin

text \<open>
  The properties of the Linux thermal backend and of its library: nothing leaks, the classification, what
  is registered, that sessions never get stuck, that the thread reports the readings of the reference,
  and what happens when the backend is deinitialised under a running thread.
\<close>

section \<open>Initialisation\<close>

definition lib_present :: "thermal_lib \<Rightarrow> bool list" where
  "lib_present lib = linux_thermal_mark_present (g_temp_metrics lib) (g_cool_metrics lib)"

lemma lib_present_length: "lib_live lib \<Longrightarrow> length (lib_present lib) = 28"
  using lib_live_facts(1-4) [of lib] by (auto simp: lib_present_def linux_thermal_mark_present_def split: option.splits)

definition unregistered :: "thermal_state \<Rightarrow> bool" where
  "unregistered s \<longleftrightarrow> no_table s \<and> released (ts_lib s)"

lemma free_info_fields [simp]:
  "same_control (linux_thermal_free_backend_info s) s' = same_control s s'"
  "same_control s' (linux_thermal_free_backend_info s) = same_control s' s"
  "g_data_callback (linux_thermal_free_backend_info s) = g_data_callback s"
  "ts_lib (linux_thermal_free_backend_info s) = ts_lib s" "sn_faults (linux_thermal_free_backend_info s) = sn_faults s"
  "bi_capabilities_list (g_backend_info (linux_thermal_free_backend_info s)) = None"
  "bi_capabilities_list_length (g_backend_info (linux_thermal_free_backend_info s)) = 0"
  by (simp_all add: linux_thermal_free_backend_info_def same_control_def)

lemma same_control_lib [simp]: "same_control s (s'\<lparr>ts_lib := lib\<rparr>) = same_control s s'"
  by (simp add: same_control_def)

text \<open>The failing end of \<open>linux_thermal_init\<close>.\<close>

lemma init_unwinds:
  assumes "lib_inv (ts_lib s)"
  shows "\<exists>lib'. linux_thermal_lib_cleanup (ts_lib (linux_thermal_free_backend_info s)) = Ret lib' \<and>
     unregistered ((linux_thermal_free_backend_info s)\<lparr>ts_lib := snd lib'\<rparr>) \<and> lib_inv (snd lib') \<and>
     tl_blocks (snd lib') = 0 \<and> tl_files (snd lib') = 0"
proof -
  obtain code lib' where "linux_thermal_lib_cleanup (ts_lib s) = Ret (code, lib')" "released lib'" "lib_inv lib'"
    "tl_blocks lib' = 0" "tl_files lib' = 0"
    using lib_cleanup_result [OF assms] by blast
  then show ?thesis by (simp add: unregistered_def no_table_def linux_thermal_free_backend_info_def)
qed

lemma thermal_init_result:
  assumes inv: "lib_inv (ts_lib s)"
  shows "\<exists>rc s'. linux_thermal_init fs dir s = Ret (rc, s') \<and> same_control s s' \<and> g_data_callback s' = g_data_callback s \<and>
     lib_inv (ts_lib s') \<and> (sn_faults s = [] \<longrightarrow> sn_faults s' = []) \<and>
     (rc = SUCCESS \<longleftrightarrow> fst (linux_thermal_lib_init fs dir (ts_lib s)) = SUCCESS \<and>
        fst (calloc_ok (sn_faults s)) \<and> fst (calloc_ok (snd (calloc_ok (sn_faults s))))) \<and>
     (if rc = SUCCESS
      then lib_live (ts_lib s') \<and> thermal_registered (lib_present (ts_lib s')) s' \<and>
        (\<exists>lib1 c p c' p' . linux_thermal_lib_discover_thermal_zones fs dir (Some None) (snd (linux_thermal_lib_init fs dir (ts_lib s))) = Ret (c, p, lib1) \<and>
          linux_thermal_lib_discover_cooling_devices fs dir (Some None) lib1 = Ret (c', p', ts_lib s'))
      else unregistered s' \<and> tl_blocks (ts_lib s') = 0 \<and> tl_files (ts_lib s') = 0)"
proof -
  let ?s = "THERMAL_SEND LEVEL_INFO ''Initializing linux-thermal backend'' s"
  obtain ret lib where i: "linux_thermal_lib_init fs dir (ts_lib s) = (ret, lib)" by (cases "linux_thermal_lib_init fs dir (ts_lib s)")
  have li: "lib_inv lib" "ret = SUCCESS \<Longrightarrow> g_is_initialized lib"
    using lib_init_result [OF inv, where fs = fs and dir = dir] i by (auto split: if_splits)
  show ?thesis
  proof (cases "ret = SUCCESS")
    case False
    let ?s1 = "THERMAL_SEND LEVEL_ERROR (''Failed to initialize thermal library, error: '' @ show_u (nat (return_code_number ret))) (?s\<lparr>ts_lib := lib\<rparr>)"
    have "lib_inv (ts_lib ?s1)" using li(1) by simp
    from init_unwinds [OF this] obtain lib' where u: "linux_thermal_lib_cleanup (ts_lib (linux_thermal_free_backend_info ?s1)) = Ret lib'"
      "unregistered ((linux_thermal_free_backend_info ?s1)\<lparr>ts_lib := snd lib'\<rparr>)" "lib_inv (snd lib')" "tl_blocks (snd lib') = 0" "tl_files (snd lib') = 0"
      by blast
    have "linux_thermal_init fs dir s = Ret (ret, (linux_thermal_free_backend_info ?s1)\<lparr>ts_lib := snd lib'\<rparr>)"
      using u(1) False i by (simp add: linux_thermal_init_def Let_def case_prod_beta)
    then show ?thesis using u False i by simp
  next
    case True
    note gi = li(2) [OF True]
    obtain c1 p1 lib1 where z: "linux_thermal_lib_discover_thermal_zones fs dir (Some None) lib = Ret (c1, p1, lib1)" "lib_inv lib1"
      "g_is_initialized lib1" "tl_epoch lib1 = tl_epoch lib" "p1 = Some (Some (tl_epoch lib))"
      using lib_discover_zones_result [OF li(1), of fs dir "Some None"] gi by auto
    obtain c2 p2 lib2 where d: "linux_thermal_lib_discover_cooling_devices fs dir (Some None) lib1 = Ret (c2, p2, lib2)" "lib_inv lib2"
      "g_is_initialized lib2" "tl_epoch lib2 = tl_epoch lib" "p2 = Some (Some (tl_epoch lib))"
      using lib_discover_devices_result [OF z(2), of fs dir "Some None"] z(3,4) by auto
    have live: "lib_live lib2" using d by (simp add: lib_live_def)
    let ?p = "lib_present lib2"
    have dr: "deref_temp (Some (tl_epoch lib)) lib2 = Ret (g_temp_metrics lib2)" "deref_cool (Some (tl_epoch lib)) lib2 = Ret (g_cool_metrics lib2)"
      using lib_live_facts(1,2) [OF live] d(4) by (auto simp: deref_temp_def deref_cool_def split: option.splits)
    obtain rc s2 where t: "thermal_init_table ?p (?s\<lparr>ts_lib := lib2\<rparr>) = Ret (rc, s2)" "same_control s s2" "g_data_callback s2 = g_data_callback s"
      "ts_lib s2 = lib2" "rc = SUCCESS \<longleftrightarrow> fst (calloc_ok (sn_faults s)) \<and> fst (calloc_ok (snd (calloc_ok (sn_faults s))))"
      "rc = SUCCESS \<longrightarrow> thermal_registered ?p s2" "sn_faults s = [] \<longrightarrow> sn_faults s2 = []"
      using thermal_init_table_result [OF lib_present_length [OF live], of "?s\<lparr>ts_lib := lib2\<rparr>"] by (auto simp: same_control_def)
    have e: "linux_thermal_init fs dir s = (if rc \<noteq> SUCCESS
        then obind (linux_thermal_lib_cleanup (ts_lib (linux_thermal_free_backend_info s2))) (\<lambda>(_, lib'). Ret (rc, (linux_thermal_free_backend_info s2)\<lparr>ts_lib := lib'\<rparr>))
        else Ret (rc, s2))"
      using True i z(1,5) d(1,5) dr t(1) by (simp add: linux_thermal_init_def Let_def lib_present_def)
    show ?thesis
    proof (cases "rc = SUCCESS")
      case rc: True
      then show ?thesis using e t d(2) live z(1) d(1) i True by auto
    next
      case False
      have "lib_inv (ts_lib s2)" using t(4) d(2) by simp
      from init_unwinds [OF this] obtain lib' where u: "linux_thermal_lib_cleanup (ts_lib (linux_thermal_free_backend_info s2)) = Ret lib'"
        "unregistered ((linux_thermal_free_backend_info s2)\<lparr>ts_lib := snd lib'\<rparr>)" "lib_inv (snd lib')" "tl_blocks (snd lib') = 0" "tl_files (snd lib') = 0"
        by blast
      have "linux_thermal_init fs dir s = Ret (rc, (linux_thermal_free_backend_info s2)\<lparr>ts_lib := snd lib'\<rparr>)"
        using e u(1) False by (simp add: case_prod_beta)
      then show ?thesis using u False i True t(2,3,5,7) by auto
    qed
  qed
qed

section \<open>The entry of the thread\<close>

lemma flag_supported_Ret:
  "i + n \<le> length ms \<Longrightarrow> length fl = 28 \<Longrightarrow> \<exists>fl'. flag_supported ms i n fl = Ret fl' \<and> length fl' = 28 \<and>
     (\<forall>k<28. fl' ! k = (fl ! k \<or> (\<exists>j. i \<le> j \<and> j < i + n \<and> unat (mi_metric_id (ms ! j)) = k)))"
proof (induction n arbitrary: i fl)
  case (Suc n)
  let ?k = "unat (mi_metric_id (ms ! i))"
  let ?fl = "if ?k < 28 then fl[?k := True] else fl"
  have e: "flag_supported ms i (Suc n) fl = flag_supported ms (Suc i) n ?fl" using Suc.prems by simp
  have "length ?fl = 28" using Suc.prems(2) by simp
  from Suc.IH [OF _ this, of "Suc i"] Suc.prems(1) obtain fl' where s: "flag_supported ms (Suc i) n ?fl = Ret fl'" "length fl' = 28"
    "\<forall>k<28. fl' ! k = (?fl ! k \<or> (\<exists>j. Suc i \<le> j \<and> j < Suc i + n \<and> unat (mi_metric_id (ms ! j)) = k))" by auto
  have "fl' ! k = (fl ! k \<or> (\<exists>j. i \<le> j \<and> j < i + Suc n \<and> unat (mi_metric_id (ms ! j)) = k))" if k: "k < 28" for k
  proof -
    have u: "?fl ! k = (fl ! k \<or> ?k = k)" using k Suc.prems(2) by (auto simp: nth_list_update_if)
    have "(\<exists>j. i \<le> j \<and> j < i + Suc n \<and> unat (mi_metric_id (ms ! j)) = k) \<longleftrightarrow>
        ?k = k \<or> (\<exists>j. Suc i \<le> j \<and> j < Suc i + n \<and> unat (mi_metric_id (ms ! j)) = k)"
      by (metis Suc_leD Suc_leI add_Suc_right add_Suc_shift le_neq_implies_less le_refl less_add_Suc1)
    then show ?thesis using s(3) k u by blast
  qed
  then show ?case using e s(1,2) by auto
qed auto

lemma flag_supported_present:
  assumes p: "length present = 28" "packed ms (map of_nat (present_ids present))" "unat len = length (present_ids present)"
  shows "flag_supported ms 0 (unat len) (replicate 28 False) = Ret present"
proof -
  let ?n = "length (present_ids present)"
  have n: "?n \<le> 28" "length ms = 28" using present_ids_length [OF p(1)] p(2) by (simp_all add: packed_def)
  have m: "mi_metric_id (ms ! j) = of_nat (present_ids present ! j)" if "j < ?n" for j
  proof -
    have "map mi_metric_id (take ?n ms) ! j = map of_nat (present_ids present) ! j" using p(2) by (simp add: packed_def)
    then show ?thesis using that n by simp
  qed
  have u: "unat (mi_metric_id (ms ! j)) = present_ids present ! j" if "j < ?n" for j
  proof -
    have "present_ids present ! j \<in> set (present_ids present)" using that by simp
    then have "present_ids present ! j < 28" using p(1) by (simp add: present_ids_def)
    then show ?thesis using m [OF that] by (simp add: unsigned_of_nat take_bit_nat_eq_self)
  qed
  obtain sup' where s: "flag_supported ms 0 ?n (replicate 28 False) = Ret sup'" "length sup' = 28"
    "\<forall>k<28. sup' ! k = (replicate 28 False ! k \<or> (\<exists>j. 0 \<le> j \<and> j < 0 + ?n \<and> unat (mi_metric_id (ms ! j)) = k))"
    using flag_supported_Ret [of 0 ?n ms "replicate 28 False"] n by auto
  have "sup' ! k = present ! k" if k: "k < 28" for k
  proof -
    have "sup' ! k = (\<exists>j<?n. present_ids present ! j = k)" using s(3) k u by auto
    also have "\<dots> = (k \<in> set (present_ids present))" by (simp add: in_set_conv_nth)
    finally show ?thesis using k p(1) by (simp add: present_ids_def)
  qed
  then have "sup' = present" using s(2) p(1) by (intro nth_equalityI) simp_all
  then show ?thesis using s(1) p(3) by simp
qed

lemma thermal_entry_runs:
  assumes reg: "thermal_registered present s" and rq: "thermal_request_code rq = SUCCESS"
  shows "\<exists>lo s'. thermal_thread_entry env (Some rq) s = Ret (lo, s') \<and>
     (lo = None \<longleftrightarrow> \<not> (fst (calloc_ok (sn_faults s)) \<and> fst (calloc_ok (snd (calloc_ok (sn_faults s)))))) \<and>
     (\<forall>l. lo = Some l \<longrightarrow> thermal_inv l [] \<and> tt_supported l = present \<and> tt_sample_count l < tt_samples_per_stream l \<and>
        tt_sample_count l = 0 \<and> tt_current_time l = 0 \<and>
        unat (tt_total_responses l) = unat (tt_samples_per_stream l) * length (present_ids present) \<and>
        pd_backend_id (tt_data l) = 6 \<and> pd_capability_id (tt_data l) = rq_capability_id rq)"
proof -
  obtain c where c: "bi_capabilities_list (g_backend_info s) = Some [c]" "thermal_entry present c" and n: "length present = 28"
    using reg by (auto simp: thermal_registered_def)
  have d: "deref_capability (sn_table s) 0 s = Ret c" using c(1) by (simp add: deref_capability_def)
  obtain ms where ms: "ci_metric_ids_list c = Some ms" "packed ms (map of_nat (present_ids present))"
    and len: "unat (ci_metric_ids_list_len c) = length (present_ids present)"
    using c(2) by (auto simp: thermal_entry_def)
  note sup = flag_supported_present [OF n ms(2) len]
  obtain sps where sps: "samples_per_stream rq = Ret sps" "0 < sps" "unat sps \<le> 2000"
    using thermal_samples_per_stream [OF rq] by blast
  have "unat sps * length (present_ids present) \<le> 2000 * 28" using sps(3) present_ids_length [OF n] by (intro mult_le_mono)
  moreover have "sps * ucast (ci_metric_ids_list_len c) = of_nat (unat sps * length (present_ids present))"
    using len by (simp flip: len add: unsigned_ucast_eq)
  ultimately have tot: "unat (sps * ucast (ci_metric_ids_list_len c)) = unat sps * length (present_ids present)"
    by (simp only:) (intro unat_of_nat_u32, simp)
  show ?thesis
    using d ms(1) sup sps(1,2) tot n
    by (simp add: thermal_thread_entry_def Let_def alloc_pair thermal_inv_def filled_def)
qed

section \<open>Sessions that never get stuck\<close>

definition thermal_table :: "thermal_state \<Rightarrow> bool" where
  "thermal_table s \<longleftrightarrow> lib_live (ts_lib s) \<and> (\<exists>present. thermal_registered present s)"

definition thermal_tables_ok :: "thermal_state \<Rightarrow> bool" where
  "thermal_tables_ok s \<longleftrightarrow> lib_inv (ts_lib s) \<and> (thermal_table s \<or> no_table s)"

definition thermal_good :: "thermal_state \<Rightarrow> QcPerfRequest option \<Rightarrow> bool" where
  "thermal_good s q \<longleftrightarrow> thermal_table s \<and> (\<exists>rq. q = Some rq \<and> thermal_request_code rq = SUCCESS)"

definition thermal_lok :: "thermal_state \<Rightarrow> thermal_local \<Rightarrow> bool" where
  "thermal_lok s l \<longleftrightarrow> thermal_table s \<and> (\<exists>xs. thermal_inv l xs)"

lemma thermal_tables_cong:
  assumes "g_backend_info s' = g_backend_info s" "ts_lib s' = ts_lib s"
  shows "thermal_tables_ok s' = thermal_tables_ok s" "thermal_good s' q = thermal_good s q" "thermal_lok s' l = thermal_lok s l"
  using thermal_registered_cong [OF assms(1)] assms
  by (simp_all add: thermal_tables_ok_def thermal_table_def thermal_good_def thermal_lok_def no_table_def)

lemma thermal_table_inv: "thermal_table s \<Longrightarrow> thermal_tables_ok s"
  by (simp add: thermal_table_def thermal_tables_ok_def lib_live_def)

lemma thermal_start_code:
  assumes reg: "thermal_registered present s"
  shows "\<exists>s'. linux_thermal_start (Some rq) s =
     Ret (if thermal_request_code rq \<noteq> SUCCESS then thermal_request_code rq
          else if g_data_callback s = None then FAILED
          else if g_is_thread_running s then ALREADY_INITIALIZED
          else if fst (calloc_ok (sn_faults s)) \<and> fst (calloc_ok (snd (calloc_ok (sn_faults s)))) then SUCCESS
          else FAILED, s') \<and> g_backend_info s' = g_backend_info s \<and> sn_table s' = sn_table s \<and>
     g_data_callback s' = g_data_callback s \<and> sn_data s' = sn_data s \<and> ts_lib s' = ts_lib s \<and>
     (sn_threads s' \<noteq> sn_threads s \<longrightarrow> thermal_request_code rq = SUCCESS \<and> sn_threads s' = sn_threads s @ [Spawned (Some rq)])"
proof -
  let ?s = "THERMAL_SEND LEVEL_INFO ''Starting linux-thermal data collection'' s"
  have "thermal_registered present ?s" using reg by (simp add: thermal_registered_def)
  then obtain s1 where v: "thermal_validate_request rq ?s = Ret (thermal_request_code rq, s1)" "thermal_sent ?s s1"
    using thermal_validate_code by blast
  have f: "g_is_thread_running s1 = g_is_thread_running s" "g_thread_info s1 = g_thread_info s" "sn_threads s1 = sn_threads s"
    "g_backend_info s1 = g_backend_info s" "sn_table s1 = sn_table s" "g_data_callback s1 = g_data_callback s"
    "sn_data s1 = sn_data s" "sn_faults s1 = sn_faults s" "ts_lib s1 = ts_lib s"
    using thermal_sent_fields [OF v(2)] by (simp_all add: same_control_def)
  show ?thesis
    using v(1) f by (simp add: linux_thermal_start_def Let_def spawn_def thread_create_def thermal_thread_attrs_def case_prod_beta)
qed

lemma thermal_start_keeps:
  assumes "linux_thermal_start r s = Ret (rc, s')"
  shows "g_backend_info s' = g_backend_info s \<and> ts_lib s' = ts_lib s \<and> g_data_callback s' = g_data_callback s"
proof (cases r)
  case None
  then show ?thesis using assms by (auto simp: linux_thermal_start_def Let_def)
next
  case (Some rq)
  let ?s = "THERMAL_SEND LEVEL_INFO ''Starting linux-thermal data collection'' s"
  obtain ret s1 where v: "thermal_validate_request rq ?s = Ret (ret, s1)"
    using assms Some by (auto simp: linux_thermal_start_def Let_def outcome_simps)
  note c = thermal_sent_fields [OF thermal_validate_sent [OF v]]
  obtain tr s2 where sp: "spawn (thermal_thread_attrs rq) s1 = (tr, s2)" by (cases "spawn (thermal_thread_attrs rq) s1")
  show ?thesis
    using assms Some v sp c spawn_cases [OF sp]
    by (auto simp: linux_thermal_start_def Let_def split: if_splits)
qed

lemma thermal_start_ready:
  assumes "thermal_tables_ok s"
  shows "\<exists>rc s'. linux_thermal_start r s = Ret (rc, s') \<and>
     (rc = SUCCESS \<longrightarrow> (\<exists>q. thermal_good s' q \<and> sn_threads s' = sn_threads s @ [Spawned q]))"
proof (cases r)
  case None
  then show ?thesis by (simp add: linux_thermal_start_def Let_def)
next
  case (Some rq)
  show ?thesis
  proof (cases "thermal_table s")
    case False
    then show ?thesis
      using assms Some
      by (simp add: linux_thermal_start_def Let_def thermal_validate_request_def find_capability_def thermal_tables_ok_def no_table_def)
  next
    case True
    then obtain present where reg: "thermal_registered present s" by (auto simp: thermal_table_def)
    obtain rc s' where s': "linux_thermal_start r s = Ret (rc, s')" "g_backend_info s' = g_backend_info s" "ts_lib s' = ts_lib s"
      "sn_threads s' \<noteq> sn_threads s \<longrightarrow> thermal_request_code rq = SUCCESS \<and> sn_threads s' = sn_threads s @ [Spawned (Some rq)]"
      using thermal_start_code [OF reg, of rq] Some by blast
    have "sn_threads s' \<noteq> sn_threads s" if "rc = SUCCESS" using thermal_start_law [OF s'(1)] that by (auto simp: spawned_def)
    then have "rc = SUCCESS \<longrightarrow> thermal_good s' (Some rq) \<and> sn_threads s' = sn_threads s @ [Spawned (Some rq)]"
      unfolding thermal_tables_cong(2) [OF s'(2,3)] using s'(4) True by (simp add: thermal_good_def)
    then show ?thesis using s'(1) by blast
  qed
qed

lemma thermal_wait_keeps:
  assumes "wait_exit (thermal_thread e) t s = Ret (x, s')"
  shows "g_backend_info s' = g_backend_info s \<and> ts_lib s' = ts_lib s \<and> g_data_callback s' = g_data_callback s"
proof (cases "sn_threads s ! t")
  case (Spawned r)
  then obtain lo s1 where en: "thermal_thread_entry e r s = Ret (lo, s1)"
    using assms by (auto simp: wait_exit_def thermal_thread_def outcome_simps split: if_splits)
  then have "s' = put_thread t Exited s1 \<or> s' = put_thread t Exited (s1\<lparr>g_is_thread_running := False\<rparr>)"
    using assms Spawned by (cases lo) (auto simp: wait_exit_def thermal_thread_def thermal_thread_finish_def split: if_splits)
  then show ?thesis using thermal_entry_law [OF en] by (auto simp: put_thread_def)
qed (use assms in \<open>auto simp: wait_exit_def thermal_thread_def thermal_thread_finish_def put_thread_def split: if_splits\<close>)

lemma thermal_stop_keeps:
  assumes "linux_thermal_stop e r s = Ret (rc, s')"
  shows "g_backend_info s' = g_backend_info s \<and> ts_lib s' = ts_lib s \<and> g_data_callback s' = g_data_callback s"
proof (cases "\<exists>q t. r = Some q \<and> g_is_thread_running s \<and> th_handle (g_thread_info s) = Thread t")
  case False
  then show ?thesis
    using assms
    by (auto simp: linux_thermal_stop_def Let_def thread_join_def split: option.splits if_splits thread_handle.splits)
next
  case True
  then obtain q t where q: "r = Some q" "g_is_thread_running s" "th_handle (g_thread_info s) = Thread t" by blast
  let ?s = "(THERMAL_SEND LEVEL_INFO ''Stopping linux-thermal data collection'' s)\<lparr>g_is_thread_running := False\<rparr>"
  obtain x s1 where w: "wait_exit (thermal_thread e) t ?s = Ret (x, s1)"
    using assms q by (auto simp: linux_thermal_stop_def Let_def thread_join_def outcome_simps)
  have "g_backend_info s1 = g_backend_info s \<and> ts_lib s1 = ts_lib s \<and> g_data_callback s1 = g_data_callback s"
    using thermal_wait_keeps [OF w] by simp
  then show ?thesis
    using assms q w by (auto simp: linux_thermal_stop_def Let_def thread_join_def outcome_simps split: if_splits)
qed

lemma put_thread_lib [simp]: "ts_lib (put_thread t st s) = ts_lib s"
  by (simp add: put_thread_def)

interpretation thermal_live: orderly_session linux_thermal_start linux_thermal_stop thermal_thread thermal_thread_iterate
  thermal_tables_ok thermal_good thermal_lok
proof unfold_locales
  fix s r
  assume a: "thermal_tables_ok s"
  obtain rc s' where s': "linux_thermal_start r s = Ret (rc, s')"
     "rc = SUCCESS \<longrightarrow> (\<exists>q. thermal_good s' q \<and> sn_threads s' = sn_threads s @ [Spawned q])"
    using thermal_start_ready [OF a] by blast
  note k = thermal_start_keeps [OF s'(1)]
  show "\<exists>rc s'. linux_thermal_start r s = Ret (rc, s') \<and> thermal_tables_ok s' \<and> (\<forall>q. thermal_good s q \<longrightarrow> thermal_good s' q) \<and>
     (\<forall>l. thermal_lok s l \<longrightarrow> thermal_lok s' l) \<and>
     (rc = SUCCESS \<longrightarrow> (\<exists>q. thermal_good s' q \<and> sn_threads s' = sn_threads s @ [Spawned q]))"
    using s' a thermal_tables_cong [of s' s] k by auto
next
  fix e r s rc s'
  assume "thermal_tables_ok s" "linux_thermal_stop e r s = Ret (rc, s')"
  then show "thermal_tables_ok s' \<and> (\<forall>q. thermal_good s q \<longrightarrow> thermal_good s' q) \<and> (\<forall>l. thermal_lok s l \<longrightarrow> thermal_lok s' l)"
    using thermal_tables_cong [of s' s] thermal_stop_keeps by simp
next
  fix e s q
  assume a: "thermal_tables_ok s" "thermal_good s q"
  then obtain present rq where r: "thermal_registered present s" "q = Some rq" "thermal_request_code rq = SUCCESS"
    by (auto simp: thermal_good_def thermal_table_def)
  obtain lo s' where en: "thermal_thread_entry e (Some rq) s = Ret (lo, s')" "\<forall>l. lo = Some l \<longrightarrow> thermal_inv l []"
    using thermal_entry_runs [OF r(1,3), of e] by blast
  note k = thermal_tables_cong [of s' s]
  have "thermal_lok s l" if "lo = Some l" for l using a(2) en(2) that by (auto simp: thermal_lok_def thermal_good_def)
  then show "\<exists>lo s'. th_entry (thermal_thread e) q s = Ret (lo, s') \<and> thermal_tables_ok s' \<and>
      (\<forall>l. lo = Some l \<and> g_is_thread_running s' \<longrightarrow> thermal_lok s' l)"
    using en r(2) a(1) k thermal_entry_law [OF en(1)] by (simp add: thermal_thread_def)
next
  fix e s l
  assume a: "thermal_tables_ok s" "thermal_lok s l"
  then obtain xs present where l: "thermal_inv l xs" "lib_live (ts_lib s)" "thermal_registered present s"
    by (auto simp: thermal_lok_def thermal_table_def)
  from thermal_iterate_result [OF l(1,2), of e] obtain l' s' ys
    where b: "thermal_thread_iterate e l s = Ret (l', s')" "thermal_inv l' ys" "lib_live (ts_lib s')" by blast
  have "thermal_registered present s'"
    using thermal_registered_cong [of s' s] thermal_iterate_law [OF b(1)] l(3) by simp
  then have "thermal_table s'" using b(3) by (auto simp: thermal_table_def)
  then show "\<exists>l' s'. thermal_thread_iterate e l s = Ret (l', s') \<and> thermal_tables_ok s' \<and> thermal_lok s' l'"
    using b(1,2) thermal_table_inv by (auto simp: thermal_lok_def)
next
  fix e l s
  assume "thermal_tables_ok s"
  then show "\<exists>s'. th_finish (thermal_thread e) l s = Ret s' \<and> thermal_tables_ok s'"
    using thermal_tables_cong(1) [of "s\<lparr>g_is_thread_running := False\<rparr>" s] by (simp add: thermal_thread_def thermal_thread_finish_def)
next
  fix t st s l
  show "thermal_tables_ok (put_thread t st s) = thermal_tables_ok s" "thermal_lok (put_thread t st s) l = thermal_lok s l"
    by (rule thermal_tables_cong; simp)+
qed

section \<open>Which domains are present\<close>

lemma lib_present_lens:
  assumes "lib_live lib"
  shows "lib_present lib = map (\<lambda>v. v \<noteq> None \<and> v \<noteq> Some 0) (fst (lib_lens lib) @ snd (lib_lens lib))"
proof -
  obtain ds cs where m: "g_temp_metrics lib = Some ds" "g_cool_metrics lib = Some cs"
    using lib_live_facts(1,2) [OF assms] by blast
  have z: "(case d of None \<Rightarrow> False | Some b \<Rightarrow> td_len b > 0) = (map_option dv_len (map_option zone_view d) \<noteq> None \<and>
      map_option dv_len (map_option zone_view d) \<noteq> Some 0)" for d
    by (cases d) (simp_all add: word_less_nat_alt)
  have c: "(case d of None \<Rightarrow> False | Some b \<Rightarrow> cd_len b > 0) = (map_option dv_len (map_option device_view d) \<noteq> None \<and>
      map_option dv_len (map_option device_view d) \<noteq> Some 0)" for d
    by (cases d) (simp_all add: word_less_nat_alt)
  show ?thesis
    unfolding lib_present_def linux_thermal_mark_present_def lib_lens_def zone_views_def device_views_def m option.case fst_conv snd_conv
      map_append map_map comp_def z c ..
qed

text \<open>The flags of the domains with an entry in the directory.\<close>

definition tree_present :: "filesystem \<Rightarrow> string list \<Rightarrow> bool list" where
  "tree_present fs entries =
     map (\<lambda>i. \<exists>n \<in> set entries. zone_domain fs n = Some i) [0..<16] @
     map (\<lambda>i. \<exists>n \<in> set entries. device_domain fs n = Some i) [0..<12]"

lemma bump_in_domain: "((bump ^^ in_domain f ns i) None \<noteq> None \<and> (bump ^^ in_domain f ns i) None \<noteq> Some 0) = (\<exists>n \<in> set ns. f n = Some i)"
  unfolding bump_pow by (auto simp: in_domain_def filter_empty_conv)

lemma percent_le:
  fixes a b :: double
  assumes "0 \<le> a" "a \<le> b"
  shows "a / b * 100 \<le> 100"
proof (cases "b = 0")
  case False
  then have "0 < b" using assms by simp
  then show ?thesis using assms(2) by (simp add: divide_le_eq)
qed simp

section \<open>A machine\<close>

definition demo_thermal_entries :: "string list" where
  "demo_thermal_entries = [''.'', ''thermal_zone0'', ''thermal_zone1'', ''cooling_device0'']"

definition demo_thermal_files :: filesystem where
  "demo_thermal_files =
     [''/sys/class/thermal/thermal_zone0/type'' \<mapsto> ''cpu-0-0'' @ [CHR 0x0A], ''/sys/class/thermal/thermal_zone0/temp'' \<mapsto> ''45000'',
      ''/sys/class/thermal/thermal_zone1/type'' \<mapsto> ''gpuss-0'' @ [CHR 0x0A], ''/sys/class/thermal/thermal_zone1/temp'' \<mapsto> ''51000'',
      ''/sys/class/thermal/cooling_device0/type'' \<mapsto> ''cpufreq-cpu0'', ''/sys/class/thermal/cooling_device0/cur_state'' \<mapsto> ''2'',
      ''/sys/class/thermal/cooling_device0/max_state'' \<mapsto> ''10'']"

definition demo_thermal_env :: "nat \<Rightarrow> sample_env" where
  "demo_thermal_env t = \<lparr>env_clock = Spec (Some (t, 0)), env_files = demo_thermal_files\<rparr>"

definition demo_thermal_request :: QcPerfRequest where
  "demo_thermal_request = \<lparr>rq_capability_id = 0, rq_streaming_rate = 200, rq_sampling_rate = 100\<rparr>"

lemma demo_thermal_request_ok: "thermal_request_code demo_thermal_request = SUCCESS"
  by (simp add: thermal_request_code_def demo_thermal_request_def thermal_sampling_rates_def thermal_streaming_rates_def)

lemma initial_thermal_fields [simp]:
  "ts_lib (initial_thermal f g) = initial_thermal_lib g" "sn_faults (initial_thermal f g) = f" "sn_threads (initial_thermal f g) = []"
  "g_data_callback (initial_thermal f g) = None" "g_is_thread_running (initial_thermal f g) = False" "sn_data (initial_thermal f g) = []"
  "g_thread_info (initial_thermal f g) = zero_thread_info"
  by (simp_all add: initial_thermal_def initial_session_def session.defs)

lemma demo_domains:
  "zone_domain demo_thermal_files ''thermal_zone0'' = Some 0" "zone_domain demo_thermal_files ''thermal_zone1'' = Some 1"
  "device_domain demo_thermal_files ''cooling_device0'' = Some 0"
  by (simp_all add: zone_domain_def device_domain_def type_node_def snprintf_buf_def has_prefix_def demo_thermal_files_def
      linux_thermal_read_type_def is_trailing_def linux_thermal_classify_def strncmp_eq_def g_temp_prefix_def g_cool_prefix_def numeral_eq_Suc)

lemma demo_no_domain:
  "zone_domain demo_thermal_files ''.'' = None" "zone_domain demo_thermal_files ''cooling_device0'' = None"
  "device_domain demo_thermal_files ''.'' = None" "device_domain demo_thermal_files ''thermal_zone0'' = None"
  "device_domain demo_thermal_files ''thermal_zone1'' = None"
  by (simp_all add: zone_domain_def device_domain_def has_prefix_def)

text \<open>The backend connected on the machine.\<close>

lemma demo_thermal_session:
  "\<exists>present s. linux_thermal_init demo_thermal_files (Some demo_thermal_entries) (initial_thermal [] []) = Ret (SUCCESS, s) \<and>
     thermal_registered present s \<and> lib_live (ts_lib s) \<and> sn_threads s = [] \<and> \<not> g_is_thread_running s \<and> sn_faults s = []"
proof -
  have "lib_inv (ts_lib (initial_thermal [] []))" by (simp add: lib_inv_start)
  from thermal_init_result [OF this, of demo_thermal_files "Some demo_thermal_entries"]
  obtain rc s where s: "linux_thermal_init demo_thermal_files (Some demo_thermal_entries) (initial_thermal [] []) = Ret (rc, s)"
    "same_control (initial_thermal [] []) s" "sn_faults s = []"
    "rc = SUCCESS \<longleftrightarrow> fst (linux_thermal_lib_init demo_thermal_files (Some demo_thermal_entries) (initial_thermal_lib [])) = SUCCESS"
    "rc = SUCCESS \<longrightarrow> lib_live (ts_lib s) \<and> thermal_registered (lib_present (ts_lib s)) s"
    by (auto split: if_splits)
  have "fst (linux_thermal_lib_init demo_thermal_files (Some demo_thermal_entries) (initial_thermal_lib [])) = SUCCESS"
    by (simp add: linux_thermal_lib_init_def initial_thermal_lib_def tl_calloc_pair Let_def)
  then show ?thesis using s by (auto simp: same_control_def)
qed

section \<open>Properties\<close>

text \<open>C17: Whatever calls a client of the thermal library makes, in whatever order and with whatever pointers,
  whatever the thermal tree holds at each of them and whichever allocations fail, no call leaves an array
  or goes through a freed pointer, and the blocks and files handed out are exactly those the structures
  hold; \<open>linux_thermal_lib_cleanup\<close> then gives every block and every file back.\<close>

theorem thermal_library_accounts:
  "\<exists>s code s'. lib_run cs (initial_thermal_lib faults) = Ret s \<and> lib_clean s \<and> lib_exec Lib_Cleanup s = Ret (code, s') \<and>
     tl_blocks s' = 0 \<and> tl_files s' = 0"
proof -
  obtain s where s: "lib_run cs (initial_thermal_lib faults) = Ret s" "lib_inv s" using lib_run_inv [OF lib_inv_start] by blast
  then show ?thesis using lib_cleanup_result [OF s(2)] by (auto simp: lib_inv_def)
qed

text \<open>C18: The classification of a kernel type: battery current limiter and battery voltage sensors belong to
  no domain; any other type belongs to the domain of the first prefix of the table it starts with.\<close>

theorem thermal_classification:
  assumes "t = g_temp_prefix \<or> t = g_cool_prefix"
  shows "linux_thermal_classify type t = Some i \<longleftrightarrow>
     \<not> str_contains ''-bcl-'' type \<and> \<not> str_contains ''-ibat-'' type \<and> \<not> has_prefix ''vbat'' type \<and>
     (\<exists>k<length t. tp_index (t ! k) = i \<and> has_prefix (tp_prefix (t ! k)) type \<and> (\<forall>j<k. \<not> has_prefix (tp_prefix (t ! j)) type))"
proof -
  have len: "tp_len p = length (tp_prefix p)" if "p \<in> set t" for p using assms prefix_tables that by auto
  have eq: "strncmp_eq type p (length p) = has_prefix p type" for p by (simp add: strncmp_eq_def has_prefix_def)
  have vb: "strncmp_eq type ''vbat'' (length ''vbat'') = has_prefix ''vbat'' type" by (rule eq)
  have find: "List.find (\<lambda>p. strncmp_eq type (tp_prefix p) (tp_len p)) t = List.find (\<lambda>p. has_prefix (tp_prefix p) type) t"
    by (rule find_cong [OF refl]) (simp add: len eq)
  have "(\<exists>p. List.find (\<lambda>p. strncmp_eq type (tp_prefix p) (tp_len p)) t = Some p \<and> tp_index p = i) \<longleftrightarrow>
     (\<exists>k<length t. tp_index (t ! k) = i \<and> has_prefix (tp_prefix (t ! k)) type \<and> (\<forall>j<k. \<not> has_prefix (tp_prefix (t ! j)) type))"
    unfolding find find_Some_iff by blast
  then show ?thesis unfolding linux_thermal_classify_def vb classify_loop_first by (auto simp: map_option_case split: option.split)
qed

theorem thermal_classification_witness:
  "linux_thermal_classify ''sdram-1'' g_temp_prefix = Some 3 \<and> linux_thermal_classify ''pm-ibat-lvl0'' g_temp_prefix \<noteq> Some 12"
proof -
  have "\<exists>k<length g_temp_prefix. tp_index (g_temp_prefix ! k) = 3 \<and> has_prefix (tp_prefix (g_temp_prefix ! k)) ''sdram-1'' \<and>
     (\<forall>j<k. \<not> has_prefix (tp_prefix (g_temp_prefix ! j)) ''sdram-1'')"
    by (rule exI [of _ 4]) (auto simp: g_temp_prefix_def has_prefix_def less_Suc_eq numeral_eq_Suc)
  then show ?thesis
    using thermal_classification [of g_temp_prefix "''sdram-1''" 3] thermal_classification [of g_temp_prefix "''pm-ibat-lvl0''" 12]
    by (simp add: has_prefix_def)
qed

text \<open>Connecting the thermal backend registers exactly one metric per domain that has an entry in the
  thermal tree, temperature domains first, when all allocations succeed. In every case it comes back:
  successful with distinct identifiers registered and the library alive, or failed with nothing
  registered and no block or file of the library left.\<close>

theorem thermal_init_registers_domains:
  assumes "lib_inv (ts_lib s)"
  shows "\<exists>rc s'. linux_thermal_init fs dir s = Ret (rc, s') \<and>
     (if rc = SUCCESS then lib_live (ts_lib s') \<and> (\<exists>present. thermal_registered present s')
      else unregistered s' \<and> tl_blocks (ts_lib s') = 0 \<and> tl_files (ts_lib s') = 0) \<and>
     (\<forall>entries. dir = Some entries \<and> \<not> g_is_initialized (ts_lib s) \<and> tl_faults (ts_lib s) = [] \<and> sn_faults s = [] \<longrightarrow>
        rc = SUCCESS \<and> thermal_registered (tree_present fs entries) s')"
proof -
  obtain rc s' where r: "linux_thermal_init fs dir s = Ret (rc, s')" "lib_inv (ts_lib s')"
     "rc = SUCCESS \<longleftrightarrow> fst (linux_thermal_lib_init fs dir (ts_lib s)) = SUCCESS \<and>
        fst (calloc_ok (sn_faults s)) \<and> fst (calloc_ok (snd (calloc_ok (sn_faults s))))"
     "if rc = SUCCESS
      then lib_live (ts_lib s') \<and> thermal_registered (lib_present (ts_lib s')) s' \<and>
        (\<exists>lib1 c p c' p'. linux_thermal_lib_discover_thermal_zones fs dir (Some None) (snd (linux_thermal_lib_init fs dir (ts_lib s))) = Ret (c, p, lib1) \<and>
          linux_thermal_lib_discover_cooling_devices fs dir (Some None) lib1 = Ret (c', p', ts_lib s'))
      else unregistered s' \<and> tl_blocks (ts_lib s') = 0 \<and> tl_files (ts_lib s') = 0"
    using thermal_init_result [OF assms, of fs dir] by blast
  have full: "rc = SUCCESS \<and> thermal_registered (tree_present fs entries) s'"
    if a: "dir = Some entries" "\<not> g_is_initialized (ts_lib s)" "tl_faults (ts_lib s) = []" "sn_faults s = []" for entries
  proof -
    obtain code lib where i: "linux_thermal_lib_init fs dir (ts_lib s) = (code, lib)" by (cases "linux_thermal_lib_init fs dir (ts_lib s)")
    have code: "code = SUCCESS" using i a by (auto simp: linux_thermal_lib_init_def tl_calloc_pair Let_def)
    have rc: "rc = SUCCESS" using r(3) i code a(4) by simp
    have il: "lib_inv lib" "lib_lens lib = (map (\<lambda>i. (bump ^^ in_domain (zone_domain fs) entries i) None) [0..<16],
                          map (\<lambda>i. (bump ^^ in_domain (device_domain fs) entries i) None) [0..<12])"
      using lib_init_result [OF assms, where fs = fs and dir = dir] i code a by auto
    obtain lib1 c p c' p' where d: "linux_thermal_lib_discover_thermal_zones fs dir (Some None) lib = Ret (c, p, lib1)"
      "linux_thermal_lib_discover_cooling_devices fs dir (Some None) lib1 = Ret (c', p', ts_lib s')"
      using r(4) rc i by auto
    have "lib_inv lib1 \<and> lib_lens lib1 = lib_lens lib" using lib_discover_zones_result [OF il(1), of fs dir "Some None"] d(1) by auto
    then have "lib_lens (ts_lib s') = lib_lens lib" using lib_discover_devices_result [of lib1 fs dir "Some None"] d(2) by auto
    moreover have "lib_live (ts_lib s')" using r(4) rc by simp
    ultimately have "lib_present (ts_lib s') = tree_present fs entries"
      unfolding tree_present_def using bump_in_domain [of "zone_domain fs" entries] bump_in_domain [of "device_domain fs" entries]
      by (simp add: lib_present_lens il(2) comp_def)
    then show ?thesis using r(4) rc by simp
  qed
  have "if rc = SUCCESS then lib_live (ts_lib s') \<and> (\<exists>present. thermal_registered present s')
      else unregistered s' \<and> tl_blocks (ts_lib s') = 0 \<and> tl_files (ts_lib s') = 0"
    using r(4) by (cases "rc = SUCCESS") auto
  then show ?thesis using r(1) full by blast
qed

theorem thermal_init_registers_domains_witness:
  "\<exists>present s. linux_thermal_init demo_thermal_files (Some demo_thermal_entries) (initial_thermal [] []) = Ret (SUCCESS, s) \<and>
     thermal_registered present s \<and> present_ids present = [0, 1, 16]"
proof -
  have "present_ids (tree_present demo_thermal_files demo_thermal_entries) = [0, 1, 16]"
    by (simp add: present_ids_def tree_present_def demo_thermal_entries_def demo_domains demo_no_domain upt_rec)
  then show ?thesis
  using thermal_init_registers_domains [of "initial_thermal [] []" demo_thermal_files "Some demo_thermal_entries"] lib_inv_start
    by (auto simp: initial_thermal_lib_def)
qed

text \<open>Whatever the thermal tree holds and however calls of the client and steps of the thread interleave, a
  thermal session whose client starts only when no thread is left never runs into a hazard: no array is
  left, no freed table or metrics are read, and \<open>stop\<close> never waits for ever.\<close>

theorem thermal_sessions_never_stuck:
  assumes "thermal_registered present s" and "lib_live (ts_lib s)" and "sn_threads s = []" and "\<not> g_is_thread_running s"
    and "session_run (session_step linux_thermal_start linux_thermal_stop thermal_thread thermal_thread_iterate) evs s = Some s'"
    and "disciplined ev s'"
  shows "\<exists>s''. session_step linux_thermal_start linux_thermal_stop thermal_thread thermal_thread_iterate ev s' = Ret s''"
proof -
  have "thermal_tables_ok s" using assms(1,2) by (intro thermal_table_inv) (auto simp: thermal_table_def)
  moreover have "orderly s" "all_ended s" using assms(3,4) by (simp_all add: orderly_def stoppable_def all_ended_def)
  ultimately have "thermal_live.live s" by (intro thermal_live.live_idle)
  from thermal_live.live_step [OF thermal_live.live_run [OF this assms(5)] assms(6)] show ?thesis by blast
qed

theorem thermal_sessions_never_stuck_witness:
  "\<exists>s s2. linux_thermal_init demo_thermal_files (Some demo_thermal_entries) (initial_thermal [] []) = Ret (SUCCESS, s) \<and>
     session_step linux_thermal_start linux_thermal_stop thermal_thread thermal_thread_iterate (CallStart (Some demo_thermal_request)) s = Ret s2"
proof -
  obtain present s where s: "linux_thermal_init demo_thermal_files (Some demo_thermal_entries) (initial_thermal [] []) = Ret (SUCCESS, s)"
    "thermal_registered present s" "lib_live (ts_lib s)" "sn_threads s = []" "\<not> g_is_thread_running s"
    using demo_thermal_session by blast
  then show ?thesis
    using thermal_sessions_never_stuck [OF s(2-5), of "[]" s "CallStart (Some demo_thermal_request)"] by (auto simp: all_ended_def)
qed

text \<open>C19: The thermal thread reports exactly the readings of the reference: over any sequence of rounds the
  batches handed to the callback, followed by what is still buffered, are the readings of the rounds in
  order, for every registered domain with values the hottest zone in degrees and the highest throttling
  level in percent, with the time of the round; values that cannot be read keep their last reading.
  Nothing is lost, duplicated or reordered, and no empty batch is delivered.\<close>

theorem thermal_thread_equals_reference:
  assumes "thermal_registered present s" and "lib_live (ts_lib s)" and "thermal_request_code rq = SUCCESS"
    and "g_data_callback s = Some cb" and "thermal_thread_entry env (Some rq) s = Ret (Some l, s1)"
  shows "\<exists>l' s' bs rest. run_rounds thermal_thread_iterate es l s1 = Ret (l', s') \<and> sn_data s' = sn_data s @ bs \<and>
     filled (tt_total_responses l') (pd_metric_response (tt_data l'), tt_position l') rest \<and>
     concat (map (\<lambda>d. batch_readings (snd d)) bs) @ rest =
       reference_readings (thermal_out present (g_temp_node (ts_lib s)) (g_cool_node (ts_lib s))) es
         (zones_of (ts_lib s), devices_of (ts_lib s), 0) \<and>
     (\<forall>d \<in> set bs. fst d = cb \<and> batch_readings (snd d) \<noteq> [] \<and> pd_backend_id (snd d) = 6 \<and>
        pd_capability_id (snd d) = rq_capability_id rq)"
proof -
  have f: "g_data_callback s1 = Some cb" "sn_data s1 = sn_data s" "ts_lib s1 = ts_lib s" using thermal_entry_law [OF assms(5)] assms(4) by simp_all
  have l: "thermal_inv l []" "tt_supported l = present" "tt_sample_count l < tt_samples_per_stream l" "tt_sample_count l = 0"
    "tt_current_time l = 0" "unat (tt_total_responses l) = unat (tt_samples_per_stream l) * length (present_ids present)"
    "pd_backend_id (tt_data l) = 6" "pd_capability_id (tt_data l) = rq_capability_id rq"
    using thermal_entry_runs [OF assms(1,3), of env] assms(5) by auto
  have "thermal_between l s1 []" using l f assms(2) by (simp add: thermal_between_def)
  from thermal_loop.rounds_law [OF this, of es] show ?thesis
    using l f by (fastforce simp: thermal_delivered_def thermal_between_def thermal_inv_def)
qed

theorem thermal_thread_equals_reference_witness:
  "\<exists>present s l s1 l' s' bs rest. linux_thermal_init demo_thermal_files (Some demo_thermal_entries) (initial_thermal [] []) = Ret (SUCCESS, s) \<and>
     thermal_thread_entry (demo_thermal_env 1) (Some demo_thermal_request) (s\<lparr>g_data_callback := Some 1\<rparr>) = Ret (Some l, s1) \<and>
     run_rounds thermal_thread_iterate [demo_thermal_env 2, demo_thermal_env 3] l s1 = Ret (l', s') \<and> sn_data s' = sn_data s @ bs \<and>
     concat (map (\<lambda>d. batch_readings (snd d)) bs) @ rest =
       reference_readings (thermal_out present (g_temp_node (ts_lib s)) (g_cool_node (ts_lib s))) [demo_thermal_env 2, demo_thermal_env 3]
         (zones_of (ts_lib s), devices_of (ts_lib s), 0)"
proof -
  obtain present s where s: "linux_thermal_init demo_thermal_files (Some demo_thermal_entries) (initial_thermal [] []) = Ret (SUCCESS, s)"
    "thermal_registered present s" "lib_live (ts_lib s)" "sn_faults s = []"
    using demo_thermal_session by blast
  let ?s = "s\<lparr>g_data_callback := Some 1\<rparr>"
  have r: "thermal_registered present ?s" "lib_live (ts_lib ?s)" "g_data_callback ?s = Some 1"
    using s(2,3) by (simp_all add: thermal_registered_def)
  obtain l s1 where l: "thermal_thread_entry (demo_thermal_env 1) (Some demo_thermal_request) ?s = Ret (Some l, s1)"
    using thermal_entry_runs [OF r(1) demo_thermal_request_ok, of "demo_thermal_env 1"] s(4) by fastforce
  show ?thesis
    using thermal_thread_equals_reference [OF r(1,2) demo_thermal_request_ok r(3) l, of "[demo_thermal_env 2, demo_thermal_env 3]"] s(1) l
    by fastforce
qed

text \<open>The throttling level of a cooling domain is a percentage that bounds every device of the domain, as
  long as no device is above its maximal state.\<close>

theorem thermal_cooling_within_range:
  assumes "length cs = n" and "length ms = n" and "\<forall>k<n. cs ! k \<le> ms ! k"
  shows "\<exists>x. highest_pct cs ms 0 n 0 = Ret x \<and> 0 \<le> x \<and> x \<le> 100 \<and>
     (\<forall>k<n. ms ! k > 0 \<longrightarrow> of_nat (unat (cs ! k)) / of_nat (unat (ms ! k)) * 100 \<le> x)"
proof -
  let ?S = "insert 0 (set (map2 cooling_pct cs ms))"
  have at: "cooling_pct (cs ! k) (ms ! k) \<in> ?S" if "k < n" for k
  proof -
    have "map2 cooling_pct cs ms ! k \<in> set (map2 cooling_pct cs ms)" using that assms by (intro nth_mem) simp
    then show ?thesis using that assms by simp
  qed
  have le: "x \<le> 100" if "x \<in> ?S" for x
  proof (cases "x = 0")
    case False
    then have "x \<in> set (map2 cooling_pct cs ms)" using that by blast
    then obtain j where "j < length (map2 cooling_pct cs ms)" "x = map2 cooling_pct cs ms ! j" unfolding in_set_conv_nth by blast
    then obtain k where k: "k < n" "x = cooling_pct (cs ! k) (ms ! k)" using assms(1,2) by simp
    have "unat (cs ! k) \<le> unat (ms ! k)" using assms(3) k(1) by (simp add: word_le_nat_alt)
    then have "(of_nat (unat (cs ! k)) :: double) \<le> of_nat (unat (ms ! k))" by (rule of_nat_mono)
    then have "of_nat (unat (cs ! k)) / of_nat (unat (ms ! k)) * (100 :: double) \<le> 100" by (rule percent_le [OF of_nat_0_le_iff])
    then show ?thesis unfolding k(2) cooling_pct_def by simp
  qed simp
  have "0 \<le> Max ?S" by (rule Max_ge) simp_all
  moreover have "Max ?S \<le> 100" using le by (subst Max_le_iff) auto
  moreover have "of_nat (unat (cs ! k)) / of_nat (unat (ms ! k)) * 100 \<le> Max ?S" if "k < n" "ms ! k > 0" for k
    using Max_ge [OF _ at [OF that(1)]] that(2) by (simp add: cooling_pct_def)
  ultimately show ?thesis using highest_pct_Max [OF assms(1,2)] by blast
qed

theorem thermal_cooling_within_range_witness:
  "\<exists>x. highest_pct [2, 0] [10, 0] 0 2 0 = Ret x \<and> 20 \<le> x \<and> x \<le> 100"
proof -
  have "\<forall>k<2. ([2, 0] :: u8 list) ! k \<le> [10, 0] ! k" by (auto simp: less_2_cases_iff)
  then show ?thesis using thermal_cooling_within_range [of "[2, 0]" 2 "[10, 0]"] by (force simp: less_2_cases_iff)
qed

text \<open>\<open>linux_thermal_deinit\<close> does not look at the collection thread: when a thread that has sampled once goes
  on after it, its next iteration reads the metrics that were freed.\<close>

theorem thermal_deinit_under_thread:
  assumes "lib_inv (ts_lib s)" and "tt_temp_metrics l = Some e"
  shows "\<exists>s'. linux_thermal_deinit s = Ret (SUCCESS, s') \<and> sn_threads s' = sn_threads s \<and>
     g_is_thread_running s' = g_is_thread_running s \<and> thermal_thread_iterate env l s' = Stuck BadDeref"
proof -
  let ?s1 = "linux_thermal_free_backend_info (THERMAL_SEND LEVEL_INFO ''Deinitializing linux-thermal backend'' s)"
  obtain code lib' where c: "linux_thermal_lib_cleanup (ts_lib ?s1) = Ret (code, lib')" "released lib'"
    using lib_cleanup_result [OF assms(1)] by auto
  let ?s' = "THERMAL_SEND LEVEL_INFO ''linux-thermal backend deinitialized successfully'' (?s1\<lparr>ts_lib := lib', g_data_callback := None\<rparr>)"
  have d: "linux_thermal_deinit s = Ret (SUCCESS, ?s')" using c(1) by (simp add: linux_thermal_deinit_def)
  have "thermal_thread_iterate env l ?s' = Stuck BadDeref"
    using c(2) assms(2) by (simp add: thermal_thread_iterate_def linux_thermal_lib_thermal_zones_info_def
        linux_thermal_lib_cooling_devices_info_def thermal_responses_def deref_temp_def released_def Let_def)
  moreover have "sn_threads ?s' = sn_threads s" "g_is_thread_running ?s' = g_is_thread_running s"
    by (simp_all add: linux_thermal_free_backend_info_def)
  ultimately show ?thesis using d by blast
qed

theorem thermal_deinit_under_thread_witness:
  "\<exists>s l s1 l1 s2 s3. linux_thermal_init demo_thermal_files (Some demo_thermal_entries) (initial_thermal [] []) = Ret (SUCCESS, s) \<and>
     thermal_thread_entry (demo_thermal_env 1) (Some demo_thermal_request) s = Ret (Some l, s1) \<and>
     thermal_thread_iterate (demo_thermal_env 2) l s1 = Ret (l1, s2) \<and> linux_thermal_deinit s2 = Ret (SUCCESS, s3) \<and>
     thermal_thread_iterate (demo_thermal_env 3) l1 s3 = Stuck BadDeref"
proof -
  obtain present s where s: "linux_thermal_init demo_thermal_files (Some demo_thermal_entries) (initial_thermal [] []) = Ret (SUCCESS, s)"
    "thermal_registered present s" "lib_live (ts_lib s)" "sn_faults s = []"
    using demo_thermal_session by blast
  obtain l s1 where l: "thermal_thread_entry (demo_thermal_env 1) (Some demo_thermal_request) s = Ret (Some l, s1)" "thermal_inv l []"
    using thermal_entry_runs [OF s(2) demo_thermal_request_ok, of "demo_thermal_env 1"] s(4) by fastforce
  have "lib_live (ts_lib s1)" using thermal_entry_law [OF l(1)] s(3) by simp
  from thermal_iterate_result [OF l(2) this, of "demo_thermal_env 2"]
  obtain l1 s2 where i: "thermal_thread_iterate (demo_thermal_env 2) l s1 = Ret (l1, s2)" "lib_live (ts_lib s2)"
     "tt_temp_metrics l1 = Some (tl_epoch (ts_lib s1))" by blast
  then show ?thesis using thermal_deinit_under_thread [of s2 l1 "tl_epoch (ts_lib s1)" "demo_thermal_env 3"] s(1) l(1) by (auto simp: lib_live_def)
qed

end
