(* ===== verification/LinuxThermalLive.thy ===== *)
theory LinuxThermalLive
  imports LinuxThermalLaws Service
begin

text \<open>
  The Linux thermal backend as the core sees it: the functions \<open>qcperf_linux_thermal_backend_create\<close> installs,
  over the sessions of \<open>LinuxThermalLaws\<close>, are a \<open>served_session\<close>. Its environment also has the entries of
  the thermal directory.
\<close>

type_synonym thermal_env = "sample_env \<times> string list option"

definition thermal_ops :: "thermal_env \<Rightarrow> thermal_state QcPerfBackendPrivate" where
  "thermal_ops f = created (qcperf_linux_thermal_backend_create (fst f) (snd f))"

lemma thermal_ops_simps [simp]:
  "qcperf_backend_init (thermal_ops f) = Some (linux_thermal_init (env_files (fst f)) (snd f))"
  "qcperf_backend_start (thermal_ops f) = Some linux_thermal_start"
  "qcperf_backend_stop (thermal_ops f) = Some (linux_thermal_stop (fst f))"
  "qcperf_backend_deinit (thermal_ops f) = Some linux_thermal_deinit"
  "qcperf_backend_info (thermal_ops f) = Some (\<lambda>i s. Ret (linux_thermal_backend_info i s))"
  "set_message_callback (thermal_ops f) = Some (\<lambda>cb s. Ret (linux_thermal_set_message_callback cb s))"
  "set_data_callback (thermal_ops f) = Some (\<lambda>cb s. Ret (linux_thermal_set_data_callback cb s))"
  by (simp_all add: thermal_ops_def created_def qcperf_linux_thermal_backend_create_def)

lemma thermal_light:
  assumes "g_backend_info s' = g_backend_info s" "ts_lib s' = ts_lib s" "same_control s s'"
  shows "keeps thermal_good thermal_lok s s'" "thermal_tables_ok s' = thermal_tables_ok s"
  using thermal_tables_cong [OF assms(1,2)] assms(3) by (simp_all add: keeps_def same_control_def)

lemma thermal_pointer_light:
  assumes "\<exists>rc s'. f s = (rc, s') \<and> g_backend_info s' = g_backend_info s \<and> ts_lib s' = ts_lib s \<and> same_control s s'" and "thermal_tables_ok s"
  shows "\<exists>rc s'. Ret (f s) = Ret (rc, s') \<and> same_control s s' \<and> thermal_tables_ok s' \<and> keeps thermal_good thermal_lok s s'"
proof -
  obtain rc s' where s': "f s = (rc, s')" "g_backend_info s' = g_backend_info s" "ts_lib s' = ts_lib s" "same_control s s'" using assms(1) by blast
  show ?thesis using s'(1) thermal_light [OF s'(2-)] s'(4) assms(2) by (intro exI [of _ rc] exI [of _ s']) simp
qed

lemma thermal_message_light:
  "\<exists>rc s'. linux_thermal_set_message_callback cb s = (rc, s') \<and> g_backend_info s' = g_backend_info s \<and> ts_lib s' = ts_lib s \<and>
     same_control s s'"
  by (simp add: linux_thermal_set_message_callback_def linux_thermal_logger_set_message_callback_def same_control_def)

lemma thermal_data_light:
  "\<exists>rc s'. linux_thermal_set_data_callback cb s = (rc, s') \<and> g_backend_info s' = g_backend_info s \<and> ts_lib s' = ts_lib s \<and>
     same_control s s'"
  by (simp add: linux_thermal_set_data_callback_def same_control_def)

lemma thermal_info_light: "\<exists>rc i'. linux_thermal_backend_info i s = (rc, i', s)"
  by (cases i) (simp_all add: linux_thermal_backend_info_def)

lemma thermal_init_ready:
  assumes "thermal_tables_ok s"
  shows "\<exists>rc s'. linux_thermal_init fs dir s = Ret (rc, s') \<and> same_control s s' \<and> thermal_tables_ok s'"
proof -
  have "lib_inv (ts_lib s)" using assms by (simp add: thermal_tables_ok_def)
  from thermal_init_result [OF this, of fs dir] obtain rc s' where s': "linux_thermal_init fs dir s = Ret (rc, s')" "same_control s s'"
    "lib_inv (ts_lib s')" "if rc = SUCCESS then lib_live (ts_lib s') \<and> thermal_registered (lib_present (ts_lib s')) s' else unregistered s'"
    by (auto split: if_splits)
  have "thermal_tables_ok s'"
    using s'(3,4) by (cases "rc = SUCCESS") (auto simp: thermal_tables_ok_def thermal_table_def unregistered_def)
  then show ?thesis using s'(1,2) by blast
qed

lemma thermal_deinit_ready:
  assumes "thermal_tables_ok s"
  shows "\<exists>rc s'. linux_thermal_deinit s = Ret (rc, s') \<and> same_control s s' \<and> thermal_tables_ok s'"
proof -
  have "lib_inv (ts_lib s)" using assms by (simp add: thermal_tables_ok_def)
  then obtain code lib' where "linux_thermal_lib_cleanup (ts_lib s) = Ret (code, lib')" "lib_inv lib'"
    using lib_cleanup_result by blast
  then show ?thesis
    by (simp add: linux_thermal_deinit_def Let_def thermal_tables_ok_def no_table_def linux_thermal_free_backend_info_def same_control_def)
qed

interpretation thermal_service: served_session linux_thermal_start linux_thermal_stop thermal_thread thermal_thread_iterate
  orderly disciplined thermal_tables_ok thermal_good thermal_lok thermal_ops fst "\<lambda>s. all_ended s \<or> g_is_thread_running s"
proof unfold_locales
  fix s s' :: thermal_state
  assume "same_control s s'" "orderly s"
  then show "orderly s'" using orderly_cong by blast
next
  fix f g cb s
  assume "set_message_callback (thermal_ops f) = Some g" "thermal_tables_ok s"
  then show "\<exists>rc s'. g cb s = Ret (rc, s') \<and> same_control s s' \<and> thermal_tables_ok s' \<and> keeps thermal_good thermal_lok s s'"
    using thermal_pointer_light [of "linux_thermal_set_message_callback cb" s, OF thermal_message_light] by clarsimp
next
  fix f g cb s
  assume "set_data_callback (thermal_ops f) = Some g" "thermal_tables_ok s"
  then show "\<exists>rc s'. g cb s = Ret (rc, s') \<and> same_control s s' \<and> thermal_tables_ok s' \<and> keeps thermal_good thermal_lok s s'"
    using thermal_pointer_light [of "linux_thermal_set_data_callback cb" s, OF thermal_data_light] by clarsimp
next
  fix f h i s
  assume "qcperf_backend_info (thermal_ops f) = Some h" "thermal_tables_ok s"
  then show "\<exists>rc i' s'. h i s = Ret (rc, i', s') \<and> same_control s s' \<and> thermal_tables_ok s' \<and> keeps thermal_good thermal_lok s s'"
    using thermal_info_light [of i s] by (auto simp: same_control_def keeps_def)
qed (use thermal_init_ready thermal_deinit_ready in \<open>auto simp: all_pointers_set_def\<close>)

end
