(* ===== verification/QcomDsp.thy ===== *)
theory QcomDsp
  imports QcperfCommon
begin

text \<open>
  The DSP library, \<open>backends/qcom-dsp\<close>: sessions with the sysmon query service of a DSP over FastRPC
  (\<open>qcom_dsp.c\<close>, the Linux branches) and the table of functions the Windows build loads from the FastRPC
  library (\<open>fastrpc_runtime.c\<close>). What FastRPC answers is an argument; the calls made to it are recorded.
\<close>

section \<open>Strings\<close>

text \<open>\<open>strlcpy\<close> and \<open>strlcat\<close> of \<open>fastrpc_runtime.c\<close>: the result and the string left in \<open>dst\<close>.\<close>

definition strlcpy :: "string \<Rightarrow> string \<Rightarrow> nat \<Rightarrow> nat \<times> string" where
  "strlcpy dst src n =
     (let src_len = length src
      in (src_len, if n > 0 then take (if src_len \<ge> n then n - 1 else src_len) src else dst))"

definition strlcat :: "string \<Rightarrow> string \<Rightarrow> nat \<Rightarrow> nat \<times> string" where
  "strlcat dst src n =
     (let dst_len = min (length dst) n; src_len = length src
      in (dst_len + src_len,
          if dst_len < n
          then take dst_len dst @ take (let remaining = n - dst_len - 1 in if src_len < remaining then src_len else remaining) src
          else dst))"

lemma strlcpy_string: "n > 0 \<Longrightarrow> snd (strlcpy dst src n) = take (n - 1) src"
  by (auto simp: strlcpy_def Let_def min_def)

lemma strlcat_string:
  assumes "length dst < n"
  shows "snd (strlcat dst src n) = take (n - 1) (dst @ src)"
proof -
  have "take (let r = n - length dst - 1 in if length src < r then length src else r) src = take (n - 1 - length dst) src"
    by (simp add: Let_def min_def diff_commute)
  then show ?thesis using assms by (simp add: strlcat_def Let_def)
qed

section \<open>Data\<close>

datatype DspDomainId = DSP_ADSP | DSP_NPU0 | DSP_MAX

fun domain_index :: "DspDomainId \<Rightarrow> nat" where
  "domain_index DSP_ADSP = 0"
| "domain_index DSP_NPU0 = 3"
| "domain_index DSP_MAX = 4"

datatype DspReturnCode =
    DSP_LIB_SUCCESS
  | DSP_LIB_FAIL
  | DSP_SYSMON_QUERY_OPEN_FAILED
  | DSP_SYSMON_QUERY_INIT_FAILED
  | DSP_SYSMON_QUERY_RPC_MEM_ALLOC_FAILED
  | DSP_SYSMON_QUERY_GET_PROF_DATA_FAILED
  | DSP_SYSMON_QUERY_DEINIT_FAILED
  | DSP_REMOTE_SESSION_CONTROL_SUCCESS
  | DSP_REMOTE_SESSION_CONTROL_FAILED

text \<open>The C fields are of type \<open>float\<close>; \<open>reserved0\<close> to \<open>reserved9\<close> are one list.\<close>

record sysmon_query_prof_data =
  q6_utilization :: double
  q6_clock :: u32
  hvx_utilization :: double
  hmx_utilization :: double
  sq_reserved :: "double list"

definition zero_prof_data :: sysmon_query_prof_data where
  "zero_prof_data = \<lparr>q6_utilization = 0, q6_clock = 0, hvx_utilization = 0, hmx_utilization = 0, sq_reserved = replicate 10 0\<rparr>"

text \<open>
  What FastRPC answers: statuses, the handle \<open>sysmonquery_open\<close> stores if it does, whether \<open>rpcmem_alloc\<close>
  finds memory, and what \<open>sysmonquery_get_profdata\<close> leaves in the block it is given and in \<open>*no_metrics\<close>.
\<close>

record fastrpc =
  fr_session_control :: int
  fr_open :: "string \<Rightarrow> int \<times> u64 option"
  fr_init :: "u64 \<Rightarrow> int"
  fr_alloc :: bool
  fr_profdata :: "u64 \<Rightarrow> sysmon_query_prof_data option \<Rightarrow> int \<Rightarrow> int \<times> sysmon_query_prof_data \<times> int"
  fr_deinit :: "u64 \<Rightarrow> int"

text \<open>The calls, with what the caller was told.\<close>

datatype dsp_call =
    RemoteSessionControl int
  | SysmonOpen string "int \<times> u64 option"
  | SysmonInit u64 int
  | RpcmemAlloc bool
  | SysmonGetProfdata u64 int
  | SysmonDeinit u64 int
  | RpcmemFree
  | SysmonClose u64

text \<open>The static arrays \<open>h\<close> and \<open>sysmon_query_prof_data_ptr\<close>; a pointer is the content of its block.\<close>

record dsp_lib =
  dsp_h :: "u64 list"
  dsp_prof :: "sysmon_query_prof_data option list"
  dsp_calls :: "dsp_call list"

definition initial_dsp :: dsp_lib where
  "initial_dsp = \<lparr>dsp_h = replicate (domain_index DSP_MAX) 0, dsp_prof = replicate (domain_index DSP_MAX) None, dsp_calls = []\<rparr>"

definition dsp_called :: "dsp_call \<Rightarrow> dsp_lib \<Rightarrow> dsp_lib" where
  "dsp_called c s = s\<lparr>dsp_calls := dsp_calls s @ [c]\<rparr>"

section \<open>Operations\<close>

abbreviation (input) sysmonquery_URI :: string where
  "sysmonquery_URI \<equiv> ''file:///libsysmonquery_skel.so?sysmonquery_skel_handle_invoke&_modver=1.0''"
abbreviation (input) ADSP_DOMAIN :: string where "ADSP_DOMAIN \<equiv> ''&_dom=adsp''"
abbreviation (input) CDSP_DOMAIN :: string where "CDSP_DOMAIN \<equiv> ''&_dom=cdsp''"

text \<open>The string left in \<open>full_uri\<close>, which was zeroed first.\<close>

definition get_full_uri_info :: "string \<Rightarrow> nat \<Rightarrow> DspDomainId \<Rightarrow> string" where
  "get_full_uri_info uri n domain_id =
     (let full_uri = snd (strlcpy '''' uri n)
      in case domain_id of
           DSP_ADSP \<Rightarrow> snd (strlcat full_uri ADSP_DOMAIN n)
         | DSP_NPU0 \<Rightarrow> snd (strlcat full_uri CDSP_DOMAIN n)
         | DSP_MAX \<Rightarrow> '''')"

definition set_remote_process_domain :: "fastrpc \<Rightarrow> DspDomainId \<Rightarrow> dsp_lib \<Rightarrow> DspReturnCode \<times> dsp_lib" where
  "set_remote_process_domain fr domain_id s =
     (if domain_id = DSP_NPU0
      then (if fr_session_control fr \<noteq> 0 then DSP_REMOTE_SESSION_CONTROL_FAILED else DSP_REMOTE_SESSION_CONTROL_SUCCESS,
            dsp_called (RemoteSessionControl (fr_session_control fr)) s)
      else (DSP_REMOTE_SESSION_CONTROL_SUCCESS, s))"

definition qcom_dsp_deinit :: "fastrpc \<Rightarrow> DspDomainId \<Rightarrow> dsp_lib \<Rightarrow> (DspReturnCode \<times> dsp_lib) outcome" where
  "qcom_dsp_deinit fr domain_id s =
     (let d = domain_index domain_id
      in obind (arr_read (dsp_h s) d) (\<lambda>h.
           let rc = fr_deinit fr h;
               return_code = (if rc \<noteq> 0 then DSP_SYSMON_QUERY_DEINIT_FAILED else DSP_LIB_SUCCESS);
               s1 = dsp_called (SysmonDeinit h rc) s
           in obind (arr_read (dsp_prof s1) d) (\<lambda>p.
                let s2 = (if p \<noteq> None then dsp_called RpcmemFree (s1\<lparr>dsp_prof := (dsp_prof s1)[d := None]\<rparr>) else s1);
                    s3 = (if h \<noteq> 0 then dsp_called (SysmonClose h) (s2\<lparr>dsp_h := (dsp_h s2)[d := 0]\<rparr>) else s2)
                in Ret (return_code, s3))))"

text \<open>From \<open>sysmonquery_open\<close> to the last test of \<open>return_code\<close>.\<close>

definition dsp_open_session :: "fastrpc \<Rightarrow> string \<Rightarrow> nat \<Rightarrow> dsp_lib \<Rightarrow> (DspReturnCode \<times> dsp_lib) outcome" where
  "dsp_open_session fr full_uri d s =
     (let (opened, h) = fr_open fr full_uri;
          s1 = dsp_called (SysmonOpen full_uri (opened, h)) s
      in obind (case h of None \<Rightarrow> Ret (dsp_h s1) | Some x \<Rightarrow> arr_write (dsp_h s1) d x) (\<lambda>hs.
           let s2 = s1\<lparr>dsp_h := hs\<rparr>
           in if opened \<noteq> 0 then Ret (DSP_SYSMON_QUERY_OPEN_FAILED, s2)
              else obind (arr_read (dsp_h s2) d) (\<lambda>x.
                let rc = fr_init fr x; s3 = dsp_called (SysmonInit x rc) s2
                in if rc \<noteq> 0 then Ret (DSP_SYSMON_QUERY_INIT_FAILED, s3)
                   else let s4 = dsp_called (RpcmemAlloc (fr_alloc fr)) s3
                        in obind (arr_write (dsp_prof s4) d (if fr_alloc fr then Some zero_prof_data else None)) (\<lambda>ps.
                             Ret (if fr_alloc fr then DSP_LIB_SUCCESS else DSP_SYSMON_QUERY_RPC_MEM_ALLOC_FAILED,
                                  s4\<lparr>dsp_prof := ps\<rparr>)))))"

definition qcom_dsp_init :: "fastrpc \<Rightarrow> DspDomainId \<Rightarrow> dsp_lib \<Rightarrow> (DspReturnCode \<times> dsp_lib) outcome" where
  "qcom_dsp_init fr domain_id s =
     (let full_uri = get_full_uri_info sysmonquery_URI 256 domain_id;
          (return_remote_code, s1) = set_remote_process_domain fr domain_id s
      in if return_remote_code \<noteq> DSP_REMOTE_SESSION_CONTROL_SUCCESS then Ret (return_remote_code, s1)
         else obind (dsp_open_session fr full_uri (domain_index domain_id) s1) (\<lambda>(return_code, s2).
           if return_code \<noteq> DSP_LIB_SUCCESS
           then obind (qcom_dsp_deinit fr domain_id s2) (\<lambda>(_, s3). Ret (return_code, s3))
           else Ret (return_code, s2)))"

text \<open>The result is what the returned pointer points to; \<open>no_metrics\<close> is the content of the caller's variable.\<close>

definition qcom_dsp_get_prof_data ::
  "fastrpc \<Rightarrow> DspDomainId \<Rightarrow> int option \<Rightarrow> dsp_lib \<Rightarrow> (sysmon_query_prof_data option \<times> int option \<times> dsp_lib) outcome" where
  "qcom_dsp_get_prof_data fr domain_id no_metrics s =
     (case no_metrics of
        None \<Rightarrow> Ret (None, None, s)
      | Some n \<Rightarrow>
          let d = domain_index domain_id
          in obind (arr_read (dsp_h s) d) (\<lambda>h.
             obind (arr_read (dsp_prof s) d) (\<lambda>p.
               let (rc, content, n') = fr_profdata fr h p n;
                   p' = (case p of None \<Rightarrow> None | Some _ \<Rightarrow> Some content);
                   s1 = (dsp_called (SysmonGetProfdata h rc) s)\<lparr>dsp_prof := (dsp_prof s)[d := p']\<rparr>
               in Ret (if rc = 0 then p' else None, Some n', s1))))"

section \<open>The FastRPC library on Windows\<close>

text \<open>
  A loaded library is known by its path, as to \<open>LoadLibraryA\<close>; a function pointer is the library it was looked
  up in, which must still be loaded when it is called. \<open>rt_loaded\<close> has a library as often as it was loaded and
  not freed.
\<close>

abbreviation (input) MAX_NUMBER_OF_DSPs :: nat where "MAX_NUMBER_OF_DSPs \<equiv> 12"

record rpc_runtime =
  rt_handle :: "string option list"
  rt_open :: "string option list"
  rt_close :: "string option list"
  rt_invoke :: "string option list"
  rt_control :: "string option list"
  rt_alloc :: "string option list"
  rt_free :: "string option list"
  rt_loaded :: "string list"

definition initial_runtime :: rpc_runtime where
  "initial_runtime =
     \<lparr>rt_handle = replicate MAX_NUMBER_OF_DSPs None, rt_open = replicate MAX_NUMBER_OF_DSPs None,
      rt_close = replicate MAX_NUMBER_OF_DSPs None, rt_invoke = replicate MAX_NUMBER_OF_DSPs None,
      rt_control = replicate MAX_NUMBER_OF_DSPs None, rt_alloc = replicate MAX_NUMBER_OF_DSPs None,
      rt_free = replicate MAX_NUMBER_OF_DSPs None, rt_loaded = []\<rparr>"

text \<open>
  What the service manager answers: whether it can be opened, which services exist (a query handle for a
  name), whether the size probe of \<open>QueryServiceConfigA\<close> ends with \<open>ERROR_INSUFFICIENT_BUFFER\<close>, the path of
  the driver if the configuration can be read, and the environment variable \<open>windir\<close>.
\<close>

record service_manager =
  sm_opens :: bool
  sm_service :: "string \<Rightarrow> bool"
  sm_size_probe :: bool
  sm_binary_path :: "string option"
  sm_windir :: "string option"

abbreviation (input) MAX_PATH :: nat where "MAX_PATH \<equiv> 260"
abbreviation (input) FASTRPC_DLL_NAME :: string where "FASTRPC_DLL_NAME \<equiv> ''libcdsprpc.dll''"

definition g_fastrpcServiceName :: "string list" where
  "g_fastrpcServiceName = [''qcadsprpc'', ''qcadsprpc'', ''qcadsprpc'', ''qcnspmcdm'', ''qcnspmcdm'', ''qcadsprpc'']"

definition g_fastrpcServiceNameNew :: "string list" where
  "g_fastrpcServiceNameNew =
     [''qcadsprpc_8480'', ''qcadsprpc_8480'', ''qcadsprpc_8480'', ''qcnspmcdm_8480'', ''qcnspmcdm_8480'', ''qcadsprpc_8480'']"

text \<open>The part of a string before the last backslash, and the part after the first \<open>\SystemRoot\<close>.\<close>

definition before_last_backslash :: "string \<Rightarrow> string option" where
  "before_last_backslash path =
     (if CHR 0x5C \<in> set path then Some (rev (tl (dropWhile (\<lambda>c. c \<noteq> CHR 0x5C) (rev path)))) else None)"

fun after_system_root :: "string \<Rightarrow> string option" where
  "after_system_root [] = None"
| "after_system_root (c # cs) =
     (if has_prefix (CHR 0x5C # ''SystemRoot'') (c # cs) then Some (drop 11 (c # cs)) else after_system_root cs)"

definition get_fastrpc_dll_path :: "service_manager \<Rightarrow> nat \<Rightarrow> string option" where
  "get_fastrpc_dll_path sm q =
     (if \<not> sm_opens sm then None
      else if \<not> (q < 6 \<and> (sm_service sm (g_fastrpcServiceName ! q) \<or> sm_service sm (g_fastrpcServiceNameNew ! q))) then None
      else if \<not> sm_size_probe sm then None
      else case sm_binary_path sm of
             None \<Rightarrow> None
           | Some path \<Rightarrow>
               (case sm_windir sm of
                  None \<Rightarrow> None
                | Some windir \<Rightarrow>
                    (case before_last_backslash path of
                       None \<Rightarrow> None
                     | Some dir \<Rightarrow>
                         Some (snprintf_buf MAX_PATH
                           ((case after_system_root dir of Some rest \<Rightarrow> windir @ rest | None \<Rightarrow> dir)
                            @ CHR 0x5C # FASTRPC_DLL_NAME)))))"

text \<open>What the loader answers: whether a library can be loaded from a path, and which symbols it exports.\<close>

record dll_system =
  dl_services :: service_manager
  dl_load :: "string \<Rightarrow> bool"
  dl_exports :: "string \<Rightarrow> string \<Rightarrow> bool"

text \<open>\<open>GetProcAddress\<close>, and \<open>FreeLibrary\<close> with the handle cleared.\<close>

definition get_proc :: "dll_system \<Rightarrow> string \<Rightarrow> string \<Rightarrow> string option" where
  "get_proc sys lib name = (if dl_exports sys lib name then Some lib else None)"

definition free_library :: "nat \<Rightarrow> rpc_runtime \<Rightarrow> rpc_runtime" where
  "free_library q s =
     (case rt_handle s ! q of
        None \<Rightarrow> s
      | Some lib \<Rightarrow> s\<lparr>rt_loaded := remove1 lib (rt_loaded s), rt_handle := (rt_handle s)[q := None]\<rparr>)"

definition fastrpc_load_symbols :: "dll_system \<Rightarrow> int \<Rightarrow> string option \<Rightarrow> rpc_runtime \<Rightarrow> int \<times> rpc_runtime" where
  "fastrpc_load_symbols sys q6Processor dllPath s =
     (if q6Processor < 0 \<or> int MAX_NUMBER_OF_DSPs \<le> q6Processor then (-1, s)
      else let q = nat q6Processor
           in if rt_handle s ! q \<noteq> None then (0, s)
              else let found = get_fastrpc_dll_path (dl_services sys) q;
                       path = (if dllPath = None \<or> dllPath = Some '''' then found
                               else (case found of Some p \<Rightarrow> Some p | None \<Rightarrow> dllPath))
                   in case path of
                        None \<Rightarrow> (-1, s)
                      | Some lib \<Rightarrow>
                          if \<not> dl_load sys lib then (-1, s\<lparr>rt_handle := (rt_handle s)[q := None]\<rparr>)
                          else let s1 = s\<lparr>rt_handle := (rt_handle s)[q := Some lib], rt_loaded := lib # rt_loaded s,
                                          rt_open := (rt_open s)[q := get_proc sys lib ''remote_handle64_open''],
                                          rt_invoke := (rt_invoke s)[q := get_proc sys lib ''remote_handle64_invoke''],
                                          rt_close := (rt_close s)[q := get_proc sys lib ''remote_handle64_close''],
                                          rt_control := (rt_control s)[q := get_proc sys lib ''remote_session_control''],
                                          rt_alloc := (rt_alloc s)[q := get_proc sys lib ''rpcmem_alloc''],
                                          rt_free := (rt_free s)[q := get_proc sys lib ''rpcmem_free'']\<rparr>
                               in if rt_open s1 ! q = None \<or> rt_invoke s1 ! q = None \<or> rt_close s1 ! q = None
                                  then (-1, free_library q s1) else (0, s1))"

definition fastrpc_unload_symbols :: "int \<Rightarrow> rpc_runtime \<Rightarrow> rpc_runtime" where
  "fastrpc_unload_symbols q6Processor s =
     (if q6Processor < 0 \<or> int MAX_NUMBER_OF_DSPs \<le> q6Processor then s
      else let q = nat q6Processor; s1 = free_library q s
           in s1\<lparr>rt_open := (rt_open s1)[q := None], rt_invoke := (rt_invoke s1)[q := None],
                 rt_close := (rt_close s1)[q := None], rt_control := (rt_control s1)[q := None],
                 rt_alloc := (rt_alloc s1)[q := None], rt_free := (rt_free s1)[q := None]\<rparr>)"

text \<open>\<open>rpcmem_alloc\<close> and \<open>rpcmem_free\<close> call the first pointer that is set: \<open>None\<close> when there is none.\<close>

fun first_pointer :: "string option list \<Rightarrow> string option" where
  "first_pointer [] = None"
| "first_pointer (p # ps) = (case p of Some lib \<Rightarrow> Some lib | None \<Rightarrow> first_pointer ps)"

definition call_pointer :: "string option \<Rightarrow> rpc_runtime \<Rightarrow> string option outcome" where
  "call_pointer p s =
     (case p of None \<Rightarrow> Ret None | Some lib \<Rightarrow> if lib \<in> set (rt_loaded s) then Ret (Some lib) else Stuck BadDeref)"

definition windows_rpcmem_alloc :: "rpc_runtime \<Rightarrow> string option outcome" where
  "windows_rpcmem_alloc s = call_pointer (first_pointer (rt_alloc s)) s"

definition windows_rpcmem_free :: "rpc_runtime \<Rightarrow> string option outcome" where
  "windows_rpcmem_free s = call_pointer (first_pointer (rt_free s)) s"

end
