(* ===== verification/DspNpu.thy ===== *)
theory DspNpu
  imports Session OsUtils Core QcomDsp
begin

text \<open>
  The DSP NPU backend, \<open>backends/qcom-dsp-npu\<close>: its metric table, its seven operations and the thread that
  samples the NPU through the DSP library. Theorems are in \<open>DspNpuProps\<close>.
\<close>

section \<open>The metric table\<close>

abbreviation (input) DSP_NPU_CAPABILITY_0_ID :: u8 where "DSP_NPU_CAPABILITY_0_ID \<equiv> 0"
abbreviation (input) DSP_NPU_CAPABILITIES_LEN :: nat where "DSP_NPU_CAPABILITIES_LEN \<equiv> 1"
abbreviation (input) DSP_NPU_CAPABILITY_0_METRIC_COUNT :: nat where "DSP_NPU_CAPABILITY_0_METRIC_COUNT \<equiv> 4"

definition npu_streaming_rates :: "u16 list" where
  "npu_streaming_rates = [100, 200, 300, 400, 500, 600, 700, 800, 900, 1000]"

definition npu_sampling_rates :: "u16 list" where
  "npu_sampling_rates = [1, 5, 10, 50, 100, 200]"

definition dsp_npu_capability_0_init_metrics :: "QcPerfMetricInfo list \<Rightarrow> QcPerfMetricInfo list" where
  "dsp_npu_capability_0_init_metrics metrics_data =
     metrics_data
       [0 := set_metric_info 0 ''Q6 Utilization'' ''Average effective Q6 clock utilization with respect to max Q6 clock'' ''%'',
        1 := set_metric_info 1 ''Q6 Clock'' ''Average Q6 clock frequency'' ''KHz'',
        2 := set_metric_info 2 ''HVX Utilization'' ''Average HVX utilization with respect to max Q6 clock'' ''%'',
        3 := set_metric_info 3 ''HMX Utilization'' ''Average HMX utilization with respect to max Q6 clock'' ''%'']"

section \<open>State\<close>

text \<open>The environment: what the clock shows and what FastRPC answers.\<close>

record npu_env =
  ne_clock :: clock_reading
  ne_rpc :: fastrpc

text \<open>The local variables of \<open>get_dsp_npu_data\<close> between two iterations of its loop.\<close>

record npu_local =
  nl_request :: QcPerfRequest
  nl_table :: nat
  nl_cap :: nat
  nl_samples_per_stream :: u32
  nl_total_metrics :: u32
  nl_streaming_rate_ns :: u64
  nl_data :: QcPerfData
  nl_sample_count :: u32
  nl_last_stream_time :: u64
  nl_current_time :: u64
  nl_no_metrics :: int
  nl_slept :: nat

record npu_state = "npu_local session" +
  g_capability_0_metrics_data :: "QcPerfMetricInfo list"
  g_is_dsp_initialized :: bool
  g_dsp :: dsp_lib

definition initial_npu :: "oom \<Rightarrow> npu_state" where
  "initial_npu faults = session.extend (initial_session faults)
     \<lparr>g_capability_0_metrics_data = replicate DSP_NPU_CAPABILITY_0_METRIC_COUNT zero_metric_info,
      g_is_dsp_initialized = False, g_dsp = initial_dsp\<rparr>"

definition npu_send_message :: "QcPerfMessageLevel \<Rightarrow> string \<Rightarrow> npu_state \<Rightarrow> npu_state" where
  "npu_send_message level txt s = (if length txt > 0 then post_message (message_clamped 0 level txt) s else s)"

definition NPU_SEND :: "QcPerfMessageLevel \<Rightarrow> string \<Rightarrow> npu_state \<Rightarrow> npu_state" where
  "NPU_SEND level txt s = (if g_message_callback s \<noteq> None then npu_send_message level txt s else s)"

section \<open>Operations\<close>

definition dsp_npu_set_message_callback :: "callback \<Rightarrow> npu_state \<Rightarrow> QcPerfReturnCode \<times> npu_state" where
  "dsp_npu_set_message_callback cb s = (SUCCESS, s\<lparr>g_message_callback := cb\<rparr>)"

definition dsp_npu_alloc :: "npu_state \<Rightarrow> QcPerfReturnCode \<times> npu_state" where
  "dsp_npu_alloc s =
     (let (ok, s1) = alloc s
      in if \<not> ok then (CALLOC_FAILED, s1\<lparr>g_backend_info := (g_backend_info s1)\<lparr>bi_capabilities_list := None\<rparr>\<rparr>)
         else (SUCCESS, s1\<lparr>sn_table := Suc (sn_table s1),
                 g_backend_info := (g_backend_info s1)
                   \<lparr>bi_capabilities_list := Some (replicate DSP_NPU_CAPABILITIES_LEN zero_capability),
                    bi_capabilities_list_length := of_nat DSP_NPU_CAPABILITIES_LEN\<rparr>\<rparr>))"

definition dsp_npu_free :: "npu_state \<Rightarrow> npu_state" where
  "dsp_npu_free s = s\<lparr>g_backend_info := (g_backend_info s)\<lparr>bi_capabilities_list := None, bi_capabilities_list_length := 0\<rparr>\<rparr>"

definition npu_fill_capability :: "QcPerfMetricInfo list \<Rightarrow> QcPerfCapabilityInfo \<Rightarrow> QcPerfCapabilityInfo" where
  "npu_fill_capability metrics c =
     (let (st, stn) = copy_rates npu_streaming_rates 0 (ci_streaming_rate c, ci_streaming_rate_len c);
          (sa, san) = copy_rates npu_sampling_rates 0 (ci_sampling_rate c, ci_sampling_rate_len c)
      in c\<lparr>ci_capability_id := DSP_NPU_CAPABILITY_0_ID, ci_name := snprintf_buf CAPABILITY_NAME_MAX_LEN ''npu'',
           ci_name_len := length (snprintf_buf CAPABILITY_NAME_MAX_LEN ''npu''),
           ci_metric_ids_list_len := of_nat DSP_NPU_CAPABILITY_0_METRIC_COUNT,
           ci_streaming_rate := st, ci_streaming_rate_len := stn,
           ci_sampling_rate := sa, ci_sampling_rate_len := san,
           ci_metric_ids_list := Some metrics\<rparr>)"

text \<open>The value of an enumerator of \<open>DspReturnCode\<close>, as the messages print it.\<close>

fun dsp_code :: "DspReturnCode \<Rightarrow> nat" where
  "dsp_code DSP_LIB_SUCCESS = 0"
| "dsp_code DSP_LIB_FAIL = 1"
| "dsp_code DSP_SYSMON_QUERY_OPEN_FAILED = 2"
| "dsp_code DSP_SYSMON_QUERY_INIT_FAILED = 3"
| "dsp_code DSP_SYSMON_QUERY_RPC_MEM_ALLOC_FAILED = 4"
| "dsp_code DSP_SYSMON_QUERY_GET_PROF_DATA_FAILED = 5"
| "dsp_code DSP_SYSMON_QUERY_DEINIT_FAILED = 6"
| "dsp_code DSP_REMOTE_SESSION_CONTROL_SUCCESS = 7"
| "dsp_code DSP_REMOTE_SESSION_CONTROL_FAILED = 8"

definition npu_open_message :: "DspReturnCode \<Rightarrow> string" where
  "npu_open_message dsp_ret =
     (if dsp_ret = DSP_REMOTE_SESSION_CONTROL_FAILED then ''Remote session control failed for DSP NPU: error code ''
      else if dsp_ret = DSP_SYSMON_QUERY_OPEN_FAILED then ''Failed to open sysmon query for DSP NPU: error code ''
      else if dsp_ret = DSP_SYSMON_QUERY_INIT_FAILED then ''Failed to initialize sysmon query for DSP NPU: error code ''
      else ''Failed to initialize DSP library : error code '') @ show_u (dsp_code dsp_ret)"

definition dsp_npu_init :: "npu_env \<Rightarrow> npu_state \<Rightarrow> (QcPerfReturnCode \<times> npu_state) outcome" where
  "dsp_npu_init env s =
     (let s1 = NPU_SEND LEVEL_INFO ''Initializing DSP NPU backend'' s;
          s2 = s1\<lparr>g_backend_info := (g_backend_info s1)\<lparr>bi_backend_id := of_nat (backend_index BACKEND_DSP_NPU)\<rparr>\<rparr>
      in obind (qcom_dsp_init (ne_rpc env) DSP_NPU0 (g_dsp s2)) (\<lambda>(dsp_ret, d).
           let s3 = s2\<lparr>g_dsp := d\<rparr>
           in if dsp_ret \<noteq> DSP_LIB_SUCCESS then Ret (FAILED, NPU_SEND LEVEL_ERROR (npu_open_message dsp_ret) s3)
              else let (ret, s4) = dsp_npu_alloc (s3\<lparr>g_is_dsp_initialized := True\<rparr>)
                   in if ret = SUCCESS
                      then let ms = dsp_npu_capability_0_init_metrics (g_capability_0_metrics_data s4);
                               s5 = s4\<lparr>g_capability_0_metrics_data := ms\<rparr>
                           in case bi_capabilities_list (g_backend_info s5) of
                                None \<Rightarrow> Stuck BadDeref
                              | Some cs \<Rightarrow> obind (arr_read cs 0) (\<lambda>c.
                                  Ret (SUCCESS, NPU_SEND LEVEL_INFO ''DSP NPU backend initialized successfully''
                                    (s5\<lparr>g_backend_info := (g_backend_info s5)
                                       \<lparr>bi_capabilities_list := Some (cs[0 := npu_fill_capability ms c])\<rparr>\<rparr>)))
                      else let s5 = dsp_npu_free (NPU_SEND LEVEL_ERROR ''Failed to initialize DSP NPU backend: memory allocation failed'' s4)
                           in if g_is_dsp_initialized s5
                              then obind (qcom_dsp_deinit (ne_rpc env) DSP_NPU0 (g_dsp s5)) (\<lambda>(_, d').
                                Ret (ret, s5\<lparr>g_dsp := d', g_is_dsp_initialized := False\<rparr>))
                              else Ret (ret, s5)))"

definition dsp_npu_backend_info ::
  "QcPerfBackendInfo option \<Rightarrow> npu_state \<Rightarrow> QcPerfReturnCode \<times> QcPerfBackendInfo option \<times> npu_state" where
  "dsp_npu_backend_info info s =
     (case info of
        None \<Rightarrow> (NULL_POINTER, None, NPU_SEND LEVEL_ERROR ''Backend info is NULL'' s)
      | Some _ \<Rightarrow> (SUCCESS, Some (g_backend_info s),
                   NPU_SEND LEVEL_INFO ''Retrieving DSP NPU backend capabilities information'' s))"

definition dsp_npu_set_data_callback :: "callback \<Rightarrow> npu_state \<Rightarrow> QcPerfReturnCode \<times> npu_state" where
  "dsp_npu_set_data_callback cb s =
     (if cb = None then (INVALID_ARGUMENTS, s)
      else if g_data_callback s \<noteq> None then (CALLBACK_ALREADY_SET, s)
      else (SUCCESS, s\<lparr>g_data_callback := cb\<rparr>))"

definition npu_validate_request :: "QcPerfRequest \<Rightarrow> npu_state \<Rightarrow> (QcPerfReturnCode \<times> npu_state) outcome" where
  "npu_validate_request rq s =
     obind (find_capability (rq_capability_id rq) (g_backend_info s)) (\<lambda>found.
       let id_txt = show_u (unat (rq_capability_id rq)) in
       case found of
         None \<Rightarrow> Ret (CAPABILITY_NOT_FOUND,
                   NPU_SEND LEVEL_ERROR (''Capability ID '' @ id_txt @ '' not found'') s)
       | Some i \<Rightarrow>
           obind (deref_capability (sn_table s) i s) (\<lambda>ci.
             obind (rate_scan (rq_sampling_rate rq) (unat (ci_sampling_rate_len ci)) (ci_sampling_rate ci)) (\<lambda>sampling_ok.
               if \<not> sampling_ok
               then Ret (INVALID_ARGUMENTS, NPU_SEND LEVEL_ERROR
                      (''Invalid sampling rate '' @ show_u (unat (rq_sampling_rate rq)) @ '' for capability ID '' @ id_txt) s)
               else obind (rate_scan (rq_streaming_rate rq) (unat (ci_streaming_rate_len ci)) (ci_streaming_rate ci)) (\<lambda>streaming_ok.
                 if \<not> streaming_ok
                 then Ret (INVALID_ARGUMENTS, NPU_SEND LEVEL_ERROR
                        (''Invalid streaming rate '' @ show_u (unat (rq_streaming_rate rq)) @ '' for capability ID '' @ id_txt) s)
                 else Ret (SUCCESS, NPU_SEND LEVEL_INFO
                        (''Request validation successful for capability ID '' @ id_txt) s)))))"

definition npu_thread_attrs :: "QcPerfRequest \<Rightarrow> QThreadAttributes" where
  "npu_thread_attrs rq =
     \<lparr>thread_name = snprintf_buf THREAD_NAME_SIZE ''qcperf_dsp_npu_thread'',
      thread_name_len = of_nat (length (snprintf_buf THREAD_NAME_SIZE ''qcperf_dsp_npu_thread'')),
      thread_priority = 0, thread_stack_size = 0, thread_params = Some rq\<rparr>"

definition dsp_npu_start :: "QcPerfRequest option \<Rightarrow> npu_state \<Rightarrow> (QcPerfReturnCode \<times> npu_state) outcome" where
  "dsp_npu_start request s0 =
     (let s = NPU_SEND LEVEL_INFO ''Starting profiling'' s0
      in case request of
           None \<Rightarrow> Ret (NULL_POINTER, s)
         | Some rq \<Rightarrow>
             obind (npu_validate_request rq s) (\<lambda>(ret, s1).
               if ret \<noteq> SUCCESS then Ret (ret, NPU_SEND LEVEL_ERROR ''Request validation failed'' s1)
               else if g_data_callback s1 = None
               then Ret (FAILED, NPU_SEND LEVEL_ERROR ''Data Callback is not set'' s1)
               else if g_is_thread_running s1
               then Ret (ALREADY_INITIALIZED, NPU_SEND LEVEL_WARNING ''Performance monitoring thread is already running'' s1)
               else let (thread_ret, s2) = spawn (npu_thread_attrs rq) s1
                    in if thread_ret \<noteq> QTHREAD_CREATE_SUCCESS
                       then Ret (FAILED, NPU_SEND LEVEL_ERROR ''Failed to create performance monitoring thread'' s2)
                       else Ret (SUCCESS, NPU_SEND LEVEL_INFO ''Performance monitoring thread started successfully'' s2)))"

section \<open>The collection thread\<close>

text \<open>From the first statement to the loop.\<close>

definition npu_thread_entry ::
  "npu_env \<Rightarrow> QcPerfRequest option \<Rightarrow> npu_state \<Rightarrow> (npu_local option \<times> npu_state) outcome" where
  "npu_thread_entry env param s0 =
     (case param of
        None \<Rightarrow> Ret (None, NPU_SEND LEVEL_ERROR ''Request parameter is NULL in thread function'' s0)
      | Some rq \<Rightarrow>
          let s = s0\<lparr>g_is_thread_running := True\<rparr> in
          obind (find_capability (rq_capability_id rq) (g_backend_info s)) (\<lambda>found.
            case found of
              None \<Rightarrow> Ret (None, (NPU_SEND LEVEL_ERROR ''Capability info not found for requested capability ID'' s)
                                   \<lparr>g_is_thread_running := False\<rparr>)
            | Some c \<Rightarrow>
                obind (samples_per_stream rq) (\<lambda>sps.
                obind (deref_capability (sn_table s) c s) (\<lambda>ci.
                  let total = sps * ucast (ci_metric_ids_list_len ci);
                      (ok, s1) = alloc s
                  in if \<not> ok then Ret (None, NPU_SEND LEVEL_ERROR ''Failed to allocate memory for performance data'' s1)
                     else let (ok2, s2) = alloc s1
                          in if \<not> ok2 then Ret (None, NPU_SEND LEVEL_ERROR ''Failed to allocate memory for metric responses'' s2)
                             else let now = time_now (ne_clock env) 0
                                  in Ret (Some \<lparr>nl_request = rq, nl_table = sn_table s, nl_cap = c,
                                            nl_samples_per_stream = sps, nl_total_metrics = total,
                                            nl_streaming_rate_ns = ucast (rq_streaming_rate rq) * 1000000,
                                            nl_data = \<lparr>pd_backend_id = of_nat (backend_index BACKEND_DSP_NPU),
                                                       pd_capability_id = rq_capability_id rq,
                                                       pd_metric_response = replicate (unat total) zero_response,
                                                       pd_metric_response_len = 0\<rparr>,
                                            nl_sample_count = 0, nl_last_stream_time = now, nl_current_time = now,
                                            nl_no_metrics = 0, nl_slept = 0\<rparr>, s2)))))"

text \<open>The value of the metric at a position, in \<open>double_value\<close>; other positions leave it as it is.\<close>

definition npu_metric_value :: "nat \<Rightarrow> sysmon_query_prof_data \<Rightarrow> double \<Rightarrow> double" where
  "npu_metric_value i p old =
     (if i = 0 then q6_utilization p
      else if i = 1 then of_nat (unat (q6_clock p))
      else if i = 2 then hvx_utilization p
      else if i = 3 then hmx_utilization p
      else old)"

text \<open>The inner loop: metric \<open>i\<close> of \<open>n\<close> more to come.\<close>

fun npu_fill ::
  "nat \<Rightarrow> nat \<Rightarrow> QcPerfMetricInfo list option \<Rightarrow> sysmon_query_prof_data \<Rightarrow> u64 \<Rightarrow> npu_local \<Rightarrow> npu_state
     \<Rightarrow> (npu_local \<times> npu_state) outcome" where
  "npu_fill i 0 ms p now l s = Ret (l, s)"
| "npu_fill i (Suc n) ms p now l s =
     (let d = nl_data l; metric_index = (of_nat (pd_metric_response_len d) :: u32)
      in if nl_total_metrics l \<le> metric_index
         then Ret (l, NPU_SEND LEVEL_ERROR ''Metric index exceeds allocated size'' s)
         else case ms of
                None \<Rightarrow> Stuck BadDeref
              | Some xs \<Rightarrow>
                  obind (arr_read xs i) (\<lambda>mi.
                  obind (arr_read (pd_metric_response d) (unat metric_index)) (\<lambda>r.
                    let v = mr_metric_value r;
                        r' = \<lparr>mr_timestamp = now, mr_metric_id = mi_metric_id mi,
                              mr_metric_value = v\<lparr>gt_data_type := TYPE_DOUBLE,
                                                  gt_double_value := npu_metric_value i p (gt_double_value v)\<rparr>\<rparr>
                    in npu_fill (Suc i) n ms p now
                         (l\<lparr>nl_data := d\<lparr>pd_metric_response := (pd_metric_response d)[unat metric_index := r'],
                                          pd_metric_response_len := Suc (pd_metric_response_len d)\<rparr>\<rparr>) s)))"

text \<open>The first part of an iteration: a sample is taken and stored.\<close>

definition npu_sample :: "npu_env \<Rightarrow> u64 \<Rightarrow> npu_local \<Rightarrow> npu_state \<Rightarrow> (npu_local \<times> npu_state) outcome" where
  "npu_sample env now l s =
     obind (qcom_dsp_get_prof_data (ne_rpc env) DSP_NPU0 (Some (nl_no_metrics l)) (g_dsp s)) (\<lambda>(prof_data, n, d).
       let no_metrics = (case n of Some x \<Rightarrow> x | None \<Rightarrow> nl_no_metrics l);
           l1 = l\<lparr>nl_no_metrics := no_metrics\<rparr>; s1 = s\<lparr>g_dsp := d\<rparr>
       in case prof_data of
            Some p \<Rightarrow>
              if no_metrics > 0
              then obind (deref_capability (nl_table l1) (nl_cap l1) s1) (\<lambda>ci.
                     npu_fill 0 (unat (ci_metric_ids_list_len ci)) (ci_metric_ids_list ci) p now l1 s1)
              else Ret (l1, NPU_SEND LEVEL_WARNING ''Failed to get profiling data from DSP'' s1)
          | None \<Rightarrow> Ret (l1, NPU_SEND LEVEL_WARNING ''Failed to get profiling data from DSP'' s1))"

text \<open>The second part: deliver when the batch is complete or the time is over.\<close>

definition npu_stream :: "u64 \<Rightarrow> npu_local \<Rightarrow> npu_state \<Rightarrow> npu_local \<times> npu_state" where
  "npu_stream now l s =
     (let l = l\<lparr>nl_sample_count := nl_sample_count l + 1\<rparr>;
          elapsed_ns = now - nl_last_stream_time l
      in if nl_samples_per_stream l \<le> nl_sample_count l \<or> nl_streaming_rate_ns l \<le> elapsed_ns
         then let (l1, s1) =
                (case g_data_callback s of
                   Some cb \<Rightarrow> if pd_metric_response_len (nl_data l) > 0
                              then (l\<lparr>nl_data := (nl_data l)\<lparr>pd_metric_response_len := 0\<rparr>\<rparr>,
                                    s\<lparr>sn_data := sn_data s @ [(cb, nl_data l)]\<rparr>)
                              else (l, s)
                 | None \<Rightarrow> (l, NPU_SEND LEVEL_ERROR ''Result callback is NULL, cannot send metric data'' s))
              in (l1\<lparr>nl_sample_count := 0, nl_last_stream_time := now\<rparr>, s1)
         else (l, s))"

definition npu_thread_iterate ::
  "npu_env \<Rightarrow> npu_local \<Rightarrow> npu_state \<Rightarrow> (npu_local \<times> npu_state) outcome" where
  "npu_thread_iterate env l s =
     (let now = time_now (ne_clock env) (nl_current_time l)
      in obind (npu_sample env now (l\<lparr>nl_current_time := now\<rparr>) s) (\<lambda>(l1, s1).
           let (l2, s2) = npu_stream now l1 s1
           in Ret (if g_is_thread_running s2
                   then l2\<lparr>nl_slept := unat (rq_sampling_rate (nl_request l2)) * 1000\<rparr> else l2, s2)))"

text \<open>After the loop the responses and the data are freed.\<close>

definition npu_thread_finish :: "npu_local \<Rightarrow> npu_state \<Rightarrow> npu_state outcome" where
  "npu_thread_finish l s = Ret s"

definition npu_thread :: "npu_env \<Rightarrow> (npu_local, npu_state) thread_code" where
  "npu_thread env = \<lparr>th_entry = npu_thread_entry env, th_finish = npu_thread_finish\<rparr>"

section \<open>Stop and deinitialisation\<close>

definition dsp_npu_stop :: "npu_env \<Rightarrow> QcPerfRequest option \<Rightarrow> npu_state \<Rightarrow> (QcPerfReturnCode \<times> npu_state) outcome" where
  "dsp_npu_stop env request s0 =
     (let s = NPU_SEND LEVEL_INFO ''Stopping profiling'' s0
      in case request of
           None \<Rightarrow> Ret (NULL_POINTER, s)
         | Some _ \<Rightarrow>
             if g_is_thread_running s
             then obind (thread_join (wait_exit (npu_thread env)) (Some (g_thread_info s)) (s\<lparr>g_is_thread_running := False\<rparr>))
                    (\<lambda>(jr, s1).
                      if jr = QTHREAD_JOIN_SUCCESS
                      then obind (thread_destroy (Some (g_thread_info s1))) (\<lambda>(dr, ti).
                             let s2 = s1\<lparr>g_thread_info := (case ti of Some i \<Rightarrow> i | None \<Rightarrow> g_thread_info s1)\<rparr>
                             in if dr = QTHREAD_DESTROY_SUCCESS
                                then Ret (SUCCESS, NPU_SEND LEVEL_INFO ''Performance monitoring thread stopped successfully'' s2)
                                else Ret (FAILED, NPU_SEND LEVEL_ERROR ''Failed to destroy thread handle'' s2))
                      else Ret (FAILED, NPU_SEND LEVEL_ERROR ''Failed to join thread'' s1))
             else Ret (SUCCESS, NPU_SEND LEVEL_INFO ''Performance monitoring thread is not running'' s))"

definition dsp_npu_deinit :: "npu_env \<Rightarrow> npu_state \<Rightarrow> (QcPerfReturnCode \<times> npu_state) outcome" where
  "dsp_npu_deinit env s =
     (let s1 = dsp_npu_free (NPU_SEND LEVEL_INFO ''Deinitializing DSP NPU backend'' s)
      in obind (if g_is_dsp_initialized s1
                then obind (qcom_dsp_deinit (ne_rpc env) DSP_NPU0 (g_dsp s1)) (\<lambda>(dsp_ret, d).
                  let s2 = s1\<lparr>g_dsp := d\<rparr>;
                      s3 = (if dsp_ret \<noteq> DSP_LIB_SUCCESS
                            then NPU_SEND LEVEL_ERROR (''Failed to deinitialize DSP library: error code '' @ show_u (dsp_code dsp_ret)) s2
                            else s2)
                  in Ret (s3\<lparr>g_is_dsp_initialized := False\<rparr>))
                else Ret s1)
           (\<lambda>s4. Ret (SUCCESS, NPU_SEND LEVEL_INFO ''DSP NPU backend deinitialized successfully'' s4)))"

definition qcperf_dsp_npu_create :: "npu_env \<Rightarrow> npu_state backend_init_t" where
  "qcperf_dsp_npu_create env backend =
     (case backend of
        None \<Rightarrow> (NULL_POINTER, None)
      | Some p \<Rightarrow> (SUCCESS, Some (p\<lparr>
          qcperf_backend_init := Some (dsp_npu_init env),
          qcperf_backend_start := Some dsp_npu_start,
          qcperf_backend_stop := Some (dsp_npu_stop env),
          qcperf_backend_deinit := Some (dsp_npu_deinit env),
          qcperf_backend_info := Some (\<lambda>i s. Ret (dsp_npu_backend_info i s)),
          set_message_callback := Some (\<lambda>cb s. Ret (dsp_npu_set_message_callback cb s)),
          set_data_callback := Some (\<lambda>cb s. Ret (dsp_npu_set_data_callback cb s))\<rparr>)))"

end
