(* ===== verification/QcomDspProps.thy ===== *)
theory QcomDspProps
  imports QcomDsp "HOL-Library.Multiset"
begin

text \<open>
  Correctness of the DSP library: which address a session is opened with, that every handle and every block
  is given back (the accounts of the recorded calls), and that the functions loaded from the FastRPC library
  on Windows are only called while it is loaded.
\<close>

section \<open>The address of the service\<close>

lemma dsp_uri [simp]:
  "get_full_uri_info sysmonquery_URI 256 DSP_NPU0 = sysmonquery_URI @ CDSP_DOMAIN"
  "get_full_uri_info sysmonquery_URI 256 DSP_ADSP = sysmonquery_URI @ ADSP_DOMAIN"
  by (simp_all add: get_full_uri_info_def strlcpy_string strlcat_string)

lemma strlcat_bounded:
  assumes "length dst < n"
  shows "length (snd (strlcat dst src n)) < n"
proof -
  have "length (take (n - 1) (dst @ src)) \<le> n - 1" by simp
  then show ?thesis using assms unfolding strlcat_string [OF assms] by linarith
qed

lemma dsp_uri_bounded:
  assumes "0 < n"
  shows "length (get_full_uri_info uri n d) < n"
proof -
  have "length (snd (strlcpy '''' uri n)) \<le> n - 1" using assms by (simp add: strlcpy_string)
  then have "length (snd (strlcpy '''' uri n)) < n" using assms by linarith
  note len = this
  show ?thesis
  proof (cases d)
    case DSP_MAX
    then show ?thesis using assms by (simp only: get_full_uri_info_def Let_def DspDomainId.case list.size)
  qed (use strlcat_bounded [OF len] in \<open>simp_all only: get_full_uri_info_def Let_def DspDomainId.case\<close>)
qed

section \<open>Accounts\<close>

fun call_opened :: "dsp_call \<Rightarrow> u64 list" where
  "call_opened (SysmonOpen _ (rc, Some h)) = (if rc = 0 then [h] else [])"
| "call_opened _ = []"

fun call_closed :: "dsp_call \<Rightarrow> u64 list" where
  "call_closed (SysmonClose h) = [h]"
| "call_closed _ = []"

definition opened :: "dsp_call list \<Rightarrow> u64 list" where "opened cs = concat (map call_opened cs)"
definition closed :: "dsp_call list \<Rightarrow> u64 list" where "closed cs = concat (map call_closed cs)"
definition blocks_got :: "dsp_call list \<Rightarrow> nat" where "blocks_got cs = length (filter (\<lambda>c. c = RpcmemAlloc True) cs)"
definition blocks_freed :: "dsp_call list \<Rightarrow> nat" where "blocks_freed cs = length (filter (\<lambda>c. c = RpcmemFree) cs)"

lemma accounts_append [simp]:
  "opened (cs @ ds) = opened cs @ opened ds" "closed (cs @ ds) = closed cs @ closed ds"
  "blocks_got (cs @ ds) = blocks_got cs + blocks_got ds" "blocks_freed (cs @ ds) = blocks_freed cs + blocks_freed ds"
  by (simp_all add: opened_def closed_def blocks_got_def blocks_freed_def)

text \<open>
  The handles that are open are the ones in \<open>h\<close>, and the blocks in use those of \<open>sysmon_query_prof_data_ptr\<close>.
\<close>

definition dsp_accounts :: "dsp_lib \<Rightarrow> bool" where
  "dsp_accounts s \<longleftrightarrow> length (dsp_h s) = 4 \<and> length (dsp_prof s) = 4 \<and>
     mset (opened (dsp_calls s)) = mset (closed (dsp_calls s)) + filter_mset (\<lambda>h. h \<noteq> 0) (mset (dsp_h s)) \<and>
     blocks_got (dsp_calls s) = blocks_freed (dsp_calls s) + size (filter_mset (\<lambda>p. p \<noteq> None) (mset (dsp_prof s)))"

text \<open>What FastRPC documents: opening stores a handle other than 0 exactly when it succeeds.\<close>

definition opens_properly :: "fastrpc \<Rightarrow> bool" where
  "opens_properly fr \<longleftrightarrow> (\<forall>uri. case fr_open fr uri of (rc, None) \<Rightarrow> rc \<noteq> 0 | (rc, Some h) \<Rightarrow> rc = 0 \<and> h \<noteq> 0)"

definition dsp_free_at :: "DspDomainId \<Rightarrow> dsp_lib \<Rightarrow> bool" where
  "dsp_free_at d s \<longleftrightarrow> dsp_h s ! domain_index d = 0 \<and> dsp_prof s ! domain_index d = None"

definition dsp_held_at :: "DspDomainId \<Rightarrow> dsp_lib \<Rightarrow> bool" where
  "dsp_held_at d s \<longleftrightarrow> dsp_h s ! domain_index d \<noteq> 0 \<and> dsp_prof s ! domain_index d \<noteq> None"

lemma dsp_accounts_initial [simp]: "dsp_accounts initial_dsp" "dsp_free_at DSP_NPU0 initial_dsp"
  by (simp_all add: dsp_accounts_def dsp_free_at_def initial_dsp_def opened_def closed_def blocks_got_def blocks_freed_def)

text \<open>Filling a free slot of an array, and emptying a slot.\<close>

lemma occupied_fill:
  assumes "i < length xs" "xs ! i = z"
  shows "filter_mset (\<lambda>x. x \<noteq> z) (mset (xs[i := y])) = (if y = z then {#} else {#y#}) + filter_mset (\<lambda>x. x \<noteq> z) (mset xs)"
  using assms by (simp add: mset_update)

lemma occupied_clear:
  assumes "i < length xs"
  shows "filter_mset (\<lambda>x. x \<noteq> z) (mset xs) = (if xs ! i = z then {#} else {#xs ! i#}) + filter_mset (\<lambda>x. x \<noteq> z) (mset (xs[i := z]))"
  using occupied_fill [of i "xs[i := z]" z "xs ! i"] assms by simp

lemmas account_defs = opened_def closed_def blocks_got_def blocks_freed_def

lemma domain_below: "d \<noteq> DSP_MAX \<Longrightarrow> domain_index d < 4"
  by (cases d) simp_all

lemma dsp_deinit_total:
  assumes l: "length (dsp_h s) = 4" "length (dsp_prof s) = 4" and d: "d \<noteq> DSP_MAX"
  shows "\<exists>rc s'. qcom_dsp_deinit fr d s = Ret (rc, s') \<and> dsp_free_at d s' \<and> length (dsp_h s') = 4 \<and> length (dsp_prof s') = 4 \<and>
     (dsp_accounts s \<longrightarrow> dsp_accounts s')"
proof -
  define i where "i = domain_index d"
  have i: "i < length (dsp_h s)" "i < length (dsp_prof s)" using l domain_below [OF d] by (simp_all add: i_def)
  show ?thesis
    using l i occupied_clear [OF i(1), of 0] occupied_clear [OF i(2), of None]
    by (cases "dsp_h s ! i = 0"; cases "dsp_prof s ! i")
       (simp_all add: qcom_dsp_deinit_def Let_def arr_read_def dsp_called_def dsp_free_at_def dsp_accounts_def account_defs
          flip: i_def)
qed

lemma dsp_open_session_total:
  assumes "length (dsp_h s) = 4" "length (dsp_prof s) = 4" "i < 4"
  shows "\<exists>rc s'. dsp_open_session fr uri i s = Ret (rc, s') \<and> length (dsp_h s') = 4 \<and> length (dsp_prof s') = 4"
proof -
  obtain x y where "fr_open fr uri = (x, y)" by (cases "fr_open fr uri")
  then show ?thesis
    using assms by (cases y) (simp_all add: dsp_open_session_def Let_def arr_write_def arr_read_def dsp_called_def)
qed

lemma dsp_init_total:
  assumes l: "length (dsp_h s) = 4" "length (dsp_prof s) = 4" and d: "d \<noteq> DSP_MAX"
  shows "\<exists>rc s'. qcom_dsp_init fr d s = Ret (rc, s') \<and> length (dsp_h s') = 4 \<and> length (dsp_prof s') = 4"
proof -
  let ?s = "snd (set_remote_process_domain fr d s)"
  have ls: "length (dsp_h ?s) = 4" "length (dsp_prof ?s) = 4" "domain_index d < 4"
    using l d by (auto simp: set_remote_process_domain_def dsp_called_def) (cases d; simp)+
  obtain rc s2 where s2: "dsp_open_session fr (get_full_uri_info sysmonquery_URI 256 d) (domain_index d) ?s = Ret (rc, s2)"
    "length (dsp_h s2) = 4" "length (dsp_prof s2) = 4"
    using dsp_open_session_total [OF ls] by blast
  show ?thesis
    using dsp_deinit_total [OF s2(2,3) d, of fr] s2 ls
    by (cases "set_remote_process_domain fr d s") (auto simp: qcom_dsp_init_def Let_def)
qed

text \<open>The accounts of one attempt to open a session on a free slot.\<close>

lemma dsp_open_session_accounts:
  assumes a: "dsp_accounts s" "dsp_free_at d s" "d \<noteq> DSP_MAX" and o: "opens_properly fr"
    and r: "dsp_open_session fr uri (domain_index d) s = Ret (rc, s')"
  shows "dsp_accounts s' \<and> (rc = DSP_LIB_SUCCESS \<longrightarrow> dsp_held_at d s' \<and> dsp_prof s' ! domain_index d = Some zero_prof_data)"
proof -
  define i where "i = domain_index d"
  have i: "i < length (dsp_h s)" "i < length (dsp_prof s)" using a(1) domain_below [OF a(3)] by (simp_all add: i_def dsp_accounts_def)
  have z: "dsp_h s ! i = 0" "dsp_prof s ! i = None" using a(2) by (simp_all add: dsp_free_at_def i_def)
  have "case fr_open fr uri of (x, None) \<Rightarrow> x \<noteq> 0 | (x, Some y) \<Rightarrow> x = 0 \<and> y \<noteq> 0" using o by (simp add: opens_properly_def)
  then consider x where "fr_open fr uri = (x, None)" "x \<noteq> 0" | y where "fr_open fr uri = (0, Some y)" "y \<noteq> 0"
    by (cases "fr_open fr uri"; cases "snd (fr_open fr uri)") auto
  then show ?thesis
  proof cases
    case 1
    then show ?thesis using r a(1)
      by (auto simp: dsp_open_session_def Let_def dsp_called_def dsp_accounts_def account_defs)
  next
    case 2
    note rr = r [folded i_def, unfolded dsp_open_session_def Let_def 2(1) prod.case]
    have keep: "(dsp_prof s)[i := None] = dsp_prof s" using z(2) list_update_id by metis
    show ?thesis using rr 2 a(1) i z keep occupied_fill [OF i(1) z(1), of y] occupied_fill [OF i(2) z(2), of "Some zero_prof_data"]
      by (auto simp: arr_write_def arr_read_def dsp_called_def dsp_accounts_def dsp_held_at_def account_defs
          simp flip: i_def split: if_splits)
  qed
qed

lemma dsp_remote_accounts:
  "dsp_accounts (snd (set_remote_process_domain fr d s)) = dsp_accounts s"
  "dsp_free_at d' (snd (set_remote_process_domain fr d s)) = dsp_free_at d' s"
  by (auto simp: set_remote_process_domain_def dsp_called_def dsp_accounts_def dsp_free_at_def account_defs)

lemma dsp_init_accounts:
  assumes a: "dsp_accounts s" "dsp_free_at d s" "d \<noteq> DSP_MAX" and o: "opens_properly fr"
  shows "\<exists>rc s'. qcom_dsp_init fr d s = Ret (rc, s') \<and> dsp_accounts s' \<and>
     (if rc = DSP_LIB_SUCCESS then dsp_held_at d s' \<and> dsp_prof s' ! domain_index d = Some zero_prof_data else dsp_free_at d s')"
proof -
  let ?s = "snd (set_remote_process_domain fr d s)"
  have as: "dsp_accounts ?s" "dsp_free_at d ?s" using a dsp_remote_accounts by auto
  have l: "length (dsp_h s) = 4" "length (dsp_prof s) = 4" using a(1) by (simp_all add: dsp_accounts_def)
  obtain rc s1 where i: "qcom_dsp_init fr d s = Ret (rc, s1)" using dsp_init_total [OF l a(3)] by blast
  show ?thesis
  proof (cases "fst (set_remote_process_domain fr d s) = DSP_REMOTE_SESSION_CONTROL_SUCCESS")
    case False
    then have "fst (set_remote_process_domain fr d s) \<noteq> DSP_LIB_SUCCESS"
      by (auto simp: set_remote_process_domain_def split: if_splits)
    then show ?thesis using False as
      by (cases "set_remote_process_domain fr d s") (simp add: qcom_dsp_init_def Let_def)
  next
    case True
    then obtain c s2 where s2: "dsp_open_session fr (get_full_uri_info sysmonquery_URI 256 d) (domain_index d) ?s = Ret (c, s2)"
      using i by (auto simp: qcom_dsp_init_def Let_def case_prod_beta outcome_simps)
    note acc = dsp_open_session_accounts [OF as a(3) o s2]
    have l2: "length (dsp_h s2) = 4" "length (dsp_prof s2) = 4" using acc by (simp_all add: dsp_accounts_def)
    show ?thesis
      using True s2 acc dsp_deinit_total [OF l2 a(3), of fr] by (auto simp: qcom_dsp_init_def Let_def case_prod_beta)
  qed
qed

text \<open>Reading a sample changes no account.\<close>

lemma dsp_get_prof_total:
  assumes "length (dsp_h s) = 4" "length (dsp_prof s) = 4" "d \<noteq> DSP_MAX"
  shows "\<exists>p n' s'. qcom_dsp_get_prof_data fr d (Some n) s = Ret (p, Some n', s') \<and> length (dsp_h s') = 4 \<and>
     length (dsp_prof s') = 4 \<and> (dsp_accounts s \<longrightarrow> dsp_accounts s')"
proof -
  define i where "i = domain_index d"
  have i: "i < length (dsp_h s)" "i < length (dsp_prof s)" using assms domain_below [OF assms(3)] by (simp_all add: i_def)
  define y where "y = (case dsp_prof s ! i of None \<Rightarrow> None | Some _ \<Rightarrow> Some (fst (snd (fr_profdata fr (dsp_h s ! i) (dsp_prof s ! i) n))))"
  have "size (filter_mset (\<lambda>p. p \<noteq> None) (mset ((dsp_prof s)[i := y]))) = size (filter_mset (\<lambda>p. p \<noteq> None) (mset (dsp_prof s)))"
    using occupied_clear [OF i(2), of None] occupied_clear [of i "(dsp_prof s)[i := y]" None] i(2)
    by (cases "dsp_prof s ! i") (simp_all add: y_def)
  then show ?thesis
    using assms(1,2) i
    by (simp add: qcom_dsp_get_prof_data_def Let_def case_prod_beta arr_read_def dsp_called_def dsp_accounts_def
        account_defs y_def flip: i_def)
qed

section \<open>The functions of the FastRPC library\<close>

text \<open>The library is looked for beside the driver, with the system root replaced by \<open>windir\<close>.\<close>

lemma before_last_backslash_append:
  assumes "CHR 0x5C \<notin> set sysfile"
  shows "before_last_backslash (dir @ CHR 0x5C # sysfile) = Some dir"
proof -
  have "dropWhile (\<lambda>c. c \<noteq> CHR 0x5C) (rev sysfile @ CHR 0x5C # rev dir) = CHR 0x5C # rev dir"
    using assms by (subst dropWhile_append2) auto
  then show ?thesis by (simp add: before_last_backslash_def)
qed

lemma dll_beside_the_driver:
  assumes "sm_opens sm" "q < 6" "sm_service sm (g_fastrpcServiceName ! q)" "sm_size_probe sm" "sm_windir sm = Some windir"
    "sm_binary_path sm = Some ((CHR 0x5C # ''SystemRoot'') @ dir @ CHR 0x5C # sysfile)" "CHR 0x5C \<notin> set sysfile"
    "length windir + length dir < 240"
  shows "get_fastrpc_dll_path sm q = Some (windir @ dir @ CHR 0x5C # ''libcdsprpc.dll'')"
proof -
  have "before_last_backslash (((CHR 0x5C # ''SystemRoot'') @ dir) @ CHR 0x5C # sysfile) = Some ((CHR 0x5C # ''SystemRoot'') @ dir)"
    using before_last_backslash_append [OF assms(7)] .
  moreover have "after_system_root ((CHR 0x5C # ''SystemRoot'') @ dir) = Some dir" by (simp add: has_prefix_def)
  moreover have "snprintf_buf 260 ((windir @ dir) @ CHR 0x5C # ''libcdsprpc.dll'') = windir @ dir @ CHR 0x5C # ''libcdsprpc.dll''"
    using assms(8) by (simp add: snprintf_buf_def)
  ultimately show ?thesis using assms(1-6) by (simp add: get_fastrpc_dll_path_def)
qed

definition pointer_tables :: "rpc_runtime \<Rightarrow> string option list list" where
  "pointer_tables s = [rt_open s, rt_close s, rt_invoke s, rt_control s, rt_alloc s, rt_free s]"

text \<open>The loaded libraries are those with a handle, and every pointer of a processor is into its library.\<close>

definition runtime_ok :: "rpc_runtime \<Rightarrow> bool" where
  "runtime_ok s \<longleftrightarrow> length (rt_handle s) = 12 \<and>
     (\<forall>ps \<in> set (pointer_tables s). length ps = 12 \<and> (\<forall>q<12. ps ! q = None \<or> ps ! q = rt_handle s ! q)) \<and>
     mset (rt_loaded s) = image_mset the (filter_mset (\<lambda>h. h \<noteq> None) (mset (rt_handle s)))"

lemma runtime_ok_initial: "runtime_ok initial_runtime"
  by (simp add: runtime_ok_def initial_runtime_def pointer_tables_def)

text \<open>Every library that can be loaded has the three functions the loader insists on.\<close>

definition complete_libraries :: "dll_system \<Rightarrow> bool" where
  "complete_libraries sys \<longleftrightarrow> (\<forall>p. dl_load sys p \<longrightarrow> dl_exports sys p ''remote_handle64_open'' \<and>
     dl_exports sys p ''remote_handle64_invoke'' \<and> dl_exports sys p ''remote_handle64_close'')"

lemma load_symbols_ok:
  assumes ok: "runtime_ok s" and c: "complete_libraries sys"
  shows "runtime_ok (snd (fastrpc_load_symbols sys q6 path s))"
proof (cases "q6 < 0 \<or> 12 \<le> q6 \<or> rt_handle s ! nat q6 \<noteq> None")
  case True
  then show ?thesis using ok by (auto simp: fastrpc_load_symbols_def Let_def)
next
  case False
  define q where "q = nat q6"
  have q: "q < length (rt_handle s)" "rt_handle s ! q = None" "q < 12" using False ok by (auto simp: runtime_ok_def q_def)
  define lib where "lib = (let found = get_fastrpc_dll_path (dl_services sys) q in if path = None \<or> path = Some '''' then found
      else case found of Some p \<Rightarrow> Some p | None \<Rightarrow> path)"
  have lq: "(rt_handle s)[q := None] = rt_handle s" using q(2) list_update_id by metis
  note ld = fastrpc_load_symbols_def [of sys q6 path s, folded q_def, unfolded Let_def, folded lib_def [unfolded Let_def]]
  show ?thesis
  proof (cases lib)
    case None
    then show ?thesis using False ok q(2) by (simp add: ld)
  next
    case (Some l)
    show ?thesis
    proof (cases "dl_load sys l")
      case False
      then show ?thesis using Some ok q \<open>\<not> (q6 < 0 \<or> _)\<close> by (simp add: ld lq)
    next
      case True
      then have "dl_exports sys l ''remote_handle64_open''" "dl_exports sys l ''remote_handle64_invoke''"
        "dl_exports sys l ''remote_handle64_close''"
        using c by (auto simp: complete_libraries_def)
      then show ?thesis
        using Some True ok q False occupied_fill [OF q(1,2), of "Some l"]
        by (auto simp: ld runtime_ok_def pointer_tables_def get_proc_def nth_list_update)
    qed
  qed
qed

lemma unload_symbols_ok:
  assumes ok: "runtime_ok s"
  shows "runtime_ok (fastrpc_unload_symbols q6 s)"
proof (cases "q6 < 0 \<or> 12 \<le> q6")
  case True
  then show ?thesis using ok by (auto simp: fastrpc_unload_symbols_def)
next
  case False
  define q where "q = nat q6"
  have q: "q < length (rt_handle s)" "q < 12" using False ok by (auto simp: runtime_ok_def q_def)
  note un = fastrpc_unload_symbols_def [of q6 s, folded q_def, unfolded Let_def]
  show ?thesis
  proof (cases "rt_handle s ! q")
    case None
    then show ?thesis using ok False q by (auto simp: un free_library_def runtime_ok_def pointer_tables_def nth_list_update)
  next
    case (Some l)
    have "mset (rt_loaded s) = add_mset l (image_mset the (filter_mset (\<lambda>h. h \<noteq> None) (mset ((rt_handle s)[q := None]))))"
      using ok occupied_clear [OF q(1), of None] Some by (simp add: runtime_ok_def)
    then have "mset (remove1 l (rt_loaded s)) = image_mset the (filter_mset (\<lambda>h. h \<noteq> None) (mset ((rt_handle s)[q := None])))"
      unfolding mset_remove1 by (metis add_mset_remove_trivial)
    then show ?thesis
      using ok [unfolded runtime_ok_def] Some False q by (auto simp: un free_library_def runtime_ok_def pointer_tables_def nth_list_update simp del: mset_remove1)
  qed
qed

lemma first_pointer_some: "first_pointer ps = Some l \<Longrightarrow> \<exists>q < length ps. ps ! q = Some l"
  by (induction ps) (force split: option.splits)+

lemma runtime_pointer_loaded:
  assumes ok: "runtime_ok s" and ps: "ps \<in> set (pointer_tables s)" and f: "first_pointer ps = Some l"
  shows "l \<in> set (rt_loaded s)"
proof -
  obtain q where q: "q < length ps" "ps ! q = Some l" using first_pointer_some [OF f] by blast
  have t: "length ps = 12 \<and> (\<forall>q<12. ps ! q = None \<or> ps ! q = rt_handle s ! q)" "length (rt_handle s) = 12"
    using ok ps by (simp_all add: runtime_ok_def)
  then have "rt_handle s ! q = Some l" "q < length (rt_handle s)" using q by auto
  then have "Some l \<in># filter_mset (\<lambda>h. h \<noteq> None) (mset (rt_handle s))" using nth_mem by fastforce
  then have "l \<in># image_mset the (filter_mset (\<lambda>h. h \<noteq> None) (mset (rt_handle s)))" by force
  then have "l \<in># mset (rt_loaded s)" using ok by (simp add: runtime_ok_def)
  then show ?thesis by simp
qed

text \<open>Loading and unloading, in any order.\<close>

datatype runtime_call = LoadSymbols int "string option" | UnloadSymbols int

fun run_runtime :: "dll_system \<Rightarrow> runtime_call list \<Rightarrow> rpc_runtime \<Rightarrow> rpc_runtime" where
  "run_runtime sys [] s = s"
| "run_runtime sys (LoadSymbols q p # cs) s = run_runtime sys cs (snd (fastrpc_load_symbols sys q p s))"
| "run_runtime sys (UnloadSymbols q # cs) s = run_runtime sys cs (fastrpc_unload_symbols q s)"

lemma run_runtime_ok: "runtime_ok s \<Longrightarrow> complete_libraries sys \<Longrightarrow> runtime_ok (run_runtime sys cs s)"
  by (induction sys cs s rule: run_runtime.induct) (simp_all add: load_symbols_ok unload_symbols_ok)

section \<open>Properties\<close>

text \<open>C20: Opening a session with the sysmon query service for one of the four domains (not the bound
  \<open>DSP_MAX\<close>), with the slot of the domain free and the accounts right, never fails half-way: it either succeeds,
  and the slot has an open handle and a block that is all zero, or it fails and the slot is free again; in both
  cases, and after a later \<open>qcom_dsp_deinit\<close>, the handles FastRPC opened and has not closed are those in
  \<open>h\<close> and the blocks it gave out those in \<open>sysmon_query_prof_data_ptr\<close>. FastRPC may fail in every call; the one thing
  assumed of it is \<open>opens_properly\<close>, what it documents of its opening call: a handle other than 0 is stored
  exactly when the call succeeds.\<close>

theorem dsp_sessions_are_accounted:
  assumes "dsp_accounts s" "dsp_free_at d s" "d \<noteq> DSP_MAX" "opens_properly fr"
  shows "\<exists>rc s1. qcom_dsp_init fr d s = Ret (rc, s1) \<and> dsp_accounts s1 \<and>
     (if rc = DSP_LIB_SUCCESS then dsp_held_at d s1 \<and> dsp_prof s1 ! domain_index d = Some zero_prof_data
      else dsp_free_at d s1) \<and>
     (\<forall>fr'. \<exists>rc' s2. qcom_dsp_deinit fr' d s1 = Ret (rc', s2) \<and> dsp_accounts s2 \<and> dsp_free_at d s2)"
proof -
  obtain rc s1 where i: "qcom_dsp_init fr d s = Ret (rc, s1)" "dsp_accounts s1"
    "if rc = DSP_LIB_SUCCESS then dsp_held_at d s1 \<and> dsp_prof s1 ! domain_index d = Some zero_prof_data else dsp_free_at d s1"
    using dsp_init_accounts [OF assms] by blast
  have l: "length (dsp_h s1) = 4" "length (dsp_prof s1) = 4" using i(2) by (simp_all add: dsp_accounts_def)
  have "\<exists>rc' s2. qcom_dsp_deinit fr' d s1 = Ret (rc', s2) \<and> dsp_accounts s2 \<and> dsp_free_at d s2" for fr'
    using dsp_deinit_total [OF l assms(3), of fr'] i(2) by blast
  then show ?thesis using i by (auto split: if_splits)
qed

definition demo_fastrpc :: fastrpc where
  "demo_fastrpc = \<lparr>fr_session_control = 0, fr_open = (\<lambda>_. (0, Some 7)), fr_init = (\<lambda>_. 0), fr_alloc = False,
     fr_profdata = (\<lambda>_ _ n. (0, zero_prof_data\<lparr>q6_utilization := 50, q6_clock := 600000\<rparr>, 4)), fr_deinit = (\<lambda>_. 0)\<rparr>"

lemma demo_fastrpc_ok [simp]: "opens_properly demo_fastrpc" "opens_properly (demo_fastrpc\<lparr>fr_alloc := b\<rparr>)"
  by (simp_all add: opens_properly_def demo_fastrpc_def)

theorem dsp_sessions_are_accounted_witness:
  "(\<exists>rc s1. qcom_dsp_init demo_fastrpc DSP_NPU0 initial_dsp = Ret (rc, s1) \<and> dsp_accounts s1 \<and>
      rc \<noteq> DSP_LIB_SUCCESS \<and> dsp_free_at DSP_NPU0 s1) \<and>
   (\<exists>s1. qcom_dsp_init (demo_fastrpc\<lparr>fr_alloc := True\<rparr>) DSP_NPU0 initial_dsp = Ret (DSP_LIB_SUCCESS, s1) \<and>
      dsp_accounts s1 \<and> dsp_held_at DSP_NPU0 s1 \<and> dsp_prof s1 ! domain_index DSP_NPU0 = Some zero_prof_data)"
proof -
  have f: "qcom_dsp_init demo_fastrpc DSP_NPU0 initial_dsp = Ret (rc, s1) \<Longrightarrow> rc \<noteq> DSP_LIB_SUCCESS" for rc s1
    by (auto simp: qcom_dsp_init_def set_remote_process_domain_def dsp_open_session_def Let_def demo_fastrpc_def initial_dsp_def
        arr_write_def arr_read_def dsp_called_def qcom_dsp_deinit_def)
  have t: "qcom_dsp_init (demo_fastrpc\<lparr>fr_alloc := True\<rparr>) DSP_NPU0 initial_dsp = Ret (rc, s1) \<Longrightarrow> rc = DSP_LIB_SUCCESS" for rc s1
    by (auto simp: qcom_dsp_init_def set_remote_process_domain_def dsp_open_session_def Let_def demo_fastrpc_def initial_dsp_def
        arr_write_def arr_read_def dsp_called_def qcom_dsp_deinit_def)
  show ?thesis
    using dsp_sessions_are_accounted [OF dsp_accounts_initial(1,2), of demo_fastrpc] f
      dsp_sessions_are_accounted [OF dsp_accounts_initial(1,2), of "demo_fastrpc\<lparr>fr_alloc := True\<rparr>"] t
    by fastforce
qed

text \<open>C21: On Windows, as long as every FastRPC library that can be loaded has the functions for handles,
  \<open>rpcmem_alloc\<close> and \<open>rpcmem_free\<close> only ever call into a library that is loaded, after any sequence of
  \<open>fastrpc_load_symbols\<close> and \<open>fastrpc_unload_symbols\<close>.\<close>

theorem runtime_calls_loaded_libraries:
  assumes "complete_libraries sys"
  shows "\<exists>a f. windows_rpcmem_alloc (run_runtime sys cs initial_runtime) = Ret a \<and>
     windows_rpcmem_free (run_runtime sys cs initial_runtime) = Ret f"
proof -
  let ?s = "run_runtime sys cs initial_runtime"
  have "\<exists>r. call_pointer (first_pointer ps) ?s = Ret r" if "ps \<in> set (pointer_tables ?s)" for ps
    using runtime_pointer_loaded [OF run_runtime_ok [OF runtime_ok_initial assms] that]
    by (cases "first_pointer ps") (simp_all add: call_pointer_def)
  then show ?thesis by (simp add: windows_rpcmem_alloc_def windows_rpcmem_free_def pointer_tables_def)
qed

text \<open>A driver below the system root, in the usual place.\<close>

definition driver_store :: string where
  "driver_store = CHR 0x5C # ''System32'' @ CHR 0x5C # ''DriverStore''"

definition demo_services :: service_manager where
  "demo_services = \<lparr>sm_opens = True, sm_service = (\<lambda>n. n = ''qcnspmcdm''), sm_size_probe = True,
     sm_binary_path = Some ((CHR 0x5C # ''SystemRoot'') @ driver_store @ CHR 0x5C # ''qcnspmcdm.sys''), sm_windir = Some ''C:''\<rparr>"

lemma demo_services_path:
  "get_fastrpc_dll_path demo_services 3 = Some (''C:'' @ driver_store @ CHR 0x5C # ''libcdsprpc.dll'')"
  by (rule dll_beside_the_driver [where sysfile = "''qcnspmcdm.sys''"])
     (simp_all add: demo_services_def g_fastrpcServiceName_def driver_store_def)

definition demo_dlls :: dll_system where
  "demo_dlls = \<lparr>dl_services = demo_services, dl_load = (\<lambda>_. True), dl_exports = (\<lambda>_ _. True)\<rparr>"

theorem runtime_calls_loaded_libraries_witness:
  "\<exists>a f. windows_rpcmem_alloc (run_runtime demo_dlls [LoadSymbols 3 None] initial_runtime) = Ret a \<and>
     windows_rpcmem_free (run_runtime demo_dlls [LoadSymbols 3 None] initial_runtime) = Ret f"
  by (rule runtime_calls_loaded_libraries) (simp add: complete_libraries_def demo_dlls_def)

text \<open>A load that fails because the library lacks one of these functions unloads the library but leaves
  the pointers into it: the next \<open>rpcmem_alloc\<close> calls code that is gone.\<close>

theorem failed_load_leaves_pointers:
  assumes "get_fastrpc_dll_path (dl_services sys) 3 = Some p" "dl_load sys p" "dl_exports sys p ''rpcmem_alloc''"
    "\<not> dl_exports sys p ''remote_handle64_invoke''"
  shows "fst (fastrpc_load_symbols sys 3 None initial_runtime) = -1 \<and>
     windows_rpcmem_alloc (snd (fastrpc_load_symbols sys 3 None initial_runtime)) = Stuck BadDeref"
  using assms
  by (simp add: fastrpc_load_symbols_def Let_def initial_runtime_def get_proc_def free_library_def windows_rpcmem_alloc_def
      call_pointer_def numeral_eq_Suc)

theorem failed_load_leaves_pointers_witness:
  "windows_rpcmem_alloc (snd (fastrpc_load_symbols
     (demo_dlls\<lparr>dl_exports := (\<lambda>_ f. f \<noteq> ''remote_handle64_invoke'')\<rparr>) 3 None initial_runtime)) = Stuck BadDeref"
  by (rule conjunct2 [OF failed_load_leaves_pointers [OF _ _ _ _]]) (simp_all add: demo_dlls_def demo_services_path)

end
