(* ===== verification/DspNpuProps.thy ===== *)
theory DspNpuProps
  imports DspNpu SessionLaws QcomDspProps ResponseBuffer
begin

text \<open>
  Correctness of the DSP NPU backend: the table and the DSP session its initialisation leaves, the requests it
  accepts, its thread against a reference, and the session discipline (the locale \<open>session_backend\<close>).
\<close>

section \<open>Frames\<close>

lemma NPU_SEND_fields [simp]:
  "g_is_thread_running (NPU_SEND lv t s) = g_is_thread_running s"
  "g_thread_info (NPU_SEND lv t s) = g_thread_info s"
  "sn_threads (NPU_SEND lv t s) = sn_threads s"
  "g_backend_info (NPU_SEND lv t s) = g_backend_info s"
  "sn_table (NPU_SEND lv t s) = sn_table s"
  "g_data_callback (NPU_SEND lv t s) = g_data_callback s"
  "g_message_callback (NPU_SEND lv t s) = g_message_callback s"
  "sn_data (NPU_SEND lv t s) = sn_data s"
  "sn_faults (NPU_SEND lv t s) = sn_faults s"
  "g_capability_0_metrics_data (NPU_SEND lv t s) = g_capability_0_metrics_data s"
  "g_is_dsp_initialized (NPU_SEND lv t s) = g_is_dsp_initialized s"
  "g_dsp (NPU_SEND lv t s) = g_dsp s"
  by (simp_all add: NPU_SEND_def npu_send_message_def post_message_def split: option.splits)

lemma same_control_npu_send [control_simps, simp]:
  "same_control s (NPU_SEND lv t s') = same_control s s'"
  "same_control (NPU_SEND lv t s) s' = same_control s s'"
  by (simp_all add: same_control_def)

text \<open>Everything a client or a thread of another session could notice: control, tables and callbacks.\<close>

definition npu_frame :: "npu_state \<Rightarrow> npu_state \<Rightarrow> bool" where
  "npu_frame s s' \<longleftrightarrow> g_backend_info s' = g_backend_info s \<and> sn_table s' = sn_table s \<and> g_data_callback s' = g_data_callback s \<and>
     g_capability_0_metrics_data s' = g_capability_0_metrics_data s \<and> g_is_dsp_initialized s' = g_is_dsp_initialized s"

lemma npu_frame_simps [simp]:
  "npu_frame s s" "npu_frame s (NPU_SEND lv x s') = npu_frame s s'" "npu_frame (NPU_SEND lv x s) s' = npu_frame s s'"
  "npu_frame s (s'\<lparr>g_is_thread_running := b\<rparr>) = npu_frame s s'" "npu_frame (s\<lparr>g_is_thread_running := b\<rparr>) s' = npu_frame s s'"
  "npu_frame s (s'\<lparr>sn_faults := f\<rparr>) = npu_frame s s'" "npu_frame (s\<lparr>sn_faults := f\<rparr>) s' = npu_frame s s'"
  "npu_frame s (s'\<lparr>sn_threads := ts\<rparr>) = npu_frame s s'" "npu_frame s (s'\<lparr>g_thread_info := i\<rparr>) = npu_frame s s'"
  "npu_frame s (s'\<lparr>sn_data := ds\<rparr>) = npu_frame s s'" "npu_frame s (put_thread t st s') = npu_frame s s'"
  "npu_frame s (s'\<lparr>g_dsp := d\<rparr>) = npu_frame s s'" "npu_frame (s\<lparr>g_dsp := d\<rparr>) s' = npu_frame s s'"
  by (simp_all add: npu_frame_def put_thread_def)

lemma npu_frame_trans: "npu_frame s s' \<Longrightarrow> npu_frame s' s'' \<Longrightarrow> npu_frame s s''"
  by (simp add: npu_frame_def)

lemma npu_validate_RetE:
  assumes "npu_validate_request rq s = Ret (rc, s')"
  obtains lv t where "s' = NPU_SEND lv t s"
proof -
  obtain found where f: "find_capability (rq_capability_id rq) (g_backend_info s) = Ret found"
    using assms by (auto simp: npu_validate_request_def outcome_simps)
  show thesis
  proof (cases found)
    case None
    then show thesis using assms f by (auto simp: npu_validate_request_def Let_def intro: that)
  next
    case (Some i)
    note eq = assms [unfolded npu_validate_request_def Let_def f obind.simps Some option.case]
    obtain ci sa where 1: "deref_capability (sn_table s) i s = Ret ci"
      "rate_scan (rq_sampling_rate rq) (unat (ci_sampling_rate_len ci)) (ci_sampling_rate ci) = Ret sa"
      using eq by (auto simp: outcome_simps)
    show thesis
    proof (cases sa)
      case False
      then show thesis using eq False unfolding 1 obind.simps by (auto intro: that)
    next
      case True
      note eq2 = eq [unfolded 1 obind.simps]
      obtain sb where 2: "rate_scan (rq_streaming_rate rq) (unat (ci_streaming_rate_len ci)) (ci_streaming_rate ci) = Ret sb"
        using eq2 True by (auto simp: outcome_simps)
      show thesis using eq2 True that unfolding 2 obind.simps by (auto split: if_splits)
    qed
  qed
qed

lemma npu_entry_RetE:
  assumes "npu_thread_entry env r s = Ret (lo, s')"
  obtains (no_param) lv x where "r = None" "lo = None" "s' = NPU_SEND lv x s"
  | (no_cap) lv x where "r \<noteq> None" "lo = None" "s' = (NPU_SEND lv x (s\<lparr>g_is_thread_running := True\<rparr>))\<lparr>g_is_thread_running := False\<rparr>"
  | (no_memory) lv x f where "r \<noteq> None" "lo = None" "s' = NPU_SEND lv x (s\<lparr>g_is_thread_running := True, sn_faults := f\<rparr>)"
  | (running) rq c ci sps f l where "r = Some rq" "lo = Some l" "s' = s\<lparr>g_is_thread_running := True, sn_faults := f\<rparr>"
      "find_capability (rq_capability_id rq) (g_backend_info s) = Ret (Some c)"
      "deref_capability (sn_table s) c (s\<lparr>g_is_thread_running := True\<rparr>) = Ret ci" "samples_per_stream rq = Ret sps"
      "nl_request l = rq" "nl_table l = sn_table s" "nl_cap l = c" "nl_samples_per_stream l = sps"
      "nl_total_metrics l = sps * ucast (ci_metric_ids_list_len ci)"
      "nl_streaming_rate_ns l = ucast (rq_streaming_rate rq) * 1000000" "nl_no_metrics l = 0"
      "nl_data l = \<lparr>pd_backend_id = 2, pd_capability_id = rq_capability_id rq,
                    pd_metric_response = replicate (unat (sps * ucast (ci_metric_ids_list_len ci))) zero_response,
                    pd_metric_response_len = 0\<rparr>" "nl_sample_count l = 0"
proof (cases r)
  case None
  then show thesis using assms no_param by (auto simp: npu_thread_entry_def)
next
  case (Some rq)
  let ?s = "s\<lparr>g_is_thread_running := True\<rparr>"
  obtain found where f: "find_capability (rq_capability_id rq) (g_backend_info s) = Ret found"
    using assms Some by (auto simp: npu_thread_entry_def Let_def outcome_simps)
  show thesis
  proof (cases found)
    case None
    then show thesis using assms Some f no_cap by (auto simp: npu_thread_entry_def Let_def)
  next
    case c: (Some c)
    then obtain ci sps where d: "deref_capability (sn_table s) c ?s = Ret ci" "samples_per_stream rq = Ret sps"
      using assms Some f by (auto simp: npu_thread_entry_def Let_def outcome_simps)
    note eq = assms [unfolded Some npu_thread_entry_def Let_def alloc_pair, simplified f c d option.case obind.simps prod.case]
    define f1 where "f1 = calloc_ok (sn_faults s)"
    define f2 where "f2 = calloc_ok (snd f1)"
    show thesis
    proof (cases "fst f1 \<and> fst f2")
      case False
      then show thesis using eq Some f c d no_memory by (auto simp: Let_def alloc_pair f1_def f2_def split: if_splits)
    next
      case True
      show thesis
        by (rule running [OF Some _ _ _ d, where f = "snd f2" and l = "the lo"])
           (use eq True f c d in \<open>auto simp: Let_def alloc_pair f1_def f2_def split: if_splits\<close>)
    qed
  qed
qed

lemma npu_entry_law:
  assumes "npu_thread_entry env r s = Ret (lo, s')"
  shows "g_thread_info s' = g_thread_info s \<and> sn_threads s' = sn_threads s \<and> sn_data s' = sn_data s \<and> npu_frame s s' \<and> g_dsp s' = g_dsp s"
  using assms by (cases rule: npu_entry_RetE) auto

lemma npu_fill_control:
  "npu_fill i n ms p now l s = Ret (l', s') \<Longrightarrow> same_control s s' \<and> npu_frame s s' \<and> g_dsp s' = g_dsp s"
proof (induction n arbitrary: i l)
  case (Suc n)
  show ?case
  proof (cases "nl_total_metrics l \<le> of_nat (pd_metric_response_len (nl_data l))")
    case True
    then show ?thesis using Suc.prems by (auto simp: Let_def)
  next
    case False
    then obtain l2 where "npu_fill (Suc i) n ms p now l2 s = Ret (l', s')"
      using Suc.prems by (auto simp: Let_def outcome_simps split: option.splits)
    then show ?thesis by (rule Suc.IH)
  qed
qed simp

lemma npu_sample_control:
  assumes "npu_sample env now l s = Ret (l', s')"
  shows "same_control s s' \<and> npu_frame s s'"
proof -
  obtain p n d where q: "qcom_dsp_get_prof_data (ne_rpc env) DSP_NPU0 (Some (nl_no_metrics l)) (g_dsp s) = Ret (p, n, d)"
    using assms by (auto simp: npu_sample_def outcome_simps)
  have "same_control s (s\<lparr>g_dsp := d\<rparr>)" by (simp add: same_control_def)
  then show ?thesis
    using assms q npu_fill_control [of 0 _ _ _ now _ "s\<lparr>g_dsp := d\<rparr>" l' s'] same_control_trans
    by (fastforce simp: npu_sample_def Let_def outcome_simps split: option.splits if_splits)
qed

lemma npu_stream_control:
  "npu_stream now l s = (l', s') \<Longrightarrow> same_control s s' \<and> npu_frame s s' \<and> g_dsp s' = g_dsp s"
  by (auto simp: npu_stream_def Let_def same_control_def split: if_splits option.splits)

lemma npu_iterate_RetE:
  assumes "npu_thread_iterate env l s = Ret (l', s')"
  obtains l1 s1 l2 where
    "npu_sample env (time_now (ne_clock env) (nl_current_time l)) (l\<lparr>nl_current_time := time_now (ne_clock env) (nl_current_time l)\<rparr>) s = Ret (l1, s1)"
    "npu_stream (time_now (ne_clock env) (nl_current_time l)) l1 s1 = (l2, s')"
    "l' = (if g_is_thread_running s' then l2\<lparr>nl_slept := unat (rq_sampling_rate (nl_request l2)) * 1000\<rparr> else l2)"
proof -
  obtain l1 s1 where 1: "npu_sample env (time_now (ne_clock env) (nl_current_time l))
     (l\<lparr>nl_current_time := time_now (ne_clock env) (nl_current_time l)\<rparr>) s = Ret (l1, s1)"
    using assms by (auto simp: npu_thread_iterate_def Let_def outcome_simps)
  obtain l2 s2 where 2: "npu_stream (time_now (ne_clock env) (nl_current_time l)) l1 s1 = (l2, s2)" by fastforce
  show thesis by (rule that [OF 1]) (use assms 1 2 in \<open>auto simp: npu_thread_iterate_def Let_def\<close>)
qed

lemma npu_iterate_control:
  assumes "npu_thread_iterate env l s = Ret (l', s')"
  shows "same_control s s' \<and> npu_frame s s'"
  using assms
  by (cases rule: npu_iterate_RetE) (auto dest!: npu_sample_control npu_stream_control intro: same_control_trans npu_frame_trans)

section \<open>The session contract\<close>

lemma npu_start_law:
  assumes "dsp_npu_start r s = Ret (rc, s')"
  shows "npu_frame s s' \<and> g_dsp s' = g_dsp s \<and> (if rc = SUCCESS then spawned s s' else same_control s s')"
proof (cases r)
  case None
  then show ?thesis using assms by (auto simp: dsp_npu_start_def Let_def)
next
  case (Some rq)
  let ?s = "NPU_SEND LEVEL_INFO ''Starting profiling'' s"
  obtain ret s1 where v: "npu_validate_request rq ?s = Ret (ret, s1)"
    using assms Some by (auto simp: dsp_npu_start_def Let_def outcome_simps)
  obtain lv t where s1: "s1 = NPU_SEND lv t ?s" using npu_validate_RetE [OF v] by blast
  obtain tr s2 where sp: "spawn (npu_thread_attrs rq) s1 = (tr, s2)" by (cases "spawn (npu_thread_attrs rq) s1")
  have c: "same_control s s1" "npu_frame s s1" by (simp_all add: s1)
  have "npu_frame s s2" "g_dsp s2 = g_dsp s" using spawn_cases [OF sp] by (auto simp: s1)
  then show ?thesis
    using assms Some v sp c s1 spawn_cases [OF sp]
    by (auto simp: dsp_npu_start_def Let_def spawned_def same_control_def split: if_splits)
qed

lemma dsp_npu_stop_down:
  assumes "\<not> g_is_thread_running s \<or> r = None"
  shows "\<exists>rc s'. dsp_npu_stop env r s = Ret (rc, s') \<and> same_control s s'"
  using assms by (auto simp: dsp_npu_stop_def Let_def split: option.splits)

lemma dsp_npu_stop_up:
  assumes "g_is_thread_running s" "th_handle (g_thread_info s) = Thread t"
    "t < length (sn_threads s)" "\<not> is_spawned (sn_threads s ! t)"
  shows "\<exists>s'. dsp_npu_stop env (Some q) s = Ret (SUCCESS, s') \<and> joined t s s'"
proof -
  let ?s = "(NPU_SEND LEVEL_INFO ''Stopping profiling'' s)\<lparr>g_is_thread_running := False\<rparr>"
  have w: "\<exists>s1. wait_exit (npu_thread env) t ?s = Ret (0, s1) \<and> sn_threads s1 = (sn_threads s)[t := Exited] \<and>
      g_thread_info s1 = g_thread_info s \<and> \<not> g_is_thread_running s1"
    using assms(3,4) by (cases "sn_threads s ! t")
      (auto simp: wait_exit_def npu_thread_def npu_thread_finish_def list_update_same_conv [THEN iffD2])
  then show ?thesis
    using assms(1,2)
    by (auto simp: dsp_npu_stop_def Let_def thread_join_def thread_destroy_def joined_def)
qed

interpretation npu: session_backend dsp_npu_start dsp_npu_stop npu_thread npu_thread_iterate
proof unfold_locales
  fix e l s l' s'
  show "npu_thread_iterate e l s = Ret (l', s') \<Longrightarrow> same_control s s'"
    by (simp add: npu_iterate_control)
qed (use npu_start_law dsp_npu_stop_down dsp_npu_stop_up npu_entry_law in
      \<open>auto simp: npu_thread_def npu_thread_finish_def\<close>)

section \<open>The table of capabilities\<close>

definition npu_metric_table :: "QcPerfMetricInfo list" where
  "npu_metric_table = dsp_npu_capability_0_init_metrics (replicate 4 zero_metric_info)"

lemma npu_init_metrics:
  assumes "length ms = 4"
  shows "dsp_npu_capability_0_init_metrics ms = npu_metric_table"
proof -
  obtain a b c d where "ms = [a, b, c, d]" using assms by (auto simp: numeral_eq_Suc length_Suc_conv)
  then show ?thesis by (simp add: npu_metric_table_def dsp_npu_capability_0_init_metrics_def numeral_eq_Suc)
qed

lemma npu_metric_table_props:
  "length npu_metric_table = 4" "\<forall>m \<in> set npu_metric_table. metric_info_ok m"
  "i < 4 \<Longrightarrow> mi_metric_id (npu_metric_table ! i) = of_nat i"
proof -
  show "length npu_metric_table = 4" by (simp add: npu_metric_table_def dsp_npu_capability_0_init_metrics_def)
  show "\<forall>m \<in> set npu_metric_table. metric_info_ok m"
    by (simp add: npu_metric_table_def dsp_npu_capability_0_init_metrics_def numeral_eq_Suc)
  assume "i < 4"
  then have "i \<in> {0, 1, 2, 3}" by auto
  then show "mi_metric_id (npu_metric_table ! i) = of_nat i"
    by (auto simp: npu_metric_table_def dsp_npu_capability_0_init_metrics_def numeral_eq_Suc)
qed

definition npu_entry :: "QcPerfCapabilityInfo \<Rightarrow> bool" where
  "npu_entry c \<longleftrightarrow> capability_ok c \<and> ci_capability_id c = 0 \<and> ci_name c = ''npu'' \<and>
     ci_metric_ids_list_len c = 4 \<and> streaming_rates_of c = set npu_streaming_rates \<and>
     sampling_rates_of c = set npu_sampling_rates \<and> ci_metric_ids_list c = Some npu_metric_table"

lemma npu_fill_entry: "npu_entry (npu_fill_capability npu_metric_table zero_capability)"
proof -
  have st: "copy_rates npu_streaming_rates 0 (replicate 32 0, 0) = (npu_streaming_rates @ replicate 22 0, 10)"
    by (subst copy_rates_fresh) (simp_all add: npu_streaming_rates_def)
  have sa: "copy_rates npu_sampling_rates 0 (replicate 32 0, 0) = (npu_sampling_rates @ replicate 26 0, 6)"
    by (subst copy_rates_fresh) (simp_all add: npu_sampling_rates_def)
  have len: "length npu_streaming_rates = 10" "length npu_sampling_rates = 6"
    by (simp_all add: npu_streaming_rates_def npu_sampling_rates_def)
  show ?thesis
    using len npu_metric_table_props(1,2)
    by (simp add: npu_entry_def npu_fill_capability_def zero_capability_def st sa capability_ok_def
        streaming_rates_of_def sampling_rates_of_def cstd_simps)
qed

definition npu_registered :: "npu_state \<Rightarrow> bool" where
  "npu_registered s \<longleftrightarrow> (\<exists>c. bi_capabilities_list (g_backend_info s) = Some [c] \<and>
     bi_capabilities_list_length (g_backend_info s) = 1 \<and> npu_entry c)"

definition npu_statics_ok :: "npu_state \<Rightarrow> bool" where
  "npu_statics_ok s \<longleftrightarrow> length (g_capability_0_metrics_data s) = 4 \<and> length (dsp_h (g_dsp s)) = 4 \<and> length (dsp_prof (g_dsp s)) = 4"

lemma npu_statics_initial [simp]: "npu_statics_ok (initial_npu faults)"
  by (simp add: npu_statics_ok_def initial_npu_def session.defs initial_dsp_def)

text \<open>The DSP session of the backend: none, or one in the slot of the NPU, as the flag says.\<close>

definition npu_dsp_ok :: "npu_state \<Rightarrow> bool" where
  "npu_dsp_ok s \<longleftrightarrow> dsp_accounts (g_dsp s) \<and>
     (if g_is_dsp_initialized s then dsp_held_at DSP_NPU0 (g_dsp s) else dsp_free_at DSP_NPU0 (g_dsp s))"

lemma npu_init_total:
  assumes st: "npu_statics_ok s"
  shows "\<exists>rc s'. dsp_npu_init env s = Ret (rc, s') \<and> same_control s s' \<and> npu_statics_ok s' \<and>
     g_data_callback s' = g_data_callback s \<and> sn_data s' = sn_data s \<and>
     (if rc = SUCCESS then npu_registered s' \<and> bi_backend_id (g_backend_info s') = 2
      else npu_registered s' = npu_registered s \<and> no_table s' = no_table s \<or> no_table s') \<and>
     (sn_faults s = [] \<longrightarrow> sn_faults s' = []) \<and>
     (npu_dsp_ok s \<and> \<not> g_is_dsp_initialized s \<and> opens_properly (ne_rpc env) \<longrightarrow>
        npu_dsp_ok s' \<and> (g_is_dsp_initialized s' \<longleftrightarrow> rc = SUCCESS))"
proof -
  have l: "length (dsp_h (g_dsp s)) = 4" "length (dsp_prof (g_dsp s)) = 4" "length (g_capability_0_metrics_data s) = 4"
    using st by (simp_all add: npu_statics_ok_def)
  let ?acc = "npu_dsp_ok s \<and> \<not> g_is_dsp_initialized s \<and> opens_properly (ne_rpc env)"
  obtain dr d where d: "qcom_dsp_init (ne_rpc env) DSP_NPU0 (g_dsp s) = Ret (dr, d)" "length (dsp_h d) = 4" "length (dsp_prof d) = 4"
    using dsp_init_total [OF l(1,2), of DSP_NPU0 "ne_rpc env"] by auto
  have da: "dsp_accounts d \<and> (if dr = DSP_LIB_SUCCESS then dsp_held_at DSP_NPU0 d else dsp_free_at DSP_NPU0 d)" if ?acc
    using that dsp_init_accounts [of "g_dsp s" DSP_NPU0 "ne_rpc env"] d(1) by (auto simp: npu_dsp_ok_def split: if_splits)
  show ?thesis
  proof (cases "dr = DSP_LIB_SUCCESS")
    case False
    then show ?thesis
      using d da l by (auto simp: dsp_npu_init_def Let_def same_control_def npu_statics_ok_def npu_registered_def no_table_def npu_dsp_ok_def)
  next
    case ok: True
    show ?thesis
    proof (cases "fst (calloc_ok (sn_faults s))")
      case True
      then show ?thesis
        using ok d da l npu_fill_entry
        by (auto simp: dsp_npu_init_def Let_def dsp_npu_alloc_def alloc_pair npu_init_metrics npu_metric_table_props(1)
            same_control_def npu_statics_ok_def npu_registered_def npu_dsp_ok_def)
    next
      case False
      obtain r2 d2 where d2: "qcom_dsp_deinit (ne_rpc env) DSP_NPU0 d = Ret (r2, d2)" "dsp_free_at DSP_NPU0 d2"
        "length (dsp_h d2) = 4" "length (dsp_prof d2) = 4" "dsp_accounts d \<longrightarrow> dsp_accounts d2"
        using dsp_deinit_total [OF d(2,3), of DSP_NPU0 "ne_rpc env"] by auto
      show ?thesis
        using ok False d d2 da l
        by (auto simp: dsp_npu_init_def Let_def dsp_npu_alloc_def dsp_npu_free_def alloc_pair same_control_def npu_statics_ok_def
            no_table_def npu_dsp_ok_def)
    qed
  qed
qed

text \<open>Deinitialisation gives the table and the DSP session back.\<close>

lemma npu_deinit_total:
  assumes st: "npu_statics_ok s"
  shows "\<exists>s'. dsp_npu_deinit env s = Ret (SUCCESS, s') \<and> same_control s s' \<and> npu_statics_ok s' \<and> no_table s' \<and>
     \<not> g_is_dsp_initialized s' \<and> g_data_callback s' = g_data_callback s \<and> (npu_dsp_ok s \<longrightarrow> npu_dsp_ok s')"
proof (cases "g_is_dsp_initialized s")
  case False
  then show ?thesis
    using st by (auto simp: dsp_npu_deinit_def dsp_npu_free_def Let_def same_control_def npu_statics_ok_def no_table_def npu_dsp_ok_def)
next
  case True
  have l: "length (dsp_h (g_dsp s)) = 4" "length (dsp_prof (g_dsp s)) = 4" using st by (simp_all add: npu_statics_ok_def)
  obtain r2 d2 where d2: "qcom_dsp_deinit (ne_rpc env) DSP_NPU0 (g_dsp s) = Ret (r2, d2)" "dsp_free_at DSP_NPU0 d2"
    "length (dsp_h d2) = 4" "length (dsp_prof d2) = 4" "dsp_accounts (g_dsp s) \<longrightarrow> dsp_accounts d2"
    using dsp_deinit_total [OF l, of DSP_NPU0 "ne_rpc env"] by auto
  then show ?thesis
    using st True
    by (auto simp: dsp_npu_deinit_def dsp_npu_free_def Let_def same_control_def npu_statics_ok_def no_table_def npu_dsp_ok_def)
qed

lemma npu_registered_find:
  assumes "npu_registered s"
  shows "find_capability k (g_backend_info s) = Ret (if k = 0 then Some 0 else None)"
  using assms by (auto simp: npu_registered_def find_capability_def npu_entry_def )

lemma npu_registered_deref:
  assumes "npu_registered s"
  shows "\<exists>c. deref_capability (sn_table s) 0 s = Ret c \<and> npu_entry c"
  using assms by (auto simp: npu_registered_def deref_capability_def)

lemma npu_registered_cong:
  "g_backend_info s' = g_backend_info s \<Longrightarrow> npu_registered s' = npu_registered s"
  by (simp add: npu_registered_def)

lemma npu_frame_registered: "npu_frame s s' \<Longrightarrow> npu_registered s' = npu_registered s"
  by (simp add: npu_frame_def npu_registered_def)

lemma npu_registered_table: "npu_registered s \<Longrightarrow> table_ok s"
  by (auto simp: npu_registered_def table_ok_def backend_info_ok_def npu_entry_def)

section \<open>Requests\<close>

definition npu_request_code :: "QcPerfRequest \<Rightarrow> QcPerfReturnCode" where
  "npu_request_code rq =
     (if rq_capability_id rq \<noteq> 0 then CAPABILITY_NOT_FOUND
      else if rq_sampling_rate rq \<notin> set npu_sampling_rates \<or> rq_streaming_rate rq \<notin> set npu_streaming_rates
      then INVALID_ARGUMENTS else SUCCESS)"

lemma npu_validate_code:
  assumes "npu_registered s"
  shows "\<exists>lv t. npu_validate_request rq s = Ret (npu_request_code rq, NPU_SEND lv t s)"
proof (cases "rq_capability_id rq = 0")
  case False
  then show ?thesis
    using npu_registered_find [OF assms, of "rq_capability_id rq"]
    by (auto simp: npu_validate_request_def npu_request_code_def Let_def)
next
  case True
  obtain c where c: "deref_capability (sn_table s) 0 s = Ret c" "npu_entry c"
    using npu_registered_deref [OF assms] by blast
  then have "capability_ok c" "streaming_rates_of c = set npu_streaming_rates" "sampling_rates_of c = set npu_sampling_rates"
    by (simp_all add: npu_entry_def)
  note rs = rate_scan_ok [OF this(1)] this(2,3)
  show ?thesis
    using npu_registered_find [OF assms, of 0] True c rs
    by (simp add: npu_validate_request_def npu_request_code_def Let_def) blast
qed

lemma npu_samples_per_stream:
  assumes "npu_request_code rq = SUCCESS"
  shows "\<exists>sps. samples_per_stream rq = Ret sps \<and> 0 < sps \<and> unat sps \<le> 1000 \<and>
     unat sps = (unat (rq_streaming_rate rq) + unat (rq_sampling_rate rq) - 1) div unat (rq_sampling_rate rq)"
proof -
  have s: "rq_sampling_rate rq \<in> set npu_sampling_rates" "rq_streaming_rate rq \<in> set npu_streaming_rates"
    using assms by (auto simp: npu_request_code_def split: if_splits)
  have a: "1 \<le> unat (rq_sampling_rate rq)" using s(1) by (auto simp: npu_sampling_rates_def)
  have b: "1 \<le> unat (rq_streaming_rate rq)" "unat (rq_streaming_rate rq) \<le> 1000"
    using s(2) by (auto simp: npu_streaming_rates_def)
  show ?thesis using samples_per_stream_bounds [OF a b(1)] b(2) by (auto intro: le_trans)
qed


lemma dsp_npu_start_code:
  assumes reg: "npu_registered s"
  shows "\<exists>s'. dsp_npu_start (Some rq) s =
     Ret (if npu_request_code rq \<noteq> SUCCESS then npu_request_code rq
          else if g_data_callback s = None then FAILED
          else if g_is_thread_running s then ALREADY_INITIALIZED
          else if fst (calloc_ok (sn_faults s)) \<and> fst (calloc_ok (snd (calloc_ok (sn_faults s)))) then SUCCESS
          else FAILED, s') \<and> g_backend_info s' = g_backend_info s \<and> sn_table s' = sn_table s \<and>
     g_data_callback s' = g_data_callback s \<and> sn_data s' = sn_data s \<and>
     (sn_faults s = [] \<longrightarrow> sn_faults s' = []) \<and>
     (sn_threads s' \<noteq> sn_threads s \<longrightarrow> sn_threads s' = sn_threads s @ [Spawned (Some rq)])"
proof -
  let ?s = "NPU_SEND LEVEL_INFO ''Starting profiling'' s"
  have "npu_registered ?s" using reg by (simp add: npu_registered_def)
  then obtain lv t where v: "npu_validate_request rq ?s = Ret (npu_request_code rq, NPU_SEND lv t ?s)"
    using npu_validate_code by blast
  show ?thesis
    using v by (simp add: dsp_npu_start_def Let_def spawn_def thread_create_def npu_thread_attrs_def case_prod_beta)
qed

end
