(* ===== verification/DspNpuThread.thy ===== *)
theory DspNpuThread
  imports DspNpuProps
begin

text \<open>
  The collection thread of the DSP NPU backend against a reference: an iteration reports the four figures of
  the sample FastRPC delivered, or nothing when it delivered none.
\<close>

section \<open>One iteration\<close>

definition npu_figures :: "sysmon_query_prof_data \<Rightarrow> u64 \<Rightarrow> (u16 \<times> u64 \<times> reading) list" where
  "npu_figures p now =
     [(0, now, Dbl (q6_utilization p)), (1, now, Dbl (of_nat (unat (q6_clock p)))),
      (2, now, Dbl (hvx_utilization p)), (3, now, Dbl (hmx_utilization p))]"

text \<open>
  The reference: the answer of FastRPC for the handle \<open>h\<close>, from the time, the sample and the value of
  \<open>no_metrics\<close> before it.
\<close>

definition npu_out ::
  "u64 \<Rightarrow> npu_env \<Rightarrow> u64 \<times> int \<times> sysmon_query_prof_data
     \<Rightarrow> (u16 \<times> u64 \<times> reading) list \<times> (u64 \<times> int \<times> sysmon_query_prof_data)" where
  "npu_out h e a =
     (case a of (t, n, p) \<Rightarrow>
        let now = time_now (ne_clock e) t; (rc, p', n') = fr_profdata (ne_rpc e) h (Some p) n
        in (if rc = 0 \<and> n' > 0 then npu_figures p' now else [], (now, n', p')))"

definition npu_block :: "npu_state \<Rightarrow> sysmon_query_prof_data" where
  "npu_block s = (case dsp_prof (g_dsp s) ! 3 of Some p \<Rightarrow> p | None \<Rightarrow> zero_prof_data)"

section \<open>Storing a sample\<close>

lemma npu_fill_readings:
  assumes "i + n = 4" "length (pd_metric_response (nl_data l)) = unat (nl_total_metrics l)"
    "pd_metric_response_len (nl_data l) + n \<le> unat (nl_total_metrics l)"
  shows "\<exists>d. npu_fill i n (Some npu_metric_table) p now l s = Ret (l\<lparr>nl_data := d\<rparr>, s) \<and>
     batch_readings d = batch_readings (nl_data l) @ drop i (npu_figures p now) \<and>
     length (pd_metric_response d) = length (pd_metric_response (nl_data l)) \<and>
     pd_metric_response_len d = pd_metric_response_len (nl_data l) + n \<and>
     pd_backend_id d = pd_backend_id (nl_data l) \<and> pd_capability_id d = pd_capability_id (nl_data l)"
  using assms
proof (induction n arbitrary: i l)
  case 0
  then show ?case by (intro exI [of _ "nl_data l"]) (simp add: npu_figures_def)
next
  case (Suc n)
  let ?k = "pd_metric_response_len (nl_data l)" let ?rs = "pd_metric_response (nl_data l)"
  have k: "?k < length ?rs" "?k < unat (nl_total_metrics l)" using Suc.prems by auto
  have "unat (nl_total_metrics l) < 2 ^ 32" using unsigned_less [where 'a = nat, of "nl_total_metrics l"] by simp
  then have u: "unat (of_nat ?k :: u32) = ?k" using k(2) by (intro unat_of_nat_u32) simp
  have i: "i < 4" using Suc.prems(1) by simp
  define v where "v = (mr_metric_value (?rs ! ?k))\<lparr>gt_data_type := TYPE_DOUBLE,
      gt_double_value := npu_metric_value i p (gt_double_value (mr_metric_value (?rs ! ?k)))\<rparr>"
  define r where "r = \<lparr>mr_timestamp = now, mr_metric_id = of_nat i, mr_metric_value = v\<rparr>"
  define d1 where "d1 = (nl_data l)\<lparr>pd_metric_response := ?rs[?k := r], pd_metric_response_len := Suc ?k\<rparr>"
  have step: "npu_fill i (Suc n) (Some npu_metric_table) p now l s = npu_fill (Suc i) n (Some npu_metric_table) p now (l\<lparr>nl_data := d1\<rparr>) s"
    using k i u npu_metric_table_props(1,3)
    by (simp add: Let_def word_le_nat_alt not_le d1_def r_def v_def)
  have fig: "drop i (npu_figures p now) = response_reading r # drop (Suc i) (npu_figures p now)"
  proof -
    have "i \<in> {0, 1, 2, 3}" using i by auto
    then show ?thesis by (auto simp: npu_figures_def response_reading_def reading_of_def r_def v_def npu_metric_value_def)
  qed
  have "batch_readings d1 = batch_readings (nl_data l) @ [response_reading r]"
    using k(1) by (simp add: batch_readings_def d1_def take_Suc_conv_app_nth)
  moreover have "\<exists>d. npu_fill (Suc i) n (Some npu_metric_table) p now (l\<lparr>nl_data := d1\<rparr>) s = Ret ((l\<lparr>nl_data := d1\<rparr>)\<lparr>nl_data := d\<rparr>, s) \<and>
     batch_readings d = batch_readings (nl_data (l\<lparr>nl_data := d1\<rparr>)) @ drop (Suc i) (npu_figures p now) \<and>
     length (pd_metric_response d) = length (pd_metric_response (nl_data (l\<lparr>nl_data := d1\<rparr>))) \<and>
     pd_metric_response_len d = pd_metric_response_len (nl_data (l\<lparr>nl_data := d1\<rparr>)) + n \<and>
     pd_backend_id d = pd_backend_id (nl_data (l\<lparr>nl_data := d1\<rparr>)) \<and>
     pd_capability_id d = pd_capability_id (nl_data (l\<lparr>nl_data := d1\<rparr>))"
    by (rule Suc.IH) (use Suc.prems k in \<open>simp_all add: d1_def\<close>)
  ultimately show ?case unfolding step fig by (auto simp: d1_def)
qed

section \<open>The invariant of the loop\<close>

definition npu_loop_inv :: "npu_state \<Rightarrow> npu_local \<Rightarrow> bool" where
  "npu_loop_inv s l \<longleftrightarrow>
     nl_table l = sn_table s \<and> nl_cap l = 0 \<and>
     length (pd_metric_response (nl_data l)) = unat (nl_total_metrics l) \<and>
     unat (nl_total_metrics l) = 4 * unat (nl_samples_per_stream l) \<and>
     nl_sample_count l < nl_samples_per_stream l \<and>
     pd_metric_response_len (nl_data l) \<le> 4 * unat (nl_sample_count l) \<and>
     pd_backend_id (nl_data l) = 2"

lemma npu_entry_loop:
  assumes reg: "npu_registered s" and rq: "npu_request_code rq = SUCCESS"
    and e: "npu_thread_entry env (Some rq) s = Ret (Some l, s')"
  shows "npu_loop_inv s' l \<and> batch_readings (nl_data l) = [] \<and> nl_no_metrics l = 0"
  using e
proof (cases rule: npu_entry_RetE)
  case (running rq' c ci sps f l')
  have k: "rq_capability_id rq = 0" using rq by (auto simp: npu_request_code_def split: if_splits)
  have c0: "c = 0" using running k npu_registered_find [OF reg, of 0] by simp
  then have "ci_metric_ids_list_len ci = 4"
    using running(5) npu_registered_deref [OF reg] by (auto simp: npu_entry_def)
  moreover obtain n where n: "samples_per_stream rq = Ret n" "0 < n" "unat n \<le> 1000"
    using npu_samples_per_stream [OF rq] by blast
  moreover have "unat (n * (4 :: u32)) = 4 * unat n"
    using n(3) by (subst unat_mult_lem [THEN iffD1]) auto
  ultimately show ?thesis
    using running c0 by (simp add: npu_loop_inv_def batch_readings_def)
qed simp_all

lemma npu_sample_readings:
  assumes reg: "npu_registered s" and inv: "npu_loop_inv s l" and st: "npu_statics_ok s"
  shows "\<exists>l' s'. npu_sample env now l s = Ret (l', s') \<and> npu_statics_ok s' \<and> same_control s s' \<and> npu_frame s s' \<and> sn_data s' = sn_data s \<and>
     npu_loop_inv s (l'\<lparr>nl_data := nl_data l\<rparr>) \<and> nl_sample_count l' = nl_sample_count l \<and> nl_current_time l' = nl_current_time l \<and>
     nl_samples_per_stream l' = nl_samples_per_stream l \<and> nl_request l' = nl_request l \<and>
     length (pd_metric_response (nl_data l')) = length (pd_metric_response (nl_data l)) \<and>
     pd_metric_response_len (nl_data l') \<le> pd_metric_response_len (nl_data l) + 4 \<and> pd_backend_id (nl_data l') = 2 \<and>
     dsp_h (g_dsp s') = dsp_h (g_dsp s) \<and>
     (dsp_prof (g_dsp s) ! 3 \<noteq> None \<longrightarrow> dsp_prof (g_dsp s') ! 3 \<noteq> None \<and>
       (case fr_profdata (ne_rpc env) (dsp_h (g_dsp s) ! 3) (Some (npu_block s)) (nl_no_metrics l) of (rc, p', n') \<Rightarrow>
          batch_readings (nl_data l') = batch_readings (nl_data l) @ (if rc = 0 \<and> n' > 0 then npu_figures p' now else []) \<and>
          nl_no_metrics l' = n' \<and> npu_block s' = p'))"
proof -
  define h where "h = dsp_h (g_dsp s) ! 3" define b where "b = dsp_prof (g_dsp s) ! 3"
  obtain rc p n where a: "fr_profdata (ne_rpc env) h b (nl_no_metrics l) = (rc, p, n)" by (metis prod_cases3)
  define b' where "b' = (case b of None \<Rightarrow> None | Some _ \<Rightarrow> Some p)"
  define s1 where "s1 = s\<lparr>g_dsp := (dsp_called (SysmonGetProfdata h rc) (g_dsp s))\<lparr>dsp_prof := (dsp_prof (g_dsp s))[3 := b']\<rparr>\<rparr>"
  have q: "qcom_dsp_get_prof_data (ne_rpc env) DSP_NPU0 (Some (nl_no_metrics l)) (g_dsp s) =
      Ret (if rc = 0 then b' else None, Some n, g_dsp s1)"
    using st a by (simp add: qcom_dsp_get_prof_data_def Let_def npu_statics_ok_def h_def b_def b'_def s1_def arr_read_def)
  have fr: "npu_frame s s1" "same_control s s1" "sn_data s1 = sn_data s" "npu_statics_ok s1" "dsp_h (g_dsp s1) = dsp_h (g_dsp s)"
    "dsp_prof (g_dsp s1) ! 3 = b'"
    using st by (simp_all add: s1_def same_control_def npu_statics_ok_def dsp_called_def npu_frame_def)
  have reg1: "npu_registered s1" using reg npu_frame_registered [OF fr(1)] by simp
  have tab: "nl_table l = sn_table s1" "nl_cap l = 0" using inv fr(1) by (simp_all add: npu_loop_inv_def npu_frame_def)
  obtain c where c: "deref_capability (sn_table s1) 0 s1 = Ret c" "npu_entry c" using npu_registered_deref [OF reg1] by blast
  let ?l = "l\<lparr>nl_no_metrics := n\<rparr>"
  note nb = npu_block_def
  show ?thesis
  proof (cases "rc = 0 \<and> b \<noteq> None \<and> n > 0")
    case True
    have room: "pd_metric_response_len (nl_data l) + 4 \<le> unat (nl_total_metrics l)"
      using inv by (simp add: npu_loop_inv_def word_less_nat_alt)
    obtain d where d: "npu_fill 0 4 (Some npu_metric_table) p now ?l s1 = Ret (?l\<lparr>nl_data := d\<rparr>, s1)"
      "batch_readings d = batch_readings (nl_data l) @ npu_figures p now"
      "length (pd_metric_response d) = length (pd_metric_response (nl_data l))"
      "pd_metric_response_len d = pd_metric_response_len (nl_data l) + 4" "pd_backend_id d = pd_backend_id (nl_data l)"
      using npu_fill_readings [of 0 4 ?l p now s1] inv room by (auto simp: npu_loop_inv_def)
    have "npu_sample env now l s = Ret (?l\<lparr>nl_data := d\<rparr>, s1)"
      using q True d(1) c tab by (auto simp: npu_sample_def Let_def b'_def npu_entry_def s1_def)
    then show ?thesis
      using d fr inv True a
      by (intro exI [of _ "?l\<lparr>nl_data := d\<rparr>"] exI [of _ s1])
         (auto simp: npu_loop_inv_def nb h_def [symmetric] b_def [symmetric] b'_def)
  next
    case False
    let ?s = "NPU_SEND LEVEL_WARNING ''Failed to get profiling data from DSP'' s1"
    have smp: "npu_sample env now l s = Ret (?l, ?s)"
      using q False by (auto simp: npu_sample_def Let_def b'_def s1_def split: option.splits)
    have st2: "npu_statics_ok ?s" using fr(4) by (simp add: npu_statics_ok_def)
    show ?thesis
      using smp st2 fr inv False a
      by (intro exI [of _ ?l] exI [of _ ?s])
         (auto simp: npu_loop_inv_def nb h_def [symmetric] b_def [symmetric] b'_def)
  qed
qed

text \<open>The delivery at the end of an iteration.\<close>

lemma npu_stream_readings:
  assumes cb: "g_data_callback s = Some cb" and lt: "nl_sample_count l < nl_samples_per_stream l"
    and tab: "nl_table l = sn_table s" "nl_cap l = 0"
    and res: "length (pd_metric_response (nl_data l)) = unat (nl_total_metrics l)"
      "unat (nl_total_metrics l) = 4 * unat (nl_samples_per_stream l)"
    and len: "pd_metric_response_len (nl_data l) \<le> 4 * Suc (unat (nl_sample_count l))" and id: "pd_backend_id (nl_data l) = 2"
  shows "\<exists>l' bs. npu_stream now l s = (l', s\<lparr>sn_data := sn_data s @ map (Pair cb) bs\<rparr>) \<and>
     concat (map batch_readings bs) @ batch_readings (nl_data l') = batch_readings (nl_data l) \<and>
     (\<forall>d \<in> set bs. 0 < pd_metric_response_len d \<and> pd_backend_id d = 2) \<and> npu_loop_inv s l' \<and>
     nl_current_time l' = nl_current_time l \<and> nl_no_metrics l' = nl_no_metrics l"
proof -
  have su: "unat (nl_sample_count l + 1) = Suc (unat (nl_sample_count l))"
  proof -
    have "1 + nl_sample_count l \<noteq> 0"
    proof
      assume "1 + nl_sample_count l = 0"
      then have "nl_sample_count l = - 1" by (simp add: add_eq_0_iff)
      then show False using lt by (simp add: word_order.extremum_strict)
    qed
    then show ?thesis using unatSuc [of "nl_sample_count l"] by (simp add: add.commute)
  qed
  have pos: "0 < nl_samples_per_stream l" using lt word_gt_0 by fastforce
  let ?l = "l\<lparr>nl_sample_count := 0, nl_last_stream_time := now\<rparr>"
  let ?m = "l\<lparr>nl_sample_count := nl_sample_count l + 1\<rparr>"
  consider (wait) "\<not> (nl_samples_per_stream l \<le> nl_sample_count l + 1 \<or> nl_streaming_rate_ns l \<le> now - nl_last_stream_time l)"
    | (empty) "nl_samples_per_stream l \<le> nl_sample_count l + 1 \<or> nl_streaming_rate_ns l \<le> now - nl_last_stream_time l"
        "pd_metric_response_len (nl_data l) = 0"
    | (full) "nl_samples_per_stream l \<le> nl_sample_count l + 1 \<or> nl_streaming_rate_ns l \<le> now - nl_last_stream_time l"
        "pd_metric_response_len (nl_data l) > 0" by blast
  then show ?thesis
  proof cases
    case wait
    then have "npu_stream now l s = (?m, s)" by (auto simp: npu_stream_def Let_def)
    moreover have "npu_loop_inv s ?m" using wait su len res tab id by (simp add: npu_loop_inv_def not_le)
    ultimately show ?thesis by (intro exI [of _ ?m] exI [of _ "[]"]) simp
  next
    case empty
    then show ?thesis using cb res tab id pos
      by (intro exI [of _ ?l] exI [of _ "[]"]) (simp add: npu_stream_def Let_def npu_loop_inv_def)
  next
    case full
    let ?f = "?l\<lparr>nl_data := (nl_data l)\<lparr>pd_metric_response_len := 0\<rparr>\<rparr>"
    show ?thesis using full cb res tab id pos
      by (intro exI [of _ ?f] exI [of _ "[nl_data l]"]) (simp add: npu_stream_def Let_def npu_loop_inv_def batch_readings_def)
  qed
qed

lemma npu_iterate_readings:
  assumes reg: "npu_registered s" and inv: "npu_loop_inv s l" and st: "npu_statics_ok s" and cb: "g_data_callback s = Some cb"
  shows "\<exists>l' s' bs. npu_thread_iterate env l s = Ret (l', s') \<and> npu_registered s' \<and> npu_loop_inv s' l' \<and> npu_statics_ok s' \<and>
     npu_frame s s' \<and> same_control s s' \<and> sn_data s' = sn_data s @ map (Pair cb) bs \<and>
     (\<forall>d \<in> set bs. 0 < pd_metric_response_len d \<and> pd_backend_id d = 2) \<and> dsp_h (g_dsp s') = dsp_h (g_dsp s) \<and>
     (dsp_prof (g_dsp s) ! 3 \<noteq> None \<longrightarrow> dsp_prof (g_dsp s') ! 3 \<noteq> None \<and>
        concat (map batch_readings bs) @ batch_readings (nl_data l') =
          batch_readings (nl_data l) @
            fst (npu_out (dsp_h (g_dsp s) ! 3) env (nl_current_time l, nl_no_metrics l, npu_block s)) \<and>
        (nl_current_time l', nl_no_metrics l', npu_block s') =
          snd (npu_out (dsp_h (g_dsp s) ! 3) env (nl_current_time l, nl_no_metrics l, npu_block s)))"
proof -
  define now where "now = time_now (ne_clock env) (nl_current_time l)"
  let ?l = "l\<lparr>nl_current_time := now\<rparr>"
  have inv': "npu_loop_inv s ?l" using inv by (simp add: npu_loop_inv_def)
  obtain l1 s1 where 1: "npu_sample env now ?l s = Ret (l1, s1)" "npu_statics_ok s1" "same_control s s1" "npu_frame s s1" "sn_data s1 = sn_data s"
     "npu_loop_inv s (l1\<lparr>nl_data := nl_data l\<rparr>)" "nl_sample_count l1 = nl_sample_count l" "nl_current_time l1 = now"
     "nl_samples_per_stream l1 = nl_samples_per_stream l"
     "length (pd_metric_response (nl_data l1)) = length (pd_metric_response (nl_data l))"
     "pd_metric_response_len (nl_data l1) \<le> pd_metric_response_len (nl_data l) + 4" "pd_backend_id (nl_data l1) = 2"
     "dsp_h (g_dsp s1) = dsp_h (g_dsp s)"
     and rd: "dsp_prof (g_dsp s) ! 3 \<noteq> None \<longrightarrow> dsp_prof (g_dsp s1) ! 3 \<noteq> None \<and>
       (case fr_profdata (ne_rpc env) (dsp_h (g_dsp s) ! 3) (Some (npu_block s)) (nl_no_metrics l) of (rc, p', n') \<Rightarrow>
          batch_readings (nl_data l1) = batch_readings (nl_data l) @ (if rc = 0 \<and> n' > 0 then npu_figures p' now else []) \<and>
          nl_no_metrics l1 = n' \<and> npu_block s1 = p')"
    using npu_sample_readings [OF reg inv' st, of env now] by auto
  have cb1: "g_data_callback s1 = Some cb" and tab: "sn_table s1 = sn_table s" using 1(4) cb by (simp_all add: npu_frame_def)
  note l1 = 1(6) [unfolded npu_loop_inv_def, simplified]
  have lt: "nl_sample_count l1 < nl_samples_per_stream l1" and ts: "nl_table l1 = sn_table s1" "nl_cap l1 = 0"
    and len: "length (pd_metric_response (nl_data l1)) = unat (nl_total_metrics l1)"
      "unat (nl_total_metrics l1) = 4 * unat (nl_samples_per_stream l1)"
    using l1 tab 1(10) by auto
  have le: "pd_metric_response_len (nl_data l1) \<le> 4 * Suc (unat (nl_sample_count l1))"
    using conjunct1 [OF conjunct2 [OF conjunct2 [OF conjunct2 [OF conjunct2 [OF conjunct2 [OF l1]]]]]] 1(11) by simp
  have "\<exists>l' bs. npu_stream now l1 s1 = (l', s1\<lparr>sn_data := sn_data s1 @ map (Pair cb) bs\<rparr>) \<and>
     concat (map batch_readings bs) @ batch_readings (nl_data l') = batch_readings (nl_data l1) \<and>
     (\<forall>d \<in> set bs. 0 < pd_metric_response_len d \<and> pd_backend_id d = 2) \<and> npu_loop_inv s1 l' \<and>
     nl_current_time l' = nl_current_time l1 \<and> nl_no_metrics l' = nl_no_metrics l1"
    by (rule npu_stream_readings [OF cb1 lt ts len le 1(12)])
  then obtain l2 bs where 2: "npu_stream now l1 s1 = (l2, s1\<lparr>sn_data := sn_data s1 @ map (Pair cb) bs\<rparr>)"
     "concat (map batch_readings bs) @ batch_readings (nl_data l2) = batch_readings (nl_data l1)"
     "\<forall>d \<in> set bs. 0 < pd_metric_response_len d \<and> pd_backend_id d = 2" "npu_loop_inv s1 l2"
     "nl_current_time l2 = now" "nl_no_metrics l2 = nl_no_metrics l1"
    using 1(8) by auto
  define s2 where "s2 = s1\<lparr>sn_data := sn_data s1 @ map (Pair cb) bs\<rparr>"
  define l3 where "l3 = (if g_is_thread_running s2 then l2\<lparr>nl_slept := unat (rq_sampling_rate (nl_request l2)) * 1000\<rparr> else l2)"
  have it: "npu_thread_iterate env l s = Ret (l3, s2)"
    using 1(1) 2(1) by (simp add: npu_thread_iterate_def Let_def now_def l3_def s2_def)
  have l3: "nl_data l3 = nl_data l2" "nl_current_time l3 = now" "nl_no_metrics l3 = nl_no_metrics l1" "npu_loop_inv s2 l3"
    using 2(4,5,6) by (auto simp: l3_def s2_def npu_loop_inv_def)
  have s2: "npu_frame s s2" "npu_statics_ok s2" "same_control s s2" "sn_data s2 = sn_data s @ map (Pair cb) bs" "g_dsp s2 = g_dsp s1"
    using 1(2-5) by (simp_all add: s2_def npu_statics_ok_def same_control_def)
  have reg2: "npu_registered s2" using reg npu_frame_registered [OF s2(1)] by simp
  obtain rc p n where a: "fr_profdata (ne_rpc env) (dsp_h (g_dsp s) ! 3) (Some (npu_block s)) (nl_no_metrics l) = (rc, p, n)"
    by (metis prod_cases3)
  show ?thesis
    using it reg2 l3 s2 2(2,3) 1(13) rd a
    by (intro exI [of _ l3] exI [of _ s2] exI [of _ bs]) (simp add: npu_out_def Let_def now_def [symmetric] npu_block_def)
qed

section \<open>The loop\<close>

definition npu_batching :: "npu_local \<Rightarrow> npu_state \<Rightarrow> (u16 \<times> u64 \<times> reading) list \<Rightarrow> bool" where
  "npu_batching l s xs \<longleftrightarrow> npu_registered s \<and> npu_statics_ok s \<and> npu_loop_inv s l \<and> g_data_callback s \<noteq> None \<and>
     dsp_prof (g_dsp s) ! 3 \<noteq> None \<and> xs = batch_readings (nl_data l)"

interpretation npu_batches: batching_loop npu_thread_iterate npu_batching "\<lambda>_ _ _. True"
  "\<lambda>_ s. npu_out (dsp_h (g_dsp s) ! 3)" "\<lambda>l s. (nl_current_time l, nl_no_metrics l, npu_block s)" sn_data
  "\<lambda>d. batch_readings (snd d)"
  "\<lambda>_ s d. g_data_callback s = Some (fst d) \<and> 0 < pd_metric_response_len (snd d) \<and> pd_backend_id (snd d) = 2"
proof unfold_locales
  fix l s xs e
  assume b: "npu_batching l s xs"
  then obtain cb where cb: "g_data_callback s = Some cb" by (auto simp: npu_batching_def)
  obtain l' s' bs where i: "npu_thread_iterate e l s = Ret (l', s')" "npu_registered s'" "npu_loop_inv s' l'" "npu_statics_ok s'"
     "npu_frame s s'" "sn_data s' = sn_data s @ map (Pair cb) bs"
     "\<forall>d \<in> set bs. 0 < pd_metric_response_len d \<and> pd_backend_id d = 2" "dsp_h (g_dsp s') = dsp_h (g_dsp s)"
     "dsp_prof (g_dsp s') ! 3 \<noteq> None"
     "concat (map batch_readings bs) @ batch_readings (nl_data l') =
          xs @ fst (npu_out (dsp_h (g_dsp s) ! 3) e (nl_current_time l, nl_no_metrics l, npu_block s))"
     "(nl_current_time l', nl_no_metrics l', npu_block s') =
          snd (npu_out (dsp_h (g_dsp s) ! 3) e (nl_current_time l, nl_no_metrics l, npu_block s))"
    using npu_iterate_readings [of s l cb e] b cb unfolding npu_batching_def by blast
  have g: "g_data_callback s' = g_data_callback s" using i(5) by (simp add: npu_frame_def)
  have m: "map (\<lambda>d. batch_readings (snd d)) (map (Pair cb) bs) = map batch_readings bs" by simp
  show "\<exists>l' s' ys bs. npu_thread_iterate e l s = Ret (l', s') \<and> npu_batching l' s' ys \<and> sn_data s' = sn_data s @ bs \<and>
     concat (map (\<lambda>d. batch_readings (snd d)) bs) @ ys =
       xs @ fst (npu_out (dsp_h (g_dsp s) ! 3) e (nl_current_time l, nl_no_metrics l, npu_block s)) \<and>
     (nl_current_time l', nl_no_metrics l', npu_block s') =
       snd (npu_out (dsp_h (g_dsp s) ! 3) e (nl_current_time l, nl_no_metrics l, npu_block s)) \<and>
     npu_out (dsp_h (g_dsp s') ! 3) = npu_out (dsp_h (g_dsp s) ! 3) \<and>
     (\<lambda>d. g_data_callback s' = Some (fst d) \<and> 0 < pd_metric_response_len (snd d) \<and> pd_backend_id (snd d) = 2) =
     (\<lambda>d. g_data_callback s = Some (fst d) \<and> 0 < pd_metric_response_len (snd d) \<and> pd_backend_id (snd d) = 2) \<and>
     (\<forall>f. True = True) \<and>
     (\<forall>d\<in>set bs. g_data_callback s = Some (fst d) \<and> 0 < pd_metric_response_len (snd d) \<and> pd_backend_id (snd d) = 2)"
    by (intro exI [of _ l'] exI [of _ s'] exI [of _ "batch_readings (nl_data l')"] exI [of _ "map (Pair cb) bs"])
       (use i g m cb in \<open>auto simp: npu_batching_def simp del: map_map\<close>)
qed

section \<open>Properties\<close>

text \<open>A backend connected to a DSP that answers, for the witnesses.\<close>

definition demo_npu_env :: "u64 \<Rightarrow> npu_env" where
  "demo_npu_env t = \<lparr>ne_clock = Ticks t, ne_rpc = demo_fastrpc\<lparr>fr_alloc := True\<rparr>\<rparr>"

definition demo_npu_request :: QcPerfRequest where
  "demo_npu_request = \<lparr>rq_capability_id = 0, rq_streaming_rate = 100, rq_sampling_rate = 50\<rparr>"

lemma demo_npu_request_ok [simp]: "npu_request_code demo_npu_request = SUCCESS"
  by (simp add: npu_request_code_def demo_npu_request_def npu_sampling_rates_def npu_streaming_rates_def)

lemma initial_npu_fields [simp]:
  "sn_faults (initial_npu f) = f" "sn_threads (initial_npu f) = []" "\<not> g_is_thread_running (initial_npu f)"
  "sn_data (initial_npu f) = []" "g_data_callback (initial_npu f) = None" "g_message_callback (initial_npu f) = None"
  "g_thread_info (initial_npu f) = zero_thread_info" "\<not> g_is_dsp_initialized (initial_npu f)" "g_dsp (initial_npu f) = initial_dsp"
  "bi_capabilities_list_length (g_backend_info (initial_npu f)) = 0" "bi_capabilities_list (g_backend_info (initial_npu f)) = None"
  by (simp_all add: initial_npu_def initial_session_def session.defs zero_backend_info_def)

lemma initial_npu_dsp [simp]: "npu_dsp_ok (initial_npu f)"
  by (simp add: npu_dsp_ok_def)

definition demo_npu :: npu_state where
  "demo_npu = (case dsp_npu_init (demo_npu_env 0) (initial_npu []) of
     Ret (_, s) \<Rightarrow> s\<lparr>g_data_callback := Some 7\<rparr> | Stuck _ \<Rightarrow> initial_npu [])"

lemma demo_npu_connects:
  "\<exists>s. dsp_npu_init (demo_npu_env 0) (initial_npu []) = Ret (SUCCESS, s)"
  by (simp add: dsp_npu_init_def Let_def NPU_SEND_def dsp_npu_alloc_def alloc_pair demo_npu_env_def demo_fastrpc_def
      qcom_dsp_init_def set_remote_process_domain_def dsp_open_session_def initial_dsp_def dsp_called_def arr_read_def arr_write_def
      calloc_ok_def)

lemma demo_npu_facts:
  "npu_registered demo_npu" "g_data_callback demo_npu = Some 7" "sn_faults demo_npu = []" "npu_statics_ok demo_npu"
  "npu_dsp_ok demo_npu" "g_is_dsp_initialized demo_npu"
proof -
  obtain s where i: "dsp_npu_init (demo_npu_env 0) (initial_npu []) = Ret (SUCCESS, s)" using demo_npu_connects by blast
  have "opens_properly (ne_rpc (demo_npu_env 0))" by (simp add: demo_npu_env_def)
  then have "npu_registered s" "npu_statics_ok s" "npu_dsp_ok s" "g_is_dsp_initialized s" "sn_faults s = []"
    using npu_init_total [of "initial_npu []" "demo_npu_env 0"] i by auto
  then show "npu_registered demo_npu" "g_data_callback demo_npu = Some 7" "sn_faults demo_npu = []" "npu_statics_ok demo_npu"
    "npu_dsp_ok demo_npu" "g_is_dsp_initialized demo_npu"
    using i by (simp_all add: demo_npu_def npu_registered_def npu_statics_ok_def npu_dsp_ok_def)
qed

text \<open>C22: When no DSP session is initialised (the accounts of the DSP library are right and the slot of the NPU is free),
  connecting the DSP NPU backend returns, whichever calls of FastRPC fail and for every outcome of the
  allocations; the one thing assumed of FastRPC is what it documents of its opening call, that a handle other
  than 0 is stored exactly when the call succeeds (\<open>opens_properly\<close>). The connection succeeds with the
  capability \<open>npu\<close> registered and a DSP session held; otherwise nothing is registered that was not before,
  and no session or block is left behind. Disconnecting then gives the table and the session back.\<close>

theorem npu_connection_is_accounted:
  assumes "npu_statics_ok s" and "npu_dsp_ok s" and "\<not> g_is_dsp_initialized s" and "opens_properly (ne_rpc env)"
  shows "\<exists>rc s1. dsp_npu_init env s = Ret (rc, s1) \<and> dsp_accounts (g_dsp s1) \<and>
     (if rc = SUCCESS
      then npu_registered s1 \<and> bi_backend_id (g_backend_info s1) = 2 \<and> dsp_held_at DSP_NPU0 (g_dsp s1)
      else (npu_registered s1 \<longrightarrow> npu_registered s) \<and> dsp_free_at DSP_NPU0 (g_dsp s1)) \<and>
     (\<forall>env'. \<exists>s2. dsp_npu_deinit env' s1 = Ret (SUCCESS, s2) \<and> \<not> npu_registered s2 \<and>
        dsp_accounts (g_dsp s2) \<and> dsp_free_at DSP_NPU0 (g_dsp s2))"
proof -
  obtain rc s1 where i: "dsp_npu_init env s = Ret (rc, s1)" "npu_statics_ok s1"
    "if rc = SUCCESS then npu_registered s1 \<and> bi_backend_id (g_backend_info s1) = 2
      else npu_registered s1 = npu_registered s \<and> no_table s1 = no_table s \<or> no_table s1"
    "npu_dsp_ok s1" "g_is_dsp_initialized s1 \<longleftrightarrow> rc = SUCCESS"
    using npu_init_total [OF assms(1), of env] assms by blast
  have nt: "no_table t \<Longrightarrow> \<not> npu_registered t" for t by (auto simp: no_table_def npu_registered_def)
  have "\<exists>s2. dsp_npu_deinit env' s1 = Ret (SUCCESS, s2) \<and> \<not> npu_registered s2 \<and>
        dsp_accounts (g_dsp s2) \<and> dsp_free_at DSP_NPU0 (g_dsp s2)" for env'
    using npu_deinit_total [OF i(2), of env'] i(4) nt by (auto simp: npu_dsp_ok_def)
  then show ?thesis using i nt by (auto simp: npu_dsp_ok_def)
qed

theorem npu_connection_is_accounted_witness:
  "\<exists>rc s1. dsp_npu_init (demo_npu_env 0) (initial_npu [True]) = Ret (rc, s1) \<and> rc = CALLOC_FAILED \<and> dsp_free_at DSP_NPU0 (g_dsp s1)"
proof -
  have "\<exists>s1. dsp_npu_init (demo_npu_env 0) (initial_npu [True]) = Ret (CALLOC_FAILED, s1)"
    by (simp add: dsp_npu_init_def Let_def NPU_SEND_def dsp_npu_alloc_def dsp_npu_free_def alloc_pair demo_npu_env_def demo_fastrpc_def
        qcom_dsp_init_def set_remote_process_domain_def dsp_open_session_def initial_dsp_def dsp_called_def arr_read_def arr_write_def
        calloc_ok_def qcom_dsp_deinit_def)
  then show ?thesis
    using npu_connection_is_accounted [of "initial_npu [True]" "demo_npu_env 0"] by (auto simp: demo_npu_env_def)
qed

text \<open>C23: The NPU thread reports exactly what the DSP answered: over any sequence of iterations the batches handed
  to the data callback, followed by what is still buffered, are the four figures of every sample that was
  delivered with metrics in it, with the identifiers 0 to 3 and the time of the sample; a failed query reports
  nothing. No figure is lost, duplicated or reordered, and no empty batch is delivered.\<close>

theorem npu_thread_equals_reference:
  assumes "npu_registered s" and "npu_statics_ok s" and "npu_dsp_ok s" and "g_is_dsp_initialized s"
    and "npu_request_code rq = SUCCESS" and "g_data_callback s = Some cb"
    and "npu_thread_entry env (Some rq) s = Ret (Some l, s1)"
  shows "\<exists>l' s' bs. run_rounds npu_thread_iterate es l s1 = Ret (l', s') \<and> sn_data s' = sn_data s @ bs \<and>
     concat (map (\<lambda>d. batch_readings (snd d)) bs) @ batch_readings (nl_data l') =
       reference_readings (npu_out (dsp_h (g_dsp s) ! 3)) es (nl_current_time l, 0, npu_block s) \<and>
     (\<forall>d \<in> set bs. fst d = cb \<and> 0 < pd_metric_response_len (snd d) \<and> pd_backend_id (snd d) = 2)"
proof -
  note e = npu_entry_loop [OF assms(1,5,7)]
  note f = npu_entry_law [OF assms(7)]
  have r: "npu_registered s1" "g_data_callback s1 = Some cb" "npu_statics_ok s1" "g_dsp s1 = g_dsp s" "sn_data s1 = sn_data s"
    using f assms(1,2,6) npu_frame_registered [of s s1] by (simp_all add: npu_frame_def npu_statics_ok_def)
  have h: "dsp_prof (g_dsp s) ! 3 \<noteq> None" using assms(3,4) by (simp add: npu_dsp_ok_def dsp_held_at_def)
  have b: "npu_batching l s1 []" using e r h by (simp add: npu_batching_def)
  have "npu_block s1 = npu_block s" using r(4) by (simp add: npu_block_def)
  then obtain l' s' bs where "run_rounds npu_thread_iterate es l s1 = Ret (l', s')" "sn_data s' = sn_data s @ bs"
    "concat (map (\<lambda>d. batch_readings (snd d)) bs) @ batch_readings (nl_data l') =
       reference_readings (npu_out (dsp_h (g_dsp s) ! 3)) es (nl_current_time l, 0, npu_block s)"
    "\<forall>d \<in> set bs. Some cb = Some (fst d) \<and> 0 < pd_metric_response_len (snd d) \<and> pd_backend_id (snd d) = 2"
    using npu_batches.rounds_law [OF b, of es] e r by (auto simp: npu_batching_def)
  then show ?thesis by auto
qed

theorem npu_thread_equals_reference_witness:
  "\<exists>l s1 l' s' bs. npu_thread_entry (demo_npu_env 0) (Some demo_npu_request) demo_npu = Ret (Some l, s1) \<and>
     run_rounds npu_thread_iterate [demo_npu_env 1, demo_npu_env 2] l s1 = Ret (l', s') \<and> sn_data s' = sn_data demo_npu @ bs \<and>
     concat (map (\<lambda>d. batch_readings (snd d)) bs) @ batch_readings (nl_data l') =
       [(0, 52, Dbl 50), (1, 52, Dbl 600000), (2, 52, Dbl 0), (3, 52, Dbl 0),
        (0, 104, Dbl 50), (1, 104, Dbl 600000), (2, 104, Dbl 0), (3, 104, Dbl 0)]"
proof -
  obtain c where c: "deref_capability (sn_table demo_npu) 0 demo_npu = Ret c" using npu_registered_deref [OF demo_npu_facts(1)] by blast
  then have "deref_capability (sn_table demo_npu) 0 (demo_npu\<lparr>g_is_thread_running := True\<rparr>) = Ret c" by simp
  then obtain l s1 where l: "npu_thread_entry (demo_npu_env 0) (Some demo_npu_request) demo_npu = Ret (Some l, s1)"
    using npu_registered_find [OF demo_npu_facts(1), of 0] demo_npu_facts(3)
    by (auto simp: npu_thread_entry_def Let_def alloc_pair calloc_ok_def demo_npu_request_def samples_per_stream_def)
  have "reference_readings (npu_out (dsp_h (g_dsp demo_npu) ! 3)) [demo_npu_env 1, demo_npu_env 2] (nl_current_time l, 0, npu_block demo_npu) =
       [(0, 52, Dbl 50), (1, 52, Dbl 600000), (2, 52, Dbl 0), (3, 52, Dbl 0),
        (0, 104, Dbl 50), (1, 104, Dbl 600000), (2, 104, Dbl 0), (3, 104, Dbl 0)]"
    by (simp add: npu_out_def demo_npu_env_def demo_fastrpc_def time_now_def get_time_ns_def npu_figures_def zero_prof_data_def)
  then show ?thesis
    using l npu_thread_equals_reference [OF demo_npu_facts(1,4,5,6) demo_npu_request_ok demo_npu_facts(2) l,
        of "[demo_npu_env 1, demo_npu_env 2]"] by fastforce
qed

end
