(* ===== verification/DspNpuLive.thy ===== *)
theory DspNpuLive
  imports DspNpuThread Service
begin

text \<open>
  Sessions of the DSP NPU backend never get stuck, whatever FastRPC answers: its operations and its thread
  instantiate \<open>orderly_session\<close>, and with the functions its creator installs it is a \<open>served_session\<close>.
\<close>

section \<open>Frames\<close>

text \<open>The shape of the arrays of the DSP library survives every step.\<close>

definition npu_keep :: "npu_state \<Rightarrow> npu_state \<Rightarrow> bool" where
  "npu_keep s s' \<longleftrightarrow> npu_frame s s' \<and> (npu_statics_ok s \<longrightarrow> npu_statics_ok s')"

lemma npu_keep_dsp: "npu_frame s s' \<Longrightarrow> g_dsp s' = g_dsp s \<Longrightarrow> npu_keep s s'"
  by (simp add: npu_keep_def npu_frame_def npu_statics_ok_def)

lemma npu_start_keep:
  assumes "dsp_npu_start r s = Ret (rc, s')"
  shows "npu_keep s s'"
  using npu_start_law [OF assms] npu_keep_dsp by blast

lemma npu_wait_keep:
  assumes "wait_exit (npu_thread env) t s = Ret (x, s')"
  shows "npu_frame s s' \<and> g_dsp s' = g_dsp s"
proof (cases "sn_threads s ! t")
  case (Spawned r)
  then obtain lo s1 where en: "npu_thread_entry env r s = Ret (lo, s1)"
    using assms by (auto simp: wait_exit_def npu_thread_def outcome_simps split: if_splits)
  then have "s' = put_thread t Exited s1"
    using assms Spawned by (cases lo) (auto simp: wait_exit_def npu_thread_def npu_thread_finish_def split: if_splits)
  then show ?thesis using npu_entry_law [OF en] by (simp add: put_thread_def)
qed (use assms in \<open>auto simp: wait_exit_def npu_thread_def npu_thread_finish_def put_thread_def split: if_splits\<close>)

lemma npu_stop_keep:
  assumes "dsp_npu_stop env r s = Ret (rc, s')"
  shows "npu_keep s s'"
proof (rule npu_keep_dsp)
  have "npu_frame s s' \<and> g_dsp s' = g_dsp s"
  proof (cases "\<exists>q t. r = Some q \<and> g_is_thread_running s \<and> th_handle (g_thread_info s) = Thread t")
    case False
    then show ?thesis
      using assms by (auto simp: dsp_npu_stop_def Let_def thread_join_def split: option.splits if_splits thread_handle.splits)
  next
    case True
    then obtain q t where q: "r = Some q" "g_is_thread_running s" "th_handle (g_thread_info s) = Thread t" by blast
    let ?s = "(NPU_SEND LEVEL_INFO ''Stopping profiling'' s)\<lparr>g_is_thread_running := False\<rparr>"
    obtain x s1 where w: "wait_exit (npu_thread env) t ?s = Ret (x, s1)"
      using assms q by (auto simp: dsp_npu_stop_def Let_def thread_join_def outcome_simps)
    then have "npu_frame s s1" "g_dsp s1 = g_dsp s" using npu_wait_keep [OF w] by simp_all
    then show ?thesis
      using assms q w by (auto simp: dsp_npu_stop_def Let_def thread_join_def outcome_simps split: if_splits)
  qed
  then show "npu_frame s s'" "g_dsp s' = g_dsp s" by simp_all
qed

section \<open>Sessions that never get stuck\<close>

definition npu_tables_ok :: "npu_state \<Rightarrow> bool" where
  "npu_tables_ok s \<longleftrightarrow> npu_statics_ok s \<and> (npu_registered s \<or> no_table s)"

definition npu_good :: "npu_state \<Rightarrow> QcPerfRequest option \<Rightarrow> bool" where
  "npu_good s q \<longleftrightarrow> npu_registered s \<and> g_data_callback s \<noteq> None \<and> (\<exists>rq. q = Some rq \<and> npu_request_code rq = SUCCESS)"

definition npu_lok :: "npu_state \<Rightarrow> npu_local \<Rightarrow> bool" where
  "npu_lok s l \<longleftrightarrow> npu_registered s \<and> g_data_callback s \<noteq> None \<and> npu_loop_inv s l"

lemma npu_frame_cong:
  assumes "npu_frame s s'"
  shows "npu_good s' q = npu_good s q" "npu_lok s' l = npu_lok s l"
  using assms npu_frame_registered [OF assms] by (simp_all add: npu_frame_def npu_good_def npu_lok_def npu_loop_inv_def)

lemma npu_keep_tables:
  assumes "npu_keep s s'" "npu_tables_ok s"
  shows "npu_tables_ok s'"
  using assms npu_frame_registered [of s s'] by (simp add: npu_keep_def npu_frame_def npu_tables_ok_def no_table_def)

lemma npu_entry_total:
  assumes reg: "npu_registered s" and rq: "npu_request_code rq = SUCCESS"
  shows "\<exists>lo s'. npu_thread_entry env (Some rq) s = Ret (lo, s')"
proof -
  have k: "rq_capability_id rq = 0" using rq by (auto simp: npu_request_code_def split: if_splits)
  obtain c where c: "deref_capability (sn_table s) 0 s = Ret c" using npu_registered_deref [OF reg] by blast
  then have "deref_capability (sn_table s) 0 (s\<lparr>g_is_thread_running := True\<rparr>) = Ret c" by simp
  moreover obtain n where "samples_per_stream rq = Ret n" using npu_samples_per_stream [OF rq] by blast
  ultimately show ?thesis
    using k npu_registered_find [OF reg, of 0] by (simp add: npu_thread_entry_def Let_def alloc_pair case_prod_beta)
qed

lemma npu_start_ready:
  assumes "npu_tables_ok s"
  shows "\<exists>rc s'. dsp_npu_start r s = Ret (rc, s') \<and>
     (rc = SUCCESS \<longrightarrow> (\<exists>q. npu_good s' q \<and> sn_threads s' = sn_threads s @ [Spawned q]))"
proof (cases r)
  case None
  then show ?thesis by (simp add: dsp_npu_start_def Let_def)
next
  case (Some rq)
  show ?thesis
  proof (cases "npu_registered s")
    case False
    then show ?thesis
      using assms Some
      by (simp add: dsp_npu_start_def Let_def npu_validate_request_def find_capability_def npu_tables_ok_def no_table_def)
  next
    case True
    then obtain rc s' where s': "dsp_npu_start r s = Ret (rc, s')"
      "rc = SUCCESS \<longrightarrow> npu_request_code rq = SUCCESS \<and> g_data_callback s \<noteq> None"
      "sn_threads s' \<noteq> sn_threads s \<longrightarrow> sn_threads s' = sn_threads s @ [Spawned (Some rq)]"
      using dsp_npu_start_code [OF True, of rq] Some by (auto split: if_splits)
    have f: "npu_frame s s'" using npu_start_law [OF s'(1)] by simp
    have "sn_threads s' \<noteq> sn_threads s" if "rc = SUCCESS" using npu_start_law [OF s'(1)] that by (auto simp: spawned_def)
    then have "rc = SUCCESS \<longrightarrow> npu_good s' (Some rq) \<and> sn_threads s' = sn_threads s @ [Spawned (Some rq)]"
      unfolding npu_frame_cong(1) [OF f] using s'(2,3) True by (simp add: npu_good_def)
    then show ?thesis using s'(1) by blast
  qed
qed

interpretation npu_live: orderly_session dsp_npu_start dsp_npu_stop npu_thread npu_thread_iterate
  npu_tables_ok npu_good npu_lok
proof unfold_locales
  fix s r
  assume a: "npu_tables_ok s"
  obtain rc s' where s': "dsp_npu_start r s = Ret (rc, s')"
     "rc = SUCCESS \<longrightarrow> (\<exists>q. npu_good s' q \<and> sn_threads s' = sn_threads s @ [Spawned q])"
    using npu_start_ready [OF a] by blast
  note k = npu_start_keep [OF s'(1)]
  have f: "npu_frame s s'" using k by (simp add: npu_keep_def)
  show "\<exists>rc s'. dsp_npu_start r s = Ret (rc, s') \<and> npu_tables_ok s' \<and> (\<forall>q. npu_good s q \<longrightarrow> npu_good s' q) \<and>
     (\<forall>l. npu_lok s l \<longrightarrow> npu_lok s' l) \<and>
     (rc = SUCCESS \<longrightarrow> (\<exists>q. npu_good s' q \<and> sn_threads s' = sn_threads s @ [Spawned q]))"
    using s' npu_keep_tables [OF k a] npu_frame_cong [OF f] by auto
next
  fix e r s rc s'
  assume a: "npu_tables_ok s" "dsp_npu_stop e r s = Ret (rc, s')"
  note k = npu_stop_keep [OF a(2)]
  have f: "npu_frame s s'" using k by (simp add: npu_keep_def)
  show "npu_tables_ok s' \<and> (\<forall>q. npu_good s q \<longrightarrow> npu_good s' q) \<and> (\<forall>l. npu_lok s l \<longrightarrow> npu_lok s' l)"
    using npu_keep_tables [OF k a(1)] npu_frame_cong [OF f] by auto
next
  fix e s q
  assume a: "npu_tables_ok s" "npu_good s q"
  then obtain rq where r: "npu_registered s" "q = Some rq" "npu_request_code rq = SUCCESS" "g_data_callback s \<noteq> None"
    by (auto simp: npu_good_def)
  obtain lo s' where en: "npu_thread_entry e (Some rq) s = Ret (lo, s')" using npu_entry_total [OF r(1,3)] by blast
  note f = npu_entry_law [OF en]
  have k: "npu_keep s s'" using f npu_keep_dsp by blast
  have "npu_lok s' l" if "lo = Some l" for l
    using npu_entry_loop [OF r(1,3), of e l s'] en that r(1,4) f npu_frame_registered [of s s']
    by (simp add: npu_lok_def npu_frame_def)
  then show "\<exists>lo s'. th_entry (npu_thread e) q s = Ret (lo, s') \<and> npu_tables_ok s' \<and>
      (\<forall>l. lo = Some l \<and> g_is_thread_running s' \<longrightarrow> npu_lok s' l)"
    using en r(2) npu_keep_tables [OF k a(1)] by (simp add: npu_thread_def)
next
  fix e s l
  assume a: "npu_tables_ok s" "npu_lok s l" "g_is_thread_running s"
  then obtain cb where cb: "npu_registered s" "npu_loop_inv s l" "npu_statics_ok s" "g_data_callback s = Some cb"
    by (auto simp: npu_lok_def npu_tables_ok_def)
  obtain l' s' where b: "npu_thread_iterate e l s = Ret (l', s')" "npu_registered s'" "npu_loop_inv s' l'" "npu_statics_ok s'" "npu_frame s s'"
    using npu_iterate_readings [OF cb, of e] by blast
  then show "\<exists>l' s'. npu_thread_iterate e l s = Ret (l', s') \<and> npu_tables_ok s' \<and> npu_lok s' l'"
    using cb(4) by (auto simp: npu_lok_def npu_tables_ok_def npu_frame_def)
next
  fix t st s l
  show "npu_tables_ok (put_thread t st s) = npu_tables_ok s"
    by (simp add: npu_tables_ok_def npu_statics_ok_def npu_registered_def no_table_def put_thread_def)
  show "npu_lok (put_thread t st s) l = npu_lok s l" by (rule npu_frame_cong) simp
qed (simp add: npu_thread_def npu_thread_finish_def)

section \<open>The service\<close>

definition npu_ops :: "npu_env \<Rightarrow> npu_state QcPerfBackendPrivate" where
  "npu_ops e = created (qcperf_dsp_npu_create e)"

lemma npu_ops_simps [simp]:
  "qcperf_backend_init (npu_ops e) = Some (dsp_npu_init e)" "qcperf_backend_start (npu_ops e) = Some dsp_npu_start"
  "qcperf_backend_stop (npu_ops e) = Some (dsp_npu_stop e)" "qcperf_backend_deinit (npu_ops e) = Some (dsp_npu_deinit e)"
  "qcperf_backend_info (npu_ops e) = Some (\<lambda>i s. Ret (dsp_npu_backend_info i s))"
  "set_message_callback (npu_ops e) = Some (\<lambda>cb s. Ret (dsp_npu_set_message_callback cb s))"
  "set_data_callback (npu_ops e) = Some (\<lambda>cb s. Ret (dsp_npu_set_data_callback cb s))"
  by (simp_all add: npu_ops_def created_def qcperf_dsp_npu_create_def)

text \<open>Setting a callback and reading the table leave the session alone.\<close>

lemma npu_light:
  assumes "npu_keep s s'" "same_control s s'" "npu_tables_ok s"
  shows "same_control s s' \<and> npu_tables_ok s' \<and> keeps npu_good npu_lok s s'"
  using assms npu_keep_tables [OF assms(1,3)] npu_frame_cong [of s s'] by (simp add: keeps_def same_control_def npu_keep_def)

lemma npu_data_light:
  assumes "npu_tables_ok s"
  shows "\<exists>rc s'. dsp_npu_set_data_callback cb s = (rc, s') \<and> same_control s s' \<and> npu_tables_ok s' \<and> keeps npu_good npu_lok s s'"
  using assms
  by (auto simp: dsp_npu_set_data_callback_def same_control_def keeps_def npu_tables_ok_def npu_statics_ok_def npu_registered_def
      no_table_def npu_good_def npu_lok_def npu_loop_inv_def)

lemma npu_info_light:
  assumes "npu_tables_ok s"
  shows "\<exists>rc i' s'. dsp_npu_backend_info i s = (rc, i', s') \<and> same_control s s' \<and> npu_tables_ok s' \<and> keeps npu_good npu_lok s s'"
proof -
  obtain rc i' s' where s': "dsp_npu_backend_info i s = (rc, i', s')" by (cases "dsp_npu_backend_info i s")
  then have "npu_keep s s'" "same_control s s'"
    by (auto simp: dsp_npu_backend_info_def npu_keep_def npu_statics_ok_def split: option.splits)
  then show ?thesis using s' npu_light assms by blast
qed

lemma npu_message_light:
  "npu_keep s (s\<lparr>g_message_callback := cb\<rparr>)" "same_control s (s\<lparr>g_message_callback := cb\<rparr>)"
  by (simp_all add: npu_keep_def npu_frame_def npu_statics_ok_def same_control_def)

interpretation npu_service: served_session dsp_npu_start dsp_npu_stop npu_thread npu_thread_iterate
  orderly disciplined npu_tables_ok npu_good npu_lok npu_ops "\<lambda>e. e" "\<lambda>s. all_ended s \<or> g_is_thread_running s"
proof unfold_locales
  fix s s' :: npu_state
  assume "same_control s s'" "orderly s"
  then show "orderly s'" using orderly_cong by blast
next
  fix f g cb s
  assume "set_message_callback (npu_ops f) = Some g" "npu_tables_ok s"
  then show "\<exists>rc s'. g cb s = Ret (rc, s') \<and> same_control s s' \<and> npu_tables_ok s' \<and> keeps npu_good npu_lok s s'"
    using npu_light [OF npu_message_light [of s cb]] by (auto simp: dsp_npu_set_message_callback_def)
next
  fix f k s
  assume a: "qcperf_backend_init (npu_ops f) = Some k" "npu_tables_ok s"
  then obtain rc s' where i: "dsp_npu_init f s = Ret (rc, s')" "same_control s s'" "npu_statics_ok s'"
    "if rc = SUCCESS then npu_registered s' \<and> bi_backend_id (g_backend_info s') = 2
      else npu_registered s' = npu_registered s \<and> no_table s' = no_table s \<or> no_table s'"
    using npu_init_total [of s f] by (auto simp: npu_tables_ok_def)
  have "npu_tables_ok s'" using i(3,4) a(2) by (auto simp: npu_tables_ok_def split: if_splits)
  then show "\<exists>rc s'. k s = Ret (rc, s') \<and> same_control s s' \<and> npu_tables_ok s'" using i(1,2) a(1) by auto
next
  fix f k s
  assume a: "qcperf_backend_deinit (npu_ops f) = Some k" "npu_tables_ok s"
  then show "\<exists>rc s'. k s = Ret (rc, s') \<and> same_control s s' \<and> npu_tables_ok s'"
    using npu_deinit_total [of s f] by (auto simp: npu_tables_ok_def)
qed (use npu_data_light npu_info_light in \<open>fastforce simp: all_pointers_set_def\<close>)+

end
