(* ===== verification/System.thy ===== *)
theory System
  imports DummyLive LinuxCpuLive LinuxGpuLive LinuxThermalLive DspNpuLive
begin

text \<open>
  The library as it is built for Linux: the core of \<open>qcperf.c\<close> over the dummy, CPU, thermal, GPU and DSP NPU backends,
  each with its own static variables, in an environment (clock, kernel files, thermal directory, answers of FastRPC) that may
  change between any two steps. Every backend is a \<open>service\<close> mounted on its component of the state, which
  makes the five a \<open>backend_family\<close>; so no sequence of API calls and thread steps within the discipline of
  \<open>Contract\<close> meets a hazard.
\<close>

section \<open>The state behind the function pointers\<close>

record sys_env =
  se_sample :: sample_env
  se_thermal_directory :: "string list option"
  se_rpc :: fastrpc

record sys_world =
  w_dummy :: dummy_state
  w_cpu :: cpu_state
  w_thermal :: thermal_state
  w_gpu :: gpu_state
  w_npu :: npu_state
  w_env :: sys_env

definition initial_world :: "sys_env \<Rightarrow> oom \<Rightarrow> oom \<Rightarrow> oom \<Rightarrow> oom \<Rightarrow> oom \<Rightarrow> oom \<Rightarrow> sys_world" where
  "initial_world e d c t l g n =
     \<lparr>w_dummy = initial_dummy d, w_cpu = initial_session c, w_thermal = initial_thermal t l, w_gpu = initial_gpu g,
      w_npu = initial_npu n, w_env = e\<rparr>"

section \<open>Mounting a backend on a component\<close>

text \<open>A function pointer of a backend, called on its component; calling \<open>NULL\<close> is a hazard.\<close>

definition on_part ::
  "('w \<Rightarrow> 's) \<Rightarrow> ('s \<Rightarrow> 'w \<Rightarrow> 'w) \<Rightarrow> ('w \<Rightarrow> 's step0 option) \<Rightarrow> 'w step0" where
  "on_part get put ptr w =
     (case ptr w of
        None \<Rightarrow> Stuck BadDeref
      | Some f \<Rightarrow> obind (f (get w)) (\<lambda>(rc, s). Ret (rc, put s w)))"

definition mounted ::
  "('w \<Rightarrow> 's) \<Rightarrow> ('s \<Rightarrow> 'w \<Rightarrow> 'w) \<Rightarrow> ('w \<Rightarrow> 's QcPerfBackendPrivate) \<Rightarrow> 'w QcPerfBackendPrivate" where
  "mounted get put ops =
     \<lparr>set_message_callback = Some (\<lambda>cb. on_part get put (\<lambda>w. apply_ptr (set_message_callback (ops w)) cb)),
      qcperf_backend_init = Some (on_part get put (\<lambda>w. qcperf_backend_init (ops w))),
      qcperf_backend_info = Some (\<lambda>i w.
        case qcperf_backend_info (ops w) of
          None \<Rightarrow> Stuck BadDeref
        | Some f \<Rightarrow> obind (f i (get w)) (\<lambda>(rc, i', s). Ret (rc, i', put s w))),
      set_data_callback = Some (\<lambda>cb. on_part get put (\<lambda>w. apply_ptr (set_data_callback (ops w)) cb)),
      qcperf_backend_start = Some (\<lambda>r. on_part get put (\<lambda>w. apply_ptr (qcperf_backend_start (ops w)) r)),
      qcperf_backend_stop = Some (\<lambda>r. on_part get put (\<lambda>w. apply_ptr (qcperf_backend_stop (ops w)) r)),
      qcperf_backend_deinit = Some (on_part get put (\<lambda>w. qcperf_backend_deinit (ops w)))\<rparr>"

text \<open>Its creation function fills the entry it is given.\<close>

definition mount ::
  "('w \<Rightarrow> 's) \<Rightarrow> ('s \<Rightarrow> 'w \<Rightarrow> 'w) \<Rightarrow> ('w \<Rightarrow> 's QcPerfBackendPrivate) \<Rightarrow> 'w backend_init_t" where
  "mount get put ops backend =
     (case backend of None \<Rightarrow> (NULL_POINTER, None) | Some _ \<Rightarrow> (SUCCESS, Some (mounted get put ops)))"

locale mounted_service = service ops sched inv idle_at startable
  for ops :: "'f \<Rightarrow> 's QcPerfBackendPrivate" and sched :: "'f \<Rightarrow> thread_event \<Rightarrow> 's \<Rightarrow> 's outcome"
    and inv :: "'s \<Rightarrow> bool" and idle_at :: "'s \<Rightarrow> bool" and startable :: "'s \<Rightarrow> bool" +
  fixes get :: "'w \<Rightarrow> 's" and put :: "'s \<Rightarrow> 'w \<Rightarrow> 'w" and env :: "'w \<Rightarrow> 'f" and i :: nat
    and winv :: "'w \<Rightarrow> bool" and widle :: "nat \<Rightarrow> 'w \<Rightarrow> bool" and wstart :: "nat \<Rightarrow> 'w \<Rightarrow> bool"
  assumes part_inv: "winv w \<Longrightarrow> inv (get w)"
    and put_inv: "winv w \<Longrightarrow> inv s \<Longrightarrow> winv (put s w)"
    and part_idle: "widle i w \<longleftrightarrow> idle_at (get w)" "widle i (put s w) \<longleftrightarrow> idle_at s"
    and other_idle: "j \<noteq> i \<Longrightarrow> widle j (put s w) = widle j w"
    and part_startable: "wstart i w \<Longrightarrow> startable (get w)"
begin

lemma lift_keeps: "idle_at (get w) \<longrightarrow> idle_at s \<Longrightarrow> widle j w \<Longrightarrow> widle j (put s w)"
  using part_idle other_idle by (cases "j = i") auto

lemma on_part_ok:
  assumes "\<And>w. \<exists>f. ptr w = Some f \<and> op_ok inv pre (\<lambda>s s'. idle_at s \<longrightarrow> idle_at s') f" "\<And>w. wpre w \<Longrightarrow> pre (get w)"
  shows "op_ok winv wpre (\<lambda>w w'. \<forall>j. widle j w \<longrightarrow> widle j w') (on_part get put ptr)"
  unfolding op_ok_def
proof (intro allI impI)
  fix w assume w: "winv w" "wpre w"
  obtain f where f: "ptr w = Some f" "op_ok inv pre (\<lambda>s s'. idle_at s \<longrightarrow> idle_at s') f" using assms(1) by blast
  obtain rc s' where s': "f (get w) = Ret (rc, s')" "inv s'" "idle_at (get w) \<longrightarrow> idle_at s'"
    using op_okD [OF f(2) part_inv [OF w(1)] assms(2) [OF w(2)]] by blast
  have "on_part get put ptr w = Ret (rc, put s' w)" using f(1) s'(1) by (simp add: on_part_def)
  then show "\<exists>rc w'. on_part get put ptr w = Ret (rc, w') \<and> winv w' \<and> (\<forall>j. widle j w \<longrightarrow> widle j w')"
    using put_inv [OF w(1) s'(2)] lift_keeps [OF s'(3)] by blast
qed

lemma on_part_start_ok:
  assumes "\<And>w. \<exists>f. ptr w = Some f \<and> op_ok inv startable (\<lambda>_ _. True) f"
  shows "op_ok winv (wstart i) (\<lambda>w w'. \<forall>j. j \<noteq> i \<longrightarrow> widle j w \<longrightarrow> widle j w') (on_part get put ptr)"
  unfolding op_ok_def
proof (intro allI impI)
  fix w assume w: "winv w" "wstart i w"
  obtain f where f: "ptr w = Some f" "op_ok inv startable (\<lambda>_ _. True) f" using assms(1) by blast
  obtain rc s' where s': "f (get w) = Ret (rc, s')" "inv s'"
    using op_okD [OF f(2) part_inv [OF w(1)] part_startable [OF w(2)]] by blast
  have "on_part get put ptr w = Ret (rc, put s' w)" using f(1) s'(1) by (simp add: on_part_def)
  then show "\<exists>rc w'. on_part get put ptr w = Ret (rc, w') \<and> winv w' \<and> (\<forall>j. j \<noteq> i \<longrightarrow> widle j w \<longrightarrow> widle j w')"
    using put_inv [OF w(1) s'(2)] other_idle by blast
qed

lemma info_part_ok:
  assumes "winv w"
  shows "\<exists>rc x w'. (case qcperf_backend_info (ops (env w)) of
          None \<Rightarrow> Stuck BadDeref
        | Some f \<Rightarrow> obind (f info (get w)) (\<lambda>(rc, i', s). Ret (rc, i', put s w))) = Ret (rc, x, w') \<and>
     winv w' \<and> (\<forall>j. widle j w \<longrightarrow> widle j w')"
proof -
  obtain f where f: "qcperf_backend_info (ops (env w)) = Some f"
    using ops_set [of "env w"] by (auto simp: all_pointers_set_def)
  then obtain rc x s where s: "f info (get w) = Ret (rc, x, s)" "inv s" "idle_at (get w) \<longrightarrow> idle_at s"
    using ops_ok [of "env w"] part_inv [OF assms] unfolding private_ok_def by blast
  then show ?thesis using f put_inv [OF assms s(2)] lift_keeps [OF s(3)] by (intro exI [of _ rc] exI [of _ x] exI [of _ "put s w"]) simp
qed

lemma mounted_ok: "private_at winv widle wstart i (mounted get put (\<lambda>w. ops (env w)))"
proof -
  have "\<exists>f. qcperf_backend_init (ops e) = Some f \<and> op_ok inv idle_at (\<lambda>s s'. idle_at s \<longrightarrow> idle_at s') f"
    "\<exists>f. qcperf_backend_deinit (ops e) = Some f \<and> op_ok inv idle_at (\<lambda>s s'. idle_at s \<longrightarrow> idle_at s') f"
    "\<exists>f. apply_ptr (set_message_callback (ops e)) cb = Some f \<and> op_ok inv (\<lambda>_. True) (\<lambda>s s'. idle_at s \<longrightarrow> idle_at s') f"
    "\<exists>f. apply_ptr (set_data_callback (ops e)) cb = Some f \<and> op_ok inv (\<lambda>_. True) (\<lambda>s s'. idle_at s \<longrightarrow> idle_at s') f"
    "\<exists>f. apply_ptr (qcperf_backend_stop (ops e)) r = Some f \<and> op_ok inv (\<lambda>_. True) (\<lambda>s s'. idle_at s \<longrightarrow> idle_at s') f"
    "\<exists>f. apply_ptr (qcperf_backend_start (ops e)) r = Some f \<and> op_ok inv startable (\<lambda>_ _. True) f" for e cb r
    using ops_set [of e] ops_ok [of e] by (auto simp: all_pointers_set_def private_ok_def apply_ptr_def)
  note p = this
  show ?thesis
    unfolding private_ok_def mounted_def
    by (auto simp: part_idle(1) intro!: info_part_ok on_part_start_ok [OF p(6)] on_part_ok [OF p(1)] on_part_ok [OF p(2)]
        on_part_ok [OF p(3)] on_part_ok [OF p(4)] on_part_ok [OF p(5)])
qed

lemma mount_ok:
  "\<exists>rc q. mount get put (\<lambda>w. ops (env w)) (Some p) = (rc, Some q) \<and> private_at winv widle wstart i q"
  using mounted_ok by (simp add: mount_def)

lemma part_scheduled:
  assumes "winv w"
  shows "\<exists>w'. obind (sched (env w) ev (get w)) (\<lambda>s. Ret (put s w)) = Ret w' \<and> winv w' \<and> (\<forall>j. widle j w \<longrightarrow> widle j w')"
proof -
  obtain s where s: "sched (env w) ev (get w) = Ret s" "inv s" "idle_at (get w) \<longrightarrow> idle_at s"
    using sched_ok [OF part_inv [OF assms]] by blast
  then show ?thesis using put_inv [OF assms s(2)] lift_keeps [OF s(3)] by simp
qed

end

section \<open>The Linux build\<close>

definition npu_env_of :: "sys_world \<Rightarrow> npu_env" where
  "npu_env_of w = \<lparr>ne_clock = env_clock (se_sample (w_env w)), ne_rpc = se_rpc (w_env w)\<rparr>"

fun linux_create :: "QcPerfBackendId \<Rightarrow> sys_world backend_init_t" where
  "linux_create BACKEND_DUMMY = mount w_dummy (\<lambda>s. w_dummy_update (\<lambda>_. s)) (\<lambda>w. dummy_ops (env_clock (se_sample (w_env w))))"
| "linux_create BACKEND_QCOM_LINUX_CPU = mount w_cpu (\<lambda>s. w_cpu_update (\<lambda>_. s)) (\<lambda>w. cpu_ops (se_sample (w_env w)))"
| "linux_create BACKEND_LINUX_THERMAL =
     mount w_thermal (\<lambda>s. w_thermal_update (\<lambda>_. s)) (\<lambda>w. thermal_ops (se_sample (w_env w), se_thermal_directory (w_env w)))"
| "linux_create BACKEND_QCOM_LINUX_GPU = mount w_gpu (\<lambda>s. w_gpu_update (\<lambda>_. s)) (\<lambda>w. gpu_ops (se_sample (w_env w)))"
| "linux_create BACKEND_DSP_NPU = mount w_npu (\<lambda>s. w_npu_update (\<lambda>_. s)) (\<lambda>w. npu_ops (npu_env_of w))"
| "linux_create _ = (\<lambda>_. (NOT_SUPPORTED, None))"

text \<open>The other backends are for Windows and are left out of this build.\<close>

definition linux_config :: "bool \<Rightarrow> bool \<Rightarrow> bool \<Rightarrow> bool \<Rightarrow> bool \<Rightarrow> build_config" where
  "linux_config dummy cpu thermal gpu npu =
     \<lparr>enabled_dummy = dummy, enabled_qcom_linux_cpu = cpu, enabled_qcom_linux_npu = npu, enabled_wos_npu = False,
      enabled_wos_power = False, enabled_wos_thermal = False, enabled_wos_cpu = False,
      enabled_qcom_linux_thermal = thermal, enabled_qcom_linux_gpu = gpu\<rparr>"

text \<open>The world moves by itself: its environment changes, and the threads of the backends are scheduled.\<close>

datatype sys_move =
    Environment sys_env
  | DummyThread thread_event
  | CpuThread thread_event
  | ThermalThread thread_event
  | GpuThread thread_event
  | NpuThread thread_event

fun sys_sched :: "sys_move \<Rightarrow> sys_world \<Rightarrow> sys_world outcome" where
  "sys_sched (Environment e) w = Ret (w\<lparr>w_env := e\<rparr>)"
| "sys_sched (DummyThread ev) w =
     obind (schedule dummy_thread dummy_thread_iterate (env_clock (se_sample (w_env w))) ev (w_dummy w)) (\<lambda>s. Ret (w\<lparr>w_dummy := s\<rparr>))"
| "sys_sched (CpuThread ev) w =
     obind (schedule cpu_thread cpu_thread_iterate (se_sample (w_env w)) ev (w_cpu w)) (\<lambda>s. Ret (w\<lparr>w_cpu := s\<rparr>))"
| "sys_sched (ThermalThread ev) w =
     obind (schedule thermal_thread thermal_thread_iterate (se_sample (w_env w)) ev (w_thermal w)) (\<lambda>s. Ret (w\<lparr>w_thermal := s\<rparr>))"
| "sys_sched (GpuThread ev) w =
     obind (schedule gpu_thread gpu_thread_iterate (se_sample (w_env w)) ev (w_gpu w)) (\<lambda>s. Ret (w\<lparr>w_gpu := s\<rparr>))"
| "sys_sched (NpuThread ev) w =
     obind (schedule npu_thread npu_thread_iterate (npu_env_of w) ev (w_npu w)) (\<lambda>s. Ret (w\<lparr>w_npu := s\<rparr>))"

text \<open>
  When a backend is idle (no thread of it is left and its flag is down), and when it may be started: the GPU
  backend always, the others when no thread is left or when their flag shows that one is running.
\<close>

definition restartable :: "('l, 'x) session_scheme \<Rightarrow> bool" where
  "restartable s \<longleftrightarrow> all_ended s \<or> g_is_thread_running s"

definition sys_idle :: "nat \<Rightarrow> sys_world \<Rightarrow> bool" where
  "sys_idle i w \<longleftrightarrow>
     (if i = 0 then idle (w_dummy w) else if i = 1 then idle (w_cpu w)
      else if i = 6 then idle (w_thermal w) else if i = 7 then idle (w_gpu w)
      else if i = 2 then idle (w_npu w) else True)"

definition sys_startable :: "nat \<Rightarrow> sys_world \<Rightarrow> bool" where
  "sys_startable i w \<longleftrightarrow>
     (if i = 0 then restartable (w_dummy w) else if i = 1 then restartable (w_cpu w)
      else if i = 6 then restartable (w_thermal w) else if i = 2 then restartable (w_npu w) else True)"

definition sys_inv :: "sys_world \<Rightarrow> bool" where
  "sys_inv w \<longleftrightarrow> dummy_live.live (w_dummy w) \<and> cpu_live.live (w_cpu w) \<and> thermal_live.live (w_thermal w) \<and> gpu_live.live (w_gpu w) \<and>
     npu_live.live (w_npu w)"

interpretation sys_dummy: mounted_service dummy_ops "\<lambda>f. schedule dummy_thread dummy_thread_iterate f" dummy_live.live idle
  "\<lambda>s. all_ended s \<or> g_is_thread_running s" w_dummy "\<lambda>s. w_dummy_update (\<lambda>_. s)" "\<lambda>w. env_clock (se_sample (w_env w))" 0
  sys_inv sys_idle sys_startable
  by unfold_locales (auto simp: sys_inv_def sys_idle_def sys_startable_def restartable_def)

interpretation sys_cpu: mounted_service cpu_ops "\<lambda>f. schedule cpu_thread cpu_thread_iterate f" cpu_live.live idle
  "\<lambda>s. all_ended s \<or> g_is_thread_running s" w_cpu "\<lambda>s. w_cpu_update (\<lambda>_. s)" "\<lambda>w. se_sample (w_env w)" 1
  sys_inv sys_idle sys_startable
  by unfold_locales (auto simp: sys_inv_def sys_idle_def sys_startable_def restartable_def)

interpretation sys_thermal: mounted_service thermal_ops "\<lambda>f. schedule thermal_thread thermal_thread_iterate (fst f)" thermal_live.live idle
  "\<lambda>s. all_ended s \<or> g_is_thread_running s" w_thermal "\<lambda>s. w_thermal_update (\<lambda>_. s)"
  "\<lambda>w. (se_sample (w_env w), se_thermal_directory (w_env w))" 6 sys_inv sys_idle sys_startable
  by unfold_locales (auto simp: sys_inv_def sys_idle_def sys_startable_def restartable_def)

interpretation sys_gpu: mounted_service gpu_ops "\<lambda>f. schedule gpu_thread gpu_thread_iterate f" gpu_live.live idle
  "\<lambda>_. True" w_gpu "\<lambda>s. w_gpu_update (\<lambda>_. s)" "\<lambda>w. se_sample (w_env w)" 7 sys_inv sys_idle sys_startable
  by unfold_locales (auto simp: sys_inv_def sys_idle_def)

interpretation sys_npu: mounted_service npu_ops "\<lambda>f. schedule npu_thread npu_thread_iterate f" npu_live.live idle
  "\<lambda>s. all_ended s \<or> g_is_thread_running s" w_npu "\<lambda>s. w_npu_update (\<lambda>_. s)" npu_env_of 2
  sys_inv sys_idle sys_startable
  by unfold_locales (auto simp: sys_inv_def sys_idle_def sys_startable_def restartable_def)

text \<open>The registry of the build satisfies the contract.\<close>

abbreviation linux_fns :: "bool \<Rightarrow> bool \<Rightarrow> bool \<Rightarrow> bool \<Rightarrow> bool \<Rightarrow> sys_world backend_init_t option list" where
  "linux_fns d c t g n \<equiv> backend_init_fns (linux_config d c t g n) linux_create"

lemma linux_fns_entry:
  assumes "i < 8" "linux_fns d c t g n ! i = Some create"
  shows "i = 0 \<and> create = linux_create BACKEND_DUMMY \<or> i = 1 \<and> create = linux_create BACKEND_QCOM_LINUX_CPU \<or>
     i = 6 \<and> create = linux_create BACKEND_LINUX_THERMAL \<or> i = 7 \<and> create = linux_create BACKEND_QCOM_LINUX_GPU \<or>
     i = 2 \<and> create = linux_create BACKEND_DSP_NPU"
proof -
  have "i \<in> {0, 1, 2, 3, 4, 5, 6, 7}" using assms(1) by auto
  then show ?thesis
    using assms(2)
    by (elim insertE emptyE) (simp_all add: backend_init_fns_def linux_config_def split: if_splits del: linux_create.simps)
qed

interpretation linux_family: backend_family "linux_fns d c t g n" sys_inv sys_idle sys_startable sys_sched
proof unfold_locales
  fix i create p
  assume "i < 8" "linux_fns d c t g n ! i = Some create"
  from linux_fns_entry [OF this]
  show "\<exists>rc q. create (Some p) = (rc, Some q) \<and> private_at sys_inv sys_idle sys_startable i q"
    using sys_dummy.mount_ok [of p] sys_cpu.mount_ok [of p] sys_thermal.mount_ok [of p] sys_gpu.mount_ok [of p] sys_npu.mount_ok [of p]
    by (elim disjE conjE) simp_all
next
  fix w ev
  assume w: "sys_inv w"
  show "\<exists>w'. sys_sched ev w = Ret w' \<and> sys_inv w' \<and> (\<forall>i. sys_idle i w \<longrightarrow> sys_idle i w')"
  proof (cases ev)
    case (Environment e)
    then show ?thesis using w by (simp add: sys_inv_def sys_idle_def)
  next
    case (DummyThread e)
    show ?thesis unfolding DummyThread sys_sched.simps by (rule sys_dummy.part_scheduled [OF w])
  next
    case (CpuThread e)
    show ?thesis unfolding CpuThread sys_sched.simps by (rule sys_cpu.part_scheduled [OF w])
  next
    case (ThermalThread e)
    show ?thesis unfolding ThermalThread sys_sched.simps using sys_thermal.part_scheduled [OF w, of e] by simp
  next
    case (GpuThread e)
    show ?thesis unfolding GpuThread sys_sched.simps by (rule sys_gpu.part_scheduled [OF w])
  next
    case (NpuThread e)
    show ?thesis unfolding NpuThread sys_sched.simps by (rule sys_npu.part_scheduled [OF w])
  qed
qed simp

section \<open>The start\<close>

lemma initial_world_parts:
  "dummy_live.live (initial_dummy f)" "cpu_live.live (initial_session f)" "thermal_live.live (initial_thermal f l)"
  "gpu_live.live (initial_gpu f)" "npu_live.live (initial_npu f)"
proof -
  show "dummy_live.live (initial_dummy f)"
    by (rule dummy_live.live_idle)
      (simp_all add: dummy_tables_ok_def no_table_def initial_dummy_def initial_session_def session.defs orderly_def stoppable_def
        all_ended_def zero_backend_info_def dummy_statics_ok_def)
  show "cpu_live.live (initial_session f)"
    by (rule cpu_live.live_idle) (simp_all add: cpu_tables_ok_def no_table_def initial_session_def all_ended_def zero_backend_info_def
        orderly_def stoppable_def)
  show "thermal_live.live (initial_thermal f l)"
    by (rule thermal_live.live_idle)
      (simp_all add: thermal_tables_ok_def lib_inv_start no_table_def initial_thermal_def initial_session_def session.defs
        orderly_def stoppable_def all_ended_def zero_backend_info_def)
  show "gpu_live.live (initial_gpu f)"
    by (rule gpu_live.live_idle)
      (simp_all add: gpu_ready_def owned_def initial_gpu_def initial_session_def session.defs all_ended_def zero_thread_info_def)
  show "npu_live.live (initial_npu f)"
    by (rule npu_live.live_idle) (simp_all add: npu_tables_ok_def no_table_def orderly_def stoppable_def all_ended_def)
qed

lemma initial_world_inv: "sys_inv (initial_world e d c t l g n)"
  using initial_world_parts by (simp add: sys_inv_def initial_world_def)

lemma initial_world_idle: "sys_idle i (initial_world e d c t l g n)"
  by (simp add: sys_idle_def idle_def initial_world_def all_ended_def initial_dummy_def initial_session_def initial_thermal_def
      initial_gpu_def initial_npu_def session.defs)

text \<open>C1: The library built for Linux, with any choice of its five backends: from its start, every sequence of
  API calls, thread steps of the backends and changes of clock, kernel files, directories and answers of the DSP is free of
  hazards (no call through a null or freed pointer, no array left, no division by zero, no wait for ever),
  whatever allocations fail, as long as the client does not use identifier 8, starts a backend only when no
  thread of it is left behind a lowered flag, and disconnects it only when it is idle.\<close>

theorem linux_library_never_stuck:
  "sys_safe sys_sched sys_idle sys_startable evs
     (initial_core (backend_init_fns (linux_config dummy cpu thermal gpu npu) linux_create) oom (initial_world e d c t l g n))"
  by (rule linux_family.sys_safe_from_start) (simp_all add: initial_world_inv initial_world_idle)

end
