(* ===== verification/Qmutex.thy ===== *)
theory Qmutex
  imports Prelude
begin

text \<open>
  The mutex wrapper \<open>utils/qmutex\<close>, in its Linux implementation over a default pthread mutex and
  in its Windows implementation over a kernel mutex, as one thread sees it. The two differ in what a
  second lock and an unlock of a free mutex do; the locale \<open>mutex_provider\<close> is what both promise.
\<close>

datatype QMutexReturnCode =
    MUTEX_CREATE_SUCCESS
  | MUTEX_CREATE_FAILED
  | MUTEX_CREATE_EXISTS
  | MUTEX_OPEN_SUCCESS
  | MUTEX_OPEN_FAILED
  | MUTEX_NULL_POINTER
  | MUTEX_LOCK_SUCCESS
  | MUTEX_LOCK_FAILED
  | MUTEX_UNLOCK_SUCCESS
  | MUTEX_UNLOCK_FAILED
  | MUTEX_DESTROY_FAILED
  | MUTEX_DESTROY_SUCCESS
  | MUTEX_INVALID_HANDLE

abbreviation (input) MUTEX_NAME_SIZE :: nat where "MUTEX_NAME_SIZE \<equiv> 128"

record MutexAttributes =
  mutex_name :: string
  mutex_name_len :: u8

text \<open>
  The object behind \<open>p_mutex_handle\<close>: none (\<open>NULL\<close>), a live mutex with how often the thread holds
  it, or a handle whose memory was freed.
\<close>

datatype mutex_handle = NoHandle | Live nat | Dangling

record MutexInfo =
  p_mutex_handle :: mutex_handle
  shm_fd :: u32

text \<open>The parameters are pointers, \<open>None\<close> for \<open>NULL\<close>; each operation returns what they point to.\<close>

type_synonym mutex_result = "(QMutexReturnCode \<times> MutexInfo option) outcome"

section \<open>Linux\<close>

text \<open>\<open>script\<close> decides whether \<open>calloc\<close> and then \<open>pthread_mutex_init\<close> succeed.\<close>

definition linux_mutex_create ::
  "MutexAttributes option \<Rightarrow> MutexInfo option \<Rightarrow> oom \<Rightarrow> QMutexReturnCode \<times> MutexInfo option \<times> oom" where
  "linux_mutex_create mutex_request mutex_info script =
     (case (mutex_request, mutex_info) of
        (Some a, Some mi) \<Rightarrow>
          (let (ok, script1) = calloc_ok script
           in if \<not> ok then (MUTEX_NULL_POINTER, Some mi, script1)
              else let (init_ok, script2) = calloc_ok script1;
                       mi' = mi\<lparr>p_mutex_handle := Live 0\<rparr>
                   in (if init_ok then MUTEX_CREATE_SUCCESS else MUTEX_CREATE_FAILED, Some mi', script2))
      | _ \<Rightarrow> (MUTEX_NULL_POINTER, mutex_info, script))"

text \<open>\<open>mutex_open\<close> is not implemented on Linux: every path returns the initial code.\<close>

definition linux_mutex_open ::
  "MutexAttributes option \<Rightarrow> MutexInfo option \<Rightarrow> QMutexReturnCode \<times> MutexInfo option" where
  "linux_mutex_open mutex_request mutex_info = (MUTEX_NULL_POINTER, mutex_info)"

text \<open>
  A default pthread mutex that the calling thread already holds is waited for for ever; unlocking
  one that is not locked is undefined.
\<close>

definition linux_mutex_lock :: "MutexInfo option \<Rightarrow> mutex_result" where
  "linux_mutex_lock mutex_info =
     (case mutex_info of
        None \<Rightarrow> Ret (MUTEX_NULL_POINTER, mutex_info)
      | Some mi \<Rightarrow>
          (case p_mutex_handle mi of
             NoHandle \<Rightarrow> Ret (MUTEX_NULL_POINTER, mutex_info)
           | Dangling \<Rightarrow> Stuck BadDeref
           | Live n \<Rightarrow> if n = 0 then Ret (MUTEX_LOCK_SUCCESS, Some (mi\<lparr>p_mutex_handle := Live 1\<rparr>))
                       else Stuck Deadlock))"

definition linux_mutex_unlock :: "MutexInfo option \<Rightarrow> mutex_result" where
  "linux_mutex_unlock mutex_info =
     (case mutex_info of
        None \<Rightarrow> Ret (MUTEX_NULL_POINTER, mutex_info)
      | Some mi \<Rightarrow>
          (case p_mutex_handle mi of
             NoHandle \<Rightarrow> Ret (MUTEX_NULL_POINTER, mutex_info)
           | Dangling \<Rightarrow> Stuck BadDeref
           | Live n \<Rightarrow> if n = 0 then Stuck BadUnlock
                       else Ret (MUTEX_UNLOCK_SUCCESS, Some (mi\<lparr>p_mutex_handle := Live (n - 1)\<rparr>))))"

text \<open>Destroying a locked pthread mutex fails (\<open>EBUSY\<close>); the memory is freed in both cases.\<close>

definition linux_mutex_destroy :: "MutexInfo option \<Rightarrow> mutex_result" where
  "linux_mutex_destroy mutex_info =
     (case mutex_info of
        None \<Rightarrow> Ret (MUTEX_NULL_POINTER, mutex_info)
      | Some mi \<Rightarrow>
          (case p_mutex_handle mi of
             NoHandle \<Rightarrow> Ret (MUTEX_NULL_POINTER, mutex_info)
           | Dangling \<Rightarrow> Stuck BadDeref
           | Live n \<Rightarrow> Ret (if n = 0 then MUTEX_DESTROY_SUCCESS else MUTEX_DESTROY_FAILED,
                            Some (mi\<lparr>p_mutex_handle := Dangling\<rparr>))))"

section \<open>Windows\<close>

text \<open>
  What \<open>CreateMutex\<close> answers: failure, or a handle to a new object or to an existing one of that
  name, with how often this thread holds it. \<open>OpenMutex\<close> finds an object or fails.
\<close>

datatype named_mutex = NoMutex | NewMutex | ExistingMutex nat

definition windows_mutex_create ::
  "MutexAttributes option \<Rightarrow> MutexInfo option \<Rightarrow> named_mutex \<Rightarrow> QMutexReturnCode \<times> MutexInfo option" where
  "windows_mutex_create mutex_request mutex_info CreateMutex =
     (case (mutex_request, mutex_info) of
        (Some a, Some mi) \<Rightarrow>
          (case CreateMutex of
             NoMutex \<Rightarrow> (MUTEX_CREATE_FAILED, Some (mi\<lparr>p_mutex_handle := NoHandle\<rparr>))
           | ExistingMutex n \<Rightarrow> (MUTEX_CREATE_EXISTS, Some (mi\<lparr>p_mutex_handle := Live n\<rparr>))
           | NewMutex \<Rightarrow> (MUTEX_CREATE_SUCCESS, Some (mi\<lparr>p_mutex_handle := Live 0\<rparr>)))
      | _ \<Rightarrow> (MUTEX_NULL_POINTER, mutex_info))"

definition windows_mutex_open ::
  "MutexAttributes option \<Rightarrow> MutexInfo option \<Rightarrow> nat option \<Rightarrow> QMutexReturnCode \<times> MutexInfo option" where
  "windows_mutex_open mutex_request mutex_info OpenMutex =
     (case (mutex_request, mutex_info) of
        (Some a, Some mi) \<Rightarrow>
          (case OpenMutex of
             None \<Rightarrow> (MUTEX_OPEN_FAILED, Some (mi\<lparr>p_mutex_handle := NoHandle\<rparr>))
           | Some n \<Rightarrow> (MUTEX_OPEN_SUCCESS, Some (mi\<lparr>p_mutex_handle := Live n\<rparr>)))
      | _ \<Rightarrow> (MUTEX_NULL_POINTER, mutex_info))"

text \<open>
  \<open>WaitForSingleObject\<close> lets the owner in again and counts; it fails on a closed handle, as do
  \<open>ReleaseMutex\<close>, which also fails when the thread does not own the mutex, and \<open>CloseHandle\<close>.
\<close>

definition windows_mutex_lock :: "MutexInfo option \<Rightarrow> mutex_result" where
  "windows_mutex_lock mutex_info =
     (case mutex_info of
        None \<Rightarrow> Ret (MUTEX_NULL_POINTER, mutex_info)
      | Some mi \<Rightarrow>
          (case p_mutex_handle mi of
             NoHandle \<Rightarrow> Ret (MUTEX_INVALID_HANDLE, mutex_info)
           | Dangling \<Rightarrow> Ret (MUTEX_LOCK_FAILED, mutex_info)
           | Live n \<Rightarrow> Ret (MUTEX_LOCK_SUCCESS, Some (mi\<lparr>p_mutex_handle := Live (Suc n)\<rparr>))))"

definition windows_mutex_unlock :: "MutexInfo option \<Rightarrow> mutex_result" where
  "windows_mutex_unlock mutex_info =
     (case mutex_info of
        None \<Rightarrow> Ret (MUTEX_NULL_POINTER, mutex_info)
      | Some mi \<Rightarrow>
          (case p_mutex_handle mi of
             NoHandle \<Rightarrow> Ret (MUTEX_INVALID_HANDLE, mutex_info)
           | Dangling \<Rightarrow> Ret (MUTEX_UNLOCK_FAILED, mutex_info)
           | Live n \<Rightarrow> if n = 0 then Ret (MUTEX_UNLOCK_FAILED, mutex_info)
                       else Ret (MUTEX_UNLOCK_SUCCESS, Some (mi\<lparr>p_mutex_handle := Live (n - 1)\<rparr>))))"

definition windows_mutex_destroy :: "MutexInfo option \<Rightarrow> mutex_result" where
  "windows_mutex_destroy mutex_info =
     (case mutex_info of
        None \<Rightarrow> Ret (MUTEX_NULL_POINTER, mutex_info)
      | Some mi \<Rightarrow>
          (case p_mutex_handle mi of
             NoHandle \<Rightarrow> Ret (MUTEX_INVALID_HANDLE, mutex_info)
           | Dangling \<Rightarrow> Ret (MUTEX_DESTROY_FAILED, mutex_info)
           | Live n \<Rightarrow> Ret (MUTEX_DESTROY_SUCCESS, Some (mi\<lparr>p_mutex_handle := Dangling\<rparr>))))"

section \<open>What both promise\<close>

text \<open>
  \<open>holds n m\<close>: \<open>m\<close> points to a live mutex that the thread holds \<open>n\<close> times. Taking a free mutex and
  giving back a mutex held once work on both systems.
\<close>

definition holds :: "nat \<Rightarrow> MutexInfo option \<Rightarrow> bool" where
  "holds n m \<longleftrightarrow> (\<exists>mi. m = Some mi \<and> p_mutex_handle mi = Live n)"

locale mutex_provider =
  fixes lock :: "'m \<Rightarrow> (QMutexReturnCode \<times> 'm) outcome"
    and unlock :: "'m \<Rightarrow> (QMutexReturnCode \<times> 'm) outcome"
    and held :: "nat \<Rightarrow> 'm \<Rightarrow> bool"
  assumes lock_free: "held 0 m \<Longrightarrow> \<exists>m'. lock m = Ret (MUTEX_LOCK_SUCCESS, m') \<and> held 1 m'"
    and unlock_once: "held 1 m \<Longrightarrow> \<exists>m'. unlock m = Ret (MUTEX_UNLOCK_SUCCESS, m') \<and> held 0 m'"
begin

lemma lock_unlock:
  assumes "held 0 m"
  shows "\<exists>m'. obind (lock m) (\<lambda>(_, m1). unlock m1) = Ret (MUTEX_UNLOCK_SUCCESS, m') \<and> held 0 m'"
  using lock_free [OF assms] unlock_once by fastforce

end

text \<open>A recursive mutex can also be taken again by its owner, and a release too many only fails.\<close>

locale recursive_mutex_provider = mutex_provider +
  assumes lock_again: "held n m \<Longrightarrow> \<exists>m'. lock m = Ret (MUTEX_LOCK_SUCCESS, m') \<and> held (Suc n) m'"
    and unlock_nested: "held (Suc n) m \<Longrightarrow> \<exists>m'. unlock m = Ret (MUTEX_UNLOCK_SUCCESS, m') \<and> held n m'"
    and unlock_free: "held 0 m \<Longrightarrow> unlock m = Ret (MUTEX_UNLOCK_FAILED, m)"

interpretation linux_mutex: mutex_provider linux_mutex_lock linux_mutex_unlock holds
  by unfold_locales (auto simp: holds_def linux_mutex_lock_def linux_mutex_unlock_def)

interpretation windows_mutex: recursive_mutex_provider windows_mutex_lock windows_mutex_unlock holds
  by unfold_locales (auto simp: holds_def windows_mutex_lock_def windows_mutex_unlock_def)

lemma linux_lock_held: "holds (Suc n) m \<Longrightarrow> linux_mutex_lock m = Stuck Deadlock"
  by (auto simp: holds_def linux_mutex_lock_def)

lemma linux_unlock_free: "holds 0 m \<Longrightarrow> linux_mutex_unlock m = Stuck BadUnlock"
  by (auto simp: holds_def linux_mutex_unlock_def)

lemma linux_mutex_create_holds:
  assumes "linux_mutex_create (Some a) (Some mi) script = (MUTEX_CREATE_SUCCESS, m, script')"
  shows "holds 0 m"
  using assms by (auto simp: linux_mutex_create_def holds_def Let_def split: prod.splits if_splits)

end
