(* ===== verification/Qlist.thy ===== *)
theory Qlist
  imports Qmutex
begin

text \<open>
  The doubly linked list \<open>utils/qlist/src/qlist.c\<close> over an explicit store of nodes. Every operation
  takes the mutex operations it is linked with, so that the Linux and the Windows build are two
  instances of one model. The refinement to lists of data pointers is in \<open>QlistProps\<close>.
\<close>

datatype QListReturnCode =
    LIST_SUCCESS
  | LIST_FAILED
  | LIST_NULL_POINTER
  | LIST_VALID
  | LIST_INVALID
  | LIST_EMPTY
  | LIST_NON_EMPTY

record Node =
  nd_data :: ptr
  nd_next :: ptr
  nd_prev :: ptr

record 'm List =
  ls_head :: ptr
  ls_tail :: ptr
  ls_size :: u32
  ls_mutex_info :: 'm
  ls_mutex_attributes :: "MutexAttributes option"

text \<open>
  The store: the live nodes, the next address \<open>calloc\<close> hands out, the script of its failures, and
  what the list pointer of the caller refers to (\<open>None\<close>: it is \<open>NULL\<close>).
\<close>

record 'm qstate =
  cells :: "ptr \<Rightarrow> Node option"
  brk :: nat
  allocs :: oom
  the_list :: "'m List option"

record 'm mutex_ops =
  m_lock :: "'m \<Rightarrow> (QMutexReturnCode \<times> 'm) outcome"
  m_unlock :: "'m \<Rightarrow> (QMutexReturnCode \<times> 'm) outcome"
  m_destroy :: "'m \<Rightarrow> (QMutexReturnCode \<times> 'm) outcome"

type_synonym 'm list_op = "'m qstate \<Rightarrow> (QListReturnCode \<times> 'm qstate) outcome"

section \<open>The store\<close>

definition nd :: "ptr \<Rightarrow> 'm qstate \<Rightarrow> Node outcome" where
  "nd p q = (case cells q p of None \<Rightarrow> Stuck BadDeref | Some n \<Rightarrow> Ret n)"

definition set_nd :: "ptr \<Rightarrow> (Node \<Rightarrow> Node) \<Rightarrow> 'm qstate \<Rightarrow> 'm qstate outcome" where
  "set_nd p f q = obind (nd p q) (\<lambda>n. Ret (q\<lparr>cells := (cells q)(p := Some (f n))\<rparr>))"

definition free_nd :: "ptr \<Rightarrow> 'm qstate \<Rightarrow> 'm qstate outcome" where
  "free_nd p q = (if p = NULL then Ret q
                  else obind (nd p q) (\<lambda>_. Ret (q\<lparr>cells := (cells q)(p := None)\<rparr>)))"

definition calloc_nd :: "'m qstate \<Rightarrow> ptr \<times> 'm qstate" where
  "calloc_nd q =
     (let (ok, rest) = calloc_ok (allocs q)
      in if ok then (brk q, q\<lparr>cells := (cells q)(brk q := Some \<lparr>nd_data = NULL, nd_next = NULL, nd_prev = NULL\<rparr>),
                              brk := Suc (brk q), allocs := rest\<rparr>)
         else (NULL, q\<lparr>allocs := rest\<rparr>))"

definition get_list :: "'m qstate \<Rightarrow> 'm List outcome" where
  "get_list q = (case the_list q of None \<Rightarrow> Stuck BadDeref | Some l \<Rightarrow> Ret l)"

definition upd_list :: "('m List \<Rightarrow> 'm List) \<Rightarrow> 'm qstate \<Rightarrow> 'm qstate" where
  "upd_list f q = q\<lparr>the_list := map_option f (the_list q)\<rparr>"

text \<open>\<open>mutex_lock(p_list->mutex_info)\<close> and \<open>mutex_unlock\<close>: the list ignores their return codes.\<close>

definition take_mutex :: "'m mutex_ops \<Rightarrow> 'm qstate \<Rightarrow> 'm qstate outcome" where
  "take_mutex mx q =
     obind (get_list q) (\<lambda>l. obind (m_lock mx (ls_mutex_info l))
       (\<lambda>(_, m). Ret (upd_list (ls_mutex_info_update (\<lambda>_. m)) q)))"

definition give_mutex :: "'m mutex_ops \<Rightarrow> 'm qstate \<Rightarrow> 'm qstate outcome" where
  "give_mutex mx q =
     obind (get_list q) (\<lambda>l. obind (m_unlock mx (ls_mutex_info l))
       (\<lambda>(_, m). Ret (upd_list (ls_mutex_info_update (\<lambda>_. m)) q)))"

section \<open>Creation\<close>

text \<open>
  The three allocations and the creation of the mutex; every failure frees what was allocated
  and leaves \<open>*pp_list\<close> alone. \<open>create\<close> is \<open>mutex_create\<close> on the fresh attributes and information.
\<close>

definition list_create ::
  "(MutexAttributes \<Rightarrow> oom \<Rightarrow> QMutexReturnCode \<times> 'm \<times> oom) \<Rightarrow> string \<Rightarrow> 'm qstate \<Rightarrow> QListReturnCode \<times> 'm qstate" where
  "list_create create name q =
     (let (ok1, s1) = calloc_ok (allocs q)
      in if \<not> ok1 then (LIST_NULL_POINTER, q\<lparr>allocs := s1\<rparr>)
         else let (ok2, s2) = calloc_ok s1
              in if \<not> ok2 then (LIST_NULL_POINTER, q\<lparr>allocs := s2\<rparr>)
                 else let (ok3, s3) = calloc_ok s2
                      in if \<not> ok3 then (LIST_NULL_POINTER, q\<lparr>allocs := s3\<rparr>)
                         else let attrs = \<lparr>mutex_name = snprintf_buf MUTEX_NAME_SIZE name,
                                           mutex_name_len = of_nat (length name)\<rparr>;
                                  (mrc, m, s4) = create attrs s3
                              in if mrc = MUTEX_CREATE_SUCCESS
                                 then (LIST_SUCCESS,
                                       q\<lparr>the_list := Some \<lparr>ls_head = NULL, ls_tail = NULL, ls_size = 0,
                                                     ls_mutex_info = m, ls_mutex_attributes = Some attrs\<rparr>,
                                         allocs := s4\<rparr>)
                                 else (LIST_FAILED, q\<lparr>allocs := s4\<rparr>))"

section \<open>Observers\<close>

definition list_check_valid :: "'m qstate \<Rightarrow> QListReturnCode" where
  "list_check_valid q =
     (case the_list q of
        None \<Rightarrow> LIST_NULL_POINTER
      | Some l \<Rightarrow>
          let rc1 = (if ls_head l \<noteq> NULL \<and> ls_tail l \<noteq> NULL then if ls_size l > 0 then LIST_VALID else LIST_INVALID
                     else LIST_INVALID)
          in if ls_head l = NULL \<and> ls_tail l = NULL then if ls_size l = 0 then LIST_VALID else rc1 else rc1)"

text \<open>\<open>p_size\<close> is what \<open>*p_size\<close> held; the result says what it holds now.\<close>

definition list_size :: "u32 \<Rightarrow> 'm qstate \<Rightarrow> QListReturnCode \<times> u32" where
  "list_size p_size q =
     (let v = list_check_valid q
      in case the_list q of
           Some l \<Rightarrow> if v = LIST_VALID then (LIST_SUCCESS, ls_size l) else (v, p_size)
         | None \<Rightarrow> (v, p_size))"

definition list_check_empty :: "'m qstate \<Rightarrow> QListReturnCode" where
  "list_check_empty q =
     (let v = list_check_valid q
      in if v = LIST_VALID
         then let (rc, lsize) = list_size 0 q
              in if rc = LIST_SUCCESS then if lsize = 0 then LIST_EMPTY else LIST_NON_EMPTY else rc
         else v)"

text \<open>The two walks of \<open>list_get_node\<close>: \<open>k\<close> steps along \<open>next\<close> or along \<open>prev\<close>.\<close>

fun walk_next :: "nat \<Rightarrow> ptr \<Rightarrow> 'm qstate \<Rightarrow> ptr outcome" where
  "walk_next 0 p q = Ret p"
| "walk_next (Suc k) p q = obind (nd p q) (\<lambda>n. walk_next k (nd_next n) q)"

fun walk_prev :: "nat \<Rightarrow> ptr \<Rightarrow> 'm qstate \<Rightarrow> ptr outcome" where
  "walk_prev 0 p q = Ret p"
| "walk_prev (Suc k) p q = obind (nd p q) (\<lambda>n. walk_prev k (nd_prev n) q)"

definition locate :: "u32 \<Rightarrow> 'm qstate \<Rightarrow> ptr outcome" where
  "locate index q =
     obind (get_list q) (\<lambda>l.
       let qsize = ls_size l
       in if index = 0 then Ret (ls_head l)
          else if index = qsize - 1 then Ret (ls_tail l)
          else let back_distance = qsize - index - 1
               in if back_distance < index then walk_prev (unat back_distance) (ls_tail l) q
                  else walk_next (unat index) (ls_head l) q)"

text \<open>\<open>pp_node\<close> is \<open>None\<close> for a \<open>NULL\<close> pointer, otherwise what the pointer held; likewise \<open>pp_data\<close>.\<close>

definition list_get_node ::
  "'m mutex_ops \<Rightarrow> u32 \<Rightarrow> ptr option \<Rightarrow> 'm qstate \<Rightarrow> (QListReturnCode \<times> ptr option \<times> 'm qstate) outcome" where
  "list_get_node mx index pp_node q =
     (if the_list q = None \<or> pp_node = None then Ret (LIST_NULL_POINTER, pp_node, q)
      else obind (take_mutex mx q) (\<lambda>q1.
        let v = list_check_valid q1 in
        obind (if v \<noteq> LIST_VALID then Ret (v, pp_node)
               else let e = list_check_empty q1
                    in if e = LIST_NON_EMPTY then obind (locate index q1) (\<lambda>p. Ret (LIST_SUCCESS, Some p))
                       else Ret (e, pp_node))
          (\<lambda>(rc, pp'). obind (give_mutex mx q1) (\<lambda>q2. Ret (rc, pp', q2)))))"

definition list_get_data ::
  "'m mutex_ops \<Rightarrow> u32 \<Rightarrow> ptr option \<Rightarrow> 'm qstate \<Rightarrow> (QListReturnCode \<times> ptr option \<times> 'm qstate) outcome" where
  "list_get_data mx index pp_data q =
     (if the_list q = None \<or> pp_data = None then Ret (LIST_NULL_POINTER, pp_data, q)
      else obind (list_get_node mx index (Some NULL) q) (\<lambda>(rc, pn, q1).
        if rc = LIST_SUCCESS
        then obind (nd (case pn of Some p \<Rightarrow> p | None \<Rightarrow> NULL) q1) (\<lambda>n. Ret (LIST_SUCCESS, Some (nd_data n), q1))
        else Ret (rc, pp_data, q1)))"

section \<open>Insertion\<close>

definition push_front_body :: "ptr \<Rightarrow> 'm list_op" where
  "push_front_body p_data q =
     (let v = list_check_valid q
      in if v \<noteq> LIST_VALID then Ret (v, q)
         else let (new, q1) = calloc_nd q
              in if new = NULL then Ret (LIST_NULL_POINTER, q1)
                 else obind (set_nd new (nd_data_update (\<lambda>_. p_data)) q1) (\<lambda>q2.
                   obind (get_list q2) (\<lambda>l.
                     obind (if ls_head l \<noteq> NULL \<and> ls_tail l \<noteq> NULL
                            then obind (set_nd new (\<lambda>n. n\<lparr>nd_next := ls_head l, nd_prev := NULL\<rparr>) q2) (\<lambda>q3.
                              obind (set_nd (ls_head l) (nd_prev_update (\<lambda>_. new)) q3) (\<lambda>q4.
                                Ret (upd_list (ls_head_update (\<lambda>_. new)) q4)))
                            else Ret (upd_list (\<lambda>l. l\<lparr>ls_head := new, ls_tail := new\<rparr>) q2))
                       (\<lambda>q5. Ret (LIST_SUCCESS, upd_list (ls_size_update (\<lambda>s. s + 1)) q5)))))"

definition list_push_front :: "'m mutex_ops \<Rightarrow> ptr \<Rightarrow> 'm list_op" where
  "list_push_front mx p_data q =
     (if the_list q = None \<or> p_data = NULL then Ret (LIST_NULL_POINTER, q)
      else obind (take_mutex mx q) (\<lambda>q1. obind (push_front_body p_data q1)
        (\<lambda>(rc, q2). obind (give_mutex mx q2) (\<lambda>q3. Ret (rc, q3)))))"

definition push_back_body :: "ptr \<Rightarrow> 'm list_op" where
  "push_back_body p_data q =
     (let v = list_check_valid q
      in if v \<noteq> LIST_VALID then Ret (v, q)
         else let (new, q1) = calloc_nd q
              in if new = NULL then Ret (LIST_NULL_POINTER, q1)
                 else obind (set_nd new (nd_data_update (\<lambda>_. p_data)) q1) (\<lambda>q2.
                   obind (get_list q2) (\<lambda>l.
                     obind (if ls_tail l \<noteq> NULL \<and> ls_head l \<noteq> NULL
                            then obind (set_nd (ls_tail l) (nd_next_update (\<lambda>_. new)) q2) (\<lambda>q3.
                              obind (set_nd new (nd_prev_update (\<lambda>_. ls_tail l)) q3) (\<lambda>q4.
                                Ret (upd_list (ls_tail_update (\<lambda>_. new)) q4)))
                            else Ret (upd_list (\<lambda>l. l\<lparr>ls_head := new, ls_tail := new\<rparr>) q2))
                       (\<lambda>q5. Ret (LIST_SUCCESS, upd_list (ls_size_update (\<lambda>s. s + 1)) q5)))))"

definition list_push_back :: "'m mutex_ops \<Rightarrow> ptr \<Rightarrow> 'm list_op" where
  "list_push_back mx p_data q =
     (if the_list q = None \<or> p_data = NULL then Ret (LIST_NULL_POINTER, q)
      else obind (take_mutex mx q) (\<lambda>q1. obind (push_back_body p_data q1)
        (\<lambda>(rc, q2). obind (give_mutex mx q2) (\<lambda>q3. Ret (rc, q3)))))"

text \<open>Links a new node before \<open>pNodei\<close>, as the middle case of \<open>list_insert_data\<close> does.\<close>

definition insert_before :: "ptr \<Rightarrow> ptr \<Rightarrow> 'm list_op" where
  "insert_before pNodei p_data q =
     (let (new, q1) = calloc_nd q
      in if new = NULL then Ret (LIST_NULL_POINTER, q1)
         else obind (nd pNodei q1) (\<lambda>ni.
           obind (set_nd new (\<lambda>n. n\<lparr>nd_data := p_data, nd_prev := nd_prev ni, nd_next := pNodei\<rparr>) q1) (\<lambda>q2.
             obind (set_nd (nd_prev ni) (nd_next_update (\<lambda>_. new)) q2) (\<lambda>q3.
               obind (set_nd pNodei (nd_prev_update (\<lambda>_. new)) q3) (\<lambda>q4.
                 Ret (LIST_SUCCESS, upd_list (ls_size_update (\<lambda>s. s + 1)) q4))))))"

text \<open>
  The two end positions give the mutex back, call a function that takes and gives it, and then
  give it back once more; the middle position calls \<open>list_get_node\<close>, which takes the mutex again.
\<close>

definition list_insert_data :: "'m mutex_ops \<Rightarrow> u32 \<Rightarrow> ptr \<Rightarrow> 'm list_op" where
  "list_insert_data mx index p_data q =
     (if the_list q = None \<or> p_data = NULL then Ret (LIST_NULL_POINTER, q)
      else obind (take_mutex mx q) (\<lambda>q1.
        let v = list_check_valid q1 in
        obind (if v \<noteq> LIST_VALID then Ret (v, q1)
               else let (_, lsize) = list_size 0 q1
                    in if index = 0 then obind (give_mutex mx q1) (list_push_front mx p_data)
                       else if index = lsize then obind (give_mutex mx q1) (list_push_back mx p_data)
                       else if index > 0 \<and> index < lsize
                       then obind (list_get_node mx index (Some NULL) q1) (\<lambda>(rc, pn, q2).
                              if rc = LIST_SUCCESS
                              then insert_before (case pn of Some p \<Rightarrow> p | None \<Rightarrow> NULL) p_data q2
                              else Ret (rc, q2))
                       else Ret (LIST_FAILED, q1))
          (\<lambda>(rc, q2). obind (give_mutex mx q2) (\<lambda>q3. Ret (rc, q3)))))"

section \<open>Removal\<close>

type_synonym 'm pop_op = "ptr option \<Rightarrow> 'm qstate \<Rightarrow> (QListReturnCode \<times> ptr option \<times> 'm qstate) outcome"

text \<open>What \<open>list_pop_front\<close>, \<open>list_popBack\<close> and the seeks share: lock, validity, emptiness, unlock.\<close>

definition guarded_pop ::
  "'m mutex_ops \<Rightarrow> ('m qstate \<Rightarrow> (QListReturnCode \<times> ptr option \<times> 'm qstate) outcome) \<Rightarrow> 'm pop_op" where
  "guarded_pop mx body pp_data q =
     (if the_list q = None \<or> pp_data = None then Ret (LIST_NULL_POINTER, pp_data, q)
      else obind (take_mutex mx q) (\<lambda>q1.
        let v = list_check_valid q1 in
        obind (if v \<noteq> LIST_VALID then Ret (v, pp_data, q1)
               else let e = list_check_empty q1
                    in if e = LIST_NON_EMPTY then body q1 else Ret (e, pp_data, q1))
          (\<lambda>(rc, pp', q2). obind (give_mutex mx q2) (\<lambda>q3. Ret (rc, pp', q3)))))"

definition pop_front_body :: "'m qstate \<Rightarrow> (QListReturnCode \<times> ptr option \<times> 'm qstate) outcome" where
  "pop_front_body q =
     obind (get_list q) (\<lambda>l. obind (nd (ls_head l) q) (\<lambda>h.
       obind (if nd_next h \<noteq> NULL
              then obind (set_nd (nd_next h) (nd_prev_update (\<lambda>_. NULL)) (upd_list (ls_head_update (\<lambda>_. nd_next h)) q))
                     (free_nd (ls_head l))
              else obind (free_nd (ls_head l) q) (\<lambda>q1. Ret (upd_list (\<lambda>l. l\<lparr>ls_head := NULL, ls_tail := NULL\<rparr>) q1)))
         (\<lambda>q2. Ret (LIST_SUCCESS, Some (nd_data h), upd_list (ls_size_update (\<lambda>s. s - 1)) q2))))"

definition list_pop_front :: "'m mutex_ops \<Rightarrow> 'm pop_op" where
  "list_pop_front mx = guarded_pop mx pop_front_body"

definition seek_front_body :: "'m qstate \<Rightarrow> (QListReturnCode \<times> ptr option \<times> 'm qstate) outcome" where
  "seek_front_body q =
     obind (get_list q) (\<lambda>l. obind (nd (ls_head l) q) (\<lambda>h. Ret (LIST_SUCCESS, Some (nd_data h), q)))"

definition list_seek_front :: "'m mutex_ops \<Rightarrow> 'm pop_op" where
  "list_seek_front mx = guarded_pop mx seek_front_body"

definition pop_back_body :: "'m qstate \<Rightarrow> (QListReturnCode \<times> ptr option \<times> 'm qstate) outcome" where
  "pop_back_body q =
     obind (get_list q) (\<lambda>l. obind (nd (ls_tail l) q) (\<lambda>t.
       obind (if nd_prev t \<noteq> NULL
              then obind (set_nd (nd_prev t) (nd_next_update (\<lambda>_. NULL)) (upd_list (ls_tail_update (\<lambda>_. nd_prev t)) q))
                     (free_nd (ls_tail l))
              else obind (free_nd (ls_tail l) q) (\<lambda>q1. Ret (upd_list (\<lambda>l. l\<lparr>ls_tail := NULL, ls_head := NULL\<rparr>) q1)))
         (\<lambda>q2. Ret (LIST_SUCCESS, Some (nd_data t), upd_list (ls_size_update (\<lambda>s. s - 1)) q2))))"

definition list_popBack :: "'m mutex_ops \<Rightarrow> 'm pop_op" where
  "list_popBack mx = guarded_pop mx pop_back_body"

definition seek_back_body :: "'m qstate \<Rightarrow> (QListReturnCode \<times> ptr option \<times> 'm qstate) outcome" where
  "seek_back_body q =
     obind (get_list q) (\<lambda>l. obind (nd (ls_tail l) q) (\<lambda>t. Ret (LIST_SUCCESS, Some (nd_data t), q)))"

definition list_seek_back :: "'m mutex_ops \<Rightarrow> 'm pop_op" where
  "list_seek_back mx = guarded_pop mx seek_back_body"

text \<open>Unlinks and frees a node that has two neighbours.\<close>

definition unlink_node :: "ptr \<Rightarrow> 'm qstate \<Rightarrow> (QListReturnCode \<times> ptr option \<times> 'm qstate) outcome" where
  "unlink_node pNodei q =
     obind (nd pNodei q) (\<lambda>ni.
       obind (set_nd (nd_prev ni) (nd_next_update (\<lambda>_. nd_next ni)) q) (\<lambda>q1.
         obind (nd pNodei q1) (\<lambda>ni'.
           obind (set_nd (nd_next ni') (nd_prev_update (\<lambda>_. nd_prev ni')) q1) (\<lambda>q2.
             obind (free_nd pNodei (upd_list (ls_size_update (\<lambda>s. s - 1)) q2)) (\<lambda>q3.
               Ret (LIST_SUCCESS, Some (nd_data ni), q3))))))"

definition list_erase_node :: "'m mutex_ops \<Rightarrow> u32 \<Rightarrow> 'm pop_op" where
  "list_erase_node mx index pp_data q =
     (if the_list q = None \<or> pp_data = None then Ret (LIST_NULL_POINTER, pp_data, q)
      else obind (take_mutex mx q) (\<lambda>q1.
        let v = list_check_valid q1 in
        obind (if v \<noteq> LIST_VALID then Ret (v, pp_data, q1)
               else let e = list_check_empty q1
                    in if e \<noteq> LIST_NON_EMPTY then Ret (e, pp_data, q1)
                       else let (_, lsize) = list_size 0 q1
                            in if index = 0
                               then obind (give_mutex mx q1) (\<lambda>q2. obind (list_pop_front mx pp_data q2)
                                      (\<lambda>(rc, pp', q3). obind (take_mutex mx q3) (\<lambda>q4. Ret (rc, pp', q4))))
                               else if index = lsize - 1
                               then obind (give_mutex mx q1) (\<lambda>q2. obind (list_popBack mx pp_data q2)
                                      (\<lambda>(rc, pp', q3). obind (take_mutex mx q3) (\<lambda>q4. Ret (rc, pp', q4))))
                               else if index > 0 \<and> index < lsize
                               then obind (give_mutex mx q1) (\<lambda>q2. obind (list_get_node mx index (Some NULL) q2)
                                      (\<lambda>(rc, pn, q3). obind (take_mutex mx q3) (\<lambda>q4.
                                         if rc = LIST_SUCCESS
                                         then unlink_node (case pn of Some p \<Rightarrow> p | None \<Rightarrow> NULL) q4
                                         else Ret (rc, pp_data, q4))))
                               else Ret (LIST_FAILED, pp_data, q1))
          (\<lambda>(rc, pp', q2). obind (give_mutex mx q2) (\<lambda>q3. Ret (rc, pp', q3)))))"

section \<open>Clearing and deletion\<close>

text \<open>
  The loop of \<open>list_clear_all\<close>. Each iteration frees a node, so a fuel of one more than the number
  of addresses ever handed out, \<open>Suc (brk q)\<close>, is enough (\<open>clear_loop_runs\<close> in \<open>QlistProps\<close>).
\<close>

fun clear_loop :: "nat \<Rightarrow> ptr \<Rightarrow> 'm qstate \<Rightarrow> 'm qstate outcome" where
  "clear_loop 0 p q = Stuck NoReturn"
| "clear_loop (Suc f) p q =
     (if p = NULL then Ret q
      else obind (nd p q) (\<lambda>n. obind (free_nd p q) (\<lambda>q1.
             clear_loop f (nd_next n) (upd_list (ls_size_update (\<lambda>s. s - 1)) q1))))"

definition list_clear_all :: "'m mutex_ops \<Rightarrow> 'm list_op" where
  "list_clear_all mx q =
     (if the_list q = None then Ret (LIST_NULL_POINTER, q)
      else obind (take_mutex mx q) (\<lambda>q1.
        let v = list_check_valid q1 in
        obind (if v \<noteq> LIST_VALID then Ret (v, q1)
               else let e = list_check_empty q1
                    in if e = LIST_NON_EMPTY
                       then obind (get_list q1) (\<lambda>l. obind (clear_loop (Suc (brk q1)) (ls_head l) q1) (\<lambda>q2.
                              Ret (LIST_SUCCESS, upd_list (\<lambda>l. l\<lparr>ls_head := NULL, ls_tail := NULL\<rparr>) q2)))
                       else Ret (e, q1))
          (\<lambda>(rc, q2). obind (give_mutex mx q2) (\<lambda>q3. Ret (rc, q3)))))"

definition list_delete :: "'m mutex_ops \<Rightarrow> 'm list_op" where
  "list_delete mx q =
     (if the_list q = None then Ret (LIST_NULL_POINTER, q)
      else obind (list_clear_all mx q) (\<lambda>(rc, q1).
        if rc = LIST_SUCCESS \<or> rc = LIST_EMPTY
        then obind (get_list q1) (\<lambda>l. obind (m_destroy mx (ls_mutex_info l))
               (\<lambda>_. Ret (rc, q1\<lparr>the_list := None\<rparr>)))
        else Ret (rc, q1)))"

definition linux_mutex_ops :: "MutexInfo option mutex_ops" where
  "linux_mutex_ops = \<lparr>m_lock = linux_mutex_lock, m_unlock = linux_mutex_unlock, m_destroy = linux_mutex_destroy\<rparr>"

definition windows_mutex_ops :: "MutexInfo option mutex_ops" where
  "windows_mutex_ops =
     \<lparr>m_lock = windows_mutex_lock, m_unlock = windows_mutex_unlock, m_destroy = windows_mutex_destroy\<rparr>"

end
