(* ===== verification/QlistProps.thy ===== *)
theory QlistProps
  imports Qlist
begin

text \<open>
  Correctness of the linked list: the pointer structure \<open>shape\<close>, what every operation does to it,
  and the refinement of the operations to functions on lists of data pointers, once in the locale
  \<open>qlist_client\<close> for every mutex that keeps the contract \<open>mutex_provider\<close>, interpreted for the Linux
  and the Windows mutex.
\<close>

section \<open>Segments\<close>

definition hdp :: "ptr list \<Rightarrow> ptr \<Rightarrow> ptr" where
  "hdp as nx = (if as = [] then nx else hd as)"

definition lastp :: "ptr \<Rightarrow> ptr list \<Rightarrow> ptr" where
  "lastp pv as = (if as = [] then pv else last as)"

lemma hdp_simps [simp]: "hdp [] nx = nx" "hdp (a # as) nx = a"
  by (simp_all add: hdp_def)

lemma lastp_simps [simp]: "lastp pv [] = pv" "lastp pv (a # as) = lastp a as" "lastp pv (as @ [b]) = b"
  by (simp_all add: lastp_def)

lemma hdp_append [simp]: "hdp (as @ bs) nx = hdp as (hdp bs nx)"
  by (cases as) simp_all

lemma lastp_append [simp]: "lastp pv (as @ bs) = lastp (lastp pv as) bs"
  by (simp add: lastp_def)

text \<open>
  \<open>dseg h pv as nx\<close>: the nodes \<open>as\<close> are linked in both directions, the first one's predecessor is
  \<open>pv\<close>, the last one's successor \<open>nx\<close>.
\<close>

fun dseg :: "(ptr \<Rightarrow> Node option) \<Rightarrow> ptr \<Rightarrow> ptr list \<Rightarrow> ptr \<Rightarrow> bool" where
  "dseg h pv [] nx = True"
| "dseg h pv (a # as) nx =
     ((\<exists>d. h a = Some \<lparr>nd_data = d, nd_next = hdp as nx, nd_prev = pv\<rparr>) \<and> dseg h a as nx)"

lemma dseg_append [simp]:
  "dseg h pv (as @ bs) nx \<longleftrightarrow> dseg h pv as (hdp bs nx) \<and> dseg h (lastp pv as) bs nx"
  by (induction as arbitrary: pv) auto

lemma dseg_upd [simp]: "a \<notin> set as \<Longrightarrow> dseg (h(a := v)) pv as nx = dseg h pv as nx"
  by (induction as arbitrary: pv) auto

lemma dseg_dom: "dseg h pv as nx \<Longrightarrow> a \<in> set as \<Longrightarrow> \<exists>n. h a = Some n"
  by (induction as arbitrary: pv) auto

lemma dseg_nth:
  assumes "dseg h pv as nx" "i < length as"
  shows "\<exists>d. h (as ! i) = Some \<lparr>nd_data = d, nd_next = (if Suc i < length as then as ! Suc i else nx),
                                nd_prev = (if i = 0 then pv else as ! (i - 1))\<rparr>"
  using assms
proof (induction as arbitrary: pv i)
  case (Cons a as)
  show ?case
  proof (cases i)
    case 0
    with Cons.prems show ?thesis by (cases as) auto
  next
    case (Suc j)
    with Cons.IH [of a j] Cons.prems obtain d where
      "h (as ! j) = Some \<lparr>nd_data = d, nd_next = (if Suc j < length as then as ! Suc j else nx),
                          nd_prev = (if j = 0 then a else as ! (j - 1))\<rparr>" by auto
    with Suc show ?thesis by (cases j) auto
  qed
qed simp

section \<open>The shape of a list\<close>

definition shape :: "ptr list \<Rightarrow> 'm qstate \<Rightarrow> bool" where
  "shape as q \<longleftrightarrow>
     (\<exists>l. the_list q = Some l \<and> ls_head l = hdp as NULL \<and> ls_tail l = lastp NULL as \<and>
          ls_size l = of_nat (length as)) \<and>
     length as < 2 ^ 32 \<and> distinct as \<and> dom (cells q) = set as \<and> 0 < brk q \<and>
     (\<forall>a \<in> set as. 0 < a \<and> a < brk q) \<and> dseg (cells q) NULL as NULL"

text \<open>The abstraction: the data pointers in order.\<close>

definition contents :: "(ptr \<Rightarrow> Node option) \<Rightarrow> ptr list \<Rightarrow> ptr list" where
  "contents h as = List.map (\<lambda>a. nd_data (the (h a))) as"

lemma contents_simps [simp]:
  "contents h [] = []" "contents h (a # as) = nd_data (the (h a)) # contents h as"
  "contents h (as @ bs) = contents h as @ contents h bs" "length (contents h as) = length as"
  by (simp_all add: contents_def)

lemma contents_upd [simp]: "a \<notin> set as \<Longrightarrow> contents (h(a := v)) as = contents h as"
  by (auto simp: contents_def)

lemma contents_eq_Nil [simp]: "contents h as = [] \<longleftrightarrow> as = []"
  by (simp add: contents_def)

lemma shape_list: "shape as q \<Longrightarrow> \<exists>l. the_list q = Some l \<and> ls_head l = hdp as NULL \<and>
    ls_tail l = lastp NULL as \<and> ls_size l = of_nat (length as)"
  by (simp add: shape_def)

lemma shape_brk: "shape as q \<Longrightarrow> x \<in> set as \<Longrightarrow> x < brk q"
  by (simp add: shape_def)

lemma hdp_pos: "shape as q \<Longrightarrow> hdp as NULL = NULL \<longleftrightarrow> as = []"
  by (cases as) (auto simp: shape_def)

lemma lastp_pos: "shape as q \<Longrightarrow> lastp NULL as = NULL \<longleftrightarrow> as = []"
  by (cases as rule: rev_cases) (auto simp: shape_def)

lemma unat_size: "length as < 2 ^ 32 \<Longrightarrow> unat (of_nat (length as) :: u32) = length as"
  by (simp add: unsigned_of_nat take_bit_nat_eq_self)

lemma of_nat_size:
  assumes "length as < 2 ^ 32"
  shows "(of_nat (length as) :: u32) = 0 \<longleftrightarrow> as = []"
proof
  assume eq: "(of_nat (length as) :: u32) = 0"
  have "length as = unat (of_nat (length as) :: u32)" using unat_size [OF assms] by (rule sym)
  also have "\<dots> = 0" unfolding eq by (rule unsigned_0)
  finally show "as = []" by simp
qed simp

lemma check_valid_shape: "shape as q \<Longrightarrow> list_check_valid q = LIST_VALID"
  using hdp_pos [of as q] lastp_pos [of as q] of_nat_size [of as]
  by (auto simp: list_check_valid_def shape_def word_neq_0_conv Let_def)

lemma shape_length: "shape as q \<Longrightarrow> length as < 2 ^ 32"
  by (simp add: shape_def)

lemma list_size_shape: "shape as q \<Longrightarrow> list_size s q = (LIST_SUCCESS, of_nat (length as))"
  using shape_list [of as q] by (auto simp: list_size_def check_valid_shape Let_def)

lemma check_empty_shape:
  "shape as q \<Longrightarrow> list_check_empty q = (if as = [] then LIST_EMPTY else LIST_NON_EMPTY)"
  using of_nat_size [OF shape_length, of as q] by (simp add: list_check_empty_def check_valid_shape list_size_shape)

text \<open>Changing only the mutex of the list does not change its shape.\<close>

lemma shape_mutex: "shape as (upd_list (ls_mutex_info_update f) q) = shape as q"
  by (auto simp: shape_def upd_list_def)

lemma upd_list_fields [simp]:
  "cells (upd_list f q) = cells q" "brk (upd_list f q) = brk q" "allocs (upd_list f q) = allocs q"
  "the_list (upd_list f q) = map_option f (the_list q)"
  by (simp_all add: upd_list_def)

lemma ls_size_step [simp]:
  "ls_size_update (\<lambda>s. s - 1) l = l\<lparr>ls_size := ls_size l - 1\<rparr>"
  "ls_size_update (\<lambda>s. s + 1) l = l\<lparr>ls_size := ls_size l + 1\<rparr>"
  by (cases l; simp)+

lemma nd_Some [simp]: "cells q p = Some n \<Longrightarrow> nd p q = Ret n"
  by (simp add: nd_def)

lemma set_nd_Some [simp]:
  "cells q p = Some n \<Longrightarrow> set_nd p f q = Ret (q\<lparr>cells := (cells q)(p := Some (f n))\<rparr>)"
  by (simp add: set_nd_def)

lemma free_nd_Some [simp]:
  "cells q p = Some n \<Longrightarrow> p \<noteq> NULL \<Longrightarrow> free_nd p q = Ret (q\<lparr>cells := (cells q)(p := None)\<rparr>)"
  by (simp add: free_nd_def)

lemma get_list_Some [simp]: "the_list q = Some l \<Longrightarrow> get_list q = Ret l"
  by (simp add: get_list_def)

section \<open>Insertion at the ends\<close>

definition alloc_ok :: "'m qstate \<Rightarrow> bool" where
  "alloc_ok q \<longleftrightarrow> fst (calloc_ok (allocs q))"

definition same_list :: "'m qstate \<Rightarrow> 'm qstate \<Rightarrow> bool" where
  "same_list q q' \<longleftrightarrow> map_option ls_mutex_info (the_list q') = map_option ls_mutex_info (the_list q)"

lemma fresh_notin: "shape as q \<Longrightarrow> brk q \<notin> set as \<and> cells q (brk q) = None \<and> brk q \<noteq> 0"
  by (auto simp: shape_def domIff)

lemma calloc_nd_fail: "\<not> alloc_ok q \<Longrightarrow> calloc_nd q = (NULL, q\<lparr>allocs := snd (calloc_ok (allocs q))\<rparr>)"
  by (cases "calloc_ok (allocs q)") (simp add: calloc_nd_def alloc_ok_def)

lemma calloc_nd_ok:
  "alloc_ok q \<Longrightarrow> calloc_nd q =
     (brk q, q\<lparr>cells := (cells q)(brk q := Some \<lparr>nd_data = NULL, nd_next = NULL, nd_prev = NULL\<rparr>),
               brk := Suc (brk q), allocs := snd (calloc_ok (allocs q))\<rparr>)"
  by (cases "calloc_ok (allocs q)") (simp add: calloc_nd_def alloc_ok_def)

lemma shape_allocs [simp]: "shape as (q\<lparr>allocs := s\<rparr>) = shape as q"
  by (simp add: shape_def)

lemma push_fail:
  assumes "shape as q" "\<not> alloc_ok q"
  shows "push_front_body p q = Ret (LIST_NULL_POINTER, q\<lparr>allocs := snd (calloc_ok (allocs q))\<rparr>)"
    and "push_back_body p q = Ret (LIST_NULL_POINTER, q\<lparr>allocs := snd (calloc_ok (allocs q))\<rparr>)"
  using assms
  by (simp_all add: push_front_body_def push_back_body_def check_valid_shape calloc_nd_fail)

lemma push_front_body_shape:
  assumes sh: "shape as q" and ok: "alloc_ok q" and len: "Suc (length as) < 2 ^ 32"
  shows "\<exists>q'. push_front_body p q = Ret (LIST_SUCCESS, q') \<and> shape (brk q # as) q' \<and>
          contents (cells q') (brk q # as) = p # contents (cells q) as \<and> same_list q q' \<and>
          allocs q' = snd (calloc_ok (allocs q)) \<and> brk q' = Suc (brk q)"
proof -
  obtain l where l: "the_list q = Some l" "ls_head l = hdp as NULL" "ls_tail l = lastp NULL as"
    "ls_size l = of_nat (length as)" using shape_list [OF sh] by auto
  note fr = fresh_notin [OF sh]
  note v = check_valid_shape [OF sh] and c = calloc_nd_ok [OF ok]
  have sz: "ls_size l + 1 = of_nat (Suc (length as))" using l by simp
  show ?thesis
  proof (cases as)
    case Nil
    then have "push_front_body p q = Ret (LIST_SUCCESS,
        q\<lparr>cells := (cells q)(brk q := Some \<lparr>nd_data = p, nd_next = NULL, nd_prev = NULL\<rparr>), brk := Suc (brk q),
          allocs := snd (calloc_ok (allocs q)),
          the_list := Some (l\<lparr>ls_head := brk q, ls_tail := brk q, ls_size := of_nat (Suc (length as))\<rparr>)\<rparr>)"
      using l fr sz by (simp add: push_front_body_def v c upd_list_def)
    then show ?thesis
      using sh l fr Nil by (simp add: same_list_def shape_def)
  next
    case (Cons a bs)
    from sh Cons obtain d where a: "cells q a = Some \<lparr>nd_data = d, nd_next = hdp bs NULL, nd_prev = NULL\<rparr>"
      and tl: "dseg (cells q) a bs NULL" by (auto simp: shape_def)
    have neq: "brk q \<noteq> a" "a \<notin> set bs" "brk q \<notin> set bs" "a \<noteq> 0"
      using fr sh Cons by (auto simp: shape_def)
    have tlp: "lastp a bs \<noteq> 0" using lastp_pos [OF sh] Cons by simp
    have "push_front_body p q = Ret (LIST_SUCCESS,
        q\<lparr>cells := (cells q)(brk q := Some \<lparr>nd_data = p, nd_next = a, nd_prev = NULL\<rparr>,
                            a := Some \<lparr>nd_data = d, nd_next = hdp bs NULL, nd_prev = brk q\<rparr>),
          brk := Suc (brk q), allocs := snd (calloc_ok (allocs q)),
          the_list := Some (l\<lparr>ls_head := brk q, ls_size := of_nat (Suc (length as))\<rparr>)\<rparr>)"
      using l fr sz a neq tlp Cons by (simp add: push_front_body_def v c upd_list_def)
    then show ?thesis
      using sh l fr a tl neq Cons len by (auto simp add: same_list_def shape_def)
  qed
qed

lemma push_back_body_shape:
  assumes sh: "shape as q" and ok: "alloc_ok q" and len: "Suc (length as) < 2 ^ 32"
  shows "\<exists>q'. push_back_body p q = Ret (LIST_SUCCESS, q') \<and> shape (as @ [brk q]) q' \<and>
          contents (cells q') (as @ [brk q]) = contents (cells q) as @ [p] \<and> same_list q q' \<and>
          allocs q' = snd (calloc_ok (allocs q)) \<and> brk q' = Suc (brk q)"
proof -
  obtain l where l: "the_list q = Some l" "ls_head l = hdp as NULL" "ls_tail l = lastp NULL as"
    "ls_size l = of_nat (length as)" using shape_list [OF sh] by auto
  note fr = fresh_notin [OF sh]
  note v = check_valid_shape [OF sh] and c = calloc_nd_ok [OF ok]
  have sz: "ls_size l + 1 = of_nat (Suc (length as))" using l by simp
  show ?thesis
  proof (cases as rule: rev_cases)
    case Nil
    then have "push_back_body p q = Ret (LIST_SUCCESS,
        q\<lparr>cells := (cells q)(brk q := Some \<lparr>nd_data = p, nd_next = NULL, nd_prev = NULL\<rparr>), brk := Suc (brk q),
          allocs := snd (calloc_ok (allocs q)),
          the_list := Some (l\<lparr>ls_head := brk q, ls_tail := brk q, ls_size := of_nat (Suc (length as))\<rparr>)\<rparr>)"
      using l fr sz by (simp add: push_back_body_def v c upd_list_def)
    then show ?thesis
      using sh l fr Nil by (simp add: same_list_def shape_def)
  next
    case (snoc bs a)
    from sh snoc obtain d where a: "cells q a = Some \<lparr>nd_data = d, nd_next = NULL, nd_prev = lastp NULL bs\<rparr>"
      and tl: "dseg (cells q) NULL bs a" by (auto simp: shape_def)
    have neq: "brk q \<noteq> a" "a \<notin> set bs" "brk q \<notin> set bs" "a \<noteq> 0"
      using fr sh snoc by (auto simp: shape_def)
    have hdp: "hdp bs a \<noteq> 0" using hdp_pos [OF sh] snoc by simp
    have "push_back_body p q = Ret (LIST_SUCCESS,
        q\<lparr>cells := (cells q)(brk q := Some \<lparr>nd_data = p, nd_next = NULL, nd_prev = a\<rparr>,
                            a := Some \<lparr>nd_data = d, nd_next = brk q, nd_prev = lastp NULL bs\<rparr>),
          brk := Suc (brk q), allocs := snd (calloc_ok (allocs q)),
          the_list := Some (l\<lparr>ls_tail := brk q, ls_size := of_nat (Suc (length as))\<rparr>)\<rparr>)"
      using l fr sz a neq hdp snoc by (simp add: push_back_body_def v c upd_list_def fun_upd_twist)
    then show ?thesis
      using sh l fr a tl neq snoc len by (auto simp add: same_list_def shape_def)
  qed
qed

section \<open>Removal at the ends\<close>

lemma pop_front_body_shape:
  assumes sh: "shape (a # bs) q"
  shows "\<exists>q'. pop_front_body q = Ret (LIST_SUCCESS, Some (nd_data (the (cells q a))), q') \<and> shape bs q' \<and>
          contents (cells q') bs = contents (cells q) bs \<and> same_list q q' \<and> allocs q' = allocs q"
proof -
  obtain l where l: "the_list q = Some l" "ls_head l = a" "ls_tail l = lastp a bs"
    "ls_size l = of_nat (Suc (length bs))" using shape_list [OF sh] by auto
  from sh obtain d where a: "cells q a = Some \<lparr>nd_data = d, nd_next = hdp bs NULL, nd_prev = NULL\<rparr>"
    and tl: "dseg (cells q) a bs NULL" and a0: "a \<noteq> 0" "a \<notin> set bs" by (auto simp: shape_def)
  have sz: "ls_size l - 1 = of_nat (length bs)" using l by simp
  show ?thesis
  proof (cases bs)
    case Nil
    then have "pop_front_body q = Ret (LIST_SUCCESS, Some d,
        q\<lparr>cells := (cells q)(a := None),
          the_list := Some (l\<lparr>ls_head := NULL, ls_tail := NULL, ls_size := of_nat (length bs)\<rparr>)\<rparr>)"
      using l a a0 sz by (simp add: pop_front_body_def upd_list_def)
    moreover have "(cells q)(a := None) = Map.empty"
      using sh Nil by (auto simp: shape_def fun_eq_iff dom_def)
    ultimately show ?thesis using sh l a a0 Nil by (simp add: same_list_def shape_def)
  next
    case (Cons b cs)
    from tl Cons obtain e where b: "cells q b = Some \<lparr>nd_data = e, nd_next = hdp cs NULL, nd_prev = a\<rparr>"
      and tl2: "dseg (cells q) b cs NULL" by auto
    have neq: "b \<noteq> 0" "b \<noteq> a" "b \<notin> set cs" "a \<notin> set cs" using sh Cons by (auto simp: shape_def)
    have "pop_front_body q = Ret (LIST_SUCCESS, Some d,
        q\<lparr>cells := (cells q)(b := Some \<lparr>nd_data = e, nd_next = hdp cs NULL, nd_prev = NULL\<rparr>, a := None),
          the_list := Some (l\<lparr>ls_head := b, ls_size := of_nat (length bs)\<rparr>)\<rparr>)"
      using l a a0 sz b neq Cons by (simp add: pop_front_body_def upd_list_def)
    then show ?thesis using sh l a a0 b tl2 neq Cons by (auto simp: same_list_def shape_def)
  qed
qed

lemma pop_back_body_shape:
  assumes sh: "shape (bs @ [a]) q"
  shows "\<exists>q'. pop_back_body q = Ret (LIST_SUCCESS, Some (nd_data (the (cells q a))), q') \<and> shape bs q' \<and>
          contents (cells q') bs = contents (cells q) bs \<and> same_list q q' \<and> allocs q' = allocs q"
proof -
  obtain l where l: "the_list q = Some l" "ls_head l = hdp bs a" "ls_tail l = a"
    "ls_size l = of_nat (Suc (length bs))" using shape_list [OF sh] by auto
  from sh obtain d where a: "cells q a = Some \<lparr>nd_data = d, nd_next = NULL, nd_prev = lastp NULL bs\<rparr>"
    and tl: "dseg (cells q) NULL bs a" and a0: "a \<noteq> 0" "a \<notin> set bs" by (auto simp: shape_def)
  have sz: "ls_size l - 1 = of_nat (length bs)" using l by simp
  show ?thesis
  proof (cases bs rule: rev_cases)
    case Nil
    then have "pop_back_body q = Ret (LIST_SUCCESS, Some d,
        q\<lparr>cells := (cells q)(a := None),
          the_list := Some (l\<lparr>ls_head := NULL, ls_tail := NULL, ls_size := of_nat (length bs)\<rparr>)\<rparr>)"
      using l a a0 sz by (simp add: pop_back_body_def upd_list_def)
    moreover have "(cells q)(a := None) = Map.empty"
      using sh Nil by (auto simp: shape_def fun_eq_iff dom_def)
    ultimately show ?thesis using sh l a a0 Nil by (simp add: same_list_def shape_def)
  next
    case (snoc cs b)
    from tl snoc obtain e where b: "cells q b = Some \<lparr>nd_data = e, nd_next = a, nd_prev = lastp NULL cs\<rparr>"
      and tl2: "dseg (cells q) NULL cs b" by auto
    have neq: "b \<noteq> 0" "b \<noteq> a" "b \<notin> set cs" "a \<notin> set cs" using sh snoc by (auto simp: shape_def)
    have "pop_back_body q = Ret (LIST_SUCCESS, Some d,
        q\<lparr>cells := (cells q)(b := Some \<lparr>nd_data = e, nd_next = NULL, nd_prev = lastp NULL cs\<rparr>, a := None),
          the_list := Some (l\<lparr>ls_tail := b, ls_size := of_nat (length bs)\<rparr>)\<rparr>)"
      using l a a0 sz b neq snoc by (simp add: pop_back_body_def upd_list_def)
    then show ?thesis using sh l a a0 b tl2 neq snoc by (auto simp: same_list_def shape_def)
  qed
qed

lemma seek_front_body_shape:
  "shape (a # bs) q \<Longrightarrow> seek_front_body q = Ret (LIST_SUCCESS, Some (nd_data (the (cells q a))), q)"
  by (auto simp: seek_front_body_def shape_def)

lemma seek_back_body_shape:
  "shape (bs @ [a]) q \<Longrightarrow> seek_back_body q = Ret (LIST_SUCCESS, Some (nd_data (the (cells q a))), q)"
  by (auto simp: seek_back_body_def shape_def)

section \<open>Positions\<close>

lemma walk_next_shape:
  assumes "dseg (cells q) pv as NULL" "k < length as"
  shows "walk_next k (hdp as NULL) q = Ret (as ! k)"
  using assms
proof (induction as arbitrary: k pv)
  case (Cons a as)
  then obtain d where a: "cells q a = Some \<lparr>nd_data = d, nd_next = hdp as NULL, nd_prev = pv\<rparr>" by auto
  show ?case
  proof (cases k)
    case (Suc j)
    then show ?thesis using Cons a by auto
  qed simp
qed simp

lemma walk_prev_shape:
  assumes "dseg (cells q) NULL as nx" "k < length as"
  shows "walk_prev k (lastp NULL as) q = Ret (as ! (length as - Suc k))"
  using assms
proof (induction as arbitrary: k nx rule: rev_induct)
  case (snoc a as)
  then obtain d where a: "cells q a = Some \<lparr>nd_data = d, nd_next = nx, nd_prev = lastp NULL as\<rparr>"
    and tl: "dseg (cells q) NULL as a" by auto
  show ?case
  proof (cases k)
    case (Suc j)
    then have "walk_prev j (lastp NULL as) q = Ret (as ! (length as - Suc j))"
      using snoc.IH [OF tl, of j] snoc.prems by simp
    moreover have "length as - Suc j < length as" using snoc.prems Suc by simp
    ultimately show ?thesis using Suc a by (simp add: nth_append)
  qed (simp add: nth_append)
qed simp

lemma locate_shape:
  assumes sh: "shape as q" and i: "unat i < length as"
  shows "locate i q = Ret (as ! unat i)"
proof -
  obtain l where l: "the_list q = Some l" "ls_head l = hdp as NULL" "ls_tail l = lastp NULL as"
    "ls_size l = of_nat (length as)" using shape_list [OF sh] by auto
  have len: "length as < 2 ^ 32" using shape_length [OF sh] .
  have ne: "as \<noteq> []" using i by auto
  let ?n = "of_nat (length as) :: u32"
  have un: "unat ?n = length as" using unat_size [OF len] .
  have le: "1 \<le> ?n" "i \<le> ?n - 1"
  proof -
    show "1 \<le> ?n" using un ne by (simp add: word_le_nat_alt Suc_leI)
    then show "i \<le> ?n - 1" using un i by (simp add: word_le_nat_alt unat_sub)
  qed
  have last: "unat (?n - 1) = length as - 1" using le(1) un by (simp add: unat_sub)
  have bk: "unat (?n - i - 1) = length as - 1 - unat i"
  proof -
    have eq: "?n - i - 1 = ?n - 1 - i" by simp
    show ?thesis unfolding eq using unat_sub [OF le(2)] last by simp
  qed
  have seg: "dseg (cells q) NULL as NULL" using sh by (simp add: shape_def)
  show ?thesis
  proof (cases "i = 0")
    case True
    then show ?thesis using l ne by (simp add: locate_def hdp_def hd_conv_nth)
  next
    case i0: False
    show ?thesis
    proof (cases "i = ?n - 1")
      case True
      then have "unat i = length as - 1" using last by simp
      then show ?thesis using l ne i0 True by (simp add: locate_def lastp_def last_conv_nth)
    next
      case False
      show ?thesis
      proof (cases "?n - i - 1 < i")
        case True
        have "walk_prev (unat (?n - i - 1)) (lastp NULL as) q = Ret (as ! unat i)"
          using walk_prev_shape [OF seg, of "unat (?n - i - 1)"] bk i by simp
        then show ?thesis using l i0 False True by (simp add: locate_def Let_def)
      next
        case nlt: False
        then show ?thesis using l i0 False walk_next_shape [OF seg i] by (simp add: locate_def Let_def)
      qed
    qed
  qed
qed

text \<open>
  An index of exactly the size walks off the end: the located node is \<open>NULL\<close>.
\<close>

lemma walk_next_end:
  assumes "dseg (cells q) pv as NULL"
  shows "walk_next (length as) (hdp as NULL) q = Ret NULL"
  using assms
proof (induction as arbitrary: pv)
  case (Cons a as)
  then show ?case by auto
qed simp

section \<open>Insertion and removal in the middle\<close>

lemma split_at: "i < length as \<Longrightarrow> as = take i as @ as ! i # drop (Suc i) as"
  by (rule id_take_nth_drop)

lemma insert_before_fail:
  assumes "\<not> alloc_ok q"
  shows "insert_before n p q = Ret (LIST_NULL_POINTER, q\<lparr>allocs := snd (calloc_ok (allocs q))\<rparr>)"
  using assms by (simp add: insert_before_def calloc_nd_fail)

lemma insert_before_shape:
  assumes sh: "shape (cs @ b # a # bs) q" and ok: "alloc_ok q"
    and len: "Suc (length (cs @ b # a # bs)) < 2 ^ 32"
  shows "\<exists>q'. insert_before a p q = Ret (LIST_SUCCESS, q') \<and> shape (cs @ b # brk q # a # bs) q' \<and>
          contents (cells q') (cs @ b # brk q # a # bs) = contents (cells q) (cs @ [b]) @ p # contents (cells q) (a # bs) \<and>
          same_list q q' \<and> allocs q' = snd (calloc_ok (allocs q)) \<and> brk q' = Suc (brk q)"
proof -
  let ?as = "cs @ b # a # bs"
  obtain l where l: "the_list q = Some l" "ls_head l = hdp ?as NULL" "ls_tail l = lastp NULL ?as"
    "ls_size l = of_nat (length ?as)" using shape_list [OF sh] by auto
  note fr = fresh_notin [OF sh]
  have sz: "ls_size l + 1 = of_nat (Suc (length ?as))" using l by simp
  from sh obtain d e where b: "cells q b = Some \<lparr>nd_data = e, nd_next = a, nd_prev = lastp NULL cs\<rparr>"
    and a: "cells q a = Some \<lparr>nd_data = d, nd_next = hdp bs NULL, nd_prev = b\<rparr>"
    and seg: "dseg (cells q) NULL cs b" "dseg (cells q) a bs NULL"
    by (auto simp: shape_def)
  have neq: "a \<noteq> b" "a \<notin> set cs" "a \<notin> set bs" "b \<notin> set cs" "b \<notin> set bs" "a \<noteq> 0" "b \<noteq> 0"
    "brk q \<noteq> a" "brk q \<noteq> b" "brk q \<notin> set cs" "brk q \<notin> set bs"
    using fr sh by (auto simp: shape_def)
  have "insert_before a p q = Ret (LIST_SUCCESS,
      q\<lparr>cells := (cells q)(brk q := Some \<lparr>nd_data = p, nd_next = a, nd_prev = b\<rparr>,
                          b := Some \<lparr>nd_data = e, nd_next = brk q, nd_prev = lastp NULL cs\<rparr>,
                          a := Some \<lparr>nd_data = d, nd_next = hdp bs NULL, nd_prev = brk q\<rparr>),
        brk := Suc (brk q), allocs := snd (calloc_ok (allocs q)),
        the_list := Some (l\<lparr>ls_size := of_nat (Suc (length ?as))\<rparr>)\<rparr>)"
    using l fr sz a b neq by (simp add: insert_before_def calloc_nd_ok [OF ok] upd_list_def)
  moreover have "\<forall>x \<in> set ?as. x < Suc (brk q)" using shape_brk [OF sh] less_SucI by blast
  ultimately show ?thesis
    using sh l fr a b seg neq len by (auto simp: same_list_def shape_def)
qed

lemma unlink_node_shape:
  assumes sh: "shape (cs @ b # a # c # bs) q"
  shows "\<exists>q'. unlink_node a q = Ret (LIST_SUCCESS, Some (nd_data (the (cells q a))), q') \<and> shape (cs @ b # c # bs) q' \<and>
          contents (cells q') (cs @ b # c # bs) = contents (cells q) (cs @ b # c # bs) \<and>
          same_list q q' \<and> allocs q' = allocs q"
proof -
  let ?as = "cs @ b # a # c # bs"
  obtain l where l: "the_list q = Some l" "ls_head l = hdp ?as NULL" "ls_tail l = lastp NULL ?as"
    "ls_size l = of_nat (length ?as)" using shape_list [OF sh] by auto
  have sz: "ls_size l - 1 = of_nat (Suc (Suc (length cs + length bs)))" using l by simp
  from sh obtain d e f where b: "cells q b = Some \<lparr>nd_data = e, nd_next = a, nd_prev = lastp NULL cs\<rparr>"
    and a: "cells q a = Some \<lparr>nd_data = d, nd_next = c, nd_prev = b\<rparr>"
    and c: "cells q c = Some \<lparr>nd_data = f, nd_next = hdp bs NULL, nd_prev = a\<rparr>"
    and seg: "dseg (cells q) NULL cs b" "dseg (cells q) c bs NULL"
    by (auto simp: shape_def)
  have neq: "a \<noteq> b" "a \<noteq> c" "b \<noteq> c" "a \<notin> set cs" "a \<notin> set bs" "b \<notin> set cs" "b \<notin> set bs"
    "c \<notin> set cs" "c \<notin> set bs" "a \<noteq> 0" "b \<noteq> 0" "c \<noteq> 0"
    using sh by (auto simp: shape_def)
  have "unlink_node a q = Ret (LIST_SUCCESS, Some d,
      q\<lparr>cells := (cells q)(b := Some \<lparr>nd_data = e, nd_next = c, nd_prev = lastp NULL cs\<rparr>,
                          c := Some \<lparr>nd_data = f, nd_next = hdp bs NULL, nd_prev = b\<rparr>, a := None),
        the_list := Some (l\<lparr>ls_size := of_nat (Suc (Suc (length cs + length bs)))\<rparr>)\<rparr>)"
    using l sz a b c neq by (simp add: unlink_node_def upd_list_def)
  then show ?thesis
    using sh l a b c seg neq by (auto simp: same_list_def shape_def)
qed

section \<open>Clearing\<close>

text \<open>
  The loop frees the nodes one by one; the fuel is enough because the nodes are distinct addresses
  below \<open>brk\<close>.
\<close>

lemma clear_loop_runs:
  assumes "the_list q = Some l" "dseg (cells q) pv as NULL" "distinct as" "0 \<notin> set as"
    "dom (cells q) = set as" "length as < f"
  shows "clear_loop f (hdp as NULL) q =
           Ret (q\<lparr>cells := Map.empty, the_list := Some (l\<lparr>ls_size := ls_size l - of_nat (length as)\<rparr>)\<rparr>)"
  using assms
proof (induction as arbitrary: f q l pv)
  case Nil
  then show ?case by (cases f) (simp_all add: qstate.defs)
next
  case (Cons a as)
  then obtain g where f: "f = Suc g" by (cases f) auto
  from Cons.prems obtain d where a: "cells q a = Some \<lparr>nd_data = d, nd_next = hdp as NULL, nd_prev = pv\<rparr>"
    and tl: "dseg (cells q) a as NULL" by auto
  let ?q1 = "q\<lparr>cells := (cells q)(a := None), the_list := Some (l\<lparr>ls_size := ls_size l - 1\<rparr>)\<rparr>"
  have ns: "a \<notin> set as" using Cons.prems by simp
  have "clear_loop g (hdp as NULL) ?q1 =
      Ret (?q1\<lparr>cells := Map.empty,
               the_list := Some (l\<lparr>ls_size := ls_size l - 1,
                                   ls_size := ls_size (l\<lparr>ls_size := ls_size l - 1\<rparr>) - of_nat (length as)\<rparr>)\<rparr>)"
  proof (rule Cons.IH)
    show "dseg (cells ?q1) a as NULL" using tl ns by (simp del: fun_upd_apply)
    show "dom (cells ?q1) = set as" using Cons.prems ns by (simp del: fun_upd_apply)
  qed (use Cons.prems f in auto)
  then show ?case
    using Cons.prems a f by (simp add: upd_list_def algebra_simps)
qed

lemma shape_bounded: "shape as q \<Longrightarrow> length as < Suc (brk q)"
proof -
  assume sh: "shape as q"
  then have "set as \<subseteq> {..<brk q}" "distinct as" by (auto simp: shape_def)
  then have "length as \<le> card {..<brk q}"
    by (metis card_mono distinct_card finite_lessThan)
  then show ?thesis by simp
qed

lemma clear_shape:
  assumes sh: "shape as q" and l: "the_list q = Some l"
  shows "\<exists>q'. clear_loop (Suc (brk q)) (ls_head l) q = Ret q' \<and>
          shape [] (upd_list (\<lambda>l. l\<lparr>ls_head := NULL, ls_tail := NULL\<rparr>) q') \<and> same_list q q' \<and> allocs q' = allocs q"
proof -
  have h: "ls_head l = hdp as NULL" "ls_size l = of_nat (length as)" using shape_list [OF sh] l by auto
  have "clear_loop (Suc (brk q)) (hdp as NULL) q =
          Ret (q\<lparr>cells := Map.empty, the_list := Some (l\<lparr>ls_size := ls_size l - of_nat (length as)\<rparr>)\<rparr>)"
    using sh shape_bounded [OF sh] by (intro clear_loop_runs [OF l]) (auto simp: shape_def)
  then show ?thesis using h sh l by (simp add: shape_def same_list_def)
qed

section \<open>Every operation, under a mutex that keeps its contract\<close>

text \<open>
  \<open>owns held n as q\<close>: the list has the nodes \<open>as\<close> and its mutex is held \<open>n\<close> times.
\<close>

definition owns :: "(nat \<Rightarrow> 'm \<Rightarrow> bool) \<Rightarrow> nat \<Rightarrow> ptr list \<Rightarrow> 'm qstate \<Rightarrow> bool" where
  "owns held n as q \<longleftrightarrow> shape as q \<and> (\<forall>l. the_list q = Some l \<longrightarrow> held n (ls_mutex_info l))"

text \<open>\<open>represents held xs q\<close>: the list holds the data pointers \<open>xs\<close>, its mutex is free.\<close>

definition represents :: "(nat \<Rightarrow> 'm \<Rightarrow> bool) \<Rightarrow> ptr list \<Rightarrow> 'm qstate \<Rightarrow> bool" where
  "represents held xs q \<longleftrightarrow> (\<exists>as. owns held 0 as q \<and> contents (cells q) as = xs)"

lemma owns_shape: "owns held n as q \<Longrightarrow> shape as q"
  by (simp add: owns_def)

lemma owns_same:
  assumes "owns held n as q" "shape bs q'" "same_list q q'"
  shows "owns held n bs q'"
  using assms by (auto simp: owns_def same_list_def shape_def)

lemma owns_allocs [simp]: "owns held n as (q\<lparr>allocs := s\<rparr>) = owns held n as q"
  by (simp add: owns_def)

lemma represents_allocs [simp]: "represents held xs (q\<lparr>allocs := s\<rparr>) = represents held xs q"
  by (simp add: represents_def)

lemma owns_not_None: "owns held n as q \<Longrightarrow> \<exists>l. the_list q = Some l"
  by (auto simp: owns_def shape_def)

locale qlist_client =
  mutex_provider "m_lock mx" "m_unlock mx" held
  for mx :: "'m mutex_ops" and held :: "nat \<Rightarrow> 'm \<Rightarrow> bool"
begin

lemma take_mutex_ok:
  assumes "owns held 0 as q"
  shows "\<exists>q'. take_mutex mx q = Ret q' \<and> owns held 1 as q' \<and> cells q' = cells q \<and> allocs q' = allocs q"
proof -
  obtain l where l: "the_list q = Some l" using owns_not_None [OF assms] by auto
  obtain m where m: "m_lock mx (ls_mutex_info l) = Ret (MUTEX_LOCK_SUCCESS, m)" "held 1 m"
    using lock_free assms l by (auto simp: owns_def)
  have "take_mutex mx q = Ret (upd_list (ls_mutex_info_update (\<lambda>_. m)) q)"
    using l m by (simp add: take_mutex_def)
  moreover have "owns held 1 as (upd_list (ls_mutex_info_update (\<lambda>_. m)) q)"
    using assms m(2) l by (simp add: owns_def shape_mutex)
  ultimately show ?thesis by simp
qed

lemma give_mutex_ok:
  assumes "owns held 1 as q"
  shows "\<exists>q'. give_mutex mx q = Ret q' \<and> owns held 0 as q' \<and> cells q' = cells q \<and> allocs q' = allocs q"
proof -
  obtain l where l: "the_list q = Some l" using owns_not_None [OF assms] by auto
  obtain m where m: "m_unlock mx (ls_mutex_info l) = Ret (MUTEX_UNLOCK_SUCCESS, m)" "held 0 m"
    using unlock_once assms l by (auto simp: owns_def)
  have "give_mutex mx q = Ret (upd_list (ls_mutex_info_update (\<lambda>_. m)) q)"
    using l m by (simp add: give_mutex_def)
  moreover have "owns held 0 as (upd_list (ls_mutex_info_update (\<lambda>_. m)) q)"
    using assms m(2) l by (simp add: owns_def shape_mutex)
  ultimately show ?thesis by simp
qed

lemma alloc_ok_allocs: "allocs q' = allocs q \<Longrightarrow> alloc_ok q' = alloc_ok q"
  by (simp add: alloc_ok_def)

lemma push_front_ok:
  assumes own: "owns held 0 as q" and p: "p \<noteq> NULL" and ok: "alloc_ok q" and len: "Suc (length as) < 2 ^ 32"
  shows "\<exists>q'. list_push_front mx p q = Ret (LIST_SUCCESS, q') \<and>
     represents held (p # contents (cells q) as) q' \<and> allocs q' = snd (calloc_ok (allocs q))"
proof -
  let ?n = "brk q"
  obtain q1 where q1: "take_mutex mx q = Ret q1" "owns held 1 as q1" "cells q1 = cells q" "allocs q1 = allocs q"
    using take_mutex_ok [OF own] by blast
  obtain q2 where q2: "push_front_body p q1 = Ret (LIST_SUCCESS, q2)" "shape (brk q1 # as) q2"
      "contents (cells q2) (brk q1 # as) = p # contents (cells q1) as" "same_list q1 q2"
      "allocs q2 = snd (calloc_ok (allocs q1))"
    using push_front_body_shape [OF owns_shape [OF q1(2)] _ len] alloc_ok_allocs [OF q1(4)] ok by blast
  obtain q3 where q3: "give_mutex mx q2 = Ret q3" "owns held 0 (brk q1 # as) q3" "cells q3 = cells q2" "allocs q3 = allocs q2"
    using give_mutex_ok [OF owns_same [OF q1(2) q2(2,4)]] by blast
  have "represents held (p # contents (cells q) as) q3"
    unfolding represents_def using q3 q2(3) q1(3) by (intro exI [of _ "brk q1 # as"]) simp
  then show ?thesis
    using owns_not_None [OF own] p q1 q2 q3 by (auto simp: list_push_front_def)
qed

lemma push_back_ok:
  assumes own: "owns held 0 as q" and p: "p \<noteq> NULL" and ok: "alloc_ok q" and len: "Suc (length as) < 2 ^ 32"
  shows "\<exists>q'. list_push_back mx p q = Ret (LIST_SUCCESS, q') \<and>
     represents held (contents (cells q) as @ [p]) q' \<and> allocs q' = snd (calloc_ok (allocs q))"
proof -
  obtain q1 where q1: "take_mutex mx q = Ret q1" "owns held 1 as q1" "cells q1 = cells q" "allocs q1 = allocs q"
    using take_mutex_ok [OF own] by blast
  obtain q2 where q2: "push_back_body p q1 = Ret (LIST_SUCCESS, q2)" "shape (as @ [brk q1]) q2"
      "contents (cells q2) (as @ [brk q1]) = contents (cells q1) as @ [p]" "same_list q1 q2"
      "allocs q2 = snd (calloc_ok (allocs q1))"
    using push_back_body_shape [OF owns_shape [OF q1(2)] _ len] alloc_ok_allocs [OF q1(4)] ok by blast
  obtain q3 where q3: "give_mutex mx q2 = Ret q3" "owns held 0 (as @ [brk q1]) q3" "cells q3 = cells q2" "allocs q3 = allocs q2"
    using give_mutex_ok [OF owns_same [OF q1(2) q2(2,4)]] by blast
  have "represents held (contents (cells q) as @ [p]) q3"
    unfolding represents_def using q3 q2(3) q1(3) by (intro exI [of _ "as @ [brk q1]"]) simp
  then show ?thesis
    using owns_not_None [OF own] p q1 q2 q3 by (auto simp: list_push_back_def)
qed

lemma push_oom:
  assumes own: "owns held 0 as q" and p: "p \<noteq> NULL" and ok: "\<not> alloc_ok q"
  shows "\<exists>q'. list_push_front mx p q = Ret (LIST_NULL_POINTER, q') \<and> list_push_back mx p q = Ret (LIST_NULL_POINTER, q') \<and>
     represents held (contents (cells q) as) q' \<and> allocs q' = snd (calloc_ok (allocs q))"
proof -
  obtain q1 where q1: "take_mutex mx q = Ret q1" "owns held 1 as q1" "cells q1 = cells q" "allocs q1 = allocs q"
    using take_mutex_ok [OF own] by blast
  let ?q2 = "q1\<lparr>allocs := snd (calloc_ok (allocs q1))\<rparr>"
  have q2: "push_front_body p q1 = Ret (LIST_NULL_POINTER, ?q2)" "push_back_body p q1 = Ret (LIST_NULL_POINTER, ?q2)"
    using push_fail [OF owns_shape [OF q1(2)]] alloc_ok_allocs [OF q1(4)] ok by simp_all
  obtain q3 where q3: "give_mutex mx ?q2 = Ret q3" "owns held 0 as q3" "cells q3 = cells q1" "allocs q3 = allocs ?q2"
    using give_mutex_ok [of as ?q2] q1(2) by auto
  then show ?thesis
    using owns_not_None [OF own] p q1 q2
    by (auto simp: list_push_front_def list_push_back_def represents_def)
qed

lemma guarded_pop_ok:
  assumes own: "owns held 0 as q" and ne: "as \<noteq> []"
    and body: "\<And>q1. owns held 1 as q1 \<Longrightarrow> cells q1 = cells q \<Longrightarrow> allocs q1 = allocs q \<Longrightarrow>
      \<exists>q2. b q1 = Ret (LIST_SUCCESS, Some d, q2) \<and> owns held 1 bs q2 \<and> contents (cells q2) bs = ys \<and> allocs q2 = allocs q"
  shows "\<exists>q'. guarded_pop mx b (Some x) q = Ret (LIST_SUCCESS, Some d, q') \<and> owns held 0 bs q' \<and>
     contents (cells q') bs = ys \<and> allocs q' = allocs q"
proof -
  obtain q1 where q1: "take_mutex mx q = Ret q1" "owns held 1 as q1" "cells q1 = cells q" "allocs q1 = allocs q"
    using take_mutex_ok [OF own] by blast
  obtain q2 where q2: "b q1 = Ret (LIST_SUCCESS, Some d, q2)" "owns held 1 bs q2" "contents (cells q2) bs = ys" "allocs q2 = allocs q"
    using body [OF q1(2-4)] by blast
  obtain q3 where q3: "give_mutex mx q2 = Ret q3" "owns held 0 bs q3" "cells q3 = cells q2" "allocs q3 = allocs q2"
    using give_mutex_ok [OF q2(2)] by blast
  show ?thesis
    using owns_not_None [OF own] q1 q2 q3 ne
    by (auto simp: guarded_pop_def check_valid_shape [OF owns_shape [OF q1(2)]] check_empty_shape [OF owns_shape [OF q1(2)]])
qed

lemma guarded_pop_empty:
  assumes own: "owns held 0 [] q"
  shows "\<exists>q'. guarded_pop mx b (Some x) q = Ret (LIST_EMPTY, Some x, q') \<and> owns held 0 [] q' \<and> allocs q' = allocs q"
proof -
  obtain q1 where q1: "take_mutex mx q = Ret q1" "owns held 1 [] q1" "cells q1 = cells q" "allocs q1 = allocs q"
    using take_mutex_ok [OF own] by blast
  obtain q3 where q3: "give_mutex mx q1 = Ret q3" "owns held 0 [] q3" "allocs q3 = allocs q1"
    using give_mutex_ok [OF q1(2)] by blast
  show ?thesis
    using owns_not_None [OF own] q1 q3
    by (auto simp: guarded_pop_def check_valid_shape [OF owns_shape [OF q1(2)]] check_empty_shape [OF owns_shape [OF q1(2)]])
qed

lemma get_node_ok:
  assumes own: "owns held 0 as q" and i: "unat i < length as"
  shows "\<exists>q'. list_get_node mx i (Some x) q = Ret (LIST_SUCCESS, Some (as ! unat i), q') \<and>
     owns held 0 as q' \<and> cells q' = cells q \<and> allocs q' = allocs q"
proof -
  obtain q1 where q1: "take_mutex mx q = Ret q1" "owns held 1 as q1" "cells q1 = cells q" "allocs q1 = allocs q"
    using take_mutex_ok [OF own] by blast
  obtain q3 where q3: "give_mutex mx q1 = Ret q3" "owns held 0 as q3" "cells q3 = cells q1" "allocs q3 = allocs q1"
    using give_mutex_ok [OF q1(2)] by blast
  note sh = owns_shape [OF q1(2)]
  have "as \<noteq> []" using i by auto
  then show ?thesis
    using owns_not_None [OF own] q1 q3 locate_shape [OF sh i]
    by (auto simp: list_get_node_def check_valid_shape [OF sh] check_empty_shape [OF sh])
qed

lemma pop_front_ok:
  assumes own: "owns held 0 (a # bs) q"
  shows "\<exists>q'. list_pop_front mx (Some x) q = Ret (LIST_SUCCESS, Some (nd_data (the (cells q a))), q') \<and>
     owns held 0 bs q' \<and> contents (cells q') bs = contents (cells q) bs \<and> allocs q' = allocs q"
  unfolding list_pop_front_def
proof (rule guarded_pop_ok [OF own])
  fix q1 assume q1: "owns held 1 (a # bs) q1" "cells q1 = cells q" "allocs q1 = allocs q"
  show "\<exists>q2. pop_front_body q1 = Ret (LIST_SUCCESS, Some (nd_data (the (cells q a))), q2) \<and> owns held 1 bs q2 \<and>
      contents (cells q2) bs = contents (cells q) bs \<and> allocs q2 = allocs q"
    using pop_front_body_shape [OF owns_shape [OF q1(1)]] owns_same [OF q1(1)] q1(2,3) by auto
qed simp

lemma pop_back_ok:
  assumes own: "owns held 0 (bs @ [a]) q"
  shows "\<exists>q'. list_popBack mx (Some x) q = Ret (LIST_SUCCESS, Some (nd_data (the (cells q a))), q') \<and>
     owns held 0 bs q' \<and> contents (cells q') bs = contents (cells q) bs \<and> allocs q' = allocs q"
  unfolding list_popBack_def
proof (rule guarded_pop_ok [OF own])
  fix q1 assume q1: "owns held 1 (bs @ [a]) q1" "cells q1 = cells q" "allocs q1 = allocs q"
  show "\<exists>q2. pop_back_body q1 = Ret (LIST_SUCCESS, Some (nd_data (the (cells q a))), q2) \<and> owns held 1 bs q2 \<and>
      contents (cells q2) bs = contents (cells q) bs \<and> allocs q2 = allocs q"
    using pop_back_body_shape [OF owns_shape [OF q1(1)]] owns_same [OF q1(1)] q1(2,3) by auto
qed simp

lemma seek_front_ok:
  assumes own: "owns held 0 (a # bs) q"
  shows "\<exists>q'. list_seek_front mx (Some x) q = Ret (LIST_SUCCESS, Some (nd_data (the (cells q a))), q') \<and>
     owns held 0 (a # bs) q' \<and> contents (cells q') (a # bs) = contents (cells q) (a # bs) \<and> allocs q' = allocs q"
  unfolding list_seek_front_def
proof (rule guarded_pop_ok [OF own])
  fix q1 assume q1: "owns held 1 (a # bs) q1" "cells q1 = cells q" "allocs q1 = allocs q"
  show "\<exists>q2. seek_front_body q1 = Ret (LIST_SUCCESS, Some (nd_data (the (cells q a))), q2) \<and> owns held 1 (a # bs) q2 \<and>
      contents (cells q2) (a # bs) = contents (cells q) (a # bs) \<and> allocs q2 = allocs q"
    using seek_front_body_shape [OF owns_shape [OF q1(1)]] q1 by simp
qed simp

lemma seek_back_ok:
  assumes own: "owns held 0 (bs @ [a]) q"
  shows "\<exists>q'. list_seek_back mx (Some x) q = Ret (LIST_SUCCESS, Some (nd_data (the (cells q a))), q') \<and>
     owns held 0 (bs @ [a]) q' \<and> contents (cells q') (bs @ [a]) = contents (cells q) (bs @ [a]) \<and> allocs q' = allocs q"
  unfolding list_seek_back_def
proof (rule guarded_pop_ok [OF own])
  fix q1 assume q1: "owns held 1 (bs @ [a]) q1" "cells q1 = cells q" "allocs q1 = allocs q"
  show "\<exists>q2. seek_back_body q1 = Ret (LIST_SUCCESS, Some (nd_data (the (cells q a))), q2) \<and> owns held 1 (bs @ [a]) q2 \<and>
      contents (cells q2) (bs @ [a]) = contents (cells q) (bs @ [a]) \<and> allocs q2 = allocs q"
    using seek_back_body_shape [OF owns_shape [OF q1(1)]] q1 by simp
qed simp

lemma get_data_ok:
  assumes own: "owns held 0 as q" and i: "unat i < length as"
  shows "\<exists>q'. list_get_data mx i (Some x) q = Ret (LIST_SUCCESS, Some (contents (cells q) as ! unat i), q') \<and>
     owns held 0 as q' \<and> cells q' = cells q \<and> allocs q' = allocs q"
proof -
  obtain q' where q': "list_get_node mx i (Some NULL) q = Ret (LIST_SUCCESS, Some (as ! unat i), q')"
    "owns held 0 as q'" "cells q' = cells q" "allocs q' = allocs q" using get_node_ok [OF own i] by blast
  obtain n where n: "cells q (as ! unat i) = Some n"
    using owns_shape [OF own] nth_mem [OF i] by (auto simp: shape_def)
  show ?thesis
    using owns_not_None [OF own] q' n i by (auto simp: list_get_data_def contents_def)
qed

lemma clear_ok:
  assumes own: "owns held 0 as q"
  shows "\<exists>q'. list_clear_all mx q = Ret (if as = [] then LIST_EMPTY else LIST_SUCCESS, q') \<and>
     owns held 0 [] q' \<and> allocs q' = allocs q"
proof -
  obtain q1 where q1: "take_mutex mx q = Ret q1" "owns held 1 as q1" "cells q1 = cells q" "allocs q1 = allocs q"
    using take_mutex_ok [OF own] by blast
  note sh = owns_shape [OF q1(2)]
  note facts = check_valid_shape [OF sh] check_empty_shape [OF sh]
  show ?thesis
  proof (cases "as = []")
    case True
    obtain q3 where "give_mutex mx q1 = Ret q3" "owns held 0 as q3" "allocs q3 = allocs q1"
      using give_mutex_ok [OF q1(2)] by blast
    then show ?thesis using owns_not_None [OF own] q1 True facts by (auto simp: list_clear_all_def)
  next
    case False
    obtain l where l: "the_list q1 = Some l" using owns_not_None [OF q1(2)] by auto
    obtain q2 where q2: "clear_loop (Suc (brk q1)) (ls_head l) q1 = Ret q2"
      "shape [] (upd_list (\<lambda>l. l\<lparr>ls_head := NULL, ls_tail := NULL\<rparr>) q2)" "same_list q1 q2" "allocs q2 = allocs q1"
      using clear_shape [OF sh l] by blast
    let ?q2 = "upd_list (\<lambda>l. l\<lparr>ls_head := NULL, ls_tail := NULL\<rparr>) q2"
    have sm: "same_list q1 ?q2" using q2(3) by (cases "the_list q2") (auto simp: same_list_def)
    obtain q3 where "give_mutex mx ?q2 = Ret q3" "owns held 0 [] q3" "allocs q3 = allocs ?q2"
      using give_mutex_ok [OF owns_same [OF q1(2) q2(2) sm]] by blast
    then show ?thesis
      using owns_not_None [OF own] q1 l q2 False facts by (auto simp: list_clear_all_def)
  qed
qed

end

end
