(* ===== verification/QlistRefine.thy ===== *)
theory QlistRefine
  imports QlistProps
begin

text \<open>
  The refinement of the linked list: positions in the middle, the specification of the operations on
  lists of data pointers, the simulation of sequences of operations, and the mutex discipline of
  \<open>list_insert_data\<close>, which separates the recursive Windows mutex from the Linux one.
\<close>

section \<open>Middle positions\<close>

lemma middle_split:
  assumes "0 < i" "Suc i < length as"
  shows "\<exists>cs b a c bs. as = cs @ b # a # c # bs \<and> length cs = i - 1 \<and> as ! i = a"
proof -
  let ?cs = "take (i - 1) as"
  have "as = ?cs @ as ! (i - 1) # as ! i # as ! Suc i # drop (Suc (Suc i)) as"
    using assms Cons_nth_drop_Suc [of "i - 1" as] Cons_nth_drop_Suc [of i as] Cons_nth_drop_Suc [of "Suc i" as]
    by (metis Suc_diff_1 Suc_lessD append_take_drop_id less_imp_diff_less)
  then show ?thesis using assms by (intro exI [of _ ?cs] exI conjI) auto
qed

lemma insert_split:
  assumes "0 < i" "i < length as"
  shows "\<exists>cs b a bs. as = cs @ b # a # bs \<and> length cs = i - 1 \<and> as ! i = a"
proof -
  let ?cs = "take (i - 1) as"
  have "as = ?cs @ as ! (i - 1) # as ! i # drop (Suc i) as"
    using assms Cons_nth_drop_Suc [of "i - 1" as] Cons_nth_drop_Suc [of i as]
    by (metis Suc_diff_1 append_take_drop_id less_imp_diff_less)
  then show ?thesis using assms by (intro exI [of _ ?cs] exI conjI) auto
qed

definition remove_nth :: "nat \<Rightarrow> 'a list \<Rightarrow> 'a list" where
  "remove_nth i xs = take i xs @ drop (Suc i) xs"

definition insert_nth :: "nat \<Rightarrow> 'a \<Rightarrow> 'a list \<Rightarrow> 'a list" where
  "insert_nth i x xs = take i xs @ x # drop i xs"

lemma remove_nth_split: "length cs = i \<Longrightarrow> remove_nth i (cs @ a # bs) = cs @ bs"
  by (simp add: remove_nth_def)

lemma insert_nth_split: "length cs = i \<Longrightarrow> insert_nth i x (cs @ bs) = cs @ x # bs"
  by (simp add: insert_nth_def)

section \<open>The specification\<close>

datatype qop =
    PushFront ptr
  | PushBack ptr
  | PopFront
  | PopBack
  | SeekFront
  | SeekBack
  | GetData u32
  | Erase u32
  | Clear
  | Size

type_synonym qresult = "QListReturnCode \<times> ptr option"

text \<open>
  What each operation promises on the list of data pointers. \<open>s\<close> is the script of allocation
  failures; the out parameter is passed with the content \<open>NULL\<close>.
\<close>

fun spec_step :: "qop \<Rightarrow> oom \<Rightarrow> ptr list \<Rightarrow> qresult \<times> oom \<times> ptr list" where
  "spec_step (PushFront p) s xs =
     (if p = NULL then ((LIST_NULL_POINTER, None), s, xs)
      else case calloc_ok s of (ok, s') \<Rightarrow>
        if ok then ((LIST_SUCCESS, None), s', p # xs) else ((LIST_NULL_POINTER, None), s', xs))"
| "spec_step (PushBack p) s xs =
     (if p = NULL then ((LIST_NULL_POINTER, None), s, xs)
      else case calloc_ok s of (ok, s') \<Rightarrow>
        if ok then ((LIST_SUCCESS, None), s', xs @ [p]) else ((LIST_NULL_POINTER, None), s', xs))"
| "spec_step PopFront s xs =
     (if xs = [] then ((LIST_EMPTY, Some NULL), s, []) else ((LIST_SUCCESS, Some (hd xs)), s, tl xs))"
| "spec_step PopBack s xs =
     (if xs = [] then ((LIST_EMPTY, Some NULL), s, []) else ((LIST_SUCCESS, Some (last xs)), s, butlast xs))"
| "spec_step SeekFront s xs =
     (if xs = [] then ((LIST_EMPTY, Some NULL), s, []) else ((LIST_SUCCESS, Some (hd xs)), s, xs))"
| "spec_step SeekBack s xs =
     (if xs = [] then ((LIST_EMPTY, Some NULL), s, []) else ((LIST_SUCCESS, Some (last xs)), s, xs))"
| "spec_step (GetData i) s xs =
     (if xs = [] then ((LIST_EMPTY, Some NULL), s, []) else ((LIST_SUCCESS, Some (xs ! unat i)), s, xs))"
| "spec_step (Erase i) s xs =
     (if xs = [] then ((LIST_EMPTY, Some NULL), s, [])
      else if unat i < length xs then ((LIST_SUCCESS, Some (xs ! unat i)), s, remove_nth (unat i) xs)
      else ((LIST_FAILED, Some NULL), s, xs))"
| "spec_step Clear s xs = ((if xs = [] then LIST_EMPTY else LIST_SUCCESS, None), s, [])"
| "spec_step Size s xs = ((LIST_SUCCESS, Some (length xs)), s, xs)"

text \<open>
  What an operation needs: room for one more element in the 32-bit size, and for \<open>list_get_data\<close>
  an index inside a non-empty list.
\<close>

fun spec_pre :: "qop \<Rightarrow> ptr list \<Rightarrow> bool" where
  "spec_pre (PushFront p) xs = (Suc (length xs) < 2 ^ 32)"
| "spec_pre (PushBack p) xs = (Suc (length xs) < 2 ^ 32)"
| "spec_pre (GetData i) xs = (xs \<noteq> [] \<longrightarrow> unat i < length xs)"
| "spec_pre _ xs = True"

fun conc_step :: "'m mutex_ops \<Rightarrow> qop \<Rightarrow> 'm qstate \<Rightarrow> (qresult \<times> 'm qstate) outcome" where
  "conc_step mx (PushFront p) q = obind (list_push_front mx p q) (\<lambda>(rc, q'). Ret ((rc, None), q'))"
| "conc_step mx (PushBack p) q = obind (list_push_back mx p q) (\<lambda>(rc, q'). Ret ((rc, None), q'))"
| "conc_step mx PopFront q = obind (list_pop_front mx (Some NULL) q) (\<lambda>(rc, d, q'). Ret ((rc, d), q'))"
| "conc_step mx PopBack q = obind (list_popBack mx (Some NULL) q) (\<lambda>(rc, d, q'). Ret ((rc, d), q'))"
| "conc_step mx SeekFront q = obind (list_seek_front mx (Some NULL) q) (\<lambda>(rc, d, q'). Ret ((rc, d), q'))"
| "conc_step mx SeekBack q = obind (list_seek_back mx (Some NULL) q) (\<lambda>(rc, d, q'). Ret ((rc, d), q'))"
| "conc_step mx (GetData i) q = obind (list_get_data mx i (Some NULL) q) (\<lambda>(rc, d, q'). Ret ((rc, d), q'))"
| "conc_step mx (Erase i) q = obind (list_erase_node mx i (Some NULL) q) (\<lambda>(rc, d, q'). Ret ((rc, d), q'))"
| "conc_step mx Clear q = obind (list_clear_all mx q) (\<lambda>(rc, q'). Ret ((rc, None), q'))"
| "conc_step mx Size q = (case list_size 0 q of (rc, n) \<Rightarrow> Ret ((rc, Some (unat n)), q))"

fun spec_run :: "qop list \<Rightarrow> oom \<Rightarrow> ptr list \<Rightarrow> qresult list \<times> ptr list" where
  "spec_run [] s xs = ([], xs)"
| "spec_run (c # cs) s xs =
     (let (r, s', xs') = spec_step c s xs; (rs, ys) = spec_run cs s' xs' in (r # rs, ys))"

fun spec_pres :: "qop list \<Rightarrow> oom \<Rightarrow> ptr list \<Rightarrow> bool" where
  "spec_pres [] s xs = True"
| "spec_pres (c # cs) s xs =
     (spec_pre c xs \<and> (let (r, s', xs') = spec_step c s xs in spec_pres cs s' xs'))"

fun conc_run :: "'m mutex_ops \<Rightarrow> qop list \<Rightarrow> 'm qstate \<Rightarrow> (qresult list \<times> 'm qstate) outcome" where
  "conc_run mx [] q = Ret ([], q)"
| "conc_run mx (c # cs) q =
     obind (conc_step mx c q) (\<lambda>(r, q1). obind (conc_run mx cs q1) (\<lambda>(rs, q2). Ret (r # rs, q2)))"

section \<open>The simulation\<close>

context qlist_client
begin

lemma get_node_empty:
  assumes own: "owns held 0 [] q"
  shows "\<exists>q'. list_get_node mx i (Some x) q = Ret (LIST_EMPTY, Some x, q') \<and> owns held 0 [] q' \<and> allocs q' = allocs q"
proof -
  obtain q1 where q1: "take_mutex mx q = Ret q1" "owns held 1 [] q1" "allocs q1 = allocs q"
    using take_mutex_ok [OF own] by blast
  obtain q3 where q3: "give_mutex mx q1 = Ret q3" "owns held 0 [] q3" "allocs q3 = allocs q1"
    using give_mutex_ok [OF q1(2)] by blast
  show ?thesis
    using owns_not_None [OF own] q1 q3
    by (auto simp: list_get_node_def check_valid_shape [OF owns_shape [OF q1(2)]] check_empty_shape [OF owns_shape [OF q1(2)]])
qed

lemma get_data_empty:
  assumes own: "owns held 0 [] q"
  shows "\<exists>q'. list_get_data mx i (Some x) q = Ret (LIST_EMPTY, Some x, q') \<and> owns held 0 [] q' \<and> allocs q' = allocs q"
  using get_node_empty [OF own, of i NULL] owns_not_None [OF own] by (auto simp: list_get_data_def)

text \<open>The three positions of \<open>list_erase_node\<close>, each a body between two locks.\<close>

lemma erase_frame:
  assumes own: "owns held 0 as q" and ne: "as \<noteq> []"
    and q1: "take_mutex mx q = Ret q1" "owns held 1 as q1"
  shows "list_erase_node mx i (Some x) q =
      obind (if i = 0
             then obind (give_mutex mx q1) (\<lambda>q2. obind (list_pop_front mx (Some x) q2)
                    (\<lambda>(rc, pp', q3). obind (take_mutex mx q3) (\<lambda>q4. Ret (rc, pp', q4))))
             else if i = of_nat (length as) - 1
             then obind (give_mutex mx q1) (\<lambda>q2. obind (list_popBack mx (Some x) q2)
                    (\<lambda>(rc, pp', q3). obind (take_mutex mx q3) (\<lambda>q4. Ret (rc, pp', q4))))
             else if i > 0 \<and> i < of_nat (length as)
             then obind (give_mutex mx q1) (\<lambda>q2. obind (list_get_node mx i (Some NULL) q2)
                    (\<lambda>(rc, pn, q3). obind (take_mutex mx q3) (\<lambda>q4.
                       if rc = LIST_SUCCESS
                       then unlink_node (case pn of Some p \<Rightarrow> p | None \<Rightarrow> NULL) q4
                       else Ret (rc, Some x, q4))))
             else Ret (LIST_FAILED, Some x, q1))
        (\<lambda>(rc, pp', q2). obind (give_mutex mx q2) (\<lambda>q3. Ret (rc, pp', q3)))"
  using owns_not_None [OF own] ne q1
  by (auto simp: list_erase_node_def check_valid_shape [OF owns_shape [OF q1(2)]]
      check_empty_shape [OF owns_shape [OF q1(2)]] list_size_shape [OF owns_shape [OF q1(2)]])

lemma relock:
  assumes "owns held 0 as q"
  shows "\<exists>q1 q2. take_mutex mx q = Ret q1 \<and> give_mutex mx q1 = Ret q2 \<and> owns held 0 as q2 \<and>
    cells q2 = cells q \<and> allocs q2 = allocs q"
proof -
  obtain q1 where q1: "take_mutex mx q = Ret q1" "owns held 1 as q1" "cells q1 = cells q" "allocs q1 = allocs q"
    using take_mutex_ok [OF assms] by blast
  then show ?thesis using give_mutex_ok [OF q1(2)] by auto
qed

lemma erase_front:
  assumes own: "owns held 0 (a # bs) q"
  shows "\<exists>q'. list_erase_node mx 0 (Some x) q = Ret (LIST_SUCCESS, Some (nd_data (the (cells q a))), q') \<and>
     owns held 0 bs q' \<and> contents (cells q') bs = contents (cells q) bs \<and> allocs q' = allocs q"
proof -
  obtain q1 where q1: "take_mutex mx q = Ret q1" "owns held 1 (a # bs) q1" "cells q1 = cells q" "allocs q1 = allocs q"
    using take_mutex_ok [OF own] by blast
  obtain q2 where q2: "give_mutex mx q1 = Ret q2" "owns held 0 (a # bs) q2" "cells q2 = cells q1" "allocs q2 = allocs q1"
    using give_mutex_ok [OF q1(2)] by blast
  obtain q3 where q3: "list_pop_front mx (Some x) q2 = Ret (LIST_SUCCESS, Some (nd_data (the (cells q a))), q3)"
     "owns held 0 bs q3" "contents (cells q3) bs = contents (cells q) bs" "allocs q3 = allocs q"
    using pop_front_ok [OF q2(2), of x] q1 q2 by auto
  show ?thesis
    using relock [OF q3(2)] q2 q3 erase_frame [OF own _ q1(1,2)] by auto
qed

lemma erase_back:
  assumes own: "owns held 0 (bs @ [a]) q" and bs: "bs \<noteq> []"
  shows "\<exists>q'. list_erase_node mx (of_nat (length bs)) (Some x) q =
     Ret (LIST_SUCCESS, Some (nd_data (the (cells q a))), q') \<and>
     owns held 0 bs q' \<and> contents (cells q') bs = contents (cells q) bs \<and> allocs q' = allocs q"
proof -
  obtain q1 where q1: "take_mutex mx q = Ret q1" "owns held 1 (bs @ [a]) q1" "cells q1 = cells q" "allocs q1 = allocs q"
    using take_mutex_ok [OF own] by blast
  obtain q2 where q2: "give_mutex mx q1 = Ret q2" "owns held 0 (bs @ [a]) q2" "cells q2 = cells q1" "allocs q2 = allocs q1"
    using give_mutex_ok [OF q1(2)] by blast
  obtain q3 where q3: "list_popBack mx (Some x) q2 = Ret (LIST_SUCCESS, Some (nd_data (the (cells q a))), q3)"
     "owns held 0 bs q3" "contents (cells q3) bs = contents (cells q) bs" "allocs q3 = allocs q"
    using pop_back_ok [OF q2(2), of x] q1 q2 by auto
  have "length bs < 2 ^ 32" using shape_length [OF owns_shape [OF own]] by simp
  then have "(of_nat (length bs) :: u32) \<noteq> 0" using of_nat_size bs by blast
  then show ?thesis
    using relock [OF q3(2)] q2 q3 erase_frame [OF own _ q1(1,2), of "of_nat (length bs)"] by auto
qed

lemma erase_middle:
  assumes own: "owns held 0 as q" and i: "0 < unat i" "Suc (unat i) < length as"
  shows "\<exists>q' bs. list_erase_node mx i (Some x) q = Ret (LIST_SUCCESS, Some (contents (cells q) as ! unat i), q') \<and>
     owns held 0 bs q' \<and> contents (cells q') bs = remove_nth (unat i) (contents (cells q) as) \<and> allocs q' = allocs q"
proof -
  have len: "length as < 2 ^ 32" using shape_length [OF owns_shape [OF own]] .
  obtain cs b a c bs where as: "as = cs @ b # a # c # bs" and cs: "length cs = unat i - 1" and a: "as ! unat i = a"
    using middle_split [OF i] by blast
  obtain q1 where q1: "take_mutex mx q = Ret q1" "owns held 1 as q1" "cells q1 = cells q" "allocs q1 = allocs q"
    using take_mutex_ok [OF own] by blast
  obtain q2 where q2: "give_mutex mx q1 = Ret q2" "owns held 0 as q2" "cells q2 = cells q1" "allocs q2 = allocs q1"
    using give_mutex_ok [OF q1(2)] by blast
  have il: "unat i < length as" using i by simp
  obtain q3 where q3: "list_get_node mx i (Some NULL) q2 = Ret (LIST_SUCCESS, Some a, q3)"
     "owns held 0 as q3" "cells q3 = cells q2" "allocs q3 = allocs q2"
    using get_node_ok [OF q2(2) il, of NULL] a by auto
  obtain q4 where q4: "take_mutex mx q3 = Ret q4" "owns held 1 as q4" "cells q4 = cells q3" "allocs q4 = allocs q3"
    using take_mutex_ok [OF q3(2)] by blast
  have sh4: "shape (cs @ b # a # c # bs) q4" using owns_shape [OF q4(2)] as by simp
  obtain q5 where q5: "unlink_node a q4 = Ret (LIST_SUCCESS, Some (nd_data (the (cells q4 a))), q5)"
     "shape (cs @ b # c # bs) q5" "contents (cells q5) (cs @ b # c # bs) = contents (cells q4) (cs @ b # c # bs)"
     "same_list q4 q5" "allocs q5 = allocs q4"
    using unlink_node_shape [OF sh4] by blast
  obtain q6 where q6: "give_mutex mx q5 = Ret q6" "owns held 0 (cs @ b # c # bs) q6" "cells q6 = cells q5" "allocs q6 = allocs q5"
    using give_mutex_ok [OF owns_same [OF q4(2) q5(2,4)]] by blast
  have ni: "i \<noteq> 0" using i by auto
  have un: "unat (of_nat (length as) :: u32) = length as" using unat_size [OF len] .
  have lt: "i < of_nat (length as)" using un i by (simp add: word_less_nat_alt)
  have nl: "i \<noteq> of_nat (length as) - 1"
  proof
    assume "i = of_nat (length as) - 1"
    moreover have "(1 :: u32) \<le> of_nat (length as)" using un i by (simp add: word_le_nat_alt)
    ultimately have "unat i = length as - 1" using un by (simp add: unat_sub)
    then show False using i by simp
  qed
  have "list_erase_node mx i (Some x) q = Ret (LIST_SUCCESS, Some (nd_data (the (cells q4 a))), q6)"
    using erase_frame [OF own _ q1(1,2), of i x] as ni nl lt q2 q3 q4 q5 q6 by (simp add: word_neq_0_conv)
  moreover have "nd_data (the (cells q4 a)) = contents (cells q) as ! unat i"
    using a il q4 q3 q2 q1 by (simp add: contents_def)
  moreover have "remove_nth (unat i) (contents (cells q) as) = contents (cells q) (cs @ b # c # bs)"
    using as cs i remove_nth_split [of "contents (cells q) (cs @ [b])" "unat i"] by simp
  ultimately show ?thesis using q6 q5 q4 q3 q2 q1 by auto
qed

lemma erase_outside:
  assumes own: "owns held 0 as q" and ne: "as \<noteq> []" and i: "length as \<le> unat i"
  shows "\<exists>q'. list_erase_node mx i (Some x) q = Ret (LIST_FAILED, Some x, q') \<and>
     owns held 0 as q' \<and> cells q' = cells q \<and> allocs q' = allocs q"
proof -
  have len: "length as < 2 ^ 32" using shape_length [OF owns_shape [OF own]] .
  obtain q1 where q1: "take_mutex mx q = Ret q1" "owns held 1 as q1" "cells q1 = cells q" "allocs q1 = allocs q"
    using take_mutex_ok [OF own] by blast
  obtain q2 where q2: "give_mutex mx q1 = Ret q2" "owns held 0 as q2" "cells q2 = cells q1" "allocs q2 = allocs q1"
    using give_mutex_ok [OF q1(2)] by blast
  have un: "unat (of_nat (length as) :: u32) = length as" using unat_size [OF len] .
  have "0 < length as" using ne by simp
  then have "i \<noteq> 0" using i by auto
  moreover have "\<not> i < of_nat (length as)" using un i by (simp add: word_less_nat_alt)
  moreover have "i \<noteq> of_nat (length as) - 1"
  proof
    assume "i = of_nat (length as) - 1"
    moreover have "(1 :: u32) \<le> of_nat (length as)" using un ne by (simp add: word_le_nat_alt Suc_leI)
    ultimately have "unat i = length as - 1" using un by (simp add: unat_sub)
    then show False using i ne by (cases as) auto
  qed
  ultimately show ?thesis
    using erase_frame [OF own ne q1(1,2), of i x] q1 q2 by auto
qed

lemma erase_empty:
  assumes own: "owns held 0 [] q"
  shows "\<exists>q'. list_erase_node mx i (Some x) q = Ret (LIST_EMPTY, Some x, q') \<and> owns held 0 [] q' \<and> allocs q' = allocs q"
proof -
  obtain q1 where q1: "take_mutex mx q = Ret q1" "owns held 1 [] q1" "allocs q1 = allocs q"
    using take_mutex_ok [OF own] by blast
  obtain q3 where q3: "give_mutex mx q1 = Ret q3" "owns held 0 [] q3" "allocs q3 = allocs q1"
    using give_mutex_ok [OF q1(2)] by blast
  show ?thesis
    using owns_not_None [OF own] q1 q3
    by (auto simp: list_erase_node_def check_valid_shape [OF owns_shape [OF q1(2)]] check_empty_shape [OF owns_shape [OF q1(2)]])
qed

lemma erase_inside:
  assumes own: "owns held 0 as q" and i: "unat i < length as"
  shows "\<exists>q'. list_erase_node mx i (Some x) q = Ret (LIST_SUCCESS, Some (contents (cells q) as ! unat i), q') \<and>
     represents held (remove_nth (unat i) (contents (cells q) as)) q' \<and> allocs q' = allocs q"
proof (cases "i = 0")
  case True
  then obtain a bs where "as = a # bs" using i by (cases as) auto
  then show ?thesis using erase_front [of a bs q x] own True by (auto simp: represents_def remove_nth_def)
next
  case False
  then have i0: "0 < unat i" by (simp add: unat_gt_0)
  show ?thesis
  proof (cases "Suc (unat i) < length as")
    case True
    then show ?thesis using erase_middle [OF own i0 True, of x] by (auto simp: represents_def)
  next
    case False
    then have l: "length as = Suc (unat i)" using i by simp
    then obtain bs a where as: "as = bs @ [a]" by (cases as rule: rev_cases) auto
    then have lb: "length bs = unat i" using l by simp
    then have "of_nat (length bs) = i" and "bs \<noteq> []" using i0 by auto
    then obtain q' where "list_erase_node mx i (Some x) q = Ret (LIST_SUCCESS, Some (nd_data (the (cells q a))), q')"
      "owns held 0 bs q'" "contents (cells q') bs = contents (cells q) bs" "allocs q' = allocs q"
      using erase_back [of bs a q x] own as by auto
    moreover have "contents (cells q) as ! unat i = nd_data (the (cells q a))"
      using as lb by (simp add: contents_def nth_append)
    moreover have "remove_nth (unat i) (contents (cells q) as) = contents (cells q) bs"
      using as lb by (simp add: remove_nth_def)
    ultimately show ?thesis by (auto simp: represents_def)
  qed
qed

lemma step_simulates:
  assumes rep: "represents held xs q" and pre: "spec_pre c xs" and s: "spec_step c (allocs q) xs = (r, s', xs')"
  shows "\<exists>q'. conc_step mx c q = Ret (r, q') \<and> represents held xs' q' \<and> allocs q' = s'"
proof -
  obtain as where own: "owns held 0 as q" and xs: "contents (cells q) as = xs"
    using rep by (auto simp: represents_def)
  have len: "length xs = length as" using xs by auto
  have empty: "owns held 0 [] q" if "xs = []" using that own xs by simp
  have rep0: "owns held 0 [] q' \<Longrightarrow> represents held [] q'" for q'
    by (simp add: represents_def)
  show ?thesis
  proof (cases c)
    case (PushFront p)
    obtain b t where ct: "calloc_ok (allocs q) = (b, t)" by (cases "calloc_ok (allocs q)")
    obtain l where l: "the_list q = Some l" using owns_not_None [OF own] by auto
    show ?thesis
    proof (cases "p = NULL")
      case True
      then show ?thesis using PushFront s rep l by (auto simp: list_push_front_def)
    next
      case p: False
      show ?thesis
      proof (cases b)
        case True
        then have "alloc_ok q" "Suc (length as) < 2 ^ 32" using ct PushFront pre len by (simp_all add: alloc_ok_def)
        from push_front_ok [OF own p this] show ?thesis using PushFront s p ct xs True by auto
      next
        case False
        then have "\<not> alloc_ok q" using ct by (simp add: alloc_ok_def)
        from push_oom [OF own p this] show ?thesis using PushFront s p ct xs False by auto
      qed
    qed
  next
    case (PushBack p)
    obtain b t where ct: "calloc_ok (allocs q) = (b, t)" by (cases "calloc_ok (allocs q)")
    obtain l where l: "the_list q = Some l" using owns_not_None [OF own] by auto
    show ?thesis
    proof (cases "p = NULL")
      case True
      then show ?thesis using PushBack s rep l by (auto simp: list_push_back_def)
    next
      case p: False
      show ?thesis
      proof (cases b)
        case True
        then have "alloc_ok q" "Suc (length as) < 2 ^ 32" using ct PushBack pre len by (simp_all add: alloc_ok_def)
        from push_back_ok [OF own p this] show ?thesis using PushBack s p ct xs True by auto
      next
        case False
        then have "\<not> alloc_ok q" using ct by (simp add: alloc_ok_def)
        from push_oom [OF own p this] show ?thesis using PushBack s p ct xs False by auto
      qed
    qed
  next
    case PopFront
    show ?thesis
    proof (cases as)
      case Nil
      then show ?thesis
        using PopFront s xs guarded_pop_empty [of q pop_front_body NULL] own rep0
        by (auto simp: list_pop_front_def)
    next
      case (Cons a bs)
      then show ?thesis using PopFront s xs pop_front_ok [of a bs q NULL] own by (auto simp: represents_def)
    qed
  next
    case PopBack
    show ?thesis
    proof (cases as rule: rev_cases)
      case Nil
      then show ?thesis
        using PopBack s xs guarded_pop_empty [of q pop_back_body NULL] own rep0
        by (auto simp: list_popBack_def)
    next
      case (snoc bs a)
      then show ?thesis using PopBack s xs pop_back_ok [of bs a q NULL] own by (auto simp: represents_def)
    qed
  next
    case SeekFront
    show ?thesis
    proof (cases as)
      case Nil
      then show ?thesis
        using SeekFront s xs guarded_pop_empty [of q seek_front_body NULL] own rep0
        by (auto simp: list_seek_front_def)
    next
      case (Cons a bs)
      then show ?thesis using SeekFront s xs seek_front_ok [of a bs q NULL] own by (fastforce simp: represents_def)
    qed
  next
    case SeekBack
    show ?thesis
    proof (cases as rule: rev_cases)
      case Nil
      then show ?thesis
        using SeekBack s xs guarded_pop_empty [of q seek_back_body NULL] own rep0
        by (auto simp: list_seek_back_def)
    next
      case (snoc bs a)
      then show ?thesis using SeekBack s xs seek_back_ok [of bs a q NULL] own by (fastforce simp: represents_def)
    qed
  next
    case (GetData i)
    show ?thesis
    proof (cases "as = []")
      case True
      then show ?thesis using GetData s xs get_data_empty [of q i NULL] own rep0 by auto
    next
      case False
      then have "unat i < length as" using GetData pre len by auto
      then show ?thesis using GetData s xs False get_data_ok [OF own, of i NULL] by (auto simp: represents_def)
    qed
  next
    case (Erase i)
    show ?thesis
    proof (cases "as = []")
      case True
      then show ?thesis using Erase s xs erase_empty [of q i NULL] own rep0 by auto
    next
      case ne: False
      show ?thesis
      proof (cases "unat i < length as")
        case True
        then show ?thesis using Erase s xs ne len erase_inside [OF own True, of NULL] by auto
      next
        case False
        then have "length as \<le> unat i" by simp
        then show ?thesis
          using Erase s xs ne len False erase_outside [OF own ne, of i NULL] by (auto simp: represents_def)
      qed
    qed
  next
    case Clear
    then show ?thesis using s xs clear_ok [OF own] rep0 by auto
  next
    case Size
    then show ?thesis
      using s rep len list_size_shape [OF owns_shape [OF own]] unat_size [OF shape_length [OF owns_shape [OF own]]] by simp
  qed
qed

lemma run_simulates:
  "represents held xs q \<Longrightarrow> spec_pres cs (allocs q) xs \<Longrightarrow>
     \<exists>q'. conc_run mx cs q = Ret (fst (spec_run cs (allocs q) xs), q') \<and>
          represents held (snd (spec_run cs (allocs q) xs)) q'"
proof (induction cs arbitrary: xs q)
  case (Cons c cs)
  obtain r s' xs' where s: "spec_step c (allocs q) xs = (r, s', xs')" by (cases "spec_step c (allocs q) xs")
  then obtain q1 where q1: "conc_step mx c q = Ret (r, q1)" "represents held xs' q1" "allocs q1 = s'"
    using step_simulates [OF Cons.prems(1) _ s] Cons.prems(2) by auto
  then obtain q2 where "conc_run mx cs q1 = Ret (fst (spec_run cs s' xs'), q2)"
    "represents held (snd (spec_run cs s' xs')) q2"
    using Cons.IH [OF q1(2)] Cons.prems(2) s by auto
  then show ?case using s q1 by (auto split: prod.splits)
qed simp

end

section \<open>Insertion under a recursive mutex\<close>

locale qlist_recursive_client =
  recursive_mutex_provider "m_lock mx" "m_unlock mx" held
  for mx :: "'m mutex_ops" and held :: "nat \<Rightarrow> 'm \<Rightarrow> bool"
begin

lemma take_again:
  assumes "owns held n as q"
  shows "\<exists>q'. take_mutex mx q = Ret q' \<and> owns held (Suc n) as q' \<and> cells q' = cells q \<and> allocs q' = allocs q"
proof -
  obtain l where l: "the_list q = Some l" using owns_not_None [OF assms] by auto
  obtain m where m: "m_lock mx (ls_mutex_info l) = Ret (MUTEX_LOCK_SUCCESS, m)" "held (Suc n) m"
    using lock_again assms l by (auto simp: owns_def)
  then have "take_mutex mx q = Ret (upd_list (ls_mutex_info_update (\<lambda>_. m)) q)"
    using l by (simp add: take_mutex_def)
  then show ?thesis using assms m(2) l by (simp add: owns_def shape_mutex)
qed

lemma give_nested:
  assumes "owns held (Suc n) as q"
  shows "\<exists>q'. give_mutex mx q = Ret q' \<and> owns held n as q' \<and> cells q' = cells q \<and> allocs q' = allocs q"
proof -
  obtain l where l: "the_list q = Some l" using owns_not_None [OF assms] by auto
  obtain m where m: "m_unlock mx (ls_mutex_info l) = Ret (MUTEX_UNLOCK_SUCCESS, m)" "held n m"
    using unlock_nested assms l by (auto simp: owns_def)
  then have "give_mutex mx q = Ret (upd_list (ls_mutex_info_update (\<lambda>_. m)) q)"
    using l by (simp add: give_mutex_def)
  then show ?thesis using assms m(2) l by (simp add: owns_def shape_mutex)
qed

lemma give_free:
  assumes "owns held 0 as q"
  shows "\<exists>q'. give_mutex mx q = Ret q' \<and> owns held 0 as q' \<and> cells q' = cells q"
proof -
  obtain l where l: "the_list q = Some l" using owns_not_None [OF assms] by auto
  have "m_unlock mx (ls_mutex_info l) = Ret (MUTEX_UNLOCK_FAILED, ls_mutex_info l)"
    using unlock_free assms l by (auto simp: owns_def)
  then have "give_mutex mx q = Ret (upd_list (ls_mutex_info_update (\<lambda>_. ls_mutex_info l)) q)"
    using l by (simp add: give_mutex_def)
  then show ?thesis using assms l by (simp add: owns_def shape_mutex)
qed

end

sublocale qlist_recursive_client \<subseteq> qlist_client
  by unfold_locales

context qlist_recursive_client
begin

lemma get_node_nested:
  assumes own: "owns held n as q" and i: "unat i < length as"
  shows "\<exists>q'. list_get_node mx i (Some x) q = Ret (LIST_SUCCESS, Some (as ! unat i), q') \<and>
     owns held n as q' \<and> cells q' = cells q \<and> allocs q' = allocs q"
proof -
  obtain q1 where q1: "take_mutex mx q = Ret q1" "owns held (Suc n) as q1" "cells q1 = cells q" "allocs q1 = allocs q"
    using take_again [OF own] by blast
  obtain q3 where q3: "give_mutex mx q1 = Ret q3" "owns held n as q3" "cells q3 = cells q1" "allocs q3 = allocs q1"
    using give_nested [OF q1(2)] by blast
  note sh = owns_shape [OF q1(2)]
  have "as \<noteq> []" using i by auto
  then show ?thesis
    using owns_not_None [OF own] q1 q3 locate_shape [OF sh i]
    by (auto simp: list_get_node_def check_valid_shape [OF sh] check_empty_shape [OF sh])
qed

lemma insert_frame:
  assumes own: "owns held 0 as q" and p: "p \<noteq> NULL" and q1: "take_mutex mx q = Ret q1" "owns held 1 as q1"
  shows "list_insert_data mx i p q =
      obind (if i = 0 then obind (give_mutex mx q1) (list_push_front mx p)
             else if i = of_nat (length as) then obind (give_mutex mx q1) (list_push_back mx p)
             else if i > 0 \<and> i < of_nat (length as)
             then obind (list_get_node mx i (Some NULL) q1) (\<lambda>(rc, pn, q2).
                    if rc = LIST_SUCCESS
                    then insert_before (case pn of Some p \<Rightarrow> p | None \<Rightarrow> NULL) p q2
                    else Ret (rc, q2))
             else Ret (LIST_FAILED, q1))
        (\<lambda>(rc, q2). obind (give_mutex mx q2) (\<lambda>q3. Ret (rc, q3)))"
  using owns_not_None [OF own] p q1
  by (auto simp: list_insert_data_def check_valid_shape [OF owns_shape [OF q1(2)]]
      list_size_shape [OF owns_shape [OF q1(2)]])

lemma insert_end:
  assumes "represents held ys q"
  shows "\<exists>q'. give_mutex mx q = Ret q' \<and> represents held ys q'"
  using assms give_free by (fastforce simp: represents_def)

lemma insert_ok:
  assumes own: "owns held 0 as q" and p: "p \<noteq> NULL" and i: "unat i \<le> length as"
    and ok: "alloc_ok q" and room: "Suc (length as) < 2 ^ 32"
  shows "\<exists>q'. list_insert_data mx i p q = Ret (LIST_SUCCESS, q') \<and>
     represents held (insert_nth (unat i) p (contents (cells q) as)) q'"
proof -
  have len: "length as < 2 ^ 32" using room by simp
  have un: "unat (of_nat (length as) :: u32) = length as" using unat_size [OF len] .
  obtain q1 where q1: "take_mutex mx q = Ret q1" "owns held 1 as q1" "cells q1 = cells q" "allocs q1 = allocs q"
    using take_mutex_ok [OF own] by blast
  obtain q2 where q2: "give_mutex mx q1 = Ret q2" "owns held 0 as q2" "cells q2 = cells q1" "allocs q2 = allocs q1"
    using give_mutex_ok [OF q1(2)] by blast
  have ok2: "alloc_ok q2" using alloc_ok_allocs [of q2 q] q1(4) q2(4) ok by simp
  note fr = insert_frame [OF own p q1(1,2), of i]
  show ?thesis
  proof (cases "i = 0")
    case True
    obtain q3 where q3: "list_push_front mx p q2 = Ret (LIST_SUCCESS, q3)" "represents held (p # contents (cells q) as) q3"
      using push_front_ok [OF q2(2) p ok2 room] q1 q2 by auto
    show ?thesis using insert_end [OF q3(2)] fr q2 q3 True by (auto simp: insert_nth_def)
  next
    case i0: False
    show ?thesis
    proof (cases "i = of_nat (length as)")
      case True
      obtain q3 where q3: "list_push_back mx p q2 = Ret (LIST_SUCCESS, q3)" "represents held (contents (cells q) as @ [p]) q3"
        using push_back_ok [OF q2(2) p ok2 room] q1 q2 by auto
      have "insert_nth (unat i) p (contents (cells q) as) = contents (cells q) as @ [p]"
        using True un by (simp add: insert_nth_def)
      then show ?thesis using insert_end [OF q3(2)] fr q2 q3 True i0 by auto
    next
      case False
      have "unat i \<noteq> length as" using False un by (simp add: word_unat_eq_iff)
      then have il: "0 < unat i" "unat i < length as" using i i0 by (simp_all add: unat_gt_0)
      obtain cs b a bs where as: "as = cs @ b # a # bs" and cs: "length cs = unat i - 1" and a: "as ! unat i = a"
        using insert_split [OF il] by blast
      obtain q3 where q3: "list_get_node mx i (Some NULL) q1 = Ret (LIST_SUCCESS, Some a, q3)"
         "owns held 1 as q3" "cells q3 = cells q1" "allocs q3 = allocs q1"
        using get_node_nested [OF q1(2) il(2), of NULL] a by auto
      have sh3: "shape (cs @ b # a # bs) q3" using owns_shape [OF q3(2)] as by simp
      have ok3: "alloc_ok q3" using alloc_ok_allocs [of q3 q] q1(4) q3(4) ok by simp
      obtain q4 where q4: "insert_before a p q3 = Ret (LIST_SUCCESS, q4)" "shape (cs @ b # brk q3 # a # bs) q4"
          "contents (cells q4) (cs @ b # brk q3 # a # bs) = contents (cells q3) (cs @ [b]) @ p # contents (cells q3) (a # bs)"
          "same_list q3 q4"
        using insert_before_shape [OF sh3 ok3] room as by auto
      obtain q5 where q5: "give_mutex mx q4 = Ret q5" "owns held 0 (cs @ b # brk q3 # a # bs) q5" "cells q5 = cells q4"
        using give_mutex_ok [OF owns_same [OF q3(2) q4(2,4)]] by blast
      have "insert_nth (unat i) p (contents (cells q) as) = contents (cells q) (cs @ [b]) @ p # contents (cells q) (a # bs)"
        using as cs il insert_nth_split [of "contents (cells q) (cs @ [b])" "unat i" p "contents (cells q) (a # bs)"] by simp
      then have "represents held (insert_nth (unat i) p (contents (cells q) as)) q5"
        unfolding represents_def using q5 q4(3) q3(3) q1(3)
        by (intro exI [of _ "cs @ b # brk q3 # a # bs"]) simp
      moreover have "i < of_nat (length as)" using un il by (simp add: word_less_nat_alt)
      ultimately show ?thesis using fr i0 False q3 q4 q5 by (simp add: word_neq_0_conv)
    qed
  qed
qed

end

section \<open>The two builds\<close>

interpretation linux_list: qlist_client linux_mutex_ops holds
  using linux_mutex.lock_free linux_mutex.unlock_once
  by unfold_locales (simp_all add: linux_mutex_ops_def)

interpretation windows_list: qlist_recursive_client windows_mutex_ops holds
  using windows_mutex.lock_free windows_mutex.unlock_once windows_mutex.lock_again
    windows_mutex.unlock_nested windows_mutex.unlock_free
  by unfold_locales (simp_all add: windows_mutex_ops_def)

text \<open>The list that \<open>list_create\<close> makes on Linux.\<close>

definition linux_list_create :: "string \<Rightarrow> MutexInfo option qstate \<Rightarrow> QListReturnCode \<times> MutexInfo option qstate" where
  "linux_list_create = list_create (\<lambda>a s. linux_mutex_create (Some a) (Some \<lparr>p_mutex_handle = NoHandle, shm_fd = 0\<rparr>) s)"

definition empty_store :: "oom \<Rightarrow> 'm qstate" where
  "empty_store s = \<lparr>cells = Map.empty, brk = 1, allocs = s, the_list = None\<rparr>"

lemma linux_create_represents:
  assumes "linux_list_create name (empty_store s) = (LIST_SUCCESS, q)"
  shows "represents holds [] q"
proof -
  obtain l where "the_list q = Some l" "ls_head l = NULL" "ls_tail l = NULL" "ls_size l = 0"
    "holds 0 (ls_mutex_info l)" "cells q = Map.empty" "brk q = 1"
    using assms
    by (auto simp: linux_list_create_def list_create_def empty_store_def Let_def
        dest: linux_mutex_create_holds split: prod.splits if_splits)
  then show ?thesis by (simp add: represents_def owns_def shape_def)
qed

lemma linux_create_fails_clean:
  assumes "linux_list_create name (empty_store s) = (rc, q)" and "rc \<noteq> LIST_SUCCESS"
  shows "the_list q = None \<and> cells q = Map.empty"
  using assms
  by (auto simp: linux_list_create_def list_create_def empty_store_def Let_def split: prod.splits if_splits)

lemma linux_take_holds:
  assumes "owns holds 0 as q"
  shows "\<exists>q1. take_mutex linux_mutex_ops q = Ret q1 \<and> owns holds 1 as q1 \<and> cells q1 = cells q \<and> allocs q1 = allocs q"
  by (rule linux_list.take_mutex_ok [OF assms])

lemma linux_take_held:
  assumes "owns holds (Suc n) as q"
  shows "take_mutex linux_mutex_ops q = Stuck Deadlock"
  using assms owns_not_None [OF assms]
  by (auto simp: owns_def take_mutex_def linux_mutex_ops_def linux_lock_held)

lemma linux_give_free:
  assumes "owns holds 0 as q"
  shows "give_mutex linux_mutex_ops q = Stuck BadUnlock"
  using assms owns_not_None [OF assms]
  by (auto simp: owns_def give_mutex_def linux_mutex_ops_def linux_unlock_free)

lemma linux_insert_hazard:
  assumes own: "owns holds 0 as q" and p: "p \<noteq> NULL" and i: "unat i \<le> length as" and room: "Suc (length as) < 2 ^ 32"
  shows "list_insert_data linux_mutex_ops i p q =
     Stuck (if unat i = 0 \<or> unat i = length as then BadUnlock else Deadlock)"
proof -
  have len: "length as < 2 ^ 32" using room by simp
  have un: "unat (of_nat (length as) :: u32) = length as" using unat_size [OF len] .
  obtain q1 where q1: "take_mutex linux_mutex_ops q = Ret q1" "owns holds 1 as q1" "allocs q1 = allocs q"
    using linux_take_holds [OF own] by blast
  obtain q2 where q2: "give_mutex linux_mutex_ops q1 = Ret q2" "owns holds 0 as q2" "allocs q2 = allocs q1"
    using linux_list.give_mutex_ok [OF q1(2)] by blast
  obtain l where l: "the_list q = Some l" using owns_not_None [OF own] by auto
  have give: "give_mutex linux_mutex_ops q' = Stuck BadUnlock" if "represents holds ys q'" for q' ys
    using that linux_give_free by (auto simp: represents_def)
  have front: "obind (list_push_front linux_mutex_ops p q2) (\<lambda>(rc, q2). obind (give_mutex linux_mutex_ops q2) (\<lambda>q3. Ret (rc, q3)))
      = Stuck BadUnlock"
    using linux_list.push_front_ok [OF q2(2) p _ room] linux_list.push_oom [OF q2(2) p] give
    by (cases "alloc_ok q2") auto
  have endp: "obind (list_push_back linux_mutex_ops p q2) (\<lambda>(rc, q2). obind (give_mutex linux_mutex_ops q2) (\<lambda>q3. Ret (rc, q3)))
      = Stuck BadUnlock"
    using linux_list.push_back_ok [OF q2(2) p _ room] linux_list.push_oom [OF q2(2) p] give
    by (cases "alloc_ok q2") auto
  have node: "list_get_node linux_mutex_ops i (Some NULL) q1 = Stuck Deadlock"
    using linux_take_held [of 0 as q1] q1(2) owns_not_None [OF q1(2)] by (auto simp: list_get_node_def)
  note vs = check_valid_shape [OF owns_shape [OF q1(2)]] list_size_shape [OF owns_shape [OF q1(2)]]
  consider "i = 0" | "i \<noteq> 0" "i = of_nat (length as)" | "0 < unat i" "unat i < length as" "i \<noteq> 0" "i \<noteq> of_nat (length as)"
  proof -
    assume hyp: "i = 0 \<Longrightarrow> thesis" "i \<noteq> 0 \<Longrightarrow> i = of_nat (length as) \<Longrightarrow> thesis"
      "0 < unat i \<Longrightarrow> unat i < length as \<Longrightarrow> i \<noteq> 0 \<Longrightarrow> i \<noteq> of_nat (length as) \<Longrightarrow> thesis"
    show thesis
    proof (cases "i = 0 \<or> i = of_nat (length as)")
      case True
      then show ?thesis using hyp(1,2) by blast
    next
      case False
      then have "unat i \<noteq> length as" using un by (simp add: word_unat_eq_iff)
      then show ?thesis using hyp(3) False i by (simp add: unat_gt_0)
    qed
  qed
  then show ?thesis
  proof cases
    case 1
    then show ?thesis using l p q1 q2 front by (simp add: list_insert_data_def vs)
  next
    case 2
    then show ?thesis using l p q1 q2 endp un by (simp add: list_insert_data_def vs)
  next
    case 3
    then have "i < of_nat (length as)" "0 < i" using un by (simp_all add: word_less_nat_alt)
    then show ?thesis using 3 l p q1 node by (simp add: list_insert_data_def vs)
  qed
qed

lemma linux_delete_ok:
  assumes own: "owns holds 0 as q"
  shows "\<exists>q'. list_delete linux_mutex_ops q = Ret (if as = [] then LIST_EMPTY else LIST_SUCCESS, q') \<and>
     the_list q' = None \<and> cells q' = Map.empty"
proof -
  obtain q1 where q1: "list_clear_all linux_mutex_ops q = Ret (if as = [] then LIST_EMPTY else LIST_SUCCESS, q1)"
    "owns holds 0 [] q1" using linux_list.clear_ok [OF own] by blast
  obtain l where l: "the_list q1 = Some l" using owns_not_None [OF q1(2)] by auto
  have "cells q1 = Map.empty" using owns_shape [OF q1(2)] by (simp add: shape_def)
  moreover obtain r where "linux_mutex_destroy (ls_mutex_info l) = Ret r"
    using q1(2) l by (auto simp: owns_def holds_def linux_mutex_destroy_def)
  ultimately show ?thesis
    using owns_not_None [OF own] q1(1) l by (auto simp: list_delete_def linux_mutex_ops_def)
qed

section \<open>Properties of the list\<close>

definition demo_list :: "MutexInfo option qstate" where
  "demo_list = snd (linux_list_create ''q'' (empty_store []))"

lemma demo_list_create: "linux_list_create ''q'' (empty_store []) = (LIST_SUCCESS, demo_list)"
  by (simp add: demo_list_def linux_list_create_def list_create_def empty_store_def linux_mutex_create_def)

lemma demo_list_allocs: "allocs demo_list = []"
  by (simp add: demo_list_def linux_list_create_def list_create_def empty_store_def linux_mutex_create_def)

lemma demo_list_represents: "represents holds [] demo_list"
  by (rule linux_create_represents [OF demo_list_create])

text \<open>A list with the two elements 5 and 6, and a free mutex that either build may use.\<close>

definition demo_two :: "MutexInfo option qstate" where
  "demo_two = \<lparr>cells = [1 \<mapsto> \<lparr>nd_data = 5, nd_next = 2, nd_prev = 0\<rparr>, 2 \<mapsto> \<lparr>nd_data = 6, nd_next = 0, nd_prev = 1\<rparr>],
     brk = 3, allocs = [],
     the_list = Some \<lparr>ls_head = 1, ls_tail = 2, ls_size = 2,
       ls_mutex_info = Some \<lparr>p_mutex_handle = Live 0, shm_fd = 0\<rparr>, ls_mutex_attributes = None\<rparr>\<rparr>"

lemma demo_two_owns: "owns holds 0 [1, 2] demo_two"
  by (auto simp: demo_two_def owns_def shape_def holds_def)

lemma demo_two_represents: "represents holds [5, 6] demo_two"
  unfolding represents_def
  by (intro exI [of _ "[1, 2]"] conjI demo_two_owns) (simp add: demo_two_def)

text \<open>C6: Every sequence of list operations on a list made by \<open>list_create\<close>, on Linux, returns what
  the specification on plain lists of data pointers returns, one result after the other, without
  reaching a hazard, for every pattern of allocation failures; at the end the store holds exactly the
  nodes of the resulting list (nothing leaked, nothing dangling) and the mutex is free. The operations
  are the two pushes, pops and seeks, access and removal by position, clearing and the size; access
  by position needs a position inside the list.\<close>
theorem list_refines_spec:
  assumes "linux_list_create name (empty_store s) = (LIST_SUCCESS, q)" and "spec_pres cs (allocs q) []"
  shows "\<exists>q'. conc_run linux_mutex_ops cs q = Ret (fst (spec_run cs (allocs q) []), q') \<and>
              represents holds (snd (spec_run cs (allocs q) [])) q'"
  using linux_list.run_simulates [OF linux_create_represents [OF assms(1)] assms(2)] .

theorem list_refines_spec_witness:
  "\<exists>q'. conc_run linux_mutex_ops [PushBack 5, PushFront 6, PushBack 7, Erase 1, PopBack, Size] demo_list =
      Ret ([(LIST_SUCCESS, None), (LIST_SUCCESS, None), (LIST_SUCCESS, None), (LIST_SUCCESS, Some 5),
            (LIST_SUCCESS, Some 7), (LIST_SUCCESS, Some 1)], q') \<and> represents holds [6] q'"
  using list_refines_spec [OF demo_list_create, of "[PushBack 5, PushFront 6, PushBack 7, Erase 1, PopBack, Size]"]
  by (simp add: demo_list_allocs remove_nth_def)

text \<open>With the recursive Windows mutex \<open>list_insert_data\<close> inserts at every position from 0 to the
  size, ends included, and returns \<open>LIST_SUCCESS\<close> when memory is available.\<close>
theorem windows_insert_inserts:
  assumes "represents holds xs q" and "p \<noteq> NULL" and "unat i \<le> length xs"
    and "alloc_ok q" and "Suc (length xs) < 2 ^ 32"
  shows "\<exists>q'. list_insert_data windows_mutex_ops i p q = Ret (LIST_SUCCESS, q') \<and>
              represents holds (insert_nth (unat i) p xs) q'"
proof -
  obtain as where own: "owns holds 0 as q" and xs: "contents (cells q) as = xs"
    using assms(1) by (auto simp: represents_def)
  then have "length as = length xs" by auto
  then show ?thesis using windows_list.insert_ok [OF own assms(2) _ assms(4)] assms(3,5) xs by simp
qed

theorem windows_insert_inserts_witness:
  "\<exists>q'. list_insert_data windows_mutex_ops 1 9 demo_two = Ret (LIST_SUCCESS, q') \<and>
        represents holds [5, 9, 6] q'"
  using windows_insert_inserts [OF demo_two_represents, of 9 1]
  by (simp add: insert_nth_def alloc_ok_def demo_two_def)

text \<open>C7: On Linux \<open>list_insert_data\<close> never returns for a valid position: at either end it unlocks the
  mutex a second time after the push has released it, which is undefined for a default pthread mutex,
  and in the middle it calls \<open>list_get_node\<close> with the mutex held and waits for itself.\<close>
theorem linux_insert_never_returns:
  assumes "represents holds xs q" and "p \<noteq> NULL" and "unat i \<le> length xs" and "Suc (length xs) < 2 ^ 32"
  shows "list_insert_data linux_mutex_ops i p q =
           Stuck (if unat i = 0 \<or> unat i = length xs then BadUnlock else Deadlock)"
proof -
  obtain as where own: "owns holds 0 as q" and xs: "contents (cells q) as = xs"
    using assms(1) by (auto simp: represents_def)
  then have "length as = length xs" by auto
  then show ?thesis using linux_insert_hazard [OF own assms(2)] assms(3,4) by simp
qed

theorem linux_insert_never_returns_witness:
  "list_insert_data linux_mutex_ops 1 9 demo_two = Stuck Deadlock"
  using linux_insert_never_returns [OF demo_two_represents, of 9 1] by simp

text \<open>C8: \<open>list_delete\<close> frees every node, whatever the list holds, sets the caller's pointer to NULL and
  reports \<open>LIST_EMPTY\<close> or \<open>LIST_SUCCESS\<close>; its loop always ends.\<close>
theorem list_delete_frees_all:
  assumes "represents holds xs q"
  shows "\<exists>q'. list_delete linux_mutex_ops q = Ret (if xs = [] then LIST_EMPTY else LIST_SUCCESS, q') \<and>
              the_list q' = None \<and> cells q' = Map.empty"
proof -
  obtain as where own: "owns holds 0 as q" and xs: "contents (cells q) as = xs"
    using assms by (auto simp: represents_def)
  then have "as = [] \<longleftrightarrow> xs = []" by auto
  then show ?thesis using linux_delete_ok [OF own] by simp
qed

theorem list_delete_frees_all_witness:
  "\<exists>q'. list_delete linux_mutex_ops demo_two = Ret (LIST_SUCCESS, q') \<and> the_list q' = None \<and> cells q' = Map.empty"
  using list_delete_frees_all [OF demo_two_represents] by simp

text \<open>\<open>list_get_data\<close> does not check its index: asked for the position just behind the last element
  of a non-empty list it walks to the NULL behind the tail, which \<open>list_get_node\<close> hands out with
  \<open>LIST_SUCCESS\<close>, and reads the data through it.\<close>
theorem list_get_data_past_the_end:
  assumes "represents holds xs q" and "xs \<noteq> []" and "unat i = length xs" and "Suc (length xs) < 2 ^ 32"
  shows "list_get_data linux_mutex_ops i (Some d) q = Stuck BadDeref"
proof -
  obtain as where own: "owns holds 0 as q" and xs: "contents (cells q) as = xs"
    using assms(1) by (auto simp: represents_def)
  have la: "length as = length xs" "as \<noteq> []" using xs assms(2) by auto
  obtain q1 where q1: "take_mutex linux_mutex_ops q = Ret q1" "owns holds 1 as q1"
    using linux_take_holds [OF own] by blast
  obtain q2 where q2: "give_mutex linux_mutex_ops q1 = Ret q2" "owns holds 0 as q2"
    using linux_list.give_mutex_ok [OF q1(2)] by blast
  note sh = owns_shape [OF q1(2)]
  obtain l where l: "the_list q1 = Some l" "ls_head l = hdp as NULL" "ls_size l = of_nat (length as)"
    using shape_list [OF sh] by auto
  have i: "i = of_nat (length as)" 
    unfolding word_unat_eq_iff using assms(3,4) la unat_size [of as] by simp
  have i0: "i \<noteq> 0" using assms(2,3) by auto
  have "locate i q1 = Ret NULL"
    using l i i0 walk_next_end [of q1 NULL as] sh assms(3) la
    by (simp add: locate_def shape_def Let_def)
  then have "list_get_node linux_mutex_ops i (Some NULL) q = Ret (LIST_SUCCESS, Some NULL, q2)"
    using owns_not_None [OF own] q1 q2 la
    by (auto simp: list_get_node_def check_valid_shape [OF sh] check_empty_shape [OF sh])
  moreover have "nd NULL q2 = Stuck BadDeref"
  proof -
    have "NULL \<notin> dom (cells q2)" using owns_shape [OF q2(2)] by (auto simp: shape_def)
    then show ?thesis by (simp add: nd_def domIff)
  qed
  ultimately show ?thesis using owns_not_None [OF own] by (auto simp: list_get_data_def)
qed

theorem list_get_data_past_the_end_witness:
  "list_get_data linux_mutex_ops 2 (Some 0) demo_two = Stuck BadDeref"
  using list_get_data_past_the_end [OF demo_two_represents, of 2 0] by simp

end
