(* ===== verification/WosSession.thy ===== *)
theory WosSession
  imports LiveSession
begin

text \<open>
  Sessions of the Windows backends: \<open>start\<close> raises the flag before it creates the thread and \<open>stop\<close> lowers it,
  so the flag is up exactly while there is a handle, and a second \<open>start\<close> is refused until then. The locale
  \<open>flagged_session\<close> states this contract; it gives \<open>live_session\<close>, and with it sessions that never get stuck
  whatever the client does.
\<close>

section \<open>Steps that only write messages\<close>

definition quiet :: "('l, 'x) session_scheme \<Rightarrow> ('l, 'x) session_scheme \<Rightarrow> bool" where
  "quiet s s' \<longleftrightarrow> (\<exists>ms. s' = s\<lparr>sn_messages := ms\<rparr>)"

lemma quiet_refl [simp]: "quiet s s"
  unfolding quiet_def by (rule exI [of _ "sn_messages s"]) simp

lemma quiet_trans: "quiet s s' \<Longrightarrow> quiet s' s'' \<Longrightarrow> quiet s s''"
  by (auto simp: quiet_def)

lemma quiet_post [simp]: "quiet s (post_message m s)"
proof (cases "g_message_callback s")
  case (Some cb)
  then show ?thesis unfolding quiet_def by (intro exI [of _ "sn_messages s @ [(cb, m)]"]) (simp add: post_message_def)
qed (simp add: post_message_def)

section \<open>Creating the thread\<close>

text \<open>\<open>thread_create\<close> on the state of a backend; the script decides \<open>CreateThread\<close>.\<close>

definition windows_spawn :: "QThreadAttributes \<Rightarrow> ('l, 'x) session_scheme \<Rightarrow> QThreadReturnCode \<times> ('l, 'x) session_scheme" where
  "windows_spawn attrs s =
     (let (ok, faults) = calloc_ok (sn_faults s);
          (rc, ti, ths) = windows_thread_create (Some attrs) (Some (g_thread_info s))
             (if ok then Some (of_nat (length (sn_threads s))) else None) (sn_threads s)
      in (rc, s\<lparr>g_thread_info := (case ti of Some i \<Rightarrow> i | None \<Rightarrow> g_thread_info s), sn_faults := faults, sn_threads := ths\<rparr>))"

lemma windows_spawn_eq:
  "windows_spawn attrs s =
     (if fst (calloc_ok (sn_faults s))
      then (QTHREAD_CREATE_SUCCESS,
            s\<lparr>g_thread_info := \<lparr>th_handle = Thread (length (sn_threads s)), th_id = ucast (of_nat (length (sn_threads s)) :: u32)\<rparr>,
              sn_faults := snd (calloc_ok (sn_faults s)), sn_threads := sn_threads s @ [Spawned (thread_params attrs)]\<rparr>)
      else (QTHREAD_CREATE_FAILED,
            s\<lparr>g_thread_info := (g_thread_info s)\<lparr>th_handle := NoThread\<rparr>, sn_faults := snd (calloc_ok (sn_faults s))\<rparr>))"
  by (simp add: windows_spawn_def windows_thread_create_def case_prod_beta Let_def)

section \<open>The contract\<close>

text \<open>The flag is up exactly while there is a handle; all threads but the one of the handle have ended.\<close>

definition flagged :: "(('l, 'x) session_scheme \<Rightarrow> QcPerfRequest option \<Rightarrow> bool) \<Rightarrow> ('l, 'x) session_scheme \<Rightarrow> bool" where
  "flagged good s \<longleftrightarrow>
     (case th_handle (g_thread_info s) of
        NoThread \<Rightarrow> \<not> g_is_thread_running s \<and> all_ended s
      | Thread t \<Rightarrow> g_is_thread_running s \<and> t < length (sn_threads s) \<and>
          (\<forall>u<length (sn_threads s). u \<noteq> t \<longrightarrow> sn_threads s ! u = Exited) \<and> (\<forall>q. sn_threads s ! t = Spawned q \<longrightarrow> good s q)
      | StackAddress \<Rightarrow> False)"

definition launched :: "(('l, 'x) session_scheme \<Rightarrow> QcPerfRequest option \<Rightarrow> bool) \<Rightarrow> ('l, 'x) session_scheme \<Rightarrow> ('l, 'x) session_scheme \<Rightarrow> bool" where
  "launched good s s' \<longleftrightarrow> \<not> g_is_thread_running s \<and> g_is_thread_running s' \<and>
     th_handle (g_thread_info s') = Thread (length (sn_threads s)) \<and>
     (\<exists>q. good s' q \<and> sn_threads s' = sn_threads s @ [Spawned q])"

lemma flagged_same:
  assumes "flagged good s" "same_control s s'" "\<And>q. good s q \<Longrightarrow> good s' q"
  shows "flagged good s'"
  using assms by (auto simp: flagged_def same_control_def all_ended_def split: thread_handle.splits)

lemma flagged_launched: "flagged good s \<Longrightarrow> launched good s s' \<Longrightarrow> flagged good s'"
  by (auto simp: flagged_def launched_def all_ended_def nth_append less_Suc_eq split: thread_handle.splits)

lemma flagged_joined:
  assumes "flagged good s" "th_handle (g_thread_info s) = Thread t" "joined t s s'"
  shows "flagged good s'"
  using assms by (auto simp: flagged_def joined_def all_ended_def nth_list_update_if)

lemma flagged_initial [simp]: "flagged good (initial_session f)"
  by (simp add: flagged_def initial_session_def zero_thread_info_def all_ended_def)

text \<open>A thread that moves on without being created again.\<close>

lemma flagged_put:
  assumes f: "flagged good s" and t: "t < length (sn_threads s)" "sn_threads s ! t \<noteq> Exited" and st: "\<not> is_spawned st"
    and c: "same_control s s'"
  shows "flagged good (put_thread t st s')"
proof -
  have h: "th_handle (g_thread_info s) = Thread t" "g_is_thread_running s"
    using f t by (auto simp: flagged_def all_ended_def split: thread_handle.splits)
  have "\<forall>u<length (sn_threads s). u \<noteq> t \<longrightarrow> sn_threads s ! u = Exited" using f h by (simp add: flagged_def)
  then show ?thesis using h c t(1) st by (simp add: flagged_def same_control_def nth_list_update_if) auto
qed

text \<open>What the client and the scheduler may do: anything, with requests the backend can serve.\<close>

fun request_valid :: "(QcPerfRequest option \<Rightarrow> bool) \<Rightarrow> 'e session_event \<Rightarrow> ('l, 'x) session_scheme \<Rightarrow> bool" where
  "request_valid okreq (CallStart r) s = okreq r"
| "request_valid okreq (CallStop e r) s = True"
| "request_valid okreq (Begin e t) s = (t < length (sn_threads s))"
| "request_valid okreq (Iterate e t) s = (t < length (sn_threads s))"
| "request_valid okreq (Leave e t) s = (t < length (sn_threads s))"

locale flagged_session =
  fixes start :: "QcPerfRequest option \<Rightarrow> ('l, 'x) session_scheme \<Rightarrow> (QcPerfReturnCode \<times> ('l, 'x) session_scheme) outcome"
    and stop :: "'e \<Rightarrow> QcPerfRequest option \<Rightarrow> ('l, 'x) session_scheme \<Rightarrow> (QcPerfReturnCode \<times> ('l, 'x) session_scheme) outcome"
    and code :: "'e \<Rightarrow> ('l, ('l, 'x) session_scheme) thread_code"
    and body :: "'e \<Rightarrow> 'l \<Rightarrow> ('l, 'x) session_scheme \<Rightarrow> ('l \<times> ('l, 'x) session_scheme) outcome"
    and ready :: "('l, 'x) session_scheme \<Rightarrow> bool"
    and good :: "('l, 'x) session_scheme \<Rightarrow> QcPerfRequest option \<Rightarrow> bool"
    and lok :: "('l, 'x) session_scheme \<Rightarrow> 'l \<Rightarrow> bool"
    and okreq :: "QcPerfRequest option \<Rightarrow> bool"
  assumes start_law: "ready s \<Longrightarrow> flagged good s \<Longrightarrow> okreq r \<Longrightarrow> \<exists>rc s'. start r s = Ret (rc, s') \<and> ready s' \<and>
            (\<forall>q. good s q \<longrightarrow> good s' q) \<and> (\<forall>l. lok s l \<longrightarrow> lok s' l) \<and> (same_control s s' \<or> launched good s s')"
    and stop_light: "ready s \<Longrightarrow> \<not> g_is_thread_running s \<or> r = None \<Longrightarrow> \<exists>rc s'. stop e r s = Ret (rc, s') \<and> ready s' \<and>
            (\<forall>q. good s q \<longrightarrow> good s' q) \<and> (\<forall>l. lok s l \<longrightarrow> lok s' l) \<and> same_control s s'"
    and stop_joins: "ready s \<Longrightarrow> g_is_thread_running s \<Longrightarrow> th_handle (g_thread_info s) = Thread t \<Longrightarrow> t < length (sn_threads s) \<Longrightarrow>
            (\<And>x. sn_threads s ! t = Spawned x \<Longrightarrow> good s x) \<Longrightarrow> \<exists>rc s'. stop e (Some rq) s = Ret (rc, s') \<and> ready s' \<and>
            (\<forall>q. good s q \<longrightarrow> good s' q) \<and> (\<forall>l. lok s l \<longrightarrow> lok s' l) \<and> joined t s s'"
    and entry_law: "ready s \<Longrightarrow> good s q \<Longrightarrow> \<exists>lo s'. th_entry (code e) q s = Ret (lo, s') \<and> same_control s s' \<and> ready s' \<and>
            (\<forall>l. lo = Some l \<longrightarrow> lok s' l)"
    and body_law: "ready s \<Longrightarrow> lok s l \<Longrightarrow> \<exists>l' s'. body e l s = Ret (l', s') \<and> same_control s s' \<and> ready s' \<and> lok s' l'"
    and body_control: "body e l s = Ret (l', s') \<Longrightarrow> same_control s s' \<and> (ready s \<longrightarrow> ready s')"
    and finish_law: "th_finish (code e) l s = Ret s"
    and put_light: "ready (put_thread t st s) = ready s" "lok (put_thread t st s) l = lok s l"
begin

definition steady :: "('l, 'x) session_scheme \<Rightarrow> bool" where
  "steady s \<longleftrightarrow> flagged good s \<and> ready s"

lemma steady_step:
  assumes s: "steady s" and ok: "request_valid okreq ev s"
    and st: "session_step start stop code body ev s = Ret s'"
  shows "steady s'"
proof -
  have f: "flagged good s" "ready s" using s by (simp_all add: steady_def)
  show ?thesis
  proof (cases ev)
    case (CallStart r)
    obtain rc s1 where s1: "start r s = Ret (rc, s1)" "ready s1" "\<forall>q. good s q \<longrightarrow> good s1 q" "same_control s s1 \<or> launched good s s1"
      using start_law [OF f(2,1), of r] ok CallStart by auto
    have "flagged good s1" using s1(4)
    proof
      assume "same_control s s1"
      then show ?thesis by (rule flagged_same [OF f(1)]) (use s1(3) in blast)
    qed (rule flagged_launched [OF f(1)])
    then show ?thesis using st CallStart s1(1,2) by (simp add: steady_def)
  next
    case (CallStop e r)
    show ?thesis
    proof (cases "\<not> g_is_thread_running s \<or> r = None")
      case True
      obtain rc s1 where s1: "stop e r s = Ret (rc, s1)" "ready s1" "\<forall>q. good s q \<longrightarrow> good s1 q" "same_control s s1"
        using stop_light [OF f(2) True] by blast
      have "flagged good s1" by (rule flagged_same [OF f(1) s1(4)]) (use s1(3) in blast)
      then show ?thesis using st CallStop s1(1,2) by (simp add: steady_def)
    next
      case False
      then obtain t q where t: "th_handle (g_thread_info s) = Thread t" "t < length (sn_threads s)" "r = Some q"
        "\<And>x. sn_threads s ! t = Spawned x \<Longrightarrow> good s x"
        using f(1) by (auto simp: flagged_def split: thread_handle.splits)
      obtain rc s1 where s1: "stop e r s = Ret (rc, s1)" "ready s1" "joined t s s1"
        using stop_joins [OF f(2) _ t(1,2,4), where rq = q and e = e] False t(3) by auto
      then show ?thesis using st CallStop flagged_joined [OF f(1) t(1) s1(3)] by (simp add: steady_def)
    qed
  next
    case (Begin e t)
    show ?thesis
    proof (cases "sn_threads s ! t")
      case (Spawned x)
      have t: "t < length (sn_threads s)" using ok Begin by simp
      have "good s x" using f(1) t Spawned by (auto simp: flagged_def all_ended_def split: thread_handle.splits) 
      then obtain lo s1 where e: "th_entry (code e) x s = Ret (lo, s1)" "same_control s s1" "ready s1"
        using entry_law [OF f(2), of x e] by blast
      have "flagged good (put_thread t (case lo of None \<Rightarrow> Exited | Some l \<Rightarrow> Running l) s1)"
        by (rule flagged_put [OF f(1) t _ _ e(2)]) (use Spawned in \<open>auto split: option.splits\<close>)
      then show ?thesis using st Begin Spawned e by (auto simp: steady_def thread_begin_def put_light)
    qed (use st Begin s in \<open>auto simp: thread_begin_def\<close>)
  next
    case (Iterate e t)
    show ?thesis
    proof (cases "\<exists>l. sn_threads s ! t = Running l \<and> g_is_thread_running s")
      case False
      then show ?thesis using st Iterate s by (auto simp: thread_iterate_def split: thread_status.splits if_splits)
    next
      case True
      then obtain l where l: "sn_threads s ! t = Running l" "g_is_thread_running s" by blast
      then obtain l' s1 where b: "body e l s = Ret (l', s1)" "s' = put_thread t (Running l') s1"
        using st Iterate by (auto simp: thread_iterate_def outcome_simps)
      have t: "t < length (sn_threads s)" using ok Iterate by simp
      have c: "same_control s s1" "ready s1" using body_control [OF b(1)] f(2) by auto
      have "flagged good s'" unfolding b(2) by (rule flagged_put [OF f(1) t _ _ c(1)]) (use l in auto)
      then show ?thesis using b(2) c(2) by (simp add: steady_def put_light)
    qed
  next
    case (Leave e t)
    show ?thesis
    proof (cases "\<exists>l. sn_threads s ! t = Running l \<and> \<not> g_is_thread_running s")
      case False
      then show ?thesis using st Leave s by (auto simp: thread_leave_def split: thread_status.splits if_splits)
    next
      case True
      then obtain l where l: "sn_threads s ! t = Running l" "\<not> g_is_thread_running s" by blast
      then have "s' = put_thread t Exited s" using st Leave by (simp add: thread_leave_def finish_law)
      moreover have "t < length (sn_threads s)" using ok Leave by simp
      ultimately show ?thesis using flagged_put [OF f(1), of t Exited s] l f(2) by (simp add: steady_def put_light)
    qed
  qed
qed

lemma steady_stop:
  assumes "steady s"
  shows "\<exists>rc s'. stop e r s = Ret (rc, s') \<and> ready s' \<and> keeps good lok s s' \<and> some_ended s s' \<and>
     (g_is_thread_running s \<and> r \<noteq> None \<longrightarrow> all_ended s' \<and> \<not> g_is_thread_running s')"
proof (cases "\<not> g_is_thread_running s \<or> r = None")
  case True
  have r: "ready s" using assms by (simp add: steady_def)
  obtain rc s1 where "stop e r s = Ret (rc, s1)" "ready s1" "\<forall>q. good s q \<longrightarrow> good s1 q" "\<forall>l. lok s l \<longrightarrow> lok s1 l" "same_control s s1"
    using stop_light [OF r True] by blast
  then show ?thesis using True by (auto simp: keeps_def some_ended_def same_control_def)
next
  case False
  have f: "flagged good s" "ready s" using assms by (simp_all add: steady_def)
  then obtain t q where t: "th_handle (g_thread_info s) = Thread t" "t < length (sn_threads s)" "r = Some q"
    "\<And>x. sn_threads s ! t = Spawned x \<Longrightarrow> good s x" "\<forall>u<length (sn_threads s). u \<noteq> t \<longrightarrow> sn_threads s ! u = Exited"
    using False by (auto simp: flagged_def split: thread_handle.splits)
  obtain rc s1 where s1: "stop e r s = Ret (rc, s1)" "ready s1" "\<forall>q. good s q \<longrightarrow> good s1 q" "\<forall>l. lok s l \<longrightarrow> lok s1 l" "joined t s s1"
    using stop_joins [OF f(2) _ t(1,2,4), where rq = q and e = e] False t(3) by auto
  have "all_ended s1" using s1(5) t(5) by (auto simp: all_ended_def joined_def nth_list_update_if)
  then show ?thesis using s1 by (auto simp: keeps_def some_ended_def joined_def)
qed

end

sublocale flagged_session \<subseteq> live_session start stop code body steady "request_valid okreq" ready good lok
proof unfold_locales
  fix s ev s'
  assume "steady s" "request_valid okreq ev s" "session_step start stop code body ev s = Ret s'"
  then show "steady s'" by (rule steady_step)
next
  fix s t u
  assume "steady s" "t < length (sn_threads s)" "sn_threads s ! t \<noteq> Exited" "u < length (sn_threads s)" "u \<noteq> t"
  then show "sn_threads s ! u = Exited" by (auto simp: steady_def flagged_def all_ended_def split: thread_handle.splits)
next
  fix s r
  assume a: "steady s" "ready s" "request_valid okreq (CallStart r) s"
  then have f: "flagged good s" by (simp add: steady_def)
  obtain rc s1 where s1: "start r s = Ret (rc, s1)" "ready s1" "\<forall>q. good s q \<longrightarrow> good s1 q" "\<forall>l. lok s l \<longrightarrow> lok s1 l"
    "same_control s s1 \<or> launched good s s1"
    using start_law [OF a(2) f, of r] a(3) by auto
  have "all_ended s" if "launched good s s1" using that f by (auto simp: launched_def flagged_def split: thread_handle.splits)
  then show "\<exists>rc s'. start r s = Ret (rc, s') \<and> ready s' \<and>
            (sn_threads s' = sn_threads s \<and> keeps good lok s s' \<or>
             all_ended s \<and> (\<exists>q. good s' q \<and> sn_threads s' = sn_threads s @ [Spawned q]))"
    using s1 by (intro exI [of _ rc] exI [of _ s1]) (auto simp: launched_def keeps_def same_control_def)
next
  fix s e r
  assume "steady s" "ready s"
  then show "\<exists>rc s'. stop e r s = Ret (rc, s') \<and> ready s' \<and> keeps good lok s s' \<and> some_ended s s'" using steady_stop by blast
next
  fix s q e
  assume "ready s" "good s q"
  then obtain lo s1 where "th_entry (code e) q s = Ret (lo, s1)" "same_control s s1" "ready s1" "\<forall>l. lo = Some l \<longrightarrow> lok s1 l"
    using entry_law by blast
  then show "\<exists>lo s'. th_entry (code e) q s = Ret (lo, s') \<and> sn_threads s' = sn_threads s \<and> ready s' \<and>
            (\<forall>l. lo = Some l \<and> g_is_thread_running s' \<longrightarrow> lok s' l)" by (auto simp: same_control_def)
next
  fix s l e
  assume "ready s" "lok s l"
  then show "\<exists>l' s'. body e l s = Ret (l', s') \<and> sn_threads s' = sn_threads s \<and> ready s' \<and> lok s' l'"
    using body_law [of s l e] by (auto simp: same_control_def)
qed (auto simp: finish_law put_light)

section \<open>Runs\<close>

text \<open>Every event that is permitted when it comes returns.\<close>

fun session_safe ::
  "('e session_event \<Rightarrow> ('l, 'x) session_scheme \<Rightarrow> bool) \<Rightarrow> ('e session_event \<Rightarrow> ('l, 'x) session_scheme \<Rightarrow> ('l, 'x) session_scheme outcome)
   \<Rightarrow> 'e session_event list \<Rightarrow> ('l, 'x) session_scheme \<Rightarrow> bool" where
  "session_safe okev step [] s = True"
| "session_safe okev step (ev # evs) s =
     (okev ev s \<longrightarrow> (case step ev s of Ret s' \<Rightarrow> session_safe okev step evs s' | Stuck _ \<Rightarrow> False))"

context live_session begin

lemma live_safe: "live s \<Longrightarrow> session_safe okev (session_step start stop code body) evs s"
proof (induction evs arbitrary: s)
  case (Cons ev evs)
  then show ?case using live_step [of s ev] by auto
qed simp

end

end
