(* ===== verification/WosTelemetry.thy ===== *)
theory WosTelemetry
  imports Prelude
begin

text \<open>
  The CPU telemetry of Windows, \<open>backends/wos-cpu/cpu-telemetry\<close>: the readers over
  \<open>NtQuerySystemInformation\<close> and \<open>CallNtPowerInformation\<close> (\<open>cpu_telemetry_ntquery.c\<close>) and over the performance
  counters of PDH (\<open>cpu_telemetry_pdh.c\<close>). What Windows answers is an argument: the number of processors, the
  script of the calls that may fail while a reader is opened, and the figures of one collection.
\<close>

section \<open>Data\<close>

abbreviation (input) CPU_TELEMETRY_MAX_CORES :: nat where "CPU_TELEMETRY_MAX_CORES \<equiv> 18"

datatype eCpuTelemetryReturnCode =
    TELEMETRY_SUCCESS
  | TELEMETRY_FAILED
  | TELEMETRY_INVALID_ARGS
  | TELEMETRY_NOT_INITIALIZED

text \<open>The value of an enumerator, as the messages print it.\<close>

fun telemetry_code :: "eCpuTelemetryReturnCode \<Rightarrow> nat" where
  "telemetry_code TELEMETRY_SUCCESS = 0"
| "telemetry_code TELEMETRY_FAILED = 1"
| "telemetry_code TELEMETRY_INVALID_ARGS = 2"
| "telemetry_code TELEMETRY_NOT_INITIALIZED = 3"

datatype eCpuTelemetrySource = SOURCE_NTQUERY | SOURCE_PDH

record CpuCoreMetrics =
  cc_id :: u32
  cc_utilization :: double
  cc_frequency :: u32
  cc_maximum_frequency :: u32

record CpuMetrics =
  cm_total_utilization :: double
  cm_total_frequency :: double
  cm_num_cores :: u32
  cm_cores :: "CpuCoreMetrics list"

definition zero_core_metrics :: CpuCoreMetrics where
  "zero_core_metrics = \<lparr>cc_id = 0, cc_utilization = 0, cc_frequency = 0, cc_maximum_frequency = 0\<rparr>"

definition zero_cpu_metrics :: CpuMetrics where
  "zero_cpu_metrics = \<lparr>cm_total_utilization = 0, cm_total_frequency = 0, cm_num_cores = 0,
     cm_cores = replicate CPU_TELEMETRY_MAX_CORES zero_core_metrics\<rparr>"

text \<open>
  The answers of one collection: the idle, kernel and user times of each processor and its current and
  maximal frequency (\<open>None\<close>: the call failed); whether the counters of PDH could be collected; and the
  formatted value of a counter, by its path. A frequency counter is a 32-bit raw count.
\<close>

record telemetry_env =
  te_performance :: "(nat \<Rightarrow> u64 \<times> u64 \<times> u64) option"
  te_power :: "(nat \<Rightarrow> u32 \<times> u32) option"
  te_collected :: bool
  te_utility :: "string \<Rightarrow> double option"
  te_frequency :: "string \<Rightarrow> u32 option"

section \<open>NtQuerySystemInformation\<close>

record ntquery_state =
  g_nt_query :: bool
  g_num_cpus :: u32
  g_ntquery_initialized :: bool
  g_prev_idle :: "u64 list"
  g_prev_kernel :: "u64 list"
  g_prev_user :: "u64 list"

definition initial_ntquery :: ntquery_state where
  "initial_ntquery = \<lparr>g_nt_query = False, g_num_cpus = 0, g_ntquery_initialized = False,
     g_prev_idle = replicate CPU_TELEMETRY_MAX_CORES 0, g_prev_kernel = replicate CPU_TELEMETRY_MAX_CORES 0,
     g_prev_user = replicate CPU_TELEMETRY_MAX_CORES 0\<rparr>"

text \<open>The number of processors, at most as many as the arrays hold.\<close>

definition clamp_processors :: "u32 \<Rightarrow> u32" where
  "clamp_processors n = (if n > of_nat CPU_TELEMETRY_MAX_CORES then of_nat CPU_TELEMETRY_MAX_CORES else n)"

definition cpuTelemetryNtQuery_init :: "u32 \<Rightarrow> oom \<Rightarrow> ntquery_state \<Rightarrow> eCpuTelemetryReturnCode \<times> oom \<times> ntquery_state" where
  "cpuTelemetryNtQuery_init processors script s =
     (if g_ntquery_initialized s then (TELEMETRY_SUCCESS, script, s)
      else let (found, script1) = calloc_ok script
           in if \<not> found then (TELEMETRY_FAILED, script1, s)
              else let (have, script2) = calloc_ok script1
                   in if \<not> have then (TELEMETRY_FAILED, script2, s\<lparr>g_nt_query := False\<rparr>)
                      else (TELEMETRY_SUCCESS, script2,
                            s\<lparr>g_nt_query := True, g_num_cpus := clamp_processors processors,
                              g_prev_idle := replicate CPU_TELEMETRY_MAX_CORES 0,
                              g_prev_kernel := replicate CPU_TELEMETRY_MAX_CORES 0,
                              g_prev_user := replicate CPU_TELEMETRY_MAX_CORES 0, g_ntquery_initialized := True\<rparr>))"

definition cpuTelemetryNtQuery_getNumCores ::
  "u32 \<Rightarrow> u32 option \<Rightarrow> ntquery_state \<Rightarrow> eCpuTelemetryReturnCode \<times> u32 option" where
  "cpuTelemetryNtQuery_getNumCores processors num_cores s =
     (case num_cores of
        None \<Rightarrow> (TELEMETRY_INVALID_ARGS, None)
      | Some _ \<Rightarrow> (TELEMETRY_SUCCESS, Some (if g_ntquery_initialized s then g_num_cpus s else clamp_processors processors)))"

text \<open>A figure in percent of \<open>whole\<close>, as both formulas of the function compute it.\<close>

definition busy_percent :: "u64 \<Rightarrow> u64 \<Rightarrow> double" where
  "busy_percent whole idle = 100 * of_nat (unat (whole - idle)) / of_nat (unat whole)"

text \<open>The differences of the idle, kernel and user times, summed over the processors so far.\<close>

type_synonym time_sums = "u64 \<times> u64 \<times> u64"

text \<open>One round of the loop over the processors.\<close>

definition ntquery_round ::
  "(nat \<Rightarrow> u64 \<times> u64 \<times> u64) \<Rightarrow> (nat \<Rightarrow> u32 \<times> u32) \<Rightarrow> nat \<Rightarrow> time_sums \<times> CpuMetrics \<times> ntquery_state
     \<Rightarrow> (time_sums \<times> CpuMetrics \<times> ntquery_state) outcome" where
  "ntquery_round perf pw cpu a =
     (case (a, perf cpu, pw cpu) of
        (((ti, tk, tu), m, s), (idl, krn, usr), (cur, mx)) \<Rightarrow>
          obind (arr_read (g_prev_idle s) cpu) (\<lambda>pi.
          obind (arr_read (g_prev_kernel s) cpu) (\<lambda>pk.
          obind (arr_read (g_prev_user s) cpu) (\<lambda>pu.
            let di = idl - pi; dk = krn - pk; du = usr - pu; whole = dk + du;
                util = (if pk \<noteq> 0 \<and> whole > 0 then busy_percent whole di else 0);
                diffs = (if pk \<noteq> 0 then (ti + di, tk + dk, tu + du) else (ti, tk, tu));
                s' = s\<lparr>g_prev_idle := (g_prev_idle s)[cpu := idl], g_prev_kernel := (g_prev_kernel s)[cpu := krn],
                       g_prev_user := (g_prev_user s)[cpu := usr]\<rparr>
            in obind (arr_write (cm_cores m) cpu
                        \<lparr>cc_id = of_nat cpu, cc_utilization = util, cc_frequency = cur, cc_maximum_frequency = mx\<rparr>) (\<lambda>cs.
                 Ret (diffs, m\<lparr>cm_cores := cs, cm_total_frequency := cm_total_frequency m + of_nat (unat cur)\<rparr>, s')))))) "

fun ntquery_loop ::
  "(nat \<Rightarrow> u64 \<times> u64 \<times> u64) \<Rightarrow> (nat \<Rightarrow> u32 \<times> u32) \<Rightarrow> nat \<Rightarrow> nat \<Rightarrow> time_sums \<times> CpuMetrics \<times> ntquery_state
     \<Rightarrow> (time_sums \<times> CpuMetrics \<times> ntquery_state) outcome" where
  "ntquery_loop perf pw cpu 0 a = Ret a"
| "ntquery_loop perf pw cpu (Suc n) a =
     obind (ntquery_round perf pw cpu a) (\<lambda>a'. ntquery_loop perf pw (Suc cpu) n a')"

text \<open>The figures are written through the pointer also when the call fails.\<close>

definition cpuTelemetryNtQuery_collect ::
  "telemetry_env \<Rightarrow> CpuMetrics option \<Rightarrow> ntquery_state \<Rightarrow> (eCpuTelemetryReturnCode \<times> CpuMetrics option \<times> ntquery_state) outcome" where
  "cpuTelemetryNtQuery_collect env metrics s =
     (if metrics = None then Ret (TELEMETRY_INVALID_ARGS, None, s)
      else if \<not> g_ntquery_initialized s then Ret (TELEMETRY_NOT_INITIALIZED, metrics, s)
      else let m = zero_cpu_metrics\<lparr>cm_num_cores := g_num_cpus s\<rparr>
           in if \<not> g_nt_query s then Stuck BadDeref
              else case te_performance env of
                     None \<Rightarrow> Ret (TELEMETRY_FAILED, Some m, s)
                   | Some perf \<Rightarrow>
                       (case te_power env of
                          None \<Rightarrow> Ret (TELEMETRY_FAILED, Some m, s)
                        | Some pw \<Rightarrow>
                            obind (ntquery_loop perf pw 0 (unat (g_num_cpus s)) ((0, 0, 0), m, s)) (\<lambda>((ti, tk, tu), m1, s1).
                              let whole = tk + tu;
                                  m2 = (if whole > 0 then m1\<lparr>cm_total_utilization := busy_percent whole ti\<rparr> else m1);
                                  m3 = (if g_num_cpus s1 > 0
                                        then m2\<lparr>cm_total_frequency := cm_total_frequency m2 / of_nat (unat (g_num_cpus s1))\<rparr> else m2)
                              in Ret (TELEMETRY_SUCCESS, Some m3, s1))))"

definition cpuTelemetryNtQuery_destroy :: "ntquery_state \<Rightarrow> eCpuTelemetryReturnCode \<times> ntquery_state" where
  "cpuTelemetryNtQuery_destroy s = (TELEMETRY_SUCCESS, if g_ntquery_initialized s then initial_ntquery else s)"

section \<open>Performance Data Helper\<close>

text \<open>A counter handle is the path it was added with.\<close>

record pdh_state =
  g_query :: bool
  g_util_counters :: "string option list"
  g_freq_counter :: "string option list"
  g_total_util_counter :: "string option"
  g_num_cores :: u32
  g_initialized :: bool

definition initial_pdh :: pdh_state where
  "initial_pdh = \<lparr>g_query = False, g_util_counters = replicate CPU_TELEMETRY_MAX_CORES None,
     g_freq_counter = replicate CPU_TELEMETRY_MAX_CORES None, g_total_util_counter = None, g_num_cores = 0,
     g_initialized = False\<rparr>"

definition total_utility_path :: string where
  "total_utility_path = [CHR 0x5C] @ ''Processor Information(_Total)'' @ [CHR 0x5C] @ ''% Processor Utility''"

definition total_time_path :: string where
  "total_time_path = [CHR 0x5C] @ ''Processor(_Total)'' @ [CHR 0x5C] @ ''% Processor Time''"

definition core_utility_path :: "nat \<Rightarrow> string" where
  "core_utility_path i = [CHR 0x5C] @ ''Processor Information(0,'' @ show_u i @ '')'' @ [CHR 0x5C] @ ''% Processor Utility''"

definition core_time_path :: "nat \<Rightarrow> string" where
  "core_time_path i = [CHR 0x5C] @ ''Processor('' @ show_u i @ '')'' @ [CHR 0x5C] @ ''% Processor Time''"

definition core_frequency_path :: "nat \<Rightarrow> string" where
  "core_frequency_path i = [CHR 0x5C] @ ''Processor Information(0,'' @ show_u i @ '')'' @ [CHR 0x5C] @ ''Processor Frequency''"

text \<open>\<open>PdhAddEnglishCounterA\<close>; the path is what fits the buffer of 128 characters.\<close>

definition add_counter :: "string \<Rightarrow> oom \<Rightarrow> string option \<times> oom" where
  "add_counter path script = (let (ok, rest) = calloc_ok script in (if ok then Some (snprintf_buf 128 path) else None, rest))"

text \<open>The utility counter of a processor, else its legacy counter, else no counter.\<close>

fun add_util_counters :: "nat \<Rightarrow> nat \<Rightarrow> string option list \<Rightarrow> oom \<Rightarrow> (string option list \<times> oom) outcome" where
  "add_util_counters i 0 cs script = Ret (cs, script)"
| "add_util_counters i (Suc n) cs script =
     (let (c, script1) = add_counter (core_utility_path i) script;
          (c', script2) = (if c \<noteq> None then (c, script1) else add_counter (core_time_path i) script1)
      in obind (arr_write cs i c') (\<lambda>cs'. add_util_counters (Suc i) n cs' script2))"

fun add_freq_counters :: "nat \<Rightarrow> nat \<Rightarrow> string option list \<Rightarrow> oom \<Rightarrow> (string option list \<times> oom) outcome" where
  "add_freq_counters i 0 cs script = Ret (cs, script)"
| "add_freq_counters i (Suc n) cs script =
     (let (c, script1) = add_counter (core_frequency_path i) script
      in obind (arr_write cs i c) (\<lambda>cs'. add_freq_counters (Suc i) n cs' script1))"

definition cpuTelemetryPdh_init :: "u32 \<Rightarrow> oom \<Rightarrow> pdh_state \<Rightarrow> (eCpuTelemetryReturnCode \<times> oom \<times> pdh_state) outcome" where
  "cpuTelemetryPdh_init processors script s =
     (if g_initialized s then Ret (TELEMETRY_SUCCESS, script, s)
      else let s1 = s\<lparr>g_num_cores := clamp_processors processors\<rparr>;
               (opened, script1) = calloc_ok script
           in if \<not> opened then Ret (TELEMETRY_FAILED, script1, s1)
              else let (c, script2) = add_counter total_utility_path script1;
                       (c', script3) = (if c \<noteq> None then (c, script2) else add_counter total_time_path script2)
                   in if c' = None then Ret (TELEMETRY_FAILED, script3, s1\<lparr>g_query := False\<rparr>)
                      else obind (add_util_counters 0 (unat (g_num_cores s1)) (g_util_counters s1) script3) (\<lambda>(us, script4).
                           obind (add_freq_counters 0 (unat (g_num_cores s1)) (g_freq_counter s1) script4) (\<lambda>(fs, script5).
                             Ret (TELEMETRY_SUCCESS, script5,
                                  s1\<lparr>g_query := True, g_total_util_counter := c', g_util_counters := us, g_freq_counter := fs,
                                     g_initialized := True\<rparr>))))"

definition cpuTelemetryPdh_getNumCores :: "u32 \<Rightarrow> u32 option \<Rightarrow> pdh_state \<Rightarrow> eCpuTelemetryReturnCode \<times> u32 option" where
  "cpuTelemetryPdh_getNumCores processors num_cores s =
     (case num_cores of
        None \<Rightarrow> (TELEMETRY_INVALID_ARGS, None)
      | Some _ \<Rightarrow> (TELEMETRY_SUCCESS, Some (if g_initialized s then g_num_cores s else clamp_processors processors)))"

text \<open>A core's figures from the counters it has; a counter without a value leaves zero.\<close>

fun pdh_loop ::
  "telemetry_env \<Rightarrow> nat \<Rightarrow> nat \<Rightarrow> pdh_state \<Rightarrow> CpuMetrics \<Rightarrow> double \<Rightarrow> (CpuMetrics \<times> double) outcome" where
  "pdh_loop env i 0 s m freq_sum = Ret (m, freq_sum)"
| "pdh_loop env i (Suc n) s m freq_sum =
     obind (arr_read (cm_cores m) i) (\<lambda>c.
     obind (arr_read (g_util_counters s) i) (\<lambda>u.
     obind (arr_read (g_freq_counter s) i) (\<lambda>f.
       let c1 = c\<lparr>cc_id := of_nat i\<rparr>;
           c2 = (case Option.bind u (te_utility env) of Some v \<Rightarrow> c1\<lparr>cc_utilization := v\<rparr> | None \<Rightarrow> c1);
           freq = Option.bind f (te_frequency env);
           c3 = (case freq of Some v \<Rightarrow> c2\<lparr>cc_frequency := v\<rparr> | None \<Rightarrow> c2)
       in pdh_loop env (Suc i) n s (m\<lparr>cm_cores := (cm_cores m)[i := c3]\<rparr>)
            (case freq of Some v \<Rightarrow> freq_sum + of_nat (unat v) | None \<Rightarrow> freq_sum))))"

definition cpuTelemetryPdh_collect ::
  "telemetry_env \<Rightarrow> CpuMetrics option \<Rightarrow> pdh_state \<Rightarrow> (eCpuTelemetryReturnCode \<times> CpuMetrics option \<times> pdh_state) outcome" where
  "cpuTelemetryPdh_collect env info s =
     (if info = None then Ret (TELEMETRY_INVALID_ARGS, None, s)
      else if \<not> g_initialized s then Ret (TELEMETRY_NOT_INITIALIZED, info, s)
      else let m = zero_cpu_metrics\<lparr>cm_num_cores := g_num_cores s\<rparr>
           in if \<not> te_collected env then Ret (TELEMETRY_FAILED, Some m, s)
              else let m1 = (case Option.bind (g_total_util_counter s) (te_utility env) of
                               Some v \<Rightarrow> m\<lparr>cm_total_utilization := v\<rparr> | None \<Rightarrow> m)
                   in obind (pdh_loop env 0 (unat (g_num_cores s)) s m1 0) (\<lambda>(m2, freq_sum).
                        Ret (TELEMETRY_SUCCESS,
                             Some (if g_num_cores s > 0
                                   then m2\<lparr>cm_total_frequency := freq_sum / of_nat (unat (g_num_cores s))\<rparr> else m2), s)))"

definition cpuTelemetryPdh_destroy :: "pdh_state \<Rightarrow> eCpuTelemetryReturnCode \<times> pdh_state" where
  "cpuTelemetryPdh_destroy s = (TELEMETRY_SUCCESS, if g_initialized s then initial_pdh else s)"

end
