(* ===== verification/WosCpu.thy ===== *)
theory WosCpu
  imports WosSession WosTelemetry OsUtils Core
begin

text \<open>
  The CPU backend for Windows, \<open>backends/wos-cpu\<close>: its metric table (\<open>wos_cpu_info.h\<close>), its logger
  (\<open>wos_cpu_logger.c\<close>), its seven operations and its collection thread (\<open>wos_cpu.c\<close>), over the telemetry of
  \<open>WosTelemetry\<close>. Theorems are in \<open>WosCpuProps\<close> and \<open>WosCpuThread\<close>.
\<close>

section \<open>The metric table\<close>

abbreviation (input) WOS_CPU_MAX_CORES :: u32 where "WOS_CPU_MAX_CORES \<equiv> 18"
abbreviation (input) WOS_CPU_METRICS_PER_CORE :: u32 where "WOS_CPU_METRICS_PER_CORE \<equiv> 3"
abbreviation (input) WOS_CPU_TOTAL_METRICS :: u32 where "WOS_CPU_TOTAL_METRICS \<equiv> 2"
abbreviation (input) WOS_CPU_CAPABILITY_ID :: u8 where "WOS_CPU_CAPABILITY_ID \<equiv> 0"
abbreviation (input) WOS_CPU_CAPABILITIES_LEN :: nat where "WOS_CPU_CAPABILITIES_LEN \<equiv> 1"
abbreviation (input) WOS_CPU_TOTAL_UTIL_ID :: u16 where "WOS_CPU_TOTAL_UTIL_ID \<equiv> 0"
abbreviation (input) WOS_CPU_TOTAL_FREQ_ID :: u16 where "WOS_CPU_TOTAL_FREQ_ID \<equiv> 1"
abbreviation (input) WOS_CPU_UTIL_OFFSET :: u16 where "WOS_CPU_UTIL_OFFSET \<equiv> 0"
abbreviation (input) WOS_CPU_FREQ_OFFSET :: u16 where "WOS_CPU_FREQ_OFFSET \<equiv> 1"
abbreviation (input) WOS_CPU_MAX_FREQ_OFFSET :: u16 where "WOS_CPU_MAX_FREQ_OFFSET \<equiv> 2"

definition wos_cpu_streaming_rates :: "u16 list" where
  "wos_cpu_streaming_rates = [200, 500, 1000]"

definition wos_cpu_sampling_rates :: "u16 list" where
  "wos_cpu_sampling_rates = [100, 200, 500]"

definition WOS_CPU_CORE_BASE_ID :: "u32 \<Rightarrow> u16" where
  "WOS_CPU_CORE_BASE_ID core_id = ucast (2 + core_id * WOS_CPU_METRICS_PER_CORE)"

text \<open>The lengths are what \<open>snprintf\<close> answers, the length of the whole text, cut to 8 bits.\<close>

definition wos_metric :: "u16 \<Rightarrow> string \<Rightarrow> string \<Rightarrow> string \<Rightarrow> QcPerfMetricInfo" where
  "wos_metric i name desc unit =
     \<lparr>mi_metric_id = i,
      mi_name = snprintf_buf METRIC_NAME_MAX_LEN name, mi_name_len = length name mod 256,
      mi_description = snprintf_buf MAX_METRIC_DESCRIPTION_LEN desc, mi_description_len = length desc mod 256,
      mi_unit = snprintf_buf MAX_METRIC_UNIT_LEN unit, mi_unit_len = length unit mod 256\<rparr>"

definition wos_total_util_metric :: QcPerfMetricInfo where
  "wos_total_util_metric =
     wos_metric WOS_CPU_TOTAL_UTIL_ID ''Total CPU Utilization'' ''Total CPU utilization averaged across all cores'' ''%''"

definition wos_total_freq_metric :: QcPerfMetricInfo where
  "wos_total_freq_metric =
     wos_metric WOS_CPU_TOTAL_FREQ_ID ''Average CPU Frequency'' ''Average CPU frequency across all cores'' ''MHz''"

definition wos_core_util_metric :: "nat \<Rightarrow> QcPerfMetricInfo" where
  "wos_core_util_metric k = wos_metric (WOS_CPU_CORE_BASE_ID (of_nat k) + WOS_CPU_UTIL_OFFSET)
     (''CPU Core '' @ show_u k @ '' Utilization'') (''CPU core '' @ show_u k @ '' utilization percentage'') ''%''"

definition wos_core_freq_metric :: "nat \<Rightarrow> QcPerfMetricInfo" where
  "wos_core_freq_metric k = wos_metric (WOS_CPU_CORE_BASE_ID (of_nat k) + WOS_CPU_FREQ_OFFSET)
     (''CPU Core '' @ show_u k @ '' Frequency'') (''CPU core '' @ show_u k @ '' current frequency'') ''MHz''"

definition wos_core_max_freq_metric :: "nat \<Rightarrow> QcPerfMetricInfo" where
  "wos_core_max_freq_metric k = wos_metric (WOS_CPU_CORE_BASE_ID (of_nat k) + WOS_CPU_MAX_FREQ_OFFSET)
     (''CPU Core '' @ show_u k @ '' Max Frequency'') (''CPU core '' @ show_u k @ '' maximum frequency'') ''MHz''"

text \<open>The loop over the cores: \<open>n\<close> more from \<open>k\<close>, the next metric goes to \<open>i\<close>.\<close>

fun wos_core_metrics :: "nat \<Rightarrow> nat \<Rightarrow> nat \<Rightarrow> QcPerfMetricInfo list \<Rightarrow> (QcPerfMetricInfo list \<times> nat) outcome" where
  "wos_core_metrics k 0 i ms = Ret (ms, i)"
| "wos_core_metrics k (Suc n) i ms =
     obind (arr_write ms i (wos_core_util_metric k)) (\<lambda>m1.
     obind (arr_write m1 (i + 1) (wos_core_freq_metric k)) (\<lambda>m2.
     obind (arr_write m2 (i + 2) (wos_core_max_freq_metric k)) (\<lambda>m3.
       wos_core_metrics (Suc k) n (i + 3) m3)))"

section \<open>State\<close>

text \<open>
  The environment of an iteration: the performance counter and its frequency at the three readings of the
  clock, the telemetry's answers, and whether \<open>CloseHandle\<close> succeeds.
\<close>

record wos_env =
  we_now :: "i64 \<times> i64"
  we_end :: "i64 \<times> i64"
  we_restart :: "i64 \<times> i64"
  we_telemetry :: telemetry_env
  we_closes :: bool

text \<open>\<open>get_time_ns(&t)\<close> where \<open>t\<close> holds \<open>old\<close>; the return code is ignored.\<close>

definition win_now :: "i64 \<times> i64 \<Rightarrow> u64 \<Rightarrow> u64" where
  "win_now c old = (case snd (windows_get_time_ns (fst c) (snd c) (Some old)) of Some t \<Rightarrow> t | None \<Rightarrow> 0)"

text \<open>The local variables of the thread between two iterations; the response count is in \<open>wl_index\<close>.\<close>

record wos_local =
  wl_request :: QcPerfRequest
  wl_sample_count :: u32
  wl_allocated :: u32
  wl_data :: QcPerfData
  wl_index :: u32
  wl_current_sample :: u16
  wl_start_time :: u64
  wl_current_time :: u64
  wl_end_time :: u64
  wl_cpu_info :: CpuMetrics
  wl_slept :: nat

record wos_cpu_state = "wos_local session" +
  w_processors :: u32
  g_telemetry_source :: eCpuTelemetrySource
  g_ntquery :: ntquery_state
  g_pdh :: pdh_state

definition initial_wos_cpu :: "u32 \<Rightarrow> oom \<Rightarrow> wos_cpu_state" where
  "initial_wos_cpu processors faults = session.extend (initial_session faults)
     \<lparr>w_processors = processors, g_telemetry_source = SOURCE_NTQUERY, g_ntquery = initial_ntquery, g_pdh = initial_pdh\<rparr>"

section \<open>The logger\<close>

definition wos_cpu_log_message :: "QcPerfMessageLevel \<Rightarrow> string \<Rightarrow> wos_cpu_state \<Rightarrow> wos_cpu_state" where
  "wos_cpu_log_message level txt s =
     (if g_message_callback s \<noteq> None
      then (if length txt > 0 then post_message (message_clamped 0 level txt) s else s)
      else s)"

definition WOS_SEND :: "QcPerfMessageLevel \<Rightarrow> string \<Rightarrow> wos_cpu_state \<Rightarrow> wos_cpu_state" where
  "WOS_SEND level txt s = (if g_message_callback s \<noteq> None then wos_cpu_log_message level txt s else s)"

text \<open>\<open>%.2f\<close>, rounded to the nearest and to even on a tie.\<close>

definition show_2f :: "double \<Rightarrow> string" where
  "show_2f x =
     (let y = \<bar>x\<bar> * 100; k = nat \<lfloor>y\<rfloor>; f = y - of_nat k;
          r = (if f > 1 / 2 \<or> f = 1 / 2 \<and> odd k then Suc k else k)
      in (if x < 0 then ''-'' else '''') @ show_u (r div 100) @ ''.'' @ show_u (r mod 100 div 10) @ show_u (r mod 10))"

section \<open>Memory\<close>

definition wos_cpu_alloc :: "u32 \<Rightarrow> wos_cpu_state \<Rightarrow> QcPerfReturnCode \<times> wos_cpu_state" where
  "wos_cpu_alloc num_cores s =
     (let total_metric_count = WOS_CPU_TOTAL_METRICS + num_cores * WOS_CPU_METRICS_PER_CORE; (ok, s1) = alloc s
      in if \<not> ok then (CALLOC_FAILED, s1\<lparr>g_backend_info := (g_backend_info s1)\<lparr>bi_capabilities_list := None\<rparr>\<rparr>)
         else let (ok2, s2) = alloc (s1\<lparr>sn_table := Suc (sn_table s1),
                  g_backend_info := (g_backend_info s1)
                    \<lparr>bi_capabilities_list := Some (replicate WOS_CPU_CAPABILITIES_LEN zero_capability),
                     bi_capabilities_list_length := of_nat WOS_CPU_CAPABILITIES_LEN\<rparr>\<rparr>)
              in if \<not> ok2
                 then (CALLOC_FAILED, s2\<lparr>g_backend_info := (g_backend_info s2)
                         \<lparr>bi_capabilities_list := None, bi_capabilities_list_length := 0\<rparr>\<rparr>)
                 else (SUCCESS, s2\<lparr>g_backend_info := (g_backend_info s2)
                         \<lparr>bi_capabilities_list := Some [zero_capability
                            \<lparr>ci_metric_ids_list := Some (replicate (unat total_metric_count) zero_metric_info)\<rparr>]\<rparr>\<rparr>))"

definition wos_cpu_free_memory :: "wos_cpu_state \<Rightarrow> wos_cpu_state" where
  "wos_cpu_free_memory s =
     s\<lparr>g_backend_info := (g_backend_info s)\<lparr>bi_capabilities_list := None, bi_capabilities_list_length := 0\<rparr>\<rparr>"

section \<open>Operations\<close>

text \<open>What \<open>wos_cpu_init\<close> writes into the capability.\<close>

definition wos_fill_capability :: "u32 \<Rightarrow> QcPerfCapabilityInfo \<Rightarrow> (QcPerfCapabilityInfo \<times> nat) outcome" where
  "wos_fill_capability num_cores c =
     (let (st, stn) = copy_rates wos_cpu_streaming_rates 0 (ci_streaming_rate c, ci_streaming_rate_len c);
          (sa, san) = copy_rates wos_cpu_sampling_rates 0 (ci_sampling_rate c, ci_sampling_rate_len c)
      in case ci_metric_ids_list c of
           None \<Rightarrow> Stuck BadDeref
         | Some m0 \<Rightarrow>
             obind (arr_write m0 0 wos_total_util_metric) (\<lambda>m1.
             obind (arr_write m1 1 wos_total_freq_metric) (\<lambda>m2.
             obind (wos_core_metrics 0 (unat num_cores) 2 m2) (\<lambda>(ms, metric_index).
               Ret (c\<lparr>ci_capability_id := WOS_CPU_CAPABILITY_ID, ci_name := snprintf_buf CAPABILITY_NAME_MAX_LEN ''cpu'',
                      ci_name_len := length ''cpu'' mod 256,
                      ci_streaming_rate := st, ci_streaming_rate_len := stn,
                      ci_sampling_rate := sa, ci_sampling_rate_len := san,
                      ci_metric_ids_list := Some ms, ci_metric_ids_list_len := of_nat metric_index\<rparr>, metric_index)))))"

text \<open>The second attempt to count the cores asks the same function as the first.\<close>

definition wos_cpu_init :: "wos_cpu_state \<Rightarrow> (QcPerfReturnCode \<times> wos_cpu_state) outcome" where
  "wos_cpu_init s0 =
     (let s = WOS_SEND LEVEL_INFO ''Initializing wos-cpu backend'' s0;
          (ntq_ret, num1) = cpuTelemetryNtQuery_getNumCores (w_processors s) (Some 0) (g_ntquery s);
          (tel_ret, num2) = (if ntq_ret \<noteq> TELEMETRY_SUCCESS
                             then cpuTelemetryNtQuery_getNumCores (w_processors s) num1 (g_ntquery s) else (ntq_ret, num1));
          num = (case num2 of Some n \<Rightarrow> n | None \<Rightarrow> 0)
      in if tel_ret \<noteq> TELEMETRY_SUCCESS
         then Ret (FAILED, wos_cpu_free_memory (WOS_SEND LEVEL_ERROR ''Failed to get CPU core count from both NtQuery and PDH'' s))
         else let num_cores = (if num > WOS_CPU_MAX_CORES then WOS_CPU_MAX_CORES else num);
                  (ret, s1) = wos_cpu_alloc num_cores s
              in if ret \<noteq> SUCCESS
                 then Ret (ret, wos_cpu_free_memory (WOS_SEND LEVEL_ERROR ''Failed to allocate memory for backend'' s1))
                 else case bi_capabilities_list (g_backend_info s1) of
                        None \<Rightarrow> Stuck BadDeref
                      | Some cs \<Rightarrow>
                          obind (arr_read cs 0) (\<lambda>c.
                          obind (wos_fill_capability num_cores c) (\<lambda>(c', metric_index).
                            Ret (SUCCESS, WOS_SEND LEVEL_INFO
                              (''wos-cpu backend initialized: '' @ show_u (unat num_cores) @ '' cores, '' @ show_u metric_index @ '' metrics'')
                              (s1\<lparr>g_backend_info := (g_backend_info s1)
                                    \<lparr>bi_backend_id := of_nat (backend_index BACKEND_WOS_CPU),
                                     bi_capabilities_list := Some (cs[0 := c'])\<rparr>\<rparr>)))))"

definition wos_cpu_info ::
  "QcPerfBackendInfo option \<Rightarrow> wos_cpu_state \<Rightarrow> QcPerfReturnCode \<times> QcPerfBackendInfo option \<times> wos_cpu_state" where
  "wos_cpu_info backend_info s =
     (case backend_info of
        None \<Rightarrow> (NULL_POINTER, None, WOS_SEND LEVEL_ERROR ''backend_info is NULL'' s)
      | Some _ \<Rightarrow> (SUCCESS, Some (g_backend_info s), s))"

definition wos_cpu_set_message_callback :: "callback \<Rightarrow> wos_cpu_state \<Rightarrow> QcPerfReturnCode \<times> wos_cpu_state" where
  "wos_cpu_set_message_callback cb s = (SUCCESS, s\<lparr>g_message_callback := cb\<rparr>)"

definition wos_cpu_set_data_callback :: "callback \<Rightarrow> wos_cpu_state \<Rightarrow> QcPerfReturnCode \<times> wos_cpu_state" where
  "wos_cpu_set_data_callback cb s = (SUCCESS, s\<lparr>g_data_callback := cb\<rparr>)"

text \<open>Opening the telemetry, and closing the source in use.\<close>

definition wos_open_telemetry :: "wos_cpu_state \<Rightarrow> (QcPerfReturnCode \<times> wos_cpu_state) outcome" where
  "wos_open_telemetry s =
     (let (tel_ret, script, nq) = cpuTelemetryNtQuery_init (w_processors s) (sn_faults s) (g_ntquery s);
          s1 = s\<lparr>sn_faults := script, g_ntquery := nq\<rparr>
      in if tel_ret = TELEMETRY_SUCCESS
         then Ret (SUCCESS, WOS_SEND LEVEL_INFO ''CPU telemetry using NtQuerySystemInformation + CallNtPowerInformation''
                (s1\<lparr>g_telemetry_source := SOURCE_NTQUERY\<rparr>))
         else let s2 = WOS_SEND LEVEL_WARNING
                    (''NtQuery init failed (error='' @ show_u (telemetry_code tel_ret) @ ''), trying PDH fallback'') s1
              in obind (cpuTelemetryPdh_init (w_processors s2) (sn_faults s2) (g_pdh s2)) (\<lambda>(pdh_ret, script', p).
                   let s3 = s2\<lparr>sn_faults := script', g_pdh := p\<rparr>
                   in if pdh_ret = TELEMETRY_SUCCESS
                      then Ret (SUCCESS,
                             WOS_SEND LEVEL_WARNING ''PDH does not provide per-core max frequency; max frequency metrics will report 0''
                               (WOS_SEND LEVEL_INFO ''CPU telemetry using Windows PDH (Performance Data Helper)''
                                 (s3\<lparr>g_telemetry_source := SOURCE_PDH\<rparr>)))
                      else Ret (FAILED, WOS_SEND LEVEL_ERROR ''Both NtQuery and PDH telemetry init failed'' s3)))"

definition wos_close_telemetry :: "wos_cpu_state \<Rightarrow> wos_cpu_state" where
  "wos_close_telemetry s =
     (if g_telemetry_source s = SOURCE_NTQUERY then s\<lparr>g_ntquery := snd (cpuTelemetryNtQuery_destroy (g_ntquery s))\<rparr>
      else s\<lparr>g_pdh := snd (cpuTelemetryPdh_destroy (g_pdh s))\<rparr>)"

definition wos_thread_attrs :: "QcPerfRequest \<Rightarrow> QThreadAttributes" where
  "wos_thread_attrs rq =
     \<lparr>thread_name = snprintf_buf THREAD_NAME_SIZE ''wos-cpu-metrics-thread'',
      thread_name_len = of_nat (length (snprintf_buf THREAD_NAME_SIZE ''wos-cpu-metrics-thread'')),
      thread_priority = 0, thread_stack_size = 0, thread_params = Some rq\<rparr>"

definition wos_cpu_start :: "QcPerfRequest option \<Rightarrow> wos_cpu_state \<Rightarrow> (QcPerfReturnCode \<times> wos_cpu_state) outcome" where
  "wos_cpu_start request s =
     (case request of
        None \<Rightarrow> Ret (NULL_POINTER, WOS_SEND LEVEL_ERROR ''QcPerfRequest NULL pointer'' s)
      | Some rq \<Rightarrow>
          if g_data_callback s = None
          then Ret (INVALID_ARGUMENTS, WOS_SEND LEVEL_ERROR ''Data callback is not set'' s)
          else if g_is_thread_running s
          then Ret (ALREADY_INITIALIZED,
                 WOS_SEND LEVEL_INFO (''Already running capability='' @ show_u (unat (rq_capability_id rq))) s)
          else obind (wos_open_telemetry s) (\<lambda>(ret, s1).
            if ret \<noteq> SUCCESS then Ret (ret, s1)
            else let (thread_ret, s2) = windows_spawn (wos_thread_attrs rq) (s1\<lparr>g_is_thread_running := True\<rparr>)
                 in if thread_ret \<noteq> QTHREAD_CREATE_SUCCESS
                    then Ret (FAILED, wos_close_telemetry
                           ((WOS_SEND LEVEL_ERROR ''Failed to start CPU collection thread'' s2)\<lparr>g_is_thread_running := False\<rparr>))
                    else Ret (SUCCESS, WOS_SEND LEVEL_INFO ''CPU collection thread started successfully'' s2)))"

section \<open>The collection thread\<close>

text \<open>From the first statement to the loop. The adjusted rate is stored in the request of the application.\<close>

definition wos_thread_entry ::
  "wos_env \<Rightarrow> QcPerfRequest option \<Rightarrow> wos_cpu_state \<Rightarrow> (wos_local option \<times> wos_cpu_state) outcome" where
  "wos_thread_entry env param s =
     (case param of
        None \<Rightarrow> Ret (None, WOS_SEND LEVEL_ERROR ''request NULL pointer'' s)
      | Some rq0 \<Rightarrow>
          obind (deref_capability (sn_table s) 0 s) (\<lambda>ci.
            let total_metric_count = (ucast (ci_metric_ids_list_len ci) :: u32); (ok, s1) = alloc s
            in if \<not> ok then Ret (None, WOS_SEND LEVEL_ERROR ''Memory allocation failed for QcPerfData'' s1)
               else let bad = (rq_sampling_rate rq0 = 0 \<or> rq_sampling_rate rq0 > rq_streaming_rate rq0);
                        s2 = (if bad then WOS_SEND LEVEL_WARNING
                                (''Sampling rate ('' @ show_u (unat (rq_sampling_rate rq0)) @ '' ms) invalid or exceeds streaming rate ('' @
                                 show_u (unat (rq_streaming_rate rq0)) @ '' ms). Adjusted.'') s1 else s1);
                        rq = (if bad then rq0\<lparr>rq_sampling_rate := rq_streaming_rate rq0\<rparr> else rq0)
                    in if rq_sampling_rate rq = 0 then Stuck DivByZero
                       else let sample_count = (ucast (rq_streaming_rate rq) :: u32) div ucast (rq_sampling_rate rq);
                                allocated = sample_count * total_metric_count; (ok2, s3) = alloc s2
                            in if \<not> ok2 then Ret (None, WOS_SEND LEVEL_ERROR ''Memory allocation for metric responses failed'' s3)
                               else Ret (Some \<lparr>wl_request = rq, wl_sample_count = sample_count, wl_allocated = allocated,
                                           wl_data = \<lparr>pd_backend_id = of_nat (backend_index BACKEND_WOS_CPU),
                                                      pd_capability_id = WOS_CPU_CAPABILITY_ID,
                                                      pd_metric_response = replicate (unat allocated) zero_response,
                                                      pd_metric_response_len = 0\<rparr>,
                                           wl_index = 0, wl_current_sample = 0, wl_start_time = win_now (we_now env) 0,
                                           wl_current_time = 0, wl_end_time = 0, wl_cpu_info = zero_cpu_metrics,
                                           wl_slept = unat (rq_sampling_rate rq)\<rparr>,
                                      WOS_SEND LEVEL_INFO (''Collection thread: sample_count='' @ show_u (unat sample_count) @
                                        '' metrics='' @ show_u (unat total_metric_count) @ '' total='' @ show_u (unat allocated)) s3)))"

definition wos_collect :: "wos_env \<Rightarrow> CpuMetrics \<Rightarrow> wos_cpu_state \<Rightarrow> (eCpuTelemetryReturnCode \<times> CpuMetrics \<times> wos_cpu_state) outcome" where
  "wos_collect env m s =
     (if g_telemetry_source s = SOURCE_NTQUERY
      then obind (cpuTelemetryNtQuery_collect (we_telemetry env) (Some m) (g_ntquery s)) (\<lambda>(rc, m', nq).
             Ret (rc, (case m' of Some x \<Rightarrow> x | None \<Rightarrow> m), s\<lparr>g_ntquery := nq\<rparr>))
      else obind (cpuTelemetryPdh_collect (we_telemetry env) (Some m) (g_pdh s)) (\<lambda>(rc, m', p).
             Ret (rc, (case m' of Some x \<Rightarrow> x | None \<Rightarrow> m), s\<lparr>g_pdh := p\<rparr>)))"

definition clamp_percent :: "double \<Rightarrow> double" where
  "clamp_percent x = (if x < 0 then 0 else if x > 100 then 100 else x)"

text \<open>The warning that goes with a clamped figure.\<close>

definition clamp_warning :: "string \<Rightarrow> double \<Rightarrow> wos_cpu_state \<Rightarrow> wos_cpu_state" where
  "clamp_warning what x s =
     (let src = (if g_telemetry_source s = SOURCE_NTQUERY then ''NtQuery'' else ''PDH'')
      in if x < 0
         then WOS_SEND LEVEL_WARNING (src @ '': '' @ what @ '' utilization below 0% ('' @ show_2f x @ ''), clamping to 0'') s
         else if x > 100
         then WOS_SEND LEVEL_WARNING (src @ '': '' @ what @ '' utilization above 100% ('' @ show_2f x @ ''), clamping to 100'') s
         else s)"

fun clamp_cores :: "nat \<Rightarrow> nat \<Rightarrow> CpuMetrics \<Rightarrow> wos_cpu_state \<Rightarrow> (CpuMetrics \<times> wos_cpu_state) outcome" where
  "clamp_cores k 0 m s = Ret (m, s)"
| "clamp_cores k (Suc n) m s =
     obind (arr_read (cm_cores m) k) (\<lambda>c.
       clamp_cores (Suc k) n (m\<lparr>cm_cores := (cm_cores m)[k := c\<lparr>cc_utilization := clamp_percent (cc_utilization c)\<rparr>]\<rparr>)
         (clamp_warning (''Core '' @ show_u k) (cc_utilization c) s))"

text \<open>Storing one figure at the position; the other members of the value stay as they are.\<close>

type_synonym response_buffer = "QcPerfMetricResponse list \<times> u32"

definition wos_put :: "u64 \<Rightarrow> u16 \<Rightarrow> double \<Rightarrow> response_buffer \<Rightarrow> response_buffer outcome" where
  "wos_put now i v b =
     (case b of (rs, pos) \<Rightarrow>
        obind (arr_read rs (unat pos)) (\<lambda>r.
          Ret (rs[unat pos := \<lparr>mr_timestamp = now, mr_metric_id = i,
                 mr_metric_value = (mr_metric_value r)\<lparr>gt_data_type := TYPE_DOUBLE, gt_double_value := v\<rparr>\<rparr>], pos + 1)))"

definition wos_put_if :: "u32 \<Rightarrow> u64 \<Rightarrow> u16 \<Rightarrow> double \<Rightarrow> response_buffer \<Rightarrow> response_buffer outcome" where
  "wos_put_if allocated now i v b = (if snd b < allocated then wos_put now i v b else Ret b)"

fun wos_put_cores :: "u32 \<Rightarrow> u64 \<Rightarrow> nat \<Rightarrow> nat \<Rightarrow> CpuMetrics \<Rightarrow> response_buffer \<Rightarrow> response_buffer outcome" where
  "wos_put_cores allocated now k 0 m b = Ret b"
| "wos_put_cores allocated now k (Suc n) m b =
     (if \<not> snd b < allocated then Ret b
      else obind (arr_read (cm_cores m) k) (\<lambda>c.
        let base = WOS_CPU_CORE_BASE_ID (of_nat k)
        in obind (wos_put now (base + WOS_CPU_UTIL_OFFSET) (cc_utilization c) b) (\<lambda>b1.
           obind (wos_put_if allocated now (base + WOS_CPU_FREQ_OFFSET) (of_nat (unat (cc_frequency c))) b1) (\<lambda>b2.
           obind (wos_put_if allocated now (base + WOS_CPU_MAX_FREQ_OFFSET) (of_nat (unat (cc_maximum_frequency c))) b2) (\<lambda>b3.
             wos_put_cores allocated now (Suc k) n m b3)))))"

text \<open>The first part of an iteration: a sample is collected, clamped and stored.\<close>

definition wos_sample :: "wos_env \<Rightarrow> u64 \<Rightarrow> wos_local \<Rightarrow> wos_cpu_state \<Rightarrow> (wos_local \<times> wos_cpu_state) outcome" where
  "wos_sample env now l s =
     obind (wos_collect env (wl_cpu_info l) s) (\<lambda>(tel_ret, m, s1).
       if tel_ret \<noteq> TELEMETRY_SUCCESS
       then Ret (l\<lparr>wl_cpu_info := m\<rparr>,
              WOS_SEND LEVEL_ERROR (''cpuTelemetry collect failed with error='' @ show_u (telemetry_code tel_ret)) s1)
       else let x = cm_total_utilization m; m1 = m\<lparr>cm_total_utilization := clamp_percent x\<rparr>
            in obind (clamp_cores 0 (unat (cm_num_cores m1)) m1 (clamp_warning ''Total'' x s1)) (\<lambda>(m2, s2).
               obind (wos_put_if (wl_allocated l) now WOS_CPU_TOTAL_UTIL_ID (cm_total_utilization m2)
                        (pd_metric_response (wl_data l), wl_index l)) (\<lambda>b1.
               obind (wos_put_if (wl_allocated l) now WOS_CPU_TOTAL_FREQ_ID (cm_total_frequency m2) b1) (\<lambda>b2.
               obind (wos_put_cores (wl_allocated l) now 0 (unat (cm_num_cores m2)) m2 b2) (\<lambda>(rs, i).
                 Ret (l\<lparr>wl_cpu_info := m2, wl_data := (wl_data l)\<lparr>pd_metric_response := rs\<rparr>, wl_index := i\<rparr>, s2))))))"

text \<open>The second part: deliver when the batch is complete or the time is over.\<close>

definition wos_stream :: "wos_env \<Rightarrow> wos_local \<Rightarrow> wos_cpu_state \<Rightarrow> wos_local \<times> wos_cpu_state" where
  "wos_stream env l0 s =
     (let l = l0\<lparr>wl_current_sample := wl_current_sample l0 + 1, wl_end_time := win_now (we_end env) (wl_end_time l0)\<rparr>;
          elapsed_ms = (wl_end_time l - wl_start_time l) div 1000000
      in if wl_sample_count l \<le> ucast (wl_current_sample l) \<or> wl_allocated l \<le> wl_index l \<or>
            ucast (rq_streaming_rate (wl_request l)) < elapsed_ms
         then let (l1, s1) =
                (if wl_index l = 0 then (l, WOS_SEND LEVEL_ERROR ''No profiling data collected'' s)
                 else let d = (wl_data l)\<lparr>pd_metric_response_len := unat (wl_index l)\<rparr>
                      in (l\<lparr>wl_data := d, wl_index := 0, wl_current_sample := 0\<rparr>,
                          case g_data_callback s of
                            Some cb \<Rightarrow> s\<lparr>sn_data := sn_data s @ [(cb, d)]\<rparr>
                          | None \<Rightarrow> WOS_SEND LEVEL_ERROR ''Data callback is NULL'' s))
              in (l1\<lparr>wl_start_time := win_now (we_restart env) (wl_start_time l1)\<rparr>, s1)
         else (l, s))"

definition wos_thread_iterate :: "wos_env \<Rightarrow> wos_local \<Rightarrow> wos_cpu_state \<Rightarrow> (wos_local \<times> wos_cpu_state) outcome" where
  "wos_thread_iterate env l s =
     (let now = win_now (we_now env) (wl_current_time l)
      in obind (wos_sample env now (l\<lparr>wl_current_time := now\<rparr>) s) (\<lambda>(l1, s1).
           let (l2, s2) = wos_stream env l1 s1
           in Ret (l2\<lparr>wl_slept := unat (rq_sampling_rate (wl_request l2))\<rparr>, s2)))"

text \<open>After the loop the responses and the data are freed.\<close>

definition wos_thread_finish :: "wos_local \<Rightarrow> wos_cpu_state \<Rightarrow> wos_cpu_state outcome" where
  "wos_thread_finish l s = Ret s"

definition wos_thread :: "wos_env \<Rightarrow> (wos_local, wos_cpu_state) thread_code" where
  "wos_thread env = \<lparr>th_entry = wos_thread_entry env, th_finish = wos_thread_finish\<rparr>"

section \<open>Stop, deinitialisation and creation\<close>

definition wos_cpu_stop :: "wos_env \<Rightarrow> QcPerfRequest option \<Rightarrow> wos_cpu_state \<Rightarrow> (QcPerfReturnCode \<times> wos_cpu_state) outcome" where
  "wos_cpu_stop env request s0 =
     (let s = WOS_SEND LEVEL_DEBUG ''Stopping wos-cpu profiling'' s0
      in obind
           (case request of
              None \<Rightarrow> Ret (NULL_POINTER, WOS_SEND LEVEL_ERROR ''QcPerfRequest NULL pointer'' s)
            | Some rq \<Rightarrow>
                if \<not> g_is_thread_running s
                then Ret (SUCCESS, WOS_SEND LEVEL_INFO (''Already stopped capability='' @ show_u (unat (rq_capability_id rq))) s)
                else obind (thread_join (wait_exit (wos_thread env)) (Some (g_thread_info s)) (s\<lparr>g_is_thread_running := False\<rparr>))
                       (\<lambda>(jr, s1).
                         if jr \<noteq> QTHREAD_JOIN_SUCCESS
                         then Ret (FAILED, wos_close_telemetry (WOS_SEND LEVEL_ERROR ''Failed to join CPU collection thread'' s1))
                         else let (dr, ti) = windows_thread_destroy (Some (g_thread_info s1)) (we_closes env);
                                  s2 = s1\<lparr>g_thread_info := (case ti of Some i \<Rightarrow> i | None \<Rightarrow> g_thread_info s1)\<rparr>
                              in if dr \<noteq> QTHREAD_DESTROY_SUCCESS
                                 then Ret (FAILED, wos_close_telemetry (WOS_SEND LEVEL_ERROR ''Failed to destroy thread handle'' s2))
                                 else Ret (SUCCESS, wos_close_telemetry
                                        (WOS_SEND LEVEL_INFO ''CPU collection thread stopped successfully'' s2))))
           (\<lambda>(rc, s'). Ret (rc, WOS_SEND LEVEL_DEBUG ''wos-cpu profiling stopped'' s')))"

definition wos_cpu_deinit :: "wos_cpu_state \<Rightarrow> QcPerfReturnCode \<times> wos_cpu_state" where
  "wos_cpu_deinit s =
     (SUCCESS, (wos_cpu_free_memory (WOS_SEND LEVEL_INFO ''Deinitializing wos-cpu backend'' s))\<lparr>g_data_callback := None\<rparr>)"

definition wos_cpu_create :: "wos_env \<Rightarrow> wos_cpu_state backend_init_t" where
  "wos_cpu_create env backend =
     (case backend of
        None \<Rightarrow> (NULL_POINTER, None)
      | Some p \<Rightarrow> (SUCCESS, Some (p\<lparr>
          qcperf_backend_init := Some wos_cpu_init,
          qcperf_backend_start := Some wos_cpu_start,
          qcperf_backend_stop := Some (wos_cpu_stop env),
          qcperf_backend_deinit := Some (\<lambda>s. Ret (wos_cpu_deinit s)),
          qcperf_backend_info := Some (\<lambda>i s. Ret (wos_cpu_info i s)),
          set_message_callback := Some (\<lambda>cb s. Ret (wos_cpu_set_message_callback cb s)),
          set_data_callback := Some (\<lambda>cb s. Ret (wos_cpu_set_data_callback cb s))\<rparr>)))"

end
