(* ===== verification/WosTelemetryProps.thy ===== *)
theory WosTelemetryProps
  imports WosTelemetry
begin

text \<open>
  Correctness of the CPU telemetry of Windows. The locale \<open>telemetry_source\<close> is what both readers promise the
  backend; the figures of the first reader are compared with the share of busy time they stand for.
\<close>

section \<open>Rewriting a range of an array\<close>

definition rewritten :: "nat \<Rightarrow> nat \<Rightarrow> (nat \<Rightarrow> 'a) \<Rightarrow> 'a list \<Rightarrow> 'a list" where
  "rewritten k n f xs = map (\<lambda>i. if k \<le> i \<and> i < k + n then f i else xs ! i) [0..<length xs]"

lemma rewritten_simps [simp]:
  "length (rewritten k n f xs) = length xs" "rewritten k 0 f xs = xs"
  "i < length xs \<Longrightarrow> rewritten k n f xs ! i = (if k \<le> i \<and> i < k + n then f i else xs ! i)"
  by (auto simp: rewritten_def intro!: nth_equalityI)

lemma rewritten_Suc: "k < length xs \<Longrightarrow> rewritten (Suc k) n f (xs[k := f k]) = rewritten k (Suc n) f xs"
  by (auto intro!: nth_equalityI simp: nth_list_update_if)

lemma rewritten_cong:
  "(\<And>i. k \<le> i \<Longrightarrow> i < k + n \<Longrightarrow> f i = g i) \<Longrightarrow> rewritten k n f xs = rewritten k n g xs"
  by (auto simp: rewritten_def)

lemma clamp_processors_le: "unat (clamp_processors n) \<le> 18"
  by (auto simp: clamp_processors_def word_less_nat_alt not_less)

section \<open>The loop over the processors\<close>

text \<open>The differences since the last collection, zero while there was none.\<close>

definition core_diff :: "(nat \<Rightarrow> u64 \<times> u64 \<times> u64) \<Rightarrow> ntquery_state \<Rightarrow> nat \<Rightarrow> time_sums" where
  "core_diff perf s i =
     (if g_prev_kernel s ! i = 0 then (0, 0, 0)
      else (fst (perf i) - g_prev_idle s ! i, fst (snd (perf i)) - g_prev_kernel s ! i, snd (snd (perf i)) - g_prev_user s ! i))"

definition core_figures :: "(nat \<Rightarrow> u64 \<times> u64 \<times> u64) \<Rightarrow> (nat \<Rightarrow> u32 \<times> u32) \<Rightarrow> ntquery_state \<Rightarrow> nat \<Rightarrow> CpuCoreMetrics" where
  "core_figures perf pw s i =
     (case core_diff perf s i of (di, dk, du) \<Rightarrow>
        \<lparr>cc_id = of_nat i, cc_utilization = (if dk + du > 0 then busy_percent (dk + du) di else 0),
         cc_frequency = fst (pw i), cc_maximum_frequency = snd (pw i)\<rparr>)"

definition idle_diff :: "(nat \<Rightarrow> u64 \<times> u64 \<times> u64) \<Rightarrow> ntquery_state \<Rightarrow> nat \<Rightarrow> u64" where
  "idle_diff perf s i = fst (core_diff perf s i)"

definition busy_diff :: "(nat \<Rightarrow> u64 \<times> u64 \<times> u64) \<Rightarrow> ntquery_state \<Rightarrow> nat \<Rightarrow> u64" where
  "busy_diff perf s i = fst (snd (core_diff perf s i)) + snd (snd (core_diff perf s i))"

definition remembered :: "(nat \<Rightarrow> u64 \<times> u64 \<times> u64) \<Rightarrow> nat \<Rightarrow> nat \<Rightarrow> ntquery_state \<Rightarrow> ntquery_state" where
  "remembered perf k n s =
     s\<lparr>g_prev_idle := rewritten k n (\<lambda>i. fst (perf i)) (g_prev_idle s),
       g_prev_kernel := rewritten k n (\<lambda>i. fst (snd (perf i))) (g_prev_kernel s),
       g_prev_user := rewritten k n (\<lambda>i. snd (snd (perf i))) (g_prev_user s)\<rparr>"

definition history_arrays :: "ntquery_state \<Rightarrow> bool" where
  "history_arrays s \<longleftrightarrow> length (g_prev_idle s) = 18 \<and> length (g_prev_kernel s) = 18 \<and> length (g_prev_user s) = 18"

lemma history_remembered [simp]: "history_arrays (remembered perf k n s) = history_arrays s"
  by (simp add: history_arrays_def remembered_def)

lemma rewritten_twice:
  "k < length xs \<Longrightarrow> rewritten (Suc k) n f (rewritten k (Suc 0) f xs) = rewritten k (Suc n) f xs"
  by (auto intro!: nth_equalityI)

lemma remembered_Suc:
  "history_arrays s \<Longrightarrow> k < 18 \<Longrightarrow> remembered perf (Suc k) n (remembered perf k (Suc 0) s) = remembered perf k (Suc n) s"
  by (simp add: remembered_def history_arrays_def rewritten_twice)

lemma core_diff_remembered:
  "history_arrays s \<Longrightarrow> i < 18 \<Longrightarrow> i \<noteq> k \<Longrightarrow> core_diff perf' (remembered perf k (Suc 0) s) i = core_diff perf' s i"
  by (auto simp: core_diff_def remembered_def history_arrays_def)

lemma ntquery_round_figures:
  assumes h: "history_arrays s" and k: "k < 18" and m: "length (cm_cores m) = 18"
  shows "ntquery_round perf pw k ((ti, tk, tu), m, s) =
     Ret ((ti + fst (core_diff perf s k), tk + fst (snd (core_diff perf s k)), tu + snd (snd (core_diff perf s k))),
          m\<lparr>cm_cores := (cm_cores m)[k := core_figures perf pw s k],
            cm_total_frequency := cm_total_frequency m + of_nat (unat (fst (pw k)))\<rparr>,
          remembered perf k (Suc 0) s)"
proof -
  have r: "rewritten k (Suc 0) f xs = xs[k := f k]" if "length xs = 18" for f :: "nat \<Rightarrow> u64" and xs
    using rewritten_Suc [of k xs 0 f] that k by simp
  obtain a b c where p: "perf k = (a, b, c)" by (cases "perf k")
  obtain f g where w: "pw k = (f, g)" by (cases "pw k")
  show ?thesis
    using h k m by (simp add: ntquery_round_def p w r history_arrays_def core_diff_def core_figures_def remembered_def Let_def)
qed

lemma ntquery_loop_figures:
  assumes "history_arrays s" "k + n \<le> 18" "length (cm_cores m) = 18"
  shows "ntquery_loop perf pw k n ((ti, tk, tu), m, s) =
     Ret ((ti + (\<Sum>i = k..<k + n. fst (core_diff perf s i)), tk + (\<Sum>i = k..<k + n. fst (snd (core_diff perf s i))),
           tu + (\<Sum>i = k..<k + n. snd (snd (core_diff perf s i)))),
          m\<lparr>cm_cores := rewritten k n (core_figures perf pw s) (cm_cores m),
            cm_total_frequency := cm_total_frequency m + (\<Sum>i = k..<k + n. of_nat (unat (fst (pw i))))\<rparr>,
          remembered perf k n s)"
  using assms
proof (induction n arbitrary: k ti tk tu m s)
  case 0
  then show ?case by (simp add: remembered_def)
next
  case (Suc n)
  let ?s = "remembered perf k (Suc 0) s"
  have k: "k < 18" using Suc.prems by simp
  have d: "core_diff perf ?s i = core_diff perf s i" if "Suc k \<le> i" "i < Suc (k + n)" for i
    using that Suc.prems core_diff_remembered [of s i k] by auto
  have f: "rewritten (Suc k) n (core_figures perf pw ?s) xs = rewritten (Suc k) n (core_figures perf pw s) xs" for xs
    by (rule rewritten_cong) (simp add: core_figures_def d)
  have sp: "(\<Sum>i = k..<k + Suc n. h i) = h k + (\<Sum>i = Suc k..<Suc k + n. h i)" for h :: "nat \<Rightarrow> 'b :: comm_monoid_add"
    by (simp add: sum.atLeast_Suc_lessThan add.assoc)
  have m: "length ((cm_cores m)[k := core_figures perf pw s k]) = 18" using Suc.prems by simp
  have a: "(\<Sum>i = Suc k..<Suc k + n. g (core_diff perf ?s i)) = (\<Sum>i = Suc k..<Suc k + n. g (core_diff perf s i))"
    for g :: "time_sums \<Rightarrow> u64" by (rule sum.cong) (simp_all add: d)
  note a1 = a [of fst] and a2 = a [of "\<lambda>x. fst (snd x)"] and a3 = a [of "\<lambda>x. snd (snd x)"]
  let ?m = "m\<lparr>cm_cores := (cm_cores m)[k := core_figures perf pw s k],
            cm_total_frequency := cm_total_frequency m + of_nat (unat (fst (pw k)))\<rparr>"
  let ?ti = "ti + fst (core_diff perf s k)" and ?tk = "tk + fst (snd (core_diff perf s k))"
    and ?tu = "tu + snd (snd (core_diff perf s k))"
  have step: "ntquery_loop perf pw k (Suc n) ((ti, tk, tu), m, s) = ntquery_loop perf pw (Suc k) n ((?ti, ?tk, ?tu), ?m, ?s)"
    using ntquery_round_figures [OF Suc.prems(1) k Suc.prems(3)] by simp
  have "ntquery_loop perf pw (Suc k) n ((?ti, ?tk, ?tu), ?m, ?s) =
     Ret ((?ti + (\<Sum>i = Suc k..<Suc k + n. fst (core_diff perf ?s i)), ?tk + (\<Sum>i = Suc k..<Suc k + n. fst (snd (core_diff perf ?s i))),
           ?tu + (\<Sum>i = Suc k..<Suc k + n. snd (snd (core_diff perf ?s i)))),
          ?m\<lparr>cm_cores := rewritten (Suc k) n (core_figures perf pw ?s) (cm_cores ?m),
            cm_total_frequency := cm_total_frequency ?m + (\<Sum>i = Suc k..<Suc k + n. of_nat (unat (fst (pw i))))\<rparr>,
          remembered perf (Suc k) n ?s)"
    by (rule Suc.IH) (use Suc.prems m in simp_all)
  note loop = this [unfolded f a1 a2 a3]
  show ?case unfolding step loop sp
    using Suc.prems k by (simp add: add.assoc rewritten_Suc remembered_Suc del: sum.op_ivl_Suc)
qed

section \<open>The contract of a reader\<close>

text \<open>
  \<open>ok n\<close> is a well-formed state on a machine with \<open>n\<close> processors: opening and collecting always return, keep
  it, and a collection that succeeds fills in the figures of all cores the arrays hold.
\<close>

locale telemetry_source =
  fixes init :: "u32 \<Rightarrow> oom \<Rightarrow> 's \<Rightarrow> (eCpuTelemetryReturnCode \<times> oom \<times> 's) outcome"
    and collect :: "telemetry_env \<Rightarrow> CpuMetrics option \<Rightarrow> 's \<Rightarrow> (eCpuTelemetryReturnCode \<times> CpuMetrics option \<times> 's) outcome"
    and destroy :: "'s \<Rightarrow> eCpuTelemetryReturnCode \<times> 's"
    and ok :: "u32 \<Rightarrow> 's \<Rightarrow> bool"
    and opened :: "'s \<Rightarrow> bool"
  assumes init_law: "ok n s \<Longrightarrow> \<exists>rc f' s'. init n f s = Ret (rc, f', s') \<and> ok n s' \<and> opened s' = (rc = TELEMETRY_SUCCESS)"
    and collect_law: "ok n s \<Longrightarrow> length (cm_cores m) = 18 \<Longrightarrow>
            \<exists>rc m' s'. collect env (Some m) s = Ret (rc, Some m', s') \<and> ok n s' \<and> opened s' = opened s \<and>
              length (cm_cores m') = 18 \<and> (rc = TELEMETRY_SUCCESS \<longrightarrow> opened s \<and> cm_num_cores m' = clamp_processors n)"
    and state_law: "collect env (Some m) s = Ret (rc, x, s') \<Longrightarrow> \<exists>rc' x'. collect env (Some m') s = Ret (rc', x', s')"
    and destroy_law: "ok n s \<Longrightarrow> ok n (snd (destroy s)) \<and> \<not> opened (snd (destroy s))"
begin

text \<open>A collection keeps the state whatever figures it was given to overwrite.\<close>

lemma collect_keeps:
  assumes "ok n s" "collect env (Some m) s = Ret (rc, x, s')"
  shows "ok n s'"
proof -
  have z: "length (cm_cores zero_cpu_metrics) = 18" by (simp add: zero_cpu_metrics_def)
  show ?thesis using collect_law [OF assms(1) z, of env] state_law [OF assms(2), of zero_cpu_metrics] by auto
qed

end

definition ntquery_ok :: "u32 \<Rightarrow> ntquery_state \<Rightarrow> bool" where
  "ntquery_ok n s \<longleftrightarrow> history_arrays s \<and> (g_ntquery_initialized s \<longrightarrow> g_nt_query s \<and> g_num_cpus s = clamp_processors n)"

lemma ntquery_collect_eq:
  assumes ok: "ntquery_ok n s" and o: "g_ntquery_initialized s" and e: "te_performance env = Some perf" "te_power env = Some pw"
  defines "N \<equiv> unat (clamp_processors n)"
  defines "I \<equiv> \<Sum>i = 0..<N. idle_diff perf s i"
  defines "B \<equiv> \<Sum>i = 0..<N. busy_diff perf s i"
  shows "cpuTelemetryNtQuery_collect env (Some m) s = Ret (TELEMETRY_SUCCESS,
     Some \<lparr>cm_total_utilization = (if B > 0 then busy_percent B I else 0),
           cm_total_frequency = (\<Sum>i = 0..<N. of_nat (unat (fst (pw i)))) / of_nat N,
           cm_num_cores = clamp_processors n, cm_cores = rewritten 0 N (core_figures perf pw s) (replicate 18 zero_core_metrics)\<rparr>,
     remembered perf 0 N s)"
proof -
  have h: "history_arrays s" "g_nt_query s" "g_num_cpus s = clamp_processors n" using ok o by (simp_all add: ntquery_ok_def)
  have le: "0 + N \<le> 18" using clamp_processors_le by (simp add: N_def)
  have B: "B = (\<Sum>i = 0..<N. fst (snd (core_diff perf s i))) + (\<Sum>i = 0..<N. snd (snd (core_diff perf s i)))"
    unfolding B_def busy_diff_def by (rule sum.distrib)
  have I: "I = (\<Sum>i = 0..<N. fst (core_diff perf s i))" by (simp add: I_def idle_diff_def)
  have z: "clamp_processors n > 0 \<longleftrightarrow> N > 0" by (simp add: N_def word_less_nat_alt)
  have nn: "g_num_cpus (remembered perf 0 N s) = clamp_processors n" using h by (simp add: remembered_def)
  have loop: "ntquery_loop perf pw 0 N ((0, 0, 0), zero_cpu_metrics\<lparr>cm_num_cores := clamp_processors n\<rparr>, s) =
     Ret ((I, \<Sum>i = 0..<N. fst (snd (core_diff perf s i)), \<Sum>i = 0..<N. snd (snd (core_diff perf s i))),
          \<lparr>cm_total_utilization = 0, cm_total_frequency = \<Sum>i = 0..<N. of_nat (unat (fst (pw i))), cm_num_cores = clamp_processors n,
           cm_cores = rewritten 0 N (core_figures perf pw s) (replicate 18 zero_core_metrics)\<rparr>, remembered perf 0 N s)"
    using ntquery_loop_figures [OF h(1) le, of "zero_cpu_metrics\<lparr>cm_num_cores := clamp_processors n\<rparr>" perf pw 0 0 0] I
    by (simp add: zero_cpu_metrics_def)
  show ?thesis
    using o e h(2,3) loop [unfolded N_def] nn [unfolded N_def] z [unfolded N_def] B [unfolded N_def]
    by (cases "N = 0") (simp_all add: cpuTelemetryNtQuery_collect_def Let_def N_def word_less_nat_alt)
qed

lemma ntquery_collect_law:
  assumes ok: "ntquery_ok n s" and m: "length (cm_cores m) = 18"
  shows "\<exists>rc m' s'. cpuTelemetryNtQuery_collect env (Some m) s = Ret (rc, Some m', s') \<and> ntquery_ok n s' \<and>
     g_ntquery_initialized s' = g_ntquery_initialized s \<and> length (cm_cores m') = 18 \<and>
     (rc = TELEMETRY_SUCCESS \<longrightarrow> g_ntquery_initialized s \<and> cm_num_cores m' = clamp_processors n)"
proof (cases "g_ntquery_initialized s \<and> te_performance env \<noteq> None \<and> te_power env \<noteq> None")
  case True
  then obtain perf pw where "te_performance env = Some perf" "te_power env = Some pw" by auto
  note c = ntquery_collect_eq [OF ok _ this, of m]
  have "ntquery_ok n (remembered perf 0 (unat (clamp_processors n)) s)"
    using ok by (simp add: ntquery_ok_def) (simp add: remembered_def)
  then show ?thesis using True c by (simp add: remembered_def)
next
  case False
  then show ?thesis
    using ok m by (auto simp: cpuTelemetryNtQuery_collect_def Let_def ntquery_ok_def zero_cpu_metrics_def split: option.splits)
qed

interpretation ntq: telemetry_source "\<lambda>n f s. Ret (cpuTelemetryNtQuery_init n f s)" cpuTelemetryNtQuery_collect
  cpuTelemetryNtQuery_destroy ntquery_ok g_ntquery_initialized
proof unfold_locales
  fix n f s
  assume "ntquery_ok n s"
  then show "\<exists>rc f' s'. Ret (cpuTelemetryNtQuery_init n f s) = Ret (rc, f', s') \<and> ntquery_ok n s' \<and>
      g_ntquery_initialized s' = (rc = TELEMETRY_SUCCESS)"
    by (auto simp: cpuTelemetryNtQuery_init_def ntquery_ok_def history_arrays_def case_prod_beta Let_def)
next
  fix env m s rc x s' m'
  assume "cpuTelemetryNtQuery_collect env (Some m) s = Ret (rc, x, s')"
  then show "\<exists>rc' x'. cpuTelemetryNtQuery_collect env (Some m') s = Ret (rc', x', s')"
    by (auto simp: cpuTelemetryNtQuery_collect_def split: if_splits)
qed (use ntquery_collect_law in \<open>auto simp: cpuTelemetryNtQuery_destroy_def ntquery_ok_def initial_ntquery_def history_arrays_def\<close>)

section \<open>Performance counters\<close>

definition pdh_ok :: "u32 \<Rightarrow> pdh_state \<Rightarrow> bool" where
  "pdh_ok n s \<longleftrightarrow> length (g_util_counters s) = 18 \<and> length (g_freq_counter s) = 18 \<and>
     (g_initialized s \<longrightarrow> g_query s \<and> g_num_cores s = clamp_processors n)"

lemma add_util_counters_Ret:
  "i + n \<le> length cs \<Longrightarrow> \<exists>cs' f'. add_util_counters i n cs f = Ret (cs', f') \<and> length cs' = length cs"
proof (induction n arbitrary: i cs f)
  case (Suc n)
  obtain c f1 where a: "add_counter (core_utility_path i) f = (c, f1)" by fastforce
  obtain c' f2 where b: "(if c \<noteq> None then (c, f1) else add_counter (core_time_path i) f1) = (c', f2)" by fastforce
  show ?case using Suc.IH [of "Suc i" "cs[i := c']" f2] Suc.prems a b by (simp add: Let_def)
qed simp

lemma add_freq_counters_Ret:
  "i + n \<le> length cs \<Longrightarrow> \<exists>cs' f'. add_freq_counters i n cs f = Ret (cs', f') \<and> length cs' = length cs"
proof (induction n arbitrary: i cs f)
  case (Suc n)
  obtain c f1 where a: "add_counter (core_frequency_path i) f = (c, f1)" by fastforce
  show ?case using Suc.IH [of "Suc i" "cs[i := c]" f1] Suc.prems a by (simp add: Let_def)
qed simp

lemma pdh_init_law:
  assumes ok: "pdh_ok n s"
  shows "\<exists>rc f' s'. cpuTelemetryPdh_init n f s = Ret (rc, f', s') \<and> pdh_ok n s' \<and> g_initialized s' = (rc = TELEMETRY_SUCCESS)"
proof (cases "g_initialized s")
  case True
  then show ?thesis using ok by (simp add: cpuTelemetryPdh_init_def)
next
  case False
  let ?n = "unat (clamp_processors n)"
  obtain o1 f1 where a: "calloc_ok f = (o1, f1)" by fastforce
  obtain c f2 where b: "add_counter total_utility_path f1 = (c, f2)" by fastforce
  obtain c' f3 where c: "(if c \<noteq> None then (c, f2) else add_counter total_time_path f2) = (c', f3)" by fastforce
  have l: "length (g_util_counters s) = 18" "length (g_freq_counter s) = 18" "0 + ?n \<le> 18"
    using ok clamp_processors_le by (simp_all add: pdh_ok_def)
  obtain us f4 where d: "add_util_counters 0 ?n (g_util_counters s) f3 = Ret (us, f4)" "length us = 18"
    using add_util_counters_Ret [of 0 ?n "g_util_counters s" f3] l by auto
  obtain fs f5 where e: "add_freq_counters 0 ?n (g_freq_counter s) f4 = Ret (fs, f5)" "length fs = 18"
    using add_freq_counters_Ret [of 0 ?n "g_freq_counter s" f4] l by auto
  consider (no_query) "\<not> o1" | (no_counter) o1 "c' = None" | (opens) o1 "c' \<noteq> None" by blast
  then show ?thesis
    by cases (use False a b c d e l in \<open>simp_all add: cpuTelemetryPdh_init_def Let_def pdh_ok_def\<close>)
qed

lemma pdh_loop_Ret:
  assumes "i + n \<le> 18" "length (cm_cores m) = 18" "length (g_util_counters s) = 18" "length (g_freq_counter s) = 18"
  shows "\<exists>m' q. pdh_loop env i n s m x = Ret (m', q) \<and> length (cm_cores m') = 18 \<and> cm_num_cores m' = cm_num_cores m"
  using assms(1,2)
proof (induction n arbitrary: i m x)
  case (Suc n)
  have "\<exists>m1 y. pdh_loop env i (Suc n) s m x = pdh_loop env (Suc i) n s m1 y \<and> length (cm_cores m1) = 18 \<and>
      cm_num_cores m1 = cm_num_cores m"
    using Suc.prems assms(3,4) by (simp add: Let_def) (intro exI conjI, rule refl, simp_all)
  then show ?case using Suc.IH Suc.prems(1) by (metis add_Suc_shift)
qed simp

lemma pdh_collect_law:
  assumes ok: "pdh_ok n s" and m: "length (cm_cores m) = 18"
  shows "\<exists>rc m' s'. cpuTelemetryPdh_collect env (Some m) s = Ret (rc, Some m', s') \<and> pdh_ok n s' \<and>
     g_initialized s' = g_initialized s \<and> length (cm_cores m') = 18 \<and>
     (rc = TELEMETRY_SUCCESS \<longrightarrow> g_initialized s \<and> cm_num_cores m' = clamp_processors n)"
proof (cases "g_initialized s \<and> te_collected env")
  case True
  let ?m = "zero_cpu_metrics\<lparr>cm_num_cores := g_num_cores s\<rparr>"
  define m1 where "m1 = (case Option.bind (g_total_util_counter s) (te_utility env) of
    Some v \<Rightarrow> ?m\<lparr>cm_total_utilization := v\<rparr> | None \<Rightarrow> ?m)"
  have g: "g_num_cores s = clamp_processors n" using ok True by (simp add: pdh_ok_def)
  have "length (cm_cores m1) = 18" "cm_num_cores m1 = clamp_processors n"
    by (simp_all add: m1_def zero_cpu_metrics_def g split: option.splits)
  then obtain m2 q where "pdh_loop env 0 (unat (g_num_cores s)) s m1 0 = Ret (m2, q)" "length (cm_cores m2) = 18"
    "cm_num_cores m2 = clamp_processors n"
    using pdh_loop_Ret [of 0 "unat (g_num_cores s)" m1 s env 0] ok clamp_processors_le by (auto simp: g pdh_ok_def)
  then show ?thesis using True ok by (simp add: cpuTelemetryPdh_collect_def Let_def m1_def)
next
  case False
  then show ?thesis using ok m by (auto simp: cpuTelemetryPdh_collect_def Let_def zero_cpu_metrics_def)
qed

interpretation pdh: telemetry_source cpuTelemetryPdh_init cpuTelemetryPdh_collect cpuTelemetryPdh_destroy pdh_ok g_initialized
proof unfold_locales
  fix env m s rc x s' m'
  assume "cpuTelemetryPdh_collect env (Some m) s = Ret (rc, x, s')"
  then show "\<exists>rc' x'. cpuTelemetryPdh_collect env (Some m') s = Ret (rc', x', s')"
    by (auto simp: cpuTelemetryPdh_collect_def split: if_splits)
qed (use pdh_init_law pdh_collect_law in \<open>auto simp: cpuTelemetryPdh_destroy_def pdh_ok_def initial_pdh_def\<close>)

section \<open>The share of busy time\<close>

text \<open>The reference: the time that was not idle, in percent of the time between two collections.\<close>

definition elapsed :: "(nat \<Rightarrow> u64) \<Rightarrow> (nat \<Rightarrow> u64) \<Rightarrow> nat \<Rightarrow> nat" where
  "elapsed old new k = unat (new k) - unat (old k)"

type_synonym processor_times = "nat \<Rightarrow> u64 \<times> u64 \<times> u64"

definition idle_time :: "processor_times \<Rightarrow> processor_times \<Rightarrow> nat \<Rightarrow> nat" where
  "idle_time p q = elapsed (\<lambda>k. fst (p k)) (\<lambda>k. fst (q k))"

definition all_time :: "processor_times \<Rightarrow> processor_times \<Rightarrow> nat \<Rightarrow> nat" where
  "all_time p q k = elapsed (\<lambda>k. fst (snd (p k))) (\<lambda>k. fst (snd (q k))) k + elapsed (\<lambda>k. snd (snd (p k))) (\<lambda>k. snd (snd (q k))) k"

definition busy_share :: "nat \<Rightarrow> nat \<Rightarrow> double" where
  "busy_share whole idl = (if whole = 0 then 0 else 100 * (1 - of_nat idl / of_nat whole))"

text \<open>No counter of a processor goes down, its first kernel time is not 0 (which the code reads as ``no sample yet''), and
  the idle time that passed is within the kernel and user time that passed.\<close>

definition counts_up :: "processor_times \<Rightarrow> processor_times \<Rightarrow> nat \<Rightarrow> bool" where
  "counts_up p q k \<longleftrightarrow> fst (snd (p k)) \<noteq> 0 \<and> fst (p k) \<le> fst (q k) \<and> fst (snd (p k)) \<le> fst (snd (q k)) \<and>
     snd (snd (p k)) \<le> snd (snd (q k)) \<and> idle_time p q k \<le> all_time p q k"

lemma busy_share_range: "idl \<le> whole \<Longrightarrow> 0 \<le> busy_share whole idl \<and> busy_share whole idl \<le> 100"
  by (auto simp: busy_share_def divide_le_eq)

lemma share_split: "(a :: nat) \<noteq> 0 \<Longrightarrow> b \<le> a \<Longrightarrow> 100 * of_nat (a - b) / of_nat a = (100 * (1 - of_nat b / of_nat a) :: double)"
  by (simp add: of_nat_diff diff_divide_distrib right_diff_distrib)

lemma busy_percent_share:
  assumes "idl \<le> whole"
  shows "(if whole > 0 then busy_percent whole idl else 0) = busy_share (unat whole) (unat idl)"
proof (cases "whole = 0")
  case False
  then have "unat whole \<noteq> 0" "whole > 0" by (simp_all add: unat_eq_0 word_gt_0)
  moreover have "unat (whole - idl) = unat whole - unat idl" "unat idl \<le> unat whole"
    using assms unat_sub word_le_nat_alt by blast+
  ultimately show ?thesis using share_split [of "unat whole" "unat idl"] by (simp add: busy_percent_def busy_share_def)
qed (simp add: busy_share_def)

lemma unat_sum_u64:
  "(\<Sum>i = 0..<(n :: nat). unat (f i :: u64)) < 2 ^ 64 \<Longrightarrow> unat (\<Sum>i = 0..<n. f i) = (\<Sum>i = 0..<n. unat (f i))"
proof (induction n)
  case (Suc n)
  then have "unat (\<Sum>i = 0..<n. f i) = (\<Sum>i = 0..<n. unat (f i))" by simp
  then show ?case using Suc.prems unat_add_lem [of "\<Sum>i = 0..<n. f i" "f n"] by simp
qed simp

lemma diffs_after:
  assumes h: "history_arrays s" and k: "k < N" "N \<le> 18" and c: "counts_up p q k" and small: "all_time p q k < 2 ^ 64"
  shows "unat (idle_diff q (remembered p 0 N s) k) = idle_time p q k"
    and "unat (busy_diff q (remembered p 0 N s) k) = all_time p q k"
proof -
  have "core_diff q (remembered p 0 N s) k =
      (fst (q k) - fst (p k), fst (snd (q k)) - fst (snd (p k)), snd (snd (q k)) - snd (snd (p k)))"
    using h k c by (simp add: core_diff_def remembered_def history_arrays_def counts_up_def)
  moreover have "unat (fst (q k) - fst (p k)) = idle_time p q k" using c
    by (simp add: counts_up_def idle_time_def elapsed_def unat_sub)
  moreover have "unat (fst (snd (q k)) - fst (snd (p k)) + (snd (snd (q k)) - snd (snd (p k)))) = all_time p q k"
    using c small by (subst unat_add_lem [THEN iffD1]) (simp_all add: counts_up_def all_time_def elapsed_def unat_sub)
  ultimately show "unat (idle_diff q (remembered p 0 N s) k) = idle_time p q k"
    "unat (busy_diff q (remembered p 0 N s) k) = all_time p q k" by (simp_all add: idle_diff_def busy_diff_def)
qed

lemma core_figures_eq:
  "core_figures perf pw s i =
     \<lparr>cc_id = of_nat i, cc_utilization = (if busy_diff perf s i > 0 then busy_percent (busy_diff perf s i) (idle_diff perf s i) else 0),
      cc_frequency = fst (pw i), cc_maximum_frequency = snd (pw i)\<rparr>"
  by (simp add: core_figures_def busy_diff_def idle_diff_def case_prod_beta)

text \<open>C24: Two successful collections in a row by \<open>NtQuerySystemInformation\<close> report for each of the processors
  the backend covers (all of them, up to the first 18), and for these processors as a whole, the share of the time
  between the collections that was not idle, always between 0 and 100 percent; the frequencies are those of the second.
  The conditions on the counters of each of these processors: none goes down, the first kernel time is not
  0 (the code takes 0 for ``no sample yet''), and the idle time that passed is at most the kernel and user
  time that passed (kernel time includes idle time; with more idle than that the code's difference wraps);
  and the times of all of them together fit 64 bits.\<close>
theorem ntquery_reports_busy_share:
  assumes ok: "ntquery_ok n s" and o: "g_ntquery_initialized s"
    and e: "te_performance e = Some p" "te_power e = Some pw" and e': "te_performance e' = Some q" "te_power e' = Some pw'"
    and up: "\<forall>k<unat (clamp_processors n). counts_up p q k"
    and small: "(\<Sum>k = 0..<unat (clamp_processors n). all_time p q k) < 2 ^ 64"
  shows "\<exists>m1 s1 m2 s2. cpuTelemetryNtQuery_collect e (Some m) s = Ret (TELEMETRY_SUCCESS, Some m1, s1) \<and>
     cpuTelemetryNtQuery_collect e' (Some m1) s1 = Ret (TELEMETRY_SUCCESS, Some m2, s2) \<and>
     (\<forall>k<unat (clamp_processors n).
        cc_utilization (cm_cores m2 ! k) = busy_share (all_time p q k) (idle_time p q k) \<and>
        0 \<le> cc_utilization (cm_cores m2 ! k) \<and> cc_utilization (cm_cores m2 ! k) \<le> 100 \<and>
        cc_frequency (cm_cores m2 ! k) = fst (pw' k) \<and> cc_maximum_frequency (cm_cores m2 ! k) = snd (pw' k)) \<and>
     cm_total_utilization m2 = busy_share (\<Sum>k = 0..<unat (clamp_processors n). all_time p q k)
       (\<Sum>k = 0..<unat (clamp_processors n). idle_time p q k) \<and>
     0 \<le> cm_total_utilization m2 \<and> cm_total_utilization m2 \<le> 100"
proof -
  define N where "N = unat (clamp_processors n)"
  define s1 where "s1 = remembered p 0 N s"
  have N: "N \<le> 18" using clamp_processors_le by (simp add: N_def)
  have h: "history_arrays s" using ok by (simp add: ntquery_ok_def)
  have ok1: "ntquery_ok n s1" "g_ntquery_initialized s1"
    using ok o by (simp_all add: ntquery_ok_def s1_def) (simp_all add: remembered_def)
  note c1 = ntquery_collect_eq [OF ok o e, of m, folded N_def, folded s1_def]
  obtain m1 where m1: "cpuTelemetryNtQuery_collect e (Some m) s = Ret (TELEMETRY_SUCCESS, Some m1, s1)" using c1 by blast
  note c2 = ntquery_collect_eq [OF ok1 e', of m1, folded N_def]
  have one: "all_time p q k < 2 ^ 64" if "k < N" for k
    using small member_le_sum [of k "{0..<N}" "all_time p q"] that by (simp add: N_def)
  have d: "unat (idle_diff q s1 k) = idle_time p q k" "unat (busy_diff q s1 k) = all_time p q k"
    "idle_time p q k \<le> all_time p q k" if "k < N" for k
    using diffs_after [OF h that N _ one [OF that]] up that by (simp_all add: N_def s1_def counts_up_def)
  have core: "(if busy_diff q s1 k > 0 then busy_percent (busy_diff q s1 k) (idle_diff q s1 k) else 0) =
      busy_share (all_time p q k) (idle_time p q k)" if "k < N" for k
    using busy_percent_share [of "idle_diff q s1 k" "busy_diff q s1 k"] d [OF that] by (simp add: word_le_nat_alt)
  have b: "(\<Sum>k = 0..<N. unat (busy_diff q s1 k)) = (\<Sum>k = 0..<N. all_time p q k)"
    and i: "(\<Sum>k = 0..<N. unat (idle_diff q s1 k)) = (\<Sum>k = 0..<N. idle_time p q k)" by (simp_all add: d)
  have le: "(\<Sum>k = 0..<N. idle_time p q k) \<le> (\<Sum>k = 0..<N. all_time p q k)" by (rule sum_mono) (simp add: d)
  have u: "unat (\<Sum>k = 0..<N. busy_diff q s1 k) = (\<Sum>k = 0..<N. all_time p q k)"
    "unat (\<Sum>k = 0..<N. idle_diff q s1 k) = (\<Sum>k = 0..<N. idle_time p q k)"
    using unat_sum_u64 [of "busy_diff q s1" N] unat_sum_u64 [of "idle_diff q s1" N] b i le small [folded N_def] by simp_all
  have whole: "(if (\<Sum>k = 0..<N. busy_diff q s1 k) > 0
        then busy_percent (\<Sum>k = 0..<N. busy_diff q s1 k) (\<Sum>k = 0..<N. idle_diff q s1 k) else 0) =
      busy_share (\<Sum>k = 0..<N. all_time p q k) (\<Sum>k = 0..<N. idle_time p q k)"
    using busy_percent_share [of "\<Sum>k = 0..<N. idle_diff q s1 k" "\<Sum>k = 0..<N. busy_diff q s1 k"] u le by (simp add: word_le_nat_alt)
  let ?cs = "rewritten 0 N (core_figures q pw' s1) (replicate 18 zero_core_metrics)"
  have cores: "cc_utilization (?cs ! k) = busy_share (all_time p q k) (idle_time p q k) \<and>
        0 \<le> cc_utilization (?cs ! k) \<and> cc_utilization (?cs ! k) \<le> 100 \<and>
        cc_frequency (?cs ! k) = fst (pw' k) \<and> cc_maximum_frequency (?cs ! k) = snd (pw' k)" if "k < N" for k
    using core [OF that] busy_share_range [OF d(3) [OF that]] that N by (simp add: core_figures_eq)
  show ?thesis unfolding N_def [symmetric]
    by (rule exI, rule exI, rule exI, rule exI, intro conjI, rule m1, rule c2 [unfolded whole])
       (simp_all add: cores busy_share_range [OF le] busy_share_range [OF d(3)] del: rewritten_simps)
qed

definition demo_times :: "nat \<Rightarrow> processor_times" where
  "demo_times t k = (of_nat (10 * t), of_nat (30 * t), of_nat (20 * t + k))"

definition demo_telemetry :: "nat \<Rightarrow> telemetry_env" where
  "demo_telemetry t = \<lparr>te_performance = Some (demo_times t), te_power = Some (\<lambda>k. (1800, 3400)), te_collected = True,
     te_utility = (\<lambda>p. None), te_frequency = (\<lambda>p. None)\<rparr>"

theorem ntquery_reports_busy_share_witness:
  "\<exists>m1 s1 m2 s2.
     cpuTelemetryNtQuery_collect (demo_telemetry 1) (Some zero_cpu_metrics) (snd (snd (cpuTelemetryNtQuery_init 2 [] initial_ntquery))) =
       Ret (TELEMETRY_SUCCESS, Some m1, s1) \<and>
     cpuTelemetryNtQuery_collect (demo_telemetry 3) (Some m1) s1 = Ret (TELEMETRY_SUCCESS, Some m2, s2) \<and>
     cm_total_utilization m2 = 80"
proof -
  let ?s = "snd (snd (cpuTelemetryNtQuery_init 2 [] initial_ntquery))"
  have s: "ntquery_ok 2 ?s" "g_ntquery_initialized ?s"
    by (simp_all add: cpuTelemetryNtQuery_init_def initial_ntquery_def ntquery_ok_def history_arrays_def)
  have n: "unat (clamp_processors 2) = 2" by (simp add: clamp_processors_def)
  have e: "te_performance (demo_telemetry t) = Some (demo_times t)" "te_power (demo_telemetry t) = Some (\<lambda>k. (1800, 3400))" for t
    by (simp_all add: demo_telemetry_def)
  have up: "\<forall>k<unat (clamp_processors 2). counts_up (demo_times 1) (demo_times 3) k"
  proof (intro allI impI)
    fix k assume "k < unat (clamp_processors 2)"
    then have "k = 0 \<or> k = 1" by (auto simp: n)
    then show "counts_up (demo_times 1) (demo_times 3) k"
      by (auto simp: counts_up_def demo_times_def all_time_def idle_time_def elapsed_def word_le_nat_alt)
  qed
  have two: "(\<Sum>k = 0..<(2 :: nat). f k) = f 0 + f 1" for f :: "nat \<Rightarrow> nat" by (simp add: numeral_2_eq_2)
  have t: "(\<Sum>k = 0..<2. all_time (demo_times 1) (demo_times 3) k) = 200" "(\<Sum>k = 0..<2. idle_time (demo_times 1) (demo_times 3) k) = 40"
    unfolding two by (simp_all add: demo_times_def all_time_def idle_time_def elapsed_def)
  have small: "(\<Sum>k = 0..<unat (clamp_processors 2). all_time (demo_times 1) (demo_times 3) k) < 2 ^ 64" unfolding n t by simp
  have "busy_share 200 40 = 80" by (simp add: busy_share_def)
  then show ?thesis
    using ntquery_reports_busy_share [OF s e e up small, of zero_cpu_metrics, unfolded n t] by (metis (no_types))
qed

end
