(* ===== verification/WosCpuProps.thy ===== *)
theory WosCpuProps
  imports WosCpu WosTelemetryProps ResponseBuffer
begin

text \<open>
  Correctness of the CPU backend for Windows, first part: the table its initialisation registers, what its
  operations keep, and the contract \<open>flagged_session\<close> of its sessions.
\<close>

section \<open>Frames\<close>

lemma WOS_SEND_fields [simp]:
  "g_is_thread_running (WOS_SEND lv t s) = g_is_thread_running s"
  "g_thread_info (WOS_SEND lv t s) = g_thread_info s"
  "sn_threads (WOS_SEND lv t s) = sn_threads s"
  "g_backend_info (WOS_SEND lv t s) = g_backend_info s"
  "sn_table (WOS_SEND lv t s) = sn_table s"
  "g_data_callback (WOS_SEND lv t s) = g_data_callback s"
  "g_message_callback (WOS_SEND lv t s) = g_message_callback s"
  "sn_data (WOS_SEND lv t s) = sn_data s"
  "sn_faults (WOS_SEND lv t s) = sn_faults s"
  "w_processors (WOS_SEND lv t s) = w_processors s"
  "g_telemetry_source (WOS_SEND lv t s) = g_telemetry_source s"
  "g_ntquery (WOS_SEND lv t s) = g_ntquery s"
  "g_pdh (WOS_SEND lv t s) = g_pdh s"
  by (simp_all add: WOS_SEND_def wos_cpu_log_message_def post_message_def split: option.splits)

lemma same_control_wos_send [control_simps, simp]:
  "same_control s (WOS_SEND lv t s') = same_control s s'"
  "same_control (WOS_SEND lv t s) s' = same_control s s'"
  by (simp_all add: same_control_def)

text \<open>Tables, callbacks and what was delivered; and the state of the telemetry.\<close>

definition wos_frame :: "wos_cpu_state \<Rightarrow> wos_cpu_state \<Rightarrow> bool" where
  "wos_frame s s' \<longleftrightarrow> g_backend_info s' = g_backend_info s \<and> sn_table s' = sn_table s \<and>
     g_data_callback s' = g_data_callback s \<and> w_processors s' = w_processors s"

lemma wos_frame_simps [simp]:
  "wos_frame s s" "wos_frame s (WOS_SEND lv x s') = wos_frame s s'" "wos_frame (WOS_SEND lv x s) s' = wos_frame s s'"
  "wos_frame s (s'\<lparr>g_is_thread_running := b\<rparr>) = wos_frame s s'" "wos_frame (s\<lparr>g_is_thread_running := b\<rparr>) s' = wos_frame s s'"
  "wos_frame s (s'\<lparr>sn_faults := f\<rparr>) = wos_frame s s'" "wos_frame s (s'\<lparr>sn_threads := ts\<rparr>) = wos_frame s s'"
  "wos_frame s (s'\<lparr>g_thread_info := i\<rparr>) = wos_frame s s'" "wos_frame s (s'\<lparr>sn_data := ds\<rparr>) = wos_frame s s'"
  "wos_frame s (put_thread t st s') = wos_frame s s'" "wos_frame s (s'\<lparr>g_ntquery := nq\<rparr>) = wos_frame s s'"
  "wos_frame s (s'\<lparr>g_pdh := p\<rparr>) = wos_frame s s'" "wos_frame s (s'\<lparr>g_telemetry_source := src\<rparr>) = wos_frame s s'"
  by (simp_all add: wos_frame_def put_thread_def)

lemma wos_frame_trans: "wos_frame s s' \<Longrightarrow> wos_frame s' s'' \<Longrightarrow> wos_frame s s''"
  by (simp add: wos_frame_def)

definition wos_telemetry_ok :: "wos_cpu_state \<Rightarrow> bool" where
  "wos_telemetry_ok s \<longleftrightarrow> ntquery_ok (w_processors s) (g_ntquery s) \<and> pdh_ok (w_processors s) (g_pdh s)"

lemma wos_telemetry_simps [simp]:
  "wos_telemetry_ok (WOS_SEND lv x s) = wos_telemetry_ok s"
  "wos_telemetry_ok (s\<lparr>g_is_thread_running := b\<rparr>) = wos_telemetry_ok s" "wos_telemetry_ok (s\<lparr>sn_faults := f\<rparr>) = wos_telemetry_ok s"
  "wos_telemetry_ok (s\<lparr>g_thread_info := i\<rparr>) = wos_telemetry_ok s" "wos_telemetry_ok (s\<lparr>sn_threads := ts\<rparr>) = wos_telemetry_ok s"
  "wos_telemetry_ok (s\<lparr>sn_data := ds\<rparr>) = wos_telemetry_ok s" "wos_telemetry_ok (s\<lparr>g_telemetry_source := src\<rparr>) = wos_telemetry_ok s"
  "wos_telemetry_ok (s\<lparr>g_backend_info := bi\<rparr>) = wos_telemetry_ok s" "wos_telemetry_ok (s\<lparr>sn_table := n\<rparr>) = wos_telemetry_ok s"
  "wos_telemetry_ok (s\<lparr>g_data_callback := cb\<rparr>) = wos_telemetry_ok s" "wos_telemetry_ok (s\<lparr>g_message_callback := cb\<rparr>) = wos_telemetry_ok s"
  "wos_telemetry_ok (put_thread t st s) = wos_telemetry_ok s"
  by (simp_all add: wos_telemetry_ok_def put_thread_def)

lemma wos_telemetry_initial [simp]: "wos_telemetry_ok (initial_wos_cpu n faults)"
  by (simp add: wos_telemetry_ok_def initial_wos_cpu_def session.defs initial_ntquery_def initial_pdh_def ntquery_ok_def pdh_ok_def
      history_arrays_def)

section \<open>The table of capabilities\<close>

definition wos_core_triple :: "nat \<Rightarrow> QcPerfMetricInfo list" where
  "wos_core_triple k = [wos_core_util_metric k, wos_core_freq_metric k, wos_core_max_freq_metric k]"

definition wos_metrics :: "nat \<Rightarrow> QcPerfMetricInfo list" where
  "wos_metrics n = [wos_total_util_metric, wos_total_freq_metric] @ concat (map wos_core_triple [0..<n])"

lemma wos_triples_length: "length (concat (map wos_core_triple [a..<b])) = 3 * (b - a)"
  by (induction b) (auto simp: wos_core_triple_def Suc_diff_le)

lemma wos_metrics_length [simp]: "length (wos_metrics n) = 2 + 3 * n"
  by (simp add: wos_metrics_def wos_triples_length)

lemma wos_core_metrics_Ret:
  "length ms = i + 3 * n \<Longrightarrow> wos_core_metrics k n i ms = Ret (take i ms @ concat (map wos_core_triple [k..<k + n]), i + 3 * n)"
proof (induction n arbitrary: k i ms)
  case (Suc n)
  let ?m = "ms[i := wos_core_util_metric k, Suc i := wos_core_freq_metric k, i + 2 := wos_core_max_freq_metric k]"
  have l: "i < length ms" "Suc i < length ms" "i + 2 < length ms" using Suc.prems by simp_all
  have "wos_core_metrics k (Suc n) i ms = wos_core_metrics (Suc k) n (i + 3) ?m" using l by simp
  also have "\<dots> = Ret (take (i + 3) ?m @ concat (map wos_core_triple [Suc k..<Suc k + n]), i + 3 + 3 * n)"
    by (rule Suc.IH) (use Suc.prems in simp)
  also have "take (i + 3) ?m = take i ms @ wos_core_triple k"
    using l by (simp add: wos_core_triple_def numeral_3_eq_3 take_Suc_conv_app_nth nth_list_update_if)
  finally show ?case using upt_conv_Cons [of k "k + Suc n"] by simp
qed simp

definition wos_capability :: "nat \<Rightarrow> QcPerfCapabilityInfo" where
  "wos_capability n = \<lparr>ci_capability_id = 0, ci_name = ''cpu'', ci_name_len = 3,
     ci_metric_ids_list = Some (wos_metrics n), ci_metric_ids_list_len = of_nat (2 + 3 * n),
     ci_streaming_rate = wos_cpu_streaming_rates @ replicate 29 0, ci_streaming_rate_len = 3,
     ci_sampling_rate = wos_cpu_sampling_rates @ replicate 29 0, ci_sampling_rate_len = 3\<rparr>"

lemma wos_fill_capability_Ret:
  assumes n: "unat num \<le> 18"
  shows "wos_fill_capability num (zero_capability\<lparr>ci_metric_ids_list := Some (replicate (2 + 3 * unat num) zero_metric_info)\<rparr>) =
     Ret (wos_capability (unat num), 2 + 3 * unat num)"
proof -
  have st: "copy_rates wos_cpu_streaming_rates 0 (replicate 32 0, 0) = (wos_cpu_streaming_rates @ replicate 29 0, 3)"
    by (subst copy_rates_fresh) (simp_all add: wos_cpu_streaming_rates_def)
  have sa: "copy_rates wos_cpu_sampling_rates 0 (replicate 32 0, 0) = (wos_cpu_sampling_rates @ replicate 29 0, 3)"
    by (subst copy_rates_fresh) (simp_all add: wos_cpu_sampling_rates_def)
  have c: "wos_core_metrics 0 (unat num) 2 ((replicate (2 + 3 * unat num) zero_metric_info)[0 := wos_total_util_metric, 1 := wos_total_freq_metric]) =
     Ret (wos_metrics (unat num), 2 + 3 * unat num)"
    by (subst wos_core_metrics_Ret) (simp_all add: wos_metrics_def numeral_2_eq_2)
  show ?thesis
    using c by (simp add: wos_fill_capability_def zero_capability_def st sa wos_capability_def cstd_simps)
qed

definition wos_cores :: "wos_cpu_state \<Rightarrow> nat" where
  "wos_cores s = unat (clamp_processors (w_processors s))"

definition wos_registered :: "wos_cpu_state \<Rightarrow> bool" where
  "wos_registered s \<longleftrightarrow> bi_capabilities_list (g_backend_info s) = Some [wos_capability (wos_cores s)] \<and>
     bi_capabilities_list_length (g_backend_info s) = 1 \<and> bi_backend_id (g_backend_info s) = 5"

lemma wos_cores_le: "wos_cores s \<le> 18"
  by (simp add: wos_cores_def clamp_processors_le)

lemma wos_frame_registered: "wos_frame s s' \<Longrightarrow> wos_registered s' = wos_registered s"
  by (simp add: wos_frame_def wos_registered_def wos_cores_def)

lemma wos_registered_deref:
  "wos_registered s \<Longrightarrow> deref_capability (sn_table s) 0 s = Ret (wos_capability (wos_cores s))"
  by (simp add: wos_registered_def deref_capability_def)

lemma wos_alloc_cases:
  assumes n: "unat num \<le> 18"
  shows "(\<exists>f. wos_cpu_alloc num s = (SUCCESS, s\<lparr>sn_faults := f, sn_table := Suc (sn_table s),
             g_backend_info := (g_backend_info s)\<lparr>bi_capabilities_list := Some [zero_capability
               \<lparr>ci_metric_ids_list := Some (replicate (2 + 3 * unat num) zero_metric_info)\<rparr>], bi_capabilities_list_length := 1\<rparr>\<rparr>) \<and> (sn_faults s = [] \<longrightarrow> f = [])) \<or>
         (\<exists>s'. wos_cpu_alloc num s = (CALLOC_FAILED, s') \<and> sn_faults s \<noteq> [] \<and> same_control s s' \<and> wos_telemetry_ok s' = wos_telemetry_ok s \<and>
             w_processors s' = w_processors s \<and> g_data_callback s' = g_data_callback s)"
proof -
  have u: "unat (2 + num * 3) = 2 + 3 * unat num" using n by (simp add: unat_word_ariths)
  define f1 where "f1 = calloc_ok (sn_faults s)"
  define f2 where "f2 = calloc_ok (snd f1)"
  show ?thesis
  proof (cases "fst f1 \<and> fst f2")
    case True
    then show ?thesis
      by (intro disjI1 exI [of _ "snd f2"]) (simp add: wos_cpu_alloc_def Let_def alloc_pair u f1_def f2_def)
  next
    case False
    then show ?thesis
      by (intro disjI2) (auto simp: wos_cpu_alloc_def Let_def alloc_pair f1_def f2_def same_control_def wos_telemetry_ok_def)
  qed
qed

lemma wos_init_total:
  assumes ok: "wos_telemetry_ok s"
  shows "\<exists>rc s'. wos_cpu_init s = Ret (rc, s') \<and> same_control s s' \<and> wos_telemetry_ok s' \<and> w_processors s' = w_processors s \<and>
     g_data_callback s' = g_data_callback s \<and> (rc = SUCCESS \<or> rc = CALLOC_FAILED) \<and>
     (if rc = SUCCESS then wos_registered s' else no_table s') \<and> (sn_faults s = [] \<longrightarrow> rc = SUCCESS \<and> sn_faults s' = [])"
proof -
  let ?s = "WOS_SEND LEVEL_INFO ''Initializing wos-cpu backend'' s"
  let ?n = "clamp_processors (w_processors s)"
  have cnt: "cpuTelemetryNtQuery_getNumCores (w_processors s) (Some 0) (g_ntquery s) = (TELEMETRY_SUCCESS, Some ?n)"
    using ok by (auto simp: cpuTelemetryNtQuery_getNumCores_def wos_telemetry_ok_def ntquery_ok_def)
  have le: "unat ?n \<le> 18" by (rule clamp_processors_le)
  then have nn: "\<not> ?n > 18" by (simp add: word_less_nat_alt)
  note fill = wos_fill_capability_Ret [OF le]
  show ?thesis
    using wos_alloc_cases [OF le, of ?s]
  proof (elim disjE exE)
    fix f
    assume a: "wos_cpu_alloc ?n ?s = (SUCCESS, ?s\<lparr>sn_faults := f, sn_table := Suc (sn_table ?s),
             g_backend_info := (g_backend_info ?s)\<lparr>bi_capabilities_list := Some [zero_capability
               \<lparr>ci_metric_ids_list := Some (replicate (2 + 3 * unat ?n) zero_metric_info)\<rparr>], bi_capabilities_list_length := 1\<rparr>\<rparr>) \<and> (sn_faults ?s = [] \<longrightarrow> f = [])"
    show ?thesis
      using ok fill by (simp add: wos_cpu_init_def Let_def cnt nn a same_control_def wos_registered_def wos_cores_def)
  next
    fix s'
    assume a: "wos_cpu_alloc ?n ?s = (CALLOC_FAILED, s') \<and> sn_faults ?s \<noteq> [] \<and> same_control ?s s' \<and> wos_telemetry_ok s' = wos_telemetry_ok ?s \<and>
             w_processors s' = w_processors ?s \<and> g_data_callback s' = g_data_callback ?s"
    then show ?thesis
      using ok by (simp add: wos_cpu_init_def Let_def cnt nn wos_cpu_free_memory_def no_table_def same_control_def)
  qed
qed

section \<open>Starting and stopping\<close>

text \<open>Opening returns, keeps the telemetry well formed, and on success the source in use is open.\<close>

lemma wos_open_law:
  assumes ok: "wos_telemetry_ok s"
  shows "\<exists>rc s'. wos_open_telemetry s = Ret (rc, s') \<and> wos_telemetry_ok s' \<and> same_control s s' \<and> wos_frame s s' \<and>
     sn_data s' = sn_data s \<and>
     (rc = SUCCESS \<longrightarrow> (if g_telemetry_source s' = SOURCE_NTQUERY then g_ntquery_initialized (g_ntquery s')
                      else g_initialized (g_pdh s')))"
proof -
  obtain rc f nq where nq: "cpuTelemetryNtQuery_init (w_processors s) (sn_faults s) (g_ntquery s) = (rc, f, nq)" by (metis prod_cases3)
  then have nq': "ntquery_ok (w_processors s) nq" "g_ntquery_initialized nq = (rc = TELEMETRY_SUCCESS)"
    using ntq.init_law [of "w_processors s" "g_ntquery s" "sn_faults s"] ok by (simp_all add: wos_telemetry_ok_def)
  let ?s1 = "s\<lparr>sn_faults := f, g_ntquery := nq\<rparr>"
  obtain rc' f' p where p: "cpuTelemetryPdh_init (w_processors s) f (g_pdh s) = Ret (rc', f', p)" "pdh_ok (w_processors s) p"
    "g_initialized p = (rc' = TELEMETRY_SUCCESS)"
    using pdh.init_law [of "w_processors s" "g_pdh s" f] ok by (auto simp: wos_telemetry_ok_def)
  have k: "pdh_ok (w_processors s) (g_pdh s)" using ok by (simp add: wos_telemetry_ok_def)
  show ?thesis
    using nq p nq' k
    by (cases "rc = TELEMETRY_SUCCESS"; cases "rc' = TELEMETRY_SUCCESS")
       (simp_all add: wos_open_telemetry_def Let_def wos_telemetry_ok_def same_control_def)
qed

lemma wos_close_fields [simp]:
  "wos_telemetry_ok s \<Longrightarrow> wos_telemetry_ok (wos_close_telemetry s)"
  "same_control s (wos_close_telemetry s') = same_control s s'" "wos_frame s (wos_close_telemetry s') = wos_frame s s'"
  "sn_data (wos_close_telemetry s) = sn_data s"
  "g_is_thread_running (wos_close_telemetry s) = g_is_thread_running s" "g_thread_info (wos_close_telemetry s) = g_thread_info s"
  "sn_threads (wos_close_telemetry s) = sn_threads s"
  using ntq.destroy_law [of "w_processors s" "g_ntquery s"] pdh.destroy_law [of "w_processors s" "g_pdh s"]
  by (simp_all add: wos_close_telemetry_def wos_telemetry_ok_def same_control_def)

text \<open>Requests the thread can serve: the streaming rate is not zero.\<close>

definition nonzero_rate :: "QcPerfRequest option \<Rightarrow> bool" where
  "nonzero_rate r = (case r of None \<Rightarrow> True | Some rq \<Rightarrow> rq_streaming_rate rq \<noteq> 0)"

definition wos_good :: "wos_cpu_state \<Rightarrow> QcPerfRequest option \<Rightarrow> bool" where
  "wos_good s r = nonzero_rate r"

definition wos_ready :: "wos_cpu_state \<Rightarrow> bool" where
  "wos_ready s \<longleftrightarrow> wos_registered s \<and> wos_telemetry_ok s"

lemma wos_start_total:
  assumes ok: "wos_telemetry_ok s" and f: "flagged good s"
  shows "\<exists>rc s'. wos_cpu_start r s = Ret (rc, s') \<and> wos_telemetry_ok s' \<and> wos_frame s s' \<and> sn_data s' = sn_data s \<and>
     (if rc = SUCCESS
      then \<exists>q. r = Some q \<and> \<not> g_is_thread_running s \<and> g_is_thread_running s' \<and>
             th_handle (g_thread_info s') = Thread (length (sn_threads s)) \<and> sn_threads s' = sn_threads s @ [Spawned r] \<and>
             (if g_telemetry_source s' = SOURCE_NTQUERY then g_ntquery_initialized (g_ntquery s') else g_initialized (g_pdh s'))
      else same_control s s')"
proof (cases "r = None \<or> g_data_callback s = None \<or> g_is_thread_running s")
  case True
  then show ?thesis using ok by (auto simp: wos_cpu_start_def split: option.splits)
next
  case False
  then obtain rq where rq: "r = Some rq" by auto
  obtain rc s1 where s1: "wos_open_telemetry s = Ret (rc, s1)" "wos_telemetry_ok s1" "same_control s s1" "wos_frame s s1" "sn_data s1 = sn_data s"
    "rc = SUCCESS \<longrightarrow> (if g_telemetry_source s1 = SOURCE_NTQUERY then g_ntquery_initialized (g_ntquery s1) else g_initialized (g_pdh s1))"
    using wos_open_law [OF ok] by blast
  have idle: "th_handle (g_thread_info s) = NoThread" using f False by (auto simp: flagged_def split: thread_handle.splits)
  have c: "g_thread_info s1 = g_thread_info s" "sn_threads s1 = sn_threads s" "g_is_thread_running s1 = g_is_thread_running s"
    using s1(3) by (simp_all add: same_control_def)
  have info: "(g_thread_info s)\<lparr>th_handle := NoThread\<rparr> = g_thread_info s" using idle by simp
  consider (unopened) "rc \<noteq> SUCCESS" | (spawning) "rc = SUCCESS" "\<not> fst (calloc_ok (sn_faults s1))" | (started) "rc = SUCCESS" "fst (calloc_ok (sn_faults s1))"
    by blast
  then show ?thesis
  proof cases
    case unopened
    then show ?thesis using False rq s1 ok by (simp add: wos_cpu_start_def)
  next
    case spawning
    then show ?thesis
      using False rq s1 c info ok by (simp add: wos_cpu_start_def windows_spawn_eq same_control_def)
  next
    case started
    then show ?thesis
      using False rq s1 c ok by (simp add: wos_cpu_start_def windows_spawn_eq wos_thread_attrs_def)
  qed
qed

text \<open>The thread's entry, for a request it can serve and a registered table.\<close>

definition adjusted :: "QcPerfRequest \<Rightarrow> QcPerfRequest" where
  "adjusted rq = (if rq_sampling_rate rq = 0 \<or> rq_sampling_rate rq > rq_streaming_rate rq
                  then rq\<lparr>rq_sampling_rate := rq_streaming_rate rq\<rparr> else rq)"

definition wos_batch :: "QcPerfRequest \<Rightarrow> nat" where
  "wos_batch rq = unat (rq_streaming_rate rq) div unat (rq_sampling_rate (adjusted rq))"

lemma adjusted_rate:
  "rq_streaming_rate rq \<noteq> 0 \<Longrightarrow> rq_sampling_rate (adjusted rq) \<noteq> 0 \<and> rq_sampling_rate (adjusted rq) \<le> rq_streaming_rate rq"
  by (auto simp: adjusted_def not_less)

lemma wos_batch_bounds:
  assumes "rq_streaming_rate rq \<noteq> 0"
  shows "1 \<le> wos_batch rq" "wos_batch rq < 65536"
proof -
  let ?a = "unat (rq_sampling_rate (adjusted rq))" and ?b = "unat (rq_streaming_rate rq)"
  have ab: "0 < ?a" "?a \<le> ?b" using adjusted_rate [OF assms] by (simp_all add: unat_gt_0 word_le_nat_alt)
  then show "1 \<le> wos_batch rq" by (simp add: wos_batch_def Suc_le_eq div_greater_zero_iff)
  have "?b < 65536" using unsigned_less [where 'a = nat, of "rq_streaming_rate rq"] by simp
  then show "wos_batch rq < 65536" unfolding wos_batch_def by (rule le_less_trans [OF div_le_dividend])
qed

lemma wos_entry_total:
  assumes reg: "wos_registered s" and g: "nonzero_rate r"
  shows "\<exists>lo s'. wos_thread_entry env r s = Ret (lo, s') \<and> same_control s s' \<and> wos_frame s s' \<and> sn_data s' = sn_data s \<and>
     wos_telemetry_ok s' = wos_telemetry_ok s \<and> g_ntquery s' = g_ntquery s \<and> g_pdh s' = g_pdh s \<and> g_telemetry_source s' = g_telemetry_source s \<and>
     (r \<noteq> None \<and> sn_faults s = [] \<longrightarrow> lo \<noteq> None) \<and>
     (\<forall>l. lo = Some l \<longrightarrow> (\<exists>rq. r = Some rq \<and> wl_request l = adjusted rq \<and> unat (wl_sample_count l) = wos_batch rq \<and>
        unat (wl_allocated l) = wos_batch rq * (2 + 3 * wos_cores s) \<and> wl_index l = 0 \<and> wl_current_sample l = 0 \<and>
        length (cm_cores (wl_cpu_info l)) = 18 \<and> pd_backend_id (wl_data l) = 5 \<and>
        length (pd_metric_response (wl_data l)) = unat (wl_allocated l)))"
proof (cases r)
  case None
  then show ?thesis by (simp add: wos_thread_entry_def)
next
  case (Some rq)
  have st: "rq_streaming_rate rq \<noteq> 0" using g Some by (simp add: nonzero_rate_def)
  note d = wos_registered_deref [OF reg]
  have cnt: "unat ((ucast (ci_metric_ids_list_len (wos_capability (wos_cores s)))) :: u32) = 2 + 3 * wos_cores s"
    using wos_cores_le [of s] by (simp add: wos_capability_def unsigned_ucast_eq unsigned_of_nat unat_word_ariths take_bit_nat_eq_self)
  let ?q = "adjusted rq"
  have nz: "rq_sampling_rate ?q \<noteq> 0" "rq_streaming_rate ?q = rq_streaming_rate rq"
    using adjusted_rate [OF st] by (simp_all add: adjusted_def)
  have up: "unat (ucast x :: u32) = unat x" for x :: u16
    using unsigned_less [where 'a = nat, of x] by (simp add: unsigned_ucast_eq take_bit_nat_eq_self)
  let ?n = "(ucast (rq_streaming_rate rq) :: u32) div ucast (rq_sampling_rate ?q)"
  have n: "unat ?n = wos_batch rq" by (simp add: unat_div up wos_batch_def)
  have "wos_batch rq * (2 + 3 * wos_cores s) \<le> 65536 * 56"
    using wos_batch_bounds [OF st] wos_cores_le [of s] by (intro mult_le_mono) auto
  then have m: "unat (?n * ucast (ci_metric_ids_list_len (wos_capability (wos_cores s)))) = wos_batch rq * (2 + 3 * wos_cores s)"
    using n cnt by (subst unat_mult_lem [THEN iffD1]) auto
  have ad: "(if rq_sampling_rate rq = 0 \<or> rq_sampling_rate rq > rq_streaming_rate rq
      then rq\<lparr>rq_sampling_rate := rq_streaming_rate rq\<rparr> else rq) = ?q" by (simp add: adjusted_def)
  show ?thesis
    using n m nz
    by (cases "sn_faults s = []") (simp_all add: Some wos_thread_entry_def d Let_def alloc_pair ad zero_cpu_metrics_def same_control_def)
qed

end
