(* ===== verification/WosCpuThread.thy ===== *)
theory WosCpuThread
  imports WosCpuProps
begin

text \<open>
  The collection thread of the CPU backend for Windows against a reference, and its sessions: an iteration
  reports the clamped figures of a collection that succeeds and nothing of one that fails; what is delivered is
  what the reference reports, in order, with every utilization between 0 and 100.
\<close>

section \<open>Steps that only write messages\<close>

lemma quiet_send [simp]: "quiet s (WOS_SEND lv t s)"
  by (simp add: WOS_SEND_def wos_cpu_log_message_def)

lemma quiet_warning [simp]: "quiet s (clamp_warning what x s)"
  by (simp add: clamp_warning_def Let_def)

lemma quiet_fields:
  assumes "quiet s s'"
  shows "same_control s s'" "wos_frame s s'" "sn_data s' = sn_data s" "g_ntquery s' = g_ntquery s" "g_pdh s' = g_pdh s"
    "g_telemetry_source s' = g_telemetry_source s" "wos_telemetry_ok s' = wos_telemetry_ok s"
  using assms by (auto simp: quiet_def same_control_def wos_frame_def wos_telemetry_ok_def)

section \<open>Clamping\<close>

definition clamped_core :: "CpuCoreMetrics \<Rightarrow> CpuCoreMetrics" where
  "clamped_core c = c\<lparr>cc_utilization := clamp_percent (cc_utilization c)\<rparr>"

definition wos_clamped :: "CpuMetrics \<Rightarrow> CpuMetrics" where
  "wos_clamped m = m\<lparr>cm_total_utilization := clamp_percent (cm_total_utilization m),
     cm_cores := rewritten 0 (unat (cm_num_cores m)) (\<lambda>i. clamped_core (cm_cores m ! i)) (cm_cores m)\<rparr>"

lemma clamp_percent_range: "0 \<le> clamp_percent x \<and> clamp_percent x \<le> 100"
  by (simp add: clamp_percent_def)

lemma clamp_cores_Ret:
  "k + n \<le> length (cm_cores m) \<Longrightarrow> \<exists>s'. clamp_cores k n m s =
     Ret (m\<lparr>cm_cores := rewritten k n (\<lambda>i. clamped_core (cm_cores m ! i)) (cm_cores m)\<rparr>, s') \<and> quiet s s'"
proof (induction n arbitrary: k m s)
  case (Suc n)
  have k: "k < length (cm_cores m)" using Suc.prems by simp
  let ?m = "m\<lparr>cm_cores := (cm_cores m)[k := clamped_core (cm_cores m ! k)]\<rparr>"
  let ?s = "clamp_warning (''Core '' @ show_u k) (cc_utilization (cm_cores m ! k)) s"
  obtain s' where s': "clamp_cores (Suc k) n ?m ?s =
     Ret (?m\<lparr>cm_cores := rewritten (Suc k) n (\<lambda>i. clamped_core (cm_cores ?m ! i)) (cm_cores ?m)\<rparr>, s')" "quiet ?s s'"
    using Suc.IH [of "Suc k" ?m ?s] Suc.prems by auto
  have "rewritten (Suc k) n (\<lambda>i. clamped_core (cm_cores ?m ! i)) (cm_cores ?m) =
      rewritten (Suc k) n (\<lambda>i. clamped_core (cm_cores m ! i)) (cm_cores ?m)" by (rule rewritten_cong) simp
  also have "\<dots> = rewritten k (Suc n) (\<lambda>i. clamped_core (cm_cores m ! i)) (cm_cores m)"
    using rewritten_Suc [OF k, where f = "\<lambda>i. clamped_core (cm_cores m ! i)"] by simp
  finally have r: "rewritten (Suc k) n (\<lambda>i. clamped_core (cm_cores ?m ! i)) (cm_cores ?m) =
      rewritten k (Suc n) (\<lambda>i. clamped_core (cm_cores m ! i)) (cm_cores m)" .
  have "clamp_cores k (Suc n) m s = clamp_cores (Suc k) n ?m ?s" using k by (simp add: clamped_core_def)
  then show ?case using s' r quiet_trans [OF quiet_warning s'(2)] by simp
qed simp

lemma clamp_cores_quiet: "clamp_cores k n m s = Ret (m', s') \<Longrightarrow> quiet s s'"
  by (induction k n m s rule: clamp_cores.induct) (auto simp: outcome_simps intro: quiet_trans [OF quiet_warning])

section \<open>Storing the figures\<close>

lemma wos_put_filled:
  assumes f: "filled tot b xs" and lt: "snd b < tot"
  shows "\<exists>b'. wos_put now i v b = Ret b' \<and> filled tot b' (xs @ [(i, now, Dbl v)])"
proof -
  obtain rs pos where b: "b = (rs, pos)" by (cases b)
  let ?r = "\<lparr>mr_timestamp = now, mr_metric_id = i,
     mr_metric_value = (mr_metric_value (rs ! unat pos))\<lparr>gt_data_type := TYPE_DOUBLE, gt_double_value := v\<rparr>\<rparr>"
  have r: "response_reading ?r = (i, now, Dbl v)" by (simp add: response_reading_def reading_of_def)
  note s = filled_store [OF f [unfolded b] lt [unfolded b snd_conv] r]
  show ?thesis using s by (simp add: b wos_put_def)
qed

lemma wos_put_if_filled:
  assumes f: "filled tot b xs"
  shows "\<exists>b'. wos_put_if tot now i v b = Ret b' \<and> filled tot b' (xs @ [(i, now, Dbl v)])"
proof (cases "snd b < tot")
  case True
  then show ?thesis using wos_put_filled [OF f True] by (simp add: wos_put_if_def)
next
  case False
  then have "unat tot \<le> length xs" using filled_room [OF f] by simp
  then show ?thesis using False filled_full [OF _ f] by (simp add: wos_put_if_def)
qed

definition core_readings :: "u64 \<Rightarrow> CpuMetrics \<Rightarrow> nat \<Rightarrow> (u16 \<times> u64 \<times> reading) list" where
  "core_readings now m k =
     (let c = cm_cores m ! k; base = WOS_CPU_CORE_BASE_ID (of_nat k)
      in [(base + WOS_CPU_UTIL_OFFSET, now, Dbl (cc_utilization c)),
          (base + WOS_CPU_FREQ_OFFSET, now, Dbl (of_nat (unat (cc_frequency c)))),
          (base + WOS_CPU_MAX_FREQ_OFFSET, now, Dbl (of_nat (unat (cc_maximum_frequency c))))])"

lemma wos_put_cores_filled:
  "k + n \<le> length (cm_cores m) \<Longrightarrow> filled tot b xs \<Longrightarrow>
     \<exists>b'. wos_put_cores tot now k n m b = Ret b' \<and> filled tot b' (xs @ concat (map (core_readings now m) [k..<k + n]))"
proof (induction n arbitrary: k b xs)
  case (Suc n)
  show ?case
  proof (cases "snd b < tot")
    case False
    then have "unat tot \<le> length xs" using filled_room [OF Suc.prems(2)] by simp
    then show ?thesis using False filled_full [OF _ Suc.prems(2)] by simp
  next
    case True
    let ?c = "cm_cores m ! k" and ?base = "WOS_CPU_CORE_BASE_ID (of_nat k)"
    obtain b1 where 1: "wos_put now (?base + 0) (cc_utilization ?c) b = Ret b1"
      "filled tot b1 (xs @ [(?base + 0, now, Dbl (cc_utilization ?c))])"
      using wos_put_filled [OF Suc.prems(2) True] by blast
    obtain b2 where 2: "wos_put_if tot now (?base + 1) (of_nat (unat (cc_frequency ?c))) b1 = Ret b2"
      "filled tot b2 ((xs @ [(?base + 0, now, Dbl (cc_utilization ?c))]) @ [(?base + 1, now, Dbl (of_nat (unat (cc_frequency ?c))))])"
      using wos_put_if_filled [OF 1(2)] by blast
    obtain b3 where 3: "wos_put_if tot now (?base + 2) (of_nat (unat (cc_maximum_frequency ?c))) b2 = Ret b3"
      "filled tot b3 (xs @ core_readings now m k)"
      using wos_put_if_filled [OF 2(2), of now "?base + 2" "of_nat (unat (cc_maximum_frequency ?c))"] by (auto simp: core_readings_def Let_def)
    obtain b4 where 4: "wos_put_cores tot now (Suc k) n m b3 = Ret b4"
      "filled tot b4 ((xs @ core_readings now m k) @ concat (map (core_readings now m) [Suc k..<Suc k + n]))"
      using Suc.IH [OF _ 3(2), of "Suc k"] Suc.prems(1) by auto
    have "wos_put_cores tot now k (Suc n) m b = wos_put_cores tot now (Suc k) n m b3"
      using True Suc.prems(1) 1(1) 2(1) 3(1) by (simp add: Let_def)
    then show ?thesis using 4 upt_conv_Cons [of k "k + Suc n"] by simp
  qed
qed simp

text \<open>The figures of one collection.\<close>

definition wos_figures :: "u64 \<Rightarrow> CpuMetrics \<Rightarrow> (u16 \<times> u64 \<times> reading) list" where
  "wos_figures now m =
     [(WOS_CPU_TOTAL_UTIL_ID, now, Dbl (cm_total_utilization m)), (WOS_CPU_TOTAL_FREQ_ID, now, Dbl (cm_total_frequency m))] @
     concat (map (core_readings now m) [0..<unat (cm_num_cores m)])"

lemma wos_figures_length: "length (wos_figures now m) = 2 + 3 * unat (cm_num_cores m)"
proof -
  have "length (concat (map (core_readings now m) [0..<n])) = 3 * n" for n
    by (induction n) (simp_all add: core_readings_def Let_def)
  then show ?thesis by (simp add: wos_figures_def)
qed

section \<open>The reference\<close>

text \<open>What the source in use answers, and what a round reports from the time, the last figures and the two sources.\<close>

definition wos_answer ::
  "eCpuTelemetrySource \<Rightarrow> telemetry_env \<Rightarrow> CpuMetrics \<times> ntquery_state \<times> pdh_state
     \<Rightarrow> bool \<times> CpuMetrics \<times> ntquery_state \<times> pdh_state" where
  "wos_answer src e a =
     (case a of (m, nq, p) \<Rightarrow>
        (if src = SOURCE_NTQUERY
         then (case cpuTelemetryNtQuery_collect e (Some m) nq of
                 Ret (rc, Some x, nq') \<Rightarrow> (rc = TELEMETRY_SUCCESS, x, nq', p) | _ \<Rightarrow> (False, m, nq, p))
         else (case cpuTelemetryPdh_collect e (Some m) p of
                 Ret (rc, Some x, p') \<Rightarrow> (rc = TELEMETRY_SUCCESS, x, nq, p') | _ \<Rightarrow> (False, m, nq, p))))"

definition wos_out ::
  "eCpuTelemetrySource \<Rightarrow> wos_env \<Rightarrow> u64 \<times> CpuMetrics \<times> ntquery_state \<times> pdh_state
     \<Rightarrow> (u16 \<times> u64 \<times> reading) list \<times> (u64 \<times> CpuMetrics \<times> ntquery_state \<times> pdh_state)" where
  "wos_out src env a =
     (case a of (t, b) \<Rightarrow>
        let now = win_now (we_now env) t; (collected, x, st) = wos_answer src (we_telemetry env) b
        in if collected then (wos_figures now (wos_clamped x), (now, wos_clamped x, st)) else ([], (now, x, st)))"

lemma wos_collect_answer:
  assumes ok: "wos_telemetry_ok s" and m: "length (cm_cores m) = 18"
  shows "\<exists>rc x s'. wos_collect env m s = Ret (rc, x, s') \<and> wos_telemetry_ok s' \<and> same_control s s' \<and> wos_frame s s' \<and>
     sn_data s' = sn_data s \<and> g_telemetry_source s' = g_telemetry_source s \<and> length (cm_cores x) = 18 \<and>
     (rc = TELEMETRY_SUCCESS \<longrightarrow> unat (cm_num_cores x) = wos_cores s) \<and>
     wos_answer (g_telemetry_source s) (we_telemetry env) (m, g_ntquery s, g_pdh s) =
       (rc = TELEMETRY_SUCCESS, x, g_ntquery s', g_pdh s')"
proof -
  have k: "ntquery_ok (w_processors s) (g_ntquery s)" "pdh_ok (w_processors s) (g_pdh s)"
    using ok by (simp_all add: wos_telemetry_ok_def)
  show ?thesis
  proof (cases "g_telemetry_source s = SOURCE_NTQUERY")
    case True
    obtain rc x nq where "cpuTelemetryNtQuery_collect (we_telemetry env) (Some m) (g_ntquery s) = Ret (rc, Some x, nq)"
      "ntquery_ok (w_processors s) nq" "length (cm_cores x) = 18"
      "rc = TELEMETRY_SUCCESS \<longrightarrow> cm_num_cores x = clamp_processors (w_processors s)"
      using ntq.collect_law [OF k(1) m, of "we_telemetry env"] by blast
    then show ?thesis using True k
      by (simp add: wos_collect_def wos_answer_def wos_telemetry_ok_def same_control_def wos_cores_def)
  next
    case False
    obtain rc x p where "cpuTelemetryPdh_collect (we_telemetry env) (Some m) (g_pdh s) = Ret (rc, Some x, p)"
      "pdh_ok (w_processors s) p" "length (cm_cores x) = 18"
      "rc = TELEMETRY_SUCCESS \<longrightarrow> cm_num_cores x = clamp_processors (w_processors s)"
      using pdh.collect_law [OF k(2) m, of "we_telemetry env"] by blast
    then show ?thesis using False k
      by (simp add: wos_collect_def wos_answer_def wos_telemetry_ok_def same_control_def wos_cores_def)
  qed
qed

section \<open>One iteration\<close>

definition wos_state_of :: "wos_local \<Rightarrow> wos_cpu_state \<Rightarrow> u64 \<times> CpuMetrics \<times> ntquery_state \<times> pdh_state" where
  "wos_state_of l s = (wl_current_time l, wl_cpu_info l, g_ntquery s, g_pdh s)"

definition wos_buffer :: "wos_local \<Rightarrow> response_buffer" where
  "wos_buffer l = (pd_metric_response (wl_data l), wl_index l)"

lemma wos_sample_readings:
  fixes env :: wos_env
  assumes ok: "wos_telemetry_ok s" and m: "length (cm_cores (wl_cpu_info l)) = 18"
    and f: "filled (wl_allocated l) (wos_buffer l) xs" and t: "wl_current_time l = t"
  defines "now \<equiv> win_now (we_now env) t"
  defines "out \<equiv> wos_out (g_telemetry_source s) env (wos_state_of l s)"
  shows "\<exists>x rs i s'. wos_sample env now (l\<lparr>wl_current_time := now\<rparr>) s =
       Ret (l\<lparr>wl_current_time := now, wl_cpu_info := x, wl_data := (wl_data l)\<lparr>pd_metric_response := rs\<rparr>, wl_index := i\<rparr>, s') \<and>
     wos_telemetry_ok s' \<and> same_control s s' \<and> wos_frame s s' \<and> sn_data s' = sn_data s \<and>
     g_telemetry_source s' = g_telemetry_source s \<and> length (cm_cores x) = 18 \<and>
     filled (wl_allocated l) (rs, i) (xs @ fst out) \<and> (now, x, g_ntquery s', g_pdh s') = snd out \<and>
     (fst out = [] \<or> length (fst out) = 2 + 3 * wos_cores s)"
proof -
  let ?l = "l\<lparr>wl_current_time := now\<rparr>"
  obtain rc x s1 where c: "wos_collect env (wl_cpu_info l) s = Ret (rc, x, s1)" "wos_telemetry_ok s1" "same_control s s1" "wos_frame s s1"
    "sn_data s1 = sn_data s" "g_telemetry_source s1 = g_telemetry_source s" "length (cm_cores x) = 18"
    "rc = TELEMETRY_SUCCESS \<longrightarrow> unat (cm_num_cores x) = wos_cores s"
    "wos_answer (g_telemetry_source s) (we_telemetry env) (wl_cpu_info l, g_ntquery s, g_pdh s) =
       (rc = TELEMETRY_SUCCESS, x, g_ntquery s1, g_pdh s1)"
    using wos_collect_answer [OF ok m] by blast
  have o: "out = (if rc = TELEMETRY_SUCCESS then (wos_figures now (wos_clamped x), (now, wos_clamped x, g_ntquery s1, g_pdh s1))
      else ([], (now, x, g_ntquery s1, g_pdh s1)))"
    using c(9) by (simp add: out_def wos_out_def wos_state_of_def t now_def Let_def)
  show ?thesis
  proof (cases "rc = TELEMETRY_SUCCESS")
    case False
    let ?s = "WOS_SEND LEVEL_ERROR (''cpuTelemetry collect failed with error='' @ show_u (telemetry_code rc)) s1"
    have "wos_sample env now ?l s = Ret (?l\<lparr>wl_cpu_info := x\<rparr>, ?s)" using c(1) False by (simp add: wos_sample_def)
    then show ?thesis using False c o f
      by (intro exI [of _ x] exI [of _ "pd_metric_response (wl_data l)"] exI [of _ "wl_index l"] exI [of _ ?s]) (simp add: wos_buffer_def)
  next
    case True
    let ?u = "cm_total_utilization x" let ?m1 = "x\<lparr>cm_total_utilization := clamp_percent ?u\<rparr>"
    have n: "0 + unat (cm_num_cores x) \<le> length (cm_cores ?m1)" using True c(7,8) wos_cores_le [of s] by simp
    obtain s2 where s2: "clamp_cores 0 (unat (cm_num_cores x)) ?m1 (clamp_warning ''Total'' ?u s1) = Ret (wos_clamped x, s2)"
      "quiet (clamp_warning ''Total'' ?u s1) s2"
      using clamp_cores_Ret [OF n, of "clamp_warning ''Total'' ?u s1"] by (auto simp: wos_clamped_def)
    note q = quiet_fields [OF quiet_trans [OF quiet_warning s2(2)]]
    have nc: "cm_num_cores (wos_clamped x) = cm_num_cores x" "length (cm_cores (wos_clamped x)) = 18"
      using c(7) by (simp_all add: wos_clamped_def)
    obtain b1 where 1: "wos_put_if (wl_allocated l) now 0 (cm_total_utilization (wos_clamped x)) (wos_buffer l) = Ret b1"
      "filled (wl_allocated l) b1 (xs @ [(0, now, Dbl (cm_total_utilization (wos_clamped x)))])"
      using wos_put_if_filled [OF f] by blast
    obtain b2 where 2: "wos_put_if (wl_allocated l) now 1 (cm_total_frequency (wos_clamped x)) b1 = Ret b2"
      "filled (wl_allocated l) b2 ((xs @ [(0, now, Dbl (cm_total_utilization (wos_clamped x)))]) @ [(1, now, Dbl (cm_total_frequency (wos_clamped x)))])"
      using wos_put_if_filled [OF 1(2)] by blast
    obtain rs i where 3: "wos_put_cores (wl_allocated l) now 0 (unat (cm_num_cores x)) (wos_clamped x) b2 = Ret (rs, i)"
      "filled (wl_allocated l) (rs, i) (xs @ wos_figures now (wos_clamped x))"
      using wos_put_cores_filled [OF _ 2(2), of 0 "unat (cm_num_cores x)" "wos_clamped x" now] nc c(7) n
      by (auto simp: wos_figures_def)
    have "wos_sample env now ?l s = Ret (?l\<lparr>wl_cpu_info := wos_clamped x, wl_data := (wl_data l)\<lparr>pd_metric_response := rs\<rparr>, wl_index := i\<rparr>, s2)"
      using c(1) True s2(1) 1(1) 2(1) 3(1) nc by (simp add: wos_sample_def Let_def wos_buffer_def)
    then show ?thesis
      using True c q o nc 3(2) same_control_trans [OF c(3) q(1)] wos_frame_trans [OF c(4) q(2)] wos_figures_length [of now "wos_clamped x"]
      by (intro exI [of _ "wos_clamped x"] exI [of _ rs] exI [of _ i] exI [of _ s2]) simp
  qed
qed

text \<open>The delivery: nothing changes but the clock and the count, or the batch is handed over.\<close>

lemma wos_stream_readings:
  assumes f: "filled (wl_allocated l) (wos_buffer l) ys"
  shows "\<exists>l' s' ys' bs. wos_stream env l s = (l', s') \<and> same_control s s' \<and> wos_frame s s' \<and>
     wos_telemetry_ok s' = wos_telemetry_ok s \<and> g_telemetry_source s' = g_telemetry_source s \<and>
     wos_state_of l' s' = wos_state_of l s \<and> wl_allocated l' = wl_allocated l \<and> wl_sample_count l' = wl_sample_count l \<and>
     wl_request l' = wl_request l \<and> pd_backend_id (wl_data l') = pd_backend_id (wl_data l) \<and>
     filled (wl_allocated l) (wos_buffer l') ys' \<and> sn_data s' = sn_data s @ bs \<and>
     (bs = [] \<and> ys' = ys \<and> (wl_index l < wl_allocated l \<or> wl_index l = 0) \<or>
      ys' = [] \<and> wl_index l \<noteq> 0 \<and> (\<exists>d. bs = (case g_data_callback s of Some cb \<Rightarrow> [(cb, d)] | None \<Rightarrow> []) \<and>
         batch_readings d = take (unat (wl_allocated l)) ys \<and> 0 < pd_metric_response_len d \<and> pd_backend_id d = pd_backend_id (wl_data l)))"
proof -
  let ?l = "l\<lparr>wl_current_sample := wl_current_sample l + 1, wl_end_time := win_now (we_end env) (wl_end_time l)\<rparr>"
  let ?r = "\<lambda>l. l\<lparr>wl_start_time := win_now (we_restart env) (wl_start_time l)\<rparr>"
  let ?d = "(wl_data l)\<lparr>pd_metric_response_len := unat (wl_index l)\<rparr>"
  let ?due = "wl_sample_count ?l \<le> ucast (wl_current_sample ?l) \<or> wl_allocated ?l \<le> wl_index ?l \<or>
            ucast (rq_streaming_rate (wl_request ?l)) < (wl_end_time ?l - wl_start_time ?l) div 1000000"
  consider (wait) "\<not> ?due" | (empty) ?due "wl_index l = 0" | (full) ?due "wl_index l \<noteq> 0" by blast
  then show ?thesis
  proof cases
    case wait
    then have "wos_stream env l s = (?l, s)" unfolding wos_stream_def Let_def by (simp only: if_False)
    then show ?thesis using wait f
      by (intro exI [of _ ?l] exI [of _ s] exI [of _ ys] exI [of _ "[]"]) (auto simp: wos_state_of_def wos_buffer_def)
  next
    case empty
    let ?s = "WOS_SEND LEVEL_ERROR ''No profiling data collected'' s"
    have "wos_stream env l s = (?r ?l, ?s)" using empty unfolding wos_stream_def Let_def by (simp del: disj_assoc)
    then show ?thesis using empty(2) f
      by (intro exI [of _ "?r ?l"] exI [of _ ?s] exI [of _ ys] exI [of _ "[]"]) (simp add: wos_state_of_def wos_buffer_def)
  next
    case full
    let ?f = "?l\<lparr>wl_data := ?d, wl_index := 0, wl_current_sample := 0\<rparr>"
    let ?s = "case g_data_callback s of Some cb \<Rightarrow> s\<lparr>sn_data := sn_data s @ [(cb, ?d)]\<rparr>
       | None \<Rightarrow> WOS_SEND LEVEL_ERROR ''Data callback is NULL'' s"
    let ?bs = "case g_data_callback s of Some cb \<Rightarrow> [(cb, ?d)] | None \<Rightarrow> []"
    have st: "wos_stream env l s = (?r ?f, ?s)" using full unfolding wos_stream_def Let_def
      by (cases "g_data_callback s") (simp_all del: disj_assoc)
    have fl: "length (pd_metric_response (wl_data l)) = unat (wl_allocated l)"
      "batch_readings ?d = take (unat (wl_allocated l)) ys"
      using f unfolding filled_def wos_buffer_def batch_readings_def by auto
    have "0 < pd_metric_response_len ?d" using full(2) by (simp add: unat_gt_0)
    then show ?thesis using st fl full(2)
      by (intro exI [of _ "?r ?f"] exI [of _ ?s] exI [of _ "[]"] exI [of _ ?bs])
         (auto simp: wos_state_of_def wos_buffer_def filled_fresh same_control_def split: option.splits)
  qed
qed

lemma wos_iterate_readings:
  fixes env :: wos_env
  assumes ok: "wos_telemetry_ok s" and m: "length (cm_cores (wl_cpu_info l)) = 18" and f: "filled (wl_allocated l) (wos_buffer l) xs"
  defines "out \<equiv> wos_out (g_telemetry_source s) env (wos_state_of l s)"
  shows "\<exists>l' s' ys bs. wos_thread_iterate env l s = Ret (l', s') \<and> wos_telemetry_ok s' \<and> same_control s s' \<and> wos_frame s s' \<and>
     g_telemetry_source s' = g_telemetry_source s \<and> length (cm_cores (wl_cpu_info l')) = 18 \<and>
     wl_allocated l' = wl_allocated l \<and> wl_sample_count l' = wl_sample_count l \<and>
     pd_backend_id (wl_data l') = pd_backend_id (wl_data l) \<and>
     filled (wl_allocated l) (wos_buffer l') ys \<and> wos_state_of l' s' = snd out \<and> sn_data s' = sn_data s @ bs \<and>
     (fst out = [] \<or> length (fst out) = 2 + 3 * wos_cores s) \<and>
     (bs = [] \<and> ys = xs @ fst out \<and> (min (length ys) (unat (wl_allocated l)) < unat (wl_allocated l) \<or> min (length ys) (unat (wl_allocated l)) = 0) \<or>
      ys = [] \<and> (\<exists>d. bs = (case g_data_callback s of Some cb \<Rightarrow> [(cb, d)] | None \<Rightarrow> []) \<and>
         batch_readings d = take (unat (wl_allocated l)) (xs @ fst out) \<and> 0 < pd_metric_response_len d \<and>
         pd_backend_id d = pd_backend_id (wl_data l)))"
proof -
  let ?now = "win_now (we_now env) (wl_current_time l)"
  obtain x rs i s1 where 1: "wos_sample env ?now (l\<lparr>wl_current_time := ?now\<rparr>) s =
       Ret (l\<lparr>wl_current_time := ?now, wl_cpu_info := x, wl_data := (wl_data l)\<lparr>pd_metric_response := rs\<rparr>, wl_index := i\<rparr>, s1)"
     "wos_telemetry_ok s1" "same_control s s1" "wos_frame s s1" "sn_data s1 = sn_data s"
     "g_telemetry_source s1 = g_telemetry_source s" "length (cm_cores x) = 18"
     "filled (wl_allocated l) (rs, i) (xs @ fst out)" "(?now, x, g_ntquery s1, g_pdh s1) = snd out"
     "fst out = [] \<or> length (fst out) = 2 + 3 * wos_cores s"
    using wos_sample_readings [OF ok m f refl, of env] unfolding out_def by blast
  let ?l = "l\<lparr>wl_current_time := ?now, wl_cpu_info := x, wl_data := (wl_data l)\<lparr>pd_metric_response := rs\<rparr>, wl_index := i\<rparr>"
  have fl: "filled (wl_allocated ?l) (wos_buffer ?l) (xs @ fst out)" using 1(8) by (simp add: wos_buffer_def)
  have i: "unat i = min (length (xs @ fst out)) (unat (wl_allocated l))" using 1(8) unfolding filled_def by simp
  obtain l2 s2 ys bs where 2: "wos_stream env ?l s1 = (l2, s2)" "same_control s1 s2" "wos_frame s1 s2"
     "wos_telemetry_ok s2 = wos_telemetry_ok s1" "g_telemetry_source s2 = g_telemetry_source s1"
     "wos_state_of l2 s2 = wos_state_of ?l s1" "wl_allocated l2 = wl_allocated ?l" "wl_sample_count l2 = wl_sample_count ?l"
     "pd_backend_id (wl_data l2) = pd_backend_id (wl_data ?l)" "filled (wl_allocated ?l) (wos_buffer l2) ys" "sn_data s2 = sn_data s1 @ bs"
     "bs = [] \<and> ys = xs @ fst out \<and> (wl_index ?l < wl_allocated ?l \<or> wl_index ?l = 0) \<or>
      ys = [] \<and> wl_index ?l \<noteq> 0 \<and> (\<exists>d. bs = (case g_data_callback s1 of Some cb \<Rightarrow> [(cb, d)] | None \<Rightarrow> []) \<and>
         batch_readings d = take (unat (wl_allocated ?l)) (xs @ fst out) \<and> 0 < pd_metric_response_len d \<and>
         pd_backend_id d = pd_backend_id (wl_data ?l))"
    using wos_stream_readings [OF fl, of env s1] by blast
  let ?l' = "l2\<lparr>wl_slept := unat (rq_sampling_rate (wl_request l2))\<rparr>"
  have it: "wos_thread_iterate env l s = Ret (?l', s2)" using 1(1) 2(1) by (simp add: wos_thread_iterate_def Let_def)
  have st: "wos_state_of l2 s2 = snd out" using 1(9) 2(6) by (simp add: wos_state_of_def)
  have x: "wl_cpu_info l2 = x" using 2(6) by (simp add: wos_state_of_def)
  have cb: "g_data_callback s1 = g_data_callback s" using 1(4) by (simp add: wos_frame_def)
  have d: "bs = [] \<and> ys = xs @ fst out \<and> (min (length ys) (unat (wl_allocated l)) < unat (wl_allocated l) \<or> min (length ys) (unat (wl_allocated l)) = 0) \<or>
      ys = [] \<and> (\<exists>d. bs = (case g_data_callback s of Some cb \<Rightarrow> [(cb, d)] | None \<Rightarrow> []) \<and>
         batch_readings d = take (unat (wl_allocated l)) (xs @ fst out) \<and> 0 < pd_metric_response_len d \<and>
         pd_backend_id d = pd_backend_id (wl_data l))"
    using 2(12)
  proof (elim disjE conjE)
    assume a: "bs = []" "ys = xs @ fst out" and "wl_index ?l < wl_allocated ?l"
    then have "min (length ys) (unat (wl_allocated l)) < unat (wl_allocated l)" using i by (simp only: a) (simp add: word_less_nat_alt)
    then show ?thesis using a by blast
  next
    assume a: "bs = []" "ys = xs @ fst out" and "wl_index ?l = 0"
    then have "min (length ys) (unat (wl_allocated l)) = 0" using i by (simp only: a) simp
    then show ?thesis using a by blast
  qed (simp add: cb)
  show ?thesis
    by (rule exI [of _ ?l'], rule exI [of _ s2], rule exI [of _ ys], rule exI [of _ bs], intro conjI, rule it)
       (use 1 2 st x d same_control_trans [OF 1(3) 2(2)] wos_frame_trans [OF 1(4) 2(3)] in
         \<open>simp_all add: wos_buffer_def wos_state_of_def\<close>)
qed

end
