(* ===== verification/WosCpuLive.thy ===== *)
theory WosCpuLive
  imports WosCpuThread
begin

text \<open>
  The theorems of the CPU backend for Windows: its sessions never get stuck as long as no request has a zero
  streaming rate, one that has is fatal, and what is delivered is what the reference of \<open>WosCpuThread\<close> reports.
\<close>

section \<open>What an iteration can change\<close>

lemma wos_collect_control:
  assumes "wos_collect env m s = Ret (rc, x, s')"
  shows "same_control s s' \<and> wos_frame s s' \<and> (wos_telemetry_ok s \<longrightarrow> wos_telemetry_ok s')"
proof -
  show ?thesis
  proof (cases "g_telemetry_source s = SOURCE_NTQUERY")
    case True
    then obtain x' nq where c: "cpuTelemetryNtQuery_collect (we_telemetry env) (Some m) (g_ntquery s) = Ret (rc, x', nq)" "s' = s\<lparr>g_ntquery := nq\<rparr>"
      using assms by (auto simp: wos_collect_def outcome_simps)
    have "ntquery_ok k nq" if "ntquery_ok k (g_ntquery s)" for k
      by (rule ntq.collect_keeps [OF that c(1)])
    then show ?thesis using c(2) by (simp add: wos_telemetry_ok_def same_control_def)
  next
    case False
    then obtain x' q where c: "cpuTelemetryPdh_collect (we_telemetry env) (Some m) (g_pdh s) = Ret (rc, x', q)" "s' = s\<lparr>g_pdh := q\<rparr>"
      using assms by (auto simp: wos_collect_def outcome_simps)
    have "pdh_ok k q" if "pdh_ok k (g_pdh s)" for k
      by (rule pdh.collect_keeps [OF that c(1)])
    then show ?thesis using c(2) by (simp add: wos_telemetry_ok_def same_control_def)
  qed
qed

lemma wos_sample_control:
  assumes "wos_sample env now l s = Ret (l', s')"
  shows "same_control s s' \<and> wos_frame s s' \<and> (wos_telemetry_ok s \<longrightarrow> wos_telemetry_ok s')"
proof -
  obtain rc m s1 where c: "wos_collect env (wl_cpu_info l) s = Ret (rc, m, s1)"
    using assms by (auto simp: wos_sample_def outcome_simps)
  note k = wos_collect_control [OF c]
  show ?thesis
  proof (cases "rc = TELEMETRY_SUCCESS")
    case False
    then show ?thesis using assms c k by (auto simp: wos_sample_def)
  next
    case True
    let ?m = "m\<lparr>cm_total_utilization := clamp_percent (cm_total_utilization m)\<rparr>"
    let ?w = "clamp_warning ''Total'' (cm_total_utilization m) s1"
    obtain m2 where "clamp_cores 0 (unat (cm_num_cores ?m)) ?m ?w = Ret (m2, s')"
      using assms c True by (auto simp: wos_sample_def Let_def outcome_simps)
    then have "quiet ?w s'" by (rule clamp_cores_quiet)
    note q = quiet_fields [OF quiet_trans [OF quiet_warning this]]
    show ?thesis
      using k q(7) same_control_trans [OF _ q(1), of s] wos_frame_trans [OF _ q(2), of s] by simp
  qed
qed

lemma wos_stream_control:
  "wos_stream env l s = (l', s') \<Longrightarrow> same_control s s' \<and> wos_frame s s' \<and> wos_telemetry_ok s' = wos_telemetry_ok s"
  by (auto simp: wos_stream_def Let_def same_control_def split: if_splits option.splits)

lemma wos_ready_cong: "wos_frame s s' \<Longrightarrow> (wos_telemetry_ok s \<Longrightarrow> wos_telemetry_ok s') \<Longrightarrow> wos_ready s \<Longrightarrow> wos_ready s'"
  by (simp add: wos_ready_def wos_frame_registered)

lemma wos_iterate_control:
  assumes "wos_thread_iterate env l s = Ret (l', s')"
  shows "same_control s s' \<and> (wos_ready s \<longrightarrow> wos_ready s')"
proof -
  obtain l1 s1 where 1: "wos_sample env (win_now (we_now env) (wl_current_time l))
      (l\<lparr>wl_current_time := win_now (we_now env) (wl_current_time l)\<rparr>) s = Ret (l1, s1)"
    using assms by (auto simp: wos_thread_iterate_def Let_def outcome_simps)
  obtain l2 s2 where 2: "wos_stream env l1 s1 = (l2, s2)" by fastforce
  have "s' = s2" using assms 1 2 by (auto simp: wos_thread_iterate_def Let_def)
  then show ?thesis
    using wos_sample_control [OF 1] wos_stream_control [OF 2] same_control_trans wos_frame_trans wos_ready_cong by metis
qed

section \<open>Stopping\<close>

lemma wos_wait_total:
  assumes r: "wos_ready s" and t: "t < length (sn_threads s)" "\<not> g_is_thread_running s"
    and g: "\<And>x. sn_threads s ! t = Spawned x \<Longrightarrow> nonzero_rate x"
  shows "\<exists>s'. wait_exit (wos_thread env) t s = Ret (0, s') \<and> sn_threads s' = (sn_threads s)[t := Exited] \<and>
     g_thread_info s' = g_thread_info s \<and> \<not> g_is_thread_running s' \<and> wos_ready s'"
proof -
  have put: "wos_ready (put_thread t st s') = wos_ready s'" for st s'
    by (simp add: wos_ready_def wos_registered_def wos_cores_def put_thread_def wos_telemetry_ok_def)
  show ?thesis
  proof (cases "sn_threads s ! t")
    case (Spawned x)
    have reg: "wos_registered s" using r by (simp add: wos_ready_def)
    obtain lo s1 where e: "wos_thread_entry env x s = Ret (lo, s1)" "same_control s s1" "wos_frame s s1" "wos_telemetry_ok s1 = wos_telemetry_ok s"
      using wos_entry_total [OF reg g [OF Spawned]] by blast
    have "wos_ready s1" using wos_ready_cong [OF e(3) _ r] e(4) by simp
    then show ?thesis using Spawned e(1,2) t put
      by (cases lo) (auto simp: wait_exit_def wos_thread_def wos_thread_finish_def same_control_def)
  next
    case (Running l)
    then show ?thesis using t r put by (simp add: wait_exit_def wos_thread_def wos_thread_finish_def)
  next
    case Exited
    then show ?thesis using t r by (simp add: wait_exit_def list_update_same_conv [THEN iffD2])
  qed
qed

lemma wos_stop_light:
  assumes "wos_ready s" "\<not> g_is_thread_running s \<or> r = None"
  shows "\<exists>rc s'. wos_cpu_stop env r s = Ret (rc, s') \<and> wos_ready s' \<and> same_control s s'"
  using assms by (auto simp: wos_cpu_stop_def Let_def wos_ready_def wos_registered_def wos_cores_def split: option.splits)

lemma wos_stop_joins:
  assumes r: "wos_ready s" and run: "g_is_thread_running s" and h: "th_handle (g_thread_info s) = Thread t" and t: "t < length (sn_threads s)"
    and g: "\<And>x. sn_threads s ! t = Spawned x \<Longrightarrow> nonzero_rate x"
  shows "\<exists>rc s'. wos_cpu_stop env (Some rq) s = Ret (rc, s') \<and> wos_ready s' \<and> joined t s s'"
proof -
  let ?s = "(WOS_SEND LEVEL_DEBUG ''Stopping wos-cpu profiling'' s)\<lparr>g_is_thread_running := False\<rparr>"
  have r': "wos_ready ?s" using r by (simp add: wos_ready_def wos_registered_def wos_cores_def)
  obtain s1 where w: "wait_exit (wos_thread env) t ?s = Ret (0, s1)" "sn_threads s1 = (sn_threads s)[t := Exited]"
    "g_thread_info s1 = g_thread_info s" "\<not> g_is_thread_running s1" "wos_ready s1"
    using wos_wait_total [OF r', of t env] t g by auto
  have j: "thread_join (wait_exit (wos_thread env)) (Some (g_thread_info s)) ?s = Ret (QTHREAD_JOIN_SUCCESS, s1)"
    using w(1) h by (simp add: thread_join_def)
  let ?i = "(g_thread_info s)\<lparr>th_handle := NoThread\<rparr>"
  have d: "windows_thread_destroy (Some (g_thread_info s1)) (we_closes env) =
      (if we_closes env then QTHREAD_DESTROY_SUCCESS else QTHREAD_DESTROY_FAILED, Some ?i)"
    using h w(3) by (simp add: windows_thread_destroy_def)
  have rdy: "wos_ready (WOS_SEND lv x (wos_close_telemetry (WOS_SEND lv' x' (s1\<lparr>g_thread_info := ?i\<rparr>))))" for lv x lv' x'
  proof -
    have "wos_telemetry_ok (wos_close_telemetry (WOS_SEND lv' x' (s1\<lparr>g_thread_info := ?i\<rparr>)))"
      by (rule wos_close_fields(1)) (use w(5) in \<open>simp add: wos_ready_def\<close>)
    then show ?thesis using w(5)
      by (simp add: wos_ready_def wos_registered_def wos_cores_def wos_close_telemetry_def)
  qed
  show ?thesis
    using run j d rdy w(2,4) by (simp add: wos_cpu_stop_def Let_def joined_def)
qed

section \<open>Sessions\<close>

definition wos_lok :: "wos_cpu_state \<Rightarrow> wos_local \<Rightarrow> bool" where
  "wos_lok s l \<longleftrightarrow> length (cm_cores (wl_cpu_info l)) = 18 \<and> (\<exists>xs. filled (wl_allocated l) (wos_buffer l) xs)"

interpretation wos: flagged_session wos_cpu_start wos_cpu_stop wos_thread wos_thread_iterate wos_ready wos_good wos_lok nonzero_rate
proof unfold_locales
  fix s r
  assume a: "wos_ready s" "flagged wos_good s" "nonzero_rate r"
  have ok: "wos_telemetry_ok s" using a(1) by (simp add: wos_ready_def)
  obtain rc s' where s': "wos_cpu_start r s = Ret (rc, s')" "wos_telemetry_ok s'" "wos_frame s s'"
    "if rc = SUCCESS
      then \<exists>q. r = Some q \<and> \<not> g_is_thread_running s \<and> g_is_thread_running s' \<and>
             th_handle (g_thread_info s') = Thread (length (sn_threads s)) \<and> sn_threads s' = sn_threads s @ [Spawned r] \<and>
             (if g_telemetry_source s' = SOURCE_NTQUERY then g_ntquery_initialized (g_ntquery s') else g_initialized (g_pdh s'))
      else same_control s s'"
    using wos_start_total [OF ok a(2), of r] by blast
  have "wos_ready s'" using wos_ready_cong [OF s'(3) _ a(1)] s'(2) by simp
  then show "\<exists>rc s'. wos_cpu_start r s = Ret (rc, s') \<and> wos_ready s' \<and> (\<forall>q. wos_good s q \<longrightarrow> wos_good s' q) \<and>
     (\<forall>l. wos_lok s l \<longrightarrow> wos_lok s' l) \<and> (same_control s s' \<or> launched wos_good s s')"
    using s'(1,4) a(3) by (cases "rc = SUCCESS") (auto simp: wos_good_def wos_lok_def launched_def)
next
  fix s :: wos_cpu_state and r :: "QcPerfRequest option" and e :: wos_env
  assume "wos_ready s" "\<not> g_is_thread_running s \<or> r = None"
  then show "\<exists>rc s'. wos_cpu_stop e r s = Ret (rc, s') \<and> wos_ready s' \<and> (\<forall>q. wos_good s q \<longrightarrow> wos_good s' q) \<and>
     (\<forall>l. wos_lok s l \<longrightarrow> wos_lok s' l) \<and> same_control s s'"
    using wos_stop_light [of s r e] by (simp add: wos_good_def wos_lok_def)
next
  fix s e t rq
  assume a: "wos_ready s" "g_is_thread_running s" "th_handle (g_thread_info s) = Thread t" "t < length (sn_threads s)"
    "\<And>x. sn_threads s ! t = Spawned x \<Longrightarrow> wos_good s x"
  then show "\<exists>rc s'. wos_cpu_stop e (Some rq) s = Ret (rc, s') \<and> wos_ready s' \<and> (\<forall>q. wos_good s q \<longrightarrow> wos_good s' q) \<and>
     (\<forall>l. wos_lok s l \<longrightarrow> wos_lok s' l) \<and> joined t s s'"
    using wos_stop_joins [OF a(1-4), of e rq] by (simp add: wos_good_def wos_lok_def)
next
  fix s q e
  assume a: "wos_ready s" "wos_good s q"
  then have reg: "wos_registered s" and g: "nonzero_rate q" by (simp_all add: wos_ready_def wos_good_def)
  obtain lo s' where e: "wos_thread_entry e q s = Ret (lo, s')" "same_control s s'" "wos_frame s s'" "wos_telemetry_ok s' = wos_telemetry_ok s"
    "\<forall>l. lo = Some l \<longrightarrow> (\<exists>rq. q = Some rq \<and> wl_request l = adjusted rq \<and> unat (wl_sample_count l) = wos_batch rq \<and>
        unat (wl_allocated l) = wos_batch rq * (2 + 3 * wos_cores s) \<and> wl_index l = 0 \<and> wl_current_sample l = 0 \<and>
        length (cm_cores (wl_cpu_info l)) = 18 \<and> pd_backend_id (wl_data l) = 5 \<and>
        length (pd_metric_response (wl_data l)) = unat (wl_allocated l))"
    using wos_entry_total [OF reg g, of e] by blast
  have rdy: "wos_ready s'" using wos_ready_cong [OF e(3) _ a(1)] e(4) by simp
  have "wos_lok s' l" if "lo = Some l" for l
  proof -
    have "length (cm_cores (wl_cpu_info l)) = 18" "length (pd_metric_response (wl_data l)) = unat (wl_allocated l)" "wl_index l = 0"
      using e(5) that by blast+
    then show ?thesis using filled_fresh unfolding wos_lok_def wos_buffer_def by metis
  qed
  then show "\<exists>lo s'. th_entry (wos_thread e) q s = Ret (lo, s') \<and> same_control s s' \<and> wos_ready s' \<and> (\<forall>l. lo = Some l \<longrightarrow> wos_lok s' l)"
    using e(1,2) rdy by (auto simp: wos_thread_def)
next
  fix s l e
  assume a: "wos_ready s" "wos_lok s l"
  then obtain xs where "wos_telemetry_ok s" "length (cm_cores (wl_cpu_info l)) = 18" "filled (wl_allocated l) (wos_buffer l) xs"
    by (auto simp: wos_ready_def wos_lok_def)
  from wos_iterate_readings [OF this, of e]
  obtain l' s' ys where "wos_thread_iterate e l s = Ret (l', s')" "length (cm_cores (wl_cpu_info l')) = 18"
    "wl_allocated l' = wl_allocated l" "filled (wl_allocated l) (wos_buffer l') ys"
    by blast
  then show "\<exists>l' s'. wos_thread_iterate e l s = Ret (l', s') \<and> same_control s s' \<and> wos_ready s' \<and> wos_lok s' l'"
    using wos_iterate_control a(1) unfolding wos_lok_def by metis
next
  fix t st s l
  show "wos_ready (put_thread t st s) = wos_ready s"
    by (simp add: wos_ready_def wos_registered_def wos_cores_def put_thread_def wos_telemetry_ok_def)
qed (auto simp: wos_iterate_control wos_lok_def wos_thread_def wos_thread_finish_def)

lemma wos_steady_ready:
  assumes "wos_ready s" "\<not> g_is_thread_running s" "th_handle (g_thread_info s) = NoThread" "all_ended s"
  shows "wos.live s"
  by (rule wos.live_idle) (use assms in \<open>simp_all add: wos.steady_def flagged_def\<close>)

text \<open>The library connected: initialised and with its callbacks.\<close>

definition wos_connected :: "u32 \<Rightarrow> oom \<Rightarrow> callback \<Rightarrow> wos_cpu_state outcome" where
  "wos_connected n faults cb =
     obind (wos_cpu_init (initial_wos_cpu n faults)) (\<lambda>(rc, s).
       if rc = SUCCESS then Ret (snd (wos_cpu_set_data_callback cb s)) else Stuck NoReturn)"

lemma wos_connected_ready:
  assumes "wos_connected n faults cb = Ret s"
  shows "wos_ready s" "\<not> g_is_thread_running s" "th_handle (g_thread_info s) = NoThread" "sn_threads s = []"
    "g_data_callback s = cb" "w_processors s = n"
proof -
  let ?i = "initial_wos_cpu n faults"
  obtain rc s1 where i: "wos_cpu_init ?i = Ret (rc, s1)" "same_control ?i s1" "wos_telemetry_ok s1" "w_processors s1 = w_processors ?i"
    "if rc = SUCCESS then wos_registered s1 else no_table s1"
    using wos_init_total [of ?i] wos_telemetry_initial by blast
  have rc: "rc = SUCCESS" "s = s1\<lparr>g_data_callback := cb\<rparr>"
    using assms i(1) by (auto simp: wos_connected_def wos_cpu_set_data_callback_def split: if_splits)
  have "wos_registered s = wos_registered s1" "same_control s1 s"
    by (simp_all add: rc(2) wos_registered_def wos_cores_def same_control_def)
  then show "wos_ready s" "\<not> g_is_thread_running s" "th_handle (g_thread_info s) = NoThread" "sn_threads s = []"
    "g_data_callback s = cb" "w_processors s = n"
    using i rc by (simp_all add: wos_ready_def same_control_def initial_wos_cpu_def session.defs initial_session_def zero_thread_info_def)
qed

text \<open>C25: Sessions of the CPU backend for Windows never get stuck: starts, stops and the scheduler's steps in any order
  and number return, on any number of processors, whatever calls fail and whatever Windows answers, as long as
  no request has a streaming rate of zero.\<close>
theorem wos_sessions_never_stuck:
  assumes "wos_connected n faults cb = Ret s"
  shows "session_safe (request_valid nonzero_rate) (session_step wos_cpu_start wos_cpu_stop wos_thread wos_thread_iterate) evs s"
proof (rule wos.live_safe, rule wos_steady_ready)
  show "all_ended s" using wos_connected_ready(4) [OF assms] by (simp add: all_ended_def)
qed (use wos_connected_ready [OF assms] in simp_all)

definition demo_wos_env :: wos_env where
  "demo_wos_env = \<lparr>we_now = (10, 1000), we_end = (20, 1000), we_restart = (30, 1000), we_telemetry = demo_telemetry 1, we_closes = True\<rparr>"

definition demo_wos_request :: QcPerfRequest where
  "demo_wos_request = \<lparr>rq_capability_id = 0, rq_streaming_rate = 200, rq_sampling_rate = 100\<rparr>"

lemma wos_connected_returns: "\<exists>s. wos_connected n [] cb = Ret s"
  and wos_connected_faults: "wos_connected n [] cb = Ret s \<Longrightarrow> sn_faults s = []"
proof -
  let ?i = "initial_wos_cpu n []"
  have "sn_faults ?i = []" by (simp add: initial_wos_cpu_def session.defs initial_session_def)
  then obtain s1 where i: "wos_cpu_init ?i = Ret (SUCCESS, s1)" "sn_faults s1 = []"
    using wos_init_total [of ?i] wos_telemetry_initial by metis
  then show "\<exists>s. wos_connected n [] cb = Ret s" "wos_connected n [] cb = Ret s \<Longrightarrow> sn_faults s = []"
    by (auto simp: wos_connected_def wos_cpu_set_data_callback_def)
qed

theorem wos_sessions_never_stuck_witness:
  "\<exists>s. wos_connected 8 [] (Some 1) = Ret s \<and>
     session_safe (request_valid nonzero_rate) (session_step wos_cpu_start wos_cpu_stop wos_thread wos_thread_iterate)
       [CallStart (Some demo_wos_request), Begin demo_wos_env 0, Iterate demo_wos_env 0, CallStart None,
        CallStop demo_wos_env (Some demo_wos_request)] s"
  using wos_connected_returns [of 8 "Some 1"] wos_sessions_never_stuck by blast

section \<open>A streaming rate of zero\<close>

lemma wos_start_no_faults:
  assumes c: "wos_connected n [] (Some cb) = Ret s"
  shows "\<exists>s1. wos_cpu_start (Some rq) s = Ret (SUCCESS, s1) \<and> wos_ready s1 \<and> sn_threads s1 = [Spawned (Some rq)] \<and> sn_faults s1 = [] \<and>
     g_is_thread_running s1 \<and> th_handle (g_thread_info s1) = Thread 0 \<and> g_data_callback s1 = Some cb \<and>
     g_telemetry_source s1 = SOURCE_NTQUERY \<and> g_ntquery_initialized (g_ntquery s1)"
proof -
  note r = wos_connected_ready [OF c] and f = wos_connected_faults [OF c]
  obtain nq where nq: "cpuTelemetryNtQuery_init (w_processors s) [] (g_ntquery s) = (TELEMETRY_SUCCESS, [], nq)"
    by (cases "g_ntquery_initialized (g_ntquery s)") (simp_all add: cpuTelemetryNtQuery_init_def)
  have o: "g_ntquery_initialized nq"
    using ntq.init_law [of "w_processors s" "g_ntquery s" "[]"] nq r(1) by (simp add: wos_ready_def wos_telemetry_ok_def)
  obtain s1 where s1: "wos_cpu_start (Some rq) s = Ret (SUCCESS, s1)" "sn_threads s1 = [Spawned (Some rq)]" "sn_faults s1 = []"
    "g_is_thread_running s1" "wos_frame s s1" "th_handle (g_thread_info s1) = Thread 0" "g_telemetry_source s1 = SOURCE_NTQUERY"
    "g_ntquery s1 = nq" "g_pdh s1 = g_pdh s"
    using r(2-5) f nq by (simp add: wos_cpu_start_def wos_open_telemetry_def Let_def windows_spawn_eq wos_thread_attrs_def)
  have "flagged good s" for good using r(2-4) by (simp add: flagged_def all_ended_def)
  then have "wos_telemetry_ok s1" using wos_start_total [of s _ "Some rq"] r(1) s1(1) by (auto simp: wos_ready_def)
  then have "wos_ready s1" using wos_ready_cong [OF s1(5) _ r(1)] by simp
  moreover have "g_data_callback s1 = Some cb" using s1(5) r(5) by (simp add: wos_frame_def)
  ultimately show ?thesis using s1 o by auto
qed

text \<open>\<open>wos_cpu_start\<close> accepts a request whose streaming rate is zero, and the thread divides by zero before its
  loop: when it is scheduled, or at the latest when \<open>wos_cpu_stop\<close> waits for it.\<close>
theorem wos_zero_rate_is_fatal:
  assumes c: "wos_connected n [] (Some cb) = Ret s" and z: "rq_streaming_rate rq = 0"
  shows "\<exists>s1. wos_cpu_start (Some rq) s = Ret (SUCCESS, s1) \<and>
     thread_begin (wos_thread env) 0 s1 = Stuck DivByZero \<and> wos_cpu_stop env (Some rq) s1 = Stuck DivByZero"
proof -
  obtain s1 where s1: "wos_cpu_start (Some rq) s = Ret (SUCCESS, s1)" "wos_ready s1" "sn_threads s1 = [Spawned (Some rq)]" "sn_faults s1 = []"
    "g_is_thread_running s1" "th_handle (g_thread_info s1) = Thread 0"
    using wos_start_no_faults [OF c] by blast
  have e: "wos_thread_entry env (Some rq) s' = Stuck DivByZero" if "wos_frame s1 s'" "sn_faults s' = []" for s'
  proof -
    have "wos_registered s'" using wos_frame_registered [OF that(1)] s1(2) by (simp add: wos_ready_def)
    from wos_registered_deref [OF this] show ?thesis using z that(2) by (simp add: wos_thread_entry_def Let_def alloc_pair word_gt_0)
  qed
  have "wos_cpu_stop env (Some rq) s1 = Stuck DivByZero"
    using s1 e by (simp add: wos_cpu_stop_def Let_def thread_join_def wait_exit_def wos_thread_def)
  then show ?thesis using s1 e [of s1] by (simp add: thread_begin_def wos_thread_def)
qed

theorem wos_zero_rate_is_fatal_witness:
  "\<exists>s s1. wos_connected 8 [] (Some 1) = Ret s \<and>
     wos_cpu_start (Some \<lparr>rq_capability_id = 0, rq_streaming_rate = 0, rq_sampling_rate = 100\<rparr>) s = Ret (SUCCESS, s1) \<and>
     thread_begin (wos_thread demo_wos_env) 0 s1 = Stuck DivByZero"
proof -
  obtain s where s: "wos_connected 8 [] (Some 1) = Ret s" using wos_connected_returns by blast
  show ?thesis
    using s wos_zero_rate_is_fatal [OF s, of "\<lparr>rq_capability_id = 0, rq_streaming_rate = 0, rq_sampling_rate = 100\<rparr>" demo_wos_env]
    by auto
qed

section \<open>The table\<close>

lemma show_u_length:
  assumes "n < 100"
  shows "length (show_u n) \<le> 2"
proof -
  have "n div 10 < 10" using assms by simp
  then show ?thesis by (simp add: show_u.simps [of n] show_u.simps [of "n div 10"])
qed

lemma base_id: "WOS_CPU_CORE_BASE_ID (of_nat k) = of_nat (2 + 3 * k)"
proof -
  have "unat (ucast (of_nat m :: u32) :: u16) = unat (of_nat m :: u16)" for m
    by (simp add: unsigned_ucast_eq unsigned_of_nat)
  then have "(ucast (of_nat (2 + k * 3) :: u32) :: u16) = of_nat (2 + k * 3)" by (simp only: word_unat_eq_iff)
  then show ?thesis by (simp add: WOS_CPU_CORE_BASE_ID_def mult.commute)
qed

lemma wos_metric_ok:
  "length nm < 64 \<Longrightarrow> length d < 256 \<Longrightarrow> length u < 16 \<Longrightarrow> metric_info_ok (wos_metric i nm d u)"
  by (simp add: metric_info_ok_def wos_metric_def cstd_simps)

lemma wos_metrics_Suc: "wos_metrics (Suc n) = wos_metrics n @ wos_core_triple n"
  by (simp add: wos_metrics_def)

lemma wos_metrics_ok: "n \<le> 18 \<Longrightarrow> m \<in> set (wos_metrics n) \<Longrightarrow> metric_info_ok m"
proof (induction n)
  case 0
  then show ?case
    by (auto simp: wos_metrics_def wos_total_util_metric_def wos_total_freq_metric_def intro!: wos_metric_ok)
next
  case (Suc n)
  have "length (show_u n) \<le> 2" using Suc.prems(1) by (intro show_u_length) simp
  then have "metric_info_ok m" if "m \<in> set (wos_core_triple n)"
    using that
    by (auto simp: wos_core_triple_def wos_core_util_metric_def wos_core_freq_metric_def wos_core_max_freq_metric_def intro!: wos_metric_ok)
  then show ?case using Suc by (auto simp: wos_metrics_Suc)
qed

lemma wos_metrics_ids: "map mi_metric_id (wos_metrics n) = map of_nat [0..<2 + 3 * n]"
proof (induction n)
  case 0
  then show ?case
    by (simp add: wos_metrics_def wos_total_util_metric_def wos_total_freq_metric_def wos_metric_def numeral_2_eq_2)
next
  case (Suc n)
  have "[0..<2 + 3 * Suc n] = [0..<2 + 3 * n] @ [2 + 3 * n, 3 + 3 * n, 4 + 3 * n]"
    using upt_add_eq_append [of 0 "2 + 3 * n" 3] by (simp add: numeral_3_eq_3 numeral_2_eq_2 eval_nat_numeral)
  moreover have "map mi_metric_id (wos_core_triple n) = map of_nat [2 + 3 * n, 3 + 3 * n, 4 + 3 * n]"
    by (simp add: wos_core_triple_def wos_core_util_metric_def wos_core_freq_metric_def wos_core_max_freq_metric_def wos_metric_def base_id)
  ultimately show ?case using Suc by (simp add: wos_metrics_Suc)
qed

lemma wos_metric_id_at:
  assumes "j < 2 + 3 * n"
  shows "mi_metric_id (wos_metrics n ! j) = of_nat j"
proof -
  have "mi_metric_id (wos_metrics n ! j) = map mi_metric_id (wos_metrics n) ! j" using assms by simp
  also have "\<dots> = of_nat ([0..<2 + 3 * n] ! j)" unfolding wos_metrics_ids by (rule nth_map) (use assms in simp)
  also have "\<dots> = of_nat j" using assms by (simp del: upt_Suc)
  finally show ?thesis .
qed

lemma wos_capability_ok:
  assumes "n \<le> 18"
  shows "capability_ok (wos_capability n)" "unat (ci_metric_ids_list_len (wos_capability n)) = 2 + 3 * n"
    "streaming_rates_of (wos_capability n) = {200, 500, 1000}" "sampling_rates_of (wos_capability n) = {100, 200, 500}"
proof -
  show l: "unat (ci_metric_ids_list_len (wos_capability n)) = 2 + 3 * n"
    using assms by (simp add: wos_capability_def unsigned_of_nat take_bit_nat_eq_self unat_word_ariths)
  show "capability_ok (wos_capability n)"
    using l assms wos_metrics_ok [OF assms]
    by (simp add: capability_ok_def wos_capability_def wos_cpu_streaming_rates_def wos_cpu_sampling_rates_def)
  show "streaming_rates_of (wos_capability n) = {200, 500, 1000}" "sampling_rates_of (wos_capability n) = {100, 200, 500}"
    by (auto simp: streaming_rates_of_def sampling_rates_of_def wos_capability_def wos_cpu_streaming_rates_def wos_cpu_sampling_rates_def)
qed

text \<open>Initialising the CPU backend for Windows registers one capability, with the metrics 0 to \<open>3 n + 1\<close> for
  \<open>n\<close> processors (18 at most) in the order of their identifiers and the rates of the header, or, when memory is
  short, nothing at all.\<close>
theorem wos_init_registers_table:
  "\<exists>rc s. wos_cpu_init (initial_wos_cpu n faults) = Ret (rc, s) \<and>
     (if rc = SUCCESS
      then \<exists>c ms. bi_capabilities_list (g_backend_info s) = Some [c] \<and> bi_capabilities_list_length (g_backend_info s) = 1 \<and>
             bi_backend_id (g_backend_info s) = 5 \<and> capability_ok c \<and> ci_capability_id c = 0 \<and>
             ci_metric_ids_list c = Some ms \<and> length ms = 2 + 3 * min (unat n) 18 \<and> unat (ci_metric_ids_list_len c) = length ms \<and>
             map mi_metric_id ms = map of_nat [0..<length ms] \<and>
             streaming_rates_of c = {200, 500, 1000} \<and> sampling_rates_of c = {100, 200, 500}
      else rc = CALLOC_FAILED \<and> no_table s)"
proof -
  let ?i = "initial_wos_cpu n faults" and ?k = "unat (clamp_processors n)"
  obtain rc s where i: "wos_cpu_init ?i = Ret (rc, s)" "w_processors s = w_processors ?i" "rc = SUCCESS \<or> rc = CALLOC_FAILED"
    "if rc = SUCCESS then wos_registered s else no_table s"
    using wos_init_total [of ?i] wos_telemetry_initial by blast
  have k: "wos_cores s = ?k" "?k \<le> 18" "?k = min (unat n) 18"
    using i(2) clamp_processors_le by (auto simp: wos_cores_def initial_wos_cpu_def session.defs clamp_processors_def word_less_nat_alt)
  have ids: "map mi_metric_id (wos_metrics ?k) = map of_nat [0..<length (wos_metrics ?k)]"
    using wos_metric_id_at [of _ ?k] by (intro nth_equalityI) (simp_all del: upt_Suc)
  have "ci_metric_ids_list (wos_capability ?k) = Some (wos_metrics ?k)" "ci_capability_id (wos_capability ?k) = 0"
    by (simp_all add: wos_capability_def)
  then show ?thesis
    using i wos_capability_ok [OF k(2)] ids k(1,3) [symmetric]
    by (cases "rc = SUCCESS") (simp_all add: wos_registered_def)
qed

section \<open>What the thread delivers\<close>

text \<open>The metrics that are utilizations, and what is promised of a reading of one.\<close>

definition utilization_ids :: "u16 list" where
  "utilization_ids = 0 # map (\<lambda>k. of_nat (2 + 3 * k)) [0..<18]"

definition percent_ok :: "u16 \<times> u64 \<times> reading \<Rightarrow> bool" where
  "percent_ok r = (case r of (i, t, v) \<Rightarrow> i \<in> set utilization_ids \<longrightarrow> (\<exists>x. v = Dbl x \<and> 0 \<le> x \<and> x \<le> 100))"

lemma core_id_kinds:
  assumes "k < 18"
  shows "(of_nat (3 + 3 * k) :: u16) \<notin> set utilization_ids" "(of_nat (4 + 3 * k) :: u16) \<notin> set utilization_ids"
    "(1 :: u16) \<notin> set utilization_ids"
proof -
  have u: "unat (of_nat m :: u16) = m" if "m < 100" for m using that by (intro unat_of_nat_u16) simp
  have no: "(of_nat m :: u16) \<notin> set utilization_ids" if "m < 100" "m \<noteq> 0" "m mod 3 \<noteq> 2" for m
  proof
    assume "(of_nat m :: u16) \<in> set utilization_ids"
    then consider "(of_nat m :: u16) = of_nat 0" | j where "j < 18" "(of_nat m :: u16) = of_nat (2 + 3 * j)"
      unfolding utilization_ids_def by fastforce
    then show False
    proof cases
      case 1
      then show False using u [OF that(1)] that(2) by (metis u zero_less_numeral)
    next
      case 2
      then have "m = 2 + 3 * j" using u [OF that(1)] u [of "2 + 3 * j"] by simp
      then show False using that(3) by presburger
    qed
  qed
  have "(3 + 3 * k) mod 3 \<noteq> 2" "(4 + 3 * k) mod 3 \<noteq> 2" by presburger+
  then show "(of_nat (3 + 3 * k) :: u16) \<notin> set utilization_ids" "(of_nat (4 + 3 * k) :: u16) \<notin> set utilization_ids"
    using no [of "3 + 3 * k"] no [of "4 + 3 * k"] assms by simp_all
  show "(1 :: u16) \<notin> set utilization_ids" using no [of 1] by simp
qed

lemma wos_figures_percent:
  assumes n: "unat (cm_num_cores x) \<le> 18" "length (cm_cores x) = 18" and r: "r \<in> set (wos_figures now (wos_clamped x))"
  shows "percent_ok r"
proof -
  have core: "percent_ok r" if k: "k < unat (cm_num_cores x)" and m: "r \<in> set (core_readings now (wos_clamped x) k)" for k
  proof -
    have k18: "k < 18" using k n by simp
    have "cc_utilization (cm_cores (wos_clamped x) ! k) = clamp_percent (cc_utilization (cm_cores x ! k))"
      using k n by (simp add: wos_clamped_def clamped_core_def)
    then show ?thesis
      using m core_id_kinds [OF k18] clamp_percent_range [of "cc_utilization (cm_cores x ! k)"]
      by (auto simp: core_readings_def Let_def base_id percent_ok_def)
  qed
  have t: "cm_total_utilization (wos_clamped x) = clamp_percent (cm_total_utilization x)" "cm_num_cores (wos_clamped x) = cm_num_cores x"
    by (simp_all add: wos_clamped_def)
  show ?thesis
    using r core clamp_percent_range [of "cm_total_utilization x"] core_id_kinds(3) [of 0]
    by (auto simp: wos_figures_def t percent_ok_def)
qed

lemma wos_out_percent:
  assumes ok: "wos_telemetry_ok s" and m: "length (cm_cores (wl_cpu_info l)) = 18"
    and r: "r \<in> set (fst (wos_out (g_telemetry_source s) env (wos_state_of l s)))"
  shows "percent_ok r"
proof -
  obtain rc x and s' :: wos_cpu_state where a: "length (cm_cores x) = 18" "rc = TELEMETRY_SUCCESS \<longrightarrow> unat (cm_num_cores x) = wos_cores s"
    "wos_answer (g_telemetry_source s) (we_telemetry env) (wl_cpu_info l, g_ntquery s, g_pdh s) =
       (rc = TELEMETRY_SUCCESS, x, g_ntquery s', g_pdh s')"
    using wos_collect_answer [OF ok m, of env] by metis
  have "rc = TELEMETRY_SUCCESS" "r \<in> set (wos_figures (win_now (we_now env) (wl_current_time l)) (wos_clamped x))"
    using r a(3) by (auto simp: wos_out_def wos_state_of_def Let_def split: if_splits)
  then show ?thesis using wos_figures_percent a(1,2) wos_cores_le [of s] by metis
qed

definition wos_loop_inv :: "wos_local \<Rightarrow> wos_cpu_state \<Rightarrow> (u16 \<times> u64 \<times> reading) list \<Rightarrow> bool" where
  "wos_loop_inv l s xs \<longleftrightarrow> wos_telemetry_ok s \<and> length (cm_cores (wl_cpu_info l)) = 18 \<and> filled (wl_allocated l) (wos_buffer l) xs \<and>
     pd_backend_id (wl_data l) = 5 \<and> g_data_callback s \<noteq> None \<and>
     unat (wl_allocated l) = unat (wl_sample_count l) * (2 + 3 * wos_cores s) \<and>
     (\<exists>j < unat (wl_sample_count l). length xs = j * (2 + 3 * wos_cores s)) \<and> (\<forall>r \<in> set xs. percent_ok r)"

definition wos_delivery_ok :: "wos_local \<Rightarrow> wos_cpu_state \<Rightarrow> nat \<times> QcPerfData \<Rightarrow> bool" where
  "wos_delivery_ok l s p \<longleftrightarrow> g_data_callback s = Some (fst p) \<and> 0 < pd_metric_response_len (snd p) \<and> pd_backend_id (snd p) = 5 \<and>
     (\<forall>r \<in> set (batch_readings (snd p)). percent_ok r)"

lemma wos_round_law:
  assumes inv: "wos_loop_inv l s xs"
  shows "\<exists>l' s' ys bs. wos_thread_iterate e l s = Ret (l', s') \<and> wos_loop_inv l' s' ys \<and> sn_data s' = sn_data s @ bs \<and>
     concat (map (\<lambda>p. batch_readings (snd p)) bs) @ ys = xs @ fst (wos_out (g_telemetry_source s) e (wos_state_of l s)) \<and>
     wos_state_of l' s' = snd (wos_out (g_telemetry_source s) e (wos_state_of l s)) \<and>
     g_telemetry_source s' = g_telemetry_source s \<and> g_data_callback s' = g_data_callback s \<and> (\<forall>d \<in> set bs. wos_delivery_ok l s d)"
proof -
  let ?out = "wos_out (g_telemetry_source s) e (wos_state_of l s)" and ?T = "2 + 3 * wos_cores s"
  note i = inv [unfolded wos_loop_inv_def]
  obtain cb where cb: "g_data_callback s = Some cb" using i by blast
  obtain j where j: "j < unat (wl_sample_count l)" "length xs = j * ?T" using i by blast
  have al: "unat (wl_allocated l) = unat (wl_sample_count l) * ?T" using i by blast
  obtain l' s' ys bs where 1: "wos_thread_iterate e l s = Ret (l', s')" "wos_telemetry_ok s'" "same_control s s'" "wos_frame s s'"
     "g_telemetry_source s' = g_telemetry_source s" "length (cm_cores (wl_cpu_info l')) = 18"
     "wl_allocated l' = wl_allocated l" "wl_sample_count l' = wl_sample_count l" "pd_backend_id (wl_data l') = pd_backend_id (wl_data l)"
     "filled (wl_allocated l) (wos_buffer l') ys" "wos_state_of l' s' = snd ?out" "sn_data s' = sn_data s @ bs"
     "fst ?out = [] \<or> length (fst ?out) = ?T"
     "bs = [] \<and> ys = xs @ fst ?out \<and> (min (length ys) (unat (wl_allocated l)) < unat (wl_allocated l) \<or> min (length ys) (unat (wl_allocated l)) = 0) \<or>
      ys = [] \<and> (\<exists>d. bs = (case g_data_callback s of Some cb \<Rightarrow> [(cb, d)] | None \<Rightarrow> []) \<and>
         batch_readings d = take (unat (wl_allocated l)) (xs @ fst ?out) \<and> 0 < pd_metric_response_len d \<and>
         pd_backend_id d = pd_backend_id (wl_data l))"
    using wos_iterate_readings [of s l xs e] i by blast
  have fr: "wos_cores s' = wos_cores s" "g_data_callback s' = g_data_callback s" using 1(4) by (simp_all add: wos_frame_def wos_cores_def)
  have pc: "\<forall>r \<in> set (xs @ fst ?out). percent_ok r" using i wos_out_percent [of s l] by auto
  obtain k where k: "length (xs @ fst ?out) = k * ?T" "k \<le> unat (wl_sample_count l)"
    using 1(13) j by (elim disjE) (auto intro: that [of j] that [of "Suc j"])
  have fits: "length (xs @ fst ?out) \<le> unat (wl_allocated l)" using k al by (simp only: mult_le_mono1)
  from 1(14) show ?thesis
  proof (rule disjE)
    assume ab: "bs = [] \<and> ys = xs @ fst ?out \<and>
      (min (length ys) (unat (wl_allocated l)) < unat (wl_allocated l) \<or> min (length ys) (unat (wl_allocated l)) = 0)"
    then have a: "bs = []" "ys = xs @ fst ?out" by simp_all
    have b: "min (length ys) (unat (wl_allocated l)) < unat (wl_allocated l) \<or> min (length ys) (unat (wl_allocated l)) = 0"
      using ab by (elim conjE) assumption
    have "k < unat (wl_sample_count l)"
    proof (rule ccontr)
      assume "\<not> k < unat (wl_sample_count l)"
      then have "length ys = unat (wl_allocated l)" using k al a by simp
      moreover have "0 < unat (wl_allocated l)" using j(1) al by simp
      ultimately show False using b by simp
    qed
    then have "wos_loop_inv l' s' ys" unfolding wos_loop_inv_def using 1 i fr a k pc by auto
    then show ?thesis using 1 a fr by (intro exI [of _ l'] exI [of _ s'] exI [of _ ys] exI [of _ "[]"]) simp
  next
    assume "ys = [] \<and> (\<exists>d. bs = (case g_data_callback s of Some cb \<Rightarrow> [(cb, d)] | None \<Rightarrow> []) \<and>
         batch_readings d = take (unat (wl_allocated l)) (xs @ fst ?out) \<and> 0 < pd_metric_response_len d \<and>
         pd_backend_id d = pd_backend_id (wl_data l))"
    then obtain d where a: "ys = []" "bs = (case g_data_callback s of Some cb \<Rightarrow> [(cb, d)] | None \<Rightarrow> [])"
      "batch_readings d = take (unat (wl_allocated l)) (xs @ fst ?out)" "0 < pd_metric_response_len d" "pd_backend_id d = pd_backend_id (wl_data l)" by blast
    have bs: "bs = [(cb, d)]" "batch_readings d = xs @ fst ?out" using a(2,3) cb fits by simp_all
    have "wos_loop_inv l' s' ys" unfolding wos_loop_inv_def using 1 i fr a(1) j(1) by auto
    moreover have "wos_delivery_ok l s (cb, d)" using a(4,5) cb bs(2) pc i by (simp add: wos_delivery_ok_def)
    ultimately show ?thesis using 1 a(1) bs fr by (intro exI [of _ l'] exI [of _ s'] exI [of _ ys] exI [of _ bs]) simp
  qed
qed

interpretation wosl: batching_loop wos_thread_iterate wos_loop_inv "\<lambda>e l s. True" "\<lambda>l s. wos_out (g_telemetry_source s)" wos_state_of
  sn_data "\<lambda>p. batch_readings (snd p)" wos_delivery_ok
proof unfold_locales
  fix l s xs e
  assume "wos_loop_inv l s xs"
  from wos_round_law [OF this, of e]
  show "\<exists>l' s' ys bs. wos_thread_iterate e l s = Ret (l', s') \<and> wos_loop_inv l' s' ys \<and> sn_data s' = sn_data s @ bs \<and>
     concat (map (\<lambda>p. batch_readings (snd p)) bs) @ ys = xs @ fst (wos_out (g_telemetry_source s) e (wos_state_of l s)) \<and>
     wos_state_of l' s' = snd (wos_out (g_telemetry_source s) e (wos_state_of l s)) \<and>
     wos_out (g_telemetry_source s') = wos_out (g_telemetry_source s) \<and> wos_delivery_ok l' s' = wos_delivery_ok l s \<and>
     (\<forall>f :: wos_env. True = True) \<and> (\<forall>d\<in>set bs. wos_delivery_ok l s d)"
    by (elim exE) (rule exI, rule exI, rule exI, rule exI, auto simp: wos_delivery_ok_def fun_eq_iff)
qed

definition wos_pending :: "wos_local \<Rightarrow> (u16 \<times> u64 \<times> reading) list" where
  "wos_pending l = map response_reading (take (unat (wl_index l)) (pd_metric_response (wl_data l)))"

lemma wos_loop_inv_pending: "wos_loop_inv l s xs \<Longrightarrow> wos_pending l = xs"
proof -
  assume i: "wos_loop_inv l s xs"
  obtain j where j: "j < unat (wl_sample_count l)" "length xs = j * (2 + 3 * wos_cores s)"
    "unat (wl_allocated l) = unat (wl_sample_count l) * (2 + 3 * wos_cores s)" using i unfolding wos_loop_inv_def by blast
  have "length xs \<le> unat (wl_allocated l)" unfolding j(2,3) using j(1) by (intro mult_le_mono1) simp
  then show ?thesis using i unfolding wos_loop_inv_def filled_def wos_buffer_def wos_pending_def by auto
qed

lemma wos_enters_loop:
  assumes r: "wos_ready s" and cb: "g_data_callback s = Some cb" and z: "rq_streaming_rate rq \<noteq> 0"
    and e: "wos_thread_entry env (Some rq) s = Ret (Some l, s1)"
  shows "wos_loop_inv l s1 []" "g_data_callback s1 = Some cb" "g_telemetry_source s1 = g_telemetry_source s" "sn_data s1 = sn_data s"
proof -
  have reg: "wos_registered s" "nonzero_rate (Some rq)" using r z by (simp_all add: wos_ready_def nonzero_rate_def)
  obtain lo s2 where t: "wos_thread_entry env (Some rq) s = Ret (lo, s2)" "wos_frame s s2" "sn_data s2 = sn_data s"
    "wos_telemetry_ok s2 = wos_telemetry_ok s" "g_telemetry_source s2 = g_telemetry_source s"
    "\<forall>l. lo = Some l \<longrightarrow> (\<exists>q. Some rq = Some q \<and> wl_request l = adjusted q \<and> unat (wl_sample_count l) = wos_batch q \<and>
        unat (wl_allocated l) = wos_batch q * (2 + 3 * wos_cores s) \<and> wl_index l = 0 \<and> wl_current_sample l = 0 \<and>
        length (cm_cores (wl_cpu_info l)) = 18 \<and> pd_backend_id (wl_data l) = 5 \<and>
        length (pd_metric_response (wl_data l)) = unat (wl_allocated l))"
    using wos_entry_total [OF reg, of env] by blast
  have s1: "lo = Some l" "s2 = s1" using e t(1) by simp_all
  have l: "unat (wl_sample_count l) = wos_batch rq" "unat (wl_allocated l) = wos_batch rq * (2 + 3 * wos_cores s)" "wl_index l = 0"
    "length (cm_cores (wl_cpu_info l)) = 18" "pd_backend_id (wl_data l) = 5" "length (pd_metric_response (wl_data l)) = unat (wl_allocated l)"
    using t(6) s1(1) by blast+
  have "filled (wl_allocated l) (wos_buffer l) []" unfolding wos_buffer_def l(3) by (rule filled_fresh [OF l(6)])
  moreover have "wos_cores s1 = wos_cores s" "g_data_callback s1 = Some cb" "wos_telemetry_ok s1"
    using t(2,4) cb r s1(2) by (simp_all add: wos_frame_def wos_cores_def wos_ready_def)
  moreover have "0 < wos_batch rq" using wos_batch_bounds(1) [OF z] by simp
  ultimately show "wos_loop_inv l s1 []" "g_data_callback s1 = Some cb" using l by (simp_all add: wos_loop_inv_def)
  show "g_telemetry_source s1 = g_telemetry_source s" "sn_data s1 = sn_data s" using t(3,5) s1(2) by simp_all
qed

lemma wos_rounds:
  assumes "wos_ready s" "g_data_callback s = Some cb" "rq_streaming_rate rq \<noteq> 0" "wos_thread_entry env (Some rq) s = Ret (Some l, s1)"
  shows "\<exists>l' s' bs. run_rounds wos_thread_iterate es l s1 = Ret (l', s') \<and> sn_data s' = sn_data s @ map (Pair cb) bs \<and>
     concat (map batch_readings bs) @ wos_pending l' =
       reference_readings (wos_out (g_telemetry_source s)) es (wos_state_of l s1) \<and>
     (\<forall>d \<in> set bs. 0 < pd_metric_response_len d \<and> pd_backend_id d = 5 \<and> (\<forall>r \<in> set (batch_readings d). percent_ok r))"
proof -
  note e = wos_enters_loop [OF assms]
  obtain l' s' ys bs where r: "run_rounds wos_thread_iterate es l s1 = Ret (l', s')" "wos_loop_inv l' s' ys" "sn_data s' = sn_data s1 @ bs"
    "concat (map (\<lambda>p. batch_readings (snd p)) bs) @ ys = [] @ reference_readings (wos_out (g_telemetry_source s1)) es (wos_state_of l s1)"
    "\<forall>d \<in> set bs. wos_delivery_ok l s1 d"
    using wosl.rounds_law [OF e(1), of es] by blast
  have m: "bs = map (Pair cb) (map snd bs)" using r(5) e(2) by (induction bs) (auto simp: wos_delivery_ok_def)
  show ?thesis
  proof (intro exI conjI)
    show "sn_data s' = sn_data s @ map (Pair cb) (map snd bs)" using r(3) e(4) m by simp
    show "concat (map batch_readings (map snd bs)) @ wos_pending l' =
       reference_readings (wos_out (g_telemetry_source s)) es (wos_state_of l s1)"
      using r(4) e(3) wos_loop_inv_pending [OF r(2)] by (simp add: comp_def)
    show "\<forall>d \<in> set (map snd bs). 0 < pd_metric_response_len d \<and> pd_backend_id d = 5 \<and> (\<forall>r \<in> set (batch_readings d). percent_ok r)"
      using r(5) by (auto simp: wos_delivery_ok_def)
  qed (rule r(1))
qed

text \<open>C26: Whatever Windows answers in each round, what the thread has handed to the callback, in batches that are never
  empty, followed by what it still holds, is what the reference reports: the figures of every collection that
  succeeded, clamped, each once and in order.\<close>
theorem wos_thread_equals_reference:
  assumes "wos_ready s" "g_data_callback s = Some cb" "rq_streaming_rate rq \<noteq> 0" "wos_thread_entry env (Some rq) s = Ret (Some l, s1)"
  shows "\<exists>l' s' bs. run_rounds wos_thread_iterate es l s1 = Ret (l', s') \<and> sn_data s' = sn_data s @ map (Pair cb) bs \<and>
     concat (map batch_readings bs) @ wos_pending l' = reference_readings (wos_out (g_telemetry_source s)) es (wos_state_of l s1) \<and>
     (\<forall>d \<in> set bs. 0 < pd_metric_response_len d \<and> pd_backend_id d = 5)"
  using wos_rounds [OF assms, of es] by blast

lemma wos_demo_entry:
  "\<exists>s l s1. wos_ready s \<and> g_data_callback s = Some 1 \<and> wos_thread_entry demo_wos_env (Some demo_wos_request) s = Ret (Some l, s1)"
proof -
  obtain s0 where c: "wos_connected 8 [] (Some 1) = Ret s0" using wos_connected_returns by blast
  obtain s where s: "wos_ready s" "g_data_callback s = Some 1" "sn_faults s = []" using wos_start_no_faults [OF c] by blast
  then have "wos_registered s" "nonzero_rate (Some demo_wos_request)"
    by (simp_all add: wos_ready_def nonzero_rate_def demo_wos_request_def)
  from wos_entry_total [OF this, of demo_wos_env] show ?thesis using s by blast
qed

theorem wos_thread_equals_reference_witness:
  "\<exists>s l s1 l' s' bs. wos_thread_entry demo_wos_env (Some demo_wos_request) s = Ret (Some l, s1) \<and>
     run_rounds wos_thread_iterate [demo_wos_env, demo_wos_env\<lparr>we_telemetry := demo_telemetry 3\<rparr>] l s1 = Ret (l', s') \<and>
     concat (map batch_readings bs) @ wos_pending l' =
       reference_readings (wos_out (g_telemetry_source s)) [demo_wos_env, demo_wos_env\<lparr>we_telemetry := demo_telemetry 3\<rparr>] (wos_state_of l s1)"
proof -
  have z: "rq_streaming_rate demo_wos_request \<noteq> 0" by (simp add: demo_wos_request_def)
  obtain s l s1 where s: "wos_ready s" "g_data_callback s = Some 1" "wos_thread_entry demo_wos_env (Some demo_wos_request) s = Ret (Some l, s1)"
    using wos_demo_entry by blast
  show ?thesis
    using s(3) wos_thread_equals_reference [OF s(1,2) z s(3), of "[demo_wos_env, demo_wos_env\<lparr>we_telemetry := demo_telemetry 3\<rparr>]"] by blast
qed

text \<open>C27: Every utilization the backend delivers lies between 0 and 100 percent, whatever the counters say: also when
  they run backwards, when idle time exceeds the time that passed, or when a counter of PDH reports more than
  100.\<close>
theorem wos_delivers_percentages:
  assumes "wos_ready s" "g_data_callback s = Some cb" "rq_streaming_rate rq \<noteq> 0" "wos_thread_entry env (Some rq) s = Ret (Some l, s1)"
  shows "\<exists>l' s' bs. run_rounds wos_thread_iterate es l s1 = Ret (l', s') \<and> sn_data s' = sn_data s @ map (Pair cb) bs \<and>
     (\<forall>d \<in> set bs. \<forall>(i, t, v) \<in> set (batch_readings d).
        i = 0 \<or> (\<exists>k<18. i = WOS_CPU_CORE_BASE_ID (of_nat k) + WOS_CPU_UTIL_OFFSET) \<longrightarrow> (\<exists>x. v = Dbl x \<and> 0 \<le> x \<and> x \<le> 100))"
proof -
  have u: "i \<in> set utilization_ids" if "i = 0 \<or> (\<exists>k<18. i = WOS_CPU_CORE_BASE_ID (of_nat k) + WOS_CPU_UTIL_OFFSET)" for i
    using that by (auto simp: utilization_ids_def base_id)
  obtain l' s' bs where b: "run_rounds wos_thread_iterate es l s1 = Ret (l', s')" "sn_data s' = sn_data s @ map (Pair cb) bs"
    "\<forall>d \<in> set bs. \<forall>r \<in> set (batch_readings d). percent_ok r"
    using wos_rounds [OF assms, of es] by blast
  have "\<exists>x. v = Dbl x \<and> 0 \<le> x \<and> x \<le> 100" if "d \<in> set bs" "(i, t, v) \<in> set (batch_readings d)"
    "i = 0 \<or> (\<exists>k<18. i = WOS_CPU_CORE_BASE_ID (of_nat k) + WOS_CPU_UTIL_OFFSET)" for d i t v
    using bspec [OF bspec [OF b(3) that(1)] that(2)] u [OF that(3)] by (simp add: percent_ok_def)
  then show ?thesis using b(1,2) by (intro exI [of _ l'] exI [of _ s'] exI [of _ bs]) blast
qed

theorem wos_delivers_percentages_witness:
  "\<exists>s l s1 l' s' bs. wos_thread_entry demo_wos_env (Some demo_wos_request) s = Ret (Some l, s1) \<and>
     run_rounds wos_thread_iterate [demo_wos_env, demo_wos_env] l s1 = Ret (l', s') \<and>
     sn_data s' = sn_data s @ map (Pair 1) bs"
proof -
  have z: "rq_streaming_rate demo_wos_request \<noteq> 0" by (simp add: demo_wos_request_def)
  obtain s l s1 where s: "wos_ready s" "g_data_callback s = Some 1" "wos_thread_entry demo_wos_env (Some demo_wos_request) s = Ret (Some l, s1)"
    using wos_demo_entry by blast
  show ?thesis using s(3) wos_delivers_percentages [OF s(1,2) z s(3), of "[demo_wos_env, demo_wos_env]"] by blast
qed

section \<open>Types\<close>

text \<open>
  The shape of the static variables: the arrays of both sources have 18 elements and their counts stay within
  them, and there is either no table or the one of this machine.
\<close>

definition wos_typed :: "wos_cpu_state \<Rightarrow> bool" where
  "wos_typed s \<longleftrightarrow> wos_telemetry_ok s \<and> (no_table s \<or> wos_registered s)"

lemma wos_typed_frame: "wos_frame s s' \<Longrightarrow> wos_telemetry_ok s' \<Longrightarrow> wos_typed s \<Longrightarrow> wos_typed s'"
  by (auto simp: wos_typed_def wos_frame_registered) (simp add: wos_frame_def no_table_def)

lemma wos_start_keeps:
  assumes "wos_cpu_start r s = Ret (rc, s')" "wos_telemetry_ok s"
  shows "wos_frame s s' \<and> wos_telemetry_ok s'"
proof (cases "r = None \<or> g_data_callback s = None \<or> g_is_thread_running s")
  case True
  then show ?thesis using assms by (auto simp: wos_cpu_start_def split: option.splits if_splits)
next
  case False
  then obtain rq where rq: "r = Some rq" by auto
  obtain ret s1 where s1: "wos_open_telemetry s = Ret (ret, s1)" "wos_telemetry_ok s1" "wos_frame s s1"
    using wos_open_law [OF assms(2)] by blast
  show ?thesis
    using assms(1) False rq s1 by (simp add: wos_cpu_start_def windows_spawn_eq split: if_splits) auto
qed

lemma wos_entry_keeps:
  assumes "wos_thread_entry env r s = Ret (lo, s')"
  shows "wos_frame s s' \<and> wos_telemetry_ok s' = wos_telemetry_ok s"
proof (cases r)
  case None
  then show ?thesis using assms by (auto simp: wos_thread_entry_def)
next
  case (Some rq)
  then obtain ci where "deref_capability (sn_table s) 0 s = Ret ci" using assms by (auto simp: wos_thread_entry_def outcome_simps)
  then show ?thesis using assms Some by (auto simp: wos_thread_entry_def Let_def alloc_pair split: if_splits)
qed

lemma wos_wait_keeps:
  assumes "wait_exit (wos_thread env) t s = Ret (x, s')"
  shows "wos_frame s s' \<and> wos_telemetry_ok s' = wos_telemetry_ok s"
proof (cases "t < length (sn_threads s)")
  case True
  show ?thesis
  proof (cases "sn_threads s ! t")
    case (Spawned r)
    then obtain lo s1 where "wos_thread_entry env r s = Ret (lo, s1)"
      using assms True by (auto simp: wait_exit_def wos_thread_def outcome_simps)
    then show ?thesis using assms True Spawned wos_entry_keeps [of env r s lo s1]
      by (auto simp: wait_exit_def wos_thread_def wos_thread_finish_def split: option.splits if_splits)
  qed (use assms True in \<open>auto simp: wait_exit_def wos_thread_def wos_thread_finish_def split: if_splits\<close>)
qed (use assms in \<open>simp add: wait_exit_def\<close>)

lemma wos_stop_keeps:
  assumes "wos_cpu_stop env r s = Ret (rc, s')" "wos_telemetry_ok s"
  shows "wos_frame s s' \<and> wos_telemetry_ok s'"
proof (cases "r = None \<or> \<not> g_is_thread_running s")
  case True
  then show ?thesis using assms by (auto simp: wos_cpu_stop_def Let_def split: option.splits)
next
  case False
  then obtain rq where rq: "r = Some rq" by auto
  let ?s = "(WOS_SEND LEVEL_DEBUG ''Stopping wos-cpu profiling'' s)\<lparr>g_is_thread_running := False\<rparr>"
  obtain jr s1 where j: "thread_join (wait_exit (wos_thread env)) (Some (g_thread_info s)) ?s = Ret (jr, s1)"
    using assms(1) False rq by (auto simp: wos_cpu_stop_def Let_def outcome_simps)
  have k: "wos_frame s s1 \<and> wos_telemetry_ok s1"
  proof (cases "th_handle (g_thread_info s)")
    case (Thread t)
    then obtain x where "wait_exit (wos_thread env) t ?s = Ret (x, s1)" using j by (auto simp: thread_join_def outcome_simps)
    then show ?thesis using wos_wait_keeps [of env t ?s x s1] assms(2) by simp
  qed (use j assms(2) in \<open>auto simp: thread_join_def\<close>)
  obtain lv x t where s': "s' = WOS_SEND LEVEL_DEBUG ''wos-cpu profiling stopped'' (wos_close_telemetry (WOS_SEND lv x (s1\<lparr>g_thread_info := t\<rparr>)))"
  proof (cases "jr = QTHREAD_JOIN_SUCCESS")
    case True
    then show thesis using assms(1) False rq j that
      by (auto simp: wos_cpu_stop_def Let_def case_prod_beta split: if_splits)
  next
    case no: False
    have "s1\<lparr>g_thread_info := g_thread_info s1\<rparr> = s1" by simp
    then show thesis using assms(1) False rq j no that [of LEVEL_ERROR "''Failed to join CPU collection thread''" "g_thread_info s1"]
      by (auto simp: wos_cpu_stop_def Let_def split: if_splits)
  qed
  show ?thesis using k unfolding s' by simp
qed

text \<open>C28: Every operation and every step of the thread keeps the static variables well typed, on success and on every
  error; initialisation always returns.\<close>
theorem wos_operations_keep_types:
  assumes t: "wos_typed s"
  shows "(\<exists>rc s'. wos_cpu_init s = Ret (rc, s') \<and> wos_typed s') \<and>
     (\<forall>r rc s'. wos_cpu_start r s = Ret (rc, s') \<longrightarrow> wos_typed s') \<and>
     (\<forall>env r rc s'. wos_cpu_stop env r s = Ret (rc, s') \<longrightarrow> wos_typed s') \<and>
     wos_typed (snd (wos_cpu_deinit s)) \<and> wos_typed (snd (snd (wos_cpu_info i s))) \<and>
     wos_typed (snd (wos_cpu_set_data_callback cb s)) \<and> wos_typed (snd (wos_cpu_set_message_callback cb s)) \<and>
     (\<forall>env r lo s'. wos_thread_entry env r s = Ret (lo, s') \<longrightarrow> wos_typed s') \<and>
     (\<forall>env l l' s'. wos_thread_iterate env l s = Ret (l', s') \<longrightarrow> wos_typed s')"
proof -
  have ok: "wos_telemetry_ok s" using t by (simp add: wos_typed_def)
  have init: "\<exists>rc s'. wos_cpu_init s = Ret (rc, s') \<and> wos_typed s'"
  proof -
    obtain rc s' where "wos_cpu_init s = Ret (rc, s')" "wos_telemetry_ok s'" "if rc = SUCCESS then wos_registered s' else no_table s'"
      using wos_init_total [OF ok] by blast
    then show ?thesis by (auto simp: wos_typed_def split: if_splits)
  qed
  have it: "wos_typed s'" if i: "wos_thread_iterate env l s = Ret (l', s')" for env l l' s'
  proof -
    obtain l1 s1 where 1: "wos_sample env (win_now (we_now env) (wl_current_time l))
        (l\<lparr>wl_current_time := win_now (we_now env) (wl_current_time l)\<rparr>) s = Ret (l1, s1)"
      using i by (auto simp: wos_thread_iterate_def Let_def outcome_simps)
    obtain l2 s2 where 2: "wos_stream env l1 s1 = (l2, s2)" by fastforce
    have "s' = s2" using i 1 2 by (auto simp: wos_thread_iterate_def Let_def)
    then show ?thesis
      using wos_sample_control [OF 1] wos_stream_control [OF 2] wos_typed_frame [OF _ _ t] wos_frame_trans ok by metis
  qed
  have "wos_typed (snd (wos_cpu_deinit s))"
    using ok by (simp add: wos_typed_def wos_cpu_deinit_def wos_cpu_free_memory_def no_table_def)
  moreover have "wos_typed (snd (wos_cpu_set_data_callback cb s))" "wos_typed (snd (wos_cpu_set_message_callback cb s))"
    using t by (auto simp: wos_typed_def wos_cpu_set_data_callback_def wos_cpu_set_message_callback_def no_table_def wos_registered_def wos_cores_def)
  moreover have "wos_typed (snd (snd (wos_cpu_info i s)))"
    using t wos_typed_frame [OF _ _ t] ok by (cases i) (simp_all add: wos_cpu_info_def)
  ultimately show ?thesis
    using init it wos_start_keeps [OF _ ok] wos_stop_keeps [OF _ ok] wos_entry_keeps wos_typed_frame [OF _ _ t] ok by blast
qed

theorem wos_operations_keep_types_witness:
  "wos_typed (snd (wos_cpu_set_data_callback (Some 1) (initial_wos_cpu 8 [False, True])))"
proof -
  have "wos_typed (initial_wos_cpu 8 [False, True])"
    by (simp add: wos_typed_def no_table_def) (simp add: initial_wos_cpu_def session.defs initial_session_def zero_backend_info_def)
  then show ?thesis using wos_operations_keep_types by blast
qed

end
