(* ===== verification/WosPowerTelemetry.thy ===== *)
theory WosPowerTelemetry
  imports WosSession
begin

text \<open>
  The power telemetry for Windows, \<open>backends/wos-power-backend/power-telemetry\<close>, with the logger it shares with its
  backend (\<open>wos_power_backend_logger.c\<close>): which rails have a counter, the query over the requested counters, one
  collection, and closing. It works on the static variables of the backend, whose callback its messages go to.
  What Windows answers is an argument: the list of counters and the status of the calls that open a query are
  in the state, the figures of a collection belong to the step that collects.
\<close>

section \<open>Data\<close>

datatype ePowerTelemetryReturnCode =
    POWER_TELEMETRY_SUCCESS
  | POWER_TELEMETRY_NOT_INITIALIZED
  | POWER_TELEMETRY_ALREADY_INITIALIZED
  | POWER_TELEMETRY_INVALID_INPUT
  | POWER_TELEMETRY_NULL_POINTER
  | POWER_TELEMETRY_CALLOC_FAILED
  | POWER_TELEMETRY_OPEN_QUERY_FAILED
  | POWER_TELEMETRY_CLOSE_QUERY_FAILED
  | POWER_TELEMETRY_COLLECT_QUERY_FAILED
  | POWER_TELEMETRY_REMOVE_COUNTER_FAILED
  | POWER_TELEMETRY_WARNING_INVALID_DATA
  | POWER_TELEMETRY_NOT_AVAILABLE
  | POWER_TELEMETRY_INTERNAL_LIBRARY_FAILED
  | POWER_TELEMETRY_BCL_GET_CAPABILITIES_FAILED
  | POWER_TELEMETRY_UNCAUGHT_FAILURE
  | POWER_TELEMETRY_IOCTL_HANDLE_COMMON_FAILED

fun power_telemetry_code :: "ePowerTelemetryReturnCode \<Rightarrow> nat" where
  "power_telemetry_code POWER_TELEMETRY_SUCCESS = 0"
| "power_telemetry_code POWER_TELEMETRY_NOT_INITIALIZED = 1"
| "power_telemetry_code POWER_TELEMETRY_ALREADY_INITIALIZED = 2"
| "power_telemetry_code POWER_TELEMETRY_INVALID_INPUT = 3"
| "power_telemetry_code POWER_TELEMETRY_NULL_POINTER = 4"
| "power_telemetry_code POWER_TELEMETRY_CALLOC_FAILED = 5"
| "power_telemetry_code POWER_TELEMETRY_OPEN_QUERY_FAILED = 6"
| "power_telemetry_code POWER_TELEMETRY_CLOSE_QUERY_FAILED = 7"
| "power_telemetry_code POWER_TELEMETRY_COLLECT_QUERY_FAILED = 8"
| "power_telemetry_code POWER_TELEMETRY_REMOVE_COUNTER_FAILED = 9"
| "power_telemetry_code POWER_TELEMETRY_WARNING_INVALID_DATA = 10"
| "power_telemetry_code POWER_TELEMETRY_NOT_AVAILABLE = 11"
| "power_telemetry_code POWER_TELEMETRY_INTERNAL_LIBRARY_FAILED = 12"
| "power_telemetry_code POWER_TELEMETRY_BCL_GET_CAPABILITIES_FAILED = 13"
| "power_telemetry_code POWER_TELEMETRY_UNCAUGHT_FAILURE = 14"
| "power_telemetry_code POWER_TELEMETRY_IOCTL_HANDLE_COMMON_FAILED = 15"

datatype ePowerTelemetryRail =
    RAIL_CPU_CLUSTER_0
  | RAIL_CPU_CLUSTER_1
  | RAIL_CPU_CLUSTER_2
  | RAIL_GPU
  | RAIL_PSU_USB
  | RAIL_SYS
  | RAIL_SYSTEM
  | RAIL_USBC_TOTAL
  | RAIL_ROP
  | RAIL_NSP
  | RAIL_MULTIMEDIA
  | RAIL_INFRA
  | RAIL_DRAM_DDR
  | RAIL_SOC
  | RAIL_MAX

abbreviation (input) MAX_POWER_TELEMETRY_RAILS :: nat where "MAX_POWER_TELEMETRY_RAILS \<equiv> 14"

text \<open>The rails in the order of their values, and the value of a rail.\<close>

definition power_rails :: "ePowerTelemetryRail list" where
  "power_rails = [RAIL_CPU_CLUSTER_0, RAIL_CPU_CLUSTER_1, RAIL_CPU_CLUSTER_2, RAIL_GPU, RAIL_PSU_USB, RAIL_SYS, RAIL_SYSTEM,
     RAIL_USBC_TOTAL, RAIL_ROP, RAIL_NSP, RAIL_MULTIMEDIA, RAIL_INFRA, RAIL_DRAM_DDR, RAIL_SOC]"

fun rail_index :: "ePowerTelemetryRail \<Rightarrow> nat" where
  "rail_index RAIL_CPU_CLUSTER_0 = 0"
| "rail_index RAIL_CPU_CLUSTER_1 = 1"
| "rail_index RAIL_CPU_CLUSTER_2 = 2"
| "rail_index RAIL_GPU = 3"
| "rail_index RAIL_PSU_USB = 4"
| "rail_index RAIL_SYS = 5"
| "rail_index RAIL_SYSTEM = 6"
| "rail_index RAIL_USBC_TOTAL = 7"
| "rail_index RAIL_ROP = 8"
| "rail_index RAIL_NSP = 9"
| "rail_index RAIL_MULTIMEDIA = 10"
| "rail_index RAIL_INFRA = 11"
| "rail_index RAIL_DRAM_DDR = 12"
| "rail_index RAIL_SOC = 13"
| "rail_index RAIL_MAX = 14"

definition g_counter_instances :: "string list" where
  "g_counter_instances = [''CPU_CLUSTER_0'', ''CPU_CLUSTER_1'', ''CPU_CLUSTER_2'', ''GPU'', ''PSU_USB'', ''SYS'', ''SYSTEM'',
     ''USBC_TOTAL'', ''ROP'', ''NPU'', ''MULTIMEDIA'', ''INFRA'', ''MEMORY'', ''SOC'']"

text \<open>The instance of a rail; only of the rails below \<open>MAX_POWER_TELEMETRY_RAILS\<close>.\<close>

definition rail_instance :: "ePowerTelemetryRail \<Rightarrow> string" where
  "rail_instance r = (if rail_index r < length g_counter_instances then g_counter_instances ! rail_index r else [])"

record RailsSupported =
  supportedRailsMap :: "bool list"

definition zero_supported :: RailsSupported where
  "zero_supported = \<lparr>supportedRailsMap = replicate MAX_POWER_TELEMETRY_RAILS False\<rparr>"

record RailsInfoRequest =
  ri_rails :: "ePowerTelemetryRail list"
  ri_railsLength :: u8

record RailsInfoResponse =
  rr_rails :: "ePowerTelemetryRail list"
  rr_values :: "double list"
  rr_length :: u8

definition zero_rails_request :: RailsInfoRequest where
  "zero_rails_request = \<lparr>ri_rails = replicate MAX_POWER_TELEMETRY_RAILS RAIL_CPU_CLUSTER_0, ri_railsLength = 0\<rparr>"

definition zero_rails_response :: RailsInfoResponse where
  "zero_rails_response = \<lparr>rr_rails = replicate MAX_POWER_TELEMETRY_RAILS RAIL_CPU_CLUSTER_0,
     rr_values = replicate MAX_POWER_TELEMETRY_RAILS 0, rr_length = 0\<rparr>"

text \<open>A counter handle is the path the counter was added with, \<open>None\<close> for \<open>NULL\<close>.\<close>

record RailCounterAttributes =
  rc_counter :: "string option"
  rc_rail :: ePowerTelemetryRail

definition zero_rail_counter :: RailCounterAttributes where
  "zero_rail_counter = \<lparr>rc_counter = None, rc_rail = RAIL_CPU_CLUSTER_0\<rparr>"

section \<open>State\<close>

text \<open>
  The static variables of \<open>power_telemetry.c\<close> but those each use assigns first (\<open>g_pdh_status\<close>, \<open>g_display_value\<close>,
  \<open>g_counter_type\<close>), and Windows: the status of the next calls that expand paths or add to a query (\<open>None\<close>: as
  documented for success), the block with the paths of the power counters, the queries opened so far and those
  that are open. A query is its number.
\<close>

record 'l rails_session = "'l session" +
  g_rails_initialized :: bool
  g_h_query :: "nat option"
  g_rail_counters_requested :: "RailCounterAttributes list option"
  g_rail_counters_requested_length :: u8
  g_rails_supported :: "RailsSupported option"
  w_statuses :: "u32 option list"
  w_counters :: string
  w_queries :: nat
  w_open :: "nat list"

text \<open>What one collection answers: its status, and the formatted value of a counter by its path.\<close>

record rails_env =
  re_collect :: u32
  re_value :: "string \<Rightarrow> u32 \<times> double"

section \<open>The logger\<close>

definition power_log_message :: "QcPerfMessageLevel \<Rightarrow> string \<Rightarrow> ('l, 'x) session_scheme \<Rightarrow> ('l, 'x) session_scheme" where
  "power_log_message level txt s =
     (if g_message_callback s \<noteq> None
      then (if length txt > 0 then post_message (message_clamped 0 level txt) s else s)
      else s)"

definition POWER_SEND :: "QcPerfMessageLevel \<Rightarrow> string \<Rightarrow> ('l, 'x) session_scheme \<Rightarrow> ('l, 'x) session_scheme" where
  "POWER_SEND level txt s = (if g_message_callback s \<noteq> None then power_log_message level txt s else s)"

text \<open>\<open>%x\<close>, and \<open>%f\<close> with its six decimals, rounded to the nearest and to even on a tie.\<close>

fun show_x :: "nat \<Rightarrow> string" where
  "show_x n = (if n < 16 then [''0123456789abcdef'' ! n] else show_x (n div 16) @ [''0123456789abcdef'' ! (n mod 16)])"

declare show_x.simps [simp del]

fun show_digits :: "nat \<Rightarrow> nat \<Rightarrow> string" where
  "show_digits 0 n = []"
| "show_digits (Suc k) n = show_digits k (n div 10) @ [digit_chars ! (n mod 10)]"

definition show_6f :: "double \<Rightarrow> string" where
  "show_6f x =
     (let y = \<bar>x\<bar> * 10 ^ 6; k = nat \<lfloor>y\<rfloor>; f = y - of_nat k;
          r = (if f > 1 / 2 \<or> f = 1 / 2 \<and> odd k then Suc k else k)
      in (if x < 0 then ''-'' else '''') @ show_u (r div 10 ^ 6) @ ''.'' @ show_digits 6 r)"

section \<open>Performance Data Helper\<close>

abbreviation (input) ERROR_SUCCESS :: u32 where "ERROR_SUCCESS \<equiv> 0"
abbreviation (input) PDH_MORE_DATA :: u32 where "PDH_MORE_DATA \<equiv> 0x800007D2"
abbreviation (input) PDH_INVALID_HANDLE :: u32 where "PDH_INVALID_HANDLE \<equiv> 0xC0000BBC"

definition pdh_status :: "u32 \<Rightarrow> ('l, 'x) rails_session_scheme \<Rightarrow> u32 \<times> ('l, 'x) rails_session_scheme" where
  "pdh_status documented s =
     (case w_statuses s of
        [] \<Rightarrow> (documented, s)
      | a # rest \<Rightarrow> ((case a of None \<Rightarrow> documented | Some st \<Rightarrow> st), s\<lparr>w_statuses := rest\<rparr>))"

text \<open>\<open>PdhOpenQuery\<close> stores the handle when it succeeds; \<open>PdhCloseQuery\<close> succeeds for a query that is open.\<close>

definition PdhOpenQuery :: "('l, 'x) rails_session_scheme \<Rightarrow> u32 \<times> ('l, 'x) rails_session_scheme" where
  "PdhOpenQuery s0 =
     (let (st, s) = pdh_status ERROR_SUCCESS s0
      in (st, if st = ERROR_SUCCESS
              then s\<lparr>g_h_query := Some (w_queries s), w_queries := Suc (w_queries s), w_open := w_queries s # w_open s\<rparr> else s))"

definition PdhCloseQuery :: "nat \<Rightarrow> ('l, 'x) rails_session_scheme \<Rightarrow> u32 \<times> ('l, 'x) rails_session_scheme" where
  "PdhCloseQuery q s =
     (if q \<in> set (w_open s) then (ERROR_SUCCESS, s\<lparr>w_open := removeAll q (w_open s)\<rparr>) else (PDH_INVALID_HANDLE, s))"

definition PdhCollectQueryData :: "rails_env \<Rightarrow> nat \<Rightarrow> ('l, 'x) rails_session_scheme \<Rightarrow> u32" where
  "PdhCollectQueryData env q s = (if q \<in> set (w_open s) then re_collect env else PDH_INVALID_HANDLE)"

definition PdhGetFormattedCounterValue :: "rails_env \<Rightarrow> string option \<Rightarrow> u32 \<times> double" where
  "PdhGetFormattedCounterValue env c = (case c of None \<Rightarrow> (PDH_INVALID_HANDLE, 0) | Some path \<Rightarrow> re_value env path)"

section \<open>The rails that have a counter\<close>

text \<open>\<open>strchr\<close> and \<open>strlen\<close> on a block of memory; a text without its zero is read past the end of the block.\<close>

fun c_strchr :: "char \<Rightarrow> string \<Rightarrow> string option outcome" where
  "c_strchr k [] = Stuck OutOfBounds"
| "c_strchr k (c # s) = (if c = k then Ret (Some (c # s)) else if c = CHR 0x00 then Ret None else c_strchr k s)"

definition c_text :: "string \<Rightarrow> string" where
  "c_text p = takeWhile (\<lambda>c. c \<noteq> CHR 0x00) p"

definition c_strlen :: "string \<Rightarrow> nat outcome" where
  "c_strlen p = (if CHR 0x00 \<in> set p then Ret (length (c_text p)) else Stuck OutOfBounds)"

lemma c_strchr_length: "c_strchr k s = Ret (Some p) \<Longrightarrow> length p \<le> length s"
  by (induction k s rule: c_strchr.induct) (auto split: if_splits)

definition rail_path :: "string \<Rightarrow> string" where
  "rail_path name = [CHR 0x5C] @ ''Energy Meter('' @ name @ '')'' @ [CHR 0x5C] @ ''Power''"

text \<open>One counter against all instances; \<open>k\<close> goes round the instances.\<close>

fun match_instances ::
  "nat \<Rightarrow> nat \<Rightarrow> string \<Rightarrow> ePowerTelemetryReturnCode \<Rightarrow> ('l, 'x) rails_session_scheme
     \<Rightarrow> (nat \<times> ePowerTelemetryReturnCode \<times> ('l, 'x) rails_session_scheme) outcome" where
  "match_instances 0 k p rc s = Ret (k, rc, s)"
| "match_instances (Suc n) k p rc s =
     (let name = snprintf_buf 128 (rail_path (g_counter_instances ! k)); k' = (k + 1) mod MAX_POWER_TELEMETRY_RAILS
      in case g_rails_supported s of
           None \<Rightarrow> Stuck BadDeref
         | Some known_rails \<Rightarrow>
             obind (arr_read (supportedRailsMap known_rails) k) (\<lambda>known.
               if \<not> known \<and> c_text p = name
               then match_instances n k' p POWER_TELEMETRY_SUCCESS
                      ((POWER_SEND LEVEL_DEBUG (''Found a match for counter '' @ name @ '', marking index '' @ show_u k @ '' as available.'') s)
                         \<lparr>g_rails_supported := Some (known_rails\<lparr>supportedRailsMap := (supportedRailsMap known_rails)[k := True]\<rparr>)\<rparr>)
               else match_instances n k' p rc s))"

text \<open>
  The paths in the block, one after the other: the machine name is skipped, and \<open>NULL\<close> is read after a path
  that has nothing else.
\<close>

function match_paths ::
  "string \<Rightarrow> nat \<Rightarrow> ePowerTelemetryReturnCode \<Rightarrow> ('l, 'x) rails_session_scheme
     \<Rightarrow> (ePowerTelemetryReturnCode \<times> ('l, 'x) rails_session_scheme) outcome" where
  "match_paths it k rc s =
     (case it of
        [] \<Rightarrow> Stuck OutOfBounds
      | c # rest \<Rightarrow>
          if c = CHR 0x00 then Ret (rc, s)
          else case c_strchr (CHR 0x5C) (drop 2 it) of
                 Stuck h \<Rightarrow> Stuck h
               | Ret None \<Rightarrow> Stuck BadDeref
               | Ret (Some p) \<Rightarrow>
                   (case match_instances MAX_POWER_TELEMETRY_RAILS k p rc
                           (POWER_SEND LEVEL_DEBUG (''Looking for match to counter: '' @ c_text p) s) of
                      Stuck h \<Rightarrow> Stuck h
                    | Ret (k', rc', s') \<Rightarrow>
                        (case c_strlen p of
                           Stuck h \<Rightarrow> Stuck h
                         | Ret n \<Rightarrow> match_paths (drop (n + 1) p) k' rc' s')))"
  by pat_completeness auto
termination
  by (relation "measure (\<lambda>(it, k, rc, s). length it)") (auto dest!: c_strchr_length)

declare match_paths.simps [simp del]

definition expand_failed :: "u32 \<Rightarrow> string" where
  "expand_failed st = ''PdhExpandWildCardPath failed with status 0x'' @ show_x (unat st) @ '' for '' @ snprintf_buf 128 (rail_path ''*'')"

text \<open>The part of the function that runs when nothing is known yet.\<close>

definition find_rails :: "('l, 'x) rails_session_scheme \<Rightarrow> (ePowerTelemetryReturnCode \<times> ('l, 'x) rails_session_scheme) outcome" where
  "find_rails s =
     (let (ok, s1) = alloc s
      in if \<not> ok
         then Ret (POWER_TELEMETRY_CALLOC_FAILED,
                POWER_SEND LEVEL_ERROR ''Memory allocation failed for available metrics'' (s1\<lparr>g_rails_supported := None\<rparr>))
         else let (st, s2) = pdh_status PDH_MORE_DATA (s1\<lparr>g_rails_supported := Some zero_supported\<rparr>)
              in if st \<noteq> PDH_MORE_DATA
                 then Ret (POWER_TELEMETRY_NOT_AVAILABLE, POWER_SEND LEVEL_ERROR (expand_failed st) s2)
                 else let (ok2, s3) = alloc s2
                      in if \<not> ok2
                         then Ret (POWER_TELEMETRY_CALLOC_FAILED,
                                POWER_SEND LEVEL_ERROR ''Memory allocation failed for available counters'' s3)
                         else let (st2, s4) = pdh_status ERROR_SUCCESS s3
                              in if st2 \<noteq> ERROR_SUCCESS
                                 then Ret (POWER_TELEMETRY_NOT_AVAILABLE, POWER_SEND LEVEL_ERROR (expand_failed st2) s4)
                                 else match_paths (w_counters s4) 0 POWER_TELEMETRY_NOT_AVAILABLE s4)"

text \<open>The pointer of the caller is never that of the static variable.\<close>

definition powerTelemetry_railsGetSupported ::
  "RailsSupported option \<Rightarrow> bool \<Rightarrow> ('l, 'x) rails_session_scheme
     \<Rightarrow> (ePowerTelemetryReturnCode \<times> RailsSupported option \<times> ('l, 'x) rails_session_scheme) outcome" where
  "powerTelemetry_railsGetSupported rails_supported is_persistent s =
     obind (if g_rails_supported s \<noteq> None
            then Ret (POWER_TELEMETRY_SUCCESS,
                   POWER_SEND LEVEL_WARNING ''Available metrics have already been initialized, reusing'' s)
            else find_rails s)
       (\<lambda>(return_code, s1).
          let (out, s2) =
                (if return_code \<noteq> POWER_TELEMETRY_SUCCESS then (rails_supported, s1)
                 else case rails_supported of
                        None \<Rightarrow> (None, POWER_SEND LEVEL_WARNING ''The input is NULL, will not populate on return'' s1)
                      | Some _ \<Rightarrow> (g_rails_supported s1, s1))
          in Ret (return_code, out,
               if \<not> is_persistent \<and> g_rails_supported s2 \<noteq> None
               then (POWER_SEND LEVEL_DEBUG ''Call to isAvailable is not meant to be persistent, freeing data'' s2)\<lparr>g_rails_supported := None\<rparr>
               else s2))"

section \<open>Opening and closing\<close>

text \<open>
  \<open>PdhRemoveCounter\<close> is called on counters that went with the query before, and its status is ignored. The
  handle of the query stays in \<open>g_h_query\<close>.
\<close>

definition powerTelemetry_railsDestroy :: "('l, 'x) rails_session_scheme \<Rightarrow> ePowerTelemetryReturnCode \<times> ('l, 'x) rails_session_scheme" where
  "powerTelemetry_railsDestroy s =
     (if \<not> g_rails_initialized s then (POWER_TELEMETRY_SUCCESS, s)
      else let (status, s1) =
             (case g_h_query s of
                None \<Rightarrow> (POWER_TELEMETRY_SUCCESS, s)
              | Some q \<Rightarrow>
                  let (st, s1) = PdhCloseQuery q s
                  in if st = ERROR_SUCCESS then (POWER_TELEMETRY_SUCCESS, s1)
                     else (POWER_TELEMETRY_CLOSE_QUERY_FAILED,
                           POWER_SEND LEVEL_ERROR (''PdhCloseQuery failed with status 0x'' @ show_x (unat st)) s1));
               s2 = (if g_rail_counters_requested s1 \<noteq> None
                     then s1\<lparr>g_rail_counters_requested := None, g_rail_counters_requested_length := 0\<rparr> else s1)
           in (status, s2\<lparr>g_rails_supported := None, g_rails_initialized := False\<rparr>))"

text \<open>The loop over the requested rails: \<open>n\<close> more from the index \<open>i\<close>. A warning without a format is not sent.\<close>

definition add_rail ::
  "ePowerTelemetryRail \<Rightarrow> ePowerTelemetryReturnCode \<Rightarrow> ('l, 'x) rails_session_scheme
     \<Rightarrow> (ePowerTelemetryReturnCode \<times> ('l, 'x) rails_session_scheme) outcome" where
  "add_rail rail status s =
     (if MAX_POWER_TELEMETRY_RAILS \<le> rail_index rail then Ret (status, POWER_SEND LEVEL_WARNING '''' s)
      else case g_rails_supported s of
        None \<Rightarrow> Stuck BadDeref
      | Some known_rails \<Rightarrow>
          obind (arr_read (supportedRailsMap known_rails) (rail_index rail)) (\<lambda>known.
            if \<not> known
            then Ret (status, POWER_SEND LEVEL_WARNING (''Skipping following counter instance because index '' @ show_u (rail_index rail) @
                   '' is not available: '' @ rail_instance rail) s)
            else let path = snprintf_buf 128 (rail_path (rail_instance rail)); (st, s1) = pdh_status ERROR_SUCCESS s
                 in if st \<noteq> ERROR_SUCCESS
                    then Ret (status, POWER_SEND LEVEL_WARNING
                           (''PdhAddCounter failed with status 0x'' @ show_x (unat st) @ '' for '' @ path) s1)
                    else case g_rail_counters_requested s1 of
                           None \<Rightarrow> Stuck BadDeref
                         | Some cs \<Rightarrow>
                             obind (arr_write cs (unat (g_rail_counters_requested_length s1)) \<lparr>rc_counter = Some path, rc_rail = rail\<rparr>) (\<lambda>cs'.
                               Ret (POWER_TELEMETRY_SUCCESS,
                                    POWER_SEND LEVEL_INFO (''PdhAddCounter succeeded for '' @ path)
                                      (s1\<lparr>g_rail_counters_requested := Some cs',
                                          g_rail_counters_requested_length := g_rail_counters_requested_length s1 + 1\<rparr>)))))"

fun add_rails ::
  "nat \<Rightarrow> nat \<Rightarrow> ePowerTelemetryRail list \<Rightarrow> ePowerTelemetryReturnCode \<Rightarrow> ('l, 'x) rails_session_scheme
     \<Rightarrow> (ePowerTelemetryReturnCode \<times> ('l, 'x) rails_session_scheme) outcome" where
  "add_rails i 0 rails status s = Ret (status, s)"
| "add_rails i (Suc n) rails status s =
     obind (arr_read rails i) (\<lambda>rail. obind (add_rail rail status s) (\<lambda>(status', s'). add_rails (Suc i) n rails status' s'))"

text \<open>The part of the function that opens the query and adds the counters.\<close>

definition open_rails ::
  "RailsInfoRequest \<Rightarrow> ePowerTelemetryReturnCode \<Rightarrow> ('l, 'x) rails_session_scheme
     \<Rightarrow> (ePowerTelemetryReturnCode \<times> ('l, 'x) rails_session_scheme) outcome" where
  "open_rails rq status s =
     (let (st, s1) = PdhOpenQuery s
      in if st \<noteq> ERROR_SUCCESS \<or> g_h_query s1 = None
         then Ret (POWER_TELEMETRY_OPEN_QUERY_FAILED, POWER_SEND LEVEL_ERROR (''PdhOpenQuery failed with status 0x'' @ show_x (unat st)) s1)
         else let (ok, s2) = alloc s1
              in if \<not> ok
                 then Ret (POWER_TELEMETRY_CALLOC_FAILED,
                        POWER_SEND LEVEL_ERROR ''Memory allocation for counter list failed'' (s2\<lparr>g_rail_counters_requested := None\<rparr>))
                 else add_rails 0 (unat (ri_railsLength rq)) (ri_rails rq) status
                        (s2\<lparr>g_rail_counters_requested := Some (replicate (unat (ri_railsLength rq)) zero_rail_counter)\<rparr>))"

definition powerTelemetry_railsInit ::
  "RailsInfoRequest option \<Rightarrow> ('l, 'x) rails_session_scheme \<Rightarrow> (ePowerTelemetryReturnCode \<times> ('l, 'x) rails_session_scheme) outcome" where
  "powerTelemetry_railsInit request s =
     (if g_rails_initialized s
      then Ret (POWER_TELEMETRY_ALREADY_INITIALIZED, POWER_SEND LEVEL_ERROR ''Rails library is already initialized'' s)
      else case request of
        None \<Rightarrow> Ret (POWER_TELEMETRY_NULL_POINTER, POWER_SEND LEVEL_ERROR ''Input is NULL or empty'' s)
      | Some rq \<Rightarrow>
          if ri_railsLength rq = 0
          then Ret (POWER_TELEMETRY_NULL_POINTER, POWER_SEND LEVEL_ERROR ''Input is NULL or empty'' s)
          else obind (powerTelemetry_railsGetSupported None True (s\<lparr>g_rails_initialized := True\<rparr>)) (\<lambda>(status, out, s1).
               obind (if status = POWER_TELEMETRY_SUCCESS then open_rails rq status s1 else Ret (status, s1)) (\<lambda>(status', s2).
                 Ret (status', if status' \<noteq> POWER_TELEMETRY_SUCCESS
                               then (snd (powerTelemetry_railsDestroy s2))\<lparr>g_rails_initialized := False\<rparr> else s2))))"

section \<open>One collection\<close>

text \<open>
  The loop over the counters that were added: \<open>n\<close> more from the index \<open>i\<close>. When the rail \<open>SYS\<close> has no value, the
  counter at the index \<open>POWER_TELEMETRY_RAIL_SYSTEM\<close> is asked.
\<close>

fun rail_values ::
  "rails_env \<Rightarrow> nat \<Rightarrow> nat \<Rightarrow> RailCounterAttributes list \<Rightarrow> ePowerTelemetryReturnCode \<Rightarrow> RailsInfoResponse
     \<Rightarrow> ('l, 'x) rails_session_scheme \<Rightarrow> (ePowerTelemetryReturnCode \<times> RailsInfoResponse \<times> ('l, 'x) rails_session_scheme) outcome" where
  "rail_values env i 0 cs status response s = Ret (status, response, s)"
| "rail_values env i (Suc n) cs status response s =
     obind (arr_read cs i) (\<lambda>c.
       let rail = rc_rail c; s1 = POWER_SEND LEVEL_DEBUG (''Getting formatted counter value for counter='' @ rail_instance rail) s;
           first = PdhGetFormattedCounterValue env (rc_counter c)
       in obind (if fst first \<noteq> ERROR_SUCCESS \<and> rail = RAIL_SYS
                 then obind (arr_read cs (rail_index RAIL_SYSTEM)) (\<lambda>c'. Ret (PdhGetFormattedCounterValue env (rc_counter c')))
                 else Ret first)
            (\<lambda>(st, v).
               if st \<noteq> ERROR_SUCCESS
               then rail_values env (Suc i) n cs status response
                      (POWER_SEND LEVEL_WARNING (''PdhGetFormattedCounterValue failed, instance='' @ rail_instance rail @ '' status=0x'' @
                         show_x (unat st) @ ''. Maybe this is first call'') s1)
               else obind (arr_write (rr_rails response) (unat (rr_length response)) rail) (\<lambda>rails.
                    obind (arr_write (rr_values response) (unat (rr_length response)) v) (\<lambda>vals.
                      rail_values env (Suc i) n cs POWER_TELEMETRY_SUCCESS
                        \<lparr>rr_rails = rails, rr_values = vals, rr_length = rr_length response + 1\<rparr>
                        (POWER_SEND LEVEL_DEBUG (''Counter='' @ rail_instance rail @ '' Value='' @ show_6f v) s1)))))"

definition powerTelemetry_railsGetInfo ::
  "rails_env \<Rightarrow> RailsInfoResponse option \<Rightarrow> ('l, 'x) rails_session_scheme
     \<Rightarrow> (ePowerTelemetryReturnCode \<times> RailsInfoResponse option \<times> ('l, 'x) rails_session_scheme) outcome" where
  "powerTelemetry_railsGetInfo env response s =
     (if \<not> g_rails_initialized s
      then Ret (POWER_TELEMETRY_NOT_INITIALIZED, response, POWER_SEND LEVEL_ERROR ''Rails library is not yet initialized'' s)
      else case response of
        None \<Rightarrow> Ret (POWER_TELEMETRY_NULL_POINTER, None, POWER_SEND LEVEL_ERROR ''Input is null'' s)
      | Some r \<Rightarrow>
          (case g_rail_counters_requested s of
             None \<Rightarrow> Ret (POWER_TELEMETRY_INVALID_INPUT, response, POWER_SEND LEVEL_ERROR ''Request is empty'' s)
           | Some cs \<Rightarrow>
               if g_rail_counters_requested_length s = 0
               then Ret (POWER_TELEMETRY_INVALID_INPUT, response, POWER_SEND LEVEL_ERROR ''Request is empty'' s)
               else case g_h_query s of
                      None \<Rightarrow> Ret (POWER_TELEMETRY_SUCCESS, response, POWER_SEND LEVEL_DEBUG ''No PDH data marked as requested'' s)
                    | Some q \<Rightarrow>
                        let st = PdhCollectQueryData env q s
                        in if st \<noteq> ERROR_SUCCESS
                           then Ret (POWER_TELEMETRY_COLLECT_QUERY_FAILED, response,
                                  POWER_SEND LEVEL_ERROR (''PdhCollectQueryData failed with status 0x'' @ show_x (unat st)) s)
                           else obind (rail_values env 0 (unat (g_rail_counters_requested_length s)) cs POWER_TELEMETRY_WARNING_INVALID_DATA
                                        (r\<lparr>rr_length := 0\<rparr>) s) (\<lambda>(status, r', s').
                                  Ret (status, Some r', s'))))"

end
