(* ===== verification/WosPower.thy ===== *)
theory WosPower
  imports WosPowerTelemetry WosCpu
begin

text \<open>
  The power backend for Windows, \<open>backends/wos-power-backend\<close>: the metric of each rail (\<open>wos_power_backend_info.h\<close>),
  its seven operations and its collection thread (\<open>wos_power_backend.c\<close>), over the telemetry of
  \<open>WosPowerTelemetry\<close>. Theorems are in \<open>WosPowerProps\<close> and \<open>WosPowerLive\<close>.
\<close>

section \<open>The metrics\<close>

abbreviation (input) CAPABILITY_1_METRIC_COUNT :: nat where "CAPABILITY_1_METRIC_COUNT \<equiv> 16"
abbreviation (input) MIN_SAMPLING_RATE :: u16 where "MIN_SAMPLING_RATE \<equiv> 100"
abbreviation (input) MIN_STREAMING_RATE :: u16 where "MIN_STREAMING_RATE \<equiv> 200"
abbreviation (input) MAX_SAMPLING_RATE :: u16 where "MAX_SAMPLING_RATE \<equiv> 1000"

definition power_metric :: "u16 \<Rightarrow> string \<Rightarrow> string \<Rightarrow> QcPerfMetricInfo" where
  "power_metric i name what = wos_metric i name (what @ '' power average over sampling period'') ''mW''"

text \<open>What the initialisation writes for a rail; \<open>None\<close>: the rail is unknown.\<close>

fun rail_metric :: "ePowerTelemetryRail \<Rightarrow> QcPerfMetricInfo option" where
  "rail_metric RAIL_CPU_CLUSTER_0 = Some (power_metric 0 ''CPU Cluster 0 Power'' ''CPU Cluster 0'')"
| "rail_metric RAIL_CPU_CLUSTER_1 = Some (power_metric 1 ''CPU Cluster 1 Power'' ''CPU Cluster 1'')"
| "rail_metric RAIL_CPU_CLUSTER_2 = Some (power_metric 2 ''CPU Cluster 2 Power'' ''CPU Cluster 2'')"
| "rail_metric RAIL_GPU = Some (power_metric 3 ''GPU Power'' ''GPU'')"
| "rail_metric RAIL_PSU_USB = Some (power_metric 4 ''PSU USB Power'' ''PSU USB'')"
| "rail_metric RAIL_SYS = Some (power_metric 5 ''System Power'' ''System'')"
| "rail_metric RAIL_SYSTEM = Some (power_metric 5 ''System Power'' ''System'')"
| "rail_metric RAIL_USBC_TOTAL = Some (power_metric 6 ''USBC Total Power'' ''USBC Total'')"
| "rail_metric RAIL_ROP = Some (power_metric 7 ''ROP Power'' ''Rest of Platform'')"
| "rail_metric RAIL_NSP = Some (power_metric 8 ''NSP Power'' ''NSP Total'')"
| "rail_metric RAIL_MULTIMEDIA = Some (power_metric 9 ''Multimedia Power'' ''Multimedia Total'')"
| "rail_metric RAIL_INFRA = Some (power_metric 10 ''INFRA Power'' ''INFRA Total'')"
| "rail_metric RAIL_DRAM_DDR = Some (power_metric 11 ''DRAM/DDR Power'' ''DRAM/DDR Total'')"
| "rail_metric RAIL_SOC = Some (power_metric 12 ''SOC Power'' ''SOC Total'')"
| "rail_metric RAIL_MAX = None"

text \<open>The identifier the thread gives to a value of a rail.\<close>

fun rail_metric_id :: "ePowerTelemetryRail \<Rightarrow> u16 option" where
  "rail_metric_id RAIL_CPU_CLUSTER_0 = Some 0"
| "rail_metric_id RAIL_CPU_CLUSTER_1 = Some 1"
| "rail_metric_id RAIL_CPU_CLUSTER_2 = Some 2"
| "rail_metric_id RAIL_GPU = Some 3"
| "rail_metric_id RAIL_PSU_USB = Some 4"
| "rail_metric_id RAIL_SYS = Some 5"
| "rail_metric_id RAIL_SYSTEM = Some 5"
| "rail_metric_id RAIL_USBC_TOTAL = Some 6"
| "rail_metric_id RAIL_ROP = Some 7"
| "rail_metric_id RAIL_NSP = Some 8"
| "rail_metric_id RAIL_MULTIMEDIA = Some 9"
| "rail_metric_id RAIL_INFRA = Some 10"
| "rail_metric_id RAIL_DRAM_DDR = Some 11"
| "rail_metric_id RAIL_SOC = Some 12"
| "rail_metric_id RAIL_MAX = None"

text \<open>The rail that \<open>start\<close> requests for a metric; metric 5 is the system rail found by the initialisation.\<close>

definition metric_rail :: "ePowerTelemetryRail \<Rightarrow> u16 \<Rightarrow> ePowerTelemetryRail option" where
  "metric_rail system i =
     (if i = 0 then Some RAIL_CPU_CLUSTER_0 else if i = 1 then Some RAIL_CPU_CLUSTER_1 else if i = 2 then Some RAIL_CPU_CLUSTER_2
      else if i = 3 then Some RAIL_GPU else if i = 4 then Some RAIL_PSU_USB else if i = 5 then Some system
      else if i = 6 then Some RAIL_USBC_TOTAL else if i = 7 then Some RAIL_ROP else if i = 8 then Some RAIL_NSP
      else if i = 9 then Some RAIL_MULTIMEDIA else if i = 10 then Some RAIL_INFRA else if i = 11 then Some RAIL_DRAM_DDR
      else if i = 12 then Some RAIL_SOC else None)"

section \<open>State\<close>

text \<open>The clock at its four readings, the counters of an iteration, and whether \<open>CloseHandle\<close> succeeds.\<close>

record power_env =
  pe_start :: "i64 \<times> i64"
  pe_now :: "i64 \<times> i64"
  pe_end :: "i64 \<times> i64"
  pe_restart :: "i64 \<times> i64"
  pe_rails :: rails_env
  pe_closes :: bool

record power_local =
  pl_request :: QcPerfRequest
  pl_sample_count :: u32
  pl_allocated :: u32
  pl_data :: QcPerfData
  pl_index :: u32
  pl_current_sample :: u16
  pl_start_time :: u64
  pl_current_time :: u64
  pl_end_time :: u64
  pl_response :: RailsInfoResponse
  pl_slept :: nat

text \<open>\<open>g_sources_enablement_mapping\<close> has one element, for the rails.\<close>

record power_state = "power_local rails_session" +
  g_requested_metrics_length :: u8
  g_sources_enablement_mapping :: bool
  g_system_rail_index :: ePowerTelemetryRail

definition initial_power :: "string \<Rightarrow> u32 option list \<Rightarrow> oom \<Rightarrow> power_state" where
  "initial_power counters statuses faults = session.extend (initial_session faults)
     \<lparr>g_rails_initialized = False, g_h_query = None, g_rail_counters_requested = None, g_rail_counters_requested_length = 0,
      g_rails_supported = None, w_statuses = statuses, w_counters = counters, w_queries = 0, w_open = [],
      g_requested_metrics_length = 0, g_sources_enablement_mapping = False, g_system_rail_index = RAIL_SYS\<rparr>"

section \<open>Memory\<close>

definition wos_power_backend_alloc :: "power_state \<Rightarrow> QcPerfReturnCode \<times> power_state" where
  "wos_power_backend_alloc s =
     (let (ok, s1) = alloc s
      in if \<not> ok then (CALLOC_FAILED, s1\<lparr>g_backend_info := (g_backend_info s1)\<lparr>bi_capabilities_list := None\<rparr>\<rparr>)
         else let (ok2, s2) = alloc (s1\<lparr>sn_table := Suc (sn_table s1),
                  g_backend_info := (g_backend_info s1)
                    \<lparr>bi_capabilities_list := Some [zero_capability], bi_capabilities_list_length := 1\<rparr>\<rparr>)
              in if \<not> ok2
                 then (CALLOC_FAILED, s2\<lparr>g_backend_info := (g_backend_info s2)
                         \<lparr>bi_capabilities_list := None, bi_capabilities_list_length := 0\<rparr>\<rparr>)
                 else (SUCCESS, s2\<lparr>g_backend_info := (g_backend_info s2)
                         \<lparr>bi_capabilities_list := Some [zero_capability
                            \<lparr>ci_metric_ids_list := Some (replicate CAPABILITY_1_METRIC_COUNT zero_metric_info),
                             ci_metric_ids_list_len := of_nat CAPABILITY_1_METRIC_COUNT\<rparr>]\<rparr>\<rparr>))"

definition wos_power_backend_free_memory :: "power_state \<Rightarrow> power_state" where
  "wos_power_backend_free_memory s =
     s\<lparr>g_backend_info := (g_backend_info s)\<lparr>bi_capabilities_list := None, bi_capabilities_list_length := 0\<rparr>\<rparr>"

section \<open>Operations\<close>

text \<open>The loop over the rails: \<open>n\<close> more from \<open>k\<close>; the next metric goes to \<open>i\<close>.\<close>

fun power_fill_metrics ::
  "bool list \<Rightarrow> nat \<Rightarrow> nat \<Rightarrow> QcPerfMetricInfo list \<times> nat \<Rightarrow> power_state \<Rightarrow> ((QcPerfMetricInfo list \<times> nat) \<times> power_state) outcome" where
  "power_fill_metrics rmap k 0 a s = Ret (a, s)"
| "power_fill_metrics rmap k (Suc n) (ms, i) s =
     (if \<not> i < CAPABILITY_1_METRIC_COUNT then Ret ((ms, i), s)
      else obind (arr_read rmap k) (\<lambda>known.
        if \<not> known then power_fill_metrics rmap (Suc k) n (ms, i) s
        else case rail_metric (power_rails ! k) of
               None \<Rightarrow> power_fill_metrics rmap (Suc k) n (ms, i) (POWER_SEND LEVEL_INFO (''Unknown metric received: '' @ show_u k) s)
             | Some mi \<Rightarrow>
                 obind (arr_write ms i mi) (\<lambda>ms'.
                   power_fill_metrics rmap (Suc k) n (ms', i + 1)
                     (if power_rails ! k = RAIL_SYS then s\<lparr>g_system_rail_index := RAIL_SYS\<rparr>
                      else if power_rails ! k = RAIL_SYSTEM then s\<lparr>g_system_rail_index := RAIL_SYSTEM\<rparr> else s))))"

definition put_capability :: "QcPerfCapabilityInfo \<Rightarrow> power_state \<Rightarrow> power_state" where
  "put_capability c s = s\<lparr>g_backend_info := (g_backend_info s)\<lparr>bi_capabilities_list :=
     map_option (\<lambda>cs. cs[0 := c]) (bi_capabilities_list (g_backend_info s))\<rparr>\<rparr>"

text \<open>The two rates: the smallest and the largest.\<close>

definition set_power_rates :: "QcPerfCapabilityInfo \<Rightarrow> QcPerfCapabilityInfo" where
  "set_power_rates c = c\<lparr>ci_streaming_rate := (ci_streaming_rate c)[0 := MIN_STREAMING_RATE, 1 := 1000], ci_streaming_rate_len := 2,
     ci_sampling_rate := (ci_sampling_rate c)[0 := MIN_SAMPLING_RATE, 1 := MAX_SAMPLING_RATE], ci_sampling_rate_len := 2\<rparr>"

text \<open>The part of the function that runs when the rails are known.\<close>

definition power_register :: "RailsSupported \<Rightarrow> QcPerfCapabilityInfo \<Rightarrow> power_state \<Rightarrow> (QcPerfReturnCode \<times> power_state) outcome" where
  "power_register rails c s =
     (let c1 = c\<lparr>ci_capability_id := 0, ci_name := snprintf_buf CAPABILITY_NAME_MAX_LEN ''wos-power-metrics'',
                 ci_name_len := length ''wos-power-metrics'' mod 256\<rparr>
      in case ci_metric_ids_list c1 of
           None \<Rightarrow> Stuck BadDeref
         | Some ms \<Rightarrow>
             obind (power_fill_metrics (supportedRailsMap rails) 0 MAX_POWER_TELEMETRY_RAILS (ms, 0) s) (\<lambda>((ms', i), s1).
               Ret (SUCCESS, put_capability (c1\<lparr>ci_metric_ids_list := Some ms', ci_metric_ids_list_len := of_nat i\<rparr>) s1)))"

definition wos_power_backend_init :: "power_state \<Rightarrow> (QcPerfReturnCode \<times> power_state) outcome" where
  "wos_power_backend_init s =
     (let (rc, s1) = wos_power_backend_alloc
            (s\<lparr>g_backend_info := (g_backend_info s)\<lparr>bi_backend_id := of_nat (backend_index BACKEND_POWER)\<rparr>\<rparr>)
      in if rc \<noteq> SUCCESS
         then Ret (CALLOC_FAILED,
                wos_power_backend_free_memory (POWER_SEND LEVEL_ERROR ''Initializtion failed. Unable to allocate memory'' s1))
         else case bi_capabilities_list (g_backend_info s1) of
                None \<Rightarrow> Stuck BadDeref
              | Some cs \<Rightarrow>
                  obind (arr_read cs 0) (\<lambda>c.
                  let c1 = set_power_rates c
                  in obind (powerTelemetry_railsGetSupported (Some zero_supported) False (put_capability c1 s1)) (\<lambda>(prc, out, s2).
                       if prc \<noteq> POWER_TELEMETRY_SUCCESS
                       then Ret (FAILED, POWER_SEND LEVEL_ERROR
                              (''powerTelemetry_railsGetSupported returned error='' @ show_u (power_telemetry_code prc)) s2)
                       else case out of None \<Rightarrow> Stuck BadDeref | Some rails \<Rightarrow> power_register rails c1 s2)))"

definition wos_power_backend_info ::
  "QcPerfBackendInfo option \<Rightarrow> power_state \<Rightarrow> QcPerfReturnCode \<times> QcPerfBackendInfo option \<times> power_state" where
  "wos_power_backend_info backend_info s =
     (case backend_info of
        None \<Rightarrow> (NULL_POINTER, None, POWER_SEND LEVEL_ERROR ''backend_info is NULL'' s)
      | Some _ \<Rightarrow> (SUCCESS, Some (g_backend_info s), s))"

definition wos_power_backend_set_message_callback :: "callback \<Rightarrow> power_state \<Rightarrow> QcPerfReturnCode \<times> power_state" where
  "wos_power_backend_set_message_callback cb s = (SUCCESS, s\<lparr>g_message_callback := cb\<rparr>)"

definition wos_power_backend_set_data_callback :: "callback \<Rightarrow> power_state \<Rightarrow> QcPerfReturnCode \<times> power_state" where
  "wos_power_backend_set_data_callback cb s = (SUCCESS, s\<lparr>g_data_callback := cb\<rparr>)"

text \<open>The loop of \<open>start\<close> over the metrics of the table: \<open>n\<close> more from \<open>i\<close>.\<close>

fun power_request_rails ::
  "nat \<Rightarrow> nat \<Rightarrow> QcPerfCapabilityInfo \<Rightarrow> RailsInfoRequest \<Rightarrow> power_state \<Rightarrow> (RailsInfoRequest \<times> power_state) outcome" where
  "power_request_rails i 0 c rq s = Ret (rq, s)"
| "power_request_rails i (Suc n) c rq s =
     (case ci_metric_ids_list c of
        None \<Rightarrow> Stuck BadDeref
      | Some ms \<Rightarrow>
          obind (arr_read ms i) (\<lambda>m.
            case metric_rail (g_system_rail_index s) (mi_metric_id m) of
              None \<Rightarrow> power_request_rails (Suc i) n c rq
                        (POWER_SEND LEVEL_INFO (''Unknown metric received: '' @ show_u (unat (mi_metric_id m))) s)
            | Some r \<Rightarrow>
                obind (arr_write (ri_rails rq) i r) (\<lambda>rs.
                  power_request_rails (Suc i) n c (rq\<lparr>ri_rails := rs, ri_railsLength := ri_railsLength rq + 1\<rparr>) s)))"

text \<open>
  Opening the telemetry; it never changes the length of the request, so no metric is reported missing.
\<close>

definition power_open_rails :: "RailsInfoRequest \<Rightarrow> power_state \<Rightarrow> (QcPerfReturnCode \<times> power_state) outcome" where
  "power_open_rails rq s =
     (if ri_railsLength rq = 0 then Ret (SUCCESS, s)
      else obind (powerTelemetry_railsInit (Some rq) s) (\<lambda>(prc, s1).
        if prc \<noteq> POWER_TELEMETRY_SUCCESS
        then Ret (FAILED, POWER_SEND LEVEL_ERROR
               (''powerTelemetry_init failed with ePowerTelemetryReturnCode='' @ show_u (power_telemetry_code prc)) s1)
        else Ret (SUCCESS, s1\<lparr>g_requested_metrics_length := g_requested_metrics_length s1 + ri_railsLength rq,
                              g_sources_enablement_mapping := True\<rparr>)))"

text \<open>The last character of the name is lost: the size given to \<open>snprintf\<close> is the length of the name.\<close>

definition power_thread_attrs :: "QcPerfRequest \<Rightarrow> QThreadAttributes" where
  "power_thread_attrs rq =
     \<lparr>thread_name = snprintf_buf (length ''wos-power-metrics-thread'') ''wos-power-metrics-thread'',
      thread_name_len = of_nat (length ''wos-power-metrics-thread''),
      thread_priority = 0, thread_stack_size = 0, thread_params = Some rq\<rparr>"

definition power_spawn :: "QcPerfRequest \<Rightarrow> power_state \<Rightarrow> QcPerfReturnCode \<times> power_state" where
  "power_spawn rq s =
     (let (rc, s1) = windows_spawn (power_thread_attrs rq) s
      in if rc \<noteq> QTHREAD_CREATE_SUCCESS
         then (FAILED, POWER_SEND LEVEL_ERROR (''Failed to start thread for capability='' @ show_u (unat (rq_capability_id rq))) s1)
         else (SUCCESS, s1))"

definition power_begin :: "QcPerfRequest \<Rightarrow> power_state \<Rightarrow> (QcPerfReturnCode \<times> power_state) outcome" where
  "power_begin rq s =
     (let (ok, s1) = alloc s
      in if \<not> ok then Ret (CALLOC_FAILED, POWER_SEND LEVEL_ERROR ''Memory allocation failed'' s1)
         else case bi_capabilities_list (g_backend_info s1) of
                None \<Rightarrow> Stuck BadDeref
              | Some cs \<Rightarrow>
                  obind (arr_read cs 0) (\<lambda>c.
                  obind (power_request_rails 0 (unat (ci_metric_ids_list_len c)) c zero_rails_request s1) (\<lambda>(rails, s2).
                  obind (power_open_rails rails s2) (\<lambda>(rc, s3).
                    if rc \<noteq> SUCCESS then Ret (rc, s3) else Ret (power_spawn rq s3)))))"

definition wos_power_backend_start :: "QcPerfRequest option \<Rightarrow> power_state \<Rightarrow> (QcPerfReturnCode \<times> power_state) outcome" where
  "wos_power_backend_start request s =
     (case request of
        None \<Rightarrow> Ret (NULL_POINTER, POWER_SEND LEVEL_ERROR ''QcPerfRequest NULL pointer'' s)
      | Some rq \<Rightarrow>
          if g_data_callback s = None
          then Ret (INVALID_ARGUMENTS, POWER_SEND LEVEL_ERROR ''Result Callback is not set'' s)
          else if g_is_thread_running s
          then Ret (ALREADY_INITIALIZED,
                 POWER_SEND LEVEL_INFO (''Already running capability='' @ show_u (unat (rq_capability_id rq))) s)
          else obind (power_begin rq (s\<lparr>g_is_thread_running := True, g_requested_metrics_length := 0\<rparr>)) (\<lambda>(rc, s1).
                 Ret (rc, if rc \<noteq> SUCCESS \<and> g_is_thread_running s1 then s1\<lparr>g_is_thread_running := False\<rparr> else s1)))"

section \<open>The collection thread\<close>

text \<open>The first collection, whose values are not used.\<close>

definition power_prime ::
  "power_env \<Rightarrow> RailsInfoResponse \<Rightarrow> power_state \<Rightarrow> (RailsInfoResponse \<times> power_state) outcome" where
  "power_prime env r s =
     (if \<not> g_sources_enablement_mapping s then Ret (r, s)
      else obind (powerTelemetry_railsGetInfo (pe_rails env) (Some r) s) (\<lambda>(prc, out, s1).
             Ret ((case out of Some r' \<Rightarrow> r' | None \<Rightarrow> r), s1)))"

definition power_adjusted :: "QcPerfRequest \<Rightarrow> QcPerfRequest \<times> u32" where
  "power_adjusted rq =
     (if rq_sampling_rate rq = 0 \<or> rq_sampling_rate rq > rq_streaming_rate rq
      then (rq\<lparr>rq_sampling_rate := rq_streaming_rate rq\<rparr>, 1)
      else (rq, ucast (rq_streaming_rate rq) div ucast (rq_sampling_rate rq)))"

definition power_adjust_warning :: "QcPerfRequest \<Rightarrow> power_state \<Rightarrow> power_state" where
  "power_adjust_warning rq s =
     (if rq_sampling_rate rq = 0 \<or> rq_sampling_rate rq > rq_streaming_rate rq
      then POWER_SEND LEVEL_WARNING
        (''Sampling rate ('' @ show_u (unat (rq_sampling_rate rq)) @ '' ms) exceeds streaming rate ('' @ show_u (unat (rq_streaming_rate rq)) @
         '' ms). Sampling rate adjusted to match streaming rate and Newer sampling rate is ( '' @ show_u (unat (rq_streaming_rate rq)) @ '' ms)'') s
      else s)"

text \<open>
  From the first statement to the loop. Both structures are allocated before either is tested; the table may be
  gone, which ends the thread.
\<close>

definition power_thread_entry ::
  "power_env \<Rightarrow> QcPerfRequest option \<Rightarrow> power_state \<Rightarrow> (power_local option \<times> power_state) outcome" where
  "power_thread_entry env param s =
     (case param of
        None \<Rightarrow> Ret (None, POWER_SEND LEVEL_ERROR ''request NULL pointer'' s)
      | Some rq0 \<Rightarrow>
          let (ok1, s1) = alloc s; (ok2, s2) = alloc s1
          in if \<not> ok1 \<or> \<not> ok2 then Ret (None, POWER_SEND LEVEL_ERROR ''Memory allocation failed for a fixed-size structure'' s2)
             else case bi_capabilities_list (g_backend_info s2) of
                    None \<Rightarrow> Ret (None, POWER_SEND LEVEL_ERROR ''capability_info is null'' s2)
                  | Some cs \<Rightarrow>
                      obind (arr_read cs 0) (\<lambda>ci.
                        let (rq, sample_count) = power_adjusted rq0; metrics = (ucast (ci_metric_ids_list_len ci) :: u32);
                            allocated = sample_count * metrics;
                            s3 = POWER_SEND LEVEL_INFO (''Expecting sample_count='' @ show_u (unat sample_count) @ '' metrics='' @
                                   show_u (unat metrics) @ '' total='' @ show_u (unat allocated)) (power_adjust_warning rq0 s2);
                            (ok3, s4) = alloc s3
                        in if \<not> ok3 then Ret (None, POWER_SEND LEVEL_ERROR ''Memory allocation for QcPerfMetricResponse failed'' s4)
                           else obind (power_prime env zero_rails_response s4) (\<lambda>(r, s5).
                                  Ret (Some \<lparr>pl_request = rq, pl_sample_count = sample_count, pl_allocated = allocated,
                                        pl_data = \<lparr>pd_backend_id = of_nat (backend_index BACKEND_POWER), pd_capability_id = 0,
                                                   pd_metric_response = replicate (unat allocated) zero_response,
                                                   pd_metric_response_len = 0\<rparr>,
                                        pl_index = 0, pl_current_sample = 0, pl_start_time = win_now (pe_start env) 0,
                                        pl_current_time = 0, pl_end_time = 0, pl_response = r,
                                        pl_slept = (if g_sources_enablement_mapping s5 then unat (rq_sampling_rate rq) else 0)\<rparr>, s5))))"

text \<open>Storing one value; the identifier of an unknown rail stays what it was.\<close>

definition power_put :: "u64 \<Rightarrow> ePowerTelemetryRail \<Rightarrow> double \<Rightarrow> response_buffer \<Rightarrow> power_state \<Rightarrow> (response_buffer \<times> power_state) outcome" where
  "power_put now rail v b s =
     (case b of (rs, pos) \<Rightarrow>
        obind (arr_read rs (unat pos)) (\<lambda>r.
          let (i, s1) = (case rail_metric_id rail of
                Some i \<Rightarrow> (i, s)
              | None \<Rightarrow> (mr_metric_id r, power_log_message LEVEL_INFO (''Unknown metric received: '' @ show_u (unat (mr_metric_id r))) s))
          in Ret ((rs[unat pos := \<lparr>mr_timestamp = now, mr_metric_id = i,
                 mr_metric_value = (mr_metric_value r)\<lparr>gt_data_type := TYPE_DOUBLE, gt_double_value := v\<rparr>\<rparr>], pos + 1), s1)))"

text \<open>The loop over a response: \<open>n\<close> more from \<open>i\<close>, while there is room.\<close>

fun power_put_all ::
  "u32 \<Rightarrow> u64 \<Rightarrow> nat \<Rightarrow> nat \<Rightarrow> RailsInfoResponse \<Rightarrow> response_buffer \<Rightarrow> power_state \<Rightarrow> (response_buffer \<times> power_state) outcome" where
  "power_put_all allocated now i 0 r b s = Ret (b, s)"
| "power_put_all allocated now i (Suc n) r b s =
     (if \<not> snd b < allocated then Ret (b, s)
      else obind (arr_read (rr_rails r) i) (\<lambda>rail.
           obind (arr_read (rr_values r) i) (\<lambda>v.
           obind (power_put now rail v b s) (\<lambda>(b', s').
             power_put_all allocated now (Suc i) n r b' s'))))"

definition power_sample :: "power_env \<Rightarrow> u64 \<Rightarrow> power_local \<Rightarrow> power_state \<Rightarrow> (power_local \<times> power_state) outcome" where
  "power_sample env now l s =
     (if \<not> g_sources_enablement_mapping s then Ret (l, s)
      else obind (powerTelemetry_railsGetInfo (pe_rails env) (Some (pl_response l)) s) (\<lambda>(prc, out, s1).
        let r = (case out of Some r' \<Rightarrow> r' | None \<Rightarrow> pl_response l)
        in if prc \<noteq> POWER_TELEMETRY_SUCCESS
           then Ret (l\<lparr>pl_response := r\<rparr>, POWER_SEND LEVEL_ERROR
                  (''powerTelemetry_railsGetInfo failed with ePowerTelemetryReturnCode='' @ show_u (power_telemetry_code prc)) s1)
           else obind (power_put_all (pl_allocated l) now 0 (unat (rr_length r)) r (pd_metric_response (pl_data l), pl_index l) s1) (\<lambda>((rs, i), s2).
                  Ret (l\<lparr>pl_response := r, pl_data := (pl_data l)\<lparr>pd_metric_response := rs\<rparr>, pl_index := i\<rparr>, s2))))"

definition power_stream :: "power_env \<Rightarrow> power_local \<Rightarrow> power_state \<Rightarrow> power_local \<times> power_state" where
  "power_stream env l0 s =
     (let l = l0\<lparr>pl_current_sample := pl_current_sample l0 + 1, pl_end_time := win_now (pe_end env) (pl_end_time l0)\<rparr>;
          elapsed_ms = (pl_end_time l - pl_start_time l) div 1000000
      in if pl_sample_count l \<le> ucast (pl_current_sample l) \<or> pl_allocated l \<le> pl_index l \<or>
            ucast (rq_streaming_rate (pl_request l)) < elapsed_ms
         then let (l1, s1) =
                (if pl_index l = 0 then (l, POWER_SEND LEVEL_ERROR ''No profiling data is present for capability'' s)
                 else let d = (pl_data l)\<lparr>pd_metric_response_len := unat (pl_index l)\<rparr>
                      in (l\<lparr>pl_data := d, pl_index := 0, pl_current_sample := 0\<rparr>,
                          case g_data_callback s of
                            Some cb \<Rightarrow> s\<lparr>sn_data := sn_data s @ [(cb, d)]\<rparr>
                          | None \<Rightarrow> POWER_SEND LEVEL_ERROR ''Result callback is NULL, cannot send metric data'' s))
              in (l1\<lparr>pl_start_time := win_now (pe_restart env) (pl_start_time l1)\<rparr>, s1)
         else (l, s))"

definition power_thread_iterate :: "power_env \<Rightarrow> power_local \<Rightarrow> power_state \<Rightarrow> (power_local \<times> power_state) outcome" where
  "power_thread_iterate env l s =
     (let now = win_now (pe_now env) (pl_current_time l)
      in obind (power_sample env now (l\<lparr>pl_current_time := now\<rparr>) s) (\<lambda>(l1, s1).
           let (l2, s2) = power_stream env l1 s1
           in Ret (l2\<lparr>pl_slept := unat (rq_sampling_rate (pl_request l2))\<rparr>, s2)))"

text \<open>After the loop the response, the responses and the data are freed.\<close>

definition power_thread_finish :: "power_local \<Rightarrow> power_state \<Rightarrow> power_state outcome" where
  "power_thread_finish l s = Ret s"

definition power_thread :: "power_env \<Rightarrow> (power_local, power_state) thread_code" where
  "power_thread env = \<lparr>th_entry = power_thread_entry env, th_finish = power_thread_finish\<rparr>"

section \<open>Stop, deinitialisation and creation\<close>

definition power_close_rails :: "power_state \<Rightarrow> power_state" where
  "power_close_rails s =
     (let (prc, s1) = powerTelemetry_railsDestroy s;
          s2 = (if prc \<noteq> POWER_TELEMETRY_SUCCESS
                then POWER_SEND LEVEL_ERROR
                  (''powerTelemetry_railsDestroy failed with ePowerTelemetryReturnCode='' @ show_u (power_telemetry_code prc)) s1
                else s1)
      in s2\<lparr>g_requested_metrics_length := 0, g_sources_enablement_mapping := False\<rparr>)"

definition wos_power_backend_stop :: "power_env \<Rightarrow> QcPerfRequest option \<Rightarrow> power_state \<Rightarrow> (QcPerfReturnCode \<times> power_state) outcome" where
  "wos_power_backend_stop env request s0 =
     (let s = POWER_SEND LEVEL_DEBUG ''Stopping profiling'' s0
      in obind
           (case request of
              None \<Rightarrow> Ret (NULL_POINTER, POWER_SEND LEVEL_ERROR ''QcPerfRequest NULL pointer'' s)
            | Some rq \<Rightarrow>
                if \<not> g_is_thread_running s
                then Ret (SUCCESS, POWER_SEND LEVEL_INFO (''Already stopped capability='' @ show_u (unat (rq_capability_id rq))) s)
                else obind (thread_join (wait_exit (power_thread env)) (Some (g_thread_info s)) (s\<lparr>g_is_thread_running := False\<rparr>))
                       (\<lambda>(jr, s1).
                         let (rc, s2) =
                           (if jr \<noteq> QTHREAD_JOIN_SUCCESS
                            then (FAILED, POWER_SEND LEVEL_ERROR (''Failed to stop capability='' @ show_u (unat (rq_capability_id rq))) s1)
                            else let (dr, ti) = windows_thread_destroy (Some (g_thread_info s1)) (pe_closes env);
                                     s1' = s1\<lparr>g_thread_info := (case ti of Some i \<Rightarrow> i | None \<Rightarrow> g_thread_info s1)\<rparr>
                                 in if dr \<noteq> QTHREAD_DESTROY_SUCCESS
                                    then (FAILED, POWER_SEND LEVEL_ERROR ''Failed to destroy thread handle'' s1')
                                    else (SUCCESS, POWER_SEND LEVEL_INFO ''Performance monitoring thread stopped successfully'' s1'))
                         in Ret (rc, power_close_rails s2)))
           (\<lambda>(rc, s'). Ret (rc, POWER_SEND LEVEL_DEBUG ''wos_power_backend profiling stopped.'' s')))"

definition wos_power_backend_deinit :: "power_state \<Rightarrow> QcPerfReturnCode \<times> power_state" where
  "wos_power_backend_deinit s =
     (SUCCESS, wos_power_backend_free_memory (POWER_SEND LEVEL_INFO ''Deinitializing dummy backend'' s))"

definition wos_power_backend_create :: "power_env \<Rightarrow> power_state backend_init_t" where
  "wos_power_backend_create env backend =
     (case backend of
        None \<Rightarrow> (NULL_POINTER, None)
      | Some p \<Rightarrow> (SUCCESS, Some (p\<lparr>
          qcperf_backend_init := Some wos_power_backend_init,
          qcperf_backend_start := Some wos_power_backend_start,
          qcperf_backend_stop := Some (wos_power_backend_stop env),
          qcperf_backend_deinit := Some (\<lambda>s. Ret (wos_power_backend_deinit s)),
          qcperf_backend_info := Some (\<lambda>i s. Ret (wos_power_backend_info i s)),
          set_message_callback := Some (\<lambda>cb s. Ret (wos_power_backend_set_message_callback cb s)),
          set_data_callback := Some (\<lambda>cb s. Ret (wos_power_backend_set_data_callback cb s))\<rparr>)))"

end
