(* ===== verification/WosPowerTelemetryProps.thy ===== *)
theory WosPowerTelemetryProps
  imports WosPowerTelemetry
begin

text \<open>
  Correctness of the power telemetry for Windows: which rails it finds on a machine, that at most one query is
  open and only while the telemetry is initialised, what a collection reports, and when its fallback for the
  rail \<open>SYS\<close> leaves the array of counters.
\<close>

section \<open>Frames\<close>

lemma POWER_SEND_quiet [simp]: "quiet s (POWER_SEND lv t s)"
  by (simp add: POWER_SEND_def power_log_message_def)

lemma POWER_SEND_fields [simp]:
  "g_is_thread_running (POWER_SEND lv t s) = g_is_thread_running s"
  "g_thread_info (POWER_SEND lv t s) = g_thread_info s"
  "sn_threads (POWER_SEND lv t s) = sn_threads s"
  "g_backend_info (POWER_SEND lv t s) = g_backend_info s"
  "sn_table (POWER_SEND lv t s) = sn_table s"
  "g_data_callback (POWER_SEND lv t s) = g_data_callback s"
  "g_message_callback (POWER_SEND lv t s) = g_message_callback s"
  "sn_data (POWER_SEND lv t s) = sn_data s"
  "sn_faults (POWER_SEND lv t s) = sn_faults s"
  "session.more (POWER_SEND lv t s) = session.more s"
  by (simp_all add: POWER_SEND_def power_log_message_def post_message_def split: option.splits)

lemma same_control_power_send [control_simps, simp]:
  "same_control s (POWER_SEND lv t s') = same_control s s'"
  "same_control (POWER_SEND lv t s) s' = same_control s s'"
  by (simp_all add: same_control_def)

lemma POWER_SEND_rails [simp]:
  "g_rails_initialized (POWER_SEND lv t s) = g_rails_initialized s"
  "g_h_query (POWER_SEND lv t s) = g_h_query s"
  "g_rail_counters_requested (POWER_SEND lv t s) = g_rail_counters_requested s"
  "g_rail_counters_requested_length (POWER_SEND lv t s) = g_rail_counters_requested_length s"
  "g_rails_supported (POWER_SEND lv t s) = g_rails_supported s"
  "w_statuses (POWER_SEND lv t s) = w_statuses s"
  "w_counters (POWER_SEND lv t s) = w_counters s"
  "w_queries (POWER_SEND lv t s) = w_queries s"
  "w_open (POWER_SEND lv t s) = w_open s"
  "rails_session.more (POWER_SEND lv t s) = rails_session.more s"
  by (simp_all add: POWER_SEND_def power_log_message_def post_message_def split: option.splits)

text \<open>What the telemetry leaves alone: everything but its own variables, the messages and the scripts.\<close>

definition outside_rails :: "('l, 'x) rails_session_scheme \<Rightarrow> ('l, 'x) rails_session_scheme \<Rightarrow> bool" where
  "outside_rails s s' \<longleftrightarrow> g_backend_info s' = g_backend_info s \<and> sn_table s' = sn_table s \<and> g_data_callback s' = g_data_callback s \<and>
     g_message_callback s' = g_message_callback s \<and> sn_data s' = sn_data s \<and> same_control s s' \<and> w_counters s' = w_counters s \<and>
     rails_session.more s' = rails_session.more s"

lemma outside_rails_refl [simp]: "outside_rails s s"
  by (simp add: outside_rails_def)

lemma outside_rails_trans: "outside_rails s s' \<Longrightarrow> outside_rails s' s'' \<Longrightarrow> outside_rails s s''"
  by (simp add: outside_rails_def same_control_def)

lemma outside_rails_simps [simp]:
  "outside_rails s (POWER_SEND lv t s') = outside_rails s s'" "outside_rails (POWER_SEND lv t s) s' = outside_rails s s'"
  "outside_rails s (s'\<lparr>sn_faults := f\<rparr>) = outside_rails s s'"
  "outside_rails s (s'\<lparr>g_rails_initialized := b\<rparr>) = outside_rails s s'" "outside_rails s (s'\<lparr>g_h_query := q\<rparr>) = outside_rails s s'"
  "outside_rails s (s'\<lparr>g_rail_counters_requested := c\<rparr>) = outside_rails s s'"
  "outside_rails s (s'\<lparr>g_rail_counters_requested_length := n\<rparr>) = outside_rails s s'"
  "outside_rails s (s'\<lparr>g_rails_supported := m\<rparr>) = outside_rails s s'" "outside_rails s (s'\<lparr>w_statuses := st\<rparr>) = outside_rails s s'"
  "outside_rails s (s'\<lparr>w_queries := k\<rparr>) = outside_rails s s'" "outside_rails s (s'\<lparr>w_open := os\<rparr>) = outside_rails s s'"
  "outside_rails (s\<lparr>g_rails_initialized := b\<rparr>) s' = outside_rails s s'"
  by (simp_all add: outside_rails_def same_control_def)

lemma quiet_rails:
  assumes "quiet s s'"
  shows "outside_rails s s'" "g_rails_initialized s' = g_rails_initialized s" "g_h_query s' = g_h_query s"
    "g_rail_counters_requested s' = g_rail_counters_requested s"
    "g_rail_counters_requested_length s' = g_rail_counters_requested_length s" "g_rails_supported s' = g_rails_supported s"
    "w_queries s' = w_queries s" "w_open s' = w_open s" "sn_faults s' = sn_faults s" "w_statuses s' = w_statuses s"
  using assms by (auto simp: quiet_def outside_rails_def same_control_def)

section \<open>The rails of a machine\<close>

text \<open>The paths of a machine, as Windows lists them: each with the name of the machine in front.\<close>

definition machine_path :: "string \<Rightarrow> string \<Rightarrow> string" where
  "machine_path m c = CHR 0x5C # CHR 0x5C # m @ c"

fun counter_block :: "string \<Rightarrow> string list \<Rightarrow> string" where
  "counter_block m [] = [CHR 0x00]"
| "counter_block m (c # cs) = machine_path m c @ CHR 0x00 # counter_block m cs"

definition counter_text :: "string \<Rightarrow> bool" where
  "counter_text c \<longleftrightarrow> CHR 0x00 \<notin> set c \<and> c \<noteq> [] \<and> hd c = CHR 0x5C"

definition machine_name :: "string \<Rightarrow> bool" where
  "machine_name m \<longleftrightarrow> CHR 0x00 \<notin> set m \<and> CHR 0x5C \<notin> set m"

definition offers :: "('l, 'x) rails_session_scheme \<Rightarrow> string list \<Rightarrow> bool" where
  "offers s cs \<longleftrightarrow> (\<exists>m. machine_name m \<and> (\<forall>c \<in> set cs. counter_text c) \<and> w_counters s = counter_block m cs)"

lemma offers_outside: "outside_rails s s' \<Longrightarrow> offers s' cs = offers s cs"
  by (simp add: offers_def outside_rails_def)

lemma c_strchr_found: "CHR 0x00 \<notin> set m \<Longrightarrow> k \<notin> set m \<Longrightarrow> c_strchr k (m @ k # r) = Ret (Some (k # r))"
  by (induction m) auto

lemma c_text_zero: "CHR 0x00 \<notin> set p \<Longrightarrow> c_text (p @ CHR 0x00 # r) = p"
  by (simp add: c_text_def takeWhile_tail) (metis takeWhile_eq_all_conv)

text \<open>The map after a path has been compared with all instances.\<close>

definition marks :: "string \<Rightarrow> nat \<Rightarrow> bool" where
  "marks c k \<longleftrightarrow> c = rail_path (g_counter_instances ! k)"

lemma rail_path_fits: "k < 14 \<Longrightarrow> snprintf_buf 128 (rail_path (g_counter_instances ! k)) = rail_path (g_counter_instances ! k)"
proof -
  have all: "\<forall>x \<in> set g_counter_instances. length (rail_path x) < 128" by (simp add: g_counter_instances_def rail_path_def)
  assume "k < 14"
  then have "g_counter_instances ! k \<in> set g_counter_instances" by (intro nth_mem) (simp add: g_counter_instances_def)
  then show ?thesis using all by (intro snprintf_buf_id) blast
qed

lemma power_send_messages: "\<exists>ms. POWER_SEND lv t s = s\<lparr>sn_messages := ms\<rparr>"
  using POWER_SEND_quiet [of s lv t] by (simp add: quiet_def)

lemma match_instances_Ret:
  "k + n = 14 \<Longrightarrow> g_rails_supported s = Some m \<Longrightarrow> length (supportedRailsMap m) = 14 \<Longrightarrow>
     \<exists>m' ms. match_instances n (k mod 14) p rc s =
         Ret (0, if \<exists>j. k \<le> j \<and> j < 14 \<and> \<not> supportedRailsMap m ! j \<and> marks (c_text p) j then POWER_TELEMETRY_SUCCESS else rc,
              s\<lparr>sn_messages := ms, g_rails_supported := Some m'\<rparr>) \<and>
       length (supportedRailsMap m') = 14 \<and>
       (\<forall>j<14. supportedRailsMap m' ! j = (supportedRailsMap m ! j \<or> k \<le> j \<and> marks (c_text p) j))"
proof (induction n arbitrary: k m rc s)
  case 0
  then show ?case by (intro exI [of _ m] exI [of _ "sn_messages s"]) auto
next
  case (Suc n)
  have k: "k < 14" using Suc.prems(1) by simp
  let ?name = "snprintf_buf 128 (rail_path (g_counter_instances ! k))"
  have nm: "?name = rail_path (g_counter_instances ! k)" by (rule rail_path_fits [OF k])
  have r: "arr_read (supportedRailsMap m) k = Ret (supportedRailsMap m ! k)" using Suc.prems(3) k by simp
  have sk: "(k + 1) mod 14 = Suc k mod 14" by simp
  show ?case
  proof (cases "\<not> supportedRailsMap m ! k \<and> c_text p = rail_path (g_counter_instances ! k)")
    case True
    let ?t = "POWER_SEND LEVEL_DEBUG (''Found a match for counter '' @ ?name @ '', marking index '' @ show_u k @ '' as available.'') s"
    let ?m = "m\<lparr>supportedRailsMap := (supportedRailsMap m)[k := True]\<rparr>"
    obtain ms0 where t: "?t = s\<lparr>sn_messages := ms0\<rparr>" using power_send_messages by blast
    obtain m' ms where ih: "match_instances n (Suc k mod 14) p POWER_TELEMETRY_SUCCESS (?t\<lparr>g_rails_supported := Some ?m\<rparr>) =
         Ret (0, POWER_TELEMETRY_SUCCESS, (?t\<lparr>g_rails_supported := Some ?m\<rparr>)\<lparr>sn_messages := ms, g_rails_supported := Some m'\<rparr>)"
       "length (supportedRailsMap m') = 14"
       "\<forall>j<14. supportedRailsMap m' ! j = (supportedRailsMap ?m ! j \<or> Suc k \<le> j \<and> marks (c_text p) j)"
      using Suc.IH [of "Suc k" "?t\<lparr>g_rails_supported := Some ?m\<rparr>" ?m POWER_TELEMETRY_SUCCESS] Suc.prems(1,3) by auto
    have e: "\<exists>j. k \<le> j \<and> j < 14 \<and> \<not> supportedRailsMap m ! j \<and> marks (c_text p) j"
      using True k by (intro exI [of _ k]) (simp add: marks_def)
    have st: "match_instances (Suc n) (k mod 14) p rc s =
        match_instances n (Suc k mod 14) p POWER_TELEMETRY_SUCCESS (?t\<lparr>g_rails_supported := Some ?m\<rparr>)"
      using True k Suc.prems(2,3) by (simp add: Let_def nm)
    have fin: "(?t\<lparr>g_rails_supported := Some ?m\<rparr>)\<lparr>sn_messages := ms, g_rails_supported := Some m'\<rparr> =
        s\<lparr>sn_messages := ms, g_rails_supported := Some m'\<rparr>" by (simp add: t)
    have nt: "supportedRailsMap m' ! j = (supportedRailsMap m ! j \<or> k \<le> j \<and> marks (c_text p) j)" if "j < 14" for j
    proof (cases "j = k")
      case eq: True
      then show ?thesis using ih(3) True k Suc.prems(3) that by (simp add: marks_def)
    next
      case neq: False
      then have "Suc k \<le> j \<longleftrightarrow> k \<le> j" by auto
      then show ?thesis using ih(3) that neq by simp
    qed
    show ?thesis unfolding st ih(1) fin using ih(2) nt e by (intro exI [of _ m'] exI [of _ ms]) simp
  next
    case False
    obtain m' ms where ih: "match_instances n (Suc k mod 14) p rc s =
         Ret (0, if \<exists>j. Suc k \<le> j \<and> j < 14 \<and> \<not> supportedRailsMap m ! j \<and> marks (c_text p) j then POWER_TELEMETRY_SUCCESS else rc,
              s\<lparr>sn_messages := ms, g_rails_supported := Some m'\<rparr>)"
       "length (supportedRailsMap m') = 14"
       "\<forall>j<14. supportedRailsMap m' ! j = (supportedRailsMap m ! j \<or> Suc k \<le> j \<and> marks (c_text p) j)"
      using Suc.IH [of "Suc k" s m rc] Suc.prems by auto
    have st: "match_instances (Suc n) (k mod 14) p rc s = match_instances n (Suc k mod 14) p rc s"
      using False k Suc.prems(2,3) by (auto simp: Let_def nm)
    have e: "(\<exists>j. k \<le> j \<and> j < 14 \<and> \<not> supportedRailsMap m ! j \<and> marks (c_text p) j) =
        (\<exists>j. Suc k \<le> j \<and> j < 14 \<and> \<not> supportedRailsMap m ! j \<and> marks (c_text p) j)"
      using False by (metis Suc_leD le_antisym marks_def not_less_eq_eq)
    have nt: "supportedRailsMap m' ! j = (supportedRailsMap m ! j \<or> k \<le> j \<and> marks (c_text p) j)" if "j < 14" for j
      using ih(3) that False by (metis Suc_leD le_antisym marks_def not_less_eq_eq)
    show ?thesis unfolding st e using ih(1,2) nt by (intro exI [of _ m'] exI [of _ ms]) simp
  qed
qed

definition rails_found :: "RailsSupported \<Rightarrow> ePowerTelemetryReturnCode" where
  "rails_found m = (if \<exists>j<14. supportedRailsMap m ! j then POWER_TELEMETRY_SUCCESS else POWER_TELEMETRY_NOT_AVAILABLE)"

lemma match_paths_Ret:
  "machine_name mn \<Longrightarrow> (\<forall>c \<in> set cs. counter_text c) \<Longrightarrow> g_rails_supported s = Some m \<Longrightarrow> length (supportedRailsMap m) = 14 \<Longrightarrow>
     \<exists>m' ms. match_paths (counter_block mn cs) 0 (rails_found m) s =
         Ret (rails_found m', s\<lparr>sn_messages := ms, g_rails_supported := Some m'\<rparr>) \<and>
       length (supportedRailsMap m') = 14 \<and>
       (\<forall>j<14. supportedRailsMap m' ! j = (supportedRailsMap m ! j \<or> (\<exists>c \<in> set cs. marks c j)))"
proof (induction cs arbitrary: m s)
  case Nil
  then show ?case by (intro exI [of _ m] exI [of _ "sn_messages s"]) (simp add: match_paths.simps)
next
  case (Cons c cs)
  have ct: "counter_text c" using Cons.prems(2) by simp
  have c: "CHR 0x00 \<notin> set c" using ct by (simp add: counter_text_def)
  obtain tc where tc: "c = CHR 0x5C # tc" using ct by (cases c) (auto simp: counter_text_def)
  let ?rest = "counter_block mn cs" and ?p = "c @ CHR 0x00 # counter_block mn cs"
  have p: "c_text ?p = c" "c_strlen ?p = Ret (length c)" using c_text_zero [OF c] by (simp_all add: c_strlen_def)
  have chr: "c_strchr (CHR 0x5C) (mn @ ?p) = Ret (Some ?p)"
    using c_strchr_found [of mn "CHR 0x5C" "tc @ CHR 0x00 # ?rest"] Cons.prems(1) by (simp add: tc machine_name_def)
  let ?t = "POWER_SEND LEVEL_DEBUG (''Looking for match to counter: '' @ c) s"
  obtain ms0 where t: "?t = s\<lparr>sn_messages := ms0\<rparr>" using power_send_messages by blast
  obtain m1 ms1 where 1: "match_instances 14 0 ?p (rails_found m) ?t =
      Ret (0, if \<exists>j. 0 \<le> j \<and> j < 14 \<and> \<not> supportedRailsMap m ! j \<and> marks c j then POWER_TELEMETRY_SUCCESS else rails_found m,
           ?t\<lparr>sn_messages := ms1, g_rails_supported := Some m1\<rparr>)"
    "length (supportedRailsMap m1) = 14" "\<forall>j<14. supportedRailsMap m1 ! j = (supportedRailsMap m ! j \<or> 0 \<le> j \<and> marks c j)"
    using match_instances_Ret [of 0 14 ?t m ?p "rails_found m"] Cons.prems(3,4) by (auto simp: p(1))
  have f: "(if \<exists>j. 0 \<le> j \<and> j < 14 \<and> \<not> supportedRailsMap m ! j \<and> marks c j then POWER_TELEMETRY_SUCCESS else rails_found m) = rails_found m1"
    using 1(3) by (auto simp: rails_found_def)
  let ?s1 = "?t\<lparr>sn_messages := ms1, g_rails_supported := Some m1\<rparr>"
  obtain m' ms where ih: "match_paths ?rest 0 (rails_found m1) ?s1 = Ret (rails_found m', ?s1\<lparr>sn_messages := ms, g_rails_supported := Some m'\<rparr>)"
    "length (supportedRailsMap m') = 14" "\<forall>j<14. supportedRailsMap m' ! j = (supportedRailsMap m1 ! j \<or> (\<exists>c \<in> set cs. marks c j))"
    using Cons.IH [of ?s1 m1] Cons.prems(1,2) 1(2) by auto
  have d: "drop (length c + 1) ?p = ?rest" by simp
  have "match_paths (counter_block mn (c # cs)) 0 (rails_found m) s = match_paths ?rest 0 (rails_found m1) ?s1"
    using chr 1(1) p d f by (subst match_paths.simps) (simp add: machine_path_def)
  then show ?case using ih 1(3) t by (intro exI [of _ m'] exI [of _ ms]) auto
qed

text \<open>What the machine offers, as the map of the rails.\<close>

definition machine_map :: "string list \<Rightarrow> RailsSupported" where
  "machine_map cs = \<lparr>supportedRailsMap = map (\<lambda>j. \<exists>c \<in> set cs. marks c j) [0..<14]\<rparr>"

lemma machine_map_simps [simp]:
  "length (supportedRailsMap (machine_map cs)) = 14"
  "j < 14 \<Longrightarrow> supportedRailsMap (machine_map cs) ! j = (\<exists>c \<in> set cs. marks c j)"
  by (simp_all add: machine_map_def del: upt_Suc upt_rec_numeral)

definition same_query :: "('l, 'x) rails_session_scheme \<Rightarrow> ('l, 'x) rails_session_scheme \<Rightarrow> bool" where
  "same_query s s' \<longleftrightarrow> g_rails_initialized s' = g_rails_initialized s \<and> g_h_query s' = g_h_query s \<and>
     g_rail_counters_requested s' = g_rail_counters_requested s \<and>
     g_rail_counters_requested_length s' = g_rail_counters_requested_length s \<and> w_queries s' = w_queries s \<and> w_open s' = w_open s"

lemma same_query_simps [simp]:
  "same_query s s" "same_query s (POWER_SEND lv x s') = same_query s s'" "same_query (POWER_SEND lv x s) s' = same_query s s'"
  "same_query s (s'\<lparr>sn_faults := f\<rparr>) = same_query s s'" "same_query s (s'\<lparr>w_statuses := st\<rparr>) = same_query s s'"
  "same_query s (s'\<lparr>g_rails_supported := m\<rparr>) = same_query s s'"
  by (simp_all add: same_query_def)

lemma pdh_status_simps [simp]:
  "snd (pdh_status d s) = s\<lparr>w_statuses := tl (w_statuses s)\<rparr>" "w_statuses s = [] \<Longrightarrow> fst (pdh_status d s) = d"
  by (auto simp: pdh_status_def split: list.splits)

lemma find_rails_Ret:
  assumes o: "offers s cs"
  shows "\<exists>rc s'. find_rails s = Ret (rc, s') \<and> outside_rails s s' \<and> same_query s s' \<and>
     rc \<in> {POWER_TELEMETRY_SUCCESS, POWER_TELEMETRY_NOT_AVAILABLE, POWER_TELEMETRY_CALLOC_FAILED} \<and>
     (\<forall>m. g_rails_supported s' = Some m \<longrightarrow> length (supportedRailsMap m) = 14) \<and>
     (rc = POWER_TELEMETRY_SUCCESS \<longrightarrow> rails_found (machine_map cs) = rc \<and> g_rails_supported s' = Some (machine_map cs)) \<and>
     (sn_faults s = [] \<and> w_statuses s = [] \<longrightarrow> rc = rails_found (machine_map cs) \<and> sn_faults s' = [] \<and> w_statuses s' = [])"
proof -
  define s2 where "s2 = s\<lparr>sn_faults := snd (calloc_ok (sn_faults s)), g_rails_supported := Some zero_supported\<rparr>"
  define s3 where "s3 = s2\<lparr>w_statuses := tl (w_statuses s2), sn_faults := snd (calloc_ok (sn_faults s2))\<rparr>"
  define s4 where "s4 = s3\<lparr>w_statuses := tl (w_statuses s3)\<rparr>"
  note defs = s2_def s3_def s4_def
  have f: "outside_rails s s2" "outside_rails s s3" "outside_rails s s4" "same_query s s2" "same_query s s3" "same_query s s4"
    "g_rails_supported s4 = Some zero_supported" by (simp_all add: defs same_query_def)
  have z: "length (supportedRailsMap zero_supported) = 14" "\<And>j. j < 14 \<Longrightarrow> \<not> supportedRailsMap zero_supported ! j"
    "rails_found zero_supported = POWER_TELEMETRY_NOT_AVAILABLE"
    by (simp_all add: zero_supported_def rails_found_def)
  obtain mn where mn: "machine_name mn" "\<forall>c \<in> set cs. counter_text c" "w_counters s = counter_block mn cs"
    using o by (auto simp: offers_def)
  obtain m' ms where m: "match_paths (counter_block mn cs) 0 POWER_TELEMETRY_NOT_AVAILABLE s4 =
      Ret (rails_found m', s4\<lparr>sn_messages := ms, g_rails_supported := Some m'\<rparr>)"
    "length (supportedRailsMap m') = 14" "\<forall>j<14. supportedRailsMap m' ! j = (\<exists>c \<in> set cs. marks c j)"
    using match_paths_Ret [OF mn(1,2) f(7) z(1)] z(2,3) by auto
  have "m' = machine_map cs"
    by (rule RailsSupported.equality) (use m(2,3) in \<open>auto intro!: nth_equalityI\<close>)
  note m = m [unfolded this]
  let ?st1 = "fst (pdh_status PDH_MORE_DATA s2)" and ?st2 = "fst (pdh_status ERROR_SUCCESS s3)"
  let ?s5 = "s4\<lparr>sn_messages := ms, g_rails_supported := Some (machine_map cs)\<rparr>"
  have s5: "outside_rails s ?s5" "same_query s ?s5" using f(3,6) by (simp_all add: outside_rails_def same_query_def same_control_def)
  have ok: "sn_faults s = [] \<and> w_statuses s = [] \<Longrightarrow> fst (calloc_ok (sn_faults s)) \<and> fst (calloc_ok (sn_faults s2)) \<and>
      ?st1 = PDH_MORE_DATA \<and> ?st2 = ERROR_SUCCESS \<and> sn_faults ?s5 = [] \<and> w_statuses ?s5 = []"
    by (simp add: defs)
  have find: "find_rails s =
     (if \<not> fst (calloc_ok (sn_faults s))
      then Ret (POWER_TELEMETRY_CALLOC_FAILED, POWER_SEND LEVEL_ERROR ''Memory allocation failed for available metrics''
             (s\<lparr>sn_faults := snd (calloc_ok (sn_faults s)), g_rails_supported := None\<rparr>))
      else if ?st1 \<noteq> PDH_MORE_DATA
      then Ret (POWER_TELEMETRY_NOT_AVAILABLE, POWER_SEND LEVEL_ERROR (expand_failed ?st1) (s2\<lparr>w_statuses := tl (w_statuses s2)\<rparr>))
      else if \<not> fst (calloc_ok (sn_faults s2))
      then Ret (POWER_TELEMETRY_CALLOC_FAILED, POWER_SEND LEVEL_ERROR ''Memory allocation failed for available counters'' s3)
      else if ?st2 \<noteq> ERROR_SUCCESS then Ret (POWER_TELEMETRY_NOT_AVAILABLE, POWER_SEND LEVEL_ERROR (expand_failed ?st2) s4)
      else Ret (rails_found (machine_map cs), ?s5))"
    using m(1) mn(3) by (simp add: find_rails_def alloc_pair case_prod_beta Let_def defs)
  show ?thesis
  proof (cases "fst (calloc_ok (sn_faults s)) \<and> ?st1 = PDH_MORE_DATA \<and> fst (calloc_ok (sn_faults s2)) \<and> ?st2 = ERROR_SUCCESS")
    case True
    then show ?thesis unfolding find using s5 ok by (simp add: rails_found_def split: if_splits)
  next
    case False
    have g: "g_rails_supported s2 = Some zero_supported" "g_rails_supported s3 = Some zero_supported" by (simp_all add: defs)
    have nn: "(sn_faults s = [] \<and> w_statuses s = [] \<longrightarrow> P) = True" for P using ok False by auto
    consider "\<not> fst (calloc_ok (sn_faults s))" | "fst (calloc_ok (sn_faults s))" "?st1 \<noteq> PDH_MORE_DATA"
      | "fst (calloc_ok (sn_faults s))" "?st1 = PDH_MORE_DATA" "\<not> fst (calloc_ok (sn_faults s2))"
      | "fst (calloc_ok (sn_faults s))" "?st1 = PDH_MORE_DATA" "fst (calloc_ok (sn_faults s2))" "?st2 \<noteq> ERROR_SUCCESS"
      using False by blast
    then show ?thesis unfolding find by cases (use f z(1) g in \<open>simp_all add: nn\<close>)
  qed
qed

lemma get_supported_Ret:
  assumes o: "offers s cs" and l: "\<forall>m. g_rails_supported s = Some m \<longrightarrow> length (supportedRailsMap m) = 14"
  shows "\<exists>rc out s'. powerTelemetry_railsGetSupported arg persistent s = Ret (rc, out, s') \<and> outside_rails s s' \<and> same_query s s' \<and>
     (\<forall>m. g_rails_supported s' = Some m \<longrightarrow> length (supportedRailsMap m) = 14) \<and>
     (\<not> persistent \<longrightarrow> g_rails_supported s' = None) \<and> (rc \<noteq> POWER_TELEMETRY_SUCCESS \<longrightarrow> out = arg) \<and>
     (g_rails_supported s = None \<and> rc = POWER_TELEMETRY_SUCCESS \<longrightarrow> rails_found (machine_map cs) = rc \<and>
        (arg \<noteq> None \<longrightarrow> out = Some (machine_map cs)) \<and> (persistent \<longrightarrow> g_rails_supported s' = Some (machine_map cs))) \<and>
     (g_rails_supported s = None \<and> sn_faults s = [] \<and> w_statuses s = [] \<longrightarrow>
        rc = rails_found (machine_map cs) \<and> sn_faults s' = [] \<and> w_statuses s' = [])"
proof (cases "g_rails_supported s")
  case None
  obtain rc s' where f: "find_rails s = Ret (rc, s')" "outside_rails s s'" "same_query s s'"
     "\<forall>m. g_rails_supported s' = Some m \<longrightarrow> length (supportedRailsMap m) = 14"
     "rc = POWER_TELEMETRY_SUCCESS \<longrightarrow> rails_found (machine_map cs) = rc \<and> g_rails_supported s' = Some (machine_map cs)"
     "sn_faults s = [] \<and> w_statuses s = [] \<longrightarrow> rc = rails_found (machine_map cs) \<and> sn_faults s' = [] \<and> w_statuses s' = []"
    using find_rails_Ret [OF o] by blast
  then show ?thesis using None
    by (cases "rc = POWER_TELEMETRY_SUCCESS"; cases arg; cases persistent; cases "g_rails_supported s'")
       (simp_all add: powerTelemetry_railsGetSupported_def Let_def)
next
  case (Some m)
  then show ?thesis using l
    by (cases arg; cases persistent) (simp_all add: powerTelemetry_railsGetSupported_def Let_def)
qed

section \<open>Opening and closing\<close>

text \<open>
  What always holds between calls: the map has 14 entries; there are a map and counters only while the telemetry is
  initialised, each with the path of its rail, in an array that is not longer than a response; and exactly then
  one query is open, that of \<open>g_h_query\<close>.
\<close>

definition counters_ok :: "RailCounterAttributes list \<Rightarrow> nat \<Rightarrow> bool" where
  "counters_ok cs n \<longleftrightarrow> n \<le> length cs \<and> length cs \<le> 14 \<and>
     (\<forall>i<length cs. if i < n then rail_index (rc_rail (cs ! i)) < 14 \<and> rc_counter (cs ! i) = Some (rail_path (rail_instance (rc_rail (cs ! i))))
                   else cs ! i = zero_rail_counter)"

definition query_ok :: "('l, 'x) rails_session_scheme \<Rightarrow> bool" where
  "query_ok s \<longleftrightarrow> (\<forall>q. g_h_query s = Some q \<longrightarrow> q < w_queries s) \<and>
     w_open s = (if g_rails_initialized s then (case g_h_query s of Some q \<Rightarrow> [q] | None \<Rightarrow> []) else [])"

definition rails_ok :: "('l, 'x) rails_session_scheme \<Rightarrow> bool" where
  "rails_ok s \<longleftrightarrow> query_ok s \<and> (g_rails_initialized s \<longrightarrow> g_h_query s \<noteq> None) \<and> (\<not> g_rails_initialized s \<longrightarrow> g_rails_supported s = None) \<and>
     (\<forall>m. g_rails_supported s = Some m \<longrightarrow> length (supportedRailsMap m) = 14) \<and>
     (case g_rail_counters_requested s of
        None \<Rightarrow> g_rail_counters_requested_length s = 0 \<and> \<not> g_rails_initialized s
      | Some cs \<Rightarrow> g_rails_initialized s \<and> counters_ok cs (unat (g_rail_counters_requested_length s)))"

lemma rails_ok_simps [simp]:
  "rails_ok (POWER_SEND lv x s) = rails_ok s" "rails_ok (s\<lparr>g_is_thread_running := b\<rparr>) = rails_ok s" "rails_ok (s\<lparr>sn_faults := f\<rparr>) = rails_ok s"
  "rails_ok (s\<lparr>g_thread_info := i\<rparr>) = rails_ok s" "rails_ok (s\<lparr>sn_threads := ts\<rparr>) = rails_ok s" "rails_ok (s\<lparr>sn_data := ds\<rparr>) = rails_ok s"
  "rails_ok (s\<lparr>g_backend_info := bi\<rparr>) = rails_ok s" "rails_ok (s\<lparr>sn_table := k\<rparr>) = rails_ok s"
  "rails_ok (s\<lparr>g_data_callback := cb\<rparr>) = rails_ok s" "rails_ok (s\<lparr>g_message_callback := cb\<rparr>) = rails_ok s"
  "rails_ok (put_thread t st s) = rails_ok s"
  by (simp_all add: rails_ok_def query_ok_def put_thread_def cong: option.case_cong)

definition requested_rails :: "('l, 'x) rails_session_scheme \<Rightarrow> ePowerTelemetryRail list" where
  "requested_rails s = (case g_rail_counters_requested s of
     None \<Rightarrow> [] | Some cs \<Rightarrow> map rc_rail (take (unat (g_rail_counters_requested_length s)) cs))"

text \<open>In the middle of opening there may be no query yet, and \<open>g_h_query\<close> still has the handle of an earlier one.\<close>

definition query_known :: "('l, 'x) rails_session_scheme \<Rightarrow> bool" where
  "query_known s \<longleftrightarrow> (\<forall>q. g_h_query s = Some q \<longrightarrow> q < w_queries s) \<and>
     (w_open s = [] \<or> (\<exists>q. g_h_query s = Some q \<and> w_open s = [q]))"

lemma destroy_closes:
  assumes q: "query_known s" "g_rails_initialized s" and r: "g_rail_counters_requested s = None \<Longrightarrow> g_rail_counters_requested_length s = 0"
  shows "\<exists>s'. snd (powerTelemetry_railsDestroy s) = s' \<and> rails_ok s' \<and> \<not> g_rails_initialized s' \<and> w_open s' = [] \<and>
     g_rails_supported s' = None \<and> outside_rails s s' \<and> sn_faults s' = sn_faults s \<and> w_statuses s' = w_statuses s"
  using q r
  by (cases "g_h_query s"; cases "g_rail_counters_requested s")
     (auto simp: powerTelemetry_railsDestroy_def PdhCloseQuery_def Let_def rails_ok_def query_ok_def query_known_def split: if_splits)

lemma destroy_idle: "\<not> g_rails_initialized s \<Longrightarrow> powerTelemetry_railsDestroy s = (POWER_TELEMETRY_SUCCESS, s)"
  by (simp add: powerTelemetry_railsDestroy_def)

text \<open>What adding counters leaves alone.\<close>

definition adds_to :: "('l, 'x) rails_session_scheme \<Rightarrow> ('l, 'x) rails_session_scheme \<Rightarrow> bool" where
  "adds_to s s' \<longleftrightarrow> outside_rails s s' \<and> g_rails_initialized s' = g_rails_initialized s \<and> g_h_query s' = g_h_query s \<and>
     g_rails_supported s' = g_rails_supported s \<and> w_queries s' = w_queries s \<and> w_open s' = w_open s \<and> sn_faults s' = sn_faults s"

lemma adds_to_simps [simp]:
  "adds_to s s" "adds_to s (POWER_SEND lv x s') = adds_to s s'" "adds_to s (s'\<lparr>w_statuses := st\<rparr>) = adds_to s s'"
  "adds_to s (s'\<lparr>g_rail_counters_requested := c\<rparr>) = adds_to s s'" "adds_to s (s'\<lparr>g_rail_counters_requested_length := n\<rparr>) = adds_to s s'"
  by (simp_all add: adds_to_def)

lemma adds_to_trans: "adds_to s s' \<Longrightarrow> adds_to s' s'' \<Longrightarrow> adds_to s s''"
  using outside_rails_trans by (auto simp: adds_to_def)

definition counters_hold :: "nat \<Rightarrow> nat \<Rightarrow> ('l, 'x) rails_session_scheme \<Rightarrow> bool" where
  "counters_hold i n s \<longleftrightarrow> (\<exists>cs. g_rail_counters_requested s = Some cs \<and> length cs = n \<and>
     counters_ok cs (unat (g_rail_counters_requested_length s)) \<and> unat (g_rail_counters_requested_length s) \<le> i)"

lemma rail_instance_fits:
  "rail_index r < 14 \<Longrightarrow> snprintf_buf 128 (rail_path (rail_instance r)) = rail_path (rail_instance r)"
  using rail_path_fits [of "rail_index r"] by (simp add: rail_instance_def g_counter_instances_def)

lemma add_rail_Ret:
  assumes m: "g_rails_supported s = Some m" "length (supportedRailsMap m) = 14" and h: "counters_hold i n s" "i < n"
  shows "\<exists>status' s' zs. add_rail rail status s = Ret (status', s') \<and> adds_to s s' \<and> counters_hold (Suc i) n s' \<and>
     requested_rails s' = requested_rails s @ zs \<and> (zs = [] \<or> zs = [rail]) \<and> (status' = status \<or> status' = POWER_TELEMETRY_SUCCESS) \<and>
     (w_statuses s = [] \<longrightarrow> w_statuses s' = [] \<and> zs = filter (\<lambda>r. rail_index r < 14 \<and> supportedRailsMap m ! rail_index r) [rail])"
proof -
  obtain cs where cs: "g_rail_counters_requested s = Some cs" "length cs = n" "counters_ok cs (unat (g_rail_counters_requested_length s))"
    "unat (g_rail_counters_requested_length s) \<le> i"
    using h(1) by (auto simp: counters_hold_def)
  let ?k = "unat (g_rail_counters_requested_length s)"
  have k: "?k < length cs" using cs(2,4) h(2) by simp
  have k14: "length cs \<le> 14" using cs(3) by (simp add: counters_ok_def)
  have next_len: "unat (g_rail_counters_requested_length s + 1) = Suc ?k"
  proof -
    have "Suc ?k < 2 ^ 8" using k k14 by simp
    then show ?thesis by (simp add: unat_word_ariths)
  qed
  have hS: "counters_hold (Suc i) n s" using cs by (auto simp: counters_hold_def)
  consider (none) "14 \<le> rail_index rail" | (unknown) "rail_index rail < 14" "\<not> supportedRailsMap m ! rail_index rail"
    | (refused) "rail_index rail < 14" "supportedRailsMap m ! rail_index rail" "fst (pdh_status ERROR_SUCCESS s) \<noteq> ERROR_SUCCESS"
    | (added) "rail_index rail < 14" "supportedRailsMap m ! rail_index rail" "fst (pdh_status ERROR_SUCCESS s) = ERROR_SUCCESS"
    by fastforce
  then show ?thesis
  proof cases
    case added
    let ?c = "\<lparr>rc_counter = Some (rail_path (rail_instance rail)), rc_rail = rail\<rparr>"
    let ?cs = "cs[?k := ?c]"
    have ok: "counters_ok ?cs (Suc ?k)"
      using cs(3) k added(1) by (auto simp: counters_ok_def nth_list_update_if less_Suc_eq)
    have t: "map rc_rail (take (Suc ?k) ?cs) = map rc_rail (take ?k cs) @ [rail]"
      using k by (simp add: take_Suc_conv_app_nth)
    show ?thesis
      using m added k cs(1,2,4) ok t next_len rail_instance_fits [OF added(1)]
      by (simp add: add_rail_def Let_def case_prod_beta counters_hold_def requested_rails_def)
  qed (use m hS cs in \<open>auto simp: add_rail_def Let_def case_prod_beta counters_hold_def requested_rails_def\<close>)
qed

lemma add_rails_Ret:
  "g_rails_supported s = Some m \<Longrightarrow> length (supportedRailsMap m) = 14 \<Longrightarrow> counters_hold i k s \<Longrightarrow> i + n \<le> k \<Longrightarrow> i + n \<le> length rails \<Longrightarrow>
     \<exists>status' s' zs. add_rails i n rails status s = Ret (status', s') \<and> adds_to s s' \<and> counters_hold (i + n) k s' \<and>
       requested_rails s' = requested_rails s @ zs \<and> set zs \<subseteq> set (take n (drop i rails)) \<and>
       (status = POWER_TELEMETRY_SUCCESS \<longrightarrow> status' = POWER_TELEMETRY_SUCCESS) \<and>
       (w_statuses s = [] \<longrightarrow> w_statuses s' = [] \<and>
          zs = filter (\<lambda>r. rail_index r < 14 \<and> supportedRailsMap m ! rail_index r) (take n (drop i rails)))"
proof (induction n arbitrary: i status s)
  case 0
  then show ?case by (intro exI [of _ status] exI [of _ s] exI [of _ "[]"]) simp
next
  case (Suc n)
  have i: "i < length rails" "i < k" using Suc.prems(4,5) by simp_all
  obtain st1 s1 z1 where 1: "add_rail (rails ! i) status s = Ret (st1, s1)" "adds_to s s1" "counters_hold (Suc i) k s1"
     "requested_rails s1 = requested_rails s @ z1" "z1 = [] \<or> z1 = [rails ! i]" "st1 = status \<or> st1 = POWER_TELEMETRY_SUCCESS"
     "w_statuses s = [] \<longrightarrow> w_statuses s1 = [] \<and> z1 = filter (\<lambda>r. rail_index r < 14 \<and> supportedRailsMap m ! rail_index r) [rails ! i]"
    using add_rail_Ret [OF Suc.prems(1-3) i(2), of "rails ! i" status] by blast
  have m1: "g_rails_supported s1 = Some m" using 1(2) Suc.prems(1) by (simp add: adds_to_def)
  obtain st2 s2 z2 where 2: "add_rails (Suc i) n rails st1 s1 = Ret (st2, s2)" "adds_to s1 s2" "counters_hold (Suc i + n) k s2"
     "requested_rails s2 = requested_rails s1 @ z2" "set z2 \<subseteq> set (take n (drop (Suc i) rails))"
     "st1 = POWER_TELEMETRY_SUCCESS \<longrightarrow> st2 = POWER_TELEMETRY_SUCCESS"
     "w_statuses s1 = [] \<longrightarrow> w_statuses s2 = [] \<and>
        z2 = filter (\<lambda>r. rail_index r < 14 \<and> supportedRailsMap m ! rail_index r) (take n (drop (Suc i) rails))"
    using Suc.IH [OF m1 Suc.prems(2) 1(3), of st1] Suc.prems(4,5) by auto
  have t: "take (Suc n) (drop i rails) = rails ! i # take n (drop (Suc i) rails)" using i(1) by (simp add: Cons_nth_drop_Suc [symmetric])
  show ?case
  proof (intro exI conjI)
    show "add_rails i (Suc n) rails status s = Ret (st2, s2)" using 1(1) 2(1) i(1) by simp
    show "adds_to s s2" by (rule adds_to_trans [OF 1(2) 2(2)])
    show "requested_rails s2 = requested_rails s @ (z1 @ z2)" using 1(4) 2(4) by simp
    show "set (z1 @ z2) \<subseteq> set (take (Suc n) (drop i rails))" using 1(5) 2(5) unfolding t by auto
    show "w_statuses s = [] \<longrightarrow> w_statuses s2 = [] \<and>
       z1 @ z2 = filter (\<lambda>r. rail_index r < 14 \<and> supportedRailsMap m ! rail_index r) (take (Suc n) (drop i rails))"
      using 1(7) 2(7) unfolding t by simp
  qed (use 1 2 in auto)
qed

text \<open>The rails among \<open>rs\<close> that a machine offers.\<close>

definition offered :: "string list \<Rightarrow> ePowerTelemetryRail \<Rightarrow> bool" where
  "offered cs r \<longleftrightarrow> rail_index r < 14 \<and> rail_path (rail_instance r) \<in> set cs"

lemma offered_map: "(rail_index r < 14 \<and> supportedRailsMap (machine_map cs) ! rail_index r) = offered cs r"
  by (auto simp: offered_def marks_def rail_instance_def g_counter_instances_def)

lemma open_rails_Ret:
  assumes q: "query_known s" "g_rails_initialized s" "w_open s = []" and m: "g_rails_supported s = Some m" "length (supportedRailsMap m) = 14"
    and l: "g_rail_counters_requested s = None" "g_rail_counters_requested_length s = 0" and n: "unat (ri_railsLength rq) \<le> 14" "length (ri_rails rq) = 14"
  shows "\<exists>status' s'. open_rails rq POWER_TELEMETRY_SUCCESS s = Ret (status', s') \<and> outside_rails s s' \<and> query_known s' \<and> g_rails_initialized s' \<and>
     (if status' = POWER_TELEMETRY_SUCCESS
      then rails_ok s' \<and> (\<exists>cs. g_rail_counters_requested s' = Some cs \<and> length cs = unat (ri_railsLength rq)) \<and>
             set (requested_rails s') \<subseteq> set (take (unat (ri_railsLength rq)) (ri_rails rq))
      else g_rail_counters_requested s' = None \<and> g_rail_counters_requested_length s' = 0) \<and>
     (sn_faults s = [] \<and> w_statuses s = [] \<longrightarrow> status' = POWER_TELEMETRY_SUCCESS \<and> sn_faults s' = [] \<and> w_statuses s' = [] \<and>
        requested_rails s' = filter (\<lambda>r. rail_index r < 14 \<and> supportedRailsMap m ! rail_index r) (take (unat (ri_railsLength rq)) (ri_rails rq)))"
proof -
  let ?n = "unat (ri_railsLength rq)" and ?st = "fst (pdh_status ERROR_SUCCESS s)"
  let ?s0 = "s\<lparr>w_statuses := tl (w_statuses s)\<rparr>"
  have ops: "w_open s = []" by (rule q(3))
  show ?thesis
  proof (cases "?st = ERROR_SUCCESS")
    case False
    let ?e = "POWER_SEND LEVEL_ERROR (''PdhOpenQuery failed with status 0x'' @ show_x (unat ?st)) ?s0"
    have "open_rails rq POWER_TELEMETRY_SUCCESS s = Ret (POWER_TELEMETRY_OPEN_QUERY_FAILED, ?e)"
      using False by (simp add: open_rails_def PdhOpenQuery_def case_prod_beta Let_def)
    moreover have "query_known ?e" using q by (simp add: query_known_def)
    ultimately show ?thesis using False q l by (auto simp: outside_rails_def same_control_def)
  next
    case True
    let ?s1 = "?s0\<lparr>g_h_query := Some (w_queries s), w_queries := Suc (w_queries s), w_open := [w_queries s]\<rparr>"
    let ?s2 = "?s1\<lparr>sn_faults := snd (calloc_ok (sn_faults s))\<rparr>"
    have k1: "query_known ?s2" "outside_rails s ?s2" using q by (simp_all add: query_known_def)
    show ?thesis
    proof (cases "fst (calloc_ok (sn_faults s))")
      case False
      let ?e = "POWER_SEND LEVEL_ERROR ''Memory allocation failed for counter list'' ?s2"
      show ?thesis using True False q l k1
        by (auto simp: open_rails_def PdhOpenQuery_def case_prod_beta Let_def alloc_pair query_known_def)
    next
      case ok: True
      let ?s3 = "?s2\<lparr>g_rail_counters_requested := Some (replicate ?n zero_rail_counter)\<rparr>"
      have c: "counters_hold 0 ?n ?s3" using l(2) n(1) by (simp add: counters_hold_def counters_ok_def)
      have r3: "requested_rails ?s3 = []" using l(2) by (simp add: requested_rails_def)
      obtain st' s' zs where a: "add_rails 0 ?n (ri_rails rq) POWER_TELEMETRY_SUCCESS ?s3 = Ret (st', s')" "adds_to ?s3 s'" "counters_hold (0 + ?n) ?n s'"
         "requested_rails s' = requested_rails ?s3 @ zs" "set zs \<subseteq> set (take ?n (drop 0 (ri_rails rq)))" "st' = POWER_TELEMETRY_SUCCESS"
         "w_statuses ?s3 = [] \<longrightarrow> w_statuses s' = [] \<and>
            zs = filter (\<lambda>r. rail_index r < 14 \<and> supportedRailsMap m ! rail_index r) (take ?n (drop 0 (ri_rails rq)))"
        using add_rails_Ret [of ?s3 m 0 ?n ?n "ri_rails rq" POWER_TELEMETRY_SUCCESS] m c n by auto
      have o: "open_rails rq POWER_TELEMETRY_SUCCESS s = Ret (st', s')"
        using True ok a(1) ops by (simp add: open_rails_def PdhOpenQuery_def case_prod_beta Let_def alloc_pair)
      have s': "outside_rails s s'" using a(2) by (simp add: adds_to_def outside_rails_def same_control_def)
      have i: "g_rails_initialized s'" "g_h_query s' = Some (w_queries s)" "w_queries s' = Suc (w_queries s)" "w_open s' = [w_queries s]"
        "g_rails_supported s' = Some m" "sn_faults s' = snd (calloc_ok (sn_faults s))"
        using a(2) q(2) m(1) by (simp_all add: adds_to_def)
      obtain cs where cs: "g_rail_counters_requested s' = Some cs" "length cs = ?n" "counters_ok cs (unat (g_rail_counters_requested_length s'))"
        using a(3) by (auto simp: counters_hold_def)
      have q': "query_known s'" using i by (simp add: query_known_def)
      have "rails_ok s'" using i cs m(2) by (simp add: rails_ok_def query_ok_def)
      then show ?thesis using o s' i q' cs a(4-7) r3 by simp
    qed
  qed
qed

text \<open>The counters that were asked for, each in the array or refused by Windows.\<close>

definition opened_for :: "RailsInfoRequest \<Rightarrow> ('l, 'x) rails_session_scheme \<Rightarrow> bool" where
  "opened_for rq s \<longleftrightarrow> (\<exists>cs. g_rail_counters_requested s = Some cs \<and> length cs = unat (ri_railsLength rq)) \<and>
     set (requested_rails s) \<subseteq> set (take (unat (ri_railsLength rq)) (ri_rails rq))"

lemma rails_init_Ret:
  assumes ok: "rails_ok s" and o: "offers s cs" and n: "ri_railsLength rq \<noteq> 0" "unat (ri_railsLength rq) \<le> 14" "length (ri_rails rq) = 14"
  shows "\<exists>rc s'. powerTelemetry_railsInit (Some rq) s = Ret (rc, s') \<and> outside_rails s s' \<and> rails_ok s' \<and>
     (if g_rails_initialized s then rc = POWER_TELEMETRY_ALREADY_INITIALIZED \<and> quiet s s'
      else g_rails_initialized s' = (rc = POWER_TELEMETRY_SUCCESS) \<and> (rc = POWER_TELEMETRY_SUCCESS \<longrightarrow> opened_for rq s') \<and>
        (sn_faults s = [] \<and> w_statuses s = [] \<and> rails_found (machine_map cs) = POWER_TELEMETRY_SUCCESS \<longrightarrow>
           rc = POWER_TELEMETRY_SUCCESS \<and> sn_faults s' = [] \<and> w_statuses s' = [] \<and>
           requested_rails s' = filter (offered cs) (take (unat (ri_railsLength rq)) (ri_rails rq))))"
proof (cases "g_rails_initialized s")
  case True
  then show ?thesis using ok by (simp add: powerTelemetry_railsInit_def)
next
  case False
  let ?s = "s\<lparr>g_rails_initialized := True\<rparr>"
  have sup: "g_rails_supported s = None" "w_open s = []" "g_rail_counters_requested s = None" "g_rail_counters_requested_length s = 0"
    using ok False by (auto simp: rails_ok_def query_ok_def split: option.splits)
  have hq: "\<forall>q. g_h_query s = Some q \<longrightarrow> q < w_queries s" using ok by (simp add: rails_ok_def query_ok_def)
  have o': "offers ?s cs" using o by (simp add: offers_def)
  obtain rc out s1 where 1: "powerTelemetry_railsGetSupported None True ?s = Ret (rc, out, s1)" "outside_rails ?s s1" "same_query ?s s1"
     "rc = POWER_TELEMETRY_SUCCESS \<longrightarrow> g_rails_supported s1 = Some (machine_map cs)"
     "sn_faults s = [] \<and> w_statuses s = [] \<longrightarrow> rc = rails_found (machine_map cs) \<and> sn_faults s1 = [] \<and> w_statuses s1 = []"
    using get_supported_Ret [OF o', of None True] sup(1) by auto
  have q1: "g_rails_initialized s1" "w_open s1 = []" "g_rail_counters_requested s1 = None" "g_rail_counters_requested_length s1 = 0"
    "g_h_query s1 = g_h_query s" "w_queries s1 = w_queries s"
    using 1(3) sup by (simp_all add: same_query_def)
  show ?thesis
  proof (cases "rc = POWER_TELEMETRY_SUCCESS")
    case no: False
    have k1: "query_known s1" using hq q1 by (simp add: query_known_def)
    obtain s' where s': "snd (powerTelemetry_railsDestroy s1) = s'" "rails_ok s'" "\<not> g_rails_initialized s'" "outside_rails s1 s'"
      using destroy_closes [OF k1 q1(1)] q1(3,4) by blast
    have nf: "(sn_faults s = [] \<and> w_statuses s = [] \<and> rails_found (machine_map cs) = POWER_TELEMETRY_SUCCESS \<longrightarrow> P) = True" for P
      using 1(5) no by auto
    have i: "powerTelemetry_railsInit (Some rq) s = Ret (rc, s'\<lparr>g_rails_initialized := False\<rparr>)"
      using False n(1) 1(1) no s'(1) by (simp add: powerTelemetry_railsInit_def)
    have e: "s'\<lparr>g_rails_initialized := False\<rparr> = s'" using s'(3) by simp
    show ?thesis using i [unfolded e] s' no False outside_rails_trans [of s s1 s'] 1(2) by (simp add: nf)
  next
    case yes: True
    have k1: "query_known s1" and m: "g_rails_supported s1 = Some (machine_map cs)" using hq q1 yes 1(4) by (simp_all add: query_known_def)
    obtain st s2 where 2: "open_rails rq POWER_TELEMETRY_SUCCESS s1 = Ret (st, s2)" "outside_rails s1 s2" "query_known s2" "g_rails_initialized s2"
     "if st = POWER_TELEMETRY_SUCCESS
      then rails_ok s2 \<and> (\<exists>cs. g_rail_counters_requested s2 = Some cs \<and> length cs = unat (ri_railsLength rq)) \<and>
             set (requested_rails s2) \<subseteq> set (take (unat (ri_railsLength rq)) (ri_rails rq))
      else g_rail_counters_requested s2 = None \<and> g_rail_counters_requested_length s2 = 0"
     "sn_faults s1 = [] \<and> w_statuses s1 = [] \<longrightarrow> st = POWER_TELEMETRY_SUCCESS \<and> sn_faults s2 = [] \<and> w_statuses s2 = [] \<and>
        requested_rails s2 = filter (\<lambda>r. rail_index r < 14 \<and> supportedRailsMap (machine_map cs) ! rail_index r)
          (take (unat (ri_railsLength rq)) (ri_rails rq))"
      using open_rails_Ret [OF k1 q1(1,2) m _ q1(3,4) n(2,3)] by auto
    have out: "outside_rails s s2" using outside_rails_trans [of s s1 s2] 1(2) 2(2) by simp
    show ?thesis
    proof (cases "st = POWER_TELEMETRY_SUCCESS")
      case True
      then have "powerTelemetry_railsInit (Some rq) s = Ret (st, s2)"
        using False n(1) 1(1) yes 2(1) by (simp add: powerTelemetry_railsInit_def)
      then show ?thesis using True False 2 out 1(5) by (simp add: opened_for_def offered_map)
    next
      case no: False
      obtain s' where s': "snd (powerTelemetry_railsDestroy s2) = s'" "rails_ok s'" "\<not> g_rails_initialized s'" "outside_rails s2 s'"
        using destroy_closes [OF 2(3,4)] 2(5) no by auto
      have nf: "(sn_faults s = [] \<and> w_statuses s = [] \<and> rails_found (machine_map cs) = POWER_TELEMETRY_SUCCESS \<longrightarrow> P) = True" for P
        using 1(5) 2(6) no by auto
      have i: "powerTelemetry_railsInit (Some rq) s = Ret (st, s'\<lparr>g_rails_initialized := False\<rparr>)"
        using False n(1) 1(1) yes 2(1) no s'(1) by (simp add: powerTelemetry_railsInit_def)
      have e: "s'\<lparr>g_rails_initialized := False\<rparr> = s'" using s'(3) by simp
      show ?thesis using i [unfolded e] s' no False outside_rails_trans [OF out s'(4)] by (simp add: nf)
    qed
  qed
qed

section \<open>A collection\<close>

text \<open>What a response says, and the reference: every counter's answer in order, those without a value left out.\<close>

definition resp_values :: "RailsInfoResponse \<Rightarrow> (ePowerTelemetryRail \<times> double) list" where
  "resp_values r = zip (take (unat (rr_length r)) (rr_rails r)) (take (unat (rr_length r)) (rr_values r))"

definition resp_ok :: "RailsInfoResponse \<Rightarrow> bool" where
  "resp_ok r \<longleftrightarrow> length (rr_rails r) = 14 \<and> length (rr_values r) = 14 \<and> unat (rr_length r) \<le> 14"

definition counter_answer :: "rails_env \<Rightarrow> RailCounterAttributes list \<Rightarrow> RailCounterAttributes \<Rightarrow> u32 \<times> double" where
  "counter_answer env cs c =
     (let a = PdhGetFormattedCounterValue env (rc_counter c)
      in if fst a \<noteq> ERROR_SUCCESS \<and> rc_rail c = RAIL_SYS then PdhGetFormattedCounterValue env (rc_counter (cs ! 6)) else a)"

definition rail_answers :: "rails_env \<Rightarrow> RailCounterAttributes list \<Rightarrow> RailCounterAttributes list \<Rightarrow> (ePowerTelemetryRail \<times> double) list" where
  "rail_answers env cs xs =
     map (\<lambda>c. (rc_rail c, snd (counter_answer env cs c))) (filter (\<lambda>c. fst (counter_answer env cs c) = ERROR_SUCCESS) xs)"

lemma rail_answers_length: "length (rail_answers env cs xs) \<le> length xs"
  by (simp add: rail_answers_def)

lemma rail_values_Ret:
  "i + n \<le> length cs \<Longrightarrow> length cs \<le> 14 \<Longrightarrow> (\<forall>c \<in> set cs. rc_rail c = RAIL_SYS \<longrightarrow> 6 < length cs) \<Longrightarrow> resp_ok r \<Longrightarrow> unat (rr_length r) \<le> i \<Longrightarrow>
     \<exists>status' r' s'. rail_values env i n cs status r s = Ret (status', r', s') \<and> quiet s s' \<and> resp_ok r' \<and>
       resp_values r' = resp_values r @ rail_answers env cs (take n (drop i cs)) \<and>
       status' = (if rail_answers env cs (take n (drop i cs)) = [] then status else POWER_TELEMETRY_SUCCESS)"
proof (induction n arbitrary: i status r s)
  case 0
  then show ?case by (intro exI [of _ status] exI [of _ r] exI [of _ s]) (simp add: rail_answers_def)
next
  case (Suc n)
  let ?c = "cs ! i" and ?k = "unat (rr_length r)"
  have i: "i < length cs" using Suc.prems(1) by simp
  have t: "take (Suc n) (drop i cs) = ?c # take n (drop (Suc i) cs)" using i by (simp add: Cons_nth_drop_Suc [symmetric])
  have six: "rc_rail ?c = RAIL_SYS \<Longrightarrow> 6 < length cs" using Suc.prems(3) nth_mem [OF i] by blast
  let ?s1 = "POWER_SEND LEVEL_DEBUG (''Getting formatted counter value for counter='' @ rail_instance (rc_rail ?c)) s"
  let ?a = "counter_answer env cs ?c"
  let ?warn = "POWER_SEND LEVEL_WARNING (''PdhGetFormattedCounterValue failed, instance='' @ rail_instance (rc_rail ?c) @ '' status=0x'' @
                         show_x (unat (fst ?a)) @ ''. Maybe this is first call'') ?s1"
  let ?good = "POWER_SEND LEVEL_DEBUG (''Counter='' @ rail_instance (rc_rail ?c) @ '' Value='' @ show_6f (snd ?a)) ?s1"
  have k: "?k < 14" using Suc.prems(1,2,5) by simp
  let ?r = "\<lparr>rr_rails = (rr_rails r)[?k := rc_rail ?c], rr_values = (rr_values r)[?k := snd ?a], rr_length = rr_length r + 1\<rparr>"
  have u: "unat (rr_length r + 1) = Suc ?k" using k by (simp add: unat_word_ariths)
  have step: "rail_values env i (Suc n) cs status r s =
      (if fst ?a \<noteq> ERROR_SUCCESS then rail_values env (Suc i) n cs status r ?warn
       else rail_values env (Suc i) n cs POWER_TELEMETRY_SUCCESS ?r ?good)"
    using i six k Suc.prems(4) by (auto simp: Let_def case_prod_beta counter_answer_def resp_ok_def)
  show ?case
  proof (cases "fst ?a = ERROR_SUCCESS")
    case False
    obtain status' r' s' where ih: "rail_values env (Suc i) n cs status r ?warn = Ret (status', r', s')" "quiet ?warn s'" "resp_ok r'"
       "resp_values r' = resp_values r @ rail_answers env cs (take n (drop (Suc i) cs))"
       "status' = (if rail_answers env cs (take n (drop (Suc i) cs)) = [] then status else POWER_TELEMETRY_SUCCESS)"
      using Suc.IH [of "Suc i" r status ?warn] Suc.prems by auto
    have q: "quiet s s'" using ih(2) quiet_trans POWER_SEND_quiet by blast
    have "rail_answers env cs (take (Suc n) (drop i cs)) = rail_answers env cs (take n (drop (Suc i) cs))"
      unfolding t using False by (simp add: rail_answers_def)
    then show ?thesis using ih step False q by simp
  next
    case True
    have ok: "resp_ok ?r" "unat (rr_length ?r) \<le> Suc i" using Suc.prems(4,5) k u by (simp_all add: resp_ok_def)
    obtain status' r' s' where ih: "rail_values env (Suc i) n cs POWER_TELEMETRY_SUCCESS ?r ?good = Ret (status', r', s')" "quiet ?good s'" "resp_ok r'"
       "resp_values r' = resp_values ?r @ rail_answers env cs (take n (drop (Suc i) cs))"
       "status' = (if rail_answers env cs (take n (drop (Suc i) cs)) = [] then POWER_TELEMETRY_SUCCESS else POWER_TELEMETRY_SUCCESS)"
      using Suc.IH [OF _ Suc.prems(2,3) ok, of POWER_TELEMETRY_SUCCESS ?good] Suc.prems(1) by auto
    have q: "quiet s s'" using ih(2) quiet_trans POWER_SEND_quiet by blast
    have v: "resp_values ?r = resp_values r @ [(rc_rail ?c, snd ?a)]"
      using k Suc.prems(4) u by (simp add: resp_values_def resp_ok_def take_Suc_conv_app_nth)
    have "rail_answers env cs (take (Suc n) (drop i cs)) = (rc_rail ?c, snd ?a) # rail_answers env cs (take n (drop (Suc i) cs))"
      unfolding t using True by (simp add: rail_answers_def)
    then show ?thesis using ih step True q v by simp
  qed
qed

definition collected :: "rails_env \<Rightarrow> ('l, 'x) rails_session_scheme \<Rightarrow> (ePowerTelemetryRail \<times> double) list" where
  "collected env s = (case g_rail_counters_requested s of
     None \<Rightarrow> []
   | Some cs \<Rightarrow> if re_collect env \<noteq> ERROR_SUCCESS then []
                else rail_answers env cs (take (unat (g_rail_counters_requested_length s)) cs))"

text \<open>The fallback stays inside the array.\<close>

definition fallback_safe :: "('l, 'x) rails_session_scheme \<Rightarrow> bool" where
  "fallback_safe s \<longleftrightarrow> (\<forall>cs. g_rail_counters_requested s = Some cs \<longrightarrow> RAIL_SYS \<in> set (requested_rails s) \<longrightarrow> 6 < length cs)"

lemma get_info_Ret:
  assumes ok: "rails_ok s" and f: "fallback_safe s" and r: "resp_ok r"
  shows "\<exists>rc r' s'. powerTelemetry_railsGetInfo env (Some r) s = Ret (rc, Some r', s') \<and> quiet s s' \<and> resp_ok r' \<and>
     (if rc = POWER_TELEMETRY_SUCCESS then resp_values r' = collected env s else collected env s = [])"
proof (cases "g_rail_counters_requested s")
  case None
  then show ?thesis using r by (simp add: powerTelemetry_railsGetInfo_def collected_def)
next
  case (Some cs)
  let ?n = "unat (g_rail_counters_requested_length s)"
  obtain q where q: "g_rails_initialized s" "g_h_query s = Some q" "w_open s = [q]" "counters_ok cs ?n"
    using ok Some by (auto simp: rails_ok_def query_ok_def)
  show ?thesis
  proof (cases "g_rail_counters_requested_length s = 0 \<or> re_collect env \<noteq> ERROR_SUCCESS")
    case True
    then show ?thesis using Some q r
      by (auto simp: powerTelemetry_railsGetInfo_def collected_def PdhCollectQueryData_def rail_answers_def)
  next
    case False
    have n: "0 + ?n \<le> length cs" "length cs \<le> 14" using q(4) by (simp_all add: counters_ok_def)
    have sys: "\<forall>c \<in> set cs. rc_rail c = RAIL_SYS \<longrightarrow> 6 < length cs"
    proof (intro ballI impI)
      fix c assume c: "c \<in> set cs" "rc_rail c = RAIL_SYS"
      then obtain j where j: "j < length cs" "cs ! j = c" by (auto simp: in_set_conv_nth)
      then have "j < ?n" using q(4) c(2) by (auto simp: counters_ok_def zero_rail_counter_def split: if_splits)
      then have "c \<in> set (take ?n cs)" using j by (auto simp: in_set_conv_nth)
      then have "RAIL_SYS \<in> set (requested_rails s)" using c(2) Some by (force simp: requested_rails_def)
      then show "6 < length cs" using f Some by (simp add: fallback_safe_def)
    qed
    have r0: "resp_ok (r\<lparr>rr_length := 0\<rparr>)" "unat (rr_length (r\<lparr>rr_length := 0\<rparr>)) \<le> 0" "resp_values (r\<lparr>rr_length := 0\<rparr>) = []"
      using r by (simp_all add: resp_ok_def resp_values_def)
    obtain status r' s' where v: "rail_values env 0 ?n cs POWER_TELEMETRY_WARNING_INVALID_DATA (r\<lparr>rr_length := 0\<rparr>) s = Ret (status, r', s')"
       "quiet s s'" "resp_ok r'" "resp_values r' = [] @ rail_answers env cs (take ?n (drop 0 cs))"
       "status = (if rail_answers env cs (take ?n (drop 0 cs)) = [] then POWER_TELEMETRY_WARNING_INVALID_DATA else POWER_TELEMETRY_SUCCESS)"
      using rail_values_Ret [OF n sys r0(1,2), of env POWER_TELEMETRY_WARNING_INVALID_DATA s] r0(3) by auto
    then show ?thesis using False Some q
      by (simp add: powerTelemetry_railsGetInfo_def collected_def PdhCollectQueryData_def)
  qed
qed

end
