(* ===== verification/WosPowerProps.thy ===== *)
theory WosPowerProps
  imports WosPower WosPowerTelemetryProps WosCpuProps
begin

text \<open>
  Correctness of the power backend for Windows, first part: the table its initialisation registers, the rails it
  asks for, and what starting and stopping keep.
\<close>

section \<open>Frames\<close>

lemma power_more:
  "rails_session.more s' = rails_session.more s \<Longrightarrow> g_system_rail_index s' = g_system_rail_index s"
  "rails_session.more s' = rails_session.more s \<Longrightarrow> g_sources_enablement_mapping s' = g_sources_enablement_mapping s"
  "rails_session.more s' = rails_session.more s \<Longrightarrow> g_requested_metrics_length s' = g_requested_metrics_length s"
  for s s' :: power_state
  by (cases s, cases s', simp)+

lemma POWER_SEND_power [simp]:
  "g_system_rail_index (POWER_SEND lv t s) = g_system_rail_index s"
  "g_sources_enablement_mapping (POWER_SEND lv t s) = g_sources_enablement_mapping s"
  for s :: power_state
  by (rule power_more, simp)+

text \<open>The table, the callbacks and the machine.\<close>

definition power_frame :: "power_state \<Rightarrow> power_state \<Rightarrow> bool" where
  "power_frame s s' \<longleftrightarrow> g_backend_info s' = g_backend_info s \<and> sn_table s' = sn_table s \<and> g_data_callback s' = g_data_callback s \<and>
     w_counters s' = w_counters s \<and> g_system_rail_index s' = g_system_rail_index s"

lemma power_frame_simps [simp]:
  "power_frame s s" "power_frame s (POWER_SEND lv x s') = power_frame s s'" "power_frame (POWER_SEND lv x s) s' = power_frame s s'"
  "power_frame s (s'\<lparr>g_is_thread_running := b\<rparr>) = power_frame s s'" "power_frame (s\<lparr>g_is_thread_running := b\<rparr>) s' = power_frame s s'"
  "power_frame s (s'\<lparr>sn_faults := f\<rparr>) = power_frame s s'" "power_frame s (s'\<lparr>sn_threads := ts\<rparr>) = power_frame s s'"
  "power_frame s (s'\<lparr>g_thread_info := i\<rparr>) = power_frame s s'" "power_frame s (s'\<lparr>sn_data := ds\<rparr>) = power_frame s s'"
  "power_frame s (put_thread t st s') = power_frame s s'"
  "power_frame s (s'\<lparr>g_requested_metrics_length := n\<rparr>) = power_frame s s'" "power_frame (s\<lparr>g_requested_metrics_length := n\<rparr>) s' = power_frame s s'"
  "power_frame s (s'\<lparr>g_sources_enablement_mapping := c\<rparr>) = power_frame s s'"
  by (simp_all add: power_frame_def put_thread_def)

lemma power_frame_trans: "power_frame s s' \<Longrightarrow> power_frame s' s'' \<Longrightarrow> power_frame s s''"
  by (simp add: power_frame_def)

lemma outside_rails_frame: "outside_rails s s' \<Longrightarrow> power_frame s s' \<and> same_control s s' \<and> sn_data s' = sn_data s \<and>
    g_sources_enablement_mapping s' = g_sources_enablement_mapping s" for s s' :: power_state
  by (simp add: outside_rails_def power_frame_def power_more [of s' s])

lemma rails_ok_power [simp]:
  "rails_ok (s\<lparr>g_system_rail_index := r\<rparr>) = rails_ok s" "rails_ok (s\<lparr>g_requested_metrics_length := n\<rparr>) = rails_ok s"
  "rails_ok (s\<lparr>g_sources_enablement_mapping := b\<rparr>) = rails_ok s"
  for s :: power_state
  by (simp_all add: rails_ok_def query_ok_def cong: option.case_cong)

section \<open>The table of capabilities\<close>

text \<open>The rails of a machine in the order of their values, and the metrics they get.\<close>

definition machine_rails :: "string list \<Rightarrow> ePowerTelemetryRail list" where
  "machine_rails cs = filter (offered cs) power_rails"

definition metric_of :: "ePowerTelemetryRail \<Rightarrow> QcPerfMetricInfo" where
  "metric_of r = (case rail_metric r of Some mi \<Rightarrow> mi | None \<Rightarrow> zero_metric_info)"

definition power_capability :: "ePowerTelemetryRail list \<Rightarrow> QcPerfCapabilityInfo" where
  "power_capability rs = \<lparr>ci_capability_id = 0, ci_name = ''wos-power-metrics'', ci_name_len = 17,
     ci_metric_ids_list = Some (map metric_of rs @ replicate (16 - length rs) zero_metric_info), ci_metric_ids_list_len = of_nat (length rs),
     ci_streaming_rate = [200, 1000] @ replicate 30 0, ci_streaming_rate_len = 2,
     ci_sampling_rate = [100, 1000] @ replicate 30 0, ci_sampling_rate_len = 2\<rparr>"

definition system_after :: "ePowerTelemetryRail list \<Rightarrow> ePowerTelemetryRail \<Rightarrow> ePowerTelemetryRail" where
  "system_after rs x = fold (\<lambda>r y. if r = RAIL_SYS \<or> r = RAIL_SYSTEM then r else y) rs x"

lemma power_rails_simps [simp]: "length power_rails = 14" "k < 14 \<Longrightarrow> rail_index (power_rails ! k) = k"
  "set power_rails = {r. rail_index r < 14}"
proof -
  have c: "r \<in> set power_rails" if "rail_index r < 14" for r using that by (cases r) (simp_all add: power_rails_def)
  then show "set power_rails = {r. rail_index r < 14}" by (auto simp: power_rails_def)
  have i: "map rail_index power_rails = [0..<14]" by (simp add: power_rails_def upt_conv_Cons)
  show "length power_rails = 14" by (simp add: power_rails_def)
  then show "k < 14 \<Longrightarrow> rail_index (power_rails ! k) = k" using arg_cong [OF i, of "\<lambda>xs. xs ! k"] by (simp del: upt_Suc upt_rec_numeral)
qed

lemma known_metric: "rail_index r < 14 \<Longrightarrow> rail_metric r = Some (metric_of r)"
  by (cases r) (simp_all add: metric_of_def)

lemma power_fill_metrics_Ret:
  "k + n = 14 \<Longrightarrow> length rmap = 14 \<Longrightarrow> i \<le> k \<Longrightarrow> length ms = 16 \<Longrightarrow> rs = filter (\<lambda>r. rmap ! rail_index r) (drop k power_rails) \<Longrightarrow>
     power_fill_metrics rmap k n (ms, i) s =
       Ret ((take i ms @ map metric_of rs @ drop (i + length rs) ms, i + length rs),
            s\<lparr>g_system_rail_index := system_after rs (g_system_rail_index s)\<rparr>)"
proof (induction n arbitrary: k i ms rs s)
  case 0
  then show ?case by (simp add: system_after_def)
next
  case (Suc n)
  have k: "k < 14" "i < 16" "i < length ms" using Suc.prems by simp_all
  let ?r = "power_rails ! k" and ?rest = "filter (\<lambda>r. rmap ! rail_index r) (drop (Suc k) power_rails)"
  have d: "drop k power_rails = ?r # drop (Suc k) power_rails" using k by (simp add: Cons_nth_drop_Suc)
  have ri: "rail_index ?r = k" using k by simp
  show ?case
  proof (cases "rmap ! k")
    case False
    then show ?thesis using Suc.IH [of "Suc k" i ms ?rest s] Suc.prems k ri by (simp add: d)
  next
    case True
    let ?s = "if ?r = RAIL_SYS then s\<lparr>g_system_rail_index := RAIL_SYS\<rparr>
       else if ?r = RAIL_SYSTEM then s\<lparr>g_system_rail_index := RAIL_SYSTEM\<rparr> else s"
    have s: "?s\<lparr>g_system_rail_index := system_after ?rest (g_system_rail_index ?s)\<rparr> =
        s\<lparr>g_system_rail_index := system_after (?r # ?rest) (g_system_rail_index s)\<rparr>"
      by (simp add: system_after_def)
    have mi: "rail_metric ?r = Some (metric_of ?r)" by (rule known_metric) (use k in simp)
    have rs: "rs = ?r # ?rest" using Suc.prems(5) True ri by (simp add: d)
    have t: "take (i + 1) (ms[i := metric_of ?r]) = take i ms @ [metric_of ?r]" using k by (simp add: take_Suc_conv_app_nth)
    have "power_fill_metrics rmap k (Suc n) (ms, i) s = power_fill_metrics rmap (Suc k) n (ms[i := metric_of ?r], i + 1) ?s"
      using True k mi Suc.prems(2) by simp
    moreover have "power_fill_metrics rmap (Suc k) n (ms[i := metric_of ?r], i + 1) ?s =
        Ret ((take (i + 1) (ms[i := metric_of ?r]) @ map metric_of ?rest @ drop (i + 1 + length ?rest) (ms[i := metric_of ?r]),
              i + 1 + length ?rest), ?s\<lparr>g_system_rail_index := system_after ?rest (g_system_rail_index ?s)\<rparr>)"
      by (rule Suc.IH) (use Suc.prems(1-4) in simp_all)
    ultimately show ?thesis unfolding s t rs by simp
  qed
qed

lemma system_after_filter:
  "system_after [] y = y"
  "x \<noteq> RAIL_SYS \<Longrightarrow> x \<noteq> RAIL_SYSTEM \<Longrightarrow> system_after (filter p (x # xs)) y = system_after (filter p xs) y"
  "system_after (filter p (RAIL_SYS # xs)) y = system_after (filter p xs) (if p RAIL_SYS then RAIL_SYS else y)"
  "system_after (filter p (RAIL_SYSTEM # xs)) y = system_after (filter p xs) (if p RAIL_SYSTEM then RAIL_SYSTEM else y)"
  by (simp_all add: system_after_def)

lemma system_after_machine:
  "system_after (machine_rails cs) x =
     (if offered cs RAIL_SYSTEM then RAIL_SYSTEM else if offered cs RAIL_SYS then RAIL_SYS else x)"
  by (simp add: machine_rails_def power_rails_def system_after_filter del: filter.simps(2))

lemma machine_rails_set [simp]: "r \<in> set (machine_rails cs) \<longleftrightarrow> offered cs r"
  by (auto simp: machine_rails_def offered_def)

lemma machine_rails_length: "length (machine_rails cs) \<le> 14"
  using length_filter_le [of "offered cs" power_rails] by (simp add: machine_rails_def)

lemma machine_rails_map:
  "filter (\<lambda>r. supportedRailsMap (machine_map cs) ! rail_index r) (drop 0 power_rails) = machine_rails cs"
proof -
  have e: "supportedRailsMap (machine_map cs) ! rail_index r = offered cs r" if "r \<in> set power_rails" for r
    using that offered_map [of r cs] by simp
  show ?thesis unfolding machine_rails_def drop_0 by (rule filter_cong [OF refl]) (rule e)
qed

lemma machine_rails_Nil: "machine_rails cs = [] \<longleftrightarrow> (\<forall>r. \<not> offered cs r)"
  using machine_rails_set [of _ cs] by (cases "machine_rails cs") auto

lemma rails_found_machine: "rails_found (machine_map cs) = POWER_TELEMETRY_SUCCESS \<longleftrightarrow> machine_rails cs \<noteq> []"
proof -
  have "(\<exists>j<14. supportedRailsMap (machine_map cs) ! j) \<longleftrightarrow> (\<exists>r. rail_index r < 14 \<and> supportedRailsMap (machine_map cs) ! rail_index r)"
    using power_rails_simps(2) by metis
  also have "\<dots> \<longleftrightarrow> (\<exists>r. offered cs r)" by (simp only: offered_map)
  finally show ?thesis unfolding rails_found_def machine_rails_Nil by simp
qed

definition power_registered :: "string list \<Rightarrow> power_state \<Rightarrow> bool" where
  "power_registered cs s \<longleftrightarrow> bi_capabilities_list (g_backend_info s) = Some [power_capability (machine_rails cs)] \<and>
     bi_capabilities_list_length (g_backend_info s) = 1 \<and> bi_backend_id (g_backend_info s) = 3 \<and> machine_rails cs \<noteq> [] \<and>
     (offered cs RAIL_SYSTEM \<longrightarrow> g_system_rail_index s = RAIL_SYSTEM) \<and>
     (offered cs RAIL_SYS \<and> \<not> offered cs RAIL_SYSTEM \<longrightarrow> g_system_rail_index s = RAIL_SYS)"

lemma power_frame_registered: "power_frame s s' \<Longrightarrow> power_registered cs s' = power_registered cs s"
  by (simp add: power_frame_def power_registered_def)

lemma power_alloc_cases:
  "(\<exists>f. wos_power_backend_alloc s = (SUCCESS, s\<lparr>sn_faults := f, sn_table := Suc (sn_table s),
       g_backend_info := (g_backend_info s)\<lparr>bi_capabilities_list := Some [zero_capability
         \<lparr>ci_metric_ids_list := Some (replicate 16 zero_metric_info), ci_metric_ids_list_len := 16\<rparr>],
         bi_capabilities_list_length := 1\<rparr>\<rparr>) \<and> (sn_faults s = [] \<longrightarrow> f = [])) \<or>
   (\<exists>f bi k. wos_power_backend_alloc s = (CALLOC_FAILED, s\<lparr>sn_faults := f, sn_table := k, g_backend_info := bi\<rparr>) \<and> sn_faults s \<noteq> [])"
proof -
  define f1 where "f1 = calloc_ok (sn_faults s)"
  define f2 where "f2 = calloc_ok (snd f1)"
  show ?thesis
  proof (cases "fst f1 \<and> fst f2")
    case True
    then show ?thesis
      by (intro disjI1 exI [of _ "snd f2"]) (simp add: wos_power_backend_alloc_def Let_def alloc_pair f1_def f2_def)
  next
    case False
    let ?bi = "g_backend_info s"
    show ?thesis
    proof (cases "fst f1")
      case True
      then show ?thesis using False
        by (intro disjI2 exI [of _ "snd f2"] exI [of _ "?bi\<lparr>bi_capabilities_list := None, bi_capabilities_list_length := 0\<rparr>"] exI [of _ "Suc (sn_table s)"])
           (auto simp: wos_power_backend_alloc_def Let_def alloc_pair f1_def f2_def)
    next
      case no: False
      then show ?thesis
        by (intro disjI2 exI [of _ "snd f1"] exI [of _ "?bi\<lparr>bi_capabilities_list := None\<rparr>"] exI [of _ "sn_table s"])
           (auto simp: wos_power_backend_alloc_def Let_def alloc_pair f1_def)
    qed
  qed
qed

text \<open>Initialising while the telemetry is closed.\<close>

lemma power_init_total:
  assumes o: "offers s cs" and ok: "rails_ok s" "\<not> g_rails_initialized s"
  shows "\<exists>rc s'. wos_power_backend_init s = Ret (rc, s') \<and> same_control s s' \<and> rails_ok s' \<and> \<not> g_rails_initialized s' \<and> offers s' cs \<and>
     g_data_callback s' = g_data_callback s \<and>
     (rc = SUCCESS \<and> power_registered cs s' \<or> rc = CALLOC_FAILED \<and> no_table s' \<or>
      rc = FAILED \<and> bi_capabilities_list (g_backend_info s') \<noteq> None) \<and>
     (sn_faults s = [] \<and> w_statuses s = [] \<longrightarrow> rc = (if machine_rails cs = [] then FAILED else SUCCESS) \<and> sn_faults s' = [] \<and> w_statuses s' = [])"
proof -
  let ?b = "(g_backend_info s)\<lparr>bi_backend_id := 3\<rparr>"
  let ?s = "s\<lparr>g_backend_info := ?b\<rparr>"
  have sup: "g_rails_supported s = None" using ok by (simp add: rails_ok_def)
  have st: "s\<lparr>g_backend_info := (g_backend_info s)\<lparr>bi_backend_id := of_nat (backend_index BACKEND_POWER)\<rparr>\<rparr> = ?s" by simp
  show ?thesis
    using power_alloc_cases [of ?s]
  proof (elim disjE exE conjE)
    fix f bi k
    assume a: "wos_power_backend_alloc ?s = (CALLOC_FAILED, ?s\<lparr>sn_faults := f, sn_table := k, g_backend_info := bi\<rparr>)" "sn_faults ?s \<noteq> []"
    have "same_query s (POWER_SEND lv x (?s\<lparr>sn_faults := f, sn_table := k, g_backend_info := bi'\<rparr>))" for lv x bi'
      by (simp add: same_query_def)
    then show ?thesis using a ok o
      by (simp add: wos_power_backend_init_def wos_power_backend_free_memory_def no_table_def same_control_def offers_def)
  next
    fix f
    let ?ca = "zero_capability\<lparr>ci_metric_ids_list := Some (replicate 16 zero_metric_info), ci_metric_ids_list_len := 16\<rparr>"
    let ?c1 = "set_power_rates ?ca"
    let ?sa = "?s\<lparr>sn_faults := f, sn_table := Suc (sn_table ?s),
       g_backend_info := (g_backend_info ?s)\<lparr>bi_capabilities_list := Some [?ca], bi_capabilities_list_length := 1\<rparr>\<rparr>"
    assume a: "wos_power_backend_alloc ?s = (SUCCESS, ?sa)" "sn_faults ?s = [] \<longrightarrow> f = []"
    let ?s1 = "put_capability ?c1 ?sa"
    have s1: "offers ?s1 cs" "g_rails_supported ?s1 = None" "same_control s ?s1" "g_data_callback ?s1 = g_data_callback s"
      "bi_capabilities_list (g_backend_info ?s1) = Some [?c1]" "bi_capabilities_list_length (g_backend_info ?s1) = 1"
      "bi_backend_id (g_backend_info ?s1) = 3" "rails_ok ?s1" "\<not> g_rails_initialized ?s1" "sn_faults ?s1 = f" "w_statuses ?s1 = w_statuses s"
      using o ok sup by (simp_all add: put_capability_def offers_def same_control_def)
    obtain prc out s2 where g: "powerTelemetry_railsGetSupported (Some zero_supported) False ?s1 = Ret (prc, out, s2)"
      "outside_rails ?s1 s2" "same_query ?s1 s2" "g_rails_supported s2 = None"
      "prc = POWER_TELEMETRY_SUCCESS \<longrightarrow> rails_found (machine_map cs) = prc \<and> out = Some (machine_map cs)"
      "f = [] \<and> w_statuses s = [] \<longrightarrow> prc = rails_found (machine_map cs) \<and> sn_faults s2 = [] \<and> w_statuses s2 = []"
      using get_supported_Ret [OF s1(1), of "Some zero_supported" False] s1(2,10,11) by auto
    have s2: "rails_ok s2" "\<not> g_rails_initialized s2" "same_control s s2" "offers s2 cs" "g_data_callback s2 = g_data_callback s"
      "g_backend_info s2 = g_backend_info ?s1"
      using g(2-4) s1 same_control_trans [OF s1(3), of s2] offers_outside [OF g(2), of cs]
      by (auto simp: rails_ok_def query_ok_def same_query_def outside_rails_def split: option.splits)
    have i: "wos_power_backend_init s = (if prc \<noteq> POWER_TELEMETRY_SUCCESS
         then Ret (FAILED, POWER_SEND LEVEL_ERROR
                (''powerTelemetry_railsGetSupported returned error='' @ show_u (power_telemetry_code prc)) s2)
         else case out of None \<Rightarrow> Stuck BadDeref | Some rails \<Rightarrow> power_register rails ?c1 s2)"
      unfolding wos_power_backend_init_def st a(1) using g(1) by (simp add: Let_def)
    show ?thesis
    proof (cases "prc = POWER_TELEMETRY_SUCCESS")
      case False
      then have n: "f = [] \<and> w_statuses s = [] \<Longrightarrow> machine_rails cs = []" using g(6) rails_found_machine [of cs] by auto
      show ?thesis unfolding i using False s2 s1(5) a(2) n g(6) by (auto simp: offers_def)
    next
      case True
      have fnd: "machine_rails cs \<noteq> []" using g(5) True rails_found_machine [of cs] by simp
      let ?rs = "machine_rails cs"
      have ms: "ci_metric_ids_list (?c1\<lparr>ci_capability_id := 0, ci_name := n, ci_name_len := k\<rparr>) = Some (replicate 16 zero_metric_info)" for n k
        by (simp add: set_power_rates_def)
      let ?s3 = "s2\<lparr>g_system_rail_index := system_after ?rs (g_system_rail_index s2)\<rparr>"
      have fill: "power_fill_metrics (supportedRailsMap (machine_map cs)) 0 14 (replicate 16 zero_metric_info, 0) s2 =
          Ret ((take 0 (replicate 16 zero_metric_info) @ map metric_of ?rs @ drop (0 + length ?rs) (replicate 16 zero_metric_info), 0 + length ?rs), ?s3)"
        by (rule power_fill_metrics_Ret) (simp_all only: machine_map_simps machine_rails_map length_replicate add_0 le_refl)
      let ?l = "map metric_of ?rs @ replicate (16 - length ?rs) zero_metric_info"
      let ?c2 = "?c1\<lparr>ci_capability_id := 0, ci_name := ''wos-power-metrics'', ci_name_len := 17, ci_metric_ids_list := Some ?l,
         ci_metric_ids_list_len := of_nat (length ?rs)\<rparr>"
      have c2: "?c2 = power_capability ?rs"
        by (simp add: power_capability_def set_power_rates_def zero_capability_def numeral_nat)
      have reg: "power_register (machine_map cs) ?c1 s2 = Ret (SUCCESS, put_capability (power_capability ?rs) ?s3)"
        unfolding power_register_def Let_def ms using fill c2 by (simp add: cstd_simps)
      have bl: "bi_capabilities_list (g_backend_info s2) = Some [?c1]" "bi_capabilities_list_length (g_backend_info s2) = 1"
        "bi_backend_id (g_backend_info s2) = 3" using s1(5-7) s2(6) by simp_all
      have pr: "power_registered cs (put_capability (power_capability ?rs) ?s3)"
        using bl fnd by (simp add: power_registered_def put_capability_def system_after_machine)
      have "wos_power_backend_init s = Ret (SUCCESS, put_capability (power_capability ?rs) ?s3)"
        unfolding i using True g(5) reg by simp
      then show ?thesis using pr s2 a(2) g(6) fnd
        by (auto simp: put_capability_def same_control_def offers_def)
    qed
  qed
qed

section \<open>The rails that are asked for\<close>

definition asked :: "ePowerTelemetryRail \<Rightarrow> ePowerTelemetryRail \<Rightarrow> ePowerTelemetryRail" where
  "asked system r = (if r = RAIL_SYS \<or> r = RAIL_SYSTEM then system else r)"

lemma metric_rail_of: "rail_index r < 14 \<Longrightarrow> metric_rail x (mi_metric_id (metric_of r)) = Some (asked x r)"
  by (cases r) (simp_all add: metric_rail_def metric_of_def power_metric_def wos_metric_def asked_def)

lemma power_request_rails_Ret:
  "i + n = length rs \<Longrightarrow> length rs \<le> 14 \<Longrightarrow> (\<forall>r \<in> set rs. rail_index r < 14) \<Longrightarrow> length (ri_rails rq) = 14 \<Longrightarrow> ri_railsLength rq = of_nat i \<Longrightarrow>
     power_request_rails i n (power_capability rs) rq s =
       Ret (rq\<lparr>ri_rails := take i (ri_rails rq) @ map (asked (g_system_rail_index s)) (drop i rs) @ drop (length rs) (ri_rails rq),
               ri_railsLength := of_nat (length rs)\<rparr>, s)"
proof (induction n arbitrary: i rq)
  case 0
  then show ?case by (cases rq) simp
next
  case (Suc n)
  let ?x = "g_system_rail_index s"
  let ?rq = "rq\<lparr>ri_rails := (ri_rails rq)[i := asked ?x (rs ! i)], ri_railsLength := ri_railsLength rq + 1\<rparr>"
  have i: "i < length rs" "i < 14" "rail_index (rs ! i) < 14" using Suc.prems(1-3) by (auto simp: nth_mem)
  have m: "arr_read (map metric_of rs @ replicate (16 - length rs) zero_metric_info) i = Ret (metric_of (rs ! i))"
    using i by (simp add: nth_append)
  have "power_request_rails i (Suc n) (power_capability rs) rq s = power_request_rails (Suc i) n (power_capability rs) ?rq s"
    using m i metric_rail_of [OF i(3), of ?x] Suc.prems(4) by (simp add: power_capability_def)
  also have "\<dots> = Ret (?rq\<lparr>ri_rails := take (Suc i) (ri_rails ?rq) @ map (asked ?x) (drop (Suc i) rs) @ drop (length rs) (ri_rails ?rq),
               ri_railsLength := of_nat (length rs)\<rparr>, s)"
    by (rule Suc.IH) (use Suc.prems in simp_all)
  also have "take (Suc i) (ri_rails ?rq) = take i (ri_rails rq) @ [asked ?x (rs ! i)]"
    using i Suc.prems(4) by (simp add: take_Suc_conv_app_nth)
  also have "drop (length rs) (ri_rails ?rq) = drop (length rs) (ri_rails rq)" using i by simp
  finally show ?case using i by (simp add: Cons_nth_drop_Suc [symmetric])
qed

definition power_request :: "string list \<Rightarrow> power_state \<Rightarrow> RailsInfoRequest" where
  "power_request cs s = zero_rails_request\<lparr>
     ri_rails := map (asked (g_system_rail_index s)) (machine_rails cs) @ replicate (14 - length (machine_rails cs)) RAIL_CPU_CLUSTER_0,
     ri_railsLength := of_nat (length (machine_rails cs))\<rparr>"

lemma machine_rails_known: "\<forall>r \<in> set (machine_rails cs). rail_index r < 14"
  by (simp add: offered_def)

lemma machine_length_word: "unat (of_nat (length (machine_rails cs)) :: u8) = length (machine_rails cs)"
  using machine_rails_length [of cs] by (intro unat_of_nat_u8) simp

lemma power_request_built:
  "power_request_rails 0 (unat (ci_metric_ids_list_len (power_capability (machine_rails cs)))) (power_capability (machine_rails cs))
     zero_rails_request s = Ret (power_request cs s, s)"
proof -
  have l: "unat (ci_metric_ids_list_len (power_capability (machine_rails cs))) = length (machine_rails cs)"
    using machine_length_word by (simp add: power_capability_def)
  show ?thesis unfolding l
    by (subst power_request_rails_Ret [where i = 0, OF _ machine_rails_length machine_rails_known])
       (simp_all add: zero_rails_request_def power_request_def)
qed

lemma power_request_facts:
  "unat (ri_railsLength (power_request cs s)) = length (machine_rails cs)" "length (ri_rails (power_request cs s)) = 14"
  "take (length (machine_rails cs)) (ri_rails (power_request cs s)) = map (asked (g_system_rail_index s)) (machine_rails cs)"
  using machine_length_word [of cs] machine_rails_length [of cs] by (simp_all add: power_request_def)

lemma asked_offered:
  assumes "power_registered cs s" "offered cs r"
  shows "offered cs (asked (g_system_rail_index s) r)" "asked (g_system_rail_index s) r = RAIL_SYS \<Longrightarrow> \<not> offered cs RAIL_SYSTEM"
  using assms by (auto simp: power_registered_def asked_def split: if_splits)

section \<open>Starting\<close>

text \<open>Initialised on a machine with the power counters \<open>cs\<close>; an array of counters has a place for every metric.\<close>

definition power_ready_on :: "string list \<Rightarrow> power_state \<Rightarrow> bool" where
  "power_ready_on cs s \<longleftrightarrow> offers s cs \<and> power_registered cs s \<and> rails_ok s \<and>
     (\<forall>ca. g_rail_counters_requested s = Some ca \<longrightarrow> length ca = length (machine_rails cs)) \<and>
     (RAIL_SYS \<in> set (requested_rails s) \<longrightarrow> offered cs RAIL_SYS \<and> \<not> offered cs RAIL_SYSTEM)"

text \<open>A machine on which the fallback for \<open>SYS\<close> is harmless.\<close>

definition fallback_machine :: "string list \<Rightarrow> bool" where
  "fallback_machine cs \<longleftrightarrow> offered cs RAIL_SYS \<and> \<not> offered cs RAIL_SYSTEM \<longrightarrow> 7 \<le> length (machine_rails cs)"

lemma ready_fallback: "power_ready_on cs s \<Longrightarrow> fallback_machine cs \<Longrightarrow> fallback_safe s"
  by (auto simp: power_ready_on_def fallback_machine_def fallback_safe_def)

lemma requested_cong:
  "g_rail_counters_requested s' = g_rail_counters_requested s \<Longrightarrow> g_rail_counters_requested_length s' = g_rail_counters_requested_length s \<Longrightarrow>
     requested_rails s' = requested_rails s"
  by (simp add: requested_rails_def cong: option.case_cong)

lemma power_ready_simps [simp]:
  "power_ready_on cs (POWER_SEND lv x s) = power_ready_on cs s" "power_ready_on cs (s\<lparr>g_is_thread_running := b\<rparr>) = power_ready_on cs s"
  "power_ready_on cs (s\<lparr>sn_faults := f\<rparr>) = power_ready_on cs s" "power_ready_on cs (s\<lparr>g_thread_info := i\<rparr>) = power_ready_on cs s"
  "power_ready_on cs (s\<lparr>sn_threads := ts\<rparr>) = power_ready_on cs s" "power_ready_on cs (s\<lparr>sn_data := ds\<rparr>) = power_ready_on cs s"
  "power_ready_on cs (s\<lparr>g_data_callback := cb\<rparr>) = power_ready_on cs s" "power_ready_on cs (put_thread t st s) = power_ready_on cs s"
  "power_ready_on cs (s\<lparr>g_requested_metrics_length := n\<rparr>) = power_ready_on cs s"
  "power_ready_on cs (s\<lparr>g_sources_enablement_mapping := c\<rparr>) = power_ready_on cs s"
  by (simp_all add: power_ready_on_def power_registered_def offers_def requested_rails_def put_thread_def cong: option.case_cong)

lemma quiet_ready:
  assumes "quiet s s'"
  shows "power_ready_on cs s' = power_ready_on cs s" "rails_ok s' = rails_ok s" "collected env s' = collected env s"
    "fallback_safe s' = fallback_safe s"
proof -
  obtain ms where s': "s' = s\<lparr>sn_messages := ms\<rparr>" using assms by (auto simp: quiet_def)
  show "rails_ok s' = rails_ok s" by (simp add: s' rails_ok_def query_ok_def cong: option.case_cong)
  then show "power_ready_on cs s' = power_ready_on cs s"
    by (simp add: s' power_ready_on_def power_registered_def offers_def requested_rails_def cong: option.case_cong)
  show "collected env s' = collected env s" by (simp add: s' collected_def split: option.split)
  show "fallback_safe s' = fallback_safe s" by (simp add: s' fallback_safe_def requested_rails_def cong: option.case_cong)
qed

text \<open>The part of \<open>start\<close> after its guards.\<close>

lemma power_open_Ret:
  assumes r: "power_ready_on cs s"
  shows "\<exists>rc s'. power_open_rails (power_request cs s) s = Ret (rc, s') \<and> power_ready_on cs s' \<and> power_frame s s' \<and> same_control s s' \<and>
     sn_data s' = sn_data s \<and> (rc = SUCCESS \<or> rc = FAILED) \<and> (g_rails_initialized s \<longrightarrow> rc = FAILED \<and> g_rails_initialized s') \<and>
     (rc = SUCCESS \<longrightarrow> g_rails_initialized s' \<and> g_sources_enablement_mapping s') \<and>
     (\<not> g_rails_initialized s \<and> sn_faults s = [] \<and> w_statuses s = [] \<longrightarrow> rc = SUCCESS \<and> sn_faults s' = [] \<and> w_statuses s' = [] \<and>
        requested_rails s' = map (asked (g_system_rail_index s)) (machine_rails cs))"
proof -
  let ?rq = "power_request cs s" and ?n = "length (machine_rails cs)" and ?as = "map (asked (g_system_rail_index s)) (machine_rails cs)"
  have k: "offers s cs" "power_registered cs s" "rails_ok s" using r by (simp_all add: power_ready_on_def)
  have ne: "machine_rails cs \<noteq> []" using k(2) by (simp add: power_registered_def)
  have n0: "ri_railsLength ?rq \<noteq> 0" using power_request_facts(1) [of cs s] ne by (metis length_0_conv unsigned_0)
  have n14: "unat (ri_railsLength ?rq) \<le> 14" using machine_rails_length [of cs] by (simp add: power_request_facts)
  have as: "set ?as \<subseteq> {r. offered cs r \<and> (r = RAIL_SYS \<longrightarrow> \<not> offered cs RAIL_SYSTEM)}" using asked_offered [OF k(2)] by auto
  then have flt: "filter (offered cs) ?as = ?as" by (intro filter_True) auto
  obtain prc s1 where i: "powerTelemetry_railsInit (Some ?rq) s = Ret (prc, s1)" "outside_rails s s1" "rails_ok s1"
     "if g_rails_initialized s then prc = POWER_TELEMETRY_ALREADY_INITIALIZED \<and> quiet s s1
      else g_rails_initialized s1 = (prc = POWER_TELEMETRY_SUCCESS) \<and> (prc = POWER_TELEMETRY_SUCCESS \<longrightarrow> opened_for ?rq s1) \<and>
        (sn_faults s = [] \<and> w_statuses s = [] \<and> rails_found (machine_map cs) = POWER_TELEMETRY_SUCCESS \<longrightarrow>
           prc = POWER_TELEMETRY_SUCCESS \<and> sn_faults s1 = [] \<and> w_statuses s1 = [] \<and>
           requested_rails s1 = filter (offered cs) (take (unat (ri_railsLength ?rq)) (ri_rails ?rq)))"
    using rails_init_Ret [OF k(3,1) n0 n14 power_request_facts(2)] by blast
  note f = outside_rails_frame [OF i(2)]
  have k1: "offers s1 cs" "power_registered cs s1" using offers_outside [OF i(2)] k(1,2) power_frame_registered [of s s1] f by simp_all
  have rdy: "power_ready_on cs s1"
  proof (cases "g_rails_initialized s")
    case True
    then show ?thesis using i(4) quiet_ready(1) r by auto
  next
    case False
    show ?thesis
    proof (cases "prc = POWER_TELEMETRY_SUCCESS")
      case True
      then have o: "opened_for ?rq s1" using i(4) False by simp
      then have "set (requested_rails s1) \<subseteq> set ?as" by (simp add: opened_for_def power_request_facts)
      then show ?thesis using o k1 i(3) as by (auto simp: power_ready_on_def opened_for_def power_request_facts)
    next
      case no: False
      then have "\<not> g_rails_initialized s1" using i(4) False by simp
      then have "g_rail_counters_requested s1 = None" using i(3) by (auto simp: rails_ok_def split: option.splits)
      then show ?thesis using k1 i(3) by (simp add: power_ready_on_def requested_rails_def)
    qed
  qed
  have ini: "prc = POWER_TELEMETRY_SUCCESS \<Longrightarrow> g_rails_initialized s1 \<and> \<not> g_rails_initialized s" using i(4) by (auto split: if_splits)
  have ini': "g_rails_initialized s \<Longrightarrow> prc \<noteq> POWER_TELEMETRY_SUCCESS \<and> g_rails_initialized s1"
    using i(4) by (auto dest: quiet_rails)
  have fine: "\<not> g_rails_initialized s \<and> sn_faults s = [] \<and> w_statuses s = [] \<Longrightarrow> prc = POWER_TELEMETRY_SUCCESS \<and> sn_faults s1 = [] \<and>
      w_statuses s1 = [] \<and> requested_rails s1 = ?as"
    using i(4) ne rails_found_machine [of cs] flt by (simp add: power_request_facts)
  show ?thesis
  proof (cases "prc = POWER_TELEMETRY_SUCCESS")
    case True
    let ?e = "s1\<lparr>g_requested_metrics_length := g_requested_metrics_length s1 + ri_railsLength ?rq, g_sources_enablement_mapping := True\<rparr>"
    have "power_open_rails ?rq s = Ret (SUCCESS, ?e)" using i(1) n0 True by (simp add: power_open_rails_def)
    moreover have "requested_rails ?e = requested_rails s1" by (rule requested_cong) simp_all
    ultimately show ?thesis using rdy f True ini fine by (simp add: same_control_def)
  next
    case False
    let ?e = "POWER_SEND LEVEL_ERROR
               (''powerTelemetry_init failed with ePowerTelemetryReturnCode='' @ show_u (power_telemetry_code prc)) s1"
    have "power_open_rails ?rq s = Ret (FAILED, ?e)" using i(1) n0 False by (simp add: power_open_rails_def)
    then show ?thesis using rdy f False ini' fine by auto
  qed
qed

lemma power_start_total:
  assumes r: "power_ready_on cs s" and f: "flagged good s"
  shows "\<exists>rc s'. wos_power_backend_start q s = Ret (rc, s') \<and> power_ready_on cs s' \<and> power_frame s s' \<and> sn_data s' = sn_data s \<and>
     (if rc = SUCCESS
      then \<exists>rq. q = Some rq \<and> \<not> g_is_thread_running s \<and> g_is_thread_running s' \<and>
             th_handle (g_thread_info s') = Thread (length (sn_threads s)) \<and> sn_threads s' = sn_threads s @ [Spawned q] \<and>
             g_rails_initialized s' \<and> g_sources_enablement_mapping s'
      else same_control s s') \<and>
     (q \<noteq> None \<and> g_data_callback s \<noteq> None \<and> \<not> g_is_thread_running s \<and> \<not> g_rails_initialized s \<and> sn_faults s = [] \<and> w_statuses s = [] \<longrightarrow>
        rc = SUCCESS \<and> sn_faults s' = [] \<and> w_statuses s' = [] \<and> requested_rails s' = map (asked (g_system_rail_index s)) (machine_rails cs))"
proof (cases "q = None \<or> g_data_callback s = None \<or> g_is_thread_running s")
  case True
  then show ?thesis using r by (auto simp: wos_power_backend_start_def split: option.splits)
next
  case False
  then obtain rq cb where rq: "q = Some rq" and cb: "g_data_callback s = Some cb" by auto
  have idle: "th_handle (g_thread_info s) = NoThread" using f False by (auto simp: flagged_def split: thread_handle.splits)
  let ?s = "s\<lparr>g_is_thread_running := True, g_requested_metrics_length := 0\<rparr>"
  let ?s1 = "?s\<lparr>sn_faults := snd (calloc_ok (sn_faults s))\<rparr>"
  have st: "wos_power_backend_start q s = obind (power_begin rq ?s) (\<lambda>(rc, s1).
      Ret (rc, if rc \<noteq> SUCCESS \<and> g_is_thread_running s1 then s1\<lparr>g_is_thread_running := False\<rparr> else s1))"
    using False rq cb by (simp add: wos_power_backend_start_def)
  show ?thesis
  proof (cases "fst (calloc_ok (sn_faults s))")
    case nomem: False
    then have "sn_faults s \<noteq> []" by auto
    moreover have "power_begin rq ?s = Ret (CALLOC_FAILED, POWER_SEND LEVEL_ERROR ''Memory allocation failed'' ?s1)"
      using nomem by (simp add: power_begin_def alloc_pair)
    ultimately show ?thesis unfolding st using r False by (simp add: same_control_def)
  next
    case True
    have r1: "power_ready_on cs ?s1" using r by simp
    have d: "bi_capabilities_list (g_backend_info s) = Some [power_capability (machine_rails cs)]"
      using r by (simp add: power_ready_on_def power_registered_def)
    obtain rc s2 where o: "power_open_rails (power_request cs ?s1) ?s1 = Ret (rc, s2)" "power_ready_on cs s2" "power_frame ?s1 s2"
       "same_control ?s1 s2" "sn_data s2 = sn_data ?s1" "rc = SUCCESS \<or> rc = FAILED"
       "rc = SUCCESS \<longrightarrow> g_rails_initialized s2 \<and> g_sources_enablement_mapping s2"
       "\<not> g_rails_initialized ?s1 \<and> sn_faults ?s1 = [] \<and> w_statuses ?s1 = [] \<longrightarrow> rc = SUCCESS \<and> sn_faults s2 = [] \<and> w_statuses s2 = [] \<and>
          requested_rails s2 = map (asked (g_system_rail_index ?s1)) (machine_rails cs)"
      using power_open_Ret [OF r1] by blast
    have b: "power_begin rq ?s = (if rc \<noteq> SUCCESS then Ret (rc, s2) else Ret (power_spawn rq s2))"
      using True d o(1) by (simp add: power_begin_def alloc_pair Let_def power_request_built)
    have c: "g_is_thread_running s2" "g_thread_info s2 = g_thread_info s" "sn_threads s2 = sn_threads s"
      using o(4) by (simp_all add: same_control_def)
    have fr: "power_frame s s2" using o(3) by (simp add: power_frame_def)
    have info: "(g_thread_info s)\<lparr>th_handle := NoThread\<rparr> = g_thread_info s" using idle by simp
    consider (closed) "rc \<noteq> SUCCESS" | (spawning) "rc = SUCCESS" "\<not> fst (calloc_ok (sn_faults s2))" | (started) "rc = SUCCESS" "fst (calloc_ok (sn_faults s2))"
      by blast
    then show ?thesis
    proof cases
      case closed
      then show ?thesis unfolding st b using o fr c False by (auto simp: same_control_def)
    next
      case spawning
      then have "sn_faults s2 \<noteq> []" by auto
      then show ?thesis unfolding st b using spawning o fr c False info
        by (auto simp: power_spawn_def windows_spawn_eq same_control_def)
    next
      case started
      have "requested_rails (s2\<lparr>g_thread_info := i, sn_faults := ff, sn_threads := ts\<rparr>) = requested_rails s2" for i ff ts
        by (rule requested_cong) simp_all
      then show ?thesis unfolding st b using started o fr c False rq
        by (simp add: power_spawn_def windows_spawn_eq power_thread_attrs_def)
    qed
  qed
qed

section \<open>Entering the loop\<close>

definition power_batch :: "QcPerfRequest \<Rightarrow> nat" where
  "power_batch rq = (if rq_sampling_rate rq = 0 \<or> rq_sampling_rate rq > rq_streaming_rate rq then 1
     else unat (rq_streaming_rate rq) div unat (rq_sampling_rate rq))"

lemma power_batch_bounds: "1 \<le> power_batch rq" "power_batch rq < 65536"
proof -
  have "unat (rq_streaming_rate rq) < 65536" using unsigned_less [where 'a = nat, of "rq_streaming_rate rq"] by simp
  then have lt: "unat (rq_streaming_rate rq) div k < 65536" for k by (rule le_less_trans [OF div_le_dividend])
  show "power_batch rq < 65536" using lt by (simp add: power_batch_def)
  show "1 \<le> power_batch rq"
    by (auto simp: power_batch_def not_less word_le_nat_alt Suc_le_eq div_greater_zero_iff unat_gt_0 word_neq_0_conv)
qed

lemma power_adjusted_count: "unat (snd (power_adjusted rq)) = power_batch rq"
proof -
  have up: "unat (ucast x :: u32) = unat x" for x :: u16
    using unsigned_less [where 'a = nat, of x] by (simp add: unsigned_ucast_eq take_bit_nat_eq_self)
  show ?thesis by (simp add: power_adjusted_def power_batch_def unat_div up)
qed

lemma power_prime_Ret:
  assumes "power_ready_on cs s" "fallback_machine cs"
  shows "\<exists>r s'. power_prime env zero_rails_response s = Ret (r, s') \<and> quiet s s' \<and> resp_ok r"
proof -
  have z: "resp_ok zero_rails_response" by (simp add: resp_ok_def zero_rails_response_def)
  have "rails_ok s" using assms(1) by (simp add: power_ready_on_def)
  from get_info_Ret [OF this ready_fallback [OF assms] z, of "pe_rails env"] show ?thesis
    using z by (auto simp: power_prime_def)
qed

lemma power_capability_count:
  "unat ((ucast (ci_metric_ids_list_len (power_capability (machine_rails cs)))) :: u32) = length (machine_rails cs)"
  using machine_rails_length [of cs]
  by (simp add: power_capability_def unsigned_ucast_eq unsigned_of_nat take_bit_nat_eq_self)

text \<open>What an enclosing state is up to messages and the script of allocations.\<close>

definition calm :: "power_state \<Rightarrow> power_state \<Rightarrow> bool" where
  "calm s s' \<longleftrightarrow> s'\<lparr>sn_faults := [], sn_messages := []\<rparr> = s\<lparr>sn_faults := [], sn_messages := []\<rparr>"

lemma calm_simps [simp]: "calm s s" "calm s (s'\<lparr>sn_faults := f\<rparr>) = calm s s'" "calm s (s'\<lparr>sn_messages := ms\<rparr>) = calm s s'"
  by (simp_all add: calm_def)

lemma calm_quiet: "calm s s' \<Longrightarrow> quiet s' s'' \<Longrightarrow> calm s s''"
  by (auto simp: quiet_def)

lemma calm_eq: "calm s s' \<Longrightarrow> s' = s\<lparr>sn_faults := sn_faults s', sn_messages := sn_messages s'\<rparr>"
proof -
  assume "calm s s'"
  then have "(s'\<lparr>sn_faults := [], sn_messages := []\<rparr>)\<lparr>sn_faults := sn_faults s', sn_messages := sn_messages s'\<rparr> =
      (s\<lparr>sn_faults := [], sn_messages := []\<rparr>)\<lparr>sn_faults := sn_faults s', sn_messages := sn_messages s'\<rparr>"
    unfolding calm_def by simp
  then show ?thesis by simp
qed

lemma calm_send [simp]: "calm s s' \<Longrightarrow> calm s (POWER_SEND lv x s')"
  by (rule calm_quiet [OF _ POWER_SEND_quiet])

lemma calm_facts:
  assumes "calm s s'"
  shows "same_control s s'" "power_frame s s'" "sn_data s' = sn_data s" "power_ready_on cs s' = power_ready_on cs s"
    "collected env s' = collected env s" "g_sources_enablement_mapping s' = g_sources_enablement_mapping s" "rails_ok s' = rails_ok s"
    "fallback_safe s' = fallback_safe s" "g_rails_initialized s' = g_rails_initialized s"
proof -
  obtain ms f where s': "s' = s\<lparr>sn_faults := f, sn_messages := ms\<rparr>" using calm_eq [OF assms] by blast
  have q: "quiet (s\<lparr>sn_faults := f\<rparr>) s'" unfolding quiet_def s' by blast
  show "same_control s s'" "power_frame s s'" "sn_data s' = sn_data s" by (simp_all add: s' same_control_def power_frame_def)
  show "power_ready_on cs s' = power_ready_on cs s" using quiet_ready(1) [OF q] by simp
  show "rails_ok s' = rails_ok s" using quiet_ready(2) [OF q] by simp
  show "collected env s' = collected env s" using quiet_ready(3) [OF q] by (simp add: collected_def split: option.split)
  show "fallback_safe s' = fallback_safe s" using quiet_ready(4) [OF q] by (simp add: fallback_safe_def requested_rails_def cong: option.case_cong)
  show "g_sources_enablement_mapping s' = g_sources_enablement_mapping s" "g_rails_initialized s' = g_rails_initialized s" by (simp_all add: s')
qed

lemma power_entry_total:
  assumes r: "power_ready_on cs s" and fb: "fallback_machine cs"
  shows "\<exists>lo s'. power_thread_entry env q s = Ret (lo, s') \<and> calm s s' \<and> (q \<noteq> None \<and> sn_faults s = [] \<longrightarrow> lo \<noteq> None) \<and>
     (\<forall>l. lo = Some l \<longrightarrow> (\<exists>rq. q = Some rq \<and> unat (pl_sample_count l) = power_batch rq \<and>
        unat (pl_allocated l) = power_batch rq * length (machine_rails cs) \<and> pl_index l = 0 \<and> pl_current_sample l = 0 \<and>
        resp_ok (pl_response l) \<and> pd_backend_id (pl_data l) = 3 \<and> length (pd_metric_response (pl_data l)) = unat (pl_allocated l)))"
proof (cases q)
  case None
  then show ?thesis by (simp add: power_thread_entry_def)
next
  case (Some rq)
  let ?f1 = "snd (calloc_ok (sn_faults s))" and ?ok1 = "fst (calloc_ok (sn_faults s))"
  let ?f2 = "snd (calloc_ok ?f1)" and ?ok2 = "fst (calloc_ok ?f1)"
  let ?sa = "s\<lparr>sn_faults := ?f2\<rparr>" and ?c = "power_capability (machine_rails cs)"
  have d: "bi_capabilities_list (g_backend_info s) = Some [?c]" using r by (simp add: power_ready_on_def power_registered_def)
  let ?n = "snd (power_adjusted rq)" and ?m = "(ucast (ci_metric_ids_list_len ?c) :: u32)"
  have "power_batch rq * length (machine_rails cs) \<le> 65536 * 14"
    using power_batch_bounds [of rq] machine_rails_length [of cs] by (intro mult_le_mono) auto
  then have al: "unat (?n * ?m) = power_batch rq * length (machine_rails cs)"
    using power_adjusted_count [of rq] power_capability_count [of cs] by (subst unat_mult_lem [THEN iffD1]) auto
  let ?sb = "POWER_SEND LEVEL_INFO (''Expecting sample_count='' @ show_u (unat ?n) @ '' metrics='' @
     show_u (unat ?m) @ '' total='' @ show_u (unat (?n * ?m))) (power_adjust_warning rq ?sa)"
  let ?sc = "?sb\<lparr>sn_faults := snd (calloc_ok (sn_faults ?sb))\<rparr>"
  have cc: "calm s ?sc" by (simp add: power_adjust_warning_def)
  obtain re s5 where p: "power_prime env zero_rails_response ?sc = Ret (re, s5)" "quiet ?sc s5" "resp_ok re"
    using power_prime_Ret [OF _ fb, of ?sc env] calm_facts(4) [OF cc] r by blast
  have c5: "calm s s5" by (rule calm_quiet [OF cc p(2)])
  let ?l = "\<lparr>pl_request = fst (power_adjusted rq), pl_sample_count = ?n, pl_allocated = ?n * ?m,
     pl_data = \<lparr>pd_backend_id = of_nat (backend_index BACKEND_POWER), pd_capability_id = 0,
        pd_metric_response = replicate (unat (?n * ?m)) zero_response, pd_metric_response_len = 0\<rparr>,
     pl_index = 0, pl_current_sample = 0, pl_start_time = win_now (pe_start env) 0,
     pl_current_time = 0, pl_end_time = 0, pl_response = re,
     pl_slept = (if g_sources_enablement_mapping s5 then unat (rq_sampling_rate (fst (power_adjusted rq))) else 0)\<rparr>"
  have e: "power_thread_entry env q s =
     (if \<not> ?ok1 \<or> \<not> ?ok2 then Ret (None, POWER_SEND LEVEL_ERROR ''Memory allocation failed for a fixed-size structure'' ?sa)
      else if \<not> fst (calloc_ok (sn_faults ?sb)) then Ret (None, POWER_SEND LEVEL_ERROR ''Memory allocation for QcPerfMetricResponse failed'' ?sc)
      else Ret (Some ?l, s5))"
    using d p(1) by (simp add: power_thread_entry_def Some alloc_pair Let_def case_prod_beta)
  have fb2: "sn_faults ?sb = ?f2" by (simp add: power_adjust_warning_def)
  show ?thesis unfolding e using Some cc c5 p(3) al power_adjusted_count [of rq] fb2 by auto
qed

end
