(* ===== verification/WosPowerThread.thy ===== *)
theory WosPowerThread
  imports WosPowerProps WosCpuThread
begin

text \<open>
  The collection thread of the power backend for Windows against a reference: an iteration reports the value of
  every counter that has one, under the identifier of its rail, in the order of the counters, and nothing when the
  collection fails.
\<close>

section \<open>Storing the values\<close>

definition rail_readings :: "u64 \<Rightarrow> (ePowerTelemetryRail \<times> double) list \<Rightarrow> (u16 \<times> u64 \<times> reading) list" where
  "rail_readings now = map (\<lambda>(r, v). (the (rail_metric_id r), now, Dbl v))"

lemma rail_known: "rail_index r < 14 \<Longrightarrow> rail_metric_id r = Some (the (rail_metric_id r))"
  by (cases r) simp_all

lemma power_put_filled:
  assumes f: "filled tot b xs" and lt: "snd b < tot" and r: "rail_index rail < 14"
  shows "\<exists>b'. power_put now rail v b s = Ret (b', s) \<and> filled tot b' (xs @ [(the (rail_metric_id rail), now, Dbl v)])"
proof -
  obtain rs pos where b: "b = (rs, pos)" by (cases b)
  obtain i where i: "rail_metric_id rail = Some i" using rail_known [OF r] by blast
  let ?r = "\<lparr>mr_timestamp = now, mr_metric_id = i,
     mr_metric_value = (mr_metric_value (rs ! unat pos))\<lparr>gt_data_type := TYPE_DOUBLE, gt_double_value := v\<rparr>\<rparr>"
  have e: "response_reading ?r = (i, now, Dbl v)" by (simp add: response_reading_def reading_of_def)
  note s = filled_store [OF f [unfolded b] lt [unfolded b snd_conv] e]
  show ?thesis using s i by (simp add: b power_put_def)
qed

lemma resp_values_nth:
  assumes "resp_ok r" "i < unat (rr_length r)"
  shows "resp_values r ! i = (rr_rails r ! i, rr_values r ! i)" "i < length (rr_rails r)" "i < length (rr_values r)"
    "length (resp_values r) = unat (rr_length r)"
  using assms by (simp_all add: resp_values_def resp_ok_def)

lemma power_put_all_filled:
  "resp_ok r \<Longrightarrow> i + n = unat (rr_length r) \<Longrightarrow> (\<forall>(q, v) \<in> set (resp_values r). rail_index q < 14) \<Longrightarrow> filled tot b xs \<Longrightarrow>
     \<exists>b'. power_put_all tot now i n r b s = Ret (b', s) \<and> filled tot b' (xs @ rail_readings now (drop i (resp_values r)))"
proof (induction n arbitrary: i b xs)
  case 0
  then have "length (resp_values r) = i" by (simp add: resp_values_def resp_ok_def)
  then show ?case using 0 by (simp add: rail_readings_def)
next
  case (Suc n)
  have i: "i < unat (rr_length r)" using Suc.prems(2) by simp
  note v = resp_values_nth [OF Suc.prems(1) i]
  show ?case
  proof (cases "snd b < tot")
    case False
    then have "unat tot \<le> length xs" using filled_room [OF Suc.prems(4)] by simp
    then show ?thesis using False filled_full [OF _ Suc.prems(4)] by simp
  next
    case True
    have "resp_values r ! i \<in> set (resp_values r)" using i v(4) by simp
    then have known: "rail_index (rr_rails r ! i) < 14" using Suc.prems(3) v(1) by auto
    obtain b1 where 1: "power_put now (rr_rails r ! i) (rr_values r ! i) b s = Ret (b1, s)"
      "filled tot b1 (xs @ [(the (rail_metric_id (rr_rails r ! i)), now, Dbl (rr_values r ! i))])"
      using power_put_filled [OF Suc.prems(4) True known] by blast
    obtain b2 where 2: "power_put_all tot now (Suc i) n r b1 s = Ret (b2, s)"
      "filled tot b2 ((xs @ [(the (rail_metric_id (rr_rails r ! i)), now, Dbl (rr_values r ! i))]) @
         rail_readings now (drop (Suc i) (resp_values r)))"
      using Suc.IH [OF Suc.prems(1) _ Suc.prems(3) 1(2), of "Suc i"] Suc.prems(2) by auto
    have d: "drop i (resp_values r) = (rr_rails r ! i, rr_values r ! i) # drop (Suc i) (resp_values r)"
      using i v(1,4) Cons_nth_drop_Suc [of i "resp_values r"] by simp
    show ?thesis using True v 1(1) 2 by (simp add: d rail_readings_def)
  qed
qed

lemma collected_known:
  assumes "rails_ok s" "(r, v) \<in> set (collected env s)"
  shows "rail_index r < 14"
proof -
  obtain cs where cs: "g_rail_counters_requested s = Some cs" "counters_ok cs (unat (g_rail_counters_requested_length s))"
    "(r, v) \<in> set (rail_answers env cs (take (unat (g_rail_counters_requested_length s)) cs))"
    using assms by (auto simp: rails_ok_def collected_def split: option.splits if_splits)
  then obtain c where "c \<in> set (take (unat (g_rail_counters_requested_length s)) cs)" "r = rc_rail c" by (auto simp: rail_answers_def)
  then obtain j where "j < unat (g_rail_counters_requested_length s)" "j < length cs" "r = rc_rail (cs ! j)"
    by (auto simp: in_set_conv_nth)
  then show ?thesis using cs(2) by (simp add: counters_ok_def)
qed

lemma collected_length:
  assumes "rails_ok s" "g_rail_counters_requested s = Some cs"
  shows "length (collected env s) \<le> length cs"
  using assms rail_answers_length [of env cs "take (unat (g_rail_counters_requested_length s)) cs"]
  by (auto simp: collected_def)

section \<open>The reference\<close>

text \<open>What a round reports from the values of the counters and the time, when the rails are enabled.\<close>

definition power_out ::
  "bool \<Rightarrow> (rails_env \<Rightarrow> (ePowerTelemetryRail \<times> double) list) \<Rightarrow> power_env \<Rightarrow> u64 \<Rightarrow> (u16 \<times> u64 \<times> reading) list \<times> u64" where
  "power_out on coll env t =
     (let now = win_now (pe_now env) t in (if on then rail_readings now (coll (pe_rails env)) else [], now))"

definition power_view :: "power_state \<Rightarrow> power_env \<Rightarrow> u64 \<Rightarrow> (u16 \<times> u64 \<times> reading) list \<times> u64" where
  "power_view s = power_out (g_sources_enablement_mapping s) (\<lambda>env. collected env s)"

definition power_buffer :: "power_local \<Rightarrow> response_buffer" where
  "power_buffer l = (pd_metric_response (pl_data l), pl_index l)"

section \<open>One iteration\<close>

lemma power_sample_readings:
  fixes env :: power_env
  assumes ok: "rails_ok s" "fallback_safe s" and r: "resp_ok (pl_response l)"
    and f: "filled (pl_allocated l) (power_buffer l) xs" and t: "pl_current_time l = t"
  defines "now \<equiv> win_now (pe_now env) t"
  shows "\<exists>x rs i s'. power_sample env now (l\<lparr>pl_current_time := now\<rparr>) s =
       Ret (l\<lparr>pl_current_time := now, pl_response := x, pl_data := (pl_data l)\<lparr>pd_metric_response := rs\<rparr>, pl_index := i\<rparr>, s') \<and>
     quiet s s' \<and> resp_ok x \<and> filled (pl_allocated l) (rs, i) (xs @ fst (power_view s env t))"
proof (cases "g_sources_enablement_mapping s")
  case False
  then show ?thesis using r f
    by (intro exI [of _ "pl_response l"] exI [of _ "pd_metric_response (pl_data l)"] exI [of _ "pl_index l"] exI [of _ s])
       (simp add: power_sample_def power_view_def power_out_def power_buffer_def Let_def)
next
  case True
  let ?l = "l\<lparr>pl_current_time := now\<rparr>"
  have o: "fst (power_view s env t) = rail_readings now (collected (pe_rails env) s)"
    using True by (simp add: power_view_def power_out_def now_def Let_def)
  obtain rc x s1 where g: "powerTelemetry_railsGetInfo (pe_rails env) (Some (pl_response l)) s = Ret (rc, Some x, s1)" "quiet s s1" "resp_ok x"
    "if rc = POWER_TELEMETRY_SUCCESS then resp_values x = collected (pe_rails env) s else collected (pe_rails env) s = []"
    using get_info_Ret [OF ok r, of "pe_rails env"] by blast
  show ?thesis
  proof (cases "rc = POWER_TELEMETRY_SUCCESS")
    case False
    let ?s = "POWER_SEND LEVEL_ERROR (''powerTelemetry_railsGetInfo failed with ePowerTelemetryReturnCode='' @ show_u (power_telemetry_code rc)) s1"
    have "power_sample env now ?l s = Ret (?l\<lparr>pl_response := x\<rparr>, ?s)" using g(1) True False by (simp add: power_sample_def)
    moreover have "quiet s ?s" by (rule quiet_trans [OF g(2) POWER_SEND_quiet])
    ultimately show ?thesis using False g f o
      by (intro exI [of _ x] exI [of _ "pd_metric_response (pl_data l)"] exI [of _ "pl_index l"] exI [of _ ?s])
         (simp add: power_buffer_def rail_readings_def)
  next
    case ok': True
    have v: "resp_values x = collected (pe_rails env) s" using g(4) ok' by simp
    have kn: "\<forall>(q, v) \<in> set (resp_values x). rail_index q < 14" using collected_known [OF ok(1)] v by auto
    obtain rs i where p: "power_put_all (pl_allocated l) now 0 (unat (rr_length x)) x (power_buffer l) s1 = Ret ((rs, i), s1)"
      "filled (pl_allocated l) (rs, i) (xs @ rail_readings now (drop 0 (resp_values x)))"
      using power_put_all_filled [OF g(3) _ kn f, of 0 "unat (rr_length x)" now s1] by auto
    have "power_sample env now ?l s = Ret (?l\<lparr>pl_response := x, pl_data := (pl_data l)\<lparr>pd_metric_response := rs\<rparr>, pl_index := i\<rparr>, s1)"
      using g(1) True ok' p(1) by (simp add: power_sample_def Let_def power_buffer_def)
    then show ?thesis using g p(2) o v
      by (intro exI [of _ x] exI [of _ rs] exI [of _ i] exI [of _ s1]) simp
  qed
qed


text \<open>The delivery: nothing changes but the clock and the count, or the batch is handed over.\<close>

definition power_moves_on :: "power_local \<Rightarrow> power_local \<Rightarrow> bool" where
  "power_moves_on l l' \<longleftrightarrow> pl_current_time l' = pl_current_time l \<and> pl_response l' = pl_response l \<and> pl_allocated l' = pl_allocated l \<and>
     pl_sample_count l' = pl_sample_count l \<and> pd_backend_id (pl_data l') = pd_backend_id (pl_data l)"

definition power_hands_over :: "power_local \<Rightarrow> power_state \<Rightarrow> (u16 \<times> u64 \<times> reading) list \<Rightarrow> (nat \<times> QcPerfData) list \<Rightarrow> bool" where
  "power_hands_over l s ys bs \<longleftrightarrow> (\<exists>d. bs = (case g_data_callback s of Some cb \<Rightarrow> [(cb, d)] | None \<Rightarrow> []) \<and>
     batch_readings d = take (unat (pl_allocated l)) ys \<and> 0 < pd_metric_response_len d \<and> pd_backend_id d = pd_backend_id (pl_data l))"

lemma power_stream_readings:
  assumes f: "filled (pl_allocated l) (power_buffer l) ys"
  shows "\<exists>l' s' ys' bs. power_stream env l s = (l', s') \<and> power_moves_on l l' \<and> filled (pl_allocated l) (power_buffer l') ys' \<and>
     sn_data s' = sn_data s @ bs \<and> quiet (s\<lparr>sn_data := sn_data s @ bs\<rparr>) s' \<and>
     (bs = [] \<and> ys' = ys \<and> pl_current_sample l' = pl_current_sample l + 1 \<and>
        (ucast (pl_current_sample l + 1) < pl_sample_count l \<or> pl_index l = 0) \<or>
      ys' = [] \<and> pl_current_sample l' = 0 \<and> power_hands_over l s ys bs)"
proof -
  let ?l = "l\<lparr>pl_current_sample := pl_current_sample l + 1, pl_end_time := win_now (pe_end env) (pl_end_time l)\<rparr>"
  let ?r = "\<lambda>l. l\<lparr>pl_start_time := win_now (pe_restart env) (pl_start_time l)\<rparr>"
  let ?d = "(pl_data l)\<lparr>pd_metric_response_len := unat (pl_index l)\<rparr>"
  let ?due = "pl_sample_count ?l \<le> ucast (pl_current_sample ?l) \<or> pl_allocated ?l \<le> pl_index ?l \<or>
            ucast (rq_streaming_rate (pl_request ?l)) < (pl_end_time ?l - pl_start_time ?l) div 1000000"
  consider (wait) "\<not> ?due" | (empty) ?due "pl_index l = 0" | (full) ?due "pl_index l \<noteq> 0" by blast
  then show ?thesis
  proof cases
    case wait
    then have "power_stream env l s = (?l, s)" unfolding power_stream_def Let_def by (simp only: if_False)
    moreover have "ucast (pl_current_sample l + 1) < pl_sample_count l" using wait by (simp add: not_le)
    ultimately show ?thesis using f
      by (intro exI [of _ ?l] exI [of _ s] exI [of _ ys] exI [of _ "[]"]) (simp add: power_moves_on_def power_buffer_def)
  next
    case empty
    let ?s = "POWER_SEND LEVEL_ERROR ''No profiling data is present for capability'' s"
    have "power_stream env l s = (?r ?l, ?s)" using empty unfolding power_stream_def Let_def by (simp del: disj_assoc)
    then show ?thesis using empty(2) f
      by (intro exI [of _ "?r ?l"] exI [of _ ?s] exI [of _ ys] exI [of _ "[]"]) (simp add: power_moves_on_def power_buffer_def)
  next
    case full
    let ?f = "?l\<lparr>pl_data := ?d, pl_index := 0, pl_current_sample := 0\<rparr>"
    let ?s = "case g_data_callback s of Some cb \<Rightarrow> s\<lparr>sn_data := sn_data s @ [(cb, ?d)]\<rparr>
       | None \<Rightarrow> POWER_SEND LEVEL_ERROR ''Result callback is NULL, cannot send metric data'' s"
    let ?bs = "case g_data_callback s of Some cb \<Rightarrow> [(cb, ?d)] | None \<Rightarrow> []"
    have st: "power_stream env l s = (?r ?f, ?s)" using full unfolding power_stream_def Let_def
      by (cases "g_data_callback s") (simp_all del: disj_assoc)
    have fl: "length (pd_metric_response (pl_data l)) = unat (pl_allocated l)"
      "batch_readings ?d = take (unat (pl_allocated l)) ys"
      using f unfolding filled_def power_buffer_def batch_readings_def by auto
    have "0 < pd_metric_response_len ?d" using full(2) by (simp add: unat_gt_0)
    then have "power_hands_over l s ys ?bs" unfolding power_hands_over_def using fl(2) by (intro exI [of _ ?d]) simp
    moreover have "quiet (s\<lparr>sn_data := sn_data s @ ?bs\<rparr>) ?s" by (simp split: option.split)
    moreover have "sn_data ?s = sn_data s @ ?bs" by (simp split: option.split)
    ultimately show ?thesis using st fl(1)
      by (intro exI [of _ "?r ?f"] exI [of _ ?s] exI [of _ "[]"] exI [of _ ?bs])
         (simp add: power_moves_on_def power_buffer_def filled_fresh)
  qed
qed

lemma power_iterate_readings:
  fixes env :: power_env
  assumes ok: "rails_ok s" "fallback_safe s" and r: "resp_ok (pl_response l)" and f: "filled (pl_allocated l) (power_buffer l) xs"
  defines "out \<equiv> power_view s env (pl_current_time l)"
  shows "\<exists>l' s' ys bs. power_thread_iterate env l s = Ret (l', s') \<and> resp_ok (pl_response l') \<and> pl_current_time l' = snd out \<and>
     pl_allocated l' = pl_allocated l \<and> pl_sample_count l' = pl_sample_count l \<and> pd_backend_id (pl_data l') = pd_backend_id (pl_data l) \<and>
     filled (pl_allocated l) (power_buffer l') ys \<and> sn_data s' = sn_data s @ bs \<and> quiet (s\<lparr>sn_data := sn_data s @ bs\<rparr>) s' \<and>
     (bs = [] \<and> ys = xs @ fst out \<and> pl_current_sample l' = pl_current_sample l + 1 \<and>
        (ucast (pl_current_sample l + 1) < pl_sample_count l \<or> min (length ys) (unat (pl_allocated l)) = 0) \<or>
      ys = [] \<and> pl_current_sample l' = 0 \<and> power_hands_over l s (xs @ fst out) bs)"
proof -
  let ?now = "win_now (pe_now env) (pl_current_time l)"
  obtain x rs i s1 where 1: "power_sample env ?now (l\<lparr>pl_current_time := ?now\<rparr>) s =
       Ret (l\<lparr>pl_current_time := ?now, pl_response := x, pl_data := (pl_data l)\<lparr>pd_metric_response := rs\<rparr>, pl_index := i\<rparr>, s1)"
     "quiet s s1" "resp_ok x" "filled (pl_allocated l) (rs, i) (xs @ fst out)"
    using power_sample_readings [OF ok r f refl, of env] unfolding out_def by blast
  let ?l = "l\<lparr>pl_current_time := ?now, pl_response := x, pl_data := (pl_data l)\<lparr>pd_metric_response := rs\<rparr>, pl_index := i\<rparr>"
  have fl: "filled (pl_allocated ?l) (power_buffer ?l) (xs @ fst out)" using 1(4) by (simp add: power_buffer_def)
  have i: "unat i = min (length (xs @ fst out)) (unat (pl_allocated l))" using 1(4) unfolding filled_def by simp
  obtain ms where s1: "s1 = s\<lparr>sn_messages := ms\<rparr>" using 1(2) by (auto simp: quiet_def)
  obtain l2 s2 ys bs where 2: "power_stream env ?l s1 = (l2, s2)" "power_moves_on ?l l2" "filled (pl_allocated ?l) (power_buffer l2) ys"
     "sn_data s2 = sn_data s1 @ bs" "quiet (s1\<lparr>sn_data := sn_data s1 @ bs\<rparr>) s2"
     "bs = [] \<and> ys = xs @ fst out \<and> pl_current_sample l2 = pl_current_sample ?l + 1 \<and>
        (ucast (pl_current_sample ?l + 1) < pl_sample_count ?l \<or> pl_index ?l = 0) \<or>
      ys = [] \<and> pl_current_sample l2 = 0 \<and> power_hands_over ?l s1 (xs @ fst out) bs"
    using power_stream_readings [OF fl, of env s1] by blast
  let ?l' = "l2\<lparr>pl_slept := unat (rq_sampling_rate (pl_request l2))\<rparr>"
  have it: "power_thread_iterate env l s = Ret (?l', s2)" using 1(1) 2(1) by (simp add: power_thread_iterate_def Let_def)
  have h: "power_hands_over ?l s1 zs bs = power_hands_over l s zs bs" for zs by (simp add: power_hands_over_def s1)
  have q: "quiet (s\<lparr>sn_data := sn_data s @ bs\<rparr>) s2"
    using 2(5) unfolding quiet_def s1 by auto
  have z: "min (length (xs @ fst out)) (unat (pl_allocated l)) = 0" if "i = 0" using i that by (simp only: unsigned_0)
  have now: "?now = snd out" by (simp add: out_def power_view_def power_out_def Let_def)
  show ?thesis
    by (rule exI [of _ ?l'], rule exI [of _ s2], rule exI [of _ ys], rule exI [of _ bs], intro conjI, rule it)
       (use 1(3) 2(2-4) 2(6) q h z now s1 in \<open>auto simp: power_moves_on_def power_buffer_def\<close>)
qed

end
