(* ===== verification/WosPowerLive.thy ===== *)
theory WosPowerLive
  imports WosPowerThread
begin

text \<open>
  The theorems of the power backend for Windows: what its initialisation registers, that its sessions never get
  stuck on a machine where the fallback for the rail \<open>SYS\<close> is harmless, that at most one query is open, exactly
  while the telemetry is initialised, and that what is delivered is what the reference of \<open>WosPowerThread\<close> reports.
\<close>

section \<open>What an iteration can change\<close>

lemma rail_values_quiet: "rail_values env i n cs st r s = Ret (st', r', s') \<Longrightarrow> quiet s s'"
proof (induction n arbitrary: i st r s)
  case (Suc n)
  have q: "quiet s (POWER_SEND lv x (POWER_SEND lv' x' s))" for lv x lv' x' by (rule quiet_trans [OF POWER_SEND_quiet POWER_SEND_quiet])
  show ?case using Suc.prems
    by (auto simp: outcome_simps Let_def split: if_splits prod.splits dest!: Suc.IH intro: quiet_trans [OF q])
qed simp

lemma get_info_quiet: "powerTelemetry_railsGetInfo env (Some r) s = Ret (rc, out, s') \<Longrightarrow> quiet s s'"
  by (auto simp: powerTelemetry_railsGetInfo_def outcome_simps Let_def split: if_splits option.splits dest: rail_values_quiet)

lemma power_log_quiet [simp]: "quiet s (power_log_message lv x s)"
  by (simp add: power_log_message_def)

lemma power_put_all_quiet: "power_put_all tot now i n r b s = Ret (b', s') \<Longrightarrow> quiet s s'"
proof (induction n arbitrary: i b s)
  case (Suc n)
  have "quiet s s1" if "power_put now rail v b s = Ret (b1, s1)" for rail v b1 s1
    using that by (auto simp: power_put_def outcome_simps Let_def split: prod.splits option.splits)
  then show ?case using Suc.prems Suc.IH by (auto simp: outcome_simps split: if_splits) (blast intro: quiet_trans)
qed simp

lemma power_sample_quiet: "power_sample env now l s = Ret (l', s') \<Longrightarrow> quiet s s'"
  by (auto simp: power_sample_def outcome_simps Let_def split: if_splits option.splits prod.splits
      dest!: get_info_quiet power_put_all_quiet intro: quiet_trans)

definition ready_power :: "power_state \<Rightarrow> bool" where
  "ready_power s \<longleftrightarrow> (\<exists>cs. power_ready_on cs s \<and> fallback_machine cs)"

lemma quiet_control: "quiet s s' \<Longrightarrow> same_control s s' \<and> ready_power s' = ready_power s" for s s' :: power_state
  using quiet_ready(1) by (auto simp: quiet_def same_control_def ready_power_def)

lemma ready_power_simps [simp]:
  "ready_power (POWER_SEND lv x s) = ready_power s" "ready_power (s\<lparr>g_is_thread_running := b\<rparr>) = ready_power s"
  "ready_power (s\<lparr>g_thread_info := i\<rparr>) = ready_power s" "ready_power (s\<lparr>sn_data := ds\<rparr>) = ready_power s"
  "ready_power (s\<lparr>g_data_callback := cb\<rparr>) = ready_power s" "ready_power (put_thread t st s) = ready_power s"
  "ready_power (s\<lparr>sn_threads := ts\<rparr>) = ready_power s"
  by (simp_all add: ready_power_def)

lemma power_stream_control: "power_stream env l s = (l', s') \<Longrightarrow> same_control s s' \<and> ready_power s' = ready_power s"
  by (auto simp: power_stream_def Let_def same_control_def split: if_splits option.splits)

lemma power_iterate_control:
  assumes "power_thread_iterate env l s = Ret (l', s')"
  shows "same_control s s' \<and> (ready_power s \<longrightarrow> ready_power s')"
proof -
  obtain l1 s1 where 1: "power_sample env (win_now (pe_now env) (pl_current_time l))
      (l\<lparr>pl_current_time := win_now (pe_now env) (pl_current_time l)\<rparr>) s = Ret (l1, s1)"
    using assms by (auto simp: power_thread_iterate_def Let_def outcome_simps)
  obtain l2 s2 where 2: "power_stream env l1 s1 = (l2, s2)" by fastforce
  have "s' = s2" using assms 1 2 by (auto simp: power_thread_iterate_def Let_def)
  then show ?thesis
    using quiet_control [OF power_sample_quiet [OF 1]] power_stream_control [OF 2] same_control_trans by metis
qed

section \<open>Stopping\<close>

lemma power_wait_total:
  assumes r: "ready_power s" and t: "t < length (sn_threads s)" "\<not> g_is_thread_running s"
  shows "\<exists>s'. wait_exit (power_thread env) t s = Ret (0, s') \<and> sn_threads s' = (sn_threads s)[t := Exited] \<and>
     g_thread_info s' = g_thread_info s \<and> \<not> g_is_thread_running s' \<and> ready_power s' \<and> (\<forall>cs. power_ready_on cs s \<longrightarrow> power_ready_on cs s') \<and>
     g_rails_initialized s' = g_rails_initialized s"
proof (cases "sn_threads s ! t")
  case (Spawned x)
  obtain cs where cs: "power_ready_on cs s" "fallback_machine cs" using r by (auto simp: ready_power_def)
  obtain lo s1 where e: "power_thread_entry env x s = Ret (lo, s1)" "calm s s1"
    using power_entry_total [OF cs, of env x] by blast
  note c = calm_facts [OF e(2)]
  have "ready_power s1" using c(4) r by (simp add: ready_power_def)
  then show ?thesis using Spawned e(1) c(1,4,9) t
    by (cases lo) (auto simp: wait_exit_def power_thread_def power_thread_finish_def same_control_def put_thread_def)
next
  case (Running l)
  then show ?thesis using t r by (simp add: wait_exit_def power_thread_def power_thread_finish_def) (simp add: put_thread_def)
next
  case Exited
  then show ?thesis using t r by (simp add: wait_exit_def list_update_same_conv [THEN iffD2])
qed

lemma power_close_total:
  assumes r: "power_ready_on cs s"
  shows "power_ready_on cs (power_close_rails s)" "\<not> g_rails_initialized (power_close_rails s)" "w_open (power_close_rails s) = []"
    "same_control s (power_close_rails s)" "sn_data (power_close_rails s) = sn_data s" "power_frame s (power_close_rails s)"
proof -
  obtain prc s1 where d: "powerTelemetry_railsDestroy s = (prc, s1)" by fastforce
  have ok: "rails_ok s" using r by (simp add: power_ready_on_def)
  have k: "rails_ok s1 \<and> \<not> g_rails_initialized s1 \<and> w_open s1 = [] \<and> outside_rails s s1"
  proof (cases "g_rails_initialized s")
    case True
    have "query_known s" using ok by (auto simp: rails_ok_def query_ok_def query_known_def split: option.splits)
    moreover have "g_rail_counters_requested s = None \<Longrightarrow> g_rail_counters_requested_length s = 0" using ok by (simp add: rails_ok_def)
    ultimately show ?thesis using destroy_closes [of s] True d by auto
  next
    case False
    then show ?thesis using destroy_idle [OF False] d ok by (simp add: rails_ok_def query_ok_def)
  qed
  note f = outside_rails_frame [of s s1]
  have n: "g_rail_counters_requested s1 = None" using k by (auto simp: rails_ok_def split: option.splits)
  have "power_ready_on cs s1" using r k f n offers_outside [of s s1 cs] power_frame_registered [of s s1 cs]
    by (simp add: power_ready_on_def requested_rails_def)
  then show "power_ready_on cs (power_close_rails s)" by (simp add: power_close_rails_def d)
  show "\<not> g_rails_initialized (power_close_rails s)" "w_open (power_close_rails s) = []" "same_control s (power_close_rails s)"
    "sn_data (power_close_rails s) = sn_data s" "power_frame s (power_close_rails s)"
    using k f by (simp_all add: power_close_rails_def d same_control_def)
qed

lemma power_stop_light:
  assumes "\<not> g_is_thread_running s \<or> r = None"
  shows "\<exists>rc s'. wos_power_backend_stop env r s = Ret (rc, s') \<and> quiet s s'"
  using assms by (cases r) (auto simp: wos_power_backend_stop_def Let_def intro!: quiet_trans [OF _ POWER_SEND_quiet])

text \<open>What \<open>stop\<close> does after its thread has ended.\<close>

lemma power_stop_after:
  assumes run: "g_is_thread_running s" and h: "th_handle (g_thread_info s) = Thread t"
    and w: "wait_exit (power_thread env) t ((POWER_SEND LEVEL_DEBUG ''Stopping profiling'' s)\<lparr>g_is_thread_running := False\<rparr>) = Ret (0, s1)"
      "sn_threads s1 = (sn_threads s)[t := Exited]" "g_thread_info s1 = g_thread_info s" "\<not> g_is_thread_running s1"
    and cs: "power_ready_on cs s1"
  shows "\<exists>rc s'. wos_power_backend_stop env (Some rq) s = Ret (rc, s') \<and> power_ready_on cs s' \<and> joined t s s' \<and>
     \<not> g_rails_initialized s' \<and> w_open s' = [] \<and> (pe_closes env \<longrightarrow> rc = SUCCESS)"
proof -
  let ?s = "(POWER_SEND LEVEL_DEBUG ''Stopping profiling'' s)\<lparr>g_is_thread_running := False\<rparr>"
  have j: "thread_join (wait_exit (power_thread env)) (Some (g_thread_info s)) ?s = Ret (QTHREAD_JOIN_SUCCESS, s1)"
    using w(1) h by (simp add: thread_join_def)
  let ?i = "(g_thread_info s)\<lparr>th_handle := NoThread\<rparr>"
  have d: "windows_thread_destroy (Some (g_thread_info s1)) (pe_closes env) =
      (if pe_closes env then QTHREAD_DESTROY_SUCCESS else QTHREAD_DESTROY_FAILED, Some ?i)"
    using h w(3) by (simp add: windows_thread_destroy_def)
  let ?c = "\<lambda>lv x. power_close_rails (POWER_SEND lv x (s1\<lparr>g_thread_info := ?i\<rparr>))"
  have a: "power_ready_on cs (POWER_SEND lv x (s1\<lparr>g_thread_info := ?i\<rparr>))" for lv x using cs by simp
  note c = power_close_total [OF a]
  have jn: "joined t s (?c lv x)" for lv x
    using c(4) [of lv x] w(2-4) by (simp add: joined_def same_control_def)
  have jp: "joined t s (POWER_SEND lv' x' s') = joined t s s'" for lv' x' s' by (simp add: joined_def)
  show ?thesis
    using run j d jn jp c(1-3) by (simp add: wos_power_backend_stop_def Let_def)
qed

lemma power_stop_joins:
  assumes r: "ready_power s" and run: "g_is_thread_running s" and h: "th_handle (g_thread_info s) = Thread t" and t: "t < length (sn_threads s)"
  shows "\<exists>rc s'. wos_power_backend_stop env (Some rq) s = Ret (rc, s') \<and> ready_power s' \<and> joined t s s' \<and>
     \<not> g_rails_initialized s' \<and> w_open s' = [] \<and> (pe_closes env \<longrightarrow> rc = SUCCESS)"
proof -
  let ?s = "(POWER_SEND LEVEL_DEBUG ''Stopping profiling'' s)\<lparr>g_is_thread_running := False\<rparr>"
  have r': "ready_power ?s" using r by simp
  obtain s1 where w: "wait_exit (power_thread env) t ?s = Ret (0, s1)" "sn_threads s1 = (sn_threads s)[t := Exited]"
    "g_thread_info s1 = g_thread_info s" "\<not> g_is_thread_running s1" "ready_power s1"
    using power_wait_total [OF r', of t env] t by auto
  obtain cs where cs: "power_ready_on cs s1" "fallback_machine cs" using w(5) by (auto simp: ready_power_def)
  show ?thesis using power_stop_after [OF run h w(1-4) cs(1), of rq] cs(2) unfolding ready_power_def by blast
qed

section \<open>Sessions\<close>

definition power_lok :: "power_state \<Rightarrow> power_local \<Rightarrow> bool" where
  "power_lok s l \<longleftrightarrow> resp_ok (pl_response l) \<and> (\<exists>xs. filled (pl_allocated l) (power_buffer l) xs)"

definition any_request :: "QcPerfRequest option \<Rightarrow> bool" where
  "any_request r \<longleftrightarrow> True"

lemma any_request_simp [simp]: "any_request r"
  by (simp add: any_request_def)

interpretation pw: flagged_session wos_power_backend_start wos_power_backend_stop power_thread power_thread_iterate ready_power
  "\<lambda>_ _. True" power_lok any_request
proof unfold_locales
  fix s r
  assume a: "ready_power s" "flagged (\<lambda>_ _. True) s"
  then obtain cs where cs: "power_ready_on cs s" "fallback_machine cs" by (auto simp: ready_power_def)
  obtain rc s' where s': "wos_power_backend_start r s = Ret (rc, s')" "power_ready_on cs s'"
    "if rc = SUCCESS
      then \<exists>rq. r = Some rq \<and> \<not> g_is_thread_running s \<and> g_is_thread_running s' \<and>
             th_handle (g_thread_info s') = Thread (length (sn_threads s)) \<and> sn_threads s' = sn_threads s @ [Spawned r] \<and>
             g_rails_initialized s' \<and> g_sources_enablement_mapping s'
      else same_control s s'"
    using power_start_total [OF cs(1) a(2), of r] by blast
  have "ready_power s'" using s'(2) cs(2) by (auto simp: ready_power_def)
  then show "\<exists>rc s'. wos_power_backend_start r s = Ret (rc, s') \<and> ready_power s' \<and> (\<forall>q. True \<longrightarrow> True) \<and>
     (\<forall>l. power_lok s l \<longrightarrow> power_lok s' l) \<and> (same_control s s' \<or> launched (\<lambda>_ _. True) s s')"
    using s'(1,3) by (cases "rc = SUCCESS") (auto simp: power_lok_def launched_def)
next
  fix s :: power_state and r :: "QcPerfRequest option" and e :: power_env
  assume a: "ready_power s" "\<not> g_is_thread_running s \<or> r = None"
  obtain rc s' where "wos_power_backend_stop e r s = Ret (rc, s')" "quiet s s'" using power_stop_light [OF a(2)] by blast
  then show "\<exists>rc s'. wos_power_backend_stop e r s = Ret (rc, s') \<and> ready_power s' \<and> (\<forall>q. True \<longrightarrow> True) \<and>
     (\<forall>l. power_lok s l \<longrightarrow> power_lok s' l) \<and> same_control s s'"
    using quiet_control [of s s'] a(1) by (auto simp: power_lok_def)
next
  fix s e t rq
  assume a: "ready_power s" "g_is_thread_running s" "th_handle (g_thread_info s) = Thread t" "t < length (sn_threads s)"
  show "\<exists>rc s'. wos_power_backend_stop e (Some rq) s = Ret (rc, s') \<and> ready_power s' \<and> (\<forall>q. True \<longrightarrow> True) \<and>
     (\<forall>l. power_lok s l \<longrightarrow> power_lok s' l) \<and> joined t s s'"
    using power_stop_joins [OF a, of e rq] by (auto simp: power_lok_def)
next
  fix s q e
  assume "ready_power s"
  then obtain cs where cs: "power_ready_on cs s" "fallback_machine cs" by (auto simp: ready_power_def)
  obtain lo s' where e: "power_thread_entry e q s = Ret (lo, s')" "calm s s'"
    "\<forall>l. lo = Some l \<longrightarrow> (\<exists>rq. q = Some rq \<and> unat (pl_sample_count l) = power_batch rq \<and>
        unat (pl_allocated l) = power_batch rq * length (machine_rails cs) \<and> pl_index l = 0 \<and> pl_current_sample l = 0 \<and>
        resp_ok (pl_response l) \<and> pd_backend_id (pl_data l) = 3 \<and> length (pd_metric_response (pl_data l)) = unat (pl_allocated l))"
    using power_entry_total [OF cs, of e q] by blast
  note c = calm_facts [OF e(2)]
  have rdy: "ready_power s'" using c(4) cs by (auto simp: ready_power_def)
  have "power_lok s' l" if "lo = Some l" for l
  proof -
    have "resp_ok (pl_response l)" "length (pd_metric_response (pl_data l)) = unat (pl_allocated l)" "pl_index l = 0"
      using e(3) that by blast+
    then show ?thesis using filled_fresh unfolding power_lok_def power_buffer_def by metis
  qed
  then show "\<exists>lo s'. th_entry (power_thread e) q s = Ret (lo, s') \<and> same_control s s' \<and> ready_power s' \<and> (\<forall>l. lo = Some l \<longrightarrow> power_lok s' l)"
    using e(1) c(1) rdy by (auto simp: power_thread_def)
next
  fix s l e
  assume a: "ready_power s" "power_lok s l"
  then obtain cs xs where k: "power_ready_on cs s" "fallback_machine cs" "resp_ok (pl_response l)" "filled (pl_allocated l) (power_buffer l) xs"
    by (auto simp: ready_power_def power_lok_def)
  have "rails_ok s" "fallback_safe s" using k(1) ready_fallback [OF k(1,2)] by (simp_all add: power_ready_on_def)
  from power_iterate_readings [OF this k(3,4), of e]
  obtain l' s' ys where "power_thread_iterate e l s = Ret (l', s')" "resp_ok (pl_response l')"
    "pl_allocated l' = pl_allocated l" "filled (pl_allocated l) (power_buffer l') ys"
    by blast
  then show "\<exists>l' s'. power_thread_iterate e l s = Ret (l', s') \<and> same_control s s' \<and> ready_power s' \<and> power_lok s' l'"
    using power_iterate_control a(1) unfolding power_lok_def by metis
qed (auto simp: power_iterate_control power_lok_def power_thread_def power_thread_finish_def)

section \<open>Reachable states\<close>

text \<open>The states that calls and the scheduler reach.\<close>

inductive reaches ::
  "('e session_event \<Rightarrow> ('l, 'x) session_scheme \<Rightarrow> bool) \<Rightarrow> ('e session_event \<Rightarrow> ('l, 'x) session_scheme \<Rightarrow> ('l, 'x) session_scheme outcome)
     \<Rightarrow> ('l, 'x) session_scheme \<Rightarrow> ('l, 'x) session_scheme \<Rightarrow> bool"
  for okev step s where
  reaches_refl: "reaches okev step s s"
| reaches_step: "reaches okev step s s1 \<Longrightarrow> okev ev s1 \<Longrightarrow> step ev s1 = Ret s2 \<Longrightarrow> reaches okev step s s2"

context live_session begin

lemma live_reaches: "reaches okev (session_step start stop code body) s s' \<Longrightarrow> live s \<Longrightarrow> live s'"
proof (induction rule: reaches.induct)
  case (reaches_step s1 ev s2)
  then show ?case using live_step [of s1 ev] by auto
qed

end

abbreviation (input) power_step :: "power_env session_event \<Rightarrow> power_state \<Rightarrow> power_state outcome" where
  "power_step \<equiv> session_step wos_power_backend_start wos_power_backend_stop power_thread power_thread_iterate"

text \<open>
  On any machine, whether the fallback for \<open>SYS\<close> is harmless or not: what a step keeps when it returns.
\<close>

definition power_kept :: "string list \<Rightarrow> power_state \<Rightarrow> bool" where
  "power_kept cs s \<longleftrightarrow> power_ready_on cs s \<and> flagged (\<lambda>_ _. True) s"

lemma power_kept_same: "power_kept cs s \<Longrightarrow> same_control s s' \<Longrightarrow> power_ready_on cs s' \<Longrightarrow> power_kept cs s'"
  using flagged_same [of "\<lambda>_ _. True" s s'] by (simp add: power_kept_def)

lemma power_prime_quiet: "power_prime env r s = Ret (r', s') \<Longrightarrow> quiet s s'"
  by (auto simp: power_prime_def outcome_simps split: if_splits dest: get_info_quiet)

lemma power_entry_calm:
  assumes "power_thread_entry env q s = Ret (lo, s')"
  shows "calm s s'"
  using assms
  by (auto simp: power_thread_entry_def Let_def alloc_pair outcome_simps power_adjust_warning_def case_prod_beta
      split: option.splits if_splits dest!: power_prime_quiet intro: calm_quiet [rotated])

lemma power_wait_kept:
  assumes w: "wait_exit (power_thread env) t s = Ret (st, s')" and d: "\<not> g_is_thread_running s"
  shows "st = 0 \<and> sn_threads s' = (sn_threads s)[t := Exited] \<and> g_thread_info s' = g_thread_info s \<and> \<not> g_is_thread_running s' \<and>
     (power_ready_on cs s \<longrightarrow> power_ready_on cs s')"
proof -
  have t: "t < length (sn_threads s)" using w by (auto simp: wait_exit_def split: if_splits)
  show ?thesis
  proof (cases "sn_threads s ! t")
    case (Spawned x)
    then obtain lo s1 where e: "power_thread_entry env x s = Ret (lo, s1)" "s' = put_thread t Exited s1" "st = 0"
      using w t d by (auto simp: wait_exit_def power_thread_def power_thread_finish_def outcome_simps split: option.splits if_splits)
    note c = calm_facts [OF power_entry_calm [OF e(1)]]
    show ?thesis using e(2,3) c(1,4) d by (simp add: same_control_def put_thread_def)
  next
    case (Running l)
    then show ?thesis using w t d by (auto simp: wait_exit_def power_thread_def power_thread_finish_def)
  next
    case Exited
    then show ?thesis using w t d by (simp add: wait_exit_def list_update_same_conv [THEN iffD2])
  qed
qed

lemma power_stop_kept:
  assumes k: "power_kept cs s" and run: "g_is_thread_running s" and st: "wos_power_backend_stop env (Some rq) s = Ret (rc, s')"
  shows "power_kept cs s' \<and> \<not> g_rails_initialized s' \<and> w_open s' = []"
proof -
  let ?s = "(POWER_SEND LEVEL_DEBUG ''Stopping profiling'' s)\<lparr>g_is_thread_running := False\<rparr>"
  obtain t where h: "th_handle (g_thread_info s) = Thread t" using k run by (auto simp: power_kept_def flagged_def split: thread_handle.splits)
  obtain x s1 where w: "wait_exit (power_thread env) t ?s = Ret (x, s1)"
    using st run h by (auto simp: wos_power_backend_stop_def Let_def thread_join_def outcome_simps)
  have "\<not> g_is_thread_running ?s" "power_ready_on cs ?s" using k by (simp_all add: power_kept_def)
  note w1 = power_wait_kept [OF w this(1), of cs] this(2)
  have a: "wait_exit (power_thread env) t ?s = Ret (0, s1)" "sn_threads s1 = (sn_threads s)[t := Exited]"
    "g_thread_info s1 = g_thread_info s" "\<not> g_is_thread_running s1" "power_ready_on cs s1" using w w1 by simp_all
  from power_stop_after [OF run h a, of rq] st
  have "power_ready_on cs s'" "joined t s s'" "\<not> g_rails_initialized s'" "w_open s' = []" by auto
  then show ?thesis using k flagged_joined [of "\<lambda>_ _. True" s t s'] h by (simp add: power_kept_def)
qed

lemma power_iterate_kept:
  assumes "power_thread_iterate env l s = Ret (l', s')"
  shows "same_control s s'" "power_ready_on cs s \<Longrightarrow> power_ready_on cs s'"
proof -
  obtain l1 s1 where 1: "power_sample env (win_now (pe_now env) (pl_current_time l))
      (l\<lparr>pl_current_time := win_now (pe_now env) (pl_current_time l)\<rparr>) s = Ret (l1, s1)"
    using assms by (auto simp: power_thread_iterate_def Let_def outcome_simps)
  obtain l2 s2 where 2: "power_stream env l1 s1 = (l2, s2)" by fastforce
  have s': "s' = s2" using assms 1 2 by (auto simp: power_thread_iterate_def Let_def)
  have "power_ready_on cs s2 = power_ready_on cs s1" using 2 by (auto simp: power_stream_def Let_def split: if_splits option.splits)
  then show "power_ready_on cs s \<Longrightarrow> power_ready_on cs s'" using quiet_ready(1) [OF power_sample_quiet [OF 1]] s' by simp
  show "same_control s s'"
    using quiet_control [OF power_sample_quiet [OF 1]] power_stream_control [OF 2] same_control_trans s' by metis
qed

lemma power_step_kept:
  assumes k: "power_kept cs s" and v: "request_valid any_request ev s" and st: "power_step ev s = Ret s'"
  shows "power_kept cs s'"
proof (cases ev)
  case (CallStart q)
  obtain rc s1 where s1: "wos_power_backend_start q s = Ret (rc, s1)" "power_ready_on cs s1"
    "if rc = SUCCESS
      then \<exists>rq. q = Some rq \<and> \<not> g_is_thread_running s \<and> g_is_thread_running s1 \<and>
             th_handle (g_thread_info s1) = Thread (length (sn_threads s)) \<and> sn_threads s1 = sn_threads s @ [Spawned q] \<and>
             g_rails_initialized s1 \<and> g_sources_enablement_mapping s1
      else same_control s s1"
    using power_start_total [of cs s "\<lambda>_ _. True" q] k by (auto simp: power_kept_def)
  then have "same_control s s1 \<or> launched (\<lambda>_ _. True) s s1" by (auto simp: launched_def split: if_splits)
  then show ?thesis
    using s1(1,2) st CallStart k power_kept_same flagged_launched [of "\<lambda>_ _. True" s s1] by (auto simp: power_kept_def)
next
  case (CallStop e q)
  then obtain rc where sp: "wos_power_backend_stop e q s = Ret (rc, s')" using st by (auto simp: outcome_simps)
  show ?thesis
  proof (cases "\<not> g_is_thread_running s \<or> q = None")
    case True
    then have "quiet s s'" using power_stop_light [OF True, of e] sp by auto
    then show ?thesis using k quiet_control quiet_ready(1) power_kept_same unfolding power_kept_def by blast
  next
    case False
    then show ?thesis using power_stop_kept [OF k _] sp by auto
  qed
next
  case (Begin e t)
  then have t: "t < length (sn_threads s)" using v by simp
  show ?thesis
  proof (cases "sn_threads s ! t")
    case (Spawned q)
    then obtain lo s1 where e: "power_thread_entry e q s = Ret (lo, s1)" "s' = put_thread t (case lo of None \<Rightarrow> Exited | Some l \<Rightarrow> Running l) s1"
      using st Begin by (auto simp: thread_begin_def power_thread_def outcome_simps)
    note c = calm_facts [OF power_entry_calm [OF e(1)]]
    have "flagged (\<lambda>_ _. True) s'" unfolding e(2)
      using k t Spawned c(1) by (intro flagged_put) (auto simp: power_kept_def split: option.split)
    then show ?thesis using k e(2) c(4) by (simp add: power_kept_def)
  qed (use st Begin k in \<open>simp_all add: thread_begin_def\<close>)
next
  case (Iterate e t)
  then have t: "t < length (sn_threads s)" using v by simp
  show ?thesis
  proof (cases "\<exists>l. sn_threads s ! t = Running l \<and> g_is_thread_running s")
    case True
    then obtain l l' s1 where i: "sn_threads s ! t = Running l" "power_thread_iterate e l s = Ret (l', s1)" "s' = put_thread t (Running l') s1"
      using st Iterate by (auto simp: thread_iterate_def outcome_simps)
    have "flagged (\<lambda>_ _. True) s'" unfolding i(3)
      using k t i(1) power_iterate_kept(1) [OF i(2)] by (intro flagged_put) (auto simp: power_kept_def)
    then show ?thesis using k i(3) power_iterate_kept(2) [OF i(2)] by (simp add: power_kept_def)
  next
    case False
    then show ?thesis using st Iterate k by (auto simp: thread_iterate_def split: thread_status.splits if_splits)
  qed
next
  case (Leave e t)
  then have t: "t < length (sn_threads s)" using v by simp
  show ?thesis
  proof (cases "\<exists>l. sn_threads s ! t = Running l \<and> \<not> g_is_thread_running s")
    case True
    then have i: "s' = put_thread t Exited s" "sn_threads s ! t \<noteq> Exited"
      using st Leave by (auto simp: thread_leave_def power_thread_def power_thread_finish_def)
    have "flagged (\<lambda>_ _. True) s'" unfolding i(1)
      using k t i(2) by (intro flagged_put) (auto simp: power_kept_def same_control_def)
    then show ?thesis using k i(1) by (simp add: power_kept_def)
  next
    case False
    then show ?thesis using st Leave k by (auto simp: thread_leave_def split: thread_status.splits if_splits)
  qed
qed

lemma power_reaches_kept: "reaches (request_valid any_request) power_step s s' \<Longrightarrow> power_kept cs s \<Longrightarrow> power_kept cs s'"
  by (induction rule: reaches.induct) (auto dest: power_step_kept)

text \<open>A machine called \<open>m\<close> with the counters \<open>cs\<close>, and the backend connected to it: initialised and with its callback.\<close>

definition windows_machine :: "string \<Rightarrow> string list \<Rightarrow> bool" where
  "windows_machine m cs \<longleftrightarrow> machine_name m \<and> list_all counter_text cs"

definition power_connected :: "string \<Rightarrow> string list \<Rightarrow> u32 option list \<Rightarrow> oom \<Rightarrow> callback \<Rightarrow> power_state outcome" where
  "power_connected m cs statuses faults cb =
     obind (wos_power_backend_init (initial_power (counter_block m cs) statuses faults)) (\<lambda>(rc, s).
       if rc = SUCCESS then Ret (snd (wos_power_backend_set_data_callback cb s)) else Stuck NoReturn)"

lemma initial_power_ok:
  assumes "windows_machine m cs"
  shows "offers (initial_power (counter_block m cs) sts f) cs" "rails_ok (initial_power (counter_block m cs) sts f)"
    "\<not> g_rails_initialized (initial_power (counter_block m cs) sts f)"
  using assms by (auto simp: windows_machine_def offers_def initial_power_def session.defs rails_ok_def query_ok_def list_all_iff)

lemma power_connected_ready:
  assumes c: "power_connected m cs sts f cb = Ret s" and m: "windows_machine m cs"
  shows "power_ready_on cs s" "\<not> g_is_thread_running s" "th_handle (g_thread_info s) = NoThread" "sn_threads s = []"
    "g_data_callback s = cb" "\<not> g_rails_initialized s" "sts = [] \<and> f = [] \<Longrightarrow> sn_faults s = [] \<and> w_statuses s = []"
proof -
  let ?i = "initial_power (counter_block m cs) sts f"
  obtain rc s1 where i: "wos_power_backend_init ?i = Ret (rc, s1)" "same_control ?i s1" "rails_ok s1" "\<not> g_rails_initialized s1"
    "offers s1 cs" "rc = SUCCESS \<and> power_registered cs s1 \<or> rc = CALLOC_FAILED \<and> no_table s1 \<or>
      rc = FAILED \<and> bi_capabilities_list (g_backend_info s1) \<noteq> None"
    "sn_faults ?i = [] \<and> w_statuses ?i = [] \<longrightarrow> rc = (if machine_rails cs = [] then FAILED else SUCCESS) \<and> sn_faults s1 = [] \<and> w_statuses s1 = []"
    using power_init_total [OF initial_power_ok [OF m], of sts f] by blast
  have rc: "rc = SUCCESS" "s = s1\<lparr>g_data_callback := cb\<rparr>"
    using c i(1) by (auto simp: power_connected_def wos_power_backend_set_data_callback_def split: if_splits)
  have n: "g_rail_counters_requested s1 = None" using i(3,4) by (auto simp: rails_ok_def split: option.splits)
  have "power_ready_on cs s1" using i n rc(1) by (simp add: power_ready_on_def requested_rails_def)
  then show "power_ready_on cs s" by (simp add: rc(2))
  show "\<not> g_is_thread_running s" "th_handle (g_thread_info s) = NoThread" "sn_threads s = []"
    "g_data_callback s = cb" "\<not> g_rails_initialized s" "sts = [] \<and> f = [] \<Longrightarrow> sn_faults s = [] \<and> w_statuses s = []"
    using i rc by (simp_all add: same_control_def initial_power_def session.defs initial_session_def zero_thread_info_def)
qed

lemma power_connected_live:
  assumes c: "power_connected m cs sts f cb = Ret s" and m: "windows_machine m cs" "fallback_machine cs"
  shows "pw.live s"
proof (rule pw.live_idle)
  note r = power_connected_ready [OF c m(1)]
  show "all_ended s" "pw.steady s" "ready_power s"
    using r(1-4) m(2) by (auto simp: pw.steady_def flagged_def all_ended_def ready_power_def)
qed

lemma power_connected_kept: "power_connected m cs sts f cb = Ret s \<Longrightarrow> windows_machine m cs \<Longrightarrow> power_kept cs s"
  using power_connected_ready [of m cs sts f cb s] by (simp add: power_kept_def flagged_def all_ended_def)

lemma power_connects:
  assumes m: "windows_machine m cs" and r: "machine_rails cs \<noteq> []"
  shows "\<exists>s. power_connected m cs [] [] cb = Ret s"
proof -
  let ?i = "initial_power (counter_block m cs) [] []"
  have "sn_faults ?i = []" "w_statuses ?i = []" by (simp_all add: initial_power_def session.defs initial_session_def)
  then obtain s1 where "wos_power_backend_init ?i = Ret (SUCCESS, s1)" using power_init_total [OF initial_power_ok [OF m], of "[]" "[]"] r by auto
  then show ?thesis by (simp add: power_connected_def)
qed

section \<open>The loop\<close>

text \<open>
  For \<open>n\<close> more rounds: the array has room for every metric of every sample of a batch, and the samples counted so
  far have filled at most their share. An empty batch does not reset the count, which then may pass the number of
  samples and, after 65535 rounds without a value, wrap.
\<close>

definition power_loop_inv :: "nat \<Rightarrow> power_local \<Rightarrow> power_state \<Rightarrow> (u16 \<times> u64 \<times> reading) list \<Rightarrow> bool" where
  "power_loop_inv n l s xs \<longleftrightarrow> (\<exists>cs. power_ready_on cs s \<and> fallback_machine cs \<and>
       unat (pl_allocated l) = unat (pl_sample_count l) * length (machine_rails cs) \<and>
       length xs \<le> unat (pl_current_sample l) * length (machine_rails cs)) \<and>
     resp_ok (pl_response l) \<and> filled (pl_allocated l) (power_buffer l) xs \<and> pd_backend_id (pl_data l) = 3 \<and> g_data_callback s \<noteq> None \<and>
     0 < unat (pl_sample_count l) \<and> unat (pl_current_sample l) + n < 65536 \<and> (xs = [] \<or> unat (pl_current_sample l) < unat (pl_sample_count l))"

definition power_delivery_ok :: "power_state \<Rightarrow> nat \<times> QcPerfData \<Rightarrow> bool" where
  "power_delivery_ok s p \<longleftrightarrow> g_data_callback s = Some (fst p) \<and> 0 < pd_metric_response_len (snd p) \<and> pd_backend_id (snd p) = 3"

lemma power_out_length:
  assumes "power_ready_on cs s"
  shows "length (fst (power_view s e t)) \<le> length (machine_rails cs)"
proof -
  have k: "rails_ok s" "\<forall>ca. g_rail_counters_requested s = Some ca \<longrightarrow> length ca = length (machine_rails cs)"
    using assms by (simp_all add: power_ready_on_def)
  have "length (collected env s) \<le> length (machine_rails cs)" for env
  proof (cases "g_rail_counters_requested s")
    case None
    then show ?thesis by (simp add: collected_def)
  next
    case (Some ca)
    then show ?thesis using collected_length [OF k(1) Some, of env] k(2) by simp
  qed
  then show ?thesis by (simp add: power_view_def power_out_def rail_readings_def Let_def)
qed

lemma power_view_kept: "quiet (s\<lparr>sn_data := ds\<rparr>) s' \<Longrightarrow> power_view s' = power_view s"
proof -
  assume q: "quiet (s\<lparr>sn_data := ds\<rparr>) s'"
  have "collected env s' = collected env s" for env
    using quiet_ready(3) [OF q, of env] by (simp add: collected_def split: option.split)
  moreover have "g_sources_enablement_mapping s' = g_sources_enablement_mapping s" using q by (auto simp: quiet_def)
  ultimately show ?thesis by (simp add: power_view_def)
qed

lemma power_round_law:
  assumes inv: "power_loop_inv (Suc n) l s xs"
  shows "\<exists>l' s' ys bs. power_thread_iterate e l s = Ret (l', s') \<and> power_loop_inv n l' s' ys \<and> sn_data s' = sn_data s @ bs \<and>
     concat (map (\<lambda>p. batch_readings (snd p)) bs) @ ys = xs @ fst (power_view s e (pl_current_time l)) \<and>
     pl_current_time l' = snd (power_view s e (pl_current_time l)) \<and>
     power_view s' = power_view s \<and> g_data_callback s' = g_data_callback s \<and> (\<forall>d \<in> set bs. power_delivery_ok s d)"
proof -
  let ?out = "power_view s e (pl_current_time l)" and ?j = "unat (pl_current_sample l)" and ?c = "unat (pl_sample_count l)"
  note i = inv [unfolded power_loop_inv_def]
  obtain cs where cs: "power_ready_on cs s" "fallback_machine cs" "unat (pl_allocated l) = ?c * length (machine_rails cs)"
    "length xs \<le> ?j * length (machine_rails cs)" using i by blast
  let ?N = "length (machine_rails cs)"
  obtain cb where cb: "g_data_callback s = Some cb" using i by blast
  have ok: "rails_ok s" "fallback_safe s" using cs ready_fallback by (auto simp: power_ready_on_def)
  have c0: "0 < ?c" and j: "?j + Suc n < 65536" and or: "xs = [] \<or> ?j < ?c" and rf: "resp_ok (pl_response l)"
    "filled (pl_allocated l) (power_buffer l) xs" "pd_backend_id (pl_data l) = 3" using i by blast+
  have N: "0 < ?N" using cs(1) by (simp add: power_ready_on_def power_registered_def)
  have len: "length (xs @ fst ?out) \<le> Suc ?j * ?N" using cs(4) power_out_length [OF cs(1), of e "pl_current_time l"] by simp
  have fits: "length (xs @ fst ?out) \<le> unat (pl_allocated l)"
  proof (cases "xs = []")
    case True
    have "?N \<le> ?c * ?N" using c0 by simp
    from le_trans [OF power_out_length [OF cs(1)] this] show ?thesis using True cs(3) by simp
  next
    case False
    then have "Suc ?j * ?N \<le> ?c * ?N" using or by (intro mult_le_mono1) simp
    then show ?thesis using len cs(3) by simp
  qed
  have u: "unat (pl_current_sample l + 1) = Suc ?j" using j by (simp add: unat_word_ariths)
  obtain l' s' ys bs where 1: "power_thread_iterate e l s = Ret (l', s')" "resp_ok (pl_response l')" "pl_current_time l' = snd ?out"
     "pl_allocated l' = pl_allocated l" "pl_sample_count l' = pl_sample_count l" "pd_backend_id (pl_data l') = pd_backend_id (pl_data l)"
     "filled (pl_allocated l) (power_buffer l') ys" "sn_data s' = sn_data s @ bs" "quiet (s\<lparr>sn_data := sn_data s @ bs\<rparr>) s'"
     "bs = [] \<and> ys = xs @ fst ?out \<and> pl_current_sample l' = pl_current_sample l + 1 \<and>
        (ucast (pl_current_sample l + 1) < pl_sample_count l \<or> min (length ys) (unat (pl_allocated l)) = 0) \<or>
      ys = [] \<and> pl_current_sample l' = 0 \<and> power_hands_over l s (xs @ fst ?out) bs"
    using power_iterate_readings [OF ok rf(1,2), of e] by blast
  have fr: "power_ready_on cs s'" "g_data_callback s' = g_data_callback s"
    using quiet_ready(1) [OF 1(9), of cs] cs(1) 1(9) by (auto simp: quiet_def)
  note v = power_view_kept [OF 1(9)]
  from 1(10) show ?thesis
  proof (rule disjE)
    assume a: "bs = [] \<and> ys = xs @ fst ?out \<and> pl_current_sample l' = pl_current_sample l + 1 \<and>
        (ucast (pl_current_sample l + 1) < pl_sample_count l \<or> min (length ys) (unat (pl_allocated l)) = 0)"
    have "ys = [] \<or> unat (pl_current_sample l') < ?c"
    proof (cases "ucast (pl_current_sample l + 1) < pl_sample_count l")
      case True
      moreover have "unat (ucast (pl_current_sample l + 1) :: u32) = Suc ?j"
        using u j by (simp add: unsigned_ucast_eq take_bit_nat_eq_self)
      ultimately show ?thesis using a u by (simp add: word_less_nat_alt)
    next
      case False
      have "0 < unat (pl_allocated l)" using cs(3) c0 N by simp
      then show ?thesis using a False by (auto simp: min_def split: if_splits)
    qed
    then have "power_loop_inv n l' s' ys" unfolding power_loop_inv_def using 1 a fr cs rf(3) cb c0 j len u
      by (intro conjI exI [of _ cs]) simp_all
    then show ?thesis using 1 a fr v by (intro exI [of _ l'] exI [of _ s'] exI [of _ ys] exI [of _ "[]"]) simp
  next
    assume a: "ys = [] \<and> pl_current_sample l' = 0 \<and> power_hands_over l s (xs @ fst ?out) bs"
    then obtain d where d: "bs = [(cb, d)]" "batch_readings d = xs @ fst ?out" "0 < pd_metric_response_len d" "pd_backend_id d = 3"
      using cb fits rf(3) by (auto simp: power_hands_over_def)
    have "power_loop_inv n l' s' ys" unfolding power_loop_inv_def using 1 a fr cs rf(3) cb c0 j
      by (intro conjI exI [of _ cs]) simp_all
    moreover have "power_delivery_ok s (cb, d)" using d cb by (simp add: power_delivery_ok_def)
    ultimately show ?thesis using 1 a d fr v by (intro exI [of _ l'] exI [of _ s'] exI [of _ ys] exI [of _ bs]) simp
  qed
qed

interpretation pwl: counted_loop power_thread_iterate power_loop_inv "\<lambda>e l s. True" "\<lambda>l. power_view" "\<lambda>l s. pl_current_time l"
  sn_data "\<lambda>p. batch_readings (snd p)" "\<lambda>l. power_delivery_ok"
proof unfold_locales
  fix n l s xs e
  assume "power_loop_inv (Suc n) l s xs"
  from power_round_law [OF this, of e]
  show "\<exists>l' s' ys bs. power_thread_iterate e l s = Ret (l', s') \<and> power_loop_inv n l' s' ys \<and> sn_data s' = sn_data s @ bs \<and>
     concat (map (\<lambda>p. batch_readings (snd p)) bs) @ ys = xs @ fst (power_view s e (pl_current_time l)) \<and>
     pl_current_time l' = snd (power_view s e (pl_current_time l)) \<and>
     power_view s' = power_view s \<and> power_delivery_ok s' = power_delivery_ok s \<and>
     (\<forall>f :: power_env. True = True) \<and> (\<forall>d\<in>set bs. power_delivery_ok s d)"
    by (elim exE) (rule exI, rule exI, rule exI, rule exI, auto simp: power_delivery_ok_def fun_eq_iff)
qed

definition power_pending :: "power_local \<Rightarrow> (u16 \<times> u64 \<times> reading) list" where
  "power_pending l = map response_reading (take (unat (pl_index l)) (pd_metric_response (pl_data l)))"

lemma power_loop_inv_pending: "power_loop_inv n l s xs \<Longrightarrow> power_pending l = xs"
proof -
  assume i: "power_loop_inv n l s xs"
  then obtain N where N: "unat (pl_allocated l) = unat (pl_sample_count l) * N" "length xs \<le> unat (pl_current_sample l) * N"
    by (auto simp: power_loop_inv_def)
  have "length xs \<le> unat (pl_allocated l)"
  proof (cases "xs = []")
    case False
    then have "unat (pl_current_sample l) * N \<le> unat (pl_sample_count l) * N" using i by (intro mult_le_mono1) (simp add: power_loop_inv_def)
    from le_trans [OF N(2) this] show ?thesis using N(1) by simp
  qed simp
  then show ?thesis using i unfolding power_loop_inv_def filled_def power_buffer_def power_pending_def by auto
qed

lemma power_enters_loop:
  assumes r: "ready_power s" and cb: "g_data_callback s = Some cb" and e: "power_thread_entry env (Some rq) s = Ret (Some l, s1)" and n: "n < 65536"
  shows "power_loop_inv n l s1 []" "g_data_callback s1 = Some cb" "power_view s1 = power_view s" "sn_data s1 = sn_data s"
proof -
  obtain cs where cs: "power_ready_on cs s" "fallback_machine cs" using r by (auto simp: ready_power_def)
  obtain lo s2 where t: "power_thread_entry env (Some rq) s = Ret (lo, s2)" "calm s s2"
    "\<forall>l. lo = Some l \<longrightarrow> (\<exists>q. Some rq = Some q \<and> unat (pl_sample_count l) = power_batch q \<and>
        unat (pl_allocated l) = power_batch q * length (machine_rails cs) \<and> pl_index l = 0 \<and> pl_current_sample l = 0 \<and>
        resp_ok (pl_response l) \<and> pd_backend_id (pl_data l) = 3 \<and> length (pd_metric_response (pl_data l)) = unat (pl_allocated l))"
    using power_entry_total [OF cs, of env "Some rq"] by blast
  have s1: "lo = Some l" "s2 = s1" using e t(1) by simp_all
  note c = calm_facts [OF t(2) [unfolded s1(2)]]
  have l: "unat (pl_sample_count l) = power_batch rq" "unat (pl_allocated l) = power_batch rq * length (machine_rails cs)" "pl_index l = 0"
    "pl_current_sample l = 0" "resp_ok (pl_response l)" "pd_backend_id (pl_data l) = 3" "length (pd_metric_response (pl_data l)) = unat (pl_allocated l)"
    using t(3) s1(1) by blast+
  show "g_data_callback s1 = Some cb" using c(2) cb by (simp add: power_frame_def)
  moreover have "filled (pl_allocated l) (power_buffer l) []" unfolding power_buffer_def l(3) by (rule filled_fresh [OF l(7)])
  ultimately show "power_loop_inv n l s1 []" unfolding power_loop_inv_def using l c(4) cs n power_batch_bounds [of rq]
    by (intro conjI exI [of _ cs]) simp_all
  show "power_view s1 = power_view s" using c(5,6) by (simp add: power_view_def)
  show "sn_data s1 = sn_data s" by (rule c(3))
qed

section \<open>Properties\<close>

text \<open>A machine with seven counters for the witnesses.\<close>

definition demo_counters :: "string list" where
  "demo_counters = map (\<lambda>k. rail_path (g_counter_instances ! k)) [0, 1, 2, 3, 6, 8, 9]"

definition demo_power_env :: power_env where
  "demo_power_env = \<lparr>pe_start = (0, 1000), pe_now = (10, 1000), pe_end = (20, 1000), pe_restart = (30, 1000),
     pe_rails = \<lparr>re_collect = 0, re_value = \<lambda>c. (0, 5)\<rparr>, pe_closes = True\<rparr>"

definition demo_power_request :: QcPerfRequest where
  "demo_power_request = \<lparr>rq_capability_id = 0, rq_streaming_rate = 200, rq_sampling_rate = 100\<rparr>"

lemma demo_machine: "windows_machine ''PC'' demo_counters"
  by (simp add: windows_machine_def machine_name_def demo_counters_def counter_text_def rail_path_def g_counter_instances_def)

lemma demo_rails: "machine_rails demo_counters = [RAIL_CPU_CLUSTER_0, RAIL_CPU_CLUSTER_1, RAIL_CPU_CLUSTER_2, RAIL_GPU, RAIL_SYSTEM, RAIL_ROP, RAIL_NSP]"
  by (simp add: machine_rails_def power_rails_def offered_def demo_counters_def rail_instance_def rail_path_def g_counter_instances_def)

lemma demo_fallback: "fallback_machine demo_counters"
  by (simp add: fallback_machine_def demo_rails)

lemma demo_power_connects: "\<exists>s. power_connected ''PC'' demo_counters [] [] (Some 1) = Ret s"
  by (rule power_connects [OF demo_machine]) (simp add: demo_rails)

text \<open>C29: Sessions of the power backend for Windows never get stuck on a machine that has the counter of \<open>SYSTEM\<close>, or
  not the one of \<open>SYS\<close>, or at least seven of the counters: starts, stops and the scheduler's steps in any order
  and number return, with any request, whatever allocations and calls of the PDH library fail and whatever the
  counters answer.\<close>
theorem power_sessions_never_stuck:
  assumes "power_connected m cs statuses faults cb = Ret s" "windows_machine m cs" "fallback_machine cs"
  shows "session_safe (request_valid any_request) (session_step wos_power_backend_start wos_power_backend_stop power_thread power_thread_iterate) evs s"
  by (rule pw.live_safe [OF power_connected_live [OF assms]])

theorem power_sessions_never_stuck_witness:
  "\<exists>s. power_connected ''PC'' demo_counters [] [] (Some 1) = Ret s \<and>
     session_safe (request_valid any_request) (session_step wos_power_backend_start wos_power_backend_stop power_thread power_thread_iterate)
       [CallStart (Some demo_power_request), Begin demo_power_env 0, Iterate demo_power_env 0, CallStart None,
        CallStop demo_power_env (Some demo_power_request)] s"
  using demo_power_connects power_sessions_never_stuck [OF _ demo_machine demo_fallback] by blast

text \<open>C30: On any machine, in every state that starts, stops and steps of the scheduler reach from a connected power backend
  for Windows, at most one query of the PDH library is open, exactly while the telemetry is initialised, and it is
  the one in \<open>g_h_query\<close>; a \<open>stop\<close> that ends a session closes it whenever it returns, and it does return on a machine
  that has the counter of \<open>SYSTEM\<close>, or not the one of \<open>SYS\<close>, or at least seven of the counters.\<close>
theorem power_queries_accounted:
  assumes "power_connected m cs statuses faults cb = Ret s" "windows_machine m cs"
    and "reaches (request_valid any_request)
       (session_step wos_power_backend_start wos_power_backend_stop power_thread power_thread_iterate) s s'"
  shows "w_open s' = (if g_rails_initialized s' then [the (g_h_query s')] else []) \<and>
     (g_is_thread_running s' \<longrightarrow>
        (\<forall>rc s''. wos_power_backend_stop env (Some rq) s' = Ret (rc, s'') \<longrightarrow> w_open s'' = [] \<and> \<not> g_rails_initialized s'') \<and>
        (fallback_machine cs \<longrightarrow> (\<exists>rc s''. wos_power_backend_stop env (Some rq) s' = Ret (rc, s''))))"
proof -
  have k: "power_kept cs s'" by (rule power_reaches_kept [OF assms(3) power_connected_kept [OF assms(1,2)]])
  then have "rails_ok s'" by (simp add: power_kept_def power_ready_on_def)
  moreover have "\<exists>rc s''. wos_power_backend_stop env (Some rq) s' = Ret (rc, s'')" if run: "g_is_thread_running s'" and fb: "fallback_machine cs"
  proof -
    obtain t where t: "th_handle (g_thread_info s') = Thread t" "t < length (sn_threads s')"
      using k run by (auto simp: power_kept_def flagged_def split: thread_handle.splits)
    have "ready_power s'" using k fb by (auto simp: power_kept_def ready_power_def)
    from power_stop_joins [OF this run t, of env rq] show ?thesis by blast
  qed
  ultimately show ?thesis using power_stop_kept [OF k, of env rq] by (auto simp: rails_ok_def query_ok_def split: option.splits)
qed

theorem power_queries_accounted_witness:
  "\<exists>s s' s''. power_connected ''PC'' demo_counters [] [] (Some 1) = Ret s \<and>
     wos_power_backend_start (Some demo_power_request) s = Ret (SUCCESS, s') \<and> w_open s' = [the (g_h_query s')] \<and>
     wos_power_backend_stop demo_power_env (Some demo_power_request) s' = Ret (SUCCESS, s'') \<and> w_open s'' = []"
proof -
  obtain s where s: "power_connected ''PC'' demo_counters [] [] (Some 1) = Ret s" using demo_power_connects by blast
  note r = power_connected_ready [OF s demo_machine]
  have f: "flagged (\<lambda>_ _. True) s" using r(2-4) by (simp add: flagged_def all_ended_def)
  obtain s' where s': "wos_power_backend_start (Some demo_power_request) s = Ret (SUCCESS, s')" "g_is_thread_running s'" "g_rails_initialized s'"
    "power_ready_on demo_counters s'" "th_handle (g_thread_info s') = Thread 0" "length (sn_threads s') = 1"
    using power_start_total [OF r(1) f, of "Some demo_power_request"] r by auto
  have "reaches (request_valid any_request) power_step s s'"
    by (rule reaches_step [where ev = "CallStart (Some demo_power_request)", OF reaches_refl]) (simp_all add: s'(1))
  from power_queries_accounted [OF s demo_machine this, of demo_power_env demo_power_request]
  have q: "w_open s' = [the (g_h_query s')]" using s'(3) by simp
  have "ready_power s'" using s'(4) demo_fallback by (auto simp: ready_power_def)
  then obtain s'' where "wos_power_backend_stop demo_power_env (Some demo_power_request) s' = Ret (SUCCESS, s'')" "w_open s'' = []"
    using power_stop_joins [OF _ s'(2,5), of demo_power_env demo_power_request] s'(6) by (auto simp: demo_power_env_def)
  then show ?thesis using s s'(1) q by blast
qed

text \<open>C31: For a backend initialised on a machine that has the counter of \<open>SYSTEM\<close>, or not the one of \<open>SYS\<close>, or at least
  seven of the counters, with a data callback registered: over fewer than 65536 rounds after the power thread has
  entered its loop, whatever the counters answer, what the thread has handed to the callback, in
  batches that are never empty, followed by what it still holds, is what the reference reports: every value of
  every collection that succeeded, under the metric of its rail, each once and in order.\<close>
theorem power_thread_equals_reference:
  assumes "power_ready_on cs s" "fallback_machine cs" "g_data_callback s = Some cb"
    and "power_thread_entry env (Some rq) s = Ret (Some l, s1)" "length es < 65536"
  shows "\<exists>l' s' bs. run_rounds power_thread_iterate es l s1 = Ret (l', s') \<and> sn_data s' = sn_data s @ map (Pair cb) bs \<and>
     concat (map batch_readings bs) @ power_pending l' = reference_readings (power_view s) es (pl_current_time l) \<and>
     (\<forall>d \<in> set bs. 0 < pd_metric_response_len d \<and> pd_backend_id d = 3)"
proof -
  have "ready_power s" using assms(1,2) by (auto simp: ready_power_def)
  note e = power_enters_loop [OF this assms(3-5)]
  obtain l' s' ys bs where r: "run_rounds power_thread_iterate es l s1 = Ret (l', s')" "power_loop_inv 0 l' s' ys" "sn_data s' = sn_data s1 @ bs"
    "concat (map (\<lambda>p. batch_readings (snd p)) bs) @ ys = [] @ reference_readings (power_view s1) es (pl_current_time l)"
    "\<forall>d \<in> set bs. power_delivery_ok s1 d"
    using pwl.rounds_law [OF e(1)] by blast
  have m: "bs = map (Pair cb) (map snd bs)" using r(5) e(2) by (induction bs) (auto simp: power_delivery_ok_def)
  show ?thesis
  proof (intro exI conjI)
    show "sn_data s' = sn_data s @ map (Pair cb) (map snd bs)" using r(3) e(4) m by simp
    show "concat (map batch_readings (map snd bs)) @ power_pending l' = reference_readings (power_view s) es (pl_current_time l)"
      using r(4) e(3) power_loop_inv_pending [OF r(2)] by (simp add: comp_def)
    show "\<forall>d \<in> set (map snd bs). 0 < pd_metric_response_len d \<and> pd_backend_id d = 3"
      using r(5) by (auto simp: power_delivery_ok_def)
  qed (rule r(1))
qed

text \<open>Counters that all have the same value.\<close>

lemma collected_constant:
  assumes "rails_ok s" "re_collect env = ERROR_SUCCESS" "\<And>c. re_value env c = (ERROR_SUCCESS, v)"
  shows "collected env s = map (\<lambda>r. (r, v)) (requested_rails s)"
proof (cases "g_rail_counters_requested s")
  case (Some ca)
  let ?xs = "take (unat (g_rail_counters_requested_length s)) ca"
  have k: "counters_ok ca (unat (g_rail_counters_requested_length s))" using assms(1) Some by (simp add: rails_ok_def)
  have "\<forall>c \<in> set ?xs. rc_counter c \<noteq> None"
  proof
    fix c assume "c \<in> set ?xs"
    then obtain i where "i < unat (g_rail_counters_requested_length s)" "i < length ca" "c = ca ! i" by (auto simp: in_set_conv_nth)
    then show "rc_counter c \<noteq> None" using k by (simp add: counters_ok_def)
  qed
  then have "\<forall>c \<in> set ?xs. counter_answer env ca c = (ERROR_SUCCESS, v)"
    by (auto simp: counter_answer_def PdhGetFormattedCounterValue_def assms(3))
  then show ?thesis using Some assms(2) by (simp add: collected_def requested_rails_def rail_answers_def)
qed (simp add: collected_def requested_rails_def)

theorem power_thread_equals_reference_witness:
  "\<exists>s0 s l s1 l' s' bs. power_connected ''PC'' demo_counters [] [] (Some 1) = Ret s0 \<and>
     wos_power_backend_start (Some demo_power_request) s0 = Ret (SUCCESS, s) \<and>
     power_thread_entry demo_power_env (Some demo_power_request) s = Ret (Some l, s1) \<and>
     run_rounds power_thread_iterate [demo_power_env, demo_power_env] l s1 = Ret (l', s') \<and>
     concat (map batch_readings bs) @ power_pending l' = reference_readings (power_view s) [demo_power_env, demo_power_env] (pl_current_time l) \<and>
     length (concat (map batch_readings bs) @ power_pending l') = 14"
proof -
  let ?es = "[demo_power_env, demo_power_env]"
  obtain s0 where s0: "power_connected ''PC'' demo_counters [] [] (Some 1) = Ret s0" using demo_power_connects by blast
  note r = power_connected_ready [OF s0 demo_machine]
  have f: "flagged (\<lambda>_ _. True) s0" using r(2-4) by (simp add: flagged_def all_ended_def)
  obtain s where s: "wos_power_backend_start (Some demo_power_request) s0 = Ret (SUCCESS, s)" "power_ready_on demo_counters s" "power_frame s0 s"
    "g_sources_enablement_mapping s" "sn_faults s = []"
    "requested_rails s = map (asked (g_system_rail_index s0)) (machine_rails demo_counters)"
    using power_start_total [OF r(1) f, of "Some demo_power_request"] r by auto
  have cb: "g_data_callback s = Some 1" using s(3) r(5) by (simp add: power_frame_def)
  obtain l s1 where e: "power_thread_entry demo_power_env (Some demo_power_request) s = Ret (Some l, s1)"
    using power_entry_total [OF s(2) demo_fallback, of demo_power_env "Some demo_power_request"] s(5) by auto
  have "length (collected (pe_rails demo_power_env) s) = 7"
    using collected_constant [of s "pe_rails demo_power_env" 5] s(2,6) by (simp add: power_ready_on_def demo_power_env_def demo_rails)
  then have "length (fst (power_view s demo_power_env t)) = 7" for t
    using s(4) by (simp add: power_view_def power_out_def rail_readings_def Let_def)
  then have n: "length (reference_readings (power_view s) ?es t) = 14" for t by simp
  have "length ?es < 65536" by simp
  from power_thread_equals_reference [OF s(2) demo_fallback cb e this]
  show ?thesis using s0 s(1) e n by metis
qed

end
