(* ===== verification/WosPowerFaults.thy ===== *)
theory WosPowerFaults
  imports WosPowerLive
begin

text \<open>
  What the power backend for Windows registers and opens, and two of its faults: on some machines the fallback for
  the rail \<open>SYS\<close> reads past the counters, and a thread that cannot be created locks the backend out.
\<close>

section \<open>The fallback for the rail SYS\<close>

lemma rail_values_out_of_bounds:
  "i + n \<le> length cs \<Longrightarrow> length cs \<le> 6 \<Longrightarrow> resp_ok r \<Longrightarrow> unat (rr_length r) \<le> i \<Longrightarrow> i \<le> j \<Longrightarrow> j < i + n \<Longrightarrow> rc_rail (cs ! j) = RAIL_SYS \<Longrightarrow>
     fst (PdhGetFormattedCounterValue env (rc_counter (cs ! j))) \<noteq> ERROR_SUCCESS \<Longrightarrow> rail_values env i n cs st r s = Stuck OutOfBounds"
  for s :: "('l, 'x) rails_session_scheme"
proof (induction n arbitrary: i st r s)
  case (Suc n)
  let ?c = "cs ! i" and ?k = "unat (rr_length r)"
  let ?a = "PdhGetFormattedCounterValue env (rc_counter ?c)"
  have i: "i < length cs" using Suc.prems(1) by simp
  show ?case
  proof (cases "fst ?a \<noteq> ERROR_SUCCESS \<and> rc_rail ?c = RAIL_SYS")
    case True
    then show ?thesis using i Suc.prems(2) by (simp add: Let_def arr_read_def)
  next
    case False
    then have j: "Suc i \<le> j" using Suc.prems(5,7,8) by (cases "i = j") auto
    have k: "?k < 14" using i Suc.prems(2,4) by simp
    have u: "unat (rr_length r + 1) = Suc ?k" using k by (simp add: unat_word_ariths)
    let ?r = "\<lparr>rr_rails = (rr_rails r)[?k := rc_rail ?c], rr_values = (rr_values r)[?k := snd ?a], rr_length = rr_length r + 1\<rparr>"
    have r': "resp_ok ?r" "unat (rr_length ?r) \<le> Suc i" using Suc.prems(3,4) k u by (simp_all add: resp_ok_def)
    have ih: "rail_values env (Suc i) n cs st' x s' = Stuck OutOfBounds" if "resp_ok x" "unat (rr_length x) \<le> Suc i"
      for st' x and s' :: "('l, 'x) rails_session_scheme"
      by (rule Suc.IH [OF _ Suc.prems(2) that j _ Suc.prems(7,8)]) (use Suc.prems(1,6) in simp_all)
    have ih': "rail_values env (Suc i) n cs st' r s' = Stuck OutOfBounds" "rail_values env (Suc i) n cs st' ?r s' = Stuck OutOfBounds"
      for st' and s' :: "('l, 'x) rails_session_scheme"
      using ih [OF Suc.prems(3) le_SucI [OF Suc.prems(4)]] ih [OF r'] by blast+
    have lens: "?k < length (rr_rails r)" "?k < length (rr_values r)" using k Suc.prems(3) by (simp_all add: resp_ok_def)
    show ?thesis using i False ih' lens by (auto simp: Let_def case_prod_beta)
  qed
qed simp

lemma get_info_out_of_bounds:
  assumes ok: "rails_ok s" "g_rail_counters_requested s = Some cs" and l: "length cs < 7" and sys: "RAIL_SYS \<in> set (requested_rails s)"
    and a: "re_collect env = ERROR_SUCCESS" "fst (re_value env (rail_path ''SYS'')) \<noteq> ERROR_SUCCESS"
  shows "powerTelemetry_railsGetInfo env (Some zero_rails_response) s = Stuck OutOfBounds"
proof -
  let ?n = "unat (g_rail_counters_requested_length s)"
  obtain q where q: "g_rails_initialized s" "g_h_query s = Some q" "w_open s = [q]" "counters_ok cs ?n"
    using ok by (auto simp: rails_ok_def query_ok_def)
  obtain j where j: "j < ?n" "j < length cs" "rc_rail (cs ! j) = RAIL_SYS"
    using sys ok(2) by (auto simp: requested_rails_def in_set_conv_nth)
  have "rc_counter (cs ! j) = Some (rail_path (rail_instance RAIL_SYS))" using q(4) j by (auto simp: counters_ok_def)
  then have v: "fst (PdhGetFormattedCounterValue env (rc_counter (cs ! j))) \<noteq> ERROR_SUCCESS"
    using a(2) by (simp add: PdhGetFormattedCounterValue_def rail_instance_def g_counter_instances_def)
  have n: "0 + ?n \<le> length cs" "length cs \<le> 6" using q(4) l by (simp_all add: counters_ok_def)
  have r0: "resp_ok (zero_rails_response\<lparr>rr_length := 0\<rparr>)" "unat (rr_length (zero_rails_response\<lparr>rr_length := 0\<rparr>)) \<le> 0"
    by (simp_all add: resp_ok_def zero_rails_response_def)
  have "rail_values env 0 ?n cs POWER_TELEMETRY_WARNING_INVALID_DATA (zero_rails_response\<lparr>rr_length := 0\<rparr>) s = Stuck OutOfBounds"
    by (rule rail_values_out_of_bounds [where j = j, OF n r0 _ _ j(3) v]) (use j in simp_all)
  moreover have "g_rail_counters_requested_length s \<noteq> 0" using j(1) by auto
  ultimately show ?thesis using ok(2) q a(1) by (simp add: powerTelemetry_railsGetInfo_def PdhCollectQueryData_def)
qed

text \<open>A session that has been started where nothing failed.\<close>

lemma power_started:
  assumes c: "power_connected m cs [] [] (Some cb) = Ret s" and m: "windows_machine m cs"
  shows "\<exists>s1. wos_power_backend_start (Some rq) s = Ret (SUCCESS, s1) \<and> power_ready_on cs s1 \<and> sn_threads s1 = [Spawned (Some rq)] \<and>
     g_is_thread_running s1 \<and> th_handle (g_thread_info s1) = Thread 0 \<and> g_rails_initialized s1 \<and> g_sources_enablement_mapping s1 \<and>
     sn_faults s1 = [] \<and> requested_rails s1 = map (asked (g_system_rail_index s)) (machine_rails cs)"
proof -
  note r = power_connected_ready [OF c m]
  have f: "flagged (\<lambda>_ _. True) s" using r(2-4) by (simp add: flagged_def all_ended_def)
  show ?thesis using power_start_total [OF r(1) f, of "Some rq"] r by auto
qed

lemma asked_machine:
  assumes r: "power_registered cs s"
  shows "map (asked (g_system_rail_index s)) (machine_rails cs) =
     map (\<lambda>r. if r = RAIL_SYS \<and> offered cs RAIL_SYSTEM then RAIL_SYSTEM else r) (machine_rails cs)"
  by (rule map_cong [OF refl]) (use r in \<open>auto simp: asked_def power_registered_def\<close>)

lemma power_entry_out_of_bounds:
  assumes r: "power_ready_on cs s" and i: "g_rails_initialized s" "g_sources_enablement_mapping s" "sn_faults s = []"
    and sys: "RAIL_SYS \<in> set (requested_rails s)" and l: "length (machine_rails cs) < 7"
    and a: "re_collect (pe_rails env) = ERROR_SUCCESS" "fst (re_value (pe_rails env) (rail_path ''SYS'')) \<noteq> ERROR_SUCCESS"
  shows "power_thread_entry env (Some rq) s = Stuck OutOfBounds"
proof -
  have d: "bi_capabilities_list (g_backend_info s) = Some [power_capability (machine_rails cs)]"
    using r by (simp add: power_ready_on_def power_registered_def)
  have g: "powerTelemetry_railsGetInfo (pe_rails env) (Some zero_rails_response) s' = Stuck OutOfBounds" if q: "calm s s'" for s'
  proof -
    note k = calm_facts [OF q]
    obtain f ms where x: "s' = s\<lparr>sn_faults := f, sn_messages := ms\<rparr>" using calm_eq [OF q] by blast
    have "power_ready_on cs s'" using k(4) r by simp
    then have ok: "rails_ok s'" "\<forall>ca. g_rail_counters_requested s' = Some ca \<longrightarrow> length ca = length (machine_rails cs)"
      by (simp_all add: power_ready_on_def)
    moreover obtain ca where "g_rail_counters_requested s' = Some ca" using ok(1) k(9) i(1) by (auto simp: rails_ok_def split: option.splits)
    moreover have "RAIL_SYS \<in> set (requested_rails s')" using sys unfolding x by (subst requested_cong [of _ s]) simp_all
    ultimately show ?thesis using l a by (intro get_info_out_of_bounds) auto
  qed
  show ?thesis using d i(2,3) g by (simp add: power_thread_entry_def alloc_pair Let_def case_prod_beta power_prime_def power_adjust_warning_def)
qed

text \<open>C33: On a machine that has the counter of \<open>SYS\<close>, not the one of \<open>SYSTEM\<close> and fewer than seven of the counters, a first
  collection without a value for \<open>SYS\<close>, which the code itself expects of a first call, reads outside the array
  of counters: in the thread before its loop, or at the latest when \<open>stop\<close> waits for it.\<close>
theorem power_fallback_out_of_bounds:
  assumes "power_connected m cs [] [] (Some cb) = Ret s" "windows_machine m cs"
    and "offered cs RAIL_SYS" "\<not> offered cs RAIL_SYSTEM" "length (machine_rails cs) < 7"
    and "re_collect (pe_rails env) = ERROR_SUCCESS" "fst (re_value (pe_rails env) (rail_path ''SYS'')) \<noteq> ERROR_SUCCESS"
  shows "\<exists>s1. wos_power_backend_start (Some rq) s = Ret (SUCCESS, s1) \<and>
     thread_begin (power_thread env) 0 s1 = Stuck OutOfBounds \<and> wos_power_backend_stop env (Some rq) s1 = Stuck OutOfBounds"
proof -
  have reg: "power_registered cs s" using power_connected_ready(1) [OF assms(1,2)] by (simp add: power_ready_on_def)
  obtain s1 where s1: "wos_power_backend_start (Some rq) s = Ret (SUCCESS, s1)" "power_ready_on cs s1" "sn_threads s1 = [Spawned (Some rq)]"
    "g_is_thread_running s1" "th_handle (g_thread_info s1) = Thread 0" "g_rails_initialized s1" "g_sources_enablement_mapping s1" "sn_faults s1 = []"
    "requested_rails s1 = map (asked (g_system_rail_index s)) (machine_rails cs)"
    using power_started [OF assms(1,2)] by blast
  have sys: "RAIL_SYS \<in> set (requested_rails s1)" unfolding s1(9) asked_machine [OF reg] using assms(3,4) by force
  note e = power_entry_out_of_bounds [OF _ _ _ _ _ assms(5-7), of _ rq]
  let ?s = "(POWER_SEND LEVEL_DEBUG ''Stopping profiling'' s1)\<lparr>g_is_thread_running := False\<rparr>"
  have "requested_rails ?s = requested_rails s1" by (rule requested_cong) simp_all
  then have "power_thread_entry env (Some rq) ?s = Stuck OutOfBounds" "power_thread_entry env (Some rq) s1 = Stuck OutOfBounds"
    using s1 sys by (auto intro!: e)
  then show ?thesis using s1
    by (simp add: thread_begin_def power_thread_def wos_power_backend_stop_def Let_def thread_join_def wait_exit_def)
qed

text \<open>A laptop with two of the counters, and Windows without a value for \<open>SYS\<close> at first.\<close>

definition sys_counters :: "string list" where
  "sys_counters = [rail_path ''SYS'', rail_path ''GPU'']"

lemma sys_machine: "windows_machine ''PC'' sys_counters"
  by (simp add: windows_machine_def machine_name_def sys_counters_def counter_text_def rail_path_def)

lemma sys_rails: "machine_rails sys_counters = [RAIL_GPU, RAIL_SYS]"
  by (simp add: machine_rails_def power_rails_def offered_def sys_counters_def rail_instance_def rail_path_def g_counter_instances_def)

theorem power_fallback_out_of_bounds_witness:
  "\<exists>s s1. power_connected ''PC'' sys_counters [] [] (Some 1) = Ret s \<and> wos_power_backend_start (Some demo_power_request) s = Ret (SUCCESS, s1) \<and>
     thread_begin (power_thread (demo_power_env\<lparr>pe_rails := \<lparr>re_collect = 0, re_value = \<lambda>c. (0xC0000BC6, 0)\<rparr>\<rparr>)) 0 s1 = Stuck OutOfBounds"
proof -
  let ?e = "demo_power_env\<lparr>pe_rails := \<lparr>re_collect = 0, re_value = \<lambda>c. (0xC0000BC6, 0)\<rparr>\<rparr>"
  obtain s where s: "power_connected ''PC'' sys_counters [] [] (Some 1) = Ret s"
    using power_connects [OF sys_machine] by (auto simp: sys_rails)
  have o: "offered sys_counters RAIL_SYS" "\<not> offered sys_counters RAIL_SYSTEM"
    using machine_rails_set [of RAIL_SYS sys_counters] machine_rails_set [of RAIL_SYSTEM sys_counters] by (simp_all add: sys_rails)
  have e: "re_collect (pe_rails ?e) = ERROR_SUCCESS" "fst (re_value (pe_rails ?e) (rail_path ''SYS'')) \<noteq> ERROR_SUCCESS" by simp_all
  have "length (machine_rails sys_counters) < 7" by (simp add: sys_rails)
  from power_fallback_out_of_bounds [OF s sys_machine o this e] show ?thesis using s by blast
qed

section \<open>A thread that cannot be created\<close>

text \<open>
  A start that opened the rails but could not create its thread leaves them initialised, with no thread running.
  A later start then fails because they are initialised, and a stop does nothing because no thread is running.
\<close>

definition locked_out :: "string list \<Rightarrow> power_state \<Rightarrow> bool" where
  "locked_out cs s \<longleftrightarrow> power_kept cs s \<and> g_rails_initialized s \<and> \<not> g_is_thread_running s"

lemma power_open_locked:
  assumes "g_rails_initialized s" "ri_railsLength rq \<noteq> 0"
  shows "\<exists>s'. power_open_rails rq s = Ret (FAILED, s') \<and> quiet s s'"
  using assms
  by (auto simp: power_open_rails_def powerTelemetry_railsInit_def intro!: quiet_trans [OF POWER_SEND_quiet POWER_SEND_quiet])

lemma power_start_locked:
  assumes l: "locked_out cs s"
  shows "\<exists>rc s'. wos_power_backend_start q s = Ret (rc, s') \<and> rc \<noteq> SUCCESS \<and> locked_out cs s'"
proof -
  have cs: "power_ready_on cs s" and f: "flagged (\<lambda>_ _. True) s" and b: "g_rails_initialized s" "\<not> g_is_thread_running s"
    using l by (simp_all add: locked_out_def power_kept_def)
  obtain rc s' where s': "wos_power_backend_start q s = Ret (rc, s')" "power_ready_on cs s'"
     "if rc = SUCCESS
      then \<exists>rq. q = Some rq \<and> \<not> g_is_thread_running s \<and> g_is_thread_running s' \<and>
             th_handle (g_thread_info s') = Thread (length (sn_threads s)) \<and> sn_threads s' = sn_threads s @ [Spawned q] \<and>
             g_rails_initialized s' \<and> g_sources_enablement_mapping s'
      else same_control s s'"
    using power_start_total [OF cs f, of q] by blast
  have i: "rc \<noteq> SUCCESS \<and> g_rails_initialized s'"
  proof (cases "q = None \<or> g_data_callback s = None")
    case True
    then show ?thesis using s'(1) b by (auto simp: wos_power_backend_start_def split: option.splits)
  next
    case False
    then obtain rq cb where rq: "q = Some rq" "g_data_callback s = Some cb" by auto
    let ?s = "s\<lparr>g_is_thread_running := True, g_requested_metrics_length := 0\<rparr>" and ?n = "power_capability (machine_rails cs)"
    let ?s1 = "?s\<lparr>sn_faults := snd (calloc_ok (sn_faults s))\<rparr>"
    have d: "bi_capabilities_list (g_backend_info s) = Some [?n]" and ne: "machine_rails cs \<noteq> []"
      using cs by (simp_all add: power_ready_on_def power_registered_def)
    have n0: "ri_railsLength (power_request cs ?s1) \<noteq> 0" using power_request_facts(1) [of cs ?s1] ne by (metis length_0_conv unsigned_0)
    obtain s2 where o: "power_open_rails (power_request cs ?s1) ?s1 = Ret (FAILED, s2)" "quiet ?s1 s2"
      using power_open_locked [OF _ n0, of ?s1] b by auto
    have e: "power_begin rq ?s = (if fst (calloc_ok (sn_faults s)) then Ret (FAILED, s2)
        else Ret (CALLOC_FAILED, POWER_SEND LEVEL_ERROR ''Memory allocation failed'' ?s1))"
      using d o(1) by (simp add: power_begin_def alloc_pair Let_def power_request_built)
    have "g_rails_initialized s2" using o(2) b by (auto simp: quiet_def)
    then show ?thesis using s'(1) rq b e by (auto simp: wos_power_backend_start_def split: if_splits)
  qed
  then have "locked_out cs s'" using power_kept_same [of cs s s'] l s'(2,3) by (simp add: locked_out_def same_control_def)
  then show ?thesis using s'(1) i by blast
qed

lemma locked_out_quiet: "quiet s s' \<Longrightarrow> locked_out cs s \<Longrightarrow> locked_out cs s'"
proof -
  assume q: "quiet s s'" and l: "locked_out cs s"
  then have "power_kept cs s'"
    using power_kept_same [of cs s s'] quiet_control [OF q] quiet_ready(1) [OF q] by (simp add: locked_out_def power_kept_def)
  then show "locked_out cs s'" using q l by (auto simp: locked_out_def quiet_def)
qed

lemma locked_out_reaches:
  "reaches (request_valid any_request) power_step s s' \<Longrightarrow> locked_out cs s \<Longrightarrow> locked_out cs s'"
proof (induction rule: reaches.induct)
  case (reaches_step s1 ev s2)
  then have l: "locked_out cs s1" and ok: "request_valid any_request ev s1" and st: "power_step ev s1 = Ret s2" by simp_all
  have ended: "sn_threads s1 ! t = Exited" if "t < length (sn_threads s1)" for t
    using l that by (auto simp: locked_out_def power_kept_def flagged_def all_ended_def split: thread_handle.splits)
  show ?case
  proof (cases ev)
    case (CallStart r)
    then show ?thesis using st power_start_locked [OF l, of r] by (auto simp: outcome_simps)
  next
    case (CallStop e r)
    have "\<not> g_is_thread_running s1 \<or> r = None" using l by (simp add: locked_out_def)
    from power_stop_light [OF this, of e] show ?thesis using st CallStop locked_out_quiet l by (auto simp: outcome_simps)
  next
    case (Begin e t)
    then show ?thesis using st ok l ended [of t] by (simp add: thread_begin_def)
  next
    case (Iterate e t)
    then show ?thesis using st ok l ended [of t] by (simp add: thread_iterate_def)
  next
    case (Leave e t)
    then show ?thesis using st ok l ended [of t] by (simp add: thread_leave_def)
  qed
qed simp

text \<open>C34: On any machine, when a start of the power backend for Windows, in whatever state starts, stops and steps of
  threads have brought the connected backend to, fails after it has opened the rails, because its thread cannot be
  created, then no further start succeeds, whatever starts, stops and steps of threads come in between: the rails stay
  initialised, since no stop closes them when no thread is running. (Deinitialising the backend does not close them either; it is not
  among these calls, because a start after it dereferences the table it freed.)\<close>
theorem power_failed_thread_locks_out:
  assumes "power_connected m cs statuses faults cb = Ret s0" "windows_machine m cs"
    and "reaches (request_valid any_request)
       (session_step wos_power_backend_start wos_power_backend_stop power_thread power_thread_iterate) s0 s"
    and "wos_power_backend_start (Some rq) s = Ret (FAILED, s1)" "g_rails_initialized s1"
    and "reaches (request_valid any_request)
       (session_step wos_power_backend_start wos_power_backend_stop power_thread power_thread_iterate) s1 s2"
  shows "\<exists>rc s3. wos_power_backend_start q s2 = Ret (rc, s3) \<and> rc \<noteq> SUCCESS \<and> g_rails_initialized s3 \<and> \<not> g_is_thread_running s3"
proof -
  have k: "power_kept cs s" by (rule power_reaches_kept [OF assms(3) power_connected_kept [OF assms(1,2)]])
  have "\<not> g_is_thread_running s" using assms(4) by (auto simp: wos_power_backend_start_def split: if_splits)
  moreover have "power_ready_on cs s1 \<and> same_control s s1"
    using power_start_total [of cs s "\<lambda>_ _. True" "Some rq"] k assms(4) by (auto simp: power_kept_def)
  ultimately have "locked_out cs s1" using power_kept_same [OF k, of s1] assms(5) by (simp add: locked_out_def same_control_def)
  then have "locked_out cs s2" by (rule locked_out_reaches [OF assms(6)])
  from power_start_locked [OF this, of q] show ?thesis by (auto simp: locked_out_def)
qed

definition gpu_counters :: "string list" where
  "gpu_counters = [rail_path ''GPU'']"

lemma gpu_machine: "windows_machine ''PC'' gpu_counters"
  by (simp add: windows_machine_def machine_name_def gpu_counters_def counter_text_def rail_path_def)

text \<open>The connection and what the start needs before its thread take eight allocations of the script; the ninth is that
  of \<open>thread_create\<close>, and it fails.\<close>

definition gpu_faults :: oom where
  "gpu_faults = [False, False, False, False, False, False, False, False, True]"

lemma gpu_spawn_fails:
  "case power_connected ''PC'' gpu_counters [] gpu_faults (Some 1) of
     Ret s \<Rightarrow> (case wos_power_backend_start (Some demo_power_request) s of
        Ret (rc, s1) \<Rightarrow> rc = FAILED \<and> g_rails_initialized s1 | Stuck _ \<Rightarrow> False)
   | Stuck _ \<Rightarrow> False"
  by code_simp

theorem power_failed_thread_locks_out_witness:
  "\<exists>s s1 rc s3. power_connected ''PC'' gpu_counters [] gpu_faults (Some 1) = Ret s \<and>
     wos_power_backend_start (Some demo_power_request) s = Ret (FAILED, s1) \<and>
     wos_power_backend_start (Some demo_power_request) s1 = Ret (rc, s3) \<and> rc \<noteq> SUCCESS"
proof -
  obtain s s1 where s: "power_connected ''PC'' gpu_counters [] gpu_faults (Some 1) = Ret s"
    "wos_power_backend_start (Some demo_power_request) s = Ret (FAILED, s1)" "g_rails_initialized s1"
    using gpu_spawn_fails by (auto split: outcome.splits)
  from power_failed_thread_locks_out [OF s(1) gpu_machine reaches_refl s(2,3) reaches_refl, of "Some demo_power_request"] s(1,2)
  show ?thesis by blast
qed

section \<open>What is registered and opened\<close>

text \<open>C32: Initialising the power backend registers one metric for each rail whose counter the machine lists, in the order of
  the rails and with the identifier its values carry, and nothing else; a start then opens exactly the counters of
  these rails, that of \<open>SYSTEM\<close> in the place of \<open>SYS\<close> when there are both.\<close>
theorem power_registers_rails:
  assumes "windows_machine m cs" "filter (\<lambda>r. rail_path (rail_instance r) \<in> set cs) power_rails = rs" "rs \<noteq> []"
  shows "\<exists>s c ms s1. power_connected m cs [] [] (Some cb) = Ret s \<and> bi_backend_id (g_backend_info s) = 3 \<and>
     bi_capabilities_list (g_backend_info s) = Some [c] \<and> ci_metric_ids_list c = Some ms \<and> unat (ci_metric_ids_list_len c) = length rs \<and>
     map (Some \<circ> mi_metric_id) (take (length rs) ms) = map rail_metric_id rs \<and>
     wos_power_backend_start (Some rq) s = Ret (SUCCESS, s1) \<and>
     requested_rails s1 = map (\<lambda>r. if r = RAIL_SYS \<and> RAIL_SYSTEM \<in> set rs then RAIL_SYSTEM else r) rs"
proof -
  have rs: "machine_rails cs = rs"
    unfolding machine_rails_def assms(2) [symmetric] by (rule filter_cong [OF refl]) (simp add: offered_def)
  obtain s where s: "power_connected m cs [] [] (Some cb) = Ret s" using power_connects [OF assms(1)] assms(3) rs by blast
  note r = power_connected_ready [OF s assms(1)]
  have reg: "power_registered cs s" using r(1) by (simp add: power_ready_on_def)
  obtain s1 where s1: "wos_power_backend_start (Some rq) s = Ret (SUCCESS, s1)"
    "requested_rails s1 = map (asked (g_system_rail_index s)) (machine_rails cs)"
    using power_started [OF s assms(1)] by blast
  have ids: "(Some \<circ> mi_metric_id \<circ> metric_of) r = rail_metric_id r" if "r \<in> set rs" for r
  proof -
    have "rail_index r < 14" using that rs machine_rails_known [of cs] by simp
    then show ?thesis by (cases r) (simp_all add: metric_of_def power_metric_def wos_metric_def)
  qed
  let ?c = "power_capability rs"
  have "bi_capabilities_list (g_backend_info s) = Some [?c]" "bi_backend_id (g_backend_info s) = 3"
    using reg rs by (simp_all add: power_registered_def)
  moreover have "ci_metric_ids_list ?c = Some (map metric_of rs @ replicate (16 - length rs) zero_metric_info)"
    "unat (ci_metric_ids_list_len ?c) = length rs"
    using machine_length_word [of cs] rs by (simp_all add: power_capability_def)
  moreover have "map (Some \<circ> mi_metric_id) (take (length rs) (map metric_of rs @ replicate (16 - length rs) zero_metric_info)) = map rail_metric_id rs"
    using ids by simp
  moreover have "requested_rails s1 = map (\<lambda>r. if r = RAIL_SYS \<and> RAIL_SYSTEM \<in> set rs then RAIL_SYSTEM else r) rs"
    unfolding s1(2) asked_machine [OF reg] using machine_rails_set [of RAIL_SYSTEM cs] rs by simp
  ultimately show ?thesis using s s1(1) by blast
qed

theorem power_registers_rails_witness:
  "\<exists>s s1. power_connected ''PC'' sys_counters [] [] (Some 1) = Ret s \<and>
     wos_power_backend_start (Some demo_power_request) s = Ret (SUCCESS, s1) \<and> requested_rails s1 = [RAIL_GPU, RAIL_SYS]"
proof -
  have f: "filter (\<lambda>r. rail_path (rail_instance r) \<in> set sys_counters) power_rails = [RAIL_GPU, RAIL_SYS]"
    by (simp add: power_rails_def sys_counters_def rail_instance_def rail_path_def g_counter_instances_def)
  show ?thesis using power_registers_rails [OF sys_machine f, of 1 demo_power_request] by auto
qed

end
