(* ===== verification/WosPassiveCooling.thy ===== *)
theory WosPassiveCooling
  imports Session
begin

text \<open>
  The passive cooling of thermal zones on Windows, \<open>backends/utils/wos/cpu-thermal-etw/src/passive_cooling.c\<close>: a query of
  the Performance Data Helper with one counter per zone. The functions write no messages, so they have a state of
  their own: the static variables of the file, the allocator, and the queries of the PDH library that are open.
  Theorems are in \<open>WosPassiveCoolingProps\<close>.
\<close>

section \<open>Zones\<close>

abbreviation (input) MAX_NUM_OF_ZONES :: nat where "MAX_NUM_OF_ZONES \<equiv> 64"
abbreviation (input) MAX_THERMAL_ZONE_ID :: nat where "MAX_THERMAL_ZONE_ID \<equiv> 100"

text \<open>The map of \<open>thermal_common.h\<close>, without the index by identifier, which these files do not use.\<close>

record ThermalCommonZoneNameMap =
  zone_names :: "string list"
  zone_ids :: "u8 list"
  zone_names_ids_length :: u8

definition zero_zone_map :: ThermalCommonZoneNameMap where
  "zero_zone_map = \<lparr>zone_names = replicate MAX_NUM_OF_ZONES [], zone_ids = replicate MAX_NUM_OF_ZONES 0, zone_names_ids_length = 0\<rparr>"

section \<open>State\<close>

datatype PassiveCoolingReturnCode =
    COOLING_SUCCESS
  | COOLING_OPEN_QUERY_FAILED
  | COOLING_MEMORY_ALLOCATION_FAILED
  | COOLING_ADD_COUNTER_FAILED
  | COOLING_COLLECT_QUERY_DATA_FAILED
  | COOLING_NATIVE_FUNCTION_FAILED
  | COOLING_ALREADY_INITIALIZED
  | COOLING_NOT_INITIALIZED
  | COOLING_NULL_POINTER
  | COOLING_INVALID_ARGUMENT
  | COOLING_CLOSE_QUERY_FAILED
  | COOLING_NOT_AVAILABLE

fun cooling_code :: "PassiveCoolingReturnCode \<Rightarrow> nat" where
  "cooling_code COOLING_SUCCESS = 0"
| "cooling_code COOLING_OPEN_QUERY_FAILED = 1"
| "cooling_code COOLING_MEMORY_ALLOCATION_FAILED = 2"
| "cooling_code COOLING_ADD_COUNTER_FAILED = 3"
| "cooling_code COOLING_COLLECT_QUERY_DATA_FAILED = 4"
| "cooling_code COOLING_NATIVE_FUNCTION_FAILED = 5"
| "cooling_code COOLING_ALREADY_INITIALIZED = 6"
| "cooling_code COOLING_NOT_INITIALIZED = 7"
| "cooling_code COOLING_NULL_POINTER = 8"
| "cooling_code COOLING_INVALID_ARGUMENT = 9"
| "cooling_code COOLING_CLOSE_QUERY_FAILED = 10"
| "cooling_code COOLING_NOT_AVAILABLE = 11"

text \<open>\<open>passive_cooling\<close> is the array of the caller.\<close>

record PassiveCoolingInfoQuery =
  pq_passive_cooling :: "double list option"
  pq_passive_cooling_length :: u8

text \<open>
  A counter handle is the path it was added with, \<open>None\<close> for \<open>NULL\<close>; a query is its number. The statuses are those
  of the next calls that open a query or add to it (an exhausted script: \<open>ERROR_SUCCESS\<close>).
\<close>

record cooling_state =
  g_is_passive_cooling_initialized :: bool
  g_is_passive_cooling_available :: bool
  g_cooling_query :: "nat option"
  g_cooling_counter_list :: "string option list option"
  g_cooling_zones :: "ThermalCommonZoneNameMap option"
  g_zone_passive_cooling :: "double list option"
  pc_faults :: oom
  pc_statuses :: "u32 list"
  pc_queries :: nat
  pc_open :: "nat list"

definition initial_cooling :: "oom \<Rightarrow> u32 list \<Rightarrow> cooling_state" where
  "initial_cooling faults statuses =
     \<lparr>g_is_passive_cooling_initialized = False, g_is_passive_cooling_available = False, g_cooling_query = None,
      g_cooling_counter_list = None, g_cooling_zones = None, g_zone_passive_cooling = None,
      pc_faults = faults, pc_statuses = statuses, pc_queries = 0, pc_open = []\<rparr>"

text \<open>What one collection answers: its status, and the formatted value of a counter by its path.\<close>

record cooling_env =
  ce_collect :: u32
  ce_value :: "string \<Rightarrow> u32 \<times> double"

section \<open>Performance Data Helper\<close>

definition cooling_status :: "cooling_state \<Rightarrow> u32 \<times> cooling_state" where
  "cooling_status s = (case pc_statuses s of [] \<Rightarrow> (0, s) | st # rest \<Rightarrow> (st, s\<lparr>pc_statuses := rest\<rparr>))"

definition cooling_open_query :: "cooling_state \<Rightarrow> u32 \<times> cooling_state" where
  "cooling_open_query s0 =
     (let (st, s) = cooling_status s0
      in (st, if st = 0
              then s\<lparr>g_cooling_query := Some (pc_queries s), pc_queries := Suc (pc_queries s), pc_open := pc_queries s # pc_open s\<rparr>
              else s))"

definition cooling_close_query :: "nat \<Rightarrow> cooling_state \<Rightarrow> bool \<times> cooling_state" where
  "cooling_close_query q s =
     (if q \<in> set (pc_open s) then (True, s\<lparr>pc_open := removeAll q (pc_open s)\<rparr>) else (False, s))"

definition cooling_alloc :: "cooling_state \<Rightarrow> bool \<times> cooling_state" where
  "cooling_alloc s = (fst (calloc_ok (pc_faults s)), s\<lparr>pc_faults := snd (calloc_ok (pc_faults s))\<rparr>)"

text \<open>The path of a counter, from the three macros of the file; \<open>CHR 0x5C\<close> is the backslash.\<close>

definition cooling_path :: "string \<Rightarrow> string" where
  "cooling_path zone = snprintf_buf 128 ([CHR 0x5C] @ ''Thermal Zone Information('' @ zone @ '')'' @ [CHR 0x5C] @ ''% Passive Limit'')"

definition zone_path :: "u8 \<Rightarrow> string" where
  "zone_path i = cooling_path ([CHR 0x5C] @ ''_SB.TZ'' @ show_u (unat i))"

section \<open>Operations\<close>

text \<open>\<open>validate\<close> is the status \<open>PdhValidatePathA\<close> answers for a path.\<close>

definition passive_cooling_is_available :: "(string \<Rightarrow> u32) \<Rightarrow> cooling_state \<Rightarrow> PassiveCoolingReturnCode" where
  "passive_cooling_is_available validate s =
     (if g_is_passive_cooling_available s then COOLING_SUCCESS
      else if validate (cooling_path ''*'') \<noteq> 0 then COOLING_NOT_AVAILABLE
      else COOLING_SUCCESS)"

text \<open>Removing the counters: \<open>n\<close> more from \<open>i\<close>; each element of the list becomes \<open>NULL\<close>.\<close>

fun cooling_remove_counters :: "nat \<Rightarrow> nat \<Rightarrow> cooling_state \<Rightarrow> cooling_state outcome" where
  "cooling_remove_counters i 0 s = Ret s"
| "cooling_remove_counters i (Suc n) s =
     (case g_cooling_counter_list s of
        None \<Rightarrow> cooling_remove_counters (Suc i) n s
      | Some cs \<Rightarrow>
          obind (arr_read cs i) (\<lambda>c.
            cooling_remove_counters (Suc i) n
              (if c = None then s else s\<lparr>g_cooling_counter_list := Some (cs[i := None])\<rparr>)))"

text \<open>The query is closed but its handle stays in the variable.\<close>

definition cooling_close :: "cooling_state \<Rightarrow> PassiveCoolingReturnCode \<times> cooling_state" where
  "cooling_close s =
     (case g_cooling_query s of
        None \<Rightarrow> (COOLING_SUCCESS, s)
      | Some q \<Rightarrow> (let (ok, s') = cooling_close_query q s in (if ok then COOLING_SUCCESS else COOLING_CLOSE_QUERY_FAILED, s')))"

definition passive_cooling_cleanup :: "cooling_state \<Rightarrow> (PassiveCoolingReturnCode \<times> cooling_state) outcome" where
  "passive_cooling_cleanup s =
     (if \<not> g_is_passive_cooling_initialized s then Ret (COOLING_SUCCESS, s)
      else obind (case g_cooling_zones s of
                    None \<Rightarrow> Ret s
                  | Some m \<Rightarrow> cooling_remove_counters 0 (unat (zone_names_ids_length m)) s)
             (\<lambda>s1. let (rc, s2) = cooling_close (s1\<lparr>g_cooling_counter_list := None\<rparr>)
                   in Ret (rc, s2\<lparr>g_cooling_zones := None, g_zone_passive_cooling := None, g_is_passive_cooling_initialized := False\<rparr>)))"

text \<open>Adding the counters: \<open>n\<close> more from \<open>i\<close>, until one fails.\<close>

fun cooling_add_counters ::
  "nat \<Rightarrow> nat \<Rightarrow> ThermalCommonZoneNameMap \<Rightarrow> cooling_state \<Rightarrow> (PassiveCoolingReturnCode \<times> cooling_state) outcome" where
  "cooling_add_counters i 0 m s = Ret (COOLING_SUCCESS, s)"
| "cooling_add_counters i (Suc n) m s =
     obind (arr_read (zone_ids m) i) (\<lambda>z.
       let (st, s1) = cooling_status s
       in if st \<noteq> 0 then Ret (COOLING_ADD_COUNTER_FAILED, s1)
          else case g_cooling_counter_list s1 of
                 None \<Rightarrow> Stuck BadDeref
               | Some cs \<Rightarrow> obind (arr_write cs i (Some (zone_path z))) (\<lambda>cs'.
                   cooling_add_counters (Suc i) n m (s1\<lparr>g_cooling_counter_list := Some cs'\<rparr>)))"

text \<open>The four allocations; all are made before the first is tested.\<close>

definition cooling_blocks :: "ThermalCommonZoneNameMap \<Rightarrow> cooling_state \<Rightarrow> bool \<times> cooling_state" where
  "cooling_blocks zones s =
     (let (ok0, s0) = cooling_alloc s; (ok1, s1) = cooling_alloc s0; (ok2, s2) = cooling_alloc s1; (ok3, s3) = cooling_alloc s2
      in (ok0 \<and> ok1 \<and> ok2 \<and> ok3,
          s3\<lparr>g_cooling_counter_list := (if ok1 then Some (replicate (unat (zone_names_ids_length zones)) None) else None),
             g_cooling_zones := (if ok2 then Some zero_zone_map else None),
             g_zone_passive_cooling := (if ok3 then Some (replicate MAX_NUM_OF_ZONES 0) else None)\<rparr>))"

definition cooling_setup :: "ThermalCommonZoneNameMap \<Rightarrow> cooling_state \<Rightarrow> (PassiveCoolingReturnCode \<times> cooling_state) outcome" where
  "cooling_setup zones s =
     (let (st, s1) = cooling_open_query s
      in if st \<noteq> 0 \<or> g_cooling_query s1 = None then Ret (COOLING_OPEN_QUERY_FAILED, s1)
         else let (ok, s2) = cooling_blocks zones s1
              in if \<not> ok then Ret (COOLING_MEMORY_ALLOCATION_FAILED, s2)
                 else cooling_add_counters 0 (unat (zone_names_ids_length zones)) zones (s2\<lparr>g_cooling_zones := Some zones\<rparr>))"

text \<open>Every result but success cleans up, \<open>ALREADY_INITIALIZED\<close> included.\<close>

definition passive_cooling_init ::
  "ThermalCommonZoneNameMap option \<Rightarrow> cooling_state \<Rightarrow> (PassiveCoolingReturnCode \<times> cooling_state) outcome" where
  "passive_cooling_init zones s =
     obind (if g_is_passive_cooling_initialized s then Ret (COOLING_ALREADY_INITIALIZED, s)
            else case zones of
                   None \<Rightarrow> Ret (COOLING_INVALID_ARGUMENT, s)
                 | Some m \<Rightarrow> if zone_names_ids_length m = 0 then Ret (COOLING_INVALID_ARGUMENT, s)
                             else cooling_setup m (s\<lparr>g_is_passive_cooling_initialized := True\<rparr>))
       (\<lambda>(rc, s1).
          if rc = COOLING_SUCCESS then Ret (rc, s1)
          else obind (passive_cooling_cleanup s1) (\<lambda>(_, s2). Ret (rc, s2\<lparr>g_is_passive_cooling_initialized := False\<rparr>)))"

text \<open>The values: \<open>n\<close> more from \<open>i\<close>; a counter that fails leaves the old value.\<close>

definition cooling_value :: "cooling_env \<Rightarrow> string option \<Rightarrow> double option" where
  "cooling_value env c = (case c of None \<Rightarrow> None | Some p \<Rightarrow> if fst (ce_value env p) = 0 then Some (snd (ce_value env p)) else None)"

fun cooling_read :: "cooling_env \<Rightarrow> nat \<Rightarrow> nat \<Rightarrow> string option list \<Rightarrow> double list \<Rightarrow> double list outcome" where
  "cooling_read env i 0 cs vs = Ret vs"
| "cooling_read env i (Suc n) cs vs =
     obind (arr_read cs i) (\<lambda>c.
       case cooling_value env c of
         None \<Rightarrow> cooling_read env (Suc i) n cs vs
       | Some v \<Rightarrow> obind (arr_write vs i v) (\<lambda>vs'. cooling_read env (Suc i) n cs vs'))"

definition passive_cooling_get_info ::
  "cooling_env \<Rightarrow> PassiveCoolingInfoQuery option \<Rightarrow> cooling_state \<Rightarrow> (PassiveCoolingReturnCode \<times> PassiveCoolingInfoQuery option) outcome" where
  "passive_cooling_get_info env request s =
     (if \<not> g_is_passive_cooling_initialized s then Ret (COOLING_NOT_INITIALIZED, request)
      else case (g_cooling_zones s, request) of
             (Some m, Some rq) \<Rightarrow>
               (case pq_passive_cooling rq of
                  None \<Rightarrow> Ret (COOLING_NULL_POINTER, request)
                | Some vs \<Rightarrow>
                    if pq_passive_cooling_length rq = 0 then Ret (COOLING_INVALID_ARGUMENT, request)
                    else if (case g_cooling_query s of None \<Rightarrow> True | Some q \<Rightarrow> q \<notin> set (pc_open s)) \<or> ce_collect env \<noteq> 0
                    then Ret (COOLING_COLLECT_QUERY_DATA_FAILED, request)
                    else let n = min (unat (zone_names_ids_length m)) (unat (pq_passive_cooling_length rq))
                         in case g_cooling_counter_list s of
                              None \<Rightarrow> Stuck BadDeref
                            | Some cs \<Rightarrow> obind (cooling_read env 0 n cs vs) (\<lambda>vs'.
                                Ret (COOLING_SUCCESS, Some (rq\<lparr>pq_passive_cooling := Some vs',
                                       pq_passive_cooling_length := (if n < unat (pq_passive_cooling_length rq) then of_nat n
                                                                     else pq_passive_cooling_length rq)\<rparr>))))
           | _ \<Rightarrow> Ret (COOLING_NULL_POINTER, request))"

end
