(* ===== verification/WosPassiveCoolingProps.thy ===== *)
theory WosPassiveCoolingProps
  imports WosPassiveCooling
begin

text \<open>
  The passive cooling of thermal zones on Windows: over any calls, queries and blocks exist exactly while it is
  initialised, and no call leaves an array.
\<close>

section \<open>Frames\<close>

definition zone_map_ok :: "ThermalCommonZoneNameMap \<Rightarrow> bool" where
  "zone_map_ok m \<longleftrightarrow> unat (zone_names_ids_length m) \<le> MAX_NUM_OF_ZONES \<and>
     length (zone_ids m) = MAX_NUM_OF_ZONES \<and> length (zone_names m) = MAX_NUM_OF_ZONES"

definition zone_counters :: "ThermalCommonZoneNameMap \<Rightarrow> string option list" where
  "zone_counters m = map (Some \<circ> zone_path) (take (unat (zone_names_ids_length m)) (zone_ids m))"

lemma zone_counters_length: "zone_map_ok m \<Longrightarrow> length (zone_counters m) = unat (zone_names_ids_length m)"
  by (simp add: zone_counters_def zone_map_ok_def)

lemma remove_counters_total:
  assumes "\<And>cs. g_cooling_counter_list s = Some cs \<Longrightarrow> i + n \<le> length cs"
  shows "\<exists>l. cooling_remove_counters i n s = Ret (s\<lparr>g_cooling_counter_list := l\<rparr>)"
  using assms
proof (induction n arbitrary: i s)
  case 0
  show ?case by (intro exI [of _ "g_cooling_counter_list s"]) simp
next
  case (Suc n)
  show ?case
  proof (cases "g_cooling_counter_list s")
    case None
    then show ?thesis using Suc.IH [of s "Suc i"] by simp
  next
    case (Some cs)
    then have l: "i + Suc n \<le> length cs" using Suc.prems by simp
    let ?s = "if cs ! i = None then s else s\<lparr>g_cooling_counter_list := Some (cs[i := None])\<rparr>"
    have "\<And>ds. g_cooling_counter_list ?s = Some ds \<Longrightarrow> Suc i + n \<le> length ds" using Some l by (auto split: if_splits)
    from Suc.IH [OF this] obtain k where "cooling_remove_counters (Suc i) n ?s = Ret (?s\<lparr>g_cooling_counter_list := k\<rparr>)" by blast
    then show ?thesis using Some l by (intro exI [of _ k]) (simp split: if_splits)
  qed
qed

text \<open>The counters of the list belong to the zones of the map.\<close>

definition cooling_shaped :: "cooling_state \<Rightarrow> bool" where
  "cooling_shaped s \<longleftrightarrow> (\<forall>m cs. g_cooling_zones s = Some m \<longrightarrow> g_cooling_counter_list s = Some cs \<longrightarrow>
     unat (zone_names_ids_length m) \<le> length cs)"

definition cooling_closed :: "cooling_state \<Rightarrow> PassiveCoolingReturnCode \<times> nat list" where
  "cooling_closed s =
     (case g_cooling_query s of
        None \<Rightarrow> (COOLING_SUCCESS, pc_open s)
      | Some q \<Rightarrow> if q \<in> set (pc_open s) then (COOLING_SUCCESS, removeAll q (pc_open s)) else (COOLING_CLOSE_QUERY_FAILED, pc_open s))"

definition cooling_gone :: "cooling_state \<Rightarrow> cooling_state" where
  "cooling_gone s = s\<lparr>g_is_passive_cooling_initialized := False, g_cooling_counter_list := None, g_cooling_zones := None,
     g_zone_passive_cooling := None, pc_open := snd (cooling_closed s)\<rparr>"

lemma cleanup_result:
  assumes "g_is_passive_cooling_initialized s" "cooling_shaped s"
  shows "passive_cooling_cleanup s = Ret (fst (cooling_closed s), cooling_gone s)"
proof -
  obtain l where l: "(case g_cooling_zones s of None \<Rightarrow> Ret s
      | Some m \<Rightarrow> cooling_remove_counters 0 (unat (zone_names_ids_length m)) s) = Ret (s\<lparr>g_cooling_counter_list := l\<rparr>)"
  proof (cases "g_cooling_zones s")
    case None
    then show ?thesis using that [of "g_cooling_counter_list s"] by simp
  next
    case (Some m)
    then show ?thesis
      using that assms(2) remove_counters_total [of s 0 "unat (zone_names_ids_length m)"] by (auto simp: cooling_shaped_def)
  qed
  show ?thesis
    using assms(1) l
    by (cases "g_cooling_query s")
       (auto simp: passive_cooling_cleanup_def cooling_close_def cooling_close_query_def cooling_closed_def cooling_gone_def Let_def)
qed

lemma add_counters_total:
  assumes "g_cooling_counter_list s = Some cs" "i + n \<le> length cs" "i + n \<le> length (zone_ids m)"
  shows "\<exists>rc s' cs'. cooling_add_counters i n m s = Ret (rc, s') \<and> length cs' = length cs \<and>
     (\<exists>x. s' = s\<lparr>pc_statuses := x, g_cooling_counter_list := Some cs'\<rparr>) \<and>
     (rc = COOLING_SUCCESS \<longrightarrow> cs' = take i cs @ map (Some \<circ> zone_path) (take n (drop i (zone_ids m))) @ drop (i + n) cs)"
  using assms
proof (induction n arbitrary: i s cs)
  case 0
  then show ?case by (intro exI [of _ COOLING_SUCCESS] exI [of _ s] exI [of _ cs]) (auto intro!: exI [of _ "pc_statuses s"])
next
  case (Suc n)
  obtain st x where st: "cooling_status s = (st, s\<lparr>pc_statuses := x\<rparr>)"
    by (cases "pc_statuses s") (auto simp: cooling_status_def intro: that [of 0 "[]"])
  show ?case
  proof (cases "st = 0")
    case False
    then show ?thesis using Suc.prems st
      by (intro exI [of _ COOLING_ADD_COUNTER_FAILED] exI [of _ "s\<lparr>pc_statuses := x\<rparr>"] exI [of _ cs])
         (auto simp: Let_def intro!: exI [of _ x])
  next
    case True
    define c where "c = cs[i := Some (zone_path (zone_ids m ! i))]"
    define s1 where "s1 = s\<lparr>pc_statuses := x, g_cooling_counter_list := Some c\<rparr>"
    have step: "cooling_add_counters i (Suc n) m s = cooling_add_counters (Suc i) n m s1"
      using Suc.prems st True by (simp add: Let_def s1_def c_def)
    have "g_cooling_counter_list s1 = Some c" "Suc i + n \<le> length c" "Suc i + n \<le> length (zone_ids m)"
      using Suc.prems by (simp_all add: s1_def c_def)
    from Suc.IH [OF this] obtain rc s' cs' y where r: "cooling_add_counters (Suc i) n m s1 = Ret (rc, s')" "length cs' = length c"
      "s' = s1\<lparr>pc_statuses := y, g_cooling_counter_list := Some cs'\<rparr>"
      "rc = COOLING_SUCCESS \<longrightarrow> cs' = take (Suc i) c @ map (Some \<circ> zone_path) (take n (drop (Suc i) (zone_ids m))) @ drop (Suc i + n) c"
      by blast
    have "take (Suc i) c = take i cs @ [Some (zone_path (zone_ids m ! i))]" "drop (Suc i + n) c = drop (i + Suc n) cs"
      using Suc.prems by (simp_all add: c_def take_Suc_conv_app_nth)
    moreover have "take (Suc n) (drop i (zone_ids m)) = zone_ids m ! i # take n (drop (Suc i) (zone_ids m))"
      using Suc.prems by (simp add: Cons_nth_drop_Suc [symmetric])
    ultimately show ?thesis unfolding step using r by (auto simp: s1_def c_def)
  qed
qed

lemma cooling_read_total:
  assumes "i + n \<le> length cs" "i + n \<le> length vs"
  shows "\<exists>vs'. cooling_read env i n cs vs = Ret vs' \<and> length vs' = length vs \<and>
     (\<forall>j. vs' ! j = (if i \<le> j \<and> j < i + n then (case cooling_value env (cs ! j) of Some v \<Rightarrow> v | None \<Rightarrow> vs ! j) else vs ! j))"
  using assms
proof (induction n arbitrary: i vs)
  case (Suc n)
  define w where "w = (case cooling_value env (cs ! i) of None \<Rightarrow> vs | Some v \<Rightarrow> vs[i := v])"
  have w: "length w = length vs" "\<forall>j. w ! j = (if j = i then (case cooling_value env (cs ! i) of Some v \<Rightarrow> v | None \<Rightarrow> vs ! j) else vs ! j)"
    using Suc.prems by (auto simp: w_def nth_list_update_if split: option.splits)
  have step: "cooling_read env i (Suc n) cs vs = cooling_read env (Suc i) n cs w"
    using Suc.prems by (simp add: w_def split: option.splits)
  obtain u where "cooling_read env (Suc i) n cs w = Ret u" "length u = length w"
    "\<forall>j. u ! j = (if Suc i \<le> j \<and> j < Suc i + n then (case cooling_value env (cs ! j) of Some v \<Rightarrow> v | None \<Rightarrow> w ! j) else w ! j)"
    using Suc.IH [of "Suc i" w] Suc.prems w(1) by auto
  moreover have "w ! j = vs ! j" if "j \<noteq> i" for j using w(2) that by simp
  ultimately show ?case unfolding step using w by (intro exI [of _ u]) (simp add: not_less_eq_eq split: option.split)
qed simp

text \<open>The values of a collection: those of the counters that answer, the old ones elsewhere.\<close>

definition cooling_values :: "cooling_env \<Rightarrow> string option list \<Rightarrow> double list \<Rightarrow> double list" where
  "cooling_values env cs vs =
     map (\<lambda>j. case (if j < length cs then cooling_value env (cs ! j) else None) of Some v \<Rightarrow> v | None \<Rightarrow> vs ! j) [0..<length vs]"

lemma cooling_values_length [simp]: "length (cooling_values env cs vs) = length vs"
  by (simp add: cooling_values_def)

lemma cooling_read_values:
  assumes "length cs \<le> length vs"
  shows "cooling_read env 0 (length cs) cs vs = Ret (cooling_values env cs vs)"
proof -
  obtain u where u: "cooling_read env 0 (length cs) cs vs = Ret u" "length u = length vs"
    "\<forall>j. u ! j = (if 0 \<le> j \<and> j < 0 + length cs then (case cooling_value env (cs ! j) of Some v \<Rightarrow> v | None \<Rightarrow> vs ! j) else vs ! j)"
    using cooling_read_total [of 0 "length cs" cs vs env] assms by auto
  have "u = cooling_values env cs vs" by (rule nth_equalityI) (use u(2,3) in \<open>simp_all add: cooling_values_def split: option.split\<close>)
  then show ?thesis using u(1) by simp
qed

section \<open>The invariant\<close>

definition cooling_ok :: "cooling_state \<Rightarrow> bool" where
  "cooling_ok s \<longleftrightarrow> (\<forall>q. g_cooling_query s = Some q \<longrightarrow> q < pc_queries s) \<and>
     (if g_is_passive_cooling_initialized s
      then \<exists>q m. g_cooling_query s = Some q \<and> pc_open s = [q] \<and> g_cooling_zones s = Some m \<and> zone_map_ok m \<and>
             g_cooling_counter_list s = Some (zone_counters m) \<and> g_zone_passive_cooling s \<noteq> None
      else pc_open s = [] \<and> g_cooling_counter_list s = None \<and> g_cooling_zones s = None \<and> g_zone_passive_cooling s = None)"

lemma cooling_ok_initial [simp]: "cooling_ok (initial_cooling f st)"
  by (simp add: cooling_ok_def initial_cooling_def)

lemma cooling_ok_gone:
  assumes "\<forall>q. g_cooling_query s = Some q \<longrightarrow> q < pc_queries s" "pc_open s = [] \<or> (\<exists>q. g_cooling_query s = Some q \<and> pc_open s = [q])"
  shows "cooling_ok (cooling_gone s)" "\<not> g_is_passive_cooling_initialized (cooling_gone s)" "pc_open (cooling_gone s) = []"
  using assms by (auto simp: cooling_ok_def cooling_gone_def cooling_closed_def split: option.splits)

lemma cooling_ok_shaped: "cooling_ok s \<Longrightarrow> cooling_shaped s"
  by (auto simp: cooling_ok_def cooling_shaped_def zone_counters_length split: if_splits)

lemma cleanup_ok:
  assumes "cooling_ok s"
  shows "\<exists>rc s'. passive_cooling_cleanup s = Ret (rc, s') \<and> cooling_ok s' \<and> \<not> g_is_passive_cooling_initialized s' \<and> rc = COOLING_SUCCESS"
proof (cases "g_is_passive_cooling_initialized s")
  case False
  then show ?thesis using assms by (simp add: passive_cooling_cleanup_def)
next
  case True
  then have "fst (cooling_closed s) = COOLING_SUCCESS" using assms by (auto simp: cooling_ok_def cooling_closed_def)
  then show ?thesis
    using cleanup_result [OF True cooling_ok_shaped [OF assms]] cooling_ok_gone [of s] assms True by (auto simp: cooling_ok_def)
qed

text \<open>What \<open>cooling_setup\<close> leaves, before the cleanup of a failure.\<close>

lemma cooling_setup_total:
  assumes s: "cooling_ok s" "\<not> g_is_passive_cooling_initialized s" and m: "zone_map_ok m"
  shows "\<exists>rc s'. cooling_setup m (s\<lparr>g_is_passive_cooling_initialized := True\<rparr>) = Ret (rc, s') \<and> g_is_passive_cooling_initialized s' \<and>
     (rc = COOLING_SUCCESS \<longrightarrow> cooling_ok s' \<and> g_cooling_zones s' = Some m) \<and>
     cooling_shaped s' \<and> (\<forall>q. g_cooling_query s' = Some q \<longrightarrow> q < pc_queries s') \<and>
     (pc_open s' = [] \<or> (\<exists>q. g_cooling_query s' = Some q \<and> pc_open s' = [q]))"
proof -
  let ?s = "s\<lparr>g_is_passive_cooling_initialized := True\<rparr>"
  obtain st x where st: "cooling_status ?s = (st, ?s\<lparr>pc_statuses := x\<rparr>)"
    by (cases "pc_statuses s") (auto simp: cooling_status_def intro: that [of 0 "[]"])
  have q: "\<forall>q. g_cooling_query s = Some q \<longrightarrow> q < pc_queries s" "pc_open s = []" "g_cooling_zones s = None"
    using s by (simp_all add: cooling_ok_def)
  show ?thesis
  proof (cases "st = 0")
    case False
    then show ?thesis using st q
      by (intro exI [of _ COOLING_OPEN_QUERY_FAILED] exI [of _ "?s\<lparr>pc_statuses := x\<rparr>"])
         (auto simp: cooling_setup_def cooling_open_query_def Let_def cooling_shaped_def)
  next
    case True
    define s1 where "s1 = ?s\<lparr>pc_statuses := x, g_cooling_query := Some (pc_queries s), pc_queries := Suc (pc_queries s), pc_open := [pc_queries s]\<rparr>"
    have o: "cooling_open_query ?s = (0, s1)" using st True q(2) by (simp add: cooling_open_query_def Let_def s1_def)
    obtain ok s2 where b: "cooling_blocks m s1 = (ok, s2)" by fastforce
    have f: "g_cooling_query s2 = Some (pc_queries s)" "pc_queries s2 = Suc (pc_queries s)" "pc_open s2 = [pc_queries s]"
      "g_is_passive_cooling_initialized s2" "g_cooling_zones s2 = None \<or> g_cooling_zones s2 = Some zero_zone_map"
      using b by (auto simp: cooling_blocks_def cooling_alloc_def s1_def Let_def split: if_splits)
    have l: "ok \<Longrightarrow> g_cooling_counter_list s2 = Some (replicate (unat (zone_names_ids_length m)) None) \<and> g_zone_passive_cooling s2 \<noteq> None"
      using b by (auto simp: cooling_blocks_def cooling_alloc_def Let_def)
    show ?thesis
    proof (cases ok)
      case False
      then show ?thesis using o b f
        by (intro exI [of _ COOLING_MEMORY_ALLOCATION_FAILED] exI [of _ s2])
           (auto simp: cooling_setup_def Let_def s1_def cooling_shaped_def zero_zone_map_def)
    next
      case True
      let ?t = "s2\<lparr>g_cooling_zones := Some m\<rparr>" let ?n = "unat (zone_names_ids_length m)"
      have n: "?n \<le> length (zone_ids m)" using m by (simp add: zone_map_ok_def)
      obtain rc s' cs' y where a: "cooling_add_counters 0 ?n m ?t = Ret (rc, s')" "length cs' = ?n"
        "s' = ?t\<lparr>pc_statuses := y, g_cooling_counter_list := Some cs'\<rparr>"
        "rc = COOLING_SUCCESS \<longrightarrow> cs' = map (Some \<circ> zone_path) (take ?n (zone_ids m))"
        using add_counters_total [of ?t "replicate ?n None" 0 ?n m] l True n by auto
      show ?thesis using o b True a f l m
        by (intro exI [of _ rc] exI [of _ s'])
           (auto simp: cooling_setup_def Let_def s1_def cooling_shaped_def cooling_ok_def zone_counters_def)
    qed
  qed
qed

lemma cooling_init_ok:
  assumes s: "cooling_ok s" and m: "\<And>m. z = Some m \<Longrightarrow> zone_map_ok m"
  shows "\<exists>rc s'. passive_cooling_init z s = Ret (rc, s') \<and> cooling_ok s' \<and> g_is_passive_cooling_initialized s' = (rc = COOLING_SUCCESS) \<and>
     (rc = COOLING_SUCCESS \<longrightarrow> \<not> g_is_passive_cooling_initialized s \<and> g_cooling_zones s' = z \<and> (\<forall>m. z = Some m \<longrightarrow> zone_names_ids_length m \<noteq> 0)) \<and>
     (g_is_passive_cooling_initialized s \<longrightarrow> rc = COOLING_ALREADY_INITIALIZED)"
proof -
  obtain rc0 s0 where c: "passive_cooling_cleanup s = Ret (rc0, s0)" "cooling_ok s0" "\<not> g_is_passive_cooling_initialized s0"
    using cleanup_ok [OF s] by blast
  have e: "cooling_ok (s0\<lparr>g_is_passive_cooling_initialized := False\<rparr>)" using c(2,3) by (simp add: cooling_ok_def)
  show ?thesis
  proof (cases "g_is_passive_cooling_initialized s \<or> z = None \<or> (\<exists>m. z = Some m \<and> zone_names_ids_length m = 0)")
    case True
    then show ?thesis using c e by (cases z) (auto simp: passive_cooling_init_def)
  next
    case False
    then obtain m' where z: "z = Some m'" "zone_names_ids_length m' \<noteq> 0" "\<not> g_is_passive_cooling_initialized s" by auto
    obtain rc s1 where 1: "cooling_setup m' (s\<lparr>g_is_passive_cooling_initialized := True\<rparr>) = Ret (rc, s1)" "g_is_passive_cooling_initialized s1"
      "rc = COOLING_SUCCESS \<longrightarrow> cooling_ok s1 \<and> g_cooling_zones s1 = Some m'" "cooling_shaped s1"
      "\<forall>q. g_cooling_query s1 = Some q \<longrightarrow> q < pc_queries s1" "pc_open s1 = [] \<or> (\<exists>q. g_cooling_query s1 = Some q \<and> pc_open s1 = [q])"
      using cooling_setup_total [OF s z(3) m [OF z(1)]] by blast
    note g = cooling_ok_gone [OF 1(5,6)] cleanup_result [OF 1(2,4)]
    have e: "cooling_ok ((cooling_gone s1)\<lparr>g_is_passive_cooling_initialized := False\<rparr>)" using g(1,2) by (simp add: cooling_ok_def)
    show ?thesis using z 1 g e by (cases "rc = COOLING_SUCCESS") (auto simp: passive_cooling_init_def)
  qed
qed

text \<open>A cleanup uses neither the allocator nor the statuses.\<close>

lemma cleanup_scripts:
  assumes "cooling_ok s" "passive_cooling_cleanup s = Ret (rc, s')"
  shows "pc_faults s' = pc_faults s \<and> pc_statuses s' = pc_statuses s"
proof (cases "g_is_passive_cooling_initialized s")
  case True
  then show ?thesis using cleanup_result [OF True cooling_ok_shaped [OF assms(1)]] assms(2) by (auto simp: cooling_gone_def)
qed (use assms(2) in \<open>auto simp: passive_cooling_cleanup_def\<close>)

text \<open>When nothing fails.\<close>

lemma add_counters_works:
  "g_cooling_counter_list s = Some cs \<Longrightarrow> i + n \<le> length cs \<Longrightarrow> i + n \<le> length (zone_ids m) \<Longrightarrow> pc_statuses s = [] \<Longrightarrow>
     \<exists>s'. cooling_add_counters i n m s = Ret (COOLING_SUCCESS, s') \<and> pc_faults s' = pc_faults s \<and> pc_statuses s' = []"
proof (induction n arbitrary: i s cs)
  case (Suc n)
  show ?case using Suc.IH [of "s\<lparr>g_cooling_counter_list := Some (cs[i := Some (zone_path (zone_ids m ! i))])\<rparr>" _ "Suc i"] Suc.prems
    by (simp add: cooling_status_def)
qed simp

lemma cooling_init_works:
  assumes "cooling_ok s" "\<not> g_is_passive_cooling_initialized s" "zone_map_ok m" "zone_names_ids_length m \<noteq> 0" "pc_faults s = []" "pc_statuses s = []"
  shows "\<exists>s'. passive_cooling_init (Some m) s = Ret (COOLING_SUCCESS, s') \<and> pc_faults s' = [] \<and> pc_statuses s' = []"
proof -
  let ?n = "unat (zone_names_ids_length m)"
  let ?t = "s\<lparr>g_is_passive_cooling_initialized := True, g_cooling_query := Some (pc_queries s), pc_queries := Suc (pc_queries s),
      pc_open := pc_queries s # pc_open s, pc_faults := [], g_cooling_counter_list := Some (replicate ?n None),
      g_zone_passive_cooling := Some (replicate MAX_NUM_OF_ZONES 0), g_cooling_zones := Some m\<rparr>"
  obtain s' where "cooling_add_counters 0 ?n m ?t = Ret (COOLING_SUCCESS, s')" "pc_faults s' = []" "pc_statuses s' = []"
    using add_counters_works [of ?t "replicate ?n None" 0 ?n m] assms by (auto simp: zone_map_ok_def)
  moreover have "cooling_setup m (s\<lparr>g_is_passive_cooling_initialized := True\<rparr>) = cooling_add_counters 0 ?n m ?t"
    using assms(5,6) by (simp add: cooling_setup_def cooling_open_query_def cooling_status_def cooling_blocks_def cooling_alloc_def Let_def)
  ultimately show ?thesis using assms by (auto simp: passive_cooling_init_def)
qed

lemma get_info_ok:
  assumes s: "cooling_ok s" and q: "\<And>r vs. rq = Some r \<Longrightarrow> pq_passive_cooling r = Some vs \<Longrightarrow> unat (pq_passive_cooling_length r) \<le> length vs"
  shows "\<exists>rc rq'. passive_cooling_get_info env rq s = Ret (rc, rq')"
proof (cases "g_is_passive_cooling_initialized s \<and> (\<exists>r vs. rq = Some r \<and> pq_passive_cooling r = Some vs)")
  case False
  then show ?thesis by (auto simp: passive_cooling_get_info_def split: option.splits)
next
  case True
  then obtain r vs m where r: "rq = Some r" "pq_passive_cooling r = Some vs" "g_cooling_zones s = Some m" "zone_map_ok m"
    "g_cooling_counter_list s = Some (zone_counters m)" "g_is_passive_cooling_initialized s"
    using s by (auto simp: cooling_ok_def)
  let ?n = "min (unat (zone_names_ids_length m)) (unat (pq_passive_cooling_length r))"
  have "?n \<le> length (zone_counters m)" "?n \<le> length vs" using q [OF r(1,2)] zone_counters_length [OF r(4)] by simp_all
  from cooling_read_total [of 0, simplified, OF this, of env] show ?thesis using r by (auto simp: passive_cooling_get_info_def Let_def)
qed

text \<open>A collection into an array with room for all zones.\<close>

lemma get_info_values:
  assumes s: "cooling_ok s" "g_is_passive_cooling_initialized s" "g_cooling_zones s = Some m"
    and q: "pq_passive_cooling r = Some vs" "unat (zone_names_ids_length m) \<le> unat (pq_passive_cooling_length r)"
      "unat (zone_names_ids_length m) \<le> length vs" "pq_passive_cooling_length r \<noteq> 0"
  shows "passive_cooling_get_info env (Some r) s =
     (if ce_collect env \<noteq> 0 then Ret (COOLING_COLLECT_QUERY_DATA_FAILED, Some r)
      else Ret (COOLING_SUCCESS, Some \<lparr>pq_passive_cooling = Some (cooling_values env (zone_counters m) vs),
             pq_passive_cooling_length = zone_names_ids_length m\<rparr>))"
proof -
  have o: "\<exists>q. g_cooling_query s = Some q \<and> pc_open s = [q]" "g_cooling_counter_list s = Some (zone_counters m)" "zone_map_ok m"
    using s by (auto simp: cooling_ok_def)
  note n = zone_counters_length [OF o(3)]
  have "cooling_read env 0 (unat (zone_names_ids_length m)) (zone_counters m) vs = Ret (cooling_values env (zone_counters m) vs)"
    using cooling_read_values [of "zone_counters m" vs env] n q(3) by simp
  moreover have "pq_passive_cooling_length r = zone_names_ids_length m" if "\<not> unat (zone_names_ids_length m) < unat (pq_passive_cooling_length r)"
    using that q(2) by (simp add: word_unat_eq_iff)
  ultimately show ?thesis using s o q
    by (auto simp: passive_cooling_get_info_def Let_def min_absorb1)
qed

section \<open>Any calls\<close>

datatype cooling_call =
    CoolInit "ThermalCommonZoneNameMap option"
  | CoolRead cooling_env "PassiveCoolingInfoQuery option"
  | CoolCleanup

fun cooling_call_ok :: "cooling_call \<Rightarrow> bool" where
  "cooling_call_ok (CoolInit z) = (case z of None \<Rightarrow> True | Some m \<Rightarrow> zone_map_ok m)"
| "cooling_call_ok (CoolRead e rq) =
     (case rq of None \<Rightarrow> True
      | Some r \<Rightarrow> (case pq_passive_cooling r of None \<Rightarrow> True | Some vs \<Rightarrow> unat (pq_passive_cooling_length r) \<le> length vs))"
| "cooling_call_ok CoolCleanup = True"

fun cooling_step :: "cooling_call \<Rightarrow> cooling_state \<Rightarrow> cooling_state outcome" where
  "cooling_step (CoolInit z) s = obind (passive_cooling_init z s) (\<lambda>(_, s'). Ret s')"
| "cooling_step (CoolRead e rq) s = obind (passive_cooling_get_info e rq s) (\<lambda>_. Ret s)"
| "cooling_step CoolCleanup s = obind (passive_cooling_cleanup s) (\<lambda>(_, s'). Ret s')"

fun cooling_run :: "cooling_call list \<Rightarrow> cooling_state \<Rightarrow> cooling_state outcome" where
  "cooling_run [] s = Ret s"
| "cooling_run (c # cs) s = obind (cooling_step c s) (cooling_run cs)"

lemma cooling_step_ok:
  assumes "cooling_ok s" "cooling_call_ok c"
  shows "\<exists>s'. cooling_step c s = Ret s' \<and> cooling_ok s'"
proof (cases c)
  case (CoolInit z)
  then have "\<And>m. z = Some m \<Longrightarrow> zone_map_ok m" using assms(2) by simp
  then obtain rc s' where "passive_cooling_init z s = Ret (rc, s')" "cooling_ok s'" using cooling_init_ok [OF assms(1), of z] by blast
  then show ?thesis using CoolInit by simp
next
  case (CoolRead e rq)
  then have "\<And>r vs. rq = Some r \<Longrightarrow> pq_passive_cooling r = Some vs \<Longrightarrow> unat (pq_passive_cooling_length r) \<le> length vs"
    using assms(2) by simp
  then obtain r where "passive_cooling_get_info e rq s = Ret r" using get_info_ok [OF assms(1), of rq e] by blast
  then show ?thesis using CoolRead assms(1) by simp
qed (use cleanup_ok [OF assms(1)] in auto)

lemma cooling_run_ok:
  "cooling_ok s \<Longrightarrow> \<forall>c \<in> set calls. cooling_call_ok c \<Longrightarrow> \<exists>s'. cooling_run calls s = Ret s' \<and> cooling_ok s'"
proof (induction calls arbitrary: s)
  case (Cons c calls)
  then obtain s1 where "cooling_step c s = Ret s1" "cooling_ok s1" using cooling_step_ok [of s c] by auto
  then show ?case using Cons by simp
qed simp

section \<open>Properties\<close>

text \<open>C35: After any calls of the passive cooling library, whatever its allocations and the calls of the PDH library do, all
  of them have returned, a query is open and the blocks are allocated exactly while it is initialised; a call of
  \<open>passive_cooling_init\<close> on an initialised library answers that it is, and has then closed it.\<close>
theorem passive_cooling_accounts:
  assumes "\<forall>c \<in> set calls. cooling_call_ok c" "case z of None \<Rightarrow> True | Some m \<Rightarrow> zone_map_ok m"
  shows "\<exists>s. cooling_run calls (initial_cooling faults statuses) = Ret s \<and>
     pc_open s = (if g_is_passive_cooling_initialized s then [the (g_cooling_query s)] else []) \<and>
     (g_cooling_counter_list s \<noteq> None) = g_is_passive_cooling_initialized s \<and>
     (g_cooling_zones s \<noteq> None) = g_is_passive_cooling_initialized s \<and>
     (g_zone_passive_cooling s \<noteq> None) = g_is_passive_cooling_initialized s \<and>
     (g_is_passive_cooling_initialized s \<longrightarrow>
        (\<exists>s'. passive_cooling_init z s = Ret (COOLING_ALREADY_INITIALIZED, s') \<and> pc_open s' = [] \<and>
           passive_cooling_get_info env rq s' = Ret (COOLING_NOT_INITIALIZED, rq)))"
proof -
  obtain s where s: "cooling_run calls (initial_cooling faults statuses) = Ret s" "cooling_ok s"
    using cooling_run_ok [OF cooling_ok_initial assms(1)] by blast
  have z: "\<And>m. z = Some m \<Longrightarrow> zone_map_ok m" using assms(2) by simp
  obtain rc s' where i: "passive_cooling_init z s = Ret (rc, s')" "cooling_ok s'" "g_is_passive_cooling_initialized s' = (rc = COOLING_SUCCESS)"
    "g_is_passive_cooling_initialized s \<longrightarrow> rc = COOLING_ALREADY_INITIALIZED"
    using cooling_init_ok [OF s(2) z] by blast
  have "g_is_passive_cooling_initialized s \<Longrightarrow> pc_open s' = [] \<and> passive_cooling_get_info env rq s' = Ret (COOLING_NOT_INITIALIZED, rq)"
    using i by (simp add: cooling_ok_def passive_cooling_get_info_def)
  then show ?thesis using s i by (intro exI [of _ s]) (auto simp: cooling_ok_def)
qed

definition demo_zone_map :: ThermalCommonZoneNameMap where
  "demo_zone_map = \<lparr>zone_names = ''CPU Cluster 0 Thermal Zone'' # ''GPU Thermal Zone'' # ''Battery'' # replicate 61 [],
     zone_ids = 0 # 6 # 40 # replicate 61 0, zone_names_ids_length = 3\<rparr>"

lemma demo_zone_map_ok: "zone_map_ok demo_zone_map"
  by (simp add: zone_map_ok_def demo_zone_map_def)

theorem passive_cooling_accounts_witness:
  "\<exists>s. cooling_run [CoolInit None, CoolInit (Some demo_zone_map), CoolCleanup, CoolInit (Some demo_zone_map)] (initial_cooling [] [0, 0, 5]) = Ret s \<and>
     pc_open s = (if g_is_passive_cooling_initialized s then [the (g_cooling_query s)] else [])"
proof -
  let ?cs = "[CoolInit None, CoolInit (Some demo_zone_map), CoolCleanup, CoolInit (Some demo_zone_map)]"
  have "\<forall>c \<in> set ?cs. cooling_call_ok c" by (simp add: demo_zone_map_ok)
  moreover have "case None of None \<Rightarrow> True | Some m \<Rightarrow> zone_map_ok m" by simp
  ultimately show ?thesis using passive_cooling_accounts [of ?cs None "[]" "[0, 0, 5]"] by blast
qed

end
