(* ===== verification/WosThermalInfo.thy ===== *)
theory WosThermalInfo
  imports WosPassiveCooling WosSession
begin

text \<open>
  The zones the thermal backend for Windows knows, \<open>backends/wos-thermal/src/wos_thermal_info.c\<close> with the tables of its
  header: the static table of twelve zones with a temperature and a passive cooling metric each, the table of the zones
  a machine reports, and the metrics of a zone identifier; with the state that the files of the backend share, and
  its logger (\<open>wos_thermal_logger.c\<close>). Theorems are in \<open>WosThermalZones\<close>.
\<close>

section \<open>State\<close>

record ThermalInfoQuery =
  tq_temperatures :: "double list option"
  tq_temperatures_length :: u8

text \<open>
  The static variables of \<open>wos_thermal_info.c\<close> (the two metrics of each zone identifier), of \<open>wos_thermal_lib.c\<close>, and of
  the passive cooling library.
\<close>

record 'l wos_thermal_session = "'l session" +
  g_zone_id_to_metric_id_map :: "(u16 \<times> u16) list"
  g_lib_initialized :: bool
  g_zone_name_map :: ThermalCommonZoneNameMap
  g_temperature_query :: ThermalInfoQuery
  g_passive_cooling_query :: PassiveCoolingInfoQuery
  g_cooling :: cooling_state

section \<open>The logger\<close>

definition wos_thermal_logger_set_message_callback :: "callback \<Rightarrow> ('l, 'x) session_scheme \<Rightarrow> ('l, 'x) session_scheme" where
  "wos_thermal_logger_set_message_callback message_callback s = s\<lparr>g_message_callback := message_callback\<rparr>"

definition WOS_THERMAL_SEND :: "QcPerfMessageLevel \<Rightarrow> string \<Rightarrow> ('l, 'x) session_scheme \<Rightarrow> ('l, 'x) session_scheme" where
  "WOS_THERMAL_SEND level txt s =
     (if g_message_callback s \<noteq> None
      then let buffer = snprintf_buf 256 txt
           in post_message \<lparr>msg_backend_id = of_nat (backend_index BACKEND_THERMAL), msg_capability_id = 0, msg_text = buffer,
                msg_length = length buffer, msg_level = level\<rparr> s
      else s)"

section \<open>The zones\<close>

text \<open>Of each zone the text its name contains, and the texts its metrics share.\<close>

type_synonym zone_text = "string \<times> string \<times> string"

definition cpu_zones :: "zone_text list" where
  "cpu_zones =
     [(''CPU Cluster 0 Thermal Zone'', ''Zone id : 0 CPU Cluster 0 Thermal Zone'', ''CPU Cluster 0 Thermal Zone''),
      (''CPU Cluster 1 Thermal Zone'', ''Zone id : 1 CPU Cluster 1 Thermal Zone'', ''CPU Cluster 1 Thermal Zone''),
      (''CPU Cluster 2 Thermal Zone'', ''Zone id : 2 CPU Cluster 2 Thermal Zone'', ''CPU Cluster 2 Thermal Zone'')]"

definition qmx_zones :: "zone_text list" where
  "qmx_zones =
     [(''QMX0 Thermal Zone'', ''Zone id : 3 QMX0 Thermal Zone'', ''QMX0 Thermal Zone''),
      (''QMX1 Thermal Zone'', ''Zone id : 4 QMX1 Thermal Zone'', ''QMX1 Thermal Zone''),
      (''QMX2 Thermal Zone'', ''Zone id : 5 QMX2 Thermal Zone'', ''QMX2 Thermal Zone'')]"

definition soc_zones :: "zone_text list" where
  "soc_zones =
     [(''GPU Thermal Zone'', ''Zone id : 6 GPU Thermal Zone'', ''GPU Thermal Zone''),
      (''NSP Thermal Zone'', ''Zone id : 11 NSP Thermal Zone'', ''NSP Thermal Zone''),
      (''Critical Thermal Zones'', ''Zone id : 99 Critical Thermal Zones for All Internal TSENS'',
         ''Critical Thermal Zones for All Internal TSENS'')]"

definition ec_zones :: "zone_text list" where
  "ec_zones =
     [(''EC thermistor 1'', ''Zone id : 31 EC thermistor 1'', ''EC thermistor 1''),
      (''EC thermistor 2'', ''Zone id : 32 EC thermistor 2'', ''EC thermistor 2''),
      (''EC thermistor 3'', ''Zone id : 33 EC thermistor 3'', ''EC thermistor 3'')]"

abbreviation (input) WOS_THERMAL_CAPABILITY_METRIC_COUNT :: nat where "WOS_THERMAL_CAPABILITY_METRIC_COUNT \<equiv> 24"

definition zone_texts :: "zone_text list" where
  "zone_texts = cpu_zones @ qmx_zones @ soc_zones @ ec_zones"

text \<open>The two metrics of the zone \<open>k\<close>.\<close>

definition zone_temp_metric :: "nat \<Rightarrow> zone_text \<Rightarrow> QcPerfMetricInfo" where
  "zone_temp_metric k z =
     (case z of (_, label, what) \<Rightarrow> set_metric_info (of_nat (2 * k)) (label @ '' Temperature'') (''Temperature of '' @ what) ''deg C'')"

definition zone_cooling_metric :: "nat \<Rightarrow> zone_text \<Rightarrow> QcPerfMetricInfo" where
  "zone_cooling_metric k z =
     (case z of (_, label, what) \<Rightarrow>
        set_metric_info (of_nat (2 * k + 1)) (label @ '' Passive Cooling'') (''Passive Cooling of '' @ what) ''%'')"

section \<open>The static table\<close>

text \<open>The zones of a list, from the zone \<open>k\<close> on, each at its two positions.\<close>

fun static_zone_metrics :: "nat \<Rightarrow> zone_text list \<Rightarrow> QcPerfMetricInfo list \<Rightarrow> QcPerfMetricInfo list outcome" where
  "static_zone_metrics k [] ms = Ret ms"
| "static_zone_metrics k (z # zs) ms =
     obind (arr_write ms (2 * k) (zone_temp_metric k z)) (\<lambda>ms1.
     obind (arr_write ms1 (2 * k + 1) (zone_cooling_metric k z)) (static_zone_metrics (Suc k) zs))"

definition static_cpu_metrics :: "QcPerfMetricInfo list \<Rightarrow> QcPerfMetricInfo list outcome" where
  "static_cpu_metrics metrics_data = static_zone_metrics 0 cpu_zones metrics_data"

definition static_qmx_metrics :: "QcPerfMetricInfo list \<Rightarrow> QcPerfMetricInfo list outcome" where
  "static_qmx_metrics metrics_data = static_zone_metrics 3 qmx_zones metrics_data"

definition static_soc_metrics :: "QcPerfMetricInfo list \<Rightarrow> QcPerfMetricInfo list outcome" where
  "static_soc_metrics metrics_data = static_zone_metrics 6 soc_zones metrics_data"

definition static_ec_metrics :: "QcPerfMetricInfo list \<Rightarrow> QcPerfMetricInfo list outcome" where
  "static_ec_metrics metrics_data = static_zone_metrics 9 ec_zones metrics_data"

definition wos_thermal_capability_init_metrics :: "QcPerfMetricInfo list \<Rightarrow> QcPerfMetricInfo list outcome" where
  "wos_thermal_capability_init_metrics metrics_data =
     obind (static_cpu_metrics metrics_data) (\<lambda>m1. obind (static_qmx_metrics m1) (\<lambda>m2.
     obind (static_soc_metrics m2) static_ec_metrics))"

section \<open>The zones of a machine\<close>

text \<open>The chain of comparisons, in four parts: the zone a name belongs to.\<close>

definition match_cpu_zone :: "string \<Rightarrow> nat option" where
  "match_cpu_zone zone_name =
     (if str_contains ''CPU Cluster 0 Thermal Zone'' zone_name then Some 0
      else if str_contains ''CPU Cluster 1 Thermal Zone'' zone_name then Some 1
      else if str_contains ''CPU Cluster 2 Thermal Zone'' zone_name then Some 2
      else None)"

definition match_qmx_zone :: "string \<Rightarrow> nat option" where
  "match_qmx_zone zone_name =
     (if str_contains ''QMX0 Thermal Zone'' zone_name then Some 3
      else if str_contains ''QMX1 Thermal Zone'' zone_name then Some 4
      else if str_contains ''QMX2 Thermal Zone'' zone_name then Some 5
      else None)"

definition match_soc_zone :: "string \<Rightarrow> nat option" where
  "match_soc_zone zone_name =
     (if str_contains ''GPU Thermal Zone'' zone_name then Some 6
      else if str_contains ''NSP Thermal Zone'' zone_name then Some 7
      else if str_contains ''Critical Thermal Zones'' zone_name then Some 8
      else None)"

definition match_ec_zone :: "string \<Rightarrow> nat option" where
  "match_ec_zone zone_name =
     (if str_contains ''EC thermistor 1'' zone_name then Some 9
      else if str_contains ''EC thermistor 2'' zone_name then Some 10
      else if str_contains ''EC thermistor 3'' zone_name then Some 11
      else None)"

definition match_zone :: "string \<Rightarrow> nat option" where
  "match_zone zone_name =
     (case match_cpu_zone zone_name of Some k \<Rightarrow> Some k
      | None \<Rightarrow> (case match_qmx_zone zone_name of Some k \<Rightarrow> Some k
      | None \<Rightarrow> (case match_soc_zone zone_name of Some k \<Rightarrow> Some k
      | None \<Rightarrow> match_ec_zone zone_name)))"

text \<open>
  The body of a branch: the two metrics of the zone \<open>k\<close> go to the next two positions, without a bound on the
  position, and their identifiers to the map.
\<close>

definition store_zone ::
  "nat \<Rightarrow> u8 \<Rightarrow> QcPerfMetricInfo list \<times> u8 \<Rightarrow> (u16 \<times> u16) list \<Rightarrow> ((QcPerfMetricInfo list \<times> u8) \<times> (u16 \<times> u16) list) outcome" where
  "store_zone k zone_id a ids =
     (case a of (ms, i) \<Rightarrow>
        let t = zone_temp_metric k (zone_texts ! k); c = zone_cooling_metric k (zone_texts ! k)
        in obind (arr_write ms (unat i) t) (\<lambda>ms1.
           obind (arr_read ids (unat zone_id)) (\<lambda>p.
           obind (arr_write ms1 (unat (i + 1)) c) (\<lambda>ms2.
             Ret ((ms2, i + 1 + 1), ids[unat zone_id := (mi_metric_id t, mi_metric_id c)])))))"

text \<open>The loop over the zones: \<open>n\<close> more from \<open>j\<close>.\<close>

fun register_zones ::
  "nat \<Rightarrow> nat \<Rightarrow> ThermalCommonZoneNameMap \<Rightarrow> QcPerfMetricInfo list \<times> u8 \<Rightarrow> ('l, 'x) wos_thermal_session_scheme
     \<Rightarrow> ((QcPerfMetricInfo list \<times> u8) \<times> ('l, 'x) wos_thermal_session_scheme) outcome" where
  "register_zones j 0 m a s = Ret (a, s)"
| "register_zones j (Suc n) m a s =
     obind (arr_read (zone_ids m) j) (\<lambda>zone_id.
     obind (arr_read (zone_names m) j) (\<lambda>zone_name.
       if zone_id \<ge> of_nat MAX_THERMAL_ZONE_ID
       then register_zones (Suc j) n m a (WOS_THERMAL_SEND LEVEL_WARNING
              (''Zone ID '' @ show_u (unat zone_id) @ '' exceeds maximum allowed (99), skipping'') s)
       else let s1 = WOS_THERMAL_SEND LEVEL_DEBUG (''Initializing metrics for zone '' @ show_u (unat zone_id) @ '': '' @ zone_name) s
            in case match_zone zone_name of
                 None \<Rightarrow> register_zones (Suc j) n m a (WOS_THERMAL_SEND LEVEL_ERROR (''Metric not defined for zone : '' @ zone_name) s1)
               | Some k \<Rightarrow> obind (store_zone k zone_id a (g_zone_id_to_metric_id_map s1)) (\<lambda>(a', ids).
                   register_zones (Suc j) n m a' (s1\<lparr>g_zone_id_to_metric_id_map := ids\<rparr>))))"

text \<open>\<open>answer\<close> is what \<open>thermal_common_getzone_names\<close> returns and stores.\<close>

definition wos_thermal_capability_init_available_metrics ::
  "nat \<times> ThermalCommonZoneNameMap \<Rightarrow> QcPerfMetricInfo list \<Rightarrow> u8 option \<Rightarrow> ('l, 'x) wos_thermal_session_scheme
     \<Rightarrow> ((QcPerfMetricInfo list \<times> u8 option) \<times> ('l, 'x) wos_thermal_session_scheme) outcome" where
  "wos_thermal_capability_init_available_metrics answer metrics_data metric_count s0 =
     (let s = s0\<lparr>g_zone_id_to_metric_id_map := replicate MAX_THERMAL_ZONE_ID (0xFFFF, 0xFFFF)\<rparr>
      in case metric_count of
           None \<Rightarrow> Ret ((metrics_data, None), WOS_THERMAL_SEND LEVEL_ERROR ''Metric count pointer is NULL'' s)
         | Some _ \<Rightarrow>
             (case answer of (common_ret, m) \<Rightarrow>
                if common_ret \<noteq> 0
                then Ret ((metrics_data, Some 0),
                       WOS_THERMAL_SEND LEVEL_ERROR (''Failed to get thermal zone names, error: '' @ show_u common_ret) s)
                else let zones = show_u (unat (zone_names_ids_length m))
                     in obind (register_zones 0 (unat (zone_names_ids_length m)) m (metrics_data, 0)
                                 (WOS_THERMAL_SEND LEVEL_INFO (''Found '' @ zones @ '' thermal zones'') s)) (\<lambda>((ms, i), s1).
                          Ret ((ms, Some i), WOS_THERMAL_SEND LEVEL_DEBUG
                            (''Initialized '' @ show_u (unat i) @ '' metrics for '' @ zones @ '' thermal zones'') s1))))"

text \<open>\<open>metric_id\<close> is the variable of the caller.\<close>

definition wos_thermal_get_metric_id ::
  "u8 \<Rightarrow> bool \<Rightarrow> u16 option \<Rightarrow> ('l, 'x) wos_thermal_session_scheme \<Rightarrow> u16 option outcome" where
  "wos_thermal_get_metric_id zone_id is_cooling metric_id s =
     (case metric_id of
        None \<Rightarrow> Ret None
      | Some _ \<Rightarrow>
          if zone_id \<ge> of_nat MAX_THERMAL_ZONE_ID then Ret (Some 0xFFFF)
          else obind (arr_read (g_zone_id_to_metric_id_map s) (unat zone_id)) (\<lambda>p. Ret (Some (if is_cooling then snd p else fst p))))"

end
