(* ===== verification/WosThermalLib.thy ===== *)
theory WosThermalLib
  imports WosThermalInfo WosCpu
begin

text \<open>
  The library of the thermal backend for Windows, \<open>backends/wos-thermal/src/wos_thermal_lib.c\<close>. The zones and the
  temperatures come from the C++ library under \<open>backends/utils/wos/cpu-thermal-etw\<close> (\<open>thermal_common\<close> and
  \<open>thermal_sensor\<close>), whose results are arguments; the passive cooling from \<open>WosPassiveCooling\<close>.
\<close>

section \<open>Data\<close>

abbreviation (input) MAX_THERMAL_ZONES :: nat where "MAX_THERMAL_ZONES \<equiv> 64"

datatype WosThermalLibReturnCode =
    THERMAL_LIB_SUCCESS
  | THERMAL_LIB_ERROR_FAILED
  | THERMAL_LIB_ERROR_INIT_FAILED
  | THERMAL_LIB_ERROR_ALREADY_INITIALIZED
  | THERMAL_LIB_ERROR_NOT_INITIALIZED
  | THERMAL_LIB_ERROR_NULL_POINTER
  | THERMAL_LIB_ERROR_MEMORY_ALLOCATION
  | THERMAL_LIB_ERROR_INVALID_ARGUMENT
  | THERMAL_LIB_ERROR_NATIVE_FUNCTION_FAILED
  | THERMAL_LIB_ERROR_THREAD_CREATE_FAILED
  | THERMAL_LIB_ERROR_THREAD_JOIN_FAILED
  | THERMAL_LIB_ERROR_THREAD_DESTROY_FAILED
  | THERMAL_LIB_ERROR_MUTEX_OPERATION_FAILED
  | THERMAL_LIB_ERROR_THERMAL_SENSOR_INIT_FAILED
  | THERMAL_LIB_ERROR_PASSIVE_COOLING_INIT_FAILED
  | THERMAL_LIB_ERROR_THERMAL_COMMON_INIT_FAILED
  | THERMAL_LIB_ERROR_GET_ZONE_NAMES_FAILED
  | THERMAL_LIB_ERROR_GET_THERMAL_INFO_FAILED
  | THERMAL_LIB_ERROR_GET_PASSIVE_COOLING_INFO_FAILED
  | THERMAL_LIB_ERROR_THERMAL_SENSOR_CLEANUP_FAILED
  | THERMAL_LIB_ERROR_PASSIVE_COOLING_CLEANUP_FAILED
  | THERMAL_LIB_ERROR_THERMAL_COMMON_CLEANUP_FAILED

fun thermal_lib_code :: "WosThermalLibReturnCode \<Rightarrow> nat" where
  "thermal_lib_code THERMAL_LIB_SUCCESS = 0"
| "thermal_lib_code THERMAL_LIB_ERROR_FAILED = 1"
| "thermal_lib_code THERMAL_LIB_ERROR_INIT_FAILED = 2"
| "thermal_lib_code THERMAL_LIB_ERROR_ALREADY_INITIALIZED = 3"
| "thermal_lib_code THERMAL_LIB_ERROR_NOT_INITIALIZED = 4"
| "thermal_lib_code THERMAL_LIB_ERROR_NULL_POINTER = 5"
| "thermal_lib_code THERMAL_LIB_ERROR_MEMORY_ALLOCATION = 6"
| "thermal_lib_code THERMAL_LIB_ERROR_INVALID_ARGUMENT = 7"
| "thermal_lib_code THERMAL_LIB_ERROR_NATIVE_FUNCTION_FAILED = 8"
| "thermal_lib_code THERMAL_LIB_ERROR_THREAD_CREATE_FAILED = 9"
| "thermal_lib_code THERMAL_LIB_ERROR_THREAD_JOIN_FAILED = 10"
| "thermal_lib_code THERMAL_LIB_ERROR_THREAD_DESTROY_FAILED = 11"
| "thermal_lib_code THERMAL_LIB_ERROR_MUTEX_OPERATION_FAILED = 12"
| "thermal_lib_code THERMAL_LIB_ERROR_THERMAL_SENSOR_INIT_FAILED = 13"
| "thermal_lib_code THERMAL_LIB_ERROR_PASSIVE_COOLING_INIT_FAILED = 14"
| "thermal_lib_code THERMAL_LIB_ERROR_THERMAL_COMMON_INIT_FAILED = 15"
| "thermal_lib_code THERMAL_LIB_ERROR_GET_ZONE_NAMES_FAILED = 16"
| "thermal_lib_code THERMAL_LIB_ERROR_GET_THERMAL_INFO_FAILED = 17"
| "thermal_lib_code THERMAL_LIB_ERROR_GET_PASSIVE_COOLING_INFO_FAILED = 18"
| "thermal_lib_code THERMAL_LIB_ERROR_THERMAL_SENSOR_CLEANUP_FAILED = 19"
| "thermal_lib_code THERMAL_LIB_ERROR_PASSIVE_COOLING_CLEANUP_FAILED = 20"
| "thermal_lib_code THERMAL_LIB_ERROR_THERMAL_COMMON_CLEANUP_FAILED = 21"

text \<open>Without \<open>zone_name_length\<close>, which receives the pointer \<open>strncpy\<close> returns and is not read.\<close>

record WosThermalZoneData =
  zd_zone_id :: u8
  zd_zone_name :: string
  zd_temperature :: double
  zd_passive_cooling :: double

record WosThermalData =
  td_zones :: "WosThermalZoneData list"
  td_zone_count :: u8
  td_timestamp :: u64

definition zero_thermal_data :: WosThermalData where
  "zero_thermal_data = \<lparr>td_zones = replicate MAX_THERMAL_ZONES \<lparr>zd_zone_id = 0, zd_zone_name = [], zd_temperature = 0, zd_passive_cooling = 0\<rparr>,
     td_zone_count = 0, td_timestamp = 0\<rparr>"

text \<open>
  The results of the C++ library: its return codes, the zones it stores for the library and for the backend, the
  temperatures it copies over the first elements of the array, with the length it stores; the clock of a collection,
  and the passive cooling counters.
\<close>

record wos_thermal_env =
  te_common_init :: nat
  te_zones :: "nat \<times> ThermalCommonZoneNameMap"
  te_zones_again :: "nat \<times> ThermalCommonZoneNameMap"
  te_sensor_init :: nat
  te_sensor_cleanup :: nat
  te_common_cleanup :: nat
  te_sensor :: "nat \<times> double list \<times> u8"
  te_cooling :: cooling_env
  te_sampled :: "i64 \<times> i64"
  te_now :: "i64 \<times> i64"
  te_closes :: bool

section \<open>Operations\<close>

definition lib_send :: "string \<Rightarrow> nat \<Rightarrow> ('l, 'x) session_scheme \<Rightarrow> ('l, 'x) session_scheme" where
  "lib_send txt code s = WOS_THERMAL_SEND LEVEL_ERROR (txt @ '', error: '' @ show_u code) s"

definition lib_cooling_cleanup ::
  "('l, 'x) wos_thermal_session_scheme \<Rightarrow> (PassiveCoolingReturnCode \<times> ('l, 'x) wos_thermal_session_scheme) outcome" where
  "lib_cooling_cleanup s = obind (passive_cooling_cleanup (g_cooling s)) (\<lambda>(rc, c). Ret (rc, s\<lparr>g_cooling := c\<rparr>))"

text \<open>The two arrays, when everything they are read from is initialised.\<close>

definition lib_queries ::
  "('l, 'x) wos_thermal_session_scheme \<Rightarrow> (WosThermalLibReturnCode \<times> ('l, 'x) wos_thermal_session_scheme) outcome" where
  "lib_queries s =
     (let (ok, s1) = alloc s; block = Some (replicate MAX_THERMAL_ZONES 0);
          s2 = s1\<lparr>g_temperature_query := \<lparr>tq_temperatures = (if ok then block else None),
                    tq_temperatures_length = of_nat MAX_THERMAL_ZONES\<rparr>\<rparr>
      in if \<not> ok
         then obind (lib_cooling_cleanup (WOS_THERMAL_SEND LEVEL_ERROR ''Failed to allocate memory for temperature query'' s2)) (\<lambda>(_, s3).
                Ret (THERMAL_LIB_ERROR_MEMORY_ALLOCATION, s3))
         else let (ok2, s3) = alloc s2;
                  s4 = s3\<lparr>g_passive_cooling_query := \<lparr>pq_passive_cooling = (if ok2 then block else None),
                            pq_passive_cooling_length = of_nat MAX_THERMAL_ZONES\<rparr>\<rparr>
              in if \<not> ok2
                 then obind (lib_cooling_cleanup ((WOS_THERMAL_SEND LEVEL_ERROR ''Failed to allocate memory for passive cooling query'' s4)
                               \<lparr>g_temperature_query := \<lparr>tq_temperatures = None, tq_temperatures_length = of_nat MAX_THERMAL_ZONES\<rparr>\<rparr>)) (\<lambda>(_, s5).
                        Ret (THERMAL_LIB_ERROR_MEMORY_ALLOCATION, s5))
                 else Ret (THERMAL_LIB_SUCCESS,
                        WOS_THERMAL_SEND LEVEL_DEBUG ''WOS Thermal library initialized successfully'' (s4\<lparr>g_lib_initialized := True\<rparr>)))"

definition wos_thermal_lib_init ::
  "wos_thermal_env \<Rightarrow> ('l, 'x) wos_thermal_session_scheme \<Rightarrow> (WosThermalLibReturnCode \<times> ('l, 'x) wos_thermal_session_scheme) outcome" where
  "wos_thermal_lib_init env s0 =
     (let s = WOS_THERMAL_SEND LEVEL_DEBUG ''Initializing WOS Thermal library'' s0
      in if g_lib_initialized s
         then Ret (THERMAL_LIB_ERROR_ALREADY_INITIALIZED, WOS_THERMAL_SEND LEVEL_WARNING ''WOS Thermal library is already initialized'' s)
         else if te_common_init env \<noteq> 0
         then Ret (THERMAL_LIB_ERROR_THERMAL_COMMON_INIT_FAILED, lib_send ''Failed to initialize thermal common'' (te_common_init env) s)
         else let s1 = s\<lparr>g_zone_name_map := snd (te_zones env)\<rparr>
              in if fst (te_zones env) \<noteq> 0
                 then Ret (THERMAL_LIB_ERROR_GET_ZONE_NAMES_FAILED, lib_send ''Failed to get thermal zone names'' (fst (te_zones env)) s1)
                 else let s2 = WOS_THERMAL_SEND LEVEL_DEBUG
                              (''Found '' @ show_u (unat (zone_names_ids_length (g_zone_name_map s1))) @ '' thermal zones:'') s1
                      in if te_sensor_init env \<noteq> 0
                         then Ret (THERMAL_LIB_ERROR_THERMAL_SENSOR_INIT_FAILED,
                                lib_send ''Failed to initialize thermal sensor'' (te_sensor_init env) s2)
                         else obind (passive_cooling_init (Some (g_zone_name_map s2)) (g_cooling s2)) (\<lambda>(cooling_ret, c).
                                let s3 = s2\<lparr>g_cooling := c\<rparr>
                                in if cooling_ret \<noteq> COOLING_SUCCESS
                                   then Ret (THERMAL_LIB_ERROR_PASSIVE_COOLING_INIT_FAILED,
                                          lib_send ''Failed to initialize passive cooling'' (cooling_code cooling_ret) s3)
                                   else lib_queries s3))"

text \<open>The return code is the one of the last step that failed.\<close>

definition wos_thermal_lib_cleanup ::
  "wos_thermal_env \<Rightarrow> ('l, 'x) wos_thermal_session_scheme \<Rightarrow> (WosThermalLibReturnCode \<times> ('l, 'x) wos_thermal_session_scheme) outcome" where
  "wos_thermal_lib_cleanup env s0 =
     (let s = WOS_THERMAL_SEND LEVEL_DEBUG ''Cleaning up WOS Thermal library'' s0
      in obind
           (if \<not> g_lib_initialized s
            then Ret (THERMAL_LIB_ERROR_NOT_INITIALIZED, WOS_THERMAL_SEND LEVEL_WARNING ''WOS Thermal library is not initialized'' s)
            else obind (lib_cooling_cleanup
                          (s\<lparr>g_temperature_query := (g_temperature_query s)\<lparr>tq_temperatures := None\<rparr>,
                             g_passive_cooling_query := (g_passive_cooling_query s)\<lparr>pq_passive_cooling := None\<rparr>\<rparr>)) (\<lambda>(cooling_ret, s1).
                   let (r1, s2) = (if cooling_ret \<noteq> COOLING_SUCCESS
                         then (THERMAL_LIB_ERROR_PASSIVE_COOLING_CLEANUP_FAILED,
                               lib_send ''Failed to clean up passive cooling'' (cooling_code cooling_ret) s1)
                         else (THERMAL_LIB_SUCCESS, s1));
                       (r2, s3) = (if te_sensor_cleanup env \<noteq> 0
                         then (THERMAL_LIB_ERROR_THERMAL_SENSOR_CLEANUP_FAILED,
                               lib_send ''Failed to clean up thermal sensor'' (te_sensor_cleanup env) s2)
                         else (r1, s2));
                       (r3, s4) = (if te_common_cleanup env \<noteq> 0
                         then (THERMAL_LIB_ERROR_THERMAL_COMMON_CLEANUP_FAILED,
                               lib_send ''Failed to clean up thermal common'' (te_common_cleanup env) s3)
                         else (r2, s3))
                   in Ret (r3, s4\<lparr>g_lib_initialized := False\<rparr>)))
           (\<lambda>(rc, s'). Ret (rc, WOS_THERMAL_SEND LEVEL_DEBUG ''WOS Thermal library cleaned up successfully'' s')))"

definition wos_thermal_lib_get_zone_count ::
  "u8 option \<Rightarrow> ('l, 'x) wos_thermal_session_scheme \<Rightarrow> WosThermalLibReturnCode \<times> u8 option \<times> ('l, 'x) wos_thermal_session_scheme" where
  "wos_thermal_lib_get_zone_count zone_count s =
     (if \<not> g_lib_initialized s
      then (THERMAL_LIB_ERROR_NOT_INITIALIZED, zone_count, WOS_THERMAL_SEND LEVEL_ERROR ''WOS Thermal library is not initialized'' s)
      else case zone_count of
             None \<Rightarrow> (THERMAL_LIB_ERROR_NULL_POINTER, None, WOS_THERMAL_SEND LEVEL_ERROR ''Zone count pointer is NULL'' s)
           | Some _ \<Rightarrow> (THERMAL_LIB_SUCCESS, Some (zone_names_ids_length (g_zone_name_map s)), s))"

text \<open>Copying the zones: \<open>n\<close> more from \<open>i\<close>.\<close>

fun copy_zones ::
  "nat \<Rightarrow> nat \<Rightarrow> ThermalCommonZoneNameMap \<Rightarrow> double list \<Rightarrow> double list \<Rightarrow> WosThermalZoneData list \<Rightarrow> WosThermalZoneData list outcome" where
  "copy_zones i 0 m ts cs zs = Ret zs"
| "copy_zones i (Suc n) m ts cs zs =
     (if \<not> i < MAX_THERMAL_ZONES then Ret zs
      else obind (arr_read (zone_ids m) i) (\<lambda>z. obind (arr_read (zone_names m) i) (\<lambda>name.
           obind (arr_read ts i) (\<lambda>t. obind (arr_read cs i) (\<lambda>c.
           obind (arr_write zs i \<lparr>zd_zone_id = z, zd_zone_name = take 64 name, zd_temperature = t, zd_passive_cooling = c\<rparr>) (\<lambda>zs'.
             copy_zones (Suc i) n m ts cs zs'))))))"

text \<open>What \<open>thermal_sensor_get_info\<close> does to the array: it copies over its first elements.\<close>

definition sensor_copy :: "double list \<Rightarrow> double list \<Rightarrow> double list" where
  "sensor_copy xs ts = take (length ts) (xs @ drop (length xs) ts)"

definition lib_read_temperatures ::
  "wos_thermal_env \<Rightarrow> ('l, 'x) wos_thermal_session_scheme \<Rightarrow> nat \<times> ('l, 'x) wos_thermal_session_scheme" where
  "lib_read_temperatures env s =
     (case te_sensor env of (thermal_ret, xs, len) \<Rightarrow>
        (thermal_ret, s\<lparr>g_temperature_query :=
           \<lparr>tq_temperatures = map_option (sensor_copy xs) (tq_temperatures (g_temperature_query s)), tq_temperatures_length = len\<rparr>\<rparr>))"

definition lib_read_cooling ::
  "wos_thermal_env \<Rightarrow> ('l, 'x) wos_thermal_session_scheme \<Rightarrow> (PassiveCoolingReturnCode \<times> ('l, 'x) wos_thermal_session_scheme) outcome" where
  "lib_read_cooling env s =
     obind (passive_cooling_get_info (te_cooling env) (Some (g_passive_cooling_query s)) (g_cooling s)) (\<lambda>(rc, rq).
       Ret (rc, case rq of Some r \<Rightarrow> s\<lparr>g_passive_cooling_query := r\<rparr> | None \<Rightarrow> s))"

definition wos_thermal_lib_get_zone_info ::
  "wos_thermal_env \<Rightarrow> WosThermalData option \<Rightarrow> ('l, 'x) wos_thermal_session_scheme
     \<Rightarrow> (WosThermalLibReturnCode \<times> WosThermalData option \<times> ('l, 'x) wos_thermal_session_scheme) outcome" where
  "wos_thermal_lib_get_zone_info env thermal_data s =
     (if \<not> g_lib_initialized s
      then Ret (THERMAL_LIB_ERROR_NOT_INITIALIZED, thermal_data, WOS_THERMAL_SEND LEVEL_ERROR ''WOS Thermal library is not initialized'' s)
      else case thermal_data of
             None \<Rightarrow> Ret (THERMAL_LIB_ERROR_NULL_POINTER, None, WOS_THERMAL_SEND LEVEL_ERROR ''Data pointer is NULL'' s)
           | Some td0 \<Rightarrow>
               let td = td0\<lparr>td_timestamp := win_now (te_sampled env) 0\<rparr>; (thermal_ret, s1) = lib_read_temperatures env s
               in if thermal_ret \<noteq> 0
                  then Ret (THERMAL_LIB_ERROR_GET_THERMAL_INFO_FAILED, Some td, lib_send ''Failed to get thermal sensor info'' thermal_ret s1)
                  else obind (lib_read_cooling env s1) (\<lambda>(cooling_ret, s2).
                    if cooling_ret \<noteq> COOLING_SUCCESS
                    then Ret (THERMAL_LIB_ERROR_GET_PASSIVE_COOLING_INFO_FAILED, Some td,
                           lib_send ''Failed to get passive cooling info'' (cooling_code cooling_ret) s2)
                    else case (tq_temperatures (g_temperature_query s2), pq_passive_cooling (g_passive_cooling_query s2)) of
                           (Some ts, Some cs) \<Rightarrow>
                             obind (copy_zones 0 (unat (zone_names_ids_length (g_zone_name_map s2))) (g_zone_name_map s2) ts cs (td_zones td)) (\<lambda>zs.
                               Ret (THERMAL_LIB_SUCCESS,
                                    Some (td\<lparr>td_zones := zs, td_zone_count := zone_names_ids_length (g_zone_name_map s2)\<rparr>), s2))
                         | _ \<Rightarrow> Stuck BadDeref))"

end
