(* ===== verification/WosThermal.thy ===== *)
theory WosThermal
  imports WosThermalLib
begin

text \<open>
  The thermal backend for Windows, \<open>backends/wos-thermal/src/wos_thermal.c\<close>: its seven operations and its collection
  thread, over the library of \<open>WosThermalLib\<close> and the zones of \<open>WosThermalInfo\<close>. Theorems are in \<open>WosThermalProps\<close>,
  \<open>WosThermalLive\<close>, \<open>WosThermalInit\<close> and \<open>WosThermalFaults\<close>.
\<close>

section \<open>State\<close>

abbreviation (input) WOS_THERMAL_CAPABILITY_ID :: u8 where "WOS_THERMAL_CAPABILITY_ID \<equiv> 0"

definition wos_thermal_streaming_rates :: "u16 list" where
  "wos_thermal_streaming_rates = [200, 1000]"

definition wos_thermal_sampling_rates :: "u16 list" where
  "wos_thermal_sampling_rates = [50, 1000]"

text \<open>The local variables of the thread between two iterations.\<close>

record wos_thermal_local =
  tl_request :: QcPerfRequest
  tl_samples_per_stream :: u32
  tl_metric_count :: u32
  tl_streaming_rate_ns :: u64
  tl_data :: QcPerfData
  tl_thermal_data :: WosThermalData
  tl_sample_count :: u32
  tl_metric_index :: u32
  tl_current_time :: u64
  tl_last_stream_time :: u64
  tl_slept :: nat

record wos_thermal_state = "wos_thermal_local wos_thermal_session" +
  g_is_initialized :: bool
  g_capability_info :: QcPerfCapabilityInfo
  g_metrics_data :: "QcPerfMetricInfo list"
  g_current_request :: QcPerfRequest

definition initial_wos_thermal :: "cooling_state \<Rightarrow> oom \<Rightarrow> wos_thermal_state" where
  "initial_wos_thermal cooling faults = session.extend (initial_session faults)
     \<lparr>g_zone_id_to_metric_id_map = replicate MAX_THERMAL_ZONE_ID (0, 0), g_lib_initialized = False, g_zone_name_map = zero_zone_map,
      g_temperature_query = \<lparr>tq_temperatures = None, tq_temperatures_length = 0\<rparr>,
      g_passive_cooling_query = \<lparr>pq_passive_cooling = None, pq_passive_cooling_length = 0\<rparr>, g_cooling = cooling,
      g_is_initialized = False, g_capability_info = zero_capability,
      g_metrics_data = replicate WOS_THERMAL_CAPABILITY_METRIC_COUNT zero_metric_info,
      g_current_request = \<lparr>rq_capability_id = 0, rq_streaming_rate = 0, rq_sampling_rate = 0\<rparr>\<rparr>"

text \<open>A code of the library stored in a \<open>QcPerfReturnCode\<close>: the enumerator with the same value.\<close>

definition as_return_code :: "WosThermalLibReturnCode \<Rightarrow> QcPerfReturnCode" where
  "as_return_code lc =
     [SUCCESS, FAILED, NOT_SUPPORTED, ALREADY_INITIALIZED, INVALID_HANDLE, INVALID_ARGUMENTS, NOT_INITIALIZED, CAPABILITY_NOT_FOUND,
      INVALID_BUFFER_SIZE, NULL_POINTER, CALLOC_FAILED, BACKEND_ALREADY_CONNECTED, INVALID_BACKEND_ID, BACKEND_NOT_CONNECTED,
      CALLBACK_ALREADY_SET, NATIVE_LIBRARY_FAILED] ! thermal_lib_code lc"

text \<open>The value of an enumerator of \<open>QThreadReturnCode\<close>, as the messages print it.\<close>

fun qthread_code :: "QThreadReturnCode \<Rightarrow> nat" where
  "qthread_code QTHREAD_CREATE_SUCCESS = 0"
| "qthread_code QTHREAD_CREATE_FAILED = 1"
| "qthread_code QTHREAD_NULL_POINTER = 2"
| "qthread_code QTHREAD_DESTROY_FAILED = 3"
| "qthread_code QTHREAD_DESTROY_SUCCESS = 4"
| "qthread_code QTHREAD_JOIN_SUCCESS = 5"
| "qthread_code QTHREAD_JOIN_FAILED = 6"
| "qthread_code QTHREAD_INVALID_HANDLE = 7"
| "qthread_code QTHREAD_CURRENT_THREAD_SUCCESS = 8"
| "qthread_code QTHREAD_CURRENT_THREAD_FAILED = 9"
| "qthread_code QTHREAD_TERMINATE_FAILED = 10"
| "qthread_code QTHREAD_TERMINATE_SUCCESS = 11"

section \<open>Operations\<close>

definition wos_thermal_set_message_callback :: "callback \<Rightarrow> wos_thermal_state \<Rightarrow> QcPerfReturnCode \<times> wos_thermal_state" where
  "wos_thermal_set_message_callback message_callback s = (SUCCESS, wos_thermal_logger_set_message_callback message_callback s)"

definition wos_thermal_set_data_callback :: "callback \<Rightarrow> wos_thermal_state \<Rightarrow> QcPerfReturnCode \<times> wos_thermal_state" where
  "wos_thermal_set_data_callback data_callback s =
     (if data_callback = None then (INVALID_ARGUMENTS, s)
      else if g_data_callback s \<noteq> None then (CALLBACK_ALREADY_SET, s)
      else (SUCCESS, s\<lparr>g_data_callback := data_callback\<rparr>))"

text \<open>The table: the zones of the machine, or all of them when there is none.\<close>

definition wos_thermal_table ::
  "wos_thermal_env \<Rightarrow> wos_thermal_state \<Rightarrow> ((QcPerfMetricInfo list \<times> u8) \<times> wos_thermal_state) outcome" where
  "wos_thermal_table env s =
     obind (wos_thermal_capability_init_available_metrics (te_zones_again env) (g_metrics_data s) (Some 0) s) (\<lambda>((ms, count), s1).
       case count of
         None \<Rightarrow> Stuck BadDeref
       | Some n \<Rightarrow>
           if n > 0
           then Ret ((ms, n), WOS_THERMAL_SEND LEVEL_INFO (''Initialized '' @ show_u (unat n) @ '' metrics for available thermal zones'') s1)
           else obind (wos_thermal_capability_init_metrics ms) (\<lambda>ms'.
                  Ret ((ms', of_nat WOS_THERMAL_CAPABILITY_METRIC_COUNT), WOS_THERMAL_SEND LEVEL_WARNING
                    ''Failed to dynamically detect thermal zones, using static configuration'' s1)))"

text \<open>
  The capability and the table are static, and \<open>g_backend_info\<close> points to them: here it holds what they contain after
  the function. The rates are stored again by every initialisation, and counted again.
\<close>

definition thermal_register :: "wos_thermal_env \<Rightarrow> wos_thermal_state \<Rightarrow> (QcPerfReturnCode \<times> wos_thermal_state) outcome" where
  "thermal_register env s =
     obind (wos_thermal_table env s) (\<lambda>((ms, n), s1).
       let c = g_capability_info s1;
           (st, stn) = copy_rates wos_thermal_streaming_rates 0 (ci_streaming_rate c, ci_streaming_rate_len c);
           (sa, san) = copy_rates wos_thermal_sampling_rates 0 (ci_sampling_rate c, ci_sampling_rate_len c);
           c' = c\<lparr>ci_capability_id := WOS_THERMAL_CAPABILITY_ID, ci_name := snprintf_buf CAPABILITY_NAME_MAX_LEN ''thermal'',
                  ci_name_len := length ''thermal'', ci_metric_ids_list := Some ms, ci_metric_ids_list_len := n,
                  ci_streaming_rate := st, ci_streaming_rate_len := stn, ci_sampling_rate := sa, ci_sampling_rate_len := san\<rparr>
       in Ret (SUCCESS, WOS_THERMAL_SEND LEVEL_DEBUG ''WOS Thermal backend initialized successfully''
            (s1\<lparr>g_metrics_data := ms, g_capability_info := c',
                g_backend_info := \<lparr>bi_backend_id = of_nat (backend_index BACKEND_THERMAL), bi_capabilities_list = Some [c'],
                                   bi_capabilities_list_length = 1\<rparr>,
                g_is_initialized := True\<rparr>)))"

definition wos_thermal_init :: "wos_thermal_env \<Rightarrow> wos_thermal_state \<Rightarrow> (QcPerfReturnCode \<times> wos_thermal_state) outcome" where
  "wos_thermal_init env s0 =
     (let s = WOS_THERMAL_SEND LEVEL_DEBUG ''Initializing WOS Thermal backend'' s0
      in if g_is_initialized s
         then Ret (ALREADY_INITIALIZED, WOS_THERMAL_SEND LEVEL_WARNING ''WOS Thermal backend is already initialized'' s)
         else obind (wos_thermal_lib_init env s) (\<lambda>(lib_ret, s1).
                if lib_ret \<noteq> THERMAL_LIB_SUCCESS
                then Ret (FAILED, lib_send ''Failed to initialize WOS Thermal library'' (thermal_lib_code lib_ret) s1)
                else thermal_register env s1))"

definition wos_thermal_backend_info ::
  "QcPerfBackendInfo option \<Rightarrow> wos_thermal_state \<Rightarrow> QcPerfReturnCode \<times> QcPerfBackendInfo option \<times> wos_thermal_state" where
  "wos_thermal_backend_info backend_info s =
     (case backend_info of
        None \<Rightarrow> (NULL_POINTER, None, WOS_THERMAL_SEND LEVEL_ERROR ''Backend info pointer is NULL'' s)
      | Some _ \<Rightarrow>
          if \<not> g_is_initialized s
          then (NOT_INITIALIZED, backend_info, WOS_THERMAL_SEND LEVEL_ERROR ''WOS Thermal backend is not initialized'' s)
          else (SUCCESS, Some (g_backend_info s),
                WOS_THERMAL_SEND LEVEL_INFO ''Retrieving WOS Thermal backend capabilities information'' s))"

text \<open>Two rates are the bounds of an interval, any other number is the list of the valid ones.\<close>

definition thermal_rate_valid :: "u16 \<Rightarrow> u8 \<Rightarrow> u16 list \<Rightarrow> bool outcome" where
  "thermal_rate_valid rate n a =
     (if n = 2 then obind (arr_read a 0) (\<lambda>lo. obind (arr_read a 1) (\<lambda>hi. Ret (lo \<le> rate \<and> rate \<le> hi)))
      else rate_scan rate (unat n) a)"

definition wos_thermal_validate_request ::
  "QcPerfRequest option \<Rightarrow> wos_thermal_state \<Rightarrow> (QcPerfReturnCode \<times> wos_thermal_state) outcome" where
  "wos_thermal_validate_request request s =
     (case request of
        None \<Rightarrow> Ret (NULL_POINTER, WOS_THERMAL_SEND LEVEL_ERROR ''Request pointer is NULL'' s)
      | Some rq \<Rightarrow>
          let c = g_capability_info s
          in if rq_capability_id rq \<noteq> WOS_THERMAL_CAPABILITY_ID
             then Ret (CAPABILITY_NOT_FOUND,
                    WOS_THERMAL_SEND LEVEL_ERROR (''Invalid capability ID: '' @ show_u (unat (rq_capability_id rq))) s)
             else obind (thermal_rate_valid (rq_sampling_rate rq) (ci_sampling_rate_len c) (ci_sampling_rate c)) (\<lambda>sampling_rate_valid.
               if \<not> sampling_rate_valid
               then Ret (INVALID_ARGUMENTS, WOS_THERMAL_SEND LEVEL_ERROR (''Invalid sampling rate: '' @ show_u (unat (rq_sampling_rate rq))) s)
               else obind (thermal_rate_valid (rq_streaming_rate rq) (ci_streaming_rate_len c) (ci_streaming_rate c)) (\<lambda>streaming_rate_valid.
                 if \<not> streaming_rate_valid
                 then Ret (INVALID_ARGUMENTS, WOS_THERMAL_SEND LEVEL_ERROR (''Invalid streaming rate: '' @ show_u (unat (rq_streaming_rate rq))) s)
                 else Ret (SUCCESS, s))))"

definition wos_thermal_thread_attrs :: "QcPerfRequest \<Rightarrow> QThreadAttributes" where
  "wos_thermal_thread_attrs rq =
     \<lparr>thread_name = snprintf_buf THREAD_NAME_SIZE ''wos_thermal_thread'',
      thread_name_len = of_nat (length (snprintf_buf THREAD_NAME_SIZE ''wos_thermal_thread'')),
      thread_priority = 0, thread_stack_size = 0, thread_params = Some rq\<rparr>"

definition wos_thermal_start :: "QcPerfRequest option \<Rightarrow> wos_thermal_state \<Rightarrow> (QcPerfReturnCode \<times> wos_thermal_state) outcome" where
  "wos_thermal_start request s0 =
     (let s = WOS_THERMAL_SEND LEVEL_DEBUG ''Starting WOS Thermal data collection'' s0
      in if \<not> g_is_initialized s
         then Ret (NOT_INITIALIZED, WOS_THERMAL_SEND LEVEL_ERROR ''WOS Thermal backend is not initialized'' s)
         else if g_is_thread_running s
         then Ret (ALREADY_INITIALIZED, WOS_THERMAL_SEND LEVEL_WARNING ''WOS Thermal data collection is already running'' s)
         else if g_data_callback s = None
         then Ret (FAILED, WOS_THERMAL_SEND LEVEL_ERROR ''Data callback is not set'' s)
         else obind (wos_thermal_validate_request request s) (\<lambda>(return_code, s1).
                if return_code \<noteq> SUCCESS then Ret (return_code, s1)
                else case request of
                       None \<Rightarrow> Stuck BadDeref
                     | Some rq \<Rightarrow>
                         let (thread_ret, s2) = windows_spawn (wos_thermal_thread_attrs rq) s1
                         in if thread_ret \<noteq> QTHREAD_CREATE_SUCCESS
                            then Ret (as_return_code THERMAL_LIB_ERROR_THREAD_CREATE_FAILED,
                                   lib_send ''Failed to create thermal data collection thread'' (qthread_code thread_ret) s2)
                            else Ret (SUCCESS, WOS_THERMAL_SEND LEVEL_DEBUG ''WOS Thermal data collection started successfully''
                                   ((WOS_THERMAL_SEND LEVEL_INFO ''Thermal data collection started successfully'' s2)\<lparr>g_current_request := rq\<rparr>))))"

section \<open>The collection thread\<close>

definition thermal_stopped :: "('l, 'x) session_scheme \<Rightarrow> ('l, 'x) session_scheme" where
  "thermal_stopped s = WOS_THERMAL_SEND LEVEL_DEBUG ''Thermal data collection thread stopped'' s"

text \<open>
  From the first statement to the loop. The flag stays up when the thermal data or the data cannot be allocated.
\<close>

definition wos_thermal_thread_entry ::
  "wos_thermal_env \<Rightarrow> QcPerfRequest option \<Rightarrow> wos_thermal_state \<Rightarrow> (wos_thermal_local option \<times> wos_thermal_state) outcome" where
  "wos_thermal_thread_entry env param s0 =
     (case param of
        None \<Rightarrow> Stuck BadDeref
      | Some rq \<Rightarrow>
          let sampling_rate_ns = ucast (rq_sampling_rate rq) * 1000000 :: u64; streaming_rate_ns = ucast (rq_streaming_rate rq) * 1000000 :: u64;
              s = WOS_THERMAL_SEND LEVEL_DEBUG ''Thermal data collection thread started'' (s0\<lparr>g_is_thread_running := True\<rparr>)
          in if sampling_rate_ns = 0 then Stuck DivByZero
             else let samples_per_stream = (ucast (streaming_rate_ns div sampling_rate_ns) :: u32);
                      (lib_ret, zone_count, s1) = wos_thermal_lib_get_zone_count (Some 0) s
                  in if lib_ret \<noteq> THERMAL_LIB_SUCCESS
                     then Ret (None, thermal_stopped
                            ((WOS_THERMAL_SEND LEVEL_ERROR ''Failed to get thermal zone count from lib'' s1)\<lparr>g_is_thread_running := False\<rparr>))
                     else let (ok, s2) = alloc s1
                          in if \<not> ok
                             then Ret (None, thermal_stopped (WOS_THERMAL_SEND LEVEL_ERROR ''Failed to allocate memory for WosThermalData'' s2))
                             else let (ok2, s3) = alloc s2
                                  in if \<not> ok2
                                     then Ret (None, thermal_stopped (WOS_THERMAL_SEND LEVEL_ERROR ''Failed to allocate memory for QcPerfData'' s3))
                                     else let metric_count = ucast (the zone_count) * 2 * samples_per_stream; (ok3, s4) = alloc s3
                                          in if \<not> ok3
                                             then Ret (None, thermal_stopped ((WOS_THERMAL_SEND LEVEL_ERROR
                                                    ''Failed to allocate memory for thermal metric responses'' s4)\<lparr>g_is_thread_running := False\<rparr>))
                                             else let now = win_now (te_now env) 0
                                                  in Ret (Some \<lparr>tl_request = rq, tl_samples_per_stream = samples_per_stream,
                                                        tl_metric_count = metric_count, tl_streaming_rate_ns = streaming_rate_ns,
                                                        tl_data = \<lparr>pd_backend_id = 0, pd_capability_id = 0,
                                                                   pd_metric_response = replicate (unat metric_count) zero_response,
                                                                   pd_metric_response_len = 0\<rparr>,
                                                        tl_thermal_data = zero_thermal_data, tl_sample_count = 0, tl_metric_index = 0,
                                                        tl_current_time = now, tl_last_stream_time = now, tl_slept = 0\<rparr>, s4))"

definition thermal_put_double :: "nat \<Rightarrow> u64 \<Rightarrow> u16 \<Rightarrow> double \<Rightarrow> QcPerfMetricResponse list \<Rightarrow> QcPerfMetricResponse list outcome" where
  "thermal_put_double i now metric_id v rs =
     obind (arr_read rs i) (\<lambda>r. Ret (rs[i := \<lparr>mr_timestamp = now, mr_metric_id = metric_id,
       mr_metric_value = (mr_metric_value r)\<lparr>gt_data_type := TYPE_DOUBLE, gt_double_value := v\<rparr>\<rparr>]))"

text \<open>The loop over the zones of a sample: \<open>n\<close> more from \<open>i\<close>, while the position is below \<open>metric_count - 1\<close>.\<close>

fun thermal_fill ::
  "nat \<Rightarrow> nat \<Rightarrow> u32 \<Rightarrow> WosThermalData \<Rightarrow> QcPerfMetricResponse list \<times> u32 \<Rightarrow> wos_thermal_state
     \<Rightarrow> ((QcPerfMetricResponse list \<times> u32) \<times> wos_thermal_state) outcome" where
  "thermal_fill i 0 metric_count td b s = Ret (b, s)"
| "thermal_fill i (Suc n) metric_count td b s =
     (if \<not> snd b < metric_count - 1 then Ret (b, s)
      else obind (arr_read (td_zones td) i) (\<lambda>z.
           obind (wos_thermal_get_metric_id (zd_zone_id z) False (Some 0) s) (\<lambda>t.
           obind (wos_thermal_get_metric_id (zd_zone_id z) True (Some 0) s) (\<lambda>c.
             if the t = 0xFFFF \<or> the c = 0xFFFF then thermal_fill (Suc i) n metric_count td b s
             else if metric_count \<le> snd b + 1
             then Ret (b, WOS_THERMAL_SEND LEVEL_ERROR ''Metric index exceeds allocated size'' s)
             else obind (thermal_put_double (unat (snd b)) (td_timestamp td) (the t) (zd_temperature z) (fst b)) (\<lambda>rs1.
                  obind (thermal_put_double (unat (snd b + 1)) (td_timestamp td) (the c) (zd_passive_cooling z) rs1) (\<lambda>rs2.
                    thermal_fill (Suc i) n metric_count td (rs2, snd b + 1 + 1) s))))))"

definition thermal_sample ::
  "wos_thermal_env \<Rightarrow> wos_thermal_local \<Rightarrow> wos_thermal_state \<Rightarrow> (wos_thermal_local \<times> wos_thermal_state) outcome" where
  "thermal_sample env l s =
     obind (wos_thermal_lib_get_zone_info env (Some (tl_thermal_data l)) s) (\<lambda>(lib_ret, out, s1).
       let td = (case out of Some td \<Rightarrow> td | None \<Rightarrow> tl_thermal_data l)
       in if lib_ret \<noteq> THERMAL_LIB_SUCCESS
          then Ret (l\<lparr>tl_thermal_data := td\<rparr>, WOS_THERMAL_SEND LEVEL_ERROR ''Failed to get thermal zone info'' s1)
          else obind (thermal_fill 0 (unat (td_zone_count td)) (tl_metric_count l) td (pd_metric_response (tl_data l), tl_metric_index l) s1)
                 (\<lambda>((rs, i), s2).
                   Ret (l\<lparr>tl_thermal_data := td, tl_metric_index := i,
                          tl_data := (tl_data l)\<lparr>pd_metric_response := rs, pd_metric_response_len := unat i\<rparr>,
                          tl_sample_count := tl_sample_count l + 1\<rparr>, s2)))"

text \<open>The delivery: the responses are cleared after it, their number is not.\<close>

definition thermal_stream :: "u64 \<Rightarrow> wos_thermal_local \<Rightarrow> wos_thermal_state \<Rightarrow> wos_thermal_local \<times> wos_thermal_state" where
  "thermal_stream now l s =
     (let elapsed_ns = now - tl_last_stream_time l
      in if tl_samples_per_stream l \<le> tl_sample_count l \<or> tl_streaming_rate_ns l \<le> elapsed_ns
         then let (l1, s1) =
                (case g_data_callback s of
                   None \<Rightarrow> (l, s)
                 | Some cb \<Rightarrow> (l\<lparr>tl_data := (tl_data l)\<lparr>pd_metric_response := replicate (unat (tl_metric_count l)) zero_response\<rparr>\<rparr>,
                               s\<lparr>sn_data := sn_data s @ [(cb, tl_data l)]\<rparr>))
              in (l1\<lparr>tl_sample_count := 0, tl_metric_index := 0, tl_last_stream_time := now\<rparr>, s1)
         else (l, s))"

definition wos_thermal_thread_iterate ::
  "wos_thermal_env \<Rightarrow> wos_thermal_local \<Rightarrow> wos_thermal_state \<Rightarrow> (wos_thermal_local \<times> wos_thermal_state) outcome" where
  "wos_thermal_thread_iterate env l s =
     (let now = win_now (te_now env) (tl_current_time l);
          l1 = l\<lparr>tl_current_time := now,
                 tl_data := (tl_data l)\<lparr>pd_backend_id := of_nat (backend_index BACKEND_THERMAL), pd_capability_id := WOS_THERMAL_CAPABILITY_ID\<rparr>\<rparr>
      in obind (thermal_sample env l1 s) (\<lambda>(l2, s2).
           let (l3, s3) = thermal_stream now l2 s2
           in Ret (if g_is_thread_running s3 then l3\<lparr>tl_slept := unat (rq_sampling_rate (tl_request l3))\<rparr> else l3, s3)))"

text \<open>After the loop the structures are freed.\<close>

definition wos_thermal_thread_finish :: "wos_thermal_local \<Rightarrow> wos_thermal_state \<Rightarrow> wos_thermal_state outcome" where
  "wos_thermal_thread_finish l s = Ret (thermal_stopped s)"

definition thermal_data_collection_thread :: "wos_thermal_env \<Rightarrow> (wos_thermal_local, wos_thermal_state) thread_code" where
  "thermal_data_collection_thread env = \<lparr>th_entry = wos_thermal_thread_entry env, th_finish = wos_thermal_thread_finish\<rparr>"

section \<open>Stop, deinitialisation and creation\<close>

definition wos_thermal_stop ::
  "wos_thermal_env \<Rightarrow> QcPerfRequest option \<Rightarrow> wos_thermal_state \<Rightarrow> (QcPerfReturnCode \<times> wos_thermal_state) outcome" where
  "wos_thermal_stop env request s0 =
     (let s = WOS_THERMAL_SEND LEVEL_DEBUG ''Stopping WOS Thermal data collection'' s0
      in case request of
           None \<Rightarrow> Ret (NULL_POINTER, WOS_THERMAL_SEND LEVEL_ERROR ''Request pointer is NULL'' s)
         | Some _ \<Rightarrow>
             if \<not> g_is_initialized s
             then Ret (NOT_INITIALIZED, WOS_THERMAL_SEND LEVEL_ERROR ''WOS Thermal backend is not initialized'' s)
             else if \<not> g_is_thread_running s
             then Ret (SUCCESS, WOS_THERMAL_SEND LEVEL_WARNING ''WOS Thermal data collection is not running'' s)
             else obind (thread_join (wait_exit (thermal_data_collection_thread env)) (Some (g_thread_info s)) (s\<lparr>g_is_thread_running := False\<rparr>))
                    (\<lambda>(jr, s1).
                      let (r1, s2) = (if jr \<noteq> QTHREAD_JOIN_SUCCESS
                            then (as_return_code THERMAL_LIB_ERROR_THREAD_JOIN_FAILED,
                                  lib_send ''Failed to join thermal data collection thread'' (qthread_code jr) s1)
                            else (SUCCESS, s1));
                          (dr, ti) = windows_thread_destroy (Some (g_thread_info s2)) (te_closes env);
                          s3 = s2\<lparr>g_thread_info := (case ti of Some i \<Rightarrow> i | None \<Rightarrow> g_thread_info s2)\<rparr>
                      in if dr \<noteq> QTHREAD_DESTROY_SUCCESS
                         then Ret (as_return_code THERMAL_LIB_ERROR_THREAD_DESTROY_FAILED,
                                lib_send ''Failed to destroy thermal data collection thread'' (qthread_code dr) s3)
                         else Ret (r1, WOS_THERMAL_SEND LEVEL_DEBUG ''WOS Thermal data collection stopped successfully'' s3)))"

definition wos_thermal_deinit :: "wos_thermal_env \<Rightarrow> wos_thermal_state \<Rightarrow> (QcPerfReturnCode \<times> wos_thermal_state) outcome" where
  "wos_thermal_deinit env s0 =
     (let s = WOS_THERMAL_SEND LEVEL_DEBUG ''Deinitializing WOS Thermal backend'' s0
      in if \<not> g_is_initialized s
         then Ret (NOT_INITIALIZED, WOS_THERMAL_SEND LEVEL_WARNING ''WOS Thermal backend is not initialized'' s)
         else obind (if g_is_thread_running s
                     then obind (wos_thermal_stop env (Some (g_current_request s)) s) (\<lambda>(rc, s1).
                            Ret (rc, if rc \<noteq> SUCCESS
                                     then WOS_THERMAL_SEND LEVEL_ERROR ''Failed to stop WOS Thermal data collection during deinitialization'' s1
                                     else s1))
                     else Ret (SUCCESS, s)) (\<lambda>(rc, s1).
              obind (wos_thermal_lib_cleanup env s1) (\<lambda>(lib_ret, s2).
                if lib_ret \<noteq> THERMAL_LIB_SUCCESS
                then Ret (FAILED, lib_send ''Failed to clean up WOS Thermal library'' (thermal_lib_code lib_ret) s2)
                else Ret (rc, WOS_THERMAL_SEND LEVEL_DEBUG ''WOS Thermal backend deinitialized successfully''
                       (s2\<lparr>g_is_initialized := False, g_data_callback := None\<rparr>)))))"

definition qcperf_wos_thermal_backend_create :: "wos_thermal_env \<Rightarrow> wos_thermal_state backend_init_t" where
  "qcperf_wos_thermal_backend_create env backend =
     (case backend of
        None \<Rightarrow> (NULL_POINTER, None)
      | Some p \<Rightarrow> (SUCCESS, Some (p\<lparr>
          qcperf_backend_init := Some (wos_thermal_init env),
          qcperf_backend_start := Some wos_thermal_start,
          qcperf_backend_stop := Some (wos_thermal_stop env),
          qcperf_backend_deinit := Some (wos_thermal_deinit env),
          qcperf_backend_info := Some (\<lambda>i s. Ret (wos_thermal_backend_info i s)),
          set_message_callback := Some (\<lambda>cb s. Ret (wos_thermal_set_message_callback cb s)),
          set_data_callback := Some (\<lambda>cb s. Ret (wos_thermal_set_data_callback cb s))\<rparr>)))"

end
