(* ===== verification/WosThermalZones.thy ===== *)
theory WosThermalZones
  imports WosPassiveCoolingProps WosThermal
begin

text \<open>
  The table of the thermal backend for Windows: which metrics the zones of a machine get, how many zones fit, and
  which metrics a zone identifier leads to.
\<close>

section \<open>Frames\<close>

lemma WOS_THERMAL_SEND_quiet [simp]: "quiet s (WOS_THERMAL_SEND lv t s)"
  by (simp add: WOS_THERMAL_SEND_def Let_def)

lemma thermal_send_messages: "\<exists>ms. WOS_THERMAL_SEND lv t s = s\<lparr>sn_messages := ms\<rparr>"
  using WOS_THERMAL_SEND_quiet [of s lv t] by (simp add: quiet_def)

lemma thermal_send_ids:
  "\<exists>t. WOS_THERMAL_SEND lv x (s\<lparr>sn_messages := u, g_zone_id_to_metric_id_map := i\<rparr>) = s\<lparr>sn_messages := t, g_zone_id_to_metric_id_map := i\<rparr>"
proof -
  obtain t where "WOS_THERMAL_SEND lv x (s\<lparr>sn_messages := u, g_zone_id_to_metric_id_map := i\<rparr>) =
      s\<lparr>sn_messages := u, g_zone_id_to_metric_id_map := i\<rparr>\<lparr>sn_messages := t\<rparr>" using thermal_send_messages by blast
  then show ?thesis by (intro exI [of _ t]) simp
qed

lemma lib_send_quiet [simp]: "quiet s (lib_send t n s)"
  by (simp add: lib_send_def)

lemma WOS_THERMAL_SEND_fields [simp]:
  "g_is_thread_running (WOS_THERMAL_SEND lv t s) = g_is_thread_running s"
  "g_thread_info (WOS_THERMAL_SEND lv t s) = g_thread_info s"
  "sn_threads (WOS_THERMAL_SEND lv t s) = sn_threads s"
  "g_backend_info (WOS_THERMAL_SEND lv t s) = g_backend_info s"
  "sn_table (WOS_THERMAL_SEND lv t s) = sn_table s"
  "g_data_callback (WOS_THERMAL_SEND lv t s) = g_data_callback s"
  "g_message_callback (WOS_THERMAL_SEND lv t s) = g_message_callback s"
  "sn_data (WOS_THERMAL_SEND lv t s) = sn_data s"
  "sn_faults (WOS_THERMAL_SEND lv t s) = sn_faults s"
  "session.more (WOS_THERMAL_SEND lv t s) = session.more s"
  using thermal_send_messages [of lv t s] by auto

lemma THERMAL_SEND_zones [simp]:
  "g_zone_id_to_metric_id_map (WOS_THERMAL_SEND lv t s) = g_zone_id_to_metric_id_map s"
  "g_lib_initialized (WOS_THERMAL_SEND lv t s) = g_lib_initialized s"
  "g_zone_name_map (WOS_THERMAL_SEND lv t s) = g_zone_name_map s"
  "g_temperature_query (WOS_THERMAL_SEND lv t s) = g_temperature_query s"
  "g_passive_cooling_query (WOS_THERMAL_SEND lv t s) = g_passive_cooling_query s"
  "g_cooling (WOS_THERMAL_SEND lv t s) = g_cooling s"
  "wos_thermal_session.more (WOS_THERMAL_SEND lv t s) = wos_thermal_session.more s"
  using thermal_send_messages [of lv t s] by auto

lemma THERMAL_SEND_backend [simp]:
  "g_is_initialized (WOS_THERMAL_SEND lv t s) = g_is_initialized s"
  "g_capability_info (WOS_THERMAL_SEND lv t s) = g_capability_info s"
  "g_metrics_data (WOS_THERMAL_SEND lv t s) = g_metrics_data s"
  "g_current_request (WOS_THERMAL_SEND lv t s) = g_current_request s"
  using thermal_send_messages [of lv t s] by auto

lemma same_control_wos_thermal_send [control_simps, simp]:
  "same_control s (WOS_THERMAL_SEND lv t s') = same_control s s'"
  "same_control (WOS_THERMAL_SEND lv t s) s' = same_control s s'"
  by (simp_all add: same_control_def)

section \<open>The static table\<close>

lemma zone_texts_length: "length zone_texts = 12" "length cpu_zones = 3" "length qmx_zones = 3" "length soc_zones = 3" "length ec_zones = 3"
  by (simp_all add: zone_texts_def cpu_zones_def qmx_zones_def soc_zones_def ec_zones_def)

text \<open>The two metrics of the zone \<open>k\<close>.\<close>

definition zone_metrics :: "nat \<Rightarrow> QcPerfMetricInfo list" where
  "zone_metrics k = [zone_temp_metric k (zone_texts ! k), zone_cooling_metric k (zone_texts ! k)]"

lemma zone_metrics_length [simp]: "length (concat (map zone_metrics ks)) = 2 * length ks"
  by (induction ks) (simp_all add: zone_metrics_def)

lemma zone_temp_id [simp]: "mi_metric_id (zone_temp_metric k z) = of_nat (2 * k)"
  by (cases z) (simp add: zone_temp_metric_def)

lemma zone_cooling_id [simp]: "mi_metric_id (zone_cooling_metric k z) = of_nat (2 * k + 1)"
  by (cases z) (simp add: zone_cooling_metric_def)

text \<open>Storing a pair at a position.\<close>

lemma store_pair: "i + 2 \<le> length xs \<Longrightarrow> xs[i := a, Suc i := b] = take i xs @ [a, b] @ drop (i + 2) xs"
  by (simp add: upd_conv_take_nth_drop [of i] upd_conv_take_nth_drop [of "Suc i"])

lemma static_zone_metrics_eq:
  assumes "zs = take (length zs) (drop k zone_texts)" "2 * (k + length zs) \<le> length ms"
  shows "static_zone_metrics k zs ms =
     Ret (take (2 * k) ms @ concat (map zone_metrics [k..<k + length zs]) @ drop (2 * (k + length zs)) ms)"
  using assms
proof (induction zs arbitrary: k ms)
  case (Cons z zs)
  have k: "k < length zone_texts" using Cons.prems(1) by (cases "k < length zone_texts") auto
  then have z: "z = zone_texts ! k" "zs = take (length zs) (drop (Suc k) zone_texts)"
    using Cons.prems(1) by (auto simp: Cons_nth_drop_Suc [symmetric])
  let ?ms = "ms[2 * k := zone_temp_metric k z, Suc (2 * k) := zone_cooling_metric k z]"
  have p: "?ms = take (2 * k) ms @ zone_metrics k @ drop (2 * k + 2) ms"
    using Cons.prems(2) store_pair [of "2 * k" ms] z(1) by (simp add: zone_metrics_def)
  have "static_zone_metrics k (z # zs) ms = static_zone_metrics (Suc k) zs ?ms" using Cons.prems(2) by simp
  also have "\<dots> = Ret (take (2 * Suc k) ?ms @ concat (map zone_metrics [Suc k..<Suc k + length zs]) @ drop (2 * (Suc k + length zs)) ?ms)"
    by (rule Cons.IH [OF z(2)]) (use Cons.prems(2) in simp)
  also have "take (2 * Suc k) ?ms = take (2 * k) ms @ zone_metrics k"
    unfolding p using Cons.prems(2) by (simp add: zone_metrics_def)
  also have "drop (2 * (Suc k + length zs)) ?ms = drop (2 * (k + length (z # zs))) ms" by simp
  finally have e: "static_zone_metrics k (z # zs) ms = Ret ((take (2 * k) ms @ zone_metrics k) @
     concat (map zone_metrics [Suc k..<Suc k + length zs]) @ drop (2 * (k + length (z # zs))) ms)" .
  have "[k..<k + length (z # zs)] = k # [Suc k..<Suc k + length zs]" by (simp add: upt_conv_Cons del: upt_Suc)
  then show ?case unfolding e by simp
qed simp

text \<open>A part of the table after the zones before it have been written.\<close>

lemma static_part:
  assumes "zs = take (length zs) (drop k zone_texts)" "length ys = 2 * k" "2 * (k + length zs) \<le> length ms"
  shows "static_zone_metrics k zs (ys @ drop (2 * k) ms) =
     Ret ((ys @ concat (map zone_metrics [k..<k + length zs])) @ drop (2 * (k + length zs)) ms)"
  using static_zone_metrics_eq [OF assms(1), of "ys @ drop (2 * k) ms"] assms(2,3) by (simp add: add.commute)

lemma static_table:
  assumes "length ms = WOS_THERMAL_CAPABILITY_METRIC_COUNT"
  shows "wos_thermal_capability_init_metrics ms = Ret (concat (map zone_metrics [0..<12]))"
proof -
  let ?m = "\<lambda>b. concat (map zone_metrics [0..<b])"
  have m: "?m a @ concat (map zone_metrics [a..<b]) = ?m b" if "a \<le> b" for a b
    using that upt_add_eq_append [of 0 a "b - a"] by simp
  have l: "length (?m k) = 2 * k" for k by simp
  have "static_cpu_metrics ms = Ret (?m 3 @ drop 6 ms)"
    using static_part [of cpu_zones 0 "[]" ms] assms by (simp add: static_cpu_metrics_def zone_texts_length) (simp add: zone_texts_def zone_texts_length)
  moreover have "static_qmx_metrics (?m 3 @ drop 6 ms) = Ret (?m 6 @ drop 12 ms)"
    using static_part [of qmx_zones 3 "?m 3" ms] assms m [of 3 6] unfolding l
    by (simp add: static_qmx_metrics_def zone_texts_length del: upt_Suc) (simp add: zone_texts_def zone_texts_length)
  moreover have "static_soc_metrics (?m 6 @ drop 12 ms) = Ret (?m 9 @ drop 18 ms)"
    using static_part [of soc_zones 6 "?m 6" ms] assms m [of 6 9] unfolding l
    by (simp add: static_soc_metrics_def zone_texts_length del: upt_Suc) (simp add: zone_texts_def zone_texts_length)
  moreover have "static_ec_metrics (?m 9 @ drop 18 ms) = Ret (?m 12)"
    using static_part [of ec_zones 9 "?m 9" ms] assms m [of 9 12] unfolding l
    by (simp add: static_ec_metrics_def zone_texts_length del: upt_Suc) (simp add: zone_texts_def zone_texts_length)
  ultimately show ?thesis by (simp add: wos_thermal_capability_init_metrics_def)
qed

section \<open>The zones of a machine\<close>

text \<open>A zone has metrics when its identifier is in range and its name contains one of the twelve texts.\<close>

definition zone_match :: "u8 \<times> string \<Rightarrow> (u8 \<times> nat) option" where
  "zone_match p = (if fst p < 100 then map_option (Pair (fst p)) (match_zone (snd p)) else None)"

definition reported_zones :: "ThermalCommonZoneNameMap \<Rightarrow> (u8 \<times> string) list" where
  "reported_zones m = take (unat (zone_names_ids_length m)) (zip (zone_ids m) (zone_names m))"

definition matched_zones :: "ThermalCommonZoneNameMap \<Rightarrow> (u8 \<times> nat) list" where
  "matched_zones m = List.map_filter zone_match (reported_zones m)"

lemma match_zone_range: "match_zone name = Some k \<Longrightarrow> k < 12"
  by (auto simp: match_zone_def match_cpu_zone_def match_qmx_zone_def match_soc_zone_def match_ec_zone_def split: option.splits if_splits)

text \<open>The metrics of an identifier after the zones of a list have been stored, the last one with that identifier winning.\<close>

definition store_ids :: "(u8 \<times> nat) list \<Rightarrow> (u16 \<times> u16) list \<Rightarrow> (u16 \<times> u16) list" where
  "store_ids M ids = foldl (\<lambda>ids (z, k). ids[unat z := (of_nat (2 * k), of_nat (2 * k + 1))]) ids M"

lemma store_ids_length [simp]: "length (store_ids M ids) = length ids"
  by (induction M arbitrary: ids) (auto simp: store_ids_def)

lemma store_ids_nth:
  assumes "\<forall>p \<in> set M. unat (fst p) < length ids" "unat z < length ids"
  shows "store_ids M ids ! unat z = (case map_of (rev M) z of Some k \<Rightarrow> (of_nat (2 * k), of_nat (2 * k + 1)) | None \<Rightarrow> ids ! unat z)"
  using assms
proof (induction M rule: rev_induct)
  case (snoc p M)
  obtain a b where p: "p = (a, b)" by (cases p)
  have "store_ids (M @ [p]) ids = (store_ids M ids)[unat a := (of_nat (2 * b), of_nat (2 * b + 1))]" by (simp add: store_ids_def p)
  moreover have "unat a < length ids" using snoc.prems(1) p by simp
  ultimately show ?case using snoc p by (simp add: nth_list_update_if word_unat_eq_iff)
qed (simp add: store_ids_def)

lemma unat_u8_Suc: "n < 255 \<Longrightarrow> unat (of_nat n + 1 :: u8) = Suc n"
  using unat_of_nat_u8 [of "Suc n"] by (simp add: add.commute)

lemma zone_out_of_range: "((100 :: u8) \<le> z) = (\<not> z < 100)"
  by auto

lemma register_zones_total:
  assumes n: "j + n \<le> length (zone_ids m)" "j + n \<le> length (zone_names m)" and ids: "length (g_zone_id_to_metric_id_map s) = 100"
    and ms: "length ms = 24" "i \<le> 24"
  shows "let M = List.map_filter zone_match (take n (drop j (zip (zone_ids m) (zone_names m)))) in
     if i + 2 * length M \<le> 24
     then \<exists>t. register_zones j n m (ms, of_nat i) s =
        Ret ((take i ms @ concat (map zone_metrics (map snd M)) @ drop (i + 2 * length M) ms, of_nat (i + 2 * length M)),
          s\<lparr>sn_messages := t, g_zone_id_to_metric_id_map := store_ids M (g_zone_id_to_metric_id_map s)\<rparr>)
     else register_zones j n m (ms, of_nat i) s = Stuck OutOfBounds"
  using assms
proof (induction n arbitrary: j i ms s)
  case 0
  then show ?case by (auto simp: store_ids_def List.map_filter_def intro!: exI [of _ "sn_messages s"])
next
  case (Suc n)
  let ?z = "zone_ids m ! j" let ?nm = "zone_names m ! j"
  define M where "M = List.map_filter zone_match (take n (drop (Suc j) (zip (zone_ids m) (zone_names m))))"
  have j: "j < length (zone_ids m)" "j < length (zone_names m)" using Suc.prems by simp_all
  have M1: "List.map_filter zone_match (take (Suc n) (drop j (zip (zone_ids m) (zone_names m)))) =
      (case zone_match (?z, ?nm) of None \<Rightarrow> M | Some p \<Rightarrow> p # M)"
  proof -
    have "drop j (zip (zone_ids m) (zone_names m)) = (?z, ?nm) # drop (Suc j) (zip (zone_ids m) (zone_names m))"
      using j Cons_nth_drop_Suc [of j "zip (zone_ids m) (zone_names m)"] by simp
    then show ?thesis by (simp add: M_def split: option.splits)
  qed
  show ?case
  proof (cases "zone_match (?z, ?nm)")
    case None
    have s': "\<exists>t. register_zones j (Suc n) m (ms, of_nat i) s = register_zones (Suc j) n m (ms, of_nat i) (s\<lparr>sn_messages := t\<rparr>)"
    proof (cases "?z < 100")
      case True
      then have "match_zone ?nm = None" using None by (simp add: zone_match_def)
      moreover obtain t where "WOS_THERMAL_SEND LEVEL_ERROR (''Metric not defined for zone : '' @ ?nm) (WOS_THERMAL_SEND LEVEL_DEBUG
          (''Initializing metrics for zone '' @ show_u (unat ?z) @ '': '' @ ?nm) s) = s\<lparr>sn_messages := t\<rparr>"
        using quiet_trans [OF WOS_THERMAL_SEND_quiet WOS_THERMAL_SEND_quiet] unfolding quiet_def by blast
      ultimately show ?thesis using True j by (intro exI [of _ t]) (simp add: zone_out_of_range)
    next
      case False
      obtain t where "WOS_THERMAL_SEND LEVEL_WARNING (''Zone ID '' @ show_u (unat ?z) @ '' exceeds maximum allowed (99), skipping'') s =
          s\<lparr>sn_messages := t\<rparr>" using thermal_send_messages by blast
      then show ?thesis using False j by (intro exI [of _ t]) (simp add: zone_out_of_range)
    qed
    then obtain t where "register_zones j (Suc n) m (ms, of_nat i) s = register_zones (Suc j) n m (ms, of_nat i) (s\<lparr>sn_messages := t\<rparr>)" by blast
    then show ?thesis
      using Suc.IH [of "Suc j" "s\<lparr>sn_messages := t\<rparr>" ms i] Suc.prems None M1 unfolding M_def [symmetric]
      by (simp add: Let_def split: if_splits)
  next
    case (Some p)
    then obtain k where p: "p = (?z, k)" "match_zone ?nm = Some k" "?z < 100" by (auto simp: zone_match_def split: if_splits)
    have uz: "unat ?z < 100" using p(3) by (simp add: word_less_nat_alt)
    obtain t where t: "WOS_THERMAL_SEND LEVEL_DEBUG (''Initializing metrics for zone '' @ show_u (unat ?z) @ '': '' @ ?nm) s = s\<lparr>sn_messages := t\<rparr>"
      using thermal_send_messages by blast
    have ui: "unat (of_nat i :: u8) = i" "unat (of_nat i + 1 :: u8) = Suc i" using Suc.prems(5) by (auto simp: unat_of_nat_u8 unat_u8_Suc)
    show ?thesis
    proof (cases "i + 2 \<le> 24")
      case False
      have "store_zone k ?z (ms, of_nat i) (g_zone_id_to_metric_id_map s) = Stuck OutOfBounds"
        using False Suc.prems(3,4) ui uz by (auto simp: store_zone_def Let_def arr_write_def)
      then show ?thesis using False Some M1 j p t by (simp add: zone_out_of_range)
    next
      case True
      let ?ids = "(g_zone_id_to_metric_id_map s)[unat ?z := (of_nat (2 * k), of_nat (2 * k + 1))]"
      let ?ms = "take i ms @ zone_metrics k @ drop (i + 2) ms"
      have l: "length ?ms = 24" using True Suc.prems(4) by (simp add: zone_metrics_def)
      have "ms[i := zone_temp_metric k (zone_texts ! k), Suc i := zone_cooling_metric k (zone_texts ! k)] = ?ms"
        using True Suc.prems(4) store_pair [of i ms] by (simp add: zone_metrics_def)
      then have "store_zone k ?z (ms, of_nat i) (g_zone_id_to_metric_id_map s) = Ret ((?ms, of_nat (i + 2)), ?ids)"
        using True Suc.prems(3,4) ui uz by (simp add: store_zone_def Let_def add.assoc)
      then have step: "register_zones j (Suc n) m (ms, of_nat i) s =
          register_zones (Suc j) n m (?ms, of_nat (i + 2)) (s\<lparr>sn_messages := t, g_zone_id_to_metric_id_map := ?ids\<rparr>)"
        using j p t by (simp add: zone_out_of_range)
      have st: "store_ids (p # M) (g_zone_id_to_metric_id_map s) = store_ids M ?ids" using p(1) by (simp add: store_ids_def)
      have tk: "take (i + 2) ?ms = take i ms @ zone_metrics k" "drop (i + 2 + 2 * length M) ?ms = drop (i + 2 + 2 * length M) ms"
        using True Suc.prems(4) by (simp_all add: zone_metrics_def add.commute)
      have ih: "let M = List.map_filter zone_match (take n (drop (Suc j) (zip (zone_ids m) (zone_names m)))) in
        if i + 2 + 2 * length M \<le> 24
        then \<exists>u. register_zones (Suc j) n m (?ms, of_nat (i + 2)) (s\<lparr>sn_messages := t, g_zone_id_to_metric_id_map := ?ids\<rparr>) =
           Ret ((take (i + 2) ?ms @ concat (map zone_metrics (map snd M)) @ drop (i + 2 + 2 * length M) ?ms, of_nat (i + 2 + 2 * length M)),
             (s\<lparr>sn_messages := t, g_zone_id_to_metric_id_map := ?ids\<rparr>)\<lparr>sn_messages := u, g_zone_id_to_metric_id_map :=
                store_ids M (g_zone_id_to_metric_id_map (s\<lparr>sn_messages := t, g_zone_id_to_metric_id_map := ?ids\<rparr>))\<rparr>)
        else register_zones (Suc j) n m (?ms, of_nat (i + 2)) (s\<lparr>sn_messages := t, g_zone_id_to_metric_id_map := ?ids\<rparr>) = Stuck OutOfBounds"
        by (rule Suc.IH) (use Suc.prems True l in simp_all)
      show ?thesis
        using ih Some M1 p unfolding step Let_def M_def [symmetric] tk
        by (simp add: st [unfolded p(1)] split: if_splits)
    qed
  qed
qed

lemma matched_ids: "p \<in> set (matched_zones m) \<Longrightarrow> fst p < 100 \<and> snd p < 12"
  by (auto simp: matched_zones_def List.map_filter_def zone_match_def dest: match_zone_range split: if_splits)

text \<open>The metrics an identifier leads to once the zones of the map \<open>m\<close> are stored.\<close>

definition zone_metric_ids :: "ThermalCommonZoneNameMap \<Rightarrow> u8 \<Rightarrow> u16 \<times> u16" where
  "zone_metric_ids m z =
     (case map_of (rev (matched_zones m)) z of Some k \<Rightarrow> (of_nat (2 * k), of_nat (2 * k + 1)) | None \<Rightarrow> (0xFFFF, 0xFFFF))"

definition stored_ids :: "ThermalCommonZoneNameMap \<Rightarrow> (u16 \<times> u16) list" where
  "stored_ids m = store_ids (matched_zones m) (replicate 100 (0xFFFF, 0xFFFF))"

lemma get_metric_id_stored:
  assumes "g_zone_id_to_metric_id_map s = stored_ids m"
  shows "wos_thermal_get_metric_id z cooling (Some x) s = Ret (Some ((if cooling then snd else fst) (zone_metric_ids m z)))"
proof (cases "z < 100")
  case False
  then have "\<forall>p \<in> set (matched_zones m). fst p \<noteq> z" using matched_ids by metis
  then have "map_of (rev (matched_zones m)) z = None" by (auto simp: map_of_eq_None_iff)
  then show ?thesis using False by (simp add: wos_thermal_get_metric_id_def zone_out_of_range zone_metric_ids_def)
next
  case True
  then have u: "unat z < 100" by (simp add: word_less_nat_alt)
  have "\<forall>p \<in> set (matched_zones m). unat (fst p) < 100" using matched_ids by (auto simp: word_less_nat_alt)
  then have "stored_ids m ! unat z = zone_metric_ids m z"
    using store_ids_nth [of "matched_zones m" "replicate 100 (0xFFFF, 0xFFFF)" z] u
    by (simp add: stored_ids_def zone_metric_ids_def split: option.split)
  then show ?thesis using True u assms by (simp add: wos_thermal_get_metric_id_def zone_out_of_range stored_ids_def)
qed

lemma available_metrics:
  assumes "zone_map_ok m" "length ms = WOS_THERMAL_CAPABILITY_METRIC_COUNT"
  shows "if length (matched_zones m) \<le> 12
     then \<exists>t. wos_thermal_capability_init_available_metrics (0, m) ms (Some c) s =
        Ret ((concat (map zone_metrics (map snd (matched_zones m))) @ drop (2 * length (matched_zones m)) ms,
              Some (of_nat (2 * length (matched_zones m)))),
          s\<lparr>sn_messages := t, g_zone_id_to_metric_id_map := stored_ids m\<rparr>)
     else wos_thermal_capability_init_available_metrics (0, m) ms (Some c) s = Stuck OutOfBounds"
proof -
  let ?M = "matched_zones m" let ?n = "unat (zone_names_ids_length m)" let ?z = "show_u ?n"
  let ?s = "s\<lparr>g_zone_id_to_metric_id_map := replicate 100 (0xFFFF, 0xFFFF)\<rparr>"
  obtain t where t: "WOS_THERMAL_SEND LEVEL_INFO (''Found '' @ ?z @ '' thermal zones'') ?s = ?s\<lparr>sn_messages := t\<rparr>"
    using thermal_send_messages by blast
  have M: "List.map_filter zone_match (take ?n (drop 0 (zip (zone_ids m) (zone_names m)))) = ?M"
    by (simp add: matched_zones_def reported_zones_def)
  have r: "if 2 * length ?M \<le> 24
     then \<exists>u. register_zones 0 ?n m (ms, 0) (?s\<lparr>sn_messages := t\<rparr>) =
        Ret ((concat (map zone_metrics (map snd ?M)) @ drop (2 * length ?M) ms, of_nat (2 * length ?M)),
          (?s\<lparr>sn_messages := t\<rparr>)\<lparr>sn_messages := u, g_zone_id_to_metric_id_map := stored_ids m\<rparr>)
     else register_zones 0 ?n m (ms, 0) (?s\<lparr>sn_messages := t\<rparr>) = Stuck OutOfBounds"
    using register_zones_total [of 0 ?n m "?s\<lparr>sn_messages := t\<rparr>" ms 0, unfolded M Let_def] assms
    by (cases "length ?M \<le> 12") (auto simp: zone_map_ok_def stored_ids_def)
  show ?thesis
  proof (cases "length ?M \<le> 12")
    case False
    then show ?thesis using r t by (simp add: wos_thermal_capability_init_available_metrics_def Let_def)
  next
    case True
    then obtain u where u: "register_zones 0 ?n m (ms, 0) (?s\<lparr>sn_messages := t\<rparr>) =
        Ret ((concat (map zone_metrics (map snd ?M)) @ drop (2 * length ?M) ms, of_nat (2 * length ?M)),
          s\<lparr>sn_messages := u, g_zone_id_to_metric_id_map := stored_ids m\<rparr>)"
      using r by auto
    show ?thesis using True t u by (simp add: wos_thermal_capability_init_available_metrics_def Let_def thermal_send_ids)
  qed
qed

section \<open>Properties\<close>

text \<open>C36: The thermal backend for Windows gives each zone of the machine whose name it knows and whose identifier is below
  100 its two metrics, in the order of the zones, and its identifier then leads to them (for an identifier that
  several zones have, to those of the last), any other to none. There is room for twelve such zones: with more the
  function writes behind the table.\<close>
theorem wos_thermal_registers_zones:
  assumes "zone_map_ok m" "length ms = WOS_THERMAL_CAPABILITY_METRIC_COUNT"
  shows "if length (matched_zones m) \<le> 12
     then \<exists>s'. wos_thermal_capability_init_available_metrics (0, m) ms (Some c) s =
          Ret ((concat (map zone_metrics (map snd (matched_zones m))) @ drop (2 * length (matched_zones m)) ms,
                Some (of_nat (2 * length (matched_zones m)))), s') \<and>
        (\<forall>z cooling x. wos_thermal_get_metric_id z cooling (Some x) s' =
           Ret (Some (case map_of (rev (matched_zones m)) z of
                        Some k \<Rightarrow> of_nat (if cooling then 2 * k + 1 else 2 * k) | None \<Rightarrow> 0xFFFF)))
     else wos_thermal_capability_init_available_metrics (0, m) ms (Some c) s = Stuck OutOfBounds"
proof (cases "length (matched_zones m) \<le> 12")
  case False
  then show ?thesis using available_metrics [OF assms, of c s] by simp
next
  case True
  then obtain t where t: "wos_thermal_capability_init_available_metrics (0, m) ms (Some c) s =
        Ret ((concat (map zone_metrics (map snd (matched_zones m))) @ drop (2 * length (matched_zones m)) ms,
              Some (of_nat (2 * length (matched_zones m)))),
          s\<lparr>sn_messages := t, g_zone_id_to_metric_id_map := stored_ids m\<rparr>)"
    using available_metrics [OF assms, of c s] by auto
  have "wos_thermal_get_metric_id z cooling (Some x) (s\<lparr>sn_messages := t, g_zone_id_to_metric_id_map := stored_ids m\<rparr>) =
      Ret (Some (case map_of (rev (matched_zones m)) z of Some k \<Rightarrow> of_nat (if cooling then 2 * k + 1 else 2 * k) | None \<Rightarrow> 0xFFFF))"
    for z cooling x
    using get_metric_id_stored [of "s\<lparr>sn_messages := t, g_zone_id_to_metric_id_map := stored_ids m\<rparr>" m z cooling x]
    by (auto simp: zone_metric_ids_def split: option.splits)
  then show ?thesis using True t by simp
qed

lemma demo_matched: "matched_zones demo_zone_map = [(0, 0), (6, 6)]"
  by (simp add: matched_zones_def reported_zones_def demo_zone_map_def zone_match_def match_zone_def match_cpu_zone_def match_qmx_zone_def
      match_soc_zone_def match_ec_zone_def has_prefix_def)

theorem wos_thermal_registers_zones_witness:
  "\<exists>s'. wos_thermal_capability_init_available_metrics (0, demo_zone_map) (replicate 24 zero_metric_info) (Some 0)
       (initial_wos_thermal (initial_cooling [] []) []) =
       Ret ((zone_metrics 0 @ zone_metrics 6 @ replicate 20 zero_metric_info, Some 4), s') \<and>
     wos_thermal_get_metric_id 6 True (Some 0) s' = Ret (Some 13)"
  using wos_thermal_registers_zones [OF demo_zone_map_ok, of "replicate 24 zero_metric_info" 0 "initial_wos_thermal (initial_cooling [] []) []"]
  by (auto simp: demo_matched)

end
