(* ===== verification/WosThermalProps.thy ===== *)
theory WosThermalProps
  imports WosThermalZones ResponseBuffer
begin

text \<open>
  Correctness of the thermal backend for Windows, first part: the states its library keeps, what a collection reads,
  and what an iteration of the thread does with it.
\<close>

section \<open>The library\<close>

text \<open>The library is initialised for the zones \<open>m\<close>.\<close>

definition lib_ready :: "ThermalCommonZoneNameMap \<Rightarrow> ('l, 'x) wos_thermal_session_scheme \<Rightarrow> bool" where
  "lib_ready m s \<longleftrightarrow> g_lib_initialized s \<and> g_zone_name_map s = m \<and> zone_map_ok m \<and> zone_names_ids_length m \<noteq> 0 \<and>
     cooling_ok (g_cooling s) \<and> g_is_passive_cooling_initialized (g_cooling s) \<and> g_cooling_zones (g_cooling s) = Some m \<and>
     (\<exists>ts. tq_temperatures (g_temperature_query s) = Some ts \<and> length ts = 64) \<and>
     (\<exists>cs. pq_passive_cooling (g_passive_cooling_query s) = Some cs \<and> length cs = 64) \<and>
     zone_names_ids_length m \<le> pq_passive_cooling_length (g_passive_cooling_query s) \<and>
     unat (pq_passive_cooling_length (g_passive_cooling_query s)) \<le> 64"

definition lib_off :: "('l, 'x) wos_thermal_session_scheme \<Rightarrow> bool" where
  "lib_off s \<longleftrightarrow> \<not> g_lib_initialized s \<and> cooling_ok (g_cooling s) \<and> \<not> g_is_passive_cooling_initialized (g_cooling s)"

text \<open>The arrays of the last collection.\<close>

definition lib_values :: "('l, 'x) wos_thermal_session_scheme \<Rightarrow> double list \<times> double list" where
  "lib_values s = (the (tq_temperatures (g_temperature_query s)), the (pq_passive_cooling (g_passive_cooling_query s)))"

text \<open>Everything but the arrays and the messages.\<close>

definition lib_frame :: "wos_thermal_state \<Rightarrow> wos_thermal_state \<Rightarrow> bool" where
  "lib_frame s s' \<longleftrightarrow> same_control s s' \<and> g_backend_info s' = g_backend_info s \<and> g_data_callback s' = g_data_callback s \<and>
     g_zone_id_to_metric_id_map s' = g_zone_id_to_metric_id_map s \<and> g_lib_initialized s' = g_lib_initialized s \<and>
     g_zone_name_map s' = g_zone_name_map s \<and> g_cooling s' = g_cooling s \<and> g_is_initialized s' = g_is_initialized s \<and>
     g_capability_info s' = g_capability_info s \<and> g_metrics_data s' = g_metrics_data s"

lemma lib_frame_refl [simp]: "lib_frame s s"
  by (simp add: lib_frame_def)

lemma lib_frame_trans: "lib_frame s s' \<Longrightarrow> lib_frame s' s'' \<Longrightarrow> lib_frame s s''"
  using same_control_trans by (simp add: lib_frame_def) blast

lemma quiet_thermal:
  assumes "quiet s s'"
  shows "lib_frame s s'" "lib_ready m s' = lib_ready m s" "lib_off s' = lib_off s" "lib_values s' = lib_values s" "sn_data s' = sn_data s"
    "sn_faults s' = sn_faults s"
  using assms by (auto simp: quiet_def lib_frame_def same_control_def lib_ready_def lib_off_def lib_values_def)

lemma thermal_send_frame [simp]:
  "lib_frame s (WOS_THERMAL_SEND lv t s') = lib_frame s s'" "lib_frame (WOS_THERMAL_SEND lv t s) s' = lib_frame s s'"
  by (simp_all add: lib_frame_def)

lemma lib_send_simps [simp]:
  "lib_frame s (lib_send t n s') = lib_frame s s'" "lib_frame (lib_send t n s) s' = lib_frame s s'"
  "sn_data (lib_send t n s) = sn_data s" "same_control s (lib_send t n s') = same_control s s'"
  "same_control (lib_send t n s) s' = same_control s s'"
  "g_is_initialized (lib_send t n s'') = g_is_initialized s''" "g_data_callback (lib_send t n s'') = g_data_callback s''"
  by (simp_all add: lib_send_def)

lemma lib_messages [simp]:
  "lib_ready m (WOS_THERMAL_SEND lv t s) = lib_ready m s" "lib_off (WOS_THERMAL_SEND lv t s) = lib_off s"
  "lib_values (WOS_THERMAL_SEND lv t s) = lib_values s"
  "lib_ready m (lib_send t n s) = lib_ready m s" "lib_off (lib_send t n s) = lib_off s" "lib_values (lib_send t n s) = lib_values s"
  for s :: wos_thermal_state
  using quiet_thermal [OF WOS_THERMAL_SEND_quiet [of s lv t]] quiet_thermal [OF lib_send_quiet [of s t n]] by simp_all

section \<open>A collection\<close>

text \<open>What a collection leaves in the arrays: the temperatures the sensors store even when they fail.\<close>

definition thermal_collected :: "wos_thermal_env \<Rightarrow> ThermalCommonZoneNameMap \<Rightarrow> double list \<times> double list \<Rightarrow> double list \<times> double list" where
  "thermal_collected env m v = (sensor_copy (fst (snd (te_sensor env))) (fst v), cooling_values (te_cooling env) (zone_counters m) (snd v))"

definition collects :: "wos_thermal_env \<Rightarrow> bool" where
  "collects env \<longleftrightarrow> fst (te_sensor env) = 0 \<and> ce_collect (te_cooling env) = 0"

lemma sensor_copy_length [simp]: "length (sensor_copy xs ts) = length ts"
  by (simp add: sensor_copy_def)

lemma copy_zones_total:
  assumes "i + n \<le> 64" "length (zone_ids m) = 64" "length (zone_names m) = 64" "length ts = 64" "length cs = 64" "length zs = 64"
  shows "\<exists>zs'. copy_zones i n m ts cs zs = Ret zs' \<and> length zs' = 64 \<and>
     (\<forall>j. i \<le> j \<and> j < i + n \<longrightarrow> zd_zone_id (zs' ! j) = zone_ids m ! j \<and> zd_temperature (zs' ! j) = ts ! j \<and>
        zd_passive_cooling (zs' ! j) = cs ! j) \<and> (\<forall>j < i. zs' ! j = zs ! j)"
  using assms
proof (induction n arbitrary: i zs)
  case (Suc n)
  let ?z = "\<lparr>zd_zone_id = zone_ids m ! i, zd_zone_name = take 64 (zone_names m ! i), zd_temperature = ts ! i, zd_passive_cooling = cs ! i\<rparr>"
  obtain zs' where z: "copy_zones (Suc i) n m ts cs (zs[i := ?z]) = Ret zs'" "length zs' = 64"
    "\<forall>j. Suc i \<le> j \<and> j < Suc i + n \<longrightarrow> zd_zone_id (zs' ! j) = zone_ids m ! j \<and> zd_temperature (zs' ! j) = ts ! j \<and>
        zd_passive_cooling (zs' ! j) = cs ! j" "\<forall>j < Suc i. zs' ! j = zs[i := ?z] ! j"
    using Suc.IH [of "Suc i" "zs[i := ?z]"] Suc.prems by auto
  have "copy_zones i (Suc n) m ts cs zs = Ret zs'" using z(1) Suc.prems by simp
  moreover have "zs' ! i = ?z" using z(4) Suc.prems by simp
  moreover have "zd_zone_id (zs' ! j) = zone_ids m ! j \<and> zd_temperature (zs' ! j) = ts ! j \<and> zd_passive_cooling (zs' ! j) = cs ! j"
    if "i \<le> j \<and> j < i + Suc n" for j
    using that z(3) calculation(2) by (cases "j = i") simp_all
  moreover have "zs' ! j = zs ! j" if "j < i" for j using that z(4) by simp
  ultimately show ?case using z(2) by blast
qed auto

lemma get_zone_info_total:
  assumes r: "lib_ready m s" and l: "length (td_zones td) = 64"
  shows "\<exists>rc td' s'. wos_thermal_lib_get_zone_info env (Some td) s = Ret (rc, Some td', s') \<and> lib_ready m s' \<and> lib_frame s s' \<and>
     length (td_zones td') = 64 \<and> sn_data s' = sn_data s \<and> rc = (if fst (te_sensor env) \<noteq> 0 then THERMAL_LIB_ERROR_GET_THERMAL_INFO_FAILED
       else if ce_collect (te_cooling env) \<noteq> 0 then THERMAL_LIB_ERROR_GET_PASSIVE_COOLING_INFO_FAILED else THERMAL_LIB_SUCCESS) \<and>
     (rc = THERMAL_LIB_SUCCESS \<longrightarrow> lib_values s' = thermal_collected env m (lib_values s) \<and> td_zone_count td' = zone_names_ids_length m \<and>
        td_timestamp td' = win_now (te_sampled env) 0 \<and>
        (\<forall>j < unat (zone_names_ids_length m). zd_zone_id (td_zones td' ! j) = zone_ids m ! j \<and>
           zd_temperature (td_zones td' ! j) = fst (lib_values s') ! j \<and> zd_passive_cooling (td_zones td' ! j) = snd (lib_values s') ! j))"
proof -
  obtain ts cs where a: "tq_temperatures (g_temperature_query s) = Some ts" "length ts = 64"
    "pq_passive_cooling (g_passive_cooling_query s) = Some cs" "length cs = 64"
    using r by (auto simp: lib_ready_def)
  have m: "zone_map_ok m" "zone_names_ids_length m \<noteq> 0" "g_lib_initialized s" "g_zone_name_map s = m" "cooling_ok (g_cooling s)"
    "g_is_passive_cooling_initialized (g_cooling s)" "g_cooling_zones (g_cooling s) = Some m"
    "unat (zone_names_ids_length m) \<le> unat (pq_passive_cooling_length (g_passive_cooling_query s))"
    "unat (pq_passive_cooling_length (g_passive_cooling_query s)) \<le> 64"
    using r by (auto simp: lib_ready_def word_le_nat_alt)
  obtain st xs len where e: "te_sensor env = (st, xs, len)" by (cases "te_sensor env")
  let ?s1 = "s\<lparr>g_temperature_query := \<lparr>tq_temperatures = Some (sensor_copy xs ts), tq_temperatures_length = len\<rparr>\<rparr>"
  have s1: "lib_read_temperatures env s = (st, ?s1)" using a(1) e by (simp add: lib_read_temperatures_def)
  have f1: "lib_frame s ?s1" "lib_ready m ?s1" using r a by (simp_all add: lib_frame_def same_control_def lib_ready_def)
  let ?td = "td\<lparr>td_timestamp := win_now (te_sampled env) 0\<rparr>"
  show ?thesis
  proof (cases "st = 0")
    case False
    then show ?thesis using m(3) s1 e f1 l by (auto simp: wos_thermal_lib_get_zone_info_def Let_def)
  next
    case ok: True
    have "zone_names_ids_length m \<noteq> 0" "pq_passive_cooling_length (g_passive_cooling_query s) \<noteq> 0" using m(2,8) by (auto simp: unat_eq_0)
    note g = get_info_values [OF m(5-7) a(3) m(8) _ this(2), of "te_cooling env", simplified]
    have n: "unat (zone_names_ids_length m) \<le> length cs" using m(8,9) a(4) by simp
    show ?thesis
    proof (cases "ce_collect (te_cooling env) = 0")
      case False
      have c: "lib_read_cooling env ?s1 = Ret (COOLING_COLLECT_QUERY_DATA_FAILED, ?s1)"
        using g [OF n] False by (simp add: lib_read_cooling_def)
      show ?thesis using m(3) s1 e f1 l False ok c by (auto simp: wos_thermal_lib_get_zone_info_def Let_def)
    next
      case True
      let ?cs = "cooling_values (te_cooling env) (zone_counters m) cs"
      let ?s2 = "?s1\<lparr>g_passive_cooling_query := \<lparr>pq_passive_cooling = Some ?cs, pq_passive_cooling_length = zone_names_ids_length m\<rparr>\<rparr>"
      have c: "lib_read_cooling env ?s1 = Ret (COOLING_SUCCESS, ?s2)" using g [OF n] True by (simp add: lib_read_cooling_def)
      have f2: "lib_frame s ?s2" "lib_ready m ?s2" "lib_values ?s2 = thermal_collected env m (lib_values s)"
        using f1 a m(1) e by (simp_all add: lib_frame_def same_control_def lib_ready_def lib_values_def thermal_collected_def zone_map_ok_def)
      obtain zs where z: "copy_zones 0 (unat (zone_names_ids_length m)) m (sensor_copy xs ts) ?cs (td_zones ?td) = Ret zs" "length zs = 64"
        "\<forall>j. 0 \<le> j \<and> j < 0 + unat (zone_names_ids_length m) \<longrightarrow> zd_zone_id (zs ! j) = zone_ids m ! j \<and>
           zd_temperature (zs ! j) = sensor_copy xs ts ! j \<and> zd_passive_cooling (zs ! j) = ?cs ! j"
        using copy_zones_total [of 0 "unat (zone_names_ids_length m)" m "sensor_copy xs ts" ?cs "td_zones ?td"] m(1) a l
        by (auto simp: zone_map_ok_def)
      have "wos_thermal_lib_get_zone_info env (Some td) s =
          Ret (THERMAL_LIB_SUCCESS, Some (?td\<lparr>td_zones := zs, td_zone_count := zone_names_ids_length m\<rparr>), ?s2)"
        using m(3,4) s1 ok c z(1) by (simp add: wos_thermal_lib_get_zone_info_def Let_def)
      then show ?thesis using f2 z(2,3) e ok True by (intro exI) (auto simp: lib_values_def)
    qed
  qed
qed

section \<open>Opening and closing the library\<close>

text \<open>What the library does not touch.\<close>

definition outer_frame :: "wos_thermal_state \<Rightarrow> wos_thermal_state \<Rightarrow> bool" where
  "outer_frame s s' \<longleftrightarrow> same_control s s' \<and> g_backend_info s' = g_backend_info s \<and> g_data_callback s' = g_data_callback s \<and>
     g_zone_id_to_metric_id_map s' = g_zone_id_to_metric_id_map s \<and> g_is_initialized s' = g_is_initialized s \<and>
     g_capability_info s' = g_capability_info s \<and> g_metrics_data s' = g_metrics_data s \<and> sn_data s' = sn_data s"

lemma outer_frame_simps [simp]:
  "outer_frame s s" "outer_frame s (WOS_THERMAL_SEND lv t s') = outer_frame s s'" "outer_frame (WOS_THERMAL_SEND lv t s) s' = outer_frame s s'"
  "outer_frame s (lib_send t n s') = outer_frame s s'" "outer_frame (lib_send t n s) s' = outer_frame s s'"
  "outer_frame s (s'\<lparr>g_lib_initialized := b\<rparr>) = outer_frame s s'" "outer_frame s (s'\<lparr>g_zone_name_map := m\<rparr>) = outer_frame s s'"
  "outer_frame s (s'\<lparr>g_cooling := c\<rparr>) = outer_frame s s'" "outer_frame s (s'\<lparr>g_temperature_query := tq\<rparr>) = outer_frame s s'"
  "outer_frame s (s'\<lparr>g_passive_cooling_query := pq\<rparr>) = outer_frame s s'" "outer_frame s (s'\<lparr>sn_faults := f\<rparr>) = outer_frame s s'"
  by (simp_all add: outer_frame_def same_control_def lib_send_def)

lemma outer_frame_trans: "outer_frame s s' \<Longrightarrow> outer_frame s' s'' \<Longrightarrow> outer_frame s s''"
  using same_control_trans by (simp add: outer_frame_def) blast

text \<open>The zones a machine answers with.\<close>

definition zones_answer_ok :: "nat \<times> ThermalCommonZoneNameMap \<Rightarrow> bool" where
  "zones_answer_ok a \<longleftrightarrow> (fst a = 0 \<longrightarrow> zone_map_ok (snd a))"

lemma lib_cleanup_cooling:
  assumes "cooling_ok (g_cooling s)"
  shows "\<exists>c. lib_cooling_cleanup s = Ret (COOLING_SUCCESS, s\<lparr>g_cooling := c\<rparr>) \<and> cooling_ok c \<and> \<not> g_is_passive_cooling_initialized c \<and>
     pc_faults c = pc_faults (g_cooling s) \<and> pc_statuses c = pc_statuses (g_cooling s)"
  using cleanup_ok [OF assms] cleanup_scripts [OF assms] by (auto simp: lib_cooling_cleanup_def)

lemma lib_queries_total:
  assumes "cooling_ok (g_cooling s)" "g_is_passive_cooling_initialized (g_cooling s)" "g_cooling_zones (g_cooling s) = Some m"
    "g_zone_name_map s = m" "zone_map_ok m" "zone_names_ids_length m \<noteq> 0" "\<not> g_lib_initialized s"
  shows "\<exists>rc s'. lib_queries s = Ret (rc, s') \<and> outer_frame s s' \<and> (if rc = THERMAL_LIB_SUCCESS then lib_ready m s' else lib_off s') \<and>
     (sn_faults s = [] \<longrightarrow> rc = THERMAL_LIB_SUCCESS \<and> sn_faults s' = [] \<and> g_cooling s' = g_cooling s)"
proof -
  define f1 where "f1 = calloc_ok (sn_faults s)"
  define f2 where "f2 = calloc_ok (snd f1)"
  let ?b = "Some (replicate 64 (0 :: double))"
  have le: "zone_names_ids_length m \<le> 64" using assms(5) by (simp add: zone_map_ok_def word_le_nat_alt)
  show ?thesis
  proof (cases "fst f1")
    case False
    let ?t = "WOS_THERMAL_SEND LEVEL_ERROR ''Failed to allocate memory for temperature query'' (s\<lparr>sn_faults := snd f1,
        g_temperature_query := \<lparr>tq_temperatures = None, tq_temperatures_length = 64\<rparr>\<rparr>)"
    obtain c where "lib_cooling_cleanup ?t = Ret (COOLING_SUCCESS, ?t\<lparr>g_cooling := c\<rparr>)" "cooling_ok c" "\<not> g_is_passive_cooling_initialized c"
      using lib_cleanup_cooling [of ?t] assms(1) by auto
    then show ?thesis using False assms(7) by (auto simp: lib_queries_def Let_def alloc_pair f1_def lib_off_def)
  next
    case ok: True
    show ?thesis
    proof (cases "fst f2")
      case False
      let ?t = "(WOS_THERMAL_SEND LEVEL_ERROR ''Failed to allocate memory for passive cooling query'' (s\<lparr>g_temperature_query := \<lparr>tq_temperatures = ?b, tq_temperatures_length = 64\<rparr>, sn_faults := snd f2,
          g_passive_cooling_query := \<lparr>pq_passive_cooling = None, pq_passive_cooling_length = 64\<rparr>\<rparr>))
          \<lparr>g_temperature_query := \<lparr>tq_temperatures = None, tq_temperatures_length = 64\<rparr>\<rparr>"
      obtain c where "lib_cooling_cleanup ?t = Ret (COOLING_SUCCESS, ?t\<lparr>g_cooling := c\<rparr>)" "cooling_ok c" "\<not> g_is_passive_cooling_initialized c"
        using lib_cleanup_cooling [of ?t] assms(1) by auto
      then show ?thesis using False ok assms(7) by (auto simp: lib_queries_def Let_def alloc_pair f1_def f2_def lib_off_def)
    next
      case True
      then show ?thesis using ok assms le by (auto simp: lib_queries_def Let_def alloc_pair f1_def f2_def lib_ready_def)
    qed
  qed
qed

text \<open>What makes the library start when nothing fails.\<close>

definition machine_works :: "wos_thermal_env \<Rightarrow> wos_thermal_state \<Rightarrow> bool" where
  "machine_works env s \<longleftrightarrow> te_common_init env = 0 \<and> fst (te_zones env) = 0 \<and> te_sensor_init env = 0 \<and>
     zone_names_ids_length (snd (te_zones env)) \<noteq> 0 \<and> sn_faults s = [] \<and> pc_faults (g_cooling s) = [] \<and> pc_statuses (g_cooling s) = []"

lemma lib_init_total:
  assumes o: "lib_off s" and z: "zones_answer_ok (te_zones env)"
  shows "\<exists>rc s'. wos_thermal_lib_init env s = Ret (rc, s') \<and> outer_frame s s' \<and>
     (if rc = THERMAL_LIB_SUCCESS then lib_ready (snd (te_zones env)) s' else lib_off s') \<and>
     (machine_works env s \<longrightarrow> rc = THERMAL_LIB_SUCCESS \<and> machine_works env s')"
proof -
  have c: "cooling_ok (g_cooling s)" "\<not> g_is_passive_cooling_initialized (g_cooling s)" "\<not> g_lib_initialized s" using o by (simp_all add: lib_off_def)
  have off: "lib_off (s\<lparr>g_zone_name_map := m\<rparr>)" for m using c by (simp add: lib_off_def)
  show ?thesis
  proof (cases "te_common_init env = 0 \<and> fst (te_zones env) = 0 \<and> te_sensor_init env = 0")
    case False
    have r: "lib_off (lib_send t n ((WOS_THERMAL_SEND lv x s)\<lparr>g_zone_name_map := m\<rparr>))"
      "lib_off (lib_send t n (WOS_THERMAL_SEND lv' x' ((WOS_THERMAL_SEND lv x s)\<lparr>g_zone_name_map := m\<rparr>)))" for t n lv x m lv' x'
      using c by (simp_all add: lib_off_def lib_send_def)
    show ?thesis using False c(3) o r
      by (auto simp: wos_thermal_lib_init_def Let_def machine_works_def)
  next
    case True
    let ?m = "snd (te_zones env)"
    have m: "zone_map_ok ?m" using z True by (simp add: zones_answer_ok_def)
    obtain crc c1 where i: "passive_cooling_init (Some ?m) (g_cooling s) = Ret (crc, c1)" "cooling_ok c1"
      "g_is_passive_cooling_initialized c1 = (crc = COOLING_SUCCESS)"
      "crc = COOLING_SUCCESS \<longrightarrow> g_cooling_zones c1 = Some ?m \<and> zone_names_ids_length ?m \<noteq> 0"
      using cooling_init_ok [OF c(1), of "Some ?m"] m by auto
    let ?s2 = "WOS_THERMAL_SEND LEVEL_DEBUG (''Found '' @ show_u (unat (zone_names_ids_length ?m)) @ '' thermal zones:'')
        ((WOS_THERMAL_SEND LEVEL_DEBUG ''Initializing WOS Thermal library'' s)\<lparr>g_zone_name_map := ?m\<rparr>)"
    let ?s3 = "?s2\<lparr>g_cooling := c1\<rparr>"
    have f: "outer_frame s ?s3" "\<not> g_lib_initialized ?s3" using c(3) by simp_all
    have e: "wos_thermal_lib_init env s = (if crc \<noteq> COOLING_SUCCESS
        then Ret (THERMAL_LIB_ERROR_PASSIVE_COOLING_INIT_FAILED, lib_send ''Failed to initialize passive cooling'' (cooling_code crc) ?s3)
        else lib_queries ?s3)"
      using True c(3) i(1) by (simp add: wos_thermal_lib_init_def Let_def)
    have w: "crc = COOLING_SUCCESS \<and> pc_faults c1 = [] \<and> pc_statuses c1 = []" if "machine_works env s"
      using that cooling_init_works [OF c(1,2) m] i(1) by (auto simp: machine_works_def)
    show ?thesis
    proof (cases "crc = COOLING_SUCCESS")
      case False
      have "lib_off ?s3" using f(2) i False by (simp add: lib_off_def)
      then show ?thesis using e False f(1) w by auto
    next
      case ok: True
      obtain rc s' where q: "lib_queries ?s3 = Ret (rc, s')" "outer_frame ?s3 s'"
        "if rc = THERMAL_LIB_SUCCESS then lib_ready ?m s' else lib_off s'" "sn_faults ?s3 = [] \<longrightarrow> rc = THERMAL_LIB_SUCCESS \<and> sn_faults s' = [] \<and> g_cooling s' = g_cooling ?s3"
        using lib_queries_total [of ?s3 ?m] f(2) i ok m by auto
      then show ?thesis using e ok w outer_frame_trans [OF f(1) q(2)] by (auto simp: machine_works_def)
    qed
  qed
qed

lemma lib_cleanup_total:
  assumes "lib_ready m s"
  shows "\<exists>s'. wos_thermal_lib_cleanup env s = Ret (if te_common_cleanup env \<noteq> 0 then THERMAL_LIB_ERROR_THERMAL_COMMON_CLEANUP_FAILED
       else if te_sensor_cleanup env \<noteq> 0 then THERMAL_LIB_ERROR_THERMAL_SENSOR_CLEANUP_FAILED else THERMAL_LIB_SUCCESS, s') \<and>
     outer_frame s s' \<and> lib_off s' \<and> (machine_works e s \<longrightarrow> machine_works e s')"
proof -
  let ?t = "(WOS_THERMAL_SEND LEVEL_DEBUG ''Cleaning up WOS Thermal library'' s)\<lparr>
      g_temperature_query := (g_temperature_query s)\<lparr>tq_temperatures := None\<rparr>,
      g_passive_cooling_query := (g_passive_cooling_query s)\<lparr>pq_passive_cooling := None\<rparr>\<rparr>"
  obtain c where c: "lib_cooling_cleanup ?t = Ret (COOLING_SUCCESS, ?t\<lparr>g_cooling := c\<rparr>)" "cooling_ok c" "\<not> g_is_passive_cooling_initialized c"
    "pc_faults c = pc_faults (g_cooling s)" "pc_statuses c = pc_statuses (g_cooling s)"
    using lib_cleanup_cooling [of ?t] assms by (auto simp: lib_ready_def)
  then show ?thesis using assms
    by (auto simp: wos_thermal_lib_cleanup_def Let_def lib_ready_def lib_off_def lib_send_def machine_works_def)
qed

lemma lib_cleanup_off:
  assumes "lib_off s"
  shows "\<exists>s'. wos_thermal_lib_cleanup env s = Ret (THERMAL_LIB_ERROR_NOT_INITIALIZED, s') \<and> outer_frame s s' \<and> lib_off s'"
  using assms by (auto simp: wos_thermal_lib_cleanup_def Let_def lib_off_def)

end
