(* ===== verification/WosThermalThread.thy ===== *)
theory WosThermalThread
  imports WosThermalProps
begin

text \<open>
  The collection thread of the thermal backend for Windows against a reference: a round reports, for every zone that
  has metrics, its temperature and its passive cooling, in the order of the zones.
\<close>

section \<open>The readings of a round\<close>

definition ids_at :: "(u16 \<times> u16) list \<Rightarrow> u8 \<Rightarrow> u16 \<times> u16" where
  "ids_at ids z = (if z < 100 then ids ! unat z else (0xFFFF, 0xFFFF))"

lemma get_metric_id_at:
  assumes "length (g_zone_id_to_metric_id_map s) = 100"
  shows "wos_thermal_get_metric_id z cooling (Some x) s =
     Ret (Some ((if cooling then snd else fst) (ids_at (g_zone_id_to_metric_id_map s) z)))"
proof (cases "z < 100")
  case True
  then have "unat z < 100" by (simp add: word_less_nat_alt)
  then show ?thesis using True assms by (simp add: wos_thermal_get_metric_id_def zone_out_of_range ids_at_def)
qed (simp add: wos_thermal_get_metric_id_def zone_out_of_range ids_at_def)

definition zone_readings :: "(u16 \<times> u16) list \<Rightarrow> u64 \<Rightarrow> u8 \<Rightarrow> double \<Rightarrow> double \<Rightarrow> (u16 \<times> u64 \<times> reading) list" where
  "zone_readings ids now z t c =
     (if fst (ids_at ids z) = 0xFFFF \<or> snd (ids_at ids z) = 0xFFFF then []
      else [(fst (ids_at ids z), now, Dbl t), (snd (ids_at ids z), now, Dbl c)])"

lemma zone_readings_length: "length (zone_readings ids now z t c) \<le> 2"
  by (simp add: zone_readings_def)

lemma concat_readings_length: "length (concat (map (\<lambda>j. zone_readings ids now (z j) (t j) (c j)) js)) \<le> 2 * length js"
proof (induction js)
  case (Cons j js)
  then show ?case using zone_readings_length [of ids now "z j" "t j" "c j"] by simp
qed simp

text \<open>
  The reference: a collection from the arrays before it, the temperatures and the cooling the zones of \<open>m\<close> are
  reported with, and the arrays after it.
\<close>

definition wos_thermal_out ::
  "ThermalCommonZoneNameMap \<Rightarrow> (u16 \<times> u16) list \<Rightarrow> wos_thermal_env \<Rightarrow> double list \<times> double list
     \<Rightarrow> (u16 \<times> u64 \<times> reading) list \<times> (double list \<times> double list)" where
  "wos_thermal_out m ids e a =
     (let b = thermal_collected e m a
      in (concat (map (\<lambda>j. zone_readings ids (win_now (te_sampled e) 0) (zone_ids m ! j) (fst b ! j) (snd b ! j))
            [0..<unat (zone_names_ids_length m)]), b))"

section \<open>Storing a sample\<close>

lemma put_double_reading:
  assumes "i < length rs"
  shows "\<exists>r. thermal_put_double i now k v rs = Ret (rs[i := r]) \<and> response_reading r = (k, now, Dbl v)"
proof -
  let ?r = "\<lparr>mr_timestamp = now, mr_metric_id = k, mr_metric_value = (mr_metric_value (rs ! i))\<lparr>gt_data_type := TYPE_DOUBLE, gt_double_value := v\<rparr>\<rparr>"
  have "thermal_put_double i now k v rs = Ret (rs[i := ?r])" using assms by (simp add: thermal_put_double_def)
  moreover have "response_reading ?r = (k, now, Dbl v)" by (simp add: response_reading_def reading_of_def)
  ultimately show ?thesis by blast
qed

lemma unat_Suc_below:
  fixes i n :: u32
  assumes "unat i < unat n"
  shows "unat (i + 1) = Suc (unat i)"
proof -
  have e: "i + 1 = of_nat (Suc (unat i))" by simp
  have "Suc (unat i) < 2 ^ 32" using assms unsigned_less [where 'a = nat, of n] by simp
  then show ?thesis unfolding e by (rule unat_of_nat_u32)
qed

lemma store_two:
  assumes "unat (idx :: u32) + 2 \<le> unat (mc :: u32)" "length rs = unat mc"
  shows "\<exists>r q. thermal_put_double (unat idx) now t x rs = Ret (rs[unat idx := r]) \<and>
     thermal_put_double (unat (idx + 1)) now c y (rs[unat idx := r]) = Ret (rs[unat idx := r, Suc (unat idx) := q]) \<and>
     unat (idx + 1 + 1) = unat idx + 2 \<and>
     map response_reading (take (unat idx + 2) (rs[unat idx := r, Suc (unat idx) := q])) =
       map response_reading (take (unat idx) rs) @ [(t, now, Dbl x), (c, now, Dbl y)]"
proof -
  have u1: "unat (idx + 1) = Suc (unat idx)" by (rule unat_Suc_below [of _ mc]) (use assms(1) in simp)
  have u2: "unat (idx + 1 + 1) = unat idx + 2" using unat_Suc_below [of "idx + 1" mc] assms(1) u1 by simp
  have l: "unat idx < length rs" using assms by simp
  obtain r where r: "thermal_put_double (unat idx) now t x rs = Ret (rs[unat idx := r])" "response_reading r = (t, now, Dbl x)"
    using put_double_reading [OF l] by blast
  have "Suc (unat idx) < length (rs[unat idx := r])" using assms by simp
  then obtain q where q: "thermal_put_double (Suc (unat idx)) now c y (rs[unat idx := r]) = Ret (rs[unat idx := r, Suc (unat idx) := q])"
    "response_reading q = (c, now, Dbl y)" using put_double_reading by blast
  have "take (unat idx + 2) (rs[unat idx := r, Suc (unat idx) := q]) = take (unat idx) rs @ [r, q]"
    using store_pair [of "unat idx" rs r q] assms by simp
  then show ?thesis using r q u1 u2 by (intro exI [of _ r] exI [of _ q]) simp
qed

lemma thermal_fill_total:
  assumes "i + n \<le> 64" "length (td_zones td) = 64" "length (g_zone_id_to_metric_id_map s) = 100"
    "length rs = unat mc" "unat idx \<le> unat mc"
  shows "\<exists>rs' idx' s'. thermal_fill i n mc td (rs, idx) s = Ret ((rs', idx'), s') \<and> quiet s s' \<and>
     length rs' = unat mc \<and> unat idx' \<le> unat mc \<and>
     (unat idx + 2 * n \<le> unat mc \<longrightarrow> map response_reading (take (unat idx') rs') = map response_reading (take (unat idx) rs) @
        concat (map (\<lambda>j. zone_readings (g_zone_id_to_metric_id_map s) (td_timestamp td) (zd_zone_id (td_zones td ! j))
          (zd_temperature (td_zones td ! j)) (zd_passive_cooling (td_zones td ! j))) [i..<i + n]))"
  using assms
proof (induction n arbitrary: i rs idx)
  case 0
  then show ?case by auto
next
  case (Suc n)
  let ?ids = "g_zone_id_to_metric_id_map s" let ?z = "td_zones td ! i"
  let ?R = "\<lambda>j. zone_readings ?ids (td_timestamp td) (zd_zone_id (td_zones td ! j)) (zd_temperature (td_zones td ! j)) (zd_passive_cooling (td_zones td ! j))"
  have up: "[i..<i + Suc n] = i # [Suc i..<Suc i + n]" by (simp add: upt_conv_Cons del: upt_Suc)
  have i: "i < length (td_zones td)" using Suc.prems by simp
  note ids = get_metric_id_at [OF Suc.prems(3)]
  show ?case
  proof (cases "idx < mc - 1")
    case False
    have "mc \<noteq> 0"
    proof
      assume "mc = 0"
      then have "idx = 0" using Suc.prems(5) by (simp add: unat_eq_0 [symmetric])
      moreover have "(0 :: u32) < 0 - 1" unfolding word_gt_0 by simp
      ultimately show False using False \<open>mc = 0\<close> by blast
    qed
    then have "unat (mc - 1) = unat mc - 1" by (simp add: unat_minus_one)
    then have "\<not> unat idx + 2 * Suc n \<le> unat mc" using False by (simp add: word_less_nat_alt)
    then show ?thesis using False Suc.prems(4,5)
      by (intro exI [of _ rs] exI [of _ idx] exI [of _ s]) simp
  next
    case room: True
    show ?thesis
    proof (cases "fst (ids_at ?ids (zd_zone_id ?z)) = 0xFFFF \<or> snd (ids_at ?ids (zd_zone_id ?z)) = 0xFFFF")
      case True
      then have step: "thermal_fill i (Suc n) mc td (rs, idx) s = thermal_fill (Suc i) n mc td (rs, idx) s"
        using room i ids by auto
      have "?R i = []" using True by (simp add: zone_readings_def)
      then show ?thesis unfolding step up using Suc.IH [of "Suc i" rs idx] Suc.prems by auto
    next
      case False
      show ?thesis
      proof (cases "mc \<le> idx + 1")
        case True
        have "\<not> unat idx + 2 * Suc n \<le> unat mc"
        proof
          assume a: "unat idx + 2 * Suc n \<le> unat mc"
          then have "unat (idx + 1) = Suc (unat idx)" by (intro unat_Suc_below [of _ mc]) simp
          then show False using True a by (simp add: word_le_nat_alt)
        qed
        then show ?thesis using room i ids False True Suc.prems(4,5)
          by (intro exI [of _ rs] exI [of _ idx] exI [of _ "WOS_THERMAL_SEND LEVEL_ERROR ''Metric index exceeds allocated size'' s"]) simp
      next
        case fits: False
        have "unat idx + 2 \<le> unat mc"
        proof (cases "unat idx < unat mc")
          case True
          then show ?thesis using fits unat_Suc_below [OF True] by (simp add: word_le_nat_alt)
        next
          case False
          then have "idx = mc" using Suc.prems(5) by (simp add: word_unat_eq_iff)
          then have "mc \<noteq> 0" using fits by auto
          then have "unat (mc - 1) = unat mc - 1" by (simp add: unat_minus_one)
          then show ?thesis using room \<open>idx = mc\<close> by (simp add: word_less_nat_alt)
        qed
        from store_two [OF this Suc.prems(4), of "td_timestamp td" "fst (ids_at ?ids (zd_zone_id ?z))" "zd_temperature ?z"
            "snd (ids_at ?ids (zd_zone_id ?z))" "zd_passive_cooling ?z"]
        obtain r q where rq: "thermal_put_double (unat idx) (td_timestamp td) (fst (ids_at ?ids (zd_zone_id ?z))) (zd_temperature ?z) rs = Ret (rs[unat idx := r])"
          "thermal_put_double (unat (idx + 1)) (td_timestamp td) (snd (ids_at ?ids (zd_zone_id ?z))) (zd_passive_cooling ?z) (rs[unat idx := r]) =
             Ret (rs[unat idx := r, Suc (unat idx) := q])"
          "unat (idx + 1 + 1) = unat idx + 2"
          "map response_reading (take (unat idx + 2) (rs[unat idx := r, Suc (unat idx) := q])) = map response_reading (take (unat idx) rs) @ ?R i"
          using False by (auto simp: zone_readings_def)
        let ?rs = "rs[unat idx := r, Suc (unat idx) := q]"
        have step: "thermal_fill i (Suc n) mc td (rs, idx) s = thermal_fill (Suc i) n mc td (?rs, idx + 1 + 1) s"
          using room i ids False fits rq(1,2) by simp
        have "length ?rs = unat mc" "unat (idx + 1 + 1) \<le> unat mc" using Suc.prems(4) rq(3) \<open>unat idx + 2 \<le> unat mc\<close> by simp_all
        moreover have "Suc i + n \<le> 64" using Suc.prems(1) by simp
        ultimately obtain rs' idx' s' where ih: "thermal_fill (Suc i) n mc td (?rs, idx + 1 + 1) s = Ret ((rs', idx'), s')" "quiet s s'"
          "length rs' = unat mc" "unat idx' \<le> unat mc"
          "unat (idx + 1 + 1) + 2 * n \<le> unat mc \<longrightarrow> map response_reading (take (unat idx') rs') =
             map response_reading (take (unat (idx + 1 + 1)) ?rs) @ concat (map ?R [Suc i..<Suc i + n])"
          using Suc.IH [of "Suc i" ?rs "idx + 1 + 1"] Suc.prems(2,3) by blast
        show ?thesis unfolding step up using ih rq(3,4) by (intro exI [of _ rs'] exI [of _ idx'] exI [of _ s']) simp
      qed
    qed
  qed
qed

section \<open>A round\<close>

text \<open>The blocks of the thread keep their sizes, and the position stays in them.\<close>

definition thermal_shape :: "wos_thermal_local \<Rightarrow> bool" where
  "thermal_shape l \<longleftrightarrow> length (td_zones (tl_thermal_data l)) = 64 \<and> length (pd_metric_response (tl_data l)) = unat (tl_metric_count l) \<and>
     unat (tl_metric_index l) \<le> unat (tl_metric_count l)"

definition stored_readings :: "wos_thermal_local \<Rightarrow> (u16 \<times> u64 \<times> reading) list" where
  "stored_readings l = map response_reading (take (unat (tl_metric_index l)) (pd_metric_response (tl_data l)))"

definition same_run :: "wos_thermal_local \<Rightarrow> wos_thermal_local \<Rightarrow> bool" where
  "same_run l l' \<longleftrightarrow> tl_request l' = tl_request l \<and> tl_samples_per_stream l' = tl_samples_per_stream l \<and>
     tl_metric_count l' = tl_metric_count l \<and> tl_streaming_rate_ns l' = tl_streaming_rate_ns l"

lemma thermal_sample_total:
  assumes r: "lib_ready m s" "length (g_zone_id_to_metric_id_map s) = 100" and l: "thermal_shape l"
  shows "\<exists>l' s'. thermal_sample env l s = Ret (l', s') \<and> thermal_shape l' \<and> lib_ready m s' \<and> lib_frame s s' \<and> sn_data s' = sn_data s \<and>
     same_run l l' \<and> pd_backend_id (tl_data l') = pd_backend_id (tl_data l) \<and> pd_capability_id (tl_data l') = pd_capability_id (tl_data l) \<and>
     (collects env \<and> unat (tl_metric_index l) + 2 * unat (zone_names_ids_length m) \<le> unat (tl_metric_count l) \<longrightarrow>
        tl_sample_count l' = tl_sample_count l + 1 \<and> pd_metric_response_len (tl_data l') = unat (tl_metric_index l') \<and>
        stored_readings l' = stored_readings l @ fst (wos_thermal_out m (g_zone_id_to_metric_id_map s) env (lib_values s)) \<and>
        lib_values s' = snd (wos_thermal_out m (g_zone_id_to_metric_id_map s) env (lib_values s)))"
proof -
  let ?n = "unat (zone_names_ids_length m)"
  have sh: "length (td_zones (tl_thermal_data l)) = 64" "length (pd_metric_response (tl_data l)) = unat (tl_metric_count l)"
    "unat (tl_metric_index l) \<le> unat (tl_metric_count l)" using l by (simp_all add: thermal_shape_def)
  obtain rc td s1 where g: "wos_thermal_lib_get_zone_info env (Some (tl_thermal_data l)) s = Ret (rc, Some td, s1)" "lib_ready m s1" "lib_frame s s1"
    "length (td_zones td) = 64" "sn_data s1 = sn_data s" "rc = (if fst (te_sensor env) \<noteq> 0 then THERMAL_LIB_ERROR_GET_THERMAL_INFO_FAILED
       else if ce_collect (te_cooling env) \<noteq> 0 then THERMAL_LIB_ERROR_GET_PASSIVE_COOLING_INFO_FAILED else THERMAL_LIB_SUCCESS)"
    "rc = THERMAL_LIB_SUCCESS \<longrightarrow> lib_values s1 = thermal_collected env m (lib_values s) \<and> td_zone_count td = zone_names_ids_length m \<and>
        td_timestamp td = win_now (te_sampled env) 0 \<and>
        (\<forall>j < ?n. zd_zone_id (td_zones td ! j) = zone_ids m ! j \<and>
           zd_temperature (td_zones td ! j) = fst (lib_values s1) ! j \<and> zd_passive_cooling (td_zones td ! j) = snd (lib_values s1) ! j)"
    using get_zone_info_total [OF r(1) sh(1), of env] by blast
  show ?thesis
  proof (cases "rc = THERMAL_LIB_SUCCESS")
    case False
    then have "\<not> collects env" using g(6) by (auto simp: collects_def)
    then show ?thesis using False g sh by (auto simp: thermal_sample_def Let_def thermal_shape_def same_run_def)
  next
    case True
    then have v: "lib_values s1 = thermal_collected env m (lib_values s)" "td_zone_count td = zone_names_ids_length m"
      "td_timestamp td = win_now (te_sampled env) 0"
      "\<forall>j < ?n. zd_zone_id (td_zones td ! j) = zone_ids m ! j \<and>
           zd_temperature (td_zones td ! j) = fst (lib_values s1) ! j \<and> zd_passive_cooling (td_zones td ! j) = snd (lib_values s1) ! j"
      using g(7) by blast+
    have n: "0 + ?n \<le> 64" using r(1) by (simp add: lib_ready_def zone_map_ok_def)
    have ids: "g_zone_id_to_metric_id_map s1 = g_zone_id_to_metric_id_map s" using g(3) by (simp add: lib_frame_def)
    let ?R = "\<lambda>j. zone_readings (g_zone_id_to_metric_id_map s) (td_timestamp td) (zd_zone_id (td_zones td ! j))
          (zd_temperature (td_zones td ! j)) (zd_passive_cooling (td_zones td ! j))"
    obtain rs idx s2 where f: "thermal_fill 0 ?n (tl_metric_count l) td (pd_metric_response (tl_data l), tl_metric_index l) s1 = Ret ((rs, idx), s2)"
      "quiet s1 s2" "length rs = unat (tl_metric_count l)" "unat idx \<le> unat (tl_metric_count l)"
      "unat (tl_metric_index l) + 2 * ?n \<le> unat (tl_metric_count l) \<longrightarrow> map response_reading (take (unat idx) rs) =
         map response_reading (take (unat (tl_metric_index l)) (pd_metric_response (tl_data l))) @ concat (map ?R [0..<0 + ?n])"
      using thermal_fill_total [OF n g(4) _ sh(2,3), of s1] r(2) unfolding ids by blast
    have R: "concat (map ?R [0..<0 + ?n]) = fst (wos_thermal_out m (g_zone_id_to_metric_id_map s) env (lib_values s))"
      unfolding wos_thermal_out_def Let_def fst_conv using v
      by (intro arg_cong [of _ _ concat] map_cong) (simp_all add: atLeast0LessThan)
    note q = quiet_thermal [OF f(2)]
    let ?l = "l\<lparr>tl_thermal_data := td, tl_metric_index := idx,
        tl_data := (tl_data l)\<lparr>pd_metric_response := rs, pd_metric_response_len := unat idx\<rparr>, tl_sample_count := tl_sample_count l + 1\<rparr>"
    have s: "thermal_sample env l s = Ret (?l, s2)"
      using True g(1) v(2) f(1) by (simp add: thermal_sample_def Let_def)
    show ?thesis unfolding s
      using f(3,4,5) g(2,3,4,5) q lib_frame_trans [OF g(3) q(1)] R v(1)
      by (intro exI [of _ ?l] exI [of _ s2]) (auto simp: thermal_shape_def same_run_def stored_readings_def wos_thermal_out_def Let_def)
  qed
qed

definition thermal_streams :: "u64 \<Rightarrow> wos_thermal_local \<Rightarrow> bool" where
  "thermal_streams now l \<longleftrightarrow> tl_samples_per_stream l \<le> tl_sample_count l \<or> tl_streaming_rate_ns l \<le> now - tl_last_stream_time l"

lemma lib_ready_data [simp]:
  "lib_ready m (s\<lparr>sn_data := d\<rparr>) = lib_ready m s" "lib_values (s\<lparr>sn_data := d\<rparr>) = lib_values s" "lib_frame s (s\<lparr>sn_data := d\<rparr>)"
  for s :: wos_thermal_state
  by (simp_all add: lib_ready_def lib_values_def lib_frame_def same_control_def)

lemma thermal_stream_total:
  assumes l: "thermal_shape l"
  shows "\<exists>l' s'. thermal_stream now l s = (l', s') \<and> thermal_shape l' \<and> lib_frame s s' \<and> lib_ready m s' = lib_ready m s \<and>
     lib_values s' = lib_values s \<and> same_run l l' \<and>
     (case g_data_callback s of
        Some cb \<Rightarrow> (if thermal_streams now l
            then tl_sample_count l' = 0 \<and> tl_metric_index l' = 0 \<and> sn_data s' = sn_data s @ [(cb, tl_data l)]
            else l' = l \<and> s' = s)
      | None \<Rightarrow> True)"
proof (cases "thermal_streams now l")
  case False
  then show ?thesis using l by (auto simp: thermal_stream_def Let_def thermal_streams_def same_run_def split: option.split)
next
  case True
  then show ?thesis using l
    by (cases "g_data_callback s") (auto simp: thermal_stream_def Let_def thermal_streams_def thermal_shape_def same_run_def)
qed

lemma thermal_iterate_total:
  assumes r: "lib_ready m s" "length (g_zone_id_to_metric_id_map s) = 100" and l: "thermal_shape l"
  shows "\<exists>l' s'. wos_thermal_thread_iterate env l s = Ret (l', s') \<and> thermal_shape l' \<and> lib_ready m s' \<and> lib_frame s s' \<and> same_run l l' \<and>
     (\<forall>cb. g_data_callback s = Some cb \<and> collects env \<and>
        unat (tl_metric_index l) + 2 * unat (zone_names_ids_length m) \<le> unat (tl_metric_count l) \<longrightarrow>
        lib_values s' = snd (wos_thermal_out m (g_zone_id_to_metric_id_map s) env (lib_values s)) \<and>
        (tl_sample_count l' = tl_sample_count l + 1 \<and> tl_sample_count l' < tl_samples_per_stream l \<and> sn_data s' = sn_data s \<and>
           stored_readings l' = stored_readings l @ fst (wos_thermal_out m (g_zone_id_to_metric_id_map s) env (lib_values s)) \<or>
         tl_sample_count l' = 0 \<and> tl_metric_index l' = 0 \<and>
           (\<exists>d. sn_data s' = sn_data s @ [(cb, d)] \<and> pd_backend_id d = of_nat (backend_index BACKEND_THERMAL) \<and> pd_capability_id d = 0 \<and>
              batch_readings d = stored_readings l @ fst (wos_thermal_out m (g_zone_id_to_metric_id_map s) env (lib_values s)))))"
proof -
  let ?now = "win_now (te_now env) (tl_current_time l)"
  let ?l1 = "l\<lparr>tl_current_time := ?now,
      tl_data := (tl_data l)\<lparr>pd_backend_id := of_nat (backend_index BACKEND_THERMAL), pd_capability_id := WOS_THERMAL_CAPABILITY_ID\<rparr>\<rparr>"
  let ?o = "wos_thermal_out m (g_zone_id_to_metric_id_map s) env (lib_values s)"
  have l1: "thermal_shape ?l1" using l by (simp add: thermal_shape_def)
  obtain l2 s2 where 2: "thermal_sample env ?l1 s = Ret (l2, s2)" "thermal_shape l2" "lib_ready m s2" "lib_frame s s2" "sn_data s2 = sn_data s"
    "same_run ?l1 l2" "pd_backend_id (tl_data l2) = pd_backend_id (tl_data ?l1)" "pd_capability_id (tl_data l2) = pd_capability_id (tl_data ?l1)"
    "collects env \<and> unat (tl_metric_index ?l1) + 2 * unat (zone_names_ids_length m) \<le> unat (tl_metric_count ?l1) \<longrightarrow>
        tl_sample_count l2 = tl_sample_count ?l1 + 1 \<and> pd_metric_response_len (tl_data l2) = unat (tl_metric_index l2) \<and>
        stored_readings l2 = stored_readings ?l1 @ fst ?o \<and> lib_values s2 = snd ?o"
    using thermal_sample_total [OF r l1, of env] by blast
  obtain l3 s3 where 3: "thermal_stream ?now l2 s2 = (l3, s3)" "thermal_shape l3" "lib_frame s2 s3" "lib_ready m s3 = lib_ready m s2"
    "lib_values s3 = lib_values s2" "same_run l2 l3"
    "case g_data_callback s2 of
        Some cb \<Rightarrow> (if thermal_streams ?now l2
            then tl_sample_count l3 = 0 \<and> tl_metric_index l3 = 0 \<and> sn_data s3 = sn_data s2 @ [(cb, tl_data l2)]
            else l3 = l2 \<and> s3 = s2)
      | None \<Rightarrow> True"
    using thermal_stream_total [OF 2(2), of ?now s2 m] by blast
  let ?l' = "if g_is_thread_running s3 then l3\<lparr>tl_slept := unat (rq_sampling_rate (tl_request l3))\<rparr> else l3"
  have e: "wos_thermal_thread_iterate env l s = Ret (?l', s3)" using 2(1) 3(1) by (simp add: wos_thermal_thread_iterate_def Let_def)
  have cb: "g_data_callback s2 = g_data_callback s" using 2(4) by (simp add: lib_frame_def)
  have sr: "same_run l l3" using 2(6) 3(6) by (simp add: same_run_def)
  have a: "lib_values s3 = snd ?o \<and>
        (tl_sample_count l3 = tl_sample_count l + 1 \<and> tl_sample_count l3 < tl_samples_per_stream l \<and> sn_data s3 = sn_data s \<and>
           stored_readings l3 = stored_readings l @ fst ?o \<or>
         tl_sample_count l3 = 0 \<and> tl_metric_index l3 = 0 \<and>
           (\<exists>d. sn_data s3 = sn_data s @ [(c, d)] \<and> pd_backend_id d = of_nat (backend_index BACKEND_THERMAL) \<and> pd_capability_id d = 0 \<and>
              batch_readings d = stored_readings l @ fst ?o))"
    if c: "g_data_callback s = Some c" "collects env" "unat (tl_metric_index l) + 2 * unat (zone_names_ids_length m) \<le> unat (tl_metric_count l)" for c
  proof -
    have x: "tl_sample_count l2 = tl_sample_count l + 1" "pd_metric_response_len (tl_data l2) = unat (tl_metric_index l2)"
      "stored_readings l2 = stored_readings l @ fst ?o" "lib_values s2 = snd ?o"
      using 2(9) c(2,3) by (simp_all add: stored_readings_def)
    have b: "batch_readings (tl_data l2) = stored_readings l2" using x(2) by (simp add: batch_readings_def stored_readings_def)
    show ?thesis
    proof (cases "thermal_streams ?now l2")
      case True
      then show ?thesis using 3(5,7) cb c(1) x b 2(5,7,8) by auto
    next
      case False
      then have "tl_sample_count l2 < tl_samples_per_stream l2" by (simp add: thermal_streams_def not_le)
      then show ?thesis using False 3(5,7) cb c(1) x 2(5,6) by (simp add: same_run_def)
    qed
  qed
  have s: "thermal_shape ?l' = thermal_shape l3" "same_run l ?l' = same_run l l3" "tl_sample_count ?l' = tl_sample_count l3"
    "tl_metric_index ?l' = tl_metric_index l3" "stored_readings ?l' = stored_readings l3"
    by (simp_all add: thermal_shape_def same_run_def stored_readings_def)
  show ?thesis unfolding e
    by (rule exI [of _ ?l'], rule exI [of _ s3], unfold s) (use a sr 2(3) 3(2,4) lib_frame_trans [OF 2(4) 3(3)] in blast)
qed

end
