(* ===== verification/WosThermalLive.thy ===== *)
theory WosThermalLive
  imports WosThermalThread
begin

text \<open>
  Sessions of the thermal backend for Windows: what its initialisation leaves, which requests it accepts, and that
  its operations and its thread never get stuck (the locale \<open>live_session\<close>, with the discipline of the backends whose
  thread raises the flag itself).
\<close>

section \<open>Frames\<close>

text \<open>Everything but the control of the thread, the allocator, the request and the messages.\<close>

definition thermal_kept :: "wos_thermal_state \<Rightarrow> wos_thermal_state \<Rightarrow> bool" where
  "thermal_kept s s' \<longleftrightarrow> g_data_callback s' = g_data_callback s \<and> g_backend_info s' = g_backend_info s \<and> sn_data s' = sn_data s \<and>
     g_zone_id_to_metric_id_map s' = g_zone_id_to_metric_id_map s \<and> g_lib_initialized s' = g_lib_initialized s \<and>
     g_zone_name_map s' = g_zone_name_map s \<and> g_temperature_query s' = g_temperature_query s \<and>
     g_passive_cooling_query s' = g_passive_cooling_query s \<and> g_cooling s' = g_cooling s \<and> g_is_initialized s' = g_is_initialized s \<and>
     g_capability_info s' = g_capability_info s"

lemma thermal_kept_simps [simp]:
  "thermal_kept s s" "thermal_kept s (WOS_THERMAL_SEND lv t s') = thermal_kept s s'" "thermal_kept (WOS_THERMAL_SEND lv t s) s' = thermal_kept s s'"
  "thermal_kept s (lib_send x n s') = thermal_kept s s'" "thermal_kept (lib_send x n s) s' = thermal_kept s s'"
  "thermal_kept s (s'\<lparr>g_is_thread_running := b\<rparr>) = thermal_kept s s'" "thermal_kept (s\<lparr>g_is_thread_running := b\<rparr>) s' = thermal_kept s s'"
  "thermal_kept s (s'\<lparr>sn_faults := f\<rparr>) = thermal_kept s s'" "thermal_kept s (s'\<lparr>sn_threads := ts\<rparr>) = thermal_kept s s'"
  "thermal_kept s (s'\<lparr>g_thread_info := i\<rparr>) = thermal_kept s s'" "thermal_kept s (s'\<lparr>g_current_request := rq\<rparr>) = thermal_kept s s'"
  "thermal_kept s (put_thread u st s') = thermal_kept s s'" "thermal_kept s (thermal_stopped s') = thermal_kept s s'"
  by (simp_all add: thermal_kept_def put_thread_def lib_send_def thermal_stopped_def)

lemma thermal_kept_trans: "thermal_kept s s' \<Longrightarrow> thermal_kept s' s'' \<Longrightarrow> thermal_kept s s''"
  by (simp add: thermal_kept_def)

lemma quiet_kept: "quiet s s' \<Longrightarrow> thermal_kept s s'"
  by (auto simp: quiet_def thermal_kept_def)

lemma thermal_quiet_control: "quiet s s' \<Longrightarrow> same_control s s' \<and> sn_faults s' = sn_faults s"
  by (auto simp: quiet_def same_control_def)

lemma lib_send_fields [simp]:
  "g_is_thread_running (lib_send t n s) = g_is_thread_running s" "g_thread_info (lib_send t n s) = g_thread_info s"
  "sn_threads (lib_send t n s) = sn_threads s" "sn_faults (lib_send t n s) = sn_faults s"
  by (simp_all add: lib_send_def)

lemma thermal_stopped_fields [simp]:
  "g_is_thread_running (thermal_stopped s) = g_is_thread_running s" "g_thread_info (thermal_stopped s) = g_thread_info s"
  "sn_threads (thermal_stopped s) = sn_threads s" "sn_faults (thermal_stopped s) = sn_faults s"
  by (simp_all add: thermal_stopped_def)

section \<open>Requests\<close>

text \<open>After the first initialisation the rates are the bounds of two intervals.\<close>

definition first_rates :: "wos_thermal_state \<Rightarrow> bool" where
  "first_rates s \<longleftrightarrow> ci_sampling_rate_len (g_capability_info s) = 2 \<and> take 2 (ci_sampling_rate (g_capability_info s)) = [50, 1000] \<and>
     ci_streaming_rate_len (g_capability_info s) = 2 \<and> take 2 (ci_streaming_rate (g_capability_info s)) = [200, 1000]"

definition wos_thermal_request_code :: "QcPerfRequest \<Rightarrow> QcPerfReturnCode" where
  "wos_thermal_request_code rq =
     (if rq_capability_id rq \<noteq> 0 then CAPABILITY_NOT_FOUND
      else if 50 \<le> rq_sampling_rate rq \<and> rq_sampling_rate rq \<le> 1000 \<and> 200 \<le> rq_streaming_rate rq \<and> rq_streaming_rate rq \<le> 1000
      then SUCCESS else INVALID_ARGUMENTS)"

lemma interval_valid: "take 2 a = [lo, hi] \<Longrightarrow> thermal_rate_valid r 2 a = Ret (lo \<le> r \<and> r \<le> hi)"
  by (cases a; cases "tl a") (auto simp: thermal_rate_valid_def)

lemma wos_thermal_validate_code:
  assumes "first_rates s"
  shows "\<exists>s'. wos_thermal_validate_request (Some rq) s = Ret (wos_thermal_request_code rq, s') \<and> quiet s s'"
  using assms by (auto simp: wos_thermal_validate_request_def wos_thermal_request_code_def first_rates_def interval_valid Let_def)

lemma thermal_validate_quiet:
  assumes "wos_thermal_validate_request r s = Ret (rc, s')"
  shows "quiet s s' \<and> (rc = SUCCESS \<longrightarrow> r \<noteq> None)"
proof (cases r)
  case None
  then show ?thesis using assms by (auto simp: wos_thermal_validate_request_def)
next
  case (Some rq)
  then show ?thesis using assms
    by (auto simp: wos_thermal_validate_request_def Let_def outcome_simps split: if_splits)
qed

section \<open>The session contract\<close>

lemma as_return_code_simps [simp]:
  "as_return_code THERMAL_LIB_ERROR_THREAD_CREATE_FAILED = NULL_POINTER" "as_return_code THERMAL_LIB_ERROR_THREAD_JOIN_FAILED = CALLOC_FAILED"
  "as_return_code THERMAL_LIB_ERROR_THREAD_DESTROY_FAILED = BACKEND_ALREADY_CONNECTED"
  by (simp_all add: as_return_code_def numeral_eq_Suc)

lemma wos_thermal_start_law:
  assumes "wos_thermal_start r s = Ret (rc, s')"
  shows "thermal_kept s s' \<and> (if rc = SUCCESS then spawned s s' else unspawned s s') \<and>
     (sn_threads s' \<noteq> sn_threads s \<longrightarrow> rc = SUCCESS \<and> sn_threads s' = sn_threads s @ [Spawned r])"
proof -
  let ?s = "WOS_THERMAL_SEND LEVEL_DEBUG ''Starting WOS Thermal data collection'' s"
  show ?thesis
  proof (cases "g_is_initialized s \<and> \<not> g_is_thread_running s \<and> g_data_callback s \<noteq> None")
    case False
    then show ?thesis using assms by (auto simp: wos_thermal_start_def Let_def split: if_splits)
  next
    case True
    then obtain ret s1 where v: "wos_thermal_validate_request r ?s = Ret (ret, s1)"
      using assms by (auto simp: wos_thermal_start_def Let_def outcome_simps)
    have q: "quiet ?s s1" "ret = SUCCESS \<Longrightarrow> r \<noteq> None" using thermal_validate_quiet [OF v] by simp_all
    have c: "same_control s s1" "thermal_kept s s1" using thermal_quiet_control [OF q(1)] quiet_kept [OF q(1)] by simp_all
    show ?thesis
    proof (cases "ret = SUCCESS")
      case False
      then show ?thesis using assms True v c by (auto simp: wos_thermal_start_def Let_def same_control_def)
    next
      case ok: True
      then obtain rq where rq: "r = Some rq" using q(2) by blast
      then show ?thesis using assms True v c ok
        by (cases "fst (calloc_ok (sn_faults s1))")
           (auto simp: wos_thermal_start_def Let_def windows_spawn_eq wos_thermal_thread_attrs_def spawned_def unspawned_def same_control_def)
    qed
  qed
qed

lemma thermal_get_count:
  "\<exists>rc n s'. wos_thermal_lib_get_zone_count (Some x) s = (rc, Some n, s') \<and> quiet s s' \<and>
     (g_lib_initialized s \<longrightarrow> rc = THERMAL_LIB_SUCCESS \<and> n = zone_names_ids_length (g_zone_name_map s))"
  by (simp add: wos_thermal_lib_get_zone_count_def)

lemma thermal_entry_control:
  assumes "wos_thermal_thread_entry env r s = Ret (lo, s')"
  shows "g_thread_info s' = g_thread_info s \<and> sn_threads s' = sn_threads s \<and> thermal_kept s s'"
proof -
  obtain rq where r: "r = Some rq" using assms by (cases r) (auto simp: wos_thermal_thread_entry_def)
  let ?s = "WOS_THERMAL_SEND LEVEL_DEBUG ''Thermal data collection thread started'' (s\<lparr>g_is_thread_running := True\<rparr>)"
  obtain rc n s1 where g: "wos_thermal_lib_get_zone_count (Some 0) ?s = (rc, Some n, s1)" "quiet ?s s1" using thermal_get_count by blast
  have "g_thread_info s1 = g_thread_info s" "sn_threads s1 = sn_threads s" "thermal_kept s s1"
    using thermal_quiet_control [OF g(2)] quiet_kept [OF g(2)] by (simp_all add: same_control_def)
  then show ?thesis using assms r g(1) by (auto simp: wos_thermal_thread_entry_def Let_def alloc_pair split: if_splits)
qed

text \<open>What a round keeps whatever the state.\<close>

definition round_keeps :: "wos_thermal_state \<Rightarrow> wos_thermal_state \<Rightarrow> bool" where
  "round_keeps s s' \<longleftrightarrow> same_control s s' \<and> g_is_initialized s' = g_is_initialized s"

lemma round_keeps_simps [simp]:
  "round_keeps s s" "round_keeps s (WOS_THERMAL_SEND lv t s') = round_keeps s s'" "round_keeps s (lib_send x n s') = round_keeps s s'"
  "round_keeps s (s'\<lparr>g_temperature_query := tq\<rparr>) = round_keeps s s'" "round_keeps s (s'\<lparr>g_passive_cooling_query := pq\<rparr>) = round_keeps s s'"
  "round_keeps s (s'\<lparr>sn_data := d\<rparr>) = round_keeps s s'"
  by (simp_all add: round_keeps_def same_control_def)

lemma round_keeps_trans: "round_keeps s s' \<Longrightarrow> round_keeps s' s'' \<Longrightarrow> round_keeps s s''"
  using same_control_trans by (simp add: round_keeps_def) blast

lemma thermal_fill_control: "thermal_fill i n mc td b s = Ret (b', s') \<Longrightarrow> round_keeps s s'"
proof (induction n arbitrary: i b)
  case (Suc n)
  then show ?case by (cases b) (auto simp: outcome_simps split: if_splits)
qed simp

lemma thermal_sample_control:
  assumes "thermal_sample env l s = Ret (l', s')"
  shows "round_keeps s s'"
proof -
  obtain rc td s1 where g: "wos_thermal_lib_get_zone_info env (Some (tl_thermal_data l)) s = Ret (rc, td, s1)"
    using assms by (auto simp: thermal_sample_def outcome_simps)
  have "round_keeps s s1"
    using g by (auto simp: wos_thermal_lib_get_zone_info_def Let_def lib_read_temperatures_def lib_read_cooling_def outcome_simps
        split: if_splits option.splits prod.splits)
  then show ?thesis using assms g
    by (auto simp: thermal_sample_def Let_def outcome_simps split: if_splits dest!: thermal_fill_control intro: round_keeps_trans)
qed

lemma thermal_iterate_control:
  assumes "wos_thermal_thread_iterate env l s = Ret (l', s')"
  shows "round_keeps s s'"
proof -
  have stream: "round_keeps s1 s2" if "thermal_stream now l1 s1 = (l2, s2)" for now l1 s1 l2 s2
    using that by (auto simp: thermal_stream_def Let_def split: if_splits option.splits)
  obtain l1 s1 where 1: "thermal_sample env (l\<lparr>tl_current_time := win_now (te_now env) (tl_current_time l),
      tl_data := (tl_data l)\<lparr>pd_backend_id := of_nat (backend_index BACKEND_THERMAL), pd_capability_id := WOS_THERMAL_CAPABILITY_ID\<rparr>\<rparr>) s =
      Ret (l1, s1)" using assms by (auto simp: wos_thermal_thread_iterate_def Let_def outcome_simps)
  obtain l2 s2 where 2: "thermal_stream (win_now (te_now env) (tl_current_time l)) l1 s1 = (l2, s2)" by fastforce
  have "s' = s2" using assms 1 2 by (auto simp: wos_thermal_thread_iterate_def Let_def)
  then show ?thesis using round_keeps_trans [OF thermal_sample_control [OF 1] stream [OF 2]] by simp
qed

interpretation wtc: session_code wos_thermal_start thermal_data_collection_thread wos_thermal_thread_iterate
proof unfold_locales
  fix r s rc s'
  assume "wos_thermal_start r s = Ret (rc, s')"
  then show "if rc = SUCCESS then spawned s s' else unspawned s s'" using wos_thermal_start_law by blast
next
  fix e l s l' s'
  assume "wos_thermal_thread_iterate e l s = Ret (l', s')"
  then show "same_control s s'" using thermal_iterate_control by (simp add: round_keeps_def)
qed (auto simp: thermal_data_collection_thread_def wos_thermal_thread_finish_def thermal_stopped_def dest: thermal_entry_control)

section \<open>Stopping\<close>

lemma thermal_stop_total:
  assumes st: "stoppable s" and i: "g_is_initialized s"
  shows "\<exists>rc s'. wos_thermal_stop env r s = Ret (rc, s') \<and> thermal_kept s s' \<and>
     (if g_is_thread_running s \<and> r \<noteq> None
      then rc = (if te_closes env then SUCCESS else BACKEND_ALREADY_CONNECTED) \<and>
        (\<exists>t. th_handle (g_thread_info s) = Thread t \<and> joined t s s')
      else same_control s s')"
proof (cases "g_is_thread_running s \<and> r \<noteq> None")
  case False
  then show ?thesis using i by (auto simp: wos_thermal_stop_def Let_def split: option.splits)
next
  case True
  then obtain t q where t: "th_handle (g_thread_info s) = Thread t" "t < length (sn_threads s)" "\<not> is_spawned (sn_threads s ! t)" "r = Some q"
    using st by (auto simp: stoppable_def split: thread_handle.splits)
  let ?s = "(WOS_THERMAL_SEND LEVEL_DEBUG ''Stopping WOS Thermal data collection'' s)\<lparr>g_is_thread_running := False\<rparr>"
  have w: "\<exists>s1. wait_exit (thermal_data_collection_thread env) t ?s = Ret (0, s1) \<and> sn_threads s1 = (sn_threads s)[t := Exited] \<and>
      g_thread_info s1 = g_thread_info s \<and> \<not> g_is_thread_running s1 \<and> thermal_kept s s1"
    using t(2,3) by (cases "sn_threads s ! t")
      (auto simp: wait_exit_def thermal_data_collection_thread_def wos_thermal_thread_finish_def list_update_same_conv [THEN iffD2])
  then show ?thesis
    using True t(1,4) i
    by (auto simp: wos_thermal_stop_def Let_def thread_join_def windows_thread_destroy_def joined_def)
qed

section \<open>Entering the loop\<close>

definition thermal_batch :: "QcPerfRequest \<Rightarrow> nat" where
  "thermal_batch rq = unat (rq_streaming_rate rq) div unat (rq_sampling_rate rq)"

lemma unat_ns: "unat (ucast r * 1000000 :: u64) = unat r * 1000000" for r :: u16
proof -
  have b: "unat r < 65536" using unsigned_less [where 'a = nat, of r] by simp
  have u: "unat (ucast r :: u64) = unat r" using b by (simp add: unsigned_ucast_eq take_bit_nat_eq_self)
  have "unat (ucast r :: u64) * unat (1000000 :: u64) < 2 ^ LENGTH(64)" using b u by simp
  then have "unat (ucast r * 1000000 :: u64) = unat (ucast r :: u64) * unat (1000000 :: u64)" by (rule unat_mult_lem [THEN iffD1])
  then show ?thesis using u by simp
qed

lemma thermal_rates:
  assumes "rq_sampling_rate rq \<noteq> 0"
  shows "(ucast (rq_sampling_rate rq) * 1000000 :: u64) \<noteq> 0"
    "unat (ucast ((ucast (rq_streaming_rate rq) * 1000000 :: u64) div (ucast (rq_sampling_rate rq) * 1000000)) :: u32) = thermal_batch rq"
    "thermal_batch rq < 65536"
proof -
  have a: "0 < unat (rq_sampling_rate rq)" using assms by (simp add: unat_gt_0)
  then show "(ucast (rq_sampling_rate rq) * 1000000 :: u64) \<noteq> 0" using unat_ns [of "rq_sampling_rate rq"] by (metis mult_is_0 neq0_conv unat_0 zero_neq_numeral)
  have "unat (rq_streaming_rate rq) < 65536" using unsigned_less [where 'a = nat, of "rq_streaming_rate rq"] by simp
  then show lt: "thermal_batch rq < 65536" unfolding thermal_batch_def by (rule le_less_trans [OF div_le_dividend])
  have "unat ((ucast (rq_streaming_rate rq) * 1000000 :: u64) div (ucast (rq_sampling_rate rq) * 1000000)) = thermal_batch rq"
    by (simp add: unat_div unat_ns thermal_batch_def)
  then show "unat (ucast ((ucast (rq_streaming_rate rq) * 1000000 :: u64) div (ucast (rq_sampling_rate rq) * 1000000)) :: u32) = thermal_batch rq"
    using lt by (simp add: unsigned_ucast_eq take_bit_nat_eq_self)
qed

lemma thermal_entry_total:
  assumes r: "lib_ready m s" and nz: "rq_sampling_rate rq \<noteq> 0"
  shows "\<exists>lo s'. wos_thermal_thread_entry env (Some rq) s = Ret (lo, s') \<and> (sn_faults s = [] \<longrightarrow> lo \<noteq> None) \<and>
     (\<forall>l. lo = Some l \<longrightarrow> thermal_shape l \<and> tl_request l = rq \<and> unat (tl_samples_per_stream l) = thermal_batch rq \<and>
        unat (tl_metric_count l) = 2 * unat (zone_names_ids_length m) * thermal_batch rq \<and> tl_metric_index l = 0 \<and> tl_sample_count l = 0)"
proof -
  let ?s = "WOS_THERMAL_SEND LEVEL_DEBUG ''Thermal data collection thread started'' (s\<lparr>g_is_thread_running := True\<rparr>)"
  obtain n s1 where g: "wos_thermal_lib_get_zone_count (Some 0) ?s = (THERMAL_LIB_SUCCESS, Some n, s1)" "quiet ?s s1" "n = zone_names_ids_length m"
    using thermal_get_count [of 0 ?s] r by (auto simp: lib_ready_def)
  have f: "sn_faults s1 = sn_faults s" using thermal_quiet_control [OF g(2)] by simp
  note t = thermal_rates [OF nz]
  let ?sps = "ucast ((ucast (rq_streaming_rate rq) * 1000000 :: u64) div (ucast (rq_sampling_rate rq) * 1000000)) :: u32"
  have n: "unat n \<le> 64" using r g(3) by (simp add: lib_ready_def zone_map_ok_def)
  have un: "unat (ucast n * 2 :: u32) = unat n * 2"
  proof -
    have u: "unat (ucast n :: u32) = unat n" using n by (simp add: unsigned_ucast_eq take_bit_nat_eq_self)
    then have "unat (ucast n :: u32) * unat (2 :: u32) < 2 ^ LENGTH(32)" using n by simp
    then show ?thesis using u unat_mult_lem [THEN iffD1] by fastforce
  qed
  have "unat n * 2 * thermal_batch rq \<le> 64 * 2 * 65536" using n t(3) by (intro mult_le_mono) auto
  then have "unat (ucast n * 2 :: u32) * unat ?sps < 2 ^ LENGTH(32)" using un t(2) by simp
  then have mc: "unat (ucast n * 2 * ?sps) = 2 * unat n * thermal_batch rq" using un t(2) by (simp add: unat_mult_lem [THEN iffD1])
  show ?thesis using t(1) g(1) f mc t(2) g(3)
    by (auto simp: wos_thermal_thread_entry_def Let_def alloc_pair thermal_shape_def zero_thermal_data_def)
qed

section \<open>Sessions\<close>

definition thermal_served :: "wos_thermal_state \<Rightarrow> bool" where
  "thermal_served s \<longleftrightarrow> g_is_initialized s \<and> (\<exists>m. lib_ready m s) \<and> length (g_zone_id_to_metric_id_map s) = 100 \<and> first_rates s"

definition wos_thermal_good :: "QcPerfRequest option \<Rightarrow> bool" where
  "wos_thermal_good q \<longleftrightarrow> (\<exists>rq. q = Some rq \<and> wos_thermal_request_code rq = SUCCESS)"

lemma thermal_kept_served:
  assumes "thermal_kept s s'"
  shows "thermal_served s' = thermal_served s" "lib_ready m s' = lib_ready m s" "lib_values s' = lib_values s"
  using assms by (simp_all add: thermal_kept_def thermal_served_def lib_ready_def first_rates_def lib_values_def)

lemma lib_frame_served: "lib_frame s s' \<Longrightarrow> lib_ready m s' \<Longrightarrow> thermal_served s \<Longrightarrow> thermal_served s'"
  by (auto simp: thermal_served_def lib_frame_def first_rates_def)

lemma good_rate: "wos_thermal_good (Some rq) \<Longrightarrow> rq_sampling_rate rq \<noteq> 0"
  by (auto simp: wos_thermal_good_def wos_thermal_request_code_def split: if_splits)

lemma thermal_start_served:
  assumes "thermal_served s"
  shows "\<exists>rc s'. wos_thermal_start r s = Ret (rc, s') \<and> (sn_threads s' \<noteq> sn_threads s \<longrightarrow> wos_thermal_good r)"
proof -
  let ?s = "WOS_THERMAL_SEND LEVEL_DEBUG ''Starting WOS Thermal data collection'' s"
  have f: "first_rates ?s" using assms by (simp add: thermal_served_def first_rates_def)
  show ?thesis
  proof (cases r)
    case None
    then show ?thesis by (simp add: wos_thermal_start_def Let_def wos_thermal_validate_request_def)
  next
    case (Some rq)
    obtain s1 where v: "wos_thermal_validate_request (Some rq) ?s = Ret (wos_thermal_request_code rq, s1)" "quiet ?s s1"
      using wos_thermal_validate_code [OF f] by blast
    have t: "sn_threads s1 = sn_threads s" using thermal_quiet_control [OF v(2)] by (simp add: same_control_def)
    show ?thesis using Some v(1) t
      by (cases "wos_thermal_request_code rq = SUCCESS")
         (auto simp: wos_thermal_start_def Let_def windows_spawn_eq wos_thermal_good_def)
  qed
qed

lemma thermal_step_initialized:
  assumes s: "orderly s" "g_is_initialized s" and d: "disciplined ev s"
    and r: "session_step wos_thermal_start wos_thermal_stop thermal_data_collection_thread wos_thermal_thread_iterate ev s = Ret s'"
  shows "orderly s' \<and> g_is_initialized s'"
proof (cases ev)
  case (CallStop e q)
  obtain rc s1 where "wos_thermal_stop e q s = Ret (rc, s1)" "thermal_kept s s1"
    "(\<exists>t. th_handle (g_thread_info s) = Thread t \<and> joined t s s1) \<or> same_control s s1"
    using thermal_stop_total [of s e q] s by (auto simp: orderly_def split: if_splits)
  then show ?thesis using r CallStop s orderly_joined [OF s(1), of _ s1] orderly_cong [of s s1]
    by (auto simp: thermal_kept_def)
next
  case (CallStart q)
  then obtain rc where "wos_thermal_start q s = Ret (rc, s')" using r by (auto simp: outcome_simps)
  then have "g_is_initialized s'" using wos_thermal_start_law s(2) by (auto simp: thermal_kept_def)
  then show ?thesis using wtc.orderly_code [OF s(1) d _ r] CallStart by blast
next
  case (Begin e t)
  have "g_is_initialized s'"
    using r Begin s(2) by (auto simp: thread_begin_def thermal_data_collection_thread_def outcome_simps thermal_kept_def put_thread_def
        split: thread_status.splits dest!: thermal_entry_control)
  then show ?thesis using wtc.orderly_code [OF s(1) d _ r] Begin by blast
next
  case (Iterate e t)
  have "g_is_initialized s'"
    using r Iterate s(2) by (auto simp: thread_iterate_def outcome_simps round_keeps_def put_thread_def
        split: thread_status.splits if_splits dest!: thermal_iterate_control)
  then show ?thesis using wtc.orderly_code [OF s(1) d _ r] Iterate by blast
next
  case (Leave e t)
  have "g_is_initialized s'"
    using r Leave s(2) by (auto simp: thread_leave_def thermal_data_collection_thread_def wos_thermal_thread_finish_def thermal_stopped_def
        outcome_simps put_thread_def split: thread_status.splits if_splits)
  then show ?thesis using wtc.orderly_code [OF s(1) d _ r] Leave by blast
qed

interpretation wt: live_session wos_thermal_start wos_thermal_stop thermal_data_collection_thread wos_thermal_thread_iterate
  "\<lambda>s. orderly s \<and> g_is_initialized s" disciplined thermal_served "\<lambda>_. wos_thermal_good" "\<lambda>_. thermal_shape"
proof unfold_locales
  fix s ev s'
  assume "orderly s \<and> g_is_initialized s" "disciplined ev s"
    "session_step wos_thermal_start wos_thermal_stop thermal_data_collection_thread wos_thermal_thread_iterate ev s = Ret s'"
  then show "orderly s' \<and> g_is_initialized s'" using thermal_step_initialized by blast
next
  fix s :: wos_thermal_state and t u
  assume "orderly s \<and> g_is_initialized s" "t < length (sn_threads s)" "sn_threads s ! t \<noteq> Exited" "u < length (sn_threads s)" "u \<noteq> t"
  then show "sn_threads s ! u = Exited" by (metis orderly_def thread_handle.inject)
next
  fix s :: wos_thermal_state and r
  assume a: "orderly s \<and> g_is_initialized s" "thermal_served s" "disciplined (CallStart r) s"
  obtain rc s' where s': "wos_thermal_start r s = Ret (rc, s')" "sn_threads s' \<noteq> sn_threads s \<longrightarrow> wos_thermal_good r"
    using thermal_start_served [OF a(2)] by blast
  note l = wos_thermal_start_law [OF s'(1)]
  have "thermal_served s'" using l thermal_kept_served(1) a(2) by blast
  moreover have "sn_threads s' = sn_threads s \<and> keeps (\<lambda>_. wos_thermal_good) (\<lambda>_. thermal_shape) s s' \<or>
      all_ended s \<and> (\<exists>q. wos_thermal_good q \<and> sn_threads s' = sn_threads s @ [Spawned q])"
  proof (cases "rc = SUCCESS")
    case True
    then have "spawned s s'" using l by simp
    then have "all_ended s" "sn_threads s' \<noteq> sn_threads s" using a(3) by (auto simp: spawned_def)
    then show ?thesis using l s'(2) by blast
  next
    case False
    then have "unspawned s s'" using l by simp
    then show ?thesis by (auto simp: unspawned_def same_control_def keeps_def)
  qed
  ultimately show "\<exists>rc s'. wos_thermal_start r s = Ret (rc, s') \<and> thermal_served s' \<and>
     (sn_threads s' = sn_threads s \<and> keeps (\<lambda>_. wos_thermal_good) (\<lambda>_. thermal_shape) s s' \<or>
      all_ended s \<and> (\<exists>q. wos_thermal_good q \<and> sn_threads s' = sn_threads s @ [Spawned q]))"
    using s'(1) by blast
next
  fix s e r
  assume a: "orderly s \<and> g_is_initialized s" "thermal_served s"
  then have "stoppable s" by (simp add: orderly_def)
  from thermal_stop_total [OF this, of e r] a(1) obtain rc s' where s': "wos_thermal_stop e r s = Ret (rc, s')" "thermal_kept s s'"
    "(\<exists>t. joined t s s') \<or> same_control s s'" by (auto split: if_splits)
  then show "\<exists>rc s'. wos_thermal_stop e r s = Ret (rc, s') \<and> thermal_served s' \<and>
      keeps (\<lambda>_. wos_thermal_good) (\<lambda>_. thermal_shape) s s' \<and> some_ended s s'"
    using thermal_kept_served(1) [OF s'(2)] a(2) by (auto simp: keeps_def some_ended_def joined_def same_control_def)
next
  fix s q e
  assume a: "thermal_served s" "wos_thermal_good q"
  then obtain rq m where q: "q = Some rq" "lib_ready m s" "rq_sampling_rate rq \<noteq> 0"
    using good_rate by (auto simp: thermal_served_def wos_thermal_good_def)
  obtain lo s' where e: "wos_thermal_thread_entry e (Some rq) s = Ret (lo, s')" "\<forall>l. lo = Some l \<longrightarrow> thermal_shape l"
    using thermal_entry_total [OF q(2,3), of e] by blast
  then show "\<exists>lo s'. th_entry (thermal_data_collection_thread e) q s = Ret (lo, s') \<and> sn_threads s' = sn_threads s \<and> thermal_served s' \<and>
      (\<forall>l. lo = Some l \<and> g_is_thread_running s' \<longrightarrow> thermal_shape l)"
    using thermal_entry_control [OF e(1)] thermal_kept_served(1) a(1) q(1) by (auto simp: thermal_data_collection_thread_def)
next
  fix s l e
  assume a: "thermal_served s" "thermal_shape l" "g_is_thread_running s"
  then obtain m where m: "lib_ready m s" "length (g_zone_id_to_metric_id_map s) = 100" by (auto simp: thermal_served_def)
  obtain l' s' where b: "wos_thermal_thread_iterate e l s = Ret (l', s')" "thermal_shape l'" "lib_ready m s'" "lib_frame s s'"
    using thermal_iterate_total [OF m a(2), of e] by blast
  then show "\<exists>l' s'. wos_thermal_thread_iterate e l s = Ret (l', s') \<and> sn_threads s' = sn_threads s \<and> thermal_served s' \<and> thermal_shape l'"
    using lib_frame_served [OF b(4,3) a(1)] by (auto simp: lib_frame_def same_control_def)
next
  fix s :: wos_thermal_state and e l
  assume "thermal_served s" "\<not> g_is_thread_running s"
  then show "\<exists>s'. th_finish (thermal_data_collection_thread e) l s = Ret s' \<and> sn_threads s' = sn_threads s \<and> thermal_served s'"
    using thermal_kept_served(1) [of s "thermal_stopped s"] by (simp add: thermal_data_collection_thread_def wos_thermal_thread_finish_def)
next
  fix t st s
  show "thermal_served (put_thread t st s) = thermal_served s" by (rule thermal_kept_served(1)) simp
qed simp_all

end
