(* ===== verification/WosThermalInit.thy ===== *)
theory WosThermalInit
  imports WosThermalLive
begin

text \<open>
  Initialisation and deinitialisation of the thermal backend for Windows, and its properties from a connected state:
  sessions that never get stuck, and the thread against its reference.
\<close>

section \<open>Initialisation\<close>

text \<open>The rates after \<open>k\<close> initialisations: each stores the same two again and counts them again.\<close>

definition rate_array :: "u16 list \<Rightarrow> nat \<Rightarrow> u16 list" where
  "rate_array rs k = (if k = 0 then replicate 32 0 else rs @ replicate 30 0)"

definition rates_after :: "nat \<Rightarrow> wos_thermal_state \<Rightarrow> bool" where
  "rates_after k s \<longleftrightarrow> ci_sampling_rate (g_capability_info s) = rate_array [50, 1000] k \<and>
     ci_sampling_rate_len (g_capability_info s) = of_nat (2 * k) \<and>
     ci_streaming_rate (g_capability_info s) = rate_array [200, 1000] k \<and>
     ci_streaming_rate_len (g_capability_info s) = of_nat (2 * k)"

lemma rates_first: "rates_after 1 s \<Longrightarrow> first_rates s"
  by (simp add: rates_after_def first_rates_def rate_array_def numeral_eq_Suc)

lemma copy_two: "copy_rates [a, b] 0 (rate_array [a, b] k, of_nat (2 * k)) = (rate_array [a, b] (Suc k), of_nat (2 * Suc k))"
  by (cases k) (simp_all add: copy_rates_gen rate_array_def numeral_eq_Suc)

text \<open>The zones the backend registers fit its table.\<close>

definition zones_fit :: "nat \<times> ThermalCommonZoneNameMap \<Rightarrow> bool" where
  "zones_fit a \<longleftrightarrow> zones_answer_ok a \<and> (fst a = 0 \<longrightarrow> length (matched_zones (snd a)) \<le> 12)"

definition registered_ids :: "nat \<times> ThermalCommonZoneNameMap \<Rightarrow> (u16 \<times> u16) list" where
  "registered_ids a = (if fst a = 0 then stored_ids (snd a) else replicate 100 (0xFFFF, 0xFFFF))"

lemma registered_ids_length [simp]: "length (registered_ids a) = 100"
  by (simp add: registered_ids_def stored_ids_def)

lemma concat_zone_metrics_length: "length (concat (map zone_metrics (map snd M)) @ drop (2 * length M) ms) = max (2 * length M) (length ms)"
  by (simp del: map_map)

lemma thermal_table_total:
  assumes z: "zones_fit (te_zones_again env)" and ms: "length (g_metrics_data s) = 24"
  shows "\<exists>ms' n s'. wos_thermal_table env s = Ret ((ms', n), s') \<and> length ms' = 24 \<and>
     quiet (s\<lparr>g_zone_id_to_metric_id_map := registered_ids (te_zones_again env)\<rparr>) s'"
proof -
  let ?z = "te_zones_again env" let ?s = "s\<lparr>g_zone_id_to_metric_id_map := registered_ids ?z\<rparr>"
  have "\<exists>ms' n s'. wos_thermal_capability_init_available_metrics ?z (g_metrics_data s) (Some 0) s = Ret ((ms', Some n), s') \<and>
      length ms' = 24 \<and> quiet ?s s'"
  proof (cases "fst ?z = 0")
    case False
    then have "registered_ids ?z = replicate 100 (0xFFFF, 0xFFFF)" by (simp add: registered_ids_def)
    then show ?thesis using False ms
      by (auto simp: wos_thermal_capability_init_available_metrics_def Let_def case_prod_beta)
  next
    case True
    then obtain m where m: "?z = (0, m)" "zone_map_ok m" "length (matched_zones m) \<le> 12"
      using z by (cases ?z) (auto simp: zones_fit_def zones_answer_ok_def)
    obtain t where "wos_thermal_capability_init_available_metrics (0, m) (g_metrics_data s) (Some 0) s =
        Ret ((concat (map zone_metrics (map snd (matched_zones m))) @ drop (2 * length (matched_zones m)) (g_metrics_data s),
              Some (of_nat (2 * length (matched_zones m)))), s\<lparr>sn_messages := t, g_zone_id_to_metric_id_map := stored_ids m\<rparr>)"
      using available_metrics [OF m(2) ms, of 0 s] m(3) by auto
    moreover have "quiet ?s (s\<lparr>sn_messages := t, g_zone_id_to_metric_id_map := stored_ids m\<rparr>)"
      unfolding quiet_def m(1) by (intro exI [of _ t]) (simp add: registered_ids_def)
    ultimately show ?thesis using m(1,3) ms concat_zone_metrics_length [of "matched_zones m" "g_metrics_data s"] by auto
  qed
  then obtain ms' n s' where a: "wos_thermal_capability_init_available_metrics ?z (g_metrics_data s) (Some 0) s = Ret ((ms', Some n), s')"
    "length ms' = 24" "quiet ?s s'" by blast
  show ?thesis
    using a static_table [OF a(2)] quiet_trans [OF a(3) WOS_THERMAL_SEND_quiet]
    by (cases "0 < n") (simp_all add: wos_thermal_table_def)
qed

text \<open>What a backend keeps between calls of its initialisation and its deinitialisation, \<open>k\<close> of them so far.\<close>

definition thermal_off :: "nat \<Rightarrow> wos_thermal_state \<Rightarrow> bool" where
  "thermal_off k s \<longleftrightarrow> \<not> g_is_initialized s \<and> lib_off s \<and> length (g_metrics_data s) = 24 \<and> rates_after k s"

definition thermal_on :: "nat \<Rightarrow> wos_thermal_env \<Rightarrow> wos_thermal_state \<Rightarrow> bool" where
  "thermal_on k env s \<longleftrightarrow> g_is_initialized s \<and> lib_ready (snd (te_zones env)) s \<and> length (g_metrics_data s) = 24 \<and> rates_after k s \<and>
     g_zone_id_to_metric_id_map s = registered_ids (te_zones_again env)"

lemma thermal_register_rates:
  assumes t: "wos_thermal_table env s = Ret ((ms, n), s2)" and r: "rates_after k s2"
  shows "\<exists>c' bi. thermal_register env s = Ret (SUCCESS, WOS_THERMAL_SEND LEVEL_DEBUG ''WOS Thermal backend initialized successfully''
        (s2\<lparr>g_metrics_data := ms, g_capability_info := c', g_backend_info := bi, g_is_initialized := True\<rparr>)) \<and>
     ci_sampling_rate c' = rate_array [50, 1000] (Suc k) \<and> ci_sampling_rate_len c' = of_nat (2 * Suc k) \<and>
     ci_streaming_rate c' = rate_array [200, 1000] (Suc k) \<and> ci_streaming_rate_len c' = of_nat (2 * Suc k)"
proof -
  let ?c = "g_capability_info s2"
  have c: "copy_rates wos_thermal_streaming_rates 0 (ci_streaming_rate ?c, ci_streaming_rate_len ?c) = (rate_array [200, 1000] (Suc k), of_nat (2 * Suc k))"
    "copy_rates wos_thermal_sampling_rates 0 (ci_sampling_rate ?c, ci_sampling_rate_len ?c) = (rate_array [50, 1000] (Suc k), of_nat (2 * Suc k))"
    using r copy_two [of 200 1000 k] copy_two [of 50 1000 k]
    unfolding rates_after_def wos_thermal_streaming_rates_def wos_thermal_sampling_rates_def by metis+
  show ?thesis unfolding thermal_register_def t obind.simps prod.case Let_def c
    by (rule exI, rule exI, intro conjI, rule refl) simp_all
qed

lemma thermal_init_total:
  assumes o: "thermal_off k s" and z: "zones_answer_ok (te_zones env)" "zones_fit (te_zones_again env)"
  shows "\<exists>rc s'. wos_thermal_init env s = Ret (rc, s') \<and> same_control s s' \<and> g_data_callback s' = g_data_callback s \<and> sn_data s' = sn_data s \<and>
     (rc = SUCCESS \<and> thermal_on (Suc k) env s' \<or> rc = FAILED \<and> thermal_off k s') \<and>
     (machine_works env s \<longrightarrow> rc = SUCCESS \<and> machine_works env s')"
proof -
  let ?s = "WOS_THERMAL_SEND LEVEL_DEBUG ''Initializing WOS Thermal backend'' s"
  have off: "lib_off ?s" "\<not> g_is_initialized s" using o by (simp_all add: thermal_off_def)
  obtain lrc s1 where i: "wos_thermal_lib_init env ?s = Ret (lrc, s1)" "outer_frame ?s s1"
    "if lrc = THERMAL_LIB_SUCCESS then lib_ready (snd (te_zones env)) s1 else lib_off s1"
    "machine_works env ?s \<longrightarrow> lrc = THERMAL_LIB_SUCCESS \<and> machine_works env s1"
    using lib_init_total [OF off(1) z(1)] by blast
  have w: "machine_works env ?s = machine_works env s" by (simp add: machine_works_def)
  have f: "same_control s s1" "g_data_callback s1 = g_data_callback s" "sn_data s1 = sn_data s" "g_is_initialized s1 = g_is_initialized s"
    "g_capability_info s1 = g_capability_info s" "g_metrics_data s1 = g_metrics_data s"
    using i(2) by (simp_all add: outer_frame_def)
  show ?thesis
  proof (cases "lrc = THERMAL_LIB_SUCCESS")
    case False
    have "thermal_off k (lib_send t n s1)" for t n
      using i(3) False f o by (simp add: thermal_off_def rates_after_def lib_send_def)
    then show ?thesis using False i(1,4) off(2) f w by (auto simp: wos_thermal_init_def Let_def)
  next
    case True
    obtain ms n s2 where t: "wos_thermal_table env s1 = Ret ((ms, n), s2)" "length ms = 24"
      "quiet (s1\<lparr>g_zone_id_to_metric_id_map := registered_ids (te_zones_again env)\<rparr>) s2"
      using thermal_table_total [OF z(2), of s1] o f(6) by (auto simp: thermal_off_def)
    have c: "g_capability_info s2 = g_capability_info s" "same_control s s2" "g_data_callback s2 = g_data_callback s" "sn_data s2 = sn_data s"
      "g_zone_id_to_metric_id_map s2 = registered_ids (te_zones_again env)"
      "lib_ready (snd (te_zones env)) s2" "machine_works env s2 = machine_works env s1"
      using t(3) f i(3) True by (auto simp: quiet_def same_control_def lib_ready_def machine_works_def)
    have r: "rates_after k s2" using o c(1) by (simp add: thermal_off_def rates_after_def)
    obtain c' bi where s3: "thermal_register env s1 = Ret (SUCCESS, WOS_THERMAL_SEND LEVEL_DEBUG ''WOS Thermal backend initialized successfully''
        (s2\<lparr>g_metrics_data := ms, g_capability_info := c', g_backend_info := bi, g_is_initialized := True\<rparr>))"
      "ci_sampling_rate c' = rate_array [50, 1000] (Suc k)" "ci_sampling_rate_len c' = of_nat (2 * Suc k)"
      "ci_streaming_rate c' = rate_array [200, 1000] (Suc k)" "ci_streaming_rate_len c' = of_nat (2 * Suc k)"
      using thermal_register_rates [OF t(1) r] by blast
    let ?s3 = "WOS_THERMAL_SEND LEVEL_DEBUG ''WOS Thermal backend initialized successfully''
        (s2\<lparr>g_metrics_data := ms, g_capability_info := c', g_backend_info := bi, g_is_initialized := True\<rparr>)"
    have "rates_after (Suc k) ?s3" using s3(2-5) by (simp add: rates_after_def del: of_nat_Suc of_nat_mult)
    moreover have "lib_ready (snd (te_zones env)) ?s3" using c(6) by (simp add: lib_ready_def)
    ultimately have on: "thermal_on (Suc k) env ?s3" using c(5) t(2) by (simp add: thermal_on_def)
    have w3: "machine_works env ?s3 = machine_works env s2" by (simp add: machine_works_def)
    have c3: "same_control s ?s3" "g_data_callback ?s3 = g_data_callback s" "sn_data ?s3 = sn_data s" using c(2-4) by (simp_all add: same_control_def)
    have "wos_thermal_init env s = Ret (SUCCESS, ?s3)" using True i(1) off(2) s3(1) by (simp add: wos_thermal_init_def Let_def)
    then show ?thesis using on w3 c3 c(7) i(4) w by auto
  qed
qed

section \<open>Deinitialisation\<close>

definition cleanups_work :: "wos_thermal_env \<Rightarrow> bool" where
  "cleanups_work env \<longleftrightarrow> te_common_cleanup env = 0 \<and> te_sensor_cleanup env = 0"

lemma thermal_deinit_down:
  assumes o: "thermal_on k e s" and d: "\<not> g_is_thread_running s"
  shows "\<exists>s'. wos_thermal_deinit env s = Ret (if cleanups_work env then SUCCESS else FAILED, s') \<and> same_control s s' \<and>
     lib_off s' \<and> (if cleanups_work env then thermal_off k s' else g_is_initialized s') \<and> (machine_works e' s \<longrightarrow> machine_works e' s')"
proof -
  let ?s = "WOS_THERMAL_SEND LEVEL_DEBUG ''Deinitializing WOS Thermal backend'' s"
  have r: "lib_ready (snd (te_zones e)) ?s" using o by (simp add: thermal_on_def)
  obtain s1 where c: "wos_thermal_lib_cleanup env ?s = Ret (if te_common_cleanup env \<noteq> 0 then THERMAL_LIB_ERROR_THERMAL_COMMON_CLEANUP_FAILED
       else if te_sensor_cleanup env \<noteq> 0 then THERMAL_LIB_ERROR_THERMAL_SENSOR_CLEANUP_FAILED else THERMAL_LIB_SUCCESS, s1)"
    "outer_frame ?s s1" "lib_off s1" "machine_works e' ?s \<longrightarrow> machine_works e' s1"
    using lib_cleanup_total [OF r, of env e'] by blast
  have f: "same_control s s1" "g_is_initialized s1" "g_metrics_data s1 = g_metrics_data s" "g_capability_info s1 = g_capability_info s"
    using c(2) o by (simp_all add: outer_frame_def thermal_on_def)
  have w: "machine_works e' s1" if "machine_works e' s" using c(4) that by (simp add: machine_works_def)
  show ?thesis
  proof (cases "cleanups_work env")
    case True
    let ?t = "WOS_THERMAL_SEND LEVEL_DEBUG ''WOS Thermal backend deinitialized successfully'' (s1\<lparr>g_is_initialized := False, g_data_callback := None\<rparr>)"
    have "wos_thermal_deinit env s = Ret (SUCCESS, ?t)" using True o d c(1) by (simp add: wos_thermal_deinit_def Let_def cleanups_work_def thermal_on_def)
    moreover have l: "lib_off ?t" using c(3) by (simp add: lib_off_def)
    moreover have "thermal_off k ?t" using o f l by (simp add: thermal_off_def thermal_on_def rates_after_def)
    moreover have "machine_works e' s \<longrightarrow> machine_works e' ?t" using w by (simp add: machine_works_def)
    moreover have "same_control s ?t" using f(1) by (simp add: same_control_def)
    ultimately show ?thesis using True by simp
  next
    case False
    obtain n where e: "wos_thermal_deinit env s = Ret (FAILED, lib_send ''Failed to clean up WOS Thermal library'' n s1)"
      using False o d c(1) by (auto simp: wos_thermal_deinit_def Let_def cleanups_work_def thermal_on_def split: if_splits)
    let ?t = "lib_send ''Failed to clean up WOS Thermal library'' n s1"
    have "lib_off ?t" "g_is_initialized ?t" "same_control s ?t" using c(3) f by simp_all
    moreover have "machine_works e' s \<longrightarrow> machine_works e' ?t" using w by (simp add: machine_works_def lib_send_def)
    ultimately show ?thesis using e False by simp
  qed
qed

section \<open>Connected backends\<close>

lemma thermal_off_initial: "thermal_off 0 (initial_wos_thermal (initial_cooling f st) faults)"
  by (simp add: thermal_off_def initial_wos_thermal_def session.defs lib_off_def rates_after_def rate_array_def zero_capability_def initial_cooling_def
      cooling_ok_def)

text \<open>The backend after its first initialisation, with its callbacks.\<close>

definition thermal_connected :: "wos_thermal_env \<Rightarrow> cooling_state \<Rightarrow> oom \<Rightarrow> callback \<Rightarrow> wos_thermal_state outcome" where
  "thermal_connected env cooling faults cb =
     obind (wos_thermal_init env (initial_wos_thermal cooling faults)) (\<lambda>(rc, s).
       if rc = SUCCESS then Ret (snd (wos_thermal_set_data_callback cb s)) else Stuck NoReturn)"

text \<open>The zones of the machine have the sizes of their arrays, and those the backend registers fit its table.\<close>

definition thermal_machine :: "wos_thermal_env \<Rightarrow> bool" where
  "thermal_machine env \<longleftrightarrow> zones_answer_ok (te_zones env) \<and> zones_fit (te_zones_again env)"

lemma initial_wos_thermal_fields:
  "\<not> g_is_thread_running (initial_wos_thermal c f)" "th_handle (g_thread_info (initial_wos_thermal c f)) = NoThread"
  "sn_threads (initial_wos_thermal c f) = []" "sn_data (initial_wos_thermal c f) = []" "g_data_callback (initial_wos_thermal c f) = None"
  "sn_faults (initial_wos_thermal c f) = f" "g_cooling (initial_wos_thermal c f) = c"
  by (simp_all add: initial_wos_thermal_def session.defs initial_session_def zero_thread_info_def)

lemma thermal_connected_on:
  assumes c: "thermal_connected env (initial_cooling cf st) faults cb = Ret s" and m: "thermal_machine env"
  shows "thermal_on 1 env s" "\<not> g_is_thread_running s" "sn_threads s = []" "sn_data s = []" "g_data_callback s = cb"
    "th_handle (g_thread_info s) = NoThread"
proof -
  let ?i = "initial_wos_thermal (initial_cooling cf st) faults"
  obtain rc s1 where i: "wos_thermal_init env ?i = Ret (rc, s1)" "same_control ?i s1" "g_data_callback s1 = g_data_callback ?i" "sn_data s1 = sn_data ?i"
    "rc = SUCCESS \<and> thermal_on (Suc 0) env s1 \<or> rc = FAILED \<and> thermal_off 0 s1"
    using thermal_init_total [OF thermal_off_initial, of env cf st faults] m by (auto simp: thermal_machine_def)
  have rc: "rc = SUCCESS" "s = snd (wos_thermal_set_data_callback cb s1)" using c i(1) by (auto simp: thermal_connected_def split: if_splits)
  have s: "s = s1\<lparr>g_data_callback := cb\<rparr>"
    using rc(2) i(3) by (cases cb) (simp_all add: wos_thermal_set_data_callback_def initial_wos_thermal_fields)
  have on: "thermal_on 1 env s1" using i(5) rc(1) by simp
  then show "thermal_on 1 env s" by (simp add: s thermal_on_def lib_ready_def rates_after_def)
  show "\<not> g_is_thread_running s" "sn_threads s = []" "sn_data s = []" "g_data_callback s = cb" "th_handle (g_thread_info s) = NoThread"
    using i(2,4) by (simp_all add: s same_control_def initial_wos_thermal_fields)
qed

lemma thermal_on_served: "thermal_on 1 env s \<Longrightarrow> thermal_served s"
  using rates_first [of s] by (auto simp: thermal_on_def thermal_served_def)

section \<open>The thread and its reference\<close>

definition thermal_loop_inv :: "wos_thermal_local \<Rightarrow> wos_thermal_state \<Rightarrow> (u16 \<times> u64 \<times> reading) list \<Rightarrow> bool" where
  "thermal_loop_inv l s xs \<longleftrightarrow> lib_ready (g_zone_name_map s) s \<and> length (g_zone_id_to_metric_id_map s) = 100 \<and> g_data_callback s \<noteq> None \<and>
     thermal_shape l \<and> unat (tl_sample_count l) < unat (tl_samples_per_stream l) \<and>
     unat (tl_metric_count l) = 2 * unat (zone_names_ids_length (g_zone_name_map s)) * unat (tl_samples_per_stream l) \<and>
     unat (tl_metric_index l) \<le> 2 * unat (zone_names_ids_length (g_zone_name_map s)) * unat (tl_sample_count l) \<and> stored_readings l = xs"

definition thermal_view :: "wos_thermal_state \<Rightarrow> wos_thermal_env \<Rightarrow> double list \<times> double list \<Rightarrow>
    (u16 \<times> u64 \<times> reading) list \<times> (double list \<times> double list)" where
  "thermal_view s = wos_thermal_out (g_zone_name_map s) (g_zone_id_to_metric_id_map s)"

definition thermal_delivery :: "wos_thermal_state \<Rightarrow> nat \<times> QcPerfData \<Rightarrow> bool" where
  "thermal_delivery s p \<longleftrightarrow> g_data_callback s = Some (fst p) \<and> pd_backend_id (snd p) = of_nat (backend_index BACKEND_THERMAL) \<and>
     pd_capability_id (snd p) = 0"

lemma thermal_out_length: "length (fst (wos_thermal_out m ids e a)) \<le> 2 * unat (zone_names_ids_length m)"
  using concat_readings_length [of ids "win_now (te_sampled e) 0" "\<lambda>j. zone_ids m ! j" "\<lambda>j. fst (thermal_collected e m a) ! j"
      "\<lambda>j. snd (thermal_collected e m a) ! j" "[0..<unat (zone_names_ids_length m)]"]
  by (simp add: wos_thermal_out_def Let_def)

lemma stored_length: "thermal_shape l \<Longrightarrow> length (stored_readings l) = unat (tl_metric_index l)"
  by (simp add: thermal_shape_def stored_readings_def)

lemma thermal_round_law:
  assumes i: "thermal_loop_inv l s xs" and e: "collects env"
  shows "\<exists>l' s' ys bs. wos_thermal_thread_iterate env l s = Ret (l', s') \<and> thermal_loop_inv l' s' ys \<and> sn_data s' = sn_data s @ bs \<and>
     concat (map (\<lambda>p. batch_readings (snd p)) bs) @ ys = xs @ fst (thermal_view s env (lib_values s)) \<and>
     lib_values s' = snd (thermal_view s env (lib_values s)) \<and> thermal_view s' = thermal_view s \<and> thermal_delivery s' = thermal_delivery s \<and>
     (\<forall>d \<in> set bs. thermal_delivery s d)"
proof -
  let ?m = "g_zone_name_map s" let ?n = "unat (zone_names_ids_length (g_zone_name_map s))"
  let ?R = "fst (thermal_view s env (lib_values s))"
  have h: "lib_ready ?m s" "length (g_zone_id_to_metric_id_map s) = 100" "thermal_shape l"
    "unat (tl_sample_count l) < unat (tl_samples_per_stream l)" "unat (tl_metric_count l) = 2 * ?n * unat (tl_samples_per_stream l)"
    "unat (tl_metric_index l) \<le> 2 * ?n * unat (tl_sample_count l)" "stored_readings l = xs"
    using i by (simp_all add: thermal_loop_inv_def)
  obtain cb where cb: "g_data_callback s = Some cb" using i by (auto simp: thermal_loop_inv_def)
  have "2 * ?n * Suc (unat (tl_sample_count l)) \<le> 2 * ?n * unat (tl_samples_per_stream l)" using h(4) by (intro mult_le_mono2) simp
  then have room: "unat (tl_metric_index l) + 2 * ?n \<le> unat (tl_metric_count l)" using h(5,6) by simp
  obtain l' s' where t: "wos_thermal_thread_iterate env l s = Ret (l', s')" "thermal_shape l'" "lib_ready ?m s'" "lib_frame s s'" "same_run l l'"
    "lib_values s' = snd (thermal_view s env (lib_values s))"
    "tl_sample_count l' = tl_sample_count l + 1 \<and> tl_sample_count l' < tl_samples_per_stream l \<and> sn_data s' = sn_data s \<and>
       stored_readings l' = stored_readings l @ ?R \<or>
     tl_sample_count l' = 0 \<and> tl_metric_index l' = 0 \<and>
       (\<exists>d. sn_data s' = sn_data s @ [(cb, d)] \<and> pd_backend_id d = of_nat (backend_index BACKEND_THERMAL) \<and> pd_capability_id d = 0 \<and>
          batch_readings d = stored_readings l @ ?R)"
    using thermal_iterate_total [OF h(1-3), of env] cb e room unfolding thermal_view_def by blast
  have f: "g_zone_name_map s' = ?m" "g_zone_id_to_metric_id_map s' = g_zone_id_to_metric_id_map s" "g_data_callback s' = g_data_callback s"
    using t(4) by (simp_all add: lib_frame_def)
  have v: "thermal_view s' = thermal_view s" "thermal_delivery s' = thermal_delivery s"
    using f by (simp_all add: thermal_view_def thermal_delivery_def fun_eq_iff)
  have sr: "tl_samples_per_stream l' = tl_samples_per_stream l" "tl_metric_count l' = tl_metric_count l" using t(5) by (simp_all add: same_run_def)
  from t(7) show ?thesis
  proof (elim disjE conjE exE)
    assume a: "tl_sample_count l' = tl_sample_count l + 1" "tl_sample_count l' < tl_samples_per_stream l" "sn_data s' = sn_data s"
      "stored_readings l' = stored_readings l @ ?R"
    have sc: "unat (tl_sample_count l') = Suc (unat (tl_sample_count l))" using a(1) unat_Suc_below [OF h(4)] by simp
    have "unat (tl_metric_index l') = unat (tl_metric_index l) + length ?R"
      using stored_length [OF t(2)] stored_length [OF h(3)] a(4) by simp
    moreover have "length ?R \<le> 2 * ?n" unfolding thermal_view_def by (rule thermal_out_length)
    ultimately have "unat (tl_metric_index l') \<le> 2 * ?n * unat (tl_sample_count l')" using sc h(6) by simp
    then have "thermal_loop_inv l' s' (xs @ ?R)"
      using t(2,3) f h(2,5,7) a(2,4) sr cb by (simp add: thermal_loop_inv_def word_less_nat_alt)
    then show ?thesis using t(1,6) v a(3) by (intro exI [of _ l'] exI [of _ s'] exI [of _ "xs @ ?R"] exI [of _ "[]"]) simp
  next
    fix d assume a: "tl_sample_count l' = 0" "tl_metric_index l' = 0" "sn_data s' = sn_data s @ [(cb, d)]"
      "pd_backend_id d = of_nat (backend_index BACKEND_THERMAL)" "pd_capability_id d = 0" "batch_readings d = stored_readings l @ ?R"
    have "thermal_loop_inv l' s' []"
      using t(2,3) f h(2,4,5) a(1,2) sr cb by (simp add: thermal_loop_inv_def stored_readings_def)
    then show ?thesis using t(1,6) v a(3-6) h(7) cb
      by (intro exI [of _ l'] exI [of _ s'] exI [of _ "[]"] exI [of _ "[(cb, d)]"]) (simp add: thermal_delivery_def)
  qed
qed

interpretation wtl: batching_loop wos_thermal_thread_iterate thermal_loop_inv "\<lambda>e l s. collects e" "\<lambda>l. thermal_view" "\<lambda>l. lib_values"
  sn_data "\<lambda>p. batch_readings (snd p)" "\<lambda>l. thermal_delivery"
proof unfold_locales
  fix l s xs e
  assume "thermal_loop_inv l s xs" "collects e"
  from thermal_round_law [OF this]
  show "\<exists>l' s' ys bs. wos_thermal_thread_iterate e l s = Ret (l', s') \<and> thermal_loop_inv l' s' ys \<and> sn_data s' = sn_data s @ bs \<and>
     concat (map (\<lambda>p. batch_readings (snd p)) bs) @ ys = xs @ fst (thermal_view s e (lib_values s)) \<and>
     lib_values s' = snd (thermal_view s e (lib_values s)) \<and> thermal_view s' = thermal_view s \<and> thermal_delivery s' = thermal_delivery s \<and>
     (\<forall>f. collects f = collects f) \<and> (\<forall>d \<in> set bs. thermal_delivery s d)"
    by simp
qed

lemma thermal_enters_loop:
  assumes on: "thermal_on k env s" and cb: "g_data_callback s \<noteq> None" and nz: "rq_sampling_rate rq \<noteq> 0" "rq_sampling_rate rq \<le> rq_streaming_rate rq"
    and e: "wos_thermal_thread_entry env' (Some rq) s = Ret (Some l, s1)"
  shows "thermal_loop_inv l s1 []" "thermal_kept s s1"
proof -
  show kept: "thermal_kept s s1" using thermal_entry_control [OF e] by simp
  have r: "lib_ready (snd (te_zones env)) s" using on by (simp add: thermal_on_def)
  have l: "thermal_shape l" "unat (tl_samples_per_stream l) = thermal_batch rq"
    "unat (tl_metric_count l) = 2 * unat (zone_names_ids_length (snd (te_zones env))) * thermal_batch rq" "tl_metric_index l = 0" "tl_sample_count l = 0"
    using thermal_entry_total [OF r nz(1), of env'] e by auto
  have "0 < thermal_batch rq" using nz by (simp add: thermal_batch_def div_greater_zero_iff word_le_nat_alt unat_gt_0)
  moreover have "g_zone_name_map s1 = snd (te_zones env)" "g_zone_id_to_metric_id_map s1 = g_zone_id_to_metric_id_map s" "g_data_callback s1 = g_data_callback s"
    using kept r by (simp_all add: thermal_kept_def lib_ready_def)
  moreover have "lib_ready (snd (te_zones env)) s1" using thermal_kept_served(2) [OF kept] r by simp
  ultimately show "thermal_loop_inv l s1 []" using l on cb by (simp add: thermal_loop_inv_def stored_readings_def thermal_on_def)
qed

section \<open>Properties\<close>

text \<open>A machine with three zones, two of which have metrics, for the witnesses.\<close>

definition demo_wos_thermal_env :: wos_thermal_env where
  "demo_wos_thermal_env = \<lparr>te_common_init = 0, te_zones = (0, demo_zone_map), te_zones_again = (0, demo_zone_map), te_sensor_init = 0,
     te_sensor_cleanup = 0, te_common_cleanup = 0, te_sensor = (0, [41, 52, 30], 3),
     te_cooling = \<lparr>ce_collect = 0, ce_value = \<lambda>c. (0, 100)\<rparr>, te_sampled = (10, 1000), te_now = (20, 1000), te_closes = True\<rparr>"

definition demo_wos_thermal_request :: QcPerfRequest where
  "demo_wos_thermal_request = \<lparr>rq_capability_id = 0, rq_streaming_rate = 200, rq_sampling_rate = 100\<rparr>"

lemma demo_thermal_machine: "thermal_machine demo_wos_thermal_env"
  by (simp add: thermal_machine_def zones_fit_def zones_answer_ok_def demo_wos_thermal_env_def demo_zone_map_ok demo_matched)

lemma demo_thermal_works: "machine_works demo_wos_thermal_env (initial_wos_thermal (initial_cooling [] []) [])"
  by (simp add: machine_works_def demo_wos_thermal_env_def demo_zone_map_def initial_wos_thermal_fields) (simp add: initial_cooling_def)

lemma demo_thermal_connects: "\<exists>s. thermal_connected demo_wos_thermal_env (initial_cooling [] []) [] (Some 1) = Ret s"
  using thermal_init_total [OF thermal_off_initial, of demo_wos_thermal_env "[]" "[]" "[]"] demo_thermal_machine demo_thermal_works
  by (auto simp: thermal_machine_def thermal_connected_def)

text \<open>C37: Sessions of the thermal backend for Windows never get stuck after its first initialisation, on a machine whose
  zones fit its table, as long as no session is started before the thread of the last one has ended: starts, stops
  and the scheduler's steps in any order and number return, with any request, whatever allocations, sensors and
  counters fail and whatever they answer.\<close>
theorem wos_thermal_sessions_never_stuck:
  assumes "thermal_connected env (initial_cooling cf st) faults cb = Ret s" "thermal_machine env"
  shows "session_safe disciplined
     (session_step wos_thermal_start wos_thermal_stop thermal_data_collection_thread wos_thermal_thread_iterate) evs s"
proof (rule wt.live_safe, rule wt.live_idle)
  note c = thermal_connected_on [OF assms]
  show "thermal_served s" using thermal_on_served [OF c(1)] .
  then show "orderly s \<and> g_is_initialized s" using c(2,3) by (simp add: orderly_def stoppable_def thermal_served_def)
  show "all_ended s" using c(3) by (simp add: all_ended_def)
qed

theorem wos_thermal_sessions_never_stuck_witness:
  "\<exists>s. thermal_connected demo_wos_thermal_env (initial_cooling [] []) [] (Some 1) = Ret s \<and>
     session_safe disciplined (session_step wos_thermal_start wos_thermal_stop thermal_data_collection_thread wos_thermal_thread_iterate)
       [CallStart (Some demo_wos_thermal_request), Begin demo_wos_thermal_env 0, Iterate demo_wos_thermal_env 0, CallStart None,
        CallStop demo_wos_thermal_env (Some demo_wos_thermal_request)] s"
  using demo_thermal_connects wos_thermal_sessions_never_stuck [OF _ demo_thermal_machine] by blast

text \<open>C38: In rounds whose collections succeed, what the thermal thread has handed to the callback, followed by what it
  still holds, is what the reference reports: for every zone that has metrics its temperature and its passive
  cooling, a counter that fails giving the value before, each once and in order; provided the sampling rate is not
  above the streaming rate.\<close>
theorem wos_thermal_thread_equals_reference:
  assumes "thermal_connected env (initial_cooling cf st) faults (Some cb) = Ret s" "thermal_machine env"
    and "wos_thermal_thread_entry env' (Some rq) s = Ret (Some l, s1)" "rq_sampling_rate rq \<noteq> 0" "rq_sampling_rate rq \<le> rq_streaming_rate rq"
    and "\<forall>e \<in> set es. collects e"
  shows "\<exists>l' s' bs. run_rounds wos_thermal_thread_iterate es l s1 = Ret (l', s') \<and> sn_data s' = map (Pair cb) bs \<and>
     concat (map batch_readings bs) @ stored_readings l' =
       reference_readings (wos_thermal_out (snd (te_zones env)) (registered_ids (te_zones_again env))) es (lib_values s) \<and>
     (\<forall>d \<in> set bs. pd_backend_id d = of_nat (backend_index BACKEND_THERMAL) \<and> pd_capability_id d = 0)"
proof -
  note c = thermal_connected_on [OF assms(1,2)]
  have inv: "thermal_loop_inv l s1 []" "thermal_kept s s1"
    using thermal_enters_loop [OF c(1) _ assms(4,5,3)] c(5) by simp_all
  have v: "thermal_view s1 = wos_thermal_out (snd (te_zones env)) (registered_ids (te_zones_again env))" "lib_values s1 = lib_values s"
    "sn_data s1 = []" "g_data_callback s1 = Some cb"
    using inv(2) c thermal_kept_served(3) [OF inv(2)] by (simp_all add: thermal_kept_def thermal_view_def thermal_on_def lib_ready_def)
  obtain l' s' ys bs where r: "run_rounds wos_thermal_thread_iterate es l s1 = Ret (l', s')" "thermal_loop_inv l' s' ys" "sn_data s' = sn_data s1 @ bs"
    "concat (map (\<lambda>p. batch_readings (snd p)) bs) @ ys = [] @ reference_readings (thermal_view s1) es (lib_values s1)"
    "\<forall>d \<in> set bs. thermal_delivery s1 d"
    using wtl.rounds_law [OF inv(1) assms(6)] by blast
  have m: "bs = map (Pair cb) (map snd bs)" using r(5) v(4) by (induction bs) (auto simp: thermal_delivery_def)
  show ?thesis
  proof (intro exI conjI)
    show "sn_data s' = map (Pair cb) (map snd bs)" using r(3) v(3) m by simp
    show "concat (map batch_readings (map snd bs)) @ stored_readings l' =
        reference_readings (wos_thermal_out (snd (te_zones env)) (registered_ids (te_zones_again env))) es (lib_values s)"
      using r(2,4) v(1,2) by (simp add: comp_def thermal_loop_inv_def)
    show "\<forall>d \<in> set (map snd bs). pd_backend_id d = of_nat (backend_index BACKEND_THERMAL) \<and> pd_capability_id d = 0"
      using r(5) by (auto simp: thermal_delivery_def)
  qed (rule r(1))
qed

theorem wos_thermal_thread_equals_reference_witness:
  "\<exists>s l s1 l' s' bs. wos_thermal_thread_entry demo_wos_thermal_env (Some demo_wos_thermal_request) s = Ret (Some l, s1) \<and>
     run_rounds wos_thermal_thread_iterate [demo_wos_thermal_env, demo_wos_thermal_env, demo_wos_thermal_env] l s1 = Ret (l', s') \<and>
     concat (map batch_readings bs) @ stored_readings l' = reference_readings (wos_thermal_out demo_zone_map (registered_ids (0, demo_zone_map)))
       [demo_wos_thermal_env, demo_wos_thermal_env, demo_wos_thermal_env] (lib_values s)"
proof -
  let ?es = "[demo_wos_thermal_env, demo_wos_thermal_env, demo_wos_thermal_env]"
  have i: "\<exists>rc s. wos_thermal_init demo_wos_thermal_env (initial_wos_thermal (initial_cooling [] []) []) = Ret (rc, s) \<and>
      rc = SUCCESS \<and> g_data_callback s = None \<and> machine_works demo_wos_thermal_env s"
    using thermal_init_total [OF thermal_off_initial, of demo_wos_thermal_env "[]" "[]" "[]"] demo_thermal_machine demo_thermal_works
    by (auto simp: thermal_machine_def initial_wos_thermal_fields)
  then obtain s0 where s0: "thermal_connected demo_wos_thermal_env (initial_cooling [] []) [] (Some 1) = Ret s0" "sn_faults s0 = []"
    by (auto simp: thermal_connected_def wos_thermal_set_data_callback_def machine_works_def)
  have nz: "rq_sampling_rate demo_wos_thermal_request \<noteq> 0" "rq_sampling_rate demo_wos_thermal_request \<le> rq_streaming_rate demo_wos_thermal_request"
    by (simp_all add: demo_wos_thermal_request_def)
  have "lib_ready (snd (te_zones demo_wos_thermal_env)) s0" using thermal_connected_on(1) [OF s0(1) demo_thermal_machine] by (simp add: thermal_on_def)
  from thermal_entry_total [OF this nz(1), of demo_wos_thermal_env] s0(2)
  obtain l s1 where e: "wos_thermal_thread_entry demo_wos_thermal_env (Some demo_wos_thermal_request) s0 = Ret (Some l, s1)" by auto
  have "\<forall>e \<in> set ?es. collects e" by (simp add: collects_def demo_wos_thermal_env_def)
  note r = wos_thermal_thread_equals_reference [OF s0(1) demo_thermal_machine e nz this]
  have z: "snd (te_zones demo_wos_thermal_env) = demo_zone_map" "te_zones_again demo_wos_thermal_env = (0, demo_zone_map)"
    by (simp_all add: demo_wos_thermal_env_def)
  show ?thesis using r [unfolded z] e by blast
qed

end
