(* ===== verification/WosThermalFaults.thy ===== *)
theory WosThermalFaults
  imports WosThermalInit
begin

text \<open>
  What the thermal backend for Windows does not survive: being initialised again, after which its rates mean something
  else, and a cleanup of its library that fails.
\<close>

section \<open>Rates\<close>

text \<open>Initialised, deinitialised and initialised again, \<open>n\<close> times after the first.\<close>

fun thermal_reinit :: "nat \<Rightarrow> wos_thermal_env \<Rightarrow> wos_thermal_state \<Rightarrow> wos_thermal_state outcome" where
  "thermal_reinit 0 env s = obind (wos_thermal_init env s) (\<lambda>(_, s1). Ret s1)"
| "thermal_reinit (Suc n) env s =
     obind (wos_thermal_init env s) (\<lambda>(_, s1). obind (wos_thermal_deinit env s1) (\<lambda>(_, s2). thermal_reinit n env s2))"

lemma thermal_reinit_total:
  assumes m: "thermal_machine env" "cleanups_work env"
  shows "thermal_off k s \<Longrightarrow> machine_works env s \<Longrightarrow> \<not> g_is_thread_running s \<Longrightarrow>
     \<exists>s'. thermal_reinit n env s = Ret s' \<and> thermal_on (Suc (k + n)) env s' \<and> machine_works env s' \<and>
       same_control s s'"
proof (induction n arbitrary: k s)
  case 0
  then show ?case using thermal_init_total [OF 0(1), of env] m(1) by (auto simp: thermal_machine_def)
next
  case (Suc n)
  obtain s1 where 1: "wos_thermal_init env s = Ret (SUCCESS, s1)" "same_control s s1" "thermal_on (Suc k) env s1" "machine_works env s1"
    using thermal_init_total [OF Suc.prems(1), of env] m(1) Suc.prems(2) by (auto simp: thermal_machine_def)
  have "\<not> g_is_thread_running s1" using 1(2) Suc.prems(3) by (simp add: same_control_def)
  from thermal_deinit_down [OF 1(3) this, of env env] m(2) 1(4)
  obtain s2 where 2: "wos_thermal_deinit env s1 = Ret (SUCCESS, s2)" "same_control s1 s2" "thermal_off (Suc k) s2" "machine_works env s2" by auto
  have "\<not> g_is_thread_running s2" using 1(2) 2(2) Suc.prems(3) by (simp add: same_control_def)
  from Suc.IH [OF 2(3,4) this]
  show ?case using 1(1) 2(1) same_control_trans [OF same_control_trans [OF 1(2) 2(2)]] by auto
qed

text \<open>Counted twice, the two rates are the first of a list whose other entries are zero.\<close>

lemma many_rates:
  assumes "2 \<le> k" "k \<le> 16"
  shows "thermal_rate_valid r (of_nat (2 * k)) (rate_array [lo, hi] k) = Ret (r \<in> {0, lo, hi})"
proof -
  have u: "unat (of_nat (2 * k) :: u8) = 2 * k" by (rule unat_of_nat_u8) (use assms in simp)
  have "(of_nat (2 * k) :: u8) \<noteq> 2"
  proof
    assume "(of_nat (2 * k) :: u8) = 2"
    then have "unat (of_nat (2 * k) :: u8) = unat (2 :: u8)" by (rule arg_cong)
    then show False using u assms by simp
  qed
  then have "thermal_rate_valid r (of_nat (2 * k)) (rate_array [lo, hi] k) = rate_scan r (2 * k) (rate_array [lo, hi] k)"
    using u by (simp add: thermal_rate_valid_def del: of_nat_mult)
  also have "\<dots> = Ret (r \<in> set (take (2 * k) (rate_array [lo, hi] k)))" using assms by (intro rate_scan_Ret) (simp add: rate_array_def)
  also have "take (2 * k) (rate_array [lo, hi] k) = [lo, hi] @ replicate (2 * k - 2) 0"
  proof -
    obtain j where j: "2 * k = Suc (Suc j)" "j \<le> 30" using assms by (intro that [of "2 * k - 2"]) auto
    show ?thesis using assms unfolding j(1) by (simp add: rate_array_def j(2) min_absorb1)
  qed
  finally show ?thesis using assms by auto
qed

lemma too_many_rates:
  assumes "k = 17" "r \<notin> {0, lo, hi}"
  shows "thermal_rate_valid r (of_nat (2 * k)) (rate_array [lo, hi] k) = Stuck OutOfBounds"
proof -
  have "rate_scan r (length a + Suc n) a = Stuck OutOfBounds" if "r \<notin> set a" for n a
    using that by (induction a) auto
  from this [of "rate_array [lo, hi] k" 1] show ?thesis using assms by (simp add: rate_array_def thermal_rate_valid_def)
qed

lemma validate_rates:
  assumes "rates_after k s" "rq_capability_id rq = 0"
    and "thermal_rate_valid (rq_sampling_rate rq) (of_nat (2 * k)) (rate_array [50, 1000] k) = Ret a"
    and "thermal_rate_valid (rq_streaming_rate rq) (of_nat (2 * k)) (rate_array [200, 1000] k) = Ret b"
  shows "\<exists>s'. wos_thermal_validate_request (Some rq) s = Ret (if a \<and> b then SUCCESS else INVALID_ARGUMENTS, s') \<and> quiet s s'"
  using assms by (auto simp: wos_thermal_validate_request_def rates_after_def Let_def)

section \<open>Properties\<close>

text \<open>C39: After the first initialisation the thermal backend for Windows accepts the rates of two intervals. Initialising
  it again counts its rates again, so that from then on only the bounds of the intervals are accepted, and zero; after
  seventeen initialisations the search of a rate reads behind the array.\<close>
theorem wos_thermal_rates_accumulate:
  assumes "thermal_machine env" "cleanups_work env" "machine_works env (initial_wos_thermal (initial_cooling cf st) faults)"
    and "n \<le> 16" "rq_capability_id rq = 0"
  shows "\<exists>s. thermal_reinit n env (initial_wos_thermal (initial_cooling cf st) faults) = Ret s \<and>
     (if n = 0
      then \<exists>s'. wos_thermal_validate_request (Some rq) s =
         Ret (if 50 \<le> rq_sampling_rate rq \<and> rq_sampling_rate rq \<le> 1000 \<and> 200 \<le> rq_streaming_rate rq \<and> rq_streaming_rate rq \<le> 1000
              then SUCCESS else INVALID_ARGUMENTS, s')
      else if n \<le> 15
      then \<exists>s'. wos_thermal_validate_request (Some rq) s =
         Ret (if rq_sampling_rate rq \<in> {0, 50, 1000} \<and> rq_streaming_rate rq \<in> {0, 200, 1000} then SUCCESS else INVALID_ARGUMENTS, s')
      else rq_sampling_rate rq \<notin> {0, 50, 1000} \<longrightarrow> wos_thermal_validate_request (Some rq) s = Stuck OutOfBounds)"
proof -
  obtain s where s: "thermal_reinit n env (initial_wos_thermal (initial_cooling cf st) faults) = Ret s" "thermal_on (Suc n) env s"
    using thermal_reinit_total [OF assms(1,2) thermal_off_initial assms(3), of n] by (auto simp: initial_wos_thermal_fields)
  have r: "rates_after (Suc n) s" using s(2) by (simp add: thermal_on_def)
  show ?thesis
  proof (cases "n = 0 \<or> n \<le> 15")
    case True
    show ?thesis
    proof (cases "n = 0")
      case True
      then obtain s' where "wos_thermal_validate_request (Some rq) s = Ret (wos_thermal_request_code rq, s')"
        using wos_thermal_validate_code [OF rates_first] r by auto
      then show ?thesis using s(1) True assms(5) by (auto simp: wos_thermal_request_code_def)
    next
      case False
      then have "2 \<le> Suc n" "Suc n \<le> 16" using \<open>n = 0 \<or> n \<le> 15\<close> by simp_all
      note v = validate_rates [OF r assms(5) many_rates [OF this] many_rates [OF this]]
      show ?thesis using v s(1) False \<open>n = 0 \<or> n \<le> 15\<close> by auto
    qed
  next
    case False
    then have n: "Suc n = 17" using assms(4) by simp
    have "wos_thermal_validate_request (Some rq) s = Stuck OutOfBounds" if "rq_sampling_rate rq \<notin> {0, 50, 1000}"
      using too_many_rates [OF n that] r assms(5) by (simp add: wos_thermal_validate_request_def rates_after_def Let_def)
    then show ?thesis using False s(1) by auto
  qed
qed

theorem wos_thermal_rates_accumulate_witness:
  "\<exists>s s'. thermal_reinit 1 demo_wos_thermal_env (initial_wos_thermal (initial_cooling [] []) []) = Ret s \<and>
     wos_thermal_validate_request (Some demo_wos_thermal_request) s = Ret (INVALID_ARGUMENTS, s')"
  using wos_thermal_rates_accumulate [OF demo_thermal_machine _ demo_thermal_works, of 1 demo_wos_thermal_request]
  by (auto simp: cleanups_work_def demo_wos_thermal_env_def demo_wos_thermal_request_def)

text \<open>After a second initialisation the thermal backend for Windows starts sessions with a sampling rate of zero, and
  their thread divides by zero before its loop.\<close>
theorem wos_thermal_second_init_divides_by_zero:
  assumes "thermal_machine env" "cleanups_work env" "machine_works env (initial_wos_thermal (initial_cooling cf st) faults)"
    and "rq_capability_id rq = 0" "rq_sampling_rate rq = 0" "rq_streaming_rate rq \<in> {0, 200, 1000}"
  shows "\<exists>s s1. thermal_reinit 1 env (initial_wos_thermal (initial_cooling cf st) faults) = Ret s \<and>
     wos_thermal_start (Some rq) (s\<lparr>g_data_callback := Some cb\<rparr>) = Ret (SUCCESS, s1) \<and> sn_threads s1 = [Spawned (Some rq)] \<and>
     thread_begin (thermal_data_collection_thread e) 0 s1 = Stuck DivByZero"
proof -
  let ?i = "initial_wos_thermal (initial_cooling cf st) faults"
  obtain s where s: "thermal_reinit 1 env ?i = Ret s" "thermal_on 2 env s" "machine_works env s" "same_control ?i s"
    using thermal_reinit_total [OF assms(1,2) thermal_off_initial assms(3), of 1] by (auto simp: initial_wos_thermal_fields numeral_2_eq_2)
  let ?s = "WOS_THERMAL_SEND LEVEL_DEBUG ''Starting WOS Thermal data collection'' (s\<lparr>g_data_callback := Some cb\<rparr>)"
  have r: "rates_after 2 ?s" using s(2) by (simp add: thermal_on_def rates_after_def)
  obtain s1 where v: "wos_thermal_validate_request (Some rq) ?s = Ret (SUCCESS, s1)" "quiet ?s s1"
    using validate_rates [OF r assms(4) many_rates many_rates] assms(5,6) by auto
  have q: "sn_faults s1 = []" "sn_threads s1 = []"
    using thermal_quiet_control [OF v(2)] s(3,4) by (simp_all add: machine_works_def same_control_def initial_wos_thermal_fields)
  obtain s2 where st: "wos_thermal_start (Some rq) (s\<lparr>g_data_callback := Some cb\<rparr>) = Ret (SUCCESS, s2)" "sn_threads s2 = [Spawned (Some rq)]"
    using s(2,4) v(1) q
    by (auto simp: wos_thermal_start_def Let_def windows_spawn_eq wos_thermal_thread_attrs_def thermal_on_def same_control_def initial_wos_thermal_fields)
  have "thread_begin (thermal_data_collection_thread e) 0 s2 = Stuck DivByZero"
    using st(2) assms(5) by (simp add: thread_begin_def thermal_data_collection_thread_def wos_thermal_thread_entry_def Let_def)
  then show ?thesis using s(1) st by blast
qed

theorem wos_thermal_second_init_divides_by_zero_witness:
  "\<exists>s s1. thermal_reinit 1 demo_wos_thermal_env (initial_wos_thermal (initial_cooling [] []) []) = Ret s \<and>
     wos_thermal_start (Some \<lparr>rq_capability_id = 0, rq_streaming_rate = 1000, rq_sampling_rate = 0\<rparr>) (s\<lparr>g_data_callback := Some 1\<rparr>) =
       Ret (SUCCESS, s1) \<and> thread_begin (thermal_data_collection_thread demo_wos_thermal_env) 0 s1 = Stuck DivByZero"
  using wos_thermal_second_init_divides_by_zero [OF demo_thermal_machine _ demo_thermal_works,
      of "\<lparr>rq_capability_id = 0, rq_streaming_rate = 1000, rq_sampling_rate = 0\<rparr>" 1 demo_wos_thermal_env]
  by (auto simp: cleanups_work_def demo_wos_thermal_env_def)

section \<open>A failed cleanup\<close>

text \<open>Calls of the backend with the codes they return: \<open>True\<close> initialises it, \<open>False\<close> deinitialises it.\<close>

fun thermal_calls :: "(bool \<times> wos_thermal_env) list \<Rightarrow> wos_thermal_state \<Rightarrow> (QcPerfReturnCode list \<times> wos_thermal_state) outcome" where
  "thermal_calls [] s = Ret ([], s)"
| "thermal_calls ((i, env) # calls) s =
     obind (if i then wos_thermal_init env s else wos_thermal_deinit env s) (\<lambda>(rc, s1).
     obind (thermal_calls calls s1) (\<lambda>(rcs, s2). Ret (rc # rcs, s2)))"

definition wedged :: "wos_thermal_state \<Rightarrow> bool" where
  "wedged s \<longleftrightarrow> g_is_initialized s \<and> lib_off s \<and> \<not> g_is_thread_running s"

lemma wedged_call:
  assumes w: "wedged s"
  shows "\<exists>s'. wos_thermal_init env s = Ret (ALREADY_INITIALIZED, s') \<and> wedged s'"
    "\<exists>s'. wos_thermal_deinit env s = Ret (FAILED, s') \<and> wedged s'"
proof -
  show "\<exists>s'. wos_thermal_init env s = Ret (ALREADY_INITIALIZED, s') \<and> wedged s'"
    using w by (simp add: wos_thermal_init_def Let_def wedged_def)
  let ?s = "WOS_THERMAL_SEND LEVEL_DEBUG ''Deinitializing WOS Thermal backend'' s"
  have "lib_off ?s" using w by (simp add: wedged_def)
  from lib_cleanup_off [OF this, of env]
  obtain s1 where c: "wos_thermal_lib_cleanup env ?s = Ret (THERMAL_LIB_ERROR_NOT_INITIALIZED, s1)" "outer_frame ?s s1" "lib_off s1" by blast
  have "wedged (lib_send t n s1)" for t n using w c(2,3) by (simp add: wedged_def outer_frame_def same_control_def)
  then show "\<exists>s'. wos_thermal_deinit env s = Ret (FAILED, s') \<and> wedged s'"
    using w c(1) by (simp add: wos_thermal_deinit_def Let_def wedged_def)
qed

lemma wedged_calls:
  "wedged s \<Longrightarrow> \<exists>s'. thermal_calls calls s = Ret (map (\<lambda>(i, _). if i then ALREADY_INITIALIZED else FAILED) calls, s') \<and> wedged s'"
proof (induction calls arbitrary: s)
  case (Cons c calls)
  obtain i env where c: "c = (i, env)" by (cases c)
  obtain s1 where "(if i then wos_thermal_init env s else wos_thermal_deinit env s) = Ret (if i then ALREADY_INITIALIZED else FAILED, s1)" "wedged s1"
    using wedged_call [OF Cons.prems, of env] by (cases i) auto
  then show ?case using Cons.IH [of s1] c by auto
qed simp

text \<open>C40: A deinitialisation in which the sensors or the zones cannot be cleaned up leaves the thermal backend for Windows
  useless for good: it fails, and after it every initialisation answers that the backend is initialised, every
  deinitialisation fails, and the thread of a session ends before its loop.\<close>
theorem wos_thermal_failed_cleanup_wedges:
  assumes "thermal_connected env (initial_cooling cf st) faults cb = Ret s" "thermal_machine env" "\<not> cleanups_work env'"
    and "rq_sampling_rate rq \<noteq> 0"
  shows "\<exists>s' s'' s3. wos_thermal_deinit env' s = Ret (FAILED, s') \<and>
     thermal_calls calls s' = Ret (map (\<lambda>(i, _). if i then ALREADY_INITIALIZED else FAILED) calls, s'') \<and>
     wos_thermal_thread_entry e (Some rq) s'' = Ret (None, s3) \<and> \<not> g_is_thread_running s3"
proof -
  note c = thermal_connected_on [OF assms(1,2)]
  obtain s' where d: "wos_thermal_deinit env' s = Ret (FAILED, s')" "same_control s s'" "lib_off s'" "g_is_initialized s'"
    using thermal_deinit_down [OF c(1,2), of env' env] assms(3) by auto
  have "wedged s'" using d c(2) by (simp add: wedged_def same_control_def)
  then obtain s'' where w: "thermal_calls calls s' = Ret (map (\<lambda>(i, _). if i then ALREADY_INITIALIZED else FAILED) calls, s'')" "wedged s''"
    using wedged_calls by blast
  have "\<exists>s3. wos_thermal_thread_entry e (Some rq) s'' = Ret (None, s3) \<and> \<not> g_is_thread_running s3"
    using w(2) thermal_rates(1) [OF assms(4)]
    by (simp add: wos_thermal_thread_entry_def Let_def wos_thermal_lib_get_zone_count_def wedged_def lib_off_def thermal_stopped_def)
  then show ?thesis using d(1) w(1) by blast
qed

theorem wos_thermal_failed_cleanup_wedges_witness:
  "\<exists>s s' s''. thermal_connected demo_wos_thermal_env (initial_cooling [] []) [] (Some 1) = Ret s \<and>
     wos_thermal_deinit (demo_wos_thermal_env\<lparr>te_sensor_cleanup := 4\<rparr>) s = Ret (FAILED, s') \<and>
     thermal_calls [(False, demo_wos_thermal_env), (True, demo_wos_thermal_env)] s' = Ret ([FAILED, ALREADY_INITIALIZED], s'')"
proof -
  obtain s where s: "thermal_connected demo_wos_thermal_env (initial_cooling [] []) [] (Some 1) = Ret s" using demo_thermal_connects by blast
  have n: "\<not> cleanups_work (demo_wos_thermal_env\<lparr>te_sensor_cleanup := 4\<rparr>)" "rq_sampling_rate demo_wos_thermal_request \<noteq> 0"
    by (simp_all add: cleanups_work_def demo_wos_thermal_request_def)
  show ?thesis
    using s wos_thermal_failed_cleanup_wedges [OF s demo_thermal_machine n, of "[(False, demo_wos_thermal_env), (True, demo_wos_thermal_env)]" demo_wos_thermal_env]
    by auto
qed

end
