(* ===== verification/Spec2Isabelle.thy ===== *)
theory Spec2Isabelle
  imports System QlistRefine WosCpuLive WosPowerFaults WosThermalFaults
begin

text \<open>
  Verification of libqcperf, a C library that lets an application read performance counters of Qualcomm
  platforms. All paths below are relative to \<open>src/qcperf\<close>.

  \<^bold>\<open>The program.\<close> An application calls the functions of \<open>core/inc/qcperf.h\<close>. The library core
  (\<open>core/src/qcperf.c\<close>) keeps one table of function pointers per backend and a flag that says which backends are
  connected; it checks its arguments and forwards the call. A backend (\<open>backends/*\<close>) fills a table of capabilities
  and metrics when it is initialised, and between \<open>start\<close> and \<open>stop\<close> runs one collection thread that samples its
  source (sysfs, procfs, the thermal tree, the DSP over FastRPC, Windows performance interfaces) and hands batches
  of responses to the data callback of the application. The operating system is reached through wrappers
  (\<open>utils/*\<close>) for mutexes, condition variables, threads, sleeping and time; \<open>utils/qlist\<close> is a locked list.

  \<^bold>\<open>Theories and sources.\<close>

  \<^item> \<open>Prelude\<close>: machine words, outcomes, the allocator, the parts of the C library in use (\<open>snprintf\<close>, \<open>strstr\<close>,
    \<open>sscanf\<close>, \<open>fgets\<close>). \<open>QcperfCommon\<close>: \<open>core/inc/qcperf_common.h\<close>, and the loops over rate and capability tables
    that all backends repeat.
  \<^item> \<open>Core\<close>, \<open>CoreProps\<close>: \<open>core/src/qcperf.c\<close>, with \<open>core_state\<close> for the two static arrays, polymorphic in the state
    behind the function pointers. \<open>Contract\<close>: what an application may call when, and what a family of backends owes
    the core (\<open>backend_family\<close>).
  \<^item> \<open>Qmutex\<close>: \<open>utils/qmutex\<close> for Linux and Windows, and the locales \<open>mutex_provider\<close> and \<open>recursive_mutex_provider\<close>.
    \<open>Qlist\<close>, \<open>QlistProps\<close>, \<open>QlistRefine\<close>: \<open>utils/qlist\<close> on an explicit heap of nodes, its shape invariant and its
    refinement of a HOL list, in \<open>qlist_client\<close> for any mutex.
  \<^item> \<open>OsUtils\<close>: \<open>utils/qtime\<close>, \<open>utils/qsleep\<close>, \<open>utils/qcondition-variable\<close>. \<open>Session\<close>: \<open>utils/qthread\<close> and the static
    variables that all backends have (\<open>session\<close>), extended by each backend with its own.
  \<^item> \<open>SessionLaws\<close>, \<open>LiveSession\<close>, \<open>WosSession\<close>, \<open>Service\<close>: the contracts of a session. In \<open>session_backend\<close> (dummy, CPU,
    thermal, NPU) the thread raises the running flag, so an application has to wait for it; \<open>session_code\<close> is its part
    without \<open>stop\<close>, for the Windows thermal backend, whose stop needs an initialised backend; in \<open>owned_backend\<close> (GPU)
    and \<open>flagged_session\<close> (Windows) \<open>start\<close> does. Each gives \<open>live_session\<close>: no step gets stuck. \<open>served_session\<close> adds the
    other operations of a backend and gives a \<open>service\<close> the core can mount. \<open>ResponseBuffer\<close>: batches as lists of
    readings, and \<open>counted_loop\<close> and \<open>batching_loop\<close>: a loop whose rounds, some number of them or all, agree with a
    reference delivers what the reference reports.
  \<^item> \<open>Dummy\<close>, \<open>DummyProps\<close>, \<open>DummyLive\<close>: \<open>backends/dummy\<close>.
  \<^item> \<open>LinuxGpu\<close>, \<open>LinuxGpuProps\<close>, \<open>LinuxGpuLive\<close>: \<open>backends/qcom-linux-gpu\<close>.
  \<^item> \<open>LinuxCpu\<close>, \<open>LinuxCpuReaders\<close>, \<open>LinuxCpuThread\<close>, \<open>LinuxCpuProps\<close>, \<open>LinuxCpuLaws\<close>, \<open>LinuxCpuLive\<close>:
    \<open>backends/qcom-linux-cpu\<close>, with the readers of \<open>/proc/stat\<close> and the frequency nodes.
  \<^item> \<open>LinuxThermalLib\<close>, \<open>LinuxThermalLibViews\<close>, \<open>LinuxThermalLibProps\<close>: the library under \<open>backends/linux-thermal\<close>
    with its blocks and open files; \<open>LinuxThermal\<close>, \<open>LinuxThermalProps\<close>, \<open>LinuxThermalThread\<close>, \<open>LinuxThermalLaws\<close>,
    \<open>LinuxThermalLive\<close>: the backend over it.
  \<^item> \<open>QcomDsp\<close>, \<open>QcomDspProps\<close>: \<open>backends/qcom-dsp\<close>, sessions with the DSP over FastRPC and the FastRPC runtime for
    Windows; \<open>DspNpu\<close>, \<open>DspNpuProps\<close>, \<open>DspNpuThread\<close>, \<open>DspNpuLive\<close>: \<open>backends/qcom-dsp-npu\<close>.
  \<^item> \<open>WosTelemetry\<close>, \<open>WosTelemetryProps\<close>: \<open>backends/wos-cpu/cpu-telemetry\<close> with the contract \<open>telemetry_source\<close> of its two
    readers; \<open>WosCpu\<close>, \<open>WosCpuProps\<close>, \<open>WosCpuThread\<close>, \<open>WosCpuLive\<close>: \<open>backends/wos-cpu\<close>.
  \<^item> \<open>WosPowerTelemetry\<close>, \<open>WosPowerTelemetryProps\<close>: \<open>backends/wos-power-backend/power-telemetry\<close>, with the queries of the PDH
    library that are open; \<open>WosPower\<close>, \<open>WosPowerProps\<close>, \<open>WosPowerThread\<close>, \<open>WosPowerLive\<close>, \<open>WosPowerFaults\<close>:
    \<open>backends/wos-power-backend\<close>.
  \<^item> \<open>WosPassiveCooling\<close>, \<open>WosPassiveCoolingProps\<close>: \<open>backends/utils/wos/cpu-thermal-etw/src/passive_cooling.c\<close>;
    \<open>WosThermalInfo\<close> (the zones, their metrics and the logger), \<open>WosThermalLib\<close> (\<open>wos_thermal_lib.c\<close>), \<open>WosThermal\<close>
    (\<open>wos_thermal.c\<close>), \<open>WosThermalZones\<close>, \<open>WosThermalProps\<close>, \<open>WosThermalThread\<close>, \<open>WosThermalLive\<close>, \<open>WosThermalInit\<close>,
    \<open>WosThermalFaults\<close>: \<open>backends/wos-thermal\<close>.
  \<^item> \<open>System\<close>: the core over the five backends of the Linux build, each mounted on its part of the state.

  Definitions carry the names of the C functions; a loop of a C function is a recursive function of its own, and a
  thread function is three: its statements before the loop, one iteration, and its statements after the loop.

  \<^bold>\<open>How C is modelled.\<close> A structure is a record, an enumeration a datatype, an integer a word of its width. A function
  takes the static variables it uses and returns them updated. \<open>Ret\<close> is a return; \<open>Stuck\<close> is an execution C gives no
  meaning to, or that never returns: a read outside an array or through a dangling pointer, a division by zero, a lock
  the caller holds, a wait for a thread that does not end. Which allocations, thread creations and other calls of
  the system fail is a script of booleans (\<open>True\<close>: this call fails), over which the theorems quantify; what the
  system answers otherwise (clock, files, counters, FastRPC) is an argument of the step that asks, so it may differ
  every time. A \<open>double\<close> is a rational: rounding is outside the model. Threads interleave with calls of the
  application at the granularity of iterations of their loop; within an iteration no other step happens. Freed memory is
  told from reused memory by counting the allocations of a table.

  \<^bold>\<open>What the lemmas show.\<close> The core: its flag agrees with its function pointers in every reachable state, calls are
  forwarded exactly when they should be, and connecting and disconnecting cancel out. Whatever sequence of API
  calls and thread steps an application that keeps to \<open>Contract\<close> causes on the Linux build, with whatever failures and
  answers of the system, nothing gets stuck. Each backend: the table that initialisation registers, the requests
  it accepts, that its thread delivers exactly the readings of a reference definition, once and in order, ranges
  of what it delivers, that memory, files and DSP sessions are given back, and how its sessions can be stopped. The list:
  refinement of a list by every operation. Where the code does not do what it means to, a theorem shows the
  behaviour it has (\<open>linux_insert_never_returns\<close>, \<open>dummy_double_start_hangs_stop\<close>, \<open>thermal_deinit_under_thread\<close>,
  \<open>failed_load_leaves_pointers\<close>, \<open>wos_zero_rate_is_fatal\<close>, \<open>power_fallback_out_of_bounds\<close>,
  \<open>power_failed_thread_locks_out\<close>, \<open>wos_thermal_rates_accumulate\<close>, \<open>wos_thermal_second_init_divides_by_zero\<close>,
  \<open>wos_thermal_failed_cleanup_wedges\<close>, \<open>backend_max_reads_past_the_table\<close>).

  \<^bold>\<open>Bounds and fuel.\<close> The bounds are the ones of the sources: 8 backends, 32 rates per capability, 28 thermal domains,
  18 cores and 14 rails in the telemetries for Windows, 64 zones with identifiers below 100 and 24 metrics in the thermal
  backend for Windows, 4 DSPs, the sizes of the text buffers. Loops recurse on what they
  count or read (cores, rails, lines of a file, nodes of a list), so no fuel is needed; the loop of a thread is a step that
  theorems repeat any number of times. Parsing of \<open>/proc/stat\<close> terminates because every line read is a shorter rest.

  \<^bold>\<open>Not modelled.\<close> The event tracing library under the thermal backend for Windows, in C++
  (\<open>thermal_common.cpp\<close>, \<open>cpu_thermal_etw_library.cpp\<close>): what its functions return and store is an argument,
  \<open>wos_thermal_env\<close>. The ioctl utility (\<open>backends/utils/wos/ioctl\<close>), the stubs the QAIC compiler generates for FastRPC
  (\<open>dspquery_stub.c\<close>, \<open>remote_wos.h\<close>), the test application, and the build files. Of the DSP library the branches for
  Linux are modelled. The Windows backends are not mounted in \<open>System\<close>: they are not part of the Linux build, and they are safe
  only for requests without a zero rate (CPU), on some machines (power) and for one initialisation (thermal). What
  the PDH library answers to an opening call is a script of statuses in the state, and the list of counters of a machine
  does not change; opened queries are numbered. Message texts are modelled; what the application does inside its
  callbacks is not.
\<close>

end
